(* ===== verification/Go_Prelude.thy ===== *)
theory Go_Prelude
  imports Main "HOL-Library.Char_ord"
begin

text \<open>
  What every component of the development shares: the fragment of Go's standard library
  the services use on strings (\<open>strings.TrimSpace\<close>, \<open>strings.ToUpper\<close>,
  \<open>strings.ToLower\<close>, \<open>strings.EqualFold\<close>, \<open>strings.Contains\<close>, \<open>strings.Join\<close>, the verb
  \<open>%d\<close> of \<open>fmt.Sprintf\<close>), the range of PostgreSQL's \<open>INT\<close>, and generic lemmas
  on lists, sums and options.

  A Go string is a list of bytes, here a \<^typ>\<open>string\<close>. The case mappings and the set of
  white space characters are those of the ASCII range; bytes of longer UTF-8 sequences
  are left alone.
\<close>

named_theorems go_str \<open>unfolding of the string operations\<close>
named_theorems db_simps \<open>unfolding of the statement and transaction combinators\<close>
named_theorems model_defs \<open>the operations of a component, for evaluation\<close>
named_theorems frame_simps \<open>which tables an operation leaves alone\<close>

section \<open>Strings\<close>

definition is_space :: "char \<Rightarrow> bool" where
  "is_space c \<longleftrightarrow> c = CHR '' '' \<or> (9 \<le> (of_char c :: nat) \<and> (of_char c :: nat) \<le> 13)"

definition TrimSpace :: "string \<Rightarrow> string" where
  "TrimSpace s = rev (dropWhile is_space (rev (dropWhile is_space s)))"

definition upper_char :: "char \<Rightarrow> char" where
  "upper_char c = (if 97 \<le> (of_char c :: nat) \<and> (of_char c :: nat) \<le> 122
     then char_of ((of_char c :: nat) - 32) else c)"

definition lower_char :: "char \<Rightarrow> char" where
  "lower_char c = (if 65 \<le> (of_char c :: nat) \<and> (of_char c :: nat) \<le> 90
     then char_of ((of_char c :: nat) + 32) else c)"

definition ToUpper :: "string \<Rightarrow> string" where
  "ToUpper s = map upper_char s"

definition ToLower :: "string \<Rightarrow> string" where
  "ToLower s = map lower_char s"

definition EqualFold :: "string \<Rightarrow> string \<Rightarrow> bool" where
  "EqualFold s t \<longleftrightarrow> ToLower s = ToLower t"

fun HasPrefix :: "string \<Rightarrow> string \<Rightarrow> bool" where
  "HasPrefix s [] = True"
| "HasPrefix [] (p # ps) = False"
| "HasPrefix (c # cs) (p # ps) = (c = p \<and> HasPrefix cs ps)"

fun Contains :: "string \<Rightarrow> string \<Rightarrow> bool" where
  "Contains [] sub = (sub = [])"
| "Contains (c # cs) sub = (HasPrefix (c # cs) sub \<or> Contains cs sub)"

fun Join :: "string list \<Rightarrow> string \<Rightarrow> string" where
  "Join [] sep = []"
| "Join [s] sep = s"
| "Join (s # t # ss) sep = s @ sep @ Join (t # ss) sep"

text \<open>The zero value of \<open>uuid.UUID\<close> as a string.\<close>

definition nil_uuid :: string where
  "nil_uuid = ''00000000-0000-0000-0000-000000000000''"

definition blank :: "string \<Rightarrow> bool" where
  "blank s \<longleftrightarrow> TrimSpace s = []"

text \<open>A pointer to an empty string, which columns store as \<open>NULL\<close>, counts as none.\<close>

definition nonempty :: "string option \<Rightarrow> string option" where
  "nonempty p = (if p = Some [] then None else p)"

text \<open>Go's \<open>p != nil && strings.TrimSpace(*p) != ""\<close> on a string pointer.\<close>

definition given :: "string option \<Rightarrow> bool" where
  "given p \<longleftrightarrow> (case p of None \<Rightarrow> False | Some s \<Rightarrow> \<not> blank s)"

text \<open>The verb \<open>%d\<close>: decimal digits with a leading minus sign.\<close>

definition digit_char :: "nat \<Rightarrow> char" where
  "digit_char d = char_of (48 + d)"

fun nat_str :: "nat \<Rightarrow> string" where
  "nat_str n = (if n < 10 then [digit_char n] else nat_str (n div 10) @ [digit_char (n mod 10)])"

declare nat_str.simps [simp del]

definition itoa :: "int \<Rightarrow> string" where
  "itoa i = (if i < 0 then CHR ''-'' # nat_str (nat (- i)) else nat_str (nat i))"

text \<open>Digits are computed over the integers, whose numerals are binary.\<close>

function int_str :: "int \<Rightarrow> string" where
  "int_str i = (if i < 10 then [digit_char (nat i)] else int_str (i div 10) @ [digit_char (nat (i mod 10))])"
  by pat_completeness auto
termination by (relation "measure nat") auto

declare int_str.simps [simp del]

lemma int_str: "int_str i = nat_str (nat i)"
proof (induction i rule: int_str.induct)
  case (1 i)
  have "nat i < 10 \<longleftrightarrow> i < 10" by linarith
  with 1 show ?case
    by (cases "i < 10")
      (simp_all add: int_str.simps [of i] nat_str.simps [of "nat i"] nat_div_distrib nat_mod_distrib)
qed

lemma itoa_code [code]: "itoa i = (if i < 0 then CHR ''-'' # int_str (- i) else int_str i)"
  by (simp add: itoa_def int_str)

lemmas str_defs [go_str] =
  TrimSpace_def blank_def given_def is_space_def EqualFold_def ToLower_def ToUpper_def
  lower_char_def upper_char_def

lemma dropWhile_idem: "dropWhile P (dropWhile P xs) = dropWhile P xs"
  by (induction xs) auto

lemma dropWhile_rev_fix:
  "dropWhile P xs = xs \<Longrightarrow> dropWhile P (rev (dropWhile P (rev xs))) = rev (dropWhile P (rev xs))"
proof (cases xs)
  case (Cons x ys)
  assume fix1: "dropWhile P xs = xs"
  have nx: "\<not> P x"
  proof
    assume "P x"
    then have "length (dropWhile P xs) \<le> length ys"
      by (simp add: Cons length_dropWhile_le)
    with fix1 Cons show False by simp
  qed
  have "dropWhile P (rev xs) = dropWhile P (rev ys) @ [x]"
    using nx by (simp add: Cons dropWhile_append)
  then show ?thesis using nx by simp
qed simp

lemma TrimSpace_idem [simp]: "TrimSpace (TrimSpace s) = TrimSpace s"
proof -
  let ?a = "dropWhile is_space s"
  have "dropWhile is_space ?a = ?a" by (rule dropWhile_idem)
  then have "dropWhile is_space (rev (dropWhile is_space (rev ?a))) = rev (dropWhile is_space (rev ?a))"
    by (rule dropWhile_rev_fix)
  then show ?thesis
    by (simp add: TrimSpace_def dropWhile_idem)
qed

lemma TrimSpace_Nil [simp]: "TrimSpace [] = []"
  by (simp add: TrimSpace_def)

lemma blank_Nil [simp]: "blank []"
  by (simp add: blank_def)

lemma blank_Trim [simp]: "blank (TrimSpace s) = blank s"
  by (simp add: blank_def)

lemma given_Some [simp]: "given (Some s) \<longleftrightarrow> \<not> blank s"
  by (simp add: given_def)

lemma given_None [simp]: "\<not> given None"
  by (simp add: given_def)

lemma givenE: "given p \<Longrightarrow> (\<And>s. p = Some s \<Longrightarrow> \<not> blank s \<Longrightarrow> R) \<Longrightarrow> R"
  by (cases p) (auto simp: given_def)

section \<open>PostgreSQL integers\<close>

text \<open>
  Quantities are stored in columns of type \<open>INT\<close> (four bytes); a value outside its range
  makes the statement fail. Go's \<open>int\<close> has 64 bits and is modelled by \<^typ>\<open>int\<close>: the
  development shows where sums of column values are formed that they stay in range.
\<close>

definition int4 :: "int \<Rightarrow> bool" where
  "int4 v \<longleftrightarrow> - (2 ^ 31) \<le> v \<and> v < 2 ^ 31"

definition int64 :: "int \<Rightarrow> bool" where
  "int64 v \<longleftrightarrow> - (2 ^ 63) \<le> v \<and> v < 2 ^ 63"

text \<open>Go's conversion \<open>int32(x)\<close>, and the wrap-around of \<open>int32\<close> arithmetic.\<close>

definition to_int32 :: "int \<Rightarrow> int" where
  "to_int32 x = (x + 2 ^ 31) mod 2 ^ 32 - 2 ^ 31"

text \<open>The wrap-around of 64-bit arithmetic, as of a product of durations.\<close>

definition wrap64 :: "int \<Rightarrow> int" where
  "wrap64 x = (x + 2 ^ 63) mod 2 ^ 64 - 2 ^ 63"

lemma wrap64_small: "int64 x \<Longrightarrow> wrap64 x = x"
  by (simp add: wrap64_def int64_def)

lemma int4_int64: "int4 v \<Longrightarrow> int64 v"
  by (simp add: int4_def int64_def)

lemma int4_add_int64: "int4 a \<Longrightarrow> int4 b \<Longrightarrow> int64 (a + b) \<and> int64 (a - b)"
  by (simp add: int4_def int64_def)

section \<open>Lists of rows\<close>

text \<open>
  A table is a list of rows. \<open>upd_where\<close> is \<open>UPDATE ... SET ... WHERE\<close>,
  \<open>sum_where\<close> the sum of a column over the rows a condition selects.
\<close>

definition upd_where :: "('r \<Rightarrow> bool) \<Rightarrow> ('r \<Rightarrow> 'r) \<Rightarrow> 'r list \<Rightarrow> 'r list" where
  "upd_where p f rs = map (\<lambda>r. if p r then f r else r) rs"

definition sum_where :: "('r \<Rightarrow> bool) \<Rightarrow> ('r \<Rightarrow> int) \<Rightarrow> 'r list \<Rightarrow> int" where
  "sum_where p f rs = sum_list (map f (filter p rs))"

lemma length_upd_where [simp]: "length (upd_where p f rs) = length rs"
  by (simp add: upd_where_def)

lemma upd_where_Nil [simp]: "upd_where p f [] = []"
  by (simp add: upd_where_def)

lemma upd_where_Cons [simp]:
  "upd_where p f (r # rs) = (if p r then f r else r) # upd_where p f rs"
  by (simp add: upd_where_def)

lemma upd_where_append [simp]: "upd_where p f (rs @ qs) = upd_where p f rs @ upd_where p f qs"
  by (simp add: upd_where_def)

lemma in_upd_where:
  "r \<in> set (upd_where p f rs) \<longleftrightarrow> (\<exists>q \<in> set rs. r = (if p q then f q else q))"
  by (auto simp: upd_where_def)

lemma map_upd_where:
  "(\<And>r. p r \<Longrightarrow> k (f r) = k r) \<Longrightarrow> map k (upd_where p f rs) = map k rs"
  by (induction rs) auto

lemma image_upd_where:
  "(\<And>r. p r \<Longrightarrow> k (f r) = k r) \<Longrightarrow> k ` set (upd_where p f rs) = k ` set rs"
  using map_upd_where [of p k f rs] by (metis list.set_map)

lemma upd_where_none: "\<not> (\<exists>r \<in> set rs. p r) \<Longrightarrow> upd_where p f rs = rs"
  by (induction rs) auto

lemma sum_where_Nil [simp]: "sum_where p f [] = 0"
  by (simp add: sum_where_def)

lemma sum_where_Cons [simp]:
  "sum_where p f (r # rs) = (if p r then f r else 0) + sum_where p f rs"
  by (simp add: sum_where_def)

lemma sum_where_append [simp]: "sum_where p f (rs @ qs) = sum_where p f rs + sum_where p f qs"
  by (simp add: sum_where_def)

lemma sum_where_cong:
  "(\<And>r. r \<in> set rs \<Longrightarrow> p r = q r) \<Longrightarrow> sum_where p f rs = sum_where q f rs"
  by (induction rs) auto

lemma sum_where_nonneg: "(\<And>r. r \<in> set rs \<Longrightarrow> p r \<Longrightarrow> 0 \<le> f r) \<Longrightarrow> 0 \<le> sum_where p f rs"
  by (induction rs) fastforce+

lemma sum_where_member:
  assumes "r \<in> set rs" and "p r" and "\<And>q. q \<in> set rs \<Longrightarrow> p q \<Longrightarrow> 0 \<le> f q"
  shows "f r \<le> sum_where p f rs"
  using assms
proof (induction rs)
  case (Cons x xs)
  have rest: "0 \<le> sum_where p f xs"
    using Cons.prems by (intro sum_where_nonneg) auto
  show ?case
  proof (cases "r = x")
    case True
    with Cons.prems(2) rest show ?thesis by simp
  next
    case False
    with Cons have "f r \<le> sum_where p f xs" by simp
    moreover have "p x \<Longrightarrow> 0 \<le> f x" using Cons.prems(3) by simp
    ultimately show ?thesis by auto
  qed
qed simp

text \<open>Rows with a primary key: the key selects one row.\<close>

definition keyed :: "('r \<Rightarrow> 'k) \<Rightarrow> 'r list \<Rightarrow> bool" where
  "keyed k rs \<longleftrightarrow> distinct (map k rs)"

lemma keyed_Cons [simp]: "keyed k (r # rs) \<longleftrightarrow> k r \<notin> k ` set rs \<and> keyed k rs"
  by (simp add: keyed_def)

lemma keyed_Nil [simp]: "keyed k []"
  by (simp add: keyed_def)

lemma keyed_snoc: "keyed k (rs @ [r]) \<longleftrightarrow> k r \<notin> k ` set rs \<and> keyed k rs"
  by (auto simp: keyed_def)

lemma keyed_unique: "keyed k rs \<Longrightarrow> r \<in> set rs \<Longrightarrow> q \<in> set rs \<Longrightarrow> k r = k q \<Longrightarrow> r = q"
  by (simp add: keyed_def distinct_map inj_on_def)

lemma keyed_upd_where:
  "(\<And>r. p r \<Longrightarrow> k (f r) = k r) \<Longrightarrow> keyed k (upd_where p f rs) = keyed k rs"
  by (simp add: keyed_def map_upd_where)

lemma find_Some_in: "find p rs = Some r \<Longrightarrow> r \<in> set rs \<and> p r"
  by (metis find_Some_iff nth_mem)

lemma find_None_iff_ex: "find p rs = None \<longleftrightarrow> \<not> (\<exists>r \<in> set rs. p r)"
  by (auto simp: find_None_iff)

lemma find_upd_where:
  assumes "\<And>r. p (f r) = p r"
  shows "find p (upd_where p f rs) = map_option f (find p rs)"
  using assms by (induction rs) auto

lemma find_upd_where_other:
  assumes "\<And>r. p r \<Longrightarrow> q (f r) = q r" and "\<And>r. q r \<Longrightarrow> \<not> p r"
  shows "find q (upd_where p f rs) = find q rs"
  using assms by (induction rs) auto

text \<open>In a sorted list nothing of the rest is before anything of the prefix.\<close>

lemma sorted_take_drop:
  fixes f :: "'r \<Rightarrow> 'k :: linorder"
  assumes "sorted (map f xs)" and "r \<in> set (take n xs)" and "q \<in> set (drop n xs)"
  shows "f r \<le> f q"
proof -
  have "sorted (map f (take n xs) @ map f (drop n xs))"
    using assms(1) by (simp only: map_append [symmetric] append_take_drop_id)
  with assms(2,3) show ?thesis unfolding sorted_append by simp
qed

lemma in_take_or_drop: "q \<in> set xs \<Longrightarrow> q \<notin> set (take n xs) \<Longrightarrow> q \<in> set (drop n xs)"
  using set_append [of "take n xs" "drop n xs"] by simp

end
