(* ===== verification/App_Errors.thy ===== *)
theory App_Errors
  imports Go_Prelude
begin

text \<open>
  The application errors of \<open>pkg/errors/errors.go\<close>: the type \<open>AppError\<close>, its
  constructors, the classification of arbitrary Go errors (\<open>AsAppError\<close>,
  \<open>IsConflict\<close>, \<open>IsNotFound\<close>) and the translation to gRPC status errors
  (\<open>MapAppErrorToGRPC\<close>). A Go value of type \<open>error\<close> is a \<open>go_error option\<close>, with
  \<^const>\<open>None\<close> for \<open>nil\<close>.

  The gRPC library itself is a parameter: \<open>from_error\<close> stands for
  \<open>status.FromError\<close> (\<^const>\<open>Some\<close> when its second result is true), \<open>status_text\<close>
  for the text a status error prints.
\<close>

datatype grpc_code =
  GOK | GCanceled | GUnknown | GInvalidArgument | GDeadlineExceeded | GNotFound | GAlreadyExists
| GPermissionDenied | GResourceExhausted | GFailedPrecondition | GAborted | GOutOfRange
| GUnimplemented | GInternal | GUnavailable | GDataLoss | GUnauthenticated

text \<open>
  \<open>StatusError\<close> is what \<open>status.Error\<close> builds, \<open>ErrorString\<close> what
  \<open>errors.New\<close> builds, \<open>WrapError\<close> what \<open>fmt.Errorf\<close> builds with one verb
  \<open>%w\<close> at the end of its text, and \<open>ProviderError\<close> an error of another package that has a method
  \<open>ToAppError\<close>: its text and the code, message and status of the result.
  \<open>PgError\<close> is the driver's \<open>pgconn.PgError\<close>: the SQLSTATE code and the constraint.
\<close>

datatype go_error =
    AppError (err_code: string) (err_message: string) (http_status: nat) (err_cause: "go_error option")
  | StatusError grpc_code string
  | ErrorString string
  | WrapError string go_error
  | ProviderError string string string nat
  | PgError string string
  | SuffixError go_error string
  | FreshError string

text \<open>\<open>errors.Is\<close>: the error or one it wraps is the target.\<close>

fun errors_Is :: "go_error \<Rightarrow> go_error \<Rightarrow> bool" where
  "errors_Is (WrapError s er) target = (WrapError s er = target \<or> errors_Is er target)"
| "errors_Is (AppError c m st (Some er)) target = (AppError c m st (Some er) = target \<or> errors_Is er target)"
| "errors_Is (SuffixError er s) target = (SuffixError er s = target \<or> errors_Is er target)"
| "errors_Is er target = (er = target)"

record grpc_lib =
  from_error :: "go_error \<Rightarrow> (grpc_code \<times> string) option"
  status_text :: "grpc_code \<Rightarrow> string \<Rightarrow> string"

definition CodeBadRequest :: string where "CodeBadRequest = ''BAD_REQUEST''"
definition CodeUnauthorized :: string where "CodeUnauthorized = ''UNAUTHORIZED''"
definition CodeForbidden :: string where "CodeForbidden = ''FORBIDDEN''"
definition CodeNotFound :: string where "CodeNotFound = ''NOT_FOUND''"
definition CodeConflict :: string where "CodeConflict = ''CONFLICT''"
definition CodeUnprocessableEntity :: string where
  "CodeUnprocessableEntity = ''UNPROCESSABLE_ENTITY''"
definition CodeInternalError :: string where "CodeInternalError = ''INTERNAL_SERVER_ERROR''"
definition CodeServiceUnavailable :: string where
  "CodeServiceUnavailable = ''SERVICE_UNAVAILABLE''"
definition CodeTooManyRequests :: string where "CodeTooManyRequests = ''TOO_MANY_REQUESTS''"
definition CodeInvalidCredentials :: string where
  "CodeInvalidCredentials = ''INVALID_CREDENTIALS''"

lemmas code_defs =
  CodeBadRequest_def CodeUnauthorized_def CodeForbidden_def CodeNotFound_def CodeConflict_def
  CodeUnprocessableEntity_def CodeInternalError_def CodeServiceUnavailable_def
  CodeTooManyRequests_def CodeInvalidCredentials_def

text \<open>The codes are pairwise different.\<close>

lemma codes_distinct:
  "distinct [CodeBadRequest, CodeUnauthorized, CodeForbidden, CodeNotFound, CodeConflict,
     CodeUnprocessableEntity, CodeInternalError, CodeServiceUnavailable, CodeTooManyRequests,
     CodeInvalidCredentials]"
  by (simp add: code_defs)

lemma codes_distinct_rev:
  "distinct (rev [CodeBadRequest, CodeUnauthorized, CodeForbidden, CodeNotFound, CodeConflict,
     CodeUnprocessableEntity, CodeInternalError, CodeServiceUnavailable, CodeTooManyRequests,
     CodeInvalidCredentials])"
  by (subst distinct_rev) (rule codes_distinct)

lemmas codes_neq [simp] =
  codes_distinct [unfolded distinct.simps list.set insert_iff empty_iff de_Morgan_disj simp_thms]
  codes_distinct_rev [unfolded rev.simps append.simps distinct.simps list.set insert_iff empty_iff
    de_Morgan_disj simp_thms]

section \<open>Constructors\<close>

definition or_default :: "string \<Rightarrow> string \<Rightarrow> string" where
  "or_default m d = (if m = [] then d else m)"

definition New :: "string \<Rightarrow> string \<Rightarrow> nat \<Rightarrow> go_error" where
  "New c m st = AppError c m st None"

definition Wrap :: "go_error option \<Rightarrow> string \<Rightarrow> string \<Rightarrow> nat \<Rightarrow> go_error" where
  "Wrap e c m st = AppError c m st e"

definition BadRequest :: "string \<Rightarrow> go_error" where
  "BadRequest m = New CodeBadRequest (or_default m ''Bad request'') 400"

definition InvalidArgument :: "string \<Rightarrow> go_error" where
  "InvalidArgument m = BadRequest m"

definition Unauthorized :: "string \<Rightarrow> go_error" where
  "Unauthorized m = New CodeUnauthorized (or_default m ''Unauthorized access'') 401"

definition InvalidCredentials :: "string \<Rightarrow> go_error" where
  "InvalidCredentials m = New CodeInvalidCredentials (or_default m ''Invalid credentials'') 401"

definition Forbidden :: "string \<Rightarrow> go_error" where
  "Forbidden m = New CodeForbidden (or_default m ''Access forbidden'') 403"

definition NotFound :: "string \<Rightarrow> go_error" where
  "NotFound m = New CodeNotFound (or_default m ''Resource not found'') 404"

definition Conflict :: "string \<Rightarrow> go_error" where
  "Conflict m = New CodeConflict (or_default m ''Resource conflict'') 409"

definition AlreadyExists :: "string \<Rightarrow> go_error" where
  "AlreadyExists m = Conflict m"

definition UnprocessableEntity :: "string \<Rightarrow> go_error" where
  "UnprocessableEntity m = New CodeUnprocessableEntity (or_default m ''Unprocessable entity'') 422"

definition Internal :: "go_error option \<Rightarrow> string \<Rightarrow> go_error" where
  "Internal e m =
     Wrap e CodeInternalError (or_default m ''An internal server error occurred'') 500"

definition ServiceUnavailable :: "string \<Rightarrow> go_error" where
  "ServiceUnavailable m =
     New CodeServiceUnavailable (or_default m ''Service temporarily unavailable'') 503"

definition TooManyRequests :: "string \<Rightarrow> go_error" where
  "TooManyRequests m = New CodeTooManyRequests (or_default m ''Too many requests'') 429"

lemmas ctor_defs =
  New_def Wrap_def BadRequest_def InvalidArgument_def Unauthorized_def InvalidCredentials_def
  Forbidden_def NotFound_def Conflict_def AlreadyExists_def UnprocessableEntity_def
  Internal_def ServiceUnavailable_def TooManyRequests_def

lemma ctor_codes [simp]:
  "err_code (BadRequest m) = CodeBadRequest" "err_code (Unauthorized m) = CodeUnauthorized"
  "err_code (InvalidCredentials m) = CodeInvalidCredentials"
  "err_code (Forbidden m) = CodeForbidden" "err_code (NotFound m) = CodeNotFound"
  "err_code (Conflict m) = CodeConflict"
  "err_code (UnprocessableEntity m) = CodeUnprocessableEntity"
  "err_code (Internal e m) = CodeInternalError"
  "err_code (ServiceUnavailable m) = CodeServiceUnavailable"
  "err_code (TooManyRequests m) = CodeTooManyRequests"
  by (simp_all add: ctor_defs)

lemma ctor_AppError [simp]:
  "is_AppError (BadRequest m)" "is_AppError (Unauthorized m)" "is_AppError (InvalidCredentials m)"
  "is_AppError (Forbidden m)" "is_AppError (NotFound m)" "is_AppError (Conflict m)"
  "is_AppError (UnprocessableEntity m)" "is_AppError (Internal e m)"
  "is_AppError (ServiceUnavailable m)" "is_AppError (TooManyRequests m)"
  by (simp_all add: ctor_defs)

section \<open>Texts and client messages\<close>

text \<open>The method \<open>Error\<close>.\<close>

fun error_text :: "grpc_lib \<Rightarrow> go_error \<Rightarrow> string" where
  "error_text L (AppError c m st (Some e)) =
     c @ '': '' @ m @ '' (caused by: '' @ error_text L e @ '')''"
| "error_text L (AppError c m st None) = c @ '': '' @ m"
| "error_text L (StatusError g m) = status_text L g m"
| "error_text L (ErrorString s) = s"
| "error_text L (WrapError s e) = s @ error_text L e"
| "error_text L (ProviderError s _ _ _) = s"
| "error_text L (PgError code cn) = ''ERROR: '' @ cn @ '' (SQLSTATE '' @ code @ '')''"
| "error_text L (SuffixError e s) = error_text L e @ s"
| "error_text L (FreshError s) = s"

definition ClientMessage :: "go_error \<Rightarrow> string" where
  "ClientMessage e =
     (if 500 \<le> http_status e \<or> err_code e = CodeInternalError
      then ''An internal server error occurred'' else err_message e)"

record ErrorDetail =
  detail_code :: string
  detail_message :: string

definition ToResponse :: "go_error \<Rightarrow> ErrorDetail" where
  "ToResponse e = \<lparr>detail_code = err_code e, detail_message = ClientMessage e\<rparr>"

section \<open>Classification\<close>

text \<open>\<open>errors.As\<close> for the two targets of \<open>AsAppError\<close>.\<close>

fun as_app :: "go_error \<Rightarrow> go_error option" where
  "as_app (AppError c m st e) = Some (AppError c m st e)"
| "as_app (WrapError s e) = as_app e"
| "as_app (StatusError _ _) = None"
| "as_app (ErrorString _) = None"
| "as_app (ProviderError _ _ _ _) = None"
| "as_app (PgError _ _) = None"
| "as_app (SuffixError e s) = as_app e"
| "as_app (FreshError _) = None"

fun as_provider :: "go_error \<Rightarrow> go_error option" where
  "as_provider (ProviderError s c m st) = Some (New c m st)"
| "as_provider (WrapError s e) = as_provider e"
| "as_provider (AppError c m st e) = None"
| "as_provider (StatusError _ _) = None"
| "as_provider (ErrorString _) = None"
| "as_provider (PgError _ _) = None"
| "as_provider (SuffixError e s) = as_provider e"
| "as_provider (FreshError _) = None"

definition of_status :: "grpc_lib \<Rightarrow> go_error \<Rightarrow> grpc_code \<Rightarrow> string \<Rightarrow> go_error" where
  "of_status L e g m =
     (case g of
        GInvalidArgument \<Rightarrow> BadRequest m
      | GFailedPrecondition \<Rightarrow> BadRequest m
      | GNotFound \<Rightarrow> NotFound m
      | GAlreadyExists \<Rightarrow> Conflict m
      | GUnauthenticated \<Rightarrow>
          (if Contains (ToLower m) ''credential'' \<or> Contains m ''INVALID_CREDENTIALS''
              \<or> Contains (ToLower m) ''password''
           then InvalidCredentials m else Unauthorized m)
      | GPermissionDenied \<Rightarrow> Forbidden m
      | GResourceExhausted \<Rightarrow> TooManyRequests m
      | GUnavailable \<Rightarrow> ServiceUnavailable m
      | GUnknown \<Rightarrow>
          (if Contains m ''already exists'' then Conflict m
           else if Contains m ''required'' \<or> Contains m ''invalid'' then BadRequest m
           else Internal (Some e) m)
      | _ \<Rightarrow> Internal (Some e) (error_text L e))"

definition AsAppError :: "grpc_lib \<Rightarrow> go_error option \<Rightarrow> go_error option" where
  "AsAppError L err =
     (case err of None \<Rightarrow> None
      | Some e \<Rightarrow>
          (case as_app e of Some a \<Rightarrow> Some a
           | None \<Rightarrow>
               (case as_provider e of Some a \<Rightarrow> Some a
                | None \<Rightarrow>
                    (case from_error L e of
                       Some (g, m) \<Rightarrow> Some (of_status L e g m)
                     | None \<Rightarrow> Some (Internal (Some e) (error_text L e))))))"

definition grpc_of_code :: "string \<Rightarrow> grpc_code" where
  "grpc_of_code c =
     (if c = CodeNotFound then GNotFound
      else if c = CodeUnauthorized \<or> c = CodeInvalidCredentials then GUnauthenticated
      else if c = CodeForbidden then GPermissionDenied
      else if c = CodeBadRequest \<or> c = CodeUnprocessableEntity then GInvalidArgument
      else if c = CodeConflict then GAlreadyExists
      else if c = CodeTooManyRequests then GResourceExhausted
      else if c = CodeServiceUnavailable then GUnavailable
      else GInternal)"

definition MapAppErrorToGRPC :: "grpc_lib \<Rightarrow> go_error option \<Rightarrow> go_error option" where
  "MapAppErrorToGRPC L err =
     (case err of None \<Rightarrow> None
      | Some e \<Rightarrow>
          if from_error L e \<noteq> None \<and> as_app e = None then Some e
          else (case AsAppError L err of
                  None \<Rightarrow> None
                | Some a \<Rightarrow> Some (StatusError (grpc_of_code (err_code a)) (err_message a))))"

definition ToGRPC :: "grpc_lib \<Rightarrow> go_error \<Rightarrow> go_error" where
  "ToGRPC G er = (case MapAppErrorToGRPC G (Some er) of None \<Rightarrow> er | Some er1 \<Rightarrow> er1)"

definition IsConflict :: "grpc_lib \<Rightarrow> go_error option \<Rightarrow> bool" where
  "IsConflict L err =
     (case AsAppError L err of None \<Rightarrow> False | Some a \<Rightarrow> err_code a = CodeConflict)"

definition IsNotFound :: "grpc_lib \<Rightarrow> go_error option \<Rightarrow> bool" where
  "IsNotFound L err =
     (case AsAppError L err of None \<Rightarrow> False | Some a \<Rightarrow> err_code a = CodeNotFound)"

lemma as_app_AppError [simp]: "is_AppError e \<Longrightarrow> as_app e = Some e"
  by (cases e) auto

lemma IsConflict_AppError [simp]:
  "is_AppError e \<Longrightarrow> IsConflict L (Some e) \<longleftrightarrow> err_code e = CodeConflict"
  by (simp add: IsConflict_def AsAppError_def)

lemma IsNotFound_AppError [simp]:
  "is_AppError e \<Longrightarrow> IsNotFound L (Some e) \<longleftrightarrow> err_code e = CodeNotFound"
  by (simp add: IsNotFound_def AsAppError_def)

lemma as_app_is_AppError: "as_app e = Some a \<Longrightarrow> is_AppError a"
  by (induction e rule: as_app.induct) auto

lemma as_provider_is_AppError: "as_provider e = Some a \<Longrightarrow> is_AppError a"
  by (induction e rule: as_provider.induct) (auto simp: New_def)

lemma of_status_is_AppError [simp]: "is_AppError (of_status L e g m)"
  by (simp add: of_status_def split: grpc_code.split)

end
