(* ===== verification/Db_Tx.thy ===== *)
theory Db_Tx
  imports App_Errors
begin

text \<open>
  PostgreSQL as the services use it: statements, transactions and the failures between
  them. A computation over the tables \<open>'t\<close> of one service's database takes an
  environment and a world and returns a result or a Go error, together with the new world.

  The environment says what the program cannot control: which statements fail for a reason
  outside the tables (a lost connection, a cancelled context, an argument that cannot be
  encoded), the sequence of UUIDs the generator returns, the clock, how the message broker
  answers, and when the context of the call is found cancelled. Every theorem about
  a computation is about every environment, so about a failure at any statement.

  The world holds the tables, whether the open transaction has been aborted (after a failed
  statement PostgreSQL refuses every further statement, and the commit becomes a rollback),
  how many statements, UUIDs and publish calls have been used, and the messages the broker
  has acknowledged (topic, key and event identifier). A rollback restores the tables only:
  what was sent stays sent.

  \<open>with_tx\<close> is the shape of every repository method: begin, body, commit, with the
  rollback deferred; \<open>WithTransaction\<close> of \<open>pkg/database/postgres.go\<close> is an instance.
  A transaction is one step: row locks (\<open>FOR UPDATE\<close>) make the interleavings of two
  transactions on the same rows equal to running one after the other. An error returned by
  the commit means that nothing was committed.
\<close>

text \<open>The answer of the message broker to one publish call.\<close>

datatype broker_answer = Acked | SendFailed | SendCancelled

record env =
  fault :: "nat \<Rightarrow> bool"
  uuid_at :: "nat \<Rightarrow> string"
  clock :: int
  broker :: "nat \<Rightarrow> broker_answer"
  ctx_done :: "nat \<Rightarrow> bool"

record 't world =
  tabs :: 't
  aborted :: bool
  nstmt :: nat
  nuuid :: nat
  nsend :: nat
  sent :: "(string \<times> string \<times> string) list"

type_synonym ('t, 'a) db = "env \<Rightarrow> 't world \<Rightarrow> (go_error + 'a) \<times> 't world"

definition ret :: "'a \<Rightarrow> ('t, 'a) db" where
  "ret x = (\<lambda>e w. (Inr x, w))"

definition raise :: "go_error \<Rightarrow> ('t, 'a) db" where
  "raise er = (\<lambda>e w. (Inl er, w))"

definition bind :: "('t, 'a) db \<Rightarrow> ('a \<Rightarrow> ('t, 'b) db) \<Rightarrow> ('t, 'b) db" where
  "bind m f = (\<lambda>e w. case m e w of (Inl er, w') \<Rightarrow> (Inl er, w') | (Inr x, w') \<Rightarrow> f x e w')"

definition seq :: "('t, 'a) db \<Rightarrow> ('t, 'b) db \<Rightarrow> ('t, 'b) db" where
  "seq m n = bind m (\<lambda>_. n)"

text \<open>\<open>if err != nil { return f(err) }\<close>, and the call whose error is ignored.\<close>

definition on_error :: "('t, 'a) db \<Rightarrow> (go_error \<Rightarrow> go_error) \<Rightarrow> ('t, 'a) db" where
  "on_error m f = (\<lambda>e w. case m e w of (Inl er, w') \<Rightarrow> (Inl (f er), w') | (Inr x, w') \<Rightarrow> (Inr x, w'))"

definition wrap :: "string \<Rightarrow> go_error \<Rightarrow> go_error" where
  "wrap m er = Internal (Some er) m"

definition attempt :: "('t, 'a) db \<Rightarrow> ('t, go_error + 'a) db" where
  "attempt m = (\<lambda>e w. case m e w of (r, w') \<Rightarrow> (Inr r, w'))"

definition do_when :: "bool \<Rightarrow> ('t, unit) db \<Rightarrow> ('t, unit) db" where
  "do_when b m = (if b then m else ret ())"

definition require :: "bool \<Rightarrow> go_error \<Rightarrow> ('t, unit) db" where
  "require b er = (if b then ret () else raise er)"

fun for_each :: "'x list \<Rightarrow> ('x \<Rightarrow> ('t, unit) db) \<Rightarrow> ('t, unit) db" where
  "for_each [] f = ret ()"
| "for_each (x # xs) f = seq (f x) (for_each xs f)"

definition new_uuid :: "('t, string) db" where
  "new_uuid = (\<lambda>e w. (Inr (uuid_at e (nuuid w)), w\<lparr>nuuid := Suc (nuuid w)\<rparr>))"

definition time_now :: "('t, int) db" where
  "time_now = (\<lambda>e w. (Inr (clock e), w))"

text \<open>A publish call, and the check \<open>ctx.Err() != nil\<close>.\<close>

definition ContextCanceled :: go_error where
  "ContextCanceled = ErrorString ''context canceled''"

definition publish :: "string \<Rightarrow> string \<Rightarrow> string \<Rightarrow> ('t, unit) db" where
  "publish topic key i = (\<lambda>e w.
     let w1 = w\<lparr>nsend := Suc (nsend w)\<rparr> in
     case broker e (nsend w) of
       Acked \<Rightarrow> (Inr (), w1\<lparr>sent := sent w @ [(topic, key, i)]\<rparr>)
     | SendFailed \<Rightarrow> (Inl (ErrorString ''publish failed''), w1)
     | SendCancelled \<Rightarrow> (Inl ContextCanceled, w1))"

definition ctx_err :: "('t, bool) db" where
  "ctx_err = (\<lambda>e w. (Inr (ctx_done e (nstmt w + nsend w)), w))"

text \<open>The result of a call that does not touch the database.\<close>

definition call :: "go_error + 'a \<Rightarrow> ('t, 'a) db" where
  "call r = (case r of Inl er \<Rightarrow> raise er | Inr x \<Rightarrow> ret x)"

section \<open>Statements\<close>

text \<open>The errors the driver reports.\<close>

definition TxAborted :: go_error where
  "TxAborted = ErrorString ''current transaction is aborted, commands ignored until end of transaction block''"

definition StmtFailed :: go_error where
  "StmtFailed = ErrorString ''statement failed''"

text \<open>
  A statement of the open transaction. What it does to the tables is a function that
  returns the error of a violated constraint or a value with the new tables; a failed
  statement aborts the transaction.
\<close>

definition sql :: "('t \<Rightarrow> go_error + 'a \<times> 't) \<Rightarrow> ('t, 'a) db" where
  "sql f = (\<lambda>e w.
     let w1 = w\<lparr>nstmt := Suc (nstmt w)\<rparr> in
     if aborted w then (Inl TxAborted, w1)
     else if fault e (nstmt w) then (Inl StmtFailed, w1\<lparr>aborted := True\<rparr>)
     else (case f (tabs w) of
             Inl er \<Rightarrow> (Inl er, w1\<lparr>aborted := True\<rparr>)
           | Inr (x, t) \<Rightarrow> (Inr x, w1\<lparr>tabs := t\<rparr>)))"

text \<open>A statement on the pool, outside a transaction: it commits by itself.\<close>

definition pool_sql :: "('t \<Rightarrow> go_error + 'a \<times> 't) \<Rightarrow> ('t, 'a) db" where
  "pool_sql f = (\<lambda>e w.
     let w1 = w\<lparr>nstmt := Suc (nstmt w)\<rparr> in
     if fault e (nstmt w) then (Inl StmtFailed, w1)
     else (case f (tabs w) of
             Inl er \<Rightarrow> (Inl er, w1)
           | Inr (x, t) \<Rightarrow> (Inr x, w1\<lparr>tabs := t\<rparr>)))"

definition select :: "('t \<Rightarrow> 'a) \<Rightarrow> 't \<Rightarrow> go_error + 'a \<times> 't" where
  "select q t = Inr (q t, t)"

section \<open>Transactions\<close>

text \<open>
  How a transaction body ends without an error: with a commit whose error is returned, with
  a commit whose error is ignored, or with a plain return, where the deferred rollback
  discards what the body did.
\<close>

datatype 'a tx_end = Commit 'a | CommitQuietly 'a | Discard 'a

definition roll_back :: "'t world \<Rightarrow> 't world \<Rightarrow> 't world" where
  "roll_back w w' = w'\<lparr>tabs := tabs w, aborted := aborted w\<rparr>"

text \<open>\<open>fb\<close> and \<open>fc\<close> wrap the errors of begin and commit.\<close>

definition with_tx ::
  "(go_error \<Rightarrow> go_error) \<Rightarrow> (go_error \<Rightarrow> go_error) \<Rightarrow> ('t, 'a tx_end) db \<Rightarrow> ('t, 'a) db" where
  "with_tx fb fc body = (\<lambda>e w.
     if fault e (nstmt w) then (Inl (fb StmtFailed), w\<lparr>nstmt := Suc (nstmt w)\<rparr>)
     else (case body e (w\<lparr>nstmt := Suc (nstmt w), aborted := False\<rparr>) of
        (Inl er, w') \<Rightarrow> (Inl er, roll_back w w')
      | (Inr (Discard x), w') \<Rightarrow> (Inr x, roll_back w w')
      | (Inr (Commit x), w') \<Rightarrow>
          (if aborted w' \<or> fault e (nstmt w')
           then (Inl (fc StmtFailed), (roll_back w w')\<lparr>nstmt := Suc (nstmt w')\<rparr>)
           else (Inr x, w'\<lparr>nstmt := Suc (nstmt w'), aborted := aborted w\<rparr>))
      | (Inr (CommitQuietly x), w') \<Rightarrow>
          (if aborted w' \<or> fault e (nstmt w')
           then (Inr x, (roll_back w w')\<lparr>nstmt := Suc (nstmt w')\<rparr>)
           else (Inr x, w'\<lparr>nstmt := Suc (nstmt w'), aborted := aborted w\<rparr>))))"

text \<open>A body that says itself how the error of its commit is wrapped.\<close>

definition with_tx_by ::
  "(go_error \<Rightarrow> go_error) \<Rightarrow> ('t, ((go_error \<Rightarrow> go_error) \<times> 'a) tx_end) db \<Rightarrow> ('t, 'a) db" where
  "with_tx_by fb body = (\<lambda>e w.
     let fc = (case body e (w\<lparr>nstmt := Suc (nstmt w), aborted := False\<rparr>) of
                 (Inr (Commit (f, _)), _) \<Rightarrow> f | _ \<Rightarrow> (\<lambda>er. er)) in
     case with_tx fb fc body e w of
       (Inl er, w') \<Rightarrow> (Inl er, w')
     | (Inr (_, x), w') \<Rightarrow> (Inr x, w'))"

text \<open>
  The method \<open>WithTransaction\<close> of \<open>DB\<close>: the error of the function is returned after a rollback, the
  error of begin is wrapped, the error of commit is returned as it is. The text that a failing
  rollback appends to the error is left out.
\<close>

definition WithTransaction :: "('t, 'a) db \<Rightarrow> ('t, 'a) db" where
  "WithTransaction fn =
     with_tx (WrapError ''failed to begin transaction: '') (\<lambda>er. er)
       (bind fn (\<lambda>x. ret (Commit x)))"

text \<open>
  A savepoint (\<open>tx.Begin\<close> on a transaction): its failure undoes what was done since and
  leaves the enclosing transaction usable, unless that one was aborted before.
\<close>

definition savepoint :: "('t, 'a) db \<Rightarrow> ('t, 'a) db" where
  "savepoint body = (\<lambda>e w.
     case body e w of
       (Inl er, w') \<Rightarrow> (Inl er, roll_back w w')
     | (Inr x, w') \<Rightarrow> (Inr x, w'))"

text \<open>A computation on a part of the tables.\<close>

definition with_tabs :: "'s \<Rightarrow> 't world \<Rightarrow> 's world" where
  "with_tabs t w = \<lparr>tabs = t, aborted = aborted w, nstmt = nstmt w, nuuid = nuuid w,
     nsend = nsend w, sent = sent w\<rparr>"

definition zoom :: "('t \<Rightarrow> 's) \<Rightarrow> ('s \<Rightarrow> 't \<Rightarrow> 't) \<Rightarrow> ('s, 'a) db \<Rightarrow> ('t, 'a) db" where
  "zoom get put m = (\<lambda>e w.
     case m e (with_tabs (get (tabs w)) w) of
       (r, w') \<Rightarrow> (r, with_tabs (put (tabs w') (tabs w)) w'))"

lemmas db_defs [db_simps] =
  ret_def raise_def bind_def seq_def on_error_def attempt_def do_when_def require_def
  new_uuid_def time_now_def sql_def pool_sql_def select_def with_tx_def WithTransaction_def
  savepoint_def roll_back_def call_def publish_def ctx_err_def zoom_def with_tabs_def

section \<open>Reasoning about computations\<close>

text \<open>
  Three views of a computation. \<open>atomic\<close>: an error leaves the tables as they were.
  \<open>keeps P m\<close>: a successful run takes tables with \<open>P\<close> to tables with \<open>P\<close>.
  \<open>ensures P m Q\<close>: a successful run from tables with \<open>P\<close> ends with \<open>Q\<close>.
\<close>

definition atomic :: "('t, 'a) db \<Rightarrow> bool" where
  "atomic m \<longleftrightarrow> (\<forall>e w er w'. m e w = (Inl er, w') \<longrightarrow> tabs w' = tabs w)"

definition ensures :: "('t \<Rightarrow> bool) \<Rightarrow> ('t, 'a) db \<Rightarrow> ('a \<Rightarrow> 't \<Rightarrow> bool) \<Rightarrow> bool" where
  "ensures P m Q \<longleftrightarrow> (\<forall>e w x w'. P (tabs w) \<longrightarrow> m e w = (Inr x, w') \<longrightarrow> Q x (tabs w'))"

definition keeps :: "('t \<Rightarrow> bool) \<Rightarrow> ('t, 'a) db \<Rightarrow> bool" where
  "keeps P m \<longleftrightarrow> ensures P m (\<lambda>_. P)"

definition fault_free :: "env \<Rightarrow> bool" where
  "fault_free e \<longleftrightarrow> (\<forall>n. \<not> fault e n)"

lemma fault_freeD [simp]: "fault_free e \<Longrightarrow> fault e n = False"
  by (simp add: fault_free_def)

lemma ensuresI [intro?]:
  "(\<And>e w x w'. P (tabs w) \<Longrightarrow> m e w = (Inr x, w') \<Longrightarrow> Q x (tabs w')) \<Longrightarrow> ensures P m Q"
  by (auto simp: ensures_def)

lemma ensuresD: "ensures P m Q \<Longrightarrow> P (tabs w) \<Longrightarrow> m e w = (Inr x, w') \<Longrightarrow> Q x (tabs w')"
  unfolding ensures_def by blast

lemma atomicD: "atomic m \<Longrightarrow> m e w = (Inl er, w') \<Longrightarrow> tabs w' = tabs w"
  unfolding atomic_def by blast

lemma keepsD: "keeps P m \<Longrightarrow> P (tabs w) \<Longrightarrow> m e w = (Inr x, w') \<Longrightarrow> P (tabs w')"
  unfolding keeps_def by (rule ensuresD)

lemma atomic_keeps_any:
  "atomic m \<Longrightarrow> keeps P m \<Longrightarrow> P (tabs w) \<Longrightarrow> P (tabs (snd (m e w)))"
  by (cases "m e w"; cases "fst (m e w)") (auto dest: atomicD keepsD)

lemma ensures_ret: "(\<And>t. P t \<Longrightarrow> Q x t) \<Longrightarrow> ensures P (ret x) Q"
  by (auto simp: ensures_def ret_def)

lemma ensures_raise: "ensures P (raise er) Q"
  by (auto simp: ensures_def raise_def)

lemma ensures_bind:
  assumes "ensures P m R" and "\<And>x. ensures (R x) (f x) Q"
  shows "ensures P (bind m f) Q"
  unfolding ensures_def bind_def
  using assms by (auto split: prod.splits sum.splits dest: ensuresD)

lemma ensures_seq: "ensures P m (\<lambda>_. R) \<Longrightarrow> ensures R n Q \<Longrightarrow> ensures P (seq m n) Q"
  unfolding seq_def by (rule ensures_bind)

lemma ensures_on_error: "ensures P m Q \<Longrightarrow> ensures P (on_error m f) Q"
  unfolding ensures_def on_error_def by (auto split: prod.splits sum.splits)

lemma ensures_weaken:
  "ensures P' m Q' \<Longrightarrow> (\<And>t. P t \<Longrightarrow> P' t) \<Longrightarrow> (\<And>x t. Q' x t \<Longrightarrow> Q x t) \<Longrightarrow> ensures P m Q"
  unfolding ensures_def by blast

lemma ensures_require:
  "(\<And>t. b \<Longrightarrow> P t \<Longrightarrow> Q () t) \<Longrightarrow> ensures P (require b er) Q"
  by (auto simp: ensures_def require_def ret_def raise_def split: if_splits)

lemma ensures_sql:
  "(\<And>t x t'. P t \<Longrightarrow> f t = Inr (x, t') \<Longrightarrow> Q x t') \<Longrightarrow> ensures P (sql f) Q"
  unfolding ensures_def sql_def by (auto simp: Let_def split: if_splits sum.splits)

lemma ensures_pool_sql:
  "(\<And>t x t'. P t \<Longrightarrow> f t = Inr (x, t') \<Longrightarrow> Q x t') \<Longrightarrow> ensures P (pool_sql f) Q"
  unfolding ensures_def pool_sql_def by (auto simp: Let_def split: if_splits sum.splits)

lemma ensures_new_uuid: "(\<And>t x. P t \<Longrightarrow> Q x t) \<Longrightarrow> ensures P new_uuid Q"
  by (auto simp: ensures_def new_uuid_def)

lemma ensures_time_now: "(\<And>t x. P t \<Longrightarrow> Q x t) \<Longrightarrow> ensures P time_now Q"
  by (auto simp: ensures_def time_now_def)

lemma ensures_when:
  "(b \<Longrightarrow> ensures P m (\<lambda>_. Q ())) \<Longrightarrow> (\<And>t. \<not> b \<Longrightarrow> P t \<Longrightarrow> Q () t) \<Longrightarrow> ensures P (do_when b m) Q"
  by (auto simp: do_when_def ensures_def ret_def)

lemma ensures_for_each:
  assumes "\<And>x. x \<in> set xs \<Longrightarrow> ensures P (f x) (\<lambda>_. P)"
  shows "ensures P (for_each xs f) (\<lambda>_. P)"
  using assms by (induction xs) (auto intro: ensures_ret ensures_seq)

lemma ensures_case_option:
  "(x = None \<Longrightarrow> ensures P m Q) \<Longrightarrow> (\<And>y. x = Some y \<Longrightarrow> ensures P (f y) Q)
   \<Longrightarrow> ensures P (case x of None \<Rightarrow> m | Some y \<Rightarrow> f y) Q"
  by (cases x) auto

lemma ensures_if:
  "(b \<Longrightarrow> ensures P m Q) \<Longrightarrow> (\<not> b \<Longrightarrow> ensures P n Q) \<Longrightarrow> ensures P (if b then m else n) Q"
  by simp

lemma ensures_select: "(\<And>t. P t \<Longrightarrow> Q (q t) t) \<Longrightarrow> ensures P (sql (select q)) Q"
  by (rule ensures_sql) (auto simp: select_def)

lemma ensures_pool_select: "(\<And>t. P t \<Longrightarrow> Q (q t) t) \<Longrightarrow> ensures P (pool_sql (select q)) Q"
  by (rule ensures_pool_sql) (auto simp: select_def)

text \<open>An attempt whose failure is ignored may have changed nothing, or what it does on success.\<close>

lemma attempt_keeps:
  assumes "keeps P m" and "atomic m" shows "keeps P (attempt m)"
  unfolding keeps_def
proof
  fix e w x w' assume P: "P (tabs w)" and run: "attempt m e w = (Inr x, w')"
  then have "w' = snd (m e w)" by (auto simp: attempt_def split: prod.splits)
  with atomic_keeps_any [OF assms(2,1) P] show "P (tabs w')" by simp
qed

text \<open>A failed statement does not change the tables.\<close>

lemma atomic_sql: "atomic (sql f)"
  by (auto simp: atomic_def sql_def Let_def split: if_splits sum.splits)

lemma atomic_pool_sql: "atomic (pool_sql f)"
  by (auto simp: atomic_def pool_sql_def Let_def split: if_splits sum.splits)

lemma atomic_ret: "atomic (ret x)"
  by (simp add: atomic_def ret_def)

lemma atomic_raise: "atomic (raise er)"
  by (simp add: atomic_def raise_def)

lemma atomic_require: "atomic (require b er)"
  by (simp add: require_def atomic_ret atomic_raise)

lemma atomic_on_error: "atomic m \<Longrightarrow> atomic (on_error m f)"
  by (fastforce simp: atomic_def on_error_def split: prod.splits sum.splits)

text \<open>Reading steps before the only writing one keep a computation atomic.\<close>

definition read_only :: "('t, 'a) db \<Rightarrow> bool" where
  "read_only m \<longleftrightarrow> (\<forall>e w. tabs (snd (m e w)) = tabs w)"

lemma read_onlyD: "read_only m \<Longrightarrow> m e w = (r, w') \<Longrightarrow> tabs w' = tabs w"
  unfolding read_only_def by (metis snd_conv)

lemma read_only_atomic: "read_only m \<Longrightarrow> atomic m"
  unfolding atomic_def by (blast dest: read_onlyD)

lemma read_only_ret: "read_only (ret x)"
  by (simp add: read_only_def ret_def)

lemma read_only_raise: "read_only (raise er)"
  by (simp add: read_only_def raise_def)

lemma read_only_require: "read_only (require b er)"
  by (simp add: require_def read_only_ret read_only_raise)

lemma read_only_call: "read_only (call r)"
  by (simp add: call_def read_only_ret read_only_raise split: sum.split)

lemma read_only_new_uuid: "read_only new_uuid"
  by (simp add: read_only_def new_uuid_def)

lemma read_only_time_now: "read_only time_now"
  by (simp add: read_only_def time_now_def)

lemma read_only_select: "read_only (sql (select q))"
  by (auto simp: read_only_def sql_def select_def Let_def)

lemma read_only_pool_select: "read_only (pool_sql (select q))"
  by (auto simp: read_only_def pool_sql_def select_def Let_def)

lemma read_only_pool_query:
  "(\<And>t x t'. f t = Inr (x, t') \<Longrightarrow> t' = t) \<Longrightarrow> read_only (pool_sql f)"
  by (auto simp: read_only_def pool_sql_def Let_def split: sum.splits)

lemma read_only_on_error: "read_only m \<Longrightarrow> read_only (on_error m f)"
  by (auto simp: read_only_def on_error_def split: prod.splits sum.splits) (metis snd_conv)+

lemma read_only_bind:
  "read_only m \<Longrightarrow> (\<And>x. read_only (f x)) \<Longrightarrow> read_only (bind m f)"
  unfolding read_only_def bind_def
  by (auto split: prod.splits sum.splits) (metis snd_conv)+

lemma read_only_seq: "read_only m \<Longrightarrow> read_only n \<Longrightarrow> read_only (seq m n)"
  unfolding seq_def by (rule read_only_bind)

lemma atomic_bind:
  "read_only m \<Longrightarrow> (\<And>x. atomic (f x)) \<Longrightarrow> atomic (bind m f)"
  unfolding atomic_def bind_def
  by (fastforce split: prod.splits sum.splits dest: read_onlyD)

lemma atomic_seq: "read_only m \<Longrightarrow> atomic n \<Longrightarrow> atomic (seq m n)"
  unfolding seq_def by (rule atomic_bind)

lemma atomic_then_ret: "atomic m \<Longrightarrow> atomic (bind m (\<lambda>x. ret (f x)))" "atomic m \<Longrightarrow> atomic (seq m (ret y))"
  unfolding atomic_def seq_def bind_def ret_def by (fastforce split: prod.splits sum.splits)+

lemma read_only_ensures: "read_only m \<Longrightarrow> ensures P m (\<lambda>_. P)"
  unfolding ensures_def by (metis read_onlyD)

lemma read_only_if: "read_only m \<Longrightarrow> read_only n \<Longrightarrow> read_only (if b then m else n)"
  by simp

lemma read_only_option:
  "read_only m \<Longrightarrow> (\<And>y. read_only (f y)) \<Longrightarrow> read_only (case x of None \<Rightarrow> m | Some y \<Rightarrow> f y)"
  by (cases x) auto

lemmas read_only_intros =
  read_only_if read_only_option read_only_call read_only_ret read_only_raise read_only_require read_only_new_uuid read_only_time_now
  read_only_select read_only_pool_select read_only_on_error read_only_bind read_only_seq

lemmas atomic_intros =
  atomic_ret atomic_raise atomic_require atomic_sql atomic_pool_sql atomic_on_error
  atomic_bind atomic_seq

lemma read_only_attempt: "read_only m \<Longrightarrow> read_only (attempt m)"
  unfolding read_only_def attempt_def by (auto split: prod.splits) (metis snd_conv)

lemma bind_ret: "bind (ret x) f = f x"
  by (simp add: bind_def ret_def)

text \<open>Composition of invariant preservation.\<close>

lemma keeps_read_only: "read_only m \<Longrightarrow> keeps P m"
  unfolding keeps_def by (rule read_only_ensures)

lemma keeps_ret: "keeps P (ret x)"
  by (rule keeps_read_only [OF read_only_ret])

lemma keeps_raise: "keeps P (raise er)"
  by (rule keeps_read_only [OF read_only_raise])

lemma keeps_bind: "keeps P m \<Longrightarrow> (\<And>x. keeps P (f x)) \<Longrightarrow> keeps P (bind m f)"
  unfolding keeps_def by (rule ensures_bind)

lemma keeps_seq: "keeps P m \<Longrightarrow> keeps P n \<Longrightarrow> keeps P (seq m n)"
  unfolding seq_def by (rule keeps_bind)

lemma keeps_require: "keeps P (require b er)"
  by (rule keeps_read_only [OF read_only_require])

lemma keeps_on_error: "keeps P m \<Longrightarrow> keeps P (on_error m f)"
  unfolding keeps_def by (rule ensures_on_error)

lemma keeps_for_each: "(\<And>x. x \<in> set xs \<Longrightarrow> keeps P (f x)) \<Longrightarrow> keeps P (for_each xs f)"
  unfolding keeps_def by (rule ensures_for_each)

lemma keeps_do_when: "(b \<Longrightarrow> keeps P m) \<Longrightarrow> keeps P (do_when b m)"
  by (simp add: do_when_def keeps_ret)

lemma keeps_new_uuid: "keeps P new_uuid"
  by (rule keeps_read_only [OF read_only_new_uuid])

lemma keeps_time_now: "keeps P time_now"
  by (rule keeps_read_only [OF read_only_time_now])

lemma keeps_sql: "(\<And>t x t'. P t \<Longrightarrow> f t = Inr (x, t') \<Longrightarrow> P t') \<Longrightarrow> keeps P (sql f)"
  unfolding keeps_def by (rule ensures_sql)

lemma keeps_pool_sql: "(\<And>t x t'. P t \<Longrightarrow> f t = Inr (x, t') \<Longrightarrow> P t') \<Longrightarrow> keeps P (pool_sql f)"
  unfolding keeps_def by (rule ensures_pool_sql)

lemma keeps_attempt: "read_only m \<Longrightarrow> keeps P (attempt m)"
  by (rule keeps_read_only [OF read_only_attempt])

lemmas keeps_intros =
  keeps_ret keeps_raise keeps_bind keeps_seq keeps_require keeps_on_error keeps_for_each
  keeps_do_when keeps_new_uuid keeps_time_now

section \<open>The transaction laws\<close>

text \<open>
  A transaction is all or nothing, whatever its body does and whichever statement fails.
\<close>

lemma with_tx_atomic: "atomic (with_tx fb fc body)"
  unfolding atomic_def with_tx_def roll_back_def
  by (auto split: if_splits prod.splits sum.splits tx_end.splits)

lemma with_tx_ensures:
  assumes body: "ensures P body (\<lambda>x t. case x of Commit y \<Rightarrow> Q y t | CommitQuietly y \<Rightarrow> Q y t | Discard y \<Rightarrow> True)"
    and early: "\<And>y t. P t \<Longrightarrow> R y t"
    and imp: "\<And>y t. Q y t \<Longrightarrow> R y t"
  shows "ensures P (with_tx fb fc body) R"
proof
  fix e w x w'
  assume P: "P (tabs w)" and run: "with_tx fb fc body e w = (Inr x, w')"
  obtain r w1 where b: "body e (w\<lparr>nstmt := Suc (nstmt w), aborted := False\<rparr>) = (r, w1)"
    by fastforce
  from run b obtain y where r: "r = Inr y"
    by (cases r) (auto simp: with_tx_def split: if_splits)
  have "case y of Commit z \<Rightarrow> Q z (tabs w1) | CommitQuietly z \<Rightarrow> Q z (tabs w1) | Discard z \<Rightarrow> True"
    using ensuresD [OF body, of "w\<lparr>nstmt := Suc (nstmt w), aborted := False\<rparr>" e y w1] P b r by simp
  with run b r P show "R x (tabs w')"
    by (cases y) (auto simp: with_tx_def roll_back_def intro: early imp split: if_splits)
qed

lemma with_tx_keeps:
  assumes "keeps P body" shows "keeps P (with_tx fb fc body)"
  unfolding keeps_def
  by (rule with_tx_ensures [where Q = "\<lambda>_. P"])
    (use assms in \<open>auto simp: keeps_def ensures_def split: tx_end.splits\<close>)

lemma WithTransaction_atomic: "atomic (WithTransaction fn)"
  unfolding WithTransaction_def by (rule with_tx_atomic)

lemma WithTransaction_keeps: "keeps P fn \<Longrightarrow> keeps P (WithTransaction fn)"
  unfolding WithTransaction_def keeps_def
  by (rule with_tx_keeps [unfolded keeps_def], rule ensures_bind, assumption, rule ensures_ret)

text \<open>A successful transaction committed what its function returned.\<close>

lemma WithTransaction_ok:
  assumes "WithTransaction fn e w = (Inr x, w')"
  shows "\<exists>w1. fn e (w\<lparr>nstmt := Suc (nstmt w), aborted := False\<rparr>) = (Inr x, w1)
           \<and> tabs w' = tabs w1 \<and> \<not> aborted w1"
  using assms
  by (auto simp: WithTransaction_def with_tx_def bind_def ret_def
      split: if_splits prod.splits sum.splits)

section \<open>Successful runs\<close>

text \<open>
  A successful run of a compound computation is a successful run of its parts, one after
  the other. These equations take a run apart into what each statement did, without a case
  split over the failures that did not happen.
\<close>

named_theorems run_ok \<open>successful runs, taken apart\<close>

lemma ret_ok [run_ok]: "ret x e w = (Inr y, w') \<longleftrightarrow> y = x \<and> w' = w"
  by (auto simp: ret_def)

lemma raise_ok [run_ok]: "raise er e w = (Inr y, w') \<longleftrightarrow> False"
  by (simp add: raise_def)

lemma bind_ok [run_ok]:
  "bind m f e w = (Inr y, w') \<longleftrightarrow> (\<exists>x w1. m e w = (Inr x, w1) \<and> f x e w1 = (Inr y, w'))"
  by (auto simp: bind_def split: prod.splits sum.splits)

lemma seq_ok [run_ok]:
  "seq m n e w = (Inr y, w') \<longleftrightarrow> (\<exists>x w1. m e w = (Inr x, w1) \<and> n e w1 = (Inr y, w'))"
  by (simp add: seq_def bind_ok)

lemma on_error_ok [run_ok]: "on_error m f e w = (Inr y, w') \<longleftrightarrow> m e w = (Inr y, w')"
  by (auto simp: on_error_def split: prod.splits sum.splits)

lemma require_ok [run_ok]: "require b er e w = (Inr y, w') \<longleftrightarrow> b \<and> w' = w"
  by (auto simp: require_def ret_def raise_def)

lemma do_when_ok [run_ok]:
  "do_when b m e w = (Inr y, w') \<longleftrightarrow> (if b then m e w = (Inr y, w') else w' = w)"
  by (auto simp: do_when_def ret_def)

lemma new_uuid_ok [run_ok]:
  "new_uuid e w = (Inr y, w') \<longleftrightarrow> y = uuid_at e (nuuid w) \<and> w' = w\<lparr>nuuid := Suc (nuuid w)\<rparr>"
  by (auto simp: new_uuid_def)

lemma time_now_ok [run_ok]: "time_now e w = (Inr y, w') \<longleftrightarrow> y = clock e \<and> w' = w"
  by (auto simp: time_now_def)

lemma sql_ok [run_ok]:
  "sql f e w = (Inr y, w') \<longleftrightarrow> \<not> aborted w \<and> \<not> fault e (nstmt w) \<and>
     (\<exists>t. f (tabs w) = Inr (y, t) \<and> w' = w\<lparr>nstmt := Suc (nstmt w), tabs := t\<rparr>)"
  by (auto simp: sql_def Let_def split: sum.splits)

lemma sql_effect: "sql f e w = (Inr x, w') \<Longrightarrow> f (tabs w) = Inr (x, tabs w')"
  by (auto simp: sql_ok)

lemma pool_sql_ok [run_ok]:
  "pool_sql f e w = (Inr y, w') \<longleftrightarrow> \<not> fault e (nstmt w) \<and>
     (\<exists>t. f (tabs w) = Inr (y, t) \<and> w' = w\<lparr>nstmt := Suc (nstmt w), tabs := t\<rparr>)"
  by (auto simp: pool_sql_def Let_def split: sum.splits)

lemma call_ok [run_ok]: "call r e w = (Inr y, w') \<longleftrightarrow> r = Inr y \<and> w' = w"
  by (auto simp: call_def ret_def raise_def split: sum.splits)

lemma select_ok [run_ok]: "select q t = Inr (y, t') \<longleftrightarrow> y = q t \<and> t' = t"
  by (auto simp: select_def)

lemma attempt_ok [run_ok]: "attempt m e w = (Inr r, w') \<longleftrightarrow> m e w = (r, w')"
  by (auto simp: attempt_def split: prod.splits)

lemma sql_select_eq:
  "sql (select q) e w =
     (if aborted w then (Inl TxAborted, w\<lparr>nstmt := Suc (nstmt w)\<rparr>)
      else if fault e (nstmt w) then (Inl StmtFailed, w\<lparr>nstmt := Suc (nstmt w), aborted := True\<rparr>)
      else (Inr (q (tabs w)), w\<lparr>nstmt := Suc (nstmt w)\<rparr>))"
  by (simp add: sql_def select_def Let_def)

lemma sql_failed_aborted: "sql f e w = (Inl er, w') \<Longrightarrow> aborted w'"
  by (auto simp: sql_def Let_def split: if_splits sum.splits)

lemma for_each_Nil_ok [run_ok]: "for_each [] f e w = (Inr y, w') \<longleftrightarrow> w' = w"
  by (simp add: ret_ok)

lemma with_tabs_simps [simp]:
  "tabs (with_tabs t w) = t" "aborted (with_tabs t w) = aborted w" "nstmt (with_tabs t w) = nstmt w"
  "nuuid (with_tabs t w) = nuuid w" "sent (with_tabs t w) = sent w" "nsend (with_tabs t w) = nsend w"
  by (simp_all add: with_tabs_def)

lemma zoom_ok [run_ok]:
  "zoom get put m e w = (Inr y, w') \<longleftrightarrow>
     (\<exists>w1. m e (with_tabs (get (tabs w)) w) = (Inr y, w1) \<and> w' = with_tabs (put (tabs w1) (tabs w)) w1)"
  by (auto simp: zoom_def split: prod.splits)

text \<open>All outcomes of a sequence, the failures included.\<close>

lemma bind_runs:
  "bind m f e w = (r, w') \<longleftrightarrow>
     (\<exists>er. m e w = (Inl er, w') \<and> r = Inl er) \<or> (\<exists>x w1. m e w = (Inr x, w1) \<and> f x e w1 = (r, w'))"
  by (auto simp: bind_def split: prod.splits sum.splits)

lemma require_runs:
  "seq (require b er) m e w = (r, w') \<longleftrightarrow> (if b then m e w = (r, w') else r = Inl er \<and> w' = w)"
  by (auto simp: seq_def bind_def require_def ret_def raise_def)

lemma attempt_runs: "bind (attempt m) f e w = (case m e w of (r, w1) \<Rightarrow> f r e w1)"
  by (auto simp: bind_def attempt_def split: prod.split)

lemma time_now_runs: "bind time_now f e w = f (clock e) e w"
  by (simp add: bind_def time_now_def)

lemma on_error_runs:
  "on_error m f e w = (r, w') \<longleftrightarrow> (\<exists>r1. m e w = (r1, w') \<and> r = (case r1 of Inl er \<Rightarrow> Inl (f er) | Inr x \<Rightarrow> Inr x))"
  by (auto simp: on_error_def split: prod.splits sum.splits)

text \<open>A read before: it ends the computation, or the rest starts from the same tables.\<close>

lemma read_first:
  assumes "bind m f e w = (r, w')" and "read_only m"
  obtains "tabs w' = tabs w" "\<exists>er. r = Inl er"
  | x w1 where "m e w = (Inr x, w1)" "tabs w1 = tabs w" "f x e w1 = (r, w')"
  using assms unfolding bind_runs by (blast dest: read_onlyD)

text \<open>The call whose error is ignored always returns.\<close>

definition ignore_error :: "('t, 'a) db \<Rightarrow> ('t, unit) db" where
  "ignore_error m = bind (attempt m) (\<lambda>_. ret ())"

lemma ignore_error_ok [run_ok]:
  "ignore_error m e w = (Inr y, w') \<longleftrightarrow> w' = snd (m e w)"
  by (auto simp: ignore_error_def bind_ok ret_ok attempt_def split: prod.splits)

text \<open>
  A transaction that returned a value committed, unless its body ended with a plain return
  or with a commit whose error is ignored.
\<close>

lemma with_tx_ok:
  assumes "with_tx fb fc body e w = (Inr x, w')"
  obtains (commit) w1 where "body e (w\<lparr>nstmt := Suc (nstmt w), aborted := False\<rparr>) = (Inr (Commit x), w1)"
      "tabs w' = tabs w1" "\<not> aborted w1"
  | (quiet) w1 where "body e (w\<lparr>nstmt := Suc (nstmt w), aborted := False\<rparr>) = (Inr (CommitQuietly x), w1)"
      "tabs w' = tabs w1 \<or> tabs w' = tabs w"
  | (discard) w1 where "body e (w\<lparr>nstmt := Suc (nstmt w), aborted := False\<rparr>) = (Inr (Discard x), w1)"
      "tabs w' = tabs w"
  using assms
  by (auto simp: with_tx_def roll_back_def split: if_splits prod.splits sum.splits tx_end.splits)

lemma with_tx_commitI:
  assumes "body e (w\<lparr>nstmt := Suc (nstmt w), aborted := False\<rparr>) = (Inr (Commit x), w1)"
    and "\<not> aborted w1" and "\<not> fault e (nstmt w)" and "\<not> fault e (nstmt w1)"
  shows "with_tx fb fc body e w = (Inr x, w1\<lparr>nstmt := Suc (nstmt w1), aborted := aborted w\<rparr>)"
  using assms by (simp add: with_tx_def)

text \<open>Attempts under the environments of a list: stop at the first success.\<close>

fun attempts ::
  "('t, 'a) db \<Rightarrow> env list \<Rightarrow> 't world \<Rightarrow> (go_error + 'a) option \<times> 't world" where
  "attempts m [] w = (None, w)"
| "attempts m [e] w = (case m e w of (r, w') \<Rightarrow> (Some r, w'))"
| "attempts m (e # e' # es) w =
     (case m e w of
        (Inr x, w') \<Rightarrow> (Some (Inr x), w')
      | (Inl er, w') \<Rightarrow> attempts m (e' # es) w')"

lemma attempts_induct:
  assumes "\<And>w. P [] w" and "\<And>e w. P [e] w"
    and "\<And>e e' es w. (\<And>w'. P (e' # es) w') \<Longrightarrow> P (e # e' # es) w"
  shows "P es w"
proof (induction es arbitrary: w rule: induct_list012)
  case (3 x y zs)
  then show ?case using assms(3) by blast
qed (use assms in auto)

section \<open>Invariants that see what was sent\<close>

text \<open>
  \<open>maintains I m\<close>: whatever the outcome, \<open>m\<close> takes worlds with \<open>I\<close> to worlds with \<open>I\<close>,
  where \<open>I\<close> relates the tables to the messages sent.
\<close>

definition maintains :: "('t \<Rightarrow> (string \<times> string \<times> string) list \<Rightarrow> bool) \<Rightarrow> ('t, 'a) db \<Rightarrow> bool" where
  "maintains I m \<longleftrightarrow>
     (\<forall>e w. I (tabs w) (sent w) \<longrightarrow> I (tabs (snd (m e w))) (sent (snd (m e w))))"

definition grows :: "('t, 'a) db \<Rightarrow> bool" where
  "grows m \<longleftrightarrow> (\<forall>e w. \<exists>l. sent (snd (m e w)) = sent w @ l)"

lemma maintainsD:
  "maintains I m \<Longrightarrow> I (tabs w) (sent w) \<Longrightarrow> m e w = (r, w') \<Longrightarrow> I (tabs w') (sent w')"
  unfolding maintains_def by (metis snd_conv)

lemma growsD: "grows m \<Longrightarrow> m e w = (r, w') \<Longrightarrow> \<exists>l. sent w' = sent w @ l"
  unfolding grows_def by (metis snd_conv)

lemma maintains_bind:
  assumes "maintains I m" and "\<And>x. maintains I (f x)" shows "maintains I (bind m f)"
  unfolding maintains_def
proof (intro allI impI)
  fix e and w :: "'a world" assume I: "I (tabs w) (sent w)"
  obtain r w1 where run: "m e w = (r, w1)" by fastforce
  with maintainsD [OF assms(1) I] have I1: "I (tabs w1) (sent w1)" by simp
  show "I (tabs (snd (bind m f e w))) (sent (snd (bind m f e w)))"
    using run I1 assms(2) unfolding maintains_def by (cases r) (simp_all add: bind_def)
qed

lemma grows_bind:
  assumes "grows m" and "\<And>x. grows (f x)" shows "grows (bind m f)"
  unfolding grows_def
proof (intro allI)
  fix e and w :: "'a world"
  obtain r w1 where run: "m e w = (r, w1)" by fastforce
  then obtain l where l: "sent w1 = sent w @ l" using growsD [OF assms(1)] by blast
  show "\<exists>l. sent (snd (bind m f e w)) = sent w @ l"
  proof (cases r)
    case (Inr x)
    obtain l' where "sent (snd (f x e w1)) = sent w1 @ l'" using assms(2) unfolding grows_def by blast
    with Inr run l show ?thesis by (simp add: bind_def)
  qed (use run l in \<open>simp add: bind_def\<close>)
qed

lemma maintains_seq: "maintains I m \<Longrightarrow> maintains I n \<Longrightarrow> maintains I (seq m n)"
  unfolding seq_def by (rule maintains_bind)

lemma grows_seq: "grows m \<Longrightarrow> grows n \<Longrightarrow> grows (seq m n)"
  unfolding seq_def by (rule grows_bind)

lemma maintains_attempt: "maintains I m \<Longrightarrow> maintains I (attempt m)"
  unfolding maintains_def attempt_def by (simp add: case_prod_beta)

lemma grows_attempt: "grows m \<Longrightarrow> grows (attempt m)"
  unfolding grows_def attempt_def by (simp add: case_prod_beta)

lemma maintains_on_error: "maintains I m \<Longrightarrow> maintains I (on_error m f)"
  unfolding maintains_def on_error_def by (auto simp: case_prod_beta split: sum.split)

lemma grows_on_error: "grows m \<Longrightarrow> grows (on_error m f)"
  unfolding grows_def on_error_def by (simp add: case_prod_beta split: sum.split)

lemma maintains_ret: "maintains I (ret x)" "maintains I (raise er)" "maintains I ctx_err"
  "maintains I (require b er)" "maintains I time_now" "maintains I new_uuid"
  by (simp_all add: maintains_def ret_def raise_def ctx_err_def require_def time_now_def new_uuid_def)

lemma grows_ret: "grows (ret x)" "grows (raise er)" "grows ctx_err"
  "grows (require b er)" "grows time_now" "grows new_uuid"
  by (simp_all add: grows_def ret_def raise_def ctx_err_def require_def time_now_def new_uuid_def)

lemma maintains_sql:
  "(\<And>t s x t'. I t s \<Longrightarrow> f t = Inr (x, t') \<Longrightarrow> I t' s) \<Longrightarrow> maintains I (sql f)"
proof -
  assume step: "\<And>t s x t'. I t s \<Longrightarrow> f t = Inr (x, t') \<Longrightarrow> I t' s"
  have ok: "I (tabs w) (sent w) \<Longrightarrow> f (tabs w) = Inr y \<Longrightarrow> I (snd y) (sent w)" for w y
    using step [of "tabs w" "sent w" "fst y" "snd y"] by simp
  show ?thesis
    unfolding maintains_def sql_def Let_def
    by (intro allI impI) (auto simp: case_prod_beta ok split: sum.split)
qed

lemma sent_sql [simp]:
  "sent (snd (sql f e w)) = sent w" "sent (snd (pool_sql f e w)) = sent w"
  by (auto simp: sql_def pool_sql_def Let_def split: sum.splits)

lemma grows_sql: "grows (sql f)" "grows (pool_sql f)"
  by (simp_all add: grows_def)

lemma maintains_pool_sql:
  "(\<And>t s x t'. I t s \<Longrightarrow> f t = Inr (x, t') \<Longrightarrow> I t' s) \<Longrightarrow> maintains I (pool_sql f)"
proof -
  assume step: "\<And>t s x t'. I t s \<Longrightarrow> f t = Inr (x, t') \<Longrightarrow> I t' s"
  have ok: "I (tabs w) (sent w) \<Longrightarrow> f (tabs w) = Inr y \<Longrightarrow> I (snd y) (sent w)" for w y
    using step [of "tabs w" "sent w" "fst y" "snd y"] by simp
  show ?thesis
    unfolding maintains_def pool_sql_def Let_def
    by (intro allI impI) (auto simp: case_prod_beta ok split: sum.split)
qed

lemma maintains_publish:
  "(\<And>t s x. I t s \<Longrightarrow> I t (s @ [x])) \<Longrightarrow> maintains I (publish topic key i)"
  by (auto simp: maintains_def publish_def Let_def split: broker_answer.splits)

lemma grows_publish: "grows (publish topic key i)"
  by (auto simp: grows_def publish_def Let_def split: broker_answer.splits)

lemma grows_savepoint: "grows m \<Longrightarrow> grows (savepoint m)"
  unfolding grows_def savepoint_def roll_back_def by (simp add: case_prod_beta split: sum.split)

text \<open>Rolling back keeps an invariant that more messages cannot break.\<close>

lemma mono_sent:
  assumes "\<And>t s x. I t s \<Longrightarrow> I t (s @ [x])" and "I t s" shows "I t (s @ l)"
  using assms by (induction l rule: rev_induct) (simp_all flip: append_assoc)

lemma maintains_savepoint:
  assumes "\<And>t s x. I t s \<Longrightarrow> I t (s @ [x])" and "maintains I m" and "grows m"
  shows "maintains I (savepoint m)"
  unfolding maintains_def
proof (intro allI impI)
  fix e and w :: "'a world" assume I: "I (tabs w) (sent w)"
  obtain r w1 where run: "m e w = (r, w1)" by fastforce
  obtain l where l: "sent w1 = sent w @ l" using growsD [OF assms(3) run] by blast
  show "I (tabs (snd (savepoint m e w))) (sent (snd (savepoint m e w)))"
    using run l I mono_sent [of I, OF assms(1) I] maintainsD [OF assms(2) I run]
    by (cases r) (simp_all add: savepoint_def roll_back_def)
qed

lemma maintains_with_tx:
  assumes "\<And>t s x. I t s \<Longrightarrow> I t (s @ [x])" and "maintains I body" and "grows body"
  shows "maintains I (with_tx fb fc body)"
  unfolding maintains_def
proof (intro allI impI)
  fix e and w :: "'a world" assume I: "I (tabs w) (sent w)"
  let ?w0 = "w\<lparr>nstmt := Suc (nstmt w), aborted := False\<rparr>"
  obtain r w1 where run: "body e ?w0 = (r, w1)" by fastforce
  obtain l where l: "sent w1 = sent w @ l" using growsD [OF assms(3) run] by auto
  have "I (tabs w1) (sent w1)" using maintainsD [OF assms(2) _ run] I by simp
  then show "I (tabs (snd (with_tx fb fc body e w))) (sent (snd (with_tx fb fc body e w)))"
    using run l I mono_sent [of I, OF assms(1) I]
    by (auto simp: with_tx_def roll_back_def split: sum.split tx_end.split)
qed

lemmas maintains_intros =
  maintains_ret maintains_bind maintains_seq maintains_attempt maintains_on_error

lemmas grows_intros =
  grows_ret grows_bind grows_seq grows_attempt grows_on_error grows_sql grows_publish
  grows_savepoint

section \<open>The interface of a transactional repository\<close>

text \<open>
  What the callers of a repository rely on: an operation that fails has not changed the
  tables and one that succeeds keeps the invariant of the tables. Redelivery (the Kafka
  consumers run a handler again after an error) and batches rest on these two laws only.
\<close>

text \<open>The weaker contract: whatever the outcome, the invariant survives.\<close>

definition always :: "('t \<Rightarrow> bool) \<Rightarrow> ('t, 'a) db \<Rightarrow> bool" where
  "always P m \<longleftrightarrow> (\<forall>e w. P (tabs w) \<longrightarrow> P (tabs (snd (m e w))))"

lemma alwaysD: "always P m \<Longrightarrow> P (tabs w) \<Longrightarrow> m e w = (r, w') \<Longrightarrow> P (tabs w')"
  unfolding always_def by (metis snd_conv)

lemma always_atomic: "atomic m \<Longrightarrow> keeps P m \<Longrightarrow> always P m"
  unfolding always_def by (blast intro: atomic_keeps_any)

lemma always_read_only: "read_only m \<Longrightarrow> always P m"
  by (simp add: always_def read_only_def)

lemma always_bind:
  assumes "always P m" and "\<And>x. always P (f x)" shows "always P (bind m f)"
  unfolding always_def
proof (intro allI impI)
  fix e and w :: "'a world" assume P: "P (tabs w)"
  obtain r w1 where run: "m e w = (r, w1)" by fastforce
  with alwaysD [OF assms(1) P] have P1: "P (tabs w1)" by simp
  show "P (tabs (snd (bind m f e w)))"
    using run P1 assms(2) unfolding always_def by (cases r) (simp_all add: bind_def)
qed

lemma always_seq: "always P m \<Longrightarrow> always P n \<Longrightarrow> always P (seq m n)"
  unfolding seq_def by (rule always_bind)

lemma always_on_error: "always P m \<Longrightarrow> always P (on_error m f)"
  unfolding always_def on_error_def by (auto simp: case_prod_beta split: sum.split)

lemma always_attempt: "always P m \<Longrightarrow> always P (attempt m)"
  unfolding always_def attempt_def by (simp add: case_prod_beta)

lemma always_ignore: "always P m \<Longrightarrow> always P (ignore_error m)"
  unfolding ignore_error_def
  by (rule always_bind [OF always_attempt always_read_only [OF read_only_ret]])

lemma always_option:
  "always P m \<Longrightarrow> (\<And>y. x = Some y \<Longrightarrow> always P (f y)) \<Longrightarrow> always P (case x of None \<Rightarrow> m | Some y \<Rightarrow> f y)"
  by (cases x) auto

lemma always_sum:
  "(\<And>a. x = Inl a \<Longrightarrow> always P (f a)) \<Longrightarrow> (\<And>b. x = Inr b \<Longrightarrow> always P (g b)) \<Longrightarrow> always P (case x of Inl a \<Rightarrow> f a | Inr b \<Rightarrow> g b)"
  by (cases x) auto

lemma always_pair: "(\<And>a b. x = (a, b) \<Longrightarrow> always P (f a b)) \<Longrightarrow> always P (case x of (a, b) \<Rightarrow> f a b)"
  by (cases x) auto

lemma always_if: "(b \<Longrightarrow> always P m) \<Longrightarrow> (\<not> b \<Longrightarrow> always P n) \<Longrightarrow> always P (if b then m else n)"
  by simp

lemma always_guard: "(b \<Longrightarrow> always P m) \<Longrightarrow> always P (seq (require b er) m)"
  by (cases b) (auto simp: always_def seq_def bind_def require_def ret_def raise_def)

text \<open>The steps that read nothing but the clock and the generator, and the shapes of the handlers.\<close>

lemmas always_plain = always_read_only [OF read_only_ret] always_read_only [OF read_only_raise]
  always_read_only [OF read_only_require] always_read_only [OF read_only_call]
  always_read_only [OF read_only_time_now] always_read_only [OF read_only_new_uuid]

lemmas always_shapes = always_guard always_bind always_seq always_on_error always_attempt always_ignore
  always_option always_sum always_pair always_if always_plain

text \<open>A step whose results are known to satisfy something, which the rest may rely on.\<close>

definition yields :: "('t \<Rightarrow> bool) \<Rightarrow> ('t, 'a) db \<Rightarrow> ('a \<Rightarrow> bool) \<Rightarrow> bool" where
  "yields P m Q \<longleftrightarrow> (\<forall>e w x w'. P (tabs w) \<longrightarrow> m e w = (Inr x, w') \<longrightarrow> Q x)"

lemma yieldsI: "(\<And>e w x w'. P (tabs w) \<Longrightarrow> m e w = (Inr x, w') \<Longrightarrow> Q x) \<Longrightarrow> yields P m Q"
  by (auto simp: yields_def)

lemma always_yields:
  assumes "always P m" and "yields P m Q" and "\<And>x. Q x \<Longrightarrow> always P (f x)" shows "always P (bind m f)"
  unfolding always_def
proof (intro allI impI)
  fix e and w :: "'a world" assume P: "P (tabs w)"
  obtain r w1 where run: "m e w = (r, w1)" by fastforce
  with alwaysD [OF assms(1) P] have P1: "P (tabs w1)" by simp
  show "P (tabs (snd (bind m f e w)))"
  proof (cases r)
    case (Inr x)
    with run P assms(2) have "Q x" unfolding yields_def by blast
    with run P1 Inr assms(3) show ?thesis unfolding always_def by (simp add: bind_def)
  qed (use run P1 in \<open>simp add: bind_def\<close>)
qed

section \<open>Both outcomes of a computation\<close>

text \<open>
  \<open>outcomes P m Q E\<close>: from tables with \<open>P\<close> a run of \<open>m\<close> ends with \<open>Q\<close> of its result, or with
  an error and \<open>E\<close>. Computations of several transactions are reasoned about with it: what
  the first ones committed stays when a later one fails.
\<close>

definition outcomes ::
  "('t \<Rightarrow> bool) \<Rightarrow> ('t, 'a) db \<Rightarrow> ('a \<Rightarrow> 't \<Rightarrow> bool) \<Rightarrow> ('t \<Rightarrow> bool) \<Rightarrow> bool" where
  "outcomes P m Q E \<longleftrightarrow> (\<forall>e w r w'. P (tabs w) \<longrightarrow> m e w = (r, w') \<longrightarrow>
     (case r of Inr x \<Rightarrow> Q x (tabs w') | Inl _ \<Rightarrow> E (tabs w')))"

lemma outcomesD:
  "outcomes P m Q E \<Longrightarrow> P (tabs w) \<Longrightarrow> m e w = (r, w') \<Longrightarrow>
     (case r of Inr x \<Rightarrow> Q x (tabs w') | Inl _ \<Rightarrow> E (tabs w'))"
  unfolding outcomes_def by blast

lemma always_outcomes: "always P m \<longleftrightarrow> outcomes P m (\<lambda>_. P) P"
proof
  assume "always P m"
  then show "outcomes P m (\<lambda>_. P) P" unfolding outcomes_def by (auto dest: alwaysD split: sum.split)
next
  assume o1: "outcomes P m (\<lambda>_. P) P"
  have "P (tabs (snd (m e w)))" if "P (tabs w)" for e w
    using outcomesD [OF o1 that, of e "fst (m e w)" "snd (m e w)"] by (simp split: sum.splits)
  then show "always P m" by (simp add: always_def)
qed

lemma outcomes_weaken:
  "outcomes P m Q E \<Longrightarrow> (\<And>t. P' t \<Longrightarrow> P t) \<Longrightarrow> (\<And>x t. Q x t \<Longrightarrow> Q' x t) \<Longrightarrow> (\<And>t. E t \<Longrightarrow> E' t)
   \<Longrightarrow> outcomes P' m Q' E'"
  unfolding outcomes_def by (fastforce split: sum.splits)

lemma outcomes_ret: "(\<And>t. P t \<Longrightarrow> Q x t) \<Longrightarrow> outcomes P (ret x) Q E"
  by (simp add: outcomes_def ret_def)

lemma outcomes_raise: "(\<And>t. P t \<Longrightarrow> E t) \<Longrightarrow> outcomes P (raise er) Q E"
  by (simp add: outcomes_def raise_def)

lemma outcomes_require:
  "(\<And>t. b \<Longrightarrow> P t \<Longrightarrow> Q () t) \<Longrightarrow> (\<And>t. P t \<Longrightarrow> E t) \<Longrightarrow> outcomes P (require b er) Q E"
  by (simp add: require_def outcomes_ret outcomes_raise)

lemma outcomes_read_only:
  assumes "read_only m" and "\<And>x t. P t \<Longrightarrow> Q x t" and "\<And>t. P t \<Longrightarrow> E t"
  shows "outcomes P m Q E"
  unfolding outcomes_def using assms(2,3) by (auto dest: read_onlyD [OF assms(1)] split: sum.split)

lemma outcomes_bind:
  assumes "outcomes P m R E" and "\<And>x. outcomes (R x) (f x) Q E"
  shows "outcomes P (bind m f) Q E"
  unfolding outcomes_def
proof (intro allI impI)
  fix e w r w'
  assume P: "P (tabs w)" and run: "bind m f e w = (r, w')"
  obtain r1 w1 where m: "m e w = (r1, w1)" by fastforce
  note first = outcomesD [OF assms(1) P m]
  show "case r of Inr x \<Rightarrow> Q x (tabs w') | Inl _ \<Rightarrow> E (tabs w')"
  proof (cases r1)
    case (Inr x)
    with first m run show ?thesis using outcomesD [OF assms(2), of x w1 e r w'] by (simp add: bind_def)
  qed (use first m run in \<open>auto simp: bind_def\<close>)
qed

lemma outcomes_seq:
  "outcomes P m (\<lambda>_. R) E \<Longrightarrow> outcomes R n Q E \<Longrightarrow> outcomes P (seq m n) Q E"
  unfolding seq_def by (rule outcomes_bind)

lemma outcomes_on_error: "outcomes P m Q E \<Longrightarrow> outcomes P (on_error m f) Q E"
  unfolding outcomes_def on_error_runs by (fastforce split: sum.splits)

lemma outcomes_attempt:
  "outcomes P m Q E \<Longrightarrow> outcomes P (attempt m) (\<lambda>r t. case r of Inr x \<Rightarrow> Q x t | Inl _ \<Rightarrow> E t) E'"
  unfolding outcomes_def attempt_def by (auto split: prod.splits)

lemma outcomes_ignore:
  assumes "outcomes P m (\<lambda>_. Q) Q" shows "outcomes P (ignore_error m) (\<lambda>_. Q) E"
proof -
  have "outcomes P (attempt m) (\<lambda>_. Q) E"
    by (rule outcomes_weaken [OF outcomes_attempt [OF assms]]) (auto split: sum.splits)
  then show ?thesis unfolding ignore_error_def by (rule outcomes_bind) (auto intro: outcomes_ret)
qed

lemma outcomes_if:
  "(b \<Longrightarrow> outcomes P m Q E) \<Longrightarrow> (\<not> b \<Longrightarrow> outcomes P n Q E) \<Longrightarrow> outcomes P (if b then m else n) Q E"
  by simp

lemma outcomes_guard:
  "(b \<Longrightarrow> outcomes P m Q E) \<Longrightarrow> (\<And>t. P t \<Longrightarrow> E t) \<Longrightarrow> outcomes P (seq (require b er) m) Q E"
  by (cases b) (auto simp: require_def seq_def outcomes_def bind_def ret_def raise_def)

lemma outcomes_reading:
  assumes "read_only m" and "\<And>x. outcomes P (f x) Q E" and "\<And>t. P t \<Longrightarrow> E t"
  shows "outcomes P (bind m f) Q E"
  by (rule outcomes_bind [OF outcomes_read_only [OF assms(1), of P "\<lambda>_. P" E] assms(2)]) (use assms(3) in auto)

lemma outcomes_pre: "(\<And>t. P t \<Longrightarrow> outcomes (\<lambda>t'. t' = t) m Q E) \<Longrightarrow> outcomes P m Q E"
  unfolding outcomes_def by blast

lemma outcomes_pure: "(\<And>t. P t \<Longrightarrow> F) \<Longrightarrow> (F \<Longrightarrow> outcomes P m Q E) \<Longrightarrow> outcomes P m Q E"
  unfolding outcomes_def by blast

text \<open>A transaction that only ends with a commit: an error leaves the tables it found.\<close>

lemma outcomes_with_tx:
  assumes "\<And>e w x w'. P (tabs w) \<Longrightarrow> body e w = (Inr x, w') \<Longrightarrow> \<exists>y. x = Commit y \<and> Q y (tabs w')"
  shows "outcomes P (with_tx fb fc body) Q P"
  unfolding outcomes_def
proof (intro allI impI)
  fix e w r w'
  assume P: "P (tabs w)" and run: "with_tx fb fc body e w = (r, w')"
  show "case r of Inr x \<Rightarrow> Q x (tabs w') | Inl _ \<Rightarrow> P (tabs w')"
  proof (cases r)
    case (Inl er)
    with run have "tabs w' = tabs w" by (simp add: atomicD [OF with_tx_atomic])
    with P Inl show ?thesis by simp
  next
    case (Inr x)
    from run [unfolded Inr] show ?thesis
      using assms [of "w\<lparr>nstmt := Suc (nstmt w), aborted := False\<rparr>" e] P Inr
      by (cases rule: with_tx_ok) fastforce+
  qed
qed

lemma outcomes_atomic:
  assumes "atomic m" and "\<And>e w x w'. P (tabs w) \<Longrightarrow> m e w = (Inr x, w') \<Longrightarrow> Q x (tabs w')"
  shows "outcomes P m Q P"
  unfolding outcomes_def using assms(2) by (auto dest: atomicD [OF assms(1)] split: sum.split)

lemma outcomes_pool_sql:
  "(\<And>t x t'. P t \<Longrightarrow> f t = Inr (x, t') \<Longrightarrow> Q x t') \<Longrightarrow> (\<And>t. P t \<Longrightarrow> E t) \<Longrightarrow> outcomes P (pool_sql f) Q E"
  unfolding outcomes_def pool_sql_def by (auto simp: Let_def split: if_splits sum.splits)

section \<open>Locales\<close>

locale stable_operation =
  fixes op :: "('t, 'a) db"
    and inv :: "'t \<Rightarrow> bool"
  assumes op_always: "always inv op"
begin

lemma runs_inv:
  assumes "inv (tabs w)" shows "inv (tabs (snd (attempts op es w)))"
  using assms
proof (induction es w rule: attempts_induct)
  case (2 e w)
  then show ?case using op_always by (auto simp: always_def split: prod.splits) (metis snd_conv)
next
  case (3 e e' es w)
  obtain r w1 where run: "op e w = (r, w1)" by fastforce
  with 3 alwaysD [OF op_always 3(2) run] show ?case by (cases r) auto
qed simp

end

locale tx_operation =
  fixes op :: "('t, 'a) db"
    and inv :: "'t \<Rightarrow> bool"
  assumes op_atomic: "atomic op"
    and op_keeps: "keeps inv op"
begin

lemma op_inv: "inv (tabs w) \<Longrightarrow> inv (tabs (snd (op e w)))"
  by (rule atomic_keeps_any [OF op_atomic op_keeps])

lemma attempts_inv: "inv (tabs w) \<Longrightarrow> inv (tabs (snd (attempts op es w)))"
proof (induction es w rule: attempts_induct)
  case (2 e w)
  then have "inv (tabs (snd (op e w)))" by (rule op_inv)
  then show ?case by (auto split: prod.splits)
next
  case (3 e e' es w)
  have step: "inv (tabs (snd (op e w)))" using 3(2) by (rule op_inv)
  obtain r w1 where run: "op e w = (r, w1)" by fastforce
  with step 3(1) show ?case by (cases r) auto
qed simp

text \<open>Failed attempts leave no trace: all of them failing leaves the tables as they were.\<close>

lemma attempts_failed: "attempts op es w = (Some (Inl er), w') \<Longrightarrow> tabs w' = tabs w"
proof (induction es w rule: attempts_induct)
  case (2 e w)
  then show ?case by (auto split: prod.splits dest: atomicD [OF op_atomic])
next
  case (3 e e' es w)
  obtain r w1 where run: "op e w = (r, w1)" by fastforce
  with 3 show ?case by (cases r) (auto dest: atomicD [OF op_atomic])
qed simp

text \<open>A success after failures is a success from the original tables.\<close>

lemma attempts_success:
  "attempts op es w = (Some (Inr x), w') \<Longrightarrow>
     \<exists>e w1. e \<in> set es \<and> tabs w1 = tabs w \<and> op e w1 = (Inr x, w')"
proof (induction es w rule: attempts_induct)
  case (2 e w)
  then show ?case by (auto split: prod.splits)
next
  case (3 e e' es w)
  obtain r w1 where run: "op e w = (r, w1)" by fastforce
  show ?case
  proof (cases r)
    case (Inr y)
    with 3(2) run show ?thesis by auto
  next
    case (Inl er)
    with run have same: "tabs w1 = tabs w" by (auto dest: atomicD [OF op_atomic])
    from Inl run 3 have "\<exists>e2 w2. e2 \<in> set (e' # es) \<and> tabs w2 = tabs w1 \<and> op e2 w2 = (Inr x, w')"
      by simp
    with same show ?thesis by (metis list.set_intros(2))
  qed
qed simp

end

text \<open>An atomic operation that keeps the invariant is stable.\<close>

sublocale tx_operation \<subseteq> stable: stable_operation op inv
  by unfold_locales (rule always_atomic [OF op_atomic op_keeps])

text \<open>The same for transactions that wrap the error of the commit themselves.\<close>

lemma with_tx_by_run:
  assumes "with_tx_by fb body e w = (r, w')"
  obtains fc r1 where "with_tx fb fc body e w = (r1, w')" "r = (case r1 of Inl er \<Rightarrow> Inl er | Inr (_, x) \<Rightarrow> Inr x)"
  using assms by (auto simp: with_tx_by_def Let_def split: prod.splits sum.splits)

lemma with_tx_by_atomic: "atomic (with_tx_by fb body)"
  unfolding atomic_def by (auto elim!: with_tx_by_run split: sum.splits prod.splits dest: atomicD [OF with_tx_atomic])

lemma with_tx_by_keeps: "keeps P body \<Longrightarrow> keeps P (with_tx_by fb body)"
  unfolding keeps_def [of P "with_tx_by fb body"]
  by (rule ensuresI) (auto elim!: with_tx_by_run split: sum.splits prod.splits dest: keepsD [OF with_tx_keeps])

text \<open>A computation whose result does not matter.\<close>

definition void :: "('t, 'a) db \<Rightarrow> ('t, unit) db" where
  "void m = bind m (\<lambda>_. ret ())"

lemma atomic_void: "atomic m \<Longrightarrow> atomic (void m)"
  unfolding atomic_def void_def bind_def ret_def by (fastforce split: prod.splits sum.splits)

lemma keeps_void: "keeps P m \<Longrightarrow> keeps P (void m)"
  unfolding void_def by (intro keeps_bind keeps_ret)

lemma always_void: "always P m \<Longrightarrow> always P (void m)"
  unfolding void_def by (intro always_bind always_plain)

end
