(* ===== verification/Events.thy ===== *)
theory Events
  imports Db_Tx
begin

text \<open>
  The event envelope of \<open>contracts/events/envelope.go\<close> and the table
  \<open>outbox_events\<close> every service has. The body of an envelope (\<open>json.RawMessage\<close>) is a
  value of the event's type \<open>'d\<close>: marshalling these structs of strings, integers and
  times does not fail, and the JSON text itself is not modelled.
\<close>

record 'd EventEnvelope =
  EventID :: string
  EventType :: string
  AggregateID :: string
  EventVersion :: string
  Source :: string
  Timestamp :: int
  OccurredAt :: int
  CorrelationID :: string
  TraceID :: string
  EventData :: 'd
  Metadata :: "(string \<times> string) list"

definition NewEventEnvelopeWithAggregate ::
  "string \<Rightarrow> string \<Rightarrow> string \<Rightarrow> 'd \<Rightarrow> ('t, 'd EventEnvelope) db" where
  "NewEventEnvelopeWithAggregate ty src agg d =
     bind time_now (\<lambda>now.
     bind new_uuid (\<lambda>id.
     ret \<lparr>EventID = id, EventType = ty, AggregateID = agg, EventVersion = ''1.0'', Source = src,
          Timestamp = now, OccurredAt = now, CorrelationID = [], TraceID = [], EventData = d,
          Metadata = []\<rparr>))"

definition NewEventEnvelope :: "string \<Rightarrow> string \<Rightarrow> 'd \<Rightarrow> ('t, 'd EventEnvelope) db" where
  "NewEventEnvelope ty src d = NewEventEnvelopeWithAggregate ty src [] d"

datatype outbox_status = OutboxPending | OutboxPublished | OutboxFailed

instantiation outbox_status :: enum
begin

definition enum_outbox_status :: "outbox_status list" where
  "enum_outbox_status = [OutboxPending, OutboxPublished, OutboxFailed]"

definition enum_all_outbox_status :: "(outbox_status \<Rightarrow> bool) \<Rightarrow> bool" where
  "enum_all_outbox_status P \<longleftrightarrow> P OutboxPending \<and> P OutboxPublished \<and> P OutboxFailed"

definition enum_ex_outbox_status :: "(outbox_status \<Rightarrow> bool) \<Rightarrow> bool" where
  "enum_ex_outbox_status P \<longleftrightarrow> P OutboxPending \<or> P OutboxPublished \<or> P OutboxFailed"

instance
proof
  show univ: "(UNIV :: outbox_status set) = set enum_class.enum"
    unfolding enum_outbox_status_def by (auto intro: outbox_status.exhaust)
  show "distinct (enum_class.enum :: outbox_status list)"
    by (simp add: enum_outbox_status_def)
  show "enum_class.enum_all P \<longleftrightarrow> Ball UNIV P" for P :: "outbox_status \<Rightarrow> bool"
    unfolding enum_all_outbox_status_def univ by (simp add: enum_outbox_status_def)
  show "enum_class.enum_ex P \<longleftrightarrow> Bex UNIV P" for P :: "outbox_status \<Rightarrow> bool"
    unfolding enum_ex_outbox_status_def univ by (simp add: enum_outbox_status_def)
qed

end

text \<open>A row of \<open>outbox_events\<close>, with the struct \<open>Event\<close> of \<open>pkg/outbox/outbox.go\<close>.\<close>

record 'p outbox_row =
  ob_id :: string
  ob_aggregate_type :: string
  ob_aggregate_id :: string
  ob_event_type :: string
  ob_payload :: 'p
  ob_headers :: string
  ob_topic :: string
  ob_status :: outbox_status
  ob_retry_count :: int
  ob_next_retry_at :: "int option"
  ob_created_at :: int
  ob_updated_at :: "int option"
  ob_published_at :: "int option"

definition pg_unique :: "string \<Rightarrow> go_error" where
  "pg_unique cn = PgError ''23505'' cn"

definition pg_check :: "string \<Rightarrow> go_error" where
  "pg_check cn = PgError ''23514'' cn"

text \<open>\<open>INSERT INTO outbox_events\<close>: the primary key refuses a known identifier.\<close>

definition insert_outbox :: "'p outbox_row \<Rightarrow> 'p outbox_row list \<Rightarrow> go_error + 'p outbox_row list" where
  "insert_outbox r rs =
     (if ob_id r \<in> ob_id ` set rs then Inl (pg_unique ''outbox_events_pkey'') else Inr (rs @ [r]))"

lemma insert_outbox_ok [run_ok]:
  "insert_outbox r rs = Inr rs' \<longleftrightarrow> ob_id r \<notin> ob_id ` set rs \<and> rs' = rs @ [r]"
  by (auto simp: insert_outbox_def)

section \<open>Payloads the consumers read\<close>

text \<open>The structs of \<open>contracts/events/events.go\<close>, with the fields the handlers use.\<close>

record OrderItemPayload =
  op_product :: string
  op_quantity :: int

record OrderCreatedEvent =
  oc_order :: string
  oc_items :: "OrderItemPayload list"

record PaymentFailedEvent =
  pf_payment :: string
  pf_order :: string
  pf_reason :: string

record OrderCancelledEvent =
  ox_order :: string
  ox_reason :: string

record OrderConfirmedEvent =
  of_order :: string

record PaymentSuccessfulEvent =
  ps_payment :: string
  ps_order :: string

end
