(* ===== verification/Inventory_Repo.thy ===== *)
theory Inventory_Repo
  imports Events
begin

text \<open>
  The inventory service's tables and its repository
  (\<open>services/inventory-service/internal/model/inventory.go\<close>,
  \<open>internal/events/events.go\<close>, \<open>internal/repository/inventory_repository.go\<close>): every
  method, with its statements in order, the constraints of
  \<open>migrations/000001_init.sql\<close> and the outbox rows written in the same transaction.
  The theorems about these operations are in \<open>Inventory_Stock\<close>.
\<close>

section \<open>Data\<close>

datatype TransactionType =
  TransactionTypeRestock | TransactionTypeReserve | TransactionTypeRelease
| TransactionTypeAdjustment | TransactionTypeSale | TransactionTypeReturn | TransactionTypeCommit

datatype ReservationStatus =
  ReservationStatusReserved | ReservationStatusConfirmed | ReservationStatusReleased
| ReservationStatusExpired

record Inventory =
  inv_id :: string
  inv_warehouse :: "string option"
  inv_product :: string
  inv_variant :: "string option"
  inv_sku :: string
  inv_available :: int
  inv_reserved :: int
  inv_threshold :: int
  inv_created :: int
  inv_updated :: int

record InventoryTransaction =
  txn_id :: string
  txn_inventory :: string
  txn_type :: TransactionType
  txn_quantity :: int
  txn_reference :: "string option"
  txn_notes :: "string option"
  txn_created :: int

record InventoryReservation =
  res_id :: string
  res_order :: string
  res_product :: string
  res_variant :: "string option"
  res_quantity :: int
  res_status :: ReservationStatus
  res_expires :: int
  res_created :: int
  res_updated :: int

record ReserveItem =
  item_product :: string
  item_variant :: "string option"
  item_quantity :: int

text \<open>The events, fields in the order of \<open>internal/events/events.go\<close> after the event type.\<close>

datatype inv_event =
    InventoryCreatedEvent string "string option" string "string option" string int int int int
  | InventoryRestockedEvent string string "string option" int int int int
  | InventoryReservedEvent string string "string option" string string string int int int int int
  | InventoryReleasedEvent string string "string option" string string string int string int int int
  | InventoryCommittedEvent string string "string option" string string string int int int int
  | InventoryLowEvent string string "string option" string int int int int

record inv_tables =
  inventories :: "Inventory list"
  reservations :: "InventoryReservation list"
  transactions :: "InventoryTransaction list"
  outbox :: "inv_event EventEnvelope outbox_row list"
  warehouse_ids :: "string list"

type_synonym 'a inv_db = "(inv_tables, 'a) db"

section \<open>Statements and constraints\<close>

text \<open>The \<open>CHECK\<close> constraints and the column type of a row of \<open>inventories\<close>.\<close>

definition inv_row_ok :: "Inventory \<Rightarrow> bool" where
  "inv_row_ok r \<longleftrightarrow> 0 \<le> inv_available r \<and> 0 \<le> inv_reserved r \<and> 0 \<le> inv_threshold r \<and>
     int4 (inv_available r) \<and> int4 (inv_reserved r) \<and> int4 (inv_threshold r)"

text \<open>
  \<open>product_id = $1 AND variant_id IS NULL\<close> when the variant is nil or empty, and
  \<open>product_id = $1 AND variant_id = $2\<close> otherwise.
\<close>

definition match_pv :: "string \<Rightarrow> string option \<Rightarrow> Inventory \<Rightarrow> bool" where
  "match_pv p v r \<longleftrightarrow> inv_product r = p \<and>
     (if v = None \<or> v = Some [] then inv_variant r = None else inv_variant r = v)"

definition insert_inventory :: "Inventory \<Rightarrow> inv_tables \<Rightarrow> go_error + unit \<times> inv_tables" where
  "insert_inventory r t =
     (if inv_variant r = Some [] then Inl (PgError ''22P02'' ''variant_id'')
      else if \<not> inv_row_ok r then Inl (pg_check ''inventories_check'')
      else if inv_id r \<in> inv_id ` set (inventories t) then Inl (pg_unique ''inventories_pkey'')
      else if inv_sku r \<in> inv_sku ` set (inventories t) then Inl (pg_unique ''inventories_sku_key'')
      else if (inv_product r, inv_variant r) \<in> (\<lambda>q. (inv_product q, inv_variant q)) ` set (inventories t)
      then Inl (pg_unique (if inv_variant r = None then ''idx_inventories_product_null_variant''
                           else ''idx_inventories_product_variant''))
      else (case inv_warehouse r of
              Some wh \<Rightarrow>
                if wh \<in> set (warehouse_ids t) then Inr ((), t\<lparr>inventories := inventories t @ [r]\<rparr>)
                else Inl (PgError ''23503'' ''inventories_warehouse_id_fkey'')
            | None \<Rightarrow> Inr ((), t\<lparr>inventories := inventories t @ [r]\<rparr>)))"

text \<open>\<open>UPDATE inventories SET ... WHERE ... RETURNING\<close>: the first updated row, if any.\<close>

definition update_inventories ::
  "(Inventory \<Rightarrow> bool) \<Rightarrow> (Inventory \<Rightarrow> Inventory) \<Rightarrow> inv_tables \<Rightarrow>
     go_error + Inventory option \<times> inv_tables" where
  "update_inventories p f t =
     (if \<exists>r \<in> set (inventories t). p r \<and> \<not> inv_row_ok (f r)
      then Inl (pg_check ''inventories_check'')
      else Inr (map_option f (find p (inventories t)),
                t\<lparr>inventories := upd_where p f (inventories t)\<rparr>))"

definition insert_transaction :: "InventoryTransaction \<Rightarrow> inv_tables \<Rightarrow> go_error + unit \<times> inv_tables" where
  "insert_transaction x t =
     (if txn_id x \<in> txn_id ` set (transactions t) then Inl (pg_unique ''inventory_transactions_pkey'')
      else if txn_inventory x \<notin> inv_id ` set (inventories t)
      then Inl (PgError ''23503'' ''inventory_transactions_inventory_id_fkey'')
      else Inr ((), t\<lparr>transactions := transactions t @ [x]\<rparr>))"

text \<open>
  \<open>INSERT INTO inventory_reservations\<close>: \<open>id\<close> is the primary key, the quantity is
  positive and in range, and an empty variant is no UUID.
\<close>

definition insert_reservation :: "InventoryReservation \<Rightarrow> inv_tables \<Rightarrow> go_error + unit \<times> inv_tables" where
  "insert_reservation x t =
     (if res_variant x = Some [] then Inl (PgError ''22P02'' ''variant_id'')
      else if \<not> (0 < res_quantity x \<and> int4 (res_quantity x))
      then Inl (pg_check ''inventory_reservations_quantity_check'')
      else if res_id x \<in> res_id ` set (reservations t)
      then Inl (pg_unique ''inventory_reservations_pkey'')
      else Inr ((), t\<lparr>reservations := reservations t @ [x]\<rparr>))"

definition set_reservation_status ::
  "string \<Rightarrow> ReservationStatus \<Rightarrow> int \<Rightarrow> inv_tables \<Rightarrow> go_error + unit \<times> inv_tables" where
  "set_reservation_status i st now t =
     Inr ((), t\<lparr>reservations :=
       upd_where (\<lambda>r. res_id r = i \<and> res_status r = ReservationStatusReserved)
         (\<lambda>r. r\<lparr>res_status := st, res_updated := now\<rparr>) (reservations t)\<rparr>)"

lemma insert_reservation_ok [run_ok]:
  "insert_reservation x t = Inr (y, t') \<longleftrightarrow> res_variant x \<noteq> Some [] \<and> 0 < res_quantity x \<and>
     int4 (res_quantity x) \<and> res_id x \<notin> res_id ` set (reservations t) \<and>
     t' = t\<lparr>reservations := reservations t @ [x]\<rparr>"
  by (auto simp: insert_reservation_def)

lemma insert_transaction_ok [run_ok]:
  "insert_transaction x t = Inr (y, t') \<longleftrightarrow> txn_id x \<notin> txn_id ` set (transactions t) \<and>
     txn_inventory x \<in> inv_id ` set (inventories t) \<and>
     t' = t\<lparr>transactions := transactions t @ [x]\<rparr>"
  by (auto simp: insert_transaction_def)

lemma update_inventories_ok [run_ok]:
  "update_inventories p f t = Inr (y, t') \<longleftrightarrow>
     (\<forall>r \<in> set (inventories t). p r \<longrightarrow> inv_row_ok (f r)) \<and>
     y = map_option f (find p (inventories t)) \<and>
     t' = t\<lparr>inventories := upd_where p f (inventories t)\<rparr>"
  by (auto simp: update_inventories_def)

lemma insert_inventory_ok [run_ok]:
  "insert_inventory r t = Inr (y, t') \<longleftrightarrow> inv_variant r \<noteq> Some [] \<and> inv_row_ok r \<and>
     inv_id r \<notin> inv_id ` set (inventories t) \<and> inv_sku r \<notin> inv_sku ` set (inventories t) \<and>
     (inv_product r, inv_variant r) \<notin> (\<lambda>q. (inv_product q, inv_variant q)) ` set (inventories t) \<and>
     (\<forall>wh. inv_warehouse r = Some wh \<longrightarrow> wh \<in> set (warehouse_ids t)) \<and>
     t' = t\<lparr>inventories := inventories t @ [r]\<rparr>"
  unfolding insert_inventory_def by (cases "inv_warehouse r") auto

lemma set_reservation_status_ok [run_ok]:
  "set_reservation_status i st now t = Inr (y, t') \<longleftrightarrow>
     t' = t\<lparr>reservations :=
       upd_where (\<lambda>r. res_id r = i \<and> res_status r = ReservationStatusReserved)
         (\<lambda>r. r\<lparr>res_status := st, res_updated := now\<rparr>) (reservations t)\<rparr>"
  by (auto simp: set_reservation_status_def)

section \<open>The repository\<close>

definition writeOutboxEvent ::
  "string \<Rightarrow> string \<Rightarrow> string \<Rightarrow> string \<Rightarrow> inv_event \<Rightarrow> int \<Rightarrow> unit inv_db" where
  "writeOutboxEvent aggregateType aggregateID eventType topic payload createdAt =
     bind (NewEventEnvelope eventType ''inventory-service'' payload) (\<lambda>envelope.
     bind new_uuid (\<lambda>id.
     sql (\<lambda>t. case insert_outbox
        \<lparr>ob_id = id, ob_aggregate_type = aggregateType, ob_aggregate_id = aggregateID,
         ob_event_type = eventType, ob_payload = envelope, ob_headers = [], ob_topic = topic,
         ob_status = OutboxPending, ob_retry_count = 0, ob_next_retry_at = None,
         ob_created_at = createdAt, ob_updated_at = None, ob_published_at = None\<rparr> (outbox t) of
          Inl er \<Rightarrow> Inl er | Inr rs \<Rightarrow> Inr ((), t\<lparr>outbox := rs\<rparr>))))"

definition record_transaction ::
  "string \<Rightarrow> TransactionType \<Rightarrow> int \<Rightarrow> string option \<Rightarrow> string option \<Rightarrow> int \<Rightarrow> unit inv_db" where
  "record_transaction invID ty q ref notes now =
     bind new_uuid (\<lambda>id.
     sql (insert_transaction \<lparr>txn_id = id, txn_inventory = invID, txn_type = ty, txn_quantity = q,
       txn_reference = ref, txn_notes = notes, txn_created = now\<rparr>))"

text \<open>What a successful write adds to the outbox and to the ledger.\<close>

definition outbox_entry ::
  "env \<Rightarrow> nat \<Rightarrow> string \<Rightarrow> string \<Rightarrow> string \<Rightarrow> string \<Rightarrow> inv_event \<Rightarrow> int \<Rightarrow>
     inv_event EventEnvelope outbox_row" where
  "outbox_entry e n aggregateType aggregateID eventType topic payload createdAt =
     \<lparr>ob_id = uuid_at e (Suc n), ob_aggregate_type = aggregateType, ob_aggregate_id = aggregateID,
      ob_event_type = eventType,
      ob_payload = \<lparr>EventID = uuid_at e n, EventType = eventType, AggregateID = [],
        EventVersion = ''1.0'', Source = ''inventory-service'', Timestamp = clock e,
        OccurredAt = clock e, CorrelationID = [], TraceID = [], EventData = payload,
        Metadata = []\<rparr>,
      ob_headers = [], ob_topic = topic, ob_status = OutboxPending, ob_retry_count = 0,
      ob_next_retry_at = None, ob_created_at = createdAt, ob_updated_at = None,
      ob_published_at = None\<rparr>"

lemma writeOutboxEvent_ok [run_ok]:
  "writeOutboxEvent a b c d p now e w = (Inr y, w') \<longleftrightarrow>
     \<not> aborted w \<and> \<not> fault e (nstmt w) \<and>
     uuid_at e (Suc (nuuid w)) \<notin> ob_id ` set (outbox (tabs w)) \<and>
     w' = w\<lparr>nuuid := Suc (Suc (nuuid w)), nstmt := Suc (nstmt w),
       tabs := (tabs w)\<lparr>outbox := outbox (tabs w) @ [outbox_entry e (nuuid w) a b c d p now]\<rparr>\<rparr>"
  by (auto simp: writeOutboxEvent_def NewEventEnvelope_def NewEventEnvelopeWithAggregate_def
      run_ok insert_outbox_def outbox_entry_def split: if_splits)

lemma record_transaction_ok [run_ok]:
  "record_transaction i ty q ref notes now e w = (Inr y, w') \<longleftrightarrow>
     \<not> aborted w \<and> \<not> fault e (nstmt w) \<and>
     uuid_at e (nuuid w) \<notin> txn_id ` set (transactions (tabs w)) \<and>
     i \<in> inv_id ` set (inventories (tabs w)) \<and>
     w' = w\<lparr>nuuid := Suc (nuuid w), nstmt := Suc (nstmt w),
       tabs := (tabs w)\<lparr>transactions := transactions (tabs w) @
         [\<lparr>txn_id = uuid_at e (nuuid w), txn_inventory = i, txn_type = ty, txn_quantity = q,
           txn_reference = ref, txn_notes = notes, txn_created = now\<rparr>]\<rparr>\<rparr>"
  by (auto simp: record_transaction_def run_ok)

definition low_event :: "Inventory \<Rightarrow> int \<Rightarrow> inv_event" where
  "low_event r now = InventoryLowEvent (inv_id r) (inv_product r) (inv_variant r) (inv_sku r)
     (inv_available r) (inv_reserved r) (inv_threshold r) now"

text \<open>
  The error of the insert in \<open>Create\<close>: a unique violation (SQLSTATE 23505) is a conflict,
  whose message depends on whether the constraint's text mentions the SKU; any other error
  is classified by its text.
\<close>

definition driver_text :: "go_error \<Rightarrow> string" where
  "driver_text er =
     (case er of
        ErrorString s \<Rightarrow> s
      | PgError code cn \<Rightarrow> ''ERROR: '' @ cn @ '' (SQLSTATE '' @ code @ '')''
      | _ \<Rightarrow> [])"

definition sku_conflict :: "string \<Rightarrow> go_error" where
  "sku_conflict text =
     (if Contains text ''sku'' then Conflict ''inventory with this SKU already exists''
      else Conflict ''inventory already exists for this product/variant'')"

definition create_error :: "go_error \<Rightarrow> go_error" where
  "create_error er =
     (let errStr = ToLower (driver_text er);
          other = (if Contains errStr ''23505'' \<or> Contains errStr ''duplicate key''
                   then sku_conflict errStr
                   else Internal (Some er) ''failed to insert inventory'') in
      case er of
        PgError code cn \<Rightarrow> if code = ''23505'' then sku_conflict (ToLower cn) else other
      | _ \<Rightarrow> other)"

definition Create :: "Inventory option \<Rightarrow> int \<Rightarrow> string \<Rightarrow> Inventory inv_db" where
  "Create invp initialQuantity notes =
     (case invp of
        None \<Rightarrow> raise (BadRequest ''inventory data cannot be nil'')
      | Some inv0 \<Rightarrow>
     with_tx (wrap ''failed to start database transaction'')
             (wrap ''failed to commit inventory creation transaction'')
     (bind (if inv_id inv0 = [] then new_uuid else ret (inv_id inv0)) (\<lambda>id.
      bind time_now (\<lambda>now.
      bind (ret (inv0\<lparr>inv_id := id, inv_created := now, inv_updated := now\<rparr>)) (\<lambda>ivt.
      seq (on_error (sql (insert_inventory ivt)) create_error)
      (seq (do_when (0 < initialQuantity)
             (on_error
               (record_transaction (inv_id ivt) TransactionTypeRestock initialQuantity None
                 (Some (if notes = [] then ''Initial stock creation'' else notes)) now)
               (wrap ''failed to record initial inventory transaction'')))
      (seq (on_error
             (writeOutboxEvent ''INVENTORY'' (inv_id ivt) ''InventoryCreated''
               ''gocart.inventory.inventory-created''
               (InventoryCreatedEvent (inv_id ivt) (inv_warehouse ivt) (inv_product ivt)
                 (inv_variant ivt) (inv_sku ivt) (inv_available ivt) (inv_reserved ivt)
                 (inv_threshold ivt) now) now)
             (wrap ''failed to write outbox event''))
      (seq (do_when (inv_available ivt < inv_threshold ivt)
             (ignore_error
               (writeOutboxEvent ''INVENTORY'' (inv_id ivt) ''InventoryLow''
                 ''gocart.inventory.inventory-low'' (low_event ivt now) now)))
      (ret (Commit ivt))))))))))"

definition GetByID :: "string \<Rightarrow> Inventory inv_db" where
  "GetByID i =
     bind (on_error (pool_sql (select (\<lambda>t. find (\<lambda>r. inv_id r = i) (inventories t))))
            (wrap ''failed to get inventory by id'')) (\<lambda>r.
     case r of None \<Rightarrow> raise (NotFound ''inventory not found'') | Some ivt \<Rightarrow> ret ivt)"

definition GetByProductAndVariant :: "string \<Rightarrow> string option \<Rightarrow> Inventory inv_db" where
  "GetByProductAndVariant p v =
     bind (on_error (pool_sql (select (\<lambda>t. find (match_pv p v) (inventories t))))
            (wrap ''failed to get inventory by product and variant'')) (\<lambda>r.
     case r of None \<Rightarrow> raise (NotFound ''inventory not found for product/variant'')
     | Some ivt \<Rightarrow> ret ivt)"

definition Restock :: "string \<Rightarrow> int \<Rightarrow> string option \<Rightarrow> string option \<Rightarrow> Inventory inv_db" where
  "Restock i quantity refID notes =
     seq (require (0 < quantity) (BadRequest ''restock quantity must be greater than zero''))
     (with_tx (wrap ''failed to start restock transaction'')
              (wrap ''failed to commit restock transaction'')
     (bind time_now (\<lambda>now.
      bind (on_error
             (sql (update_inventories (\<lambda>r. inv_id r = i)
               (\<lambda>r. r\<lparr>inv_available := inv_available r + quantity, inv_updated := now\<rparr>)))
             (wrap ''failed to update inventory available quantity'')) (\<lambda>found.
      case found of
        None \<Rightarrow> raise (NotFound ''inventory not found for restocking'')
      | Some ivt \<Rightarrow>
      seq (on_error (record_transaction (inv_id ivt) TransactionTypeRestock quantity refID notes now)
            (wrap ''failed to record restock inventory transaction''))
      (seq (on_error
             (writeOutboxEvent ''INVENTORY'' (inv_id ivt) ''InventoryRestocked''
               ''gocart.inventory.inventory-restocked''
               (InventoryRestockedEvent (inv_id ivt) (inv_product ivt) (inv_variant ivt) quantity
                 (inv_available ivt) (inv_reserved ivt) now) now)
             (wrap ''failed to record restock outbox event''))
      (ret (Commit ivt)))))))"

record UpdateStockInput =
  us_inventory :: "string option"
  us_product :: "string option"
  us_variant :: "string option"
  us_quantity :: int

text \<open>\<open>strings.TrimSpace\<close> of a pointer's target, empty for nil.\<close>

definition trim_opt :: "string option \<Rightarrow> string" where
  "trim_opt p = (case p of None \<Rightarrow> [] | Some s \<Rightarrow> TrimSpace s)"

text \<open>The \<open>WHERE\<close> clause of \<open>UpdateStock\<close>; \<^const>\<open>None\<close> when neither identifier is given.\<close>

definition update_target :: "UpdateStockInput \<Rightarrow> (Inventory \<Rightarrow> bool) option" where
  "update_target input =
     (let invID = trim_opt (us_inventory input); prodID = trim_opt (us_product input);
          varID = trim_opt (us_variant input) in
      if invID \<noteq> [] then Some (\<lambda>r. inv_id r = invID)
      else if prodID \<noteq> [] then
        (if varID \<noteq> [] then Some (\<lambda>r. inv_product r = prodID \<and> inv_variant r = Some varID)
         else Some (\<lambda>r. inv_product r = prodID \<and> inv_variant r = None))
      else None)"

definition UpdateStock :: "UpdateStockInput \<Rightarrow> Inventory inv_db" where
  "UpdateStock input =
     seq (require (0 \<le> us_quantity input) (BadRequest ''quantity cannot be negative''))
     (with_tx (wrap ''failed to begin transaction'') (wrap ''failed to commit stock update'')
     (bind time_now (\<lambda>now.
      case update_target input of
        None \<Rightarrow> raise (BadRequest ''either inventory_id or product_id must be provided for stock update'')
      | Some target \<Rightarrow>
      bind (on_error
             (sql (update_inventories target
               (\<lambda>r. r\<lparr>inv_available := us_quantity input, inv_updated := now\<rparr>)))
             (wrap ''failed to update stock'')) (\<lambda>found.
      case found of
        None \<Rightarrow> raise (NotFound ''inventory not found for update'')
      | Some ivt \<Rightarrow>
      seq (on_error
            (record_transaction (inv_id ivt) TransactionTypeAdjustment (us_quantity input) None
              (Some (''Stock manually updated to '' @ itoa (us_quantity input))) now)
            (wrap ''failed to record stock adjustment transaction''))
      (seq (do_when (inv_available ivt < inv_threshold ivt)
             (ignore_error
               (writeOutboxEvent ''INVENTORY'' (inv_id ivt) ''InventoryLow''
                 ''gocart.inventory.inventory-low'' (low_event ivt now) now)))
      (ret (Commit ivt)))))))"

section \<open>Reservations\<close>

text \<open>One iteration of the loop of \<open>ReserveStock\<close>.\<close>

definition reserve_item :: "string \<Rightarrow> string \<Rightarrow> int \<Rightarrow> int \<Rightarrow> ReserveItem \<Rightarrow> unit inv_db" where
  "reserve_item reservationID orderID expiresAt now item =
     seq (require (0 < item_quantity item)
           (BadRequest (''invalid quantity '' @ itoa (item_quantity item) @ '' for product ''
              @ item_product item)))
     (bind (on_error
             (sql (select (\<lambda>t. find (match_pv (item_product item) (item_variant item)) (inventories t))))
             (wrap ''failed to lock inventory row for reservation'')) (\<lambda>found.
      case found of
        None \<Rightarrow> raise (NotFound (''inventory not found for product '' @ item_product item))
      | Some row \<Rightarrow>
      seq (require (item_quantity item \<le> inv_available row)
            (Conflict (''insufficient stock for product '' @ item_product item @ '': available ''
               @ itoa (inv_available row) @ '', requested '' @ itoa (item_quantity item))))
      (bind (ret (inv_available row - item_quantity item)) (\<lambda>newAvailable.
       bind (ret (inv_reserved row + item_quantity item)) (\<lambda>newReserved.
      seq (on_error
            (sql (update_inventories (\<lambda>r. inv_id r = inv_id row)
              (\<lambda>r. r\<lparr>inv_available := newAvailable, inv_reserved := newReserved, inv_updated := now\<rparr>)))
            (wrap ''failed to update stock for reservation''))
      (seq (on_error
             (sql (insert_reservation \<lparr>res_id = reservationID, res_order = orderID,
               res_product = item_product item, res_variant = item_variant item,
               res_quantity = item_quantity item, res_status = ReservationStatusReserved,
               res_expires = expiresAt, res_created = now, res_updated = now\<rparr>))
             (wrap ''failed to insert reservation record''))
      (seq (on_error
             (record_transaction (inv_id row) TransactionTypeReserve (item_quantity item)
               (Some orderID) (Some (''Stock reserved for order '' @ orderID)) now)
             (wrap ''failed to insert reservation transaction''))
      (seq (on_error
             (writeOutboxEvent ''INVENTORY'' (inv_id row) ''InventoryReserved''
               ''gocart.inventory.inventory-reserved''
               (InventoryReservedEvent (inv_id row) (item_product item) (item_variant item)
                 (inv_sku row) orderID reservationID (item_quantity item) newAvailable newReserved
                 (inv_threshold row) now) now)
             (wrap ''failed to record InventoryReserved outbox event''))
      (do_when (newAvailable < inv_threshold row)
        (on_error
          (writeOutboxEvent ''INVENTORY'' (inv_id row) ''InventoryLow''
            ''gocart.inventory.inventory-low''
            (InventoryLowEvent (inv_id row) (item_product item) (item_variant item) (inv_sku row)
              newAvailable newReserved (inv_threshold row) now) now)
          (wrap ''failed to record InventoryLow outbox event'')))))))))))"

definition live_reservation :: "string \<Rightarrow> InventoryReservation \<Rightarrow> bool" where
  "live_reservation orderID r \<longleftrightarrow> res_order r = orderID \<and>
     (res_status r = ReservationStatusReserved \<or> res_status r = ReservationStatusConfirmed)"

text \<open>The part of \<open>ReserveStock\<close> after the check for an existing reservation.\<close>

definition place_reservation :: "string \<Rightarrow> ReserveItem list \<Rightarrow> int \<Rightarrow> int \<Rightarrow> string tx_end inv_db" where
  "place_reservation orderID items expiresAt now =
     bind new_uuid (\<lambda>reservationID.
       seq (for_each items (reserve_item reservationID orderID expiresAt now))
           (ret (Commit reservationID)))"

definition ReserveStock :: "string \<Rightarrow> ReserveItem list \<Rightarrow> int \<Rightarrow> string inv_db" where
  "ReserveStock orderID items expiresAt =
     seq (require (items \<noteq> []) (BadRequest ''at least one item required for reservation''))
     (with_tx (wrap ''failed to begin reserve transaction'') (wrap ''failed to commit stock reservation'')
     (bind time_now (\<lambda>now.
      bind (attempt (sql (select (\<lambda>t. find (live_reservation orderID) (reservations t))))) (\<lambda>existing.
      case existing of
        Inr (Some r) \<Rightarrow>
          (if res_id r \<noteq> [] then ret (CommitQuietly (res_id r))
           else place_reservation orderID items expiresAt now)
      | _ \<Rightarrow> place_reservation orderID items expiresAt now))))"

record ReleaseStockInput =
  rl_reservation :: string
  rl_order :: string
  rl_reason :: string

record CommitStockInput =
  cm_reservation :: string
  cm_order :: string

text \<open>The rows both \<open>ReleaseStock\<close> and \<open>CommitStock\<close> lock.\<close>

definition select_reservations ::
  "string \<Rightarrow> string \<Rightarrow> inv_tables \<Rightarrow> InventoryReservation list" where
  "select_reservations reservationID orderID t =
     (if TrimSpace reservationID \<noteq> []
      then filter (\<lambda>r. res_id r = TrimSpace reservationID) (reservations t)
      else filter (\<lambda>r. res_order r = TrimSpace orderID) (reservations t))"

definition active :: "InventoryReservation \<Rightarrow> bool" where
  "active r \<longleftrightarrow> res_status r = ReservationStatusReserved"

definition release_row ::
  "ReservationStatus \<Rightarrow> string \<Rightarrow> string \<Rightarrow> int \<Rightarrow> InventoryReservation \<Rightarrow> unit inv_db" where
  "release_row targetStatus notes reason now row =
     bind (on_error
            (sql (update_inventories (match_pv (res_product row) (res_variant row))
              (\<lambda>r. r\<lparr>inv_available := inv_available r + res_quantity row,
                     inv_reserved := max (inv_reserved r - res_quantity row) 0,
                     inv_updated := now\<rparr>)))
            (wrap ''failed to return stock to available inventory'')) (\<lambda>found.
     case found of
       None \<Rightarrow> raise (Internal (Some (ErrorString ''no rows in result set''))
                      ''failed to return stock to available inventory'')
     | Some ivt \<Rightarrow>
     seq (on_error
           (record_transaction (inv_id ivt) TransactionTypeRelease (res_quantity row)
             (Some (res_order row)) (Some notes) now)
           (wrap ''failed to record release transaction''))
     (seq (on_error (sql (set_reservation_status (res_id row) targetStatus now))
            (wrap ''failed to update reservation status''))
     (on_error
       (writeOutboxEvent ''INVENTORY'' (inv_id ivt) ''InventoryReleased''
         ''gocart.inventory.inventory-released''
         (InventoryReleasedEvent (inv_id ivt) (res_product row) (res_variant row) (inv_sku ivt)
           (res_order row) (res_id row) (res_quantity row) reason (inv_available ivt)
           (inv_reserved ivt) now) now)
       (wrap ''failed to record InventoryReleased outbox event''))))"

definition release_status :: "string \<Rightarrow> ReservationStatus" where
  "release_status reason =
     (if EqualFold reason ''EXPIRED'' then ReservationStatusExpired else ReservationStatusReleased)"

definition release_notes :: "string \<Rightarrow> string" where
  "release_notes reason =
     (if blank reason then ''Stock released''
      else ''Stock released ('' @ TrimSpace reason @ '')'')"

definition ReleaseStock :: "ReleaseStockInput \<Rightarrow> unit inv_db" where
  "ReleaseStock input =
     seq (require (\<not> (blank (rl_reservation input) \<and> blank (rl_order input)))
           (BadRequest ''either reservation_id or order_id is required for release''))
     (with_tx (wrap ''failed to begin release transaction'') (wrap ''failed to commit release transaction'')
     (bind time_now (\<lambda>now.
      bind (on_error (sql (select (select_reservations (rl_reservation input) (rl_order input))))
             (wrap ''failed to fetch reservations for release'')) (\<lambda>allRows.
      seq (require (allRows \<noteq> []) (NotFound ''reservation not found''))
      (if filter active allRows = [] then ret (Discard ())
       else
         seq (for_each (filter active allRows)
               (release_row (release_status (rl_reason input)) (release_notes (rl_reason input))
                 (rl_reason input) now))
             (ret (Commit ())))))))"

definition commit_row :: "int \<Rightarrow> InventoryReservation \<Rightarrow> unit inv_db" where
  "commit_row now row =
     bind (on_error
            (sql (update_inventories (match_pv (res_product row) (res_variant row))
              (\<lambda>r. r\<lparr>inv_reserved := max (inv_reserved r - res_quantity row) 0,
                     inv_updated := now\<rparr>)))
            (wrap ''failed to deduct reserved stock for commit'')) (\<lambda>found.
     case found of
       None \<Rightarrow> raise (Internal (Some (ErrorString ''no rows in result set''))
                      ''failed to deduct reserved stock for commit'')
     | Some ivt \<Rightarrow>
     seq (on_error
           (record_transaction (inv_id ivt) TransactionTypeCommit (res_quantity row)
             (Some (res_order row)) (Some (''Stock committed for order '' @ res_order row)) now)
           (wrap ''failed to record commit transaction''))
     (seq (on_error (sql (set_reservation_status (res_id row) ReservationStatusConfirmed now))
            (wrap ''failed to update reservation status to CONFIRMED''))
     (on_error
       (writeOutboxEvent ''INVENTORY'' (inv_id ivt) ''InventoryCommitted''
         ''gocart.inventory.inventory-committed''
         (InventoryCommittedEvent (inv_id ivt) (res_product row) (res_variant row) (inv_sku ivt)
           (res_order row) (res_id row) (res_quantity row) (inv_available ivt)
           (inv_reserved ivt) now) now)
       (wrap ''failed to record InventoryCommitted outbox event''))))"

definition CommitStock :: "CommitStockInput \<Rightarrow> unit inv_db" where
  "CommitStock input =
     seq (require (\<not> (blank (cm_reservation input) \<and> blank (cm_order input)))
           (BadRequest ''either reservation_id or order_id is required for commit''))
     (with_tx (wrap ''failed to begin commit transaction'') (wrap ''failed to commit transaction'')
     (bind time_now (\<lambda>now.
      bind (on_error (sql (select (select_reservations (cm_reservation input) (cm_order input))))
             (wrap ''failed to fetch reservations for commit'')) (\<lambda>allRows.
      seq (require (allRows \<noteq> []) (NotFound ''reservation not found''))
      (if filter active allRows = [] then
         (if \<exists>r \<in> set allRows. res_status r = ReservationStatusConfirmed then ret (Discard ())
          else if \<exists>r \<in> set allRows. res_status r = ReservationStatusReleased
                 \<or> res_status r = ReservationStatusExpired
          then raise (Conflict ''cannot commit released or expired reservation'')
          else raise (Conflict ''reservation is not in a committable state''))
       else
         seq (for_each (filter active allRows) (commit_row now)) (ret (Commit ())))))))"

text \<open>The loop of \<open>ReleaseExpiredReservations\<close>: a failed release is not counted.\<close>

fun release_each :: "string list \<Rightarrow> int \<Rightarrow> int inv_db" where
  "release_each [] n = ret n"
| "release_each (i # is) n =
     bind (attempt (ReleaseStock \<lparr>rl_reservation = i, rl_order = [], rl_reason = ''EXPIRED''\<rparr>))
       (\<lambda>r. release_each is (case r of Inr _ \<Rightarrow> n + 1 | Inl _ \<Rightarrow> n))"

definition expired_ids :: "int \<Rightarrow> inv_tables \<Rightarrow> string list" where
  "expired_ids now t =
     remdups (map res_id (filter (\<lambda>r. active r \<and> res_expires r \<le> now) (reservations t)))"

definition ReleaseExpiredReservations :: "int inv_db" where
  "ReleaseExpiredReservations =
     bind time_now (\<lambda>now.
     bind (on_error (pool_sql (select (expired_ids now)))
            (wrap ''failed to query expired reservations'')) (\<lambda>ids.
     release_each ids 0))"

definition GetTransactionsByInventoryID ::
  "string \<Rightarrow> int \<Rightarrow> int \<Rightarrow> InventoryTransaction list inv_db" where
  "GetTransactionsByInventoryID inventoryID limit0 offset0 =
     (let lim = (if limit0 \<le> 0 then 20 else limit0); off = (if offset0 < 0 then 0 else offset0) in
      on_error
        (pool_sql (select (\<lambda>t. take (nat lim) (drop (nat off)
          (sort_key (\<lambda>x. - txn_created x)
            (filter (\<lambda>x. txn_inventory x = inventoryID) (transactions t)))))))
        (wrap ''failed to query inventory transactions''))"

end
