(* ===== verification/Inventory_Stock.thy ===== *)
theory Inventory_Stock
  imports Inventory_Repo
begin

text \<open>
  Correctness of the inventory repository: the invariant of its tables, what each operation
  does to them on success, and the refinement of an abstract stock ledger.
\<close>

section \<open>The invariant\<close>

definition pv :: "Inventory \<Rightarrow> string \<times> string option" where
  "pv r = (inv_product r, inv_variant r)"

text \<open>The quantity held by the active reservations of a product and variant.\<close>

definition held :: "string \<Rightarrow> string option \<Rightarrow> InventoryReservation list \<Rightarrow> int" where
  "held p v rs = sum_where (\<lambda>r. active r \<and> res_product r = p \<and> res_variant r = v) res_quantity rs"

definition stock_ok :: "Inventory list \<Rightarrow> InventoryReservation list \<Rightarrow> bool" where
  "stock_ok ivs rs \<longleftrightarrow>
     keyed inv_id ivs \<and> keyed pv ivs \<and> keyed res_id rs \<and>
     (\<forall>r \<in> set ivs. inv_row_ok r \<and> inv_reserved r = held (inv_product r) (inv_variant r) rs) \<and>
     (\<forall>r \<in> set rs. 0 < res_quantity r \<and> res_variant r \<noteq> Some [] \<and>
        (res_product r, res_variant r) \<in> pv ` set ivs)"

definition stock_inv :: "inv_tables \<Rightarrow> bool" where
  "stock_inv t \<longleftrightarrow> stock_ok (inventories t) (reservations t)"

lemma stock_okD:
  assumes "stock_ok ivs rs"
  shows "keyed inv_id ivs" "keyed pv ivs" "keyed res_id rs"
    "\<And>r. r \<in> set ivs \<Longrightarrow> inv_row_ok r"
    "\<And>r. r \<in> set ivs \<Longrightarrow> inv_reserved r = held (inv_product r) (inv_variant r) rs"
    "\<And>r. r \<in> set rs \<Longrightarrow> 0 < res_quantity r"
    "\<And>r. r \<in> set rs \<Longrightarrow> res_variant r \<noteq> Some []"
    "\<And>r. r \<in> set rs \<Longrightarrow> (res_product r, res_variant r) \<in> pv ` set ivs"
  using assms by (auto simp: stock_ok_def)

lemma match_pv_eq: "v \<noteq> Some [] \<Longrightarrow> match_pv p v r \<longleftrightarrow> pv r = (p, v)"
  by (auto simp: match_pv_def pv_def)

lemma held_Nil [simp]: "held p v [] = 0"
  by (simp add: held_def)

lemma held_Cons:
  "held p v (r # rs) =
     (if active r \<and> res_product r = p \<and> res_variant r = v then res_quantity r else 0) + held p v rs"
  by (simp add: held_def)

lemma held_snoc:
  "held p v (rs @ [r]) =
     held p v rs + (if active r \<and> res_product r = p \<and> res_variant r = v then res_quantity r else 0)"
  by (simp add: held_def)

lemma held_ge:
  assumes "stock_ok ivs rs" and "r \<in> set rs" and "active r"
  shows "res_quantity r \<le> held (res_product r) (res_variant r) rs"
  unfolding held_def
  by (rule sum_where_member) (use assms stock_okD(6) in \<open>auto intro: order_less_imp_le\<close>)

text \<open>Closing a reservation: the status update by identifier.\<close>

definition close_res ::
  "InventoryReservation \<Rightarrow> ReservationStatus \<Rightarrow> int \<Rightarrow> InventoryReservation list \<Rightarrow>
     InventoryReservation list" where
  "close_res x st now rs =
     upd_where (\<lambda>r. res_id r = res_id x \<and> res_status r = ReservationStatusReserved)
       (\<lambda>r. r\<lparr>res_status := st, res_updated := now\<rparr>) rs"

lemma keyed_close_res [simp]: "keyed res_id (close_res x st now rs) = keyed res_id rs"
  unfolding close_res_def by (rule keyed_upd_where) simp

lemma held_close_other:
  "res_id x \<notin> res_id ` set rs \<Longrightarrow> close_res x st now rs = rs"
  unfolding close_res_def by (rule upd_where_none) (metis image_eqI)

lemma held_close_res:
  assumes "keyed res_id rs" and "x \<in> set rs" and "active x" and "st \<noteq> ReservationStatusReserved"
  shows "held p v (close_res x st now rs) =
    held p v rs - (if res_product x = p \<and> res_variant x = v then res_quantity x else 0)"
  using assms
proof (induction rs)
  case (Cons r rs)
  show ?case
  proof (cases "r = x")
    case True
    with Cons.prems have "close_res x st now rs = rs" by (intro held_close_other) auto
    with True Cons.prems show ?thesis
      by (auto simp: close_res_def held_Cons active_def)
  next
    case False
    with Cons.prems have ne: "res_id r \<noteq> res_id x" by auto
    with Cons False show ?thesis
      by (auto simp: close_res_def held_Cons)
  qed
qed simp

lemma close_res_keeps_other:
  "r \<in> set rs \<Longrightarrow> res_id r \<noteq> res_id x \<Longrightarrow> r \<in> set (close_res x st now rs)"
  by (auto simp: close_res_def in_upd_where)

lemma in_close_res:
  "r \<in> set (close_res x st now rs) \<Longrightarrow>
     \<exists>q \<in> set rs. res_quantity r = res_quantity q \<and> res_product r = res_product q \<and>
       res_variant r = res_variant q \<and> res_id r = res_id q"
  by (fastforce simp: close_res_def in_upd_where)

text \<open>
  An update of the one inventory row of a product and variant, together with new
  reservation rows that hold the difference, keeps the invariant.
\<close>

lemma stock_ok_update:
  assumes ok: "stock_ok ivs rs"
    and shape: "\<And>r. inv_id (f r) = inv_id r \<and> pv (f r) = pv r"
    and rows: "\<And>r. r \<in> set ivs \<Longrightarrow> pv r = (p, v) \<Longrightarrow>
       inv_row_ok (f r) \<and> inv_reserved (f r) = held p v rs'"
    and others: "\<And>p' v'. (p', v') \<noteq> (p, v) \<Longrightarrow> held p' v' rs' = held p' v' rs"
    and res: "keyed res_id rs'"
      "\<And>r. r \<in> set rs' \<Longrightarrow> 0 < res_quantity r \<and> res_variant r \<noteq> Some [] \<and>
         (res_product r, res_variant r) \<in> pv ` set ivs"
  shows "stock_ok (upd_where (\<lambda>r. pv r = (p, v)) f ivs) rs'"
proof -
  let ?u = "upd_where (\<lambda>r. pv r = (p, v)) f ivs"
  have keys: "keyed inv_id ?u" "keyed pv ?u"
    using stock_okD(1,2) [OF ok] shape by (simp_all add: keyed_upd_where)
  have pvs: "pv ` set ?u = pv ` set ivs"
    using shape by (simp add: image_upd_where)
  have rows': "inv_row_ok r \<and> inv_reserved r = held (inv_product r) (inv_variant r) rs'"
    if r: "r \<in> set ?u" for r
  proof -
    from r obtain q where q: "q \<in> set ivs" "r = (if pv q = (p, v) then f q else q)"
      by (auto simp: in_upd_where)
    show ?thesis
    proof (cases "pv q = (p, v)")
      case True
      with q rows [of q] shape [of q] show ?thesis by (auto simp: pv_def)
    next
      case False
      then have "held (inv_product q) (inv_variant q) rs' = held (inv_product q) (inv_variant q) rs"
        by (intro others) (auto simp: pv_def)
      with False q stock_okD(4,5) [OF ok] show ?thesis by simp
    qed
  qed
  from keys res rows' pvs show ?thesis by (auto simp: stock_ok_def)
qed

text \<open>With unique keys, the row found by identifier and the row found by key are the same.\<close>

lemma upd_by_id_pv:
  assumes "stock_ok ivs rs" and "row \<in> set ivs"
  shows "upd_where (\<lambda>r. inv_id r = inv_id row) f ivs = upd_where (\<lambda>r. pv r = pv row) f ivs"
proof -
  have "\<forall>r \<in> set ivs. (inv_id r = inv_id row) = (pv r = pv row)"
    using assms stock_okD(1,2) [OF assms(1)] by (metis keyed_unique)
  then show ?thesis unfolding upd_where_def by (intro map_cong) auto
qed

lemma pv_row_unique:
  "stock_ok ivs rs \<Longrightarrow> r \<in> set ivs \<Longrightarrow> q \<in> set ivs \<Longrightarrow> pv r = pv q \<Longrightarrow> r = q"
  by (blast dest: stock_okD(2) keyed_unique)

section \<open>What a successful step does\<close>

text \<open>
  One iteration of \<open>ReserveStock\<close>: the row of the product has enough stock, the quantity
  moves from available to reserved, one reservation, one ledger entry and an
  \<open>InventoryReserved\<close> event are added, and an \<open>InventoryLow\<close> event when the new
  quantity is below the threshold.
\<close>

lemma reserve_item_run:
  assumes "reserve_item rid oid ex now it e w = (Inr u, w')"
  obtains row where
    "find (match_pv (item_product it) (item_variant it)) (inventories (tabs w)) = Some row"
    "0 < item_quantity it" "item_quantity it \<le> inv_available row"
    "item_variant it \<noteq> Some []" "int4 (item_quantity it)"
    "rid \<notin> res_id ` set (reservations (tabs w))"
    "\<forall>r \<in> set (inventories (tabs w)). inv_id r = inv_id row \<longrightarrow>
       inv_row_ok (r\<lparr>inv_available := inv_available row - item_quantity it,
         inv_reserved := inv_reserved row + item_quantity it, inv_updated := now\<rparr>)"
    "inventories (tabs w') = upd_where (\<lambda>r. inv_id r = inv_id row)
       (\<lambda>r. r\<lparr>inv_available := inv_available row - item_quantity it,
         inv_reserved := inv_reserved row + item_quantity it, inv_updated := now\<rparr>)
       (inventories (tabs w))"
    "reservations (tabs w') = reservations (tabs w) @
       [\<lparr>res_id = rid, res_order = oid, res_product = item_product it,
         res_variant = item_variant it, res_quantity = item_quantity it,
         res_status = ReservationStatusReserved, res_expires = ex, res_created = now,
         res_updated = now\<rparr>]"
    "map (\<lambda>x. (txn_inventory x, txn_type x, txn_quantity x)) (transactions (tabs w')) =
       map (\<lambda>x. (txn_inventory x, txn_type x, txn_quantity x)) (transactions (tabs w)) @
       [(inv_id row, TransactionTypeReserve, item_quantity it)]"
    "map ob_event_type (outbox (tabs w')) = map ob_event_type (outbox (tabs w)) @
       (if inv_available row - item_quantity it < inv_threshold row
        then [''InventoryReserved'', ''InventoryLow''] else [''InventoryReserved''])"
proof -
  from assms show thesis
    unfolding reserve_item_def
    by (auto simp: run_ok outbox_entry_def split: option.splits if_splits intro!: that)
qed

lemma reserve_item_keeps: "keeps stock_inv (reserve_item rid oid ex now it)"
  unfolding keeps_def
proof
  fix e w u w'
  assume inv0: "stock_inv (tabs w)" and run: "reserve_item rid oid ex now it e w = (Inr u, w')"
  let ?ivs = "inventories (tabs w)" and ?rs = "reservations (tabs w)"
  let ?p = "item_product it" and ?v = "item_variant it" and ?q = "item_quantity it"
  from inv0 have ok: "stock_ok ?ivs ?rs" by (simp add: stock_inv_def)
  from run show "stock_inv (tabs w')"
  proof (rule reserve_item_run)
    fix row :: Inventory
    let ?f = "\<lambda>r. r\<lparr>inv_available := inv_available row - ?q,
         inv_reserved := inv_reserved row + ?q, inv_updated := now\<rparr>"
    let ?x = "\<lparr>res_id = rid, res_order = oid, res_product = ?p, res_variant = ?v,
         res_quantity = ?q, res_status = ReservationStatusReserved, res_expires = ex,
         res_created = now, res_updated = now\<rparr>"
    assume found: "find (match_pv ?p ?v) ?ivs = Some row" and q: "0 < ?q" "?q \<le> inv_available row"
      and v: "?v \<noteq> Some []" and fresh: "rid \<notin> res_id ` set ?rs"
      and rows: "\<forall>r \<in> set ?ivs. inv_id r = inv_id row \<longrightarrow> inv_row_ok (?f r)"
      and ivs': "inventories (tabs w') = upd_where (\<lambda>r. inv_id r = inv_id row) ?f ?ivs"
      and rs': "reservations (tabs w') = ?rs @ [?x]"
    from found v have row: "row \<in> set ?ivs" "pv row = (?p, ?v)"
      by (auto dest: find_Some_in simp: match_pv_eq)
    have upd: "upd_where (\<lambda>r. inv_id r = inv_id row) ?f ?ivs = upd_where (\<lambda>r. pv r = (?p, ?v)) ?f ?ivs"
      using upd_by_id_pv [OF ok row(1)] row(2) by simp
    have "stock_ok (upd_where (\<lambda>r. pv r = (?p, ?v)) ?f ?ivs) (?rs @ [?x])"
    proof (rule stock_ok_update [OF ok])
      show "inv_id (?f r) = inv_id r \<and> pv (?f r) = pv r" for r by (simp add: pv_def)
      show "inv_row_ok (?f r) \<and> inv_reserved (?f r) = held ?p ?v (?rs @ [?x])"
        if r: "r \<in> set ?ivs" "pv r = (?p, ?v)" for r
      proof -
        from r row have "r = row" using pv_row_unique [OF ok] by simp
        with rows row stock_okD(5) [OF ok, of row] show ?thesis
          by (auto simp: held_snoc active_def pv_def)
      qed
      show "held p' v' (?rs @ [?x]) = held p' v' ?rs" if "(p', v') \<noteq> (?p, ?v)" for p' v'
        using that by (auto simp: held_snoc)
      show "keyed res_id (?rs @ [?x])" using fresh stock_okD(3) [OF ok] by (simp add: keyed_snoc)
      show "0 < res_quantity r \<and> res_variant r \<noteq> Some [] \<and> (res_product r, res_variant r) \<in> pv ` set ?ivs"
        if "r \<in> set (?rs @ [?x])" for r
        using that stock_okD(6,7,8) [OF ok] q v row by (auto simp: image_iff) metis
    qed
    then show ?thesis using ivs' rs' upd by (simp add: stock_inv_def)
  qed
qed

section \<open>Release and commit\<close>

text \<open>
  Both close an active reservation: the update \<open>f\<close> of the inventory row lowers the
  reserved quantity by the reservation's, one ledger entry and one event are added.
\<close>

definition closes ::
  "(Inventory \<Rightarrow> Inventory) \<Rightarrow> ReservationStatus \<Rightarrow> TransactionType \<Rightarrow> string \<Rightarrow> int \<Rightarrow>
     InventoryReservation \<Rightarrow> inv_tables \<Rightarrow> inv_tables \<Rightarrow> bool" where
  "closes f st ty ev now row t t' \<longleftrightarrow>
     (\<exists>r. find (match_pv (res_product row) (res_variant row)) (inventories t) = Some r \<and>
        map (\<lambda>x. (txn_inventory x, txn_type x, txn_quantity x)) (transactions t') =
          map (\<lambda>x. (txn_inventory x, txn_type x, txn_quantity x)) (transactions t) @
            [(inv_id (f r), ty, res_quantity row)]) \<and>
     (\<forall>r \<in> set (inventories t). match_pv (res_product row) (res_variant row) r \<longrightarrow> inv_row_ok (f r)) \<and>
     inventories t' = upd_where (match_pv (res_product row) (res_variant row)) f (inventories t) \<and>
     reservations t' = close_res row st now (reservations t) \<and>
     map ob_event_type (outbox t') = map ob_event_type (outbox t) @ [ev]"

definition release_upd :: "int \<Rightarrow> InventoryReservation \<Rightarrow> Inventory \<Rightarrow> Inventory" where
  "release_upd now row r = r\<lparr>inv_available := inv_available r + res_quantity row,
     inv_reserved := max (inv_reserved r - res_quantity row) 0, inv_updated := now\<rparr>"

definition commit_upd :: "int \<Rightarrow> InventoryReservation \<Rightarrow> Inventory \<Rightarrow> Inventory" where
  "commit_upd now row r = r\<lparr>inv_reserved := max (inv_reserved r - res_quantity row) 0,
     inv_updated := now\<rparr>"

lemma release_row_run:
  assumes "release_row st notes reason now row e w = (Inr u, w')"
  shows "closes (release_upd now row) st TransactionTypeRelease ''InventoryReleased'' now row
           (tabs w) (tabs w')"
  using assms unfolding release_row_def closes_def release_upd_def close_res_def
  by (auto simp: run_ok outbox_entry_def split: option.splits)

lemma commit_row_run:
  assumes "commit_row now row e w = (Inr u, w')"
  shows "closes (commit_upd now row) ReservationStatusConfirmed TransactionTypeCommit
           ''InventoryCommitted'' now row (tabs w) (tabs w')"
  using assms unfolding commit_row_def closes_def commit_upd_def close_res_def
  by (auto simp: run_ok outbox_entry_def split: option.splits)

lemma closes_keeps:
  assumes cl: "closes f st ty ev now row t t'"
    and inv0: "stock_inv t" and row: "row \<in> set (reservations t)" "active row"
    and st: "st \<noteq> ReservationStatusReserved"
    and f: "\<And>r. inv_id (f r) = inv_id r \<and> pv (f r) = pv r \<and>
              inv_reserved (f r) = max (inv_reserved r - res_quantity row) 0"
  shows "stock_inv t'"
proof -
  let ?p = "res_product row" and ?v = "res_variant row"
  from inv0 have ok: "stock_ok (inventories t) (reservations t)" by (simp add: stock_inv_def)
  have v: "?v \<noteq> Some []" using stock_okD(7) [OF ok row(1)] .
  have m: "match_pv ?p ?v = (\<lambda>r. pv r = (?p, ?v))" using v by (auto simp: match_pv_eq)
  have held': "held p v (close_res row st now (reservations t)) =
      held p v (reservations t) - (if ?p = p \<and> ?v = v then res_quantity row else 0)" for p v
    using held_close_res [OF stock_okD(3) [OF ok] row st] .
  have "stock_ok (upd_where (\<lambda>r. pv r = (?p, ?v)) f (inventories t))
          (close_res row st now (reservations t))"
  proof (rule stock_ok_update [OF ok])
    show "inv_id (f r) = inv_id r \<and> pv (f r) = pv r" for r using f by simp
    show "inv_row_ok (f r) \<and> inv_reserved (f r) = held ?p ?v (close_res row st now (reservations t))"
      if r: "r \<in> set (inventories t)" "pv r = (?p, ?v)" for r
    proof -
      have "inv_reserved r = held ?p ?v (reservations t)"
        using stock_okD(5) [OF ok r(1)] r(2) by (simp add: pv_def)
      moreover have "res_quantity row \<le> held ?p ?v (reservations t)"
        by (rule held_ge [OF ok row])
      ultimately show ?thesis
        using cl r m f [of r] by (auto simp: closes_def held')
    qed
    show "held p' v' (close_res row st now (reservations t)) = held p' v' (reservations t)"
      if "(p', v') \<noteq> (?p, ?v)" for p' v'
      using that by (auto simp: held')
    show "keyed res_id (close_res row st now (reservations t))"
      using stock_okD(3) [OF ok] by simp
    show "0 < res_quantity r \<and> res_variant r \<noteq> Some [] \<and>
        (res_product r, res_variant r) \<in> pv ` set (inventories t)"
      if "r \<in> set (close_res row st now (reservations t))" for r
      using in_close_res [OF that] stock_okD(6,7,8) [OF ok] by metis
  qed
  then show ?thesis using cl m by (simp add: closes_def stock_inv_def)
qed

text \<open>The loop over the active rows: closing one leaves the others active.\<close>

definition closable :: "InventoryReservation list \<Rightarrow> inv_tables \<Rightarrow> bool" where
  "closable rows t \<longleftrightarrow> stock_inv t \<and> keyed res_id rows \<and>
     (\<forall>r \<in> set rows. active r \<and> r \<in> set (reservations t))"

lemma closable_step:
  assumes "closable (row # rows) t" and "closes f st ty ev now row t t'"
    and "st \<noteq> ReservationStatusReserved"
    and "\<And>r. inv_id (f r) = inv_id r \<and> pv (f r) = pv r \<and>
           inv_reserved (f r) = max (inv_reserved r - res_quantity row) 0"
  shows "closable rows t'"
proof -
  have inv1: "stock_inv t'"
    by (rule closes_keeps [OF assms(2) _ _ _ assms(3,4)]) (use assms(1) in \<open>auto simp: closable_def\<close>)
  have "r \<in> set (reservations t')" if r: "r \<in> set rows" for r
  proof -
    from r assms(1) have "res_id r \<noteq> res_id row"
      unfolding closable_def keyed_Cons by (metis image_eqI)
    with r assms(1,2) show ?thesis
      by (auto simp: closable_def closes_def intro: close_res_keeps_other)
  qed
  with inv1 assms(1) show ?thesis by (auto simp: closable_def)
qed

lemma closable_loop:
  assumes body: "\<And>row e w u w'. body row e w = (Inr u, w') \<Longrightarrow>
      closes (f row) st ty ev now row (tabs w) (tabs w')"
    and st: "st \<noteq> ReservationStatusReserved"
    and f: "\<And>row r. inv_id (f row r) = inv_id r \<and> pv (f row r) = pv r \<and>
      inv_reserved (f row r) = max (inv_reserved r - res_quantity row) 0"
  shows "closable rows (tabs w) \<Longrightarrow> for_each rows body e w = (Inr u, w') \<Longrightarrow> stock_inv (tabs w')"
proof (induction rows arbitrary: w)
  case Nil
  then show ?case by (simp add: run_ok closable_def)
next
  case (Cons row rows)
  from Cons.prems(2) obtain x w1 where b: "body row e w = (Inr x, w1)"
    and rest: "for_each rows body e w1 = (Inr u, w')"
    by (auto simp: run_ok)
  have "closable rows (tabs w1)"
    by (rule closable_step [OF Cons.prems(1) body [OF b] st f])
  then show ?case using rest by (rule Cons.IH)
qed

lemma closable_selected:
  "stock_inv t \<Longrightarrow> closable (filter active (select_reservations i o' t)) t"
  by (auto simp: closable_def select_reservations_def stock_inv_def stock_ok_def keyed_def
      distinct_map_filter)

lemma release_upd_shape:
  "inv_id (release_upd now row r) = inv_id r \<and> pv (release_upd now row r) = pv r \<and>
   inv_reserved (release_upd now row r) = max (inv_reserved r - res_quantity row) 0"
  by (simp add: release_upd_def pv_def)

lemma commit_upd_shape:
  "inv_id (commit_upd now row r) = inv_id r \<and> pv (commit_upd now row r) = pv r \<and>
   inv_reserved (commit_upd now row r) = max (inv_reserved r - res_quantity row) 0"
  by (simp add: commit_upd_def pv_def)

section \<open>Every operation keeps the invariant and is all or nothing\<close>

lemma place_reservation_keeps: "keeps stock_inv (place_reservation oid its ex now)"
  unfolding place_reservation_def by (intro keeps_intros reserve_item_keeps)

lemma ReserveStock_keeps: "keeps stock_inv (ReserveStock oid its ex)"
  unfolding ReserveStock_def
  by (intro keeps_intros with_tx_keeps keeps_attempt read_only_select)
    (simp add: place_reservation_keeps keeps_ret split: sum.split option.split)

lemma release_status_closed [simp]: "release_status reason \<noteq> ReservationStatusReserved"
  by (simp add: release_status_def)

lemma release_loop:
  assumes "for_each rows (release_row st n rs now) e w = (Inr u, w')" and "closable rows (tabs w)"
    and "st \<noteq> ReservationStatusReserved"
  shows "stock_inv (tabs w')"
  by (rule closable_loop [where body = "release_row st n rs now" and f = "release_upd now",
        OF release_row_run assms(3) release_upd_shape assms(2,1)])

lemma commit_loop:
  assumes "for_each rows (commit_row now) e w = (Inr u, w')" and "closable rows (tabs w)"
  shows "stock_inv (tabs w')"
  by (rule closable_loop [where body = "commit_row now" and f = "commit_upd now",
        OF commit_row_run _ commit_upd_shape assms(2,1)]) simp_all

lemma ReleaseStock_keeps: "keeps stock_inv (ReleaseStock input)"
  unfolding ReleaseStock_def
proof (rule keeps_seq [OF keeps_require with_tx_keeps], unfold keeps_def, rule ensuresI, goal_cases)
  case (1 e w x w')
  let ?rows = "filter active (select_reservations (rl_reservation input) (rl_order input) (tabs w))"
  show ?case
  proof (cases "?rows = []")
    case True
    with 1 show ?thesis by (auto simp: run_ok)
  next
    case False
    with 1(2) have "for_each ?rows
        (release_row (release_status (rl_reason input)) (release_notes (rl_reason input))
          (rl_reason input) (clock e)) e (w\<lparr>nstmt := Suc (nstmt w)\<rparr>) = (Inr (), w')"
      by (auto simp: run_ok)
    then show ?thesis
      by (rule release_loop) (simp_all add: 1(1) closable_selected)
  qed
qed

lemma CommitStock_keeps: "keeps stock_inv (CommitStock input)"
  unfolding CommitStock_def
proof (rule keeps_seq [OF keeps_require with_tx_keeps], unfold keeps_def, rule ensuresI, goal_cases)
  case (1 e w x w')
  let ?rows = "filter active (select_reservations (cm_reservation input) (cm_order input) (tabs w))"
  show ?case
  proof (cases "?rows = []")
    case True
    with 1 show ?thesis by (auto simp: run_ok split: if_splits)
  next
    case False
    with 1(2) have "for_each ?rows (commit_row (clock e)) e (w\<lparr>nstmt := Suc (nstmt w)\<rparr>) = (Inr (), w')"
      by (auto simp: run_ok)
    then show ?thesis
      by (rule commit_loop) (simp_all add: 1(1) closable_selected)
  qed
qed

text \<open>Stock coming from outside: the reserved quantities stay as they are.\<close>

lemma stock_ok_adjust:
  assumes ok: "stock_ok ivs rs"
    and shape: "\<And>r. inv_id (f r) = inv_id r \<and> pv (f r) = pv r \<and> inv_reserved (f r) = inv_reserved r"
    and rows: "\<And>r. r \<in> set ivs \<Longrightarrow> p r \<Longrightarrow> inv_row_ok (f r)"
  shows "stock_ok (upd_where p f ivs) rs"
proof -
  have pvs: "pv ` set (upd_where p f ivs) = pv ` set ivs"
    using shape by (simp add: image_upd_where)
  have keys: "keyed inv_id (upd_where p f ivs)" "keyed pv (upd_where p f ivs)"
    using stock_okD(1,2) [OF ok] shape by (simp_all add: keyed_upd_where)
  have "inv_row_ok r \<and> inv_reserved r = held (inv_product r) (inv_variant r) rs"
    if "r \<in> set (upd_where p f ivs)" for r
    using that rows shape stock_okD(4,5) [OF ok] by (auto simp: in_upd_where pv_def)
  with keys pvs stock_okD(3,6,7,8) [OF ok] show ?thesis by (simp add: stock_ok_def)
qed

lemma held_no_row:
  assumes "stock_ok ivs rs" and "(p, v) \<notin> pv ` set ivs"
  shows "held p v rs = 0"
proof -
  have "filter (\<lambda>r. active r \<and> res_product r = p \<and> res_variant r = v) rs = []"
    using stock_okD(8) [OF assms(1)] assms(2) by (auto simp: filter_empty_conv)
  then show ?thesis by (simp add: held_def sum_where_def)
qed

lemma stock_ok_new:
  assumes "stock_ok ivs rs" and "inv_row_ok r" and "inv_reserved r = 0"
    and "inv_id r \<notin> inv_id ` set ivs" and "pv r \<notin> pv ` set ivs"
  shows "stock_ok (ivs @ [r]) rs"
proof -
  have "held (inv_product r) (inv_variant r) rs = 0"
    using held_no_row [OF assms(1), of "inv_product r" "inv_variant r"] assms(5) by (simp add: pv_def)
  with assms stock_okD [OF assms(1)] show ?thesis
    by (auto simp: stock_ok_def keyed_snoc)
qed

lemma writeOutboxEvent_keeps: "keeps stock_inv (writeOutboxEvent a b c d p now)"
  by (auto simp: keeps_def ensures_def run_ok stock_inv_def)

lemma record_transaction_keeps: "keeps stock_inv (record_transaction i ty q ref notes now)"
  by (auto simp: keeps_def ensures_def run_ok stock_inv_def)

lemma writeOutboxEvent_atomic: "atomic (writeOutboxEvent a b c d p now)"
  unfolding writeOutboxEvent_def NewEventEnvelope_def NewEventEnvelopeWithAggregate_def
  by (intro atomic_intros read_only_intros)

lemma ignore_outbox_keeps: "keeps stock_inv (ignore_error (writeOutboxEvent a b c d p now))"
  unfolding ignore_error_def
  by (intro keeps_intros attempt_keeps writeOutboxEvent_keeps writeOutboxEvent_atomic)

lemma adjust_keeps:
  assumes "\<And>r. inv_id (f r) = inv_id r \<and> pv (f r) = pv r \<and> inv_reserved (f r) = inv_reserved r"
  shows "keeps stock_inv (sql (update_inventories p f))"
proof (rule keeps_sql)
  fix t x t'
  assume "stock_inv t" and "update_inventories p f t = Inr (x, t')"
  then show "stock_inv t'"
    using assms by (auto simp: stock_inv_def run_ok intro!: stock_ok_adjust)
qed

lemma insert_inventory_keeps:
  assumes "inv_reserved r = 0"
  shows "keeps stock_inv (sql (insert_inventory r))"
proof (rule keeps_sql)
  fix t x t'
  assume "stock_inv t" and "insert_inventory r t = Inr (x, t')"
  then show "stock_inv t'"
    using assms by (auto simp: stock_inv_def run_ok pv_def [abs_def] intro!: stock_ok_new)
qed

lemma Create_keeps:
  assumes "inv_reserved inv0 = 0"
  shows "keeps stock_inv (Create (Some inv0) initialQuantity notes)"
  unfolding Create_def option.case bind_ret
proof (rule with_tx_keeps, rule keeps_bind)
  show "keeps stock_inv (if inv_id inv0 = [] then new_uuid else ret (inv_id inv0))"
    by (simp add: keeps_intros)
qed (intro keeps_intros ignore_outbox_keeps writeOutboxEvent_keeps record_transaction_keeps
       insert_inventory_keeps; simp add: assms)

lemma Restock_keeps: "keeps stock_inv (Restock i quantity refID notes)"
  unfolding Restock_def
  by (intro keeps_intros with_tx_keeps adjust_keeps)
    (auto simp: pv_def split: option.split
      intro!: keeps_intros writeOutboxEvent_keeps record_transaction_keeps)

lemma UpdateStock_keeps: "keeps stock_inv (UpdateStock input)"
proof -
  have body: "keeps stock_inv
    (bind (on_error (sql (update_inventories target (\<lambda>r. r\<lparr>inv_available := q, inv_updated := now\<rparr>))) f) g)"
    if "\<And>x. keeps stock_inv (g x)" for target q now f and g :: "Inventory option \<Rightarrow> Inventory tx_end inv_db"
    by (intro keeps_bind keeps_on_error adjust_keeps that) (simp add: pv_def)
  show ?thesis
    unfolding UpdateStock_def
    by (intro keeps_seq keeps_require with_tx_keeps keeps_bind [OF keeps_time_now])
      (auto split: option.split intro!: keeps_intros body ignore_outbox_keeps record_transaction_keeps)
qed

section \<open>All or nothing\<close>

lemma ReserveStock_atomic: "atomic (ReserveStock oid its ex)"
  unfolding ReserveStock_def by (intro atomic_seq read_only_require with_tx_atomic)

lemma ReleaseStock_atomic: "atomic (ReleaseStock input)"
  unfolding ReleaseStock_def by (intro atomic_seq read_only_require with_tx_atomic)

lemma CommitStock_atomic: "atomic (CommitStock input)"
  unfolding CommitStock_def by (intro atomic_seq read_only_require with_tx_atomic)

lemma Restock_atomic: "atomic (Restock i q ref notes)"
  unfolding Restock_def by (intro atomic_seq read_only_require with_tx_atomic)

lemma UpdateStock_atomic: "atomic (UpdateStock input)"
  unfolding UpdateStock_def by (intro atomic_seq read_only_require with_tx_atomic)

lemma Create_atomic: "atomic (Create invp q notes)"
  unfolding Create_def by (cases invp) (simp_all add: atomic_raise with_tx_atomic)

text \<open>The repository provides the interface its callers rely on.\<close>

interpretation reserve: tx_operation "ReserveStock oid its ex" stock_inv for oid its ex
  by unfold_locales (rule ReserveStock_atomic ReserveStock_keeps)+

interpretation release: tx_operation "ReleaseStock input" stock_inv for input
  by unfold_locales (rule ReleaseStock_atomic ReleaseStock_keeps)+

interpretation commit: tx_operation "CommitStock input" stock_inv for input
  by unfold_locales (rule CommitStock_atomic CommitStock_keeps)+

interpretation restock: tx_operation "Restock i q ref nts" stock_inv for i q ref nts
  by unfold_locales (rule Restock_atomic Restock_keeps)+

interpretation update: tx_operation "UpdateStock input" stock_inv for input
  by unfold_locales (rule UpdateStock_atomic UpdateStock_keeps)+

end
