(* ===== verification/Inventory_Service.thy ===== *)
theory Inventory_Service
  imports Inventory_Stock
begin

text \<open>
  The inventory service over its repository
  (\<open>services/inventory-service/internal/service/inventory_service.go\<close>), the client it
  checks products with (\<open>internal/client/product_client.go\<close>) and the handlers of the
  domain events it consumes (\<open>internal/consumer/event_consumer.go\<close>).

  The record \<open>inv_svc\<close> holds what the service is built with. The remote product and
  store services are functions from identifiers to their answers, \<open>uuid_ok\<close> stands for
  the success of \<open>uuid.Parse\<close> and \<open>sku_random\<close> for the bytes of \<open>rand.Read\<close>. The
  methods whose names the repository has already carry the suffix \<open>_svc\<close>.
\<close>

section \<open>The product client\<close>

record ProductPb =
  pb_id :: string
  pb_store :: string
  pb_sku :: string
  pb_name :: string
  pb_status :: string
  pb_variants :: "string option list"

record grpcProductClient =
  productClient :: "(string \<Rightarrow> go_error + ProductPb option) option"
  storeClient :: "(string \<Rightarrow> go_error + string option) option"

record ProductDetails =
  pd_id :: string
  pd_store :: string
  pd_sku :: string
  pd_name :: string
  pd_active :: bool

text \<open>\<open>st, ok := status.FromError(err); ok && st.Code() == codes.NotFound\<close>.\<close>

definition status_not_found :: "grpc_lib \<Rightarrow> go_error \<Rightarrow> bool" where
  "status_not_found L er = (case from_error L er of Some (g, _) \<Rightarrow> g = GNotFound | None \<Rightarrow> False)"

definition GetProduct :: "grpc_lib \<Rightarrow> grpcProductClient \<Rightarrow> string \<Rightarrow> go_error + ProductDetails" where
  "GetProduct L c productID =
     (case productClient c of
        None \<Rightarrow> Inl (Internal None ''product service client unavailable'')
      | Some rpc \<Rightarrow>
        (case rpc productID of
           Inl er \<Rightarrow> Inl (if status_not_found L er then NotFound ''product not found'' else er)
         | Inr None \<Rightarrow> Inl (NotFound ''product not found'')
         | Inr (Some p) \<Rightarrow>
             Inr \<lparr>pd_id = pb_id p, pd_store = pb_store p, pd_sku = pb_sku p, pd_name = pb_name p,
                  pd_active = (pb_status p \<noteq> ''discontinued'' \<and> pb_status p \<noteq> ''inactive'')\<rparr>))"

definition ValidateProductVariant ::
  "grpc_lib \<Rightarrow> grpcProductClient \<Rightarrow> string \<Rightarrow> string option \<Rightarrow> go_error + unit" where
  "ValidateProductVariant L c productID variantID =
     (case productClient c of
        None \<Rightarrow> Inl (Internal None ''product service client unavailable'')
      | Some rpc \<Rightarrow>
        (case rpc productID of
           Inl er \<Rightarrow> Inl (if status_not_found L er then NotFound ''product not found'' else er)
         | Inr None \<Rightarrow> Inl (NotFound ''invalid product reference'')
         | Inr (Some p) \<Rightarrow>
             (case variantID of
                None \<Rightarrow> Inr ()
              | Some v \<Rightarrow>
                  if blank v \<or> Some (TrimSpace v) \<in> set (pb_variants p) then Inr ()
                  else Inl (NotFound ''invalid variant reference''))))"

definition VerifyProductMerchant ::
  "grpc_lib \<Rightarrow> grpcProductClient \<Rightarrow> string \<Rightarrow> string \<Rightarrow> go_error + bool" where
  "VerifyProductMerchant L c merchantID productID =
     (if merchantID = [] then Inr True
      else (case storeClient c of
        None \<Rightarrow> Inl (Internal None ''store service client unavailable'')
      | Some rpc \<Rightarrow>
        (case GetProduct L c productID of
           Inl er \<Rightarrow> Inl er
         | Inr det \<Rightarrow>
           (case rpc (pd_store det) of
              Inl er \<Rightarrow>
                Inl (if status_not_found L er then NotFound ''store not found for product'' else er)
            | Inr None \<Rightarrow> Inl (NotFound ''store not found for product'')
            | Inr (Some owner) \<Rightarrow> Inr (owner = merchantID)))))"

section \<open>Stock keeping units\<close>

definition skuCharset :: string where
  "skuCharset = ''0123456789ABCDEFGHIJKLMNOPQRSTUVWXYZ''"

text \<open>
  \<open>GenerateSKU\<close> of \<open>pkg/utils/sku.go\<close>: from eight random bytes, or from the clock in
  nanoseconds when there are none.
\<close>

definition GenerateSKU :: "nat list option \<Rightarrow> nat \<Rightarrow> string" where
  "GenerateSKU rnd now =
     ''SKU-'' @ (case rnd of
        Some bytes \<Rightarrow> map (\<lambda>b. skuCharset ! (b mod length skuCharset)) (take 8 bytes)
      | None \<Rightarrow> map (\<lambda>i. skuCharset ! ((now + i * 31) mod length skuCharset)) [0..<8])"

section \<open>The service\<close>

record inv_svc =
  uuid_ok :: "string \<Rightarrow> bool"
  products :: "grpcProductClient option"
  sku_random :: "nat list option"
  grpc :: grpc_lib

record CreateInventoryInput =
  ci_merchant :: string
  ci_warehouse :: "string option"
  ci_product :: string
  ci_variant :: "string option"
  ci_sku :: string
  ci_initial :: int
  ci_threshold :: int

record RestockInventoryInput =
  ri_merchant :: string
  ri_inventory :: "string option"
  ri_product :: "string option"
  ri_variant :: "string option"
  ri_quantity :: int
  ri_reference :: "string option"
  ri_notes :: "string option"

record GetInventoryInput =
  gi_inventory :: "string option"
  gi_warehouse :: "string option"
  gi_product :: "string option"
  gi_variant :: "string option"
  gi_merchant :: "string option"

record ReserveStockInput =
  rs_order :: string
  rs_items :: "ReserveItem list"
  rs_minutes :: int

definition isValidUUID :: "inv_svc \<Rightarrow> string \<Rightarrow> bool" where
  "isValidUUID S u = uuid_ok S (TrimSpace u)"

text \<open>An optional identifier: nil when blank, refused when no UUID, else trimmed.\<close>

definition clean_id :: "inv_svc \<Rightarrow> string option \<Rightarrow> string \<Rightarrow> go_error + string option" where
  "clean_id S p m =
     (if given p
      then (if isValidUUID S (the p) then Inr (Some (trim_opt p)) else Inl (BadRequest m))
      else Inr None)"

definition check_owner :: "inv_svc \<Rightarrow> grpcProductClient \<Rightarrow> string \<Rightarrow> string \<Rightarrow> string \<Rightarrow> go_error + unit" where
  "check_owner S c merchantID productID m =
     (case VerifyProductMerchant (grpc S) c merchantID productID of
        Inl er \<Rightarrow> Inl er
      | Inr owned \<Rightarrow> if owned then Inr () else Inl (Forbidden m))"

text \<open>The checks of \<open>CreateInventory\<close> with the product service; the product's SKU.\<close>

definition check_product :: "inv_svc \<Rightarrow> CreateInventoryInput \<Rightarrow> go_error + string" where
  "check_product S input =
     (case products S of
        None \<Rightarrow> Inr []
      | Some c \<Rightarrow>
        (case GetProduct (grpc S) c (ci_product input) of
           Inl er \<Rightarrow> Inl er
         | Inr det \<Rightarrow>
           (case ValidateProductVariant (grpc S) c (ci_product input) (ci_variant input) of
              Inl er \<Rightarrow> Inl er
            | Inr _ \<Rightarrow>
              (if ci_merchant input = [] then Inr (TrimSpace (pd_sku det))
               else (case check_owner S c (ci_merchant input) (ci_product input)
                       ''merchant cannot create inventory for a product belonging to another merchant'' of
                       Inl er \<Rightarrow> Inl er
                     | Inr _ \<Rightarrow> Inr (TrimSpace (pd_sku det)))))))"

definition CreateInventory :: "inv_svc \<Rightarrow> CreateInventoryInput \<Rightarrow> Inventory inv_db" where
  "CreateInventory S input =
     seq (require (isValidUUID S (ci_product input))
           (BadRequest ''invalid product id: must be a valid UUID''))
     (bind (call (clean_id S (ci_variant input) ''invalid variant id: must be a valid UUID'')) (\<lambda>variantID.
      bind (call (check_product S input)) (\<lambda>prodSKU.
      bind time_now (\<lambda>now.
      bind (ret (if TrimSpace (ci_sku input) \<noteq> [] then TrimSpace (ci_sku input)
                 else if prodSKU \<noteq> [] then prodSKU
                 else GenerateSKU (sku_random S) (nat now))) (\<lambda>sku.
      bind (call (clean_id S (ci_warehouse input) ''invalid warehouse id: must be a valid UUID'')) (\<lambda>warehouseID.
      Create (Some \<lparr>inv_id = [], inv_warehouse = warehouseID, inv_product = ci_product input,
                inv_variant = variantID, inv_sku = sku, inv_available = ci_initial input,
                inv_reserved = 0,
                inv_threshold = (if ci_threshold input = 0 then 5 else ci_threshold input),
                inv_created = 0, inv_updated = 0\<rparr>)
        (ci_initial input) ''Initial stock creation''))))))"

text \<open>The lookup \<open>GetInventory\<close> and \<open>RestockInventory\<close> both start with.\<close>

definition locate_inventory ::
  "inv_svc \<Rightarrow> string option \<Rightarrow> string option \<Rightarrow> string option \<Rightarrow> Inventory inv_db" where
  "locate_inventory S inventoryID productID variantID =
     (if given inventoryID then
        seq (require (isValidUUID S (the inventoryID))
              (BadRequest ''invalid inventory id: must be a valid UUID''))
            (GetByID (trim_opt inventoryID))
      else if given productID then
        seq (require (isValidUUID S (the productID))
              (BadRequest ''invalid product id: must be a valid UUID''))
        (bind (call (clean_id S variantID ''invalid variant id: must be a valid UUID'')) (\<lambda>v.
         GetByProductAndVariant (trim_opt productID) v))
      else raise (BadRequest ''either inventory_id or product_id must be provided''))"

definition GetInventory :: "inv_svc \<Rightarrow> GetInventoryInput \<Rightarrow> Inventory inv_db" where
  "GetInventory S input =
     bind (locate_inventory S (gi_inventory input) (gi_product input) (gi_variant input)) (\<lambda>ivt.
     case products S of
       None \<Rightarrow> ret ivt
     | Some c \<Rightarrow>
         if given (gi_merchant input) then
           seq (call (check_owner S c (trim_opt (gi_merchant input)) (inv_product ivt)
                  ''merchant cannot view inventory belonging to another merchant''))
               (ret ivt)
         else ret ivt)"

definition RestockInventory :: "inv_svc \<Rightarrow> RestockInventoryInput \<Rightarrow> Inventory inv_db" where
  "RestockInventory S input =
     seq (require (0 < ri_quantity input) (BadRequest ''restock quantity must be greater than zero''))
     (bind (locate_inventory S (ri_inventory input) (ri_product input) (ri_variant input)) (\<lambda>existingInv.
      seq (case products S of
             None \<Rightarrow> ret ()
           | Some c \<Rightarrow>
               if ri_merchant input \<noteq> [] then
                 call (check_owner S c (ri_merchant input) (inv_product existingInv)
                   ''merchant cannot modify inventory belonging to another merchant'')
               else ret ())
      (Restock (inv_id existingInv) (ri_quantity input) (ri_reference input)
        (Some (if given (ri_notes input) then the (ri_notes input) else ''Merchant restocking'')))))"

definition GetStock :: "inv_svc \<Rightarrow> string \<Rightarrow> Inventory inv_db" where
  "GetStock S productID =
     seq (require (isValidUUID S productID) (BadRequest ''invalid product id: must be a valid UUID''))
         (GetByProductAndVariant productID None)"

definition UpdateStock_svc :: "inv_svc \<Rightarrow> UpdateStockInput \<Rightarrow> Inventory inv_db" where
  "UpdateStock_svc S input =
     seq (require (0 \<le> us_quantity input) (BadRequest ''quantity cannot be negative''))
     (bind (call (clean_id S (us_inventory input) ''invalid inventory id: must be a valid UUID'')) (\<lambda>invID.
      bind (call (clean_id S (us_product input) ''invalid product id: must be a valid UUID'')) (\<lambda>prodID.
      bind (call (clean_id S (us_variant input) ''invalid variant id: must be a valid UUID'')) (\<lambda>varID.
      seq (require (\<not> (invID = None \<and> prodID = None))
            (BadRequest ''either inventory_id or product_id must be provided''))
      (UpdateStock \<lparr>us_inventory = invID, us_product = prodID, us_variant = varID,
                    us_quantity = us_quantity input\<rparr>)))))"

text \<open>The loop of \<open>ReserveStock\<close> that validates and cleans the items.\<close>

fun clean_items :: "inv_svc \<Rightarrow> ReserveItem list \<Rightarrow> go_error + ReserveItem list" where
  "clean_items S [] = Inr []"
| "clean_items S (it # its) =
     (if \<not> isValidUUID S (item_product it)
      then Inl (BadRequest ''invalid product id in reservation items: must be a valid UUID'')
      else if item_quantity it \<le> 0
      then Inl (BadRequest ''reservation item quantity must be greater than zero'')
      else (case clean_id S (item_variant it)
                   ''invalid variant id in reservation items: must be a valid UUID'' of
              Inl er \<Rightarrow> Inl er
            | Inr v \<Rightarrow>
              (case clean_items S its of
                 Inl er \<Rightarrow> Inl er
               | Inr rest \<Rightarrow> Inr (it\<lparr>item_variant := v\<rparr> # rest))))"

definition minute :: int where
  "minute = 60 * 1000000000"

definition ReserveStock_svc :: "inv_svc \<Rightarrow> ReserveStockInput \<Rightarrow> (string \<times> int) inv_db" where
  "ReserveStock_svc S input =
     seq (require (isValidUUID S (rs_order input)) (BadRequest ''invalid order id: must be a valid UUID''))
     (seq (require (rs_items input \<noteq> []) (BadRequest ''no reservation items provided''))
     (bind (call (clean_items S (rs_items input))) (\<lambda>items.
      bind time_now (\<lambda>now.
      bind (ret (now + wrap64 ((if rs_minutes input \<le> 0 then 15 else rs_minutes input) * minute))) (\<lambda>expiresAt.
      bind (ReserveStock (rs_order input) items expiresAt) (\<lambda>resID.
      ret (resID, expiresAt)))))))"

definition check_ids :: "inv_svc \<Rightarrow> string \<Rightarrow> string \<Rightarrow> (inv_tables, unit) db" where
  "check_ids S reservationID orderID =
     seq (require (blank reservationID \<or> isValidUUID S reservationID)
           (BadRequest ''invalid reservation id: must be a valid UUID''))
         (require (blank orderID \<or> isValidUUID S orderID)
           (BadRequest ''invalid order id: must be a valid UUID''))"

definition ReleaseStock_svc :: "inv_svc \<Rightarrow> ReleaseStockInput \<Rightarrow> unit inv_db" where
  "ReleaseStock_svc S input =
     seq (check_ids S (rl_reservation input) (rl_order input)) (ReleaseStock input)"

definition CommitStock_svc :: "inv_svc \<Rightarrow> CommitStockInput \<Rightarrow> unit inv_db" where
  "CommitStock_svc S input =
     seq (check_ids S (cm_reservation input) (cm_order input)) (CommitStock input)"

section \<open>The event handlers\<close>

text \<open>
  \<open>encoding/json\<close> is the parameter \<open>decoders\<close>: one function per target type, whose
  error is that of \<open>UnmarshalData\<close>.
\<close>

record 'd decoders =
  dec_created :: "'d \<Rightarrow> go_error + OrderCreatedEvent"
  dec_failed :: "'d \<Rightarrow> go_error + PaymentFailedEvent"
  dec_cancelled :: "'d \<Rightarrow> go_error + OrderCancelledEvent"
  dec_confirmed :: "'d \<Rightarrow> go_error + OrderConfirmedEvent"

text \<open>\<open>if err != nil { if benign(err) { return nil }; return err }; return nil\<close>.\<close>

definition swallow :: "(go_error \<Rightarrow> bool) \<Rightarrow> ('t, 'a) db \<Rightarrow> ('t, unit) db" where
  "swallow benign m =
     bind (attempt m) (\<lambda>r. case r of
       Inl er \<Rightarrow> if benign er then ret () else raise er
     | Inr _ \<Rightarrow> ret ())"

definition bad_item :: "OrderItemPayload \<Rightarrow> bool" where
  "bad_item it \<longleftrightarrow> blank (op_product it) \<or> op_quantity it \<le> 0"

definition bad_item_error :: "OrderItemPayload \<Rightarrow> go_error" where
  "bad_item_error it = BadRequest (''invalid item product_id '' @ op_product it @ '' or quantity ''
     @ itoa (op_quantity it))"

definition handleOrderCreated :: "inv_svc \<Rightarrow> OrderCreatedEvent \<Rightarrow> unit inv_db" where
  "handleOrderCreated S payload =
     seq (require (\<not> blank (oc_order payload))
           (BadRequest ''order_id is required in OrderCreated payload''))
     (seq (require (oc_items payload \<noteq> []) (BadRequest ''no items in OrderCreated payload''))
     (case find bad_item (oc_items payload) of
        Some it \<Rightarrow> raise (bad_item_error it)
      | None \<Rightarrow>
        swallow (\<lambda>er. IsConflict (grpc S) (Some er))
          (ReserveStock_svc S \<lparr>rs_order = oc_order payload,
             rs_items = map (\<lambda>it. \<lparr>item_product = op_product it, item_variant = None,
                                  item_quantity = op_quantity it\<rparr>) (oc_items payload),
             rs_minutes = 15\<rparr>)))"

definition handlePaymentFailed :: "inv_svc \<Rightarrow> PaymentFailedEvent \<Rightarrow> unit inv_db" where
  "handlePaymentFailed S payload =
     seq (require (\<not> blank (pf_order payload))
           (BadRequest ''order_id is required in PaymentFailed payload''))
     (swallow (\<lambda>er. IsNotFound (grpc S) (Some er))
       (ReleaseStock_svc S \<lparr>rl_reservation = [], rl_order = pf_order payload,
          rl_reason = or_default (pf_reason payload) ''PAYMENT_FAILED''\<rparr>))"

definition handleOrderCancelled :: "inv_svc \<Rightarrow> OrderCancelledEvent \<Rightarrow> unit inv_db" where
  "handleOrderCancelled S payload =
     seq (require (\<not> blank (ox_order payload))
           (BadRequest ''order_id is required in OrderCancelled payload''))
     (swallow (\<lambda>er. IsNotFound (grpc S) (Some er))
       (ReleaseStock_svc S \<lparr>rl_reservation = [], rl_order = ox_order payload,
          rl_reason = or_default (ox_reason payload) ''ORDER_CANCELLED''\<rparr>))"

definition handleOrderConfirmed :: "inv_svc \<Rightarrow> OrderConfirmedEvent \<Rightarrow> unit inv_db" where
  "handleOrderConfirmed S payload =
     seq (require (\<not> blank (of_order payload))
           (BadRequest ''order_id is required in OrderConfirmed payload''))
     (swallow (\<lambda>er. IsNotFound (grpc S) (Some er) \<or> IsConflict (grpc S) (Some er))
       (CommitStock_svc S \<lparr>cm_reservation = [], cm_order = of_order payload\<rparr>))"

definition decoded :: "string \<Rightarrow> go_error + 'a \<Rightarrow> ('t, 'a) db" where
  "decoded what r = on_error (call r)
     (WrapError (''failed to unmarshal '' @ what @ '' payload: ''))"

definition HandleEvent :: "inv_svc \<Rightarrow> 'd decoders \<Rightarrow> 'd EventEnvelope option \<Rightarrow> unit inv_db" where
  "HandleEvent S D envelope =
     (case envelope of
        None \<Rightarrow> raise (BadRequest ''event envelope is nil'')
      | Some ev \<Rightarrow>
        if EventType ev = ''OrderCreated'' then
          bind (decoded ''OrderCreatedEvent'' (dec_created D (EventData ev))) (handleOrderCreated S)
        else if EventType ev = ''PaymentFailed'' then
          bind (decoded ''PaymentFailedEvent'' (dec_failed D (EventData ev))) (handlePaymentFailed S)
        else if EventType ev = ''OrderCancelled'' then
          bind (decoded ''OrderCancelledEvent'' (dec_cancelled D (EventData ev))) (handleOrderCancelled S)
        else if EventType ev = ''OrderConfirmed'' then
          bind (decoded ''OrderConfirmedEvent'' (dec_confirmed D (EventData ev))) (handleOrderConfirmed S)
        else ret ())"

section \<open>Requests\<close>

text \<open>
  Everything that reaches the inventory service: a call of a service method, the tick of
  the expiration worker (the body of the loop of \<open>StartExpirationWorker\<close>), or an event.
\<close>

datatype 'd inv_request =
    ReqCreate CreateInventoryInput
  | ReqGet GetInventoryInput
  | ReqRestock RestockInventoryInput
  | ReqGetStock string
  | ReqUpdate UpdateStockInput
  | ReqReserve ReserveStockInput
  | ReqRelease ReleaseStockInput
  | ReqCommit CommitStockInput
  | ReqTick
  | ReqEvent "'d EventEnvelope option"

fun serve :: "inv_svc \<Rightarrow> 'd decoders \<Rightarrow> 'd inv_request \<Rightarrow> unit inv_db" where
  "serve S D (ReqCreate input) = void (CreateInventory S input)"
| "serve S D (ReqGet input) = void (GetInventory S input)"
| "serve S D (ReqRestock input) = void (RestockInventory S input)"
| "serve S D (ReqGetStock p) = void (GetStock S p)"
| "serve S D (ReqUpdate input) = void (UpdateStock_svc S input)"
| "serve S D (ReqReserve input) = void (ReserveStock_svc S input)"
| "serve S D (ReqRelease input) = ReleaseStock_svc S input"
| "serve S D (ReqCommit input) = CommitStock_svc S input"
| "serve S D ReqTick = void ReleaseExpiredReservations"
| "serve S D (ReqEvent ev) = HandleEvent S D ev"

section \<open>The service keeps the repository's contract\<close>

text \<open>Swallowing an error of an atomic operation is still atomic.\<close>

lemma atomic_swallow: "atomic m \<Longrightarrow> atomic (swallow benign m)"
  unfolding atomic_def swallow_def bind_def attempt_def ret_def raise_def
  by (fastforce split: prod.splits sum.splits if_splits)

lemma keeps_swallow: "atomic m \<Longrightarrow> keeps P m \<Longrightarrow> keeps P (swallow benign m)"
  unfolding swallow_def
  by (rule keeps_bind [OF attempt_keeps])
    (auto split: sum.split intro!: keeps_ret keeps_raise)

text \<open>Preservation through a prefix that only reads.\<close>

lemma keeps_checked: "read_only m \<Longrightarrow> keeps P n \<Longrightarrow> keeps P (seq m n)"
  by (rule keeps_seq [OF keeps_read_only])

lemma keeps_read_bind: "read_only m \<Longrightarrow> (\<And>x. keeps P (f x)) \<Longrightarrow> keeps P (bind m f)"
  by (rule keeps_bind [OF keeps_read_only])

lemma read_only_GetByID: "read_only (GetByID i)"
  unfolding GetByID_def by (intro read_only_intros)

lemma read_only_GetByProductAndVariant: "read_only (GetByProductAndVariant p v)"
  unfolding GetByProductAndVariant_def by (intro read_only_intros)

lemma read_only_locate: "read_only (locate_inventory S i p v)"
  unfolding locate_inventory_def
  by (intro read_only_intros read_only_GetByID read_only_GetByProductAndVariant)

lemma read_only_GetInventory: "read_only (GetInventory S input)"
  unfolding GetInventory_def by (intro read_only_intros read_only_locate)

lemma read_only_GetStock: "read_only (GetStock S p)"
  unfolding GetStock_def by (intro read_only_intros read_only_GetByProductAndVariant)

lemma read_only_check_ids: "read_only (check_ids S i o')"
  unfolding check_ids_def by (intro read_only_intros)

lemma CreateInventory_atomic: "atomic (CreateInventory S input)"
  unfolding CreateInventory_def by (intro atomic_bind atomic_seq read_only_intros Create_atomic)

lemma CreateInventory_keeps: "keeps stock_inv (CreateInventory S input)"
  unfolding CreateInventory_def
  by (intro keeps_read_bind keeps_checked read_only_intros Create_keeps) simp

lemma RestockInventory_atomic: "atomic (RestockInventory S input)"
  unfolding RestockInventory_def
  by (intro atomic_bind atomic_seq read_only_intros read_only_locate Restock_atomic)

lemma RestockInventory_keeps: "keeps stock_inv (RestockInventory S input)"
  unfolding RestockInventory_def
  by (intro keeps_read_bind keeps_checked read_only_intros read_only_locate Restock_keeps)

lemma UpdateStock_svc_atomic: "atomic (UpdateStock_svc S input)"
  unfolding UpdateStock_svc_def by (intro atomic_bind atomic_seq read_only_intros UpdateStock_atomic)

lemma UpdateStock_svc_keeps: "keeps stock_inv (UpdateStock_svc S input)"
  unfolding UpdateStock_svc_def
  by (intro keeps_read_bind keeps_checked read_only_intros UpdateStock_keeps)

lemma ReserveStock_svc_atomic: "atomic (ReserveStock_svc S input)"
  unfolding ReserveStock_svc_def
  by (intro atomic_then_ret atomic_bind atomic_seq read_only_intros ReserveStock_atomic)

lemma ReserveStock_svc_keeps: "keeps stock_inv (ReserveStock_svc S input)"
  unfolding ReserveStock_svc_def
  by (intro keeps_bind [OF ReserveStock_keeps] keeps_ret keeps_read_bind keeps_checked read_only_intros)

lemma ReleaseStock_svc_atomic: "atomic (ReleaseStock_svc S input)"
  unfolding ReleaseStock_svc_def by (intro atomic_seq read_only_check_ids ReleaseStock_atomic)

lemma ReleaseStock_svc_keeps: "keeps stock_inv (ReleaseStock_svc S input)"
  unfolding ReleaseStock_svc_def by (intro keeps_checked read_only_check_ids ReleaseStock_keeps)

lemma CommitStock_svc_atomic: "atomic (CommitStock_svc S input)"
  unfolding CommitStock_svc_def by (intro atomic_seq read_only_check_ids CommitStock_atomic)

lemma CommitStock_svc_keeps: "keeps stock_inv (CommitStock_svc S input)"
  unfolding CommitStock_svc_def by (intro keeps_checked read_only_check_ids CommitStock_keeps)

text \<open>The sweep over the expired reservations never fails once they are read.\<close>

lemma release_each_total: "\<exists>m w'. release_each is n e w = (Inr m, w')"
proof (induction "is" arbitrary: n w)
  case (Cons i ids)
  then show ?case by (auto simp: bind_def attempt_def split: prod.splits)
qed (simp add: ret_def)

lemma release_each_atomic: "atomic (release_each is n)"
  unfolding atomic_def using release_each_total by (metis Pair_inject sum.distinct(1))

lemma release_each_keeps: "keeps stock_inv (release_each is n)"
proof (induction "is" arbitrary: n)
  case (Cons i ids)
  then show ?case
    unfolding release_each.simps
    by (intro keeps_bind attempt_keeps ReleaseStock_keeps ReleaseStock_atomic)
qed (simp add: keeps_ret)

lemma ReleaseExpired_atomic: "atomic ReleaseExpiredReservations"
  unfolding ReleaseExpiredReservations_def
  by (intro atomic_bind read_only_intros release_each_atomic)

lemma ReleaseExpired_keeps: "keeps stock_inv ReleaseExpiredReservations"
  unfolding ReleaseExpiredReservations_def
  by (intro keeps_read_bind read_only_intros release_each_keeps)

lemma handler_atomic:
  "atomic (handleOrderCreated S oc)" "atomic (handlePaymentFailed S pf)"
  "atomic (handleOrderCancelled S ox)" "atomic (handleOrderConfirmed S oc')"
  unfolding handleOrderCreated_def handlePaymentFailed_def handleOrderCancelled_def
    handleOrderConfirmed_def
  by (intro atomic_seq read_only_require, (simp split: option.split)?,
      intro conjI allI impI atomic_raise atomic_swallow ReserveStock_svc_atomic
        ReleaseStock_svc_atomic CommitStock_svc_atomic)+

lemma handler_keeps:
  "keeps stock_inv (handleOrderCreated S oc)" "keeps stock_inv (handlePaymentFailed S pf)"
  "keeps stock_inv (handleOrderCancelled S ox)" "keeps stock_inv (handleOrderConfirmed S oc')"
  unfolding handleOrderCreated_def handlePaymentFailed_def handleOrderCancelled_def
    handleOrderConfirmed_def
  by (intro keeps_checked read_only_require, (simp split: option.split)?,
      intro conjI allI impI keeps_raise keeps_swallow ReserveStock_svc_atomic
        ReleaseStock_svc_atomic CommitStock_svc_atomic ReserveStock_svc_keeps
        ReleaseStock_svc_keeps CommitStock_svc_keeps)+

lemma read_only_decoded: "read_only (decoded what r)"
  unfolding decoded_def by (intro read_only_intros)

lemma HandleEvent_atomic: "atomic (HandleEvent S D ev)"
  unfolding HandleEvent_def
  by (auto split: option.split intro!: atomic_raise atomic_ret atomic_bind read_only_decoded handler_atomic)

lemma HandleEvent_keeps: "keeps stock_inv (HandleEvent S D ev)"
  unfolding HandleEvent_def
  by (auto split: option.split intro!: keeps_raise keeps_ret keeps_read_bind read_only_decoded handler_keeps)

lemmas service_atomic =
  CreateInventory_atomic RestockInventory_atomic UpdateStock_svc_atomic ReserveStock_svc_atomic
  ReleaseStock_svc_atomic CommitStock_svc_atomic ReleaseExpired_atomic HandleEvent_atomic
  read_only_atomic [OF read_only_GetInventory] read_only_atomic [OF read_only_GetStock]

lemmas service_keeps =
  CreateInventory_keeps RestockInventory_keeps UpdateStock_svc_keeps ReserveStock_svc_keeps
  ReleaseStock_svc_keeps CommitStock_svc_keeps ReleaseExpired_keeps HandleEvent_keeps
  keeps_read_only [OF read_only_GetInventory] keeps_read_only [OF read_only_GetStock]

interpretation served: tx_operation "serve S D req" stock_inv for S D req
proof
  show "atomic (serve S D req)" by (cases req) (simp_all add: service_atomic atomic_void)
  show "keeps stock_inv (serve S D req)" by (cases req) (simp_all add: service_keeps keeps_void)
qed

section \<open>Reachable states\<close>

definition empty_tables :: "string list \<Rightarrow> inv_tables" where
  "empty_tables whs = \<lparr>inventories = [], reservations = [], transactions = [], outbox = [],
     warehouse_ids = whs\<rparr>"

text \<open>
  From the migrated, empty database by any requests in any order, each in any environment:
  a request that fails half way is a step like any other.
\<close>

inductive inv_reach :: "inv_svc \<Rightarrow> 'd decoders \<Rightarrow> inv_tables \<Rightarrow> bool" for S D where
  inv_start: "inv_reach S D (empty_tables whs)"
| inv_served: "inv_reach S D (tabs w) \<Longrightarrow> inv_reach S D (tabs (snd (serve S D req e w)))"

inductive_cases inv_reach_cases: "inv_reach S D t"

lemma inv_reach_inv: "inv_reach S D t \<Longrightarrow> stock_inv t"
proof (induction rule: inv_reach.induct)
  case (inv_start whs)
  show ?case by (simp add: empty_tables_def stock_inv_def stock_ok_def)
next
  case (inv_served w req e)
  then show ?case by (intro served.op_inv)
qed

end
