(* ===== verification/Inventory_Ledger.thy ===== *)
theory Inventory_Ledger
  imports Inventory_Service
begin

text \<open>
  The contract of the stock operations: an abstract ledger of stock levels and holds, and
  the refinement of its three operations by \<open>ReserveStock\<close>, \<open>ReleaseStock\<close> and
  \<open>CommitStock\<close> on the tables.
\<close>

section \<open>The abstract ledger\<close>

text \<open>
  A level is the available and the held quantity of a product and variant; a hold is the
  key and the quantity of an open reservation.
\<close>

type_synonym stock_key = "string \<times> string option"

record ledger =
  levels :: "stock_key \<rightharpoonup> int \<times> int"
  holds :: "string \<rightharpoonup> stock_key \<times> int"

definition move :: "int \<Rightarrow> int \<Rightarrow> int \<times> int \<Rightarrow> int \<times> int" where
  "move da dh l = (fst l + da, snd l + dh)"

definition shift_level :: "stock_key \<Rightarrow> int \<Rightarrow> int \<Rightarrow> ledger \<Rightarrow> ledger" where
  "shift_level k da dh s =
     s\<lparr>levels := (levels s)(k := map_option (move da dh) (levels s k))\<rparr>"

definition abs_reserve :: "string \<Rightarrow> stock_key \<Rightarrow> int \<Rightarrow> ledger \<Rightarrow> ledger" where
  "abs_reserve rid k q s =
     (shift_level k (- q) q s)\<lparr>holds := (holds s)(rid \<mapsto> (k, q))\<rparr>"

definition abs_release :: "string \<Rightarrow> ledger \<Rightarrow> ledger" where
  "abs_release rid s =
     (case holds s rid of
        None \<Rightarrow> s
      | Some (k, q) \<Rightarrow> (shift_level k q (- q) s)\<lparr>holds := (holds s)(rid := None)\<rparr>)"

definition abs_commit :: "string \<Rightarrow> ledger \<Rightarrow> ledger" where
  "abs_commit rid s =
     (case holds s rid of
        None \<Rightarrow> s
      | Some (k, q) \<Rightarrow> (shift_level k 0 (- q) s)\<lparr>holds := (holds s)(rid := None)\<rparr>)"

lemma shift_level_simps [simp]:
  "levels (shift_level k da dh s) =
     (levels s)(k := map_option (move da dh) (levels s k))"
  "holds (shift_level k da dh s) = holds s"
  by (simp_all add: shift_level_def)

text \<open>Releasing a fresh hold undoes the reservation.\<close>

lemma abs_release_reserve:
  assumes "holds s rid = None"
  shows "abs_release rid (abs_reserve rid k q s) = s"
proof -
  have "map_option (move q (- q)) (map_option (move (- q) q) l) = l" for l
    by (cases l) (auto simp: move_def)
  with assms show ?thesis
    by (simp add: abs_release_def abs_reserve_def shift_level_def fun_upd_idem)
qed

text \<open>Committing a hold takes its quantity out of the stock for good.\<close>

lemma abs_commit_reserve:
  assumes "holds s rid = None"
  shows "abs_commit rid (abs_reserve rid k q s) = shift_level k (- q) 0 s"
proof -
  have "map_option (move 0 (- q)) (map_option (move (- q) q) l) = map_option (move (- q) 0) l" for l
    by (cases l) (auto simp: move_def)
  with assms show ?thesis
    by (simp add: abs_commit_def abs_reserve_def shift_level_def fun_upd_idem)
qed

section \<open>The abstraction of the tables\<close>

definition level_of :: "Inventory \<Rightarrow> int \<times> int" where
  "level_of r = (inv_available r, inv_reserved r)"

definition abs_stock :: "inv_tables \<Rightarrow> ledger" where
  "abs_stock t =
     \<lparr>levels = (\<lambda>k. map_option level_of (find (\<lambda>r. pv r = k) (inventories t))),
      holds = (\<lambda>i. map_option (\<lambda>r. ((res_product r, res_variant r), res_quantity r))
                (find (\<lambda>r. res_id r = i \<and> active r) (reservations t)))\<rparr>"

lemma find_pv_upd:
  assumes "\<And>r. pv (f r) = pv r"
  shows "find (\<lambda>r. pv r = k) (upd_where (\<lambda>r. pv r = k') f ivs) =
    (if k = k' then map_option f (find (\<lambda>r. pv r = k) ivs) else find (\<lambda>r. pv r = k) ivs)"
proof (cases "k = k'")
  case True
  then show ?thesis using assms by (simp add: find_upd_where)
next
  case False
  then have "find (\<lambda>r. pv r = k) (upd_where (\<lambda>r. pv r = k') f ivs) = find (\<lambda>r. pv r = k) ivs"
    by (intro find_upd_where_other) (auto simp: assms)
  with False show ?thesis by simp
qed

lemma find_pv_row:
  assumes "stock_ok ivs rs" and "row \<in> set ivs"
  shows "find (\<lambda>r. pv r = pv row) ivs = Some row"
proof -
  have "find (\<lambda>r. pv r = pv row) ivs \<noteq> None" using assms(2) by (auto simp: find_None_iff)
  then obtain q where q: "find (\<lambda>r. pv r = pv row) ivs = Some q" by blast
  then have "q \<in> set ivs" "pv q = pv row" by (auto dest: find_Some_in)
  with pv_row_unique [OF assms(1)] assms(2) q show ?thesis by simp
qed

lemma find_hold:
  assumes "keyed res_id rs" and "x \<in> set rs" and "active x"
  shows "find (\<lambda>r. res_id r = res_id x \<and> active r) rs = Some x"
proof -
  have "find (\<lambda>r. res_id r = res_id x \<and> active r) rs \<noteq> None"
    using assms(2,3) by (auto simp: find_None_iff)
  then obtain q where q: "find (\<lambda>r. res_id r = res_id x \<and> active r) rs = Some q" by blast
  then have "q \<in> set rs" "res_id q = res_id x" by (auto dest: find_Some_in)
  with keyed_unique [OF assms(1)] assms(2) q show ?thesis by metis
qed

lemma find_hold_close:
  assumes "st \<noteq> ReservationStatusReserved"
  shows "find (\<lambda>r. res_id r = i \<and> active r) (close_res x st now rs) =
    (if i = res_id x then None else find (\<lambda>r. res_id r = i \<and> active r) rs)"
  using assms by (induction rs) (auto simp: close_res_def active_def)

lemma find_snoc: "find p (xs @ [x]) = (case find p xs of None \<Rightarrow> (if p x then Some x else None) | Some y \<Rightarrow> Some y)"
  by (induction xs) auto

section \<open>Closing a reservation refines the ledger\<close>

lemma abs_level_update:
  assumes ok: "stock_ok ivs rs" and row: "row \<in> set ivs" and f: "\<And>r. pv (f r) = pv r"
  shows "(\<lambda>k. map_option level_of (find (\<lambda>r. pv r = k) (upd_where (\<lambda>r. pv r = pv row) f ivs))) =
    (\<lambda>k. map_option level_of (find (\<lambda>r. pv r = k) ivs))(pv row := Some (level_of (f row)))"
  by (rule ext) (simp add: find_pv_upd [OF f] find_pv_row [OF ok row])

lemma closes_abs:
  assumes cl: "closes f st ty ev now x t t'" and inv0: "stock_inv t"
    and x: "x \<in> set (reservations t)" "active x" and st: "st \<noteq> ReservationStatusReserved"
    and f: "\<And>r. pv (f r) = pv r"
      "\<And>r. res_quantity x \<le> inv_reserved r \<Longrightarrow> level_of (f r) = move da (- res_quantity x) (level_of r)"
  shows "abs_stock t' = (shift_level (res_product x, res_variant x) da (- res_quantity x)
           (abs_stock t))\<lparr>holds := (holds (abs_stock t))(res_id x := None)\<rparr>"
proof -
  let ?k = "(res_product x, res_variant x)"
  from inv0 have ok: "stock_ok (inventories t) (reservations t)" by (simp add: stock_inv_def)
  have m: "match_pv (res_product x) (res_variant x) = (\<lambda>r. pv r = ?k)"
    using stock_okD(7) [OF ok x(1)] by (auto simp: match_pv_eq)
  from stock_okD(8) [OF ok x(1)] obtain row where row: "row \<in> set (inventories t)" "pv row = ?k"
    by (metis (no_types, lifting) imageE)
  have "inv_reserved row = held (res_product x) (res_variant x) (reservations t)"
    using stock_okD(5) [OF ok row(1)] row(2) by (simp add: pv_def)
  then have le: "res_quantity x \<le> inv_reserved row" using held_ge [OF ok x] by simp
  have lv: "levels (abs_stock t') = (levels (abs_stock t))(?k := Some (level_of (f row)))"
    using cl abs_level_update [OF ok row(1) f(1)] unfolding closes_def m
    by (simp add: abs_stock_def row(2))
  have "levels (abs_stock t) ?k = Some (level_of row)"
    using find_pv_row [OF ok row(1)] row(2) by (simp add: abs_stock_def)
  with lv f(2) [OF le] have "levels (abs_stock t') =
      levels (shift_level ?k da (- res_quantity x) (abs_stock t))"
    by simp
  moreover have "holds (abs_stock t') = (holds (abs_stock t))(res_id x := None)"
    using cl unfolding closes_def by (auto simp: abs_stock_def find_hold_close [OF st])
  ultimately show ?thesis by (simp add: shift_level_def)
qed

lemma hold_of_row:
  assumes "stock_inv t" and "x \<in> set (reservations t)" and "active x"
  shows "holds (abs_stock t) (res_id x) = Some ((res_product x, res_variant x), res_quantity x)"
  using find_hold [OF _ assms(2,3)] assms(1) by (simp add: abs_stock_def stock_inv_def stock_ok_def)

lemma release_row_abs:
  assumes "closes (release_upd now x) st ty ev now x t t'" "stock_inv t"
    "x \<in> set (reservations t)" "active x" "st \<noteq> ReservationStatusReserved"
  shows "abs_stock t' = abs_release (res_id x) (abs_stock t)"
  using closes_abs [OF assms, where da = "res_quantity x"] hold_of_row [OF assms(2,3,4)]
  by (simp add: abs_release_def release_upd_def level_of_def move_def pv_def)

lemma commit_row_abs:
  assumes "closes (commit_upd now x) st ty ev now x t t'" "stock_inv t"
    "x \<in> set (reservations t)" "active x" "st \<noteq> ReservationStatusReserved"
  shows "abs_stock t' = abs_commit (res_id x) (abs_stock t)"
  using closes_abs [OF assms, where da = 0] hold_of_row [OF assms(2,3,4)]
  by (simp add: abs_commit_def commit_upd_def level_of_def move_def pv_def)

text \<open>A loop of closing steps is a fold of the abstract operation.\<close>

lemma closing_loop_abs:
  assumes body: "\<And>row e w u w'. body row e w = (Inr u, w') \<Longrightarrow>
      closes (f row) st ty ev now row (tabs w) (tabs w')"
    and st: "st \<noteq> ReservationStatusReserved"
    and f: "\<And>row r. inv_id (f row r) = inv_id r \<and> pv (f row r) = pv r \<and>
      inv_reserved (f row r) = max (inv_reserved r - res_quantity row) 0"
    and abs: "\<And>row t t'. closes (f row) st ty ev now row t t' \<Longrightarrow> stock_inv t \<Longrightarrow>
      row \<in> set (reservations t) \<Longrightarrow> active row \<Longrightarrow> abs_stock t' = g (res_id row) (abs_stock t)"
  shows "closable rows (tabs w) \<Longrightarrow> for_each rows body e w = (Inr u, w') \<Longrightarrow>
    abs_stock (tabs w') = fold g (map res_id rows) (abs_stock (tabs w))"
proof (induction rows arbitrary: w)
  case Nil
  then show ?case by (simp add: run_ok)
next
  case (Cons row rows)
  from Cons.prems(2) obtain x w1 where b: "body row e w = (Inr x, w1)"
    and rest: "for_each rows body e w1 = (Inr u, w')"
    by (auto simp: run_ok)
  have cl: "closable rows (tabs w1)"
    by (rule closable_step [OF Cons.prems(1) body [OF b] st f])
  have "abs_stock (tabs w1) = g (res_id row) (abs_stock (tabs w))"
    by (rule abs [OF body [OF b]]) (use Cons.prems(1) in \<open>auto simp: closable_def\<close>)
  with Cons.IH [OF cl rest] show ?case by simp
qed

text \<open>The rows a release or a commit works on.\<close>

definition open_rows :: "string \<Rightarrow> string \<Rightarrow> inv_tables \<Rightarrow> InventoryReservation list" where
  "open_rows i o' t = filter active (select_reservations i o' t)"

lemma ReleaseStock_loop:
  assumes "ReleaseStock input e w = (Inr u, w')"
  shows "\<exists>w1 w2. for_each (open_rows (rl_reservation input) (rl_order input) (tabs w))
      (release_row (release_status (rl_reason input)) (release_notes (rl_reason input))
        (rl_reason input) (clock e)) e w1 = (Inr (), w2) \<and> tabs w1 = tabs w \<and> tabs w' = tabs w2"
proof (cases "open_rows (rl_reservation input) (rl_order input) (tabs w) = []")
  case True
  have "tabs w' = tabs w"
    using assms True unfolding ReleaseStock_def open_rows_def by (auto simp: run_ok elim!: with_tx_ok)
  with True show ?thesis by (auto simp: ret_def)
next
  case False
  with assms show ?thesis
    unfolding ReleaseStock_def open_rows_def by (fastforce simp: run_ok elim!: with_tx_ok)
qed

lemma CommitStock_loop:
  assumes "CommitStock input e w = (Inr u, w')"
  shows "\<exists>w1 w2. for_each (open_rows (cm_reservation input) (cm_order input) (tabs w))
      (commit_row (clock e)) e w1 = (Inr (), w2) \<and> tabs w1 = tabs w \<and> tabs w' = tabs w2"
proof (cases "open_rows (cm_reservation input) (cm_order input) (tabs w) = []")
  case True
  have "tabs w' = tabs w"
    using assms True unfolding CommitStock_def open_rows_def
    by (auto simp: run_ok elim!: with_tx_ok split: if_splits)
  with True show ?thesis by (auto simp: ret_def)
next
  case False
  with assms show ?thesis
    unfolding CommitStock_def open_rows_def by (fastforce simp: run_ok elim!: with_tx_ok)
qed

lemma closable_open: "stock_inv t \<Longrightarrow> closable (open_rows i o' t) t"
  unfolding open_rows_def by (rule closable_selected)

lemma ReleaseStock_abs:
  assumes inv0: "stock_inv (tabs w)" and run: "ReleaseStock input e w = (Inr u, w')"
  shows "abs_stock (tabs w') =
    fold abs_release (map res_id (open_rows (rl_reservation input) (rl_order input) (tabs w)))
      (abs_stock (tabs w))"
proof -
  obtain w1 w2 where loop: "for_each (open_rows (rl_reservation input) (rl_order input) (tabs w))
      (release_row (release_status (rl_reason input)) (release_notes (rl_reason input))
        (rl_reason input) (clock e)) e w1 = (Inr (), w2)"
    and same: "tabs w1 = tabs w" "tabs w' = tabs w2"
    using ReleaseStock_loop [OF run] by blast
  have "closable (open_rows (rl_reservation input) (rl_order input) (tabs w)) (tabs w1)"
    using closable_open [OF inv0] same by simp
  from closing_loop_abs [where f = "release_upd (clock e)" and g = abs_release,
      OF release_row_run release_status_closed release_upd_shape
        release_row_abs [OF _ _ _ _ release_status_closed] this loop]
  show ?thesis by (simp add: same)
qed

lemma CommitStock_abs:
  assumes inv0: "stock_inv (tabs w)" and run: "CommitStock input e w = (Inr u, w')"
  shows "abs_stock (tabs w') =
    fold abs_commit (map res_id (open_rows (cm_reservation input) (cm_order input) (tabs w)))
      (abs_stock (tabs w))"
proof -
  have st: "ReservationStatusConfirmed \<noteq> ReservationStatusReserved" by simp
  obtain w1 w2 where loop: "for_each (open_rows (cm_reservation input) (cm_order input) (tabs w))
      (commit_row (clock e)) e w1 = (Inr (), w2)"
    and same: "tabs w1 = tabs w" "tabs w' = tabs w2"
    using CommitStock_loop [OF run] by blast
  have "closable (open_rows (cm_reservation input) (cm_order input) (tabs w)) (tabs w1)"
    using closable_open [OF inv0] same by simp
  from closing_loop_abs [where f = "commit_upd (clock e)" and g = abs_commit,
      OF commit_row_run st commit_upd_shape commit_row_abs [OF _ _ _ _ st] this loop]
  show ?thesis by (simp add: same)
qed

section \<open>Reserving refines the ledger\<close>

lemma reserve_item_alive: "reserve_item rid oid ex now it e w = (Inr u, w') \<Longrightarrow> \<not> aborted w"
  unfolding reserve_item_def by (auto simp: run_ok)

lemma place_reservation_alive:
  "place_reservation oid its ex now e w = (Inr x, w') \<Longrightarrow> its \<noteq> [] \<Longrightarrow> \<not> aborted w"
  unfolding place_reservation_def
  by (cases its) (auto simp: run_ok dest: reserve_item_alive)

lemma place_reservation_run:
  "place_reservation oid its ex now e w = (Inr x, w') \<longleftrightarrow>
     x = Commit (uuid_at e (nuuid w)) \<and>
     for_each its (reserve_item (uuid_at e (nuuid w)) oid ex now) e (w\<lparr>nuuid := Suc (nuuid w)\<rparr>) =
       (Inr (), w')"
  unfolding place_reservation_def by (auto simp: run_ok)

text \<open>
  A successful \<open>ReserveStock\<close> either found a live reservation of the order and changed
  nothing, or placed one.
\<close>

lemma ReserveStock_cases:
  assumes "ReserveStock oid its ex e w = (Inr rid, w')"
  obtains (existing) r where "find (live_reservation oid) (reservations (tabs w)) = Some r"
      "rid = res_id r" "tabs w' = tabs w"
  | (placed) w1 w2 where "for_each its (reserve_item rid oid ex (clock e)) e w1 = (Inr (), w2)"
      "tabs w1 = tabs w" "tabs w' = tabs w2" "rid = uuid_at e (nuuid w)"
      "\<And>r. find (live_reservation oid) (reservations (tabs w)) = Some r \<Longrightarrow> res_id r = []"
proof -
  from assms have ne: "its \<noteq> []" unfolding ReserveStock_def by (auto simp: run_ok)
  let ?sel = "sql (select (\<lambda>t. find (live_reservation oid) (reservations t)))"
  let ?found = "find (live_reservation oid) (reservations (tabs w))"
  let ?w0 = "w\<lparr>nstmt := Suc (nstmt w), aborted := False\<rparr>"
  let ?body = "bind time_now (\<lambda>now. bind (attempt ?sel) (\<lambda>existing. case existing of
        Inr (Some r) \<Rightarrow> (if res_id r \<noteq> [] then ret (CommitQuietly (res_id r))
           else place_reservation oid its ex now)
      | _ \<Rightarrow> place_reservation oid its ex now))"
  have select: "?body e ?w0 =
      (if fault e (Suc (nstmt w))
       then place_reservation oid its ex (clock e) e
              (?w0\<lparr>nstmt := Suc (Suc (nstmt w)), aborted := True\<rparr>)
       else if \<exists>r. ?found = Some r \<and> res_id r \<noteq> []
       then (Inr (CommitQuietly (res_id (the ?found))), ?w0\<lparr>nstmt := Suc (Suc (nstmt w))\<rparr>)
       else place_reservation oid its ex (clock e) e (?w0\<lparr>nstmt := Suc (Suc (nstmt w))\<rparr>))"
    by (auto simp: bind_def time_now_def attempt_def sql_select_eq ret_def split: option.split)
  have body: "x = CommitQuietly (res_id (the ?found)) \<and> ?found \<noteq> None \<and> tabs w2 = tabs w \<or>
      (\<exists>w1. place_reservation oid its ex (clock e) e w1 = (Inr x, w2) \<and> tabs w1 = tabs w \<and>
         nuuid w1 = nuuid w \<and> (\<forall>r. ?found = Some r \<longrightarrow> res_id r = []))"
    if "?body e ?w0 = (Inr x, w2)" for x w2
    using that unfolding select
    by (auto split: if_splits dest: place_reservation_alive [OF _ ne])
  from assms have "with_tx (wrap ''failed to begin reserve transaction'')
      (wrap ''failed to commit stock reservation'') ?body e w = (Inr rid, w')"
    unfolding ReserveStock_def by (auto simp: run_ok)
  then show thesis
  proof (rule with_tx_ok)
    fix w1 assume b: "?body e ?w0 = (Inr (Commit rid), w1)" and t: "tabs w' = tabs w1"
    from body [OF b] show thesis
      using t by (auto simp: place_reservation_run intro!: placed)
  next
    fix w1 assume b: "?body e ?w0 = (Inr (CommitQuietly rid), w1)"
      and t: "tabs w' = tabs w1 \<or> tabs w' = tabs w"
    from body [OF b] t show thesis
      by (auto simp: place_reservation_run intro!: existing)
  next
    fix w1 assume b: "?body e ?w0 = (Inr (Discard rid), w1)"
    from body [OF b] show thesis by (auto simp: place_reservation_run)
  qed
qed

text \<open>The abstract effect of one iteration of the loop.\<close>

lemma reserve_item_abs:
  assumes inv0: "stock_inv (tabs w)" and run: "reserve_item rid oid ex now it e w = (Inr u, w')"
  shows "abs_stock (tabs w') =
      abs_reserve rid (item_product it, item_variant it) (item_quantity it) (abs_stock (tabs w))"
    and "\<exists>a h. levels (abs_stock (tabs w)) (item_product it, item_variant it) = Some (a, h) \<and>
      0 < item_quantity it \<and> item_quantity it \<le> a"
    and "holds (abs_stock (tabs w)) rid = None"
    and "rid \<notin> res_id ` set (reservations (tabs w))"
    and "rid \<in> res_id ` set (reservations (tabs w'))"
proof -
  let ?k = "(item_product it, item_variant it)" and ?q = "item_quantity it"
  from inv0 have ok: "stock_ok (inventories (tabs w)) (reservations (tabs w))"
    by (simp add: stock_inv_def)
  obtain row where found: "find (match_pv (item_product it) (item_variant it)) (inventories (tabs w)) = Some row"
    and q: "0 < ?q" "?q \<le> inv_available row" and v: "item_variant it \<noteq> Some []"
    and fresh: "rid \<notin> res_id ` set (reservations (tabs w))"
    and ivs: "inventories (tabs w') = upd_where (\<lambda>r. inv_id r = inv_id row)
       (\<lambda>r. r\<lparr>inv_available := inv_available row - ?q,
         inv_reserved := inv_reserved row + ?q, inv_updated := now\<rparr>) (inventories (tabs w))"
    and rs: "reservations (tabs w') = reservations (tabs w) @
       [\<lparr>res_id = rid, res_order = oid, res_product = item_product it,
         res_variant = item_variant it, res_quantity = ?q,
         res_status = ReservationStatusReserved, res_expires = ex, res_created = now,
         res_updated = now\<rparr>]"
    using run by (rule reserve_item_run)
  from found v have row: "row \<in> set (inventories (tabs w))" "pv row = ?k"
    by (auto dest: find_Some_in simp: match_pv_eq)
  have none: "find (\<lambda>r. res_id r = rid \<and> active r) (reservations (tabs w)) = None"
    using fresh by (auto simp: find_None_iff)
  have lv: "levels (abs_stock (tabs w)) ?k = Some (level_of row)"
    using find_pv_row [OF ok row(1)] row(2) by (simp add: abs_stock_def)
  have "levels (abs_stock (tabs w')) = (levels (abs_stock (tabs w)))
      (?k := Some (inv_available row - ?q, inv_reserved row + ?q))"
    using abs_level_update [OF ok row(1), of "\<lambda>r. r\<lparr>inv_available := inv_available row - ?q,
         inv_reserved := inv_reserved row + ?q, inv_updated := now\<rparr>"] row(2)
    by (simp add: abs_stock_def ivs upd_by_id_pv [OF ok row(1)] level_of_def pv_def)
  moreover have "holds (abs_stock (tabs w')) = (holds (abs_stock (tabs w)))(rid \<mapsto> (?k, ?q))"
    using none by (auto simp: abs_stock_def rs find_snoc active_def split: option.split)
  ultimately show "abs_stock (tabs w') = abs_reserve rid ?k ?q (abs_stock (tabs w))"
    using lv by (simp add: abs_reserve_def shift_level_def move_def level_of_def)
  show "\<exists>a h. levels (abs_stock (tabs w)) ?k = Some (a, h) \<and> 0 < ?q \<and> ?q \<le> a"
    using lv q by (simp add: level_of_def)
  show "holds (abs_stock (tabs w)) rid = None" using none by (simp add: abs_stock_def)
  show "rid \<notin> res_id ` set (reservations (tabs w))" by (rule fresh)
  show "rid \<in> res_id ` set (reservations (tabs w'))" by (simp add: rs)
qed

lemma reserve_item_fresh:
  "reserve_item rid oid ex now it e w = (Inr u, w') \<Longrightarrow>
     rid \<notin> res_id ` set (reservations (tabs w)) \<and> rid \<in> res_id ` set (reservations (tabs w'))"
  by (erule reserve_item_run) simp

text \<open>The loop reserves at most one item: the second insert violates the primary key.\<close>

lemma reserve_loop_single:
  assumes "for_each its (reserve_item rid oid ex now) e w = (Inr (), w')" and "its \<noteq> []"
  shows "\<exists>it. its = [it] \<and> reserve_item rid oid ex now it e w = (Inr (), w')"
proof (cases its)
  case (Cons a rest)
  with assms obtain w1 where a: "reserve_item rid oid ex now a e w = (Inr (), w1)"
    and loop: "for_each rest (reserve_item rid oid ex now) e w1 = (Inr (), w')"
    by (auto simp: run_ok)
  show ?thesis
  proof (cases rest)
    case Nil
    with a loop Cons show ?thesis by (simp add: run_ok)
  next
    case (Cons b more)
    with loop obtain w2 u where "reserve_item rid oid ex now b e w1 = (Inr u, w2)"
      by (auto simp: run_ok)
    with reserve_item_fresh [OF a] reserve_item_fresh show ?thesis by blast
  qed
qed (use assms in simp)

lemma ReserveStock_abs_placed:
  assumes "stock_inv (tabs w)" and "ReserveStock oid its ex e w = (Inr rid, w')"
  shows "(\<exists>r. find (live_reservation oid) (reservations (tabs w)) = Some r \<and> rid = res_id r \<and>
            tabs w' = tabs w) \<or>
         (\<exists>it a h. its = [it] \<and>
            levels (abs_stock (tabs w)) (item_product it, item_variant it) = Some (a, h) \<and>
            0 < item_quantity it \<and> item_quantity it \<le> a \<and> holds (abs_stock (tabs w)) rid = None \<and>
            abs_stock (tabs w') = abs_reserve rid (item_product it, item_variant it)
              (item_quantity it) (abs_stock (tabs w)))"
  using assms(2)
proof (cases rule: ReserveStock_cases)
  case (placed w1 w2)
  have "its \<noteq> []" using assms(2) by (auto simp: ReserveStock_def run_ok)
  with placed(1) obtain it where it: "its = [it]"
    "reserve_item rid oid ex (clock e) it e w1 = (Inr (), w2)"
    using reserve_loop_single by blast
  from assms(1) placed(2) have "stock_inv (tabs w1)" by simp
  from reserve_item_abs [OF this it(2)] it(1) placed(2,3) show ?thesis by auto
qed auto

text \<open>The rows selected by the identifier of a hold.\<close>

lemma filter_key_single:
  assumes "keyed k rs" and "x \<in> set rs"
  shows "filter (\<lambda>r. k r = k x) rs = [x]"
  using assms
proof (induction rs)
  case (Cons y ys)
  show ?case
  proof (cases "y = x")
    case True
    with Cons.prems have "\<forall>r \<in> set ys. k r \<noteq> k x" by (simp, metis image_eqI)
    with True show ?thesis by (simp add: filter_False)
  next
    case False
    with Cons show ?thesis by auto
  qed
qed simp

lemma open_rows_of_hold:
  assumes "stock_inv t" and "holds (abs_stock t) rid \<noteq> None" and "TrimSpace rid = rid" and "rid \<noteq> []"
  shows "map res_id (open_rows rid oo t) = [rid]"
proof -
  from assms(2) obtain x where "find (\<lambda>r. res_id r = rid \<and> active r) (reservations t) = Some x"
    by (auto simp: abs_stock_def)
  then have x: "x \<in> set (reservations t)" "res_id x = rid" "active x"
    by (auto dest: find_Some_in)
  have "filter (\<lambda>r. res_id r = rid) (reservations t) = [x]"
    using filter_key_single [of res_id "reservations t" x] x assms(1)
    by (simp add: stock_inv_def stock_ok_def)
  with x assms(3,4) show ?thesis by (simp add: open_rows_def select_reservations_def)
qed

section \<open>What stays closed\<close>

definition close_all ::
  "string set \<Rightarrow> ReservationStatus \<Rightarrow> int \<Rightarrow> InventoryReservation list \<Rightarrow> InventoryReservation list" where
  "close_all ids st now rs =
     upd_where (\<lambda>r. active r \<and> res_id r \<in> ids) (\<lambda>r. r\<lparr>res_status := st, res_updated := now\<rparr>) rs"

lemma close_all_empty [simp]: "close_all {} st now rs = rs"
  by (simp add: close_all_def upd_where_none)

lemma close_all_insert:
  assumes "st \<noteq> ReservationStatusReserved"
  shows "close_all ids st now (close_res x st now rs) = close_all (insert (res_id x) ids) st now rs"
  using assms by (induction rs) (auto simp: close_all_def close_res_def active_def)

lemma close_all_member:
  "r \<in> set rs \<Longrightarrow> active r \<Longrightarrow> res_id r \<in> ids \<Longrightarrow>
     r\<lparr>res_status := st, res_updated := now\<rparr> \<in> set (close_all ids st now rs)"
  unfolding close_all_def upd_where_def by force

lemma close_all_other:
  "r \<in> set rs \<Longrightarrow> \<not> (active r \<and> res_id r \<in> ids) \<Longrightarrow> r \<in> set (close_all ids st now rs)"
  unfolding close_all_def upd_where_def by force

lemma closing_loop_rows:
  assumes body: "\<And>row e w u w'. body row e w = (Inr u, w') \<Longrightarrow>
      closes (f row) st ty ev now row (tabs w) (tabs w')"
    and st: "st \<noteq> ReservationStatusReserved"
  shows "for_each rows body e w = (Inr u, w') \<Longrightarrow>
    reservations (tabs w') = close_all (res_id ` set rows) st now (reservations (tabs w))"
proof (induction rows arbitrary: w)
  case Nil
  then show ?case by (simp add: run_ok)
next
  case (Cons row rows)
  from Cons.prems obtain x w1 where b: "body row e w = (Inr x, w1)"
    and rest: "for_each rows body e w1 = (Inr u, w')"
    by (auto simp: run_ok)
  from body [OF b] have "reservations (tabs w1) = close_res row st now (reservations (tabs w))"
    by (simp add: closes_def)
  with Cons.IH [OF rest] show ?case by (simp add: close_all_insert [OF st])
qed

lemma ReleaseStock_rows:
  assumes "ReleaseStock input e w = (Inr u, w')"
  shows "reservations (tabs w') =
    close_all (res_id ` set (open_rows (rl_reservation input) (rl_order input) (tabs w)))
      (release_status (rl_reason input)) (clock e) (reservations (tabs w))"
proof -
  obtain w1 w2 where loop: "for_each (open_rows (rl_reservation input) (rl_order input) (tabs w))
      (release_row (release_status (rl_reason input)) (release_notes (rl_reason input))
        (rl_reason input) (clock e)) e w1 = (Inr (), w2)"
    and same: "tabs w1 = tabs w" "tabs w' = tabs w2"
    using ReleaseStock_loop [OF assms] by blast
  from closing_loop_rows [where f = "release_upd (clock e)", OF release_row_run release_status_closed loop]
  show ?thesis by (simp add: same)
qed

lemma CommitStock_rows:
  assumes "CommitStock input e w = (Inr u, w')"
  shows "reservations (tabs w') =
    close_all (res_id ` set (open_rows (cm_reservation input) (cm_order input) (tabs w)))
      ReservationStatusConfirmed (clock e) (reservations (tabs w))"
proof -
  have st: "ReservationStatusConfirmed \<noteq> ReservationStatusReserved" by simp
  obtain w1 w2 where loop: "for_each (open_rows (cm_reservation input) (cm_order input) (tabs w))
      (commit_row (clock e)) e w1 = (Inr (), w2)"
    and same: "tabs w1 = tabs w" "tabs w' = tabs w2"
    using CommitStock_loop [OF assms] by blast
  from closing_loop_rows [where f = "commit_upd (clock e)", OF commit_row_run st loop]
  show ?thesis by (simp add: same)
qed

lemma select_close_all:
  "reservations t' = close_all ids st now (reservations t) \<Longrightarrow>
   select_reservations i oo t' = close_all ids st now (select_reservations i oo t)"
proof -
  have "filter P (close_all ids st now rs) = close_all ids st now (filter P rs)"
    if "\<And>r. P (r\<lparr>res_status := st, res_updated := now\<rparr>) = P r" for P rs
    using that by (induction rs) (auto simp: close_all_def)
  then show "reservations t' = close_all ids st now (reservations t) \<Longrightarrow>
    select_reservations i oo t' = close_all ids st now (select_reservations i oo t)"
    by (simp add: select_reservations_def)
qed

text \<open>Closing the open rows of a selection leaves none open in it.\<close>

lemma open_rows_closed:
  assumes "reservations t' = close_all (res_id ` set (open_rows i oo t)) st now (reservations t)"
    and "st \<noteq> ReservationStatusReserved"
  shows "open_rows i oo t' = []"
proof -
  have closed: "\<not> active r" if "r \<in> set (close_all (res_id ` set (filter active rs)) st now rs)" for r rs
  proof -
    from that obtain q where q: "q \<in> set rs"
      "r = (if active q \<and> res_id q \<in> res_id ` set (filter active rs)
            then q\<lparr>res_status := st, res_updated := now\<rparr> else q)"
      by (auto simp: close_all_def in_upd_where)
    show ?thesis
    proof (cases "active q")
      case True
      with q(1) have "res_id q \<in> res_id ` set (filter active rs)" by simp
      with True q(2) have "res_status r = st" by simp
      with assms(2) show ?thesis by (simp add: active_def)
    next
      case False
      with q(2) show ?thesis by simp
    qed
  qed
  have "\<forall>r \<in> set (select_reservations i oo t'). \<not> active r"
    unfolding select_close_all [OF assms(1), of i oo] open_rows_def by (intro ballI closed)
  then show ?thesis by (simp add: open_rows_def)
qed

lemma CommitStock_confirmed:
  assumes "CommitStock input e w = (Inr u, w')"
  shows "\<exists>r \<in> set (select_reservations (cm_reservation input) (cm_order input) (tabs w')).
    res_status r = ReservationStatusConfirmed"
proof -
  let ?sel = "select_reservations (cm_reservation input) (cm_order input)"
  let ?ids = "res_id ` set (open_rows (cm_reservation input) (cm_order input) (tabs w))"
  have sel: "?sel (tabs w') = close_all ?ids ReservationStatusConfirmed (clock e) (?sel (tabs w))"
    by (rule select_close_all [OF CommitStock_rows [OF assms]])
  have "(\<exists>r \<in> set (?sel (tabs w)). active r) \<or>
      (\<exists>r \<in> set (?sel (tabs w)). res_status r = ReservationStatusConfirmed)"
    using assms unfolding CommitStock_def
    by (auto simp: run_ok filter_empty_conv elim!: with_tx_ok split: if_splits)
  then show ?thesis
  proof
    assume "\<exists>r \<in> set (?sel (tabs w)). active r"
    then obtain r where r: "r \<in> set (?sel (tabs w))" "active r" by blast
    then have "res_id r \<in> ?ids" by (simp add: open_rows_def)
    from close_all_member [OF r this, of "clock e" ReservationStatusConfirmed]
    show ?thesis unfolding sel by (rule rev_bexI) simp
  next
    assume "\<exists>r \<in> set (?sel (tabs w)). res_status r = ReservationStatusConfirmed"
    then obtain r where r: "r \<in> set (?sel (tabs w))" "res_status r = ReservationStatusConfirmed" by blast
    then have "\<not> active r" by (simp add: active_def)
    with r show ?thesis unfolding sel using close_all_other by blast
  qed
qed

text \<open>Calls on closed reservations.\<close>

lemma ReleaseStock_closed:
  assumes "open_rows (rl_reservation input) (rl_order input) (tabs w) = []"
  shows "tabs (snd (ReleaseStock input e w)) = tabs w"
proof -
  obtain r w' where run: "ReleaseStock input e w = (r, w')" by fastforce
  show ?thesis
  proof (cases r)
    case (Inl er)
    with run ReleaseStock_atomic show ?thesis by (auto dest: atomicD)
  next
    case (Inr u)
    with run ReleaseStock_loop [of input e w u w'] assms show ?thesis by (auto simp: run_ok)
  qed
qed

lemma CommitStock_closed:
  assumes "open_rows (cm_reservation input) (cm_order input) (tabs w) = []"
  shows "tabs (snd (CommitStock input e w)) = tabs w"
proof -
  obtain r w' where run: "CommitStock input e w = (r, w')" by fastforce
  show ?thesis
  proof (cases r)
    case (Inl er)
    with run CommitStock_atomic show ?thesis by (auto dest: atomicD)
  next
    case (Inr u)
    with run CommitStock_loop [of input e w u w'] assms show ?thesis by (auto simp: run_ok)
  qed
qed

text \<open>What \<open>CommitStock\<close> answers when nothing is open and no statement fails.\<close>

lemma CommitStock_closed_result:
  assumes "fault_free e" and "open_rows (cm_reservation input) (cm_order input) (tabs w) = []"
    and "\<not> (blank (cm_reservation input) \<and> blank (cm_order input))"
    and "select_reservations (cm_reservation input) (cm_order input) (tabs w) \<noteq> []"
  shows "fst (CommitStock input e w) =
    (if \<exists>r \<in> set (select_reservations (cm_reservation input) (cm_order input) (tabs w)).
          res_status r = ReservationStatusConfirmed then Inr ()
     else Inl (Conflict ''cannot commit released or expired reservation''))"
proof -
  let ?rows = "select_reservations (cm_reservation input) (cm_order input) (tabs w)"
  have none: "filter active ?rows = []" using assms(2) by (simp add: open_rows_def)
  have "\<exists>r \<in> set ?rows. res_status r = ReservationStatusReleased \<or> res_status r = ReservationStatusExpired"
    if "\<not> (\<exists>r \<in> set ?rows. res_status r = ReservationStatusConfirmed)"
  proof -
    from assms(4) obtain r where r: "r \<in> set ?rows" by (meson list.set_sel(1))
    with none that show ?thesis by (cases "res_status r") (auto simp: filter_empty_conv active_def)
  qed
  with none assms(1,3,4) show ?thesis
    unfolding CommitStock_def
    by (auto simp: seq_def bind_def require_def ret_def raise_def with_tx_def time_now_def
        on_error_def sql_select_eq roll_back_def)
qed

text \<open>A release by identifier leaves every other reservation, and every closed one, alone.\<close>

lemma ReleaseStock_spares:
  assumes "r \<in> set (reservations (tabs w))" and "\<not> active r \<or> res_id r \<noteq> TrimSpace i"
    and "TrimSpace i \<noteq> []"
  shows "r \<in> set (reservations (tabs (snd
    (ReleaseStock \<lparr>rl_reservation = i, rl_order = oo, rl_reason = why\<rparr> e w))))"
proof -
  obtain x w' where run: "ReleaseStock \<lparr>rl_reservation = i, rl_order = oo, rl_reason = why\<rparr> e w = (x, w')"
    by fastforce
  show ?thesis
  proof (cases x)
    case (Inl er)
    with run assms(1) show ?thesis using atomicD [OF ReleaseStock_atomic] by fastforce
  next
    case (Inr u)
    have "res_id r \<notin> res_id ` set (open_rows i oo (tabs w)) \<or> \<not> active r"
      using assms(2,3) by (auto simp: open_rows_def select_reservations_def)
    with ReleaseStock_rows [OF run [unfolded Inr]] assms(1) run show ?thesis
      by (auto intro: close_all_other)
  qed
qed

text \<open>A blank identifier stops the release before its transaction.\<close>

lemma ReleaseStock_blank:
  "TrimSpace i = [] \<Longrightarrow> tabs (snd (ReleaseStock \<lparr>rl_reservation = i, rl_order = [], rl_reason = why\<rparr> e w)) = tabs w"
  by (simp add: ReleaseStock_def seq_def bind_def require_def raise_def blank_def)

lemma release_each_spares:
  assumes "r \<in> set (reservations (tabs w))" and "\<not> active r \<or> res_id r \<notin> TrimSpace ` set is"
  shows "r \<in> set (reservations (tabs (snd (release_each is n e w))))"
  using assms
proof (induction "is" arbitrary: n w)
  case (Cons i ids)
  let ?m = "ReleaseStock \<lparr>rl_reservation = i, rl_order = [], rl_reason = ''EXPIRED''\<rparr>"
  obtain x w1 where run: "?m e w = (x, w1)" by fastforce
  have "r \<in> set (reservations (tabs (snd (?m e w))))"
  proof (cases "TrimSpace i = []")
    case True
    then show ?thesis using ReleaseStock_blank Cons.prems(1) by metis
  next
    case False
    then show ?thesis using Cons.prems by (intro ReleaseStock_spares) auto
  qed
  with run have "r \<in> set (reservations (tabs w1))" by simp
  with Cons run show ?case by (simp add: bind_def attempt_def)
qed (simp add: ret_def)

end
