(* ===== verification/Inventory_Props.thy ===== *)
theory Inventory_Props
  imports Inventory_Ledger
begin

text \<open>
  The properties of the inventory service, over every request, every order of requests and
  every failure, with a small concrete run that shows their hypotheses can hold.
\<close>

section \<open>A concrete run\<close>

definition sample_grpc :: grpc_lib where
  "sample_grpc = \<lparr>from_error = (\<lambda>e. case e of StatusError c m \<Rightarrow> Some (c, m) | _ \<Rightarrow> None),
     status_text = (\<lambda>c m. m)\<rparr>"

definition sample_svc :: inv_svc where
  "sample_svc = \<lparr>uuid_ok = (\<lambda>s. s \<noteq> []), products = None, sku_random = None, grpc = sample_grpc\<rparr>"

definition sample_decoders :: "OrderCreatedEvent decoders" where
  "sample_decoders = \<lparr>dec_created = Inr, dec_failed = (\<lambda>_. Inl (ErrorString ''bad'')),
     dec_cancelled = (\<lambda>_. Inl (ErrorString ''bad'')), dec_confirmed = (\<lambda>_. Inl (ErrorString ''bad''))\<rparr>"

definition sample_env :: env where
  "sample_env = \<lparr>fault = (\<lambda>_. False), uuid_at = (\<lambda>n. CHR ''u'' # replicate n CHR ''x''), clock = 100,
     broker = (\<lambda>_. Acked), ctx_done = (\<lambda>_. False)\<rparr>"

definition sample_input :: CreateInventoryInput where
  "sample_input = \<lparr>ci_merchant = [], ci_warehouse = None, ci_product = ''p'', ci_variant = None,
     ci_sku = ''sku'', ci_initial = 10, ci_threshold = 2\<rparr>"

definition sample_start :: "inv_tables world" where
  "sample_start = \<lparr>tabs = empty_tables [], aborted = False, nstmt = 0, nuuid = 0, nsend = 0,
     sent = []\<rparr>"

definition sample_stocked :: "inv_tables world" where
  "sample_stocked = snd (CreateInventory sample_svc sample_input sample_env sample_start)"

definition sample_item :: ReserveItem where
  "sample_item = \<lparr>item_product = ''p'', item_variant = None, item_quantity = 4\<rparr>"

definition sample_reserved :: "inv_tables world" where
  "sample_reserved = snd (ReserveStock ''order'' [sample_item] 200 sample_env sample_stocked)"

lemmas sample_defs =
  sample_grpc_def sample_svc_def sample_decoders_def sample_env_def sample_input_def
  sample_start_def sample_stocked_def sample_item_def sample_reserved_def

lemma sample_stocked_eval:
  "map level_of (inventories (tabs sample_stocked)) = [(10, 0)] \<and>
   map pv (inventories (tabs sample_stocked)) = [(''p'', None)] \<and>
   reservations (tabs sample_stocked) = []"
  by code_simp

lemma sample_reserved_eval:
  "map level_of (inventories (tabs sample_reserved)) = [(6, 4)] \<and>
   map (\<lambda>r. (res_id r, res_quantity r, active r)) (reservations (tabs sample_reserved)) =
     [(''uxxxx'', 4, True)]"
  by code_simp

lemma sample_stocked_tabs:
  "tabs sample_stocked =
     tabs (snd (serve sample_svc sample_decoders (ReqCreate sample_input) sample_env sample_start))"
  by code_simp

lemma sample_start_reach: "inv_reach sample_svc sample_decoders (tabs sample_start)"
  using inv_reach.inv_start [of sample_svc sample_decoders "[]"] by (simp add: sample_start_def)

lemma sample_stocked_reach: "inv_reach sample_svc sample_decoders (tabs sample_stocked)"
  unfolding sample_stocked_tabs by (rule inv_reach.inv_served [OF sample_start_reach])

lemma sample_stocked_inv: "stock_inv (tabs sample_stocked)"
  by (rule inv_reach_inv [OF sample_stocked_reach])

lemma sample_reserved_inv: "stock_inv (tabs sample_reserved)"
  unfolding sample_reserved_def by (rule reserve.op_inv [OF sample_stocked_inv])

lemma sample_reserve_run:
  "ReserveStock ''order'' [sample_item] 200 sample_env sample_stocked = (Inr ''uxxxx'', sample_reserved)"
proof -
  have "fst (ReserveStock ''order'' [sample_item] 200 sample_env sample_stocked) = Inr ''uxxxx''"
    by code_simp
  then show ?thesis unfolding sample_reserved_def by (metis prod.collapse)
qed

section \<open>Safety over all requests\<close>

text \<open>
  C1. Stock is never oversold. In every state reachable from the empty database by any
  requests and events in any order, with any statement failing anywhere, every inventory
  row has a non-negative available quantity, and its reserved quantity is exactly the sum
  of the quantities of the open reservations of its product and variant.
\<close>

theorem stock_never_oversold:
  assumes "inv_reach S D t" and "r \<in> set (inventories t)"
  shows "0 \<le> inv_available r \<and> int4 (inv_available r) \<and>
    inv_reserved r = sum_list (map res_quantity (filter
      (\<lambda>x. res_status x = ReservationStatusReserved \<and> res_product x = inv_product r \<and>
            res_variant x = inv_variant r) (reservations t)))"
  using inv_reach_inv [OF assms(1)] assms(2)
  by (auto simp: stock_inv_def stock_ok_def inv_row_ok_def held_def sum_where_def active_def)

theorem stock_never_oversold_witness:
  "\<exists>r \<in> set (inventories (tabs sample_stocked)). 0 \<le> inv_available r"
proof -
  have "inventories (tabs sample_stocked) \<noteq> []" using sample_stocked_eval by auto
  then obtain r where r: "r \<in> set (inventories (tabs sample_stocked))" by (meson list.set_sel(1))
  with stock_never_oversold [OF sample_stocked_reach r] show ?thesis by auto
qed

text \<open>
  C3. Every request is all or nothing: when it returns an error, whichever statement
  failed, all tables of the service (stock, reservations, ledger, outbox) are as before.
  So an order whose second item is short has reserved nothing of the first.
\<close>

theorem request_all_or_nothing:
  assumes "serve S D req e w = (Inl er, w')"
  shows "tabs w' = tabs w"
  using served.op_atomic assms by (rule atomicD)

theorem request_all_or_nothing_witness:
  "tabs (snd (serve sample_svc sample_decoders
      (ReqReserve \<lparr>rs_order = ''order'', rs_items = [sample_item\<lparr>item_quantity := 40\<rparr>],
        rs_minutes = 0\<rparr>) sample_env sample_stocked)) = tabs sample_stocked"
proof -
  let ?run = "serve sample_svc sample_decoders
      (ReqReserve \<lparr>rs_order = ''order'', rs_items = [sample_item\<lparr>item_quantity := 40\<rparr>],
        rs_minutes = 0\<rparr>) sample_env sample_stocked"
  have "fst ?run = Inl (Conflict ''insufficient stock for product p: available 10, requested 40'')"
    by code_simp
  then show ?thesis
    using request_all_or_nothing [of sample_svc sample_decoders _ sample_env sample_stocked
        "projl (fst ?run)" "snd ?run"] by (metis prod.collapse sum.sel(1))
qed

section \<open>Reservations\<close>

text \<open>
  C5. \<open>ReserveStock\<close> refines the ledger. When it succeeds on tables that satisfy the
  invariant, either the order already had a live reservation, whose identifier is returned
  and nothing changes, or exactly one item was asked for, the stock covered its quantity,
  and the ledger after the call is the ledger with that quantity moved from available to
  held under the fresh identifier returned.
\<close>

theorem ReserveStock_refines:
  assumes "stock_inv (tabs w)" and "ReserveStock oid its ex e w = (Inr rid, w')"
  shows "(\<exists>r. find (live_reservation oid) (reservations (tabs w)) = Some r \<and> rid = res_id r \<and>
            tabs w' = tabs w) \<or>
         (\<exists>it a h. its = [it] \<and>
            levels (abs_stock (tabs w)) (item_product it, item_variant it) = Some (a, h) \<and>
            0 < item_quantity it \<and> item_quantity it \<le> a \<and> holds (abs_stock (tabs w)) rid = None \<and>
            abs_stock (tabs w') = abs_reserve rid (item_product it, item_variant it)
              (item_quantity it) (abs_stock (tabs w)))"
  by (rule ReserveStock_abs_placed [OF assms])

theorem ReserveStock_refines_witness:
  "abs_stock (tabs sample_reserved) =
     abs_reserve ''uxxxx'' (''p'', None) 4 (abs_stock (tabs sample_stocked))"
  using ReserveStock_refines [OF sample_stocked_inv sample_reserve_run] sample_stocked_eval
  by (auto simp: sample_item_def)

text \<open>
  C13. An order with two or more items is never reserved: the loop inserts every item's row
  with the same reservation identifier, which is the table's primary key. Whatever the
  stock, the call fails and changes nothing.
\<close>

theorem multi_item_reservation_fails:
  assumes "find (live_reservation oid) (reservations (tabs w)) = None" and "2 \<le> length its"
  shows "\<exists>er w'. ReserveStock oid its ex e w = (Inl er, w') \<and> tabs w' = tabs w"
proof -
  obtain r w' where run: "ReserveStock oid its ex e w = (r, w')" by fastforce
  show ?thesis
  proof (cases r)
    case (Inl er)
    with run ReserveStock_atomic show ?thesis by (auto dest: atomicD)
  next
    case (Inr rid)
    with run have "ReserveStock oid its ex e w = (Inr rid, w')" by simp
    then show ?thesis
    proof (cases rule: ReserveStock_cases)
      case (placed w1 w2)
      from assms(2) have "its \<noteq> []" by auto
      with reserve_loop_single [OF placed(1)] assms(2) show ?thesis by auto
    qed (use assms(1) in simp)
  qed
qed

theorem multi_item_reservation_fails_witness:
  "tabs (snd (ReserveStock ''order'' [sample_item, sample_item\<lparr>item_quantity := 1\<rparr>] 200
     sample_env sample_stocked)) = tabs sample_stocked"
proof -
  have "find (live_reservation ''order'') (reservations (tabs sample_stocked)) = None"
    using sample_stocked_eval by simp
  from multi_item_reservation_fails [OF this, of "[sample_item, sample_item\<lparr>item_quantity := 1\<rparr>]"
      200 sample_env] show ?thesis by auto
qed

text \<open>
  A reservation is idempotent per order: when the order has a live reservation, a
  repeated \<open>ReserveStock\<close>, with whatever items and whatever failures, changes nothing and
  can only return the identifier of the existing one.
\<close>

theorem ReserveStock_idempotent:
  assumes "find (live_reservation oid) (reservations (tabs w)) = Some r" and "res_id r \<noteq> []"
  shows "tabs (snd (ReserveStock oid its ex e w)) = tabs w \<and>
    (\<forall>rid. fst (ReserveStock oid its ex e w) = Inr rid \<longrightarrow> rid = res_id r) \<and>
    (its \<noteq> [] \<and> fault_free e \<longrightarrow> fst (ReserveStock oid its ex e w) = Inr (res_id r))"
proof (intro conjI)
  obtain res w' where run: "ReserveStock oid its ex e w = (res, w')" by fastforce
  have ok: "rid = res_id r \<and> tabs w' = tabs w" if "res = Inr rid" for rid
    using run [unfolded that]
    by (cases rule: ReserveStock_cases) (use assms in auto)
  show "tabs (snd (ReserveStock oid its ex e w)) = tabs w"
    using run ok ReserveStock_atomic by (cases res) (auto dest: atomicD)
  show "\<forall>rid. fst (ReserveStock oid its ex e w) = Inr rid \<longrightarrow> rid = res_id r"
    using run ok by simp
  show "its \<noteq> [] \<and> fault_free e \<longrightarrow> fst (ReserveStock oid its ex e w) = Inr (res_id r)"
    using assms by (simp add: ReserveStock_def seq_def bind_def require_def ret_def with_tx_def
        time_now_def attempt_def sql_select_eq)
qed

lemma sample_live:
  "map_option res_id (find (live_reservation ''order'') (reservations (tabs sample_reserved))) =
     Some ''uxxxx''"
  by code_simp

theorem ReserveStock_idempotent_witness:
  "tabs (snd (ReserveStock ''order'' [] 9 sample_env sample_reserved)) = tabs sample_reserved"
proof -
  obtain r where r: "find (live_reservation ''order'') (reservations (tabs sample_reserved)) = Some r"
    "res_id r = ''uxxxx''" using sample_live by auto
  then have "res_id r \<noteq> []" by simp
  from ReserveStock_idempotent [OF r(1) this] show ?thesis by blast
qed

text \<open>
  Enough stock is enough: without failures and with fresh identifiers, a single item
  whose quantity the row covers (and whose sum with the reserved quantity fits the column)
  is reserved, and the identifier returned is the next one of the generator.
\<close>

theorem ReserveStock_succeeds:
  assumes ff: "fault_free e" and inj: "inj (uuid_at e)"
    and fresh: "\<forall>n. uuid_at e n \<notin> res_id ` set (reservations (tabs w)) \<and>
      uuid_at e n \<notin> txn_id ` set (transactions (tabs w)) \<and>
      uuid_at e n \<notin> ob_id ` set (outbox (tabs w))"
    and inv0: "stock_inv (tabs w)"
    and none: "find (live_reservation oid) (reservations (tabs w)) = None"
    and row: "find (match_pv (item_product it) (item_variant it)) (inventories (tabs w)) = Some row"
    and q: "0 < item_quantity it" "item_quantity it \<le> inv_available row"
      "int4 (inv_reserved row + item_quantity it)"
    and v: "item_variant it \<noteq> Some []"
  shows "fst (ReserveStock oid [it] ex e w) = Inr (uuid_at e (nuuid w))"
proof -
  let ?q = "item_quantity it"
  let ?f = "\<lambda>r. r\<lparr>inv_available := inv_available row - ?q, inv_reserved := inv_reserved row + ?q,
    inv_updated := clock e\<rparr>"
  from row have mem: "row \<in> set (inventories (tabs w))" by (auto dest: find_Some_in)
  have rok: "inv_row_ok row" and key: "keyed inv_id (inventories (tabs w))"
    using inv0 mem by (auto simp: stock_inv_def stock_ok_def)
  have rows: "\<forall>r \<in> set (inventories (tabs w)). inv_id r = inv_id row \<longrightarrow> inv_row_ok (?f r)"
  proof (intro ballI impI)
    fix r :: Inventory assume "r \<in> set (inventories (tabs w))" "inv_id r = inv_id row"
    then have "r = row" using keyed_unique [OF key _ mem] by blast
    with rok q show "inv_row_ok (?f r)" by (auto simp: inv_row_ok_def int4_def)
  qed
  have int: "int4 ?q" using rok q by (auto simp: inv_row_ok_def int4_def)
  have ids: "inv_id row \<in> inv_id ` set (upd_where (\<lambda>r. inv_id r = inv_id row) ?f (inventories (tabs w)))"
    using mem by (simp add: image_upd_where)
  have ne: "uuid_at e n \<noteq> uuid_at e m" if "n \<noteq> m" for n m
    using inj that by (auto dest: injD)
  let ?w1 = "w\<lparr>aborted := False, nstmt := Suc (Suc (nstmt w)), nuuid := Suc (nuuid w)\<rparr>"
  have "\<exists>w2. reserve_item (uuid_at e (nuuid w)) oid ex (clock e) it e ?w1 = (Inr (), w2) \<and> \<not> aborted w2"
    unfolding reserve_item_def
    using q v row fresh rows int ids ne ff
    by (cases "inv_available row - ?q < inv_threshold row") (simp_all add: run_ok outbox_entry_def)
  then obtain w2 where w2: "reserve_item (uuid_at e (nuuid w)) oid ex (clock e) it e ?w1 = (Inr (), w2)"
    "\<not> aborted w2" by blast
  then have "place_reservation oid [it] ex (clock e) e (w\<lparr>aborted := False, nstmt := Suc (Suc (nstmt w))\<rparr>) =
      (Inr (Commit (uuid_at e (nuuid w))), w2)"
    by (simp add: place_reservation_run run_ok)
  with w2(2) none ff show ?thesis
    by (simp add: ReserveStock_def seq_def bind_def require_def ret_def with_tx_def
        time_now_def attempt_def sql_select_eq)
qed

lemma sample_ids_fresh:
  "\<forall>n. uuid_at (sample_env\<lparr>uuid_at := \<lambda>n. CHR ''v'' # replicate n CHR ''x''\<rparr>) n
       \<notin> res_id ` set (reservations (tabs sample_stocked)) \<and>
     uuid_at (sample_env\<lparr>uuid_at := \<lambda>n. CHR ''v'' # replicate n CHR ''x''\<rparr>) n
       \<notin> txn_id ` set (transactions (tabs sample_stocked)) \<and>
     uuid_at (sample_env\<lparr>uuid_at := \<lambda>n. CHR ''v'' # replicate n CHR ''x''\<rparr>) n
       \<notin> ob_id ` set (outbox (tabs sample_stocked))"
proof -
  have "map txn_id (transactions (tabs sample_stocked)) = [''ux'']"
    "map ob_id (outbox (tabs sample_stocked)) = [''uxxx'']" by code_simp+
  then have "txn_id ` set (transactions (tabs sample_stocked)) = {''ux''}"
    "ob_id ` set (outbox (tabs sample_stocked)) = {''uxxx''}"
    by (metis empty_set list.set(2) list.set_map)+
  with sample_stocked_eval show ?thesis by simp
qed

theorem ReserveStock_succeeds_witness:
  "fst (ReserveStock ''order'' [sample_item] 200
     (sample_env\<lparr>uuid_at := \<lambda>n. CHR ''v'' # replicate n CHR ''x''\<rparr>) sample_stocked) = Inr ''vxxxx''"
proof -
  let ?e = "sample_env\<lparr>uuid_at := \<lambda>n. CHR ''v'' # replicate n CHR ''x''\<rparr>"
  have ff: "fault_free ?e" by (simp add: fault_free_def sample_env_def)
  have inj: "inj (uuid_at ?e)" by (auto simp: inj_def)
  have "map_option level_of (find (match_pv ''p'' None) (inventories (tabs sample_stocked))) = Some (10, 0)"
    by code_simp
  then obtain row where row: "find (match_pv (item_product sample_item) (item_variant sample_item))
      (inventories (tabs sample_stocked)) = Some row" "inv_available row = 10" "inv_reserved row = 0"
    by (auto simp: sample_item_def level_of_def)
  have none: "find (live_reservation ''order'') (reservations (tabs sample_stocked)) = None"
    using sample_stocked_eval by simp
  have n: "nuuid sample_stocked = 4" by code_simp
  have "fst (ReserveStock ''order'' [sample_item] 200 ?e sample_stocked) =
      Inr (uuid_at ?e (nuuid sample_stocked))"
    by (rule ReserveStock_succeeds [OF ff inj sample_ids_fresh sample_stocked_inv none row(1)])
      (simp_all add: sample_item_def row(2,3) int4_def)
  then show ?thesis by (simp add: n eval_nat_numeral)
qed

section \<open>Release and commit\<close>

text \<open>
  \<open>ReleaseStock\<close> refines the ledger: a successful call on tables that satisfy the
  invariant has released exactly the open reservations its identifiers select, each once,
  returning each quantity from held to available.
\<close>

theorem ReleaseStock_refines:
  assumes "stock_inv (tabs w)" and "ReleaseStock input e w = (Inr u, w')"
  shows "abs_stock (tabs w') =
    fold abs_release
      (map res_id (filter (\<lambda>r. res_status r = ReservationStatusReserved)
        (select_reservations (rl_reservation input) (rl_order input) (tabs w))))
      (abs_stock (tabs w))"
  using ReleaseStock_abs [OF assms] by (simp add: open_rows_def active_def [abs_def])

definition sample_release :: ReleaseStockInput where
  "sample_release = \<lparr>rl_reservation = ''uxxxx'', rl_order = [], rl_reason = ''CANCELLED''\<rparr>"

lemma sample_release_run:
  "ReleaseStock sample_release sample_env sample_reserved =
     (Inr (), snd (ReleaseStock sample_release sample_env sample_reserved))"
proof -
  have "fst (ReleaseStock sample_release sample_env sample_reserved) = Inr ()" by code_simp
  then show ?thesis by (metis prod.collapse)
qed

lemma sample_selected:
  "map res_id (filter (\<lambda>r. res_status r = ReservationStatusReserved)
     (select_reservations ''uxxxx'' [] (tabs sample_reserved))) = [''uxxxx'']"
  by code_simp

theorem ReleaseStock_refines_witness:
  "abs_stock (tabs (snd (ReleaseStock sample_release sample_env sample_reserved))) =
     abs_release ''uxxxx'' (abs_stock (tabs sample_reserved))"
proof -
  have "rl_reservation sample_release = ''uxxxx''" "rl_order sample_release = []"
    by (simp_all add: sample_release_def)
  with ReleaseStock_refines [OF sample_reserved_inv sample_release_run] sample_selected
  show ?thesis by (simp only: fold_simps)
qed

text \<open>
  \<open>CommitStock\<close> refines the ledger: a successful call has taken exactly the open
  reservations it selects out of the held quantities, each once, and left the available
  quantities alone.
\<close>

theorem CommitStock_refines:
  assumes "stock_inv (tabs w)" and "CommitStock input e w = (Inr u, w')"
  shows "abs_stock (tabs w') =
    fold abs_commit
      (map res_id (filter (\<lambda>r. res_status r = ReservationStatusReserved)
        (select_reservations (cm_reservation input) (cm_order input) (tabs w))))
      (abs_stock (tabs w))"
  using CommitStock_abs [OF assms] by (simp add: open_rows_def active_def [abs_def])

definition sample_commit :: CommitStockInput where
  "sample_commit = \<lparr>cm_reservation = ''uxxxx'', cm_order = []\<rparr>"

lemma sample_commit_run:
  "CommitStock sample_commit sample_env sample_reserved =
     (Inr (), snd (CommitStock sample_commit sample_env sample_reserved))"
proof -
  have "fst (CommitStock sample_commit sample_env sample_reserved) = Inr ()" by code_simp
  then show ?thesis by (metis prod.collapse)
qed

theorem CommitStock_refines_witness:
  "abs_stock (tabs (snd (CommitStock sample_commit sample_env sample_reserved))) =
     abs_commit ''uxxxx'' (abs_stock (tabs sample_reserved))"
proof -
  have "cm_reservation sample_commit = ''uxxxx''" "cm_order sample_commit = []"
    by (simp_all add: sample_commit_def)
  with CommitStock_refines [OF sample_reserved_inv sample_commit_run] sample_selected
  show ?thesis by (simp only: fold_simps)
qed

text \<open>
  Reserve and release are a round trip: a reservation that was placed and then released
  by its identifier leaves every stock level and every other reservation as it found them.
\<close>

theorem reserve_release_roundtrip:
  assumes inv0: "stock_inv (tabs w)"
    and none: "find (live_reservation oid) (reservations (tabs w)) = None"
    and reserve: "ReserveStock oid its ex e w = (Inr rid, w1)"
    and rid: "TrimSpace rid = rid" "rid \<noteq> []"
    and release: "ReleaseStock \<lparr>rl_reservation = rid, rl_order = oo, rl_reason = why\<rparr> e' w1 = (Inr u, w2)"
  shows "abs_stock (tabs w2) = abs_stock (tabs w)"
proof -
  from ReserveStock_abs_placed [OF inv0 reserve] none obtain it :: ReserveItem where
    fresh: "holds (abs_stock (tabs w)) rid = None" and
    after: "abs_stock (tabs w1) = abs_reserve rid (item_product it, item_variant it)
              (item_quantity it) (abs_stock (tabs w))" by auto
  have inv1: "stock_inv (tabs w1)" using ReserveStock_keeps inv0 reserve by (rule keepsD)
  have "holds (abs_stock (tabs w1)) rid \<noteq> None" by (simp add: after abs_reserve_def)
  then have "map res_id (open_rows rid oo (tabs w1)) = [rid]"
    by (rule open_rows_of_hold [OF inv1 _ rid])
  with ReleaseStock_abs [OF inv1 release] after fresh show ?thesis
    by (simp add: abs_release_reserve)
qed

theorem reserve_release_roundtrip_witness:
  "abs_stock (tabs (snd (ReleaseStock sample_release sample_env sample_reserved))) =
     abs_stock (tabs sample_stocked)"
proof -
  have none: "find (live_reservation ''order'') (reservations (tabs sample_stocked)) = None"
    using sample_stocked_eval by simp
  have trim: "TrimSpace ''uxxxx'' = ''uxxxx''" by code_simp
  from reserve_release_roundtrip [OF sample_stocked_inv none sample_reserve_run trim _
      sample_release_run [unfolded sample_release_def]]
  show ?thesis by (simp add: sample_release_def)
qed

text \<open>
  A commit is final. After a successful \<open>CommitStock\<close>, a redelivered commit or a
  late release with the same identifiers changes nothing, and the repeated commit still
  answers with success when no statement fails.
\<close>

theorem commit_is_final:
  assumes run: "CommitStock input e w = (Inr u, w1)" and again: "tabs w2 = tabs w1"
  shows "tabs (snd (CommitStock input e2 w2)) = tabs w1 \<and>
    tabs (snd (ReleaseStock \<lparr>rl_reservation = cm_reservation input, rl_order = cm_order input,
      rl_reason = why\<rparr> e2 w2)) = tabs w1 \<and>
    (fault_free e2 \<longrightarrow> fst (CommitStock input e2 w2) = Inr ())"
proof -
  let ?i = "cm_reservation input" and ?o = "cm_order input"
  have closed: "open_rows ?i ?o (tabs w2) = []"
    unfolding again by (rule open_rows_closed [OF CommitStock_rows [OF run]]) simp
  have conf: "\<exists>r \<in> set (select_reservations ?i ?o (tabs w2)). res_status r = ReservationStatusConfirmed"
    unfolding again by (rule CommitStock_confirmed [OF run])
  then have ne: "select_reservations ?i ?o (tabs w2) \<noteq> []" by auto
  have "\<not> (blank ?i \<and> blank ?o)" using run by (auto simp: CommitStock_def run_ok)
  from CommitStock_closed_result [OF _ closed this ne] conf
  have "fault_free e2 \<longrightarrow> fst (CommitStock input e2 w2) = Inr ()" by simp
  with CommitStock_closed [OF closed] ReleaseStock_closed [of
      "\<lparr>rl_reservation = ?i, rl_order = ?o, rl_reason = why\<rparr>" w2 e2] closed again
  show ?thesis by simp
qed

theorem commit_is_final_witness:
  "fst (CommitStock sample_commit sample_env
     (snd (CommitStock sample_commit sample_env sample_reserved))) = Inr ()"
  using commit_is_final [OF sample_commit_run refl, of sample_env "[]"]
  by (simp add: fault_free_def sample_env_def)

text \<open>
  C14. A paid order whose reservation has expired is confirmed without stock. When every
  reservation of the order has been released or has expired (and none was committed), the
  repository refuses the commit with a conflict, but the handler of \<open>OrderConfirmed\<close>
  takes this conflict for a repeated commit: it reports success and changes nothing.
\<close>

theorem confirm_after_expiry_is_silent:
  assumes ff: "fault_free e" and id: "\<not> blank oid" "isValidUUID S oid"
    and some: "select_reservations [] oid (tabs w) \<noteq> []"
    and gone: "\<forall>r \<in> set (select_reservations [] oid (tabs w)).
      res_status r = ReservationStatusReleased \<or> res_status r = ReservationStatusExpired"
  shows "fst (CommitStock \<lparr>cm_reservation = [], cm_order = oid\<rparr> e w) =
      Inl (Conflict ''cannot commit released or expired reservation'') \<and>
    fst (handleOrderConfirmed S \<lparr>of_order = oid\<rparr> e w) = Inr () \<and>
    tabs (snd (handleOrderConfirmed S \<lparr>of_order = oid\<rparr> e w)) = tabs w"
proof -
  let ?in = "\<lparr>cm_reservation = [], cm_order = oid\<rparr>"
  have closed: "open_rows (cm_reservation ?in) (cm_order ?in) (tabs w) = []"
    using gone by (auto simp: open_rows_def filter_empty_conv active_def)
  have err: "fst (CommitStock ?in e w) =
      Inl (Conflict ''cannot commit released or expired reservation'')"
    using CommitStock_closed_result [OF ff closed] id some gone by auto
  moreover have "CommitStock_svc S ?in e w = CommitStock ?in e w"
    using id by (simp add: CommitStock_svc_def check_ids_def seq_def bind_def require_def ret_def)
  ultimately show ?thesis
    using id CommitStock_closed [OF closed, of e]
    by (auto simp: handleOrderConfirmed_def swallow_def seq_def bind_def require_def ret_def
        attempt_def split: prod.splits)
qed

definition sample_expired :: "inv_tables world" where
  "sample_expired = snd (ReleaseStock \<lparr>rl_reservation = ''uxxxx'', rl_order = [],
     rl_reason = ''EXPIRED''\<rparr> sample_env sample_reserved)"

lemma sample_expired_eval:
  "map res_status (select_reservations [] ''order'' (tabs sample_expired)) = [ReservationStatusExpired]"
  by code_simp

theorem confirm_after_expiry_is_silent_witness:
  "fst (handleOrderConfirmed sample_svc \<lparr>of_order = ''order''\<rparr> sample_env sample_expired) = Inr ()"
proof -
  have id: "\<not> blank ''order''" "isValidUUID sample_svc ''order''" by code_simp+
  have ff: "fault_free sample_env" by (simp add: fault_free_def sample_env_def)
  have gone: "\<forall>r \<in> set (select_reservations [] ''order'' (tabs sample_expired)).
      res_status r = ReservationStatusReleased \<or> res_status r = ReservationStatusExpired"
    using sample_expired_eval by auto
  have some: "select_reservations [] ''order'' (tabs sample_expired) \<noteq> []"
    using sample_expired_eval by auto
  from confirm_after_expiry_is_silent [OF ff id some gone] show ?thesis by blast
qed

section \<open>Expiry\<close>

text \<open>
  The expiration worker touches only what has expired: whatever fails during the
  sweep, a reservation that is closed already or whose expiry lies after the time of the
  sweep is still in the table, unchanged. (Identifiers are UUIDs, without surrounding
  blanks.)
\<close>

theorem sweep_spares_live_reservations:
  assumes inv0: "stock_inv (tabs w)" and r: "r \<in> set (reservations (tabs w))"
    and ids: "\<forall>x \<in> set (reservations (tabs w)). TrimSpace (res_id x) = res_id x"
    and live: "\<not> active r \<or> clock e < res_expires r"
  shows "r \<in> set (reservations (tabs (snd (ReleaseExpiredReservations e w))))"
proof -
  have key: "keyed res_id (reservations (tabs w))" using inv0 by (simp add: stock_inv_def stock_ok_def)
  have "\<not> active r \<or> res_id r \<notin> set (expired_ids (clock e) (tabs w))"
    using live keyed_unique [OF key r] by (auto simp: expired_ids_def)
  moreover have "TrimSpace ` set (expired_ids (clock e) (tabs w)) = set (expired_ids (clock e) (tabs w))"
    using ids by (intro image_cong [THEN trans, OF refl _ image_ident]) (auto simp: expired_ids_def)
  ultimately have "r \<in> set (reservations (tabs (snd (release_each (expired_ids (clock e) (tabs w)) 0 e w'))))"
    if "tabs w' = tabs w" for w'
    using r that by (intro release_each_spares) auto
  with r show ?thesis
    by (auto simp: ReleaseExpiredReservations_def bind_def time_now_def on_error_def pool_sql_def
        select_def Let_def)
qed

theorem sweep_spares_live_reservations_witness:
  "\<exists>r. r \<in> set (reservations (tabs (snd (ReleaseExpiredReservations sample_env sample_reserved))))
     \<and> active r"
proof -
  have eval: "map (\<lambda>r. (res_expires r, active r, TrimSpace (res_id r) = res_id r))
      (reservations (tabs sample_reserved)) = [(200, True, True)]" by code_simp
  then obtain r where r: "reservations (tabs sample_reserved) = [r]" "res_expires r = 200"
    "active r" "TrimSpace (res_id r) = res_id r" by auto
  have "r \<in> set (reservations (tabs (snd (ReleaseExpiredReservations sample_env sample_reserved))))"
    by (rule sweep_spares_live_reservations [OF sample_reserved_inv]) (simp_all add: r sample_env_def)
  with r(3) show ?thesis by blast
qed

section \<open>Stock from outside\<close>

lemma abs_stock_by_id:
  assumes ok: "stock_inv t" and row: "row \<in> set (inventories t)"
    and f: "\<And>r. pv (f r) = pv r"
    and t': "inventories t' = upd_where (\<lambda>r. inv_id r = inv_id row) f (inventories t)"
      "reservations t' = reservations t"
  shows "abs_stock t' = (abs_stock t)\<lparr>levels := (levels (abs_stock t))(pv row \<mapsto> level_of (f row))\<rparr>"
proof -
  from ok have ok': "stock_ok (inventories t) (reservations t)" by (simp add: stock_inv_def)
  show ?thesis
    using abs_level_update [OF ok' row f] upd_by_id_pv [OF ok' row, of f] t'
    by (simp add: abs_stock_def)
qed

text \<open>
  \<open>Restock\<close> on success has raised the available quantity of the one row it names by
  the quantity given and nothing else: no other level, no hold. It returns the new row,
  and one ledger entry and one event were written with it.
\<close>

theorem Restock_refines:
  assumes inv0: "stock_inv (tabs w)" and run: "Restock i q ref notes e w = (Inr ivt, w')"
  shows "0 < q \<and> inv_id ivt = i \<and>
    abs_stock (tabs w') = shift_level (pv ivt) q 0 (abs_stock (tabs w)) \<and>
    levels (abs_stock (tabs w')) (pv ivt) = Some (level_of ivt) \<and>
    map (\<lambda>x. (txn_inventory x, txn_type x, txn_quantity x)) (transactions (tabs w')) =
      map (\<lambda>x. (txn_inventory x, txn_type x, txn_quantity x)) (transactions (tabs w)) @
        [(i, TransactionTypeRestock, q)] \<and>
    map ob_event_type (outbox (tabs w')) = map ob_event_type (outbox (tabs w)) @ [''InventoryRestocked'']"
proof -
  let ?f = "\<lambda>r. r\<lparr>inv_available := inv_available r + q, inv_updated := clock e\<rparr>"
  from run obtain row where q: "0 < q"
    and row: "find (\<lambda>r. inv_id r = i) (inventories (tabs w)) = Some row" "ivt = ?f row"
    and t: "inventories (tabs w') = upd_where (\<lambda>r. inv_id r = i) ?f (inventories (tabs w))"
      "reservations (tabs w') = reservations (tabs w)"
      "map (\<lambda>x. (txn_inventory x, txn_type x, txn_quantity x)) (transactions (tabs w')) =
        map (\<lambda>x. (txn_inventory x, txn_type x, txn_quantity x)) (transactions (tabs w)) @
          [(inv_id ivt, TransactionTypeRestock, q)]"
      "map ob_event_type (outbox (tabs w')) = map ob_event_type (outbox (tabs w)) @ [''InventoryRestocked'']"
    unfolding Restock_def
    by (auto simp: run_ok outbox_entry_def elim!: with_tx_ok split: option.splits)
  from row have mem: "row \<in> set (inventories (tabs w))" "inv_id row = i" by (auto dest: find_Some_in)
  have pv: "pv (?f r) = pv r" for r by (simp add: pv_def)
  have old: "levels (abs_stock (tabs w)) (pv row) = Some (level_of row)"
    using find_pv_row mem(1) inv0 by (fastforce simp: abs_stock_def stock_inv_def)
  have new: "abs_stock (tabs w') =
      (abs_stock (tabs w))\<lparr>levels := (levels (abs_stock (tabs w)))(pv row \<mapsto> level_of (?f row))\<rparr>"
    by (rule abs_stock_by_id [OF inv0 mem(1) pv]) (simp_all add: t mem(2))
  have "abs_stock (tabs w') = shift_level (pv ivt) q 0 (abs_stock (tabs w))"
    using old new row(2) pv by (simp add: shift_level_def move_def level_of_def)
  moreover have "levels (abs_stock (tabs w')) (pv ivt) = Some (level_of ivt)"
    using new row(2) pv by simp
  ultimately show ?thesis using q t row(2) mem(2) by simp
qed

theorem Restock_refines_witness:
  "levels (abs_stock (tabs (snd (Restock ''u'' 5 None None sample_env sample_stocked)))) (''p'', None)
     = Some (15, 0)"
proof -
  let ?run = "Restock ''u'' 5 None None sample_env sample_stocked"
  have ev: "map_sum id level_of (fst ?run) = Inr (15, 0)" "map_sum id pv (fst ?run) = Inr (''p'', None)"
    by code_simp+
  then obtain ivt where "fst ?run = Inr ivt" "level_of ivt = (15, 0)" "pv ivt = (''p'', None)"
    by (cases "fst ?run") auto
  with Restock_refines [OF sample_stocked_inv, of "''u''" 5 None None sample_env ivt "snd ?run"]
  show ?thesis by (metis prod.collapse)
qed

text \<open>
  A merchant restocks only products of its own. When the service has a product client
  and the request names a merchant, a successful \<open>RestockInventory\<close> has verified that
  the store of the restocked row's product belongs to that merchant.
\<close>

theorem restock_authorised:
  assumes "RestockInventory S input e w = (Inr ivt, w')"
    and "products S = Some c" and "ri_merchant input \<noteq> []"
  shows "\<exists>old p st. old \<in> set (inventories (tabs w)) \<and> inv_id old = inv_id ivt \<and>
    GetProduct (grpc S) c (inv_product old) = Inr p \<and>
    storeClient c = Some st \<and> st (pd_store p) = Inr (Some (ri_merchant input))"
proof -
  from assms obtain old w1 where
    loc: "locate_inventory S (ri_inventory input) (ri_product input) (ri_variant input) e w = (Inr old, w1)"
    and own: "check_owner S c (ri_merchant input) (inv_product old)
      ''merchant cannot modify inventory belonging to another merchant'' = Inr ()"
    and re: "\<exists>nt. Restock (inv_id old) (ri_quantity input) (ri_reference input) nt e w1 = (Inr ivt, w')"
    unfolding RestockInventory_def by (auto simp: run_ok)
  have mem: "old \<in> set (inventories (tabs w))"
    using loc unfolding locate_inventory_def GetByID_def GetByProductAndVariant_def
    by (auto simp: run_ok split: if_splits option.splits dest: find_Some_in)
  have "inv_id ivt = inv_id old"
    using re unfolding Restock_def
    by (auto simp: run_ok elim!: with_tx_ok split: option.splits dest: find_Some_in)
  moreover have "VerifyProductMerchant (grpc S) c (ri_merchant input) (inv_product old) = Inr True"
    using own by (auto simp: check_owner_def split: sum.splits if_splits)
  ultimately show ?thesis using mem assms(3)
    by (auto simp: VerifyProductMerchant_def split: option.splits sum.splits intro!: exI [of _ old])
qed

definition sample_client :: grpcProductClient where
  "sample_client = \<lparr>productClient = Some (\<lambda>i. Inr (Some \<lparr>pb_id = i, pb_store = ''st'', pb_sku = [],
     pb_name = [], pb_status = ''active'', pb_variants = []\<rparr>)),
     storeClient = Some (\<lambda>i. Inr (Some ''merchant''))\<rparr>"

definition sample_restock :: RestockInventoryInput where
  "sample_restock = \<lparr>ri_merchant = ''merchant'', ri_inventory = Some ''u'', ri_product = None,
     ri_variant = None, ri_quantity = 5, ri_reference = None, ri_notes = None\<rparr>"

theorem restock_authorised_witness:
  "\<exists>old p st. old \<in> set (inventories (tabs sample_stocked)) \<and>
    GetProduct sample_grpc sample_client (inv_product old) = Inr p \<and>
    storeClient sample_client = Some st \<and> st (pd_store p) = Inr (Some ''merchant'')"
proof -
  let ?S = "sample_svc\<lparr>products := Some sample_client\<rparr>"
  let ?run = "RestockInventory ?S sample_restock sample_env sample_stocked"
  have "map_sum id level_of (fst ?run) = Inr (15, 0)" by code_simp
  then obtain ivt where "?run = (Inr ivt, snd ?run)" by (cases "fst ?run") (auto simp: prod_eq_iff)
  from restock_authorised [OF this, of sample_client] show ?thesis
    by (auto simp: sample_svc_def sample_restock_def)
qed

end
