(* ===== verification/Outbox.thy ===== *)
theory Outbox
  imports Events
begin

text \<open>
  The transactional outbox: \<open>pkg/outbox/store.go\<close> (the statements) and
  \<open>pkg/outbox/publisher.go\<close> (the worker that forwards pending events to Kafka).

  The tables of one service are the rows of \<open>outbox_events\<close> and whether the table is
  wide, that is, has the columns \<open>headers\<close>, \<open>next_retry_at\<close> and \<open>updated_at\<close>
  (the migrations of some services lack them); the store tries the wide statement under a
  savepoint and falls back. Decoding a stored payload is the parameter \<open>decode\<close>; the
  producer's answers come from the environment. Durations and times are in nanoseconds.
\<close>

record 'p outbox_tables =
  ob_rows :: "'p outbox_row list"
  ob_wide :: bool

type_synonym ('p, 'a) ob_db = "('p outbox_tables, 'a) db"

record Config =
  ServiceName :: string
  PollInterval :: int
  BatchSize :: int
  MaxRetries :: int
  BaseRetryDelay :: int
  MaxRetryDelay :: int
  DLQTopic :: string

definition second :: int where
  "second = 1000000000"

definition DefaultConfig :: Config where
  "DefaultConfig = \<lparr>ServiceName = ''gocart-service'', PollInterval = 2 * second, BatchSize = 50,
     MaxRetries = 5, BaseRetryDelay = 1 * second, MaxRetryDelay = 60 * second, DLQTopic = []\<rparr>"

text \<open>The configuration \<open>NewPublisher\<close> stores: non-positive values are replaced.\<close>

definition NewPublisher :: "Config \<Rightarrow> Config" where
  "NewPublisher cfg = cfg\<lparr>
     PollInterval := (if PollInterval cfg \<le> 0 then PollInterval DefaultConfig else PollInterval cfg),
     BatchSize := (if BatchSize cfg \<le> 0 then BatchSize DefaultConfig else BatchSize cfg),
     MaxRetries := (if MaxRetries cfg \<le> 0 then MaxRetries DefaultConfig else MaxRetries cfg),
     BaseRetryDelay := (if BaseRetryDelay cfg \<le> 0 then BaseRetryDelay DefaultConfig else BaseRetryDelay cfg),
     MaxRetryDelay := (if MaxRetryDelay cfg \<le> 0 then MaxRetryDelay DefaultConfig else MaxRetryDelay cfg),
     ServiceName := (if ServiceName cfg = [] then ServiceName DefaultConfig else ServiceName cfg)\<rparr>"

section \<open>The store\<close>

text \<open>A statement that names a column a narrow table does not have.\<close>

definition wide_only ::
  "('p outbox_tables \<Rightarrow> go_error + 'a \<times> 'p outbox_tables) \<Rightarrow>
     'p outbox_tables \<Rightarrow> go_error + 'a \<times> 'p outbox_tables" where
  "wide_only f t = (if ob_wide t then f t else Inl (PgError ''42703'' []))"

text \<open>
  Begin a savepoint, try the first statement, release the savepoint or roll back to it and
  run the second.
\<close>

definition try_or ::
  "('p outbox_tables \<Rightarrow> go_error + 'a \<times> 'p outbox_tables) \<Rightarrow> ('p, 'a) ob_db \<Rightarrow> ('p, 'a) ob_db" where
  "try_or first fallback =
     seq (sql (select (\<lambda>_. ())))
     (bind (attempt (savepoint (sql (wide_only first)))) (\<lambda>r.
      case r of
        Inr x \<Rightarrow> seq (sql (select (\<lambda>_. ()))) (ret x)
      | Inl _ \<Rightarrow> fallback))"

definition set_rows ::
  "('p outbox_row list \<Rightarrow> 'p outbox_row list) \<Rightarrow> 'p outbox_tables \<Rightarrow>
     go_error + unit \<times> 'p outbox_tables" where
  "set_rows f t = Inr ((), t\<lparr>ob_rows := f (ob_rows t)\<rparr>)"

definition insert_row :: "'p outbox_row \<Rightarrow> 'p outbox_tables \<Rightarrow> go_error + unit \<times> 'p outbox_tables" where
  "insert_row r t =
     (case insert_outbox r (ob_rows t) of
        Inl er \<Rightarrow> Inl er
      | Inr rs \<Rightarrow> Inr ((), t\<lparr>ob_rows := rs\<rparr>))"

text \<open>\<open>Insert\<close>; the identifier \<open>uuid.Nil\<close> is the empty string.\<close>

definition Insert :: "'p outbox_row \<Rightarrow> ('p, unit) ob_db" where
  "Insert evt =
     bind (if ob_id evt = [] then new_uuid else ret (ob_id evt)) (\<lambda>id.
     bind time_now (\<lambda>now.
     bind (ret (evt\<lparr>ob_id := id, ob_status := OutboxPending, ob_retry_count := 0,
                    ob_created_at := now, ob_published_at := None\<rparr>)) (\<lambda>row.
     try_or
       (insert_row (row\<lparr>ob_headers := (if ob_headers evt = [] then ''{}'' else ob_headers evt),
          ob_next_retry_at := Some now, ob_updated_at := Some now\<rparr>))
       (on_error
         (sql (insert_row (row\<lparr>ob_headers := [], ob_next_retry_at := None, ob_updated_at := None\<rparr>)))
         (WrapError ''outbox: insert: '')))))"

definition due :: "int \<Rightarrow> 'p outbox_row \<Rightarrow> bool" where
  "due now r \<longleftrightarrow> ob_status r = OutboxPending \<and>
     (case ob_next_retry_at r of None \<Rightarrow> True | Some t \<Rightarrow> t \<le> now)"

definition oldest :: "int \<Rightarrow> ('p outbox_row \<Rightarrow> bool) \<Rightarrow> 'p outbox_row list \<Rightarrow> 'p outbox_row list" where
  "oldest lim p rs = take (nat lim) (sort_key ob_created_at (filter p rs))"

text \<open>Reading the rows of a query, which may fail after the query itself succeeded.\<close>

definition scanEvents :: "'p outbox_row list \<Rightarrow> ('p, 'p outbox_row list) ob_db" where
  "scanEvents rs = on_error (sql (select (\<lambda>_. rs))) (WrapError ''outbox: rows: '')"

definition FetchAndLockPending :: "int \<Rightarrow> ('p, 'p outbox_row list) ob_db" where
  "FetchAndLockPending lim =
     bind time_now (\<lambda>now.
     seq (sql (select (\<lambda>_. ())))
     (bind (attempt (savepoint (sql (wide_only (select (\<lambda>t. oldest lim (due now) (ob_rows t))))))) (\<lambda>rows.
      case rows of
        Inr rs \<Rightarrow>
          bind (savepoint (scanEvents rs)) (\<lambda>evts.
          seq (sql (select (\<lambda>_. ()))) (ret evts))
      | Inl _ \<Rightarrow>
          bind (on_error
                 (sql (select (\<lambda>t. oldest lim (\<lambda>r. ob_status r = OutboxPending) (ob_rows t))))
                 (WrapError ''outbox: fetch pending: '')) scanEvents)))"

definition MarkPublished :: "string \<Rightarrow> ('p, unit) ob_db" where
  "MarkPublished i =
     bind time_now (\<lambda>now.
     try_or
       (set_rows (upd_where (\<lambda>r. ob_id r = i)
         (\<lambda>r. r\<lparr>ob_status := OutboxPublished, ob_published_at := Some now, ob_updated_at := Some now\<rparr>)))
       (on_error
         (sql (set_rows (upd_where (\<lambda>r. ob_id r = i)
           (\<lambda>r. r\<lparr>ob_status := OutboxPublished, ob_published_at := Some now\<rparr>))))
         (WrapError (''outbox: mark published '' @ i @ '': ''))))"

text \<open>\<open>UPDATE ... SET retry_count = retry_count + 1 ... RETURNING retry_count\<close>.\<close>

definition bump_retry :: "string \<Rightarrow> 'p outbox_tables \<Rightarrow> go_error + int option \<times> 'p outbox_tables" where
  "bump_retry i t =
     Inr (map_option (\<lambda>r. ob_retry_count r + 1) (find (\<lambda>r. ob_id r = i) (ob_rows t)),
          t\<lparr>ob_rows := upd_where (\<lambda>r. ob_id r = i)
            (\<lambda>r. r\<lparr>ob_retry_count := ob_retry_count r + 1\<rparr>) (ob_rows t)\<rparr>)"

definition MarkFailedWithBackoff :: "string \<Rightarrow> int \<Rightarrow> int \<Rightarrow> ('p, unit) ob_db" where
  "MarkFailedWithBackoff i maxRetries backoffDelay =
     bind time_now (\<lambda>now.
     bind (ret (if backoffDelay \<le> 0 then second else backoffDelay)) (\<lambda>wait.
     bind (on_error (sql (bump_retry i)) (WrapError (''outbox: mark failed '' @ i @ '': ''))) (\<lambda>found.
     case found of
       None \<Rightarrow> raise (WrapError (''outbox: mark failed '' @ i @ '': '') (ErrorString ''no rows in result set''))
     | Some newRetryCount \<Rightarrow>
     bind (ret (if maxRetries \<le> newRetryCount then OutboxFailed else OutboxPending)) (\<lambda>status.
     try_or
       (set_rows (upd_where (\<lambda>r. ob_id r = i)
         (\<lambda>r. r\<lparr>ob_status := status, ob_next_retry_at := Some (now + wait), ob_updated_at := Some now\<rparr>)))
       (on_error
         (sql (set_rows (upd_where (\<lambda>r. ob_id r = i) (\<lambda>r. r\<lparr>ob_status := status\<rparr>))))
         (WrapError (''outbox: mark failed fallback '' @ i @ '': '')))))))"

definition MarkFailed :: "string \<Rightarrow> int \<Rightarrow> ('p, unit) ob_db" where
  "MarkFailed i maxRetries = MarkFailedWithBackoff i maxRetries 0"

definition requeued :: "string \<Rightarrow> string \<Rightarrow> 'p outbox_row \<Rightarrow> bool" where
  "requeued aggregateType eventType r \<longleftrightarrow> ob_status r = OutboxFailed \<and>
     (aggregateType \<noteq> [] \<longrightarrow> ob_aggregate_type r = aggregateType) \<and>
     (eventType \<noteq> [] \<longrightarrow> ob_event_type r = eventType)"

definition count_set ::
  "('p outbox_row \<Rightarrow> bool) \<Rightarrow> ('p outbox_row \<Rightarrow> 'p outbox_row) \<Rightarrow> 'p outbox_tables \<Rightarrow>
     go_error + nat \<times> 'p outbox_tables" where
  "count_set p f t = Inr (length (filter p (ob_rows t)), t\<lparr>ob_rows := upd_where p f (ob_rows t)\<rparr>)"

definition RequeueFailed :: "string \<Rightarrow> string \<Rightarrow> ('p, nat) ob_db" where
  "RequeueFailed aggregateType eventType =
     bind time_now (\<lambda>now.
     bind (attempt (pool_sql (wide_only (count_set (requeued aggregateType eventType)
       (\<lambda>r. r\<lparr>ob_status := OutboxPending, ob_retry_count := 0, ob_next_retry_at := Some now,
              ob_updated_at := Some now\<rparr>))))) (\<lambda>r.
     case r of
       Inr n \<Rightarrow> ret n
     | Inl _ \<Rightarrow>
         on_error (pool_sql (count_set (requeued aggregateType eventType)
           (\<lambda>r. r\<lparr>ob_status := OutboxPending, ob_retry_count := 0\<rparr>)))
           (WrapError ''outbox: requeue failed: '')))"

definition CountByStatus :: "('p, outbox_status \<rightharpoonup> nat) ob_db" where
  "CountByStatus =
     on_error (pool_sql (select (\<lambda>t st.
       let n = length (filter (\<lambda>r. ob_status r = st) (ob_rows t)) in if n = 0 then None else Some n)))
       (WrapError ''outbox: count by status: '')"

section \<open>The publisher\<close>

text \<open>
  The backoff loop of \<open>processOnce\<close>: \<open>n\<close> doublings of a 64-bit duration, stopped at the maximum.
\<close>

fun backoff :: "int \<Rightarrow> int \<Rightarrow> nat \<Rightarrow> int" where
  "backoff mx delay 0 = delay"
| "backoff mx delay (Suc n) =
     (if 0 < mx \<and> mx < wrap64 (delay * 2) then mx else backoff mx (wrap64 (delay * 2)) n)"

text \<open>The topic of the dead letters of an event, empty for none.\<close>

definition dlq_topic :: "Config \<Rightarrow> 'p outbox_row \<Rightarrow> string" where
  "dlq_topic cfg evt =
     (if DLQTopic cfg = [] \<and> ob_topic evt \<noteq> [] then ob_topic evt @ ''.dlq'' else DLQTopic cfg)"

text \<open>What follows a refused publish call.\<close>

definition publish_failed :: "Config \<Rightarrow> 'p outbox_row \<Rightarrow> string \<Rightarrow> ('p, unit) ob_db" where
  "publish_failed cfg evt eventID =
     seq (do_when (MaxRetries cfg \<le> ob_retry_count evt + 1 \<and> dlq_topic cfg evt \<noteq> [])
           (ignore_error (publish (dlq_topic cfg evt) (ob_aggregate_id evt) eventID)))
         (ignore_error (MarkFailedWithBackoff (ob_id evt) (MaxRetries cfg)
           (backoff (MaxRetryDelay cfg) (BaseRetryDelay cfg) (nat (ob_retry_count evt)))))"

text \<open>\<open>decode\<close> gives the event identifier inside the stored envelope.\<close>

fun publish_batch ::
  "('p \<Rightarrow> go_error + string) \<Rightarrow> Config \<Rightarrow> 'p outbox_row list \<Rightarrow> ('p, unit tx_end) ob_db" where
  "publish_batch decode cfg [] = ret (Commit ())"
| "publish_batch decode cfg (evt # evts) =
     bind ctx_err (\<lambda>done.
     if done then raise ContextCanceled
     else case decode (ob_payload evt) of
       Inl er \<Rightarrow>
         seq (ignore_error (MarkFailed (ob_id evt) (MaxRetries cfg))) (publish_batch decode cfg evts)
     | Inr envID \<Rightarrow>
         bind (attempt (publish (ob_topic evt) (ob_aggregate_id evt)
                 (if envID = [] then ob_id evt else envID))) (\<lambda>r.
         case r of
           Inl er \<Rightarrow>
             bind ctx_err (\<lambda>stopped.
             if stopped then raise ContextCanceled
             else if er = ContextCanceled then ret (Discard ())
             else seq (publish_failed cfg evt (if envID = [] then ob_id evt else envID))
                      (publish_batch decode cfg evts))
         | Inr _ \<Rightarrow>
             seq (ignore_error (MarkPublished (ob_id evt))) (publish_batch decode cfg evts)))"

definition processOnce :: "('p \<Rightarrow> go_error + string) \<Rightarrow> Config \<Rightarrow> ('p, unit) ob_db" where
  "processOnce decode cfg =
     bind ctx_err (\<lambda>done.
     if done then raise ContextCanceled
     else with_tx (\<lambda>er. er) (\<lambda>er. er)
       (bind (FetchAndLockPending (BatchSize cfg)) (publish_batch decode cfg)))"

end
