(* ===== verification/Outbox_Delivery.thy ===== *)
theory Outbox_Delivery
  imports Outbox
begin

text \<open>
  What the outbox promises: an event is marked published only after the broker has
  acknowledged it, none is lost, the retries are counted and bounded, the backoff is
  bounded, and a batch is the oldest part of what is due.
\<close>

section \<open>The backoff\<close>

lemma backoff_closed:
  assumes "0 < d" and "d \<le> mx" and "mx < 2 ^ 62"
  shows "backoff mx d n = min (d * 2 ^ n) mx"
  using assms
proof (induction n arbitrary: d)
  case (Suc n)
  have wrap: "wrap64 (d * 2) = d * 2" by (rule wrap64_small) (use Suc.prems in \<open>simp add: int64_def\<close>)
  show ?case
  proof (cases "mx < d * 2")
    case True
    have "d * 2 \<le> d * 2 ^ Suc n" using Suc.prems(1) by simp
    with True have "mx \<le> d * 2 ^ Suc n" by linarith
    with True Suc.prems show ?thesis by (simp only: backoff.simps min_def wrap) auto
  next
    case False
    with Suc.IH [of "d * 2"] Suc.prems show ?thesis by (simp add: mult.assoc wrap)
  qed
qed simp

section \<open>Statements and what they maintain\<close>

lemma wide_only_Inr: "wide_only f t = Inr y \<Longrightarrow> f t = Inr y"
  by (auto simp: wide_only_def split: if_splits)

lemma grows_try_or: "grows fb \<Longrightarrow> grows (try_or f fb)"
  unfolding try_or_def by (intro grows_intros) (auto split: sum.split intro: grows_intros)

lemma maintains_select: "maintains I (sql (select q))"
  by (rule maintains_sql) (auto simp: select_def)

lemma maintains_try_or:
  assumes mono: "\<And>t s x. I t s \<Longrightarrow> I t (s @ [x])"
    and f: "\<And>t s x t'. I t s \<Longrightarrow> f t = Inr (x, t') \<Longrightarrow> I t' s"
    and fb: "maintains I fb"
  shows "maintains I (try_or f fb)"
proof -
  have "maintains I (savepoint (sql (wide_only f)))"
  proof (rule maintains_savepoint [of I])
    show "maintains I (sql (wide_only f))" by (rule maintains_sql) (rule f, auto dest: wide_only_Inr)
  qed (rule mono, assumption, rule grows_sql)
  moreover have "maintains I (case r of Inr x \<Rightarrow> seq (sql (select (\<lambda>_. ()))) (ret x) | Inl _ \<Rightarrow> fb)" for r
    by (cases r) (simp_all add: fb maintains_seq maintains_select maintains_ret)
  ultimately show ?thesis
    unfolding try_or_def by (intro maintains_seq maintains_select maintains_bind maintains_attempt)
qed

lemma grows_store: "grows (MarkPublished i)" "grows (MarkFailedWithBackoff i mx d)" "grows (MarkFailed i mx)"
  "grows (FetchAndLockPending lim)"
proof -
  show f: "grows (MarkFailedWithBackoff i mx d)" for mx d
    unfolding MarkFailedWithBackoff_def
    by (intro grows_intros) (auto split: option.split intro!: grows_intros grows_try_or)
  then show "grows (MarkFailed i mx)" by (simp add: MarkFailed_def)
qed (auto simp: MarkPublished_def FetchAndLockPending_def scanEvents_def intro!: grows_intros grows_try_or
    split: sum.split)

lemma grows_ignore: "grows m \<Longrightarrow> grows (ignore_error m)"
  unfolding ignore_error_def by (intro grows_intros)

lemma maintains_ignore: "maintains I m \<Longrightarrow> maintains I (ignore_error m)"
  unfolding ignore_error_def by (intro maintains_intros)

lemma grows_publish_failed: "grows (publish_failed cfg evt i)"
  unfolding publish_failed_def do_when_def
  by (auto intro!: grows_intros grows_ignore grows_store)

lemma grows_publish_batch: "grows (publish_batch decode cfg evts)"
proof (induction evts)
  case (Cons evt evts)
  then show ?case
    by (auto split: sum.split intro!: grows_intros grows_ignore grows_store grows_publish_failed)
qed (simp add: grows_intros)

section \<open>Published means acknowledged\<close>

definition message :: "('p \<Rightarrow> go_error + string) \<Rightarrow> 'p outbox_row \<Rightarrow> (string \<times> string \<times> string) option" where
  "message decode r =
     (case decode (ob_payload r) of
        Inl _ \<Rightarrow> None
      | Inr i \<Rightarrow> Some (ob_topic r, ob_aggregate_id r, if i = [] then ob_id r else i))"

definition acknowledged ::
  "('p \<Rightarrow> go_error + string) \<Rightarrow> 'p outbox_tables \<Rightarrow> (string \<times> string \<times> string) list \<Rightarrow> bool" where
  "acknowledged decode t s \<longleftrightarrow>
     (\<forall>r \<in> set (ob_rows t). ob_status r = OutboxPublished \<longrightarrow> message decode r \<in> Some ` set s)"

text \<open>The rows of the table still carry the messages of the rows fetched.\<close>

definition same_message :: "('p \<Rightarrow> go_error + string) \<Rightarrow> 'p outbox_row \<Rightarrow> 'p outbox_tables \<Rightarrow> bool" where
  "same_message decode evt t \<longleftrightarrow>
     (\<forall>r \<in> set (ob_rows t). ob_id r = ob_id evt \<longrightarrow> message decode r = message decode evt)"

definition batch_inv ::
  "('p \<Rightarrow> go_error + string) \<Rightarrow> 'p outbox_row list \<Rightarrow> 'p outbox_tables \<Rightarrow>
     (string \<times> string \<times> string) list \<Rightarrow> bool" where
  "batch_inv decode evts t s \<longleftrightarrow> acknowledged decode t s \<and> keyed ob_id (ob_rows t) \<and>
     (\<forall>evt \<in> set evts. same_message decode evt t)"

lemma batch_inv_mono: "batch_inv decode evts t s \<Longrightarrow> batch_inv decode evts t (s @ [x])"
  by (auto simp: batch_inv_def acknowledged_def)

lemma batch_inv_set_rows:
  assumes "batch_inv decode evts t s" and "set_rows (upd_where p f) t = Inr (x, t')"
    and f: "\<And>r. ob_id (f r) = ob_id r \<and> message decode (f r) = message decode r"
    and pub: "\<And>r. r \<in> set (ob_rows t) \<Longrightarrow> p r \<Longrightarrow> ob_status (f r) = OutboxPublished \<Longrightarrow>
      message decode r \<in> Some ` set s"
  shows "batch_inv decode evts t' s"
proof -
  have rows: "ob_rows t' = upd_where p f (ob_rows t)" using assms(2) by (auto simp: set_rows_def)
  have "acknowledged decode t' s"
    using assms(1) f pub unfolding batch_inv_def acknowledged_def rows
    by (auto simp: in_upd_where split: if_splits)
  moreover have "\<forall>evt \<in> set evts. same_message decode evt t'"
    using assms(1) f unfolding batch_inv_def same_message_def rows
    by (auto simp: in_upd_where split: if_splits)
  moreover have "keyed ob_id (ob_rows t')"
    using assms(1) f unfolding batch_inv_def rows by (simp add: keyed_upd_where)
  ultimately show ?thesis by (simp add: batch_inv_def)
qed

lemma bump_retry_set_rows:
  "bump_retry i t = Inr (x, t') \<Longrightarrow>
     set_rows (upd_where (\<lambda>r. ob_id r = i) (\<lambda>r. r\<lparr>ob_retry_count := ob_retry_count r + 1\<rparr>)) t = Inr ((), t')"
  by (auto simp: bump_retry_def set_rows_def)

lemma message_upd [simp]:
  "message decode (r\<lparr>ob_status := a\<rparr>) = message decode r"
  "message decode (r\<lparr>ob_retry_count := b\<rparr>) = message decode r"
  "message decode (r\<lparr>ob_next_retry_at := c\<rparr>) = message decode r"
  "message decode (r\<lparr>ob_updated_at := c\<rparr>) = message decode r"
  "message decode (r\<lparr>ob_published_at := c\<rparr>) = message decode r"
  by (simp_all add: message_def split: sum.split)

lemma MarkFailed_maintains: "maintains (batch_inv decode evts) (MarkFailedWithBackoff i mx d)"
proof -
  have bump: "maintains (batch_inv decode evts) (sql (bump_retry i))"
  proof (rule maintains_sql, goal_cases)
    case (1 t s x t')
    show ?case
      by (rule batch_inv_set_rows [OF 1(1) bump_retry_set_rows [OF 1(2)]])
        (use 1(1) in \<open>auto simp: batch_inv_def acknowledged_def\<close>)
  qed
  have stat: "batch_inv decode evts t' s"
    if "batch_inv decode evts t s" "set_rows (upd_where p f) t = Inr (x, t')"
      "\<And>r. ob_id (f r) = ob_id r \<and> message decode (f r) = message decode r"
      "\<And>r. ob_status (f r) \<noteq> OutboxPublished" for t s x t' p f
    by (rule batch_inv_set_rows [OF that(1,2,3)]) (use that(4) in auto)
  show ?thesis
    unfolding MarkFailedWithBackoff_def bind_ret
    by (intro maintains_intros bump)
      (auto split: option.split intro!: maintains_intros maintains_try_or batch_inv_mono maintains_sql
        elim!: stat)
qed

lemma MarkPublished_maintains:
  assumes "message decode evt = Some m" and "evt \<in> set evts"
  shows "maintains (\<lambda>t s. batch_inv decode evts t s \<and> m \<in> set s) (MarkPublished (ob_id evt))"
proof -
  have stat: "batch_inv decode evts t' s \<and> m \<in> set s"
    if "batch_inv decode evts t s \<and> m \<in> set s"
      "set_rows (upd_where (\<lambda>r. ob_id r = ob_id evt) f) t = Inr (x, t')"
      "\<And>r. ob_id (f r) = ob_id r \<and> message decode (f r) = message decode r" for t s x t' f
  proof -
    have "batch_inv decode evts t' s"
      by (rule batch_inv_set_rows [OF _ that(2,3)])
        (use that(1) assms in \<open>auto simp: batch_inv_def same_message_def\<close>)
    with that(1) show ?thesis by blast
  qed
  show ?thesis
    unfolding MarkPublished_def
    by (intro maintains_intros maintains_try_or maintains_sql)
      (auto simp: batch_inv_mono elim!: stat [THEN conjunct1] intro: stat [THEN conjunct1])
qed

lemma publish_failed_maintains: "maintains (batch_inv decode evts) (publish_failed cfg evt i)"
  unfolding publish_failed_def do_when_def
  by (auto intro!: maintains_intros maintains_ignore maintains_publish batch_inv_mono MarkFailed_maintains)

lemma publish_result:
  "publish topic key i e w = (r, w') \<Longrightarrow> tabs w' = tabs w \<and> aborted w' = aborted w \<and>
     (case r of Inr _ \<Rightarrow> sent w' = sent w @ [(topic, key, i)] | Inl _ \<Rightarrow> sent w' = sent w)"
  by (auto simp: publish_def Let_def split: broker_answer.splits)

lemma maintains_publish_then:
  assumes mono: "\<And>t s x. I t s \<Longrightarrow> I t (s @ [x])"
    and refused: "\<And>er. maintains I (k (Inl er))"
    and acked: "\<And>e w. I (tabs w) (sent w) \<Longrightarrow> (topic, key, i) \<in> set (sent w) \<Longrightarrow>
      I (tabs (snd (k (Inr ()) e w))) (sent (snd (k (Inr ()) e w)))"
  shows "maintains I (bind (attempt (publish topic key i)) k)"
  unfolding maintains_def
proof (intro allI impI)
  fix e and w :: "'a world" assume I: "I (tabs w) (sent w)"
  obtain r w1 where run: "publish topic key i e w = (r, w1)" by fastforce
  note res = publish_result [OF run]
  show "I (tabs (snd (bind (attempt (publish topic key i)) k e w)))
     (sent (snd (bind (attempt (publish topic key i)) k e w)))"
  proof (cases r)
    case (Inl er)
    with res I refused [of er] run show ?thesis by (simp add: maintains_def bind_def attempt_def)
  next
    case (Inr u)
    with res I have "I (tabs w1) (sent w1)" "(topic, key, i) \<in> set (sent w1)" by (simp_all add: mono)
    with acked [of w1 e] Inr run show ?thesis by (simp add: bind_def attempt_def)
  qed
qed

lemma publish_batch_maintains:
  "set evts \<subseteq> set all \<Longrightarrow> maintains (batch_inv decode all) (publish_batch decode cfg evts)"
proof (induction evts)
  case (Cons evt evts)
  let ?I = "batch_inv decode all"
  from Cons have IH: "maintains ?I (publish_batch decode cfg evts)" and mem: "evt \<in> set all" by auto
  show ?case
  proof (cases "decode (ob_payload evt)")
    case (Inl er)
    then show ?thesis
      using IH by (auto simp: MarkFailed_def intro!: maintains_intros maintains_ignore MarkFailed_maintains)
  next
    case (Inr envID)
    let ?i = "if envID = [] then ob_id evt else envID"
    let ?m = "(ob_topic evt, ob_aggregate_id evt, ?i)"
    have m: "message decode evt = Some ?m" using Inr by (simp add: message_def)
    have acked: "maintains (\<lambda>t s. ?I t s \<and> ?m \<in> set s) (ignore_error (MarkPublished (ob_id evt)))"
      by (intro maintains_ignore MarkPublished_maintains m mem)
    have refused: "maintains ?I (bind ctx_err (\<lambda>stopped.
         if stopped then raise ContextCanceled
         else if er = ContextCanceled then ret (Discard ())
         else seq (publish_failed cfg evt ?i) (publish_batch decode cfg evts)))" for er
      using IH by (auto intro!: maintains_intros publish_failed_maintains)
    have published: "?I (tabs (snd (k e w))) (sent (snd (k e w)))"
      if I: "?I (tabs w) (sent w)" "?m \<in> set (sent w)"
        and k: "k = seq (ignore_error (MarkPublished (ob_id evt))) (publish_batch decode cfg evts)" for e w k
    proof -
      obtain r2 w2 where run2: "ignore_error (MarkPublished (ob_id evt)) e w = (r2, w2)" by fastforce
      with maintainsD [OF acked _ run2] I have "?I (tabs w2) (sent w2)" by simp
      with IH run2 show ?thesis
        unfolding k maintains_def by (cases r2) (simp_all add: seq_def bind_def)
    qed
    have "maintains ?I (bind (attempt (publish (ob_topic evt) (ob_aggregate_id evt) ?i))
        (\<lambda>r. case r of Inl er \<Rightarrow> bind ctx_err (\<lambda>stopped.
               if stopped then raise ContextCanceled
               else if er = ContextCanceled then ret (Discard ())
               else seq (publish_failed cfg evt ?i) (publish_batch decode cfg evts))
           | Inr _ \<Rightarrow> seq (ignore_error (MarkPublished (ob_id evt))) (publish_batch decode cfg evts)))"
      by (rule maintains_publish_then)
        (simp_all only: sum.case refused batch_inv_mono published)
    then show ?thesis
      unfolding publish_batch.simps Inr sum.case
      by (intro maintains_bind [OF maintains_ret(3)]) (simp add: maintains_ret)
  qed
qed (simp add: maintains_ret)

lemma oldest_subset: "set (oldest lim p rs) \<subseteq> set rs"
  unfolding oldest_def by (auto dest!: in_set_takeD)

definition outbox_inv ::
  "('p \<Rightarrow> go_error + string) \<Rightarrow> 'p outbox_tables \<Rightarrow> (string \<times> string \<times> string) list \<Rightarrow> bool" where
  "outbox_inv decode t s \<longleftrightarrow> acknowledged decode t s \<and> keyed ob_id (ob_rows t)"

lemma outbox_inv_batch:
  assumes "outbox_inv decode t s" and "set evts \<subseteq> set (ob_rows t)"
  shows "batch_inv decode evts t s"
proof -
  have "same_message decode evt t" if "evt \<in> set evts" for evt
    using assms that keyed_unique [of ob_id "ob_rows t"]
    unfolding outbox_inv_def same_message_def by (metis subsetD)
  with assms(1) show ?thesis by (simp add: batch_inv_def outbox_inv_def)
qed

lemma batch_outbox_inv: "batch_inv decode evts t s \<Longrightarrow> outbox_inv decode t s"
  by (simp add: batch_inv_def outbox_inv_def)

lemma outbox_inv_mono: "outbox_inv decode t s \<Longrightarrow> outbox_inv decode t (s @ [x])"
  by (auto simp: outbox_inv_def acknowledged_def)

text \<open>Rows fetched carry the messages of the table.\<close>

lemmas fetch_defs = FetchAndLockPending_def scanEvents_def seq_def bind_def time_now_def attempt_def savepoint_def
  sql_def select_def wide_only_def Let_def roll_back_def on_error_def ret_def

lemma fetched_tabs: "tabs (snd (FetchAndLockPending lim e w)) = tabs w"
  by (auto simp: fetch_defs split: sum.splits)

lemma fetched_subset:
  assumes "FetchAndLockPending lim e w = (Inr evts, w')"
  shows "set evts \<subseteq> set (ob_rows (tabs w)) \<and> tabs w' = tabs w"
proof -
  have "tabs w' = tabs w" using fetched_tabs [of lim e w] assms by simp
  moreover have "\<exists>p. evts = oldest lim p (ob_rows (tabs w))"
    using assms by (auto simp: fetch_defs split: if_splits)
  ultimately show ?thesis using oldest_subset by fastforce
qed

lemma fetched_sent: "sent (snd (FetchAndLockPending lim e w)) = sent w"
  by (auto simp: fetch_defs split: sum.splits)

lemma cycle_body_maintains:
  "maintains (outbox_inv decode) (bind (FetchAndLockPending lim) (publish_batch decode cfg))"
  unfolding maintains_def
proof (intro allI impI)
  fix e and w :: "'a outbox_tables world" assume I: "outbox_inv decode (tabs w) (sent w)"
  let ?body = "bind (FetchAndLockPending lim) (publish_batch decode cfg)"
  obtain r w1 where run: "FetchAndLockPending lim e w = (r, w1)" by fastforce
  with fetched_tabs [of lim e w] fetched_sent [of lim e w] I
  have I1: "outbox_inv decode (tabs w1) (sent w1)" and t1: "tabs w1 = tabs w" by simp_all
  show "outbox_inv decode (tabs (snd (?body e w))) (sent (snd (?body e w)))"
  proof (cases r)
    case (Inl er)
    with run I1 show ?thesis by (simp add: bind_def)
  next
    case (Inr evts)
    have "set evts \<subseteq> set (ob_rows (tabs w1))" using fetched_subset [OF run [unfolded Inr]] t1 by simp
    from outbox_inv_batch [OF I1 this] publish_batch_maintains [OF order_refl]
    have "batch_inv decode evts (tabs (snd (publish_batch decode cfg evts e w1)))
      (sent (snd (publish_batch decode cfg evts e w1)))"
      unfolding maintains_def by blast
    with run Inr show ?thesis by (auto simp: bind_def dest: batch_outbox_inv)
  qed
qed

lemma processOnce_maintains: "maintains (outbox_inv decode) (processOnce decode cfg)"
  unfolding processOnce_def
proof (rule maintains_bind [OF maintains_ret(3)])
  fix stop :: bool
  have "maintains (outbox_inv decode) (with_tx (\<lambda>er. er) (\<lambda>er. er)
     (bind (FetchAndLockPending (BatchSize cfg)) (publish_batch decode cfg)))"
    by (rule maintains_with_tx)
      (simp_all add: outbox_inv_mono cycle_body_maintains grows_bind grows_store grows_publish_batch)
  then show "maintains (outbox_inv decode) (if stop then raise ContextCanceled
     else with_tx (\<lambda>er. er) (\<lambda>er. er)
       (bind (FetchAndLockPending (BatchSize cfg)) (publish_batch decode cfg)))"
    by (simp add: maintains_ret)
qed

text \<open>The other writers of the table.\<close>

lemma insert_row_inv:
  assumes "outbox_inv decode t s" and "insert_row r t = Inr (x, t')" and "ob_status r = OutboxPending"
  shows "outbox_inv decode t' s"
  using assms
  by (auto simp: insert_row_def insert_outbox_def outbox_inv_def acknowledged_def keyed_snoc
      split: sum.splits if_splits)

lemma Insert_maintains: "maintains (outbox_inv decode) (Insert evt)"
proof -
  have "maintains (outbox_inv decode) (if ob_id evt = [] then new_uuid else ret (ob_id evt))"
    by (simp add: maintains_ret)
  then show ?thesis
    unfolding Insert_def bind_ret
    by (intro maintains_bind maintains_ret maintains_try_or maintains_on_error maintains_sql)
      (auto simp: outbox_inv_mono elim!: insert_row_inv)
qed

lemma requeue_inv:
  assumes "outbox_inv decode t s" and "count_set p f t = Inr (x, t')"
    and "\<And>r. ob_id (f r) = ob_id r \<and> ob_status (f r) = OutboxPending"
  shows "outbox_inv decode t' s"
  using assms
  by (auto simp: count_set_def outbox_inv_def acknowledged_def keyed_upd_where in_upd_where split: if_splits)

lemma RequeueFailed_maintains: "maintains (outbox_inv decode) (RequeueFailed a b)"
  unfolding RequeueFailed_def
proof (intro maintains_bind maintains_ret maintains_attempt, goal_cases)
  case (1 now)
  show ?case by (rule maintains_pool_sql) (auto dest!: wide_only_Inr elim!: requeue_inv)
next
  case (2 now r)
  show ?case
    by (cases r) (auto simp: maintains_ret intro!: maintains_on_error maintains_pool_sql elim!: requeue_inv)
qed

section \<open>Retries are counted\<close>

text \<open>
  A statement that fails outside a savepoint aborts the transaction, so what the ignored
  errors leave half done is never committed: from tables with \<open>Q\<close>, either the transaction
  is aborted or the tables have \<open>P\<close>.
\<close>

definition settles :: "('t \<Rightarrow> bool) \<Rightarrow> ('t, 'a) db \<Rightarrow> ('t \<Rightarrow> bool) \<Rightarrow> bool" where
  "settles Q m P \<longleftrightarrow>
     (\<forall>e w. (aborted w \<longrightarrow> aborted (snd (m e w))) \<and>
            (Q (tabs w) \<longrightarrow> aborted (snd (m e w)) \<or> P (tabs (snd (m e w)))))"

lemma settlesD:
  assumes "settles Q m P" and "m e w = (r, w')"
  shows "aborted w \<Longrightarrow> aborted w'" and "Q (tabs w) \<Longrightarrow> aborted w' \<or> P (tabs w')"
  using assms unfolding settles_def by (metis snd_conv)+

lemma settles_ret:
  "settles P (ret x) P" "settles P (raise er) P" "settles P ctx_err P" "settles P time_now P"
  "settles P (publish topic key i) P"
  by (auto simp: settles_def ret_def raise_def ctx_err_def time_now_def publish_def Let_def
      split: broker_answer.splits)

lemma settles_bind:
  assumes "settles P m P" and "\<And>x. settles P (f x) P" shows "settles P (bind m f) P"
  unfolding settles_def
proof (intro allI)
  fix e and w :: "'a world"
  obtain r w1 where run: "m e w = (r, w1)" by fastforce
  note D = settlesD [OF assms(1) run]
  show "(aborted w \<longrightarrow> aborted (snd (bind m f e w))) \<and>
    (P (tabs w) \<longrightarrow> aborted (snd (bind m f e w)) \<or> P (tabs (snd (bind m f e w))))"
  proof (cases r)
    case (Inl er)
    with run D show ?thesis by (simp add: bind_def)
  next
    case (Inr x)
    obtain r2 w2 where run2: "f x e w1 = (r2, w2)" by fastforce
    with settlesD [OF assms(2) run2] D Inr run show ?thesis by (auto simp: bind_def)
  qed
qed

lemma settles_seq: "settles P m P \<Longrightarrow> settles P n P \<Longrightarrow> settles P (seq m n) P"
  unfolding seq_def by (rule settles_bind)

lemma settles_attempt: "settles Q m P \<Longrightarrow> settles Q (attempt m) P"
  unfolding settles_def attempt_def by (simp add: case_prod_beta)

lemma settles_ignore: "settles P m P \<Longrightarrow> settles P (ignore_error m) P"
  unfolding ignore_error_def by (intro settles_bind settles_attempt settles_ret)

lemma try_or_moves:
  assumes f: "\<And>t x t'. Q t \<Longrightarrow> f t = Inr (x, t') \<Longrightarrow> P t'"
    and g: "\<And>t x t'. Q t \<Longrightarrow> g t = Inr (x, t') \<Longrightarrow> P t'"
  shows "settles Q (try_or f (on_error (sql g) h)) P"
proof -
  have "aborted w' \<or> P (tabs w')" if "Q (tabs w)" "try_or f (on_error (sql g) h) e w = (r, w')" for e w r w'
    using that f [of "tabs w"] g [of "tabs w"] unfolding try_or_def
    by (auto simp: seq_def bind_def attempt_def savepoint_def sql_def select_def wide_only_def
        Let_def roll_back_def on_error_def ret_def split: if_splits sum.splits prod.splits)
  moreover have "aborted w'" if "aborted w" "try_or f (on_error (sql g) h) e w = (r, w')" for e w r w'
    using that unfolding try_or_def by (auto simp: seq_def bind_def sql_def Let_def)
  ultimately show ?thesis unfolding settles_def by (metis prod.collapse)
qed

definition retry_row_ok :: "int \<Rightarrow> 'p outbox_row \<Rightarrow> bool" where
  "retry_row_ok mx r \<longleftrightarrow>
     (ob_status r = OutboxPending \<longrightarrow> ob_retry_count r < mx) \<and>
     (ob_status r = OutboxFailed \<longrightarrow> mx \<le> ob_retry_count r)"

definition retry_ok :: "int \<Rightarrow> 'p outbox_tables \<Rightarrow> bool" where
  "retry_ok mx t \<longleftrightarrow> keyed ob_id (ob_rows t) \<and> (\<forall>r \<in> set (ob_rows t). retry_row_ok mx r)"

lemma retry_ok_set_rows:
  assumes "keyed ob_id (ob_rows t)" and "set_rows (upd_where p f) t = Inr (x, t')"
    and "\<And>r. ob_id (f r) = ob_id r"
    and "\<And>r. r \<in> set (ob_rows t) \<Longrightarrow> retry_row_ok mx (if p r then f r else r)"
  shows "retry_ok mx t'"
  using assms by (auto simp: set_rows_def retry_ok_def keyed_upd_where in_upd_where)

lemma MarkPublished_settles: "settles (retry_ok mx) (MarkPublished i) (retry_ok mx)"
proof -
  have pub: "retry_ok mx t'"
    if "retry_ok mx t" "set_rows (upd_where p f) t = Inr (x, t')"
      "\<And>r. ob_id (f r) = ob_id r \<and> ob_status (f r) = OutboxPublished"
    for t t' :: "'a outbox_tables" and p f x
    by (rule retry_ok_set_rows [OF _ that(2)])
      (use that(1,3) in \<open>auto simp: retry_ok_def retry_row_ok_def\<close>)
  show ?thesis
    unfolding MarkPublished_def by (intro settles_bind settles_ret try_or_moves; erule (1) pub; simp)
qed

text \<open>Between the two statements of \<open>MarkFailedWithBackoff\<close>.\<close>

definition bumped :: "string \<Rightarrow> int \<Rightarrow> int \<Rightarrow> 'p outbox_tables \<Rightarrow> bool" where
  "bumped i n mx t \<longleftrightarrow> keyed ob_id (ob_rows t) \<and>
     (\<forall>r \<in> set (ob_rows t). if ob_id r = i then ob_retry_count r = n else retry_row_ok mx r)"

lemma bump_retry_bumped:
  assumes "retry_ok mx t" and "bump_retry i t = Inr (found, t')"
  shows "case found of None \<Rightarrow> retry_ok mx t' | Some n \<Rightarrow> bumped i n mx t'"
proof -
  let ?f = "\<lambda>r. r\<lparr>ob_retry_count := ob_retry_count r + 1\<rparr>"
  have rows: "ob_rows t' = upd_where (\<lambda>r. ob_id r = i) ?f (ob_rows t)"
    and fnd: "found = map_option (\<lambda>r. ob_retry_count r + 1) (find (\<lambda>r. ob_id r = i) (ob_rows t))"
    using assms(2) by (auto simp: bump_retry_def)
  have key: "keyed ob_id (ob_rows t)" "keyed ob_id (ob_rows t')"
    using assms(1) by (simp_all add: retry_ok_def rows keyed_upd_where)
  show ?thesis
  proof (cases "find (\<lambda>r. ob_id r = i) (ob_rows t)")
    case None
    then have "ob_rows t' = ob_rows t" unfolding rows by (simp add: find_None_iff upd_where_none)
    with None fnd assms(1) show ?thesis by (simp add: retry_ok_def)
  next
    case (Some q)
    then have q: "q \<in> set (ob_rows t)" "ob_id q = i" by (auto dest: find_Some_in)
    have "if ob_id r = i then ob_retry_count r = ob_retry_count q + 1 else retry_row_ok mx r"
      if r: "r \<in> set (ob_rows t')" for r
    proof -
      from r obtain r0 where r0: "r0 \<in> set (ob_rows t)" "r = (if ob_id r0 = i then ?f r0 else r0)"
        unfolding rows by (auto simp: in_upd_where)
      show ?thesis
      proof (cases "ob_id r0 = i")
        case True
        with keyed_unique [OF key(1) r0(1) q(1)] q(2) r0(2) show ?thesis by simp
      next
        case False
        with r0 assms(1) show ?thesis by (simp add: retry_ok_def)
      qed
    qed
    with Some fnd key show ?thesis by (auto simp: bumped_def)
  qed
qed

lemma bumped_status:
  assumes "bumped i n mx t" and "set_rows (upd_where (\<lambda>r. ob_id r = i) f) t = Inr (x, t')"
    and "\<And>r. ob_id (f r) = ob_id r \<and> ob_retry_count (f r) = ob_retry_count r \<and>
      ob_status (f r) = (if mx \<le> n then OutboxFailed else OutboxPending)"
  shows "retry_ok mx t'"
  by (rule retry_ok_set_rows [OF _ assms(2)])
    (use assms(1,3) in \<open>auto simp: bumped_def retry_row_ok_def split: if_splits\<close>)

lemma MarkFailed_settles: "settles (retry_ok mx) (MarkFailedWithBackoff i mx d) (retry_ok mx)"
  unfolding settles_def
proof (intro allI)
  fix e :: env and w :: "'a outbox_tables world"
  let ?wait = "if d \<le> 0 then second else d" and ?now = "clock e"
  define rest :: "int \<Rightarrow> ('a, unit) ob_db" where "rest n = try_or
       (set_rows (upd_where (\<lambda>r. ob_id r = i)
         (\<lambda>r. r\<lparr>ob_status := (if mx \<le> n then OutboxFailed else OutboxPending),
           ob_next_retry_at := Some (?now + ?wait), ob_updated_at := Some ?now\<rparr>)))
       (on_error
         (sql (set_rows (upd_where (\<lambda>r. ob_id r = i)
           (\<lambda>r. r\<lparr>ob_status := (if mx \<le> n then OutboxFailed else OutboxPending)\<rparr>))))
         (WrapError (''outbox: mark failed fallback '' @ i @ '': '')))" for n
  have rest: "settles (bumped i n mx) (rest n) (retry_ok mx)" for n
    unfolding rest_def by (rule try_or_moves) (erule (1) bumped_status, simp)+
  let ?m = "MarkFailedWithBackoff i mx d"
  have eq: "?m e w = (case sql (bump_retry i) e w of
      (Inl er, w1) \<Rightarrow> (Inl (WrapError (''outbox: mark failed '' @ i @ '': '') er), w1)
    | (Inr None, w1) \<Rightarrow> (Inl (WrapError (''outbox: mark failed '' @ i @ '': '') (ErrorString ''no rows in result set'')), w1)
    | (Inr (Some n), w1) \<Rightarrow> rest n e w1)"
    unfolding MarkFailedWithBackoff_def bind_ret rest_def
    by (auto simp: bind_def time_now_def on_error_def raise_def split: prod.splits sum.splits option.splits)
  obtain r w1 where run: "sql (bump_retry i) e w = (r, w1)" by fastforce
  show "(aborted w \<longrightarrow> aborted (snd (?m e w))) \<and>
    (retry_ok mx (tabs w) \<longrightarrow> aborted (snd (?m e w)) \<or> retry_ok mx (tabs (snd (?m e w))))"
  proof (cases r)
    case (Inl er)
    with run eq sql_failed_aborted [OF run [unfolded Inl]] show ?thesis by simp
  next
    case (Inr found)
    with run have ok: "\<not> aborted w" "bump_retry i (tabs w) = Inr (found, tabs w1)" by (auto simp: run_ok)
    show ?thesis
    proof (cases found)
      case None
      with Inr run eq ok bump_retry_bumped [of mx "tabs w" i] show ?thesis by fastforce
    next
      case (Some n)
      obtain r2 w2 where run2: "rest n e w1 = (r2, w2)" by fastforce
      from bump_retry_bumped [of mx "tabs w" i found "tabs w1"] ok Some
      have "retry_ok mx (tabs w) \<Longrightarrow> bumped i n mx (tabs w1)" by simp
      with settlesD(2) [OF rest run2] Some Inr run eq run2 ok show ?thesis by auto
    qed
  qed
qed

lemma publish_failed_settles:
  "settles (retry_ok (MaxRetries cfg)) (publish_failed cfg evt i) (retry_ok (MaxRetries cfg))"
  unfolding publish_failed_def do_when_def
  by (auto intro!: settles_seq settles_ignore settles_ret MarkFailed_settles)

lemma publish_batch_settles:
  "settles (retry_ok (MaxRetries cfg)) (publish_batch decode cfg evts) (retry_ok (MaxRetries cfg))"
proof (induction evts)
  case (Cons evt evts)
  then show ?case
    by (auto simp: MarkFailed_def split: sum.split
        intro!: settles_bind settles_seq settles_ignore settles_ret settles_attempt
          publish_failed_settles MarkFailed_settles MarkPublished_settles)
qed (simp add: settles_ret)

text \<open>A transaction commits only tables its body settled.\<close>

lemma with_tx_settled:
  assumes "settles P body P" and "P (tabs w)"
    and "\<And>x w1. body e (w\<lparr>nstmt := Suc (nstmt w), aborted := False\<rparr>) \<noteq> (Inr (CommitQuietly x), w1)"
  shows "P (tabs (snd (with_tx fb fc body e w)))"
proof -
  let ?w0 = "w\<lparr>nstmt := Suc (nstmt w), aborted := False\<rparr>"
  obtain r w1 where run: "body e ?w0 = (r, w1)" by fastforce
  have "aborted w1 \<or> P (tabs w1)" using settlesD(2) [OF assms(1) run] assms(2) by simp
  with run assms(2,3) show ?thesis
    by (auto simp: with_tx_def roll_back_def split: sum.split tx_end.split)
qed

lemma publish_batch_not_quiet: "publish_batch decode cfg evts e w \<noteq> (Inr (CommitQuietly x), w')"
proof (induction evts arbitrary: w)
  case (Cons evt evts)
  then show ?case
    by (auto simp: run_ok raise_ok ret_ok bind_ok seq_ok ctx_err_def split: sum.splits if_splits)
qed (simp add: ret_def)

lemma FetchAndLockPending_settles: "settles P (FetchAndLockPending lim) P"
proof -
  have "aborted w \<Longrightarrow> aborted (snd (FetchAndLockPending lim e w))" for e and w :: "'a outbox_tables world"
    by (simp add: fetch_defs)
  then show ?thesis by (simp add: settles_def fetched_tabs)
qed

lemma processOnce_retry_ok:
  assumes "retry_ok (MaxRetries cfg) (tabs w)"
  shows "retry_ok (MaxRetries cfg) (tabs (snd (processOnce decode cfg e w)))"
proof -
  let ?body = "bind (FetchAndLockPending (BatchSize cfg)) (publish_batch decode cfg)"
  have "retry_ok (MaxRetries cfg) (tabs (snd (with_tx (\<lambda>er. er) (\<lambda>er. er) ?body e w)))"
    by (rule with_tx_settled [OF settles_bind [OF FetchAndLockPending_settles publish_batch_settles] assms])
      (auto simp: bind_ok publish_batch_not_quiet)
  with assms show ?thesis by (simp add: processOnce_def bind_def ctx_err_def raise_def)
qed

section \<open>Nothing is lost\<close>

definition identity_of :: "'p outbox_row \<Rightarrow> string \<times> string \<times> string \<times> string \<times> 'p \<times> int" where
  "identity_of r = (ob_id r, ob_event_type r, ob_topic r, ob_aggregate_id r, ob_payload r, ob_created_at r)"

lemma identity_set_rows:
  assumes "map identity_of (ob_rows t) = k" and "set_rows (upd_where p f) t = Inr (x, t')"
    and "\<And>r. identity_of (f r) = identity_of r"
  shows "map identity_of (ob_rows t') = k"
  using assms by (auto simp: set_rows_def map_upd_where)

lemma identity_maintained:
  "maintains (\<lambda>t s. map identity_of (ob_rows t) = k) (MarkPublished i)"
  "maintains (\<lambda>t s. map identity_of (ob_rows t) = k) (MarkFailedWithBackoff i mx d)"
proof -
  have bump: "maintains (\<lambda>t s. map identity_of (ob_rows t) = k) (sql (bump_retry i))"
    by (rule maintains_sql) (erule identity_set_rows, erule bump_retry_set_rows, simp add: identity_of_def)
  have upd: "maintains (\<lambda>t s. map identity_of (ob_rows t) = k)
      (try_or (set_rows (upd_where p f)) (on_error (sql (set_rows (upd_where p g))) h))"
    if "\<And>r. identity_of (f r) = identity_of r" "\<And>r. identity_of (g r) = identity_of r" for p f g h
    by (intro maintains_try_or maintains_on_error maintains_sql)
      (assumption | erule identity_set_rows, assumption, rule that)+
  show "maintains (\<lambda>t s. map identity_of (ob_rows t) = k) (MarkPublished i)"
    unfolding MarkPublished_def by (intro maintains_bind maintains_ret upd) (simp_all add: identity_of_def)
  show "maintains (\<lambda>t s. map identity_of (ob_rows t) = k) (MarkFailedWithBackoff i mx d)"
    unfolding MarkFailedWithBackoff_def
    by (intro maintains_intros bump)
      (auto split: option.split intro!: maintains_ret maintains_bind upd simp: identity_of_def)
qed

lemma publish_batch_identity:
  "maintains (\<lambda>t s. map identity_of (ob_rows t) = k) (publish_batch decode cfg evts)"
proof (induction evts)
  case (Cons evt evts)
  have failed: "maintains (\<lambda>t s. map identity_of (ob_rows t) = k) (publish_failed cfg evt i)" for i
    unfolding publish_failed_def do_when_def
    by (auto intro!: maintains_intros maintains_ignore maintains_publish identity_maintained)
  from Cons show ?case
    by (auto simp: MarkFailed_def split: sum.split intro!: maintains_intros maintains_ignore
        maintains_publish identity_maintained failed)
qed (simp add: maintains_ret)

lemma processOnce_identity:
  "map identity_of (ob_rows (tabs (snd (processOnce decode cfg e w)))) = map identity_of (ob_rows (tabs w))"
proof -
  let ?k = "map identity_of (ob_rows (tabs w))"
  let ?body = "bind (FetchAndLockPending (BatchSize cfg)) (publish_batch decode cfg)"
  have fetch: "maintains (\<lambda>t s. map identity_of (ob_rows t) = ?k) (FetchAndLockPending (BatchSize cfg))"
    by (simp add: maintains_def fetched_tabs)
  have "maintains (\<lambda>t s. map identity_of (ob_rows t) = ?k) (with_tx (\<lambda>er. er) (\<lambda>er. er) ?body)"
    by (rule maintains_with_tx)
      (auto intro!: maintains_bind fetch publish_batch_identity grows_bind grows_store grows_publish_batch)
  then show ?thesis
    by (simp add: maintains_def processOnce_def bind_def ctx_err_def raise_def)
qed

section \<open>A healthy cycle publishes its batch in order\<close>

definition status_of :: "'p outbox_tables \<Rightarrow> (string \<times> outbox_status) list" where
  "status_of t = map (\<lambda>r. (ob_id r, ob_status r)) (ob_rows t)"

definition mark :: "string set \<Rightarrow> (string \<times> outbox_status) list \<Rightarrow> (string \<times> outbox_status) list" where
  "mark ids = map (\<lambda>(i, st). (i, if i \<in> ids then OutboxPublished else st))"

lemma mark_mark: "mark a (mark b xs) = mark (a \<union> b) xs"
  by (auto simp: mark_def)

lemma mark_empty [simp]: "mark {} xs = xs"
  by (simp add: mark_def case_prod_beta)

lemma status_of_upd:
  "(\<And>r. ob_id (f r) = ob_id r \<and> ob_status (f r) = OutboxPublished) \<Longrightarrow>
   status_of (t\<lparr>ob_rows := upd_where (\<lambda>r. ob_id r = i) f (ob_rows t)\<rparr>) = mark {i} (status_of t)"
  by (auto simp: status_of_def mark_def upd_where_def)

lemma MarkPublished_healthy:
  assumes "fault_free e" and "\<not> aborted w"
  shows "\<exists>w'. MarkPublished i e w = (Inr (), w') \<and> \<not> aborted w' \<and> sent w' = sent w \<and>
    nsend w' = nsend w \<and> status_of (tabs w') = mark {i} (status_of (tabs w))"
  using assms unfolding MarkPublished_def try_or_def
  by (auto simp: seq_def bind_def time_now_def attempt_def savepoint_def sql_def select_def
      wide_only_def set_rows_def Let_def roll_back_def on_error_def ret_def status_of_upd)

lemma publish_batch_healthy:
  assumes ff: "fault_free e" and ack: "\<And>n. broker e n = Acked" and ctx: "\<And>n. \<not> ctx_done e n"
  shows "\<not> aborted w \<Longrightarrow> (\<And>evt. evt \<in> set evts \<Longrightarrow> message decode evt \<noteq> None) \<Longrightarrow>
    \<exists>w'. publish_batch decode cfg evts e w = (Inr (Commit ()), w') \<and> \<not> aborted w' \<and>
      sent w' = sent w @ map (the \<circ> message decode) evts \<and>
      status_of (tabs w') = mark (ob_id ` set evts) (status_of (tabs w))"
proof (induction evts arbitrary: w)
  case (Cons evt evts)
  obtain envID where dec: "decode (ob_payload evt) = Inr envID"
    using Cons.prems(2) [of evt] by (auto simp: message_def split: sum.splits)
  let ?i = "if envID = [] then ob_id evt else envID"
  let ?m = "(ob_topic evt, ob_aggregate_id evt, ?i)"
  let ?w1 = "w\<lparr>nsend := Suc (nsend w), sent := sent w @ [?m]\<rparr>"
  have pub: "publish (ob_topic evt) (ob_aggregate_id evt) ?i e w = (Inr (), ?w1)"
    using ack by (simp add: publish_def Let_def)
  obtain w2 where mp: "MarkPublished (ob_id evt) e ?w1 = (Inr (), w2)" "\<not> aborted w2"
    "sent w2 = sent ?w1" "status_of (tabs w2) = mark {ob_id evt} (status_of (tabs w))"
    using MarkPublished_healthy [OF ff, of ?w1 "ob_id evt"] Cons.prems(1) by auto
  obtain w' where rest: "publish_batch decode cfg evts e w2 = (Inr (Commit ()), w')" "\<not> aborted w'"
    "sent w' = sent w2 @ map (the \<circ> message decode) evts"
    "status_of (tabs w') = mark (ob_id ` set evts) (status_of (tabs w2))"
    using Cons.IH [OF mp(2)] Cons.prems(2) by auto
  have "publish_batch decode cfg (evt # evts) e w = (Inr (Commit ()), w')"
    using pub mp(1) rest(1) ctx
    by (simp add: dec bind_def seq_def ctx_err_def attempt_def ignore_error_def ret_def)
  moreover have "message decode evt = Some ?m" using dec by (simp add: message_def)
  ultimately show ?case using rest mp by (simp add: mark_mark)
qed (simp add: ret_def)

text \<open>The fetch of a cycle without failures.\<close>

lemma FetchAndLockPending_healthy:
  assumes "fault_free e" and "\<not> aborted w"
  shows "\<exists>w'. FetchAndLockPending lim e w =
      (Inr (oldest lim (if ob_wide (tabs w) then due (clock e) else (\<lambda>r. ob_status r = OutboxPending))
        (ob_rows (tabs w))), w') \<and> \<not> aborted w' \<and> tabs w' = tabs w \<and> sent w' = sent w"
  using assms by (auto simp: fetch_defs)

end
