(* ===== verification/Outbox_Props.thy ===== *)
theory Outbox_Props
  imports Outbox_Delivery
begin

text \<open>The properties of the outbox store and publisher, with a concrete table.\<close>

definition ob_env :: env where
  "ob_env = \<lparr>fault = (\<lambda>_. False), uuid_at = (\<lambda>n. CHR ''u'' # replicate n CHR ''x''), clock = 100,
     broker = (\<lambda>_. Acked), ctx_done = (\<lambda>_. False)\<rparr>"

definition ob_sample_row :: "string \<Rightarrow> int \<Rightarrow> string outbox_row" where
  "ob_sample_row i created = \<lparr>ob_id = i, ob_aggregate_type = ''ORDER'', ob_aggregate_id = ''a'',
     ob_event_type = ''OrderCreated'', ob_payload = ''ev'' @ i, ob_headers = [], ob_topic = ''t'',
     ob_status = OutboxPending, ob_retry_count = 0, ob_next_retry_at = None,
     ob_created_at = created, ob_updated_at = None, ob_published_at = None\<rparr>"

definition ob_sample :: "string outbox_tables world" where
  "ob_sample = \<lparr>tabs = \<lparr>ob_rows = [ob_sample_row ''b'' 20, ob_sample_row ''a'' 10], ob_wide = True\<rparr>,
     aborted = False, nstmt = 0, nuuid = 0, nsend = 0, sent = []\<rparr>"

definition ob_decode :: "string \<Rightarrow> go_error + string" where
  "ob_decode p = Inr p"

lemmas ob_sample_defs = ob_env_def ob_sample_row_def ob_sample_def ob_decode_def

section \<open>Reachable states of an outbox\<close>

text \<open>
  Inserts, publisher cycles and requeues in any order and any environment, a failed insert
  or cycle included. \<open>Insert\<close> runs in the caller's transaction, which commits or not.
\<close>

inductive ob_reach ::
  "('p \<Rightarrow> go_error + string) \<Rightarrow> Config \<Rightarrow> 'p outbox_tables \<Rightarrow> (string \<times> string \<times> string) list \<Rightarrow> bool"
  for decode cfg where
  ob_empty: "ob_reach decode cfg \<lparr>ob_rows = [], ob_wide = b\<rparr> []"
| ob_insert: "ob_reach decode cfg (tabs w) (sent w) \<Longrightarrow> WithTransaction (Insert evt) e w = (r, w') \<Longrightarrow>
    ob_reach decode cfg (tabs w') (sent w')"
| ob_cycle: "ob_reach decode cfg (tabs w) (sent w) \<Longrightarrow> processOnce decode cfg e w = (r, w') \<Longrightarrow>
    ob_reach decode cfg (tabs w') (sent w')"
| ob_requeue: "ob_reach decode cfg (tabs w) (sent w) \<Longrightarrow> RequeueFailed a b e w = (r, w') \<Longrightarrow>
    ob_reach decode cfg (tabs w') (sent w')"

lemma Insert_grows: "grows (Insert evt)"
  unfolding Insert_def
  by (auto intro!: grows_intros grows_try_or)

lemma ob_reach_inv: "ob_reach decode cfg t s \<Longrightarrow> outbox_inv decode t s"
proof (induction rule: ob_reach.induct)
  case (ob_empty b)
  show ?case by (simp add: outbox_inv_def acknowledged_def)
next
  case (ob_insert w evt e r w')
  have "maintains (outbox_inv decode) (WithTransaction (Insert evt))"
    unfolding WithTransaction_def
    by (rule maintains_with_tx)
      (simp_all add: outbox_inv_mono maintains_bind maintains_ret Insert_maintains grows_bind grows_ret
        Insert_grows)
  from maintainsD [OF this ob_insert(3,2)] show ?case .
next
  case (ob_cycle w e r w')
  from maintainsD [OF processOnce_maintains ob_cycle(3,2)] show ?case .
next
  case (ob_requeue w a b e r w')
  from maintainsD [OF RequeueFailed_maintains ob_requeue(3,2)] show ?case .
qed

text \<open>
  C6. An event is marked \<open>PUBLISHED\<close> only after the broker acknowledged it: in every
  reachable state, whatever statement, publish call or commit failed on the way, the
  message of a published row (its topic, key and event identifier) is among the messages
  acknowledged.
\<close>

theorem published_implies_acknowledged:
  assumes "ob_reach decode cfg t s" and "r \<in> set (ob_rows t)" and "ob_status r = OutboxPublished"
  shows "\<exists>envID. decode (ob_payload r) = Inr envID \<and>
    (ob_topic r, ob_aggregate_id r, if envID = [] then ob_id r else envID) \<in> set s"
proof -
  have "message decode r \<in> Some ` set s"
    using ob_reach_inv [OF assms(1)] assms(2,3) by (simp add: outbox_inv_def acknowledged_def)
  then obtain m where "message decode r = Some m" "m \<in> set s" by blast
  then show ?thesis by (cases "decode (ob_payload r)") (simp_all add: message_def)
qed

definition ob_sample_inserted :: "string outbox_tables world" where
  "ob_sample_inserted = snd (WithTransaction (Insert (ob_sample_row ''b'' 20)) ob_env
     (ob_sample\<lparr>tabs := \<lparr>ob_rows = [], ob_wide = False\<rparr>\<rparr>))"

definition ob_sample_published :: "string outbox_tables world" where
  "ob_sample_published = snd (processOnce ob_decode DefaultConfig ob_env ob_sample_inserted)"

lemma ob_sample_published_reach:
  "ob_reach ob_decode DefaultConfig (tabs ob_sample_published) (sent ob_sample_published)"
proof -
  have "ob_reach ob_decode DefaultConfig (tabs ob_sample_inserted) (sent ob_sample_inserted)"
    unfolding ob_sample_inserted_def
    by (rule ob_reach.ob_insert [OF _ prod.collapse [symmetric]])
      (simp add: ob_sample_def ob_reach.ob_empty)
  then show ?thesis
    unfolding ob_sample_published_def by (rule ob_reach.ob_cycle [OF _ prod.collapse [symmetric]])
qed

lemma ob_sample_published_eval:
  "map ob_status (ob_rows (tabs ob_sample_published)) = [OutboxPublished]"
  by code_simp

theorem published_implies_acknowledged_witness:
  "\<exists>r \<in> set (ob_rows (tabs ob_sample_published)).
     \<exists>envID. (ob_topic r, ob_aggregate_id r, envID) \<in> set (sent ob_sample_published)"
proof -
  obtain r where r: "ob_rows (tabs ob_sample_published) = [r]" "ob_status r = OutboxPublished"
    using ob_sample_published_eval by auto
  then have "r \<in> set (ob_rows (tabs ob_sample_published))" by simp
  from published_implies_acknowledged [OF ob_sample_published_reach this r(2)] this
  show ?thesis by blast
qed

text \<open>
  A publisher cycle loses nothing and invents nothing: whatever its outcome, the rows
  of the table are the same events in the same order, only their delivery state changes.
\<close>

theorem cycle_keeps_every_event:
  "map (\<lambda>r. (ob_id r, ob_event_type r, ob_topic r, ob_aggregate_id r, ob_payload r, ob_created_at r))
     (ob_rows (tabs (snd (processOnce decode cfg e w)))) =
   map (\<lambda>r. (ob_id r, ob_event_type r, ob_topic r, ob_aggregate_id r, ob_payload r, ob_created_at r))
     (ob_rows (tabs w))"
  using processOnce_identity [of decode cfg e w] by (simp add: identity_of_def [abs_def])

text \<open>
  Retries are bounded: a cycle keeps every pending row below the maximal number of
  attempts, and a row is \<open>FAILED\<close> only after that many, also when marking fails half way.
\<close>

theorem cycle_bounds_retries:
  assumes "keyed ob_id (ob_rows (tabs w))"
    and "\<forall>r \<in> set (ob_rows (tabs w)).
      (ob_status r = OutboxPending \<longrightarrow> ob_retry_count r < MaxRetries cfg) \<and>
      (ob_status r = OutboxFailed \<longrightarrow> MaxRetries cfg \<le> ob_retry_count r)"
    and "r \<in> set (ob_rows (tabs (snd (processOnce decode cfg e w))))"
  shows "(ob_status r = OutboxPending \<longrightarrow> ob_retry_count r < MaxRetries cfg) \<and>
    (ob_status r = OutboxFailed \<longrightarrow> MaxRetries cfg \<le> ob_retry_count r)"
  using processOnce_retry_ok [of cfg w decode e] assms
  by (auto simp: retry_ok_def retry_row_ok_def)

theorem cycle_bounds_retries_witness:
  "\<exists>r. r \<in> set (ob_rows (tabs (snd (processOnce ob_decode (DefaultConfig\<lparr>MaxRetries := 1\<rparr>)
         (ob_env\<lparr>broker := \<lambda>_. SendFailed\<rparr>) ob_sample)))) \<and>
     ob_status r = OutboxFailed \<and> 1 \<le> ob_retry_count r"
proof -
  let ?cfg = "DefaultConfig\<lparr>MaxRetries := 1\<rparr>"
  let ?rows = "ob_rows (tabs (snd (processOnce ob_decode ?cfg (ob_env\<lparr>broker := \<lambda>_. SendFailed\<rparr>) ob_sample)))"
  have "map ob_status ?rows = [OutboxFailed, OutboxFailed]" by code_simp
  then have "OutboxFailed \<in> set (map ob_status ?rows)" by simp
  then obtain r where r: "r \<in> set ?rows" "ob_status r = OutboxFailed" unfolding set_map by (elim imageE) simp
  have "keyed ob_id (ob_rows (tabs ob_sample))"
    by (simp add: ob_sample_def ob_sample_row_def)
  from cycle_bounds_retries [OF this _ r(1)] r show ?thesis
    by (auto simp: ob_sample_def ob_sample_row_def)
qed

text \<open>
  C9. A healthy cycle delivers: when no statement fails, the broker acknowledges and the
  payloads decode, the cycle succeeds, every row of the batch is published, no other row's
  status changes, and the messages went out in the order the events were created.
\<close>

theorem healthy_cycle_publishes_batch:
  assumes ff: "fault_free e" and ack: "\<forall>n. broker e n = Acked" and ctx: "\<forall>n. \<not> ctx_done e n"
    and dec: "\<forall>r \<in> set (ob_rows (tabs w)). \<exists>i. decode (ob_payload r) = Inr i"
    and batch: "batch = oldest (BatchSize cfg)
      (if ob_wide (tabs w) then due (clock e) else (\<lambda>r. ob_status r = OutboxPending)) (ob_rows (tabs w))"
  shows "fst (processOnce decode cfg e w) = Inr () \<and>
    sent (snd (processOnce decode cfg e w)) = sent w @ map (the \<circ> message decode) batch \<and>
    map (\<lambda>r. (ob_id r, ob_status r)) (ob_rows (tabs (snd (processOnce decode cfg e w)))) =
      map (\<lambda>r. (ob_id r, if ob_id r \<in> ob_id ` set batch then OutboxPublished else ob_status r))
        (ob_rows (tabs w)) \<and>
    sorted (map ob_created_at batch)"
proof -
  let ?w0 = "w\<lparr>nstmt := Suc (nstmt w), aborted := False\<rparr>"
  obtain w1 where fetch: "FetchAndLockPending (BatchSize cfg) e ?w0 = (Inr batch, w1)" "\<not> aborted w1"
    "tabs w1 = tabs w" "sent w1 = sent w"
    using FetchAndLockPending_healthy [OF ff, of ?w0 "BatchSize cfg"] batch by auto
  have mem: "set batch \<subseteq> set (ob_rows (tabs w))" unfolding batch by (rule oldest_subset)
  have "message decode evt \<noteq> None" if "evt \<in> set batch" for evt
    using dec mem that by (force simp: message_def split: sum.split)
  then obtain w2 where run: "publish_batch decode cfg batch e w1 = (Inr (Commit ()), w2)"
    "\<not> aborted w2" "sent w2 = sent w @ map (the \<circ> message decode) batch"
    "status_of (tabs w2) = mark (ob_id ` set batch) (status_of (tabs w))"
    using publish_batch_healthy [of e w1 batch decode cfg] ff ack ctx fetch by auto
  have "with_tx (\<lambda>er. er) (\<lambda>er. er)
      (bind (FetchAndLockPending (BatchSize cfg)) (publish_batch decode cfg)) e w =
      (Inr (), w2\<lparr>nstmt := Suc (nstmt w2), aborted := aborted w\<rparr>)"
    by (rule with_tx_commitI) (use fetch run ff in \<open>simp_all add: bind_def\<close>)
  then have "processOnce decode cfg e w = (Inr (), w2\<lparr>nstmt := Suc (nstmt w2), aborted := aborted w\<rparr>)"
    using ctx by (simp add: processOnce_def bind_def ctx_err_def)
  moreover have "sorted (map ob_created_at batch)"
    unfolding batch oldest_def by (simp add: take_map [symmetric] sorted_wrt_take)
  ultimately show ?thesis using run by (simp add: status_of_def mark_def comp_def)
qed

theorem healthy_cycle_publishes_batch_witness:
  "fst (processOnce ob_decode DefaultConfig ob_env ob_sample) = Inr () \<and>
   sent (snd (processOnce ob_decode DefaultConfig ob_env ob_sample)) =
     [(''t'', ''a'', ''eva''), (''t'', ''a'', ''evb'')]"
proof -
  have ff: "fault_free ob_env" by (simp add: fault_free_def ob_env_def)
  have batch: "[ob_sample_row ''a'' 10, ob_sample_row ''b'' 20] =
      oldest (BatchSize DefaultConfig)
        (if ob_wide (tabs ob_sample) then due (clock ob_env) else (\<lambda>r. ob_status r = OutboxPending))
        (ob_rows (tabs ob_sample))"
    by code_simp
  have "sent ob_sample = []" by (simp add: ob_sample_def)
  with healthy_cycle_publishes_batch [OF ff _ _ _ batch, of ob_decode] show ?thesis
    by (simp add: ob_env_def ob_decode_def message_def ob_sample_row_def)
qed

text \<open>
  The batch of a cycle is bounded and oldest first: at most \<open>limit\<close> rows, all of them
  pending and (in a wide table) due, and no due row left out is older than a row taken.
\<close>

theorem fetch_takes_the_oldest_due:
  assumes "fault_free e" and "\<not> aborted w" and "ob_wide (tabs w)"
    and "FetchAndLockPending lim e w = (Inr evts, w')"
  shows "length evts \<le> nat lim \<and> tabs w' = tabs w \<and>
    (\<forall>r \<in> set evts. r \<in> set (ob_rows (tabs w)) \<and> due (clock e) r) \<and>
    (\<forall>r \<in> set evts. \<forall>q \<in> set (ob_rows (tabs w)). due (clock e) q \<longrightarrow> q \<notin> set evts \<longrightarrow>
       ob_created_at r \<le> ob_created_at q)"
proof -
  let ?s = "sort_key ob_created_at (filter (due (clock e)) (ob_rows (tabs w)))"
  have evts: "evts = take (nat lim) ?s" and t: "tabs w' = tabs w"
    using FetchAndLockPending_healthy [OF assms(1,2), of lim] assms(3,4) by (auto simp: oldest_def)
  have "ob_created_at r \<le> ob_created_at q"
    if r: "r \<in> set evts" and q: "q \<in> set (ob_rows (tabs w))" "due (clock e) q" "q \<notin> set evts" for r q
  proof -
    have "q \<in> set ?s" using q by simp
    then have "q \<in> set (drop (nat lim) ?s)" using q(3) unfolding evts by (rule in_take_or_drop)
    with sorted_sort_key r [unfolded evts] show ?thesis by (rule sorted_take_drop)
  qed
  moreover have "r \<in> set (ob_rows (tabs w)) \<and> due (clock e) r" if "r \<in> set evts" for r
    using that unfolding evts by (auto dest!: in_set_takeD)
  moreover have "length evts \<le> nat lim" by (simp add: evts)
  ultimately show ?thesis using t by blast
qed

theorem fetch_takes_the_oldest_due_witness:
  "length (projr (fst (FetchAndLockPending 1 ob_env ob_sample))) \<le> 1"
proof -
  let ?run = "FetchAndLockPending 1 ob_env ob_sample"
  have "fst ?run = Inr [ob_sample_row ''a'' 10]" by code_simp
  then have run: "?run = (Inr [ob_sample_row ''a'' 10], snd ?run)" by (metis prod.collapse)
  have "fault_free ob_env" "\<not> aborted ob_sample" "ob_wide (tabs ob_sample)"
    by (simp_all add: fault_free_def ob_env_def ob_sample_def)
  from fetch_takes_the_oldest_due [OF this run] \<open>fst ?run = _\<close> show ?thesis by simp
qed

text \<open>
  The delay before the next attempt after \<open>n\<close> failures is the base delay doubled
  \<open>n\<close> times, cut off at the maximum; the doubling never leaves the range of
  \<open>time.Duration\<close> when the maximum is below half of it.
\<close>

theorem backoff_is_capped_doubling:
  assumes "0 < BaseRetryDelay cfg" and "BaseRetryDelay cfg \<le> MaxRetryDelay cfg"
    and "MaxRetryDelay cfg < 2 ^ 62"
  shows "backoff (MaxRetryDelay cfg) (BaseRetryDelay cfg) n =
      min (BaseRetryDelay cfg * 2 ^ n) (MaxRetryDelay cfg) \<and>
    int64 (2 * backoff (MaxRetryDelay cfg) (BaseRetryDelay cfg) n)"
proof -
  have eq: "backoff (MaxRetryDelay cfg) (BaseRetryDelay cfg) n =
      min (BaseRetryDelay cfg * 2 ^ n) (MaxRetryDelay cfg)"
    by (rule backoff_closed [OF assms])
  have "0 \<le> BaseRetryDelay cfg * 2 ^ n" using assms(1) by simp
  then have "0 \<le> backoff (MaxRetryDelay cfg) (BaseRetryDelay cfg) n"
    "backoff (MaxRetryDelay cfg) (BaseRetryDelay cfg) n < 2 ^ 62"
    unfolding eq using assms by auto
  with eq show ?thesis by (simp add: int64_def)
qed

theorem backoff_is_capped_doubling_witness:
  "backoff (MaxRetryDelay DefaultConfig) (BaseRetryDelay DefaultConfig) 9 = 60 * second"
  using backoff_is_capped_doubling [of DefaultConfig 9] by (simp add: DefaultConfig_def second_def)

end
