(* ===== verification/Status_Machine.thy ===== *)
theory Status_Machine
  imports App_Errors
begin

text \<open>
  Status values and transition tables. A status is a Go string, a table the association
  list of a Go map from a status to its allowed targets. The locale states what makes such
  a table a life cycle and derives what holds along every sequence of changes; the life
  cycles of the services are instances.
\<close>

type_synonym status = string
type_synonym transitions = "(status \<times> status list) list"

text \<open>\<open>targets, ok := table[from]\<close> followed by the search for \<open>to\<close>.\<close>

definition allowed_in :: "transitions \<Rightarrow> status \<Rightarrow> status \<Rightarrow> bool" where
  "allowed_in table a b = (case map_of table a of None \<Rightarrow> False | Some ts \<Rightarrow> b \<in> set ts)"

definition targets_of :: "transitions \<Rightarrow> status \<Rightarrow> status list" where
  "targets_of table a = (case map_of table a of None \<Rightarrow> [] | Some ts \<Rightarrow> ts)"

lemma allowed_in_targets: "allowed_in table a b \<longleftrightarrow> b \<in> set (targets_of table a)"
  by (simp add: allowed_in_def targets_of_def split: option.split)

text \<open>Checks over a whole table, for evaluation.\<close>

definition every_edge :: "transitions \<Rightarrow> (status \<Rightarrow> status \<Rightarrow> bool) \<Rightarrow> bool" where
  "every_edge table P = list_all (\<lambda>(a, ts). list_all (P a) ts) table"

lemma every_edgeD: "every_edge table P \<Longrightarrow> allowed_in table a b \<Longrightarrow> P a b"
  by (auto simp: every_edge_def allowed_in_def list_all_iff split: option.splits dest!: map_of_SomeD)

locale status_machine =
  fixes table :: transitions
    and statuses :: "status list"
  assumes known: "every_edge table (\<lambda>a b. a \<in> set statuses \<and> b \<in> set statuses)"
begin

abbreviation step :: "status \<Rightarrow> status \<Rightarrow> bool" where
  "step a b \<equiv> allowed_in table a b"

lemma step_known: "step a b \<Longrightarrow> a \<in> set statuses \<and> b \<in> set statuses"
  by (rule every_edgeD [OF known])

lemma reach_known: "step\<^sup>*\<^sup>* a b \<Longrightarrow> a \<in> set statuses \<Longrightarrow> b \<in> set statuses"
  by (induction rule: rtranclp_induct) (auto dest: step_known)

text \<open>A set of statuses no allowed change leaves is never left.\<close>

lemma stays:
  assumes "every_edge table (\<lambda>a b. a \<in> S \<longrightarrow> b \<in> S)" and "step\<^sup>*\<^sup>* a b" and "a \<in> S"
  shows "b \<in> S"
  using assms(2,3) by (induction rule: rtranclp_induct) (auto dest: every_edgeD [OF assms(1)])

text \<open>Along changes (or repetitions) that avoid \<open>G\<close>, a set is not left whose only exits lead into \<open>G\<close>.\<close>

lemma stays_until:
  assumes "every_edge table (\<lambda>a b. a \<in> S \<longrightarrow> b \<in> S \<or> b \<in> G)"
    and "(\<lambda>x y. (x = y \<or> step x y) \<and> y \<notin> G)\<^sup>*\<^sup>* a b" and "a \<in> S"
  shows "b \<in> S"
  using assms(2,3) by (induction rule: rtranclp_induct) (auto dest: every_edgeD [OF assms(1)])

lemma terminal_stuck: "targets_of table a = [] \<Longrightarrow> step\<^sup>*\<^sup>* a b \<Longrightarrow> b = a"
  by (erule converse_rtranclpE) (auto simp: allowed_in_targets)

end

text \<open>A life cycle that only moves forward.\<close>

locale forward_machine = status_machine +
  fixes rank :: "status \<Rightarrow> nat" and top :: nat
  assumes forward: "every_edge table (\<lambda>a b. rank a < rank b \<and> rank b \<le> top)"
begin

lemma steps_rank: "(step ^^ n) a b \<Longrightarrow> rank a + n \<le> rank b"
proof (induction n arbitrary: b)
  case (Suc n)
  then obtain c where "(step ^^ n) a c" "step c b" by auto
  with Suc.IH every_edgeD [OF forward, of c b] show ?case by fastforce
qed simp

text \<open>No life of a record has more changes than the highest rank, and no status recurs.\<close>

lemma steps_bounded:
  assumes "(step ^^ n) a b"
  shows "n \<le> top"
proof (cases n)
  case (Suc m)
  with assms obtain c where "step c b" by auto
  with steps_rank [OF assms] every_edgeD [OF forward, of c b] show ?thesis by auto
qed simp

lemma no_return: "(step ^^ n) a a \<Longrightarrow> n = 0"
  using steps_rank [of n a a] by simp

end

end
