(* ===== verification/Order_Model.thy ===== *)
theory Order_Model
  imports Status_Machine
begin

text \<open>
  The order service's data and life cycle
  (\<open>services/order-service/internal/model/order.go\<close>). Amounts (\<open>float64\<close> in Go,
  \<open>DECIMAL(12,2)\<close> in the database) are values of a type \<open>'m\<close> the order service only
  passes on once an order exists.
\<close>

definition OrderStatusCreated :: status where "OrderStatusCreated = ''CREATED''"
definition OrderStatusPendingPayment :: status where "OrderStatusPendingPayment = ''PENDING_PAYMENT''"
definition OrderStatusPaid :: status where "OrderStatusPaid = ''PAID''"
definition OrderStatusConfirmed :: status where "OrderStatusConfirmed = ''CONFIRMED''"
definition OrderStatusProcessing :: status where "OrderStatusProcessing = ''PROCESSING''"
definition OrderStatusShipped :: status where "OrderStatusShipped = ''SHIPPED''"
definition OrderStatusOutForDelivery :: status where "OrderStatusOutForDelivery = ''OUT_FOR_DELIVERY''"
definition OrderStatusDelivered :: status where "OrderStatusDelivered = ''DELIVERED''"
definition OrderStatusPaymentFailed :: status where "OrderStatusPaymentFailed = ''PAYMENT_FAILED''"
definition OrderStatusCancelled :: status where "OrderStatusCancelled = ''CANCELLED''"
definition OrderStatusReturnRequested :: status where "OrderStatusReturnRequested = ''RETURN_REQUESTED''"
definition OrderStatusReturned :: status where "OrderStatusReturned = ''RETURNED''"
definition OrderStatusRefunded :: status where "OrderStatusRefunded = ''REFUNDED''"

lemmas order_status_defs =
  OrderStatusCreated_def OrderStatusPendingPayment_def OrderStatusPaid_def OrderStatusConfirmed_def
  OrderStatusProcessing_def OrderStatusShipped_def OrderStatusOutForDelivery_def
  OrderStatusDelivered_def OrderStatusPaymentFailed_def OrderStatusCancelled_def
  OrderStatusReturnRequested_def OrderStatusReturned_def OrderStatusRefunded_def

definition order_statuses :: "status list" where
  "order_statuses =
     [OrderStatusCreated, OrderStatusPendingPayment, OrderStatusPaid, OrderStatusConfirmed,
      OrderStatusProcessing, OrderStatusShipped, OrderStatusOutForDelivery, OrderStatusDelivered,
      OrderStatusPaymentFailed, OrderStatusCancelled, OrderStatusReturnRequested,
      OrderStatusReturned, OrderStatusRefunded]"

definition OrderStatus_IsValid :: "status \<Rightarrow> bool" where
  "OrderStatus_IsValid s \<longleftrightarrow> s \<in> set order_statuses"

definition ValidStateTransitions :: transitions where
  "ValidStateTransitions =
     [(OrderStatusCreated, [OrderStatusPendingPayment, OrderStatusPaid, OrderStatusConfirmed,
         OrderStatusPaymentFailed, OrderStatusCancelled]),
      (OrderStatusPendingPayment, [OrderStatusPaid, OrderStatusConfirmed, OrderStatusPaymentFailed,
         OrderStatusCancelled]),
      (OrderStatusPaid, [OrderStatusConfirmed, OrderStatusProcessing, OrderStatusCancelled]),
      (OrderStatusConfirmed, [OrderStatusProcessing, OrderStatusCancelled]),
      (OrderStatusProcessing, [OrderStatusShipped, OrderStatusCancelled]),
      (OrderStatusShipped, [OrderStatusOutForDelivery]),
      (OrderStatusOutForDelivery, [OrderStatusDelivered]),
      (OrderStatusDelivered, [OrderStatusReturnRequested]),
      (OrderStatusReturnRequested, [OrderStatusReturned, OrderStatusRefunded]),
      (OrderStatusReturned, [OrderStatusRefunded])]"

definition IsValidTransition :: "status \<Rightarrow> status \<Rightarrow> bool" where
  "IsValidTransition current nxt =
     (if \<not> OrderStatus_IsValid current \<or> \<not> OrderStatus_IsValid nxt then False
      else if current = nxt then True
      else allowed_in ValidStateTransitions current nxt)"

definition CanCancel :: "status \<Rightarrow> bool" where
  "CanCancel current \<longleftrightarrow>
     current \<in> set [OrderStatusCreated, OrderStatusPendingPayment, OrderStatusPaid,
       OrderStatusConfirmed, OrderStatusProcessing]"

definition PaymentStatusPending :: status where "PaymentStatusPending = ''PENDING''"
definition PaymentStatusPaid :: status where "PaymentStatusPaid = ''PAID''"
definition PaymentStatusFailed :: status where "PaymentStatusFailed = ''FAILED''"
definition PaymentStatusRefunded :: status where "PaymentStatusRefunded = ''REFUNDED''"

definition PaymentStatus_IsValid :: "status \<Rightarrow> bool" where
  "PaymentStatus_IsValid p \<longleftrightarrow>
     p \<in> set [PaymentStatusPending, PaymentStatusPaid, PaymentStatusFailed, PaymentStatusRefunded]"

record OrderStatusHistory =
  hist_id :: string
  hist_order :: string
  hist_from :: "status option"
  hist_to :: status
  hist_reason :: "string option"
  hist_changed_by :: "string option"
  hist_created :: int

record 'm OrderItem =
  oi_id :: string
  oi_order :: string
  oi_product :: string
  oi_store :: string
  oi_sku :: string
  oi_name :: string
  oi_quantity :: int
  oi_unit_price :: 'm
  oi_tax :: 'm
  oi_discount :: 'm
  oi_total :: 'm

record 'm Order =
  ord_id :: string
  ord_number :: string
  ord_parent :: "string option"
  ord_user :: string
  ord_store :: string
  ord_subtotal :: 'm
  ord_tax :: 'm
  ord_shipping :: 'm
  ord_discount :: 'm
  ord_total :: 'm
  ord_currency :: string
  ord_payment_status :: status
  ord_status :: status
  ord_ship_address :: string
  ord_bill_address :: string
  ord_ship_id :: "string option"
  ord_bill_id :: "string option"
  ord_idem_key :: "string option"
  ord_items :: "'m OrderItem list"
  ord_created :: int
  ord_updated :: int

section \<open>The life cycle\<close>

text \<open>The rank of a status: how far the order has come.\<close>

definition order_rank :: "status \<Rightarrow> nat" where
  "order_rank s = (case map_of
     [(OrderStatusCreated, 0), (OrderStatusPendingPayment, 1), (OrderStatusPaid, 2),
      (OrderStatusConfirmed, 3), (OrderStatusProcessing, 4), (OrderStatusShipped, 5),
      (OrderStatusOutForDelivery, 6), (OrderStatusDelivered, 7), (OrderStatusReturnRequested, 8),
      (OrderStatusReturned, 9), (OrderStatusRefunded, 10), (OrderStatusPaymentFailed, 10),
      (OrderStatusCancelled, 10)] s of None \<Rightarrow> 0 | Some n \<Rightarrow> n)"

interpretation order_life: forward_machine ValidStateTransitions order_statuses order_rank 10
  by unfold_locales code_simp+

lemma order_codes_distinct: "distinct order_statuses"
  by code_simp

text \<open>A change of status the model accepts is a step of the table.\<close>

lemma IsValidTransition_iff:
  "a \<noteq> b \<Longrightarrow> IsValidTransition a b \<longleftrightarrow> allowed_in ValidStateTransitions a b"
  using order_life.step_known by (auto simp: IsValidTransition_def OrderStatus_IsValid_def)

lemma changes_steps:
  "((\<lambda>a b. IsValidTransition a b \<and> a \<noteq> b) ^^ n) a b \<Longrightarrow> (allowed_in ValidStateTransitions ^^ n) a b"
proof (induction n arbitrary: b)
  case (Suc n)
  then obtain c where "((\<lambda>a b. IsValidTransition a b \<and> a \<noteq> b) ^^ n) a c" "IsValidTransition c b" "c \<noteq> b"
    by auto
  with Suc.IH IsValidTransition_iff show ?case by auto
qed simp

lemma CanCancel_transition:
  "CanCancel s \<longleftrightarrow> IsValidTransition s OrderStatusCancelled \<and> s \<noteq> OrderStatusCancelled"
proof -
  have all: "list_all (\<lambda>s. CanCancel s = (IsValidTransition s OrderStatusCancelled \<and> s \<noteq> OrderStatusCancelled))
      order_statuses" by code_simp
  show ?thesis
  proof (cases "s \<in> set order_statuses")
    case True
    with all show ?thesis by (simp add: list_all_iff)
  next
    case False
    then have "\<not> CanCancel s" by (auto simp: CanCancel_def order_statuses_def)
    with False show ?thesis by (simp add: IsValidTransition_def OrderStatus_IsValid_def)
  qed
qed

end
