(* ===== verification/Order_Repo.thy ===== *)
theory Order_Repo
  imports Order_Model Outbox
begin

text \<open>
  The order repository (\<open>services/order-service/internal/repository/order_repo.go\<close>) over
  the tables \<open>orders\<close>, \<open>order_items\<close>, \<open>order_status_history\<close> and
  \<open>outbox_events\<close> of its migrations.

  What the repository takes from elsewhere is the record \<open>order_lib\<close>: which strings a
  \<open>UUID\<close> column accepts, what a \<open>DECIMAL(12,2)\<close> column with its \<open>CHECK\<close> stores for
  an amount (nothing when it refuses it), \<open>json.Valid\<close> and the object
  \<open>{"address": ...}\<close> of \<open>json.Marshal\<close>.
\<close>

record 'm order_lib =
  uuid_col :: "string \<Rightarrow> bool"
  decimal :: "'m \<Rightarrow> 'm option"
  json_valid :: "string \<Rightarrow> bool"
  json_address :: "string \<Rightarrow> string"
  order_grpc :: grpc_lib

datatype 'm order_event =
    EvOrderCreated "'m Order"
  | EvOrderConfirmed string string int
  | EvOrderPaymentFailed string string string int
  | EvOrderCancelled string string int

record 'm order_tables =
  orders :: "'m Order list"
  items :: "'m OrderItem list"
  history :: "OrderStatusHistory list"
  order_outbox :: "'m order_event EventEnvelope outbox_tables"

type_synonym ('m, 'a) order_db = "('m order_tables, 'a) db"
type_synonym 'm order_envelope = "'m order_event EventEnvelope"

definition ErrOrderNotFound :: go_error where
  "ErrOrderNotFound = ErrorString ''order not found''"

definition ErrNoRows :: go_error where
  "ErrNoRows = ErrorString ''no rows in result set''"

section \<open>Statements\<close>

definition address_json :: "'m order_lib \<Rightarrow> string \<Rightarrow> string" where
  "address_json L s =
     (let a = TrimSpace s in
      if a = [] then ''{}'' else if json_valid L a then a else json_address L a)"

text \<open>The row the statement stores, \<^const>\<open>None\<close> when an amount is refused.\<close>

definition stored_order :: "'m order_lib \<Rightarrow> 'm Order \<Rightarrow> 'm Order option" where
  "stored_order L o1 =
     (case (decimal L (ord_subtotal o1), decimal L (ord_tax o1), decimal L (ord_shipping o1),
            decimal L (ord_discount o1), decimal L (ord_total o1)) of
        (Some a, Some b, Some c, Some d, Some f) \<Rightarrow>
          Some (o1\<lparr>ord_parent := nonempty (ord_parent o1), ord_subtotal := a, ord_tax := b,
            ord_shipping := c, ord_discount := d, ord_total := f,
            ord_ship_address := address_json L (ord_ship_address o1),
            ord_bill_address := address_json L (ord_bill_address o1),
            ord_ship_id := nonempty (ord_ship_id o1), ord_bill_id := nonempty (ord_bill_id o1),
            ord_idem_key := nonempty (ord_idem_key o1), ord_items := []\<rparr>)
      | _ \<Rightarrow> None)"

definition opt_uuid :: "'m order_lib \<Rightarrow> string option \<Rightarrow> bool" where
  "opt_uuid L p = (case nonempty p of None \<Rightarrow> True | Some s \<Rightarrow> uuid_col L s)"

definition order_columns_ok :: "'m order_lib \<Rightarrow> 'm Order \<Rightarrow> bool" where
  "order_columns_ok L o1 \<longleftrightarrow>
     uuid_col L (ord_id o1) \<and> uuid_col L (ord_user o1) \<and> uuid_col L (ord_store o1) \<and>
     opt_uuid L (ord_parent o1) \<and> opt_uuid L (ord_ship_id o1) \<and> opt_uuid L (ord_bill_id o1) \<and>
     OrderStatus_IsValid (ord_status o1) \<and> PaymentStatus_IsValid (ord_payment_status o1)"

definition insert_order ::
  "'m order_lib \<Rightarrow> 'm Order \<Rightarrow> 'm order_tables \<Rightarrow> go_error + unit \<times> 'm order_tables" where
  "insert_order L o1 t =
     (if \<not> order_columns_ok L o1 then Inl (PgError ''22P02'' [])
      else case stored_order L o1 of
        None \<Rightarrow> Inl (pg_check ''orders_check'')
      | Some row \<Rightarrow>
          if ord_id row \<in> ord_id ` set (orders t) then Inl (pg_unique ''orders_pkey'')
          else if ord_number row \<in> ord_number ` set (orders t) then Inl (pg_unique ''orders_order_number_key'')
          else if ord_idem_key row \<noteq> None \<and> ord_idem_key row \<in> ord_idem_key ` set (orders t)
          then Inl (pg_unique ''orders_idempotency_key_key'')
          else Inr ((), t\<lparr>orders := orders t @ [row]\<rparr>))"

definition stored_item :: "'m order_lib \<Rightarrow> 'm OrderItem \<Rightarrow> 'm OrderItem option" where
  "stored_item L it =
     (case (decimal L (oi_unit_price it), decimal L (oi_tax it), decimal L (oi_discount it),
            decimal L (oi_total it)) of
        (Some a, Some b, Some c, Some d) \<Rightarrow>
          Some (it\<lparr>oi_unit_price := a, oi_tax := b, oi_discount := c, oi_total := d\<rparr>)
      | _ \<Rightarrow> None)"

definition insert_item ::
  "'m order_lib \<Rightarrow> 'm OrderItem \<Rightarrow> 'm order_tables \<Rightarrow> go_error + unit \<times> 'm order_tables" where
  "insert_item L it t =
     (if \<not> (uuid_col L (oi_id it) \<and> uuid_col L (oi_order it) \<and> uuid_col L (oi_product it) \<and>
             uuid_col L (oi_store it)) then Inl (PgError ''22P02'' [])
      else case stored_item L it of
        None \<Rightarrow> Inl (pg_check ''order_items_check'')
      | Some row \<Rightarrow>
          if \<not> (0 < oi_quantity row \<and> int4 (oi_quantity row))
          then Inl (pg_check ''order_items_quantity_check'')
          else if oi_id row \<in> oi_id ` set (items t) then Inl (pg_unique ''order_items_pkey'')
          else if oi_order row \<notin> ord_id ` set (orders t)
          then Inl (PgError ''23503'' ''order_items_order_id_fkey'')
          else Inr ((), t\<lparr>items := items t @ [row]\<rparr>))"

text \<open>The identifier of a history row is generated by the database.\<close>

definition insert_history ::
  "string \<Rightarrow> status option \<Rightarrow> status \<Rightarrow> string option \<Rightarrow> string option \<Rightarrow> int \<Rightarrow>
     ('m, unit) order_db" where
  "insert_history oid from to' reason by_whom created =
     bind new_uuid (\<lambda>i.
     sql (\<lambda>t. if oid \<notin> ord_id ` set (orders t)
        then Inl (PgError ''23503'' ''order_status_history_order_id_fkey'')
        else Inr ((), t\<lparr>history := history t @
          [\<lparr>hist_id = i, hist_order = oid, hist_from = from, hist_to = to', hist_reason = reason,
            hist_changed_by = by_whom, hist_created = created\<rparr>]\<rparr>)))"

definition outbox_event :: "string \<Rightarrow> string \<Rightarrow> 'm order_envelope \<Rightarrow> 'm order_envelope outbox_row" where
  "outbox_event aggregateID topic envelope =
     \<lparr>ob_id = [], ob_aggregate_type = ''order'', ob_aggregate_id = aggregateID,
      ob_event_type = EventType envelope, ob_payload = envelope, ob_headers = [], ob_topic = topic,
      ob_status = OutboxPending, ob_retry_count = 0, ob_next_retry_at = None, ob_created_at = 0,
      ob_updated_at = None, ob_published_at = None\<rparr>"

definition outbox_insert :: "string \<Rightarrow> string \<Rightarrow> 'm order_envelope \<Rightarrow> ('m, unit) order_db" where
  "outbox_insert aggregateID topic envelope =
     zoom order_outbox (\<lambda>s t. t\<lparr>order_outbox := s\<rparr>) (Insert (outbox_event aggregateID topic envelope))"

section \<open>Creation\<close>

definition insert_one :: "'m order_lib \<Rightarrow> 'm Order \<Rightarrow> ('m, unit) order_db" where
  "insert_one L o1 =
     seq (on_error (sql (insert_order L o1))
           (WrapError (''failed to insert order '' @ ord_id o1 @ '': '')))
     (seq (for_each (ord_items o1) (\<lambda>it.
             on_error (sql (insert_item L it))
               (WrapError (''failed to insert order item '' @ oi_id it @ '' for order '' @ ord_id o1 @ '': ''))))
     (on_error (insert_history (ord_id o1) None (ord_status o1) (Some ''Order created'')
                  (Some (ord_user o1)) (ord_created o1))
       (WrapError (''failed to insert initial order status history for order '' @ ord_id o1 @ '': ''))))"

definition CreateOrdersWithOutbox ::
  "'m order_lib \<Rightarrow> 'm Order list \<Rightarrow> 'm order_envelope list \<Rightarrow> string \<Rightarrow> ('m, unit) order_db" where
  "CreateOrdersWithOutbox L os envelopes topic =
     WithTransaction
       (seq (for_each os (insert_one L))
            (for_each envelopes (\<lambda>env.
               on_error (outbox_insert (AggregateID env) topic env)
                 (WrapError ''failed to insert outbox event: ''))))"

definition CreateOrderWithOutbox ::
  "string \<Rightarrow> ('m, unit) order_db \<Rightarrow> 'm order_envelope \<Rightarrow> string \<Rightarrow> ('m, unit) order_db" where
  "CreateOrderWithOutbox orderID insertOrder envelope topic =
     WithTransaction (seq insertOrder (outbox_insert orderID topic envelope))"

section \<open>Queries\<close>

definition getItemsByOrderID :: "string \<Rightarrow> ('m, 'm OrderItem list) order_db" where
  "getItemsByOrderID orderID =
     on_error (pool_sql (select (\<lambda>t. filter (\<lambda>it. oi_order it = orderID) (items t))))
       (WrapError ''failed to query order items: '')"

definition with_items :: "'m Order \<Rightarrow> ('m, 'm Order) order_db" where
  "with_items o1 = bind (getItemsByOrderID (ord_id o1)) (\<lambda>its. ret (o1\<lparr>ord_items := its\<rparr>))"

fun with_items_all :: "'m Order list \<Rightarrow> ('m, 'm Order list) order_db" where
  "with_items_all [] = ret []"
| "with_items_all (o1 # os) =
     bind (with_items o1) (\<lambda>a. bind (with_items_all os) (\<lambda>as. ret (a # as)))"

definition find_order :: "string \<Rightarrow> 'm order_tables \<Rightarrow> 'm Order option" where
  "find_order i t = find (\<lambda>o1. ord_id o1 = i) (orders t)"

definition GetOrderByID :: "string \<Rightarrow> ('m, 'm Order) order_db" where
  "GetOrderByID i =
     bind (on_error (pool_sql (select (find_order i))) (WrapError ''failed to query order by id: '')) (\<lambda>found.
     case found of
       None \<Rightarrow> raise ErrOrderNotFound
     | Some o1 \<Rightarrow> with_items o1)"

definition GetOrdersByIdempotencyKey :: "string \<Rightarrow> ('m, 'm Order list) order_db" where
  "GetOrdersByIdempotencyKey key =
     bind (on_error (pool_sql (select (\<lambda>t. find (\<lambda>o1. ord_idem_key o1 = Some key) (orders t))))
            (WrapError ''failed to query order by idempotency key: '')) (\<lambda>found.
     case found of
       None \<Rightarrow> raise ErrOrderNotFound
     | Some o1 \<Rightarrow>
         bind (case nonempty (ord_parent o1) of
                 None \<Rightarrow> ret []
               | Some parent \<Rightarrow>
                   bind (on_error
                     (pool_sql (select (\<lambda>t. sort_key ord_created
                        (filter (\<lambda>q. ord_parent q = Some parent) (orders t)))))
                     (WrapError ''failed to query orders by parent_order_id: ''))
                   with_items_all) (\<lambda>os.
         if os \<noteq> [] then ret os
         else bind (GetOrderByID (ord_id o1)) (\<lambda>single. ret [single])))"

definition ListOrdersByUserID :: "string \<Rightarrow> int \<Rightarrow> int \<Rightarrow> ('m, 'm Order list \<times> nat) order_db" where
  "ListOrdersByUserID userID limit0 offset0 =
     (let lim = (if limit0 \<le> 0 then 20 else limit0); off = (if offset0 < 0 then 0 else offset0) in
      bind (on_error (pool_sql (select (\<lambda>t. length (filter (\<lambda>o1. ord_user o1 = userID) (orders t)))))
             (WrapError ''failed to count orders for user: '')) (\<lambda>total.
      bind (on_error
             (pool_sql (select (\<lambda>t. take (nat lim) (drop (nat off)
               (sort_key (\<lambda>o1. - ord_created o1) (filter (\<lambda>o1. ord_user o1 = userID) (orders t)))))))
             (WrapError ''failed to query orders for user: '')) (\<lambda>os.
      bind (with_items_all os) (\<lambda>full. ret (full, total)))))"

section \<open>Status changes\<close>

text \<open>\<open>UPDATE orders SET ... WHERE id = $n RETURNING\<close>.\<close>

definition update_order ::
  "string \<Rightarrow> ('m Order \<Rightarrow> 'm Order) \<Rightarrow> 'm order_tables \<Rightarrow> go_error + 'm Order option \<times> 'm order_tables" where
  "update_order i f t =
     Inr (map_option f (find_order i t), t\<lparr>orders := upd_where (\<lambda>o1. ord_id o1 = i) f (orders t)\<rparr>)"

definition new_payment_status :: "status \<Rightarrow> status \<Rightarrow> status" where
  "new_payment_status st old =
     (if st = OrderStatusPaid \<or> st = OrderStatusConfirmed then PaymentStatusPaid
      else if st = OrderStatusPaymentFailed then PaymentStatusFailed
      else if st = OrderStatusRefunded then PaymentStatusRefunded
      else if st = OrderStatusPendingPayment then PaymentStatusPending
      else old)"

definition reason_value :: "string \<Rightarrow> string option" where
  "reason_value r = (if r = [] then None else Some r)"

text \<open>The history row and the outbox event both changes end with.\<close>

definition log_change ::
  "string \<Rightarrow> status \<Rightarrow> status \<Rightarrow> string \<Rightarrow> 'm order_envelope option \<Rightarrow> string \<Rightarrow> string \<Rightarrow> string \<Rightarrow>
     int \<Rightarrow> ('m, unit) order_db" where
  "log_change i from to' reason envelope topic herr oerr now =
     seq (on_error (insert_history i (Some from) to' (reason_value reason) None now) (WrapError herr))
     (case envelope of
        None \<Rightarrow> ret ()
      | Some env \<Rightarrow> on_error (outbox_insert i topic env) (WrapError oerr))"

definition change_status ::
  "string \<Rightarrow> status \<Rightarrow> 'm order_envelope option \<Rightarrow> string \<Rightarrow> string \<Rightarrow> ('m, 'm Order) order_db" where
  "change_status i st envelope topic reason =
     bind time_now (\<lambda>now.
     bind (on_error (sql (select (find_order i))) (WrapError ''failed to lock order for update: '')) (\<lambda>found.
     case found of
       None \<Rightarrow> raise ErrOrderNotFound
     | Some cur \<Rightarrow>
       if ord_status cur = st then
         bind (on_error (sql (select (find_order i))) (WrapError ''failed to read order: '')) (\<lambda>again.
         case again of
           None \<Rightarrow> raise (WrapError ''failed to read order: '' ErrNoRows)
         | Some o1 \<Rightarrow> ret o1)
       else
         seq (require (IsValidTransition (ord_status cur) st)
               (BadRequest (''invalid order status transition from '' @ ord_status cur @ '' to '' @ st)))
         (bind (on_error
                 (sql (update_order i (\<lambda>o1. o1\<lparr>ord_status := st,
                    ord_payment_status := new_payment_status st (ord_payment_status cur),
                    ord_updated := now\<rparr>)))
                 (WrapError ''failed to update order status: '')) (\<lambda>upd.
          case upd of
            None \<Rightarrow> raise (WrapError ''failed to update order status: '' ErrNoRows)
          | Some o1 \<Rightarrow>
              seq (log_change i (ord_status cur) st reason envelope topic
                     ''failed to insert order status history: ''
                     ''failed to insert order status outbox event: '' now)
                  (ret o1)))))"

definition UpdateOrderStatusWithOutbox ::
  "string \<Rightarrow> status \<Rightarrow> 'm order_envelope option \<Rightarrow> string \<Rightarrow> string \<Rightarrow> ('m, 'm Order) order_db" where
  "UpdateOrderStatusWithOutbox i st envelope topic reason =
     bind (WithTransaction (change_status i st envelope topic reason)) with_items"

definition UpdateOrderStatus :: "string \<Rightarrow> status \<Rightarrow> string \<Rightarrow> ('m, 'm Order) order_db" where
  "UpdateOrderStatus i st reason = UpdateOrderStatusWithOutbox i st None [] reason"

definition cancel_order ::
  "string \<Rightarrow> 'm order_envelope option \<Rightarrow> string \<Rightarrow> string \<Rightarrow> ('m, 'm Order) order_db" where
  "cancel_order i envelope topic reason =
     bind time_now (\<lambda>now.
     bind (on_error (sql (select (find_order i))) (WrapError ''failed to lock order for cancellation: '')) (\<lambda>found.
     case found of
       None \<Rightarrow> raise ErrOrderNotFound
     | Some cur \<Rightarrow>
       seq (require (ord_status cur \<noteq> OrderStatusCancelled) (BadRequest ''order is already cancelled''))
       (seq (require (CanCancel (ord_status cur))
              (BadRequest (''cannot cancel order in '' @ ord_status cur @ '' status'')))
       (bind (on_error
               (sql (update_order i (\<lambda>o1. o1\<lparr>ord_status := OrderStatusCancelled, ord_updated := now\<rparr>)))
               (WrapError ''failed to cancel order: '')) (\<lambda>upd.
        case upd of
          None \<Rightarrow> raise (WrapError ''failed to cancel order: '' ErrNoRows)
        | Some o1 \<Rightarrow>
            seq (log_change i (ord_status cur) OrderStatusCancelled reason envelope topic
                   ''failed to insert order status history for cancel: ''
                   ''failed to insert cancellation outbox event: '' now)
                (ret o1))))))"

definition CancelOrder ::
  "string \<Rightarrow> 'm order_envelope option \<Rightarrow> string \<Rightarrow> string \<Rightarrow> ('m, 'm Order) order_db" where
  "CancelOrder i envelope topic reason =
     bind (WithTransaction (cancel_order i envelope topic reason)) with_items"

text \<open>\<open>COALESCE(column, '')\<close>.\<close>

definition coalesce :: "string option \<Rightarrow> string option" where
  "coalesce p = (case p of None \<Rightarrow> Some [] | Some s \<Rightarrow> Some s)"

definition GetOrderStatusHistory :: "string \<Rightarrow> ('m, OrderStatusHistory list) order_db" where
  "GetOrderStatusHistory orderID =
     on_error
       (pool_sql (select (\<lambda>t.
          map (\<lambda>h. h\<lparr>hist_reason := coalesce (hist_reason h), hist_changed_by := coalesce (hist_changed_by h)\<rparr>)
            (sort_key hist_created (filter (\<lambda>h. hist_order h = orderID) (history t))))))
       (WrapError ''failed to query order status history: '')"

end
