(* ===== verification/Order_Service.thy ===== *)
theory Order_Service
  imports Order_Repo
begin

text \<open>
  The order service after checkout
  (\<open>services/order-service/internal/service/order_service.go\<close>, from \<open>GetOrder\<close> on) and
  its event consumer (\<open>internal/consumer/event_consumer.go\<close>). The caller found in the
  context (\<open>auth.UserFromContext\<close>) is an optional pair of user and role.
\<close>

type_synonym caller = "(string \<times> string) option"

definition errorsIs :: "'m order_lib \<Rightarrow> go_error \<Rightarrow> go_error \<Rightarrow> bool" where
  "errorsIs L err target = Contains (error_text (order_grpc L) err) (error_text (order_grpc L) target)"

text \<open>The translation of a failed lookup, with the message for a missing order.\<close>

definition lookup_error :: "'m order_lib \<Rightarrow> string \<Rightarrow> go_error \<Rightarrow> go_error" where
  "lookup_error L missing err =
     (if errorsIs L err ErrOrderNotFound then NotFound missing
      else Internal (Some err) ''failed to get order'')"

definition repo_error :: "'m order_lib \<Rightarrow> go_error \<Rightarrow> go_error" where
  "repo_error L err = (if errorsIs L err ErrOrderNotFound then NotFound ''order not found'' else err)"

definition caller_of :: "caller \<Rightarrow> string \<Rightarrow> string \<times> string" where
  "caller_of ctx userID =
     (case ctx of
        None \<Rightarrow> (TrimSpace userID, [])
      | Some (u, role) \<Rightarrow> (if TrimSpace userID = [] then u else TrimSpace userID, role))"

definition GetOrder :: "'m order_lib \<Rightarrow> caller \<Rightarrow> string \<Rightarrow> string \<Rightarrow> ('m, 'm Order) order_db" where
  "GetOrder L ctx i userID =
     seq (require (\<not> blank i) (BadRequest ''order id is required''))
     (bind (on_error (GetOrderByID i) (lookup_error L ''order not found'')) (\<lambda>o1.
      case caller_of ctx userID of (callerUserID, callerRole) \<Rightarrow>
      if callerRole \<notin> {''ADMIN'', ''DELIVERY_PARTNER'', ''MERCHANT''} \<and> callerUserID \<noteq> [] \<and>
         ord_user o1 \<noteq> callerUserID
      then raise (Forbidden ''you do not have permission to view this order'')
      else ret o1))"

definition ListOrders :: "string \<Rightarrow> int \<Rightarrow> int \<Rightarrow> ('m, 'm Order list \<times> nat) order_db" where
  "ListOrders userID lim off =
     seq (require (\<not> blank userID) (BadRequest ''user_id is required''))
     (on_error (ListOrdersByUserID userID lim off) (\<lambda>er. Internal (Some er) ''failed to list orders''))"

definition UpdateOrderStatus_svc ::
  "'m order_lib \<Rightarrow> string \<Rightarrow> status \<Rightarrow> string \<Rightarrow> ('m, 'm Order) order_db" where
  "UpdateOrderStatus_svc L i st reason =
     seq (require (\<not> blank i) (BadRequest ''order id is required''))
     (seq (require (OrderStatus_IsValid st) (BadRequest (''invalid order status: '' @ st)))
     (bind (on_error (GetOrderByID i) (lookup_error L ''order not found'')) (\<lambda>o1.
      if ord_status o1 = st then ret o1
      else
        seq (require (IsValidTransition (ord_status o1) st)
              (BadRequest (''invalid order status transition from '' @ ord_status o1 @ '' to '' @ st)))
            (on_error (UpdateOrderStatus i st reason) (repo_error L)))))"

text \<open>The correlation and trace identifiers of the consumed event go into the new envelope.\<close>

definition traced :: "string \<Rightarrow> string \<Rightarrow> 'm order_envelope \<Rightarrow> 'm order_envelope" where
  "traced correlationID traceID env =
     env\<lparr>CorrelationID := (if correlationID = [] then CorrelationID env else correlationID),
         TraceID := (if traceID = [] then TraceID env else traceID)\<rparr>"

definition HandlePaymentSuccessful ::
  "'m order_lib \<Rightarrow> PaymentSuccessfulEvent \<Rightarrow> string \<Rightarrow> string \<Rightarrow> ('m, 'm Order) order_db" where
  "HandlePaymentSuccessful L event correlationID traceID =
     seq (require (\<not> blank (ps_order event))
           (BadRequest ''order_id is required in PaymentSuccessful payload''))
     (bind (ret (TrimSpace (ps_order event))) (\<lambda>orderID.
      bind (on_error (GetOrderByID orderID) (lookup_error L ''order not found for payment success'')) (\<lambda>o1.
      if ord_status o1 = OrderStatusConfirmed \<or> ord_status o1 = OrderStatusPaid then ret o1
      else
        bind time_now (\<lambda>now.
        bind (NewEventEnvelopeWithAggregate ''OrderConfirmed'' ''order-service'' (ord_id o1)
               (EvOrderConfirmed (ord_id o1) OrderStatusPaid now)) (\<lambda>env.
        UpdateOrderStatusWithOutbox orderID OrderStatusConfirmed
          (Some (traced correlationID traceID env)) ''gocart.order.order-confirmed''
          ''Payment successful'')))))"

definition HandlePaymentFailed_order ::
  "'m order_lib \<Rightarrow> PaymentFailedEvent \<Rightarrow> string \<Rightarrow> string \<Rightarrow> ('m, 'm Order) order_db" where
  "HandlePaymentFailed_order L event correlationID traceID =
     seq (require (\<not> blank (pf_order event))
           (BadRequest ''order_id is required in PaymentFailed payload''))
     (bind (ret (TrimSpace (pf_order event))) (\<lambda>orderID.
      bind (on_error (GetOrderByID orderID) (lookup_error L ''order not found for payment failed'')) (\<lambda>o1.
      if ord_status o1 = OrderStatusPaymentFailed then ret o1
      else
        bind (ret (or_default (pf_reason event) ''Payment failed at gateway'')) (\<lambda>reason.
        bind time_now (\<lambda>now.
        bind (NewEventEnvelopeWithAggregate ''OrderPaymentFailed'' ''order-service'' (ord_id o1)
               (EvOrderPaymentFailed (ord_id o1) (pf_payment event) reason now)) (\<lambda>env.
        UpdateOrderStatusWithOutbox orderID OrderStatusPaymentFailed
          (Some (traced correlationID traceID env)) ''gocart.order.order-payment-failed'' reason))))))"

definition CancelOrder_svc ::
  "'m order_lib \<Rightarrow> caller \<Rightarrow> string \<Rightarrow> string \<Rightarrow> string \<Rightarrow> ('m, 'm Order) order_db" where
  "CancelOrder_svc L ctx i userID reason =
     seq (require (\<not> blank i) (BadRequest ''order id is required''))
     (bind (on_error (GetOrderByID i) (lookup_error L ''order not found'')) (\<lambda>o1.
      case caller_of ctx userID of (callerUserID, callerRole) \<Rightarrow>
      seq (require (callerRole = ''ADMIN'' \<or> (callerUserID \<noteq> [] \<and> ord_user o1 = callerUserID))
            (Forbidden ''you do not have permission to cancel this order''))
      (seq (require (ord_status o1 \<noteq> OrderStatusCancelled) (BadRequest ''order is already cancelled''))
      (seq (require (CanCancel (ord_status o1))
             (BadRequest (''cannot cancel order in '' @ ord_status o1 @ '' status'')))
      (bind time_now (\<lambda>now.
       bind (NewEventEnvelopeWithAggregate ''OrderCancelled'' ''order-service'' (ord_id o1)
              (EvOrderCancelled (ord_id o1) reason now)) (\<lambda>env.
       on_error (CancelOrder i (Some env) ''gocart.order.order-cancelled'' reason) (repo_error L))))))))"

definition GetOrderStatusHistory_svc ::
  "'m order_lib \<Rightarrow> string \<Rightarrow> ('m, OrderStatusHistory list) order_db" where
  "GetOrderStatusHistory_svc L orderID =
     seq (require (\<not> blank orderID) (BadRequest ''order id is required''))
     (seq (on_error (GetOrderByID orderID) (lookup_error L ''order not found''))
     (on_error (GetOrderStatusHistory orderID)
       (\<lambda>er. Internal (Some er) ''failed to get order status history'')))"

section \<open>The event consumer\<close>

record 'd order_decoders =
  dec_successful :: "'d \<Rightarrow> go_error + PaymentSuccessfulEvent"
  dec_failed_payment :: "'d \<Rightarrow> go_error + PaymentFailedEvent"

definition decode_as :: "string \<Rightarrow> go_error + 'a \<Rightarrow> ('t, 'a) db" where
  "decode_as what r = on_error (call r) (WrapError (''failed to unmarshal '' @ what @ '' payload: ''))"

definition HandleEvent_order ::
  "'m order_lib \<Rightarrow> 'd order_decoders \<Rightarrow> 'd EventEnvelope option \<Rightarrow> ('m, unit) order_db" where
  "HandleEvent_order L D envelope =
     (case envelope of
        None \<Rightarrow> raise (BadRequest ''event envelope is nil'')
      | Some ev \<Rightarrow>
        if EventType ev = ''PaymentSuccessful'' then
          bind (decode_as ''PaymentSuccessfulEvent'' (dec_successful D (EventData ev))) (\<lambda>p.
          seq (HandlePaymentSuccessful L
                 (if blank (ps_order p) then p\<lparr>ps_order := AggregateID ev\<rparr> else p)
                 (CorrelationID ev) (TraceID ev)) (ret ()))
        else if EventType ev = ''PaymentFailed'' then
          bind (decode_as ''PaymentFailedEvent'' (dec_failed_payment D (EventData ev))) (\<lambda>p.
          seq (HandlePaymentFailed_order L
                 (if blank (pf_order p) then p\<lparr>pf_order := AggregateID ev\<rparr> else p)
                 (CorrelationID ev) (TraceID ev)) (ret ()))
        else ret ())"

section \<open>Requests\<close>

datatype ('m, 'd) order_request =
    OCreate "'m Order list" "'m order_envelope list" string
  | OGet caller string string
  | OList string int int
  | OUpdate string status string
  | OCancel caller string string string
  | OHistory string
  | OEvent "'d EventEnvelope option"

fun serve_order ::
  "'m order_lib \<Rightarrow> 'd order_decoders \<Rightarrow> ('m, 'd) order_request \<Rightarrow> ('m, unit) order_db" where
  "serve_order L D (OCreate os envs topic) = CreateOrdersWithOutbox L os envs topic"
| "serve_order L D (OGet ctx i u) = seq (GetOrder L ctx i u) (ret ())"
| "serve_order L D (OList u lim off) = seq (ListOrders u lim off) (ret ())"
| "serve_order L D (OUpdate i st r) = seq (UpdateOrderStatus_svc L i st r) (ret ())"
| "serve_order L D (OCancel ctx i u r) = seq (CancelOrder_svc L ctx i u r) (ret ())"
| "serve_order L D (OHistory i) = seq (GetOrderStatusHistory_svc L i) (ret ())"
| "serve_order L D (OEvent ev) = HandleEvent_order L D ev"

end
