(* ===== verification/Outbox_Insert.thy ===== *)
theory Outbox_Insert
  imports Outbox
begin

text \<open>
  What a successful \<open>Insert\<close> of \<open>pkg/outbox\<close> does inside the transaction of a service: one
  pending row more, with the event it was given, whichever form of the statement succeeded.
\<close>

lemma insert_row_ok:
  "insert_row r t = Inr (x, t') \<longleftrightarrow> ob_id r \<notin> ob_id ` set (ob_rows t) \<and> t' = t\<lparr>ob_rows := ob_rows t @ [r]\<rparr>"
  by (auto simp: insert_row_def insert_outbox_def)

text \<open>What the row written has of the event handed over.\<close>

definition announces :: "'p outbox_row \<Rightarrow> 'p outbox_row \<Rightarrow> bool" where
  "announces evt row \<longleftrightarrow> ob_status row = OutboxPending \<and> ob_retry_count row = 0 \<and>
     ob_event_type row = ob_event_type evt \<and> ob_topic row = ob_topic evt \<and>
     ob_aggregate_type row = ob_aggregate_type evt \<and> ob_aggregate_id row = ob_aggregate_id evt \<and>
     ob_payload row = ob_payload evt"

lemma try_or_inserted:
  assumes "try_or (insert_row r1) (on_error (sql (insert_row r2)) h) e w = (Inr u, w')"
  shows "\<exists>row \<in> {r1, r2}. ob_id row \<notin> ob_id ` set (ob_rows (tabs w)) \<and>
    tabs w' = (tabs w)\<lparr>ob_rows := ob_rows (tabs w) @ [row]\<rparr>"
proof -
  from assms obtain r w1 where w0: "\<not> aborted w" and first: "savepoint (sql (wide_only (insert_row r1))) e
        (w\<lparr>nstmt := Suc (nstmt w), tabs := tabs w\<rparr>) = (r, w1)"
    and rest: "(case r of Inr x \<Rightarrow> seq (sql (select (\<lambda>_. ()))) (ret x)
       | Inl _ \<Rightarrow> on_error (sql (insert_row r2)) h) e w1 = (Inr u, w')"
    unfolding try_or_def seq_ok bind_ok attempt_ok sql_ok select_ok by blast
  show ?thesis
  proof (cases r)
    case (Inr x)
    with first w0 have "insert_row r1 (tabs w) = Inr (x, tabs w1)"
      by (auto simp: savepoint_def sql_def wide_only_def Let_def split: if_splits sum.splits prod.splits)
    moreover have "tabs w' = tabs w1" using rest Inr by (auto simp: run_ok)
    ultimately show ?thesis by (simp add: insert_row_ok)
  next
    case (Inl er)
    with first w0 have "tabs w1 = tabs w"
      by (auto simp: savepoint_def roll_back_def split: sum.splits prod.splits)
    with rest Inl show ?thesis by (auto simp: run_ok insert_row_ok)
  qed
qed

lemma Insert_run:
  assumes "Insert evt e w = (Inr u, w')"
  shows "\<exists>row. tabs w' = (tabs w)\<lparr>ob_rows := ob_rows (tabs w) @ [row]\<rparr> \<and> announces evt row"
proof -
  obtain i w1 where id: "(if ob_id evt = [] then new_uuid else ret (ob_id evt)) e w = (Inr i, w1)"
    "try_or
       (insert_row (evt\<lparr>ob_id := i, ob_status := OutboxPending, ob_retry_count := 0,
            ob_created_at := clock e, ob_published_at := None,
          ob_headers := (if ob_headers evt = [] then ''{}'' else ob_headers evt),
          ob_next_retry_at := Some (clock e), ob_updated_at := Some (clock e)\<rparr>))
       (on_error
         (sql (insert_row (evt\<lparr>ob_id := i, ob_status := OutboxPending, ob_retry_count := 0,
            ob_created_at := clock e, ob_published_at := None,
            ob_headers := [], ob_next_retry_at := None, ob_updated_at := None\<rparr>)))
         (WrapError ''outbox: insert: '')) e w1 = (Inr u, w')"
    using assms unfolding Insert_def bind_ok ret_ok time_now_ok by blast
  have "tabs w1 = tabs w" using id(1) by (auto simp: run_ok split: if_splits)
  with try_or_inserted [OF id(2)] show ?thesis
    by (auto simp: announces_def)
qed

text \<open>A transaction in which the insert failed cannot commit, and an aborted one refuses it.\<close>

lemma Insert_not_aborted: "Insert evt e w = (Inr u, w') \<Longrightarrow> \<not> aborted w"
  by (auto simp: Insert_def try_or_def run_ok split: if_splits)

lemma on_error_sql_failed: "on_error (sql g) h e w = (Inl er, w') \<Longrightarrow> aborted w'"
  by (auto simp: on_error_def split: prod.splits sum.splits dest: sql_failed_aborted)

lemma sql_ret_failed: "seq (sql g) (ret x) e w = (Inl er, w') \<Longrightarrow> aborted w'"
  by (auto simp: seq_def bind_runs ret_def dest: sql_failed_aborted)

lemma try_or_failed:
  assumes "try_or f (on_error (sql g) h) e w = (Inl er, w')" shows "aborted w'"
proof -
  have "aborted w'" if "sql (select (\<lambda>_. ())) e w = (Inr u, w1)" and
    "(case savepoint (sql (wide_only f)) e w1 of (r, w2) \<Rightarrow>
        (case r of Inr x \<Rightarrow> seq (sql (select (\<lambda>_. ()))) (ret x) | Inl _ \<Rightarrow> on_error (sql g) h) e w2) = (Inl er, w')" for u w1
    using that(2) by (cases "savepoint (sql (wide_only f)) e w1"; cases "fst (savepoint (sql (wide_only f)) e w1)")
      (auto dest: on_error_sql_failed sql_ret_failed)
  with assms show ?thesis
    unfolding try_or_def seq_def [of _ "bind _ _"] bind_runs [of "sql _"] attempt_runs
    by (blast dest: sql_failed_aborted)
qed

lemma Insert_failed: "Insert evt e w = (Inl er, w') \<Longrightarrow> aborted w'"
  unfolding Insert_def
  by (auto simp: bind_runs time_now_def new_uuid_def ret_def split: if_splits dest: try_or_failed)

end
