(* ===== verification/Order_Trace.thy ===== *)
theory Order_Trace
  imports Order_Service Outbox_Insert
begin

text \<open>
  Correctness of the order service: the status history of every order is a path through
  its life cycle that ends in the order's status, every change of status writes one history
  row and, where the service announces it, one pending outbox event in the same
  transaction.
\<close>

section \<open>Events of the service\<close>

lemma outbox_insert_run:
  assumes "outbox_insert a topic env e w = (Inr u, w')"
  shows "\<exists>row. tabs w' = (tabs w)\<lparr>order_outbox := (order_outbox (tabs w))
      \<lparr>ob_rows := ob_rows (order_outbox (tabs w)) @ [row]\<rparr>\<rparr> \<and>
    announces (outbox_event a topic env) row"
proof -
  obtain w1 where run: "Insert (outbox_event a topic env) e
      (with_tabs (order_outbox (tabs w)) w) = (Inr u, w1)"
    "w' = with_tabs ((tabs w)\<lparr>order_outbox := tabs w1\<rparr>) w1"
    using assms by (auto simp: outbox_insert_def run_ok)
  from Insert_run [OF run(1)] run(2) show ?thesis by auto
qed

section \<open>The trail of an order\<close>

definition trail :: "string \<Rightarrow> 'm order_tables \<Rightarrow> OrderStatusHistory list" where
  "trail i t = filter (\<lambda>h. hist_order h = i) (history t)"

text \<open>A trail from a status (\<^const>\<open>None\<close>: not yet created) to a status.\<close>

fun chain :: "status option \<Rightarrow> OrderStatusHistory list \<Rightarrow> status option \<Rightarrow> bool" where
  "chain cur [] fin = (cur = fin)"
| "chain cur (h # hs) fin =
     (hist_from h = cur \<and>
      (case cur of None \<Rightarrow> True | Some a \<Rightarrow> IsValidTransition a (hist_to h) \<and> a \<noteq> hist_to h) \<and>
      chain (Some (hist_to h)) hs fin)"

lemma chain_snoc:
  "chain cur (hs @ [h]) fin \<longleftrightarrow>
     (\<exists>mid. chain cur hs mid \<and> hist_from h = mid \<and>
        (case mid of None \<Rightarrow> True | Some a \<Rightarrow> IsValidTransition a (hist_to h) \<and> a \<noteq> hist_to h) \<and>
        fin = Some (hist_to h))"
  by (induction hs arbitrary: cur) auto

definition orders_inv :: "'m order_tables \<Rightarrow> bool" where
  "orders_inv t \<longleftrightarrow> keyed ord_id (orders t) \<and>
     (\<forall>o1 \<in> set (orders t). OrderStatus_IsValid (ord_status o1) \<and>
        chain None (trail (ord_id o1) t) (Some (ord_status o1))) \<and>
     (\<forall>h \<in> set (history t). hist_order h \<in> ord_id ` set (orders t))"

lemma orders_inv_core:
  "orders t' = orders t \<Longrightarrow> history t' = history t \<Longrightarrow> orders_inv t' = orders_inv t"
  by (simp add: orders_inv_def trail_def)

lemma find_order_mem: "find_order i t = Some o1 \<Longrightarrow> o1 \<in> set (orders t) \<and> ord_id o1 = i"
  unfolding find_order_def by (auto dest: find_Some_in)

section \<open>Status changes\<close>

text \<open>
  \<open>moves i from to' f t t'\<close>: the order \<open>i\<close>, found in status \<open>from\<close>, was updated by \<open>f\<close> to
  status \<open>to'\<close>, with one history row; the items are as before.
\<close>

definition moves ::
  "string \<Rightarrow> status \<Rightarrow> status \<Rightarrow> ('m Order \<Rightarrow> 'm Order) \<Rightarrow> string \<Rightarrow> 'm order_tables \<Rightarrow> 'm order_tables \<Rightarrow> bool" where
  "moves i from to' f reason t t' \<longleftrightarrow>
     (\<exists>cur. find_order i t = Some cur \<and> ord_status cur = from) \<and>
     orders t' = upd_where (\<lambda>o1. ord_id o1 = i) f (orders t) \<and> items t' = items t \<and>
     (\<exists>h. history t' = history t @ [h] \<and> hist_order h = i \<and> hist_from h = Some from \<and> hist_to h = to' \<and>
        hist_reason h = reason_value reason)"

definition outbox_after ::
  "'m order_envelope option \<Rightarrow> string \<Rightarrow> string \<Rightarrow> 'm order_tables \<Rightarrow> 'm order_tables \<Rightarrow> bool" where
  "outbox_after envelope a topic t t' \<longleftrightarrow>
     (case envelope of
        None \<Rightarrow> order_outbox t' = order_outbox t
      | Some env \<Rightarrow> \<exists>row. ob_rows (order_outbox t') = ob_rows (order_outbox t) @ [row] \<and>
          announces (outbox_event a topic env) row)"

lemma log_change_run:
  assumes "log_change i from to' reason envelope topic herr oerr now e w = (Inr u, w')"
  shows "orders (tabs w') = orders (tabs w) \<and> items (tabs w') = items (tabs w) \<and>
    (\<exists>h. history (tabs w') = history (tabs w) @ [h] \<and> hist_order h = i \<and> hist_from h = Some from \<and>
       hist_to h = to' \<and> hist_reason h = reason_value reason) \<and>
    outbox_after envelope i topic (tabs w) (tabs w')"
proof -
  from assms obtain w1 where h: "insert_history i (Some from) to' (reason_value reason) None now e w = (Inr (), w1)"
    and rest: "(case envelope of None \<Rightarrow> ret () | Some env \<Rightarrow>
       on_error (outbox_insert i topic env) (WrapError oerr)) e w1 = (Inr u, w')"
    unfolding log_change_def by (auto simp: run_ok)
  from h have t1: "orders (tabs w1) = orders (tabs w)" "items (tabs w1) = items (tabs w)"
    "order_outbox (tabs w1) = order_outbox (tabs w)"
    "\<exists>h. history (tabs w1) = history (tabs w) @ [h] \<and> hist_order h = i \<and> hist_from h = Some from \<and>
       hist_to h = to' \<and> hist_reason h = reason_value reason"
    by (auto simp: insert_history_def run_ok split: if_splits)
  show ?thesis
  proof (cases envelope)
    case None
    with rest t1 show ?thesis by (simp add: run_ok outbox_after_def)
  next
    case (Some env)
    with rest have "outbox_insert i topic env e w1 = (Inr u, w')" by (simp add: run_ok)
    from outbox_insert_run [OF this] t1 Some show ?thesis by (auto simp: outbox_after_def)
  qed
qed

definition status_upd :: "status \<Rightarrow> status \<Rightarrow> int \<Rightarrow> 'm Order \<Rightarrow> 'm Order" where
  "status_upd st pay now o1 = o1\<lparr>ord_status := st, ord_payment_status := pay, ord_updated := now\<rparr>"

lemma change_status_run:
  assumes "change_status i st envelope topic reason e w = (Inr o1, w')"
  shows "(find_order i (tabs w) = Some o1 \<and> ord_status o1 = st \<and> tabs w' = tabs w) \<or>
    (\<exists>cur. find_order i (tabs w) = Some cur \<and> ord_status cur \<noteq> st \<and> IsValidTransition (ord_status cur) st \<and>
       o1 = status_upd st (new_payment_status st (ord_payment_status cur)) (clock e) cur \<and>
       moves i (ord_status cur) st (status_upd st (new_payment_status st (ord_payment_status cur)) (clock e))
         reason (tabs w) (tabs w') \<and>
       outbox_after envelope i topic (tabs w) (tabs w'))"
proof -
  from assms obtain cur where cur: "find_order i (tabs w) = Some cur"
    unfolding change_status_def by (auto simp: run_ok split: option.splits)
  let ?f = "status_upd st (new_payment_status st (ord_payment_status cur)) (clock e)"
  show ?thesis
  proof (cases "ord_status cur = st")
    case True
    with assms cur show ?thesis
      unfolding change_status_def by (auto simp: run_ok)
  next
    case False
    with assms cur obtain w2 where w2: "log_change i (ord_status cur) st reason envelope topic
        ''failed to insert order status history: ''
        ''failed to insert order status outbox event: '' (clock e) e w2 = (Inr (), w')"
      "IsValidTransition (ord_status cur) st" "o1 = ?f cur"
      "tabs w2 = (tabs w)\<lparr>orders := upd_where (\<lambda>o1. ord_id o1 = i) ?f (orders (tabs w))\<rparr>"
      unfolding change_status_def status_upd_def [abs_def] by (auto simp: run_ok update_order_def)
    from log_change_run [OF w2(1)] w2 cur False show ?thesis
      by (auto simp: moves_def outbox_after_def split: option.splits)
  qed
qed

lemma cancel_order_run:
  assumes "cancel_order i envelope topic reason e w = (Inr o1, w')"
  shows "\<exists>cur. find_order i (tabs w) = Some cur \<and> CanCancel (ord_status cur) \<and>
    o1 = cur\<lparr>ord_status := OrderStatusCancelled, ord_updated := clock e\<rparr> \<and>
    moves i (ord_status cur) OrderStatusCancelled
      (\<lambda>o1. o1\<lparr>ord_status := OrderStatusCancelled, ord_updated := clock e\<rparr>) reason (tabs w) (tabs w') \<and>
    outbox_after envelope i topic (tabs w) (tabs w')"
proof -
  let ?f = "\<lambda>o1. o1\<lparr>ord_status := OrderStatusCancelled, ord_updated := clock e\<rparr>"
  from assms obtain cur w2 where cur: "find_order i (tabs w) = Some cur" "CanCancel (ord_status cur)"
      "o1 = ?f cur"
    and w2: "log_change i (ord_status cur) OrderStatusCancelled reason envelope topic
         ''failed to insert order status history for cancel: ''
         ''failed to insert cancellation outbox event: '' (clock e) e w2 = (Inr (), w')"
      "tabs w2 = (tabs w)\<lparr>orders := upd_where (\<lambda>o1. ord_id o1 = i) ?f (orders (tabs w))\<rparr>"
    unfolding cancel_order_def
    by (auto simp: run_ok update_order_def split: option.splits)
  from log_change_run [OF w2(1)] w2(2) cur show ?thesis
    by (auto simp: moves_def outbox_after_def split: option.splits)
qed

lemma moves_inv:
  assumes inv0: "orders_inv t" and mv: "moves i from to' f reason t t'"
    and f: "\<And>o1. ord_id (f o1) = ord_id o1 \<and> ord_status (f o1) = to'"
    and ok: "IsValidTransition from to'" "from \<noteq> to'"
  shows "orders_inv t'"
proof -
  from mv obtain cur h where cur: "find_order i t = Some cur" "ord_status cur = from"
    and os: "orders t' = upd_where (\<lambda>o1. ord_id o1 = i) f (orders t)"
    and hist: "history t' = history t @ [h]" "hist_order h = i" "hist_from h = Some from" "hist_to h = to'"
    by (auto simp: moves_def)
  note mem = find_order_mem [OF cur(1)]
  have key: "keyed ord_id (orders t)" using inv0 by (simp add: orders_inv_def)
  have ids: "ord_id ` set (orders t') = ord_id ` set (orders t)"
    unfolding os using f by (simp add: image_upd_where)
  have "OrderStatus_IsValid (ord_status o1) \<and> chain None (trail (ord_id o1) t') (Some (ord_status o1))"
    if o1: "o1 \<in> set (orders t')" for o1
  proof -
    from o1 obtain q where q: "q \<in> set (orders t)" "o1 = (if ord_id q = i then f q else q)"
      unfolding os by (auto simp: in_upd_where)
    show ?thesis
    proof (cases "ord_id q = i")
      case True
      then have "q = cur" using keyed_unique [OF key q(1)] mem by simp
      moreover have "trail i t' = trail i t @ [h]" using hist by (simp add: trail_def)
      moreover have "chain None (trail i t) (Some from)"
        using inv0 mem cur(2) by (auto simp: orders_inv_def)
      ultimately show ?thesis
        using True q(2) f [of q] ok hist by (auto simp: chain_snoc IsValidTransition_def split: if_splits)
    next
      case False
      then have "trail (ord_id q) t' = trail (ord_id q) t" using hist by (simp add: trail_def)
      with False q inv0 show ?thesis by (simp add: orders_inv_def)
    qed
  qed
  moreover have "keyed ord_id (orders t')" unfolding os using key f by (simp add: keyed_upd_where)
  moreover have "\<forall>h \<in> set (history t'). hist_order h \<in> ord_id ` set (orders t')"
    using inv0 hist imageI [of cur "set (orders t)" ord_id] mem unfolding ids by (auto simp: orders_inv_def)
  ultimately show ?thesis by (simp add: orders_inv_def)
qed

lemma change_status_keeps: "keeps orders_inv (change_status i st envelope topic reason)"
  unfolding keeps_def
proof
  fix e w o1 w'
  assume inv0: "orders_inv (tabs w)" and run: "change_status i st envelope topic reason e w = (Inr o1, w')"
  from change_status_run [OF run] show "orders_inv (tabs w')"
  proof (elim disjE exE conjE)
    fix cur :: "'a Order"
    assume ok: "IsValidTransition (ord_status cur) st" "ord_status cur \<noteq> st"
      and mv: "moves i (ord_status cur) st
        (status_upd st (new_payment_status st (ord_payment_status cur)) (clock e)) reason (tabs w) (tabs w')"
    show ?thesis by (rule moves_inv [OF inv0 mv _ ok]) (simp add: status_upd_def)
  qed (use inv0 in simp)
qed

lemma cancel_order_keeps: "keeps orders_inv (cancel_order i envelope topic reason)"
  unfolding keeps_def
proof
  fix e w o1 w'
  assume inv0: "orders_inv (tabs w)" and run: "cancel_order i envelope topic reason e w = (Inr o1, w')"
  from cancel_order_run [OF run] obtain cur :: "'a Order" where ok: "CanCancel (ord_status cur)"
    and mv: "moves i (ord_status cur) OrderStatusCancelled
      (\<lambda>o1. o1\<lparr>ord_status := OrderStatusCancelled, ord_updated := clock e\<rparr>) reason (tabs w) (tabs w')"
    by blast
  show "orders_inv (tabs w')"
    by (rule moves_inv [OF inv0 mv]) (use ok in \<open>simp_all add: CanCancel_transition\<close>)
qed

section \<open>Creation\<close>

lemma items_frame:
  assumes "for_each its (\<lambda>it. on_error (sql (insert_item L it)) (h it)) e w = (Inr u, w')"
  shows "orders (tabs w') = orders (tabs w) \<and> history (tabs w') = history (tabs w)"
proof -
  have "keeps (\<lambda>t. orders t = orders (tabs w) \<and> history t = history (tabs w))
      (for_each its (\<lambda>it. on_error (sql (insert_item L it)) (h it)))"
    by (intro keeps_intros keeps_sql)
      (auto simp: insert_item_def split: if_splits option.splits)
  from keepsD [OF this _ assms] show ?thesis by simp
qed

lemma insert_order_ok:
  assumes "insert_order L o1 t = Inr (u, t')"
  shows "OrderStatus_IsValid (ord_status o1) \<and> ord_id o1 \<notin> ord_id ` set (orders t) \<and>
    (\<exists>row. stored_order L o1 = Some row \<and> ord_id row = ord_id o1 \<and> ord_status row = ord_status o1 \<and>
       t' = t\<lparr>orders := orders t @ [row]\<rparr>)"
  using assms
  by (auto simp: insert_order_def order_columns_ok_def stored_order_def split: if_splits option.splits)

text \<open>A new order enters with the history of its creation and nothing else.\<close>

lemma insert_one_run:
  assumes "insert_one L o1 e w = (Inr u, w')"
  shows "OrderStatus_IsValid (ord_status o1) \<and> ord_id o1 \<notin> ord_id ` set (orders (tabs w)) \<and>
    (\<exists>row h. ord_id row = ord_id o1 \<and> ord_status row = ord_status o1 \<and>
       orders (tabs w') = orders (tabs w) @ [row] \<and> history (tabs w') = history (tabs w) @ [h] \<and>
       hist_order h = ord_id o1 \<and> hist_from h = None \<and> hist_to h = ord_status o1)"
proof -
  from assms obtain w1 w2 where w1: "sql (insert_order L o1) e w = (Inr (), w1)"
    and w2: "for_each (ord_items o1) (\<lambda>it. on_error (sql (insert_item L it))
        (WrapError (''failed to insert order item '' @ oi_id it @ '' for order '' @ ord_id o1 @ '': ''))) e w1 = (Inr (), w2)"
    and h: "insert_history (ord_id o1) None (ord_status o1) (Some ''Order created'')
                  (Some (ord_user o1)) (ord_created o1) e w2 = (Inr u, w')"
    unfolding insert_one_def seq_ok on_error_ok by auto
  from h have "orders (tabs w') = orders (tabs w2) \<and> (\<exists>h. history (tabs w') = history (tabs w2) @ [h] \<and>
      hist_order h = ord_id o1 \<and> hist_from h = None \<and> hist_to h = ord_status o1)"
    by (auto simp: insert_history_def run_ok split: if_splits)
  moreover have "insert_order L o1 (tabs w) = Inr ((), tabs w1)" using w1 by (auto simp: sql_ok)
  ultimately show ?thesis using items_frame [OF w2] insert_order_ok [of L o1 "tabs w" "()" "tabs w1"] by auto
qed

lemma insert_one_keeps: "keeps orders_inv (insert_one L o1)"
  unfolding keeps_def
proof
  fix e w u w'
  assume inv0: "orders_inv (tabs w)" and run: "insert_one L o1 e w = (Inr u, w')"
  let ?t = "tabs w" and ?t' = "tabs w'"
  from insert_one_run [OF run] obtain row h where new: "OrderStatus_IsValid (ord_status o1)"
      "ord_id o1 \<notin> ord_id ` set (orders ?t)"
    and row: "ord_id row = ord_id o1" "ord_status row = ord_status o1"
      "orders ?t' = orders ?t @ [row]" "history ?t' = history ?t @ [h]"
    and h: "hist_order h = ord_id o1" "hist_from h = None" "hist_to h = ord_status o1"
    by blast
  have "trail (ord_id o1) ?t = []"
    using inv0 new(2) unfolding orders_inv_def trail_def filter_empty_conv by metis
  then have "trail (ord_id o1) ?t' = [h]" using row h by (simp add: trail_def)
  moreover have "keyed ord_id (orders ?t')"
    using inv0 row new by (simp add: orders_inv_def keyed_def)
  moreover have "trail (ord_id q) ?t' = trail (ord_id q) ?t" if "q \<in> set (orders ?t)" for q
    using new(2) that row h by (auto simp: trail_def)
  ultimately show "orders_inv ?t'"
    using inv0 row h new by (auto simp: orders_inv_def)
qed

lemma outbox_insert_keeps: "keeps orders_inv (outbox_insert a topic env)"
  unfolding keeps_def
proof
  fix e w u w'
  assume inv0: "orders_inv (tabs w)" and run: "outbox_insert a topic env e w = (Inr u, w')"
  from outbox_insert_run [OF run] obtain row where "orders (tabs w') = orders (tabs w)"
    "history (tabs w') = history (tabs w)" by auto
  with inv0 orders_inv_core show "orders_inv (tabs w')" by blast
qed

lemma create_keeps: "keeps orders_inv (CreateOrdersWithOutbox L os envs topic)"
  unfolding CreateOrdersWithOutbox_def
  by (intro WithTransaction_keeps keeps_seq keeps_for_each keeps_on_error insert_one_keeps outbox_insert_keeps)

interpretation created: tx_operation "CreateOrdersWithOutbox L os envs topic" orders_inv
  for L os envs topic
  proof
  show "atomic (CreateOrdersWithOutbox L os envs topic)"
    unfolding CreateOrdersWithOutbox_def by (rule WithTransaction_atomic)
qed (rule create_keeps)

section \<open>Every request\<close>

lemma with_items_read_only: "read_only (with_items o1)"
  unfolding with_items_def getItemsByOrderID_def by (intro read_only_intros)

lemma with_items_all_read_only: "read_only (with_items_all os)"
  by (induction os) (auto intro!: read_only_intros with_items_read_only)

lemma GetOrderByID_read_only: "read_only (GetOrderByID i)"
  unfolding GetOrderByID_def by (intro read_only_intros with_items_read_only)

lemma lookup_read_only: "read_only (on_error (GetOrderByID i) f)"
  by (intro read_only_intros GetOrderByID_read_only)

lemma envelope_read_only: "read_only (NewEventEnvelopeWithAggregate et src agg d)"
  unfolding NewEventEnvelopeWithAggregate_def by (intro read_only_intros)

lemma UpdateOrderStatusWithOutbox_always:
  "always orders_inv (UpdateOrderStatusWithOutbox i st envelope topic reason)"
  unfolding UpdateOrderStatusWithOutbox_def
  by (intro always_bind always_atomic WithTransaction_atomic WithTransaction_keeps change_status_keeps
      always_read_only with_items_read_only)

lemma CancelOrder_always: "always orders_inv (CancelOrder i envelope topic reason)"
  unfolding CancelOrder_def
  by (intro always_bind always_atomic WithTransaction_atomic WithTransaction_keeps cancel_order_keeps
      always_read_only with_items_read_only)

lemmas order_reads = always_read_only [OF lookup_read_only] always_read_only [OF read_only_require]
  always_read_only [OF read_only_ret] always_read_only [OF read_only_raise]
  always_read_only [OF read_only_time_now] always_read_only [OF envelope_read_only]
  always_read_only [OF read_only_on_error [OF read_only_call]]

lemma HandlePaymentSuccessful_always: "always orders_inv (HandlePaymentSuccessful L ev c tr)"
  unfolding HandlePaymentSuccessful_def bind_ret
  by (intro always_seq always_bind order_reads)
    (auto intro!: always_bind order_reads UpdateOrderStatusWithOutbox_always)

lemma HandlePaymentFailed_always: "always orders_inv (HandlePaymentFailed_order L ev c tr)"
  unfolding HandlePaymentFailed_order_def bind_ret
  by (intro always_seq always_bind order_reads)
    (auto intro!: always_bind order_reads UpdateOrderStatusWithOutbox_always)

lemma UpdateOrderStatus_always: "always orders_inv (UpdateOrderStatus_svc L i st r)"
  unfolding UpdateOrderStatus_svc_def UpdateOrderStatus_def
  by (intro always_seq always_bind order_reads)
    (auto intro!: always_seq always_on_error order_reads UpdateOrderStatusWithOutbox_always)

lemma CancelOrder_svc_always: "always orders_inv (CancelOrder_svc L ctx i u r)"
  unfolding CancelOrder_svc_def
  by (intro always_seq always_bind order_reads)
    (auto intro!: always_seq always_bind always_on_error order_reads CancelOrder_always
      split: prod.split)

lemma GetOrder_read_only: "read_only (GetOrder L ctx i u)"
  unfolding GetOrder_def
  by (intro read_only_seq read_only_bind read_only_require lookup_read_only)
    (auto intro!: read_only_intros split: prod.split)

lemma ListOrders_read_only: "read_only (ListOrders u lim off)"
  unfolding ListOrders_def ListOrdersByUserID_def Let_def
  by (intro read_only_intros with_items_all_read_only)

lemma history_read_only: "read_only (GetOrderStatusHistory_svc L i)"
  unfolding GetOrderStatusHistory_svc_def GetOrderStatusHistory_def
  by (intro read_only_intros GetOrderByID_read_only)

lemma HandleEvent_always: "always orders_inv (HandleEvent_order L D ev)"
  unfolding HandleEvent_order_def decode_as_def
  by (auto intro!: always_bind always_seq order_reads HandlePaymentSuccessful_always
      HandlePaymentFailed_always split: option.split)

lemma serve_order_always: "always orders_inv (serve_order L D rq)"
  by (cases rq)
    (auto intro!: always_seq order_reads created.stable.op_always UpdateOrderStatus_always
      CancelOrder_svc_always HandleEvent_always
      always_read_only [OF GetOrder_read_only] always_read_only [OF ListOrders_read_only]
      always_read_only [OF history_read_only])

interpretation order_served: stable_operation "serve_order L D rq" orders_inv for L D rq
  by unfold_locales (rule serve_order_always)

text \<open>
  The tables a run of the service can reach from empty ones: each step serves one request
  (any number of times, as redelivery does), under any failures.
\<close>

inductive order_reach ::
  "'m order_lib \<Rightarrow> 'd order_decoders \<Rightarrow> 'm order_tables \<Rightarrow> bool" for L D where
  empty: "order_reach L D \<lparr>orders = [], items = [], history = [], order_outbox = ob\<rparr>"
| request: "order_reach L D (tabs w) \<Longrightarrow> attempts (serve_order L D rq) es w = (r, w') \<Longrightarrow>
    order_reach L D (tabs w')"

lemma order_reach_inv: "order_reach L D t \<Longrightarrow> orders_inv t"
proof (induction rule: order_reach.induct)
  case (empty ob)
  show ?case by (simp add: orders_inv_def keyed_def)
next
  case (request w rq es r w')
  with order_served.runs_inv [of w L D rq es] show ?case by simp
qed

end
