(* ===== verification/Order_Props.thy ===== *)
theory Order_Props
  imports Order_Trace
begin

text \<open>
  The properties of the order service: the history of an order, its life cycle, the events
  that go with a change of status, and who may cancel.
\<close>

section \<open>A concrete run\<close>

definition smp_lib :: "int order_lib" where
  "smp_lib = \<lparr>uuid_col = (\<lambda>s. s \<noteq> []), decimal = Some, json_valid = (\<lambda>_. True), json_address = (\<lambda>s. s),
     order_grpc = \<lparr>from_error = (\<lambda>_. None), status_text = (\<lambda>c m. m)\<rparr>\<rparr>"

definition smp_decoders :: "PaymentSuccessfulEvent order_decoders" where
  "smp_decoders = \<lparr>dec_successful = Inr, dec_failed_payment = (\<lambda>_. Inl (ErrorString ''bad''))\<rparr>"

definition smp_env :: env where
  "smp_env = \<lparr>fault = (\<lambda>_. False), uuid_at = (\<lambda>n. CHR ''u'' # replicate n CHR ''x''), clock = 100,
     broker = (\<lambda>_. Acked), ctx_done = (\<lambda>_. False)\<rparr>"

definition smp_item :: "int OrderItem" where
  "smp_item = \<lparr>oi_id = ''i'', oi_order = ''o'', oi_product = ''p'', oi_store = ''s'', oi_sku = ''sku'',
     oi_name = ''name'', oi_quantity = 2, oi_unit_price = 5, oi_tax = 0, oi_discount = 0, oi_total = 10\<rparr>"

definition smp_order :: "int Order" where
  "smp_order = \<lparr>ord_id = ''o'', ord_number = ''n'', ord_parent = None, ord_user = ''alice'', ord_store = ''s'',
     ord_subtotal = 10, ord_tax = 0, ord_shipping = 0, ord_discount = 0, ord_total = 10, ord_currency = ''INR'',
     ord_payment_status = PaymentStatusPending, ord_status = OrderStatusCreated, ord_ship_address = [],
     ord_bill_address = [], ord_ship_id = None, ord_bill_id = None, ord_idem_key = Some ''k'',
     ord_items = [smp_item], ord_created = 50, ord_updated = 50\<rparr>"

definition smp_tables :: "int order_tables" where
  "smp_tables = \<lparr>orders = [], items = [], history = [], order_outbox = \<lparr>ob_rows = [], ob_wide = True\<rparr>\<rparr>"

definition smp_start :: "int order_tables world" where
  "smp_start = \<lparr>tabs = smp_tables, aborted = False, nstmt = 0, nuuid = 0, nsend = 0, sent = []\<rparr>"

definition smp_event :: PaymentSuccessfulEvent where
  "smp_event = \<lparr>ps_payment = ''pay'', ps_order = '' o ''\<rparr>"

definition smp_serve :: "(int, PaymentSuccessfulEvent) order_request \<Rightarrow> int order_tables world \<Rightarrow> int order_tables world" where
  "smp_serve rq w = snd (attempts (serve_order smp_lib smp_decoders rq) [smp_env] w)"

definition smp_created :: "int order_tables world" where
  "smp_created = smp_serve (OCreate [smp_order] [] ''topic'') smp_start"

definition smp_processing :: "int order_tables world" where
  "smp_processing = smp_serve (OUpdate ''o'' OrderStatusProcessing ''packed'')
     (smp_serve (OUpdate ''o'' OrderStatusConfirmed []) smp_created)"

definition smp_shipped :: "int order_tables world" where
  "smp_shipped = smp_serve (OUpdate ''o'' OrderStatusShipped []) smp_processing"

definition smp_paid :: "int order_tables world" where
  "smp_paid = snd (HandlePaymentSuccessful smp_lib smp_event [] [] smp_env smp_created)"

lemma smp_serve_reach: "order_reach smp_lib smp_decoders (tabs w) \<Longrightarrow>
    order_reach smp_lib smp_decoders (tabs (smp_serve rq w))"
  unfolding smp_serve_def by (rule order_reach.request [OF _ prod.collapse [symmetric]])

lemma smp_reach: "order_reach smp_lib smp_decoders (tabs smp_shipped)"
  using order_reach.empty unfolding smp_shipped_def smp_processing_def smp_created_def
  by (intro smp_serve_reach) (simp add: smp_start_def smp_tables_def order_reach.empty)

lemma smp_shipped_eval:
  "map (\<lambda>o1. (ord_id o1, ord_status o1)) (orders (tabs smp_shipped)) = [(''o'', OrderStatusShipped)] \<and>
   map hist_to (trail ''o'' (tabs smp_shipped)) =
     [OrderStatusCreated, OrderStatusConfirmed, OrderStatusProcessing, OrderStatusShipped]"
  by code_simp

lemma smp_shipped_order: "\<exists>o1. o1 \<in> set (orders (tabs smp_shipped)) \<and> ord_id o1 = ''o'' \<and>
    ord_status o1 = OrderStatusShipped"
  using smp_shipped_eval by auto

section \<open>The history as a path\<close>

lemma chain_step:
  "chain (Some a) (h # hs) fin \<Longrightarrow> allowed_in ValidStateTransitions a (hist_to h)"
  using IsValidTransition_iff by auto

lemma chain_steps:
  "chain (Some a) hs fin \<Longrightarrow> \<exists>b. fin = Some b \<and> (allowed_in ValidStateTransitions ^^ length hs) a b"
proof (induction hs arbitrary: a)
  case (Cons h hs)
  then obtain b where "fin = Some b" "(allowed_in ValidStateTransitions ^^ length hs) (hist_to h) b" by auto
  with relpowp_Suc_I2 [of "allowed_in ValidStateTransitions", OF chain_step [OF Cons.prems]]
  show ?case by auto
qed simp

lemma chain_ranks:
  "chain (Some a) hs fin \<Longrightarrow>
     distinct (map hist_to hs) \<and> (\<forall>h \<in> set hs. order_rank a < order_rank (hist_to h))"
proof (induction hs arbitrary: a)
  case (Cons h hs)
  have "order_rank a < order_rank (hist_to h)"
    using every_edgeD [OF order_life.forward chain_step [OF Cons.prems]] by blast
  with Cons.IH [of "hist_to h"] Cons.prems show ?case by fastforce
qed simp

text \<open>A set of statuses no transition leaves is not left along a history.\<close>

lemma chain_stays:
  assumes "every_edge ValidStateTransitions (\<lambda>a b. a \<in> S \<longrightarrow> b \<in> S)"
  shows "chain cur hs (Some b) \<Longrightarrow> (\<exists>a. cur = Some a \<and> a \<in> S) \<or> (\<exists>h \<in> set hs. hist_to h \<in> S) \<Longrightarrow> b \<in> S"
proof (induction hs arbitrary: cur)
  case (Cons h hs)
  have "hist_to h \<in> S" if "cur = Some a" "a \<in> S" for a
    using Cons.prems that every_edgeD [OF assms chain_step] by blast
  with Cons show ?case by auto
qed simp

lemma trail_chain:
  "orders_inv t \<Longrightarrow> o1 \<in> set (orders t) \<Longrightarrow> chain None (trail (ord_id o1) t) (Some (ord_status o1))"
  by (simp add: orders_inv_def)

section \<open>All outcomes of a status change\<close>

text \<open>
  What a status change with an event may have done, whatever it returned: nothing, or the
  move with its history row and its event.
\<close>

definition changed ::
  "string \<Rightarrow> status \<Rightarrow> string \<Rightarrow> 'm order_envelope option \<Rightarrow> string \<Rightarrow> 'm order_tables \<Rightarrow>
     'm order_tables \<Rightarrow> bool" where
  "changed i st reason envelope topic t t' \<longleftrightarrow>
     (\<exists>from f. IsValidTransition from st \<and> from \<noteq> st \<and> moves i from st f reason t t' \<and>
        (\<forall>o1. ord_id (f o1) = ord_id o1 \<and> ord_status (f o1) = st) \<and>
        outbox_after envelope i topic t t')"

lemma changed_status:
  assumes "changed i st reason envelope topic t t'"
  shows "\<exists>q. find_order i t' = Some q \<and> ord_status q = st"
proof -
  from assms obtain cur f where f: "find_order i t = Some cur" "ord_status (f cur) = st"
      "\<And>o1. ord_id (f o1) = ord_id o1"
      "orders t' = upd_where (\<lambda>o1. ord_id o1 = i) f (orders t)"
    by (auto simp: changed_def moves_def)
  with find_upd_where [of "\<lambda>o1. ord_id o1 = i" f "orders t"] show ?thesis
    by (simp add: find_order_def)
qed

lemma change_status_changed:
  assumes "change_status i st envelope topic reason e w = (Inr o1, w')"
  shows "ord_status o1 = st \<and> (\<exists>q. find_order i (tabs w') = Some q \<and> ord_status q = st) \<and>
    (tabs w' = tabs w \<or> changed i st reason envelope topic (tabs w) (tabs w'))"
  using change_status_run [OF assms]
proof (elim disjE exE conjE)
  fix cur :: "'a Order"
  let ?f = "status_upd st (new_payment_status st (ord_payment_status cur)) (clock e)"
  assume cur: "find_order i (tabs w) = Some cur" "o1 = ?f cur"
    and ch: "IsValidTransition (ord_status cur) st" "ord_status cur \<noteq> st"
      "moves i (ord_status cur) st ?f reason (tabs w) (tabs w')"
      "outbox_after envelope i topic (tabs w) (tabs w')"
  then have "changed i st reason envelope topic (tabs w) (tabs w')"
    unfolding changed_def by (intro exI [of _ "ord_status cur"] exI [of _ ?f]) (simp add: status_upd_def)
  with cur changed_status [OF this] show ?thesis by (simp add: status_upd_def)
qed auto

lemma in_tx_run:
  assumes "bind (WithTransaction m) with_items e w = (r, w')"
  shows "tabs w' = tabs w \<or> (\<exists>w0 o1 w1. tabs w0 = tabs w \<and> m e w0 = (Inr o1, w1) \<and> tabs w' = tabs w1)"
proof -
  obtain r1 w1 where tx: "WithTransaction m e w = (r1, w1)" by fastforce
  show ?thesis
  proof (cases r1)
    case (Inl er)
    with assms tx atomicD [OF WithTransaction_atomic] show ?thesis by (auto simp: bind_def)
  next
    case (Inr o1)
    with assms tx have "tabs w' = tabs w1"
      by (auto simp: bind_def dest: read_onlyD [OF with_items_read_only])
    moreover obtain w2 where "m e (w\<lparr>nstmt := Suc (nstmt w), aborted := False\<rparr>) = (Inr o1, w2)"
      "tabs w1 = tabs w2"
      using WithTransaction_ok [OF tx [unfolded Inr]] by blast
    ultimately show ?thesis
      by (intro disjI2 exI [of _ "w\<lparr>nstmt := Suc (nstmt w), aborted := False\<rparr>"]) auto
  qed
qed

lemma UpdateOrderStatusWithOutbox_changed:
  assumes "UpdateOrderStatusWithOutbox i st envelope topic reason e w = (r, w')"
  shows "tabs w' = tabs w \<or> changed i st reason envelope topic (tabs w) (tabs w')"
  using in_tx_run [OF assms [unfolded UpdateOrderStatusWithOutbox_def]] change_status_changed by metis

lemma CancelOrder_changed:
  assumes "CancelOrder i envelope topic reason e w = (r, w')"
  shows "tabs w' = tabs w \<or> changed i OrderStatusCancelled reason envelope topic (tabs w) (tabs w')"
proof -
  have "changed i OrderStatusCancelled reason envelope topic (tabs w0) (tabs w1)"
    if run: "cancel_order i envelope topic reason e w0 = (Inr o1, w1)" for w0 o1 w1
  proof -
    let ?f = "\<lambda>o1. o1\<lparr>ord_status := OrderStatusCancelled, ord_updated := clock e\<rparr>"
    from cancel_order_run [OF run] obtain cur :: "'a Order" where "CanCancel (ord_status cur)"
      "moves i (ord_status cur) OrderStatusCancelled ?f reason (tabs w0) (tabs w1)"
      "outbox_after envelope i topic (tabs w0) (tabs w1)" by blast
    then show ?thesis unfolding changed_def CanCancel_transition
      by (intro exI [of _ "ord_status cur"] exI [of _ ?f]) simp
  qed
  with in_tx_run [OF assms [unfolded CancelOrder_def]] show ?thesis by metis
qed

lemma GetOrderByID_found:
  assumes "on_error (GetOrderByID i) h e w = (Inr o1, w1)"
  shows "\<exists>q. find_order i (tabs w) = Some q \<and> ord_status o1 = ord_status q \<and> ord_user o1 = ord_user q \<and>
    ord_id o1 = i \<and> tabs w1 = tabs w"
proof -
  from assms obtain q where "find_order i (tabs w) = Some q" "ord_status o1 = ord_status q"
      "ord_user o1 = ord_user q" "ord_id o1 = ord_id q" "tabs w1 = tabs w"
    unfolding GetOrderByID_def with_items_def getItemsByOrderID_def
    by (auto simp: run_ok split: option.splits)
  with find_order_mem show ?thesis by auto
qed

lemma NewEvent_run:
  assumes "NewEventEnvelopeWithAggregate ty src agg d e w = (r, w1)"
  shows "\<exists>env. r = Inr env \<and> EventType env = ty \<and> AggregateID env = agg \<and> EventData env = d \<and> tabs w1 = tabs w"
  using assms by (auto simp: NewEventEnvelopeWithAggregate_def bind_def new_uuid_def time_now_def ret_def)

text \<open>Creating the envelope never fails; what follows starts from the same tables.\<close>

lemma NewEvent_then:
  assumes "bind (NewEventEnvelopeWithAggregate ty src agg d) f e w = (r, w')"
  obtains env w1 where "EventType env = ty" "AggregateID env = agg" "EventData env = d"
    "tabs w1 = tabs w" "f env e w1 = (r, w')"
proof -
  obtain r1 w1 where "NewEventEnvelopeWithAggregate ty src agg d e w = (r1, w1)" by fastforce
  with NewEvent_run [OF this] assms that show thesis by (auto simp: bind_def)
qed

lemma UpdateOrderStatusWithOutbox_result:
  assumes "UpdateOrderStatusWithOutbox i st envelope topic reason e w = (Inr o1, w')"
  shows "ord_status o1 = st \<and> (\<exists>q. find_order i (tabs w') = Some q \<and> ord_status q = st)"
proof -
  from assms obtain w0 q where tx: "WithTransaction (change_status i st envelope topic reason) e w = (Inr q, w0)"
    and its: "with_items q e w0 = (Inr o1, w')"
    unfolding UpdateOrderStatusWithOutbox_def by (auto simp: bind_ok)
  have o1: "tabs w' = tabs w0" "ord_status o1 = ord_status q"
    using its by (auto simp: with_items_def getItemsByOrderID_def run_ok)
  obtain w1 where run: "change_status i st envelope topic reason e (w\<lparr>nstmt := Suc (nstmt w), aborted := False\<rparr>)
      = (Inr q, w1)" "tabs w0 = tabs w1" using WithTransaction_ok [OF tx] by blast
  with change_status_changed [OF run(1)] run(2) o1 show ?thesis by simp
qed

section \<open>Properties\<close>

text \<open>
  C15. In every state the order service can reach, through any requests and payment events
  with any failures and redeliveries, the status history of every order is a path through
  the transition table: it begins with the creation, each row starts where the one before
  ended, each change is an allowed one, and the last row ends in the order's status.
\<close>

theorem order_history_is_a_path:
  assumes "order_reach L D t" and "o1 \<in> set (orders t)"
  shows "chain None (trail (ord_id o1) t) (Some (ord_status o1))"
  using order_reach_inv [OF assms(1)] assms(2) by (rule trail_chain)

theorem order_history_is_a_path_witness:
  "chain None (trail ''o'' (tabs smp_shipped)) (Some OrderStatusShipped)"
  using smp_shipped_order order_history_is_a_path [OF smp_reach] by metis

text \<open>
  The life of an order is finite and never returns to a status: in every reachable
  state its history has at most eleven rows, and no status occurs twice in it.
\<close>

theorem order_life_is_bounded:
  assumes "order_reach L D t" and "o1 \<in> set (orders t)"
  shows "length (trail (ord_id o1) t) \<le> 11 \<and> distinct (map hist_to (trail (ord_id o1) t))"
proof -
  have path: "chain None (trail (ord_id o1) t) (Some (ord_status o1))"
    using order_reach_inv [OF assms(1)] assms(2) by (rule trail_chain)
  then obtain h hs where hs: "trail (ord_id o1) t = h # hs" "chain (Some (hist_to h)) hs (Some (ord_status o1))"
    by (cases "trail (ord_id o1) t") auto
  from chain_steps [OF hs(2)] order_life.steps_bounded have "length hs \<le> 10" by blast
  moreover have "distinct (map hist_to (h # hs))" using chain_ranks [OF hs(2)] by fastforce
  ultimately show ?thesis using hs(1) by simp
qed

theorem order_life_is_bounded_witness:
  "length (trail ''o'' (tabs smp_shipped)) \<le> 11 \<and> distinct (map hist_to (trail ''o'' (tabs smp_shipped)))"
  using smp_shipped_order order_life_is_bounded [OF smp_reach] by metis

text \<open>
  An order that was ever handed to the carrier is never cancelled: in every reachable
  state, if its history has a row to \<open>SHIPPED\<close>, its status is not \<open>CANCELLED\<close>.
\<close>

theorem shipped_is_never_cancelled:
  assumes "order_reach L D t" and "o1 \<in> set (orders t)"
    and "h \<in> set (trail (ord_id o1) t)" and "hist_to h = OrderStatusShipped"
  shows "ord_status o1 \<noteq> OrderStatusCancelled"
proof -
  let ?S = "{OrderStatusShipped, OrderStatusOutForDelivery, OrderStatusDelivered,
    OrderStatusReturnRequested, OrderStatusReturned, OrderStatusRefunded}"
  have "every_edge ValidStateTransitions (\<lambda>a b. a \<in> ?S \<longrightarrow> b \<in> ?S)" by code_simp
  from chain_stays [OF this trail_chain [OF order_reach_inv [OF assms(1)] assms(2)]] assms(3,4)
  have "ord_status o1 \<in> ?S" by blast
  moreover have "OrderStatusCancelled \<notin> ?S" by code_simp
  ultimately show ?thesis by metis
qed

theorem shipped_is_never_cancelled_witness:
  "\<exists>o1 \<in> set (orders (tabs smp_shipped)). ord_status o1 \<noteq> OrderStatusCancelled"
proof -
  obtain o1 where o1: "o1 \<in> set (orders (tabs smp_shipped))" "ord_id o1 = ''o''"
    using smp_shipped_order by blast
  have "OrderStatusShipped \<in> set (map hist_to (trail ''o'' (tabs smp_shipped)))"
    using smp_shipped_eval by simp
  then obtain h where "h \<in> set (trail (ord_id o1) (tabs smp_shipped))" "hist_to h = OrderStatusShipped"
    using o1(2) by auto
  from shipped_is_never_cancelled [OF smp_reach o1(1) this] o1(1) show ?thesis by blast
qed

text \<open>
  What \<open>CanCancel\<close> admits is exactly what the transition table allows: an order can be
  cancelled if and only if the change of its status to \<open>CANCELLED\<close> is an allowed one.
\<close>

theorem cancel_follows_the_table:
  "CanCancel s \<longleftrightarrow> allowed_in ValidStateTransitions s OrderStatusCancelled"
proof (cases "s = OrderStatusCancelled")
  case True
  have "\<not> CanCancel OrderStatusCancelled \<and>
    \<not> allowed_in ValidStateTransitions OrderStatusCancelled OrderStatusCancelled" by code_simp
  with True show ?thesis by simp
qed (simp add: CanCancel_transition IsValidTransition_iff)

section \<open>Payments\<close>

text \<open>The change a successful payment makes, with the event that announces it.\<close>

definition confirmed :: "string \<Rightarrow> 'm order_tables \<Rightarrow> 'm order_tables \<Rightarrow> bool" where
  "confirmed i t t' \<longleftrightarrow>
     (\<exists>env now. EventType env = ''OrderConfirmed'' \<and> AggregateID env = i \<and>
        EventData env = EvOrderConfirmed i OrderStatusPaid now \<and>
        changed i OrderStatusConfirmed ''Payment successful'' (Some env) ''gocart.order.order-confirmed'' t t')"

lemma payment_success_lookup:
  assumes "HandlePaymentSuccessful L ev c tr e w = (r, w')"
  obtains (early) "tabs w' = tabs w" "\<exists>er. r = Inl er"
  | (duplicate) q o1 where "find_order (TrimSpace (ps_order ev)) (tabs w) = Some q"
      "ord_status q \<in> {OrderStatusConfirmed, OrderStatusPaid}"
      "r = Inr o1" "ord_status o1 = ord_status q" "tabs w' = tabs w"
  | (change) q env w1 where "find_order (TrimSpace (ps_order ev)) (tabs w) = Some q"
      "ord_status q \<notin> {OrderStatusConfirmed, OrderStatusPaid}"
      "EventType env = ''OrderConfirmed''" "AggregateID env = TrimSpace (ps_order ev)"
      "EventData env = EvOrderConfirmed (TrimSpace (ps_order ev)) OrderStatusPaid (clock e)"
      "tabs w1 = tabs w"
      "UpdateOrderStatusWithOutbox (TrimSpace (ps_order ev)) OrderStatusConfirmed (Some (traced c tr env))
         ''gocart.order.order-confirmed'' ''Payment successful'' e w1 = (r, w')"
proof (cases "blank (ps_order ev)")
  case True
  with assms early show ?thesis unfolding HandlePaymentSuccessful_def require_runs by auto
next
  case False
  let ?i = "TrimSpace (ps_order ev)"
  from assms False have run: "bind (on_error (GetOrderByID ?i) (lookup_error L ''order not found for payment success'')) (\<lambda>o1.
      if ord_status o1 = OrderStatusConfirmed \<or> ord_status o1 = OrderStatusPaid then ret o1
      else
        bind time_now (\<lambda>now.
        bind (NewEventEnvelopeWithAggregate ''OrderConfirmed'' ''order-service'' (ord_id o1)
               (EvOrderConfirmed (ord_id o1) OrderStatusPaid now)) (\<lambda>env.
        UpdateOrderStatusWithOutbox ?i OrderStatusConfirmed
          (Some (traced c tr env)) ''gocart.order.order-confirmed''
          ''Payment successful''))) e w = (r, w')"
    unfolding HandlePaymentSuccessful_def require_runs bind_ret by simp
  from run lookup_read_only show ?thesis
  proof (cases rule: read_first)
    case 1
    then show ?thesis by (rule early)
  next
    case (2 o1 w1)
    from GetOrderByID_found [OF 2(1)] obtain q where q: "find_order ?i (tabs w) = Some q"
      "ord_status o1 = ord_status q" "ord_id o1 = ?i" by blast
    show ?thesis
    proof (cases "ord_status o1 = OrderStatusConfirmed \<or> ord_status o1 = OrderStatusPaid")
      case True
      with 2 q duplicate [of q o1] show ?thesis by (auto simp: ret_def)
    next
      case False
      with 2(3) have "bind (NewEventEnvelopeWithAggregate ''OrderConfirmed'' ''order-service'' ?i
               (EvOrderConfirmed ?i OrderStatusPaid (clock e))) (\<lambda>env.
        UpdateOrderStatusWithOutbox ?i OrderStatusConfirmed
          (Some (traced c tr env)) ''gocart.order.order-confirmed'' ''Payment successful'') e w1 = (r, w')"
        unfolding time_now_runs q(3) by (simp add: time_now_runs)
      then show ?thesis
      proof (rule NewEvent_then)
        fix env :: "'a order_envelope" and w2
        assume "EventType env = ''OrderConfirmed''" "AggregateID env = ?i"
          "EventData env = EvOrderConfirmed ?i OrderStatusPaid (clock e)" "tabs w2 = tabs w1"
          "UpdateOrderStatusWithOutbox ?i OrderStatusConfirmed (Some (traced c tr env))
             ''gocart.order.order-confirmed'' ''Payment successful'' e w2 = (r, w')"
        with change [of q env w2] q 2(2) False show ?thesis by simp
      qed
    qed
  qed
qed

lemma payment_success_runs:
  assumes "HandlePaymentSuccessful L ev c tr e w = (r, w')"
  shows "(tabs w' = tabs w \<or> confirmed (TrimSpace (ps_order ev)) (tabs w) (tabs w')) \<and>
    (\<forall>o1. r = Inr o1 \<longrightarrow> (\<exists>q. find_order (TrimSpace (ps_order ev)) (tabs w') = Some q \<and>
       ord_status o1 = ord_status q \<and> ord_status q \<in> {OrderStatusConfirmed, OrderStatusPaid}))"
  using assms
proof (cases rule: payment_success_lookup)
  case (change q env w1)
  let ?i = "TrimSpace (ps_order ev)"
  have "tabs w' = tabs w \<or> confirmed ?i (tabs w) (tabs w')"
    using UpdateOrderStatusWithOutbox_changed [OF change(7)] change unfolding confirmed_def
    by (auto simp: traced_def intro!: exI [of _ "traced c tr env"])
  moreover have "\<forall>o2. r = Inr o2 \<longrightarrow> (\<exists>q. find_order ?i (tabs w') = Some q \<and>
      ord_status o2 = ord_status q \<and> ord_status q = OrderStatusConfirmed)"
    using UpdateOrderStatusWithOutbox_result change(7) by fastforce
  ultimately show ?thesis by blast
qed auto

text \<open>
  C31. A payment-successful event either changes nothing or confirms the order, whatever
  fails and whatever is returned: the order goes from an allowed status to \<open>CONFIRMED\<close>
  and, in the same transaction, exactly one history row and exactly one pending
  \<open>OrderConfirmed\<close> outbox event for this order are written. When the handler succeeds the
  stored order is \<open>CONFIRMED\<close> (or was already \<open>PAID\<close>).
\<close>

theorem payment_confirms_order:
  assumes "HandlePaymentSuccessful L ev c tr e w = (r, w')"
  shows "(tabs w' = tabs w \<or> confirmed (TrimSpace (ps_order ev)) (tabs w) (tabs w')) \<and>
    (\<forall>o1. r = Inr o1 \<longrightarrow> (\<exists>q. find_order (TrimSpace (ps_order ev)) (tabs w') = Some q \<and>
       ord_status o1 = ord_status q \<and> ord_status q \<in> {OrderStatusConfirmed, OrderStatusPaid}))"
  using assms by (rule payment_success_runs)

theorem payment_confirms_order_witness:
  "confirmed ''o'' (tabs smp_created)
     (tabs (snd (HandlePaymentSuccessful smp_lib smp_event [] [] smp_env smp_created)))"
proof -
  let ?run = "HandlePaymentSuccessful smp_lib smp_event [] [] smp_env smp_created"
  have "length (history (tabs (snd ?run))) = 2 \<and> length (history (tabs smp_created)) = 1 \<and>
      TrimSpace (ps_order smp_event) = ''o''" by code_simp
  then show ?thesis
    using payment_confirms_order [of smp_lib smp_event "[]" "[]" smp_env smp_created "fst ?run" "snd ?run"]
    by (metis prod.collapse One_nat_def numeral_One numeral_eq_iff semiring_norm(85))
qed

lemma payment_success_ignored:
  assumes "find_order (TrimSpace (ps_order ev)) (tabs w) = Some q"
    and "ord_status q \<in> {OrderStatusConfirmed, OrderStatusPaid}"
  shows "tabs (snd (HandlePaymentSuccessful L ev c tr e w)) = tabs w"
proof -
  obtain r w' where run: "HandlePaymentSuccessful L ev c tr e w = (r, w')" by fastforce
  then show ?thesis by (cases rule: payment_success_lookup) (use assms run in auto)
qed

text \<open>
  Redelivery of a payment-successful event is harmless: after a successful handling,
  handling the same event again, under any failures, changes no table. In particular no
  second \<open>OrderConfirmed\<close> event is written.
\<close>

theorem payment_confirmation_idempotent:
  assumes "HandlePaymentSuccessful L ev c tr e w = (Inr o1, w')"
  shows "tabs (snd (HandlePaymentSuccessful L ev c2 tr2 e2 w')) = tabs w'"
  using payment_success_runs [OF assms] payment_success_ignored by blast

theorem payment_confirmation_idempotent_witness:
  "tabs (snd (HandlePaymentSuccessful smp_lib smp_event [] [] smp_env smp_paid)) = tabs smp_paid"
proof -
  have "\<not> isl (fst (HandlePaymentSuccessful smp_lib smp_event [] [] smp_env smp_created))" by code_simp
  then obtain o1 where "HandlePaymentSuccessful smp_lib smp_event [] [] smp_env smp_created = (Inr o1, smp_paid)"
    unfolding smp_paid_def by (metis prod.collapse sum.collapse(2))
  then show ?thesis by (rule payment_confirmation_idempotent)
qed

lemma GetOrderByID_runs:
  assumes "fault_free e" and "find_order i (tabs w) = Some q"
  shows "\<exists>w1. on_error (GetOrderByID i) h e w =
    (Inr (q\<lparr>ord_items := filter (\<lambda>it. oi_order it = ord_id q) (items (tabs w))\<rparr>), w1) \<and> tabs w1 = tabs w"
  using assms
  by (simp add: GetOrderByID_def with_items_def getItemsByOrderID_def bind_def on_error_def pool_sql_def
      select_def ret_def Let_def)

text \<open>
  A payment-successful event for an order that has moved past \<open>CONFIRMED\<close>, or has ended,
  is refused with a bad request and changes nothing, also without any failure: a duplicate
  that arrives once the order is \<open>PROCESSING\<close> is an error, not an accepted duplicate.
\<close>

theorem late_payment_is_refused:
  assumes "fault_free e" and "\<not> blank (ps_order ev)"
    and "find_order (TrimSpace (ps_order ev)) (tabs w) = Some q"
    and "ord_status q \<notin> {OrderStatusConfirmed, OrderStatusPaid}"
    and "\<not> allowed_in ValidStateTransitions (ord_status q) OrderStatusConfirmed"
  shows "fst (HandlePaymentSuccessful L ev c tr e w) =
      Inl (BadRequest (''invalid order status transition from '' @ ord_status q @ '' to '' @ OrderStatusConfirmed)) \<and>
    tabs (snd (HandlePaymentSuccessful L ev c tr e w)) = tabs w"
proof -
  obtain w1 where look: "on_error (GetOrderByID (TrimSpace (ps_order ev)))
      (lookup_error L ''order not found for payment success'') e w =
      (Inr (q\<lparr>ord_items := filter (\<lambda>it. oi_order it = ord_id q) (items (tabs w))\<rparr>), w1)" "tabs w1 = tabs w"
    using GetOrderByID_runs [OF assms(1,3)] by blast
  have bad: "\<not> IsValidTransition (ord_status q) OrderStatusConfirmed"
    using assms(4,5) IsValidTransition_iff by auto
  show ?thesis
    using assms look bad
    by (simp add: HandlePaymentSuccessful_def require_def seq_def bind_def ret_def raise_def time_now_def
        NewEventEnvelopeWithAggregate_def new_uuid_def UpdateOrderStatusWithOutbox_def WithTransaction_def
        with_tx_def change_status_def on_error_def sql_def select_def Let_def roll_back_def)
qed

theorem late_payment_is_refused_witness:
  "fst (HandlePaymentSuccessful smp_lib smp_event [] [] smp_env smp_processing) =
     Inl (BadRequest ''invalid order status transition from PROCESSING to CONFIRMED'')"
proof -
  have "\<not> blank (ps_order smp_event)" by code_simp
  moreover have "fault_free smp_env" by (simp add: fault_free_def smp_env_def)
  moreover have "map_option ord_status (find_order (TrimSpace (ps_order smp_event)) (tabs smp_processing)) =
      Some OrderStatusProcessing" by code_simp
  moreover have "OrderStatusProcessing \<notin> {OrderStatusConfirmed, OrderStatusPaid}" by code_simp
  moreover have "\<not> allowed_in ValidStateTransitions OrderStatusProcessing OrderStatusConfirmed" by code_simp
  ultimately show ?thesis
    using late_payment_is_refused [of smp_env smp_event smp_processing _ smp_lib "[]" "[]"]
    by (auto simp: OrderStatusProcessing_def OrderStatusConfirmed_def)
qed

section \<open>Cancellation and manual changes\<close>

lemma CancelOrder_svc_lookup:
  assumes "CancelOrder_svc L ctx i userID reason e w = (r, w')"
  obtains (early) "tabs w' = tabs w" "\<exists>er. r = Inl er"
  | (cancel) q env w1 h where "find_order i (tabs w) = Some q" "CanCancel (ord_status q)"
      "snd (caller_of ctx userID) = ''ADMIN'' \<or>
         (fst (caller_of ctx userID) \<noteq> [] \<and> ord_user q = fst (caller_of ctx userID))"
      "EventType env = ''OrderCancelled''" "AggregateID env = i"
      "EventData env = EvOrderCancelled i reason (clock e)" "tabs w1 = tabs w"
      "on_error (CancelOrder i (Some env) ''gocart.order.order-cancelled'' reason) h e w1 = (r, w')"
proof (cases "blank i")
  case True
  with assms early show ?thesis unfolding CancelOrder_svc_def require_runs by auto
next
  case False
  obtain u role where who: "caller_of ctx userID = (u, role)" by fastforce
  from assms False have run: "bind (on_error (GetOrderByID i) (lookup_error L ''order not found'')) (\<lambda>o1.
      seq (require (role = ''ADMIN'' \<or> (u \<noteq> [] \<and> ord_user o1 = u))
            (Forbidden ''you do not have permission to cancel this order''))
      (seq (require (ord_status o1 \<noteq> OrderStatusCancelled) (BadRequest ''order is already cancelled''))
      (seq (require (CanCancel (ord_status o1))
             (BadRequest (''cannot cancel order in '' @ ord_status o1 @ '' status'')))
      (bind time_now (\<lambda>now.
       bind (NewEventEnvelopeWithAggregate ''OrderCancelled'' ''order-service'' (ord_id o1)
              (EvOrderCancelled (ord_id o1) reason now)) (\<lambda>env.
       on_error (CancelOrder i (Some env) ''gocart.order.order-cancelled'' reason) (repo_error L))))))) e w = (r, w')"
    unfolding CancelOrder_svc_def require_runs who by simp
  from run lookup_read_only show ?thesis
  proof (cases rule: read_first)
    case 1
    then show ?thesis by (rule early)
  next
    case (2 o1 w1)
    from GetOrderByID_found [OF 2(1)] obtain q where q: "find_order i (tabs w) = Some q"
      "ord_status o1 = ord_status q" "ord_user o1 = ord_user q" "ord_id o1 = i" by blast
    from 2(3) have "(r = Inl (projl r) \<and> w' = w1) \<or>
       (role = ''ADMIN'' \<or> (u \<noteq> [] \<and> ord_user q = u)) \<and> CanCancel (ord_status q) \<and>
       bind (NewEventEnvelopeWithAggregate ''OrderCancelled'' ''order-service'' i
              (EvOrderCancelled i reason (clock e))) (\<lambda>env.
       on_error (CancelOrder i (Some env) ''gocart.order.order-cancelled'' reason) (repo_error L)) e w1 = (r, w')"
      unfolding require_runs time_now_runs by (auto simp: q split: if_splits)
    then show ?thesis
    proof (elim disjE conjE NewEvent_then)
      assume "r = Inl (projl r)" "w' = w1"
      with early 2(2) show ?thesis by metis
    qed (use cancel q 2(2) who in auto)
  qed
qed

text \<open>
  C32. Cancellation is authorised and atomic: whatever the outcome, either no table changed,
  or the caller is an administrator or the owner of the order, the order was in a status
  that can be cancelled, and one transaction moved it to \<open>CANCELLED\<close> with one history row
  and one pending \<open>OrderCancelled\<close> event for it (which releases the reserved stock).
\<close>

theorem cancellation_is_authorised:
  assumes "CancelOrder_svc L ctx i userID reason e w = (r, w')"
  shows "tabs w' = tabs w \<or>
    (\<exists>q env now. find_order i (tabs w) = Some q \<and> CanCancel (ord_status q) \<and>
       (snd (caller_of ctx userID) = ''ADMIN'' \<or> ord_user q = fst (caller_of ctx userID)) \<and>
       EventType env = ''OrderCancelled'' \<and> EventData env = EvOrderCancelled i reason now \<and>
       changed i OrderStatusCancelled reason (Some env) ''gocart.order.order-cancelled'' (tabs w) (tabs w'))"
  using assms
proof (cases rule: CancelOrder_svc_lookup)
  case (cancel q env w1 h)
  then obtain r1 where "CancelOrder i (Some env) ''gocart.order.order-cancelled'' reason e w1 = (r1, w')"
    unfolding on_error_runs by blast
  from CancelOrder_changed [OF this] cancel show ?thesis by metis
qed simp

theorem cancellation_is_authorised_witness:
  "tabs (snd (CancelOrder_svc smp_lib None ''o'' ''mallory'' [] smp_env smp_created)) = tabs smp_created"
proof -
  have "map_option ord_user (find_order ''o'' (tabs smp_created)) = Some ''alice''" by code_simp
  moreover have "caller_of None ''mallory'' = (''mallory'', [])" by code_simp
  ultimately show ?thesis
    using cancellation_is_authorised [of smp_lib None "''o''" "''mallory''" "[]" smp_env smp_created
        "fst (CancelOrder_svc smp_lib None ''o'' ''mallory'' [] smp_env smp_created)"
        "snd (CancelOrder_svc smp_lib None ''o'' ''mallory'' [] smp_env smp_created)"] by auto
qed

text \<open>
  A status change through \<open>UpdateOrderStatus\<close> follows the transition table and is
  silent: whatever the outcome, the outbox is unchanged. So a cancellation made through it
  publishes no \<open>OrderCancelled\<close> event, and the reserved stock is not released by it.
\<close>

theorem manual_status_change_is_silent:
  assumes "UpdateOrderStatus_svc L i st reason e w = (r, w')"
  shows "order_outbox (tabs w') = order_outbox (tabs w) \<and>
    (tabs w' = tabs w \<or> changed i st reason None [] (tabs w) (tabs w'))"
proof -
  have "tabs w' = tabs w \<or> changed i st reason None [] (tabs w) (tabs w')"
  proof (cases "blank i \<or> \<not> OrderStatus_IsValid st")
    case True
    with assms show ?thesis unfolding UpdateOrderStatus_svc_def require_runs by (auto split: if_splits)
  next
    case False
    with assms have run: "bind (on_error (GetOrderByID i) (lookup_error L ''order not found'')) (\<lambda>o1.
      if ord_status o1 = st then ret o1
      else
        seq (require (IsValidTransition (ord_status o1) st)
              (BadRequest (''invalid order status transition from '' @ ord_status o1 @ '' to '' @ st)))
            (on_error (UpdateOrderStatus i st reason) (repo_error L))) e w = (r, w')"
      unfolding UpdateOrderStatus_svc_def require_runs by simp
    from run lookup_read_only show ?thesis
    proof (cases rule: read_first)
      case (2 o1 w1)
      then have "tabs w' = tabs w1 \<or> (\<exists>r1. UpdateOrderStatusWithOutbox i st None [] reason e w1 = (r1, w'))"
        by (auto simp: require_runs on_error_runs UpdateOrderStatus_def ret_def split: if_splits)
      with 2(2) UpdateOrderStatusWithOutbox_changed show ?thesis by metis
    qed simp
  qed
  then show ?thesis by (auto simp: changed_def outbox_after_def)
qed

theorem manual_status_change_is_silent_witness:
  "order_outbox (tabs (snd (UpdateOrderStatus_svc smp_lib ''o'' OrderStatusCancelled [] smp_env smp_created))) =
     order_outbox (tabs smp_created)"
  using manual_status_change_is_silent [OF prod.collapse [symmetric],
      of smp_lib "''o''" OrderStatusCancelled "[]" smp_env smp_created] by simp

section \<open>Checkout\<close>

text \<open>
  What a checkout leaves behind: the orders, their items and one history row each, in the
  order given, and one pending outbox row per envelope.
\<close>

definition created ::
  "'m Order list \<Rightarrow> 'm order_envelope list \<Rightarrow> string \<Rightarrow> 'm order_tables \<Rightarrow> 'm order_tables \<Rightarrow> bool" where
  "created os envs topic t t' \<longleftrightarrow>
     map ord_id (orders t') = map ord_id (orders t) @ map ord_id os \<and>
     map oi_id (items t') = map oi_id (items t) @ concat (map (\<lambda>o1. map oi_id (ord_items o1)) os) \<and>
     map (\<lambda>h. (hist_order h, hist_from h, hist_to h)) (history t') =
       map (\<lambda>h. (hist_order h, hist_from h, hist_to h)) (history t) @
       map (\<lambda>o1. (ord_id o1, None, ord_status o1)) os \<and>
     (\<exists>rows. ob_rows (order_outbox t') = ob_rows (order_outbox t) @ rows \<and>
        list_all2 (\<lambda>env row. announces (outbox_event (AggregateID env) topic env) row) envs rows)"

lemma items_inserted:
  assumes "for_each its (\<lambda>it. on_error (sql (insert_item L it)) (h it)) e w = (Inr u, w')"
  shows "map oi_id (items (tabs w')) = map oi_id (items (tabs w)) @ map oi_id its \<and>
    order_outbox (tabs w') = order_outbox (tabs w)"
  using assms
proof (induction its arbitrary: w)
  case (Cons it its)
  then obtain w1 where w1: "sql (insert_item L it) e w = (Inr (), w1)"
    "for_each its (\<lambda>it. on_error (sql (insert_item L it)) (h it)) e w1 = (Inr u, w')"
    by (auto simp: seq_ok on_error_ok)
  have "map oi_id (items (tabs w1)) = map oi_id (items (tabs w)) @ [oi_id it] \<and>
    order_outbox (tabs w1) = order_outbox (tabs w)"
    using w1(1) by (auto simp: sql_ok insert_item_def stored_item_def split: if_splits option.splits)
  with Cons.IH [OF w1(2)] show ?case by simp
qed (simp add: ret_ok)

lemma insert_one_created:
  assumes "insert_one L o1 e w = (Inr u, w')"
  shows "created [o1] [] topic (tabs w) (tabs w')"
proof -
  from assms obtain w1 w2 where w1: "sql (insert_order L o1) e w = (Inr (), w1)"
    and w2: "for_each (ord_items o1) (\<lambda>it. on_error (sql (insert_item L it))
        (WrapError (''failed to insert order item '' @ oi_id it @ '' for order '' @ ord_id o1 @ '': ''))) e w1 = (Inr (), w2)"
    and h: "insert_history (ord_id o1) None (ord_status o1) (Some ''Order created'')
                  (Some (ord_user o1)) (ord_created o1) e w2 = (Inr u, w')"
    unfolding insert_one_def seq_ok on_error_ok by auto
  have "items (tabs w1) = items (tabs w) \<and> order_outbox (tabs w1) = order_outbox (tabs w)"
    using w1 insert_order_ok [of L o1 "tabs w"] by (auto simp: sql_ok)
  moreover have "items (tabs w') = items (tabs w2) \<and> order_outbox (tabs w') = order_outbox (tabs w2)"
    using h by (auto simp: insert_history_def run_ok split: if_splits)
  ultimately show ?thesis
    using items_inserted [OF w2] insert_one_run [OF assms] by (auto simp: created_def)
qed

lemma created_trans:
  assumes "created os [] topic t t1" and "created ps envs topic t1 t2"
  shows "created (os @ ps) envs topic t t2"
  using assms by (auto simp: created_def)

lemma orders_created:
  assumes "for_each os (insert_one L) e w = (Inr u, w')"
  shows "created os [] topic (tabs w) (tabs w')"
  using assms
proof (induction os arbitrary: w)
  case (Cons o1 os)
  then obtain w1 where "insert_one L o1 e w = (Inr (), w1)" "for_each os (insert_one L) e w1 = (Inr u, w')"
    by (auto simp: seq_ok)
  with created_trans [OF insert_one_created Cons.IH, of L o1 e w "()" w1] show ?case by simp
qed (simp add: ret_ok created_def)

lemma envelopes_created:
  assumes "for_each envs (\<lambda>env. on_error (outbox_insert (AggregateID env) topic env) h) e w = (Inr u, w')"
  shows "created [] envs topic (tabs w) (tabs w')"
  using assms
proof (induction envs arbitrary: w)
  case (Cons env envs)
  then obtain w1 where w1: "outbox_insert (AggregateID env) topic env e w = (Inr (), w1)"
    "for_each envs (\<lambda>env. on_error (outbox_insert (AggregateID env) topic env) h) e w1 = (Inr u, w')"
    by (auto simp: seq_ok on_error_ok)
  from outbox_insert_run [OF w1(1)] Cons.IH [OF w1(2)] show ?case
    by (fastforce simp: created_def)
qed (simp add: ret_ok created_def)

lemma CreateOrders_created:
  assumes "CreateOrdersWithOutbox L os envs topic e w = (Inr u, w')"
  shows "created os envs topic (tabs w) (tabs w')"
proof -
  obtain w1 w2 where "for_each os (insert_one L) e (w\<lparr>nstmt := Suc (nstmt w), aborted := False\<rparr>) = (Inr (), w1)"
    "for_each envs (\<lambda>env. on_error (outbox_insert (AggregateID env) topic env)
       (WrapError ''failed to insert outbox event: '')) e w1 = (Inr u, w2)" "tabs w' = tabs w2"
    using WithTransaction_ok [OF assms [unfolded CreateOrdersWithOutbox_def]] by (auto simp: seq_ok)
  with created_trans [OF orders_created envelopes_created] show ?thesis by fastforce
qed

text \<open>
  Checkout is all or nothing: storing the orders of a cart, one per store, with their
  items, first history rows and \<open>OrderCreated\<close> events is one transaction. If it fails no
  table changed; if it succeeds every order, every item, one creation row per order and one
  pending outbox row per event are stored, in order, and nothing else was added.
\<close>

theorem checkout_all_or_nothing:
  assumes "CreateOrdersWithOutbox L os envs topic e w = (r, w')"
  shows "(case r of Inl _ \<Rightarrow> tabs w' = tabs w | Inr _ \<Rightarrow> created os envs topic (tabs w) (tabs w'))"
proof (cases r)
  case (Inl er)
  with assms atomicD [OF created.op_atomic] show ?thesis by auto
next
  case (Inr u)
  with CreateOrders_created assms show ?thesis by fastforce
qed

theorem checkout_all_or_nothing_witness:
  "created [smp_order] [] ''topic'' smp_tables
     (tabs (snd (CreateOrdersWithOutbox smp_lib [smp_order] [] ''topic'' smp_env smp_start)))"
proof -
  let ?run = "CreateOrdersWithOutbox smp_lib [smp_order] [] ''topic'' smp_env smp_start"
  have "\<not> isl (fst ?run)" by code_simp
  moreover have "tabs smp_start = smp_tables" by (simp add: smp_start_def)
  ultimately show ?thesis
    using checkout_all_or_nothing [OF prod.collapse [symmetric], of smp_lib "[smp_order]" "[]" "''topic''" smp_env smp_start]
    by (auto split: sum.splits)
qed

end
