(* ===== verification/Go_Float.thy ===== *)
theory Go_Float
  imports Complex_Main
begin

text \<open>
  Go's \<open>float64\<close>: finite values are the rationals the format represents, operations
  compute exactly and round to nearest, ties to even, with 53 bits of precision, a smallest
  exponent (subnormal numbers) and overflow to infinity. The sign of zero is not kept: no
  comparison the services make depends on it.
\<close>

datatype f64 = NaN | Inf bool | Fin rat

section \<open>Rounding\<close>

definition half_even :: "rat \<Rightarrow> int" where
  "half_even m =
     (let f = \<lfloor>m\<rfloor>; d = m - of_int f in
      if d < 1/2 then f else if 1/2 < d then f + 1 else if even f then f else f + 1)"

text \<open>The number of binary digits.\<close>

fun bits :: "nat \<Rightarrow> nat" where
  "bits n = (if n = 0 then 0 else Suc (bits (n div 2)))"

declare bits.simps [simp del]

text \<open>The exponent of a positive rational: \<open>2^e \<le> q < 2^(e+1)\<close>.\<close>

definition exponent :: "rat \<Rightarrow> int" where
  "exponent q =
     (case quotient_of q of (n, d) \<Rightarrow>
        let e = int (bits (nat n)) - int (bits (nat d)) in if 2 powi e \<le> q then e else e - 1)"

definition round64 :: "rat \<Rightarrow> rat" where
  "round64 q =
     (if q = 0 then 0
      else let k = 52 - max (exponent \<bar>q\<bar>) (- 1022) in of_int (half_even (q * 2 powi k)) / 2 powi k)"

definition mk64 :: "rat \<Rightarrow> f64" where
  "mk64 q = (let r = round64 q in if 2 ^ 1024 \<le> \<bar>r\<bar> then Inf (r < 0) else Fin r)"

section \<open>Operations\<close>

fun fneg :: "f64 \<Rightarrow> f64" where
  "fneg NaN = NaN"
| "fneg (Inf s) = Inf (\<not> s)"
| "fneg (Fin a) = Fin (- a)"

fun fadd :: "f64 \<Rightarrow> f64 \<Rightarrow> f64" where
  "fadd (Fin a) (Fin b) = mk64 (a + b)"
| "fadd NaN y = NaN"
| "fadd x NaN = NaN"
| "fadd (Inf s) (Inf t) = (if s = t then Inf s else NaN)"
| "fadd (Inf s) (Fin b) = Inf s"
| "fadd (Fin a) (Inf t) = Inf t"

definition fsub :: "f64 \<Rightarrow> f64 \<Rightarrow> f64" where
  "fsub x y = fadd x (fneg y)"

fun fmul :: "f64 \<Rightarrow> f64 \<Rightarrow> f64" where
  "fmul (Fin a) (Fin b) = mk64 (a * b)"
| "fmul NaN y = NaN"
| "fmul x NaN = NaN"
| "fmul (Inf s) (Inf t) = Inf (s \<noteq> t)"
| "fmul (Inf s) (Fin b) = (if b = 0 then NaN else Inf (s \<noteq> (b < 0)))"
| "fmul (Fin a) (Inf t) = (if a = 0 then NaN else Inf (t \<noteq> (a < 0)))"

text \<open>A division by zero gives an infinity with the sign of the dividend: the sign of zero is not kept.\<close>

fun fdiv :: "f64 \<Rightarrow> f64 \<Rightarrow> f64" where
  "fdiv (Fin a) (Fin b) = (if b = 0 then (if a = 0 then NaN else Inf (a < 0)) else mk64 (a / b))"
| "fdiv NaN y = NaN"
| "fdiv x NaN = NaN"
| "fdiv (Inf s) (Inf t) = NaN"
| "fdiv (Inf s) (Fin b) = Inf (s \<noteq> (b < 0))"
| "fdiv (Fin a) (Inf t) = Fin 0"

fun flt :: "f64 \<Rightarrow> f64 \<Rightarrow> bool" where
  "flt (Fin a) (Fin b) = (a < b)"
| "flt NaN y = False"
| "flt x NaN = False"
| "flt (Inf s) (Inf t) = (s \<and> \<not> t)"
| "flt (Inf s) (Fin b) = s"
| "flt (Fin a) (Inf t) = (\<not> t)"

fun fle :: "f64 \<Rightarrow> f64 \<Rightarrow> bool" where
  "fle (Fin a) (Fin b) = (a \<le> b)"
| "fle NaN y = False"
| "fle x NaN = False"
| "fle (Inf s) (Inf t) = (s \<or> \<not> t)"
| "fle (Inf s) (Fin b) = s"
| "fle (Fin a) (Inf t) = (\<not> t)"

definition fint :: "int \<Rightarrow> f64" where
  "fint i = mk64 (of_int i)"

abbreviation fzero :: f64 where
  "fzero \<equiv> Fin 0"

text \<open>The literal \<open>1e-6\<close>.\<close>

definition micro :: f64 where
  "micro = mk64 (1 / 1000000)"

text \<open>Values JSON has no notation for, and how the error of \<open>json.Marshal\<close> prints them.\<close>

definition f64_text :: "f64 \<Rightarrow> string" where
  "f64_text a = (case a of NaN \<Rightarrow> ''NaN'' | Inf True \<Rightarrow> ''-Inf'' | Inf False \<Rightarrow> ''+Inf'' | Fin _ \<Rightarrow> [])"

definition finite_amount :: "f64 \<Rightarrow> bool" where
  "finite_amount a \<longleftrightarrow> (case a of Fin _ \<Rightarrow> True | _ \<Rightarrow> False)"

section \<open>Evaluation\<close>

text \<open>Digits counted on integers, and the comparison with \<open>2 ^ 1024\<close> only for large values.\<close>

function ibits :: "int \<Rightarrow> int" where
  "ibits n = (if n \<le> 0 then 0 else ibits (n div 2) + 1)"
  by pat_completeness auto
termination by (relation "measure nat") auto

declare ibits.simps [simp del]

lemma ibits_bits: "int (bits (nat n)) = ibits n"
proof (induction n rule: ibits.induct)
  case (1 n)
  show ?case
  proof (cases "n \<le> 0")
    case True
    then show ?thesis by (simp add: ibits.simps [of n] bits.simps [of 0])
  next
    case False
    then have "nat n div 2 = nat (n div 2)" by (simp add: nat_div_distrib)
    with False 1 show ?thesis by (simp add: ibits.simps [of n] bits.simps [of "nat n"])
  qed
qed

text \<open>Powers of two by squaring, on integers.\<close>

function ipow2 :: "int \<Rightarrow> int" where
  "ipow2 k =
     (if k \<le> 0 then 1
      else let h = ipow2 (k div 2) in if even k then h * h else 2 * (h * h))"
  by pat_completeness auto
termination by (relation "measure nat") auto

declare ipow2.simps [simp del]

lemma ipow2: "ipow2 k = 2 ^ nat k"
proof (induction k rule: ipow2.induct)
  case (1 k)
  show ?case
  proof (cases "k \<le> 0")
    case False
    let ?h = "nat (k div 2)"
    have ih: "ipow2 (k div 2) = 2 ^ ?h" using 1 False by simp
    have "k = 2 * (k div 2) + k mod 2" "0 \<le> k div 2" "0 \<le> k mod 2" using False by simp_all
    then have "nat k = ?h + ?h + nat (k mod 2)" by linarith
    then have "nat k = ?h + ?h + (if even k then 0 else 1)" by (simp add: even_iff_mod_2_eq_zero not_mod_2_eq_0_eq_1)
    then show ?thesis using False ih by (cases "even k") (simp_all add: ipow2.simps [of k] Let_def power_add)
  qed (simp add: ipow2.simps)
qed

definition pow2 :: "int \<Rightarrow> rat" where
  "pow2 k = 2 powi k"

lemma pow2_code [code]: "pow2 k = (if 0 \<le> k then of_int (ipow2 k) else 1 / of_int (ipow2 (- k)))"
  by (simp add: pow2_def ipow2 power_int_def power_one_over)

lemma exponent_code [code]:
  "exponent q =
     (case quotient_of q of (n, d) \<Rightarrow> let e = ibits n - ibits d in if pow2 e \<le> q then e else e - 1)"
  by (simp add: exponent_def ibits_bits pow2_def)

lemma round64_code [code]:
  "round64 q =
     (if q = 0 then 0
      else let p = pow2 (52 - max (exponent \<bar>q\<bar>) (- 1022)) in of_int (half_even (q * p)) / p)"
  by (simp add: round64_def pow2_def Let_def)

lemma mk64_code [code]:
  "mk64 q =
     (let r = round64 q in
      if \<bar>r\<bar> \<le> 1000000000000 then Fin r else if 2 ^ 1024 \<le> \<bar>r\<bar> then Inf (r < 0) else Fin r)"
proof -
  have "(1000000000000 :: rat) < 2 ^ 1024" by simp
  then show ?thesis by (auto simp: mk64_def Let_def)
qed

section \<open>The error of one operation\<close>

lemma half_even_error: "\<bar>of_int (half_even m) - m\<bar> \<le> 1/2"
  unfolding half_even_def Let_def
  by (auto simp: abs_if of_int_floor_le) (linarith | (smt (verit) floor_correct))+

lemma half_even_of_int [simp]: "half_even (of_int i) = i"
  by (simp add: half_even_def)

lemma bits_bounds: "0 < n \<Longrightarrow> 2 ^ (bits n - 1) \<le> n \<and> n < 2 ^ bits n \<and> 0 < bits n"
proof (induction n rule: bits.induct)
  case (1 n)
  have b: "bits n = Suc (bits (n div 2))" using 1(2) by (subst bits.simps) simp
  show ?case
  proof (cases "n div 2 = 0")
    case True
    moreover have "bits 0 = 0" by (subst bits.simps) simp
    ultimately show ?thesis using 1(2) b by simp
  next
    case False
    with 1 have ih: "2 ^ (bits (n div 2) - 1) \<le> n div 2" "n div 2 < 2 ^ bits (n div 2)" "0 < bits (n div 2)"
      by auto
    have "2 * 2 ^ (bits (n div 2) - 1) \<le> n" using ih(1) by linarith
    moreover have "(2::nat) * 2 ^ (bits (n div 2) - 1) = 2 ^ bits (n div 2)"
      using ih(3) by (metis Suc_diff_1 power_Suc)
    ultimately show ?thesis using ih(2) b by simp
  qed
qed

text \<open>The binary digits of a positive integer, over the rationals.\<close>

lemma bits_rat:
  assumes "0 < (n::int)"
  shows "2 powi (int (bits (nat n)) - 1) \<le> (of_int n :: rat)" "(of_int n :: rat) < 2 powi int (bits (nat n))"
proof -
  note b = bits_bounds [of "nat n"]
  have b1: "2 ^ (bits (nat n) - 1) \<le> nat n" "nat n < 2 ^ bits (nat n)" "0 < bits (nat n)"
    using b assms by auto
  have e: "int (bits (nat n)) - 1 = int (bits (nat n) - 1)" using b1(3) by simp
  have "int (2 ^ (bits (nat n) - 1)) \<le> n" using b1(1) assms by linarith
  then have "of_int (int (2 ^ (bits (nat n) - 1))) \<le> (of_int n :: rat)" by (simp only: of_int_le_iff)
  then show "2 powi (int (bits (nat n)) - 1) \<le> (of_int n :: rat)" unfolding e by simp
  have "n < int (2 ^ bits (nat n))" using b1(2) assms by linarith
  then have "(of_int n :: rat) < of_int (int (2 ^ bits (nat n)))" by (simp only: of_int_less_iff)
  then show "(of_int n :: rat) < 2 powi int (bits (nat n))" by simp
qed

lemma exponent_bounds:
  assumes "0 < q"
  shows "2 powi exponent q \<le> q" "q < 2 powi (exponent q + 1)"
proof -
  obtain n d where nd: "quotient_of q = (n, d)" by fastforce
  have d: "0 < d" using quotient_of_denom_pos [OF nd] .
  have q: "q = of_int n / of_int d" using quotient_of_div [OF nd] .
  have n: "0 < n" using assms d unfolding q by (simp add: zero_less_divide_iff)
  let ?a = "int (bits (nat n))" and ?b = "int (bits (nat d))"
  let ?e = "?a - ?b"
  have "q < 2 powi ?a / 2 powi (?b - 1)"
    unfolding q using bits_rat [OF n] bits_rat [OF d] d n
    by (intro frac_less) (auto simp: zero_le_power_int)
  also have "2 powi ?a / 2 powi (?b - 1) = (2::rat) powi (?e + 1)"
    by (simp add: power_int_diff power_int_add)
  finally have up: "q < 2 powi (?e + 1)" .
  have "(2::rat) powi (?e - 1) = 2 powi (?a - 1) / 2 powi ?b"
    by (simp add: power_int_diff)
  also have "\<dots> \<le> q"
    unfolding q using bits_rat [OF n] bits_rat [OF d] d n by (intro frac_le) auto
  finally have low: "2 powi (?e - 1) \<le> q" .
  show "2 powi exponent q \<le> q" "q < 2 powi (exponent q + 1)"
    using up low by (auto simp: exponent_def nd Let_def)
qed

text \<open>
  The relative error is at most \<open>2^-53\<close>, up to half of the smallest subnormal number.
\<close>

lemma round64_error: "\<bar>round64 q - q\<bar> \<le> \<bar>q\<bar> / 2 ^ 53 + 1 / 2 ^ 1075"
proof (cases "q = 0")
  case False
  let ?x = "exponent \<bar>q\<bar>" and ?m = "max (exponent \<bar>q\<bar>) (- 1022)"
  let ?s = "(2::rat) powi (52 - ?m)"
  have s: "0 < ?s" by simp
  have "round64 q - q = (of_int (half_even (q * ?s)) - q * ?s) / ?s"
    using False s by (simp add: round64_def diff_divide_distrib Let_def)
  then have "\<bar>round64 q - q\<bar> = \<bar>of_int (half_even (q * ?s)) - q * ?s\<bar> / ?s" using s by simp
  also have "\<dots> \<le> (1/2) / ?s" using half_even_error s by (intro divide_right_mono) auto
  also have "(1/2) / ?s = 2 powi ?m / 2 ^ 53"
    by (simp add: power_int_diff field_simps)
  also have "\<dots> \<le> \<bar>q\<bar> / 2 ^ 53 + 1 / 2 ^ 1075"
  proof (cases "- 1022 \<le> ?x")
    case True
    then have "2 powi ?m / 2 ^ 53 \<le> \<bar>q\<bar> / 2 ^ 53"
      using exponent_bounds(1) [of "\<bar>q\<bar>"] False by (intro divide_right_mono) (auto simp: max_def)
    then show ?thesis by (rule order_trans) simp
  next
    case False
    then have "2 powi ?m / 2 ^ 53 = (2::rat) powi - 1022 / 2 ^ 53" by (simp add: max_def)
    also have "\<dots> = 1 / 2 ^ 1075" by (simp add: power_int_minus_divide flip: power_add)
    also have "\<dots> \<le> \<bar>q\<bar> / 2 ^ 53 + 1 / 2 ^ 1075" by simp
    finally show ?thesis .
  qed
  finally show ?thesis .
qed (simp add: round64_def)

section \<open>Values known up to an error\<close>

definition near :: "f64 \<Rightarrow> rat \<Rightarrow> rat \<Rightarrow> bool" where
  "near x a d \<longleftrightarrow> (\<exists>r. x = Fin r \<and> \<bar>r - a\<bar> \<le> d)"

text \<open>What a rounding adds to the error of a value below \<open>m\<close>.\<close>

definition ulp :: "rat \<Rightarrow> rat" where
  "ulp m = m / 2 ^ 53 + 1 / 10 ^ 20"

lemma tiny: "(1::rat) / 2 ^ 1075 \<le> 1 / 10 ^ 20"
  by simp

lemma mk64_near:
  assumes "\<bar>q - a\<bar> \<le> d" and "\<bar>a\<bar> + d \<le> m" and "m \<le> 2 ^ 60"
  shows "near (mk64 q) a (d + ulp m)"
proof -
  have q: "\<bar>q\<bar> \<le> m" using assms by linarith
  have err: "\<bar>round64 q - q\<bar> \<le> ulp m"
    using round64_error [of q] tiny divide_right_mono [OF q, of "2 ^ 53"] by (simp add: ulp_def)
  have "m / 2 ^ 53 \<le> 2 ^ 60 / 2 ^ 53" using assms(3) by (rule divide_right_mono) simp
  then have "ulp m \<le> 2 ^ 10" by (simp add: ulp_def)
  then have "\<bar>round64 q\<bar> \<le> 2 ^ 61" using q err assms(3) by simp
  also have "(2::rat) ^ 61 < 2 ^ 1024" by (rule power_strict_increasing) auto
  finally have "mk64 q = Fin (round64 q)" by (simp add: mk64_def Let_def)
  moreover have "\<bar>round64 q - a\<bar> \<le> d + ulp m" using err assms(1) by linarith
  ultimately show ?thesis by (simp add: near_def)
qed

lemma mk64_exact: "\<bar>a\<bar> \<le> m \<Longrightarrow> m \<le> 2 ^ 60 \<Longrightarrow> near (mk64 a) a (ulp m)"
  using mk64_near [of a a 0 m] by simp

lemma fadd_near:
  assumes "near x a d" and "near y b c" and "\<bar>a + b\<bar> + (d + c) \<le> m" and "m \<le> 2 ^ 60"
  shows "near (fadd x y) (a + b) (d + c + ulp m)"
proof -
  from assms(1,2) obtain r t where rt: "x = Fin r" "y = Fin t" "\<bar>r - a\<bar> \<le> d" "\<bar>t - b\<bar> \<le> c"
    by (auto simp: near_def)
  then have "\<bar>r + t - (a + b)\<bar> \<le> d + c" by linarith
  with mk64_near [OF this assms(3,4)] rt show ?thesis by simp
qed

lemma fneg_near: "near x a d \<Longrightarrow> near (fneg x) (- a) d"
  by (auto simp: near_def abs_minus_commute)

lemma fsub_near:
  assumes "near x a d" and "near y b c" and "\<bar>a - b\<bar> + (d + c) \<le> m" and "m \<le> 2 ^ 60"
  shows "near (fsub x y) (a - b) (d + c + ulp m)"
  using fadd_near [OF assms(1) fneg_near [OF assms(2)], of m] assms by (simp add: fsub_def)

text \<open>Values further apart than their errors compare as the exact ones.\<close>

lemma flt_near: "near x a d \<Longrightarrow> near y b c \<Longrightarrow> a + d < b - c \<Longrightarrow> flt x y"
  by (auto simp: near_def abs_le_iff)

lemma not_flt_near: "near x a d \<Longrightarrow> near y b c \<Longrightarrow> b + c \<le> a - d \<Longrightarrow> \<not> flt x y"
  by (auto simp: near_def abs_le_iff)

lemma fle_near: "near x a d \<Longrightarrow> near y b c \<Longrightarrow> a + d \<le> b - c \<Longrightarrow> fle x y"
  by (auto simp: near_def abs_le_iff)

lemma not_fle_near: "near x a d \<Longrightarrow> near y b c \<Longrightarrow> b + c < a - d \<Longrightarrow> \<not> fle x y"
  by (auto simp: near_def abs_le_iff)

lemma fmul_near:
  assumes "near x a d" and "\<bar>a * b\<bar> + d * \<bar>b\<bar> \<le> m" and "m \<le> 2 ^ 60"
  shows "near (fmul x (Fin b)) (a * b) (d * \<bar>b\<bar> + ulp m)"
proof -
  from assms(1) obtain r where r: "x = Fin r" "\<bar>r - a\<bar> \<le> d" by (auto simp: near_def)
  have "\<bar>r * b - a * b\<bar> = \<bar>r - a\<bar> * \<bar>b\<bar>" by (simp flip: left_diff_distrib abs_mult)
  also have "\<dots> \<le> d * \<bar>b\<bar>" using r(2) by (rule mult_right_mono) simp
  finally show ?thesis using mk64_near [OF _ assms(2,3)] r(1) by simp
qed

section \<open>Rounding to an integer\<close>

text \<open>\<open>math.Round\<close>: to nearest, halves away from zero.\<close>

definition go_round :: "rat \<Rightarrow> int" where
  "go_round q = (if 0 \<le> q then \<lfloor>q + 1/2\<rfloor> else - \<lfloor>1/2 - q\<rfloor>)"

definition fround :: "f64 \<Rightarrow> f64" where
  "fround x = (case x of Fin q \<Rightarrow> Fin (of_int (go_round q)) | y \<Rightarrow> y)"

text \<open>\<open>math.Round(x*100) / 100\<close>.\<close>

definition round2 :: "f64 \<Rightarrow> f64" where
  "round2 x = fdiv (fround (fmul x (Fin 100))) (Fin 100)"

lemma go_round_near: "\<bar>q - of_int k\<bar> < 1/2 \<Longrightarrow> go_round q = k"
  unfolding go_round_def abs_less_iff by (auto simp: floor_eq_iff) (linarith | smt (verit) floor_eq_iff)+

section \<open>Amounts in whole cents\<close>

text \<open>The number nearest to an amount with two decimals.\<close>

definition cents :: "int \<Rightarrow> f64" where
  "cents k = mk64 (of_int k / 100)"

text \<open>The largest amount the statements below are about: a billion, in cents.\<close>

definition billion :: int where
  "billion = 10 ^ 11"

lemma cents_near:
  assumes "\<bar>k\<bar> \<le> billion"
  shows "near (cents k) (of_int k / 100) (ulp (10 ^ 9))"
proof -
  have "\<bar>of_int k :: rat\<bar> \<le> of_int billion" using assms by (metis of_int_abs of_int_le_iff)
  then have "\<bar>of_int k / 100 :: rat\<bar> \<le> 10 ^ 9" by (simp add: billion_def)
  then show ?thesis unfolding cents_def by (rule mk64_exact) simp
qed

lemma micro_near: "near micro (1 / 10 ^ 6) (ulp 1)"
  using mk64_exact [of "1 / 10 ^ 6" 1] by (simp add: micro_def)

lemma ulp_values: "ulp (10 ^ 9) \<le> 12 / 10 ^ 8" "ulp (2 * 10 ^ 9) \<le> 23 / 10 ^ 8" "ulp 1 \<le> 1 / 10 ^ 12"
  by (simp_all add: ulp_def)

end
