(* ===== verification/Order_Checkout.thy ===== *)
theory Order_Checkout
  imports Order_Service Go_Float
begin

text \<open>
  Checkout: \<open>CreateOrder\<close> and \<open>fetchCheckoutItems\<close> of
  \<open>services/order-service/internal/service/order_service.go\<close> with the clients of
  \<open>internal/client/clients.go\<close>. Amounts are \<open>float64\<close> values; products and quotients are
  rounded before they are added (no fused multiply-add).

  The remote services are functions from a request to an answer or an error. The order in
  which Go iterates over a map is unspecified: it is the parameter \<open>map_order\<close>. The request
  to clear the cart is returned beside the result.
\<close>

section \<open>Inputs and clients\<close>

record CreateOrderItemInput =
  ci_product :: string
  ci_store :: string
  ci_quantity :: int
  ci_unit_price :: f64

record CreateOrderInput =
  co_user :: string
  co_cart :: string
  co_address :: string
  co_address_id :: string
  co_billing_id :: string
  co_currency :: string
  co_key :: string
  co_shipping_fee :: f64
  co_discount :: f64
  co_items :: "CreateOrderItemInput list"

record CreateOrderResult =
  rs_primary :: "f64 Order option"
  rs_orders :: "f64 Order list"
  rs_parent :: string

record checkoutItem =
  ck_product :: string
  ck_store :: string
  ck_quantity :: int

text \<open>The fields of the protobuf message \<open>Product\<close> the service reads.\<close>

record ProductPb =
  pb_status :: string
  pb_price :: f64
  pb_sku :: string
  pb_name :: string
  pb_store :: string
  pb_tax :: f64

text \<open>\<open>GetStock\<close> answers with the available quantity, \<open>GetCart\<close> with the items of the cart.\<close>

record checkout_svc =
  ck_lib :: "f64 order_lib"
  ck_parse_uuid :: "string \<Rightarrow> bool"
  ck_quote :: "string \<Rightarrow> string"
  cart_get :: "(string \<Rightarrow> go_error + checkoutItem list option) option"
  cart_clear :: "string \<Rightarrow> go_error option"
  product_get :: "(string \<Rightarrow> go_error + ProductPb option) option"
  stock_get :: "(string \<Rightarrow> go_error + int option) option"
  map_order :: "string list \<Rightarrow> string list"
  date_part :: "int \<Rightarrow> string"
  rand_int :: "nat \<Rightarrow> int"
  ctx_correlation :: string
  ctx_request :: string
  ctx_trace :: "string option"

definition is_not_found :: "checkout_svc \<Rightarrow> go_error \<Rightarrow> bool" where
  "is_not_found S er =
     (case from_error (order_grpc (ck_lib S)) er of Some (code, _) \<Rightarrow> code = GNotFound | None \<Rightarrow> False)"

definition generateOrderNumber :: "checkout_svc \<Rightarrow> int \<Rightarrow> nat \<Rightarrow> string" where
  "generateOrderNumber S now n = ''ORD-'' @ date_part S now @ ''-'' @ itoa (rand_int S n + 100000)"

definition fetchCheckoutItems :: "checkout_svc \<Rightarrow> CreateOrderInput \<Rightarrow> go_error + checkoutItem list" where
  "fetchCheckoutItems S input =
     (if co_items input \<noteq> [] then
        Inr (map (\<lambda>it. \<lparr>ck_product = ci_product it, ck_store = ci_store it, ck_quantity = ci_quantity it\<rparr>)
          (co_items input))
      else case cart_get S of
        None \<Rightarrow> Inl (BadRequest ''cart is empty or no items provided'')
      | Some get \<Rightarrow>
          (case get (co_user input) of
             Inl er \<Rightarrow>
               if is_not_found S er then Inl (BadRequest ''cart not found or empty'')
               else Inl (Internal (Some er) ''failed to fetch user cart'')
           | Inr cart \<Rightarrow>
               (case cart of
                  None \<Rightarrow> Inl (BadRequest ''cart is empty'')
                | Some its \<Rightarrow> if its = [] then Inl (BadRequest ''cart is empty'') else Inr its)))"

section \<open>One item\<close>

record enrichedItem =
  ei_product :: string
  ei_store :: string
  ei_sku :: string
  ei_name :: string
  ei_quantity :: int
  ei_unit_price :: f64
  ei_tax :: f64
  ei_discount :: f64
  ei_total :: f64

definition check_stock :: "checkout_svc \<Rightarrow> checkoutItem \<Rightarrow> go_error option" where
  "check_stock S it =
     (case stock_get S of
        None \<Rightarrow> None
      | Some get \<Rightarrow>
          (case get (ck_product it) of
             Inl er \<Rightarrow>
               if is_not_found S er then
                 Some (Conflict (''product '' @ ck_product it @ '' is out of stock (not found in inventory)''))
               else Some (Internal (Some er) (''failed to verify stock for product '' @ ck_product it))
           | Inr stock \<Rightarrow>
               if stock = None \<or> the stock < to_int32 (ck_quantity it) then
                 Some (Conflict (''insufficient stock for product '' @ ck_product it @ '': available '' @
                   itoa (case stock of None \<Rightarrow> 0 | Some n \<Rightarrow> n) @ '', requested '' @ itoa (ck_quantity it)))
               else None))"

text \<open>The tax of a line: rates above one are percentages.\<close>

definition item_tax :: "f64 \<Rightarrow> f64 \<Rightarrow> f64" where
  "item_tax itemSubtotal taxRate =
     (if flt (Fin 1) taxRate then round2 (fmul itemSubtotal (fdiv taxRate (Fin 100)))
      else if flt fzero taxRate then round2 (fmul itemSubtotal taxRate)
      else fzero)"

definition price_item ::
  "checkoutItem \<Rightarrow> string \<Rightarrow> string \<Rightarrow> string \<Rightarrow> f64 \<Rightarrow> f64 \<Rightarrow> enrichedItem" where
  "price_item it store sku name unitPrice taxRate =
     (let sub = fmul unitPrice (fint (ck_quantity it)); tax = item_tax sub taxRate in
      \<lparr>ei_product = ck_product it, ei_store = (if blank store then ''default-store'' else store),
       ei_sku = sku, ei_name = name, ei_quantity = ck_quantity it, ei_unit_price = unitPrice,
       ei_tax = tax, ei_discount = fzero, ei_total = round2 (fsub (fadd sub tax) fzero)\<rparr>)"

definition priced :: "checkoutItem \<Rightarrow> enrichedItem \<Rightarrow> go_error + enrichedItem" where
  "priced it e =
     (if flt (ei_unit_price e) fzero
      then Inl (BadRequest (''invalid authoritative price for product '' @ ck_product it)) else Inr e)"

text \<open>
  The slice \<open>ProductID[:8]\<close> is in range: \<open>uuid.Parse\<close> has accepted the identifier, and it
  accepts no string of fewer than 32 bytes.
\<close>

definition describe :: "checkout_svc \<Rightarrow> checkoutItem \<Rightarrow> go_error + enrichedItem" where
  "describe S it =
     (let sku = ''SKU-'' @ take 8 (ck_product it); name = ''Product '' @ ck_product it in
      case product_get S of
        None \<Rightarrow> priced it (price_item it (ck_store it) sku name fzero fzero)
      | Some get \<Rightarrow>
          (case get (ck_product it) of
             Inl er \<Rightarrow>
               if is_not_found S er then Inl (NotFound (''product '' @ ck_product it @ '' not found''))
               else Inl (Internal (Some er)
                 (''failed to fetch product '' @ ck_product it @ '' from product service''))
           | Inr None \<Rightarrow> Inl (NotFound (''product '' @ ck_product it @ '' not found''))
           | Inr (Some pr) \<Rightarrow>
               if ToUpper (TrimSpace (pb_status pr)) \<notin> {''PUBLISHED'', ''IN_STOCK'', ''ACTIVE''} then
                 Inl (BadRequest (''product '' @ ck_product it @ '' is currently unavailable (status: '' @
                   pb_status pr @ '')''))
               else
                 priced it (price_item it (or_default (pb_store pr) (ck_store it)) (or_default (pb_sku pr) sku)
                   (or_default (pb_name pr) name) (pb_price pr) (pb_tax pr))))"

definition enrich :: "checkout_svc \<Rightarrow> checkoutItem \<Rightarrow> go_error + enrichedItem" where
  "enrich S it =
     (if ck_quantity it \<le> 0 then
        Inl (BadRequest (''invalid quantity '' @ itoa (ck_quantity it) @ '' for product '' @ ck_product it))
      else if \<not> ck_parse_uuid S (TrimSpace (ck_product it)) then
        Inl (BadRequest (''invalid product_id format: '' @ ck_product it))
      else case check_stock S it of
        Some er \<Rightarrow> Inl er
      | None \<Rightarrow> describe S it)"

fun enrich_all :: "checkout_svc \<Rightarrow> checkoutItem list \<Rightarrow> go_error + enrichedItem list" where
  "enrich_all S [] = Inr []"
| "enrich_all S (it # its) =
     (case enrich S it of
        Inl er \<Rightarrow> Inl er
      | Inr e \<Rightarrow> (case enrich_all S its of Inl er \<Rightarrow> Inl er | Inr es \<Rightarrow> Inr (e # es)))"

section \<open>One order per store\<close>

text \<open>\<open>storeMap\<close>: the stores and the items of each, in the order they were appended.\<close>

definition stores_of :: "enrichedItem list \<Rightarrow> string list" where
  "stores_of es = remdups (map ei_store es)"

definition items_of :: "string \<Rightarrow> enrichedItem list \<Rightarrow> enrichedItem list" where
  "items_of s es = filter (\<lambda>e. ei_store e = s) es"

definition order_currency :: "checkout_svc \<Rightarrow> string \<Rightarrow> go_error + string" where
  "order_currency S raw =
     (let c = ToUpper (TrimSpace raw) in
      if c = [] \<or> c = ''USD'' then Inr ''USD''
      else if c \<in> {''IND-RUPEE'', ''INDIAN-RUPEE'', ''RUPEE'', ''RUPEES''} then Inr ''INR''
      else if length c \<noteq> 3 then
        Inl (BadRequest (''invalid currency '' @ ck_quote S raw @
          '': must be a 3-letter ISO 4217 code (e.g. INR, USD)''))
      else Inr c)"

text \<open>The share of a store in an amount of the whole checkout.\<close>

definition store_share :: "f64 \<Rightarrow> nat \<Rightarrow> f64" where
  "store_share amount stores = (if flt fzero amount then round2 (fdiv amount (fint (int stores))) else fzero)"

definition subtotal_of :: "enrichedItem list \<Rightarrow> f64" where
  "subtotal_of its = round2 (foldl (\<lambda>s it. fadd s (fmul (ei_unit_price it) (fint (ei_quantity it)))) fzero its)"

definition tax_of :: "enrichedItem list \<Rightarrow> f64" where
  "tax_of its = round2 (foldl (\<lambda>s it. fadd s (ei_tax it)) fzero its)"

definition total_of :: "f64 \<Rightarrow> f64 \<Rightarrow> f64 \<Rightarrow> f64 \<Rightarrow> f64" where
  "total_of sub tax ship disc =
     (let total = round2 (fsub (fadd (fadd sub tax) ship) disc) in if flt total fzero then fzero else total)"

text \<open>Marshalling the event fails at the first amount that is not finite.\<close>

definition order_amounts :: "f64 Order \<Rightarrow> f64 list" where
  "order_amounts o1 =
     [ord_subtotal o1, ord_tax o1, ord_shipping o1, ord_discount o1, ord_total o1] @
     concat (map (\<lambda>it. [oi_unit_price it, oi_tax it, oi_discount it, oi_total it]) (ord_items o1))"

definition created_envelope :: "f64 Order \<Rightarrow> (f64, f64 order_envelope) order_db" where
  "created_envelope o1 =
     (case find (\<lambda>a. \<not> finite_amount a) (order_amounts o1) of
        Some a \<Rightarrow> raise (WrapError ''failed to marshal event payload: ''
                    (ErrorString (''json: unsupported value: '' @ f64_text a)))
      | None \<Rightarrow> NewEventEnvelopeWithAggregate ''OrderCreated'' ''order-service'' (ord_id o1) (EvOrderCreated o1))"

fun order_items :: "string \<Rightarrow> string \<Rightarrow> enrichedItem list \<Rightarrow> (f64, f64 OrderItem list) order_db" where
  "order_items orderID store [] = ret []"
| "order_items orderID store (it # its) =
     bind new_uuid (\<lambda>i.
     bind (order_items orderID store its) (\<lambda>rest.
     ret (\<lparr>oi_id = i, oi_order = orderID, oi_product = ei_product it, oi_store = store, oi_sku = ei_sku it,
           oi_name = ei_name it, oi_quantity = ei_quantity it, oi_unit_price = ei_unit_price it,
           oi_tax = ei_tax it, oi_discount = ei_discount it, oi_total = ei_total it\<rparr> # rest)))"

definition order_number :: "checkout_svc \<Rightarrow> (f64, string) order_db" where
  "order_number S = (\<lambda>e w. (Inr (generateOrderNumber S (clock e) (nuuid w)), w))"

record checkout_plan =
  cp_parent :: string
  cp_now :: int
  cp_currency :: string
  cp_shipping :: f64
  cp_discount :: f64

definition opt_id :: "string \<Rightarrow> string option" where
  "opt_id s = (if s = [] then None else Some s)"

definition correlate :: "checkout_svc \<Rightarrow> f64 Order \<Rightarrow> f64 order_envelope \<Rightarrow> f64 order_envelope" where
  "correlate S o1 env =
     env\<lparr>CorrelationID := or_default (ctx_correlation S) (or_default (ctx_request S) (ord_id o1)),
         TraceID := (case ctx_trace S of Some t \<Rightarrow> t | None \<Rightarrow> TraceID env)\<rparr>"

definition store_order ::
  "checkout_svc \<Rightarrow> CreateOrderInput \<Rightarrow> checkout_plan \<Rightarrow> bool \<Rightarrow> string \<Rightarrow> enrichedItem list \<Rightarrow>
     (f64, f64 Order \<times> f64 order_envelope) order_db" where
  "store_order S input plan first store its =
     bind new_uuid (\<lambda>orderID.
     bind (order_number S) (\<lambda>number.
     bind (order_items orderID store its) (\<lambda>rows.
     bind (ret \<lparr>ord_id = orderID, ord_number = number, ord_parent = Some (cp_parent plan),
        ord_user = co_user input, ord_store = store, ord_subtotal = subtotal_of its, ord_tax = tax_of its,
        ord_shipping = cp_shipping plan, ord_discount = cp_discount plan,
        ord_total = total_of (subtotal_of its) (tax_of its) (cp_shipping plan) (cp_discount plan),
        ord_currency = cp_currency plan, ord_payment_status = PaymentStatusPending,
        ord_status = OrderStatusCreated, ord_ship_address = co_address input, ord_bill_address = [],
        ord_ship_id = opt_id (co_address_id input), ord_bill_id = opt_id (co_billing_id input),
        ord_idem_key = (if first \<and> \<not> blank (co_key input) then Some (TrimSpace (co_key input)) else None),
        ord_items = rows, ord_created = cp_now plan, ord_updated = cp_now plan\<rparr>) (\<lambda>o1.
     bind (on_error (created_envelope o1) (wrap ''failed to create event envelope'')) (\<lambda>env.
     ret (o1, correlate S o1 env))))))"

fun store_orders ::
  "checkout_svc \<Rightarrow> CreateOrderInput \<Rightarrow> checkout_plan \<Rightarrow> bool \<Rightarrow> enrichedItem list \<Rightarrow> string list \<Rightarrow>
     (f64, (f64 Order \<times> f64 order_envelope) list) order_db" where
  "store_orders S input plan first es [] = ret []"
| "store_orders S input plan first es (s # ss) =
     bind (store_order S input plan first s (items_of s es)) (\<lambda>o1.
     bind (store_orders S input plan False es ss) (\<lambda>rest. ret (o1 # rest)))"

section \<open>Checkout\<close>

text \<open>
  \<open>firstStore\<close> is reset only where the key is used; the key is never blank here, so it is
  reset by the first store.
\<close>

definition place_orders ::
  "checkout_svc \<Rightarrow> CreateOrderInput \<Rightarrow> enrichedItem list \<Rightarrow> (f64, CreateOrderResult) order_db" where
  "place_orders S input es =
     bind new_uuid (\<lambda>parent.
     bind time_now (\<lambda>now.
     bind (call (order_currency S (co_currency input))) (\<lambda>currency.
     bind (ret (length (stores_of es))) (\<lambda>n.
     bind (store_orders S input
            \<lparr>cp_parent = parent, cp_now = now, cp_currency = currency,
             cp_shipping = store_share (co_shipping_fee input) n,
             cp_discount = store_share (co_discount input) n\<rparr>
            True es (map_order S (stores_of es))) (\<lambda>made.
     seq (on_error (CreateOrdersWithOutbox (ck_lib S) (map fst made) (map snd made) ''gocart.order.order-created'')
            (wrap ''failed to create order''))
         (ret \<lparr>rs_primary = (case made of [] \<Rightarrow> None | m # _ \<Rightarrow> Some (fst m)), rs_orders = map fst made,
               rs_parent = parent\<rparr>))))))"

definition new_checkout ::
  "checkout_svc \<Rightarrow> CreateOrderInput \<Rightarrow> (f64, CreateOrderResult \<times> (string \<times> go_error option) option) order_db" where
  "new_checkout S input =
     seq (require (\<not> (blank (co_address input) \<and> blank (co_address_id input)))
           (BadRequest ''shipping address or shipping address id is required''))
     (seq (require (co_address_id input = [] \<or> ck_parse_uuid S (TrimSpace (co_address_id input)))
            (BadRequest ''invalid shipping_address_id format: must be valid UUID''))
     (seq (require (co_billing_id input = [] \<or> ck_parse_uuid S (TrimSpace (co_billing_id input)))
            (BadRequest ''invalid billing_address_id format: must be valid UUID''))
     (bind (call (fetchCheckoutItems S input)) (\<lambda>raw.
      seq (require (raw \<noteq> []) (BadRequest ''order cannot be created from an empty or invalid cart''))
      (bind (call (enrich_all S raw)) (\<lambda>es.
       bind (place_orders S input es) (\<lambda>res.
       ret (res, map_option (\<lambda>_. (co_user input, cart_clear S (co_user input))) (cart_get S)))))))))"

text \<open>The orders found under the key belong to the user, or the key is taken.\<close>

definition existing_checkout :: "CreateOrderInput \<Rightarrow> f64 Order list \<Rightarrow> go_error + CreateOrderResult" where
  "existing_checkout input os =
     (let first = hd os in
      if ord_user first \<noteq> TrimSpace (co_user input)
      then Inl (Conflict ''idempotency key already used for another user'')
      else Inr \<lparr>rs_primary = Some first, rs_orders = os,
                rs_parent = (case nonempty (ord_parent first) of Some p \<Rightarrow> p | None \<Rightarrow> ord_id first)\<rparr>)"

definition CreateOrder ::
  "checkout_svc \<Rightarrow> CreateOrderInput \<Rightarrow> (f64, CreateOrderResult \<times> (string \<times> go_error option) option) order_db" where
  "CreateOrder S input =
     seq (require (\<not> blank (co_user input)) (BadRequest ''user_id is required''))
     (seq (require (ck_parse_uuid S (TrimSpace (co_user input)))
            (BadRequest ''invalid user_id format: must be valid UUID''))
     (seq (require (\<not> blank (co_key input)) (BadRequest ''idempotency_key is required''))
     (bind (attempt (GetOrdersByIdempotencyKey (TrimSpace (co_key input)))) (\<lambda>found.
      case found of
        Inl er \<Rightarrow>
          if errorsIs (ck_lib S) er ErrOrderNotFound then new_checkout S input
          else raise (Internal (Some er) ''failed to check idempotency key'')
      | Inr os \<Rightarrow>
          if os = [] then new_checkout S input
          else bind (call (existing_checkout input os)) (\<lambda>res. ret (res, None))))))"

end
