(* ===== verification/Go_Amounts.thy ===== *)
theory Go_Amounts
  imports Go_Float
begin

text \<open>
  Sums of prices in \<open>float64\<close>: whole numbers are exact, the error of a sum of line prices
  stays far below half a cent, so \<open>math.Round(x*100)/100\<close> recovers the exact cents.
\<close>

section \<open>Whole numbers\<close>

lemma powi_less_iff: "(2::rat) powi a < 2 powi b \<longleftrightarrow> a < b"
proof
  show "a < b" if "(2::rat) powi a < 2 powi b"
  proof (rule ccontr)
    assume "\<not> a < b"
    then have "(2::rat) powi b \<le> 2 powi a" by (intro power_int_increasing) auto
    with that show False by simp
  qed
qed (simp add: power_int_strict_increasing)

lemma exponent_whole:
  assumes "0 < i" and "i < 2 ^ 53"
  shows "0 \<le> exponent (of_int i)" and "exponent (of_int i) \<le> 52"
proof -
  let ?q = "of_int i :: rat"
  have q: "0 < ?q" "1 \<le> ?q" using assms(1) by simp_all
  have "of_int i < (of_int (2 ^ 53) :: rat)" using assms(2) by (simp only: of_int_less_iff)
  then have "?q < 2 powi 53" by simp
  with exponent_bounds(1) [OF q(1)] have "(2::rat) powi exponent ?q < 2 powi 53" by linarith
  then show "exponent ?q \<le> 52" unfolding powi_less_iff by simp
  have "(2::rat) powi 0 < 2 powi (exponent ?q + 1)" using exponent_bounds(2) [OF q(1)] q(2) by simp
  then show "0 \<le> exponent ?q" unfolding powi_less_iff by simp
qed

lemma round64_whole:
  assumes "\<bar>i\<bar> < 2 ^ 53"
  shows "round64 (of_int i) = of_int i"
proof (cases "i = 0")
  case False
  let ?x = "exponent (of_int \<bar>i\<bar>)"
  have x: "0 \<le> ?x" "?x \<le> 52" using exponent_whole [of "\<bar>i\<bar>"] False assms by auto
  then have m: "max ?x (- 1022) = ?x" by simp
  define k where "k = nat (52 - ?x)"
  have k: "(2::rat) powi (52 - ?x) = of_int (2 ^ k)" using x by (simp add: k_def power_int_def)
  have "of_int i * (2::rat) powi (52 - ?x) = of_int (i * 2 ^ k)" unfolding k by simp
  then have "half_even (of_int i * 2 powi (52 - ?x)) = i * 2 ^ k" by (simp only: half_even_of_int)
  then show ?thesis using False m k by (simp add: round64_def Let_def)
qed (simp add: round64_def)

lemma fint_exact:
  assumes "\<bar>i\<bar> < 2 ^ 53"
  shows "fint i = Fin (of_int i)"
proof -
  have "\<bar>of_int i :: rat\<bar> < of_int (2 ^ 53)" using assms by (metis of_int_abs of_int_less_iff)
  moreover have "(2::rat) ^ 53 < 2 ^ 1024" by (rule power_strict_increasing) auto
  ultimately have "\<not> (2::rat) ^ 1024 \<le> \<bar>of_int i\<bar>" by simp
  then show ?thesis by (simp add: fint_def mk64_def round64_whole [OF assms])
qed

section \<open>Rounding to cents\<close>

lemma near_weaken: "near x a d \<Longrightarrow> d \<le> d' \<Longrightarrow> near x a d'"
  unfolding near_def by (auto intro: order_trans)

lemma cents_bound:
  assumes "\<bar>k\<bar> \<le> billion" shows "\<bar>of_int k / 100 :: rat\<bar> \<le> 10 ^ 9"
proof -
  have "\<bar>of_int k :: rat\<bar> \<le> of_int billion" using assms by (metis of_int_abs of_int_le_iff)
  then show ?thesis by (simp add: billion_def)
qed

text \<open>A value within a thousandth of whole cents is rounded to them.\<close>

lemma round2_cents:
  assumes "near x (of_int k / 100) (1 / 1000)" and "\<bar>k\<bar> \<le> billion"
  shows "round2 x = cents k"
proof -
  have b: "\<bar>of_int k / 100 :: rat\<bar> \<le> 10 ^ 9" using cents_bound [OF assms(2)] .
  have "near (fmul x (Fin 100)) (of_int k / 100 * 100) (1 / 1000 * \<bar>100\<bar> + ulp (10 ^ 12))"
    by (rule fmul_near [OF assms(1)]) (use b in \<open>auto simp: abs_if split: if_splits\<close>)
  then obtain q where q: "fmul x (Fin 100) = Fin q" "\<bar>q - of_int k\<bar> \<le> 1 / 10 + ulp (10 ^ 12)"
    by (auto simp: near_def)
  have "ulp (10 ^ 12) < 1 / 10" by (simp add: ulp_def)
  with q(2) have "\<bar>q - of_int k\<bar> < 1 / 2" by linarith
  then have "go_round q = k" by (rule go_round_near)
  with q(1) show ?thesis by (simp add: round2_def fround_def cents_def)
qed

section \<open>Sums\<close>

lemma cents_near_rel:
  assumes "0 \<le> k" and "k \<le> billion"
  shows "near (cents k) (of_int k / 100) (ulp (of_int k / 100))"
  unfolding cents_def
proof (rule mk64_exact)
  have "(of_int k / 100 :: rat) \<le> 10 ^ 9" using cents_bound [of k] assms by simp
  then show "(of_int k / 100 :: rat) \<le> 2 ^ 60" by simp
qed (use assms(1) in simp)

text \<open>The price of a line: whole cents times a quantity.\<close>

lemma line_near:
  assumes "0 \<le> p" and "p \<le> billion" and "0 \<le> n" "n < 2 ^ 31" and "p * n \<le> billion"
  shows "near (fmul (cents p) (fint n)) (of_int (p * n) / 100) (1 / 4000000)"
proof -
  let ?a = "of_int p / 100 :: rat" and ?n = "of_int n :: rat"
  have an: "0 \<le> ?a * ?n" "?a * ?n \<le> 10 ^ 9"
    using cents_bound [of "p * n"] assms by (auto simp: zero_le_mult_iff)
  have n31: "?n \<le> 2 ^ 31" "0 \<le> ?n" using assms of_int_le_iff [of n "2 ^ 31", where 'a = rat] by auto
  have e: "ulp ?a * \<bar>?n\<bar> = (?a * ?n) / 2 ^ 53 + ?n / 10 ^ 20" using n31 by (simp add: ulp_def field_simps)
  have e2: "(?a * ?n) / 2 ^ 53 \<le> 10 ^ 9 / 2 ^ 53" "?n / 10 ^ 20 \<le> 2 ^ 31 / 10 ^ 20"
    using an n31 by (auto intro: divide_right_mono simp: mult.commute)
  have "near (fmul (cents p) (Fin ?n)) (?a * ?n) (ulp ?a * \<bar>?n\<bar> + ulp (10 ^ 9 + 1))"
    by (rule fmul_near [OF cents_near_rel [OF assms(1,2)]]) (use e e2 an in auto)
  moreover have "ulp ?a * \<bar>?n\<bar> + ulp (10 ^ 9 + 1) \<le> 1 / 4000000"
    unfolding e using e2 by (simp add: ulp_def)
  moreover have "fint n = Fin ?n" by (rule fint_exact) (use assms in auto)
  ultimately show ?thesis using near_weaken by (simp add: field_simps)
qed

text \<open>Adding up values that are close to amounts: the errors add up.\<close>

lemma sum_near:
  assumes "\<And>x. x \<in> set xs \<Longrightarrow> near (g x) (a x) (1 / 4000000) \<and> 0 \<le> a x"
    and "near s v d" and "0 \<le> v" and "v + (\<Sum>x\<leftarrow>xs. a x) \<le> 10 ^ 9" and "0 \<le> d"
    and "d + of_nat (length xs) / 2000000 \<le> 1 / 2"
  shows "near (foldl (\<lambda>s x. fadd s (g x)) s xs) (v + (\<Sum>x\<leftarrow>xs. a x)) (d + of_nat (length xs) / 2000000)"
  using assms
proof (induction xs arbitrary: s v d)
  case (Cons x xs)
  have x: "near (g x) (a x) (1 / 4000000)" "0 \<le> a x" using Cons.prems(1) by auto
  have rest: "0 \<le> (\<Sum>x\<leftarrow>xs. a x)" using Cons.prems(1) by (intro sum_list_nonneg) auto
  have le: "v + a x \<le> 10 ^ 9" using Cons.prems(4) rest by simp
  have "0 \<le> (of_nat (length (x # xs)) :: rat) / 2000000" by simp
  then have d: "d \<le> 1 / 2" using Cons.prems(6) by linarith
  have "near (fadd s (g x)) (v + a x) (d + 1 / 4000000 + ulp (10 ^ 9 + 1))"
    by (rule fadd_near [OF Cons.prems(2) x(1)]) (use le x(2) d Cons.prems(3,5) in auto)
  moreover have "ulp (10 ^ 9 + 1) \<le> 1 / 4000000" by (simp add: ulp_def)
  ultimately have step: "near (fadd s (g x)) (v + a x) (d + 1 / 2000000)" by (auto elim: near_weaken)
  have "near (foldl (\<lambda>s x. fadd s (g x)) (fadd s (g x)) xs) (v + a x + (\<Sum>x\<leftarrow>xs. a x))
      (d + 1 / 2000000 + of_nat (length xs) / 2000000)"
    by (rule Cons.IH [OF _ step]) (use Cons.prems x in \<open>auto simp: add_divide_distrib\<close>)
  then show ?case by (simp add: add_divide_distrib add.assoc)
qed simp

text \<open>Up to a thousand lines the rounded sum is the sum in cents.\<close>

lemma rounded_sum:
  assumes "\<And>x. x \<in> set xs \<Longrightarrow> near (g x) (of_int (k x) / 100) (1 / 4000000) \<and> 0 \<le> k x"
    and "length xs \<le> 1000" and "(\<Sum>x\<leftarrow>xs. k x) \<le> billion"
  shows "round2 (foldl (\<lambda>s x. fadd s (g x)) fzero xs) = cents (\<Sum>x\<leftarrow>xs. k x)"
proof (rule round2_cents)
  have nn: "0 \<le> (\<Sum>x\<leftarrow>xs. k x)" using assms(1) by (intro sum_list_nonneg) auto
  with assms(3) show "\<bar>\<Sum>x\<leftarrow>xs. k x\<bar> \<le> billion" by simp
  have sum: "(\<Sum>x\<leftarrow>xs. of_int (k x) / 100) = (of_int (\<Sum>x\<leftarrow>xs. k x) / 100 :: rat)"
    by (induction xs) (simp_all add: add_divide_distrib)
  have len: "(of_nat (length xs) :: rat) / 2000000 \<le> 1 / 2000"
    using assms(2) of_nat_le_iff [of "length xs" 1000, where 'a = rat] by simp
  have "near (foldl (\<lambda>s x. fadd s (g x)) fzero xs) (0 + (\<Sum>x\<leftarrow>xs. of_int (k x) / 100)) (0 + of_nat (length xs) / 2000000)"
    by (rule sum_near)
      (use assms(1) len cents_bound [of "\<Sum>x\<leftarrow>xs. k x"] nn assms(3) in \<open>auto simp: near_def sum\<close>)
  then show "near (foldl (\<lambda>s x. fadd s (g x)) fzero xs) (of_int (\<Sum>x\<leftarrow>xs. k x) / 100) (1 / 1000)"
    unfolding sum using len by (auto elim: near_weaken)
qed

end
