(* ===== verification/Grouping.thy ===== *)
theory Grouping
  imports Go_Prelude "HOL-Library.Multiset"
begin

text \<open>
  Lists grouped by a key, as \<open>map[string][]T\<close> groups them in Go: whatever the order in which
  the keys are visited, the groups together hold the elements of the list, each once.
\<close>

lemma groups_of_keys:
  "distinct ss \<Longrightarrow> mset (concat (map (\<lambda>s. filter (\<lambda>x. key x = s) xs) ss)) = mset (filter (\<lambda>x. key x \<in> set ss) xs)"
proof (induction ss)
  case (Cons s ss)
  have "mset (filter (\<lambda>x. key x = s) xs) + mset (filter (\<lambda>x. key x \<in> set ss) xs) = mset (filter (\<lambda>x. key x \<in> set (s # ss)) xs)"
    using Cons.prems by (induction xs) auto
  with Cons show ?case by simp
qed simp

lemma groups_cover:
  assumes "mset ss = mset (remdups (map key xs))"
  shows "distinct ss" and "set ss = key ` set xs"
    and "mset (concat (map (\<lambda>s. filter (\<lambda>x. key x = s) xs) ss)) = mset xs"
proof -
  show d: "distinct ss" using assms by (metis distinct_remdups mset_eq_imp_distinct_iff)
  show s: "set ss = key ` set xs" using assms by (metis mset_eq_setD set_map set_remdups)
  then have "filter (\<lambda>x. key x \<in> set ss) xs = xs" by (simp add: filter_id_conv)
  with groups_of_keys [OF d, of key xs] show "mset (concat (map (\<lambda>s. filter (\<lambda>x. key x = s) xs) ss)) = mset xs" by simp
qed

end
