(* ===== verification/Checkout_Props.thy ===== *)
theory Checkout_Props
  imports Order_Checkout Order_Props Go_Amounts Grouping
begin

text \<open>
  The properties of checkout: what the orders contain, that their amounts are exact in
  cents, what a repeated key does, and where it falls short.
\<close>

section \<open>Amounts\<close>

lemma go_round_error: "\<bar>of_int (go_round q) - q\<bar> \<le> 1 / 2"
proof -
  have f: "of_int \<lfloor>x\<rfloor> \<le> x" "x < of_int \<lfloor>x\<rfloor> + 1" for x :: rat by linarith+
  show ?thesis
  proof (cases "0 \<le> q")
    case True
    then have "go_round q = \<lfloor>q + 1 / 2\<rfloor>" by (simp add: go_round_def)
    with f [of "q + 1 / 2"] show ?thesis unfolding abs_le_iff by linarith
  next
    case False
    then have "(of_int (go_round q) :: rat) = - of_int \<lfloor>1 / 2 - q\<rfloor>" by (simp add: go_round_def)
    with f [of "1 / 2 - q"] show ?thesis unfolding abs_le_iff by linarith
  qed
qed

lemma fdiv_near:
  assumes "near x a d" and "1 \<le> b" and "\<bar>a\<bar> + d \<le> m" and "m \<le> 2 ^ 60"
  shows "near (fdiv x (Fin b)) (a / b) (d + ulp m)"
proof -
  from assms(1) obtain r where r: "x = Fin r" "\<bar>r - a\<bar> \<le> d" by (auto simp: near_def)
  have shrink: "\<bar>y\<bar> / b \<le> \<bar>y\<bar>" for y :: rat using assms(2) by (simp add: divide_le_eq mult_le_cancel_left1)
  have "\<bar>r / b - a / b\<bar> = \<bar>r - a\<bar> / b" using assms(2) by (simp flip: diff_divide_distrib)
  also have "\<dots> \<le> d" using r(2) shrink [of "r - a"] by linarith
  finally have "near (mk64 (r / b)) (a / b) (d + ulp m)"
    using shrink [of a] assms by (intro mk64_near) auto
  then show ?thesis using r(1) assms(2) by simp
qed

lemma cents_sign:
  assumes "\<bar>k\<bar> \<le> billion"
  shows "flt (cents k) fzero \<longleftrightarrow> k < 0" and "flt fzero (cents k) \<longleftrightarrow> 0 < k"
proof -
  obtain r where r: "cents k = Fin r" "\<bar>r - of_int k / 100\<bar> \<le> ulp (10 ^ 9)"
    using cents_near [OF assms] by (auto simp: near_def)
  have u: "ulp (10 ^ 9) < 1 / 100" by (simp add: ulp_def)
  consider "k < 0" | "k = 0" | "0 < k" by linarith
  then have "(r < 0 \<longleftrightarrow> k < 0) \<and> (0 < r \<longleftrightarrow> 0 < k)"
  proof cases
    case 1
    then have "k \<le> - 1" by simp
    then have "(of_int k :: rat) \<le> of_int (- 1)" by (simp only: of_int_le_iff)
    then have "(of_int k :: rat) \<le> - 1" by simp
    with 1 r(2) u show ?thesis by (auto simp: abs_le_iff)
  next
    case 2
    then show ?thesis using r(1) by (simp add: cents_def mk64_def round64_def)
  next
    case 3
    then have "(1 :: rat) \<le> of_int k" by simp
    with 3 r(2) u show ?thesis by (auto simp: abs_le_iff)
  qed
  with r(1) show "flt (cents k) fzero \<longleftrightarrow> k < 0" "flt fzero (cents k) \<longleftrightarrow> 0 < k" by simp_all
qed

lemma total_in_cents:
  assumes "0 \<le> sub" "0 \<le> tax" "0 \<le> ship" "0 \<le> disc" and "sub + tax + ship \<le> billion" and "disc \<le> billion"
  shows "total_of (cents sub) (cents tax) (cents ship) (cents disc) = cents (max 0 (sub + tax + ship - disc))"
proof -
  let ?r = "\<lambda>k. of_int k / 100 :: rat"
  have n: "near (cents k) (?r k) (ulp (10 ^ 9))" "0 \<le> ?r k" "?r k \<le> 10 ^ 9" if "0 \<le> k" "k \<le> billion" for k
    using cents_near [of k] cents_bound [of k] that by auto
  have s: "?r (sub + tax + ship) = ?r sub + ?r tax + ?r ship" by (simp add: add_divide_distrib)
  have le: "?r sub + ?r tax + ?r ship \<le> 10 ^ 9" using n(3) [of "sub + tax + ship"] assms s by simp
  let ?u = "ulp (10 ^ 9)" and ?v = "ulp (2 * 10 ^ 9)"
  have uv: "?u \<le> 1 / 10 ^ 5" "?v \<le> 1 / 10 ^ 5" by (simp_all add: ulp_def)
  have "near (fadd (cents sub) (cents tax)) (?r sub + ?r tax) (?u + ?u + ?v)"
    by (rule fadd_near [OF n(1) n(1)]) (use assms n(2) le uv in auto)
  then have "near (fadd (fadd (cents sub) (cents tax)) (cents ship)) (?r sub + ?r tax + ?r ship) (?u + ?u + ?v + ?u + ?v)"
    by (rule fadd_near [OF _ n(1)]) (use assms n(2) le uv in auto)
  then have "near (fsub (fadd (fadd (cents sub) (cents tax)) (cents ship)) (cents disc))
      (?r sub + ?r tax + ?r ship - ?r disc) (?u + ?u + ?v + ?u + ?v + ?u + ?v)"
    by (rule fsub_near [OF _ n(1)]) (use assms n(2,3) [of disc] le uv n(2) in \<open>auto simp: abs_le_iff\<close>)
  from near_weaken [OF this, of "1 / 1000"]
  have "near (fsub (fadd (fadd (cents sub) (cents tax)) (cents ship)) (cents disc))
      (?r (sub + tax + ship - disc)) (1 / 1000)"
    using uv by (simp add: add_divide_distrib diff_divide_distrib)
  then have "round2 (fsub (fadd (fadd (cents sub) (cents tax)) (cents ship)) (cents disc)) = cents (sub + tax + ship - disc)"
    by (rule round2_cents) (use assms in auto)
  moreover have "flt (cents (sub + tax + ship - disc)) fzero \<longleftrightarrow> sub + tax + ship - disc < 0"
    by (rule cents_sign) (use assms in auto)
  moreover have "cents 0 = fzero" by (simp add: cents_def mk64_def round64_def)
  ultimately show ?thesis by (simp add: total_of_def max_def)
qed

text \<open>
  C18. The amounts of an order are exact: when its lines have prices and taxes of whole cents,
  the subtotal, the tax and the total computed in float64 are the cents of integer
  arithmetic, for up to a thousand lines and amounts up to a billion.
\<close>

theorem order_totals_are_exact:
  assumes its: "\<forall>it \<in> set its. ei_unit_price it = cents (p it) \<and> ei_tax it = cents (tx it) \<and> 0 \<le> p it \<and> p it \<le> billion \<and>
      0 \<le> tx it \<and> 0 \<le> ei_quantity it \<and> ei_quantity it < 2 ^ 31"
    and len: "length its \<le> 1000" and "0 \<le> ship" "0 \<le> disc" "disc \<le> billion"
    and sum: "(\<Sum>it\<leftarrow>its. p it * ei_quantity it) + (\<Sum>it\<leftarrow>its. tx it) + ship \<le> billion"
  shows "subtotal_of its = cents (\<Sum>it\<leftarrow>its. p it * ei_quantity it) \<and> tax_of its = cents (\<Sum>it\<leftarrow>its. tx it) \<and>
    total_of (subtotal_of its) (tax_of its) (cents ship) (cents disc) =
      cents (max 0 ((\<Sum>it\<leftarrow>its. p it * ei_quantity it) + (\<Sum>it\<leftarrow>its. tx it) + ship - disc))"
proof -
  let ?s = "\<Sum>it\<leftarrow>its. p it * ei_quantity it" and ?t = "\<Sum>it\<leftarrow>its. tx it"
  have nn: "0 \<le> ?s" "0 \<le> ?t" using its by (auto intro!: sum_list_nonneg mult_nonneg_nonneg)
  have member: "f it \<le> (\<Sum>x\<leftarrow>its. f x)" if "it \<in> set its" "\<forall>x \<in> set its. 0 \<le> f x" for f :: "enrichedItem \<Rightarrow> int" and it
    using member_le_sum_list [of "f it" "map f its"] that by (auto simp: image_iff)
  have line: "near (fmul (ei_unit_price it) (fint (ei_quantity it))) (of_int (p it * ei_quantity it) / 100) (1 / 4000000) \<and>
      0 \<le> p it * ei_quantity it" if "it \<in> set its" for it
  proof -
    have "p it * ei_quantity it \<le> ?s" by (rule member [OF that]) (use its in auto)
    then have "p it * ei_quantity it \<le> billion" using sum nn assms(3) by linarith
    with line_near [of "p it" "ei_quantity it"] its that show ?thesis by auto
  qed
  have s: "subtotal_of its = cents ?s"
    unfolding subtotal_of_def by (rule rounded_sum [OF line len]) (use sum nn assms(3) in auto)
  have taxes: "near (ei_tax it) (of_int (tx it) / 100) (1 / 4000000) \<and> 0 \<le> tx it" if "it \<in> set its" for it
  proof -
    have "tx it \<le> ?t" by (rule member [OF that]) (use its in auto)
    then have "\<bar>tx it\<bar> \<le> billion" using sum nn assms(3) its that by auto
    from near_weaken [OF cents_near [OF this], of "1 / 4000000"] its that show ?thesis by (auto simp: ulp_def)
  qed
  have t: "tax_of its = cents ?t"
    unfolding tax_of_def by (rule rounded_sum [OF taxes len]) (use sum nn assms(3) in auto)
  show ?thesis unfolding s t using total_in_cents [OF nn assms(3,4) sum assms(5)] by blast
qed

text \<open>Two lines: three pieces at 19.99 and one at 0.01, with taxes of 4.80 and nothing.\<close>

definition two_lines :: "enrichedItem list" where
  "two_lines = map (\<lambda>(n, p, t). \<lparr>ei_product = [], ei_store = [], ei_sku = [], ei_name = [], ei_quantity = n,
     ei_unit_price = cents p, ei_tax = cents t, ei_discount = fzero, ei_total = fzero\<rparr>) [(3, 1999, 480), (1, 1, 0)]"

theorem order_totals_are_exact_witness:
  "subtotal_of two_lines = cents 5998 \<and> tax_of two_lines = cents 480 \<and>
   total_of (subtotal_of two_lines) (tax_of two_lines) (cents 500) (cents 1000) = cents 5978"
proof -
  let ?p = "\<lambda>it. if ei_quantity it = 3 then 1999 else 1" and ?t = "\<lambda>it. if ei_quantity it = 3 then 480 else 0"
  have s: "(\<Sum>it\<leftarrow>two_lines. ?p it * ei_quantity it) = 5998" and t: "(\<Sum>it\<leftarrow>two_lines. ?t it) = 480"
    by (simp_all add: two_lines_def)
  have "subtotal_of two_lines = cents 5998 \<and> tax_of two_lines = cents 480 \<and>
      total_of (subtotal_of two_lines) (tax_of two_lines) (cents 500) (cents 1000) = cents (max 0 (5998 + 480 + 500 - 1000))"
    by (rule order_totals_are_exact [of two_lines ?p ?t 500 1000, unfolded s t])
      (auto simp: two_lines_def billion_def)
  moreover have m: "max 0 (5998 + 480 + 500 - 1000) = (5978 :: int)" by simp
  ultimately show ?thesis unfolding m by blast
qed

text \<open>
  C19. The share of a store in the shipping fee or the discount is the fee divided by the number
  of stores to the nearest cent: the shares together miss the fee by at most half a cent per
  store.
\<close>

theorem store_shares_are_close:
  assumes "0 < f" and "f \<le> billion" and "0 < n" and "n \<le> 1000"
  shows "\<exists>k. store_share (cents f) n = cents k \<and> 2 * \<bar>int n * k - f\<bar> \<le> int n"
proof -
  let ?n = "of_nat n :: rat" and ?f = "of_int f :: rat"
  have n: "1 \<le> ?n" "?n \<le> 1000" "fint (int n) = Fin ?n"
    using assms(3,4) of_nat_le_iff [of n 1000, where 'a = rat] fint_exact [of "int n"] by auto
  have f: "\<bar>f\<bar> \<le> billion" "\<bar>?f / 100\<bar> \<le> 10 ^ 9" using assms cents_bound [of f] by auto
  have "near (fdiv (cents f) (Fin ?n)) (?f / 100 / ?n) (ulp (10 ^ 9) + ulp (10 ^ 9 + 1))"
    by (rule fdiv_near [OF cents_near [OF f(1)] n(1)]) (use f(2) in \<open>auto simp: ulp_def\<close>)
  from near_weaken [OF this, of "1 / 10 ^ 6"]
  have d: "near (fdiv (cents f) (Fin ?n)) (?f / 100 / ?n) (1 / 10 ^ 6)" by (simp add: ulp_def)
  have small: "\<bar>?f / 100 / ?n\<bar> \<le> 10 ^ 9"
    using f(2) n(1) assms(1) by (simp add: divide_le_eq)
  have "near (fmul (fdiv (cents f) (Fin ?n)) (Fin 100)) (?f / 100 / ?n * 100) (1 / 10 ^ 6 * \<bar>100\<bar> + ulp (10 ^ 12))"
    by (rule fmul_near [OF d]) (use small in \<open>auto simp: abs_mult\<close>)
  then obtain q where q: "fmul (fdiv (cents f) (Fin ?n)) (Fin 100) = Fin q" "\<bar>q - ?f / ?n\<bar> \<le> 1 / 10 ^ 4 + ulp (10 ^ 12)"
    by (auto simp: near_def)
  let ?k = "go_round q"
  have "\<bar>of_int ?k - ?f / ?n\<bar> \<le> 1 / 2 + 3 / 10 ^ 4"
  proof -
    have "ulp (10 ^ 12) \<le> 2 / 10 ^ 4" by (simp add: ulp_def)
    with go_round_error [of q] q(2) show ?thesis unfolding abs_le_iff by linarith
  qed
  then have "\<bar>of_int ?k - ?f / ?n\<bar> * ?n \<le> (1 / 2 + 3 / 10 ^ 4) * ?n" using n by (intro mult_right_mono) auto
  moreover have "\<bar>of_int ?k - ?f / ?n\<bar> * ?n = \<bar>?n * of_int ?k - ?f\<bar>"
    using n by (simp add: abs_mult_pos' flip: abs_mult) (simp add: field_simps)
  ultimately have "2 * \<bar>?n * of_int ?k - ?f\<bar> < ?n + 1" using n by simp
  then have "of_int (2 * \<bar>int n * ?k - f\<bar>) < (of_int (int n + 1) :: rat)" by simp
  then have "2 * \<bar>int n * ?k - f\<bar> < int n + 1" by (simp only: of_int_less_iff)
  moreover have "store_share (cents f) n = cents ?k"
    using cents_sign(2) [OF f(1)] assms(1) n(3) q(1) by (simp add: store_share_def round2_def fround_def cents_def)
  ultimately show ?thesis by (intro exI [of _ ?k]) simp
qed

text \<open>Ten units split over three stores: a cent is lost.\<close>

theorem store_shares_are_close_witness:
  "store_share (cents 1000) 3 = cents 333"
proof -
  have "(0::int) < 1000" "(1000::int) \<le> billion" "(0::nat) < 3" "(3::nat) \<le> 1000" by (simp_all add: billion_def)
  from store_shares_are_close [OF this] obtain k where k: "store_share (cents 1000) 3 = cents k" "2 * \<bar>int 3 * k - 1000\<bar> \<le> int 3"
    by blast
  from k(2) have "2 * \<bar>3 * k - 1000\<bar> \<le> 3" by simp
  then have "k = 333" by arith
  with k(1) show ?thesis by simp
qed

section \<open>The orders of a checkout\<close>

text \<open>
  The line an item becomes: product, store, quantity, unit price, tax and total, all from what
  the product service says. The price the client sent is not in it.
\<close>

type_synonym order_line = "string \<times> string \<times> int \<times> f64 \<times> f64 \<times> f64"



definition enriched_line :: "enrichedItem \<Rightarrow> order_line" where
  "enriched_line e = (ei_product e, ei_store e, ei_quantity e, ei_unit_price e, ei_tax e, ei_total e)"

definition stored_line :: "f64 OrderItem \<Rightarrow> order_line" where
  "stored_line r = (oi_product r, oi_store r, oi_quantity r, oi_unit_price r, oi_tax r, oi_total r)"



lemma order_items_run:
  "order_items oid s its e w = (Inr rows, w') \<Longrightarrow> (\<forall>x \<in> set its. ei_store x = s) \<Longrightarrow> tabs w' = tabs w \<and>
     map stored_line rows = map enriched_line its \<and> (\<forall>r \<in> set rows. oi_order r = oid \<and> oi_store r = s)"
  by (induction its arbitrary: w rows) (auto simp: run_ok stored_line_def enriched_line_def)

text \<open>The sums over the lines of an order.\<close>

definition lines_subtotal :: "f64 OrderItem list \<Rightarrow> f64" where
  "lines_subtotal rs = round2 (foldl (\<lambda>s r. fadd s (fmul (oi_unit_price r) (fint (oi_quantity r)))) fzero rs)"

definition lines_tax :: "f64 OrderItem list \<Rightarrow> f64" where
  "lines_tax rs = round2 (foldl (\<lambda>s r. fadd s (oi_tax r)) fzero rs)"

lemma lines_sums:
  assumes "map stored_line rows = map enriched_line its"
  shows "lines_subtotal rows = subtotal_of its" and "lines_tax rows = tax_of its"
proof -
  have rows: "foldl (\<lambda>s r. fadd s (fmul (oi_unit_price r) (fint (oi_quantity r)))) a rows =
      foldl (\<lambda>s (p, st, n, u, t, x). fadd s (fmul u (fint n))) a (map stored_line rows)"
    "foldl (\<lambda>s r. fadd s (oi_tax r)) a rows = foldl (\<lambda>s (p, st, n, u, t, x). fadd s t) a (map stored_line rows)" for a
    by (simp_all add: foldl_map stored_line_def)
  have its: "foldl (\<lambda>s it. fadd s (fmul (ei_unit_price it) (fint (ei_quantity it)))) a its =
      foldl (\<lambda>s (p, st, n, u, t, x). fadd s (fmul u (fint n))) a (map enriched_line its)"
    "foldl (\<lambda>s it. fadd s (ei_tax it)) a its = foldl (\<lambda>s (p, st, n, u, t, x). fadd s t) a (map enriched_line its)" for a
    by (simp_all add: foldl_map enriched_line_def)
  show "lines_subtotal rows = subtotal_of its" "lines_tax rows = tax_of its"
    using assms by (simp_all add: lines_subtotal_def lines_tax_def subtotal_of_def tax_of_def rows its)
qed

text \<open>An order with the amounts of its lines and its shares of fee and discount among \<open>n\<close> stores.\<close>

definition amounts_right :: "CreateOrderInput \<Rightarrow> nat \<Rightarrow> f64 Order \<Rightarrow> bool" where
  "amounts_right input n o1 \<longleftrightarrow> ord_subtotal o1 = lines_subtotal (ord_items o1) \<and> ord_tax o1 = lines_tax (ord_items o1) \<and>
     ord_shipping o1 = store_share (co_shipping_fee input) n \<and> ord_discount o1 = store_share (co_discount input) n \<and>
     ord_total o1 = total_of (ord_subtotal o1) (ord_tax o1) (ord_shipping o1) (ord_discount o1)"

text \<open>What the order of a store is made of.\<close>

definition order_for ::
  "CreateOrderInput \<Rightarrow> nat \<Rightarrow> enrichedItem list \<Rightarrow> string \<Rightarrow> f64 Order \<times> f64 order_envelope \<Rightarrow> bool" where
  "order_for input n es s m \<longleftrightarrow>
     (let o1 = fst m in
      ord_store o1 = s \<and> ord_user o1 = co_user input \<and> ord_status o1 = OrderStatusCreated \<and>
      map stored_line (ord_items o1) = map enriched_line (items_of s es) \<and>
      (\<forall>r \<in> set (ord_items o1). oi_order r = ord_id o1 \<and> oi_store r = s) \<and> amounts_right input n o1 \<and>
      EventData (snd m) = EvOrderCreated o1 \<and> AggregateID (snd m) = ord_id o1)"

lemma created_envelope_run:
  "created_envelope o1 e w = (Inr env, w') \<Longrightarrow>
     tabs w' = tabs w \<and> EventData env = EvOrderCreated o1 \<and> AggregateID env = ord_id o1"
  by (auto simp: created_envelope_def NewEventEnvelopeWithAggregate_def run_ok split: option.splits)

text \<open>The plan of a checkout over \<open>n\<close> stores.\<close>

definition planned :: "CreateOrderInput \<Rightarrow> nat \<Rightarrow> checkout_plan \<Rightarrow> bool" where
  "planned input n plan \<longleftrightarrow> cp_shipping plan = store_share (co_shipping_fee input) n \<and>
     cp_discount plan = store_share (co_discount input) n"

lemma store_order_run:
  assumes "store_order S input plan first s (items_of s es) e w = (Inr m, w')" and "planned input n plan"
  shows "tabs w' = tabs w \<and> order_for input n es s m"
proof -
  let ?its = "items_of s es"
  from assms(1) obtain i number rows w1 env w2 where
      rows: "order_items i s ?its e w1 = (Inr rows, w2)" "tabs w1 = tabs w"
    and env: "created_envelope (fst m) e w2 = (Inr env, w')" "snd m = correlate S (fst m) env"
    and o1: "ord_id (fst m) = i" "ord_store (fst m) = s" "ord_user (fst m) = co_user input"
      "ord_status (fst m) = OrderStatusCreated" "ord_items (fst m) = rows"
      "ord_subtotal (fst m) = subtotal_of ?its" "ord_tax (fst m) = tax_of ?its"
      "ord_shipping (fst m) = cp_shipping plan" "ord_discount (fst m) = cp_discount plan"
      "ord_total (fst m) = total_of (subtotal_of ?its) (tax_of ?its) (cp_shipping plan) (cp_discount plan)"
    unfolding store_order_def by (auto simp: run_ok order_number_def)
  have "\<forall>x \<in> set ?its. ei_store x = s" by (simp add: items_of_def)
  note lines = order_items_run [OF rows(1) this]
  then have "amounts_right input n (fst m)"
    using o1 lines_sums [of rows ?its] assms(2) by (simp add: amounts_right_def planned_def)
  with lines created_envelope_run [OF env(1)] rows(2) env(2) o1 show ?thesis
    by (simp add: order_for_def correlate_def Let_def)
qed

lemma store_orders_run:
  "store_orders S input plan first es ss e w = (Inr made, w') \<Longrightarrow> planned input n plan \<Longrightarrow>
     tabs w' = tabs w \<and> list_all2 (order_for input n es) ss made"
proof (induction ss arbitrary: first w made)
  case (Cons s ss)
  from Cons.prems obtain m w1 rest where m: "store_order S input plan first s (items_of s es) e w = (Inr m, w1)"
    and rest: "store_orders S input plan False es ss e w1 = (Inr rest, w')" "made = m # rest"
    by (auto simp: run_ok)
  from store_order_run [OF m Cons.prems(2)] Cons.IH [OF rest(1) Cons.prems(2)] rest(2) show ?case by simp
qed (simp add: run_ok)

text \<open>The items sorted by store are the items.\<close>

lemma stores_cover:
  assumes "mset ss = mset (stores_of es)"
  shows "distinct ss" and "mset (concat (map (\<lambda>s. items_of s es) ss)) = mset es" and "set ss = ei_store ` set es"
  using groups_cover [OF assms [unfolded stores_of_def]] by (simp_all add: items_of_def)

lemma order_lines:
  assumes "list_all2 (order_for input n es) ss made"
  shows "concat (map (\<lambda>m. map stored_line (ord_items (fst m))) made) =
    map enriched_line (concat (map (\<lambda>s. items_of s es) ss))"
    and "map (\<lambda>m. ord_store (fst m)) made = ss"
  using assms by (induction rule: list_all2_induct) (simp_all add: order_for_def Let_def)

text \<open>A checkout that makes orders.\<close>

lemma new_checkout_run:
  assumes "new_checkout S input e w = (Inr (res, cl), w')"
  obtains raw es made w1 w2 where "fetchCheckoutItems S input = Inr raw" "enrich_all S raw = Inr es"
    "list_all2 (order_for input (length (stores_of es)) es) (map_order S (stores_of es)) made"
    "rs_orders res = map fst made" "tabs w1 = tabs w" "tabs w' = tabs w2"
    "CreateOrdersWithOutbox (ck_lib S) (map fst made) (map snd made) ''gocart.order.order-created'' e w1 = (Inr (), w2)"
proof -
  from assms obtain raw es wa where raw: "fetchCheckoutItems S input = Inr raw" "enrich_all S raw = Inr es"
    and place: "place_orders S input es e wa = (Inr res, w')" "tabs wa = tabs w"
    unfolding new_checkout_def by (auto simp: run_ok)
  from place(1) obtain plan made wb w1 w2 where
      made: "store_orders S input plan True es (map_order S (stores_of es)) e wb = (Inr made, w1)" "tabs wb = tabs wa"
      "planned input (length (stores_of es)) plan"
    and create: "CreateOrdersWithOutbox (ck_lib S) (map fst made) (map snd made) ''gocart.order.order-created'' e w1
        = (Inr (), w2)" "rs_orders res = map fst made" "w' = w2"
    unfolding place_orders_def planned_def by (auto simp: run_ok)
  from store_orders_run [OF made(1,3)] made(2) place(2) raw create that [of raw es made w1 w2] show thesis by simp
qed

lemma each_inserted:
  "for_each os (insert_one L) e w = (Inr u, w') \<Longrightarrow> o1 \<in> set os \<Longrightarrow> order_columns_ok L o1"
proof (induction os arbitrary: w)
  case (Cons o2 os)
  from Cons.prems(1) obtain w1 where w1: "insert_one L o2 e w = (Inr (), w1)" "for_each os (insert_one L) e w1 = (Inr u, w')"
    by (auto simp: run_ok)
  from w1(1) have "order_columns_ok L o2"
    unfolding insert_one_def by (auto simp: run_ok insert_order_def split: if_splits)
  with Cons w1(2) show ?case by auto
qed simp

lemma stored_columns:
  assumes "CreateOrdersWithOutbox L os envs topic e w = (Inr u, w')" and "o1 \<in> set os"
  shows "order_columns_ok L o1"
  using WithTransaction_ok [OF assms(1) [unfolded CreateOrdersWithOutbox_def]] each_inserted [OF _ assms(2)]
  by (auto simp: seq_ok)

lemma order_items_reads: "read_only (order_items oid s its)"
  by (induction its) (auto intro!: read_only_intros)

lemma store_orders_reads: "read_only (store_orders S input plan first es ss)"
proof (induction ss arbitrary: first)
  case (Cons s ss)
  have "read_only (order_number S)" by (simp add: read_only_def order_number_def)
  then have "read_only (store_order S input plan first s (items_of s es))"
    unfolding store_order_def created_envelope_def
    by (auto intro!: read_only_intros order_items_reads envelope_read_only split: option.split)
  with Cons show ?case by (auto intro!: read_only_intros)
qed (simp add: read_only_ret)

lemma lookup_key_reads: "read_only (GetOrdersByIdempotencyKey k)"
  unfolding GetOrdersByIdempotencyKey_def
  by (intro read_only_intros with_items_all_read_only GetOrderByID_read_only)

lemma new_checkout_atomic: "atomic (new_checkout S input)"
proof -
  have "atomic (place_orders S input es)" for es
    unfolding place_orders_def
    by (intro atomic_bind read_only_new_uuid read_only_time_now read_only_call read_only_ret store_orders_reads
        atomic_then_ret(2) atomic_on_error created.op_atomic)
  then show ?thesis
    unfolding new_checkout_def
    by (intro atomic_seq atomic_bind read_only_require read_only_call atomic_then_ret(1))
qed

text \<open>A key that is taken: the lookup finds the order, or fails with an error that does not say it is missing.\<close>

definition lookup_failures :: "go_error set" where
  "lookup_failures = set (map (\<lambda>m. WrapError m StmtFailed)
     [''failed to query order by idempotency key: '', ''failed to query orders by parent_order_id: '',
      ''failed to query order items: '', ''failed to query order by id: ''])"

lemma lookup_failures_intros:
  "WrapError ''failed to query order by idempotency key: '' StmtFailed \<in> lookup_failures"
  "WrapError ''failed to query orders by parent_order_id: '' StmtFailed \<in> lookup_failures"
  "WrapError ''failed to query order items: '' StmtFailed \<in> lookup_failures"
  "WrapError ''failed to query order by id: '' StmtFailed \<in> lookup_failures"
  by (simp_all add: lookup_failures_def)

lemma lookup_failures_text:
  assumes "er \<in> lookup_failures" shows "\<not> errorsIs L er ErrOrderNotFound"
proof -
  have "list_all (\<lambda>m. \<not> Contains (m @ ''statement failed'') ''order not found'')
     [''failed to query order by idempotency key: '', ''failed to query orders by parent_order_id: '',
      ''failed to query order items: '', ''failed to query order by id: '']" by code_simp
  with assms show ?thesis by (auto simp: lookup_failures_def errorsIs_def ErrOrderNotFound_def StmtFailed_def)
qed

lemma pool_select_fails:
  "on_error (pool_sql (select q)) (WrapError m) e w = (Inl er, w') \<Longrightarrow> er = WrapError m StmtFailed"
  by (auto simp: on_error_def pool_sql_def select_def Let_def split: if_splits)

lemma bind_fails:
  "bind m f e w = (Inl er, w') \<longleftrightarrow>
     m e w = (Inl er, w') \<or> (\<exists>x w1. m e w = (Inr x, w1) \<and> f x e w1 = (Inl er, w'))"
  by (auto simp: bind_def split: prod.splits sum.splits)

lemma ret_fails: "ret x e w = (Inl er, w') \<longleftrightarrow> False"
  by (simp add: ret_def)

lemma with_items_fails: "with_items o1 e w = (Inl er, w') \<Longrightarrow> er \<in> lookup_failures"
  unfolding with_items_def getItemsByOrderID_def
  by (auto simp: bind_fails ret_fails dest!: pool_select_fails intro: lookup_failures_intros)

lemma with_items_all_fails: "with_items_all os e w = (Inl er, w') \<Longrightarrow> er \<in> lookup_failures"
  by (induction os arbitrary: w) (auto simp: bind_fails ret_fails dest: with_items_fails)

lemma with_items_all_length: "with_items_all os e w = (Inr xs, w') \<Longrightarrow> length xs = length os"
  by (induction os arbitrary: w xs) (auto simp: run_ok)

lemma GetOrderByID_fails:
  assumes "GetOrderByID i e w = (Inl er, w')" and "find_order i (tabs w) \<noteq> None"
  shows "er \<in> lookup_failures"
  using assms unfolding GetOrderByID_def bind_fails
  by (auto simp: run_ok dest!: pool_select_fails dest: with_items_fails intro: lookup_failures_intros)

lemma GetOrderByID_fails_after:
  "with_items_all os e w1 = (Inr xs, w2) \<Longrightarrow> GetOrderByID i e w2 = (Inl er, w') \<Longrightarrow> find_order i (tabs w1) = Some o1
   \<Longrightarrow> er \<in> lookup_failures"
  using GetOrderByID_fails [of i e w2 er w'] by (auto dest: read_onlyD [OF with_items_all_read_only])

lemma key_taken:
  assumes "Some k \<in> ord_idem_key ` set (orders (tabs w))" and run: "GetOrdersByIdempotencyKey k e w = (r, w')"
  shows "(\<exists>os. r = Inr os \<and> os \<noteq> []) \<or> (\<exists>er. r = Inl er \<and> er \<in> lookup_failures)"
proof -
  let ?find = "\<lambda>t. find (\<lambda>o1. ord_idem_key o1 = Some k) (orders t)"
  obtain o1 where o1: "?find (tabs w) = Some o1"
    using assms(1) by (cases "?find (tabs w)") (auto simp: find_None_iff)
  then have mem: "o1 \<in> set (orders (tabs w))" using find_Some_in by metis
  have row: "find_order (ord_id o1) (tabs w) \<noteq> None" using mem by (auto simp: find_order_def find_None_iff)
  show ?thesis
  proof (cases r)
    case (Inl er)
    have "er \<in> lookup_failures"
      using run [unfolded Inl GetOrdersByIdempotencyKey_def bind_fails] o1 row
      by (auto simp: run_ok bind_fails ret_fails split: option.splits if_splits intro: lookup_failures_intros
          dest!: pool_select_fails dest: with_items_all_fails GetOrderByID_fails GetOrderByID_fails_after)
    with Inl show ?thesis by blast
  next
    case (Inr os)
    with run o1 have "os \<noteq> []"
      unfolding GetOrdersByIdempotencyKey_def by (auto simp: run_ok split: if_splits)
    with Inr show ?thesis by blast
  qed
qed

text \<open>The orders recorded under a key: those of the same checkout, with their items.\<close>

definition loaded :: "f64 order_tables \<Rightarrow> f64 Order \<Rightarrow> f64 Order" where
  "loaded t o1 = o1\<lparr>ord_items := filter (\<lambda>it. oi_order it = ord_id o1) (items t)\<rparr>"

definition recorded_orders :: "string \<Rightarrow> f64 order_tables \<Rightarrow> f64 Order list" where
  "recorded_orders k t =
     (case find (\<lambda>o1. ord_idem_key o1 = Some k) (orders t) of
        None \<Rightarrow> []
      | Some o1 \<Rightarrow>
          let siblings = (case nonempty (ord_parent o1) of
                None \<Rightarrow> [] | Some parent \<Rightarrow> sort_key ord_created (filter (\<lambda>q. ord_parent q = Some parent) (orders t))) in
          map (loaded t) (if siblings \<noteq> [] then siblings
            else case find_order (ord_id o1) t of None \<Rightarrow> [] | Some o2 \<Rightarrow> [o2]))"

lemma with_items_loaded: "with_items o1 e w = (Inr x, w') \<Longrightarrow> x = loaded (tabs w) o1 \<and> tabs w' = tabs w"
  by (auto simp: with_items_def getItemsByOrderID_def loaded_def run_ok)

lemma with_items_all_loaded:
  "with_items_all os e w = (Inr xs, w') \<Longrightarrow> xs = map (loaded (tabs w)) os \<and> tabs w' = tabs w"
proof (induction os arbitrary: w xs)
  case (Cons o1 os)
  from Cons.prems obtain x w1 rest where x: "with_items o1 e w = (Inr x, w1)"
    and rest: "with_items_all os e w1 = (Inr rest, w')" "xs = x # rest"
    by (auto simp: run_ok)
  from with_items_loaded [OF x] Cons.IH [OF rest(1)] rest(2) show ?case by simp
qed (simp add: run_ok)

lemma GetOrderByID_loaded:
  "GetOrderByID i e w = (Inr x, w') \<Longrightarrow> \<exists>o1. find_order i (tabs w) = Some o1 \<and> x = loaded (tabs w) o1"
  by (auto simp: GetOrderByID_def run_ok dest!: with_items_loaded split: option.splits)

lemma lookup_recorded:
  assumes "GetOrdersByIdempotencyKey k e w = (Inr os, w')"
  shows "os = recorded_orders k (tabs w)"
proof -
  let ?t = "tabs w"
  let ?under = "\<lambda>o1. case nonempty (ord_parent o1) of None \<Rightarrow> ret [] | Some parent \<Rightarrow>
        bind (on_error (pool_sql (select (\<lambda>t. sort_key ord_created (filter (\<lambda>q. ord_parent q = Some parent) (orders t)))))
          (WrapError ''failed to query orders by parent_order_id: '')) with_items_all"
  let ?rest = "\<lambda>o1 xs. if xs \<noteq> [] then ret xs else bind (GetOrderByID (ord_id o1)) (\<lambda>single. ret [single])"
  from assms [unfolded GetOrdersByIdempotencyKey_def bind_ok [where m = "on_error m f" for m f]]
  obtain found w1 where found: "on_error (pool_sql (select (\<lambda>t. find (\<lambda>o1. ord_idem_key o1 = Some k) (orders t))))
        (WrapError ''failed to query order by idempotency key: '') e w = (Inr found, w1)"
    and step: "(case found of None \<Rightarrow> raise ErrOrderNotFound | Some o1 \<Rightarrow> bind (?under o1) (?rest o1)) e w1 = (Inr os, w')"
    by blast
  from step obtain o1 where "found = Some o1" and run: "bind (?under o1) (?rest o1) e w1 = (Inr os, w')"
    by (cases found) (simp_all add: raise_def)
  with found have o1: "find (\<lambda>o1. ord_idem_key o1 = Some k) (orders ?t) = Some o1" "tabs w1 = ?t" by (auto simp: run_ok)
  obtain xs w2 where xs: "?under o1 e w1 = (Inr xs, w2)" and rest: "?rest o1 xs e w2 = (Inr os, w')"
    using run unfolding bind_ok [of "?under o1"] by blast
  let ?siblings = "case nonempty (ord_parent o1) of None \<Rightarrow> [] | Some parent \<Rightarrow>
    sort_key ord_created (filter (\<lambda>q. ord_parent q = Some parent) (orders ?t))"
  have sib: "xs = map (loaded ?t) ?siblings \<and> tabs w2 = ?t"
    using xs o1(2) by (auto simp: run_ok split: option.splits dest!: with_items_all_loaded)
  show ?thesis
  proof (cases "xs = []")
    case True
    with rest obtain x where "GetOrderByID (ord_id o1) e w2 = (Inr x, w')" "os = [x]" by (auto simp: run_ok)
    with GetOrderByID_loaded [of "ord_id o1" e w2 x w'] True sib o1(1) show ?thesis
      by (auto simp: recorded_orders_def Let_def)
  next
    case False
    with rest have "os = xs" by (simp add: run_ok)
    with False sib o1(1) show ?thesis by (simp add: recorded_orders_def Let_def)
  qed
qed

text \<open>No query fails without a failing statement.\<close>

lemma pool_select_runs:
  "fault_free e \<Longrightarrow> \<exists>w2. on_error (pool_sql (select q)) g e w = (Inr (q (tabs w)), w2) \<and> tabs w2 = tabs w"
  by (simp add: db_simps Let_def)

lemma with_items_all_runs:
  assumes "fault_free e"
  shows "\<exists>w2. with_items_all os e w = (Inr (map (loaded (tabs w)) os), w2) \<and> tabs w2 = tabs w"
proof (induction os arbitrary: w)
  case (Cons o1 os)
  let ?w = "w\<lparr>nstmt := Suc (nstmt w)\<rparr>"
  have "with_items o1 e w = (Inr (loaded (tabs w) o1), ?w)"
    using assms by (simp add: with_items_def getItemsByOrderID_def loaded_def db_simps Let_def)
  moreover obtain w2 where "with_items_all os e ?w = (Inr (map (loaded (tabs w)) os), w2)" "tabs w2 = tabs w"
    using Cons.IH [of ?w] by auto
  ultimately show ?case by (simp add: bind_def ret_def)
qed (simp add: ret_def)

lemma order_by_id_runs:
  assumes "fault_free e" and "find_order i (tabs w) = Some o1"
  shows "\<exists>x w2. GetOrderByID i e w = (Inr x, w2)"
  using assms by (simp add: GetOrderByID_def with_items_def getItemsByOrderID_def db_simps Let_def)

lemma lookup_fault_free:
  assumes ff: "fault_free e" and k: "Some k \<in> ord_idem_key ` set (orders (tabs w))"
  shows "\<exists>w'. GetOrdersByIdempotencyKey k e w = (Inr (recorded_orders k (tabs w)), w')"
proof -
  let ?find = "\<lambda>t. find (\<lambda>o1. ord_idem_key o1 = Some k) (orders t)"
  let ?under = "\<lambda>o1. case nonempty (ord_parent o1) of None \<Rightarrow> ret [] | Some parent \<Rightarrow>
        bind (on_error (pool_sql (select (\<lambda>t. sort_key ord_created (filter (\<lambda>q. ord_parent q = Some parent) (orders t)))))
          (WrapError ''failed to query orders by parent_order_id: '')) with_items_all"
  let ?rest = "\<lambda>o1 xs. if xs \<noteq> [] then ret xs else bind (GetOrderByID (ord_id o1)) (\<lambda>single. ret [single])"
  obtain o1 where o1: "?find (tabs w) = Some o1"
    using k by (cases "?find (tabs w)") (auto simp: find_None_iff)
  then have known: "\<exists>o2. find_order (ord_id o1) (tabs w) = Some o2"
    using find_Some_in [OF o1] by (auto simp: find_order_def find_None_iff simp flip: not_None_eq)
  obtain w1 where w1: "on_error (pool_sql (select ?find)) (WrapError ''failed to query order by idempotency key: '') e w =
      (Inr (Some o1), w1)" "tabs w1 = tabs w"
    using pool_select_runs [OF ff, of ?find "WrapError ''failed to query order by idempotency key: ''" w] unfolding o1 by blast
  have "\<exists>xs w2. ?under o1 e w1 = (Inr xs, w2) \<and> tabs w2 = tabs w"
  proof (cases "nonempty (ord_parent o1)")
    case None
    then show ?thesis using w1(2) by (simp add: ret_def)
  next
    case (Some parent)
    let ?q = "\<lambda>t. sort_key ord_created (filter (\<lambda>q. ord_parent q = Some parent) (orders t))"
    obtain w2 where "on_error (pool_sql (select ?q)) (WrapError ''failed to query orders by parent_order_id: '') e w1 =
        (Inr (?q (tabs w1)), w2)" "tabs w2 = tabs w1"
      using pool_select_runs [OF ff, of ?q "WrapError ''failed to query orders by parent_order_id: ''" w1] by blast
    with with_items_all_runs [OF ff, of "?q (tabs w1)" w2] Some w1(2) show ?thesis by (auto simp: bind_def)
  qed
  then obtain xs w2 where xs: "?under o1 e w1 = (Inr xs, w2)" "tabs w2 = tabs w" by blast
  have "\<exists>os w3. ?rest o1 xs e w2 = (Inr os, w3)"
    using known order_by_id_runs [OF ff, of "ord_id o1" w2] xs(2) by (auto simp: bind_def ret_def)
  then obtain os w3 where "?rest o1 xs e w2 = (Inr os, w3)" by blast
  then have "GetOrdersByIdempotencyKey k e w = (Inr os, w3)"
    unfolding GetOrdersByIdempotencyKey_def using w1(1) xs(1) by (simp add: bind_def)
  with lookup_recorded show ?thesis by blast
qed

text \<open>
  C17. One checkout per idempotency key: once an order carries the key, a further request with
  it changes no table and clears no cart, whatever fails, and answers with an error or with the
  orders recorded under the key, which are the user's. While no statement fails it does answer
  with them, to a well-formed request of the user they belong to.
\<close>

theorem checkout_once_per_key:
  assumes "Some (TrimSpace (co_key input)) \<in> ord_idem_key ` set (orders (tabs w))"
    and "CreateOrder S input e w = (r, w')"
  shows "tabs w' = tabs w \<and>
    (\<forall>res cl. r = Inr (res, cl) \<longrightarrow> cl = None \<and>
       rs_orders res = recorded_orders (TrimSpace (co_key input)) (tabs w) \<and>
       rs_primary res = Some (hd (rs_orders res)) \<and> ord_user (hd (rs_orders res)) = TrimSpace (co_user input)) \<and>
    (fault_free e \<and> \<not> blank (co_user input) \<and> ck_parse_uuid S (TrimSpace (co_user input)) \<and> \<not> blank (co_key input) \<and>
       ord_user (hd (recorded_orders (TrimSpace (co_key input)) (tabs w))) = TrimSpace (co_user input) \<longrightarrow>
     (\<exists>res. r = Inr (res, None)))"
proof (cases "\<not> blank (co_user input) \<and> ck_parse_uuid S (TrimSpace (co_user input)) \<and> \<not> blank (co_key input)")
  case False
  with assms(2) show ?thesis
    unfolding CreateOrder_def by (auto simp: seq_def bind_def require_def ret_def raise_def split: if_splits)
next
  case True
  obtain x w1 where x: "GetOrdersByIdempotencyKey (TrimSpace (co_key input)) e w = (x, w1)" by fastforce
  have same: "tabs w1 = tabs w" using read_onlyD [OF lookup_key_reads x] .
  from key_taken [OF assms(1) x] consider os where "x = Inr os" "os \<noteq> []" | er where "x = Inl er" "er \<in> lookup_failures"
    by blast
  then show ?thesis
  proof cases
    case 1
    have os: "os = recorded_orders (TrimSpace (co_key input)) (tabs w)" using lookup_recorded x 1(1) by blast
    from 1 True assms(2) x have "call (existing_checkout input os) e w1 = (map_sum id fst r, w')"
      "\<forall>res cl. r = Inr (res, cl) \<longrightarrow> cl = None"
      unfolding CreateOrder_def
      by (auto simp: seq_def bind_def require_def ret_def raise_def attempt_def call_def split: sum.splits)
    with os same show ?thesis
      by (cases r) (auto simp: existing_checkout_def call_def ret_def raise_def Let_def split: if_splits)
  next
    case 2
    have "\<not> fault_free e"
    proof
      assume "fault_free e"
      from lookup_fault_free [OF this assms(1)] x 2(1) show False by simp
    qed
    with 2 True assms(2) x same lookup_failures_text [OF 2(2), of "ck_lib S"] show ?thesis
      unfolding CreateOrder_def
      by (auto simp: seq_def bind_def require_def ret_def raise_def attempt_def)
  qed
qed

text \<open>A service that knows three products of two stores.\<close>

definition shop_lib :: "f64 order_lib" where
  "shop_lib = \<lparr>uuid_col = (\<lambda>s. s \<noteq> [] \<and> s \<noteq> ''default-store''), decimal = Some, json_valid = (\<lambda>_. True),
     json_address = (\<lambda>s. s), order_grpc = \<lparr>from_error = (\<lambda>_. None), status_text = (\<lambda>_ m. m)\<rparr>\<rparr>"

definition shop_product :: "string \<Rightarrow> ProductPb" where
  "shop_product i = \<lparr>pb_status = ''active'', pb_price = Fin 5, pb_sku = [], pb_name = i,
     pb_store = (if i = ''product1'' \<or> i = ''product3'' then ''s1'' else if i = ''product2'' then ''s2'' else []), pb_tax = Fin 0\<rparr>"

definition shop :: checkout_svc where
  "shop = \<lparr>ck_lib = shop_lib, ck_parse_uuid = (\<lambda>s. s \<noteq> []), ck_quote = (\<lambda>s. s),
     cart_get = Some (\<lambda>_. Inr None), cart_clear = (\<lambda>_. None),
     product_get = Some (\<lambda>i. Inr (Some (shop_product i))), stock_get = Some (\<lambda>_. Inr (Some 10)),
     map_order = rev, date_part = (\<lambda>_. ''20250101''), rand_int = int,
     ctx_correlation = [], ctx_request = [], ctx_trace = None\<rparr>"

definition shop_input :: "string list \<Rightarrow> CreateOrderInput" where
  "shop_input ps = \<lparr>co_user = ''u1'', co_cart = [], co_address = ''street'', co_address_id = [], co_billing_id = [],
     co_currency = ''inr'', co_key = ''k1'', co_shipping_fee = fzero, co_discount = fzero,
     co_items = map (\<lambda>i. \<lparr>ci_product = i, ci_store = [], ci_quantity = 2, ci_unit_price = fzero\<rparr>) ps\<rparr>"

definition shop_env :: env where
  "shop_env = \<lparr>fault = (\<lambda>_. False), uuid_at = (\<lambda>n. ''id-'' @ nat_str n), clock = 7, broker = (\<lambda>_. Acked),
     ctx_done = (\<lambda>_. False)\<rparr>"

definition shop_world :: "f64 order_tables \<Rightarrow> f64 order_tables world" where
  "shop_world t = \<lparr>tabs = t, aborted = False, nstmt = 0, nuuid = 0, nsend = 0, sent = []\<rparr>"

definition shop_empty :: "f64 order_tables" where
  "shop_empty = \<lparr>orders = [], items = [], history = [], order_outbox = \<lparr>ob_rows = [], ob_wide = True\<rparr>\<rparr>"

definition shop_run :: "(go_error + CreateOrderResult \<times> (string \<times> go_error option) option) \<times> f64 order_tables world" where
  "shop_run = CreateOrder shop (shop_input [''product1'', ''product2'', ''product3'']) shop_env (shop_world shop_empty)"

lemma shop_run_eval:
  "map (\<lambda>o1. (ord_store o1, ord_idem_key o1)) (orders (tabs (snd shop_run))) = [(''s1'', Some ''k1''), (''s2'', None)]"
  "\<not> isl (fst shop_run)"
  by code_simp+

theorem checkout_once_per_key_witness:
  "\<exists>res w'. CreateOrder shop (shop_input [''product2'']) shop_env (shop_world (tabs (snd shop_run))) = (Inr (res, None), w') \<and>
     tabs w' = tabs (snd shop_run) \<and> rs_orders res = recorded_orders ''k1'' (tabs (snd shop_run))"
proof -
  let ?t = "tabs (snd shop_run)" and ?input = "shop_input [''product2'']"
  have "map ord_idem_key (orders ?t) = map snd [(''s1'', Some ''k1''), (''s2'', None)]"
    unfolding shop_run_eval(1) [symmetric] by simp
  then have "Some ''k1'' \<in> set (map ord_idem_key (orders ?t))" by simp
  moreover have key: "TrimSpace (co_key ?input) = ''k1''" by code_simp
  ultimately have taken: "Some (TrimSpace (co_key ?input)) \<in> ord_idem_key ` set (orders (tabs (shop_world ?t)))"
    by (simp add: shop_world_def)
  have "\<not> blank (co_user ?input) \<and> ck_parse_uuid shop (TrimSpace (co_user ?input)) \<and> \<not> blank (co_key ?input)"
    "TrimSpace (co_user ?input) = ''u1''" by code_simp+
  moreover have "ord_user (hd (recorded_orders ''k1'' ?t)) = ''u1''" by code_simp
  moreover have "fault_free shop_env" by (simp add: fault_free_def shop_env_def)
  moreover obtain r w' where run: "CreateOrder shop ?input shop_env (shop_world ?t) = (r, w')" by fastforce
  ultimately obtain res where r: "r = Inr (res, None)" "tabs w' = tabs (shop_world ?t)"
    using checkout_once_per_key [OF taken run] unfolding key by (auto simp: shop_world_def)
  then have "rs_orders res = recorded_orders ''k1'' (tabs (shop_world ?t))"
    using checkout_once_per_key [OF taken run] unfolding key by simp
  with r run show ?thesis by (auto simp: shop_world_def)
qed




text \<open>
  An item for which neither the request nor the product names a store makes the whole
  checkout fail: it is booked on \<open>default-store\<close>, which the column of type \<open>UUID\<close> refuses.
\<close>

theorem storeless_item_fails:
  assumes "\<not> uuid_col (ck_lib S) ''default-store''" and perm: "\<And>xs. mset (map_order S xs) = mset xs"
    and "fetchCheckoutItems S input = Inr raw" and "enrich_all S raw = Inr es" and "''default-store'' \<in> ei_store ` set es"
    and run: "new_checkout S input e w = (r, w')"
  shows "(\<exists>er. r = Inl er) \<and> tabs w' = tabs w"
proof (cases r)
  case (Inl er)
  with run atomicD [OF new_checkout_atomic] show ?thesis by auto
next
  case (Inr y)
  obtain res cl where y: "y = (res, cl)" by fastforce
  from run [unfolded Inr y] obtain raw1 es1 made w1 w2 where raw1: "fetchCheckoutItems S input = Inr raw1" "enrich_all S raw1 = Inr es1"
    and made: "list_all2 (order_for input (length (stores_of es1)) es1) (map_order S (stores_of es1)) made"
    and create: "CreateOrdersWithOutbox (ck_lib S) (map fst made) (map snd made) ''gocart.order.order-created'' e w1 = (Inr (), w2)"
    by (rule new_checkout_run)
  have "set (map_order S (stores_of es)) = ei_store ` set es" by (rule stores_cover [OF perm])
  then have "''default-store'' \<in> set (map (\<lambda>m. ord_store (fst m)) made)"
    using order_lines(2) [OF made] raw1 assms(3-5) by simp
  then have "''default-store'' \<in> ord_store ` set (map fst made)" by (simp add: image_image)
  then obtain o1 where o1: "''default-store'' = ord_store o1" "o1 \<in> set (map fst made)" by (rule imageE)
  have "uuid_col (ck_lib S) (ord_store o1)" using stored_columns [OF create o1(2)] by (simp add: order_columns_ok_def)
  then show ?thesis using assms(1) unfolding o1(1) [symmetric] by simp
qed

theorem storeless_item_fails_witness:
  "(\<exists>er. fst (new_checkout shop (shop_input [''product9'']) shop_env (shop_world shop_empty)) = Inl er) \<and>
   tabs (snd (new_checkout shop (shop_input [''product9'']) shop_env (shop_world shop_empty))) = shop_empty"
proof -
  let ?it = "\<lparr>ck_product = ''product9'', ck_store = [], ck_quantity = 2\<rparr>"
  have "isl (enrich shop ?it) = False" by code_simp
  moreover have "ei_store (projr (enrich shop ?it)) = ''default-store''" by code_simp
  ultimately obtain es where es: "enrich_all shop [?it] = Inr es" "''default-store'' \<in> ei_store ` set es"
    by (cases "enrich shop ?it") auto
  have "\<not> uuid_col (ck_lib shop) ''default-store''" "mset (map_order shop xs) = mset xs" for xs
    by (simp_all add: shop_def shop_lib_def)
  moreover have "fetchCheckoutItems shop (shop_input [''product9'']) = Inr [?it]" by (simp add: fetchCheckoutItems_def shop_input_def)
  ultimately show ?thesis
    using storeless_item_fails [OF _ _ _ es prod.collapse [symmetric]] by (simp add: shop_world_def)
qed

end
