(* ===== verification/Life_Cycles.thy ===== *)
theory Life_Cycles
  imports Status_Machine
begin

text \<open>
  The life cycles of payments, merchants, products, deliveries, returns and exchanges: the
  transition tables and the functions that consult them, each an instance of the locale
  \<open>status_machine\<close> (of \<open>forward_machine\<close> where the table only moves forward), and what
  holds along every sequence of accepted changes.
\<close>

definition normalize_status :: "status \<Rightarrow> status" where
  "normalize_status s = ToUpper (TrimSpace s)"

section \<open>Payments\<close>

text \<open>\<open>services/payment-service/internal/model\<close>: \<open>payment.go\<close>, \<open>state_machine.go\<close>.\<close>

definition NormalizePaymentMethod :: "string \<Rightarrow> string" where
  "NormalizePaymentMethod rawMethod =
     (let cleaned = ToUpper (TrimSpace rawMethod) in
      if cleaned \<in> set [''NETBANKING'', ''NET_BANKING'', ''NETBANK'', ''BANK_TRANSFER'', ''NB''] then ''NET_BANKING''
      else if cleaned \<in> set [''CARD'', ''CREDIT_CARD'', ''CREDITCARD''] then ''CREDIT_CARD''
      else if cleaned \<in> set [''DEBIT_CARD'', ''DEBITCARD''] then ''DEBIT_CARD''
      else if cleaned = ''UPI'' then ''UPI''
      else if cleaned = ''PAYPAL'' then ''PAYPAL''
      else if cleaned = ''MOCK'' then ''MOCK''
      else if cleaned = ''WALLET'' then ''WALLET''
      else if cleaned = ''EMI'' then ''EMI''
      else if cleaned \<noteq> [] then cleaned
      else ''CREDIT_CARD'')"

definition payment_statuses :: "status list" where
  "payment_statuses = [''INITIATED'', ''PENDING'', ''SUCCESS'', ''FAILED'', ''CANCELLED'', ''REFUND_PENDING'',
     ''PARTIALLY_REFUNDED'', ''REFUNDED'']"

definition allowedPaymentTransitions :: transitions where
  "allowedPaymentTransitions =
     [(''INITIATED'', [''PENDING'', ''SUCCESS'', ''FAILED'', ''CANCELLED'']),
      (''PENDING'', [''SUCCESS'', ''FAILED'', ''CANCELLED'']),
      (''SUCCESS'', [''REFUND_PENDING'', ''PARTIALLY_REFUNDED'', ''REFUNDED'']),
      (''REFUND_PENDING'', [''SUCCESS'', ''PARTIALLY_REFUNDED'', ''REFUNDED'']),
      (''PARTIALLY_REFUNDED'', [''REFUND_PENDING'', ''PARTIALLY_REFUNDED'', ''REFUNDED'']),
      (''FAILED'', []), (''CANCELLED'', []), (''REFUNDED'', [])]"

definition CanTransitionPayment :: "status \<Rightarrow> status \<Rightarrow> bool" where
  "CanTransitionPayment from to' =
     (if from = to' then False else allowed_in allowedPaymentTransitions from to')"

definition IsTerminalPaymentStatus :: "status \<Rightarrow> bool" where
  "IsTerminalPaymentStatus s \<longleftrightarrow> s \<in> set [''SUCCESS'', ''FAILED'', ''CANCELLED'', ''REFUNDED'']"

interpretation payment_life: status_machine allowedPaymentTransitions payment_statuses
  by unfold_locales code_simp

section \<open>Merchants\<close>

text \<open>
  \<open>services/merchant-service/internal/model\<close>: \<open>merchant.go\<close>, \<open>lifecycle.go\<close>,
  \<open>state_machine.go\<close>. \<open>Validate\<close> returns \<^const>\<open>None\<close> for Go's \<open>nil\<close>.
\<close>

definition merchant_statuses :: "status list" where
  "merchant_statuses = [''PENDING'', ''APPROVED'', ''REJECTED'', ''SUSPENDED'', ''ACTIVE'', ''INACTIVE'',
     ''PENDING_REVIEW'', ''TERMINATED'']"

definition merchant_transitions :: transitions where
  "merchant_transitions =
     [(''PENDING'', [''APPROVED'', ''REJECTED'', ''ACTIVE'']),
      (''PENDING_REVIEW'', [''ACTIVE'', ''REJECTED'']),
      (''INACTIVE'', [''ACTIVE'']),
      (''APPROVED'', [''SUSPENDED'', ''ACTIVE'']),
      (''ACTIVE'', [''SUSPENDED'', ''INACTIVE'', ''TERMINATED'']),
      (''SUSPENDED'', [''ACTIVE'', ''PENDING'', ''TERMINATED'']),
      (''REJECTED'', []), (''TERMINATED'', [])]"

record InvalidStateTransitionError =
  ite_from :: status
  ite_to :: status
  ite_allowed :: "status list"

definition FormatAllowedTargets :: "status list \<Rightarrow> string" where
  "FormatAllowedTargets targets =
     (if targets = [] then ''[]''
      else ''['' @ Join (map (\<lambda>t. [CHR 0x27] @ t @ [CHR 0x27]) targets) '', '' @ '']'')"

definition transition_text :: "string \<Rightarrow> InvalidStateTransitionError \<Rightarrow> string" where
  "transition_text what er =
     ''Cannot transition '' @ what @ '' from '' @ [CHR 0x27] @ ite_from er @ [CHR 0x27] @ '' to '' @ [CHR 0x27] @
     ite_to er @ [CHR 0x27] @ ''. Allowed targets: '' @ FormatAllowedTargets (ite_allowed er) @ ''.''"

definition Validate_merchant :: "status \<Rightarrow> status \<Rightarrow> InvalidStateTransitionError option" where
  "Validate_merchant from to' =
     (case map_of merchant_transitions from of
        None \<Rightarrow> Some \<lparr>ite_from = from, ite_to = to', ite_allowed = []\<rparr>
      | Some targets \<Rightarrow>
          if to' \<in> set targets then None else Some \<lparr>ite_from = from, ite_to = to', ite_allowed = targets\<rparr>)"

definition AllowedTargets_merchant :: "status \<Rightarrow> status list" where
  "AllowedTargets_merchant from = targets_of merchant_transitions from"

definition IsValidStatus_merchant :: "status \<Rightarrow> bool" where
  "IsValidStatus_merchant s \<longleftrightarrow> normalize_status s \<in> set merchant_statuses"

definition lifecycle_conflict :: "string \<Rightarrow> status \<Rightarrow> string \<Rightarrow> go_error + status" where
  "lifecycle_conflict a cur b = Inl (Conflict (a @ [CHR 0x27] @ cur @ [CHR 0x27] @ b))"

definition ValidateLifecycleTransition :: "string \<Rightarrow> status \<Rightarrow> go_error + status" where
  "ValidateLifecycleTransition action currentStatus =
     (let cur = normalize_status currentStatus in
      if action = ''ACTIVATE'' then
        (if cur = ''ACTIVE'' then Inl (Conflict ''merchant is already active'')
         else if cur = ''TERMINATED'' then Inl (Conflict ''cannot activate a terminated merchant'')
         else if cur = ''SUSPENDED'' then Inl (Conflict ''suspended merchant must be reactivated, not activated'')
         else if cur \<in> set [''PENDING'', ''PENDING_REVIEW'', ''INACTIVE'', ''APPROVED''] then Inr ''ACTIVE''
         else lifecycle_conflict ''cannot activate merchant from status '' cur [])
      else if action = ''SUSPEND'' then
        (if cur = ''SUSPENDED'' then Inl (Conflict ''merchant is already suspended'')
         else if cur = ''TERMINATED'' then Inl (Conflict ''cannot suspend a terminated merchant'')
         else if cur = ''ACTIVE'' \<or> cur = ''APPROVED'' then Inr ''SUSPENDED''
         else lifecycle_conflict ''cannot suspend merchant from status '' cur
           ''; only active merchants can be suspended'')
      else if action = ''REACTIVATE'' then
        (if cur = ''ACTIVE'' then Inl (Conflict ''merchant is already active'')
         else if cur = ''TERMINATED'' then Inl (Conflict ''cannot reactivate a terminated merchant'')
         else if cur = ''SUSPENDED'' then Inr ''ACTIVE''
         else lifecycle_conflict ''merchant is not suspended (current status: '' cur '')'')
      else Inl (BadRequest (''unsupported lifecycle action: '' @ action)))"

interpretation merchant_life: status_machine merchant_transitions merchant_statuses
  by unfold_locales code_simp

lemma Validate_merchant_iff: "Validate_merchant a b = None \<longleftrightarrow> allowed_in merchant_transitions a b"
  by (simp add: Validate_merchant_def allowed_in_def split: option.split)

section \<open>Products\<close>

text \<open>
  \<open>contracts/protobuf/product/status.go\<close> and
  \<open>services/product-service/internal/model/state_machine.go\<close>.
\<close>

definition product_statuses :: "status list" where
  "product_statuses = [''DRAFT'', ''PENDING_REVIEW'', ''PUBLISHED'', ''UNPUBLISHED'', ''SUSPENDED'', ''DELETED'',
     ''IN_STOCK'', ''OUT_OF_STOCK'', ''LOW_STOCK'', ''RESERVED'', ''DISCONTINUED'']"

definition product_transitions :: transitions where
  "product_transitions =
     [(''DRAFT'', [''PENDING_REVIEW'', ''DELETED'']),
      (''PENDING_REVIEW'', [''PUBLISHED'', ''UNPUBLISHED'', ''SUSPENDED'', ''DELETED'', ''DRAFT'']),
      (''PUBLISHED'', [''UNPUBLISHED'', ''SUSPENDED'', ''DELETED'']),
      (''UNPUBLISHED'', [''PENDING_REVIEW'', ''PUBLISHED'', ''SUSPENDED'', ''DELETED'', ''DRAFT'']),
      (''SUSPENDED'', [''PENDING_REVIEW'', ''UNPUBLISHED'', ''PUBLISHED'', ''DELETED'']),
      (''DELETED'', []),
      (''IN_STOCK'', [''DRAFT'', ''PENDING_REVIEW'', ''PUBLISHED'', ''UNPUBLISHED'', ''SUSPENDED'', ''DELETED'']),
      (''OUT_OF_STOCK'', [''DRAFT'', ''PENDING_REVIEW'', ''PUBLISHED'', ''UNPUBLISHED'', ''SUSPENDED'', ''DELETED'']),
      (''LOW_STOCK'', [''DRAFT'', ''PENDING_REVIEW'', ''PUBLISHED'', ''UNPUBLISHED'', ''SUSPENDED'', ''DELETED'']),
      (''RESERVED'', [''DRAFT'', ''PENDING_REVIEW'', ''PUBLISHED'', ''UNPUBLISHED'', ''SUSPENDED'', ''DELETED'']),
      (''DISCONTINUED'', [''DRAFT'', ''PENDING_REVIEW'', ''PUBLISHED'', ''UNPUBLISHED'', ''SUSPENDED'', ''DELETED''])]"

definition ProductStatus_IsValid :: "status \<Rightarrow> bool" where
  "ProductStatus_IsValid s \<longleftrightarrow> s \<in> set product_statuses"

definition Validate_product :: "status \<Rightarrow> status \<Rightarrow> go_error option" where
  "Validate_product from to' =
     (if from = to' then None
      else case map_of product_transitions from of
        None \<Rightarrow> Some (Conflict (transition_text ''product'' \<lparr>ite_from = from, ite_to = to', ite_allowed = []\<rparr>))
      | Some targets \<Rightarrow>
          if to' \<in> set targets then None
          else Some (Conflict (transition_text ''product''
            \<lparr>ite_from = from, ite_to = to', ite_allowed = targets\<rparr>)))"

definition AllowedTargets_product :: "status \<Rightarrow> status list" where
  "AllowedTargets_product from = targets_of product_transitions from"

interpretation product_life: status_machine product_transitions product_statuses
  by unfold_locales code_simp

lemma Validate_product_iff:
  "Validate_product a b = None \<longleftrightarrow> a = b \<or> allowed_in product_transitions a b"
  by (simp add: Validate_product_def allowed_in_def split: option.split)

section \<open>Deliveries\<close>

text \<open>\<open>services/delivery-service/internal/model/delivery.go\<close>.\<close>

definition delivery_statuses :: "status list" where
  "delivery_statuses = [''CREATED'', ''PICKED_UP'', ''IN_TRANSIT'', ''OUT_FOR_DELIVERY'', ''DELIVERED'', ''FAILED'',
     ''CANCELLED'']"

definition AllowedTransitions :: transitions where
  "AllowedTransitions =
     [(''CREATED'', [''PICKED_UP'', ''CANCELLED'', ''FAILED'']),
      (''PICKED_UP'', [''IN_TRANSIT'', ''FAILED'']),
      (''IN_TRANSIT'', [''OUT_FOR_DELIVERY'', ''FAILED'']),
      (''OUT_FOR_DELIVERY'', [''DELIVERED'', ''FAILED'']),
      (''DELIVERED'', []), (''FAILED'', []), (''CANCELLED'', [])]"

definition IsValidStatus_delivery :: "status \<Rightarrow> bool" where
  "IsValidStatus_delivery s \<longleftrightarrow> normalize_status s \<in> set delivery_statuses"

record delivery_transition_error =
  dte_current :: status
  dte_target :: status
  dte_message :: string

definition delivery_error_text :: "delivery_transition_error \<Rightarrow> string" where
  "delivery_error_text er =
     (if dte_message er \<noteq> [] then dte_message er
      else ''invalid delivery state transition from '' @ dte_current er @ '' to '' @ dte_target er)"

definition delivery_ToAppError :: "delivery_transition_error \<Rightarrow> go_error" where
  "delivery_ToAppError er = New CodeUnprocessableEntity (delivery_error_text er) 422"

definition TransitionStatus :: "status \<Rightarrow> status \<Rightarrow> delivery_transition_error option" where
  "TransitionStatus currentStatus targetStatus =
     (let current = normalize_status currentStatus; target = normalize_status targetStatus in
      if current = target then None
      else case map_of AllowedTransitions current of
        None \<Rightarrow> Some \<lparr>dte_current = current, dte_target = target,
          dte_message = ''unknown or invalid current status: '' @ current\<rparr>
      | Some allowed \<Rightarrow>
          if allowed = [] then Some \<lparr>dte_current = current, dte_target = target,
            dte_message = ''cannot transition from terminal state '' @ current @ '' to '' @ target\<rparr>
          else if target \<in> set allowed then None
          else Some \<lparr>dte_current = current, dte_target = target,
            dte_message = ''invalid delivery state transition from '' @ current @ '' to '' @ target\<rparr>)"

definition delivery_rank :: "status \<Rightarrow> nat" where
  "delivery_rank s = (case map_of [(''CREATED'', 0), (''PICKED_UP'', 1), (''IN_TRANSIT'', 2),
     (''OUT_FOR_DELIVERY'', 3), (''DELIVERED'', 4), (''FAILED'', 4), (''CANCELLED'', 4)] s of
       None \<Rightarrow> 0 | Some n \<Rightarrow> n)"

interpretation delivery_life: forward_machine AllowedTransitions delivery_statuses delivery_rank 4
  by unfold_locales code_simp+

lemma TransitionStatus_iff:
  "TransitionStatus a b = None \<longleftrightarrow> normalize_status a = normalize_status b \<or>
     allowed_in AllowedTransitions (normalize_status a) (normalize_status b)"
  by (simp add: TransitionStatus_def Let_def allowed_in_def split: option.split)

section \<open>Returns and exchanges\<close>

text \<open>\<open>services/return-service/internal/model\<close>: \<open>return.go\<close>, \<open>exchange.go\<close>.\<close>

definition ReturnType_IsValid :: "string \<Rightarrow> bool" where
  "ReturnType_IsValid t \<longleftrightarrow> t \<in> set [''RETURN'', ''REPLACEMENT'', ''EXCHANGE'']"

definition return_statuses :: "status list" where
  "return_statuses = [''RETURN_REQUESTED'', ''REQUESTED'', ''REPLACEMENT_REQUESTED'', ''EXCHANGE_REQUESTED'',
     ''UNDER_REVIEW'', ''APPROVED'', ''REJECTED'', ''PICKUP_SCHEDULED'', ''PICKED_UP'', ''RECEIVED'',
     ''ITEM_RECEIVED'', ''VERIFIED'', ''REFUND_INITIATED'', ''REPLACEMENT_INITIATED'', ''EXCHANGE_INITIATED'',
     ''COMPLETED'', ''CANCELLED'']"

definition ReturnStatus_IsValid :: "status \<Rightarrow> bool" where
  "ReturnStatus_IsValid s \<longleftrightarrow> s \<in> set return_statuses"

definition requested_targets :: "status list" where
  "requested_targets = [''UNDER_REVIEW'', ''APPROVED'', ''REJECTED'', ''VERIFIED'', ''CANCELLED'']"

definition AllowedStatusTransitions :: transitions where
  "AllowedStatusTransitions =
     [(''RETURN_REQUESTED'', requested_targets),
      (''REQUESTED'', requested_targets),
      (''REPLACEMENT_REQUESTED'', requested_targets),
      (''EXCHANGE_REQUESTED'', requested_targets),
      (''UNDER_REVIEW'', [''APPROVED'', ''REJECTED'', ''CANCELLED'']),
      (''APPROVED'', [''PICKUP_SCHEDULED'', ''PICKED_UP'', ''ITEM_RECEIVED'', ''RECEIVED'', ''VERIFIED'',
         ''REJECTED'', ''CANCELLED'']),
      (''PICKUP_SCHEDULED'', [''PICKED_UP'', ''CANCELLED'']),
      (''PICKED_UP'', [''RECEIVED'', ''ITEM_RECEIVED'', ''VERIFIED'']),
      (''RECEIVED'', [''VERIFIED'', ''REFUND_INITIATED'', ''REPLACEMENT_INITIATED'', ''EXCHANGE_INITIATED'',
         ''COMPLETED'', ''REJECTED'']),
      (''ITEM_RECEIVED'', [''VERIFIED'', ''REFUND_INITIATED'', ''REPLACEMENT_INITIATED'', ''EXCHANGE_INITIATED'',
         ''COMPLETED'', ''REJECTED'']),
      (''VERIFIED'', [''RECEIVED'', ''ITEM_RECEIVED'', ''REFUND_INITIATED'', ''REPLACEMENT_INITIATED'',
         ''EXCHANGE_INITIATED'', ''COMPLETED'', ''REJECTED'']),
      (''REFUND_INITIATED'', [''COMPLETED'', ''REJECTED'']),
      (''REPLACEMENT_INITIATED'', [''COMPLETED'', ''CANCELLED'']),
      (''EXCHANGE_INITIATED'', [''COMPLETED'', ''CANCELLED'']),
      (''COMPLETED'', []), (''REJECTED'', []), (''CANCELLED'', [])]"

definition CanTransitionTo_return :: "status \<Rightarrow> status \<Rightarrow> bool" where
  "CanTransitionTo_return s target \<longleftrightarrow> s = target \<or> allowed_in AllowedStatusTransitions s target"

interpretation return_life: status_machine AllowedStatusTransitions return_statuses
  by unfold_locales code_simp

definition exchange_statuses :: "status list" where
  "exchange_statuses = [''OFFER_CREATED'', ''APPLIED_AT_CHECKOUT'', ''EXCHANGE_REQUESTED'', ''PICKUP_SCHEDULED'',
     ''PICKED_UP'', ''VERIFIED'', ''REVALUATED'', ''COMPLETED'', ''CANCELLED'']"

definition ExchangeStatus_IsValid :: "status \<Rightarrow> bool" where
  "ExchangeStatus_IsValid s \<longleftrightarrow> s \<in> set exchange_statuses"

definition AllowedExchangeTransitions :: transitions where
  "AllowedExchangeTransitions =
     [(''OFFER_CREATED'', [''APPLIED_AT_CHECKOUT'', ''EXCHANGE_REQUESTED'', ''CANCELLED'']),
      (''APPLIED_AT_CHECKOUT'', [''EXCHANGE_REQUESTED'', ''PICKUP_SCHEDULED'', ''PICKED_UP'', ''CANCELLED'']),
      (''EXCHANGE_REQUESTED'', [''PICKUP_SCHEDULED'', ''PICKED_UP'', ''CANCELLED'']),
      (''PICKUP_SCHEDULED'', [''PICKED_UP'', ''VERIFIED'', ''CANCELLED'']),
      (''PICKED_UP'', [''VERIFIED'', ''REVALUATED'', ''CANCELLED'']),
      (''REVALUATED'', [''VERIFIED'', ''CANCELLED'']),
      (''VERIFIED'', [''COMPLETED'', ''CANCELLED'']),
      (''COMPLETED'', []), (''CANCELLED'', [])]"

definition CanTransitionTo_exchange :: "status \<Rightarrow> status \<Rightarrow> bool" where
  "CanTransitionTo_exchange s target \<longleftrightarrow> s = target \<or> allowed_in AllowedExchangeTransitions s target"

definition exchange_rank :: "status \<Rightarrow> nat" where
  "exchange_rank s = (case map_of [(''OFFER_CREATED'', 0), (''APPLIED_AT_CHECKOUT'', 1), (''EXCHANGE_REQUESTED'', 2),
     (''PICKUP_SCHEDULED'', 3), (''PICKED_UP'', 4), (''REVALUATED'', 5), (''VERIFIED'', 6), (''COMPLETED'', 7),
     (''CANCELLED'', 7)] s of None \<Rightarrow> 0 | Some n \<Rightarrow> n)"

interpretation exchange_life: forward_machine AllowedExchangeTransitions exchange_statuses exchange_rank 7
  by unfold_locales code_simp+

definition ExchangeConditionRating_IsValid :: "string \<Rightarrow> bool" where
  "ExchangeConditionRating_IsValid r \<longleftrightarrow> r \<in> set [''EXCELLENT'', ''GOOD'', ''AVERAGE'', ''POOR'', ''DAMAGED'']"

end
