(* ===== verification/Payment_Model.thy ===== *)
theory Payment_Model
  imports Life_Cycles Events Go_Float
begin

text \<open>
  The payment service's data (\<open>services/payment-service/internal/model\<close>,
  \<open>internal/gateway/gateway.go\<close>, \<open>internal/client/order_client.go\<close>), its event payloads
  (\<open>contracts/events/events.go\<close>) and its tables. Amounts are \<open>float64\<close> values.

  A text column that is written through \<open>NULLIF(..., '')\<close> and read through
  \<open>COALESCE(..., '')\<close> is a string with the empty one for \<open>NULL\<close>.

  The tables carry a log of the calls made to the payment provider. The provider is called
  between transactions, never inside one, so no rollback touches the log.
\<close>

section \<open>Records\<close>

record Payment =
  pay_id :: string
  pay_order :: string
  pay_user :: string
  pay_method :: string
  pay_method_id :: "string option"
  pay_amount :: f64
  pay_currency :: string
  pay_status :: status
  pay_txn :: string
  pay_gateway_txn :: string
  pay_key :: string
  pay_failure :: string
  pay_created :: int
  pay_updated :: int

record Refund =
  rf_id :: string
  rf_payment :: string
  rf_order :: string
  rf_amount :: f64
  rf_reason :: string
  rf_status :: status
  rf_gateway_id :: string
  rf_key :: string
  rf_created :: int
  rf_updated :: int

record PaymentWebhook =
  wh_id :: string
  wh_event :: string
  wh_provider :: string
  wh_type :: string
  wh_payload :: string
  wh_processed :: bool
  wh_processed_at :: "int option"
  wh_created :: int

record ProcessGatewayRequest =
  gq_payment :: string
  gq_order :: string
  gq_amount :: f64
  gq_currency :: string
  gq_method :: string
  gq_key :: string

record ProcessGatewayResponse =
  gr_txn :: string
  gr_status :: string
  gr_failure :: string

record RefundGatewayRequest =
  rq_refund :: string
  rq_payment :: string
  rq_txn :: string
  rq_amount :: f64
  rq_reason :: string
  rq_key :: string

record RefundGatewayResponse =
  rr_id :: string
  rr_status :: string
  rr_failure :: string

text \<open>
  A call of the provider: a charge or a refund of the service, or the order the endpoint
  \<open>CreateOrder\<close> asks for.
\<close>

datatype gateway_call =
    ChargeCall ProcessGatewayRequest
  | RefundCall RefundGatewayRequest
  | OrderCall ProcessGatewayRequest

record AuthoritativeOrderItem =
  ai_id :: string
  ai_product :: string
  ai_quantity :: int
  ai_unit_price :: f64
  ai_total_price :: f64

record AuthoritativeOrder =
  ao_id :: string
  ao_user :: string
  ao_total :: f64
  ao_currency :: string
  ao_status :: string
  ao_items :: "AuthoritativeOrderItem list"

section \<open>Events\<close>

text \<open>Payment or refund, order and user, amount, and what else the struct has.\<close>

datatype pay_event =
    EvPaymentInitiated string string string f64 string string int
  | EvPaymentPending string string string f64 string string int
  | EvPaymentSuccessful string string string f64 string string int
  | EvPaymentFailed string string string f64 string int
  | EvPaymentCancelled string string string f64 string string int
  | EvRefundInitiated string string string f64 string int
  | EvRefundCompleted string string string f64 string int
  | EvRefundFailed string string string f64 string int

fun event_amount :: "pay_event \<Rightarrow> f64" where
  "event_amount (EvPaymentInitiated _ _ _ a _ _ _) = a"
| "event_amount (EvPaymentPending _ _ _ a _ _ _) = a"
| "event_amount (EvPaymentSuccessful _ _ _ a _ _ _) = a"
| "event_amount (EvPaymentFailed _ _ _ a _ _) = a"
| "event_amount (EvPaymentCancelled _ _ _ a _ _ _) = a"
| "event_amount (EvRefundInitiated _ _ _ a _ _) = a"
| "event_amount (EvRefundCompleted _ _ _ a _ _) = a"
| "event_amount (EvRefundFailed _ _ _ a _ _) = a"

section \<open>Tables and libraries\<close>

record pay_tables =
  payments :: "Payment list"
  refunds :: "Refund list"
  webhooks :: "PaymentWebhook list"
  pay_methods :: "(string \<times> string) list"
  pay_outbox :: "pay_event EventEnvelope outbox_row list"
  gateway_log :: "gateway_call list"

type_synonym 'a pay_db = "(pay_tables, 'a) db"

text \<open>
  What the service takes from elsewhere: \<open>uuid.Parse\<close> and the cast to \<open>UUID\<close> (which strings
  they accept), what a \<open>DECIMAL(12,2)\<close> column returns for a stored \<open>float64\<close> (nothing when it
  refuses it), the sum PostgreSQL computes over such a column, the verbs \<open>%.2f\<close> and \<open>%q\<close>,
  and the gRPC library.
\<close>

record pay_lib =
  parse_uuid :: "string \<Rightarrow> bool"
  pg_uuid :: "string \<Rightarrow> bool"
  pg_decimal :: "f64 \<Rightarrow> f64 option"
  pg_sum :: "f64 list \<Rightarrow> f64"
  fmt2 :: "f64 \<Rightarrow> string"
  quoted :: "string \<Rightarrow> string"
  pay_grpc :: grpc_lib

end
