(* ===== verification/Payment_Repo.thy ===== *)
theory Payment_Repo
  imports Payment_Model
begin

text \<open>
  The payment repository
  (\<open>services/payment-service/internal/repository/payment_repository.go\<close>): every method,
  statement by statement, with the constraints of the migrations. No caller passes a nil
  pointer. Where a query without \<open>ORDER BY\<close> (or with ties in it) matches several rows, the
  one inserted first is returned.
\<close>

section \<open>Statements\<close>

definition ErrRefundNotFound :: go_error where
  "ErrRefundNotFound = ErrorString ''refund not found''"

definition ScanNull :: go_error where
  "ScanNull = ErrorString ''cannot scan NULL into *string''"

text \<open>A parameter cast with \<open>::uuid\<close>.\<close>

definition with_uuid ::
  "pay_lib \<Rightarrow> string \<Rightarrow> (pay_tables \<Rightarrow> go_error + 'a \<times> pay_tables) \<Rightarrow> pay_tables \<Rightarrow> go_error + 'a \<times> pay_tables" where
  "with_uuid L i f t = (if pg_uuid L i then f t else Inl (PgError ''22P02'' []))"

fun first_some :: "'a option list \<Rightarrow> 'a option" where
  "first_some [] = None"
| "first_some (x # xs) = (case x of Some v \<Rightarrow> Some v | None \<Rightarrow> first_some xs)"

definition or_else :: "string \<Rightarrow> string \<Rightarrow> string" where
  "or_else s d = (if s = [] then d else s)"

text \<open>The conditions of the columns \<open>amount\<close>; PostgreSQL orders NaN above every number.\<close>

definition pg_nonneg :: "f64 \<Rightarrow> bool" where
  "pg_nonneg a \<longleftrightarrow> a = NaN \<or> fle fzero a"

definition pg_positive :: "f64 \<Rightarrow> bool" where
  "pg_positive a \<longleftrightarrow> a = NaN \<or> flt fzero a"

definition insert_payment ::
  "pay_lib \<Rightarrow> string \<Rightarrow> string option \<Rightarrow> int \<Rightarrow> Payment \<Rightarrow> pay_tables \<Rightarrow> go_error + Payment \<times> pay_tables" where
  "insert_payment L i pmID now p t =
     (let m = pay_method p; up = ToUpper m;
          mid = first_some [pmID, map_of (pay_methods t) m, map_of (pay_methods t) up,
                  map_of (pay_methods t) (filter (\<lambda>c. c \<noteq> CHR ''_'') up)] in
      if \<not> (pg_uuid L i \<and> pg_uuid L (pay_order p) \<and> pg_uuid L (pay_user p) \<and>
             (\<forall>x \<in> set_option pmID. pg_uuid L x) \<and> pay_status p \<in> set payment_statuses)
      then Inl (PgError ''22P02'' [])
      else case pg_decimal L (pay_amount p) of
        None \<Rightarrow> Inl (PgError ''22003'' [])
      | Some a \<Rightarrow>
          if \<not> pg_nonneg a then Inl (pg_check ''payments_amount_check'')
          else if i \<in> pay_id ` set (payments t) then Inl (pg_unique ''payments_pkey'')
          else if pay_txn p \<noteq> [] \<and> pay_txn p \<in> pay_txn ` set (payments t)
          then Inl (pg_unique ''payments_transaction_id_key'')
          else if pay_key p \<in> pay_key ` set (payments t) then Inl (pg_unique ''payments_idempotency_key_key'')
          else if mid \<noteq> None \<and> the mid \<notin> snd ` set (pay_methods t)
          then Inl (PgError ''23503'' ''payments_payment_method_id_fkey'')
          else let row = p\<lparr>pay_id := i, pay_method_id := mid, pay_amount := a,
                           pay_created := now, pay_updated := now\<rparr> in
            Inr (row, t\<lparr>payments := payments t @ [row]\<rparr>))"

text \<open>\<open>UPDATE payments ... RETURNING\<close>; a row without a transaction id cannot be scanned.\<close>

definition status_update :: "status \<Rightarrow> string \<Rightarrow> string \<Rightarrow> string \<Rightarrow> int \<Rightarrow> pay_tables \<Rightarrow> Payment \<Rightarrow> Payment" where
  "status_update st gtx reason pm now t p =
     p\<lparr>pay_status := st, pay_gateway_txn := or_else gtx (pay_gateway_txn p),
       pay_failure := or_else reason (pay_failure p), pay_method := or_else pm (pay_method p),
       pay_method_id := first_some [map_of (pay_methods t) pm, map_of (pay_methods t) (ToUpper pm), pay_method_id p],
       pay_updated := now\<rparr>"

definition update_payment ::
  "string \<Rightarrow> status \<Rightarrow> string \<Rightarrow> string \<Rightarrow> string \<Rightarrow> int \<Rightarrow> pay_tables \<Rightarrow> go_error + Payment option \<times> pay_tables" where
  "update_payment i st gtx reason pm now t =
     (let f = status_update st gtx reason pm now t in
      case find (\<lambda>p. pay_id p = i) (payments t) of
        None \<Rightarrow> Inr (None, t)
      | Some p \<Rightarrow>
          if pay_txn p = [] then Inl ScanNull
          else Inr (Some (f p), t\<lparr>payments := upd_where (\<lambda>p. pay_id p = i) f (payments t)\<rparr>))"

section \<open>The outbox\<close>

text \<open>
  \<open>json.Marshal\<close> of the event refuses an amount that is not finite; the row is written
  unless one of the same aggregate and type exists.
\<close>

definition payment_envelope :: "string \<Rightarrow> string \<Rightarrow> pay_event \<Rightarrow> pay_event EventEnvelope pay_db" where
  "payment_envelope ty agg d =
     (if finite_amount (event_amount d) then NewEventEnvelopeWithAggregate ty ''payment-service'' agg d
      else raise (WrapError ''failed to marshal event payload: ''
             (ErrorString (''json: unsupported value: '' @ f64_text (event_amount d)))))"

definition has_event :: "string \<Rightarrow> string \<Rightarrow> pay_tables \<Rightarrow> bool" where
  "has_event agg ty t \<longleftrightarrow> (\<exists>r \<in> set (pay_outbox t). ob_aggregate_id r = agg \<and> ob_event_type r = ty)"

definition insert_event ::
  "pay_event EventEnvelope outbox_row \<Rightarrow> pay_tables \<Rightarrow> go_error + unit \<times> pay_tables" where
  "insert_event r t =
     (if has_event (ob_aggregate_id r) (ob_event_type r) t then Inr ((), t)
      else case insert_outbox r (pay_outbox t) of
        Inl er \<Rightarrow> Inl er
      | Inr rs \<Rightarrow> Inr ((), t\<lparr>pay_outbox := rs\<rparr>))"

definition record_event ::
  "string \<Rightarrow> string \<Rightarrow> string \<Rightarrow> string \<Rightarrow> pay_event \<Rightarrow> int \<Rightarrow> unit pay_db" where
  "record_event aggType agg ty topic d now =
     bind (on_error (payment_envelope ty agg d) (wrap ''failed to create outbox event envelope'')) (\<lambda>env.
     bind new_uuid (\<lambda>i.
     on_error
       (sql (insert_event \<lparr>ob_id = i, ob_aggregate_type = aggType, ob_aggregate_id = agg,
          ob_event_type = ty, ob_payload = env, ob_headers = [], ob_topic = topic,
          ob_status = OutboxPending, ob_retry_count = 0, ob_next_retry_at = None, ob_created_at = now,
          ob_updated_at = None, ob_published_at = None\<rparr>))
       (wrap ''failed to record outbox event'')))"

section \<open>Payments\<close>

definition create_payment_error :: "go_error \<Rightarrow> go_error" where
  "create_payment_error er =
     (case er of
        PgError code cn \<Rightarrow>
          if code = ''23505'' then Conflict ''payment request with this idempotency key already exists''
          else Internal (Some er) ''failed to create payment record''
      | _ \<Rightarrow> Internal (Some er) ''failed to create payment record'')"

text \<open>The struct after the insert: the generated values are scanned into it.\<close>

definition create_payment_tx :: "pay_lib \<Rightarrow> Payment \<Rightarrow> Payment tx_end pay_db" where
  "create_payment_tx L p =
     bind time_now (\<lambda>now.
     bind (if pay_id p \<noteq> [] \<and> parse_uuid L (pay_id p) then ret (pay_id p) else new_uuid) (\<lambda>i.
     bind (ret (case pay_method_id p of
             None \<Rightarrow> None
           | Some m \<Rightarrow> if m \<noteq> [] \<and> parse_uuid L m then Some m else None)) (\<lambda>pmID.
     bind (on_error (sql (insert_payment L i pmID now p)) create_payment_error) (\<lambda>row.
     bind (ret (p\<lparr>pay_id := pay_id row,
             pay_method_id := (case pay_method_id row of
                Some m \<Rightarrow> if m \<noteq> [] then Some m else pay_method_id p
              | None \<Rightarrow> pay_method_id p),
             pay_created := pay_created row, pay_updated := pay_updated row\<rparr>)) (\<lambda>p1.
     seq (do_when (pay_status p1 = ''INITIATED'')
           (record_event ''payment'' (pay_id p1) ''PaymentInitiated'' ''gocart.payment.payment-initiated''
             (EvPaymentInitiated (pay_id p1) (pay_order p1) (pay_user p1) (pay_amount p1) (pay_currency p1)
               (pay_method p1) (pay_created p1)) now))
         (ret (Commit p1)))))))"

definition CreatePayment :: "pay_lib \<Rightarrow> Payment \<Rightarrow> Payment pay_db" where
  "CreatePayment L p =
     with_tx (wrap ''failed to begin transaction'') (wrap ''failed to commit transaction'')
       (create_payment_tx L p)"

text \<open>The queries: no row, an error of the statement, or the row.\<close>

definition query_payment :: "(pay_tables \<Rightarrow> Payment option) \<Rightarrow> go_error \<Rightarrow> string \<Rightarrow> Payment pay_db" where
  "query_payment q missing msg =
     bind (on_error
            (pool_sql (\<lambda>t. case q t of
               Some p \<Rightarrow> if pay_txn p = [] then Inl ScanNull else Inr (Some p, t)
             | None \<Rightarrow> Inr (None, t)))
            (wrap msg)) (\<lambda>found.
     case found of None \<Rightarrow> raise missing | Some p \<Rightarrow> ret p)"

definition newest :: "(Payment \<Rightarrow> bool) \<Rightarrow> pay_tables \<Rightarrow> Payment option" where
  "newest c t = (case sort_key (\<lambda>p. - pay_created p) (filter c (payments t)) of [] \<Rightarrow> None | p # _ \<Rightarrow> Some p)"

definition GetPaymentByGatewayTransactionID :: "string \<Rightarrow> Payment pay_db" where
  "GetPaymentByGatewayTransactionID gtx =
     (if gtx = [] then raise (NotFound ''empty gateway transaction id'')
      else query_payment
        (newest (\<lambda>p. pay_gateway_txn p = gtx \<or> pay_txn p = gtx \<or> pay_key p = gtx \<or> pay_order p = gtx))
        (NotFound (''payment for gateway transaction '' @ gtx @ '' not found''))
        ''failed to fetch payment by gateway transaction id'')"

definition GetPaymentByIdempotencyKey :: "string \<Rightarrow> Payment pay_db" where
  "GetPaymentByIdempotencyKey key =
     query_payment (\<lambda>t. find (\<lambda>p. pay_key p = key) (payments t))
       (NotFound ''payment not found by idempotency key'') ''failed to query payment by idempotency key''"

definition GetPaymentByOrderID :: "string \<Rightarrow> Payment pay_db" where
  "GetPaymentByOrderID orderID =
     query_payment
       (newest (\<lambda>p. pay_order p = orderID \<or> (orderID \<noteq> [] \<and> pay_gateway_txn p = orderID) \<or> pay_key p = orderID))
       (NotFound (''payment for order '' @ orderID @ '' not found''))
       ''failed to fetch payment by order id''"

definition GetPaymentByID :: "pay_lib \<Rightarrow> string \<Rightarrow> Payment pay_db" where
  "GetPaymentByID L i =
     (if \<not> parse_uuid L i then
        bind (attempt (GetPaymentByGatewayTransactionID i)) (\<lambda>g.
        case g of
          Inr p \<Rightarrow> ret p
        | Inl _ \<Rightarrow>
            bind (attempt (GetPaymentByIdempotencyKey i)) (\<lambda>k.
            case k of
              Inr p \<Rightarrow> ret p
            | Inl _ \<Rightarrow> raise (NotFound (''payment with id '' @ i @ '' not found''))))
      else
        bind (on_error
               (pool_sql (with_uuid L i (\<lambda>t. case find (\<lambda>p. pay_id p = i) (payments t) of
                  Some p \<Rightarrow> if pay_txn p = [] then Inl ScanNull else Inr (Some p, t)
                | None \<Rightarrow> Inr (None, t))))
               (wrap ''failed to fetch payment by id'')) (\<lambda>found.
        case found of
          None \<Rightarrow> raise (NotFound (''payment with id '' @ i @ '' not found''))
        | Some p \<Rightarrow> ret p))"

section \<open>Status changes\<close>

text \<open>The event a status is announced with: type, topic and payload.\<close>

definition status_event :: "status \<Rightarrow> Payment \<Rightarrow> (string \<times> string \<times> pay_event) option" where
  "status_event st p =
     (if st = ''SUCCESS'' then
        Some (''PaymentSuccessful'', ''gocart.payment.payment-successful'',
          EvPaymentSuccessful (pay_id p) (pay_order p) (pay_user p) (pay_amount p) (pay_currency p)
            (pay_method p) (pay_updated p))
      else if st = ''FAILED'' then
        Some (''PaymentFailed'', ''gocart.payment.payment-failed'',
          EvPaymentFailed (pay_id p) (pay_order p) (pay_user p) (pay_amount p) (pay_failure p) (pay_updated p))
      else if st = ''PENDING'' then
        Some (''PaymentPending'', ''gocart.payment.payment-pending'',
          EvPaymentPending (pay_id p) (pay_order p) (pay_user p) (pay_amount p) (pay_currency p)
            (pay_gateway_txn p) (pay_updated p))
      else if st = ''CANCELLED'' then
        Some (''PaymentCancelled'', ''gocart.payment.payment-cancelled'',
          EvPaymentCancelled (pay_id p) (pay_order p) (pay_user p) (pay_amount p) (pay_currency p)
            (pay_failure p) (pay_updated p))
      else None)"

definition announce_status :: "status \<Rightarrow> status \<Rightarrow> Payment \<Rightarrow> int \<Rightarrow> unit pay_db" where
  "announce_status old st p now =
     (if old \<noteq> st then
        (case status_event st p of
           None \<Rightarrow> ret ()
         | Some (ty, topic, d) \<Rightarrow> record_event ''payment'' (pay_id p) ty topic d now)
      else ret ())"

text \<open>An identifier that is not a UUID is resolved outside the transaction.\<close>

definition resolve_target :: "pay_lib \<Rightarrow> string \<Rightarrow> string pay_db" where
  "resolve_target L i =
     (if parse_uuid L i then ret i
      else
        bind (attempt (GetPaymentByID L i)) (\<lambda>r.
        case r of
          Inr p \<Rightarrow> ret (pay_id p)
        | Inl _ \<Rightarrow>
            bind (attempt (GetPaymentByGatewayTransactionID i)) (\<lambda>g.
            case g of Inr p \<Rightarrow> ret (pay_id p) | Inl _ \<Rightarrow> ret i)))"

definition update_status_tx ::
  "pay_lib \<Rightarrow> string \<Rightarrow> string \<Rightarrow> status \<Rightarrow> string \<Rightarrow> string \<Rightarrow> string \<Rightarrow> Payment tx_end pay_db" where
  "update_status_tx L i target st gtx reason pm =
     bind time_now (\<lambda>now.
     bind (on_error
            (sql (with_uuid L target (select (\<lambda>t. find (\<lambda>p. pay_id p = target) (payments t)))))
            (wrap ''failed to query payment status'')) (\<lambda>found.
     case found of
       None \<Rightarrow> raise (NotFound (''payment '' @ i @ '' not found for status update''))
     | Some old \<Rightarrow>
       seq (require (pay_status old = st \<or> CanTransitionPayment (pay_status old) st)
             (BadRequest (''cannot transition payment from '' @ pay_status old @ '' to '' @ st)))
       (bind (on_error (sql (update_payment target st gtx reason pm now))
               (wrap ''failed to update payment status'')) (\<lambda>upd.
        case upd of
          None \<Rightarrow> raise (NotFound (''payment '' @ i @ '' not found for status update''))
        | Some p \<Rightarrow>
            seq (announce_status (pay_status old) st p now) (ret (Commit p))))))"

definition UpdatePaymentStatus ::
  "pay_lib \<Rightarrow> string \<Rightarrow> status \<Rightarrow> string \<Rightarrow> string \<Rightarrow> string list \<Rightarrow> Payment pay_db" where
  "UpdatePaymentStatus L i st gtx reason methods =
     bind (resolve_target L i) (\<lambda>target.
     with_tx (wrap ''failed to begin transaction'') (wrap ''failed to commit transaction'')
       (update_status_tx L i target st gtx reason
         (case methods of
            [] \<Rightarrow> []
          | m # _ \<Rightarrow> if m \<noteq> [] then NormalizePaymentMethod m else [])))"

section \<open>Refunds\<close>

definition refund_statuses :: "status list" where
  "refund_statuses = [''PENDING'', ''SUCCESS'', ''PROCESSED'', ''FAILED'']"

definition insert_refund ::
  "pay_lib \<Rightarrow> string \<Rightarrow> int \<Rightarrow> Refund \<Rightarrow> pay_tables \<Rightarrow> go_error + Refund \<times> pay_tables" where
  "insert_refund L i now r t =
     (if \<not> (pg_uuid L (rf_payment r) \<and> pg_uuid L (rf_order r) \<and> rf_status r \<in> set refund_statuses)
      then Inl (PgError ''22P02'' [])
      else case pg_decimal L (rf_amount r) of
        None \<Rightarrow> Inl (PgError ''22003'' [])
      | Some a \<Rightarrow>
          if \<not> pg_positive a then Inl (pg_check ''refunds_amount_check'')
          else if i \<in> rf_id ` set (refunds t) then Inl (pg_unique ''refunds_pkey'')
          else if rf_key r \<in> rf_key ` set (refunds t) then Inl (pg_unique ''refunds_idempotency_key_key'')
          else if rf_payment r \<notin> pay_id ` set (payments t)
          then Inl (PgError ''23503'' ''refunds_payment_id_fkey'')
          else let row = r\<lparr>rf_id := i, rf_amount := a, rf_created := now, rf_updated := now\<rparr> in
            Inr (row, t\<lparr>refunds := refunds t @ [row]\<rparr>))"

definition create_refund_error :: "go_error \<Rightarrow> go_error" where
  "create_refund_error er =
     (case er of
        PgError code cn \<Rightarrow>
          if code = ''23505'' then Conflict ''refund request with this idempotency key already exists''
          else Internal (Some er) ''failed to create refund record''
      | _ \<Rightarrow> Internal (Some er) ''failed to create refund record'')"

definition create_refund_tx :: "pay_lib \<Rightarrow> Refund \<Rightarrow> Refund tx_end pay_db" where
  "create_refund_tx L r =
     bind time_now (\<lambda>now.
     bind new_uuid (\<lambda>i.
     bind (on_error (sql (insert_refund L i now r)) create_refund_error) (\<lambda>row.
     bind (ret (r\<lparr>rf_id := rf_id row, rf_created := rf_created row, rf_updated := rf_updated row\<rparr>)) (\<lambda>r1.
     seq (record_event ''refund'' (rf_id r1) ''RefundInitiated'' ''gocart.payment.refund-initiated''
           (EvRefundInitiated (rf_id r1) (rf_payment r1) (rf_order r1) (rf_amount r1) (rf_reason r1)
             (rf_created r1)) now)
         (ret (Commit r1))))))"

definition CreateRefund :: "pay_lib \<Rightarrow> Refund \<Rightarrow> Refund pay_db" where
  "CreateRefund L r =
     with_tx (wrap ''failed to begin transaction'') (wrap ''failed to commit transaction'')
       (create_refund_tx L r)"

definition query_refund ::
  "(pay_tables \<Rightarrow> go_error + Refund option \<times> pay_tables) \<Rightarrow> go_error \<Rightarrow> string \<Rightarrow> Refund pay_db" where
  "query_refund q missing msg =
     bind (on_error (pool_sql q) (wrap msg)) (\<lambda>found.
     case found of None \<Rightarrow> raise missing | Some r \<Rightarrow> ret r)"

definition GetRefundByID :: "pay_lib \<Rightarrow> string \<Rightarrow> Refund pay_db" where
  "GetRefundByID L i =
     query_refund (with_uuid L i (select (\<lambda>t. find (\<lambda>r. rf_id r = i) (refunds t))))
       (NotFound (''refund with id '' @ i @ '' not found'')) ''failed to query refund by id''"

definition GetRefundByGatewayRefundID :: "string \<Rightarrow> Refund pay_db" where
  "GetRefundByGatewayRefundID g =
     query_refund (select (\<lambda>t. find (\<lambda>r. rf_gateway_id r = g) (refunds t)))
       (NotFound (''refund with gateway_refund_id '' @ g @ '' not found''))
       ''failed to query refund by gateway refund id''"

definition GetRefundByIdempotencyKey :: "string \<Rightarrow> Refund pay_db" where
  "GetRefundByIdempotencyKey key =
     (if key = [] then raise (BadRequest ''idempotency key cannot be empty'')
      else query_refund (select (\<lambda>t. find (\<lambda>r. rf_key r = key) (refunds t))) ErrRefundNotFound
             ''failed to query refund by idempotency key'')"

definition GetRefundsByPaymentID :: "pay_lib \<Rightarrow> string \<Rightarrow> Refund list pay_db" where
  "GetRefundsByPaymentID L paymentID =
     on_error
       (pool_sql (with_uuid L paymentID
          (select (\<lambda>t. sort_key rf_created (filter (\<lambda>r. rf_payment r = paymentID) (refunds t))))))
       (wrap ''failed to query refunds by payment id'')"

definition GetTotalRefundedAmount :: "pay_lib \<Rightarrow> string \<Rightarrow> f64 pay_db" where
  "GetTotalRefundedAmount L paymentID =
     on_error
       (pool_sql (with_uuid L paymentID
          (select (\<lambda>t. pg_sum L (map rf_amount
             (filter (\<lambda>r. rf_payment r = paymentID \<and> rf_status r = ''SUCCESS'') (refunds t)))))))
       (wrap ''failed to calculate total refunded amount'')"

definition refund_update :: "status \<Rightarrow> string \<Rightarrow> int \<Rightarrow> Refund \<Rightarrow> Refund" where
  "refund_update st g now r =
     r\<lparr>rf_status := st, rf_gateway_id := or_else g (rf_gateway_id r), rf_updated := now\<rparr>"

definition update_refund ::
  "string \<Rightarrow> status \<Rightarrow> string \<Rightarrow> int \<Rightarrow> pay_tables \<Rightarrow> go_error + Refund option \<times> pay_tables" where
  "update_refund i st g now t =
     Inr (map_option (refund_update st g now) (find (\<lambda>r. rf_id r = i) (refunds t)),
          t\<lparr>refunds := upd_where (\<lambda>r. rf_id r = i) (refund_update st g now) (refunds t)\<rparr>)"

definition refund_event :: "status \<Rightarrow> Refund \<Rightarrow> (string \<times> string \<times> pay_event) option" where
  "refund_event st r =
     (if st = ''SUCCESS'' then
        Some (''RefundCompleted'', ''gocart.payment.refund-completed'',
          EvRefundCompleted (rf_id r) (rf_payment r) (rf_order r) (rf_amount r) (rf_gateway_id r) (rf_updated r))
      else if st = ''FAILED'' then
        Some (''RefundFailed'', ''gocart.payment.refund-failed'',
          EvRefundFailed (rf_id r) (rf_payment r) (rf_order r) (rf_amount r) ''refund failed at gateway''
            (rf_updated r))
      else None)"

definition announce_refund :: "status \<Rightarrow> status \<Rightarrow> Refund \<Rightarrow> int \<Rightarrow> unit pay_db" where
  "announce_refund old st r now =
     (if old \<noteq> st then
        (case refund_event st r of
           None \<Rightarrow> ret ()
         | Some (ty, topic, d) \<Rightarrow> record_event ''refund'' (rf_id r) ty topic d now)
      else ret ())"

definition update_refund_tx :: "pay_lib \<Rightarrow> string \<Rightarrow> status \<Rightarrow> string \<Rightarrow> Refund tx_end pay_db" where
  "update_refund_tx L i st g =
     bind time_now (\<lambda>now.
     bind (on_error (sql (with_uuid L i (select (\<lambda>t. find (\<lambda>r. rf_id r = i) (refunds t)))))
            (wrap ''failed to query refund status'')) (\<lambda>found.
     case found of
       None \<Rightarrow> raise (NotFound (''refund '' @ i @ '' not found for status update''))
     | Some old \<Rightarrow>
       bind (on_error (sql (update_refund i st g now)) (wrap ''failed to update refund status'')) (\<lambda>upd.
       case upd of
         None \<Rightarrow> raise (NotFound (''refund '' @ i @ '' not found for status update''))
       | Some r \<Rightarrow> seq (announce_refund (rf_status old) st r now) (ret (Commit r)))))"

definition UpdateRefundStatus :: "pay_lib \<Rightarrow> string \<Rightarrow> status \<Rightarrow> string \<Rightarrow> Refund pay_db" where
  "UpdateRefundStatus L i st g =
     with_tx (wrap ''failed to begin transaction'') (wrap ''failed to commit transaction'')
       (update_refund_tx L i st g)"

section \<open>Webhooks\<close>

definition SaveWebhookEvent :: "PaymentWebhook \<Rightarrow> unit pay_db" where
  "SaveWebhookEvent wh =
     bind time_now (\<lambda>now.
     bind new_uuid (\<lambda>i.
     on_error
       (pool_sql (\<lambda>t.
          if wh_event wh \<in> wh_event ` set (webhooks t) then Inr ((), t)
          else Inr ((), t\<lparr>webhooks := webhooks t @ [wh\<lparr>wh_id := i, wh_processed_at := None, wh_created := now\<rparr>]\<rparr>)))
       (wrap ''failed to save webhook event'')))"

definition IsWebhookProcessed :: "string \<Rightarrow> bool pay_db" where
  "IsWebhookProcessed eventID =
     on_error
       (pool_sql (select (\<lambda>t. case find (\<lambda>h. wh_event h = eventID) (webhooks t) of
          None \<Rightarrow> False | Some h \<Rightarrow> wh_processed h)))
       (wrap ''failed to check webhook status'')"

definition MarkWebhookProcessed :: "string \<Rightarrow> unit pay_db" where
  "MarkWebhookProcessed eventID =
     bind time_now (\<lambda>now.
     on_error
       (pool_sql (\<lambda>t. Inr ((), t\<lparr>webhooks := upd_where (\<lambda>h. wh_event h = eventID)
          (\<lambda>h. h\<lparr>wh_processed := True, wh_processed_at := Some now\<rparr>) (webhooks t)\<rparr>)))
       (wrap ''failed to mark webhook event processed''))"

end
