(* ===== verification/Payment_Gateway.thy ===== *)
theory Payment_Gateway
  imports Payment_Repo
begin

text \<open>
  The payment providers (\<open>services/payment-service/internal/gateway\<close>): the interface, the
  mock, and Razorpay over an HTTP client. A provider is a pair of computations that read the
  clock and draw identifiers and leave the tables alone; that is the contract
  \<open>payment_gateway\<close>, which both implementations meet.

  The HTTP client is a parameter: its answer may depend on how many calls were made before.
  A Razorpay answer is the status code with the body, whose decoding is a parameter too.
\<close>

section \<open>The interface\<close>

record PaymentGateway =
  gw_process :: "ProcessGatewayRequest \<Rightarrow> ProcessGatewayResponse option pay_db"
  gw_refund :: "RefundGatewayRequest \<Rightarrow> RefundGatewayResponse option pay_db"

definition ErrGatewayTimeout :: go_error where
  "ErrGatewayTimeout = ErrorString ''payment gateway request timed out''"

definition ErrGatewayDeclined :: go_error where
  "ErrGatewayDeclined = ErrorString ''payment declined by gateway''"

definition ErrGatewayUnavailable :: go_error where
  "ErrGatewayUnavailable = ErrorString ''payment gateway is currently unavailable''"

definition ErrInvalidGatewayInput :: go_error where
  "ErrInvalidGatewayInput = ErrorString ''invalid input provided to gateway''"

definition DeadlineExceeded :: go_error where
  "DeadlineExceeded = ErrorString ''context deadline exceeded''"

text \<open>
  The last error wraps \<open>ErrGatewayUnavailable\<close> in front of its text; no caller unwraps it.
\<close>

definition SanitizeGatewayError :: "go_error \<Rightarrow> go_error" where
  "SanitizeGatewayError er =
     (if errors_Is er DeadlineExceeded \<or> errors_Is er ErrGatewayTimeout then ErrGatewayTimeout
      else if errors_Is er ErrGatewayDeclined \<or> errors_Is er ErrInvalidGatewayInput then er
      else ErrorString ''payment gateway is currently unavailable: processing failed'')"

section \<open>The mock\<close>

definition mock_process :: "bool \<Rightarrow> ProcessGatewayRequest \<Rightarrow> ProcessGatewayResponse option pay_db" where
  "mock_process failPayment req =
     bind ctx_err (\<lambda>done.
     if done then raise (SanitizeGatewayError ContextCanceled)
     else if gq_order req = [] \<or> fle (gq_amount req) fzero then raise ErrInvalidGatewayInput
     else if failPayment \<or> Contains (gq_key req) ''fail_gateway'' then
       bind new_uuid (\<lambda>u.
       ret (Some \<lparr>gr_txn = ''gtx_mock_failed_'' @ take 8 u, gr_status = ''FAILED'',
                  gr_failure = ''Insufficient funds in mock card''\<rparr>))
     else if Contains (gq_key req) ''timeout_gateway'' then raise ErrGatewayTimeout
     else
       bind new_uuid (\<lambda>u.
       ret (Some \<lparr>gr_txn = ''gtx_mock_'' @ u, gr_status = ''SUCCESS'', gr_failure = []\<rparr>)))"

definition mock_refund :: "RefundGatewayRequest \<Rightarrow> RefundGatewayResponse option pay_db" where
  "mock_refund req =
     bind ctx_err (\<lambda>done.
     if done then raise (SanitizeGatewayError ContextCanceled)
     else if rq_payment req = [] \<or> fle (rq_amount req) fzero then raise ErrInvalidGatewayInput
     else if Contains (rq_key req) ''fail_gateway'' \<or> Contains (rq_reason req) ''fail_gateway'' then
       bind new_uuid (\<lambda>u.
       ret (Some \<lparr>rr_id = ''ref_mock_failed_'' @ take 8 u, rr_status = ''FAILED'',
                  rr_failure = ''Refund declined by mock gateway''\<rparr>))
     else if Contains (rq_key req) ''error_gateway'' \<or> Contains (rq_reason req) ''error_gateway''
     then raise ErrGatewayUnavailable
     else if Contains (rq_key req) ''timeout_gateway'' then raise ErrGatewayTimeout
     else
       bind new_uuid (\<lambda>u.
       ret (Some \<lparr>rr_id = ''ref_mock_'' @ u, rr_status = ''SUCCESS'', rr_failure = []\<rparr>)))"

definition MockGateway :: "bool \<Rightarrow> PaymentGateway" where
  "MockGateway failPayment = \<lparr>gw_process = mock_process failPayment, gw_refund = mock_refund\<rparr>"

section \<open>Razorpay\<close>

record RazorpayOrderRequest =
  ro_amount :: int
  ro_currency :: string
  ro_receipt :: string
  ro_notes :: "(string \<times> string) list"

record RazorpayRefundRequest =
  rz_amount :: int
  rz_speed :: string
  rz_notes :: "(string \<times> string) list"

datatype razorpay_body = OrderBody RazorpayOrderRequest | RefundBody RazorpayRefundRequest

record http_request =
  hq_url :: string
  hq_key :: "string option"
  hq_auth :: "(string \<times> string) option"
  hq_body :: razorpay_body

text \<open>\<open>Do\<close> fails, reading the body fails, or there is a status code and a body.\<close>

datatype http_answer = DoFailed go_error | ReadFailed go_error | Answered nat string

text \<open>
  The fields of the two response structs the code reads. Decoding returns the error and the
  struct, which is filled as far as the decoder came.
\<close>

record RazorpayResponse =
  rz_id :: string
  rz_status :: string
  rz_error :: "string option"

record razorpay_env =
  new_request :: "string \<Rightarrow> go_error option"
  http_do :: "nat \<Rightarrow> http_request \<Rightarrow> http_answer"
  decode_order :: "string \<Rightarrow> go_error option \<times> RazorpayResponse"
  decode_refund :: "string \<Rightarrow> go_error option \<times> RazorpayResponse"
  int64_cast :: "f64 \<Rightarrow> int"

record RazorpayGateway =
  rg_keyID :: string
  rg_keySecret :: string
  rg_baseURL :: string

text \<open>
  \<open>int64(math.Round(amount * 100))\<close>; the conversion of a value that does not fit is left to
  the implementation.
\<close>

definition subunits :: "razorpay_env \<Rightarrow> f64 \<Rightarrow> int" where
  "subunits H amount =
     (case fmul amount (Fin 100) of
        Fin q \<Rightarrow> if int64 (go_round q) then go_round q else int64_cast H (Fin q)
      | x \<Rightarrow> int64_cast H x)"

definition razorpay_call :: "RazorpayGateway \<Rightarrow> razorpay_env \<Rightarrow> string \<Rightarrow> string \<Rightarrow> razorpay_body \<Rightarrow> http_answer pay_db" where
  "razorpay_call R H url key body = (\<lambda>e w.
     ret (http_do H (length (gateway_log (tabs w)))
       \<lparr>hq_url = url, hq_key = (if key \<noteq> [] then Some key else None),
        hq_auth = (if rg_keyID R \<noteq> [] \<and> rg_keySecret R \<noteq> [] then Some (rg_keyID R, rg_keySecret R) else None),
        hq_body = body\<rparr>) e w)"

definition error_reason :: "RazorpayResponse \<Rightarrow> string \<Rightarrow> string" where
  "error_reason r fallback =
     (case rz_error r of Some m \<Rightarrow> or_else m fallback | None \<Rightarrow> fallback)"

definition razorpay_process ::
  "RazorpayGateway \<Rightarrow> razorpay_env \<Rightarrow> ProcessGatewayRequest \<Rightarrow> ProcessGatewayResponse option pay_db" where
  "razorpay_process R H req =
     (if gq_order req = [] \<or> fle (gq_amount req) fzero then raise ErrInvalidGatewayInput
      else
        (let currency = or_else (ToUpper (gq_currency req)) ''INR'';
             url = rg_baseURL R @ ''/orders'';
             body = OrderBody \<lparr>ro_amount = subunits H (gq_amount req), ro_currency = currency,
                      ro_receipt = gq_order req,
                      ro_notes = [(''payment_id'', gq_payment req), (''idempotency_key'', gq_key req)]\<rparr> in
         case new_request H url of
           Some er \<Rightarrow> raise (WrapError ''failed to create razorpay http request: '' er)
         | None \<Rightarrow>
             bind (razorpay_call R H url (gq_key req) body) (\<lambda>answer.
             case answer of
               DoFailed er \<Rightarrow> raise (SanitizeGatewayError er)
             | ReadFailed er \<Rightarrow>
                 raise (SanitizeGatewayError (WrapError ''failed to read razorpay response body: '' er))
             | Answered code text \<Rightarrow>
                 if code \<noteq> 200 \<and> code \<noteq> 201 then
                   ret (Some \<lparr>gr_txn = [], gr_status = ''FAILED'',
                     gr_failure = error_reason (snd (decode_order H text)) ''razorpay order creation failed''\<rparr>)
                 else
                   (case decode_order H text of
                      (Some er, r) \<Rightarrow> raise (SanitizeGatewayError (WrapError ''failed to parse razorpay order response: '' er))
                    | (None, r) \<Rightarrow> ret (Some \<lparr>gr_txn = rz_id r, gr_status = ''SUCCESS'', gr_failure = []\<rparr>)))))"

definition razorpay_refund ::
  "RazorpayGateway \<Rightarrow> razorpay_env \<Rightarrow> RefundGatewayRequest \<Rightarrow> RefundGatewayResponse option pay_db" where
  "razorpay_refund R H req =
     (if rq_payment req = [] \<or> fle (rq_amount req) fzero then raise ErrInvalidGatewayInput
      else
        (let target = or_else (rq_txn req) (rq_payment req);
             url = rg_baseURL R @ ''/payments/'' @ target @ ''/refund'';
             body = RefundBody \<lparr>rz_amount = subunits H (rq_amount req), rz_speed = ''normal'',
                      rz_notes = [(''reason'', rq_reason req), (''idempotency_key'', rq_key req)]\<rparr> in
         case new_request H url of
           Some er \<Rightarrow> raise (WrapError ''failed to create razorpay refund request: '' er)
         | None \<Rightarrow>
             bind (razorpay_call R H url (rq_key req) body) (\<lambda>answer.
             case answer of
               DoFailed er \<Rightarrow> raise (SanitizeGatewayError er)
             | ReadFailed er \<Rightarrow>
                 raise (SanitizeGatewayError (WrapError ''failed to read razorpay refund response body: '' er))
             | Answered code text \<Rightarrow>
                 if code \<noteq> 200 \<and> code \<noteq> 201 then
                   ret (Some \<lparr>rr_id = [], rr_status = ''FAILED'',
                     rr_failure = error_reason (snd (decode_refund H text)) ''razorpay refund failed''\<rparr>)
                 else
                   (case decode_refund H text of
                      (Some er, r) \<Rightarrow> raise (SanitizeGatewayError (WrapError ''failed to parse razorpay refund response: '' er))
                    | (None, r) \<Rightarrow>
                        if ToLower (rz_status r) = ''failed'' then
                          ret (Some \<lparr>rr_id = rz_id r, rr_status = ''FAILED'',
                            rr_failure = error_reason r ''razorpay refund marked failed''\<rparr>)
                        else ret (Some \<lparr>rr_id = rz_id r, rr_status = ''SUCCESS'', rr_failure = []\<rparr>)))))"

definition Razorpay :: "RazorpayGateway \<Rightarrow> razorpay_env \<Rightarrow> PaymentGateway" where
  "Razorpay R H = \<lparr>gw_process = razorpay_process R H, gw_refund = razorpay_refund R H\<rparr>"

text \<open>The signature of a webhook, with the keyed hash as a parameter.\<close>

definition VerifyRazorpayWebhookSignature :: "(string \<Rightarrow> string \<Rightarrow> string) \<Rightarrow> string \<Rightarrow> string \<Rightarrow> string \<Rightarrow> bool" where
  "VerifyRazorpayWebhookSignature hmac body signature secret =
     (if secret = [] \<or> signature = [] \<or> body = [] then False else hmac secret body = signature)"

definition VerifyWebhookSignature ::
  "(string \<Rightarrow> string \<Rightarrow> string) \<Rightarrow> RazorpayGateway \<Rightarrow> string \<Rightarrow> string \<Rightarrow> string list \<Rightarrow> bool" where
  "VerifyWebhookSignature hmac R body signature secrets =
     VerifyRazorpayWebhookSignature hmac body signature
       (case secrets of s # _ \<Rightarrow> or_else s (rg_keySecret R) | [] \<Rightarrow> rg_keySecret R)"

record GatewayConfig =
  cfg_provider :: string
  cfg_api_key :: string
  cfg_key_id :: string
  cfg_key_secret :: string

definition NewPaymentGateway :: "GatewayConfig \<Rightarrow> razorpay_env \<Rightarrow> PaymentGateway" where
  "NewPaymentGateway cfg H =
     (if ToLower (cfg_provider cfg) = ''razorpay'' then
        Razorpay \<lparr>rg_keyID = or_else (cfg_key_id cfg) (cfg_api_key cfg), rg_keySecret = cfg_key_secret cfg,
          rg_baseURL = ''https://api.razorpay.com/v1''\<rparr> H
      else MockGateway False)"

section \<open>The contract\<close>

text \<open>
  What the service relies on: a call to a provider does not touch the tables. The service
  logs the request and calls; whatever the answer, the log has grown by that request and
  nothing else has changed.
\<close>

definition log_call :: "gateway_call \<Rightarrow> unit pay_db" where
  "log_call c = (\<lambda>e w. (Inr (), w\<lparr>tabs := (tabs w)\<lparr>gateway_log := gateway_log (tabs w) @ [c]\<rparr>\<rparr>))"

definition charge :: "PaymentGateway \<Rightarrow> ProcessGatewayRequest \<Rightarrow> ProcessGatewayResponse option pay_db" where
  "charge gw req = seq (log_call (ChargeCall req)) (gw_process gw req)"

definition give_back :: "PaymentGateway \<Rightarrow> RefundGatewayRequest \<Rightarrow> RefundGatewayResponse option pay_db" where
  "give_back gw req = seq (log_call (RefundCall req)) (gw_refund gw req)"

definition logged :: "gateway_call \<Rightarrow> pay_tables \<Rightarrow> pay_tables" where
  "logged c t = t\<lparr>gateway_log := gateway_log t @ [c]\<rparr>"

locale payment_gateway =
  fixes gw :: PaymentGateway
  assumes process_reads: "read_only (gw_process gw req)"
    and refund_reads: "read_only (gw_refund gw rreq)"
begin

lemma charge_logged: "charge gw req e w = (r, w') \<Longrightarrow> tabs w' = logged (ChargeCall req) (tabs w)"
  by (auto simp: charge_def seq_def bind_def log_call_def logged_def dest: read_onlyD [OF process_reads])

lemma give_back_logged: "give_back gw req e w = (r, w') \<Longrightarrow> tabs w' = logged (RefundCall req) (tabs w)"
  by (auto simp: give_back_def seq_def bind_def log_call_def logged_def dest: read_onlyD [OF refund_reads])

end

lemma read_only_ctx_err: "read_only ctx_err"
  by (simp add: read_only_def ctx_err_def)

interpretation mock: payment_gateway "MockGateway failPayment" for failPayment
  by unfold_locales
    (auto simp: MockGateway_def mock_process_def mock_refund_def intro!: read_only_intros read_only_ctx_err)

lemma razorpay_call_reads: "read_only (razorpay_call R H url key body)"
  by (simp add: read_only_def razorpay_call_def ret_def)

interpretation razorpay: payment_gateway "Razorpay R H" for R H
proof
  show "read_only (gw_process (Razorpay R H) req)" for req
    unfolding Razorpay_def razorpay_process_def Let_def PaymentGateway.select_convs
    by (intro read_only_intros)
      (auto intro!: read_only_intros razorpay_call_reads split: http_answer.split prod.split option.split)
  show "read_only (gw_refund (Razorpay R H) req)" for req
    unfolding Razorpay_def razorpay_refund_def Let_def PaymentGateway.select_convs
    by (intro read_only_intros)
      (auto intro!: read_only_intros razorpay_call_reads split: http_answer.split prod.split option.split)
qed

text \<open>Whatever the configuration, the provider meets the contract.\<close>

interpretation configured: payment_gateway "NewPaymentGateway cfg H" for cfg H
proof
  show "read_only (gw_process (NewPaymentGateway cfg H) req)" for req
    by (simp add: NewPaymentGateway_def mock.process_reads razorpay.process_reads)
  show "read_only (gw_refund (NewPaymentGateway cfg H) req)" for req
    by (simp add: NewPaymentGateway_def mock.refund_reads razorpay.refund_reads)
qed

end
