(* ===== verification/Payment_Service.thy ===== *)
theory Payment_Service
  imports Payment_Gateway
begin

text \<open>
  The payment service (\<open>services/payment-service/internal/service/payment_service.go\<close>), the
  client it asks for the authoritative order (\<open>internal/client/order_client.go\<close>), the
  consumer of domain events (\<open>internal/consumer/event_consumer.go\<close>) and the endpoint of
  Razorpay's webhooks (\<open>internal/handler/webhook_handler.go\<close>). Pointer arguments are never
  nil. A method that returns a value and an error is its error: no caller looks at the value.
\<close>

section \<open>The order client\<close>

record OrderItemPb =
  ip_id :: string
  ip_product :: string
  ip_quantity :: int
  ip_unit_price :: f64
  ip_total_price :: f64

record OrderPb =
  op_id :: string
  op_user :: string
  op_total :: f64
  op_currency :: string
  op_status :: string
  op_items :: "OrderItemPb list"

text \<open>Connecting to the order service and asking it; both may fail.\<close>

record grpcOrderClient =
  oc_connect :: "go_error option"
  oc_get :: "string \<Rightarrow> go_error + OrderPb option"

definition GetOrder_client :: "grpcOrderClient \<Rightarrow> string \<Rightarrow> go_error + AuthoritativeOrder option" where
  "GetOrder_client c orderID =
     (if orderID = [] then Inl (BadRequest ''order_id cannot be empty'')
      else case oc_connect c of
        Some er \<Rightarrow> Inl (Internal (Some er) ''failed to connect to order service'')
      | None \<Rightarrow>
          (case oc_get c orderID of
             Inl er \<Rightarrow> Inl (NotFound (''authoritative order '' @ orderID @ '' not found''))
           | Inr None \<Rightarrow> Inl (NotFound (''authoritative order '' @ orderID @ '' is empty''))
           | Inr (Some o1) \<Rightarrow>
               Inr (Some \<lparr>ao_id = op_id o1, ao_user = op_user o1, ao_total = op_total o1,
                 ao_currency = or_else (op_currency o1) ''INR'', ao_status = op_status o1,
                 ao_items = map (\<lambda>it. \<lparr>ai_id = ip_id it, ai_product = ip_product it,
                   ai_quantity = ip_quantity it, ai_unit_price = ip_unit_price it,
                   ai_total_price = ip_total_price it\<rparr>) (op_items o1)\<rparr>)))"

section \<open>Charging\<close>

record pay_svc =
  svc_lib :: pay_lib
  gateway :: PaymentGateway
  orderClient :: "(string \<Rightarrow> go_error + AuthoritativeOrder option) option"

record ProcessPaymentDTO =
  pp_order :: string
  pp_user :: string
  pp_method :: string
  pp_key :: string
  pp_client_amount :: f64
  pp_client_currency :: string

text \<open>
  The update to PENDING replaces the payment by its result, also when that is nil: reading
  the identifier for the log message then panics.
\<close>

definition NilDereference :: go_error where
  "NilDereference = ErrorString ''runtime error: invalid memory address or nil pointer dereference''"

definition text_of :: "pay_svc \<Rightarrow> go_error \<Rightarrow> string" where
  "text_of S er = error_text (pay_grpc (svc_lib S)) er"

text \<open>The answer of the provider, and what it makes of the payment.\<close>

definition declined :: "pay_svc \<Rightarrow> Payment \<Rightarrow> ProcessGatewayResponse option \<Rightarrow> Payment pay_db" where
  "declined S p resp =
     UpdatePaymentStatus (svc_lib S) (pay_id p) ''FAILED''
       (case resp of None \<Rightarrow> [] | Some r \<Rightarrow> gr_txn r)
       (case resp of None \<Rightarrow> ''payment charge declined by gateway''
        | Some r \<Rightarrow> or_else (gr_failure r) ''payment charge declined by gateway'') []"

definition settle :: "pay_svc \<Rightarrow> Payment \<Rightarrow> go_error + ProcessGatewayResponse option \<Rightarrow> Payment pay_db" where
  "settle S p answer =
     (case answer of
        Inl gwErr \<Rightarrow>
          (let reason = text_of S (SanitizeGatewayError gwErr) in
           bind (attempt (UpdatePaymentStatus (svc_lib S) (pay_id p) ''FAILED'' [] reason [])) (\<lambda>updated.
           case updated of
             Inr q \<Rightarrow> ret q
           | Inl _ \<Rightarrow> ret (p\<lparr>pay_status := ''FAILED'', pay_failure := reason\<rparr>)))
      | Inr None \<Rightarrow> declined S p None
      | Inr (Some r) \<Rightarrow>
          if gr_status r = ''SUCCESS'' then
            UpdatePaymentStatus (svc_lib S) (pay_id p) ''SUCCESS'' (gr_txn r) [] []
          else if gr_status r = ''PENDING'' \<or> gr_status r = ''CREATED'' \<or> gr_status r = ''INITIATED'' then
            UpdatePaymentStatus (svc_lib S) (pay_id p) ''PENDING'' (gr_txn r) [] []
          else declined S p (Some r))"

definition charge_request :: "Payment \<Rightarrow> ProcessGatewayRequest" where
  "charge_request p =
     \<lparr>gq_payment = pay_id p, gq_order = pay_order p, gq_amount = pay_amount p,
      gq_currency = pay_currency p, gq_method = pay_method p, gq_key = pay_key p\<rparr>"

definition charge_and_settle :: "pay_svc \<Rightarrow> Payment \<Rightarrow> Payment pay_db" where
  "charge_and_settle S p = bind (attempt (charge (gateway S) (charge_request p))) (settle S p)"

definition new_payment :: "ProcessPaymentDTO \<Rightarrow> AuthoritativeOrder \<Rightarrow> string \<Rightarrow> Payment" where
  "new_payment dto order u =
     \<lparr>pay_id = [], pay_order = pp_order dto, pay_user = or_else (pp_user dto) (ao_user order),
      pay_method = NormalizePaymentMethod (pp_method dto), pay_method_id = None,
      pay_amount = ao_total order, pay_currency = or_else (ao_currency order) ''INR'',
      pay_status = ''INITIATED'', pay_txn = ''tx_'' @ u, pay_gateway_txn = [], pay_key = pp_key dto,
      pay_failure = [], pay_created = 0, pay_updated = 0\<rparr>"

definition start_payment :: "pay_svc \<Rightarrow> ProcessPaymentDTO \<Rightarrow> AuthoritativeOrder \<Rightarrow> Payment pay_db" where
  "start_payment S dto order =
     bind new_uuid (\<lambda>u.
     bind (CreatePayment (svc_lib S) (new_payment dto order u)) (\<lambda>p.
     bind (attempt (UpdatePaymentStatus (svc_lib S) (pay_id p) ''PENDING'' [] [] [])) (\<lambda>pending.
     case pending of
       Inl _ \<Rightarrow> raise NilDereference
     | Inr q \<Rightarrow> charge_and_settle S q)))"

definition ProcessPayment :: "pay_svc \<Rightarrow> ProcessPaymentDTO \<Rightarrow> Payment pay_db" where
  "ProcessPayment S dto =
     seq (require (pp_order dto \<noteq> []) (BadRequest ''order_id is required''))
     (seq (require (pp_key dto \<noteq> []) (BadRequest ''client-generated idempotency_key is required''))
     (bind (attempt (GetPaymentByIdempotencyKey (pp_key dto))) (\<lambda>existing.
      case existing of
        Inr p \<Rightarrow> ret p
      | Inl _ \<Rightarrow>
        (case orderClient S of
           None \<Rightarrow> raise (Internal None ''order service client is not available'')
         | Some client \<Rightarrow>
             (case client (pp_order dto) of
                Inl er \<Rightarrow> raise (BadRequest (''cannot process payment: authoritative order error: '' @ text_of S er))
              | Inr None \<Rightarrow> raise (BadRequest ''cannot process payment: authoritative order error: <nil>'')
              | Inr (Some order) \<Rightarrow>
                  bind (attempt (GetPaymentByOrderID (pp_order dto))) (\<lambda>active.
                  case active of
                    Inr p \<Rightarrow>
                      if pay_status p = ''SUCCESS'' \<or> pay_status p = ''PENDING'' then ret p
                      else start_payment S dto order
                  | Inl _ \<Rightarrow> start_payment S dto order))))))"

definition GetPaymentByID_svc :: "pay_svc \<Rightarrow> string \<Rightarrow> Payment pay_db" where
  "GetPaymentByID_svc S i =
     seq (require (i \<noteq> []) (BadRequest ''payment id cannot be empty'')) (GetPaymentByID (svc_lib S) i)"

definition GetPaymentByOrderID_svc :: "pay_svc \<Rightarrow> string \<Rightarrow> Payment pay_db" where
  "GetPaymentByOrderID_svc S orderID =
     seq (require (orderID \<noteq> []) (BadRequest ''order_id cannot be empty'')) (GetPaymentByOrderID orderID)"

record CancelPaymentDTO =
  cp_payment :: string
  cp_order :: string
  cp_reason :: string

definition CancelPayment :: "pay_svc \<Rightarrow> CancelPaymentDTO \<Rightarrow> Payment pay_db" where
  "CancelPayment S dto =
     seq (require (\<not> (cp_payment dto = [] \<and> cp_order dto = []))
           (BadRequest ''payment_id or order_id is required for cancellation''))
     (bind (if cp_payment dto \<noteq> [] then GetPaymentByID (svc_lib S) (cp_payment dto)
            else GetPaymentByOrderID (cp_order dto)) (\<lambda>p.
      if pay_status p = ''CANCELLED'' then ret p
      else if pay_status p \<noteq> ''INITIATED'' \<and> pay_status p \<noteq> ''PENDING'' then
        raise (BadRequest (if pay_status p = ''SUCCESS''
          then ''cannot cancel a successful payment; use refund instead''
          else ''cannot cancel payment with status '' @ pay_status p))
      else UpdatePaymentStatus (svc_lib S) (pay_id p) ''CANCELLED'' []
             (or_else (cp_reason dto) ''Payment cancelled'') []))"

section \<open>Refunds\<close>

record CreateRefundDTO =
  cr_payment :: string
  cr_amount :: f64
  cr_reason :: string
  cr_key :: string

text \<open>The two comparisons with the tolerance \<open>1e-6\<close>.\<close>

definition exceeds_refundable :: "f64 \<Rightarrow> f64 \<Rightarrow> f64 \<Rightarrow> bool" where
  "exceeds_refundable paid refunded amount \<longleftrightarrow> flt (fadd (fsub paid refunded) micro) amount"

definition fully_refunded :: "f64 \<Rightarrow> f64 \<Rightarrow> bool" where
  "fully_refunded paid refunded \<longleftrightarrow> fle (fsub paid micro) refunded"

text \<open>The refund of a key seen before, or the error of the lookup.\<close>

definition lookup_refund :: "pay_svc \<Rightarrow> string \<Rightarrow> Refund option pay_db" where
  "lookup_refund S key =
     bind (attempt (GetRefundByIdempotencyKey key)) (\<lambda>r.
     case r of
       Inr ref \<Rightarrow> ret (Some ref)
     | Inl er \<Rightarrow>
         if errors_Is er ErrRefundNotFound \<or> IsNotFound (pay_grpc (svc_lib S)) (Some er) then ret None
         else raise (WrapError ''failed to check existing refund: '' er))"

definition refund_request :: "CreateRefundDTO \<Rightarrow> Payment \<Rightarrow> Refund \<Rightarrow> RefundGatewayRequest" where
  "refund_request dto p ref =
     \<lparr>rq_refund = rf_id ref, rq_payment = pay_id p, rq_txn = pay_gateway_txn p,
      rq_amount = cr_amount dto, rq_reason = cr_reason dto, rq_key = cr_key dto\<rparr>"

text \<open>A refund the provider did not make: the status of the payment is restored.\<close>

definition undo_refund :: "pay_svc \<Rightarrow> Payment \<Rightarrow> Refund \<Rightarrow> string \<Rightarrow> Refund pay_db" where
  "undo_refund S p ref reason =
     bind (attempt (UpdateRefundStatus (svc_lib S) (rf_id ref) ''FAILED'' [])) (\<lambda>updatedRef.
     seq (ignore_error (UpdatePaymentStatus (svc_lib S) (pay_id p) (pay_status p) [] reason []))
     (case updatedRef of Inr r \<Rightarrow> ret r | Inl _ \<Rightarrow> ret (ref\<lparr>rf_status := ''FAILED''\<rparr>)))"

definition settle_refund ::
  "pay_svc \<Rightarrow> CreateRefundDTO \<Rightarrow> Payment \<Rightarrow> f64 \<Rightarrow> Refund \<Rightarrow> go_error + RefundGatewayResponse option \<Rightarrow> Refund pay_db" where
  "settle_refund S dto p totalRefunded ref answer =
     (case answer of
        Inl gwErr \<Rightarrow>
          seq (undo_refund S p ref (text_of S (SanitizeGatewayError gwErr))) (raise (SanitizeGatewayError gwErr))
      | Inr resp \<Rightarrow>
          if resp \<noteq> None \<and> rr_status (the resp) = ''SUCCESS'' then
            bind (UpdateRefundStatus (svc_lib S) (rf_id ref) ''SUCCESS'' (rr_id (the resp))) (\<lambda>updatedRef.
            seq (UpdatePaymentStatus (svc_lib S) (pay_id p)
                  (if fully_refunded (pay_amount p) (fadd totalRefunded (cr_amount dto))
                   then ''REFUNDED'' else ''PARTIALLY_REFUNDED'') (pay_gateway_txn p) [] [])
                (ret updatedRef))
          else undo_refund S p ref ''Refund declined by gateway'')"

definition make_refund :: "pay_svc \<Rightarrow> CreateRefundDTO \<Rightarrow> Payment \<Rightarrow> f64 \<Rightarrow> Refund pay_db" where
  "make_refund S dto p totalRefunded =
     seq (UpdatePaymentStatus (svc_lib S) (pay_id p) ''REFUND_PENDING'' [] [] [])
     (bind (attempt (CreateRefund (svc_lib S)
             \<lparr>rf_id = [], rf_payment = pay_id p, rf_order = pay_order p, rf_amount = cr_amount dto,
              rf_reason = cr_reason dto, rf_status = ''PENDING'', rf_gateway_id = [], rf_key = cr_key dto,
              rf_created = 0, rf_updated = 0\<rparr>)) (\<lambda>created.
      case created of
        Inl er \<Rightarrow>
          seq (ignore_error (UpdatePaymentStatus (svc_lib S) (pay_id p) (pay_status p) [] [] [])) (raise er)
      | Inr ref \<Rightarrow>
          bind (attempt (give_back (gateway S) (refund_request dto p ref)))
            (settle_refund S dto p totalRefunded ref)))"

definition refund_payment :: "pay_svc \<Rightarrow> CreateRefundDTO \<Rightarrow> Refund pay_db" where
  "refund_payment S dto =
     bind (GetPaymentByID (svc_lib S) (cr_payment dto)) (\<lambda>p.
     seq (require (pay_status p \<noteq> ''REFUNDED'') (BadRequest ''payment is already fully refunded''))
     (seq (require (pay_status p = ''SUCCESS'' \<or> pay_status p = ''PARTIALLY_REFUNDED'')
            (BadRequest (''cannot refund payment with status '' @ pay_status p)))
     (bind (GetTotalRefundedAmount (svc_lib S) (pay_id p)) (\<lambda>totalRefunded.
      seq (require (\<not> exceeds_refundable (pay_amount p) totalRefunded (cr_amount dto))
            (BadRequest (''refund amount '' @ fmt2 (svc_lib S) (cr_amount dto) @ '' exceeds refundable amount ''
               @ fmt2 (svc_lib S) (fsub (pay_amount p) totalRefunded))))
          (make_refund S dto p totalRefunded)))))"

definition CreateRefund_svc :: "pay_svc \<Rightarrow> CreateRefundDTO \<Rightarrow> Refund pay_db" where
  "CreateRefund_svc S dto =
     seq (require (cr_payment dto \<noteq> []) (BadRequest ''payment_id is required for refund''))
     (seq (require (\<not> fle (cr_amount dto) fzero) (BadRequest ''refund amount must be greater than zero''))
     (bind (if cr_key dto \<noteq> [] then lookup_refund S (cr_key dto) else ret None) (\<lambda>existing.
      case existing of
        Some ref \<Rightarrow>
          if rf_payment ref = cr_payment dto then ret ref
          else raise (Conflict ''refund request with this idempotency key already exists for a different payment'')
      | None \<Rightarrow> refund_payment S dto)))"

definition GetRefundsByPaymentID_svc :: "pay_svc \<Rightarrow> string \<Rightarrow> Refund list pay_db" where
  "GetRefundsByPaymentID_svc S paymentID =
     seq (require (paymentID \<noteq> []) (BadRequest ''payment_id cannot be empty''))
         (GetRefundsByPaymentID (svc_lib S) paymentID)"

end
