(* ===== verification/Payment_Events.thy ===== *)
theory Payment_Events
  imports Payment_Service
begin

text \<open>
  What reaches the payment service from outside a client's call: Razorpay's webhooks
  (\<open>HandleRazorpayWebhook\<close> and its helpers in \<open>internal/service/payment_service.go\<close>, the
  endpoint in \<open>internal/handler/webhook_handler.go\<close>) and the domain events
  (\<open>HandleOrderCreated\<close>, \<open>ProcessReturnRefund\<close>, \<open>internal/consumer/event_consumer.go\<close>).
  Decoding JSON is a parameter.
\<close>

section \<open>Webhooks\<close>

record RazorpayPaymentEntity =
  pe_id :: string
  pe_order :: string
  pe_method :: string
  pe_notes :: "(string \<times> string) list"
  pe_error_description :: string
  pe_error_reason :: string

record RazorpayOrderEntity =
  oe_id :: string
  oe_receipt :: string
  oe_notes :: "(string \<times> string) list"

record RazorpayRefundEntity =
  re_id :: string
  re_payment :: string
  re_notes :: "(string \<times> string) list"

record RazorpayWebhookEvent =
  we_id :: string
  we_event_id :: string
  we_event :: string
  we_payment :: RazorpayPaymentEntity
  we_order :: RazorpayOrderEntity
  we_refund :: RazorpayRefundEntity
  we_created :: int

definition webhook_event_id :: "RazorpayWebhookEvent \<Rightarrow> string" where
  "webhook_event_id ev =
     or_else (we_id ev) (or_else (we_event_id ev)
       (we_event ev @ ''_'' @
        or_else (pe_id (we_payment ev)) (or_else (oe_id (we_order ev)) (re_id (we_refund ev))) @ ''_'' @
        itoa (we_created ev)))"

text \<open>One attempt after the other; an empty or missing key is skipped, a failed one too.\<close>

fun first_found :: "(string option \<times> (string \<Rightarrow> Payment pay_db)) list \<Rightarrow> Payment option pay_db" where
  "first_found [] = ret None"
| "first_found ((k, q) # later) =
     (case k of
        None \<Rightarrow> first_found later
      | Some key \<Rightarrow>
          if key = [] then first_found later
          else bind (attempt (q key)) (\<lambda>r. case r of Inr p \<Rightarrow> ret (Some p) | Inl _ \<Rightarrow> first_found later))"

definition findPaymentForWebhook :: "pay_svc \<Rightarrow> RazorpayWebhookEvent \<Rightarrow> Payment pay_db" where
  "findPaymentForWebhook S ev =
     (let p = we_payment ev; ord = we_order ev in
      bind (first_found
        [(map_of (pe_notes p) ''payment_id'', GetPaymentByID (svc_lib S)),
         (map_of (oe_notes ord) ''payment_id'', GetPaymentByID (svc_lib S)),
         (Some (oe_receipt ord), GetPaymentByOrderID),
         (map_of (pe_notes p) ''order_id'', GetPaymentByOrderID),
         (Some (pe_order p), GetPaymentByGatewayTransactionID),
         (Some (pe_id p), GetPaymentByGatewayTransactionID),
         (Some (oe_id ord), GetPaymentByGatewayTransactionID)]) (\<lambda>found.
      case found of
        Some pmt \<Rightarrow> ret pmt
      | None \<Rightarrow> raise (NotFound ''payment record not found for webhook event'')))"

definition webhook_txn :: "RazorpayWebhookEvent \<Rightarrow> string" where
  "webhook_txn ev = or_else (pe_id (we_payment ev)) (oe_id (we_order ev))"

definition webhook_method :: "RazorpayWebhookEvent \<Rightarrow> string" where
  "webhook_method ev =
     (let m = pe_method (we_payment ev) in if m \<noteq> [] then NormalizePaymentMethod m else [])"

text \<open>The three handlers for payments have one shape: target status and failure reason.\<close>

definition handle_payment_webhook :: "pay_svc \<Rightarrow> RazorpayWebhookEvent \<Rightarrow> status \<Rightarrow> string \<Rightarrow> unit pay_db" where
  "handle_payment_webhook S ev st reason =
     bind (findPaymentForWebhook S ev) (\<lambda>p.
     if pay_status p = st then ret ()
     else if \<not> CanTransitionPayment (pay_status p) st then ret ()
     else seq (UpdatePaymentStatus (svc_lib S) (pay_id p) st (webhook_txn ev) reason [webhook_method ev])
              (ret ()))"

definition handlePaymentPendingWebhook :: "pay_svc \<Rightarrow> RazorpayWebhookEvent \<Rightarrow> unit pay_db" where
  "handlePaymentPendingWebhook S ev = handle_payment_webhook S ev ''PENDING'' []"

definition handlePaymentSuccessWebhook :: "pay_svc \<Rightarrow> RazorpayWebhookEvent \<Rightarrow> unit pay_db" where
  "handlePaymentSuccessWebhook S ev = handle_payment_webhook S ev ''SUCCESS'' []"

definition handlePaymentFailedWebhook :: "pay_svc \<Rightarrow> RazorpayWebhookEvent \<Rightarrow> unit pay_db" where
  "handlePaymentFailedWebhook S ev =
     handle_payment_webhook S ev ''FAILED''
       (or_else (pe_error_description (we_payment ev))
         (or_else (pe_error_reason (we_payment ev)) ''Payment failed at Razorpay gateway''))"

definition optional :: "'a pay_db \<Rightarrow> 'a option pay_db" where
  "optional m = bind (attempt m) (\<lambda>r. ret (case r of Inr x \<Rightarrow> Some x | Inl _ \<Rightarrow> None))"

text \<open>A sum that could not be read counts as zero, Go's value beside the error.\<close>

definition total_or_zero :: "pay_svc \<Rightarrow> string \<Rightarrow> f64 pay_db" where
  "total_or_zero S i =
     bind (optional (GetTotalRefundedAmount (svc_lib S) i)) (\<lambda>r. ret (case r of Some x \<Rightarrow> x | None \<Rightarrow> fzero))"

definition refund_target :: "pay_svc \<Rightarrow> RazorpayRefundEntity \<Rightarrow> Refund option \<Rightarrow> Payment option pay_db" where
  "refund_target S ent targetRefund =
     (case targetRefund of
        Some r \<Rightarrow> optional (GetPaymentByID (svc_lib S) (rf_payment r))
      | None \<Rightarrow>
          bind (case map_of (re_notes ent) ''payment_id'' of
                  Some i \<Rightarrow> if i \<noteq> [] then optional (GetPaymentByID (svc_lib S) i) else ret None
                | None \<Rightarrow> ret None) (\<lambda>p.
          if p = None \<and> re_payment ent \<noteq> [] then optional (GetPaymentByID (svc_lib S) (re_payment ent))
          else ret p))"

definition handleRefundSuccessWebhook :: "pay_svc \<Rightarrow> RazorpayWebhookEvent \<Rightarrow> unit pay_db" where
  "handleRefundSuccessWebhook S ev =
     (let ent = we_refund ev in
      if re_id ent = [] then ret ()
      else
        bind (optional (GetRefundByGatewayRefundID (re_id ent))) (\<lambda>targetRefund.
        bind (refund_target S ent targetRefund) (\<lambda>targetPayment.
        seq (case targetRefund of
               Some r \<Rightarrow> ignore_error (UpdateRefundStatus (svc_lib S) (rf_id r) ''SUCCESS'' (re_id ent))
             | None \<Rightarrow> ret ())
        (case targetPayment of
           None \<Rightarrow> ret ()
         | Some p \<Rightarrow>
             bind (total_or_zero S (pay_id p)) (\<lambda>totalRefunded.
             ignore_error (UpdatePaymentStatus (svc_lib S) (pay_id p)
               (if fully_refunded (pay_amount p) totalRefunded then ''REFUNDED'' else ''PARTIALLY_REFUNDED'')
               [] [] []))))))"

definition handleRefundFailedWebhook :: "pay_svc \<Rightarrow> RazorpayWebhookEvent \<Rightarrow> unit pay_db" where
  "handleRefundFailedWebhook S ev =
     (let ent = we_refund ev in
      if re_id ent = [] then ret ()
      else
        bind (optional (GetRefundByGatewayRefundID (re_id ent))) (\<lambda>found.
        case found of
          None \<Rightarrow> ret ()
        | Some r \<Rightarrow>
            seq (ignore_error (UpdateRefundStatus (svc_lib S) (rf_id r) ''FAILED'' (re_id ent)))
            (bind (total_or_zero S (rf_payment r)) (\<lambda>totalRefunded.
             ignore_error (UpdatePaymentStatus (svc_lib S) (rf_payment r)
               (if flt fzero totalRefunded then ''PARTIALLY_REFUNDED'' else ''SUCCESS'')
               [] ''Refund failed at Razorpay gateway'' [])))))"

text \<open>The handler of an event type, \<^const>\<open>None\<close> for one that is only acknowledged.\<close>

definition webhook_handler :: "pay_svc \<Rightarrow> RazorpayWebhookEvent \<Rightarrow> unit pay_db option" where
  "webhook_handler S ev =
     (let ty = we_event ev in
      if ty \<in> set [''payment.authorized'', ''payment.created''] then Some (handlePaymentPendingWebhook S ev)
      else if ty \<in> set [''payment.captured'', ''order.paid''] then Some (handlePaymentSuccessWebhook S ev)
      else if ty \<in> set [''payment.failed'', ''payment.disputed'', ''payment.dispute.created'']
      then Some (handlePaymentFailedWebhook S ev)
      else if ty \<in> set [''refund.processed'', ''refund.created'', ''refund.speed_processed'']
      then Some (handleRefundSuccessWebhook S ev)
      else if ty = ''refund.failed'' then Some (handleRefundFailedWebhook S ev)
      else None)"

definition HandleRazorpayWebhook ::
  "pay_svc \<Rightarrow> (string \<Rightarrow> go_error + RazorpayWebhookEvent) \<Rightarrow> string \<Rightarrow> unit pay_db" where
  "HandleRazorpayWebhook S decode body =
     seq (require (body \<noteq> []) (BadRequest ''webhook body cannot be empty''))
     (case decode body of
        Inl er \<Rightarrow> raise (BadRequest (''invalid webhook json payload: '' @ text_of S er))
      | Inr ev \<Rightarrow>
          (let eventID = webhook_event_id ev in
           bind (optional (IsWebhookProcessed eventID)) (\<lambda>processed.
           if processed = Some True then ret ()
           else
             seq (ignore_error (SaveWebhookEvent
                   \<lparr>wh_id = [], wh_event = eventID, wh_provider = ''RAZORPAY'', wh_type = we_event ev,
                    wh_payload = body, wh_processed = False, wh_processed_at = None, wh_created = 0\<rparr>))
             (case webhook_handler S ev of
                None \<Rightarrow> ignore_error (MarkWebhookProcessed eventID)
              | Some h \<Rightarrow> seq h (ignore_error (MarkWebhookProcessed eventID))))))"

text \<open>The endpoint: only a signed body reaches the service.\<close>

definition WebhookEndpoint ::
  "pay_svc \<Rightarrow> (string \<Rightarrow> string \<Rightarrow> string) \<Rightarrow> (string \<Rightarrow> go_error + RazorpayWebhookEvent) \<Rightarrow> string \<Rightarrow>
     string \<Rightarrow> string \<Rightarrow> nat pay_db" where
  "WebhookEndpoint S hmac decode secret body signature =
     (if signature = [] \<or> secret = [] \<or> \<not> VerifyRazorpayWebhookSignature hmac body signature secret
      then ret 400
      else
        bind (attempt (HandleRazorpayWebhook S decode body)) (\<lambda>r.
        ret (case r of
               Inr _ \<Rightarrow> 200
             | Inl er \<Rightarrow> if IsNotFound (pay_grpc (svc_lib S)) (Some er) then 404 else 400)))"

section \<open>Domain events\<close>

record OrderCreatedData =
  od_order :: string
  od_user :: string
  od_total :: f64
  od_currency :: string

record ReturnRefundEligibleEvent =
  rre_return :: string
  rre_order :: string
  rre_item :: string
  rre_user :: string
  rre_type :: string
  rre_amount :: f64
  rre_reason :: string

definition HandleOrderCreated :: "pay_svc \<Rightarrow> OrderCreatedData \<Rightarrow> Payment pay_db" where
  "HandleOrderCreated S ev =
     seq (require (\<not> blank (od_order ev)) (BadRequest ''order_id is required in OrderCreated payload''))
     (let orderID = TrimSpace (od_order ev);
          process = ProcessPayment S \<lparr>pp_order = orderID, pp_user = od_user ev, pp_method = ''CREDIT_CARD'',
            pp_key = ''order-pay-'' @ orderID, pp_client_amount = od_total ev,
            pp_client_currency = or_else (od_currency ev) ''USD''\<rparr> in
      bind (attempt (GetPaymentByOrderID orderID)) (\<lambda>existing.
      case existing of
        Inr p \<Rightarrow>
          if pay_status p \<in> set [''SUCCESS'', ''PENDING'', ''FAILED'', ''CANCELLED''] then ret p else process
      | Inl _ \<Rightarrow> process))"

record ProcessReturnRefundDTO =
  pr_return :: string
  pr_order :: string
  pr_item :: string
  pr_user :: string
  pr_type :: string
  pr_amount :: f64
  pr_reason :: string

text \<open>The amount of the first matching item: its total, or unit price times quantity.\<close>

definition item_amount :: "AuthoritativeOrderItem \<Rightarrow> f64 \<Rightarrow> f64" where
  "item_amount it fallback =
     (if flt fzero (ai_total_price it) then ai_total_price it
      else if flt fzero (ai_unit_price it) then
        fmul (ai_unit_price it) (fint (if ai_quantity it \<le> 0 then 1 else ai_quantity it))
      else fallback)"

definition resolve_amount :: "pay_svc \<Rightarrow> ProcessReturnRefundDTO \<Rightarrow> f64 pay_db" where
  "resolve_amount S dto =
     (let item = TrimSpace (pr_item dto) in
      seq (require (item \<noteq> [])
            (BadRequest ''order_item_id is required to resolve refundable amount for item-level return''))
      (case orderClient S of
         None \<Rightarrow> raise (ErrorString (''order client unavailable to resolve refundable amount for item '' @ item))
       | Some client \<Rightarrow>
           (case client (pr_order dto) of
              Inl er \<Rightarrow> raise (WrapError (''failed to retrieve order '' @ pr_order dto @
                '' to resolve item refundable amount: '') er)
            | Inr order \<Rightarrow>
                seq (require (order \<noteq> None \<and> ao_items (the order) \<noteq> [])
                  (ErrorString (''order '' @ pr_order dto @ '' has no items to resolve refundable amount'')))
                (case find (\<lambda>it. ai_id it = item \<or> ai_product it = item) (ao_items (the order)) of
                   None \<Rightarrow> raise (ErrorString (''could not resolve refundable amount for item '' @ item
                     @ '' in order '' @ pr_order dto))
                 | Some it \<Rightarrow>
                     seq (require (\<not> fle (item_amount it (pr_amount dto)) fzero)
                       (ErrorString (''could not resolve refundable amount for item '' @ item
                         @ '' in order '' @ pr_order dto)))
                     (ret (item_amount it (pr_amount dto)))))))"

definition refund_return :: "pay_svc \<Rightarrow> ProcessReturnRefundDTO \<Rightarrow> string \<Rightarrow> Payment \<Rightarrow> Refund pay_db" where
  "refund_return S dto key p =
     seq (require (pay_status p = ''SUCCESS'' \<or> pay_status p = ''PARTIALLY_REFUNDED'')
           (BadRequest (''cannot refund payment with status '' @ pay_status p @
              ''; payment must be successfully captured'')))
     (bind (if fle (pr_amount dto) fzero then resolve_amount S dto else ret (pr_amount dto)) (\<lambda>amount.
      seq (require (\<not> fle amount fzero) (BadRequest ''refundable amount must be greater than zero''))
      (bind (GetTotalRefundedAmount (svc_lib S) (pay_id p)) (\<lambda>totalRefunded.
       bind (ret (fsub (pay_amount p) totalRefunded)) (\<lambda>remaining.
       seq (require (\<not> fle remaining fzero) (BadRequest ''payment is already fully refunded''))
       (CreateRefund_svc S
         \<lparr>cr_payment = pay_id p, cr_amount = (if flt remaining amount then remaining else amount),
          cr_reason = or_else (pr_reason dto) (''Refund for approved return '' @ pr_return dto),
          cr_key = key\<rparr>))))))"

definition ProcessReturnRefund :: "pay_svc \<Rightarrow> ProcessReturnRefundDTO \<Rightarrow> Refund option pay_db" where
  "ProcessReturnRefund S dto =
     seq (require (\<not> blank (pr_return dto)) (BadRequest ''return_id is required''))
     (seq (require (\<not> blank (pr_order dto)) (BadRequest ''order_id is required''))
     (let ty = ToUpper (TrimSpace (pr_type dto)); key = ''refund_'' @ pr_return dto @ ''_'' @ pr_order dto in
      if ty = ''REPLACEMENT'' \<or> ty = ''EXCHANGE'' then ret None
      else if ty \<noteq> ''RETURN'' then
        raise (BadRequest (''invalid or unsupported return type: '' @ quoted (svc_lib S) (pr_type dto) @
          '' (supported: RETURN, REPLACEMENT, EXCHANGE)''))
      else
        bind (lookup_refund S key) (\<lambda>existing.
        case existing of
          Some ref \<Rightarrow> ret (Some ref)
        | None \<Rightarrow>
            bind (attempt (GetPaymentByOrderID (pr_order dto))) (\<lambda>payment.
            case payment of
              Inl _ \<Rightarrow> raise (NotFound (''payment for order '' @ pr_order dto @ '' not found''))
            | Inr p \<Rightarrow> bind (refund_return S dto key p) (\<lambda>ref. ret (Some ref))))))"

record 'd pay_decoders =
  dec_order_created :: "'d \<Rightarrow> go_error + OrderCreatedData"
  dec_refund_eligible :: "'d \<Rightarrow> go_error + ReturnRefundEligibleEvent"

text \<open>Errors a retry cannot cure are acknowledged.\<close>

definition handleReturnRefundEligible :: "pay_svc \<Rightarrow> 'd pay_decoders \<Rightarrow> 'd EventEnvelope \<Rightarrow> unit pay_db" where
  "handleReturnRefundEligible S D env =
     bind (on_error (call (dec_refund_eligible D (EventData env)))
            (WrapError ''failed to unmarshal ReturnRefundEligible payload: '')) (\<lambda>ev.
     (let returnID = or_else (TrimSpace (rre_return ev)) (TrimSpace (AggregateID env));
          orderID = TrimSpace (rre_order ev) in
      if returnID = [] \<or> orderID = [] then ret ()
      else
        bind (attempt (ProcessReturnRefund S
          \<lparr>pr_return = returnID, pr_order = orderID, pr_item = rre_item ev, pr_user = rre_user ev,
           pr_type = rre_type ev, pr_amount = rre_amount ev,
           pr_reason = or_else (TrimSpace (rre_reason ev)) (''Refund for eligible return '' @ returnID)\<rparr>)) (\<lambda>r.
        case r of
          Inr _ \<Rightarrow> ret ()
        | Inl er \<Rightarrow>
            (case as_app er of
               Some a \<Rightarrow>
                 if err_code a \<in> {CodeBadRequest, CodeConflict, CodeNotFound} then ret () else raise er
             | None \<Rightarrow> raise er))))"

definition HandleEvent_payment :: "pay_svc \<Rightarrow> 'd pay_decoders \<Rightarrow> 'd EventEnvelope option \<Rightarrow> unit pay_db" where
  "HandleEvent_payment S D envelope =
     (case envelope of
        None \<Rightarrow> raise (BadRequest ''event envelope is nil'')
      | Some env \<Rightarrow>
        if EventType env = ''OrderCreated'' then
          bind (on_error (call (dec_order_created D (EventData env)))
                 (WrapError ''failed to unmarshal OrderCreatedEvent payload: '')) (\<lambda>ev.
          seq (HandleOrderCreated S (if blank (od_order ev) then ev\<lparr>od_order := AggregateID env\<rparr> else ev))
              (ret ()))
        else if EventType env = ''ReturnRefundEligible'' then handleReturnRefundEligible S D env
        else ret ())"

end
