(* ===== verification/Payment_Handler.thy ===== *)
theory Payment_Handler
  imports Payment_Events
begin

text \<open>
  The HTTP endpoints of the payment service beside the webhook
  (\<open>services/payment-service/internal/handler/payment_handler.go\<close>, registered in
  \<open>cmd/server/main.go\<close>), and every request the service serves. The repository is never nil.
  A request body is the struct \<open>BodyParser\<close> leaves, also when it fails; the clock counts
  nanoseconds.

  \<open>CreateOrder\<close> calls the provider on its own, with what the client sent, and only then
  writes the payment. Its calls are logged apart from those of \<open>ProcessPayment\<close>.
\<close>

section \<open>The endpoints\<close>

record PaymentHandler =
  ph_lib :: pay_lib
  paymentGW :: PaymentGateway
  gwConfig :: GatewayConfig
  ph_int64 :: "f64 \<Rightarrow> int"

definition GetKey :: "PaymentHandler \<Rightarrow> string" where
  "GetKey H = or_else (cfg_key_id (gwConfig H)) ''rzp_test_xxxx''"

record orderReq =
  rq_order_id :: string
  rq_user_id :: string
  rq_amt :: f64
  rq_cur :: string
  rq_pay_method :: string
  rq_pay_method_alt :: string

text \<open>The JSON answer; the key \<open>payment_id\<close> is missing when no order was made.\<close>

record orderAnswer =
  oa_id :: string
  oa_payment :: "string option"
  oa_amount :: int
  oa_currency :: string
  oa_real :: bool

text \<open>\<open>int64(amount * 100)\<close>: towards zero; a value that does not fit is left to the implementation.\<close>

definition go_trunc :: "rat \<Rightarrow> int" where
  "go_trunc q = (if 0 \<le> q then \<lfloor>q\<rfloor> else - \<lfloor>- q\<rfloor>)"

definition paise :: "PaymentHandler \<Rightarrow> f64 \<Rightarrow> int" where
  "paise H amount =
     (case fmul amount (Fin 100) of
        Fin q \<Rightarrow> if int64 (go_trunc q) then go_trunc q else ph_int64 H (Fin q)
      | x \<Rightarrow> ph_int64 H x)"

text \<open>The defaults of the request.\<close>

definition order_amount :: "orderReq \<Rightarrow> f64" where
  "order_amount req = (if fle (rq_amt req) fzero then Fin 1499 else rq_amt req)"

definition order_method :: "orderReq \<Rightarrow> string" where
  "order_method req =
     NormalizePaymentMethod (or_else (rq_pay_method req) (or_else (rq_pay_method_alt req) ''NET_BANKING''))"

definition test_order :: "PaymentHandler \<Rightarrow> orderReq \<Rightarrow> orderAnswer" where
  "test_order H req =
     \<lparr>oa_id = [], oa_payment = None, oa_amount = paise H (order_amount req),
      oa_currency = or_else (rq_cur req) ''INR'', oa_real = False\<rparr>"

definition order_call :: "PaymentGateway \<Rightarrow> ProcessGatewayRequest \<Rightarrow> ProcessGatewayResponse option pay_db" where
  "order_call gw req = seq (log_call (OrderCall req)) (gw_process gw req)"

context payment_gateway
begin

lemma order_call_logged: "order_call gw req e w = (r, w') \<Longrightarrow> tabs w' = logged (OrderCall req) (tabs w)"
  by (auto simp: order_call_def seq_def bind_def log_call_def logged_def dest: read_onlyD [OF process_reads])

end

text \<open>With real keys: an order of the provider, and a pending payment for it.\<close>

definition real_order :: "PaymentHandler \<Rightarrow> orderReq \<Rightarrow> string \<Rightarrow> string \<Rightarrow> orderAnswer pay_db" where
  "real_order H req orderID userID =
     bind new_uuid (\<lambda>paymentID.
     bind time_now (\<lambda>now.
     (let idempKey = ''idemp_'' @ itoa now; currency = or_else (rq_cur req) ''INR'' in
      bind (attempt (order_call (paymentGW H)
             \<lparr>gq_payment = paymentID, gq_order = orderID, gq_amount = order_amount req, gq_currency = currency,
              gq_method = order_method req, gq_key = idempKey\<rparr>)) (\<lambda>rzpResp.
      case rzpResp of
        Inr (Some resp) \<Rightarrow>
          if gr_txn resp \<noteq> [] then
            bind new_uuid (\<lambda>u.
            seq (ignore_error (CreatePayment (ph_lib H)
                  \<lparr>pay_id = paymentID, pay_order = orderID, pay_user = userID, pay_method = order_method req,
                   pay_method_id = None, pay_amount = order_amount req, pay_currency = currency,
                   pay_status = ''PENDING'', pay_txn = ''tx_'' @ u, pay_gateway_txn = gr_txn resp,
                   pay_key = idempKey, pay_failure = [], pay_created = 0, pay_updated = 0\<rparr>))
                (ret \<lparr>oa_id = gr_txn resp, oa_payment = Some paymentID, oa_amount = paise H (order_amount req),
                      oa_currency = currency, oa_real = True\<rparr>))
          else ret (test_order H req)
      | _ \<Rightarrow> ret (test_order H req)))))"

definition new_order :: "PaymentHandler \<Rightarrow> orderReq \<Rightarrow> orderAnswer pay_db" where
  "new_order H req =
     bind (if rq_order_id req = [] then new_uuid else ret (rq_order_id req)) (\<lambda>orderID.
     bind (if rq_user_id req = [] then new_uuid else ret (rq_user_id req)) (\<lambda>userID.
     if cfg_key_id (gwConfig H) \<noteq> [] \<and> cfg_key_secret (gwConfig H) \<noteq> [] \<and>
        \<not> Contains (cfg_key_id (gwConfig H)) ''xxxx''
     then real_order H req orderID userID
     else ret (test_order H req)))"

definition CreateOrder_http :: "PaymentHandler \<Rightarrow> orderReq \<Rightarrow> orderAnswer pay_db" where
  "CreateOrder_http H req =
     (if rq_order_id req \<noteq> [] then
        bind (attempt (GetPaymentByOrderID (rq_order_id req))) (\<lambda>existing.
        case existing of
          Inr p \<Rightarrow>
            if pay_status p = ''PENDING'' \<and> pay_gateway_txn p \<noteq> [] then
              ret \<lparr>oa_id = pay_gateway_txn p, oa_payment = Some (pay_id p), oa_amount = paise H (pay_amount p),
                   oa_currency = pay_currency p, oa_real = True\<rparr>
            else new_order H req
        | Inl _ \<Rightarrow> new_order H req)
      else new_order H req)"

section \<open>The callback\<close>

text \<open>\<open>c.FormValue(k, d)\<close> and \<open>c.Query(k, d)\<close>: the default stands for an empty value too.\<close>

record http_params =
  form_value :: "string \<Rightarrow> string"
  query_value :: "string \<Rightarrow> string"

definition param :: "http_params \<Rightarrow> string \<Rightarrow> string \<Rightarrow> string" where
  "param c key alt = or_else (form_value c key) (or_else (query_value c key) (query_value c alt))"

definition callback_failed :: "http_params \<Rightarrow> bool" where
  "callback_failed c \<longleftrightarrow>
     ToLower (or_else (form_value c ''status'') (query_value c ''status'')) \<in> set [''failed'', ''failure'', ''error''] \<or>
     param c ''error_code'' ''error[code]'' \<noteq> []"

definition callback_reason :: "http_params \<Rightarrow> string" where
  "callback_reason c =
     or_else (or_else (form_value c ''error_description'') (or_else (query_value c ''error_description'')
       (or_else (query_value c ''error[description]'') (or_else (query_value c ''error_reason'')
         (query_value c ''error'')))))
     ''Payment failed at gateway callback''"

definition or_try :: "bool \<Rightarrow> Payment pay_db \<Rightarrow> go_error + Payment \<Rightarrow> (go_error + Payment) pay_db" where
  "or_try b q r = (case r of Inr p \<Rightarrow> ret r | Inl _ \<Rightarrow> if b then attempt q else ret r)"

definition callback_payment :: "pay_lib \<Rightarrow> string \<Rightarrow> string \<Rightarrow> (go_error + Payment) pay_db" where
  "callback_payment L orderID paymentID =
     bind (attempt (GetPaymentByID L (or_else orderID paymentID))) (\<lambda>first.
     bind (or_try (orderID \<noteq> []) (GetPaymentByOrderID orderID) first) (\<lambda>second.
     or_try (paymentID \<noteq> [] \<and> or_else orderID paymentID \<noteq> paymentID) (GetPaymentByID L paymentID) second))"

record callbackAnswer =
  ca_status :: string
  ca_order :: string
  ca_payment :: string
  ca_signature :: string

definition callback_update :: "pay_lib \<Rightarrow> http_params \<Rightarrow> string \<Rightarrow> Payment \<Rightarrow> unit pay_db" where
  "callback_update L c paymentID p =
     (if callback_failed c then
        ignore_error (UpdatePaymentStatus L (pay_id p) ''FAILED'' paymentID (callback_reason c) [])
      else ignore_error (UpdatePaymentStatus L (pay_id p) ''SUCCESS'' paymentID [] []))"

definition PaymentCallback :: "PaymentHandler \<Rightarrow> http_params \<Rightarrow> callbackAnswer pay_db" where
  "PaymentCallback H c =
     (let orderID = param c ''razorpay_order_id'' ''orderId'';
          paymentID = param c ''razorpay_payment_id'' ''paymentId'';
          answer = \<lparr>ca_status = (if callback_failed c then ''failed'' else ''success''), ca_order = orderID,
            ca_payment = paymentID, ca_signature = param c ''razorpay_signature'' ''signature''\<rparr> in
      if orderID \<noteq> [] \<or> paymentID \<noteq> [] then
        bind (callback_payment (ph_lib H) orderID paymentID) (\<lambda>found.
        seq (case found of
               Inr p \<Rightarrow> callback_update (ph_lib H) c paymentID p
             | Inl _ \<Rightarrow> ret ())
            (ret answer))
      else ret answer)"

section \<open>Requests\<close>

datatype 'd pay_request =
    PProcess ProcessPaymentDTO
  | PGet string
  | PGetByOrder string
  | PCancel CancelPaymentDTO
  | PRefund CreateRefundDTO
  | PRefunds string
  | PWebhook string
  | PEvent "'d EventEnvelope option"
  | PCreateOrder GatewayConfig "f64 \<Rightarrow> int" orderReq
  | PCallback GatewayConfig "f64 \<Rightarrow> int" http_params

fun serve_payment ::
  "pay_svc \<Rightarrow> (string \<Rightarrow> go_error + RazorpayWebhookEvent) \<Rightarrow> 'd pay_decoders \<Rightarrow> 'd pay_request \<Rightarrow> unit pay_db" where
  "serve_payment S J D (PProcess dto) = seq (ProcessPayment S dto) (ret ())"
| "serve_payment S J D (PGet i) = seq (GetPaymentByID_svc S i) (ret ())"
| "serve_payment S J D (PGetByOrder i) = seq (GetPaymentByOrderID_svc S i) (ret ())"
| "serve_payment S J D (PCancel dto) = seq (CancelPayment S dto) (ret ())"
| "serve_payment S J D (PRefund dto) = seq (CreateRefund_svc S dto) (ret ())"
| "serve_payment S J D (PRefunds i) = seq (GetRefundsByPaymentID_svc S i) (ret ())"
| "serve_payment S J D (PWebhook body) = HandleRazorpayWebhook S J body"
| "serve_payment S J D (PEvent env) = HandleEvent_payment S D env"
| "serve_payment S J D (PCreateOrder cfg cast req) =
     seq (CreateOrder_http \<lparr>ph_lib = svc_lib S, paymentGW = gateway S, gwConfig = cfg, ph_int64 = cast\<rparr> req) (ret ())"
| "serve_payment S J D (PCallback cfg cast c) =
     seq (PaymentCallback \<lparr>ph_lib = svc_lib S, paymentGW = gateway S, gwConfig = cfg, ph_int64 = cast\<rparr> c) (ret ())"

end
