(* ===== verification/Payment_Trace.thy ===== *)
theory Payment_Trace
  imports Payment_Handler
begin

text \<open>
  Correctness of the payment service: an invariant of its tables and of the log of calls to
  the provider, how payments evolve, and that every request, whatever fails, keeps the one
  and follows the other.
\<close>

section \<open>The invariant\<close>

definition charges :: "pay_tables \<Rightarrow> ProcessGatewayRequest list" where
  "charges t = concat (map (\<lambda>c. case c of ChargeCall q \<Rightarrow> [q] | _ \<Rightarrow> []) (gateway_log t))"

definition refund_calls :: "pay_tables \<Rightarrow> RefundGatewayRequest list" where
  "refund_calls t = concat (map (\<lambda>c. case c of RefundCall q \<Rightarrow> [q] | _ \<Rightarrow> []) (gateway_log t))"

definition order_calls :: "pay_tables \<Rightarrow> ProcessGatewayRequest list" where
  "order_calls t = concat (map (\<lambda>c. case c of OrderCall q \<Rightarrow> [q] | _ \<Rightarrow> []) (gateway_log t))"

lemmas call_defs = charges_def refund_calls_def order_calls_def

text \<open>The payments that are not of the endpoint \<open>CreateOrder\<close>, by the key it made.\<close>

definition by_service :: "Payment \<Rightarrow> pay_tables \<Rightarrow> bool" where
  "by_service p t \<longleftrightarrow> pay_key p \<notin> gq_key ` set (order_calls t)"

text \<open>The events a payment or refund must have been announced with.\<close>

definition payment_events :: "status \<Rightarrow> string list" where
  "payment_events st = ''PaymentInitiated'' #
     (if st \<in> set [''SUCCESS'', ''REFUND_PENDING'', ''PARTIALLY_REFUNDED'', ''REFUNDED''] then [''PaymentSuccessful'']
      else if st = ''FAILED'' then [''PaymentFailed'']
      else if st = ''PENDING'' then [''PaymentPending'']
      else if st = ''CANCELLED'' then [''PaymentCancelled'']
      else [])"

text \<open>The events every payment must have been announced with, also one of the endpoint.\<close>

definition settled_events :: "status \<Rightarrow> string list" where
  "settled_events st =
     (if st \<in> set [''SUCCESS'', ''REFUND_PENDING'', ''PARTIALLY_REFUNDED'', ''REFUNDED''] then [''PaymentSuccessful'']
      else if st = ''FAILED'' then [''PaymentFailed'']
      else if st = ''CANCELLED'' then [''PaymentCancelled'']
      else [])"

definition refund_events :: "status \<Rightarrow> string list" where
  "refund_events st = ''RefundInitiated'' #
     (if st = ''SUCCESS'' then [''RefundCompleted'']
      else if st = ''FAILED'' then [''RefundFailed'']
      else [])"

definition announced :: "string \<Rightarrow> string list \<Rightarrow> pay_tables \<Rightarrow> bool" where
  "announced agg tys t \<longleftrightarrow> (\<forall>ty \<in> set tys. has_event agg ty t)"

text \<open>The charge of a payment, as the row stands.\<close>

definition charge_of :: "ProcessGatewayRequest \<Rightarrow> Payment \<Rightarrow> bool" where
  "charge_of q p \<longleftrightarrow> gq_payment q = pay_id p \<and> gq_key q = pay_key p \<and> gq_order q = pay_order p \<and>
     gq_amount q = pay_amount p \<and> gq_currency q = pay_currency p"

text \<open>
  The refund a request to the provider is for. The row has the amount of the request as the
  column \<open>DECIMAL(12,2)\<close> holds it.
\<close>

definition refund_of :: "pay_lib \<Rightarrow> RefundGatewayRequest \<Rightarrow> Refund \<Rightarrow> bool" where
  "refund_of L q r \<longleftrightarrow> rq_refund q = rf_id r \<and> rq_key q = rf_key r \<and> rq_payment q = rf_payment r \<and>
     pg_decimal L (rq_amount q) = Some (rf_amount r)"

definition payments_ok :: "pay_lib \<Rightarrow> pay_tables \<Rightarrow> bool" where
  "payments_ok L t \<longleftrightarrow> keyed pay_id (payments t) \<and> keyed pay_key (payments t) \<and>
     (\<forall>p \<in> set (payments t). pay_status p \<in> set payment_statuses \<and> pg_uuid L (pay_id p) \<and>
        announced (pay_id p) (settled_events (pay_status p)) t \<and>
        (by_service p t \<longrightarrow> announced (pay_id p) (payment_events (pay_status p)) t))"

definition refunds_ok :: "pay_tables \<Rightarrow> bool" where
  "refunds_ok t \<longleftrightarrow> keyed rf_id (refunds t) \<and> keyed rf_key (refunds t) \<and>
     (\<forall>r \<in> set (refunds t). announced (rf_id r) (refund_events (rf_status r)) t)"

definition calls_ok :: "pay_lib \<Rightarrow> pay_tables \<Rightarrow> bool" where
  "calls_ok L t \<longleftrightarrow> keyed gq_key (charges t) \<and> keyed rq_key (refund_calls t) \<and>
     (\<forall>q \<in> set (charges t). \<exists>p \<in> set (payments t). charge_of q p) \<and>
     (\<forall>q \<in> set (refund_calls t). \<exists>r \<in> set (refunds t). refund_of L q r) \<and>
     (\<forall>q \<in> set (order_calls t). \<exists>n. gq_key q = ''idemp_'' @ itoa n)"

definition pay_inv :: "pay_lib \<Rightarrow> pay_tables \<Rightarrow> bool" where
  "pay_inv L t \<longleftrightarrow> payments_ok L t \<and> refunds_ok t \<and> calls_ok L t \<and>
     keyed (\<lambda>r. (ob_aggregate_id r, ob_event_type r)) (pay_outbox t)"

section \<open>Evolution\<close>

definition core :: "Payment \<Rightarrow> string \<times> string \<times> string \<times> f64 \<times> string \<times> string \<times> string" where
  "core p = (pay_id p, pay_order p, pay_user p, pay_amount p, pay_currency p, pay_txn p, pay_key p)"

definition leads_to :: "status \<Rightarrow> status \<Rightarrow> bool" where
  "leads_to = CanTransitionPayment\<^sup>*\<^sup>*"

definition evolves :: "pay_tables \<Rightarrow> pay_tables \<Rightarrow> bool" where
  "evolves t t' \<longleftrightarrow> (\<forall>p \<in> set (payments t). \<exists>q \<in> set (payments t').
     core q = core p \<and> leads_to (pay_status p) (pay_status q))"

lemma evolves_refl: "evolves t t"
  unfolding evolves_def leads_to_def by blast

lemma evolves_trans: "evolves t t1 \<Longrightarrow> evolves t1 t2 \<Longrightarrow> evolves t t2"
  unfolding evolves_def leads_to_def by (metis rtranclp_trans)

lemma evolves_same: "payments t2 = payments t1 \<Longrightarrow> evolves t t1 \<Longrightarrow> evolves t t2"
  by (simp add: evolves_def)

section \<open>What the statements do\<close>

definition add_event :: "string \<Rightarrow> string \<Rightarrow> pay_tables \<Rightarrow> pay_tables \<Rightarrow> bool" where
  "add_event agg ty t t' \<longleftrightarrow> (has_event agg ty t \<and> t' = t) \<or>
     (\<not> has_event agg ty t \<and> (\<exists>r. ob_aggregate_id r = agg \<and> ob_event_type r = ty \<and>
        t' = t\<lparr>pay_outbox := pay_outbox t @ [r]\<rparr>))"

lemma insert_event_run:
  "insert_event r t = Inr (u, t') \<Longrightarrow> add_event (ob_aggregate_id r) (ob_event_type r) t t'"
  unfolding insert_event_def add_event_def by (auto simp: run_ok split: if_splits sum.splits)

lemma record_event_run:
  "record_event a agg ty topic d now e w = (Inr u, w') \<Longrightarrow> add_event agg ty (tabs w) (tabs w')"
  unfolding record_event_def payment_envelope_def NewEventEnvelopeWithAggregate_def
  by (auto simp: run_ok split: if_splits dest!: insert_event_run)

lemma add_event_keyed:
  assumes "add_event agg ty t t'" and "keyed (\<lambda>r. (ob_aggregate_id r, ob_event_type r)) (pay_outbox t)"
  shows "keyed (\<lambda>r. (ob_aggregate_id r, ob_event_type r)) (pay_outbox t')"
  using assms unfolding add_event_def has_event_def by (fastforce simp: keyed_snoc)

lemma add_event_frame:
  assumes "add_event agg ty t t'"
  shows "payments t' = payments t" "refunds t' = refunds t" "gateway_log t' = gateway_log t"
    "has_event agg ty t'" "has_event a b t \<Longrightarrow> has_event a b t'"
  using assms by (auto simp: add_event_def has_event_def)

lemma same_calls:
  "gateway_log t' = gateway_log t \<Longrightarrow>
    charges t' = charges t \<and> refund_calls t' = refund_calls t \<and> order_calls t' = order_calls t"
  by (simp add: call_defs)

lemma same_by_service: "gateway_log t' = gateway_log t \<Longrightarrow> by_service p t' = by_service p t"
  by (drule same_calls) (simp add: by_service_def)

lemma announced_add: "add_event agg ty t t' \<Longrightarrow> announced a tys t \<Longrightarrow> announced a tys t'"
  unfolding announced_def by (blast dest: add_event_frame(5))

lemma add_event_inv:
  assumes ev: "add_event agg ty t t'" and inv0: "pay_inv L t"
  shows "pay_inv L t'"
proof -
  note f = add_event_frame [OF ev] same_calls [OF add_event_frame(3) [OF ev]]
  have "payments_ok L t'" "refunds_ok t'" "calls_ok L t'"
    using inv0 f announced_add [OF ev] same_by_service [OF f(3)]
    by (simp_all add: pay_inv_def payments_ok_def refunds_ok_def calls_ok_def)
  with add_event_keyed [OF ev] inv0 show ?thesis by (simp add: pay_inv_def)
qed

lemma insert_payment_run:
  assumes "insert_payment L i pm now p t = Inr (row, t')"
  shows "i \<notin> pay_id ` set (payments t)" "pay_key p \<notin> pay_key ` set (payments t)" "pg_uuid L i"
    "pay_status p \<in> set payment_statuses" "pg_decimal L (pay_amount p) = Some (pay_amount row)"
    "t' = t\<lparr>payments := payments t @ [row]\<rparr>" "pay_id row = i" "pay_status row = pay_status p"
    "pay_order row = pay_order p" "pay_user row = pay_user p" "pay_currency row = pay_currency p"
    "pay_key row = pay_key p" "pay_txn row = pay_txn p"
  using assms by (auto simp: insert_payment_def Let_def split: if_splits option.splits)

section \<open>A new payment\<close>

lemma new_row_inv:
  assumes inv0: "pay_inv L t" and new: "pay_id row \<notin> pay_id ` set (payments t)" "pay_key row \<notin> pay_key ` set (payments t)"
    and row: "pg_uuid L (pay_id row)" "pay_status row \<in> set payment_statuses"
      "announced (pay_id row) (settled_events (pay_status row)) t'"
      "by_service row t \<longrightarrow> announced (pay_id row) (payment_events (pay_status row)) t'"
    and frame: "payments t' = payments t @ [row]" "refunds t' = refunds t" "gateway_log t' = gateway_log t"
      "\<And>a ty. has_event a ty t \<Longrightarrow> has_event a ty t'"
      "keyed (\<lambda>r. (ob_aggregate_id r, ob_event_type r)) (pay_outbox t')"
  shows "pay_inv L t'"
proof -
  have old: "announced a tys t \<Longrightarrow> announced a tys t'" for a tys using frame(4) by (simp add: announced_def)
  have ok: "payments_ok L t" "refunds_ok t" "calls_ok L t" using inv0 by (simp_all add: pay_inv_def)
  have "payments_ok L t'"
    using ok(1) new row old same_by_service [OF frame(3)] unfolding payments_ok_def frame(1)
    by (auto simp: keyed_snoc)
  moreover have "refunds_ok t'" using ok(2) old frame(2) by (simp add: refunds_ok_def)
  moreover have "calls_ok L t'" using ok(3) same_calls [OF frame(3)] frame(1,2) by (auto simp: calls_ok_def)
  ultimately show ?thesis using frame(5) by (simp add: pay_inv_def)
qed

lemma new_payment_inv:
  assumes inv0: "pay_inv L t" and new: "pay_id row \<notin> pay_id ` set (payments t)" "pay_key row \<notin> pay_key ` set (payments t)"
    and row: "pg_uuid L (pay_id row)" "pay_status row = ''INITIATED''"
    and ev: "add_event (pay_id row) ''PaymentInitiated'' (t\<lparr>payments := payments t @ [row]\<rparr>) t'"
  shows "pay_inv L t'"
proof (rule new_row_inv [OF inv0 new row(1)])
  note f = add_event_frame [OF ev]
  show "announced (pay_id row) (settled_events (pay_status row)) t'"
    "by_service row t \<longrightarrow> announced (pay_id row) (payment_events (pay_status row)) t'"
    using f(4) row by (simp_all add: announced_def payment_events_def settled_events_def)
  show "has_event a ty t \<Longrightarrow> has_event a ty t'" for a ty using f(5) [of a ty] by (simp add: has_event_def)
  show "keyed (\<lambda>r. (ob_aggregate_id r, ob_event_type r)) (pay_outbox t')"
    using add_event_keyed [OF ev] inv0 by (simp add: pay_inv_def)
qed (use add_event_frame [OF ev] row in \<open>simp_all add: payment_statuses_def\<close>)

text \<open>
  A state reached from \<open>t0\<close>, with the log \<open>lg\<close>. Every transaction of the repository keeps it,
  whatever its outcome.
\<close>

definition sound :: "pay_lib \<Rightarrow> pay_tables \<Rightarrow> gateway_call list \<Rightarrow> pay_tables \<Rightarrow> bool" where
  "sound L t0 lg t \<longleftrightarrow> pay_inv L t \<and> evolves t0 t \<and> gateway_log t = lg"

definition has_payment :: "string \<Rightarrow> string \<Rightarrow> pay_tables \<Rightarrow> bool" where
  "has_payment i key t \<longleftrightarrow> (\<exists>p \<in> set (payments t). pay_id p = i \<and> pay_key p = key)"

definition uncharged :: "string \<Rightarrow> pay_tables \<Rightarrow> bool" where
  "uncharged key t \<longleftrightarrow> key \<notin> gq_key ` set (charges t)"

lemma create_payment_tx_run:
  assumes "create_payment_tx L p e w = (Inr x, w')" and "pay_status p = ''INITIATED''"
  obtains i pm row t1 p1 where "insert_payment L i pm (clock e) p (tabs w) = Inr (row, t1)"
    "add_event (pay_id row) ''PaymentInitiated'' t1 (tabs w')" "x = Commit p1" "pay_id p1 = pay_id row"
  using assms unfolding create_payment_tx_def
  by (auto simp: run_ok dest!: record_event_run split: if_splits)

lemma CreatePayment_outcomes:
  assumes "pay_status p = ''INITIATED''"
  shows "outcomes (sound L t0 lg) (CreatePayment L p)
    (\<lambda>p1 t. sound L t0 lg t \<and> has_payment (pay_id p1) (pay_key p) t \<and> uncharged (pay_key p) t \<and> pg_uuid L (pay_id p1))
    (sound L t0 lg)"
  unfolding CreatePayment_def
proof (rule outcomes_with_tx)
  fix e x and w w' :: "pay_tables world"
  assume S: "sound L t0 lg (tabs w)" and run: "create_payment_tx L p e w = (Inr x, w')"
  from run assms obtain i pm row t1 p1 where ins: "insert_payment L i pm (clock e) p (tabs w) = Inr (row, t1)"
    and ev: "add_event (pay_id row) ''PaymentInitiated'' t1 (tabs w')"
    and x: "x = Commit p1" "pay_id p1 = pay_id row"
    by (rule create_payment_tx_run)
  note r = insert_payment_run [OF ins]
  have inv0: "pay_inv L (tabs w)" using S by (simp add: sound_def)
  have inv1: "pay_inv L (tabs w')"
    by (rule new_payment_inv [OF inv0 _ _ _ _ ev [unfolded r(6)]]) (use r assms in simp_all)
  have pay': "payments (tabs w') = payments (tabs w) @ [row]" using add_event_frame(1) [OF ev] r(6) by simp
  have log': "gateway_log (tabs w') = gateway_log (tabs w)" using add_event_frame(3) [OF ev] r(6) by simp
  have "evolves t0 (tabs w')" using S pay' unfolding sound_def evolves_def by fastforce
  moreover have "uncharged (pay_key p) (tabs w')"
    using inv0 r(2) same_calls [OF log']
    by (auto simp: uncharged_def pay_inv_def calls_ok_def charge_of_def)
  moreover have "has_payment (pay_id p1) (pay_key p) (tabs w')" using pay' x r by (auto simp: has_payment_def)
  ultimately show "\<exists>y. x = Commit y \<and> sound L t0 lg (tabs w') \<and> has_payment (pay_id y) (pay_key p) (tabs w') \<and>
      uncharged (pay_key p) (tabs w') \<and> pg_uuid L (pay_id y)"
    using S x inv1 log' r by (auto simp: sound_def)
qed

text \<open>The pending payment of the endpoint, whose order the provider knows already.\<close>

definition ordered :: "string \<Rightarrow> pay_tables \<Rightarrow> bool" where
  "ordered key t \<longleftrightarrow> key \<in> gq_key ` set (order_calls t)"

lemma pending_payment_inv:
  assumes "pay_inv L t" and "pay_id row \<notin> pay_id ` set (payments t)" "pay_key row \<notin> pay_key ` set (payments t)"
    and "pg_uuid L (pay_id row)" "pay_status row = ''PENDING''" and "ordered (pay_key row) t"
    and t': "t' = t\<lparr>payments := payments t @ [row]\<rparr>"
  shows "pay_inv L t'"
proof (rule new_row_inv [OF assms(1-4)])
  show "has_event a ty t \<Longrightarrow> has_event a ty t'" for a ty by (simp add: t' has_event_def)
qed (use assms in \<open>simp_all add: t' announced_def settled_events_def payment_statuses_def by_service_def ordered_def pay_inv_def\<close>)

lemma CreatePayment_pending:
  assumes st: "pay_status p = ''PENDING''"
  shows "outcomes (\<lambda>t. sound L t0 lg t \<and> ordered (pay_key p) t) (CreatePayment L p)
    (\<lambda>_. sound L t0 lg) (sound L t0 lg)"
proof (rule outcomes_weaken)
  let ?P = "\<lambda>t. sound L t0 lg t \<and> ordered (pay_key p) t"
  show "outcomes ?P (CreatePayment L p) (\<lambda>_. sound L t0 lg) ?P"
    unfolding CreatePayment_def
  proof (rule outcomes_with_tx)
    fix e x and w w' :: "pay_tables world"
    assume S: "?P (tabs w)" and run: "create_payment_tx L p e w = (Inr x, w')"
    from run st obtain i pm row y where ins: "insert_payment L i pm (clock e) p (tabs w) = Inr (row, tabs w')"
      and x: "x = Commit y"
      unfolding create_payment_tx_def by (auto simp: run_ok split: if_splits)
    note r = insert_payment_run [OF ins]
    have "pay_inv L (tabs w')"
      by (rule pending_payment_inv [OF _ _ _ _ _ _ r(6)]) (use S r st in \<open>simp_all add: sound_def\<close>)
    moreover have "evolves t0 (tabs w')" using S r(6) unfolding sound_def evolves_def by fastforce
    ultimately show "\<exists>y. x = Commit y \<and> sound L t0 lg (tabs w')" using S x r(6) by (simp add: sound_def)
  qed
qed auto

section \<open>A change of status\<close>

lemma update_payment_run:
  assumes "update_payment i st gtx reason pm now t = Inr (Some p, t')"
  obtains old where "find (\<lambda>p. pay_id p = i) (payments t) = Some old"
    "p = status_update st gtx reason pm now t old"
    "t' = t\<lparr>payments := upd_where (\<lambda>p. pay_id p = i) (status_update st gtx reason pm now t) (payments t)\<rparr>"
  using assms by (auto simp: update_payment_def Let_def split: option.splits if_splits)

lemma status_update_simps [simp]:
  "pay_id (status_update st gtx reason pm now t p) = pay_id p"
  "pay_key (status_update st gtx reason pm now t p) = pay_key p"
  "pay_status (status_update st gtx reason pm now t p) = st"
  "core (status_update st gtx reason pm now t p) = core p"
  by (simp_all add: status_update_def core_def)

lemma charge_of_core: "core q = core p \<Longrightarrow> charge_of c q = charge_of c p"
  by (simp add: charge_of_def core_def)

text \<open>The events of the new status are those of the old one, with its own.\<close>

definition event_name :: "status \<Rightarrow> string" where
  "event_name st =
     (if st = ''SUCCESS'' then ''PaymentSuccessful'' else if st = ''FAILED'' then ''PaymentFailed''
      else if st = ''PENDING'' then ''PaymentPending'' else if st = ''CANCELLED'' then ''PaymentCancelled''
      else [])"

lemma status_event_name:
  "status_event st p = None \<Longrightarrow> event_name st = []"
  "status_event st p = Some (ty, topic, d) \<Longrightarrow> ty = event_name st"
  by (auto simp: status_event_def event_name_def split: if_splits)

lemma payment_edges:
  "every_edge allowedPaymentTransitions (\<lambda>a b.
     list_all (\<lambda>ty. ty \<noteq> [] \<and> (ty \<in> set (payment_events a) \<or> ty = event_name b)) (payment_events b))"
  by code_simp

lemma settled_edges:
  "every_edge allowedPaymentTransitions (\<lambda>a b.
     list_all (\<lambda>ty. ty \<noteq> [] \<and> (ty \<in> set (settled_events a) \<or> ty = event_name b)) (settled_events b))"
  by code_simp

lemma next_settled:
  assumes "CanTransitionPayment a b" and "ty \<in> set (settled_events b)"
  shows "ty \<noteq> [] \<and> (ty \<in> set (settled_events a) \<or> ty = event_name b)"
proof -
  from assms(1) have "allowed_in allowedPaymentTransitions a b" by (simp add: CanTransitionPayment_def split: if_splits)
  from every_edgeD [OF settled_edges this] assms(2) show ?thesis by (auto simp: list_all_iff)
qed

lemma next_events:
  assumes "CanTransitionPayment a b" and "ty \<in> set (payment_events b)"
  shows "ty \<noteq> [] \<and> (ty \<in> set (payment_events a) \<or> ty = event_name b)"
proof -
  from assms(1) have "allowed_in allowedPaymentTransitions a b" by (simp add: CanTransitionPayment_def split: if_splits)
  from every_edgeD [OF payment_edges this] assms(2) show ?thesis by (auto simp: list_all_iff)
qed

lemma announce_status_run:
  assumes "announce_status old st p now e w = (Inr u, w')"
  shows "tabs w' = tabs w \<and> (old \<noteq> st \<longrightarrow> event_name st = []) \<or>
    add_event (pay_id p) (event_name st) (tabs w) (tabs w')"
  using assms unfolding announce_status_def
  by (auto simp: run_ok split: if_splits option.splits dest!: record_event_run
      dest: status_event_name)

lemma update_status_tx_run:
  assumes "update_status_tx L i target st gtx reason pm e w = (Inr x, w')"
  obtains old t1 where "find (\<lambda>p. pay_id p = target) (payments (tabs w)) = Some old"
    "pay_status old = st \<or> CanTransitionPayment (pay_status old) st"
    "t1 = (tabs w)\<lparr>payments := upd_where (\<lambda>p. pay_id p = target)
       (status_update st gtx reason pm (clock e) (tabs w)) (payments (tabs w))\<rparr>"
    "tabs w' = t1 \<and> (pay_status old \<noteq> st \<longrightarrow> event_name st = []) \<or>
       add_event target (event_name st) t1 (tabs w')"
    "x = Commit (status_update st gtx reason pm (clock e) (tabs w) old)"
proof -
  from assms obtain old p t1 w1 where run:
      "find (\<lambda>p. pay_id p = target) (payments (tabs w)) = Some old"
      "pay_status old = st \<or> CanTransitionPayment (pay_status old) st"
      "update_payment target st gtx reason pm (clock e) (tabs w) = Inr (Some p, t1)"
      "announce_status (pay_status old) st p (clock e) e w1 = (Inr (), w')" "x = Commit p" "tabs w1 = t1"
    unfolding update_status_tx_def with_uuid_def
    by (auto simp: run_ok split: if_splits option.splits)
  from run(3) obtain old' where up: "find (\<lambda>p. pay_id p = target) (payments (tabs w)) = Some old'"
      "p = status_update st gtx reason pm (clock e) (tabs w) old'"
      "t1 = (tabs w)\<lparr>payments := upd_where (\<lambda>p. pay_id p = target)
         (status_update st gtx reason pm (clock e) (tabs w)) (payments (tabs w))\<rparr>"
    by (rule update_payment_run)
  have "old' = old" "pay_id old = target" using run(1) up(1) find_Some_in by fastforce+
  with that [of old t1] run up announce_status_run [OF run(4)] show thesis by simp
qed

lemma CanTransition_known: "CanTransitionPayment a b \<Longrightarrow> b \<in> set payment_statuses"
  using payment_life.step_known by (auto simp: CanTransitionPayment_def split: if_splits)

text \<open>The rows after the update: each keeps its core, the target has the new status.\<close>

definition status_moved :: "string \<Rightarrow> status \<Rightarrow> pay_tables \<Rightarrow> pay_tables \<Rightarrow> bool" where
  "status_moved target st t t' \<longleftrightarrow> (\<exists>old f. find (\<lambda>p. pay_id p = target) (payments t) = Some old \<and>
     (pay_status old = st \<or> CanTransitionPayment (pay_status old) st) \<and>
     (\<forall>p. core (f p) = core p \<and> pay_status (f p) = st) \<and>
     payments t' = upd_where (\<lambda>p. pay_id p = target) f (payments t) \<and>
     refunds t' = refunds t \<and> gateway_log t' = gateway_log t \<and>
     (\<forall>a ty. has_event a ty t \<longrightarrow> has_event a ty t') \<and>
     (pay_status old = st \<or> event_name st = [] \<or> has_event target (event_name st) t') \<and>
     (keyed (\<lambda>r. (ob_aggregate_id r, ob_event_type r)) (pay_outbox t) \<longrightarrow>
      keyed (\<lambda>r. (ob_aggregate_id r, ob_event_type r)) (pay_outbox t')))"

lemma update_status_moved:
  assumes "update_status_tx L i target st gtx reason pm e w = (Inr x, w')"
  shows "status_moved target st (tabs w) (tabs w')"
proof -
  let ?f = "status_update st gtx reason pm (clock e) (tabs w)"
  from assms obtain old t1 where old: "find (\<lambda>p. pay_id p = target) (payments (tabs w)) = Some old"
      "pay_status old = st \<or> CanTransitionPayment (pay_status old) st"
    and t1: "t1 = (tabs w)\<lparr>payments := upd_where (\<lambda>p. pay_id p = target) ?f (payments (tabs w))\<rparr>"
    and ev: "tabs w' = t1 \<and> (pay_status old \<noteq> st \<longrightarrow> event_name st = []) \<or>
      add_event target (event_name st) t1 (tabs w')"
    by (rule update_status_tx_run)
  have same: "has_event a ty t1 = has_event a ty (tabs w)" for a ty by (simp add: t1 has_event_def)
  show ?thesis
    unfolding status_moved_def
    by (rule exI [of _ old], rule exI [of _ ?f])
      (use old ev add_event_frame [of target "event_name st" t1 "tabs w'"]
         add_event_keyed [of target "event_name st" t1 "tabs w'"] same in \<open>auto simp: t1\<close>)
qed

lemma core_parts: "core q = core p \<Longrightarrow> pay_id q = pay_id p \<and> pay_key q = pay_key p"
  by (simp add: core_def)

lemma status_moved_rows:
  assumes "pay_inv L t" and "status_moved target st t t'" and "q \<in> set (payments t')"
  obtains p where "p \<in> set (payments t)" "core q = core p"
    "pay_status q = pay_status p \<or> pay_id p = target \<and> pay_status q = st \<and>
       (pay_status p = st \<or> CanTransitionPayment (pay_status p) st)"
proof -
  from assms(2) obtain old f where old: "find (\<lambda>p. pay_id p = target) (payments t) = Some old"
      "pay_status old = st \<or> CanTransitionPayment (pay_status old) st"
    and f: "\<And>p. core (f p) = core p \<and> pay_status (f p) = st"
    and pay': "payments t' = upd_where (\<lambda>p. pay_id p = target) f (payments t)"
    unfolding status_moved_def by blast
  from assms(3) obtain p where p: "p \<in> set (payments t)" "q = (if pay_id p = target then f p else p)"
    unfolding pay' by (auto simp: in_upd_where)
  have key: "keyed pay_id (payments t)" using assms(1) by (simp add: pay_inv_def payments_ok_def)
  have "pay_id p = target \<Longrightarrow> p = old" using keyed_unique [OF key p(1)] find_Some_in [OF old(1)] by simp
  with p f old(2) that [of p] show thesis by (auto split: if_splits)
qed

lemma status_moved_inv:
  assumes inv0: "pay_inv L t" and mv: "status_moved target st t t'"
  shows "pay_inv L t'"
proof -
  have ok: "payments_ok L t" "refunds_ok t" "calls_ok L t" using inv0 by (simp_all add: pay_inv_def)
  from mv obtain old f where old: "find (\<lambda>p. pay_id p = target) (payments t) = Some old"
    and f: "\<And>p. core (f p) = core p \<and> pay_status (f p) = st"
    and pay': "payments t' = upd_where (\<lambda>p. pay_id p = target) f (payments t)"
    and frame: "refunds t' = refunds t" "gateway_log t' = gateway_log t"
      "\<And>a ty. has_event a ty t \<Longrightarrow> has_event a ty t'"
    and ev: "pay_status old = st \<or> event_name st = [] \<or> has_event target (event_name st) t'"
    and ob: "keyed (\<lambda>r. (ob_aggregate_id r, ob_event_type r)) (pay_outbox t) \<longrightarrow>
      keyed (\<lambda>r. (ob_aggregate_id r, ob_event_type r)) (pay_outbox t')"
    unfolding status_moved_def by blast
  have fid: "pay_id (f p) = pay_id p" "pay_key (f p) = pay_key p" for p
    using core_parts f by blast+
  have key: "keyed pay_id (payments t')" "keyed pay_key (payments t')"
    using ok(1) unfolding pay' payments_ok_def by (simp_all add: keyed_upd_where fid)
  have keep: "announced (pay_id q) (tys (pay_status q)) t'"
    if nxt: "\<And>a b ty. CanTransitionPayment a b \<Longrightarrow> ty \<in> set (tys b) \<Longrightarrow> ty \<noteq> [] \<and> (ty \<in> set (tys a) \<or> ty = event_name b)"
      and p: "p \<in> set (payments t)" "core q = core p"
      "pay_status q = pay_status p \<or> pay_id p = target \<and> pay_status q = st \<and>
         (pay_status p = st \<or> CanTransitionPayment (pay_status p) st)"
      and annp: "announced (pay_id p) (tys (pay_status p)) t"
    for tys :: "status \<Rightarrow> string list" and p q
  proof -
    have ids: "pay_id q = pay_id p" using core_parts [OF p(2)] by simp
    have mono: "announced (pay_id p) (tys (pay_status p)) t'" using annp frame(3) by (simp add: announced_def)
    show ?thesis
    proof (cases "pay_status q = pay_status p")
      case True
      with mono ids show ?thesis by simp
    next
      case False
      with p(3) have moved: "pay_id p = target" "pay_status q = st" "CanTransitionPayment (pay_status p) st" by auto
      have "p = old" using keyed_unique [of pay_id "payments t" p old] ok(1) p(1) find_Some_in [OF old] moved(1)
        by (simp add: payments_ok_def)
      then have "announced target (tys st) t'"
        using nxt [OF moved(3)] ev moved mono False unfolding announced_def by metis
      with moved ids show ?thesis by simp
    qed
  qed
  have "pay_status q \<in> set payment_statuses \<and> pg_uuid L (pay_id q) \<and>
      announced (pay_id q) (settled_events (pay_status q)) t' \<and>
      (by_service q t' \<longrightarrow> announced (pay_id q) (payment_events (pay_status q)) t')" if q: "q \<in> set (payments t')" for q
  proof -
    from inv0 mv q obtain p where p: "p \<in> set (payments t)" "core q = core p"
      "pay_status q = pay_status p \<or> pay_id p = target \<and> pay_status q = st \<and>
         (pay_status p = st \<or> CanTransitionPayment (pay_status p) st)"
      by (rule status_moved_rows)
    have rowp: "pay_status p \<in> set payment_statuses" "pg_uuid L (pay_id p)"
      "announced (pay_id p) (settled_events (pay_status p)) t"
      "by_service p t \<longrightarrow> announced (pay_id p) (payment_events (pay_status p)) t"
      using ok(1) p(1) by (auto simp: payments_ok_def)
    have "by_service q t' = by_service p t"
      using core_parts [OF p(2)] same_calls [OF frame(2)] by (simp add: by_service_def)
    with keep [where tys = settled_events, OF next_settled p rowp(3)]
      keep [where tys = payment_events, OF next_events p] rowp core_parts [OF p(2)] p(3) CanTransition_known
    show ?thesis by auto
  qed
  with key have "payments_ok L t'" by (simp add: payments_ok_def)
  moreover have "refunds_ok t'" using ok(2) frame by (auto simp: refunds_ok_def announced_def)
  moreover have "calls_ok L t'"
    unfolding calls_ok_def
  proof (intro conjI ballI)
    fix c assume "c \<in> set (charges t')"
    then obtain p where p: "p \<in> set (payments t)" "charge_of c p"
      using ok(3) same_calls [OF frame(2)] by (auto simp: calls_ok_def)
    let ?q = "if pay_id p = target then f p else p"
    have "?q \<in> set (payments t')" using p(1) unfolding pay' in_upd_where by blast
    moreover have "charge_of c ?q" using charge_of_core [of "f p" p c] f p(2) by simp
    ultimately show "\<exists>p \<in> set (payments t'). charge_of c p" by blast
  qed (use ok(3) same_calls [OF frame(2)] frame(1) in \<open>simp_all add: calls_ok_def\<close>)
  ultimately show ?thesis using ob inv0 by (simp add: pay_inv_def)
qed

lemma status_moved_evolves:
  assumes inv0: "pay_inv L t" and mv: "status_moved target st t t'"
  shows "evolves t t'"
  unfolding evolves_def
proof
  fix p assume p: "p \<in> set (payments t)"
  from mv obtain old f where f: "\<And>p. core (f p) = core p \<and> pay_status (f p) = st"
    and pay': "payments t' = upd_where (\<lambda>p. pay_id p = target) f (payments t)"
    unfolding status_moved_def by blast
  let ?q = "if pay_id p = target then f p else p"
  have q: "?q \<in> set (payments t')" using p unfolding pay' in_upd_where by blast
  from inv0 mv q obtain p' where p': "p' \<in> set (payments t)" "core ?q = core p'"
      "pay_status ?q = pay_status p' \<or> pay_id p' = target \<and> pay_status ?q = st \<and>
       (pay_status p' = st \<or> CanTransitionPayment (pay_status p') st)"
    by (rule status_moved_rows)
  have cp: "core ?q = core p" using f by simp
  with p'(2) have "pay_id p' = pay_id p" using core_parts by metis
  moreover have "keyed pay_id (payments t)" using inv0 by (simp add: pay_inv_def payments_ok_def)
  ultimately have "p' = p" using keyed_unique [of pay_id "payments t" p' p] p p'(1) by blast
  with p' have "leads_to (pay_status p) (pay_status ?q)" by (auto simp: leads_to_def)
  with q cp show "\<exists>q \<in> set (payments t'). core q = core p \<and> leads_to (pay_status p) (pay_status q)" by blast
qed

section \<open>Queries\<close>

lemma query_payment_read_only: "read_only (query_payment q missing msg)"
  unfolding query_payment_def
  by (intro read_only_intros read_only_pool_query) (auto split: option.splits if_splits)

lemma payment_queries_read_only:
  "read_only (GetPaymentByGatewayTransactionID g)" "read_only (GetPaymentByIdempotencyKey k)"
  "read_only (GetPaymentByOrderID i)"
  unfolding GetPaymentByGatewayTransactionID_def GetPaymentByIdempotencyKey_def GetPaymentByOrderID_def
  by (intro read_only_intros query_payment_read_only)+

lemma read_only_sum:
  "(\<And>x. read_only (f x)) \<Longrightarrow> (\<And>y. read_only (g y)) \<Longrightarrow> read_only (case r of Inl x \<Rightarrow> f x | Inr y \<Rightarrow> g y)"
  by (cases r) auto

lemma GetPaymentByID_read_only: "read_only (GetPaymentByID L i)"
  unfolding GetPaymentByID_def
  by (intro read_only_intros read_only_sum read_only_attempt payment_queries_read_only read_only_pool_query)
    (auto simp: with_uuid_def split: option.splits if_splits)

lemma resolve_target_read_only: "read_only (resolve_target L i)"
  unfolding resolve_target_def
  by (intro read_only_intros read_only_sum read_only_attempt payment_queries_read_only GetPaymentByID_read_only)

lemma read_only_with_uuid: "read_only (pool_sql (with_uuid L i (select q)))"
  by (rule read_only_pool_query) (auto simp: with_uuid_def select_def split: if_splits)

lemma query_refund_read_only:
  "(\<And>t x t'. q t = Inr (x, t') \<Longrightarrow> t' = t) \<Longrightarrow> read_only (query_refund q missing msg)"
  unfolding query_refund_def by (intro read_only_intros read_only_pool_query)

lemma refund_queries_read_only:
  "read_only (GetRefundByGatewayRefundID g)" "read_only (GetRefundByIdempotencyKey k)"
  "read_only (GetRefundsByPaymentID L i)" "read_only (GetTotalRefundedAmount L i)"
  "read_only (IsWebhookProcessed k)"
  unfolding GetRefundByGatewayRefundID_def GetRefundByIdempotencyKey_def GetRefundsByPaymentID_def
    GetTotalRefundedAmount_def IsWebhookProcessed_def
  by (intro read_only_intros query_refund_read_only read_only_with_uuid; simp add: select_def)+

lemmas pay_reads = payment_queries_read_only GetPaymentByID_read_only refund_queries_read_only

section \<open>The repository keeps the tables sound\<close>

lemma UpdatePaymentStatus_atomic: "atomic (UpdatePaymentStatus L i st gtx reason ms)"
  unfolding UpdatePaymentStatus_def by (intro atomic_bind resolve_target_read_only with_tx_atomic)

lemma UpdatePaymentStatus_run:
  assumes "UpdatePaymentStatus L i st gtx reason ms e w = (Inr q, w')"
  obtains target where "status_moved target st (tabs w) (tabs w')" "q \<in> set (payments (tabs w'))"
    "pay_id q = target" "pay_status q = st" "parse_uuid L i \<longrightarrow> target = i"
proof -
  let ?pm = "case ms of [] \<Rightarrow> [] | m # _ \<Rightarrow> if m \<noteq> [] then NormalizePaymentMethod m else []"
  from assms obtain target w1 where t: "resolve_target L i e w = (Inr target, w1)"
    and tx: "with_tx (wrap ''failed to begin transaction'') (wrap ''failed to commit transaction'')
       (update_status_tx L i target st gtx reason ?pm) e w1 = (Inr q, w')"
    unfolding UpdatePaymentStatus_def by (auto simp: bind_ok)
  have same: "tabs w1 = tabs w" using read_onlyD [OF resolve_target_read_only t] .
  from tx obtain w2 where body: "update_status_tx L i target st gtx reason ?pm e
      (w1\<lparr>nstmt := Suc (nstmt w1), aborted := False\<rparr>) = (Inr (Commit q), w2)" and w2: "tabs w' = tabs w2"
    by (cases rule: with_tx_ok) (auto elim: update_status_tx_run)
  note moved = update_status_moved [OF body]
  from body obtain old t1 where old: "find (\<lambda>p. pay_id p = target) (payments (tabs w)) = Some old"
      "Commit q = Commit (status_update st gtx reason ?pm (clock e) (tabs w) old)"
      "t1 = (tabs w)\<lparr>payments := upd_where (\<lambda>p. pay_id p = target)
         (status_update st gtx reason ?pm (clock e) (tabs w)) (payments (tabs w))\<rparr>"
      "tabs w2 = t1 \<or> add_event target (event_name st) t1 (tabs w2)"
    by (rule update_status_tx_run) (use same in auto)
  have row: "old \<in> set (payments (tabs w))" "pay_id old = target" using find_Some_in [OF old(1)] by auto
  have "payments (tabs w2) = payments t1" using old(4) add_event_frame(1) by auto
  then have "q \<in> set (payments (tabs w'))" using old row w2 by (auto simp: in_upd_where)
  moreover have "parse_uuid L i \<Longrightarrow> target = i" using t by (auto simp: resolve_target_def ret_ok)
  ultimately show thesis using that [of target] moved same w2 old(2) row by simp
qed

lemma moved_sound: "sound L t0 lg t \<Longrightarrow> status_moved target st t t' \<Longrightarrow> sound L t0 lg t'"
  unfolding sound_def using status_moved_inv status_moved_evolves evolves_trans
  by (metis status_moved_def)

lemma moved_payment:
  assumes "status_moved target st t t'" shows "has_payment i key t' = has_payment i key t"
proof -
  from assms obtain f where f: "\<And>p. core (f p) = core p"
    and pay': "payments t' = upd_where (\<lambda>p. pay_id p = target) f (payments t)"
    unfolding status_moved_def by blast
  have "(\<lambda>p. (pay_id p, pay_key p)) ` set (payments t') = (\<lambda>p. (pay_id p, pay_key p)) ` set (payments t)"
    unfolding pay' by (rule image_upd_where) (use f core_parts in metis)
  moreover have "has_payment i key u \<longleftrightarrow> (i, key) \<in> (\<lambda>p. (pay_id p, pay_key p)) ` set (payments u)" for u
    by (auto simp: has_payment_def)
  ultimately show ?thesis by simp
qed

lemma UpdatePaymentStatus_outcomes:
  "outcomes (sound L t0 lg) (UpdatePaymentStatus L i st gtx reason ms) (\<lambda>_. sound L t0 lg) (sound L t0 lg)"
  by (rule outcomes_atomic [OF UpdatePaymentStatus_atomic]) (blast elim: UpdatePaymentStatus_run intro: moved_sound)

lemma UpdatePaymentStatus_always: "always (sound L t0 lg) (UpdatePaymentStatus L i st gtx reason ms)"
  unfolding always_outcomes by (rule UpdatePaymentStatus_outcomes)

text \<open>The payment of a known identifier, moved to another status.\<close>

lemma UpdatePaymentStatus_known:
  assumes "parse_uuid L i"
  shows "outcomes (\<lambda>t. sound L t0 lg t \<and> has_payment i key t) (UpdatePaymentStatus L i st gtx reason ms)
    (\<lambda>q t. sound L t0 lg t \<and> q \<in> set (payments t) \<and> pay_key q = key) (sound L t0 lg)"
proof (rule outcomes_weaken)
  show "outcomes (\<lambda>t. sound L t0 lg t \<and> has_payment i key t) (UpdatePaymentStatus L i st gtx reason ms)
    (\<lambda>q t. sound L t0 lg t \<and> q \<in> set (payments t) \<and> pay_key q = key)
    (\<lambda>t. sound L t0 lg t \<and> has_payment i key t)"
  proof (rule outcomes_atomic [OF UpdatePaymentStatus_atomic])
    fix e q and w w' :: "pay_tables world"
    assume P: "sound L t0 lg (tabs w) \<and> has_payment i key (tabs w)"
      and run: "UpdatePaymentStatus L i st gtx reason ms e w = (Inr q, w')"
    from run obtain target where mv: "status_moved target st (tabs w) (tabs w')" "q \<in> set (payments (tabs w'))"
      "pay_id q = target" "pay_status q = st" "parse_uuid L i \<longrightarrow> target = i"
      by (rule UpdatePaymentStatus_run)
    have snd: "sound L t0 lg (tabs w')" using P moved_sound mv(1) by blast
    have "has_payment i key (tabs w')" using P moved_payment [OF mv(1)] by simp
    then obtain p where p: "p \<in> set (payments (tabs w'))" "pay_id p = i" "pay_key p = key"
      by (auto simp: has_payment_def)
    have "q = p"
      using keyed_unique [of pay_id "payments (tabs w')" q p] snd p mv assms
      by (simp add: sound_def pay_inv_def payments_ok_def)
    with snd mv p show "sound L t0 lg (tabs w') \<and> q \<in> set (payments (tabs w')) \<and> pay_key q = key" by simp
  qed
qed auto

section \<open>Refunds\<close>

lemma insert_refund_run:
  assumes "insert_refund L i now r t = Inr (row, t')"
  shows "i \<notin> rf_id ` set (refunds t)" "rf_key r \<notin> rf_key ` set (refunds t)"
    "t' = t\<lparr>refunds := refunds t @ [row]\<rparr>" "rf_id row = i" "rf_key row = rf_key r"
    "rf_payment row = rf_payment r" "rf_status row = rf_status r"
    "pg_decimal L (rf_amount r) = Some (rf_amount row)" "rf_payment r \<in> pay_id ` set (payments t)"
  using assms by (auto simp: insert_refund_def Let_def split: if_splits option.splits)

lemma new_refund_inv:
  assumes inv0: "pay_inv L t" and new: "rf_id row \<notin> rf_id ` set (refunds t)" "rf_key row \<notin> rf_key ` set (refunds t)"
    and row: "rf_status row = ''PENDING''"
    and ev: "add_event (rf_id row) ''RefundInitiated'' (t\<lparr>refunds := refunds t @ [row]\<rparr>) t'"
  shows "pay_inv L t'"
proof -
  note f = add_event_frame [OF ev] same_calls [OF add_event_frame(3) [OF ev]]
  have old: "announced a tys t \<Longrightarrow> announced a tys t'" for a tys
    using announced_add [OF ev, of a tys] by (simp add: announced_def has_event_def)
  have ok: "payments_ok L t" "refunds_ok t" "calls_ok L t" using inv0 by (simp_all add: pay_inv_def)
  have calls: "charges t' = charges t" "refund_calls t' = refund_calls t" "order_calls t' = order_calls t"
    using f(6) by (simp_all add: call_defs)
  have "announced (rf_id row) (refund_events (rf_status row)) t'"
    using f(4) row by (simp add: announced_def refund_events_def)
  then have "refunds_ok t'" using ok(2) new old unfolding refunds_ok_def f(2) by (auto simp: keyed_snoc)
  moreover have "payments_ok L t'" using ok(1) old f(1) calls(3) by (simp add: payments_ok_def by_service_def)
  moreover have "calls_ok L t'" using ok(3) f calls by (auto simp: calls_ok_def)
  moreover have "keyed (\<lambda>r. (ob_aggregate_id r, ob_event_type r)) (pay_outbox t')"
    using add_event_keyed [OF ev] inv0 by (simp add: pay_inv_def)
  ultimately show ?thesis by (simp add: pay_inv_def)
qed

text \<open>The refund a call to the provider may be made for.\<close>

definition refundable :: "pay_lib \<Rightarrow> Refund \<Rightarrow> pay_tables \<Rightarrow> bool" where
  "refundable L r t \<longleftrightarrow> rf_key r \<notin> rq_key ` set (refund_calls t) \<and>
     (\<exists>row \<in> set (refunds t). rf_id row = rf_id r \<and> rf_key row = rf_key r \<and> rf_payment row = rf_payment r \<and>
        pg_decimal L (rf_amount r) = Some (rf_amount row))"

lemma create_refund_tx_run:
  assumes "create_refund_tx L r e w = (Inr x, w')"
  obtains i row t1 r1 where "insert_refund L i (clock e) r (tabs w) = Inr (row, t1)"
    "add_event (rf_id row) ''RefundInitiated'' t1 (tabs w')" "x = Commit r1"
    "rf_id r1 = rf_id row" "rf_key r1 = rf_key r" "rf_payment r1 = rf_payment r" "rf_amount r1 = rf_amount r"
  using assms unfolding create_refund_tx_def
  by (auto simp: run_ok dest!: record_event_run)

lemma CreateRefund_outcomes:
  assumes "rf_status r = ''PENDING''"
  shows "outcomes (sound L t0 lg) (CreateRefund L r)
    (\<lambda>r1 t. sound L t0 lg t \<and> refundable L r1 t \<and> rf_key r1 = rf_key r \<and> rf_payment r1 = rf_payment r \<and>
       rf_amount r1 = rf_amount r)
    (sound L t0 lg)"
  unfolding CreateRefund_def
proof (rule outcomes_with_tx)
  fix e x and w w' :: "pay_tables world"
  assume S: "sound L t0 lg (tabs w)" and run: "create_refund_tx L r e w = (Inr x, w')"
  from run obtain i row t1 r1 where ins: "insert_refund L i (clock e) r (tabs w) = Inr (row, t1)"
    and ev: "add_event (rf_id row) ''RefundInitiated'' t1 (tabs w')"
    and x: "x = Commit r1" "rf_id r1 = rf_id row" "rf_key r1 = rf_key r" "rf_payment r1 = rf_payment r"
      "rf_amount r1 = rf_amount r"
    by (rule create_refund_tx_run)
  note rr = insert_refund_run [OF ins]
  have inv0: "pay_inv L (tabs w)" using S by (simp add: sound_def)
  have inv1: "pay_inv L (tabs w')"
    by (rule new_refund_inv [OF inv0 _ _ _ ev [unfolded rr(3)]]) (use rr assms in simp_all)
  have ref': "refunds (tabs w') = refunds (tabs w) @ [row]" "payments (tabs w') = payments (tabs w)"
    using add_event_frame [OF ev] rr(3) by simp_all
  have log': "gateway_log (tabs w') = gateway_log (tabs w)" using add_event_frame(3) [OF ev] rr(3) by simp
  have "rf_key r1 \<notin> rq_key ` set (refund_calls (tabs w'))"
    using inv0 rr(2) x same_calls [OF log'] by (auto simp: pay_inv_def calls_ok_def refund_of_def)
  then have "refundable L r1 (tabs w')" using ref' rr x by (auto simp: refundable_def)
  then show "\<exists>y. x = Commit y \<and> sound L t0 lg (tabs w') \<and> refundable L y (tabs w') \<and> rf_key y = rf_key r \<and>
      rf_payment y = rf_payment r \<and> rf_amount y = rf_amount r"
    using S x inv1 log' ref' by (auto simp: sound_def intro: evolves_same)
qed

definition refund_event_name :: "status \<Rightarrow> string" where
  "refund_event_name st =
     (if st = ''SUCCESS'' then ''RefundCompleted'' else if st = ''FAILED'' then ''RefundFailed'' else [])"

lemma announce_refund_run:
  assumes "announce_refund old st r now e w = (Inr u, w')"
  shows "tabs w' = tabs w \<and> (old \<noteq> st \<longrightarrow> refund_event_name st = []) \<or>
    add_event (rf_id r) (refund_event_name st) (tabs w) (tabs w')"
  using assms unfolding announce_refund_def
  by (auto simp: run_ok refund_event_def refund_event_name_def split: if_splits option.splits
      dest!: record_event_run)

lemma refund_events_next:
  "ty \<in> set (refund_events b) \<Longrightarrow> ty \<noteq> [] \<and> (ty \<in> set (refund_events a) \<or> ty = refund_event_name b)"
  by (auto simp: refund_events_def refund_event_name_def split: if_splits)

definition refund_moved :: "string \<Rightarrow> status \<Rightarrow> pay_tables \<Rightarrow> pay_tables \<Rightarrow> bool" where
  "refund_moved i st t t' \<longleftrightarrow> (\<exists>old f t1. find (\<lambda>r. rf_id r = i) (refunds t) = Some old \<and>
     (\<forall>r. rf_id (f r) = rf_id r \<and> rf_key (f r) = rf_key r \<and> rf_payment (f r) = rf_payment r \<and>
        rf_amount (f r) = rf_amount r \<and> rf_status (f r) = st) \<and>
     t1 = t\<lparr>refunds := upd_where (\<lambda>r. rf_id r = i) f (refunds t)\<rparr> \<and>
     (t' = t1 \<and> (rf_status old \<noteq> st \<longrightarrow> refund_event_name st = []) \<or> add_event i (refund_event_name st) t1 t'))"

lemma update_refund_moved:
  assumes "update_refund_tx L i st g e w = (Inr x, w')"
  shows "refund_moved i st (tabs w) (tabs w') \<and> (\<exists>r. x = Commit r)"
proof -
  let ?f = "refund_update st g (clock e)"
  let ?t = "(tabs w)\<lparr>refunds := upd_where (\<lambda>r. rf_id r = i) ?f (refunds (tabs w))\<rparr>"
  from assms obtain old w1 where old: "find (\<lambda>r. rf_id r = i) (refunds (tabs w)) = Some old"
      "announce_refund (rf_status old) st (?f old) (clock e) e w1 = (Inr (), w')" "x = Commit (?f old)"
      "tabs w1 = ?t"
    unfolding update_refund_tx_def with_uuid_def update_refund_def
    by (auto simp: run_ok split: if_splits option.splits)
  have "rf_id (?f old) = i" using find_Some_in [OF old(1)] by (simp add: refund_update_def)
  with announce_refund_run [OF old(2)] old(4)
  have "tabs w' = ?t \<and> (rf_status old \<noteq> st \<longrightarrow> refund_event_name st = []) \<or>
      add_event i (refund_event_name st) ?t (tabs w')" by simp
  moreover have "\<forall>r. rf_id (?f r) = rf_id r \<and> rf_key (?f r) = rf_key r \<and> rf_payment (?f r) = rf_payment r \<and>
      rf_amount (?f r) = rf_amount r \<and> rf_status (?f r) = st" by (simp add: refund_update_def)
  ultimately have "refund_moved i st (tabs w) (tabs w')" unfolding refund_moved_def using old(1) by blast
  with old(3) show ?thesis by blast
qed

lemma refund_moved_inv:
  assumes inv0: "pay_inv L t" and mv: "refund_moved i st t t'"
  shows "pay_inv L t' \<and> payments t' = payments t \<and> gateway_log t' = gateway_log t"
proof -
  from mv obtain old f t1 where old: "find (\<lambda>r. rf_id r = i) (refunds t) = Some old"
    and f: "\<And>r. rf_id (f r) = rf_id r \<and> rf_key (f r) = rf_key r \<and> rf_payment (f r) = rf_payment r \<and>
      rf_amount (f r) = rf_amount r \<and> rf_status (f r) = st"
    and t1: "t1 = t\<lparr>refunds := upd_where (\<lambda>r. rf_id r = i) f (refunds t)\<rparr>"
    and ev: "t' = t1 \<and> (rf_status old \<noteq> st \<longrightarrow> refund_event_name st = []) \<or> add_event i (refund_event_name st) t1 t'"
    unfolding refund_moved_def by blast
  have ok: "payments_ok L t" "refunds_ok t" "calls_ok L t" using inv0 by (simp_all add: pay_inv_def)
  have frame: "payments t' = payments t" "gateway_log t' = gateway_log t" "refunds t' = refunds t1"
    using ev add_event_frame [of i "refund_event_name st" t1 t'] t1 by auto
  have mono: "has_event a ty t'" if "has_event a ty t" for a ty
    using ev that add_event_frame(5) [of i "refund_event_name st" t1 t' a ty] t1 by (auto simp: has_event_def)
  then have anns: "announced a tys t \<Longrightarrow> announced a tys t'" for a tys by (simp add: announced_def)
  have named: "rf_status old = st \<or> refund_event_name st = [] \<or> has_event i (refund_event_name st) t'"
    using ev add_event_frame(4) by blast
  have ref': "refunds t' = upd_where (\<lambda>r. rf_id r = i) f (refunds t)" using frame(3) t1 by simp
  have "announced (rf_id q) (refund_events (rf_status q)) t'" if q: "q \<in> set (refunds t')" for q
  proof -
    from q obtain r where r: "r \<in> set (refunds t)" "q = (if rf_id r = i then f r else r)"
      unfolding ref' by (auto simp: in_upd_where)
    have annr: "announced (rf_id r) (refund_events (rf_status r)) t'" using ok(2) r anns by (auto simp: refunds_ok_def)
    show ?thesis
    proof (cases "rf_id r = i")
      case True
      then have "r = old"
        using keyed_unique [of rf_id "refunds t" r old] ok(2) r(1) find_Some_in [OF old] by (simp add: refunds_ok_def)
      then have "has_event i ty t'" if "ty \<in> set (refund_events st)" for ty
        using refund_events_next [OF that, of "rf_status old"] named annr that True by (auto simp: announced_def)
      with True r(2) f show ?thesis by (simp add: announced_def)
    qed (use r annr in simp)
  qed
  moreover have "keyed rf_id (refunds t')" "keyed rf_key (refunds t')"
    using ok(2) f unfolding ref' refunds_ok_def by (simp_all add: keyed_upd_where)
  ultimately have refs: "refunds_ok t'" by (simp add: refunds_ok_def)
  have pays: "payments_ok L t'"
    using ok(1) frame(1) anns same_by_service [OF frame(2)] by (simp add: payments_ok_def)
  have "\<exists>r \<in> set (refunds t'). refund_of L c r" if c: "c \<in> set (refund_calls t)" for c
  proof -
    obtain r where r: "r \<in> set (refunds t)" "refund_of L c r" using ok(3) c by (auto simp: calls_ok_def)
    let ?q = "if rf_id r = i then f r else r"
    have "?q \<in> set (refunds t')" using r(1) unfolding ref' in_upd_where by blast
    moreover have "refund_of L c ?q" using r(2) f by (simp add: refund_of_def)
    ultimately show ?thesis by blast
  qed
  then have "calls_ok L t'" using ok(3) same_calls [OF frame(2)] frame(1) by (simp add: calls_ok_def)
  moreover have "keyed (\<lambda>r. (ob_aggregate_id r, ob_event_type r)) (pay_outbox t')"
    using ev add_event_keyed [of i "refund_event_name st" t1 t'] inv0 t1 by (auto simp: pay_inv_def)
  ultimately show ?thesis using refs pays frame by (simp add: pay_inv_def)
qed

lemma UpdateRefundStatus_always: "always (sound L t0 lg) (UpdateRefundStatus L i st g)"
  unfolding always_outcomes UpdateRefundStatus_def
proof (rule outcomes_with_tx)
  fix e x and w w' :: "pay_tables world"
  assume S: "sound L t0 lg (tabs w)" and run: "update_refund_tx L i st g e w = (Inr x, w')"
  from update_refund_moved [OF run] S show "\<exists>y. x = Commit y \<and> sound L t0 lg (tabs w')"
    using refund_moved_inv unfolding sound_def by (metis evolves_same)
qed

section \<open>Webhook rows\<close>

lemma webhook_frame:
  assumes "payments t' = payments t" "refunds t' = refunds t" "pay_outbox t' = pay_outbox t"
    "gateway_log t' = gateway_log t" and "sound L t0 lg t"
  shows "sound L t0 lg t'"
proof -
  have "announced a tys t' = announced a tys t" for a tys using assms(3) by (simp add: announced_def has_event_def)
  with assms same_calls [OF assms(4)] show ?thesis
    by (simp add: sound_def pay_inv_def payments_ok_def refunds_ok_def calls_ok_def evolves_def by_service_def)
qed

lemma webhook_always:
  "always (sound L t0 lg) (SaveWebhookEvent h)" "always (sound L t0 lg) (MarkWebhookProcessed k)"
  unfolding SaveWebhookEvent_def MarkWebhookProcessed_def always_outcomes
  by (intro outcomes_bind outcomes_on_error outcomes_pool_sql
      outcomes_read_only [OF read_only_time_now] outcomes_read_only [OF read_only_new_uuid];
      auto elim!: webhook_frame [rotated 4] split: if_splits)+

section \<open>Calls to the provider\<close>

definition good :: "pay_lib \<Rightarrow> pay_tables \<Rightarrow> pay_tables \<Rightarrow> bool" where
  "good L t0 t \<longleftrightarrow> pay_inv L t \<and> evolves t0 t"

lemma sound_good: "sound L t0 lg t \<Longrightarrow> good L t0 t"
  by (simp add: sound_def good_def)

lemma good_sound: "good L t0 t \<Longrightarrow> sound L t0 (gateway_log t) t"
  by (simp add: sound_def good_def)

lemma always_good: "(\<And>lg. outcomes (sound L t0 lg) m (\<lambda>_. good L t0) (good L t0)) \<Longrightarrow> always (good L t0) m"
  unfolding always_outcomes outcomes_def by (metis good_sound)

lemma sound_always_good:
  assumes "\<And>lg. always (sound L t0 lg) m" shows "always (good L t0) m"
  by (rule always_good, rule outcomes_weaken [OF assms [unfolded always_outcomes]]) (auto intro: sound_good)

lemma uncharged_log: "gateway_log t' = gateway_log t \<Longrightarrow> uncharged key t' = uncharged key t"
  by (simp add: uncharged_def charges_def)

lemma charge_logged_good:
  assumes "sound L t0 lg t" and "p \<in> set (payments t)" and "uncharged (pay_key p) t"
  shows "good L t0 (logged (ChargeCall (charge_request p)) t)"
proof -
  let ?t = "logged (ChargeCall (charge_request p)) t"
  have c: "charges ?t = charges t @ [charge_request p]" "refund_calls ?t = refund_calls t"
    "order_calls ?t = order_calls t"
    by (simp_all add: logged_def call_defs)
  have f: "payments ?t = payments t" "refunds ?t = refunds t" "pay_outbox ?t = pay_outbox t"
    by (simp_all add: logged_def)
  have "announced a tys ?t = announced a tys t" for a tys by (simp add: announced_def has_event_def f(3))
  moreover have "charge_of (charge_request p) p" by (simp add: charge_of_def charge_request_def)
  moreover have "gq_key (charge_request p) = pay_key p" by (simp add: charge_request_def)
  ultimately show ?thesis
    using assms unfolding sound_def good_def pay_inv_def payments_ok_def refunds_ok_def calls_ok_def evolves_def
    by (auto simp: c f keyed_snoc uncharged_def by_service_def)
qed

lemma refund_logged_good:
  assumes "sound L t0 lg t" and "refundable L r t"
    and "rq_refund q = rf_id r" "rq_key q = rf_key r" "rq_payment q = rf_payment r" "rq_amount q = rf_amount r"
  shows "good L t0 (logged (RefundCall q) t)"
proof -
  let ?t = "logged (RefundCall q) t"
  have c: "charges ?t = charges t" "refund_calls ?t = refund_calls t @ [q]"
    "order_calls ?t = order_calls t"
    by (simp_all add: logged_def call_defs)
  have f: "payments ?t = payments t" "refunds ?t = refunds t" "pay_outbox ?t = pay_outbox t"
    by (simp_all add: logged_def)
  have "announced a tys ?t = announced a tys t" for a tys by (simp add: announced_def has_event_def f(3))
  moreover from assms(2-) have "\<exists>row \<in> set (refunds t). refund_of L q row"
    unfolding refundable_def refund_of_def by metis
  ultimately show ?thesis
    using assms unfolding sound_def good_def pay_inv_def payments_ok_def refunds_ok_def calls_ok_def evolves_def
    by (auto simp: c f keyed_snoc refundable_def by_service_def)
qed

text \<open>The call of the endpoint leaves a key that no charge of the service has to be recorded for.\<close>

lemma order_logged_good:
  assumes "good L t0 t" and "gq_key q = ''idemp_'' @ itoa n"
  shows "good L t0 (logged (OrderCall q) t)" and "ordered (gq_key q) (logged (OrderCall q) t)"
proof -
  let ?t = "logged (OrderCall q) t"
  have c: "charges ?t = charges t" "refund_calls ?t = refund_calls t" "order_calls ?t = order_calls t @ [q]"
    by (simp_all add: logged_def call_defs)
  have f: "payments ?t = payments t" "refunds ?t = refunds t" "pay_outbox ?t = pay_outbox t"
    by (simp_all add: logged_def)
  have "announced a tys ?t = announced a tys t" for a tys by (simp add: announced_def has_event_def f(3))
  with assms show "good L t0 ?t"
    unfolding good_def pay_inv_def payments_ok_def refunds_ok_def calls_ok_def evolves_def
    by (auto simp: c f by_service_def)
  show "ordered (gq_key q) ?t" by (simp add: ordered_def c)
qed

lemmas good_update = sound_always_good [OF UpdatePaymentStatus_always]
lemmas good_refund_update = sound_always_good [OF UpdateRefundStatus_always]

lemma settle_good: "always (good (svc_lib S) t0) (settle S p answer)"
  unfolding settle_def declined_def Let_def
  by (auto intro!: always_bind always_attempt good_update always_read_only [OF read_only_ret]
      split: sum.split option.split)

lemma undo_refund_good: "always (good (svc_lib S) t0) (undo_refund S p ref reason)"
  unfolding undo_refund_def
  by (auto intro!: always_bind always_seq always_attempt always_ignore good_update good_refund_update
      always_read_only [OF read_only_ret] split: sum.split)

lemma settle_refund_good: "always (good (svc_lib S) t0) (settle_refund S dto p refunded ref answer)"
  unfolding settle_refund_def
  by (auto intro!: always_bind always_seq undo_refund_good good_update good_refund_update
      always_read_only [OF read_only_ret] always_read_only [OF read_only_raise] split: sum.split)

lemma outcomes_always: "always P m \<Longrightarrow> outcomes P m (\<lambda>_. P) P"
  by (simp add: always_outcomes)

context payment_gateway
begin

lemma charge_outcomes:
  "outcomes (\<lambda>t. sound L t0 lg t \<and> p \<in> set (payments t) \<and> uncharged (pay_key p) t)
     (charge gw (charge_request p)) (\<lambda>_. good L t0) (good L t0)"
  unfolding outcomes_def using charge_logged_good by (fastforce dest!: charge_logged split: sum.split)

lemma give_back_outcomes:
  assumes "rq_refund q = rf_id r" "rq_key q = rf_key r" "rq_payment q = rf_payment r" "rq_amount q = rf_amount r"
  shows "outcomes (\<lambda>t. sound L t0 lg t \<and> refundable L r t) (give_back gw q) (\<lambda>_. good L t0) (good L t0)"
  unfolding outcomes_def using refund_logged_good [OF _ _ assms]
  by (fastforce dest!: give_back_logged split: sum.split)

lemma charge_and_settle_outcomes:
  assumes "gateway S = gw" and "svc_lib S = L"
  shows "outcomes (\<lambda>t. sound L t0 lg t \<and> p \<in> set (payments t) \<and> uncharged (pay_key p) t)
    (charge_and_settle S p) (\<lambda>_. good L t0) (good L t0)"
  unfolding charge_and_settle_def assms(1)
proof (rule outcomes_bind)
  show "outcomes (\<lambda>t. sound L t0 lg t \<and> p \<in> set (payments t) \<and> uncharged (pay_key p) t)
      (attempt (charge gw (charge_request p))) (\<lambda>_. good L t0) (good L t0)"
    by (rule outcomes_weaken [OF outcomes_attempt [OF charge_outcomes]]) (auto split: sum.splits)
  show "outcomes (good L t0) (settle S p x) (\<lambda>_. good L t0) (good L t0)" for x
    using settle_good [of S t0 p x] by (simp add: assms(2) always_outcomes)
qed

text \<open>The payment just created: nobody has charged its key, and now it is charged once.\<close>

lemma pending_then_charge:
  assumes S: "gateway S = gw" "svc_lib S = L" and i: "parse_uuid L i"
    and fresh: "\<And>t. gateway_log t = lg \<Longrightarrow> uncharged key t"
  shows "outcomes (\<lambda>t. sound L t0 lg t \<and> has_payment i key t)
    (bind (attempt (UpdatePaymentStatus L i ''PENDING'' [] [] []))
      (\<lambda>pending. case pending of Inl _ \<Rightarrow> raise NilDereference | Inr q \<Rightarrow> charge_and_settle S q))
    (\<lambda>_. good L t0) (good L t0)"
proof (rule outcomes_bind [OF outcomes_attempt [OF UpdatePaymentStatus_known [OF i]]])
  fix r
  show "outcomes (\<lambda>t. case r of Inl _ \<Rightarrow> sound L t0 lg t
       | Inr q \<Rightarrow> sound L t0 lg t \<and> q \<in> set (payments t) \<and> pay_key q = key)
     (case r of Inl _ \<Rightarrow> raise NilDereference | Inr q \<Rightarrow> charge_and_settle S q) (\<lambda>_. good L t0) (good L t0)"
  proof (cases r)
    case (Inr q)
    have "outcomes (\<lambda>t. sound L t0 lg t \<and> q \<in> set (payments t) \<and> pay_key q = key) (charge_and_settle S q)
        (\<lambda>_. good L t0) (good L t0)"
      by (rule outcomes_weaken [OF charge_and_settle_outcomes [OF S]]) (use fresh in \<open>auto simp: sound_def\<close>)
    with Inr show ?thesis by simp
  qed (auto intro: outcomes_raise sound_good)
qed

lemma start_payment_good:
  assumes S: "gateway S = gw" "svc_lib S = L" and law: "\<And>s. pg_uuid L s \<Longrightarrow> parse_uuid L s"
  shows "always (good L t0) (start_payment S dto order)"
proof (rule always_good, unfold start_payment_def S(2), rule outcomes_bind)
  fix lg
  show "outcomes (sound L t0 lg) new_uuid (\<lambda>_. sound L t0 lg) (good L t0)"
    by (rule outcomes_read_only [OF read_only_new_uuid]) (auto intro: sound_good)
  fix u
  let ?k = "pp_key dto"
  have create: "outcomes (sound L t0 lg) (CreatePayment L (new_payment dto order u))
      (\<lambda>p t. sound L t0 lg t \<and> has_payment (pay_id p) ?k t \<and> uncharged ?k t \<and> pg_uuid L (pay_id p)) (good L t0)"
    by (rule outcomes_weaken [OF CreatePayment_outcomes]) (auto simp: new_payment_def intro: sound_good)
  show "outcomes (sound L t0 lg)
      (bind (CreatePayment L (new_payment dto order u)) (\<lambda>p.
        bind (attempt (UpdatePaymentStatus L (pay_id p) ''PENDING'' [] [] []))
        (\<lambda>pending. case pending of Inl _ \<Rightarrow> raise NilDereference | Inr q \<Rightarrow> charge_and_settle S q)))
      (\<lambda>_. good L t0) (good L t0)"
  proof (rule outcomes_bind [OF create], rule outcomes_pure)
    fix p t
    assume "sound L t0 lg t \<and> has_payment (pay_id p) ?k t \<and> uncharged ?k t \<and> pg_uuid L (pay_id p)"
    then show "parse_uuid L (pay_id p) \<and> (\<forall>t. gateway_log t = lg \<longrightarrow> uncharged ?k t)"
      unfolding sound_def by (metis law uncharged_log)
  next
    fix p
    assume F: "parse_uuid L (pay_id p) \<and> (\<forall>t. gateway_log t = lg \<longrightarrow> uncharged ?k t)"
    show "outcomes (\<lambda>t. sound L t0 lg t \<and> has_payment (pay_id p) ?k t \<and> uncharged ?k t \<and> pg_uuid L (pay_id p))
      (bind (attempt (UpdatePaymentStatus L (pay_id p) ''PENDING'' [] [] []))
        (\<lambda>pending. case pending of Inl _ \<Rightarrow> raise NilDereference | Inr q \<Rightarrow> charge_and_settle S q))
      (\<lambda>_. good L t0) (good L t0)"
      by (rule outcomes_weaken [OF pending_then_charge [OF S, of "pay_id p" lg ?k]]) (use F in auto)
  qed
qed

lemma ProcessPayment_good:
  assumes S: "gateway S = gw" "svc_lib S = L" and law: "\<And>s. pg_uuid L s \<Longrightarrow> parse_uuid L s"
  shows "always (good L t0) (ProcessPayment S dto)"
  unfolding ProcessPayment_def
  by (intro always_seq always_bind always_attempt always_read_only [OF read_only_require]
      always_read_only [OF payment_queries_read_only(2)])
    (auto intro!: always_bind always_attempt always_read_only [OF read_only_ret]
      always_read_only [OF read_only_raise] always_read_only [OF payment_queries_read_only(3)]
      start_payment_good [OF S law] split: sum.split option.split)

lemma make_refund_good:
  assumes S: "gateway S = gw" "svc_lib S = L"
  shows "always (good L t0) (make_refund S dto p refunded)"
proof -
  let ?r = "\<lparr>rf_id = [], rf_payment = pay_id p, rf_order = pay_order p, rf_amount = cr_amount dto,
      rf_reason = cr_reason dto, rf_status = ''PENDING'', rf_gateway_id = [], rf_key = cr_key dto,
      rf_created = 0, rf_updated = 0\<rparr>"
  have "always (good L t0) (bind (attempt (CreateRefund L ?r)) (\<lambda>created.
      case created of
        Inl er \<Rightarrow> seq (ignore_error (UpdatePaymentStatus L (pay_id p) (pay_status p) [] [] [])) (raise er)
      | Inr ref \<Rightarrow> bind (attempt (give_back gw (refund_request dto p ref))) (settle_refund S dto p refunded ref)))"
  proof (rule always_good, rule outcomes_bind [OF outcomes_attempt [OF CreateRefund_outcomes]])
    fix lg r
    show "outcomes (\<lambda>t. case r of Inl _ \<Rightarrow> sound L t0 lg t
         | Inr r1 \<Rightarrow> sound L t0 lg t \<and> refundable L r1 t \<and> rf_key r1 = rf_key ?r \<and> rf_payment r1 = rf_payment ?r \<and>
           rf_amount r1 = rf_amount ?r)
       (case r of
          Inl er \<Rightarrow> seq (ignore_error (UpdatePaymentStatus L (pay_id p) (pay_status p) [] [] [])) (raise er)
        | Inr ref \<Rightarrow> bind (attempt (give_back gw (refund_request dto p ref))) (settle_refund S dto p refunded ref))
       (\<lambda>_. good L t0) (good L t0)"
    proof (cases r)
      case (Inl er)
      have "always (good L t0) (seq (ignore_error (UpdatePaymentStatus L (pay_id p) (pay_status p) [] [] []))
          (raise er :: Refund pay_db))"
        by (intro always_seq always_ignore good_update always_read_only [OF read_only_raise])
      from outcomes_weaken [OF outcomes_always [OF this], of "sound L t0 lg"] Inl show ?thesis
        by (simp add: sound_good)
    next
      case (Inr ref)
      have "outcomes (\<lambda>t. sound L t0 lg t \<and> refundable L ref t \<and> rf_key ref = rf_key ?r \<and> rf_payment ref = rf_payment ?r \<and>
          rf_amount ref = rf_amount ?r)
          (attempt (give_back gw (refund_request dto p ref))) (\<lambda>_. good L t0) (good L t0)"
      proof (rule outcomes_pure [where F = "rf_key ref = rf_key ?r \<and> rf_payment ref = rf_payment ?r \<and> rf_amount ref = rf_amount ?r"])
        assume F: "rf_key ref = rf_key ?r \<and> rf_payment ref = rf_payment ?r \<and> rf_amount ref = rf_amount ?r"
        have "outcomes (\<lambda>t. sound L t0 lg t \<and> refundable L ref t) (give_back gw (refund_request dto p ref))
            (\<lambda>_. good L t0) (good L t0)"
          by (rule give_back_outcomes) (use F in \<open>simp_all add: refund_request_def\<close>)
        from outcomes_attempt [OF this] show ?thesis by (rule outcomes_weaken) (auto split: sum.splits)
      qed auto
      with settle_refund_good [of S t0 dto p refunded ref] Inr show ?thesis
        by (auto intro!: outcomes_bind simp: always_outcomes S(2))
    qed
  qed simp
  with S show ?thesis unfolding make_refund_def by (auto intro!: always_seq good_update)
qed

lemmas good_reads = always_read_only [OF read_only_ret] always_read_only [OF read_only_raise]
  always_read_only [OF read_only_require] always_read_only [OF read_only_call]
  always_read_only [OF payment_queries_read_only(1)] always_read_only [OF payment_queries_read_only(2)]
  always_read_only [OF payment_queries_read_only(3)] always_read_only [OF GetPaymentByID_read_only]
  always_read_only [OF refund_queries_read_only(1)] always_read_only [OF refund_queries_read_only(2)]
  always_read_only [OF refund_queries_read_only(3)] always_read_only [OF refund_queries_read_only(4)]
  always_read_only [OF refund_queries_read_only(5)]

lemma lookup_refund_good: "always P (lookup_refund S key)"
  unfolding lookup_refund_def
  by (intro always_bind always_attempt good_reads) (auto intro: good_reads split: sum.split)

lemma refund_payment_good:
  assumes S: "gateway S = gw" "svc_lib S = L"
  shows "always (good L t0) (refund_payment S dto)"
  unfolding refund_payment_def by (intro always_seq always_bind good_reads make_refund_good [OF S])

lemma CreateRefund_svc_good:
  assumes S: "gateway S = gw" "svc_lib S = L"
  shows "always (good L t0) (CreateRefund_svc S dto)"
  unfolding CreateRefund_svc_def
  by (intro always_seq always_bind good_reads)
    (auto intro!: lookup_refund_good good_reads refund_payment_good [OF S] split: option.split)

lemma CancelPayment_good: "svc_lib S = L \<Longrightarrow> always (good L t0) (CancelPayment S dto)"
  unfolding CancelPayment_def
  by (intro always_seq always_bind good_reads) (auto intro!: good_reads good_update)

lemma HandleOrderCreated_good:
  assumes S: "gateway S = gw" "svc_lib S = L" and law: "\<And>s. pg_uuid L s \<Longrightarrow> parse_uuid L s"
  shows "always (good L t0) (HandleOrderCreated S ev)"
  unfolding HandleOrderCreated_def Let_def
  by (intro always_seq always_bind always_attempt good_reads)
    (auto intro!: good_reads ProcessPayment_good [OF S law] split: sum.split)

lemma resolve_amount_good: "always P (resolve_amount S dto)"
  unfolding resolve_amount_def Let_def
  by (auto intro!: always_seq good_reads split: option.split sum.split)

lemma refund_return_good:
  assumes S: "gateway S = gw" "svc_lib S = L"
  shows "always (good L t0) (refund_return S dto key p)"
  unfolding refund_return_def
  by (intro always_seq always_bind good_reads CreateRefund_svc_good [OF S])
    (auto intro: resolve_amount_good good_reads)

lemma ProcessReturnRefund_good:
  assumes S: "gateway S = gw" "svc_lib S = L"
  shows "always (good L t0) (ProcessReturnRefund S dto)"
  unfolding ProcessReturnRefund_def Let_def
  by (auto intro!: always_seq always_bind always_attempt good_reads lookup_refund_good
      refund_return_good [OF S] split: option.split sum.split)

lemma HandleEvent_good:
  assumes S: "gateway S = gw" "svc_lib S = L" and law: "\<And>s. pg_uuid L s \<Longrightarrow> parse_uuid L s"
  shows "always (good L t0) (HandleEvent_payment S D env)"
  unfolding HandleEvent_payment_def handleReturnRefundEligible_def Let_def
  by (auto intro!: always_seq always_bind always_on_error always_attempt good_reads
      HandleOrderCreated_good [OF S law] ProcessReturnRefund_good [OF S] split: option.split sum.split)

end

section \<open>Webhooks\<close>

lemma optional_always: "always P m \<Longrightarrow> always P (optional m)"
  unfolding optional_def by (rule always_bind [OF always_attempt always_read_only [OF read_only_ret]])

lemma first_found_read_only:
  "(\<And>k q key. (k, q) \<in> set xs \<Longrightarrow> read_only (q key)) \<Longrightarrow> read_only (first_found xs)"
proof (induction xs)
  case (Cons x xs)
  obtain k q where x: "x = (k, q)" by fastforce
  have rest: "read_only (first_found xs)" using Cons by fastforce
  have "read_only (q key)" for key using Cons.prems [of k q] x by simp
  with rest show ?case
    unfolding x first_found.simps
    by (auto intro!: read_only_bind read_only_attempt read_only_sum read_only_ret split: option.split)
qed (simp add: read_only_ret)

lemma findPaymentForWebhook_read_only: "read_only (findPaymentForWebhook S ev)"
  unfolding findPaymentForWebhook_def Let_def
  by (intro read_only_bind first_found_read_only)
    (auto intro!: read_only_ret read_only_raise payment_queries_read_only GetPaymentByID_read_only
      split: option.split)

lemma total_or_zero_always: "always P (total_or_zero S i)"
  unfolding total_or_zero_def
  by (intro always_bind optional_always always_read_only [OF refund_queries_read_only(4)]
      always_read_only [OF read_only_ret])

lemma refund_target_always: "always P (refund_target S ent r)"
  unfolding refund_target_def
  by (auto intro!: always_bind optional_always always_read_only [OF GetPaymentByID_read_only]
      always_read_only [OF read_only_ret] split: option.split)

lemma payment_webhook_good: "always (good (svc_lib S) t0) (handle_payment_webhook S ev st reason)"
  unfolding handle_payment_webhook_def
  by (intro always_bind always_read_only [OF findPaymentForWebhook_read_only])
    (auto intro!: always_seq good_update always_read_only [OF read_only_ret])

lemma refund_webhooks_good:
  "always (good (svc_lib S) t0) (handleRefundSuccessWebhook S ev)"
  "always (good (svc_lib S) t0) (handleRefundFailedWebhook S ev)"
  unfolding handleRefundSuccessWebhook_def handleRefundFailedWebhook_def Let_def
  by (auto intro!: always_bind always_seq optional_always always_ignore refund_target_always total_or_zero_always
      good_update good_refund_update always_read_only [OF read_only_ret]
      always_read_only [OF refund_queries_read_only(1)] split: option.split)

lemma webhook_handler_good: "webhook_handler S ev = Some h \<Longrightarrow> always (good (svc_lib S) t0) h"
  unfolding webhook_handler_def Let_def handlePaymentPendingWebhook_def handlePaymentSuccessWebhook_def
    handlePaymentFailedWebhook_def
  by (auto split: if_splits intro: payment_webhook_good refund_webhooks_good)

lemmas good_webhook = sound_always_good [OF webhook_always(1)] sound_always_good [OF webhook_always(2)]

lemma HandleRazorpayWebhook_good: "always (good (svc_lib S) t0) (HandleRazorpayWebhook S J body)"
  unfolding HandleRazorpayWebhook_def Let_def
  by (auto intro!: always_seq always_bind always_ignore optional_always good_webhook
      always_read_only [OF read_only_require] always_read_only [OF read_only_raise]
      always_read_only [OF read_only_ret] always_read_only [OF refund_queries_read_only(5)]
      split: sum.split option.split dest: webhook_handler_good)

section \<open>The endpoints\<close>

lemma or_try_read_only: "read_only q \<Longrightarrow> read_only (or_try b q r)"
  unfolding or_try_def by (intro read_only_sum read_only_ret read_only_if read_only_attempt)

lemma callback_payment_read_only: "read_only (callback_payment L i j)"
  unfolding callback_payment_def
  by (intro read_only_bind read_only_attempt or_try_read_only GetPaymentByID_read_only payment_queries_read_only)

lemma PaymentCallback_good: "ph_lib H = L \<Longrightarrow> always (good L t0) (PaymentCallback H c)"
  unfolding PaymentCallback_def callback_update_def Let_def
  by (auto intro!: always_bind always_seq always_ignore good_update always_read_only [OF read_only_ret]
      always_read_only [OF callback_payment_read_only] split: sum.split)

context payment_gateway
begin

lemma order_call_outcomes:
  assumes "gq_key q = ''idemp_'' @ itoa n"
  shows "outcomes (good L t0) (order_call gw q) (\<lambda>_ t. good L t0 t \<and> ordered (gq_key q) t)
    (\<lambda>t. good L t0 t \<and> ordered (gq_key q) t)"
  unfolding outcomes_def using order_logged_good [OF _ assms]
  by (fastforce dest!: order_call_logged split: sum.split)

lemma CreatePayment_ordered:
  assumes "pay_status p = ''PENDING''"
  shows "outcomes (\<lambda>t. good L t0 t \<and> ordered (pay_key p) t) (CreatePayment L p) (\<lambda>_. good L t0) (good L t0)"
proof (rule outcomes_pre)
  fix t
  assume "good L t0 t \<and> ordered (pay_key p) t"
  then show "outcomes (\<lambda>t'. t' = t) (CreatePayment L p) (\<lambda>_. good L t0) (good L t0)"
    by (intro outcomes_weaken [OF CreatePayment_pending [OF assms]]) (auto intro: sound_good good_sound)
qed

lemma real_order_good:
  assumes H: "paymentGW H = gw" "ph_lib H = L"
  shows "always (good L t0) (real_order H req oid uid)"
  unfolding real_order_def Let_def
proof (rule always_bind [OF always_read_only [OF read_only_new_uuid]],
    rule always_bind [OF always_read_only [OF read_only_time_now]], unfold always_outcomes H)
  fix i n
  let ?q = "\<lparr>gq_payment = i, gq_order = oid, gq_amount = order_amount req,
      gq_currency = or_else (rq_cur req) ''INR'', gq_method = order_method req, gq_key = ''idemp_'' @ itoa n\<rparr>"
  let ?k = "\<lambda>t. good L t0 t \<and> ordered (''idemp_'' @ itoa n) t"
  have call: "outcomes (good L t0) (attempt (order_call gw ?q)) (\<lambda>_. ?k) (good L t0)"
    by (rule outcomes_weaken [OF outcomes_attempt [OF order_call_outcomes]]) (auto split: sum.splits)
  have answer: "outcomes ?k (ret a) (\<lambda>_. good L t0) (good L t0)" for a :: orderAnswer
    by (rule outcomes_ret) auto
  have keep: "outcomes ?k new_uuid (\<lambda>_. ?k) (good L t0)"
    by (rule outcomes_read_only [OF read_only_new_uuid]) auto
  show "outcomes (good L t0)
     (bind (attempt (order_call gw ?q)) (\<lambda>rzpResp.
      case rzpResp of
        Inr (Some resp) \<Rightarrow>
          if gr_txn resp \<noteq> [] then
            bind new_uuid (\<lambda>u.
            seq (ignore_error (CreatePayment L
                  \<lparr>pay_id = i, pay_order = oid, pay_user = uid, pay_method = order_method req,
                   pay_method_id = None, pay_amount = order_amount req, pay_currency = or_else (rq_cur req) ''INR'',
                   pay_status = ''PENDING'', pay_txn = ''tx_'' @ u, pay_gateway_txn = gr_txn resp,
                   pay_key = ''idemp_'' @ itoa n, pay_failure = [], pay_created = 0, pay_updated = 0\<rparr>))
                (ret \<lparr>oa_id = gr_txn resp, oa_payment = Some i, oa_amount = paise H (order_amount req),
                      oa_currency = or_else (rq_cur req) ''INR'', oa_real = True\<rparr>))
          else ret (test_order H req)
      | _ \<Rightarrow> ret (test_order H req))) (\<lambda>_. good L t0) (good L t0)"
  proof (rule outcomes_bind [OF call])
    fix r
    have make: "outcomes ?k (ignore_error (CreatePayment L p)) (\<lambda>_. good L t0) (good L t0)"
      if "pay_status p = ''PENDING''" "pay_key p = ''idemp_'' @ itoa n" for p
      by (rule outcomes_ignore) (use CreatePayment_ordered [OF that(1)] that(2) in simp)
    show "outcomes ?k (case r of
        Inr (Some resp) \<Rightarrow>
          if gr_txn resp \<noteq> [] then
            bind new_uuid (\<lambda>u.
            seq (ignore_error (CreatePayment L
                  \<lparr>pay_id = i, pay_order = oid, pay_user = uid, pay_method = order_method req,
                   pay_method_id = None, pay_amount = order_amount req, pay_currency = or_else (rq_cur req) ''INR'',
                   pay_status = ''PENDING'', pay_txn = ''tx_'' @ u, pay_gateway_txn = gr_txn resp,
                   pay_key = ''idemp_'' @ itoa n, pay_failure = [], pay_created = 0, pay_updated = 0\<rparr>))
                (ret \<lparr>oa_id = gr_txn resp, oa_payment = Some i, oa_amount = paise H (order_amount req),
                      oa_currency = or_else (rq_cur req) ''INR'', oa_real = True\<rparr>))
          else ret (test_order H req)
      | _ \<Rightarrow> ret (test_order H req)) (\<lambda>_. good L t0) (good L t0)"
      by (cases r rule: sum.exhaust [case_product option.exhaust])
        (auto intro!: answer outcomes_bind [OF keep] outcomes_seq [OF make] outcomes_ret
          simp del: append.simps split: option.split)
  qed
qed

lemma CreateOrder_http_good:
  assumes H: "paymentGW H = gw" "ph_lib H = L"
  shows "always (good L t0) (CreateOrder_http H req)"
  unfolding CreateOrder_http_def new_order_def
  by (auto intro!: always_bind always_attempt real_order_good [OF H] always_read_only [OF read_only_ret]
      always_read_only [OF read_only_new_uuid] always_read_only [OF payment_queries_read_only(3)]
      split: sum.split)

end

section \<open>Every request\<close>

context payment_gateway
begin

lemma serve_good:
  assumes S: "gateway S = gw" "svc_lib S = L" and law: "\<And>s. pg_uuid L s \<Longrightarrow> parse_uuid L s"
  shows "always (good L t0) (serve_payment S J D rq)"
proof (cases rq)
  case (PWebhook body)
  with HandleRazorpayWebhook_good [of S t0 J body] S(2) show ?thesis by simp
qed (auto intro!: always_seq good_reads ProcessPayment_good [OF S law] CancelPayment_good [OF S(2)]
      CreateRefund_svc_good [OF S] HandleEvent_good [OF S law] CreateOrder_http_good PaymentCallback_good
      simp: S GetPaymentByID_svc_def GetPaymentByOrderID_svc_def GetRefundsByPaymentID_svc_def)

end

text \<open>
  The tables a run of the service reaches: each step serves one request, with any provider
  that meets its contract, any answers of the order service and any failures.
\<close>

inductive pay_reach :: "pay_lib \<Rightarrow> 'd pay_decoders \<Rightarrow> pay_tables \<Rightarrow> pay_tables \<Rightarrow> bool" for L D where
  start: "pay_reach L D t t"
| serve: "pay_reach L D t0 (tabs w) \<Longrightarrow> payment_gateway (gateway S) \<Longrightarrow> svc_lib S = L \<Longrightarrow>
    serve_payment S J D rq e w = (r, w') \<Longrightarrow> pay_reach L D t0 (tabs w')"

lemma pay_reach_good:
  assumes "pay_reach L D t0 t" and "pay_inv L t0" and law: "\<And>s. pg_uuid L s \<Longrightarrow> parse_uuid L s"
  shows "good L t0 t"
  using assms(1,2)
proof (induction rule: pay_reach.induct)
  case (start t)
  then show ?case by (simp add: good_def evolves_refl)
next
  case (serve t0 w S J rq e r w')
  have "always (good L t0) (serve_payment S J D rq)"
    by (rule payment_gateway.serve_good [OF serve.hyps(2) refl serve.hyps(3) law])
  from alwaysD [OF this _ serve.hyps(4)] serve show ?case by simp
qed

section \<open>What a request sends to the provider\<close>

lemma UpdatePaymentStatus_log: "always (\<lambda>t. gateway_log t = lg) (UpdatePaymentStatus L i st gtx reason ms)"
  unfolding always_outcomes
  by (rule outcomes_atomic [OF UpdatePaymentStatus_atomic]) (auto elim!: UpdatePaymentStatus_run simp: status_moved_def)

lemma settle_log: "always (\<lambda>t. gateway_log t = lg) (settle S p answer)"
  unfolding settle_def declined_def Let_def
  by (auto intro!: always_bind always_attempt UpdatePaymentStatus_log always_read_only [OF read_only_ret]
      split: sum.split option.split)

text \<open>The row a request creates, and the charge it makes for it.\<close>

definition row_for :: "pay_lib \<Rightarrow> ProcessPaymentDTO \<Rightarrow> AuthoritativeOrder \<Rightarrow> Payment \<Rightarrow> bool" where
  "row_for L dto order p \<longleftrightarrow> pay_order p = pp_order dto \<and> pay_key p = pp_key dto \<and>
     pay_currency p = or_else (ao_currency order) ''INR'' \<and> pg_decimal L (ao_total order) = Some (pay_amount p)"

definition charge_for :: "pay_lib \<Rightarrow> ProcessPaymentDTO \<Rightarrow> AuthoritativeOrder \<Rightarrow> ProcessGatewayRequest \<Rightarrow> bool" where
  "charge_for L dto order q \<longleftrightarrow> gq_order q = pp_order dto \<and> gq_key q = pp_key dto \<and>
     gq_currency q = or_else (ao_currency order) ''INR'' \<and> pg_decimal L (ao_total order) = Some (gq_amount q)"

definition charged_once :: "pay_lib \<Rightarrow> ProcessPaymentDTO \<Rightarrow> AuthoritativeOrder \<Rightarrow> gateway_call list \<Rightarrow> pay_tables \<Rightarrow> bool" where
  "charged_once L dto order lg t \<longleftrightarrow> gateway_log t = lg \<or>
     (\<exists>q. gateway_log t = lg @ [ChargeCall q] \<and> charge_for L dto order q)"

definition authoritative :: "pay_svc \<Rightarrow> ProcessPaymentDTO \<Rightarrow> gateway_call list \<Rightarrow> pay_tables \<Rightarrow> bool" where
  "authoritative S dto lg t \<longleftrightarrow> gateway_log t = lg \<or>
     (\<exists>client order q. orderClient S = Some client \<and> client (pp_order dto) = Inr (Some order) \<and>
        gateway_log t = lg @ [ChargeCall q] \<and> charge_for (svc_lib S) dto order q)"

lemma row_for_core: "core q = core p \<Longrightarrow> row_for L dto order q = row_for L dto order p"
  by (simp add: row_for_def core_def)

lemma CreatePayment_row:
  "outcomes (sound L t0 lg) (CreatePayment L (new_payment dto order u))
    (\<lambda>p t. sound L t0 lg t \<and> pg_uuid L (pay_id p) \<and>
       (\<exists>row \<in> set (payments t). pay_id row = pay_id p \<and> row_for L dto order row)) (sound L t0 lg)"
proof (rule outcomes_atomic)
  show "atomic (CreatePayment L (new_payment dto order u))" by (simp add: CreatePayment_def with_tx_atomic)
  fix e p and w w' :: "pay_tables world"
  let ?p = "new_payment dto order u"
  assume S: "sound L t0 lg (tabs w)" and run: "CreatePayment L ?p e w = (Inr p, w')"
  have st: "pay_status ?p = ''INITIATED''" by (simp add: new_payment_def)
  from run obtain w1 where body: "create_payment_tx L ?p e (w\<lparr>nstmt := Suc (nstmt w), aborted := False\<rparr>)
      = (Inr (Commit p), w1)" and w1: "tabs w' = tabs w1"
    unfolding CreatePayment_def by (cases rule: with_tx_ok) (auto elim: create_payment_tx_run [OF _ st])
  from body st obtain i pm row t1 p1 where ins: "insert_payment L i pm (clock e) ?p
        (tabs (w\<lparr>nstmt := Suc (nstmt w), aborted := False\<rparr>)) = Inr (row, t1)"
    and ev: "add_event (pay_id row) ''PaymentInitiated'' t1 (tabs w1)"
    and c: "Commit p = Commit p1" "pay_id p1 = pay_id row"
    by (rule create_payment_tx_run)
  note r = insert_payment_run [OF ins]
  have "row \<in> set (payments (tabs w'))" using add_event_frame(1) [OF ev] r(6) w1 by simp
  moreover have "row_for L dto order row" using r by (simp add: row_for_def new_payment_def)
  moreover have "sound L t0 lg (tabs w')"
    using outcomesD [OF CreatePayment_outcomes [OF st] S run] by simp
  ultimately show "sound L t0 lg (tabs w') \<and> pg_uuid L (pay_id p) \<and>
      (\<exists>row \<in> set (payments (tabs w')). pay_id row = pay_id p \<and> row_for L dto order row)"
    using c r by auto
qed

lemma UpdatePaymentStatus_row:
  assumes "parse_uuid L i"
  shows "outcomes (\<lambda>t. sound L t0 lg t \<and> (\<exists>row \<in> set (payments t). pay_id row = i \<and> row_for L dto order row))
    (UpdatePaymentStatus L i st gtx reason ms)
    (\<lambda>q t. gateway_log t = lg \<and> row_for L dto order q) (\<lambda>t. gateway_log t = lg)"
proof (rule outcomes_weaken [OF outcomes_atomic [OF UpdatePaymentStatus_atomic]])
  fix e q and w w' :: "pay_tables world"
  assume P: "sound L t0 lg (tabs w) \<and> (\<exists>row \<in> set (payments (tabs w)). pay_id row = i \<and> row_for L dto order row)"
    and run: "UpdatePaymentStatus L i st gtx reason ms e w = (Inr q, w')"
  from run obtain target where mv: "status_moved target st (tabs w) (tabs w')" "q \<in> set (payments (tabs w'))"
    "pay_id q = target" "pay_status q = st" "parse_uuid L i \<longrightarrow> target = i"
    by (rule UpdatePaymentStatus_run)
  have inv0: "pay_inv L (tabs w)" using P by (simp add: sound_def)
  from inv0 mv(1,2) obtain p where p: "p \<in> set (payments (tabs w))" "core q = core p" by (rule status_moved_rows)
  from P obtain row where row: "row \<in> set (payments (tabs w))" "pay_id row = i" "row_for L dto order row" by blast
  have "p = row"
    using keyed_unique [of pay_id "payments (tabs w)" p row] inv0 p row core_parts [OF p(2)] mv assms
    by (simp add: pay_inv_def payments_ok_def)
  moreover have "gateway_log (tabs w') = lg" using P mv(1) by (auto simp: sound_def status_moved_def)
  ultimately show "gateway_log (tabs w') = lg \<and> row_for L dto order q" using row(3) row_for_core [OF p(2)] by simp
qed (auto simp: sound_def)

context payment_gateway
begin

lemma charge_once:
  assumes "gateway S = gw" and "row_for L dto order q"
  shows "outcomes (\<lambda>t. gateway_log t = lg) (charge_and_settle S q)
    (\<lambda>_. charged_once L dto order lg) (charged_once L dto order lg)"
proof -
  let ?lg = "lg @ [ChargeCall (charge_request q)]"
  have "outcomes (\<lambda>t. gateway_log t = lg) (attempt (charge gw (charge_request q)))
      (\<lambda>_ t. gateway_log t = ?lg) (\<lambda>t. gateway_log t = ?lg)"
    unfolding outcomes_def attempt_def by (auto dest!: charge_logged simp: logged_def split: prod.splits)
  then have "outcomes (\<lambda>t. gateway_log t = lg) (charge_and_settle S q)
      (\<lambda>_ t. gateway_log t = ?lg) (\<lambda>t. gateway_log t = ?lg)"
    unfolding charge_and_settle_def assms(1)
    by (rule outcomes_bind) (rule settle_log [unfolded always_outcomes])
  then show ?thesis
    by (rule outcomes_weaken)
      (use assms(2) in \<open>auto simp: charged_once_def charge_for_def row_for_def charge_request_def\<close>)
qed

lemma pending_then_charge_once:
  assumes S: "gateway S = gw" and i: "parse_uuid L i"
  shows "outcomes (\<lambda>t. sound L t0 lg t \<and> (\<exists>row \<in> set (payments t). pay_id row = i \<and> row_for L dto order row))
    (bind (attempt (UpdatePaymentStatus L i ''PENDING'' [] [] [])) (\<lambda>pending.
     case pending of Inl _ \<Rightarrow> raise NilDereference | Inr q \<Rightarrow> charge_and_settle S q))
    (\<lambda>_. charged_once L dto order lg) (charged_once L dto order lg)"
proof (rule outcomes_bind [OF outcomes_attempt [OF UpdatePaymentStatus_row [OF i]]])
  fix r
  show "outcomes (\<lambda>t. case r of Inl _ \<Rightarrow> gateway_log t = lg | Inr q \<Rightarrow> gateway_log t = lg \<and> row_for L dto order q)
     (case r of Inl _ \<Rightarrow> raise NilDereference | Inr q \<Rightarrow> charge_and_settle S q)
     (\<lambda>_. charged_once L dto order lg) (charged_once L dto order lg)"
  proof (cases r)
    case (Inr q)
    have "outcomes (\<lambda>t. gateway_log t = lg \<and> row_for L dto order q) (charge_and_settle S q)
        (\<lambda>_. charged_once L dto order lg) (charged_once L dto order lg)"
      by (rule outcomes_pure [where F = "row_for L dto order q"], simp)
        (rule outcomes_weaken [OF charge_once [OF S]], auto)
    with Inr show ?thesis by simp
  qed (auto intro!: outcomes_raise simp: charged_once_def)
qed

lemma start_payment_charges:
  assumes S: "gateway S = gw" "svc_lib S = L" and law: "\<And>s. pg_uuid L s \<Longrightarrow> parse_uuid L s"
  shows "outcomes (sound L t0 lg) (start_payment S dto order)
    (\<lambda>_. charged_once L dto order lg) (charged_once L dto order lg)"
  unfolding start_payment_def S(2)
proof (rule outcomes_bind)
  show "outcomes (sound L t0 lg) new_uuid (\<lambda>_. sound L t0 lg) (charged_once L dto order lg)"
    by (rule outcomes_read_only [OF read_only_new_uuid]) (auto simp: sound_def charged_once_def)
  fix u
  let ?row = "\<lambda>p t. sound L t0 lg t \<and> pg_uuid L (pay_id p) \<and>
    (\<exists>row \<in> set (payments t). pay_id row = pay_id p \<and> row_for L dto order row)"
  have create: "outcomes (sound L t0 lg) (CreatePayment L (new_payment dto order u)) ?row (charged_once L dto order lg)"
    by (rule outcomes_weaken [OF CreatePayment_row]) (auto simp: sound_def charged_once_def)
  show "outcomes (sound L t0 lg)
     (bind (CreatePayment L (new_payment dto order u)) (\<lambda>p.
      bind (attempt (UpdatePaymentStatus L (pay_id p) ''PENDING'' [] [] [])) (\<lambda>pending.
      case pending of Inl _ \<Rightarrow> raise NilDereference | Inr q \<Rightarrow> charge_and_settle S q)))
     (\<lambda>_. charged_once L dto order lg) (charged_once L dto order lg)"
  proof (rule outcomes_bind [OF create])
    fix p
    show "outcomes (?row p)
       (bind (attempt (UpdatePaymentStatus L (pay_id p) ''PENDING'' [] [] [])) (\<lambda>pending.
        case pending of Inl _ \<Rightarrow> raise NilDereference | Inr q \<Rightarrow> charge_and_settle S q))
       (\<lambda>_. charged_once L dto order lg) (charged_once L dto order lg)"
      by (rule outcomes_pure [where F = "parse_uuid L (pay_id p)"], use law in blast)
        (rule outcomes_weaken [OF pending_then_charge_once [OF S(1)]], auto)
  qed
qed

lemma ProcessPayment_charges:
  assumes S: "gateway S = gw" "svc_lib S = L" and law: "\<And>s. pg_uuid L s \<Longrightarrow> parse_uuid L s"
  shows "outcomes (sound L t0 lg) (ProcessPayment S dto) (\<lambda>_. authoritative S dto lg) (authoritative S dto lg)"
proof -
  have same: "sound L t0 lg t \<Longrightarrow> authoritative S dto lg t" for t by (simp add: sound_def authoritative_def)
  have start: "outcomes (sound L t0 lg) (start_payment S dto order) (\<lambda>_. authoritative S dto lg) (authoritative S dto lg)"
    if "orderClient S = Some client" "client (pp_order dto) = Inr (Some order)" for client order
    by (rule outcomes_weaken [OF start_payment_charges [OF S law]])
      (use that S(2) in \<open>auto simp: authoritative_def charged_once_def\<close>)
  have found: "outcomes (sound L t0 lg) (attempt m) (\<lambda>_. sound L t0 lg) (authoritative S dto lg)"
    if "read_only m" for m :: "Payment pay_db"
    by (rule outcomes_read_only [OF read_only_attempt [OF that]]) (auto intro: same)
  have guard: "outcomes (sound L t0 lg) (require b er) (\<lambda>_. sound L t0 lg) (authoritative S dto lg)" for b er
    by (rule outcomes_read_only [OF read_only_require]) (auto intro: same)
  show ?thesis
    unfolding ProcessPayment_def
    by (rule outcomes_seq [OF guard outcomes_seq [OF guard
          outcomes_bind [OF found [OF payment_queries_read_only(2)]]]])
      (auto intro!: outcomes_bind [OF found [OF payment_queries_read_only(3)]] start outcomes_ret outcomes_raise same
        split: sum.split option.split)
qed

end

definition no_payments :: "(string \<times> string) list \<Rightarrow> pay_tables" where
  "no_payments ms = \<lparr>payments = [], refunds = [], webhooks = [], pay_methods = ms, pay_outbox = [], gateway_log = []\<rparr>"

lemma no_payments_inv: "pay_inv L (no_payments ms)"
  by (simp add: no_payments_def pay_inv_def payments_ok_def refunds_ok_def calls_ok_def call_defs)

end
