(* ===== verification/Payment_Refunds.thy ===== *)
theory Payment_Refunds
  imports Payment_Trace
begin

text \<open>
  What a request sends to the provider when it refunds, and what requests that are answered
  from the tables do: the lemmas behind the properties of refunds, repeated webhooks and
  repeated events.
\<close>

section \<open>Reading\<close>

lemma newest_in: "newest c t = Some p \<Longrightarrow> p \<in> set (payments t) \<and> c p"
proof -
  let ?xs = "sort_key (\<lambda>p. - pay_created p) (filter c (payments t))"
  assume "newest c t = Some p"
  then have "p \<in> set ?xs" by (cases ?xs) (simp_all add: newest_def del: set_sort)
  then show ?thesis by simp
qed

lemma query_payment_rows:
  assumes "\<And>t p. q t = Some p \<Longrightarrow> p \<in> set (payments t)"
  shows "outcomes (\<lambda>t. t = t0) (query_payment q missing msg) (\<lambda>p t. t = t0 \<and> p \<in> set (payments t0)) (\<lambda>t. t = t0)"
  unfolding query_payment_def
proof (rule outcomes_bind [OF outcomes_on_error [OF outcomes_pool_sql]])
  fix t x t'
  assume "t = t0" and "(case q t of Some p \<Rightarrow> if pay_txn p = [] then Inl ScanNull else Inr (Some p, t)
      | None \<Rightarrow> Inr (None, t)) = Inr (x, t')"
  then show "t' = t0 \<and> (\<forall>p. x = Some p \<longrightarrow> p \<in> set (payments t0))"
    using assms [of t] by (auto split: option.splits if_splits)
qed (auto intro!: outcomes_raise outcomes_ret split: option.split)

lemma payment_rows:
  "outcomes (\<lambda>t. t = t0) (GetPaymentByGatewayTransactionID g) (\<lambda>p t. t = t0 \<and> p \<in> set (payments t0)) (\<lambda>t. t = t0)"
  "outcomes (\<lambda>t. t = t0) (GetPaymentByIdempotencyKey k) (\<lambda>p t. t = t0 \<and> p \<in> set (payments t0)) (\<lambda>t. t = t0)"
  "outcomes (\<lambda>t. t = t0) (GetPaymentByOrderID i) (\<lambda>p t. t = t0 \<and> p \<in> set (payments t0)) (\<lambda>t. t = t0)"
  unfolding GetPaymentByGatewayTransactionID_def GetPaymentByIdempotencyKey_def GetPaymentByOrderID_def
  by (auto intro!: query_payment_rows outcomes_raise dest: newest_in find_Some_in)

lemma GetPaymentByID_rows:
  "outcomes (\<lambda>t. t = t0) (GetPaymentByID L i) (\<lambda>p t. t = t0 \<and> p \<in> set (payments t0)) (\<lambda>t. t = t0)"
proof -
  let ?Q = "\<lambda>p t. t = t0 \<and> p \<in> set (payments t0)"
  let ?q = "with_uuid L i (\<lambda>t. case find (\<lambda>p. pay_id p = i) (payments t) of
      Some p \<Rightarrow> if pay_txn p = [] then Inl ScanNull else Inr (Some p, t) | None \<Rightarrow> Inr (None, t))"
  have row: "outcomes (\<lambda>t. case r of Inr x \<Rightarrow> ?Q x t | Inl _ \<Rightarrow> t = t0)
      (case r of Inr p \<Rightarrow> ret p | Inl _ \<Rightarrow> m) ?Q (\<lambda>t. t = t0)"
    if "outcomes (\<lambda>t. t = t0) m ?Q (\<lambda>t. t = t0)" for r and m :: "Payment pay_db"
    using that by (cases r) (auto intro: outcomes_ret)
  have lookup: "outcomes (\<lambda>t. t = t0) (pool_sql ?q)
      (\<lambda>x t. t = t0 \<and> (\<forall>p. x = Some p \<longrightarrow> p \<in> set (payments t0))) (\<lambda>t. t = t0)"
    by (rule outcomes_pool_sql) (auto simp: with_uuid_def dest!: find_Some_in split: if_splits option.splits)
  show ?thesis
    unfolding GetPaymentByID_def
    by (intro outcomes_if outcomes_bind [OF outcomes_attempt [OF payment_rows(1)]] row
        outcomes_bind [OF outcomes_attempt [OF payment_rows(2)]] outcomes_raise
        outcomes_bind [OF outcomes_on_error [OF lookup]])
      (auto intro!: outcomes_raise outcomes_ret split: option.split)
qed

text \<open>What has been refunded of a payment.\<close>

definition refunded_so_far :: "pay_lib \<Rightarrow> string \<Rightarrow> pay_tables \<Rightarrow> f64" where
  "refunded_so_far L i t =
     pg_sum L (map rf_amount (filter (\<lambda>r. rf_payment r = i \<and> rf_status r = ''SUCCESS'') (refunds t)))"

lemma GetTotalRefundedAmount_value:
  "outcomes (\<lambda>t. t = t0) (GetTotalRefundedAmount L i) (\<lambda>x t. t = t0 \<and> x = refunded_so_far L i t0) (\<lambda>t. t = t0)"
  unfolding GetTotalRefundedAmount_def refunded_so_far_def
  by (rule outcomes_on_error [OF outcomes_pool_sql]) (auto simp: with_uuid_def select_def split: if_splits)

section \<open>The log of calls\<close>

lemma UpdateRefundStatus_log: "always (\<lambda>t. gateway_log t = lg) (UpdateRefundStatus L i st g)"
  unfolding always_outcomes UpdateRefundStatus_def
proof (rule outcomes_with_tx)
  fix e x and w w' :: "pay_tables world"
  assume "gateway_log (tabs w) = lg" and "update_refund_tx L i st g e w = (Inr x, w')"
  then show "\<exists>y. x = Commit y \<and> gateway_log (tabs w') = lg"
    by (auto dest!: update_refund_moved simp: refund_moved_def dest!: add_event_frame(3))
qed

lemma CreateRefund_log: "always (\<lambda>t. gateway_log t = lg) (CreateRefund L r)"
  unfolding always_outcomes CreateRefund_def
proof (rule outcomes_with_tx)
  fix e x and w w' :: "pay_tables world"
  assume lg: "gateway_log (tabs w) = lg" and run: "create_refund_tx L r e w = (Inr x, w')"
  from run obtain i row t1 r1 where ins: "insert_refund L i (clock e) r (tabs w) = Inr (row, t1)"
    and ev: "add_event (rf_id row) ''RefundInitiated'' t1 (tabs w')" and x: "x = Commit r1"
    by (rule create_refund_tx_run)
  have "gateway_log (tabs w') = lg" using add_event_frame(3) [OF ev] insert_refund_run(3) [OF ins] lg by simp
  with x show "\<exists>y. x = Commit y \<and> gateway_log (tabs w') = lg" by blast
qed

lemmas pay_log = UpdatePaymentStatus_log UpdateRefundStatus_log CreateRefund_log

lemma settle_refund_log: "always (\<lambda>t. gateway_log t = lg) (settle_refund S dto p refunded ref answer)"
  unfolding settle_refund_def undo_refund_def
  by (auto intro!: always_bind always_seq always_attempt always_ignore pay_log
      always_read_only [OF read_only_ret] always_read_only [OF read_only_raise] split: sum.split)

text \<open>The only call a refund may make.\<close>

definition refund_call_for :: "CreateRefundDTO \<Rightarrow> Payment \<Rightarrow> RefundGatewayRequest \<Rightarrow> bool" where
  "refund_call_for dto p q \<longleftrightarrow> rq_payment q = pay_id p \<and> rq_txn q = pay_gateway_txn p \<and>
     rq_amount q = cr_amount dto \<and> rq_key q = cr_key dto"

definition refunded_once :: "CreateRefundDTO \<Rightarrow> Payment \<Rightarrow> gateway_call list \<Rightarrow> pay_tables \<Rightarrow> bool" where
  "refunded_once dto p lg t \<longleftrightarrow> gateway_log t = lg \<or>
     (\<exists>q. gateway_log t = lg @ [RefundCall q] \<and> refund_call_for dto p q)"

text \<open>The payment a refund may be made of, as the tables stood.\<close>

definition may_refund :: "pay_lib \<Rightarrow> CreateRefundDTO \<Rightarrow> pay_tables \<Rightarrow> Payment \<Rightarrow> bool" where
  "may_refund L dto t p \<longleftrightarrow> p \<in> set (payments t) \<and> pay_status p \<in> {''SUCCESS'', ''PARTIALLY_REFUNDED''} \<and>
     \<not> exceeds_refundable (pay_amount p) (refunded_so_far L (pay_id p) t) (cr_amount dto)"

definition refund_within :: "pay_lib \<Rightarrow> CreateRefundDTO \<Rightarrow> pay_tables \<Rightarrow> pay_tables \<Rightarrow> bool" where
  "refund_within L dto t0 t \<longleftrightarrow> gateway_log t = gateway_log t0 \<or>
     (\<exists>p q. may_refund L dto t0 p \<and> gateway_log t = gateway_log t0 @ [RefundCall q] \<and> refund_call_for dto p q)"

context payment_gateway
begin

lemma give_back_once:
  assumes "gateway S = gw"
  shows "outcomes (\<lambda>t. gateway_log t = lg)
    (bind (attempt (give_back (gateway S) (refund_request dto p ref))) (settle_refund S dto p refunded ref))
    (\<lambda>_. refunded_once dto p lg) (refunded_once dto p lg)"
proof -
  let ?lg = "lg @ [RefundCall (refund_request dto p ref)]"
  have "outcomes (\<lambda>t. gateway_log t = lg) (attempt (give_back gw (refund_request dto p ref)))
      (\<lambda>_ t. gateway_log t = ?lg) (\<lambda>t. gateway_log t = ?lg)"
    unfolding outcomes_def attempt_def by (auto dest!: give_back_logged simp: logged_def split: prod.splits)
  then have "outcomes (\<lambda>t. gateway_log t = lg)
      (bind (attempt (give_back (gateway S) (refund_request dto p ref))) (settle_refund S dto p refunded ref))
      (\<lambda>_ t. gateway_log t = ?lg) (\<lambda>t. gateway_log t = ?lg)"
    unfolding assms by (rule outcomes_bind) (rule settle_refund_log [unfolded always_outcomes])
  then show ?thesis
    by (rule outcomes_weaken) (auto simp: refunded_once_def refund_call_for_def refund_request_def)
qed

lemma make_refund_once:
  assumes "gateway S = gw"
  shows "outcomes (\<lambda>t. gateway_log t = lg) (make_refund S dto p refunded)
    (\<lambda>_. refunded_once dto p lg) (refunded_once dto p lg)"
proof -
  have log: "outcomes (\<lambda>t. gateway_log t = lg) m (\<lambda>_ t. gateway_log t = lg) (refunded_once dto p lg)"
    if "always (\<lambda>t. gateway_log t = lg) m" for m :: "'x pay_db"
    by (rule outcomes_weaken [OF outcomes_always [OF that]]) (auto simp: refunded_once_def)
  show ?thesis
    unfolding make_refund_def
    by (rule outcomes_seq [OF log [OF pay_log(1)] outcomes_bind [OF log [OF always_attempt [OF pay_log(3)]]]])
      (auto intro!: outcomes_seq [OF log [OF always_ignore [OF pay_log(1)]]] outcomes_raise give_back_once [OF assms]
        simp: refunded_once_def split: sum.split)
qed

lemma refund_payment_within:
  assumes S: "gateway S = gw"
  shows "outcomes (\<lambda>t. t = t0) (refund_payment S dto)
    (\<lambda>_. refund_within (svc_lib S) dto t0) (refund_within (svc_lib S) dto t0)"
  unfolding refund_payment_def
proof (rule outcomes_bind)
  let ?W = "refund_within (svc_lib S) dto t0"
  have same: "t = t0 \<Longrightarrow> ?W t" for t by (simp add: refund_within_def)
  show "outcomes (\<lambda>t. t = t0) (GetPaymentByID (svc_lib S) (cr_payment dto))
      (\<lambda>p t. t = t0 \<and> p \<in> set (payments t0)) ?W"
    by (rule outcomes_weaken [OF GetPaymentByID_rows]) (auto intro: same)
  fix p
  let ?ok = "\<lambda>b t. t = t0 \<and> p \<in> set (payments t0) \<and> b"
  let ?st = "pay_status p = ''SUCCESS'' \<or> pay_status p = ''PARTIALLY_REFUNDED''"
  have make: "outcomes (\<lambda>t. t = t0 \<and> may_refund (svc_lib S) dto t0 p) (make_refund S dto p refunded) (\<lambda>_. ?W) ?W"
    for refunded
    by (rule outcomes_pure [where F = "may_refund (svc_lib S) dto t0 p"], simp)
      (rule outcomes_weaken [OF make_refund_once [OF S]], auto simp: refund_within_def refunded_once_def)
  have total: "outcomes (?ok ?st) (GetTotalRefundedAmount (svc_lib S) (pay_id p))
      (\<lambda>x t. ?ok ?st t \<and> x = refunded_so_far (svc_lib S) (pay_id p) t0) ?W"
    by (rule outcomes_pure [where F = "p \<in> set (payments t0) \<and> ?st"], simp)
      (rule outcomes_weaken [OF GetTotalRefundedAmount_value], auto intro: same)
  show "outcomes (\<lambda>t. t = t0 \<and> p \<in> set (payments t0))
     (seq (require (pay_status p \<noteq> ''REFUNDED'') (BadRequest ''payment is already fully refunded''))
     (seq (require ?st (BadRequest (''cannot refund payment with status '' @ pay_status p)))
     (bind (GetTotalRefundedAmount (svc_lib S) (pay_id p)) (\<lambda>totalRefunded.
      seq (require (\<not> exceeds_refundable (pay_amount p) totalRefunded (cr_amount dto))
            (BadRequest (''refund amount '' @ fmt2 (svc_lib S) (cr_amount dto) @ '' exceeds refundable amount ''
               @ fmt2 (svc_lib S) (fsub (pay_amount p) totalRefunded))))
          (make_refund S dto p totalRefunded))))) (\<lambda>_. ?W) ?W"
    by (rule outcomes_seq [OF outcomes_require [where Q = "\<lambda>_. ?ok True"]
          outcomes_seq [OF outcomes_require [where Q = "\<lambda>_. ?ok ?st"]
          outcomes_bind [OF total outcomes_seq [OF outcomes_require make]]]])
      (auto intro: same simp: may_refund_def)
qed

lemma CreateRefund_svc_within:
  assumes S: "gateway S = gw"
  shows "outcomes (\<lambda>t. t = t0) (CreateRefund_svc S dto)
    (\<lambda>_. refund_within (svc_lib S) dto t0) (refund_within (svc_lib S) dto t0)"
proof -
  let ?W = "refund_within (svc_lib S) dto t0"
  have same: "t = t0 \<Longrightarrow> ?W t" for t by (simp add: refund_within_def)
  have guard: "outcomes (\<lambda>t. t = t0) (require b er) (\<lambda>_ t. t = t0) ?W" for b er
    by (rule outcomes_require) (auto intro: same)
  have lookup: "outcomes (\<lambda>t. t = t0) (if cr_key dto \<noteq> [] then lookup_refund S (cr_key dto) else ret None)
      (\<lambda>_ t. t = t0) ?W"
    by (rule outcomes_weaken [OF outcomes_always [where P = "\<lambda>t. t = t0"]])
      (auto intro!: lookup_refund_good good_reads intro: same)
  show ?thesis
    unfolding CreateRefund_svc_def
    by (rule outcomes_seq [OF guard outcomes_seq [OF guard outcomes_bind [OF lookup]]])
      (auto intro!: outcomes_ret outcomes_raise refund_payment_within [OF S] same split: option.split)
qed

end

section \<open>A refund without a key\<close>

text \<open>
  The column takes the empty string, and takes it once. With such a row in the table
  \<open>CreateRefund\<close> fails for another.
\<close>

definition keyless :: "gateway_call list \<Rightarrow> pay_tables \<Rightarrow> bool" where
  "keyless lg t \<longleftrightarrow> [] \<in> rf_key ` set (refunds t) \<and> gateway_log t = lg"

lemma UpdatePaymentStatus_keyless: "always (keyless lg) (UpdatePaymentStatus L i st gtx reason ms)"
  unfolding always_outcomes
  by (rule outcomes_atomic [OF UpdatePaymentStatus_atomic])
    (auto elim!: UpdatePaymentStatus_run simp: status_moved_def keyless_def)

lemma CreateRefund_keyless:
  assumes "rf_key r = []"
  shows "outcomes (keyless lg) (CreateRefund L r) (\<lambda>_ _. False) (keyless lg)"
  unfolding CreateRefund_def
proof (rule outcomes_with_tx)
  fix e x and w w' :: "pay_tables world"
  assume K: "keyless lg (tabs w)" and run: "create_refund_tx L r e w = (Inr x, w')"
  from run obtain i row t1 r1 where "insert_refund L i (clock e) r (tabs w) = Inr (row, t1)"
    by (rule create_refund_tx_run)
  from insert_refund_run(2) [OF this] K assms show "\<exists>y. x = Commit y \<and> False" by (simp add: keyless_def)
qed

lemma make_refund_keyless:
  assumes "cr_key dto = []"
  shows "outcomes (keyless lg) (make_refund S dto p refunded) (\<lambda>_ _. False) (keyless lg)"
proof -
  let ?r = "\<lparr>rf_id = [], rf_payment = pay_id p, rf_order = pay_order p, rf_amount = cr_amount dto,
      rf_reason = cr_reason dto, rf_status = ''PENDING'', rf_gateway_id = [], rf_key = cr_key dto,
      rf_created = 0, rf_updated = 0\<rparr>"
  have create: "outcomes (keyless lg) (attempt (CreateRefund (svc_lib S) ?r))
      (\<lambda>x t. (\<exists>er. x = Inl er) \<and> keyless lg t) (keyless lg)"
    by (rule outcomes_weaken [OF outcomes_attempt [OF CreateRefund_keyless]])
      (auto simp: assms split: sum.splits)
  have undo: "outcomes (keyless lg)
      (seq (ignore_error (UpdatePaymentStatus (svc_lib S) (pay_id p) (pay_status p) [] [] [])) (raise er))
      (\<lambda>_ _. False) (keyless lg)" for er
    by (rule outcomes_seq [OF outcomes_always [OF always_ignore [OF UpdatePaymentStatus_keyless]] outcomes_raise])
  show ?thesis
    unfolding make_refund_def
  proof (rule outcomes_seq [OF outcomes_always [OF UpdatePaymentStatus_keyless] outcomes_bind [OF create]],
      rule outcomes_pure)
    fix x :: "go_error + Refund"
    assume "\<exists>er. x = Inl er"
    then show "outcomes (\<lambda>t. (\<exists>er. x = Inl er) \<and> keyless lg t)
      (case x of
         Inl er \<Rightarrow> seq (ignore_error (UpdatePaymentStatus (svc_lib S) (pay_id p) (pay_status p) [] [] [])) (raise er)
       | Inr ref \<Rightarrow> bind (attempt (give_back (gateway S) (refund_request dto p ref)))
           (settle_refund S dto p refunded ref)) (\<lambda>_ _. False) (keyless lg)"
      using undo by auto
  qed simp
qed

lemma CreateRefund_svc_keyless:
  assumes "cr_key dto = []"
  shows "outcomes (keyless lg) (CreateRefund_svc S dto) (\<lambda>_ _. False) (keyless lg)"
proof -
  have reads: "outcomes (keyless lg) m (\<lambda>_. keyless lg) (keyless lg)" if "read_only m" for m :: "'x pay_db"
    by (rule outcomes_read_only [OF that]) auto
  note guard = outcomes_seq [OF outcomes_read_only [OF read_only_require, of "keyless lg" "\<lambda>_. keyless lg"]]
  have "outcomes (keyless lg) (refund_payment S dto) (\<lambda>_ _. False) (keyless lg)"
    unfolding refund_payment_def
    by (intro outcomes_bind [OF reads [OF GetPaymentByID_read_only]] guard
        outcomes_bind [OF reads [OF refund_queries_read_only(4)]] make_refund_keyless [OF assms])
  with assms show ?thesis
    unfolding CreateRefund_svc_def by (auto simp: bind_ret intro!: guard)
qed

section \<open>A repeated webhook\<close>

definition webhook_done :: "string \<Rightarrow> pay_tables \<Rightarrow> bool" where
  "webhook_done k t \<longleftrightarrow> (case find (\<lambda>h. wh_event h = k) (webhooks t) of None \<Rightarrow> False | Some h \<Rightarrow> wh_processed h)"

lemma add_event_webhooks: "add_event agg ty t t' \<Longrightarrow> webhooks t' = webhooks t"
  by (auto simp: add_event_def)

lemma UpdatePaymentStatus_webhooks: "always (\<lambda>t. webhooks t = hs) (UpdatePaymentStatus L i st gtx reason ms)"
  unfolding always_outcomes UpdatePaymentStatus_def
proof (rule outcomes_bind)
  show "outcomes (\<lambda>t. webhooks t = hs) (resolve_target L i) (\<lambda>_ t. webhooks t = hs) (\<lambda>t. webhooks t = hs)"
    by (rule outcomes_read_only [OF resolve_target_read_only])
  show "outcomes (\<lambda>t. webhooks t = hs) (with_tx fb fc (update_status_tx L i target st gtx reason pm))
      (\<lambda>_ t. webhooks t = hs) (\<lambda>t. webhooks t = hs)" for fb fc target pm
    by (rule outcomes_with_tx) (auto elim!: update_status_tx_run dest!: add_event_webhooks)
qed

lemma UpdateRefundStatus_webhooks: "always (\<lambda>t. webhooks t = hs) (UpdateRefundStatus L i st g)"
  unfolding always_outcomes UpdateRefundStatus_def
  by (rule outcomes_with_tx)
    (auto dest!: update_refund_moved simp: refund_moved_def dest!: add_event_webhooks)

lemma webhook_handler_rows:
  assumes "webhook_handler S ev = Some h"
  shows "always (\<lambda>t. webhooks t = hs) h"
proof -
  have pay: "always (\<lambda>t. webhooks t = hs) (handle_payment_webhook S ev st reason)" for st reason
    unfolding handle_payment_webhook_def
    by (intro always_bind always_read_only [OF findPaymentForWebhook_read_only])
      (auto intro!: always_seq UpdatePaymentStatus_webhooks always_read_only [OF read_only_ret])
  have ref: "always (\<lambda>t. webhooks t = hs) (handleRefundSuccessWebhook S ev)"
    "always (\<lambda>t. webhooks t = hs) (handleRefundFailedWebhook S ev)"
    unfolding handleRefundSuccessWebhook_def handleRefundFailedWebhook_def Let_def
    by (auto intro!: always_bind always_seq optional_always always_ignore refund_target_always total_or_zero_always
        UpdatePaymentStatus_webhooks UpdateRefundStatus_webhooks always_read_only [OF read_only_ret]
        always_read_only [OF refund_queries_read_only(1)] split: option.split)
  show ?thesis
    using assms unfolding webhook_handler_def Let_def handlePaymentPendingWebhook_def
      handlePaymentSuccessWebhook_def handlePaymentFailedWebhook_def
    by (auto split: if_splits intro: pay ref)
qed

lemma IsWebhookProcessed_run:
  "fault_free e \<Longrightarrow> optional (IsWebhookProcessed k) e w = (Inr (Some (webhook_done k (tabs w))), w\<lparr>nstmt := Suc (nstmt w)\<rparr>)"
  by (simp add: optional_def IsWebhookProcessed_def webhook_done_def db_simps)

lemma SaveWebhookEvent_run:
  assumes "fault_free e" and "ignore_error (SaveWebhookEvent h) e w = (r, w')"
  shows "wh_event h \<in> wh_event ` set (webhooks (tabs w'))"
  using assms by (auto simp: ignore_error_def SaveWebhookEvent_def db_simps split: if_splits)

lemma MarkWebhookProcessed_run:
  assumes "fault_free e" and "ignore_error (MarkWebhookProcessed k) e w = (r, w')"
    and "k \<in> wh_event ` set (webhooks (tabs w))"
  shows "webhook_done k (tabs w')"
proof -
  let ?f = "\<lambda>h :: PaymentWebhook. h\<lparr>wh_processed := True, wh_processed_at := Some (clock e)\<rparr>"
  have hs: "webhooks (tabs w') = upd_where (\<lambda>h. wh_event h = k) ?f (webhooks (tabs w))"
    using assms(1,2) by (auto simp: ignore_error_def MarkWebhookProcessed_def db_simps)
  have "find (\<lambda>h. wh_event h = k) (upd_where (\<lambda>h. wh_event h = k) ?f xs) =
      map_option ?f (find (\<lambda>h. wh_event h = k) xs)" for xs :: "PaymentWebhook list"
    by (induction xs) (auto simp: upd_where_def)
  moreover obtain h where "find (\<lambda>h. wh_event h = k) (webhooks (tabs w)) = Some h"
    using assms(3) by (cases "find (\<lambda>h. wh_event h = k) (webhooks (tabs w))") (auto simp: find_None_iff)
  ultimately show ?thesis by (simp add: webhook_done_def hs)
qed

text \<open>A run that answers without an error has left the event processed.\<close>

lemma HandleRazorpayWebhook_done:
  assumes ff: "fault_free e" and J: "J body = Inr ev" and run: "HandleRazorpayWebhook S J body e w = (Inr u, w')"
  shows "webhook_done (webhook_event_id ev) (tabs w')"
proof (cases "webhook_done (webhook_event_id ev) (tabs w)")
  case True
  with run ff J show ?thesis
    unfolding HandleRazorpayWebhook_def by (auto simp: run_ok Let_def IsWebhookProcessed_run)
next
  case False
  let ?k = "webhook_event_id ev"
  let ?h = "\<lparr>wh_id = [], wh_event = ?k, wh_provider = ''RAZORPAY'', wh_type = we_event ev,
     wh_payload = body, wh_processed = False, wh_processed_at = None, wh_created = 0\<rparr>"
  from run ff J False obtain w1 w2 where save: "ignore_error (SaveWebhookEvent ?h) e w1 = (Inr (), w2)"
    and rest: "(case webhook_handler S ev of None \<Rightarrow> ignore_error (MarkWebhookProcessed ?k)
       | Some h \<Rightarrow> seq h (ignore_error (MarkWebhookProcessed ?k))) e w2 = (Inr (), w')"
    unfolding HandleRazorpayWebhook_def by (auto simp: run_ok Let_def IsWebhookProcessed_run)
  have saved: "?k \<in> wh_event ` set (webhooks (tabs w2))" using SaveWebhookEvent_run [OF ff save] by simp
  show ?thesis
  proof (cases "webhook_handler S ev")
    case None
    with rest have "ignore_error (MarkWebhookProcessed ?k) e w2 = (Inr (), w')" by simp
    from MarkWebhookProcessed_run [OF ff this saved] show ?thesis .
  next
    case (Some h)
    with rest obtain x w3 where "h e w2 = (x, w3)" "ignore_error (MarkWebhookProcessed ?k) e w3 = (Inr (), w')"
      by (auto simp: run_ok)
    with MarkWebhookProcessed_run [OF ff] alwaysD [OF webhook_handler_rows [OF Some, of "webhooks (tabs w2)"]] saved
    show ?thesis by metis
  qed
qed

lemma HandleRazorpayWebhook_repeated:
  assumes "fault_free e" and "J body = Inr ev" and "body \<noteq> []" and "webhook_done (webhook_event_id ev) (tabs w)"
  shows "\<exists>w'. HandleRazorpayWebhook S J body e w = (Inr (), w') \<and> tabs w' = tabs w"
  using assms unfolding HandleRazorpayWebhook_def
  by (simp add: Let_def IsWebhookProcessed_run seq_def require_def bind_def ret_def)

section \<open>A repeated OrderCreated event\<close>

definition order_row :: "string \<Rightarrow> pay_tables \<Rightarrow> Payment option" where
  "order_row i = newest (\<lambda>p. pay_order p = i \<or> (i \<noteq> [] \<and> pay_gateway_txn p = i) \<or> pay_key p = i)"

definition event_payment :: "OrderCreatedData \<Rightarrow> ProcessPaymentDTO" where
  "event_payment ev = \<lparr>pp_order = TrimSpace (od_order ev), pp_user = od_user ev, pp_method = ''CREDIT_CARD'',
     pp_key = ''order-pay-'' @ TrimSpace (od_order ev), pp_client_amount = od_total ev,
     pp_client_currency = or_else (od_currency ev) ''USD''\<rparr>"

lemma query_payment_found:
  assumes "fault_free e" and "q (tabs w) = Some p" and "pay_txn p \<noteq> []"
  shows "attempt (query_payment q missing msg) e w = (Inr (Inr p), w\<lparr>nstmt := Suc (nstmt w)\<rparr>)"
  using assms by (simp add: query_payment_def db_simps)

lemma query_payment_missing:
  assumes "fault_free e" and "q (tabs w) = None"
  shows "attempt (query_payment q missing msg) e w = (Inr (Inl missing), w\<lparr>nstmt := Suc (nstmt w)\<rparr>)"
  using assms by (simp add: query_payment_def db_simps)

lemma HandleOrderCreated_proceeds:
  assumes "fault_free e" and "\<not> blank (od_order ev)" and "order_row (TrimSpace (od_order ev)) (tabs w) = Some p"
    and "pay_txn p \<noteq> []" and "pay_status p \<notin> {''SUCCESS'', ''PENDING'', ''FAILED'', ''CANCELLED''}"
  shows "HandleOrderCreated S ev e w = ProcessPayment S (event_payment ev) e (w\<lparr>nstmt := Suc (nstmt w)\<rparr>)"
  using assms query_payment_found [of e "order_row (TrimSpace (od_order ev))" w p]
  unfolding HandleOrderCreated_def event_payment_def GetPaymentByOrderID_def order_row_def
  by (simp add: Let_def seq_def require_def bind_def ret_def)

lemma ProcessPayment_known:
  assumes "fault_free e" and "pp_order dto \<noteq> []" and "pp_key dto \<noteq> []"
    and "find (\<lambda>p. pay_key p = pp_key dto) (payments (tabs w)) = Some p" and "pay_txn p \<noteq> []"
  shows "ProcessPayment S dto e w = (Inr p, w\<lparr>nstmt := Suc (nstmt w)\<rparr>)"
  using assms query_payment_found [of e "\<lambda>t. find (\<lambda>p. pay_key p = pp_key dto) (payments t)" w p]
  unfolding ProcessPayment_def GetPaymentByIdempotencyKey_def
  by (simp add: seq_def require_def bind_def ret_def)

lemma ProcessPayment_starts:
  assumes "fault_free e" and "pp_order dto \<noteq> []" and "pp_key dto \<noteq> []"
    and "find (\<lambda>p. pay_key p = pp_key dto) (payments (tabs w)) = None"
    and "orderClient S = Some client" and "client (pp_order dto) = Inr (Some order)"
    and "order_row (pp_order dto) (tabs w) = Some p" and "pay_txn p \<noteq> []" and "pay_status p \<notin> {''SUCCESS'', ''PENDING''}"
  shows "ProcessPayment S dto e w = start_payment S dto order e (w\<lparr>nstmt := Suc (Suc (nstmt w))\<rparr>)"
  using assms query_payment_missing [of e "\<lambda>t. find (\<lambda>p. pay_key p = pp_key dto) (payments t)" w]
    query_payment_found [of e "order_row (pp_order dto)" "w\<lparr>nstmt := Suc (nstmt w)\<rparr>" p]
  unfolding ProcessPayment_def GetPaymentByIdempotencyKey_def GetPaymentByOrderID_def order_row_def
  by (simp add: seq_def require_def bind_def ret_def)

end
