(* ===== verification/Payment_Props.thy ===== *)
theory Payment_Props
  imports Payment_Refunds
begin

text \<open>
  The properties of the payment service, with concrete runs that show their hypotheses can
  hold. \<open>demo\<close> is a service with the mock provider and an order service that knows one order.
\<close>

section \<open>A concrete service\<close>

definition demo_lib :: pay_lib where
  "demo_lib = \<lparr>parse_uuid = (\<lambda>s. s \<noteq> []), pg_uuid = (\<lambda>s. s \<noteq> []), pg_decimal = Some,
     pg_sum = (\<lambda>xs. foldr fadd xs (Fin 0)), fmt2 = (\<lambda>_. []), quoted = (\<lambda>s. s),
     pay_grpc = \<lparr>from_error = (\<lambda>_. None), status_text = (\<lambda>_ m. m)\<rparr>\<rparr>"

definition demo_order :: AuthoritativeOrder where
  "demo_order = \<lparr>ao_id = ''o1'', ao_user = ''u1'', ao_total = Fin 25, ao_currency = ''INR'',
     ao_status = ''CREATED'', ao_items = []\<rparr>"

definition demo :: pay_svc where
  "demo = \<lparr>svc_lib = demo_lib, gateway = MockGateway False,
     orderClient = Some (\<lambda>i. if i = ''o1'' then Inr (Some demo_order) else Inl (NotFound ''order''))\<rparr>"

definition demo_env :: env where
  "demo_env = \<lparr>fault = (\<lambda>_. False), uuid_at = (\<lambda>n. ''id-'' @ nat_str n), clock = 7, broker = (\<lambda>_. Acked),
     ctx_done = (\<lambda>_. False)\<rparr>"

definition demo_world :: "pay_tables \<Rightarrow> pay_tables world" where
  "demo_world t = \<lparr>tabs = t, aborted = False, nstmt = 0, nuuid = 0, nsend = 0, sent = []\<rparr>"

definition demo_pay :: ProcessPaymentDTO where
  "demo_pay = \<lparr>pp_order = ''o1'', pp_user = ''u1'', pp_method = ''UPI'', pp_key = ''k1'',
     pp_client_amount = Fin 1, pp_client_currency = ''INR''\<rparr>"

definition demo_decoders :: "unit pay_decoders" where
  "demo_decoders = \<lparr>dec_order_created = (\<lambda>_. Inl (ErrorString [])), dec_refund_eligible = (\<lambda>_. Inl (ErrorString []))\<rparr>"

definition demo_json :: "string \<Rightarrow> go_error + RazorpayWebhookEvent" where
  "demo_json s = Inl (ErrorString [])"

text \<open>The tables after one payment.\<close>

definition demo_paid :: pay_tables where
  "demo_paid = tabs (snd (serve_payment demo demo_json demo_decoders (PProcess demo_pay) demo_env
     (demo_world (no_payments []))))"

lemma demo_gateway: "payment_gateway (gateway demo)"
  unfolding demo_def pay_svc.select_convs by (rule mock.payment_gateway_axioms)

lemma demo_lib_simps: "svc_lib demo = demo_lib" "pg_uuid demo_lib s \<longrightarrow> parse_uuid demo_lib s"
  by (simp_all add: demo_def demo_lib_def)

lemma demo_reach: "pay_reach demo_lib demo_decoders (no_payments []) demo_paid"
proof -
  have "pay_reach demo_lib demo_decoders (no_payments []) (tabs (demo_world (no_payments [])))"
    by (simp add: demo_world_def pay_reach.start)
  from pay_reach.serve [OF this demo_gateway demo_lib_simps(1) prod.collapse [symmetric]]
  show ?thesis unfolding demo_paid_def .
qed

lemma demo_paid_eval:
  "map gq_key (charges demo_paid) = [''k1'']" "map pay_status (payments demo_paid) = [''SUCCESS'']"
  "map ob_event_type (pay_outbox demo_paid) = [''PaymentInitiated'', ''PaymentPending'', ''PaymentSuccessful'']"
  by code_simp+

section \<open>Charging\<close>

text \<open>
  C2. In every state the payment service reaches, under any failures and through every
  request it serves, \<open>ProcessPayment\<close> has asked the provider at most once to charge for an
  idempotency key, and a refund has been asked for at most once per key; every such charge is
  for a recorded payment, with its order, amount and currency, and every refund for a recorded
  one, with its payment, key and amount (as the column of the refund holds it). The HTTP
  endpoint \<open>CreateOrder\<close> asks the provider on its own, and nothing of this holds for it: its
  calls are the only others, and carry a key made of the clock.
\<close>

theorem one_charge_per_key:
  assumes "\<And>s. pg_uuid L s \<Longrightarrow> parse_uuid L s" and "pay_reach L D (no_payments ms) t"
  shows "distinct (map gq_key (charges t)) \<and> distinct (map rq_key (refund_calls t)) \<and>
    (\<forall>q \<in> set (charges t). \<exists>p \<in> set (payments t). charge_of q p) \<and>
    (\<forall>q \<in> set (refund_calls t). \<exists>r \<in> set (refunds t). rq_refund q = rf_id r \<and> rq_key q = rf_key r \<and>
       rq_payment q = rf_payment r \<and> pg_decimal L (rq_amount q) = Some (rf_amount r)) \<and>
    (\<forall>q. OrderCall q \<in> set (gateway_log t) \<longrightarrow> (\<exists>n. gq_key q = ''idemp_'' @ itoa n))"
proof -
  have "good L (no_payments ms) t" using pay_reach_good [OF assms(2) no_payments_inv assms(1)] .
  moreover have "q \<in> set (order_calls t)" if "OrderCall q \<in> set (gateway_log t)" for q
    using that by (force simp: order_calls_def)
  ultimately show ?thesis by (auto simp: good_def pay_inv_def calls_ok_def keyed_def refund_of_def)
qed

theorem one_charge_per_key_witness:
  "map gq_key (charges demo_paid) = [''k1''] \<and> distinct (map gq_key (charges demo_paid))"
  using one_charge_per_key [OF _ demo_reach] demo_lib_simps demo_paid_eval by simp

text \<open>
  C7. Whatever is requested and whatever fails, a recorded payment stays recorded with its
  order, user, amount, currency, keys, its status only moves along the transition table, and
  a failed, cancelled or refunded payment keeps its status for good.
\<close>

theorem payments_follow_the_table:
  assumes "\<And>s. pg_uuid L s \<Longrightarrow> parse_uuid L s" and "pay_reach L D (no_payments ms) t0"
    and "pay_reach L D t0 t" and "p \<in> set (payments t0)"
  shows "\<exists>q \<in> set (payments t). core q = core p \<and> CanTransitionPayment\<^sup>*\<^sup>* (pay_status p) (pay_status q) \<and>
    (pay_status p \<in> {''FAILED'', ''CANCELLED'', ''REFUNDED''} \<longrightarrow> pay_status q = pay_status p)"
proof -
  have "pay_inv L t0" using pay_reach_good [OF assms(2) no_payments_inv assms(1)] by (simp add: good_def)
  from pay_reach_good [OF assms(3) this assms(1)] assms(4)
  obtain q where q: "q \<in> set (payments t)" "core q = core p" "CanTransitionPayment\<^sup>*\<^sup>* (pay_status p) (pay_status q)"
    by (auto simp: good_def evolves_def leads_to_def)
  have "\<not> CanTransitionPayment a b" if "a \<in> {''FAILED'', ''CANCELLED'', ''REFUNDED''}" for a b
    using that by (auto simp: CanTransitionPayment_def allowed_in_def allowedPaymentTransitions_def)
  then have "pay_status q = pay_status p" if "pay_status p \<in> {''FAILED'', ''CANCELLED'', ''REFUNDED''}"
    using q(3) that by (metis converse_rtranclpE)
  with q show ?thesis by blast
qed

theorem payments_follow_the_table_witness:
  "\<exists>q \<in> set (payments demo_paid). core q = core (hd (payments demo_paid)) \<and> pay_status q = ''SUCCESS''"
proof -
  have ne: "payments demo_paid \<noteq> []" using demo_paid_eval(2) by auto
  then have "hd (payments demo_paid) \<in> set (payments demo_paid)" by simp
  from payments_follow_the_table [OF _ demo_reach pay_reach.start this]
  obtain q where "q \<in> set (payments demo_paid)" "core q = core (hd (payments demo_paid))"
    using demo_lib_simps by blast
  moreover from this have "pay_status q \<in> set (map pay_status (payments demo_paid))" by simp
  ultimately show ?thesis unfolding demo_paid_eval(2) by auto
qed

text \<open>
  C10. In every reachable state each payment that is or was successful (also when it is being
  refunded), failed or was cancelled has the outbox event that says so. A payment that was not
  made by the HTTP endpoint \<open>CreateOrder\<close> (whose key the endpoint had not sent to the provider)
  also has the events of its creation and of its pending status. Each refund has its events,
  and there is at most one event per payment or refund and type.
\<close>

theorem payments_are_announced:
  assumes "\<And>s. pg_uuid L s \<Longrightarrow> parse_uuid L s" and "pay_reach L D (no_payments ms) t"
  shows "(\<forall>p \<in> set (payments t). (\<forall>ty \<in> set (settled_events (pay_status p)). has_event (pay_id p) ty t) \<and>
      (pay_key p \<notin> gq_key ` set (order_calls t) \<longrightarrow>
        (\<forall>ty \<in> set (payment_events (pay_status p)). has_event (pay_id p) ty t))) \<and>
    (\<forall>r \<in> set (refunds t). \<forall>ty \<in> set (refund_events (rf_status r)). has_event (rf_id r) ty t) \<and>
    distinct (map (\<lambda>r. (ob_aggregate_id r, ob_event_type r)) (pay_outbox t))"
proof -
  have "good L (no_payments ms) t" using pay_reach_good [OF assms(2) no_payments_inv assms(1)] .
  then show ?thesis
    by (simp add: good_def pay_inv_def payments_ok_def refunds_ok_def announced_def keyed_def by_service_def)
qed

theorem payments_are_announced_witness:
  "list_all (\<lambda>p. has_event (pay_id p) ''PaymentSuccessful'' demo_paid) (payments demo_paid)"
proof -
  have "has_event (pay_id p) ''PaymentSuccessful'' demo_paid" if p: "p \<in> set (payments demo_paid)" for p
  proof -
    from p have "pay_status p \<in> set (map pay_status (payments demo_paid))" by simp
    then have "pay_status p = ''SUCCESS''" unfolding demo_paid_eval(2) by simp
    with payments_are_announced [OF _ demo_reach] demo_lib_simps p show ?thesis
      by (auto simp: settled_events_def)
  qed
  then show ?thesis by (simp add: list_all_iff)
qed

section \<open>Amounts\<close>

text \<open>Going through the same steps with errors added up, for whole cents below a billion.\<close>

lemma refundable_near:
  assumes "0 \<le> r" and "r \<le> billion" and "0 \<le> p" and "p \<le> billion"
  shows "near (fadd (fsub (cents p) (cents r)) micro) (of_int (p - r) / 100 + 1 / 1000000) (5 / 10000000)"
proof -
  have b: "\<bar>p\<bar> \<le> billion" "\<bar>r\<bar> \<le> billion" using assms by auto
  have pr: "(of_int r :: rat) \<le> 10 ^ 11" "(of_int p :: rat) \<le> 10 ^ 11" "0 \<le> (of_int r :: rat)" "0 \<le> (of_int p :: rat)"
    using assms of_int_le_iff [of p "10 ^ 11", where 'a = rat] of_int_le_iff [of r "10 ^ 11", where 'a = rat]
    by (auto simp: billion_def)
  note u = ulp_values
  have "near (fsub (cents p) (cents r)) (of_int p / 100 - of_int r / 100)
      (ulp (10 ^ 9) + ulp (10 ^ 9) + ulp (10 ^ 9 + 1))"
    by (rule fsub_near [OF cents_near [OF b(1)] cents_near [OF b(2)]]) (use pr u in \<open>auto simp: abs_if\<close>)
  then have "near (fadd (fsub (cents p) (cents r)) micro) (of_int p / 100 - of_int r / 100 + 1 / 10 ^ 6)
      (ulp (10 ^ 9) + ulp (10 ^ 9) + ulp (10 ^ 9 + 1) + ulp 1 + ulp (10 ^ 9 + 2))"
    by (rule fadd_near [OF _ micro_near]) (use pr in \<open>auto simp: abs_if ulp_def\<close>)
  then show ?thesis
    unfolding near_def by (auto simp: diff_divide_distrib ulp_def)
qed

lemma paid_near:
  assumes "0 \<le> p" and "p \<le> billion"
  shows "near (fsub (cents p) micro) (of_int p / 100 - 1 / 1000000) (3 / 10000000)"
proof -
  have b: "\<bar>p\<bar> \<le> billion" using assms by auto
  have pr: "(of_int p :: rat) \<le> 10 ^ 11" "0 \<le> (of_int p :: rat)"
    using assms of_int_le_iff [of p "10 ^ 11", where 'a = rat] by (auto simp: billion_def)
  have "near (fsub (cents p) micro) (of_int p / 100 - 1 / 10 ^ 6) (ulp (10 ^ 9) + ulp 1 + ulp (10 ^ 9 + 1))"
    by (rule fsub_near [OF cents_near [OF b] micro_near]) (use pr in \<open>auto simp: abs_if ulp_def\<close>)
  then show ?thesis unfolding near_def by (auto simp: ulp_def)
qed

lemma total_near:
  assumes "0 \<le> r" "r \<le> billion" and "0 \<le> d" "d \<le> billion"
  shows "near (fadd (cents r) (cents d)) (of_int (r + d) / 100) (5 / 10000000)"
proof -
  have b: "\<bar>r\<bar> \<le> billion" "\<bar>d\<bar> \<le> billion" using assms by auto
  have pr: "(of_int r :: rat) \<le> 10 ^ 11" "0 \<le> (of_int r :: rat)" "(of_int d :: rat) \<le> 10 ^ 11" "0 \<le> (of_int d :: rat)"
    using assms of_int_le_iff [of r "10 ^ 11", where 'a = rat] of_int_le_iff [of d "10 ^ 11", where 'a = rat]
    by (auto simp: billion_def)
  have "near (fadd (cents r) (cents d)) (of_int r / 100 + of_int d / 100)
      (ulp (10 ^ 9) + ulp (10 ^ 9) + ulp (2 * 10 ^ 9 + 1))"
    by (rule fadd_near [OF cents_near [OF b(1)] cents_near [OF b(2)]]) (use pr in \<open>auto simp: abs_if ulp_def\<close>)
  then show ?thesis unfolding near_def by (auto simp: add_divide_distrib ulp_def)
qed

lemma cents_near': "0 \<le> d \<Longrightarrow> d \<le> billion \<Longrightarrow> near (cents d) (of_int d / 100) (12 / 100000000)"
  using cents_near [of d] ulp_values(1) unfolding near_def by (auto intro: order_trans)

lemma cents_apart: "a < b \<Longrightarrow> (of_int a / 100 :: rat) + 1 / 100 \<le> of_int b / 100"
proof -
  assume "a < b"
  then have "a + 1 \<le> b" by simp
  then have "(of_int (a + 1) :: rat) \<le> of_int b" by (simp only: of_int_le_iff)
  then show ?thesis by simp
qed

lemma exceeds_in_cents:
  assumes "0 \<le> refunded" and "refunded \<le> billion" and "0 \<le> paid" and "paid \<le> billion"
    and "0 \<le> amount" and "amount \<le> billion"
  shows "exceeds_refundable (cents paid) (cents refunded) (cents amount) \<longleftrightarrow> paid - refunded < amount"
proof -
  note left = refundable_near [OF assms(1-4)] and d = cents_near' [OF assms(5,6)]
  show ?thesis
  proof (cases "paid - refunded < amount")
    case True
    then have "flt (fadd (fsub (cents paid) (cents refunded)) micro) (cents amount)"
      using cents_apart [OF True] by (intro flt_near [OF left d]) linarith
    with True show ?thesis by (simp add: exceeds_refundable_def)
  next
    case False
    then have "(of_int amount / 100 :: rat) \<le> of_int (paid - refunded) / 100"
      by (intro divide_right_mono) (simp_all only: of_int_le_iff)
    then have "\<not> flt (fadd (fsub (cents paid) (cents refunded)) micro) (cents amount)"
      by (intro not_flt_near [OF left d]) linarith
    with False show ?thesis by (simp add: exceeds_refundable_def)
  qed
qed

lemma guards_in_cents:
  assumes "0 \<le> refunded" and "refunded \<le> paid" and "paid \<le> billion" and "0 \<le> amount" and "amount \<le> billion"
  shows "exceeds_refundable (cents paid) (cents refunded) (cents amount) \<longleftrightarrow> paid - refunded < amount"
    and "fully_refunded (cents paid) (fadd (cents refunded) (cents amount)) \<longleftrightarrow> paid \<le> refunded + amount"
proof -
  show "exceeds_refundable (cents paid) (cents refunded) (cents amount) \<longleftrightarrow> paid - refunded < amount"
    by (rule exceeds_in_cents) (use assms in auto)
  have p: "near (fsub (cents paid) micro) (of_int paid / 100 - 1 / 1000000) (3 / 10000000)"
    by (rule paid_near) (use assms in auto)
  have t: "near (fadd (cents refunded) (cents amount)) (of_int (refunded + amount) / 100) (5 / 10000000)"
    by (rule total_near) (use assms in auto)
  show "fully_refunded (cents paid) (fadd (cents refunded) (cents amount)) \<longleftrightarrow> paid \<le> refunded + amount"
  proof (cases "refunded + amount < paid")
    case True
    then have "\<not> fle (fsub (cents paid) micro) (fadd (cents refunded) (cents amount))"
      using cents_apart [OF True] by (intro not_fle_near [OF p t]) linarith
    with True show ?thesis by (simp add: fully_refunded_def)
  next
    case False
    then have "(of_int paid / 100 :: rat) \<le> of_int (refunded + amount) / 100"
      by (intro divide_right_mono) (simp_all only: of_int_le_iff)
    then have "fle (fsub (cents paid) micro) (fadd (cents refunded) (cents amount))"
      by (intro fle_near [OF p t]) linarith
    with False show ?thesis by (simp add: fully_refunded_def)
  qed
qed

text \<open>
  C11. For amounts of whole cents up to a billion the two comparisons of a refund with the
  tolerance 1e-6 decide exactly, although they compute in float64: a refund is refused if and
  only if it exceeds what is left of the payment, and the payment counts as fully refunded if
  and only if nothing is left.
\<close>

theorem refund_guards_are_exact:
  assumes "0 \<le> refunded" and "refunded \<le> paid" and "paid \<le> billion" and "0 \<le> amount" and "amount \<le> billion"
  shows "(exceeds_refundable (cents paid) (cents refunded) (cents amount) \<longleftrightarrow> paid - refunded < amount) \<and>
    (fully_refunded (cents paid) (fadd (cents refunded) (cents amount)) \<longleftrightarrow> paid \<le> refunded + amount)"
  using guards_in_cents [OF assms] by blast

theorem refund_guards_are_exact_witness:
  "exceeds_refundable (cents 1999) (cents 0) (cents 2000) \<and> fully_refunded (cents 1999) (fadd (cents 999) (cents 1000))"
  using refund_guards_are_exact [of 0 1999 2000] refund_guards_are_exact [of 999 1999 1000]
  by (simp add: billion_def)

text \<open>
  An amount of whole cents up to a billion reaches Razorpay as exactly that number of
  subunits: multiplying by 100 in float64 and rounding loses nothing.
\<close>

theorem subunits_are_exact:
  assumes "0 \<le> k" and "k \<le> billion"
  shows "subunits H (cents k) = k"
proof -
  have pr: "(of_int k :: rat) \<le> 10 ^ 11" "0 \<le> (of_int k :: rat)"
    using assms of_int_le_iff [of k "10 ^ 11", where 'a = rat] by (auto simp: billion_def)
  have "near (fmul (cents k) (Fin 100)) (of_int k / 100 * 100) (12 / 100000000 * \<bar>100\<bar> + ulp (10 ^ 11 + 1))"
    by (rule fmul_near [OF cents_near' [OF assms]]) (use pr in auto)
  then obtain q where q: "fmul (cents k) (Fin 100) = Fin q" "\<bar>q - of_int k\<bar> \<le> 12 / 10 ^ 6 + ulp (10 ^ 11 + 1)"
    by (auto simp: near_def)
  have "\<bar>q - of_int k\<bar> < 1/2" using q(2) by (rule le_less_trans) (simp add: ulp_def)
  then have "go_round q = k" by (rule go_round_near)
  moreover have "int64 k" using assms by (simp add: int64_def billion_def)
  ultimately show ?thesis using q(1) by (simp add: subunits_def)
qed

definition demo_http :: razorpay_env where
  "demo_http = \<lparr>new_request = (\<lambda>_. None), http_do = (\<lambda>_ _. Answered 201 []),
     decode_order = (\<lambda>_. (None, \<lparr>rz_id = ''order_1'', rz_status = ''created'', rz_error = None\<rparr>)),
     decode_refund = (\<lambda>_. (None, \<lparr>rz_id = ''rfnd_1'', rz_status = ''processed'', rz_error = None\<rparr>)),
     int64_cast = (\<lambda>_. 0)\<rparr>"

theorem subunits_are_exact_witness: "subunits demo_http (cents 110) = 110"
  using subunits_are_exact [of 110 demo_http] by (simp add: billion_def)

section \<open>What a request asks of the provider\<close>

text \<open>
  C8. Processing a payment sends at most one charge, for the total and currency of the order
  as the order service knows it, under the order and key of the request. The amount and
  currency the client sent have no influence at all.
\<close>

theorem charge_is_authoritative:
  assumes "\<And>s. pg_uuid L s \<Longrightarrow> parse_uuid L s" and "pay_reach L D (no_payments ms) (tabs w)"
    and "payment_gateway (gateway S)" and "svc_lib S = L" and "ProcessPayment S dto e w = (r, w')"
  shows "(gateway_log (tabs w') = gateway_log (tabs w) \<or>
      (\<exists>client order q. orderClient S = Some client \<and> client (pp_order dto) = Inr (Some order) \<and>
         gateway_log (tabs w') = gateway_log (tabs w) @ [ChargeCall q] \<and>
         gq_order q = pp_order dto \<and> gq_key q = pp_key dto \<and>
         gq_currency q = or_else (ao_currency order) ''INR'' \<and> pg_decimal L (ao_total order) = Some (gq_amount q))) \<and>
    ProcessPayment S (dto\<lparr>pp_client_amount := a, pp_client_currency := c\<rparr>) = ProcessPayment S dto"
proof
  have "good L (no_payments ms) (tabs w)" using pay_reach_good [OF assms(2) no_payments_inv assms(1)] .
  from outcomesD [OF payment_gateway.ProcessPayment_charges [OF assms(3) refl assms(4,1)] good_sound [OF this] assms(5)]
  have "authoritative S dto (gateway_log (tabs w)) (tabs w')" by (auto split: sum.splits)
  then show "gateway_log (tabs w') = gateway_log (tabs w) \<or>
      (\<exists>client order q. orderClient S = Some client \<and> client (pp_order dto) = Inr (Some order) \<and>
         gateway_log (tabs w') = gateway_log (tabs w) @ [ChargeCall q] \<and>
         gq_order q = pp_order dto \<and> gq_key q = pp_key dto \<and>
         gq_currency q = or_else (ao_currency order) ''INR'' \<and> pg_decimal L (ao_total order) = Some (gq_amount q))"
    unfolding authoritative_def charge_for_def assms(4) by blast
  have start: "start_payment S (dto\<lparr>pp_client_amount := a, pp_client_currency := c\<rparr>) order = start_payment S dto order"
    for order by (simp add: start_payment_def new_payment_def)
  have same: "pp_order (dto\<lparr>pp_client_amount := a, pp_client_currency := c\<rparr>) = pp_order dto"
    "pp_key (dto\<lparr>pp_client_amount := a, pp_client_currency := c\<rparr>) = pp_key dto" by simp_all
  show "ProcessPayment S (dto\<lparr>pp_client_amount := a, pp_client_currency := c\<rparr>) = ProcessPayment S dto"
    unfolding ProcessPayment_def start same ..
qed

theorem charge_is_authoritative_witness:
  "\<exists>q. gateway_log (tabs (snd (ProcessPayment demo demo_pay demo_env (demo_world (no_payments []))))) = [ChargeCall q] \<and>
     gq_amount q = Fin 25"
proof -
  let ?w = "demo_world (no_payments [])"
  have start: "pay_reach demo_lib demo_decoders (no_payments []) (tabs ?w)"
    by (simp add: demo_world_def pay_reach.start)
  have empty: "gateway_log (tabs ?w) = []" by (simp add: demo_world_def no_payments_def)
  have one: "length (gateway_log (tabs (snd (ProcessPayment demo demo_pay demo_env ?w)))) = 1" by code_simp
  have "pp_order demo_pay = ''o1''" "pg_decimal demo_lib a = Some a"
    "orderClient demo = Some cl \<Longrightarrow> cl ''o1'' = Inr (Some demo_order)" "ao_total demo_order = Fin 25" for a cl
    by (auto simp: demo_pay_def demo_lib_def demo_def demo_order_def)
  with charge_is_authoritative [OF _ start demo_gateway demo_lib_simps(1) prod.collapse [symmetric], of demo_pay demo_env]
    demo_lib_simps(2) one empty show ?thesis by fastforce
qed

text \<open>
  C4. A refund request sends at most one refund to the provider. If it does, it is of the
  requested amount and key, of a recorded payment that was successful or partly refunded, with
  its provider's transaction, and in whole cents up to a billion the amount is at most what the
  payment has left after the refunds recorded as successful. (A refund the provider made but
  the service failed to record is not among them.)
\<close>

theorem refund_within_payment:
  assumes "payment_gateway (gateway S)" and "svc_lib S = L" and "CreateRefund_svc S dto e w = (r, w')"
  shows "gateway_log (tabs w') = gateway_log (tabs w) \<or>
    (\<exists>p \<in> set (payments (tabs w)). \<exists>q. gateway_log (tabs w') = gateway_log (tabs w) @ [RefundCall q] \<and>
       rq_payment q = pay_id p \<and> rq_txn q = pay_gateway_txn p \<and> rq_amount q = cr_amount dto \<and> rq_key q = cr_key dto \<and>
       pay_status p \<in> {''SUCCESS'', ''PARTIALLY_REFUNDED''} \<and>
       (\<forall>paid refunded amount. pay_amount p = cents paid \<and> refunded_so_far L (pay_id p) (tabs w) = cents refunded \<and>
          cr_amount dto = cents amount \<and> 0 \<le> refunded \<and> refunded \<le> billion \<and> 0 \<le> paid \<and> paid \<le> billion \<and>
          0 \<le> amount \<and> amount \<le> billion \<longrightarrow> amount \<le> paid - refunded))"
proof -
  have "refund_within L dto (tabs w) (tabs w')"
    using outcomesD [OF payment_gateway.CreateRefund_svc_within [OF assms(1) refl] refl assms(3)] assms(2)
    by (auto split: sum.splits)
  then consider "gateway_log (tabs w') = gateway_log (tabs w)"
    | p q where "may_refund L dto (tabs w) p" "refund_call_for dto p q"
        "gateway_log (tabs w') = gateway_log (tabs w) @ [RefundCall q]"
    unfolding refund_within_def by blast
  then show ?thesis
  proof cases
    case 2
    have "amount \<le> paid - refunded"
      if "pay_amount p = cents paid" "refunded_so_far L (pay_id p) (tabs w) = cents refunded"
        "cr_amount dto = cents amount" "0 \<le> refunded" "refunded \<le> billion" "0 \<le> paid" "paid \<le> billion"
        "0 \<le> amount" "amount \<le> billion"
      for paid refunded amount
      using exceeds_in_cents [OF that(4-9)] 2(1) that(1-3) by (auto simp: may_refund_def)
    with 2 show ?thesis unfolding may_refund_def refund_call_for_def by blast
  qed simp
qed

definition demo_refund :: CreateRefundDTO where
  "demo_refund = \<lparr>cr_payment = ''id-1'', cr_amount = Fin 25, cr_reason = [], cr_key = []\<rparr>"

text \<open>The tables after the payment has been refunded, with no key given.\<close>

definition demo_refunded :: pay_tables where
  "demo_refunded = tabs (snd (CreateRefund_svc demo demo_refund demo_env ((demo_world demo_paid)\<lparr>nuuid := 100\<rparr>)))"

lemma demo_refunded_eval:
  "map pay_status (payments demo_refunded) = [''REFUNDED'']" "map rf_key (refunds demo_refunded) = [[]]"
  "map rf_status (refunds demo_refunded) = [''SUCCESS'']" "length (gateway_log demo_refunded) = 2"
  "length (gateway_log demo_paid) = 1"
  by code_simp+

theorem refund_within_payment_witness:
  "\<exists>q. gateway_log demo_refunded = gateway_log demo_paid @ [RefundCall q] \<and> rq_amount q = Fin 25"
proof -
  have "tabs ((demo_world demo_paid)\<lparr>nuuid := 100\<rparr>) = demo_paid" by (simp add: demo_world_def)
  with refund_within_payment [OF demo_gateway demo_lib_simps(1) prod.collapse [symmetric],
      of demo_refund demo_env "(demo_world demo_paid)\<lparr>nuuid := 100\<rparr>"] demo_refunded_eval(4,5)
  show ?thesis unfolding demo_refunded_def by (auto simp: demo_refund_def)
qed

text \<open>
  Once one refund without an idempotency key is recorded, every further refund request
  without a key fails, for any payment, and the provider is not called: the column is unique
  and stores the empty string.
\<close>

theorem keyless_refund_once:
  assumes "[] \<in> rf_key ` set (refunds (tabs w))" and "cr_key dto = []" and "CreateRefund_svc S dto e w = (r, w')"
  shows "(\<exists>er. r = Inl er) \<and> gateway_log (tabs w') = gateway_log (tabs w)"
  using outcomesD [OF CreateRefund_svc_keyless [OF assms(2)] _ assms(3), of "gateway_log (tabs w)"] assms(1)
  by (auto simp: keyless_def split: sum.splits)

theorem keyless_refund_once_witness:
  "\<exists>er. fst (CreateRefund_svc demo demo_refund demo_env (demo_world demo_refunded)) = Inl er"
proof -
  have "[] \<in> set (map rf_key (refunds demo_refunded))" unfolding demo_refunded_eval(2) by simp
  then have "[] \<in> rf_key ` set (refunds (tabs (demo_world demo_refunded)))" by (simp add: demo_world_def)
  from keyless_refund_once [OF this _ prod.collapse [symmetric], of demo_refund demo demo_env]
  show ?thesis by (simp add: demo_refund_def)
qed

section \<open>Repetition\<close>

text \<open>
  C12. A webhook that was answered without an error while no statement failed, delivered again
  while no statement fails, is acknowledged and changes nothing. (The service ignores the
  errors of storing the event and of marking it processed: after such an error the webhook is
  handled again.)
\<close>

theorem webhook_once:
  assumes "fault_free e" and "fault_free e2" and "J body = Inr ev"
    and "HandleRazorpayWebhook S J body e w = (Inr u, w1)" and "tabs w2 = tabs w1"
  shows "\<exists>w3. HandleRazorpayWebhook S2 J body e2 w2 = (Inr (), w3) \<and> tabs w3 = tabs w1"
proof -
  have "body \<noteq> []" using assms(4) by (auto simp: HandleRazorpayWebhook_def run_ok)
  moreover have "webhook_done (webhook_event_id ev) (tabs w2)"
    using HandleRazorpayWebhook_done [OF assms(1,3,4)] assms(5) by simp
  ultimately show ?thesis
    using HandleRazorpayWebhook_repeated [of e2 J body ev w2 S2] assms(2,3,5) by simp
qed

text \<open>A webhook that reports the payment of the order as captured.\<close>

definition demo_hook :: RazorpayWebhookEvent where
  "demo_hook = \<lparr>we_id = ''evt1'', we_event_id = [], we_event = ''payment.captured'',
     we_payment = \<lparr>pe_id = ''pay1'', pe_order = [], pe_method = [], pe_notes = [(''order_id'', ''o1'')],
       pe_error_description = [], pe_error_reason = []\<rparr>,
     we_order = \<lparr>oe_id = [], oe_receipt = [], oe_notes = []\<rparr>,
     we_refund = \<lparr>re_id = [], re_payment = [], re_notes = []\<rparr>, we_created = 5\<rparr>"

theorem webhook_once_witness:
  "\<exists>w1 w3. HandleRazorpayWebhook demo (\<lambda>_. Inr demo_hook) ''{}'' demo_env (demo_world demo_paid) = (Inr (), w1) \<and>
     webhooks (tabs w1) \<noteq> [] \<and>
     HandleRazorpayWebhook demo (\<lambda>_. Inr demo_hook) ''{}'' demo_env w1 = (Inr (), w3) \<and> tabs w3 = tabs w1"
proof -
  let ?r = "HandleRazorpayWebhook demo (\<lambda>_. Inr demo_hook) ''{}'' demo_env (demo_world demo_paid)"
  have "fst ?r = Inr ()" by code_simp
  then have run: "?r = (Inr (), snd ?r)" by (simp add: prod_eq_iff)
  have rows: "webhooks (tabs (snd ?r)) \<noteq> []" by code_simp
  have ff: "fault_free demo_env" by (simp add: fault_free_def demo_env_def)
  have "(\<lambda>_ :: string. Inr demo_hook) ''{}'' = Inr demo_hook" by simp
  from webhook_once [OF ff ff this run refl, of demo] run rows show ?thesis by blast
qed

text \<open>
  A payment left in status INITIATED (the update to PENDING failed after the row was
  created) is never charged by a repeated OrderCreated event: the row is found under the key
  the event derives, and the event is answered with it as if the payment were settled.
\<close>

theorem stalled_payment_is_acknowledged:
  assumes "fault_free e" and "\<not> blank (od_order ev)" and "order_row (TrimSpace (od_order ev)) (tabs w) = Some p"
    and "find (\<lambda>q. pay_key q = ''order-pay-'' @ TrimSpace (od_order ev)) (payments (tabs w)) = Some p"
    and "pay_status p = ''INITIATED''" and "pay_txn p \<noteq> []"
  shows "\<exists>w'. HandleOrderCreated S ev e w = (Inr p, w') \<and> tabs w' = tabs w"
proof -
  have "ProcessPayment S (event_payment ev) e (w\<lparr>nstmt := Suc (nstmt w)\<rparr>) =
      (Inr p, w\<lparr>nstmt := Suc (Suc (nstmt w))\<rparr>)"
    using ProcessPayment_known [of e "event_payment ev" "w\<lparr>nstmt := Suc (nstmt w)\<rparr>" p S] assms
    by (simp add: event_payment_def blank_def)
  with HandleOrderCreated_proceeds [OF assms(1-3,6), of S] assms(5) show ?thesis by simp
qed

definition demo_event :: OrderCreatedData where
  "demo_event = \<lparr>od_order = ''o1'', od_user = ''u1'', od_total = Fin 25, od_currency = ''INR''\<rparr>"

text \<open>The event is handled first while the seventh statement, the update to PENDING, fails.\<close>

definition demo_stalled :: pay_tables where
  "demo_stalled = tabs (snd (HandleOrderCreated demo demo_event (demo_env\<lparr>fault := (\<lambda>n. n = 7)\<rparr>)
     (demo_world (no_payments []))))"

lemma demo_stalled_eval:
  "map (\<lambda>p. (pay_order p, pay_key p, pay_status p, pay_txn p)) (payments demo_stalled) =
     [(''o1'', ''order-pay-o1'', ''INITIATED'', ''tx_id-0'')]"
  "gateway_log demo_stalled = []"
  by code_simp+

lemma demo_event_order: "TrimSpace (od_order demo_event) = ''o1''" "\<not> blank (od_order demo_event)"
  by code_simp+

lemma demo_fault_free: "fault_free demo_env"
  by (simp add: fault_free_def demo_env_def)

theorem stalled_payment_is_acknowledged_witness:
  "\<exists>w'. HandleOrderCreated demo demo_event demo_env (demo_world demo_stalled) =
     (Inr (hd (payments demo_stalled)), w') \<and> tabs w' = demo_stalled \<and> gateway_log demo_stalled = []"
proof -
  obtain p where p: "payments demo_stalled = [p]" "pay_order p = ''o1''" "pay_key p = ''order-pay-o1''"
      "pay_status p = ''INITIATED''" "pay_txn p \<noteq> []"
    using demo_stalled_eval(1) by (cases "payments demo_stalled") auto
  have "\<exists>w'. HandleOrderCreated demo demo_event demo_env (demo_world demo_stalled) = (Inr p, w') \<and>
      tabs w' = tabs (demo_world demo_stalled)"
    by (rule stalled_payment_is_acknowledged [OF demo_fault_free demo_event_order(2)])
      (use p in \<open>simp_all add: demo_event_order order_row_def newest_def demo_world_def\<close>)
  with p(1) demo_stalled_eval(2) show ?thesis by (simp add: demo_world_def)
qed




section \<open>The callback\<close>

lemma record_event_succeeds:
  assumes "fault_free e" and "\<not> aborted w" and "finite_amount (event_amount d)"
    and "\<And>n. uuid_at e n \<notin> ob_id ` set (pay_outbox (tabs w))"
  shows "\<exists>w'. record_event a agg ty topic d now e w = (Inr (), w') \<and> \<not> aborted w'"
  using assms
  by (auto simp: record_event_def payment_envelope_def NewEventEnvelopeWithAggregate_def insert_event_def
      insert_outbox_def db_simps Let_def)

lemma UpdatePaymentStatus_pays:
  assumes ff: "fault_free e" and i: "parse_uuid L (pay_id p)" "pg_uuid L (pay_id p)"
    and p: "find (\<lambda>q. pay_id q = pay_id p) (payments (tabs w)) = Some p" "pay_txn p \<noteq> []"
      "CanTransitionPayment (pay_status p) ''SUCCESS''" "finite_amount (pay_amount p)"
    and fresh: "\<And>n. uuid_at e n \<notin> ob_id ` set (pay_outbox (tabs w))"
  shows "\<exists>q w'. UpdatePaymentStatus L (pay_id p) ''SUCCESS'' gtx [] [] e w = (Inr q, w')"
proof -
  let ?w = "w\<lparr>nstmt := Suc (nstmt w), aborted := False\<rparr>"
  let ?f = "status_update ''SUCCESS'' gtx [] [] (clock e) (tabs w)"
  let ?w1 = "w\<lparr>aborted := False, nstmt := Suc (Suc (Suc (nstmt w))), tabs := (tabs w)\<lparr>payments :=
    upd_where (\<lambda>q. pay_id q = pay_id p) ?f (payments (tabs w))\<rparr>\<rparr>"
  have "finite_amount (event_amount (EvPaymentSuccessful a b c (pay_amount (?f p)) x y z))" for a b c x y z
    using p(4) by (simp add: status_update_def)
  then have "\<exists>w2. announce_status (pay_status p) ''SUCCESS'' (?f p) (clock e) e ?w1 = (Inr (), w2) \<and> \<not> aborted w2"
    using record_event_succeeds [OF ff, of ?w1] fresh by (auto simp: announce_status_def status_event_def ret_def)
  then obtain w2 where ann: "announce_status (pay_status p) ''SUCCESS'' (?f p) (clock e) e ?w1 = (Inr (), w2)" "\<not> aborted w2"
    by blast
  have "update_status_tx L (pay_id p) (pay_id p) ''SUCCESS'' gtx [] [] e ?w = (Inr (Commit (?f p)), w2)"
    using ff i(2) p ann(1)
    unfolding update_status_tx_def with_uuid_def update_payment_def
    by (simp add: bind_def seq_def on_error_def time_now_def sql_def select_def require_def ret_def Let_def)
  from with_tx_commitI [where w = w and body = "update_status_tx L (pay_id p) (pay_id p) ''SUCCESS'' gtx [] []",
      OF this ann(2)] ff i(1) show ?thesis
    unfolding UpdatePaymentStatus_def resolve_target_def by (simp add: bind_ret)
qed

text \<open>
  Anyone who can reach the HTTP endpoints can have a pending payment recorded as paid:
  the callback looks the payment up by the identifiers in the request, ignores the signature,
  and records SUCCESS and announces PaymentSuccessful, whatever the provider knows.
\<close>

theorem unsigned_callback_pays:
  assumes "fault_free e" and "\<And>s. pg_uuid L s \<Longrightarrow> parse_uuid L s" and "pay_reach L D (no_payments ms) (tabs w)"
    and "ph_lib H = L" and "\<not> callback_failed c"
    and "callback_payment L (param c ''razorpay_order_id'' ''orderId'') (param c ''razorpay_payment_id'' ''paymentId'') e w
      = (Inr (Inr p), w1)"
    and "param c ''razorpay_order_id'' ''orderId'' \<noteq> []"
    and "p \<in> set (payments (tabs w))" "pay_status p = ''PENDING''" "pay_txn p \<noteq> []" "finite_amount (pay_amount p)"
    and "\<And>n. uuid_at e n \<notin> ob_id ` set (pay_outbox (tabs w))"
  shows "\<exists>a w'. PaymentCallback H c e w = (Inr a, w') \<and>
    (\<exists>q \<in> set (payments (tabs w')). pay_id q = pay_id p \<and> pay_status q = ''SUCCESS'') \<and>
    has_event (pay_id p) ''PaymentSuccessful'' (tabs w')"
proof -
  let ?o = "param c ''razorpay_order_id'' ''orderId''" and ?i = "param c ''razorpay_payment_id'' ''paymentId''"
  have same: "tabs w1 = tabs w" using read_onlyD [OF callback_payment_read_only assms(6)] .
  have inv0: "pay_inv L (tabs w)" using pay_reach_good [OF assms(3) no_payments_inv assms(2)] by (simp add: good_def)
  then have ok: "payments_ok L (tabs w)" by (simp add: pay_inv_def)
  obtain q0 where "find (\<lambda>q. pay_id q = pay_id p) (payments (tabs w)) = Some q0"
    using assms(8) by (cases "find (\<lambda>q. pay_id q = pay_id p) (payments (tabs w))") (auto simp: find_None_iff)
  moreover from this have "q0 = p"
    using keyed_unique [of pay_id "payments (tabs w)" q0 p] ok assms(8) find_Some_in by (fastforce simp: payments_ok_def)
  ultimately have row: "find (\<lambda>q. pay_id q = pay_id p) (payments (tabs w1)) = Some p" using same by simp
  have uu: "pg_uuid L (pay_id p)" using ok assms(8) by (simp add: payments_ok_def)
  have step: "CanTransitionPayment (pay_status p) ''SUCCESS''" unfolding assms(9) by code_simp
  obtain q w2 where upd: "UpdatePaymentStatus L (pay_id p) ''SUCCESS'' ?i [] [] e w1 = (Inr q, w2)"
    using UpdatePaymentStatus_pays [OF assms(1,2) uu row assms(10) step assms(11), OF uu, of ?i] assms(12) same by auto
  then obtain target where mv: "status_moved target ''SUCCESS'' (tabs w1) (tabs w2)" "q \<in> set (payments (tabs w2))"
      "pay_id q = target" "pay_status q = ''SUCCESS''" "parse_uuid L (pay_id p) \<longrightarrow> target = pay_id p"
    by (rule UpdatePaymentStatus_run)
  have target: "target = pay_id p" using mv(5) assms(2) [OF uu] by simp
  have ev: "has_event (pay_id p) ''PaymentSuccessful'' (tabs w2)"
    using mv(1) row assms(9) unfolding target status_moved_def by (auto simp: event_name_def)
  have run: "PaymentCallback H c e w = (Inr \<lparr>ca_status = ''success'', ca_order = ?o, ca_payment = ?i,
      ca_signature = param c ''razorpay_signature'' ''signature''\<rparr>, w2)"
    using assms(4-7) upd
    by (simp add: PaymentCallback_def callback_update_def ignore_error_def Let_def bind_def seq_def ret_def attempt_def)
  show ?thesis
    by (intro exI conjI bexI [of _ q], rule run) (use mv(2,3,4) target ev in auto)
qed

text \<open>
  A stranger asks the endpoint for an order of 1 for the order \<open>o1\<close>, whose total is 25, and
  calls back with the provider's order identifier and nothing else.
\<close>

definition demo_config :: GatewayConfig where
  "demo_config = \<lparr>cfg_provider = ''mock'', cfg_api_key = [], cfg_key_id = ''rzp_live_1'', cfg_key_secret = ''s''\<rparr>"

definition demo_handler :: PaymentHandler where
  "demo_handler = \<lparr>ph_lib = svc_lib demo, paymentGW = gateway demo, gwConfig = demo_config, ph_int64 = (\<lambda>_. 0)\<rparr>"

definition demo_order_req :: orderReq where
  "demo_order_req = \<lparr>rq_order_id = ''o1'', rq_user_id = ''u2'', rq_amt = Fin 1, rq_cur = [], rq_pay_method = ''UPI'',
     rq_pay_method_alt = []\<rparr>"

definition demo_opened :: pay_tables where
  "demo_opened = tabs (snd (serve_payment demo demo_json demo_decoders
     (PCreateOrder demo_config (\<lambda>_. 0) demo_order_req) demo_env (demo_world (no_payments []))))"

definition demo_call :: http_params where
  "demo_call = \<lparr>form_value = (\<lambda>_. []), query_value = (\<lambda>k. if k = ''orderId'' then ''gtx_mock_id-1'' else [])\<rparr>"

lemma demo_opened_reach: "pay_reach demo_lib demo_decoders (no_payments []) demo_opened"
proof -
  have "pay_reach demo_lib demo_decoders (no_payments []) (tabs (demo_world (no_payments [])))"
    by (simp add: demo_world_def pay_reach.start)
  from pay_reach.serve [OF this demo_gateway demo_lib_simps(1) prod.collapse [symmetric]]
  show ?thesis unfolding demo_opened_def .
qed

lemma demo_opened_eval:
  "map (\<lambda>p. (pay_order p, pay_amount p, pay_status p, pay_txn p)) (payments demo_opened) =
     [(''o1'', Fin 1, ''PENDING'', ''tx_id-2'')]"
  "pay_outbox demo_opened = []"
  "fst (callback_payment demo_lib ''gtx_mock_id-1'' [] demo_env (demo_world demo_opened)) = Inr (Inr (hd (payments demo_opened)))"
  "param demo_call ''razorpay_order_id'' ''orderId'' = ''gtx_mock_id-1''"
  "param demo_call ''razorpay_payment_id'' ''paymentId'' = []" "\<not> callback_failed demo_call"
  by code_simp+

theorem unsigned_callback_pays_witness:
  "\<exists>a w'. PaymentCallback demo_handler demo_call demo_env (demo_world demo_opened) = (Inr a, w') \<and>
     (\<exists>q \<in> set (payments (tabs w')). pay_status q = ''SUCCESS'') \<and> ao_total demo_order = Fin 25 \<and>
     map pay_amount (payments demo_opened) = [Fin 1]"
proof -
  obtain p where p: "payments demo_opened = [p]" "pay_amount p = Fin 1" "pay_status p = ''PENDING''" "pay_txn p \<noteq> []"
    using demo_opened_eval(1) by (cases "payments demo_opened") auto
  have found: "callback_payment demo_lib (param demo_call ''razorpay_order_id'' ''orderId'')
      (param demo_call ''razorpay_payment_id'' ''paymentId'') demo_env (demo_world demo_opened) =
    (Inr (Inr p), snd (callback_payment demo_lib ''gtx_mock_id-1'' [] demo_env (demo_world demo_opened)))"
    using demo_opened_eval(3) p(1) by (simp only: demo_opened_eval(4,5) prod_eq_iff) simp
  have t: "tabs (demo_world demo_opened) = demo_opened" by (simp add: demo_world_def)
  have "\<exists>a w'. PaymentCallback demo_handler demo_call demo_env (demo_world demo_opened) = (Inr a, w') \<and>
    (\<exists>q \<in> set (payments (tabs w')). pay_id q = pay_id p \<and> pay_status q = ''SUCCESS'') \<and>
    has_event (pay_id p) ''PaymentSuccessful'' (tabs w')"
    by (rule unsigned_callback_pays [OF demo_fault_free _ _ _ demo_opened_eval(6) found])
      (use p demo_lib_simps demo_opened_reach demo_opened_eval(2,4) in
        \<open>simp_all add: t demo_handler_def finite_amount_def\<close>)
  then show ?thesis using p by (auto simp: demo_order_def)
qed

end
