(* ===== verification/Redis_Client.thy ===== *)
theory Redis_Client
  imports Db_Tx
begin

text \<open>
  The Redis client of the services (\<open>pkg/redis/redis.go\<close>). The server is a map from keys to
  a value and the time it expires; a command is one step that may fail, and a failed command
  has changed nothing. The package \<open>go-redis\<close> sends a duration as milliseconds: it rounds
  down, and a positive duration below one millisecond up to one. Durations and times are in
  nanoseconds. A client pointer that may be nil is a Boolean, true for a connected client.
\<close>

type_synonym redis = "string \<Rightarrow> (string \<times> int option) option"

type_synonym 'a redis_cmd = "(redis, 'a) db"

definition ErrNilClient :: go_error where
  "ErrNilClient = ErrorString ''redis client is not initialized''"

definition ErrKeyNotFound :: go_error where
  "ErrKeyNotFound = ErrorString ''key not found in redis''"

section \<open>The server\<close>

definition live :: "int \<Rightarrow> redis \<Rightarrow> string \<Rightarrow> string option" where
  "live now s k =
     (case s k of
        None \<Rightarrow> None
      | Some (v, x) \<Rightarrow> (case x of None \<Rightarrow> Some v | Some t \<Rightarrow> if now < t then Some v else None))"

definition expires :: "int \<Rightarrow> redis \<Rightarrow> string \<Rightarrow> int option" where
  "expires now s k = (if live now s k = None then None else case s k of None \<Rightarrow> None | Some (_, x) \<Rightarrow> x)"

definition millis :: "int \<Rightarrow> int" where
  "millis ttl = (if ttl < 1000000 then 1000000 else ttl div 1000000 * 1000000)"

text \<open>\<open>SET\<close> with a duration: none for zero, and the old expiry for \<open>KeepTTL\<close>, which is \<open>-1\<close>.\<close>

definition set_key :: "string \<Rightarrow> string \<Rightarrow> int \<Rightarrow> int \<Rightarrow> redis \<Rightarrow> redis" where
  "set_key k v ttl now s =
     s(k \<mapsto> (v, if 0 < ttl then Some (now + millis ttl) else if ttl = - 1 then expires now s k else None))"

definition command :: "bool \<Rightarrow> (int \<Rightarrow> redis \<Rightarrow> go_error + 'a \<times> redis) \<Rightarrow> 'a redis_cmd" where
  "command c f = seq (require c ErrNilClient) (bind time_now (\<lambda>now. pool_sql (f now)))"

text \<open>A value that counts: the decimal notation of an \<open>int64\<close>.\<close>

definition digit_val :: "char \<Rightarrow> int option" where
  "digit_val c = (let n = (of_char c :: nat) in if 48 \<le> n \<and> n \<le> 57 then Some (int n - 48) else None)"

fun digits_val :: "int \<Rightarrow> string \<Rightarrow> int option" where
  "digits_val n [] = Some n"
| "digits_val n (c # cs) = (case digit_val c of None \<Rightarrow> None | Some d \<Rightarrow> digits_val (10 * n + d) cs)"

definition counter_val :: "string \<Rightarrow> int option" where
  "counter_val s =
     (case (if s \<noteq> [] \<and> hd s = CHR ''-'' then map_option uminus (digits_val 0 (tl s)) else digits_val 0 s) of
        None \<Rightarrow> None
      | Some i \<Rightarrow> if itoa i = s \<and> int64 i then Some i else None)"

definition incr_key :: "string \<Rightarrow> int \<Rightarrow> redis \<Rightarrow> go_error + int \<times> redis" where
  "incr_key k now s =
     (case (case live now s k of None \<Rightarrow> Some 0 | Some v \<Rightarrow> counter_val v) of
        None \<Rightarrow> Inl (ErrorString ''ERR value is not an integer or out of range'')
      | Some i \<Rightarrow>
          if int64 (i + 1) then Inr (i + 1, s(k \<mapsto> (itoa (i + 1), expires now s k)))
          else Inl (ErrorString ''ERR increment or decrement would overflow''))"

section \<open>The client\<close>

definition Get :: "bool \<Rightarrow> string \<Rightarrow> string redis_cmd" where
  "Get c key =
     command c (\<lambda>now s. case live now s key of None \<Rightarrow> Inl ErrKeyNotFound | Some v \<Rightarrow> Inr (v, s))"

definition GetBytes :: "bool \<Rightarrow> string \<Rightarrow> string redis_cmd" where
  "GetBytes c key = Get c key"

definition Set :: "bool \<Rightarrow> string \<Rightarrow> string \<Rightarrow> int \<Rightarrow> unit redis_cmd" where
  "Set c key v ttl = command c (\<lambda>now s. Inr ((), set_key key v ttl now s))"

text \<open>\<open>json.Marshal\<close> and \<open>json.Unmarshal\<close> at the type of the value.\<close>

record 'v codec =
  marshal :: "'v \<Rightarrow> go_error + string"
  unmarshal :: "string \<Rightarrow> go_error + 'v"

definition SetJSON :: "bool \<Rightarrow> 'v codec \<Rightarrow> string \<Rightarrow> 'v \<Rightarrow> int \<Rightarrow> unit redis_cmd" where
  "SetJSON c J key v ttl =
     seq (require c ErrNilClient)
     (bind (on_error (call (marshal J v)) (WrapError ''failed to marshal value to json: '')) (\<lambda>data.
      Set c key data ttl))"

definition GetJSON :: "bool \<Rightarrow> 'v codec \<Rightarrow> string \<Rightarrow> 'v redis_cmd" where
  "GetJSON c J key =
     bind (GetBytes c key) (\<lambda>data.
     on_error (call (unmarshal J data)) (WrapError ''failed to unmarshal json from redis: ''))"

definition Delete :: "bool \<Rightarrow> string list \<Rightarrow> unit redis_cmd" where
  "Delete c keys =
     seq (require c ErrNilClient)
     (if keys = [] then ret () else command c (\<lambda>now s. Inr ((), \<lambda>k. if k \<in> set keys then None else s k)))"

definition Exists :: "bool \<Rightarrow> string list \<Rightarrow> bool redis_cmd" where
  "Exists c keys =
     seq (require c ErrNilClient)
     (if keys = [] then ret False
      else command c (\<lambda>now s. Inr (list_ex (\<lambda>k. live now s k \<noteq> None) keys, s)))"

definition SetNX :: "bool \<Rightarrow> string \<Rightarrow> string \<Rightarrow> int \<Rightarrow> bool redis_cmd" where
  "SetNX c key v ttl =
     command c (\<lambda>now s.
       if ttl < - 1 then Inl (ErrorString ''ERR invalid expire time'')
       else if live now s key \<noteq> None then Inr (False, s)
       else Inr (True, set_key key v ttl now s))"

definition Incr :: "bool \<Rightarrow> string \<Rightarrow> int redis_cmd" where
  "Incr c key = command c (incr_key key)"

text \<open>The script of \<open>IncrWithExpiry\<close>: the first increment starts the window; \<open>PEXPIRE\<close> of no time deletes.\<close>

definition start_window :: "string \<Rightarrow> int \<Rightarrow> int \<Rightarrow> redis \<Rightarrow> redis" where
  "start_window k ttl now s =
     (if ttl < 1000000 then s(k := None)
      else s(k := map_option (\<lambda>(v, _). (v, Some (now + ttl div 1000000 * 1000000))) (s k)))"

definition IncrWithExpiry :: "bool \<Rightarrow> string \<Rightarrow> int \<Rightarrow> int redis_cmd" where
  "IncrWithExpiry c key ttl =
     command c (\<lambda>now s.
       case incr_key key now s of
         Inl er \<Rightarrow> Inl er
       | Inr (n, s1) \<Rightarrow> Inr (n, if n = 1 then start_window key ttl now s1 else s1))"

definition ReleaseLock :: "bool \<Rightarrow> string \<Rightarrow> string \<Rightarrow> bool redis_cmd" where
  "ReleaseLock c key lockValue =
     command c (\<lambda>now s. if live now s key = Some lockValue then Inr (True, s(key := None)) else Inr (False, s))"

end
