(* ===== verification/Cart_Repo.thy ===== *)
theory Cart_Repo
  imports Redis_Client Go_Amounts
begin

text \<open>
  The cart repository (\<open>services/cart-service/internal/repository/cart_repository.go\<close>) and
  its data model (\<open>internal/model/cart.go\<close>): every method, statement by statement, with the
  constraints of the migrations, and the cache of carts in Redis. Redis lies beside the
  tables in one state; no command is sent to it inside a transaction. Whether a string is a
  UUID, the values of a column \<open>DECIMAL(12,2)\<close> and the JSON notation of a cart are
  parameters. An error while rows are read is an error of the query.
\<close>

section \<open>Data\<close>

record CartItem =
  it_id :: string
  it_cart :: string
  it_product :: string
  it_variant :: "string option"
  it_store :: "string option"
  it_quantity :: int
  it_price :: f64
  it_created :: int
  it_updated :: int

record Cart =
  cart_id :: string
  cart_user :: string
  cart_items :: "CartItem list"
  cart_total :: f64
  cart_created :: int
  cart_updated :: int

text \<open>The sum of \<open>float64(item.Quantity) * item.UnitPrice\<close>.\<close>

definition lines_total :: "CartItem list \<Rightarrow> f64" where
  "lines_total its = foldl (\<lambda>s it. fadd s (fmul (fint (it_quantity it)) (it_price it))) fzero its"

definition CalculateTotal :: "Cart \<Rightarrow> Cart" where
  "CalculateTotal c = c\<lparr>cart_total := round2 (lines_total (cart_items c))\<rparr>"

text \<open>A row of the table \<open>carts\<close>, and the state.\<close>

record cart_row =
  cr_id :: string
  cr_user :: string
  cr_created :: int
  cr_updated :: int

record cart_tables =
  cart_rows :: "cart_row list"
  item_rows :: "CartItem list"
  cart_redis :: redis

record cart_lib =
  cl_db :: bool
  cl_redis :: bool
  cl_uuid :: "string \<Rightarrow> bool"
  cl_decimal :: "f64 \<Rightarrow> f64 option"
  cl_json :: "Cart codec"

type_synonym 'a cart_db = "(cart_tables, 'a) db"

definition ErrCartNotFound :: go_error where
  "ErrCartNotFound = ErrorString ''cart not found''"

definition ErrItemNotFound :: go_error where
  "ErrItemNotFound = ErrorString ''item not found in cart''"

section \<open>Statements\<close>

text \<open>A pointer to a string that is empty or the zero UUID counts as none.\<close>

definition given_uuid :: "string option \<Rightarrow> string option" where
  "given_uuid v = (case v of None \<Rightarrow> None | Some s \<Rightarrow> if s = [] \<or> s = nil_uuid then None else Some s)"

definition pool_ready :: "cart_lib \<Rightarrow> unit cart_db" where
  "pool_ready L = require (cl_db L) (ErrorString ''database pool is not initialized'')"

text \<open>The arguments of a statement that are compared with or stored in columns of type \<open>UUID\<close>.\<close>

definition with_uuids ::
  "cart_lib \<Rightarrow> string list \<Rightarrow> (cart_tables \<Rightarrow> go_error + 'a \<times> cart_tables) \<Rightarrow> cart_tables \<Rightarrow> go_error + 'a \<times> cart_tables" where
  "with_uuids L is f t = (if list_all (cl_uuid L) is then f t else Inl (PgError ''22P02'' []))"

definition same_line :: "string \<Rightarrow> string \<Rightarrow> string option \<Rightarrow> CartItem \<Rightarrow> bool" where
  "same_line cartID productID variantID it \<longleftrightarrow>
     it_cart it = cartID \<and> it_product it = productID \<and> it_variant it = variantID"

definition list_of :: "'a option \<Rightarrow> 'a list" where
  "list_of v = (case v of None \<Rightarrow> [] | Some x \<Rightarrow> [x])"

definition insert_cart :: "string \<Rightarrow> int \<Rightarrow> string \<Rightarrow> cart_tables \<Rightarrow> go_error + cart_row \<times> cart_tables" where
  "insert_cart i now userID t =
     (case find (\<lambda>r. cr_user r = userID) (cart_rows t) of
        Some r \<Rightarrow>
          Inr (r\<lparr>cr_updated := now\<rparr>,
            t\<lparr>cart_rows := upd_where (\<lambda>r. cr_user r = userID) (\<lambda>r. r\<lparr>cr_updated := now\<rparr>) (cart_rows t)\<rparr>)
      | None \<Rightarrow>
          if i \<in> cr_id ` set (cart_rows t) then Inl (PgError ''23505'' ''carts_pkey'')
          else let r = \<lparr>cr_id = i, cr_user = userID, cr_created = now, cr_updated = now\<rparr> in
            Inr (r, t\<lparr>cart_rows := cart_rows t @ [r]\<rparr>))"

text \<open>PostgreSQL orders NaN above every number.\<close>

definition price_ok :: "f64 \<Rightarrow> bool" where
  "price_ok a \<longleftrightarrow> a = NaN \<or> fle fzero a"

definition check_item :: "int \<Rightarrow> f64 \<Rightarrow> go_error option" where
  "check_item q a =
     (if \<not> int4 q then Some (PgError ''22003'' [])
      else if q \<le> 0 then Some (PgError ''23514'' ''cart_items_quantity_check'')
      else if \<not> price_ok a then Some (PgError ''23514'' ''cart_items_unit_price_check'')
      else None)"

definition insert_cart_item :: "cart_lib \<Rightarrow> CartItem \<Rightarrow> cart_tables \<Rightarrow> go_error + unit \<times> cart_tables" where
  "insert_cart_item L it t =
     (case cl_decimal L (it_price it) of
        None \<Rightarrow> Inl (PgError ''22003'' [])
      | Some a \<Rightarrow>
          (case check_item (it_quantity it) a of
             Some er \<Rightarrow> Inl er
           | None \<Rightarrow>
               if it_id it \<in> it_id ` set (item_rows t) then Inl (PgError ''23505'' ''cart_items_pkey'')
               else if list_ex (same_line (it_cart it) (it_product it) (it_variant it)) (item_rows t)
               then Inl (PgError ''23505'' ''idx_cart_items_unique_variant'')
               else if it_cart it \<notin> cr_id ` set (cart_rows t)
               then Inl (PgError ''23503'' ''cart_items_cart_id_fkey'')
               else Inr ((), t\<lparr>item_rows := item_rows t @ [it\<lparr>it_price := a\<rparr>]\<rparr>)))"

definition reprice_item :: "cart_lib \<Rightarrow> string \<Rightarrow> int \<Rightarrow> f64 \<Rightarrow> int \<Rightarrow> cart_tables \<Rightarrow> go_error + unit \<times> cart_tables" where
  "reprice_item L i q price now t =
     (case cl_decimal L price of
        None \<Rightarrow> Inl (PgError ''22003'' [])
      | Some a \<Rightarrow>
          (case (if list_ex (\<lambda>it. it_id it = i) (item_rows t) then check_item q a else None) of
             Some er \<Rightarrow> Inl er
           | None \<Rightarrow>
               Inr ((), t\<lparr>item_rows := upd_where (\<lambda>it. it_id it = i)
                 (\<lambda>it. it\<lparr>it_quantity := q, it_price := a, it_updated := now\<rparr>) (item_rows t)\<rparr>)))"

definition set_quantity ::
  "string \<Rightarrow> string \<Rightarrow> string option \<Rightarrow> int \<Rightarrow> int \<Rightarrow> cart_tables \<Rightarrow> go_error + nat \<times> cart_tables" where
  "set_quantity cartID productID variantID q now t =
     (let c = same_line cartID productID variantID; n = length (filter c (item_rows t)) in
      if \<not> int4 q then Inl (PgError ''22003'' [])
      else if 0 < n \<and> q \<le> 0 then Inl (PgError ''23514'' ''cart_items_quantity_check'')
      else Inr (n, t\<lparr>item_rows := upd_where c (\<lambda>it. it\<lparr>it_quantity := q, it_updated := now\<rparr>) (item_rows t)\<rparr>))"

definition delete_items :: "(CartItem \<Rightarrow> bool) \<Rightarrow> cart_tables \<Rightarrow> go_error + nat \<times> cart_tables" where
  "delete_items c t =
     Inr (length (filter c (item_rows t)), t\<lparr>item_rows := filter (\<lambda>it. \<not> c it) (item_rows t)\<rparr>)"

definition touch_cart :: "string \<Rightarrow> int \<Rightarrow> cart_tables \<Rightarrow> go_error + unit \<times> cart_tables" where
  "touch_cart cartID now t =
     Inr ((), t\<lparr>cart_rows := upd_where (\<lambda>r. cr_id r = cartID) (\<lambda>r. r\<lparr>cr_updated := now\<rparr>) (cart_rows t)\<rparr>)"

section \<open>Methods\<close>

definition cart_of :: "cart_row \<Rightarrow> CartItem list \<Rightarrow> Cart" where
  "cart_of r its =
     CalculateTotal \<lparr>cart_id = cr_id r, cart_user = cr_user r, cart_items = its, cart_total = fzero,
       cart_created = cr_created r, cart_updated = cr_updated r\<rparr>"

definition items_in :: "string \<Rightarrow> cart_tables \<Rightarrow> CartItem list" where
  "items_in cartID t = sort_key it_created (filter (\<lambda>it. it_cart it = cartID) (item_rows t))"

definition GetCartByUserID :: "cart_lib \<Rightarrow> string \<Rightarrow> Cart cart_db" where
  "GetCartByUserID L userID =
     seq (pool_ready L)
     (bind (on_error
              (pool_sql (with_uuids L [userID] (select (\<lambda>t. find (\<lambda>r. cr_user r = userID) (cart_rows t)))))
              (WrapError ''failed to query cart: '')) (\<lambda>found.
      case found of
        None \<Rightarrow> raise ErrCartNotFound
      | Some r \<Rightarrow>
          bind (on_error (pool_sql (with_uuids L [cr_id r] (select (items_in (cr_id r)))))
                 (WrapError ''failed to query cart items: '')) (\<lambda>its.
          ret (cart_of r its))))"

definition CreateCart :: "cart_lib \<Rightarrow> string \<Rightarrow> Cart cart_db" where
  "CreateCart L userID =
     seq (pool_ready L)
     (bind time_now (\<lambda>now.
      bind new_uuid (\<lambda>i.
      bind (on_error (pool_sql (with_uuids L [userID] (insert_cart i now userID)))
             (WrapError ''failed to create cart: '')) (\<lambda>r.
      ret (cart_of r [])))))"

text \<open>The cart is read again after a change; the error of the lookup of its owner is ignored.\<close>

definition reload :: "cart_lib \<Rightarrow> string \<Rightarrow> Cart cart_db" where
  "reload L cartID =
     bind (attempt (pool_sql (with_uuids L [cartID]
            (select (\<lambda>t. find (\<lambda>r. cr_id r = cartID) (cart_rows t)))))) (\<lambda>r.
     GetCartByUserID L (case r of Inr (Some row) \<Rightarrow> cr_user row | _ \<Rightarrow> []))"

definition add_line :: "cart_lib \<Rightarrow> string \<Rightarrow> CartItem \<Rightarrow> unit tx_end cart_db" where
  "add_line L cartID item =
     bind time_now (\<lambda>now.
     bind (ret (item\<lparr>it_variant := given_uuid (it_variant item), it_store := given_uuid (it_store item)\<rparr>)) (\<lambda>it.
     bind (attempt (sql (with_uuids L ([cartID, it_product it] @ list_of (it_variant it))
            (select (\<lambda>t. find (same_line cartID (it_product it) (it_variant it)) (item_rows t)))))) (\<lambda>found.
     seq (case found of
            Inr (Some old) \<Rightarrow>
              on_error (sql (reprice_item L (it_id old) (to_int32 (it_quantity old + it_quantity it)) (it_price it) now))
                (WrapError ''failed to update cart item quantity: '')
          | Inr None \<Rightarrow>
              bind new_uuid (\<lambda>i.
              on_error (sql (with_uuids L (list_of (it_store it))
                  (insert_cart_item L (it\<lparr>it_id := i, it_cart := cartID, it_created := now, it_updated := now\<rparr>))))
                (WrapError ''failed to insert cart item: ''))
          | Inl er \<Rightarrow> raise (WrapError ''failed to check existing cart item: '' er))
     (seq (ignore_error (sql (touch_cart cartID now)))
      (ret (Commit ()))))))"

definition AddOrUpdateItem :: "cart_lib \<Rightarrow> string \<Rightarrow> CartItem \<Rightarrow> Cart cart_db" where
  "AddOrUpdateItem L cartID item =
     seq (pool_ready L)
     (seq (with_tx (WrapError ''failed to begin transaction: '') (WrapError ''failed to commit transaction: '')
            (add_line L cartID item))
      (reload L cartID))"

text \<open>What follows a statement on the lines of a cart: the count of its rows, the time, the cart.\<close>

definition after_change :: "cart_lib \<Rightarrow> string \<Rightarrow> nat \<Rightarrow> Cart cart_db" where
  "after_change L cartID n =
     seq (require (n \<noteq> 0) ErrItemNotFound)
     (bind time_now (\<lambda>now.
      seq (ignore_error (pool_sql (with_uuids L [cartID] (touch_cart cartID now))))
      (reload L cartID)))"

definition UpdateItemQuantity :: "cart_lib \<Rightarrow> string \<Rightarrow> string \<Rightarrow> string option \<Rightarrow> int \<Rightarrow> Cart cart_db" where
  "UpdateItemQuantity L cartID productID variantID quantity =
     seq (pool_ready L)
     (bind time_now (\<lambda>now.
      bind (on_error
              (pool_sql (with_uuids L ([cartID, productID] @ list_of (given_uuid variantID))
                 (set_quantity cartID productID (given_uuid variantID) quantity now)))
              (WrapError ''failed to update item quantity: '')) (\<lambda>n.
      after_change L cartID n)))"

definition RemoveItem :: "cart_lib \<Rightarrow> string \<Rightarrow> string \<Rightarrow> string option \<Rightarrow> Cart cart_db" where
  "RemoveItem L cartID productID variantID =
     seq (pool_ready L)
     (bind (on_error
              (pool_sql (with_uuids L ([cartID, productID] @ list_of (given_uuid variantID))
                 (delete_items (same_line cartID productID (given_uuid variantID)))))
              (WrapError ''failed to remove cart item: '')) (\<lambda>n.
      after_change L cartID n))"

definition ClearCart :: "cart_lib \<Rightarrow> string \<Rightarrow> unit cart_db" where
  "ClearCart L cartID =
     seq (pool_ready L)
     (seq (on_error (pool_sql (with_uuids L [cartID] (delete_items (\<lambda>it. it_cart it = cartID))))
             (WrapError ''failed to clear cart items: ''))
     (bind time_now (\<lambda>now.
      ignore_error (pool_sql (with_uuids L [cartID] (touch_cart cartID now))))))"

section \<open>The cache\<close>

definition on_redis :: "'a redis_cmd \<Rightarrow> 'a cart_db" where
  "on_redis m = zoom cart_redis (\<lambda>s t. t\<lparr>cart_redis := s\<rparr>) m"

definition cache_key :: "string \<Rightarrow> string" where
  "cache_key userID = ''cart:'' @ userID"

definition GetCartFromCache :: "cart_lib \<Rightarrow> string \<Rightarrow> Cart option cart_db" where
  "GetCartFromCache L userID =
     (if \<not> cl_redis L then ret None
      else bind (attempt (on_redis (GetJSON True (cl_json L) (cache_key userID)))) (\<lambda>r.
           ret (case r of Inl er \<Rightarrow> None | Inr c \<Rightarrow> Some c)))"

text \<open>\<open>cart.UpdatedAt\<close> is changed through the pointer: the result is the cart the caller has afterwards.\<close>

definition SetCartInCache :: "cart_lib \<Rightarrow> Cart \<Rightarrow> int \<Rightarrow> Cart cart_db" where
  "SetCartInCache L cart ttl =
     (if \<not> cl_redis L then ret cart
      else bind time_now (\<lambda>now.
           bind (ret (cart\<lparr>cart_updated := now\<rparr>)) (\<lambda>c.
           seq (ignore_error (on_redis (SetJSON True (cl_json L) (cache_key (cart_user c)) c ttl)))
               (ret c))))"

definition DeleteCartFromCache :: "cart_lib \<Rightarrow> string \<Rightarrow> unit cart_db" where
  "DeleteCartFromCache L userID =
     (if \<not> cl_redis L then ret () else ignore_error (on_redis (Delete True [cache_key userID])))"

end
