(* ===== verification/Cart_Service.thy ===== *)
theory Cart_Service
  imports Cart_Repo Order_Checkout
begin

text \<open>
  The cart service (\<open>services/cart-service/internal/service/cart_service.go\<close>) with its requests and
  responses (\<open>internal/dto/cart_dto.go\<close>). The clients of products and stock
  (\<open>internal/client/clients.go\<close>) are parameters, which may be missing. The order in which Go
  iterates over the map of stores is a parameter.
\<close>

record ProductVariantPb =
  pv_id :: string
  pv_price :: f64

text \<open>The message \<open>Product\<close> as the order service reads it, with the variants the cart reads too.\<close>

record VariantProductPb = ProductPb +
  pb_variants :: "ProductVariantPb list"

record cart_svc =
  cs_lib :: cart_lib
  cs_grpc :: grpc_lib
  cs_ttl :: int
  cs_product :: "(string \<Rightarrow> go_error + VariantProductPb option) option"
  cs_stock :: "(string \<Rightarrow> go_error + int option) option"
  cs_map_order :: "string list \<Rightarrow> string list"
  cs_rfc3339 :: "int \<Rightarrow> string"

text \<open>The field \<open>ttl\<close> the constructor sets.\<close>

definition cart_ttl :: "int \<Rightarrow> int" where
  "cart_ttl ttlSeconds = (if ttlSeconds \<le> 0 then 604800 else ttlSeconds) * 1000000000"

section \<open>Requests and responses\<close>

record AddCartItemRequest =
  ac_user :: string
  ac_product :: string
  ac_variant :: "string option"
  ac_store :: "string option"
  ac_price :: f64
  ac_quantity :: int

record UpdateCartItemRequest =
  uc_user :: string
  uc_product :: string
  uc_variant :: "string option"
  uc_quantity :: int

record RemoveCartItemRequest =
  rc_user :: string
  rc_product :: string
  rc_variant :: "string option"

record ValidationError =
  ve_product :: string
  ve_message :: string
  ve_code :: int

record StoreOrderGroup =
  sg_store :: string
  sg_items :: "CartItem list"
  sg_subtotal :: f64

record ValidateCartResponse =
  vr_valid :: bool
  vr_cart :: Cart
  vr_errors :: "ValidationError list"
  vr_groups :: "StoreOrderGroup list"

record PrepareCheckoutRequest =
  pq_user :: string
  pq_address :: string

record StoreOrderPayload =
  so_parent :: string
  so_store :: string
  so_user :: string
  so_items :: "CartItem list"
  so_subtotal :: f64
  so_total :: f64
  so_address :: string

record PrepareCheckoutResponse =
  pr_valid :: bool
  pr_parent :: string
  pr_orders :: "StoreOrderPayload list"
  pr_errors :: "ValidationError list"

definition ErrCodeEmptyCart :: int where "ErrCodeEmptyCart = 400"
definition ErrCodeProductNotFound :: int where "ErrCodeProductNotFound = 404"
definition ErrCodeOutOfStock :: int where "ErrCodeOutOfStock = 409"
definition ErrCodeProductInactive :: int where "ErrCodeProductInactive = 422"

section \<open>The cart of a user\<close>

text \<open>A missing cart is created.\<close>

definition load_cart :: "cart_svc \<Rightarrow> string \<Rightarrow> string \<Rightarrow> string \<Rightarrow> Cart cart_db" where
  "load_cart S userID create_msg get_msg =
     bind (attempt (GetCartByUserID (cs_lib S) userID)) (\<lambda>r.
     case r of
       Inr cart \<Rightarrow> ret cart
     | Inl er \<Rightarrow>
         if errors_Is er ErrCartNotFound then on_error (CreateCart (cs_lib S) userID) (wrap create_msg)
         else raise (Internal (Some er) get_msg))"

definition GetCart :: "cart_svc \<Rightarrow> string \<Rightarrow> Cart cart_db" where
  "GetCart S userID =
     seq (require (userID \<noteq> []) (BadRequest ''user_id is required''))
     (bind (GetCartFromCache (cs_lib S) userID) (\<lambda>cached.
      case cached of
        Some cart \<Rightarrow> ret cart
      | None \<Rightarrow>
          bind (load_cart S userID ''failed to create cart for user'' ''failed to get cart'') (\<lambda>cart.
          SetCartInCache (cs_lib S) cart (cs_ttl S))))"

text \<open>The first variant with this identifier.\<close>

definition find_variant :: "VariantProductPb \<Rightarrow> string \<Rightarrow> ProductVariantPb option" where
  "find_variant pr i = find (\<lambda>v. pv_id v = i) (pb_variants pr)"

definition variant_price :: "VariantProductPb \<Rightarrow> ProductVariantPb \<Rightarrow> f64" where
  "variant_price pr v = (if flt fzero (pv_price v) then pv_price v else pb_price pr)"

definition status_is :: "grpc_lib \<Rightarrow> go_error \<Rightarrow> grpc_code \<Rightarrow> bool" where
  "status_is G er c = (case from_error G er of Some (code, _) \<Rightarrow> code = c | None \<Rightarrow> False)"

definition product_for :: "cart_svc \<Rightarrow> string \<Rightarrow> go_error + VariantProductPb" where
  "product_for S productID =
     (case cs_product S of
        None \<Rightarrow> Inl (ServiceUnavailable ''product service unavailable'')
      | Some get \<Rightarrow>
          (case get productID of
             Inl er \<Rightarrow>
               if status_is (cs_grpc S) er GNotFound then Inl (NotFound ''product not found'')
               else if status_is (cs_grpc S) er GUnavailable
               then Inl (ServiceUnavailable ''product service unavailable'')
               else Inl (Internal (Some er) ''failed to fetch product from product service'')
           | Inr None \<Rightarrow> Inl (NotFound ''product not found'')
           | Inr (Some pr) \<Rightarrow> Inr pr))"

definition price_for :: "VariantProductPb \<Rightarrow> string option \<Rightarrow> go_error + f64" where
  "price_for pr variantID =
     (case variantID of
        None \<Rightarrow> Inr (pb_price pr)
      | Some i \<Rightarrow>
          (case find_variant pr i of
             None \<Rightarrow> Inl (NotFound ''product variant not found'')
           | Some v \<Rightarrow> Inr (variant_price pr v)))"

definition AddCartItem :: "cart_svc \<Rightarrow> AddCartItemRequest \<Rightarrow> Cart cart_db" where
  "AddCartItem S req =
     seq (require (ac_user req \<noteq> []) (BadRequest ''user_id is required''))
     (seq (require (ac_product req \<noteq> []) (BadRequest ''product_id is required''))
     (seq (require (0 < ac_quantity req) (BadRequest ''quantity must be greater than zero''))
     (bind (load_cart S (ac_user req) ''failed to create cart'' ''failed to retrieve cart'') (\<lambda>cart.
      bind (call (product_for S (ac_product req))) (\<lambda>pr.
      bind (call (price_for pr (given_uuid (ac_variant req)))) (\<lambda>unitPrice.
      bind (on_error
              (AddOrUpdateItem (cs_lib S) (cart_id cart)
                 \<lparr>it_id = [], it_cart = cart_id cart, it_product = ac_product req,
                  it_variant = given_uuid (ac_variant req),
                  it_store = (if given_uuid (ac_store req) = None \<and> pb_store pr \<noteq> [] then Some (pb_store pr)
                              else given_uuid (ac_store req)),
                  it_quantity = ac_quantity req, it_price = unitPrice, it_created = 0, it_updated = 0\<rparr>)
              (wrap ''failed to add item to cart'')) (\<lambda>updated.
      SetCartInCache (cs_lib S) updated (cs_ttl S))))))))"

text \<open>The cart of an existing user, and the errors of a change to its items.\<close>

definition existing_cart :: "cart_svc \<Rightarrow> string \<Rightarrow> Cart cart_db" where
  "existing_cart S userID =
     on_error (GetCartByUserID (cs_lib S) userID)
       (\<lambda>er. if errors_Is er ErrCartNotFound then NotFound ''cart not found for user''
             else Internal (Some er) ''failed to retrieve cart'')"

definition item_error :: "string \<Rightarrow> go_error \<Rightarrow> go_error" where
  "item_error msg er =
     (if errors_Is er ErrItemNotFound then NotFound ''item not found in cart'' else Internal (Some er) msg)"

definition UpdateCartItem :: "cart_svc \<Rightarrow> UpdateCartItemRequest \<Rightarrow> Cart cart_db" where
  "UpdateCartItem S req =
     seq (require (uc_user req \<noteq> []) (BadRequest ''user_id is required''))
     (seq (require (uc_product req \<noteq> []) (BadRequest ''product_id is required''))
     (seq (require (0 < uc_quantity req) (BadRequest ''quantity must be greater than zero''))
     (bind (existing_cart S (uc_user req)) (\<lambda>cart.
      bind (on_error
              (UpdateItemQuantity (cs_lib S) (cart_id cart) (uc_product req) (given_uuid (uc_variant req)) (uc_quantity req))
              (item_error ''failed to update item quantity'')) (\<lambda>updated.
      SetCartInCache (cs_lib S) updated (cs_ttl S))))))"

definition RemoveCartItem :: "cart_svc \<Rightarrow> RemoveCartItemRequest \<Rightarrow> Cart cart_db" where
  "RemoveCartItem S req =
     seq (require (rc_user req \<noteq> []) (BadRequest ''user_id is required''))
     (seq (require (rc_product req \<noteq> []) (BadRequest ''product_id is required''))
     (bind (existing_cart S (rc_user req)) (\<lambda>cart.
      bind (on_error
              (RemoveItem (cs_lib S) (cart_id cart) (rc_product req) (given_uuid (rc_variant req)))
              (item_error ''failed to remove item from cart'')) (\<lambda>updated.
      if cart_items updated = [] then seq (DeleteCartFromCache (cs_lib S) (rc_user req)) (ret updated)
      else SetCartInCache (cs_lib S) updated (cs_ttl S)))))"

text \<open>The zero value of \<open>time.Time\<close> is the time 0 here.\<close>

definition ClearCart_svc :: "cart_svc \<Rightarrow> string \<Rightarrow> Cart cart_db" where
  "ClearCart_svc S userID =
     seq (require (userID \<noteq> []) (BadRequest ''user_id is required''))
     (bind (attempt (GetCartByUserID (cs_lib S) userID)) (\<lambda>r.
      case r of
        Inl er \<Rightarrow>
          if errors_Is er ErrCartNotFound then
            seq (DeleteCartFromCache (cs_lib S) userID)
              (ret \<lparr>cart_id = [], cart_user = userID, cart_items = [], cart_total = fzero,
                    cart_created = 0, cart_updated = 0\<rparr>)
          else raise (Internal (Some er) ''failed to retrieve cart'')
      | Inr cart \<Rightarrow>
          seq (on_error (ClearCart (cs_lib S) (cart_id cart)) (wrap ''failed to clear cart items''))
          (bind time_now (\<lambda>now.
           seq (DeleteCartFromCache (cs_lib S) userID)
             (ret ((CalculateTotal (cart\<lparr>cart_items := []\<rparr>))\<lparr>cart_updated := now\<rparr>))))))"

section \<open>Validation and checkout\<close>

text \<open>The state of one round of the loop: whether it stays valid, the item, its errors.\<close>

type_synonym checked = "bool \<times> CartItem \<times> ValidationError list"

definition reject :: "CartItem \<Rightarrow> string \<Rightarrow> int \<Rightarrow> checked" where
  "reject it msg code = (False, it, [\<lparr>ve_product = it_product it, ve_message = msg, ve_code = code\<rparr>])"

definition priced_line :: "VariantProductPb \<Rightarrow> CartItem \<Rightarrow> checked" where
  "priced_line pr it =
     (let (ok, _, errs) =
        (case it_variant it of
           None \<Rightarrow> (True, it, [])
         | Some i \<Rightarrow>
             if find_variant pr i = None then reject it ''product variant not found'' ErrCodeProductNotFound
             else (True, it, []));
        price = (case it_variant it of
                   None \<Rightarrow> pb_price pr
                 | Some i \<Rightarrow> (case find_variant pr i of None \<Rightarrow> pb_price pr | Some v \<Rightarrow> variant_price pr v));
        store = (if (it_store it = None \<or> it_store it = Some []) \<and> pb_store pr \<noteq> [] then Some (pb_store pr)
                 else it_store it) in
      (ok, it\<lparr>it_price := price, it_store := store\<rparr>, errs))"

definition check_line_product :: "cart_svc \<Rightarrow> CartItem \<Rightarrow> go_error + checked" where
  "check_line_product S it =
     (case cs_product S of
        None \<Rightarrow> Inl (ServiceUnavailable ''product service unavailable'')
      | Some get \<Rightarrow>
          (case get (it_product it) of
             Inl er \<Rightarrow>
               if status_is (cs_grpc S) er GNotFound
               then Inr (reject it ''product not found'' ErrCodeProductNotFound)
               else if status_is (cs_grpc S) er GUnavailable
               then Inl (ServiceUnavailable ''product service unavailable'')
               else Inl (Internal (Some er) (''failed to fetch product '' @ it_product it @ '' from product service''))
           | Inr None \<Rightarrow> Inr (reject it ''product not found'' ErrCodeProductNotFound)
           | Inr (Some pr) \<Rightarrow>
               if ToUpper (TrimSpace (pb_status pr)) \<notin> {''PUBLISHED'', ''IN_STOCK''}
               then Inr (reject it (''product is not published (status: '' @ pb_status pr @ '')'') ErrCodeProductInactive)
               else Inr (priced_line pr it)))"

definition check_line_stock :: "cart_svc \<Rightarrow> CartItem \<Rightarrow> go_error + bool \<times> ValidationError list" where
  "check_line_stock S it =
     (case cs_stock S of
        None \<Rightarrow> Inr (True, [])
      | Some get \<Rightarrow>
          (case get (it_product it) of
             Inl er \<Rightarrow>
               if status_is (cs_grpc S) er GNotFound
               then Inr (False, [\<lparr>ve_product = it_product it, ve_message = ''out of stock'', ve_code = ErrCodeOutOfStock\<rparr>])
               else Inl (Internal (Some er)
                      (''failed to fetch stock for product '' @ it_product it @ '' from inventory service''))
           | Inr stock \<Rightarrow>
               if stock = None \<or> the stock < it_quantity it
               then Inr (False, [\<lparr>ve_product = it_product it,
                      ve_message = ''insufficient stock: available '' @ itoa (case stock of None \<Rightarrow> 0 | Some n \<Rightarrow> n) @
                        '', requested '' @ itoa (it_quantity it), ve_code = ErrCodeOutOfStock\<rparr>])
               else Inr (True, [])))"

fun validate_items :: "cart_svc \<Rightarrow> CartItem list \<Rightarrow> go_error + bool \<times> CartItem list \<times> ValidationError list" where
  "validate_items S [] = Inr (True, [], [])"
| "validate_items S (it # its) =
     (case check_line_product S it of
        Inl er \<Rightarrow> Inl er
      | Inr (ok, it1, errs) \<Rightarrow>
          (case check_line_stock S it1 of
             Inl er \<Rightarrow> Inl er
           | Inr (ok1, errs1) \<Rightarrow>
               (case validate_items S its of
                  Inl er \<Rightarrow> Inl er
                | Inr (ok2, its2, errs2) \<Rightarrow> Inr (ok \<and> ok1 \<and> ok2, it1 # its2, errs @ errs1 @ errs2))))"

definition group_store :: "CartItem \<Rightarrow> string" where
  "group_store it = (case it_store it of None \<Rightarrow> ''default'' | Some s \<Rightarrow> if s = [] then ''default'' else s)"

definition store_group :: "CartItem list \<Rightarrow> string \<Rightarrow> StoreOrderGroup" where
  "store_group its s =
     (let gs = filter (\<lambda>it. group_store it = s) its in
      \<lparr>sg_store = s, sg_items = gs, sg_subtotal = lines_total gs\<rparr>)"

definition ValidateCart :: "cart_svc \<Rightarrow> string \<Rightarrow> ValidateCartResponse cart_db" where
  "ValidateCart S userID =
     seq (require (userID \<noteq> []) (BadRequest ''user_id is required''))
     (bind (GetCart S userID) (\<lambda>cart.
      if cart_items cart = [] then
        ret \<lparr>vr_valid = False, vr_cart = cart,
             vr_errors = [\<lparr>ve_product = [], ve_message = ''cart is empty'', ve_code = ErrCodeEmptyCart\<rparr>], vr_groups = []\<rparr>
      else
        bind (call (validate_items S (cart_items cart))) (\<lambda>(ok, its, errs).
        ret \<lparr>vr_valid = ok, vr_cart = CalculateTotal (cart\<lparr>cart_items := its\<rparr>), vr_errors = errs,
             vr_groups = map (store_group its) (cs_map_order S (remdups (map group_store its)))\<rparr>)))"

definition order_payload :: "string \<Rightarrow> PrepareCheckoutRequest \<Rightarrow> StoreOrderGroup \<Rightarrow> StoreOrderPayload" where
  "order_payload parent req g =
     \<lparr>so_parent = parent, so_store = sg_store g, so_user = pq_user req, so_items = sg_items g,
      so_subtotal = sg_subtotal g, so_total = sg_subtotal g, so_address = pq_address req\<rparr>"

definition PrepareCheckout :: "cart_svc \<Rightarrow> PrepareCheckoutRequest \<Rightarrow> PrepareCheckoutResponse cart_db" where
  "PrepareCheckout S req =
     seq (require (pq_user req \<noteq> []) (BadRequest ''user_id is required''))
     (bind (ValidateCart S (pq_user req)) (\<lambda>v.
      if \<not> vr_valid v \<or> cart_items (vr_cart v) = [] then
        ret \<lparr>pr_valid = False, pr_parent = [], pr_orders = [], pr_errors = vr_errors v\<rparr>
      else
        bind new_uuid (\<lambda>parent.
        ret \<lparr>pr_valid = True, pr_parent = parent, pr_orders = map (order_payload parent req) (vr_groups v),
             pr_errors = []\<rparr>)))"

end
