(* ===== verification/Call_Context.thy ===== *)
theory Call_Context
  imports Go_Prelude
begin

text \<open>
  The user of a gRPC call (\<open>pkg/grpcclient/interceptors.go\<close>, \<open>pkg/auth/jwt.go\<close>): the values the interceptors and
  \<open>auth.WithUser\<close> put into the context are the record \<open>call_ctx\<close>.
\<close>

record call_ctx =
  ctx_auth_user :: "string option"
  ctx_log_user :: "string option"
  ctx_meta_user :: "string option"

definition GetUserID :: "call_ctx \<Rightarrow> string" where
  "GetUserID ctx =
     (case nonempty (ctx_auth_user ctx) of
        Some u \<Rightarrow> u
      | None \<Rightarrow>
          (case nonempty (ctx_log_user ctx) of
             Some u \<Rightarrow> u
           | None \<Rightarrow> (case nonempty (ctx_meta_user ctx) of Some u \<Rightarrow> u | None \<Rightarrow> [])))"

text \<open>\<open>auth.WithUser\<close>, with the identifier of the user.\<close>

definition WithUser :: "string \<Rightarrow> call_ctx \<Rightarrow> call_ctx" where
  "WithUser u ctx = ctx\<lparr>ctx_auth_user := Some u\<rparr>"

lemma GetUserID_WithUser: "u \<noteq> [] \<Longrightarrow> GetUserID (WithUser u ctx) = u"
  by (simp add: GetUserID_def WithUser_def nonempty_def)

end
