(* ===== verification/Cart_Handler.thy ===== *)
theory Cart_Handler
  imports Cart_Service Call_Context
begin

text \<open>
  The gRPC handler of carts (\<open>services/cart-service/internal/handler/grpc_handler.go\<close>): who may
  use which cart, the translation of errors, and the messages. A request is an option, \<^const>\<open>None\<close> for
  a nil pointer.
\<close>

section \<open>The caller\<close>

definition validateUserAuth :: "call_ctx \<Rightarrow> string \<Rightarrow> go_error + string" where
  "validateUserAuth ctx targetUserID =
     (let authUserID = GetUserID ctx in
      if authUserID \<noteq> [] \<and> targetUserID \<noteq> [] \<and> authUserID \<noteq> targetUserID
      then Inl (StatusError GPermissionDenied (''user cannot access another user'' @ [CHR 0x27] @ ''s cart''))
      else if targetUserID \<noteq> [] then Inr targetUserID
      else if authUserID \<noteq> [] then Inr authUserID
      else Inl (StatusError GInvalidArgument ''user_id is required''))"

text \<open>The frame of every method: the nil check, the caller, the service and its error.\<close>

definition handle ::
  "grpc_lib \<Rightarrow> call_ctx \<Rightarrow> 'r option \<Rightarrow> ('r \<Rightarrow> string) \<Rightarrow> ('r \<Rightarrow> string \<Rightarrow> 'a cart_db) \<Rightarrow> 'a cart_db" where
  "handle G ctx req user f =
     (case req of
        None \<Rightarrow> raise (StatusError GInvalidArgument ''request body cannot be nil'')
      | Some r \<Rightarrow> bind (call (validateUserAuth ctx (user r))) (\<lambda>userID. on_error (f r userID) (ToGRPC G)))"

section \<open>Messages\<close>

record CartItemPb =
  pi_id :: string
  pi_product :: string
  pi_variant :: string
  pi_store :: string
  pi_price :: f64
  pi_quantity :: int

record CartPb =
  pc_id :: string
  pc_user :: string
  pc_items :: "CartItemPb list"
  pc_total :: f64
  pc_updated :: string

definition deref :: "string option \<Rightarrow> string" where
  "deref s = (case s of None \<Rightarrow> [] | Some v \<Rightarrow> v)"

definition item_pb :: "CartItem \<Rightarrow> CartItemPb" where
  "item_pb it =
     \<lparr>pi_id = it_id it, pi_product = it_product it, pi_variant = deref (it_variant it), pi_store = deref (it_store it),
      pi_price = it_price it, pi_quantity = it_quantity it\<rparr>"

definition cartToProto :: "cart_svc \<Rightarrow> Cart \<Rightarrow> CartPb" where
  "cartToProto S c =
     \<lparr>pc_id = cart_id c, pc_user = cart_user c, pc_items = map item_pb (cart_items c), pc_total = cart_total c,
      pc_updated = cs_rfc3339 S (cart_updated c)\<rparr>"

definition toOptionalStringPtr :: "string \<Rightarrow> string option" where
  "toOptionalStringPtr s = (if s = [] \<or> s = nil_uuid then None else Some s)"

record AddItemPb =
  ap_user :: string
  ap_product :: string
  ap_variant :: string
  ap_store :: string
  ap_price :: f64
  ap_quantity :: int

record UpdateItemPb =
  up_user :: string
  up_product :: string
  up_variant :: string
  up_quantity :: int

record RemoveItemPb =
  rp_user :: string
  rp_product :: string
  rp_variant :: string

record GroupPb =
  gp_store :: string
  gp_items :: "CartItemPb list"
  gp_subtotal :: f64

record ValidatePb =
  vp_valid :: bool
  vp_cart :: CartPb
  vp_errors :: "ValidationError list"
  vp_groups :: "GroupPb list"

record PayloadPb =
  yp_parent :: string
  yp_store :: string
  yp_user :: string
  yp_items :: "CartItemPb list"
  yp_subtotal :: f64
  yp_total :: f64
  yp_address :: string

record PreparePb =
  pp_valid :: bool
  pp_parent :: string
  pp_orders :: "PayloadPb list"
  pp_errors :: "ValidationError list"

section \<open>Methods\<close>

definition GetCart_rpc :: "cart_svc \<Rightarrow> call_ctx \<Rightarrow> string option \<Rightarrow> CartPb cart_db" where
  "GetCart_rpc S ctx req =
     handle (cs_grpc S) ctx req (\<lambda>u. u) (\<lambda>_ u. bind (GetCart S u) (\<lambda>c. ret (cartToProto S c)))"

definition AddCartItem_rpc :: "cart_svc \<Rightarrow> call_ctx \<Rightarrow> AddItemPb option \<Rightarrow> CartPb cart_db" where
  "AddCartItem_rpc S ctx req =
     handle (cs_grpc S) ctx req ap_user (\<lambda>r u.
       bind (AddCartItem S \<lparr>ac_user = u, ac_product = ap_product r, ac_variant = toOptionalStringPtr (ap_variant r),
               ac_store = toOptionalStringPtr (ap_store r), ac_price = ap_price r, ac_quantity = ap_quantity r\<rparr>) (\<lambda>c.
       ret (cartToProto S c)))"

definition UpdateCartItem_rpc :: "cart_svc \<Rightarrow> call_ctx \<Rightarrow> UpdateItemPb option \<Rightarrow> CartPb cart_db" where
  "UpdateCartItem_rpc S ctx req =
     handle (cs_grpc S) ctx req up_user (\<lambda>r u.
       bind (UpdateCartItem S \<lparr>uc_user = u, uc_product = up_product r,
               uc_variant = toOptionalStringPtr (up_variant r), uc_quantity = up_quantity r\<rparr>) (\<lambda>c.
       ret (cartToProto S c)))"

definition RemoveCartItem_rpc :: "cart_svc \<Rightarrow> call_ctx \<Rightarrow> RemoveItemPb option \<Rightarrow> CartPb cart_db" where
  "RemoveCartItem_rpc S ctx req =
     handle (cs_grpc S) ctx req rp_user (\<lambda>r u.
       bind (RemoveCartItem S \<lparr>rc_user = u, rc_product = rp_product r,
               rc_variant = toOptionalStringPtr (rp_variant r)\<rparr>) (\<lambda>c.
       ret (cartToProto S c)))"

definition ClearCart_rpc :: "cart_svc \<Rightarrow> call_ctx \<Rightarrow> string option \<Rightarrow> (bool \<times> CartPb) cart_db" where
  "ClearCart_rpc S ctx req =
     handle (cs_grpc S) ctx req (\<lambda>u. u) (\<lambda>_ u. bind (ClearCart_svc S u) (\<lambda>c. ret (True, cartToProto S c)))"

definition ValidateCart_rpc :: "cart_svc \<Rightarrow> call_ctx \<Rightarrow> string option \<Rightarrow> ValidatePb cart_db" where
  "ValidateCart_rpc S ctx req =
     handle (cs_grpc S) ctx req (\<lambda>u. u) (\<lambda>_ u.
       bind (ValidateCart S u) (\<lambda>v.
       ret \<lparr>vp_valid = vr_valid v, vp_cart = cartToProto S (vr_cart v), vp_errors = vr_errors v,
            vp_groups = map (\<lambda>g. \<lparr>gp_store = sg_store g, gp_items = map item_pb (sg_items g),
              gp_subtotal = sg_subtotal g\<rparr>) (vr_groups v)\<rparr>))"

definition PrepareCheckout_rpc :: "cart_svc \<Rightarrow> call_ctx \<Rightarrow> PrepareCheckoutRequest option \<Rightarrow> PreparePb cart_db" where
  "PrepareCheckout_rpc S ctx req =
     handle (cs_grpc S) ctx req pq_user (\<lambda>r u.
       bind (PrepareCheckout S \<lparr>pq_user = u, pq_address = pq_address r\<rparr>) (\<lambda>p.
       ret \<lparr>pp_valid = pr_valid p, pp_parent = pr_parent p,
            pp_orders = map (\<lambda>o1. \<lparr>yp_parent = so_parent o1, yp_store = so_store o1, yp_user = so_user o1,
              yp_items = map item_pb (so_items o1), yp_subtotal = so_subtotal o1, yp_total = so_total o1,
              yp_address = so_address o1\<rparr>) (pr_orders p), pp_errors = pr_errors p\<rparr>))"

section \<open>Requests and reachable states\<close>

datatype cart_request =
    ReqGet "string option"
  | ReqAdd "AddItemPb option"
  | ReqUpdate "UpdateItemPb option"
  | ReqRemove "RemoveItemPb option"
  | ReqClear "string option"
  | ReqValidate "string option"
  | ReqPrepare "PrepareCheckoutRequest option"

fun serve_cart :: "cart_svc \<Rightarrow> call_ctx \<Rightarrow> cart_request \<Rightarrow> unit cart_db" where
  "serve_cart S ctx (ReqGet r) = void (GetCart_rpc S ctx r)"
| "serve_cart S ctx (ReqAdd r) = void (AddCartItem_rpc S ctx r)"
| "serve_cart S ctx (ReqUpdate r) = void (UpdateCartItem_rpc S ctx r)"
| "serve_cart S ctx (ReqRemove r) = void (RemoveCartItem_rpc S ctx r)"
| "serve_cart S ctx (ReqClear r) = void (ClearCart_rpc S ctx r)"
| "serve_cart S ctx (ReqValidate r) = void (ValidateCart_rpc S ctx r)"
| "serve_cart S ctx (ReqPrepare r) = void (PrepareCheckout_rpc S ctx r)"

definition empty_carts :: cart_tables where
  "empty_carts = \<lparr>cart_rows = [], item_rows = [], cart_redis = Map.empty\<rparr>"

text \<open>
  The states the requests lead to in environments of a given kind, each request in its own
  environment, with a counter of statements and identifiers of its own, and with its own
  answers of the product and the inventory service.
\<close>

inductive cart_reach :: "cart_lib \<Rightarrow> (env \<Rightarrow> bool) \<Rightarrow> cart_tables \<Rightarrow> bool" for L E where
  none: "cart_reach L E empty_carts"
| serve: "cart_reach L E (tabs w) \<Longrightarrow> E e \<Longrightarrow> serve_cart S ctx r e w = (x, w') \<Longrightarrow> cs_lib S = L \<Longrightarrow>
    cart_reach L E (tabs w')"

end
