(* ===== verification/Cart_Trace.thy ===== *)
theory Cart_Trace
  imports Cart_Handler
begin

text \<open>
  The invariant of the cart tables, and what a request leaves alone. \<open>spares a t0 t\<close> says that
  the tables \<open>t\<close> are consistent and that nothing of a user other than \<open>a\<close> differs from \<open>t0\<close>:
  neither its cart, nor its items, nor its entry in the cache. Every operation for \<open>a\<close> keeps it,
  whatever fails.
\<close>

section \<open>The invariant\<close>

definition line_key :: "CartItem \<Rightarrow> string \<times> string \<times> string option" where
  "line_key it = (it_cart it, it_product it, it_variant it)"

definition item_ok :: "CartItem \<Rightarrow> bool" where
  "item_ok it \<longleftrightarrow> 0 < it_quantity it \<and> int4 (it_quantity it) \<and> price_ok (it_price it) \<and>
     given_uuid (it_variant it) = it_variant it"

definition items_ok :: "string set \<Rightarrow> CartItem list \<Rightarrow> bool" where
  "items_ok ids its \<longleftrightarrow> distinct (map it_id its) \<and> distinct (map line_key its) \<and>
     (\<forall>it \<in> set its. item_ok it \<and> it_cart it \<in> ids)"

definition cart_inv :: "cart_tables \<Rightarrow> bool" where
  "cart_inv t \<longleftrightarrow> distinct (map cr_id (cart_rows t)) \<and> distinct (map cr_user (cart_rows t)) \<and>
     [] \<notin> cr_user ` set (cart_rows t) \<and> items_ok (cr_id ` set (cart_rows t)) (item_rows t)"

definition owns :: "string \<Rightarrow> string \<Rightarrow> cart_tables \<Rightarrow> bool" where
  "owns a c t \<longleftrightarrow> (\<exists>r \<in> set (cart_rows t). cr_id r = c \<and> cr_user r = a)"

definition mine :: "string \<Rightarrow> cart_tables \<Rightarrow> cart_row list \<times> CartItem list \<times> (string \<times> int option) option" where
  "mine u t = (filter (\<lambda>r. cr_user r = u) (cart_rows t), filter (\<lambda>it. owns u (it_cart it) t) (item_rows t),
     cart_redis t (cache_key u))"

definition spares :: "string \<Rightarrow> cart_tables \<Rightarrow> cart_tables \<Rightarrow> bool" where
  "spares a t0 t \<longleftrightarrow> cart_inv t \<and> (\<forall>u. u \<noteq> a \<longrightarrow> mine u t = mine u t0)"

lemma spares_refl: "cart_inv t \<Longrightarrow> spares a t t"
  by (simp add: spares_def)

lemma sparesD: "spares a t0 t \<Longrightarrow> cart_inv t" "spares a t0 t \<Longrightarrow> u \<noteq> a \<Longrightarrow> mine u t = mine u t0"
  by (simp_all add: spares_def)

lemma owner_unique: "cart_inv t \<Longrightarrow> owns a c t \<Longrightarrow> owns b c t \<Longrightarrow> a = b"
  unfolding owns_def cart_inv_def by (metis distinct_map inj_onD)

lemma owner_row: "cart_inv t \<Longrightarrow> owns a c t \<Longrightarrow> r \<in> set (cart_rows t) \<Longrightarrow> cr_id r = c \<Longrightarrow> cr_user r = a"
  by (rule owner_unique [of t _ c]) (auto simp: owns_def)

lemma find_cr_user: "find (\<lambda>r. cr_user r = u) rs = Some r \<Longrightarrow> r \<in> set rs \<and> cr_user r = u"
  by (auto simp: find_Some_iff)

section \<open>Statements\<close>

text \<open>A change of the items of one cart.\<close>

lemma spares_items:
  assumes "spares a t0 t" and "owns a c t" and "items_ok (cr_id ` set (cart_rows t)) its"
    and "filter (\<lambda>it. it_cart it \<noteq> c) its = filter (\<lambda>it. it_cart it \<noteq> c) (item_rows t)"
  shows "spares a t0 (t\<lparr>item_rows := its\<rparr>)"
proof -
  have inv: "cart_inv t" using assms(1) by (rule sparesD)
  have "filter (\<lambda>it. owns u (it_cart it) t) its = filter (\<lambda>it. owns u (it_cart it) t) (item_rows t)" if "u \<noteq> a" for u
  proof -
    have *: "(it_cart it \<noteq> c \<and> owns u (it_cart it) t) = owns u (it_cart it) t" for it :: CartItem
      using owner_unique [OF inv assms(2)] that by blast
    have "filter (\<lambda>it. owns u (it_cart it) t) (filter (\<lambda>it. it_cart it \<noteq> c) its) =
        filter (\<lambda>it. owns u (it_cart it) t) (filter (\<lambda>it. it_cart it \<noteq> c) (item_rows t))" using assms(4) by simp
    then show ?thesis by (simp add: *)
  qed
  with assms show ?thesis by (simp add: spares_def cart_inv_def mine_def owns_def)
qed

lemma owns_items [simp]: "owns a c (t\<lparr>item_rows := its\<rparr>) = owns a c t" "owns a c (t\<lparr>cart_redis := s\<rparr>) = owns a c t"
  by (simp_all add: owns_def)

lemma touch_rows [simp]:
  "map cr_id (upd_where c (\<lambda>r. r\<lparr>cr_updated := now\<rparr>) rs) = map cr_id rs"
  "map cr_user (upd_where c (\<lambda>r. r\<lparr>cr_updated := now\<rparr>) rs) = map cr_user rs"
  "cr_id ` set (upd_where c (\<lambda>r. r\<lparr>cr_updated := now\<rparr>) rs) = cr_id ` set rs"
  "cr_user ` set (upd_where c (\<lambda>r. r\<lparr>cr_updated := now\<rparr>) rs) = cr_user ` set rs"
  by (simp_all add: map_upd_where image_upd_where)

lemma owns_touch [simp]:
  "owns a i (t\<lparr>cart_rows := upd_where c (\<lambda>r. r\<lparr>cr_updated := now\<rparr>) (cart_rows t)\<rparr>) = owns a i t"
proof -
  have "owns a i t \<longleftrightarrow> (i, a) \<in> (\<lambda>r. (cr_id r, cr_user r)) ` set (cart_rows t)" for t
    by (auto simp: owns_def)
  moreover have "(\<lambda>r. (cr_id r, cr_user r)) ` set (upd_where c (\<lambda>r. r\<lparr>cr_updated := now\<rparr>) (cart_rows t)) =
      (\<lambda>r. (cr_id r, cr_user r)) ` set (cart_rows t)" by (rule image_upd_where) simp
  ultimately show ?thesis by simp
qed

lemma filter_upd_other:
  "(\<And>r. r \<in> set rs \<Longrightarrow> P r \<Longrightarrow> \<not> c r) \<Longrightarrow> (\<And>r. P (f r) = P r) \<Longrightarrow> filter P (upd_where c f rs) = filter P rs"
  by (induction rs) (auto simp: upd_where_def)

lemma spares_touch:
  assumes "spares a t0 t" and "\<And>r. r \<in> set (cart_rows t) \<Longrightarrow> c r \<Longrightarrow> cr_user r = a"
  shows "spares a t0 (t\<lparr>cart_rows := upd_where c (\<lambda>r. r\<lparr>cr_updated := now\<rparr>) (cart_rows t)\<rparr>)"
proof -
  have "filter (\<lambda>r. cr_user r = u) (upd_where c (\<lambda>r. r\<lparr>cr_updated := now\<rparr>) (cart_rows t)) =
      filter (\<lambda>r. cr_user r = u) (cart_rows t)" if "u \<noteq> a" for u
    by (rule filter_upd_other) (use assms(2) that in auto)
  with assms(1) show ?thesis by (simp add: spares_def cart_inv_def mine_def)
qed

lemma spares_redis:
  "spares a t0 t \<Longrightarrow> (\<And>u. u \<noteq> a \<Longrightarrow> s (cache_key u) = cart_redis t (cache_key u)) \<Longrightarrow> spares a t0 (t\<lparr>cart_redis := s\<rparr>)"
  by (auto simp: spares_def cart_inv_def mine_def owns_def)

lemma spares_insert_cart:
  assumes "spares a t0 t" and "a \<noteq> []" and "insert_cart i now a t = Inr (r, t')"
  shows "spares a t0 t' \<and> owns a (cr_id r) t' \<and> cr_user r = a"
proof (cases "find (\<lambda>r. cr_user r = a) (cart_rows t)")
  case (Some r1)
  with assms(3) have r: "r = r1\<lparr>cr_updated := now\<rparr>"
    and t': "t' = t\<lparr>cart_rows := upd_where (\<lambda>r. cr_user r = a) (\<lambda>r. r\<lparr>cr_updated := now\<rparr>) (cart_rows t)\<rparr>"
    by (simp_all add: insert_cart_def)
  have "owns a (cr_id r) t" using find_cr_user [OF Some] r by (auto simp: owns_def)
  with spares_touch [OF assms(1), of "\<lambda>r. cr_user r = a"] find_cr_user [OF Some] r show ?thesis unfolding t' by simp
next
  case None
  with assms(3) have r: "r = \<lparr>cr_id = i, cr_user = a, cr_created = now, cr_updated = now\<rparr>"
    and t': "t' = t\<lparr>cart_rows := cart_rows t @ [r]\<rparr>" and i: "i \<notin> cr_id ` set (cart_rows t)"
    by (auto simp: insert_cart_def Let_def split: if_splits)
  have no: "a \<notin> cr_user ` set (cart_rows t)" using None by (auto simp: find_None_iff)
  have "filter (\<lambda>it. owns u (it_cart it) t') (item_rows t) = filter (\<lambda>it. owns u (it_cart it) t) (item_rows t)"
    if "u \<noteq> a" for u using that unfolding t' r by (intro filter_cong) (auto simp: owns_def)
  with assms(1,2) i no show ?thesis unfolding t' r
    by (auto simp: spares_def cart_inv_def mine_def owns_def items_ok_def)
qed

lemma items_ok_upd:
  assumes "items_ok ids its" and "\<And>it. it \<in> set its \<Longrightarrow> c it \<Longrightarrow> item_ok (f it)"
    and "\<And>it. it_id (f it) = it_id it \<and> line_key (f it) = line_key it"
  shows "items_ok ids (upd_where c f its)"
proof -
  have cart: "it_cart (f it) = it_cart it" for it using assms(3) [of it] by (simp add: line_key_def)
  with assms show ?thesis
    by (auto simp: items_ok_def map_upd_where in_upd_where)
qed

lemma items_ok_filter: "items_ok ids its \<Longrightarrow> items_ok ids (filter P its)"
  by (auto simp: items_ok_def intro: distinct_map_filter)

lemma check_item_ok: "check_item q a = None \<Longrightarrow> 0 < q \<and> int4 q \<and> price_ok a"
  by (auto simp: check_item_def split: if_splits)

lemma insert_item_ok:
  assumes "insert_cart_item L it t = Inr (u, t')" and "given_uuid (it_variant it) = it_variant it"
    and "items_ok (cr_id ` set (cart_rows t)) (item_rows t)"
  obtains p where "cl_decimal L (it_price it) = Some p" "t' = t\<lparr>item_rows := item_rows t @ [it\<lparr>it_price := p\<rparr>]\<rparr>"
    "items_ok (cr_id ` set (cart_rows t)) (item_rows t @ [it\<lparr>it_price := p\<rparr>])"
proof -
  from assms(1) obtain p where p: "cl_decimal L (it_price it) = Some p" "check_item (it_quantity it) p = None"
    "it_id it \<notin> it_id ` set (item_rows t)" "\<not> list_ex (same_line (it_cart it) (it_product it) (it_variant it)) (item_rows t)"
    "it_cart it \<in> cr_id ` set (cart_rows t)" "t' = t\<lparr>item_rows := item_rows t @ [it\<lparr>it_price := p\<rparr>]\<rparr>"
    by (auto simp: insert_cart_item_def split: option.splits if_splits)
  moreover have "items_ok (cr_id ` set (cart_rows t)) (item_rows t @ [it\<lparr>it_price := p\<rparr>])"
    using p assms(2,3) check_item_ok [OF p(2)]
    by (auto simp: items_ok_def item_ok_def line_key_def same_line_def list_ex_iff image_iff)
  ultimately show thesis using that by blast
qed

lemma reprice_item_ok:
  assumes "reprice_item L i q price now t = Inr (u, t')" and "items_ok ids (item_rows t)"
  obtains p where "cl_decimal L price = Some p"
    "t' = t\<lparr>item_rows := upd_where (\<lambda>it. it_id it = i) (\<lambda>it. it\<lparr>it_quantity := q, it_price := p, it_updated := now\<rparr>) (item_rows t)\<rparr>"
    "items_ok ids (item_rows t')" "i \<in> it_id ` set (item_rows t) \<Longrightarrow> 0 < q \<and> int4 q"
proof -
  from assms(1) obtain p where p: "cl_decimal L price = Some p"
    "list_ex (\<lambda>it. it_id it = i) (item_rows t) \<Longrightarrow> check_item q p = None"
    "t' = t\<lparr>item_rows := upd_where (\<lambda>it. it_id it = i) (\<lambda>it. it\<lparr>it_quantity := q, it_price := p, it_updated := now\<rparr>) (item_rows t)\<rparr>"
    by (auto simp: reprice_item_def split: option.splits if_splits)
  have ok: "0 < q \<and> int4 q \<and> price_ok p" if "it \<in> set (item_rows t)" "it_id it = i" for it
    using check_item_ok [OF p(2)] that by (auto simp: list_ex_iff)
  have "items_ok ids (item_rows t')" unfolding p(3) cart_tables.simps
    by (simp, rule items_ok_upd [OF assms(2)]) (use ok assms(2) in \<open>auto simp: item_ok_def items_ok_def line_key_def\<close>)
  moreover have "i \<in> it_id ` set (item_rows t) \<Longrightarrow> 0 < q \<and> int4 q" using ok by auto
  ultimately show thesis using p(1,3) that by blast
qed

lemma set_quantity_ok:
  assumes "set_quantity c p v q now t = Inr (n, t')" and "items_ok ids (item_rows t)"
  shows "t' = t\<lparr>item_rows := upd_where (same_line c p v) (\<lambda>it. it\<lparr>it_quantity := q, it_updated := now\<rparr>) (item_rows t)\<rparr> \<and>
    n = length (filter (same_line c p v) (item_rows t)) \<and> items_ok ids (item_rows t')"
proof -
  from assms(1) have t': "t' = t\<lparr>item_rows := upd_where (same_line c p v) (\<lambda>it. it\<lparr>it_quantity := q, it_updated := now\<rparr>) (item_rows t)\<rparr>"
    and n: "n = length (filter (same_line c p v) (item_rows t))" and q: "int4 q" "0 < n \<Longrightarrow> 0 < q"
    by (auto simp: set_quantity_def Let_def split: if_splits)
  have "0 < q" if "it \<in> set (item_rows t)" "same_line c p v it" for it
    using q(2) that unfolding n by (metis filter_empty_conv length_greater_0_conv)
  then have "items_ok ids (item_rows t')" unfolding t'
    by (simp, intro items_ok_upd [OF assms(2)]) (use q assms(2) in \<open>auto simp: item_ok_def items_ok_def line_key_def\<close>)
  with t' n show ?thesis by blast
qed

lemma filter_other_cart:
  assumes "\<And>it. it \<in> set its \<Longrightarrow> c it \<Longrightarrow> it_cart it = i" and "\<And>it. it_cart (f it) = it_cart it"
  shows "filter (\<lambda>it. it_cart it \<noteq> i) (upd_where c f its) = filter (\<lambda>it. it_cart it \<noteq> i) its"
  by (rule filter_upd_other) (use assms in auto)

section \<open>The repository\<close>

lemma with_uuids_ok [run_ok]: "with_uuids L is f t = Inr y \<longleftrightarrow> list_all (cl_uuid L) is \<and> f t = Inr y"
  by (simp add: with_uuids_def)

lemma read_only_uuids [simp]: "read_only (pool_sql (with_uuids L is (select q)))"
  by (rule read_only_pool_query) (auto simp: with_uuids_def select_def split: if_splits)

lemma cart_of_simps [simp]:
  "cart_id (cart_of r its) = cr_id r" "cart_user (cart_of r its) = cr_user r" "cart_items (cart_of r its) = its"
  by (simp_all add: cart_of_def CalculateTotal_def)

lemma read_only_pool_ready [simp]: "read_only (pool_ready L)"
  by (simp add: pool_ready_def read_only_require)

lemma pool_ready_ok [run_ok]: "pool_ready L e w = (Inr y, w') \<longleftrightarrow> cl_db L \<and> w' = w"
  by (simp add: pool_ready_def run_ok)

lemma GetCartByUserID_read_only [simp]: "read_only (GetCartByUserID L u)"
  unfolding GetCartByUserID_def by (intro read_only_intros) (simp_all split: option.split add: read_only_intros)

lemma GetCartByUserID_found:
  assumes "GetCartByUserID L u e w = (Inr c, w')"
  obtains r where "r \<in> set (cart_rows (tabs w))" "cr_user r = u" "c = cart_of r (items_in (cr_id r) (tabs w))"
    "find (\<lambda>r. cr_user r = u) (cart_rows (tabs w)) = Some r" "tabs w' = tabs w"
proof -
  from assms obtain r where r: "find (\<lambda>r. cr_user r = u) (cart_rows (tabs w)) = Some r"
    "c = cart_of r (items_in (cr_id r) (tabs w))"
    unfolding GetCartByUserID_def by (auto simp: run_ok split: option.splits)
  with read_onlyD [OF GetCartByUserID_read_only assms] find_cr_user [OF r(1)] that show thesis by blast
qed

definition cart_for :: "string \<Rightarrow> cart_tables \<Rightarrow> Cart \<Rightarrow> cart_tables \<Rightarrow> bool" where
  "cart_for a t0 c t \<longleftrightarrow> spares a t0 t \<and> owns a (cart_id c) t \<and> cart_user c = a"

lemma get_spares: "outcomes (spares a t0) (GetCartByUserID L a) (cart_for a t0) (spares a t0)"
  unfolding outcomes_def cart_for_def
proof (intro allI impI)
  fix e w r w' assume P: "spares a t0 (tabs w)" and run: "GetCartByUserID L a e w = (r, w')"
  note same = read_onlyD [OF GetCartByUserID_read_only run]
  show "case r of Inr c \<Rightarrow> spares a t0 (tabs w') \<and> owns a (cart_id c) (tabs w') \<and> cart_user c = a | Inl _ \<Rightarrow> spares a t0 (tabs w')"
  proof (cases r)
    case (Inr c)
    with run show ?thesis using P same by (auto simp: owns_def elim!: GetCartByUserID_found)
  qed (use P same in simp)
qed

lemma create_spares:
  assumes "a \<noteq> []" shows "outcomes (spares a t0) (CreateCart L a) (cart_for a t0) (spares a t0)"
proof -
  have "atomic (CreateCart L a)"
    unfolding CreateCart_def
    by (intro atomic_seq atomic_bind atomic_then_ret read_only_pool_ready read_only_time_now read_only_new_uuid atomic_on_error atomic_pool_sql)
  then show ?thesis
    by (rule outcomes_atomic)
      (use spares_insert_cart [OF _ assms] in \<open>auto simp: CreateCart_def run_ok cart_for_def\<close>)
qed

lemma reload_read_only [simp]: "read_only (reload L c)"
  unfolding reload_def by (intro read_only_bind read_only_attempt GetCartByUserID_read_only) simp

lemma reload_found:
  assumes "reload L i e w = (Inr c, w')" and "cart_inv (tabs w)" and "owns a i (tabs w)"
  shows "\<exists>r. r \<in> set (cart_rows (tabs w)) \<and> cr_user r = a \<and> cr_id r = i \<and> c = cart_of r (items_in i (tabs w))"
proof -
  from assms(1) obtain x w1 where x: "attempt (pool_sql (with_uuids L [i]
      (select (\<lambda>t. find (\<lambda>r. cr_id r = i) (cart_rows t))))) e w = (Inr x, w1)"
    and get: "GetCartByUserID L (case x of Inr (Some row) \<Rightarrow> cr_user row | _ \<Rightarrow> []) e w1 = (Inr c, w')"
    by (auto simp: reload_def run_ok)
  have same: "tabs w1 = tabs w" using read_onlyD [OF read_only_attempt [OF read_only_uuids] x] .
  from get obtain r where r: "r \<in> set (cart_rows (tabs w))" "cr_user r = (case x of Inr (Some row) \<Rightarrow> cr_user row | _ \<Rightarrow> [])"
    "c = cart_of r (items_in (cr_id r) (tabs w))" by (rule GetCartByUserID_found) (simp add: same)
  have ne: "cr_user r \<noteq> []" using r(1) assms(2) unfolding cart_inv_def by (metis image_eqI)
  then obtain row where row: "x = Inr (Some row)" "cr_user r = cr_user row" using r(2) by (auto split: sum.splits option.splits)
  from x row have "find (\<lambda>r. cr_id r = i) (cart_rows (tabs w)) = Some row" by (auto simp: run_ok)
  then have "row \<in> set (cart_rows (tabs w)) \<and> cr_id row = i" by (rule find_Some_in)
  then have "row = r" "cr_user row = a" using r(1) row(2) assms(2,3) unfolding owns_def cart_inv_def
    by (metis distinct_map inj_onD)+
  with r \<open>row \<in> _ \<and> _\<close> show ?thesis by auto
qed

lemma reload_spares:
  "outcomes (\<lambda>t. spares a t0 t \<and> owns a i t) (reload L i) (cart_for a t0) (spares a t0)"
  unfolding outcomes_def cart_for_def
proof (intro allI impI)
  fix e w r w' assume P: "spares a t0 (tabs w) \<and> owns a i (tabs w)" and run: "reload L i e w = (r, w')"
  note same = read_onlyD [OF reload_read_only run]
  show "case r of Inr c \<Rightarrow> spares a t0 (tabs w') \<and> owns a (cart_id c) (tabs w') \<and> cart_user c = a | Inl _ \<Rightarrow> spares a t0 (tabs w')"
  proof (cases r)
    case (Inr c)
    with reload_found [OF run [unfolded Inr]] P same sparesD(1) show ?thesis by fastforce
  qed (use P same in simp)
qed

lemma touch_sql_spares:
  assumes "spares a t0 (tabs w)" and "owns a i (tabs w)"
  shows "spares a t0 (tabs (snd (sql (touch_cart i now) e w))) \<and> owns a i (tabs (snd (sql (touch_cart i now) e w)))"
proof -
  have "spares a t0 (tabs w\<lparr>cart_rows := upd_where (\<lambda>r. cr_id r = i) (\<lambda>r. r\<lparr>cr_updated := now\<rparr>) (cart_rows (tabs w))\<rparr>)"
    by (rule spares_touch [OF assms(1)]) (rule owner_row [OF sparesD(1) [OF assms(1)] assms(2)])
  with assms show ?thesis by (simp add: sql_def touch_cart_def Let_def)
qed

lemma add_line_cases:
  fixes item :: CartItem
  defines "it \<equiv> item\<lparr>it_variant := given_uuid (it_variant item), it_store := given_uuid (it_store item)\<rparr>"
  assumes ok: "items_ok (cr_id ` set (cart_rows (tabs w))) (item_rows (tabs w))" and run: "add_line L i item e w = (Inr x, w')"
  obtains (new) k p w2 where "x = Commit ()" "w' = snd (sql (touch_cart i (clock e)) e w2)"
      "find (same_line i (it_product it) (it_variant it)) (item_rows (tabs w)) = None"
      "tabs w2 = tabs w\<lparr>item_rows := item_rows (tabs w) @
        [it\<lparr>it_id := k, it_cart := i, it_created := clock e, it_updated := clock e, it_price := p\<rparr>]\<rparr>"
      "items_ok (cr_id ` set (cart_rows (tabs w))) (item_rows (tabs w2))"
    | (grown) old p w2 where "x = Commit ()" "w' = snd (sql (touch_cart i (clock e)) e w2)"
      "find (same_line i (it_product it) (it_variant it)) (item_rows (tabs w)) = Some old"
      "tabs w2 = tabs w\<lparr>item_rows := upd_where (\<lambda>x. it_id x = it_id old)
        (\<lambda>x. x\<lparr>it_quantity := to_int32 (it_quantity old + it_quantity it), it_price := p, it_updated := clock e\<rparr>) (item_rows (tabs w))\<rparr>"
      "items_ok (cr_id ` set (cart_rows (tabs w))) (item_rows (tabs w2))" "0 < to_int32 (it_quantity old + it_quantity it)"
proof -
  let ?find = "find (same_line i (it_product it) (it_variant it)) (item_rows (tabs w))"
  have idem: "given_uuid (given_uuid v) = given_uuid v" for v by (auto simp: given_uuid_def split: option.split)
  from run obtain f w1 w2 where x: "x = Commit ()"
    and q: "sql (with_uuids L ([i, it_product it] @ list_of (it_variant it))
        (select (\<lambda>t. find (same_line i (it_product it) (it_variant it)) (item_rows t)))) e w = (f, w1)"
    and step: "(case f of
            Inr (Some old) \<Rightarrow>
              on_error (sql (reprice_item L (it_id old) (to_int32 (it_quantity old + it_quantity it)) (it_price it) (clock e)))
                (WrapError ''failed to update cart item quantity: '')
          | Inr None \<Rightarrow>
              bind new_uuid (\<lambda>k.
              on_error (sql (with_uuids L (list_of (it_store it))
                  (insert_cart_item L (it\<lparr>it_id := k, it_cart := i, it_created := clock e, it_updated := clock e\<rparr>))))
                (WrapError ''failed to insert cart item: ''))
          | Inl er \<Rightarrow> raise (WrapError ''failed to check existing cart item: '' er)) e w1 = (Inr (), w2)"
    and w': "w' = snd (sql (touch_cart i (clock e)) e w2)"
    unfolding add_line_def it_def by (auto simp: run_ok)
  have same: "tabs w1 = tabs w" and f: "f = Inr ?find"
  proof -
    from step obtain y where "f = Inr y" by (cases f) (auto simp: run_ok)
    with q show "tabs w1 = tabs w" "f = Inr ?find" by (auto simp: run_ok)
  qed
  show thesis
  proof (cases ?find)
    case None
    with step f obtain k p where "tabs w2 = tabs w\<lparr>item_rows := item_rows (tabs w) @
        [it\<lparr>it_id := k, it_cart := i, it_created := clock e, it_updated := clock e, it_price := p\<rparr>]\<rparr>"
      "items_ok (cr_id ` set (cart_rows (tabs w))) (item_rows (tabs w2))"
      using ok by (auto simp: run_ok same idem it_def elim!: insert_item_ok)
    with x w' None show thesis by (rule new)
  next
    case (Some old)
    then have "old \<in> set (item_rows (tabs w))" by (auto dest: find_Some_in)
    with step f Some obtain p where "tabs w2 = tabs w\<lparr>item_rows := upd_where (\<lambda>x. it_id x = it_id old)
        (\<lambda>x. x\<lparr>it_quantity := to_int32 (it_quantity old + it_quantity it), it_price := p, it_updated := clock e\<rparr>) (item_rows (tabs w))\<rparr>"
      "items_ok (cr_id ` set (cart_rows (tabs w))) (item_rows (tabs w2))" "0 < to_int32 (it_quantity old + it_quantity it)"
      using ok by (auto simp: run_ok same elim!: reprice_item_ok)
    with x w' Some show thesis by (rule grown)
  qed
qed

lemma add_line_run:
  assumes P: "spares a t0 (tabs w)" "owns a i (tabs w)" and run: "add_line L i item e w = (Inr x, w')"
  shows "x = Commit () \<and> spares a t0 (tabs w') \<and> owns a i (tabs w')"
proof -
  have ok: "items_ok (cr_id ` set (cart_rows (tabs w))) (item_rows (tabs w))"
    using sparesD(1) [OF P(1)] by (simp add: cart_inv_def)
  from ok run show ?thesis
  proof (cases rule: add_line_cases)
    case (new k p w2)
    have "spares a t0 (tabs w2)" unfolding new(4)
      by (rule spares_items [OF P]) (use new in auto)
    with new P touch_sql_spares [of a t0 w2] show ?thesis by simp
  next
    case (grown old p w2)
    then have old: "old \<in> set (item_rows (tabs w))" "it_cart old = i" by (auto dest!: find_Some_in simp: same_line_def)
    have "it = old" if "it \<in> set (item_rows (tabs w))" "it_id it = it_id old" for it
      using ok old that unfolding items_ok_def by (metis distinct_map inj_onD)
    then have "spares a t0 (tabs w2)" unfolding grown(4)
      by (intro spares_items [OF P] filter_other_cart) (use grown old in auto)
    with grown P touch_sql_spares [of a t0 w2] show ?thesis by simp
  qed
qed

lemma outcomes_ready: "outcomes P m Q E \<Longrightarrow> (\<And>t. P t \<Longrightarrow> E t) \<Longrightarrow> outcomes P (seq (pool_ready L) m) Q E"
  by (rule outcomes_seq [of P _ P]) (auto intro: outcomes_read_only)

lemma outcomes_now: "(\<And>x. outcomes P (f x) Q E) \<Longrightarrow> (\<And>t. P t \<Longrightarrow> E t) \<Longrightarrow> outcomes P (bind time_now f) Q E"
  by (rule outcomes_bind [of P _ "\<lambda>_. P"]) (auto intro: outcomes_read_only read_only_time_now)

lemma AddOrUpdateItem_spares:
  "outcomes (\<lambda>t. spares a t0 t \<and> owns a i t) (AddOrUpdateItem L i item) (cart_for a t0) (spares a t0)"
  unfolding AddOrUpdateItem_def
proof (intro outcomes_ready outcomes_seq [OF outcomes_weaken [OF outcomes_with_tx] reload_spares])
  show "\<exists>y. x = Commit y \<and> spares a t0 (tabs w') \<and> owns a i (tabs w')"
    if "spares a t0 (tabs w) \<and> owns a i (tabs w)" "add_line L i item e w = (Inr x, w')" for e w x w'
    using that add_line_run by blast
qed auto

lemma touch_spares:
  "outcomes (\<lambda>t. spares a t0 t \<and> owns a i t) (ignore_error (pool_sql (with_uuids L [i] (touch_cart i now))))
     (\<lambda>_ t. spares a t0 t \<and> owns a i t) E"
proof (intro outcomes_ignore outcomes_pool_sql)
  fix t x t' assume P: "spares a t0 t \<and> owns a i t" and run: "with_uuids L [i] (touch_cart i now) t = Inr (x, t')"
  have "spares a t0 (t\<lparr>cart_rows := upd_where (\<lambda>r. cr_id r = i) (\<lambda>r. r\<lparr>cr_updated := now\<rparr>) (cart_rows t)\<rparr>)"
    by (rule spares_touch) (use P owner_row [OF sparesD(1)] in auto)
  with P run show "spares a t0 t' \<and> owns a i t'" by (auto simp: run_ok touch_cart_def)
qed

lemma after_change_spares:
  "outcomes (\<lambda>t. spares a t0 t \<and> owns a i t) (after_change L i n) (cart_for a t0) (spares a t0)"
  unfolding after_change_def
  by (rule outcomes_seq [of _ _ "\<lambda>t. spares a t0 t \<and> owns a i t"], rule outcomes_require)
    (auto intro: outcomes_now outcomes_seq [OF touch_spares] reload_spares)

lemma change_items_spares:
  assumes "\<And>t n t'. items_ok (cr_id ` set (cart_rows t)) (item_rows t) \<Longrightarrow> f t = Inr (n, t') \<Longrightarrow>
      \<exists>its. t' = t\<lparr>item_rows := its\<rparr> \<and> items_ok (cr_id ` set (cart_rows t)) its \<and>
        filter (\<lambda>it. it_cart it \<noteq> i) its = filter (\<lambda>it. it_cart it \<noteq> i) (item_rows t)"
  shows "outcomes (\<lambda>t. spares a t0 t \<and> owns a i t) (on_error (pool_sql (with_uuids L is f)) g)
      (\<lambda>_ t. spares a t0 t \<and> owns a i t) (spares a t0)"
proof (intro outcomes_on_error outcomes_pool_sql)
  fix t x t' assume P: "spares a t0 t \<and> owns a i t" and run: "with_uuids L is f t = Inr (x, t')"
  have "items_ok (cr_id ` set (cart_rows t)) (item_rows t)" using P sparesD(1) by (auto simp: cart_inv_def)
  from assms [OF this] run obtain its where its: "t' = t\<lparr>item_rows := its\<rparr>" "items_ok (cr_id ` set (cart_rows t)) its"
    "filter (\<lambda>it. it_cart it \<noteq> i) its = filter (\<lambda>it. it_cart it \<noteq> i) (item_rows t)" by (auto simp: run_ok)
  from spares_items [OF _ _ its(2,3)] P show "spares a t0 t' \<and> owns a i t'" unfolding its(1) by simp
qed simp

lemma UpdateItemQuantity_spares:
  "outcomes (\<lambda>t. spares a t0 t \<and> owns a i t) (UpdateItemQuantity L i p v q) (cart_for a t0) (spares a t0)"
  unfolding UpdateItemQuantity_def
proof (intro outcomes_ready outcomes_now outcomes_bind [OF change_items_spares after_change_spares])
  fix now t n t'
  assume ok: "items_ok (cr_id ` set (cart_rows t)) (item_rows t)" and run: "set_quantity i p (given_uuid v) q now t = Inr (n, t')"
  have "filter (\<lambda>it. it_cart it \<noteq> i) (upd_where (same_line i p (given_uuid v)) (\<lambda>it. it\<lparr>it_quantity := q, it_updated := now\<rparr>) (item_rows t)) =
      filter (\<lambda>it. it_cart it \<noteq> i) (item_rows t)" by (rule filter_other_cart) (auto simp: same_line_def)
  with set_quantity_ok [OF run ok] show "\<exists>its. t' = t\<lparr>item_rows := its\<rparr> \<and> items_ok (cr_id ` set (cart_rows t)) its \<and>
      filter (\<lambda>it. it_cart it \<noteq> i) its = filter (\<lambda>it. it_cart it \<noteq> i) (item_rows t)" by auto
qed auto

lemma delete_items_shape:
  assumes "items_ok ids (item_rows t)" and "delete_items c t = Inr (n, t')" and "\<And>it. c it \<Longrightarrow> it_cart it = i"
  shows "\<exists>its. t' = t\<lparr>item_rows := its\<rparr> \<and> items_ok ids its \<and>
      filter (\<lambda>it. it_cart it \<noteq> i) its = filter (\<lambda>it. it_cart it \<noteq> i) (item_rows t)"
proof -
  have "filter (\<lambda>it. it_cart it \<noteq> i) (filter (\<lambda>it. \<not> c it) (item_rows t)) = filter (\<lambda>it. it_cart it \<noteq> i) (item_rows t)"
    unfolding filter_filter using assms(3) by (intro filter_cong) auto
  with assms(2) items_ok_filter [OF assms(1)] show ?thesis by (auto simp: delete_items_def)
qed

lemma RemoveItem_spares:
  "outcomes (\<lambda>t. spares a t0 t \<and> owns a i t) (RemoveItem L i p v) (cart_for a t0) (spares a t0)"
  unfolding RemoveItem_def
proof (intro outcomes_ready outcomes_bind [OF change_items_spares after_change_spares])
  fix t n t' assume "items_ok (cr_id ` set (cart_rows t)) (item_rows t)" "delete_items (same_line i p (given_uuid v)) t = Inr (n, t')"
  then show "\<exists>its. t' = t\<lparr>item_rows := its\<rparr> \<and> items_ok (cr_id ` set (cart_rows t)) its \<and>
      filter (\<lambda>it. it_cart it \<noteq> i) its = filter (\<lambda>it. it_cart it \<noteq> i) (item_rows t)"
    by (rule delete_items_shape) (simp add: same_line_def)
qed auto

lemma ClearCart_spares:
  "outcomes (\<lambda>t. spares a t0 t \<and> owns a i t) (ClearCart L i) (\<lambda>_ t. spares a t0 t \<and> owns a i t) (spares a t0)"
  unfolding ClearCart_def
  by (intro outcomes_ready outcomes_seq [OF change_items_spares [OF delete_items_shape]] outcomes_now touch_spares) auto

section \<open>The cache\<close>

definition touches :: "string set \<Rightarrow> 'a redis_cmd \<Rightarrow> bool" where
  "touches K m \<longleftrightarrow> (\<forall>e w k. k \<notin> K \<longrightarrow> tabs (snd (m e w)) k = tabs w k)"

lemma touches_command: "(\<And>now s x s' k. f now s = Inr (x, s') \<Longrightarrow> k \<notin> K \<Longrightarrow> s' k = s k) \<Longrightarrow> touches K (command c f)"
  by (auto simp: touches_def command_def db_simps Let_def split: sum.splits)

lemma touches_bind: "touches K m \<Longrightarrow> (\<And>x. touches K (f x)) \<Longrightarrow> touches K (bind m f)"
  unfolding touches_def bind_def by (auto split: prod.splits sum.splits) (metis snd_conv)+

lemma touches_read_only: "read_only m \<Longrightarrow> touches K m"
  unfolding touches_def by (metis prod.collapse read_onlyD)

lemma touches_then: "read_only m \<Longrightarrow> (\<And>x. touches K (f x)) \<Longrightarrow> touches K (bind m f)"
  by (rule touches_bind [OF touches_read_only])

lemma touches_Set: "touches {k} (Set c k v ttl)"
  unfolding Set_def by (rule touches_command) (auto simp: set_key_def)

lemma touches_SetJSON: "touches {k} (SetJSON c J k v ttl)"
  unfolding SetJSON_def seq_def
  by (intro touches_then touches_Set read_only_require read_only_on_error read_only_call)

lemma touches_Delete: "touches {k} (Delete c [k])"
  unfolding Delete_def seq_def
  by (rule touches_then [OF read_only_require]) (simp, rule touches_command, auto)

lemma GetJSON_read_only: "read_only (GetJSON c J k)"
  unfolding GetJSON_def GetBytes_def Get_def command_def
  by (intro read_only_bind read_only_seq read_only_require read_only_time_now read_only_pool_query read_only_on_error read_only_call)
    (auto split: option.splits)

lemma on_redis_tabs: "tabs (snd (on_redis m e w)) = (tabs w)\<lparr>cart_redis := tabs (snd (m e (with_tabs (cart_redis (tabs w)) w)))\<rparr>"
  by (simp add: on_redis_def zoom_def split: prod.splits)

lemma cache_key_inj [simp]: "cache_key u = cache_key v \<longleftrightarrow> u = v"
  by (simp add: cache_key_def)

lemma on_redis_spares: "touches {cache_key a} m \<Longrightarrow> always (spares a t0) (on_redis m)"
  by (auto simp: always_def on_redis_tabs touches_def intro!: spares_redis)

lemma SetCartInCache_spares:
  assumes "cart_user c = a" shows "always (spares a t0) (SetCartInCache L c ttl)"
  unfolding SetCartInCache_def ignore_error_def seq_def bind_ret
  using on_redis_spares [OF touches_SetJSON] assms
  by (auto intro!: always_bind always_attempt intro: always_read_only read_only_ret read_only_time_now)

lemma DeleteCartFromCache_spares: "always (spares a t0) (DeleteCartFromCache L a)"
  unfolding DeleteCartFromCache_def ignore_error_def
  using on_redis_spares [OF touches_Delete]
  by (auto intro!: always_bind always_attempt intro: always_read_only read_only_ret)

lemma GetCartFromCache_read_only [simp]: "read_only (GetCartFromCache L u)"
proof -
  have "read_only (on_redis (GetJSON True (cl_json L) (cache_key u)))"
    unfolding read_only_def using GetJSON_read_only on_redis_tabs
    by (metis (no_types, lifting) cart_tables.surjective cart_tables.update_convs(3) prod.collapse read_onlyD snd_conv with_tabs_simps(1))
  then show ?thesis unfolding GetCartFromCache_def by (auto intro: read_only_intros read_only_attempt)
qed

section \<open>The service\<close>

lemma load_cart_spares:
  assumes "a \<noteq> []" shows "outcomes (spares a t0) (load_cart S a m1 m2) (cart_for a t0) (spares a t0)"
  unfolding load_cart_def
proof (rule outcomes_bind [OF outcomes_attempt [OF get_spares]])
  fix r show "outcomes (\<lambda>t. case r of Inr x \<Rightarrow> cart_for a t0 x t | Inl _ \<Rightarrow> spares a t0 t)
      (case r of Inr cart \<Rightarrow> ret cart
       | Inl er \<Rightarrow> if errors_Is er ErrCartNotFound then on_error (CreateCart (cs_lib S) a) (wrap m1) else raise (Internal (Some er) m2))
      (cart_for a t0) (spares a t0)"
    using create_spares [OF assms] by (cases r) (auto intro: outcomes_ret outcomes_raise outcomes_on_error)
qed

lemma cache_then:
  "outcomes (cart_for a t0 c) (SetCartInCache L c ttl) (\<lambda>_. spares a t0) (spares a t0)"
proof (rule outcomes_pure [where F = "cart_user c = a"])
  assume "cart_user c = a"
  then show "outcomes (cart_for a t0 c) (SetCartInCache L c ttl) (\<lambda>_. spares a t0) (spares a t0)"
    by (rule outcomes_weaken [OF SetCartInCache_spares [unfolded always_outcomes]]) (auto simp: cart_for_def)
qed (simp add: cart_for_def)

lemma outcomes_call:
  "(\<And>x. r = Inr x \<Longrightarrow> outcomes P (f x) Q E) \<Longrightarrow> (\<And>t. P t \<Longrightarrow> E t) \<Longrightarrow> outcomes P (bind (call r) f) Q E"
  by (cases r) (auto simp: call_def outcomes_def bind_def ret_def raise_def)

lemma GetCart_spares: "always (spares a t0) (GetCart S a)"
  unfolding GetCart_def always_outcomes
proof (intro outcomes_guard outcomes_bind [OF outcomes_read_only [where Q = "\<lambda>_. spares a t0"]])
  fix cached assume "a \<noteq> []"
  from outcomes_bind [OF load_cart_spares [OF this] cache_then]
  show "outcomes (spares a t0) (case cached of Some cart \<Rightarrow> ret cart
      | None \<Rightarrow> bind (load_cart S a ''failed to create cart for user'' ''failed to get cart'')
           (\<lambda>cart. SetCartInCache (cs_lib S) cart (cs_ttl S))) (\<lambda>_. spares a t0) (spares a t0)"
    by (cases cached) (auto intro: outcomes_ret)
qed auto

lemma cart_for_owns: "outcomes (\<lambda>t. spares a t0 t \<and> owns a (cart_id c) t) m Q E \<Longrightarrow> outcomes (cart_for a t0 c) m Q E"
  by (erule outcomes_weaken) (auto simp: cart_for_def)

lemma AddCartItem_spares: "always (spares (ac_user req) t0) (AddCartItem S req)"
  unfolding AddCartItem_def always_outcomes
  by (intro outcomes_guard outcomes_bind [OF load_cart_spares] outcomes_call cart_for_owns
      outcomes_bind [OF outcomes_on_error [OF AddOrUpdateItem_spares]] cache_then) auto

lemma existing_cart_spares: "outcomes (spares a t0) (existing_cart S a) (cart_for a t0) (spares a t0)"
  unfolding existing_cart_def by (intro outcomes_on_error get_spares)

lemma UpdateCartItem_spares: "always (spares (uc_user req) t0) (UpdateCartItem S req)"
  unfolding UpdateCartItem_def always_outcomes
  by (intro outcomes_guard outcomes_bind [OF existing_cart_spares] cart_for_owns
      outcomes_bind [OF outcomes_on_error [OF UpdateItemQuantity_spares]] cache_then) auto

lemma forget_then:
  assumes "\<And>t. P t \<Longrightarrow> spares a t0 t"
  shows "outcomes P (seq (DeleteCartFromCache L a) (ret x)) (\<lambda>_. spares a t0) (spares a t0)"
  by (rule outcomes_seq [OF outcomes_weaken [OF DeleteCartFromCache_spares [unfolded always_outcomes]], where R = "spares a t0"])
    (auto intro: outcomes_ret assms)

lemma RemoveCartItem_spares: "always (spares (rc_user req) t0) (RemoveCartItem S req)"
  unfolding RemoveCartItem_def always_outcomes
  by (intro outcomes_guard outcomes_bind [OF existing_cart_spares] cart_for_owns
      outcomes_bind [OF outcomes_on_error [OF RemoveItem_spares]] outcomes_if forget_then cache_then)
    (auto simp: cart_for_def)

lemma ClearCart_svc_spares: "always (spares a t0) (ClearCart_svc S a)"
  unfolding ClearCart_svc_def always_outcomes
proof (intro outcomes_guard outcomes_bind [OF outcomes_attempt [OF get_spares]])
  fix r
  let ?clear = "\<lambda>cart. seq (on_error (ClearCart (cs_lib S) (cart_id cart)) (wrap ''failed to clear cart items''))
    (bind time_now (\<lambda>now. seq (DeleteCartFromCache (cs_lib S) a)
       (ret ((CalculateTotal (cart\<lparr>cart_items := []\<rparr>))\<lparr>cart_updated := now\<rparr>))))"
  have clear: "outcomes (cart_for a t0 cart) (?clear cart) (\<lambda>_. spares a t0) (spares a t0)" for cart
    by (intro cart_for_owns outcomes_seq [OF outcomes_on_error [OF ClearCart_spares]] outcomes_now forget_then) auto
  have forget: "outcomes (spares a t0) (seq (DeleteCartFromCache (cs_lib S) a) (ret x)) (\<lambda>_. spares a t0) (spares a t0)" for x
    by (rule forget_then)
  show "outcomes (\<lambda>t. case r of Inr x \<Rightarrow> cart_for a t0 x t | Inl _ \<Rightarrow> spares a t0 t)
    (case r of
        Inl er \<Rightarrow>
          if errors_Is er ErrCartNotFound then
            seq (DeleteCartFromCache (cs_lib S) a)
              (ret \<lparr>cart_id = [], cart_user = a, cart_items = [], cart_total = fzero,
                    cart_created = 0, cart_updated = 0\<rparr>)
          else raise (Internal (Some er) ''failed to retrieve cart'')
      | Inr cart \<Rightarrow> ?clear cart) (\<lambda>_. spares a t0) (spares a t0)"
    using clear forget by (cases r) (auto intro: outcomes_raise)
qed auto

lemma ValidateCart_spares: "always (spares a t0) (ValidateCart S a)"
  unfolding ValidateCart_def always_outcomes
  by (intro outcomes_guard outcomes_bind [OF GetCart_spares [unfolded always_outcomes]] outcomes_if outcomes_call)
    (auto intro: outcomes_ret split: prod.split)

lemma PrepareCheckout_spares: "always (spares (pq_user req) t0) (PrepareCheckout S req)"
  unfolding PrepareCheckout_def always_outcomes
  by (intro outcomes_guard outcomes_bind [OF ValidateCart_spares [unfolded always_outcomes]] outcomes_if outcomes_bind [OF outcomes_read_only [OF read_only_new_uuid, where Q = "\<lambda>_. spares (pq_user req) t0"]])
    (auto intro: outcomes_ret)

section \<open>Requests\<close>

text \<open>The user a request acts for.\<close>

fun request_user :: "cart_request \<Rightarrow> string option" where
  "request_user (ReqGet r) = r"
| "request_user (ReqAdd r) = map_option ap_user r"
| "request_user (ReqUpdate r) = map_option up_user r"
| "request_user (ReqRemove r) = map_option rp_user r"
| "request_user (ReqClear r) = r"
| "request_user (ReqValidate r) = r"
| "request_user (ReqPrepare r) = map_option pq_user r"

definition acts_for :: "call_ctx \<Rightarrow> cart_request \<Rightarrow> string" where
  "acts_for ctx r =
     (case request_user r of None \<Rightarrow> [] | Some u \<Rightarrow> (case validateUserAuth ctx u of Inl _ \<Rightarrow> [] | Inr a \<Rightarrow> a))"

lemma handle_spares:
  assumes "\<And>r a. req = Some r \<Longrightarrow> validateUserAuth ctx (user r) = Inr a \<Longrightarrow> always P (f r a)"
  shows "always P (void (handle G ctx req user f))"
proof (cases req)
  case (Some r)
  have "outcomes P (bind (call (validateUserAuth ctx (user r))) (\<lambda>userID. on_error (f r userID) (ToGRPC G))) (\<lambda>_. P) P"
    using assms [OF Some] by (intro outcomes_call outcomes_on_error) (auto simp: always_outcomes)
  with Some show ?thesis
    by (simp add: handle_def void_def always_outcomes) (rule outcomes_bind, auto intro: outcomes_ret)
qed (simp add: handle_def void_def always_read_only read_only_bind read_only_raise read_only_ret)

lemma then_ret_spares: "always P m \<Longrightarrow> always P (bind m (\<lambda>x. ret (g x)))"
  by (auto intro!: always_bind intro: always_read_only read_only_ret)

lemma service_spares:
  "ac_user ra = a \<Longrightarrow> always (spares a t0) (AddCartItem S ra)"
  "uc_user ru = a \<Longrightarrow> always (spares a t0) (UpdateCartItem S ru)"
  "rc_user rr = a \<Longrightarrow> always (spares a t0) (RemoveCartItem S rr)"
  "pq_user rp = a \<Longrightarrow> always (spares a t0) (PrepareCheckout S rp)"
  "always (spares a t0) (GetCart S a)" "always (spares a t0) (ClearCart_svc S a)" "always (spares a t0) (ValidateCart S a)"
  using AddCartItem_spares [of ra] UpdateCartItem_spares [of ru] RemoveCartItem_spares [of rr] PrepareCheckout_spares [of rp]
  by (auto simp: GetCart_spares ClearCart_svc_spares ValidateCart_spares)

lemmas rpc_defs = GetCart_rpc_def AddCartItem_rpc_def UpdateCartItem_rpc_def RemoveCartItem_rpc_def ClearCart_rpc_def
  ValidateCart_rpc_def PrepareCheckout_rpc_def

lemma serve_cart_spares: "always (spares (acts_for ctx r) t0) (serve_cart S ctx r)"
  by (cases r) (auto simp: rpc_defs acts_for_def intro!: handle_spares then_ret_spares service_spares)

lemma empty_carts_inv: "cart_inv empty_carts"
  by (simp add: empty_carts_def cart_inv_def items_ok_def)

lemma cart_reach_inv: "cart_reach L E t \<Longrightarrow> cart_inv t"
proof (induction rule: cart_reach.induct)
  case (serve w e S ctx r x w')
  from alwaysD [OF serve_cart_spares spares_refl [OF serve.IH] serve.hyps(3)] show ?case by (rule sparesD)
qed (rule empty_carts_inv)

end
