(* ===== verification/Cart_Spec.thy ===== *)
theory Cart_Spec
  imports Cart_Trace
begin

text \<open>
  The abstract cart of a user: how many pieces of each product and variant it holds. The
  operations of the service refine the operations on these maps; the tables, the transaction,
  the time stamps and the cache are the refinement's own.
\<close>

type_synonym abs_carts = "string \<Rightarrow> string \<times> string option \<Rightarrow> int option"

definition qty :: "CartItem list \<Rightarrow> string \<Rightarrow> string \<times> string option \<Rightarrow> int option" where
  "qty its i pv = map_option it_quantity (find (same_line i (fst pv) (snd pv)) its)"

definition id_of :: "string \<Rightarrow> cart_tables \<Rightarrow> string option" where
  "id_of u t = map_option cr_id (find (\<lambda>r. cr_user r = u) (cart_rows t))"

definition abs_cart :: "cart_tables \<Rightarrow> abs_carts" where
  "abs_cart t u = (case id_of u t of None \<Rightarrow> Map.empty | Some i \<Rightarrow> qty (item_rows t) i)"

definition abs_add :: "string \<Rightarrow> string \<times> string option \<Rightarrow> int \<Rightarrow> abs_carts \<Rightarrow> abs_carts" where
  "abs_add u pv q A = A(u := (A u)(pv \<mapsto> (case A u pv of None \<Rightarrow> 0 | Some n \<Rightarrow> n) + q))"

definition abs_set :: "string \<Rightarrow> string \<times> string option \<Rightarrow> int \<Rightarrow> abs_carts \<Rightarrow> abs_carts" where
  "abs_set u pv q A = A(u := (A u)(pv \<mapsto> q))"

definition abs_remove :: "string \<Rightarrow> string \<times> string option \<Rightarrow> abs_carts \<Rightarrow> abs_carts" where
  "abs_remove u pv A = A(u := (A u)(pv := None))"

definition abs_clear :: "string \<Rightarrow> abs_carts \<Rightarrow> abs_carts" where
  "abs_clear u A = A(u := Map.empty)"

section \<open>The carts of the others\<close>

lemma find_filter: "find P xs = (case filter P xs of [] \<Rightarrow> None | x # _ \<Rightarrow> Some x)"
  by (induction xs) auto

lemma id_of_owns: "cart_inv t \<Longrightarrow> owns u i t \<longleftrightarrow> id_of u t = Some i"
proof
  assume inv: "cart_inv t" and "owns u i t"
  then obtain r where r: "r \<in> set (cart_rows t)" "cr_id r = i" "cr_user r = u" by (auto simp: owns_def)
  then obtain r1 where r1: "find (\<lambda>r. cr_user r = u) (cart_rows t) = Some r1"
    by (metis (mono_tags, lifting) find_None_iff option.exhaust)
  have "r1 = r" using find_cr_user [OF r1] r inv unfolding cart_inv_def by (metis distinct_map inj_onD)
  with r r1 show "id_of u t = Some i" by (simp add: id_of_def)
next
  assume "id_of u t = Some i"
  then show "owns u i t" by (auto simp: id_of_def owns_def dest: find_cr_user)
qed

lemma mine_id: "id_of u t = map_option cr_id (case fst (mine u t) of [] \<Rightarrow> None | r # _ \<Rightarrow> Some r)"
  by (simp add: id_of_def mine_def find_filter)

lemma mine_items:
  assumes "cart_inv t" and "id_of u t = Some i"
  shows "fst (snd (mine u t)) = filter (\<lambda>it. it_cart it = i) (item_rows t)"
proof -
  have "owns u j t \<longleftrightarrow> j = i" for j using assms id_of_owns by auto
  then show ?thesis by (simp add: mine_def)
qed

lemma qty_own: "qty (filter (\<lambda>it. it_cart it = i) its) i = qty its i"
proof
  fix pv
  have "filter (same_line i (fst pv) (snd pv)) (filter (\<lambda>it. it_cart it = i) its) = filter (same_line i (fst pv) (snd pv)) its"
    unfolding filter_filter by (rule filter_cong) (auto simp: same_line_def)
  then show "qty (filter (\<lambda>it. it_cart it = i) its) i pv = qty its i pv" by (simp add: qty_def find_filter)
qed

lemma abs_mine:
  assumes "cart_inv t" and "cart_inv t'" and "mine u t = mine u t'"
  shows "abs_cart t u = abs_cart t' u"
proof (cases "id_of u t")
  case None
  with assms(3) show ?thesis by (simp add: abs_cart_def mine_id [of u t] mine_id [of u t'])
next
  case (Some i)
  moreover have i': "id_of u t' = Some i" using Some assms(3) mine_id by metis
  moreover have "filter (\<lambda>it. it_cart it = i) (item_rows t) = filter (\<lambda>it. it_cart it = i) (item_rows t')"
    using mine_items [OF assms(1) Some] mine_items [OF assms(2) i'] assms(3) by simp
  ultimately show ?thesis by (simp add: abs_cart_def) (metis qty_own)
qed

lemma abs_spares:
  assumes "cart_inv t0" and "spares a t0 t" and "abs_cart t a = X"
  shows "abs_cart t = (abs_cart t0)(a := X)"
proof
  fix u show "abs_cart t u = ((abs_cart t0)(a := X)) u"
    using abs_mine [of t t0 u] sparesD [OF assms(2)] assms(1,3) by auto
qed

section \<open>The cart of the caller\<close>

lemma qty_upd:
  assumes "items_ok ids its" and "old \<in> set its" and "\<And>it. it_quantity (f it) = q"
    and "\<And>it. it_cart (f it) = it_cart it \<and> it_product (f it) = it_product it \<and> it_variant (f it) = it_variant it"
    and "\<And>it. it \<in> set its \<Longrightarrow> c it \<longleftrightarrow> it = old"
  shows "qty (upd_where c f its) (it_cart old) = (qty its (it_cart old))((it_product old, it_variant old) \<mapsto> q)"
proof
  fix pv
  have line: "same_line i p v (f it) = same_line i p v it" for i p v it using assms(4) by (simp add: same_line_def)
  have find: "find P (upd_where c f its) = map_option (\<lambda>it. if c it then f it else it) (find P its)" if "\<And>it. P (f it) = P it" for P
    using that by (induction its) auto
  have same: "it = old" if "it \<in> set its" "line_key it = line_key old" for it
    using assms(1,2) that unfolding items_ok_def by (metis distinct_map inj_onD)
  show "qty (upd_where c f its) (it_cart old) pv = ((qty its (it_cart old))((it_product old, it_variant old) \<mapsto> q)) pv"
  proof (cases "find (same_line (it_cart old) (fst pv) (snd pv)) its")
    case None
    then have "pv \<noteq> (it_product old, it_variant old)" using assms(2) by (auto simp: find_None_iff same_line_def)
    with None find [of "same_line (it_cart old) (fst pv) (snd pv)"] line show ?thesis by (simp add: qty_def)
  next
    case (Some it)
    then have it: "it \<in> set its" "same_line (it_cart old) (fst pv) (snd pv) it" by (auto dest: find_Some_in)
    then have "pv = (it_product old, it_variant old) \<longleftrightarrow> it = old"
      using same by (cases pv) (auto simp: same_line_def line_key_def)
    with Some find [of "same_line (it_cart old) (fst pv) (snd pv)"] line assms(3,5) it(1) show ?thesis
      by (auto simp: qty_def)
  qed
qed

lemma qty_snoc:
  "find (same_line (it_cart it) (it_product it) (it_variant it)) its = None \<Longrightarrow>
   qty (its @ [it]) (it_cart it) = (qty its (it_cart it))((it_product it, it_variant it) \<mapsto> it_quantity it)"
proof
  fix pv assume no: "find (same_line (it_cart it) (it_product it) (it_variant it)) its = None"
  have "find P (its @ [it]) = (case find P its of None \<Rightarrow> if P it then Some it else None | x \<Rightarrow> x)" for P
    by (induction its) auto
  with no show "qty (its @ [it]) (it_cart it) pv =
      ((qty its (it_cart it))((it_product it, it_variant it) \<mapsto> it_quantity it)) pv"
    by (cases pv) (auto simp: qty_def same_line_def split: option.splits)
qed

lemma qty_remove: "qty (filter (\<lambda>it. \<not> same_line i p v it) its) i = (qty its i)((p, v) := None)"
proof
  fix pv
  have "filter (same_line i (fst pv) (snd pv)) (filter (\<lambda>it. \<not> same_line i p v it) its) =
      (if pv = (p, v) then [] else filter (same_line i (fst pv) (snd pv)) its)"
    unfolding filter_filter by (cases pv) (auto simp: same_line_def filter_empty_conv intro!: filter_cong)
  then show "qty (filter (\<lambda>it. \<not> same_line i p v it) its) i pv = ((qty its i)((p, v) := None)) pv" by (simp add: qty_def find_filter)
qed

lemma qty_clear: "qty (filter (\<lambda>it. it_cart it \<noteq> i) its) i = Map.empty"
proof
  fix pv show "qty (filter (\<lambda>it. it_cart it \<noteq> i) its) i pv = None"
    by (auto simp: qty_def find_None_iff same_line_def)
qed

section \<open>The operations\<close>

text \<open>The sum of two positive \<open>int32\<close> that wraps around is negative.\<close>

lemma to_int32_add:
  assumes "int4 a" "int4 b" "0 < a" "0 < b" and "0 < to_int32 (a + b)"
  shows "to_int32 (a + b) = a + b \<and> int4 (a + b)"
proof (cases "a + b < 2 ^ 31")
  case True
  then have "(a + b + 2 ^ 31) mod 2 ^ 32 = a + b + 2 ^ 31" using assms(3,4) by (intro mod_pos_pos_trivial) auto
  with True assms(3,4) show ?thesis by (simp add: to_int32_def int4_def)
next
  case False
  have "(a + b + 2 ^ 31) mod 2 ^ 32 = (a + b + 2 ^ 31 - 2 ^ 32) mod 2 ^ 32"
    using minus_mod_self2 [of "a + b + 2 ^ 31" "2 ^ 32"] by simp
  also have "\<dots> = a + b + 2 ^ 31 - 2 ^ 32"
    using False assms(1,2) by (intro mod_pos_pos_trivial) (auto simp: int4_def)
  finally have "to_int32 (a + b) = a + b - 2 ^ 32" by (simp add: to_int32_def)
  with assms(1,2,5) show ?thesis by (simp add: int4_def)
qed

lemma qty_Some: "items_ok ids its \<Longrightarrow> find (same_line i p v) its = Some it \<Longrightarrow> 0 < it_quantity it \<and> int4 (it_quantity it)"
  by (auto dest!: find_Some_in simp: items_ok_def item_ok_def)

lemma touch_item_rows [simp]: "item_rows (tabs (snd (sql (touch_cart i now) e w))) = item_rows (tabs w)"
  by (simp add: sql_def touch_cart_def Let_def)

lemma add_line_qty:
  assumes "cart_inv (tabs w)" and run: "add_line L i item e w = (Inr x, w')" and "0 < it_quantity item" and "int4 (it_quantity item)"
  shows "qty (item_rows (tabs w')) i = (qty (item_rows (tabs w)) i)((it_product item, given_uuid (it_variant item)) \<mapsto>
    (case qty (item_rows (tabs w)) i (it_product item, given_uuid (it_variant item)) of None \<Rightarrow> 0 | Some n \<Rightarrow> n) + it_quantity item)"
proof -
  have ok: "items_ok (cr_id ` set (cart_rows (tabs w))) (item_rows (tabs w))" using assms(1) by (simp add: cart_inv_def)
  from ok run show ?thesis
  proof (cases rule: add_line_cases)
    case (new k p w2)
    with qty_snoc [of "item\<lparr>it_variant := given_uuid (it_variant item), it_store := given_uuid (it_store item), it_id := k,
        it_cart := i, it_created := clock e, it_updated := clock e, it_price := p\<rparr>" "item_rows (tabs w)"]
    show ?thesis by (simp add: qty_def)
  next
    case (grown old p w2)
    from grown(3) have old: "old \<in> set (item_rows (tabs w))" "it_cart old = i" "it_product old = it_product item"
      "it_variant old = given_uuid (it_variant item)" by (auto dest!: find_Some_in simp: same_line_def)
    have q: "to_int32 (it_quantity old + it_quantity item) = it_quantity old + it_quantity item"
      using to_int32_add qty_Some [OF ok grown(3)] assms(3,4) grown(6) by auto
    have "it_id it = it_id old \<longleftrightarrow> it = old" if "it \<in> set (item_rows (tabs w))" for it
      using ok old(1) that unfolding items_ok_def by (metis distinct_map inj_onD)
    note upd = qty_upd [OF ok old(1) _ _ this, of "\<lambda>x. x\<lparr>it_quantity := to_int32 (it_quantity old + it_quantity item), it_price := p, it_updated := clock e\<rparr>"
        "to_int32 (it_quantity old + it_quantity item)"]
    have "qty (item_rows (tabs w)) i (it_product item, given_uuid (it_variant item)) = Some (it_quantity old)"
      using grown(3) by (simp add: qty_def)
    with grown old upd q show ?thesis by simp
  qed
qed

lemma insert_cart_abs:
  assumes "cart_inv t" and "insert_cart i now a t = Inr (r, t')"
  shows "item_rows t' = item_rows t \<and> id_of a t' = Some (cr_id r) \<and> abs_cart t' a = abs_cart t a"
proof (cases "find (\<lambda>r. cr_user r = a) (cart_rows t)")
  case (Some r1)
  have "find P (upd_where P f rs) = map_option f (find P rs)" if "\<And>r. P (f r) = P r" for P and f :: "cart_row \<Rightarrow> cart_row" and rs
    using that by (induction rs) auto
  with Some assms(2) show ?thesis by (auto simp: insert_cart_def id_of_def abs_cart_def)
next
  case None
  have f: "find P (rs @ [x]) = (case find P rs of None \<Rightarrow> if P x then Some x else None | y \<Rightarrow> y)" for P rs and x :: cart_row
    by (induction rs) auto
  from None assms(2) have t': "t' = t\<lparr>cart_rows := cart_rows t @ [r]\<rparr>" and r: "cr_user r = a" "cr_id r \<notin> cr_id ` set (cart_rows t)"
    by (auto simp: insert_cart_def Let_def split: if_splits)
  have id: "id_of a t' = Some (cr_id r)" using None r by (simp add: t' id_of_def f)
  have "find (same_line (cr_id r) p v) (item_rows t) = None" for p v
    using assms(1) r(2) unfolding find_None_iff same_line_def cart_inv_def items_ok_def by metis
  then have "qty (item_rows t) (cr_id r) = Map.empty" by (auto simp: qty_def)
  moreover have "id_of a t = None" using None by (simp add: id_of_def)
  ultimately show ?thesis using id unfolding abs_cart_def by (simp add: t')
qed

lemma load_cart_abs:
  assumes "cart_inv (tabs w)" and "load_cart S a m1 m2 e w = (Inr c, w1)"
  shows "item_rows (tabs w1) = item_rows (tabs w) \<and> id_of a (tabs w1) = Some (cart_id c) \<and> abs_cart (tabs w1) a = abs_cart (tabs w) a"
proof -
  from assms(2) obtain r w2 where r: "GetCartByUserID (cs_lib S) a e w = (r, w2)"
    and rest: "(case r of Inr cart \<Rightarrow> ret cart
     | Inl er \<Rightarrow> if errors_Is er ErrCartNotFound then on_error (CreateCart (cs_lib S) a) (wrap m1)
         else raise (Internal (Some er) m2)) e w2 = (Inr c, w1)"
    by (auto simp: load_cart_def run_ok)
  have same: "tabs w2 = tabs w" using read_onlyD [OF GetCartByUserID_read_only r] .
  show ?thesis
  proof (cases r)
    case (Inr c1)
    with rest have c: "c1 = c" "w1 = w2" by (auto simp: run_ok)
    from r [unfolded Inr] show ?thesis by (rule GetCartByUserID_found) (auto simp: c same id_of_def)
  next
    case (Inl er)
    with rest obtain i now row where "insert_cart i now a (tabs w) = Inr (row, tabs w1)" "cart_id c = cr_id row"
      by (auto simp: run_ok CreateCart_def same split: if_splits)
    with insert_cart_abs [OF assms(1)] show ?thesis by auto
  qed
qed

lemma cache_frame:
  "SetCartInCache L c ttl e w = (r, w') \<Longrightarrow> cart_rows (tabs w') = cart_rows (tabs w) \<and> item_rows (tabs w') = item_rows (tabs w)"
  "DeleteCartFromCache L u e w = (r', w') \<Longrightarrow> cart_rows (tabs w') = cart_rows (tabs w) \<and> item_rows (tabs w') = item_rows (tabs w)"
  using on_redis_tabs [of "SetJSON True (cl_json L) (cache_key (cart_user c)) (c\<lparr>cart_updated := clock e\<rparr>) ttl" e w]
    on_redis_tabs [of "Delete True [cache_key u]" e w]
  by (auto simp: SetCartInCache_def DeleteCartFromCache_def bind_def seq_def ret_def time_now_def ignore_error_def attempt_def
      split: if_splits prod.splits)

lemma abs_frame: "cart_rows t' = cart_rows t \<Longrightarrow> item_rows t' = item_rows t \<Longrightarrow> abs_cart t' = abs_cart t"
  by (intro ext) (simp add: abs_cart_def id_of_def split: option.split)

lemma id_of_items [simp]: "id_of u (t\<lparr>item_rows := its\<rparr>) = id_of u t"
  by (simp add: id_of_def)

lemma abs_known: "id_of u t = Some i \<Longrightarrow> abs_cart t u = qty (item_rows t) i"
  by (simp add: abs_cart_def)

lemma reload_frame: "reload L i e w = (r, w') \<Longrightarrow> tabs w' = tabs w"
  by (rule read_onlyD [OF reload_read_only])

lemma id_of_touch: "id_of u (t\<lparr>cart_rows := upd_where c (\<lambda>r. r\<lparr>cr_updated := now\<rparr>) (cart_rows t)\<rparr>) = id_of u t"
proof -
  have "map_option cr_id (find (\<lambda>r. cr_user r = u) (upd_where c (\<lambda>r. r\<lparr>cr_updated := now\<rparr>) rs)) =
      map_option cr_id (find (\<lambda>r. cr_user r = u) rs)" for rs :: "cart_row list"
    by (induction rs) auto
  then show ?thesis by (simp add: id_of_def)
qed

lemma after_change_frame:
  assumes "after_change L i n e w = (Inr c, w')"
  shows "item_rows (tabs w') = item_rows (tabs w) \<and> id_of u (tabs w') = id_of u (tabs w) \<and> n \<noteq> 0"
proof -
  from assms obtain w1 where n: "n \<noteq> 0" and w1: "w1 = snd (pool_sql (with_uuids L [i] (touch_cart i (clock e))) e w)"
    and re: "reload L i e w1 = (Inr c, w')" by (auto simp: after_change_def run_ok)
  have "item_rows (tabs w1) = item_rows (tabs w)" "id_of u (tabs w1) = id_of u (tabs w)" unfolding w1
    by (auto simp: pool_sql_def with_uuids_def touch_cart_def Let_def id_of_touch)
  with n reload_frame [OF re] show ?thesis by simp
qed

lemma AddOrUpdateItem_line:
  assumes "AddOrUpdateItem L i item e w = (Inr c, w')" and "cart_inv (tabs w)" and "owns a i (tabs w)"
  obtains w1 where "add_line L i item e (w\<lparr>nstmt := Suc (nstmt w), aborted := False\<rparr>) = (Inr (Commit ()), w1)" "tabs w' = tabs w1"
proof -
  let ?w = "w\<lparr>nstmt := Suc (nstmt w), aborted := False\<rparr>"
  from assms(1) obtain u w2 where tx: "with_tx (WrapError ''failed to begin transaction: '')
      (WrapError ''failed to commit transaction: '') (add_line L i item) e w = (Inr u, w2)" and re: "reload L i e w2 = (Inr c, w')"
    by (auto simp: AddOrUpdateItem_def run_ok)
  have ends: "x = Commit ()" if "add_line L i item e ?w = (Inr x, w1)" for x w1
    using add_line_run [OF spares_refl _ that] assms(2,3) by auto
  from tx show thesis
    by (cases rule: with_tx_ok) (use ends that reload_frame [OF re] in auto)
qed

text \<open>The four changes of a cart, seen by its owner.\<close>

lemma AddCartItem_abs:
  assumes inv: "cart_inv (tabs w)" and "int4 (ac_quantity req)" and run: "AddCartItem S req e w = (Inr c, w')"
  defines "pv \<equiv> (ac_product req, given_uuid (ac_variant req))" and "a \<equiv> ac_user req"
  shows "abs_cart (tabs w') a = (abs_cart (tabs w) a)(pv \<mapsto> (case abs_cart (tabs w) a pv of None \<Rightarrow> 0 | Some n \<Rightarrow> n) + ac_quantity req)"
proof -
  from run obtain cart updated item w1 w2 where q: "0 < ac_quantity req"
    and load: "load_cart S a ''failed to create cart'' ''failed to retrieve cart'' e w = (Inr cart, w1)"
    and add: "AddOrUpdateItem (cs_lib S) (cart_id cart) item e w1 = (Inr updated, w2)"
    and item: "it_product item = ac_product req" "it_variant item = given_uuid (ac_variant req)" "it_quantity item = ac_quantity req"
    and set: "SetCartInCache (cs_lib S) updated (cs_ttl S) e w2 = (Inr c, w')" and ne: "a \<noteq> []"
    unfolding AddCartItem_def a_def by (fastforce simp: run_ok)
  have idem: "given_uuid (given_uuid v) = given_uuid v" for v by (auto simp: given_uuid_def split: option.split)
  note l = load_cart_abs [OF inv load]
  have inv1: "cart_inv (tabs w1)" "owns a (cart_id cart) (tabs w1)"
    using outcomesD [OF load_cart_spares [OF ne] spares_refl [OF inv] load] sparesD(1) by (auto simp: cart_for_def)
  from add inv1 obtain w3 where body: "add_line (cs_lib S) (cart_id cart) item e (w1\<lparr>nstmt := Suc (nstmt w1), aborted := False\<rparr>) = (Inr (Commit ()), w3)"
    and same: "tabs w2 = tabs w3" by (rule AddOrUpdateItem_line)
  have line: "qty (item_rows (tabs w3)) (cart_id cart) = (qty (item_rows (tabs w1)) (cart_id cart))(pv \<mapsto>
      (case qty (item_rows (tabs w1)) (cart_id cart) pv of None \<Rightarrow> 0 | Some n \<Rightarrow> n) + ac_quantity req)"
    using add_line_qty [OF _ body] inv1(1) q assms(2) by (simp add: item idem pv_def)
  have "id_of a (tabs w3) = Some (cart_id cart)"
    using add_line_run [OF spares_refl _ body, of a] inv1 id_of_owns sparesD(1) by auto
  then have "abs_cart (tabs w3) a = (abs_cart (tabs w1) a)(pv \<mapsto> (case abs_cart (tabs w1) a pv of None \<Rightarrow> 0 | Some n \<Rightarrow> n) + ac_quantity req)"
    using l line by (simp add: abs_cart_def)
  with l abs_frame cache_frame(1) [OF set] same show ?thesis by metis
qed

lemma change_step:
  "on_error (pool_sql (with_uuids L is f)) g e w = (Inr n, w') \<Longrightarrow> f (tabs w) = Inr (n, tabs w')"
  by (auto simp: run_ok)

lemmas steps_ok = seq_ok bind_ok pool_ready_ok time_now_ok

lemma existing_cart_found:
  assumes "existing_cart S a e w = (Inr c, w1)" and "cart_inv (tabs w)"
  shows "tabs w1 = tabs w \<and> id_of a (tabs w) = Some (cart_id c)"
  using assms by (auto simp: existing_cart_def run_ok id_of_def elim!: GetCartByUserID_found)

lemma UpdateCartItem_abs:
  assumes inv: "cart_inv (tabs w)" and run: "UpdateCartItem S req e w = (Inr c, w')"
  defines "pv \<equiv> (uc_product req, given_uuid (uc_variant req))" and "a \<equiv> uc_user req"
  shows "abs_cart (tabs w') a = (abs_cart (tabs w) a)(pv \<mapsto> uc_quantity req) \<and> abs_cart (tabs w) a pv \<noteq> None"
proof -
  have idem: "given_uuid (given_uuid v) = given_uuid v" for v by (auto simp: given_uuid_def split: option.split)
  from run obtain cart updated w1 w2 where cart: "existing_cart S a e w = (Inr cart, w1)"
    and upd: "UpdateItemQuantity (cs_lib S) (cart_id cart) (uc_product req) (given_uuid (uc_variant req)) (uc_quantity req) e w1 = (Inr updated, w2)"
    and set: "SetCartInCache (cs_lib S) updated (cs_ttl S) e w2 = (Inr c, w')"
    unfolding UpdateCartItem_def a_def by (auto simp: run_ok)
  let ?i = "cart_id cart" and ?line = "same_line (cart_id cart) (fst pv) (snd pv)"
  note found = existing_cart_found [OF cart inv]
  have ok: "items_ok (cr_id ` set (cart_rows (tabs w))) (item_rows (tabs w))" using inv by (simp add: cart_inv_def)
  from upd obtain n w3 where q: "set_quantity ?i (fst pv) (snd pv) (uc_quantity req) (clock e) (tabs w) = Inr (n, tabs w3)"
    and ch: "after_change (cs_lib S) ?i n e w3 = (Inr updated, w2)"
    by (auto simp: UpdateItemQuantity_def steps_ok found idem pv_def dest!: change_step)
  note t = set_quantity_ok [OF q ok] and frame = after_change_frame [OF ch, of a]
  from t frame obtain old where "find ?line (item_rows (tabs w)) = Some old" "old \<in> set (item_rows (tabs w))" "?line old"
    by (metis (no_types, lifting) filter_empty_conv find_None_iff find_Some_in list.size(3) option.exhaust)
  note old = this
  have line: "?line it \<longleftrightarrow> it = old" if "it \<in> set (item_rows (tabs w))" for it
    using ok old(2,3) that unfolding items_ok_def distinct_map inj_on_def
    by (auto simp: same_line_def line_key_def)
  have "qty (item_rows (tabs w3)) ?i = (qty (item_rows (tabs w)) ?i)(pv \<mapsto> uc_quantity req)"
    using qty_upd [OF ok old(2) _ _ line, of "\<lambda>it. it\<lparr>it_quantity := uc_quantity req, it_updated := clock e\<rparr>" "uc_quantity req"] t
      old(3) [unfolded same_line_def] by (cases pv) auto
  moreover have "abs_cart (tabs w) a pv \<noteq> None" using found old(1) by (simp add: abs_cart_def qty_def)
  moreover have "abs_cart (tabs w2) a = qty (item_rows (tabs w3)) ?i"
  proof -
    have "id_of a (tabs w3) = id_of a (tabs w)" using t by (metis id_of_items)
    then have "id_of a (tabs w2) = Some ?i" using frame found by simp
    from abs_known [OF this] frame show ?thesis by simp
  qed
  moreover have "abs_cart (tabs w) a = qty (item_rows (tabs w)) ?i" using found abs_known by blast
  moreover have "abs_cart (tabs w') = abs_cart (tabs w2)" using cache_frame(1) [OF set] by (intro abs_frame) auto
  ultimately show ?thesis by simp
qed

lemma RemoveCartItem_abs:
  assumes inv: "cart_inv (tabs w)" and run: "RemoveCartItem S req e w = (Inr c, w')"
  defines "pv \<equiv> (rc_product req, given_uuid (rc_variant req))" and "a \<equiv> rc_user req"
  shows "abs_cart (tabs w') a = (abs_cart (tabs w) a)(pv := None) \<and> abs_cart (tabs w) a pv \<noteq> None"
proof -
  have idem: "given_uuid (given_uuid v) = given_uuid v" for v by (auto simp: given_uuid_def split: option.split)
  from run obtain cart updated w1 w2 where cart: "existing_cart S a e w = (Inr cart, w1)"
    and upd: "RemoveItem (cs_lib S) (cart_id cart) (rc_product req) (given_uuid (rc_variant req)) e w1 = (Inr updated, w2)"
    and set: "(if cart_items updated = [] then seq (DeleteCartFromCache (cs_lib S) a) (ret updated)
      else SetCartInCache (cs_lib S) updated (cs_ttl S)) e w2 = (Inr c, w')"
    unfolding RemoveCartItem_def a_def by (auto simp: run_ok)
  let ?i = "cart_id cart" and ?line = "same_line (cart_id cart) (fst pv) (snd pv)"
  note found = existing_cart_found [OF cart inv]
  from upd obtain n w3 where del: "delete_items ?line (tabs w) = Inr (n, tabs w3)"
    and ch: "after_change (cs_lib S) ?i n e w3 = (Inr updated, w2)"
    by (auto simp: RemoveItem_def steps_ok found idem pv_def dest!: change_step)
  then have w3: "tabs w3 = tabs w\<lparr>item_rows := filter (\<lambda>it. \<not> ?line it) (item_rows (tabs w))\<rparr>"
    and n: "n = length (filter ?line (item_rows (tabs w)))" by (simp_all add: delete_items_def)
  note frame = after_change_frame [OF ch, of a]
  have "find ?line (item_rows (tabs w)) \<noteq> None" using frame n by (auto simp: find_None_iff filter_empty_conv)
  then have some: "abs_cart (tabs w) a pv \<noteq> None" using found by (simp add: abs_cart_def qty_def)
  have "id_of a (tabs w2) = Some ?i" using frame w3 found by (simp add: id_of_def)
  then have abs: "abs_cart (tabs w2) a = (abs_cart (tabs w) a)(pv := None)"
    using frame w3 found qty_remove [of ?i "fst pv" "snd pv" "item_rows (tabs w)"] by (simp add: abs_cart_def)
  have "cart_rows (tabs w') = cart_rows (tabs w2) \<and> item_rows (tabs w') = item_rows (tabs w2)"
    using set cache_frame by (auto simp: run_ok split: if_splits)
  with some abs abs_frame show ?thesis by metis
qed

lemma ClearCart_abs:
  assumes inv: "cart_inv (tabs w)" and run: "ClearCart_svc S a e w = (Inr c, w')"
  shows "abs_cart (tabs w') a = Map.empty"
proof -
  from run obtain r w1 where r: "GetCartByUserID (cs_lib S) a e w = (r, w1)"
    and rest: "(case r of
        Inl er \<Rightarrow>
          if errors_Is er ErrCartNotFound then
            seq (DeleteCartFromCache (cs_lib S) a)
              (ret \<lparr>cart_id = [], cart_user = a, cart_items = [], cart_total = fzero,
                    cart_created = 0, cart_updated = 0\<rparr>)
          else raise (Internal (Some er) ''failed to retrieve cart'')
      | Inr cart \<Rightarrow>
          seq (on_error (ClearCart (cs_lib S) (cart_id cart)) (wrap ''failed to clear cart items''))
          (bind time_now (\<lambda>now.
           seq (DeleteCartFromCache (cs_lib S) a)
             (ret ((CalculateTotal (cart\<lparr>cart_items := []\<rparr>))\<lparr>cart_updated := now\<rparr>))))) e w1 = (Inr c, w')"
    by (auto simp: ClearCart_svc_def run_ok)
  show ?thesis
  proof (cases r)
    case (Inl er)
    with rest have er: "errors_Is er ErrCartNotFound" by (auto simp: run_ok split: if_splits)
    have "find (\<lambda>r. cr_user r = a) (cart_rows (tabs w)) = None"
      using r [unfolded Inl] er
      by (auto simp: GetCartByUserID_def pool_ready_def bind_def seq_def require_def ret_def raise_def on_error_def pool_sql_def
          with_uuids_def select_def ErrCartNotFound_def StmtFailed_def Let_def split: if_splits prod.splits sum.splits option.splits)
    then have "id_of a (tabs w) = None" by (simp add: id_of_def)
    moreover have "cart_rows (tabs w') = cart_rows (tabs w) \<and> item_rows (tabs w') = item_rows (tabs w)"
      using rest Inl er read_onlyD [OF GetCartByUserID_read_only r] cache_frame(2) by (auto simp: run_ok)
    ultimately show ?thesis by (simp add: abs_cart_def id_of_def)
  next
    case (Inr cart)
    with r have id: "id_of a (tabs w) = Some (cart_id cart)" "tabs w1 = tabs w"
      by (auto simp: id_of_def elim!: GetCartByUserID_found)
    from rest [unfolded Inr] obtain w2 w3 where clear: "ClearCart (cs_lib S) (cart_id cart) e w1 = (Inr (), w2)"
      and del: "DeleteCartFromCache (cs_lib S) a e w2 = (Inr (), w3)" "w' = w3" by (auto simp: run_ok)
    from clear obtain n w4 where "delete_items (\<lambda>it. it_cart it = cart_id cart) (tabs w) = Inr (n, tabs w4)"
      and touch: "w2 = snd (pool_sql (with_uuids (cs_lib S) [cart_id cart] (touch_cart (cart_id cart) (clock e))) e w4)"
      by (auto simp: ClearCart_def steps_ok ignore_error_ok id(2) dest!: change_step)
    then have w4: "tabs w4 = tabs w\<lparr>item_rows := filter (\<lambda>it. it_cart it \<noteq> cart_id cart) (item_rows (tabs w))\<rparr>"
      by (simp add: delete_items_def)
    have "item_rows (tabs w2) = item_rows (tabs w4) \<and> id_of a (tabs w2) = id_of a (tabs w4)"
      unfolding touch by (auto simp: pool_sql_def with_uuids_def touch_cart_def Let_def id_of_touch)
    moreover have "id_of a (tabs w4) = id_of a (tabs w)" unfolding w4 by (simp add: id_of_def)
    ultimately have "item_rows (tabs w2) = filter (\<lambda>it. it_cart it \<noteq> cart_id cart) (item_rows (tabs w)) \<and> id_of a (tabs w2) = id_of a (tabs w)"
      by (simp add: w4)
    then have "abs_cart (tabs w2) a = Map.empty" using id(1) qty_clear abs_known by metis
    with del(2) abs_frame cache_frame(2) [OF del(1)] show ?thesis by metis
  qed
qed

end
