(* ===== verification/Cart_Cache.thy ===== *)
theory Cart_Cache
  imports Cart_Spec
begin

text \<open>
  The cache of carts follows the tables as long as no command fails: \<open>coh L a t\<close> says that an
  entry for the user \<open>a\<close> is the cart the tables hold. \<open>calmly\<close> is the triple of
  \<^const>\<open>outcomes\<close> for environments without failures, whose generated identifiers are UUIDs.
\<close>

section \<open>Calm environments\<close>

definition calm :: "cart_lib \<Rightarrow> env \<Rightarrow> bool" where
  "calm L e \<longleftrightarrow> cl_db L \<and> cl_redis L \<and> fault_free e \<and> (\<forall>n. cl_uuid L (uuid_at e n))"

definition calmly ::
  "cart_lib \<Rightarrow> ('t \<Rightarrow> bool) \<Rightarrow> ('t, 'a) db \<Rightarrow> ('a \<Rightarrow> 't \<Rightarrow> bool) \<Rightarrow> ('t \<Rightarrow> bool) \<Rightarrow> bool" where
  "calmly L P m Q E \<longleftrightarrow> (\<forall>e w r w'. calm L e \<longrightarrow> P (tabs w) \<longrightarrow> m e w = (r, w') \<longrightarrow>
     (case r of Inr x \<Rightarrow> Q x (tabs w') | Inl _ \<Rightarrow> E (tabs w')))"

lemma calmlyD:
  "calmly L P m Q E \<Longrightarrow> calm L e \<Longrightarrow> P (tabs w) \<Longrightarrow> m e w = (r, w') \<Longrightarrow>
     (case r of Inr x \<Rightarrow> Q x (tabs w') | Inl _ \<Rightarrow> E (tabs w'))"
  unfolding calmly_def by blast

lemma outcomes_calmly: "outcomes P m Q E \<Longrightarrow> calmly L P m Q E"
  unfolding outcomes_def calmly_def by blast

lemma calmly_weaken:
  "calmly L P m Q E \<Longrightarrow> (\<And>t. P' t \<Longrightarrow> P t) \<Longrightarrow> (\<And>x t. Q x t \<Longrightarrow> Q' x t) \<Longrightarrow> (\<And>t. E t \<Longrightarrow> E' t)
   \<Longrightarrow> calmly L P' m Q' E'"
  unfolding calmly_def by (fastforce split: sum.splits)

lemma calmly_ret: "(\<And>t. P t \<Longrightarrow> Q x t) \<Longrightarrow> calmly L P (ret x) Q E"
  by (simp add: calmly_def ret_def)

lemma calmly_raise: "(\<And>t. P t \<Longrightarrow> E t) \<Longrightarrow> calmly L P (raise er) Q E"
  by (simp add: calmly_def raise_def)

lemma calmly_bind:
  assumes "calmly L P m R E" and "\<And>x. calmly L (R x) (f x) Q E"
  shows "calmly L P (bind m f) Q E"
  unfolding calmly_def
proof (intro allI impI)
  fix e w r w'
  assume C: "calm L e" and P: "P (tabs w)" and run: "bind m f e w = (r, w')"
  obtain r1 w1 where m: "m e w = (r1, w1)" by fastforce
  note first = calmlyD [OF assms(1) C P m]
  show "case r of Inr x \<Rightarrow> Q x (tabs w') | Inl _ \<Rightarrow> E (tabs w')"
  proof (cases r1)
    case (Inr x)
    with first m run show ?thesis using calmlyD [OF assms(2) C, of x w1 r w'] by (simp add: bind_def)
  qed (use first m run in \<open>auto simp: bind_def\<close>)
qed

lemma calmly_seq: "calmly L P m (\<lambda>_. R) E \<Longrightarrow> calmly L R n Q E \<Longrightarrow> calmly L P (seq m n) Q E"
  unfolding seq_def by (rule calmly_bind)

lemma calmly_guard:
  "(b \<Longrightarrow> calmly L P m Q E) \<Longrightarrow> (\<And>t. P t \<Longrightarrow> E t) \<Longrightarrow> calmly L P (seq (require b er) m) Q E"
  by (cases b) (auto simp: require_def seq_def calmly_def bind_def ret_def raise_def)

lemma calmly_call:
  "(\<And>x. r = Inr x \<Longrightarrow> calmly L P (f x) Q E) \<Longrightarrow> (\<And>t. P t \<Longrightarrow> E t) \<Longrightarrow> calmly L P (bind (call r) f) Q E"
  by (cases r) (auto simp: call_def calmly_def bind_def ret_def raise_def)

lemma calmly_now: "(\<And>x. calmly L P (f x) Q E) \<Longrightarrow> calmly L P (bind time_now f) Q E"
  by (auto simp: calmly_def bind_def time_now_def)

lemma calmly_uuid: "(\<And>x. cl_uuid L x \<Longrightarrow> calmly L P (f x) Q E) \<Longrightarrow> calmly L P (bind new_uuid f) Q E"
proof -
  assume f: "\<And>x. cl_uuid L x \<Longrightarrow> calmly L P (f x) Q E"
  show ?thesis unfolding calmly_def
  proof (intro allI impI)
    fix e w r w' assume C: "calm L e" and P: "P (tabs w)" and run: "bind new_uuid f e w = (r, w')"
    have "cl_uuid L (uuid_at e (nuuid w))" using C by (simp add: calm_def)
    from calmlyD [OF f [OF this] C, of "w\<lparr>nuuid := Suc (nuuid w)\<rparr>"] P run
    show "case r of Inr x \<Rightarrow> Q x (tabs w') | Inl _ \<Rightarrow> E (tabs w')" by (simp add: bind_def new_uuid_def)
  qed
qed

lemma calmly_ready: "calmly L P m Q E \<Longrightarrow> calmly L P (seq (pool_ready L) m) Q E"
  by (auto simp: calmly_def calm_def pool_ready_def require_def seq_def bind_def ret_def)

lemma calmly_on_error: "calmly L P m Q E \<Longrightarrow> calmly L P (on_error m f) Q E"
  unfolding calmly_def on_error_runs by (fastforce split: sum.splits)

lemma calmly_attempt:
  "calmly L P m Q E \<Longrightarrow> calmly L P (attempt m) (\<lambda>r t. case r of Inr x \<Rightarrow> Q x t | Inl _ \<Rightarrow> E t) E'"
  unfolding calmly_def attempt_def by (auto split: prod.splits)

lemma calmly_pool_sql:
  assumes "\<And>t x t'. P t \<Longrightarrow> f t = Inr (x, t') \<Longrightarrow> Q x t'" and "\<And>t er. P t \<Longrightarrow> f t = Inl er \<Longrightarrow> E t"
  shows "calmly L P (pool_sql f) Q E"
  unfolding calmly_def calm_def pool_sql_def using assms by (auto simp: Let_def split: sum.splits)

lemma calmly_read_only:
  assumes "read_only m" and "\<And>t. P t \<Longrightarrow> E t" and "\<And>e w x w'. calm L e \<Longrightarrow> P (tabs w) \<Longrightarrow> m e w = (Inr x, w') \<Longrightarrow> Q x (tabs w)"
  shows "calmly L P m Q E"
  unfolding calmly_def by (auto split: sum.split) (metis assms read_onlyD)+

lemma calmly_if: "(b \<Longrightarrow> calmly L P m Q E) \<Longrightarrow> (\<not> b \<Longrightarrow> calmly L P n Q E) \<Longrightarrow> calmly L P (if b then m else n) Q E"
  by simp

lemma calmly_pure: "(\<And>t. P t \<Longrightarrow> F) \<Longrightarrow> (F \<Longrightarrow> calmly L P m Q E) \<Longrightarrow> calmly L P m Q E"
  unfolding calmly_def by blast

section \<open>Coherence\<close>

definition finite_cart :: "Cart \<Rightarrow> bool" where
  "finite_cart c \<longleftrightarrow> finite_amount (cart_total c) \<and> (\<forall>it \<in> set (cart_items c). finite_amount (it_price it))"

text \<open>
  What the service relies on of \<open>encoding/json\<close>: a cart is read back as it was written, and
  amounts that are not finite are refused.
\<close>

definition json_carts :: "Cart codec \<Rightarrow> bool" where
  "json_carts J \<longleftrightarrow> (\<forall>c. if finite_cart c then \<exists>s. marshal J c = Inr s \<and> unmarshal J s = Inr c
     else \<exists>er. marshal J c = Inl er)"

definition show_cart :: "string \<Rightarrow> cart_tables \<Rightarrow> Cart option" where
  "show_cart a t = map_option (\<lambda>r. cart_of r (items_in (cr_id r) t)) (find (\<lambda>r. cr_user r = a) (cart_rows t))"

text \<open>The same cart up to its time stamps.\<close>

definition same_cart :: "Cart \<Rightarrow> Cart \<Rightarrow> bool" where
  "same_cart c d \<longleftrightarrow> cart_id c = cart_id d \<and> cart_user c = cart_user d \<and> cart_items c = cart_items d \<and>
     cart_total c = cart_total d"

definition coh :: "cart_lib \<Rightarrow> string \<Rightarrow> cart_tables \<Rightarrow> bool" where
  "coh L a t \<longleftrightarrow> (\<forall>v x. cart_redis t (cache_key a) = Some (v, x) \<longrightarrow>
     (\<exists>d. show_cart a t = Some d \<and> (finite_cart d \<longrightarrow> (\<exists>c. unmarshal (cl_json L) v = Inr c \<and> same_cart c d))))"

definition ids_ok :: "cart_lib \<Rightarrow> cart_tables \<Rightarrow> bool" where
  "ids_ok L t \<longleftrightarrow> (\<forall>r \<in> set (cart_rows t). cl_uuid L (cr_id r) \<and> cl_uuid L (cr_user r))"

definition good :: "cart_lib \<Rightarrow> cart_tables \<Rightarrow> bool" where
  "good L t \<longleftrightarrow> cart_inv t \<and> ids_ok L t"

lemma show_owns: "show_cart a t = Some c \<Longrightarrow> owns a (cart_id c) t \<and> cart_user c = a"
  by (auto simp: show_cart_def owns_def dest: find_cr_user)

lemma owns_shows:
  assumes "cart_inv t" and "r \<in> set (cart_rows t)" and "cr_user r = a"
  shows "show_cart a t = Some (cart_of r (items_in (cr_id r) t))"
proof -
  obtain r1 where r1: "find (\<lambda>r. cr_user r = a) (cart_rows t) = Some r1"
    using assms(2,3) by (metis (mono_tags, lifting) find_None_iff option.exhaust)
  have "r1 = r" using find_cr_user [OF r1] assms unfolding cart_inv_def by (metis distinct_map inj_onD)
  with r1 show ?thesis by (simp add: show_cart_def)
qed

lemma coh_mine:
  assumes "cart_inv t" and "cart_inv t'" and "mine u t = mine u t'"
  shows "coh L u t = coh L u t'"
proof -
  have f: "find (\<lambda>r. cr_user r = u) (cart_rows t) = find (\<lambda>r. cr_user r = u) (cart_rows t')"
    using assms(3) by (simp add: mine_def find_filter)
  have "items_in (cr_id r) t = items_in (cr_id r) t'" if "find (\<lambda>r. cr_user r = u) (cart_rows t) = Some r" for r
    using mine_items [OF assms(1), of u "cr_id r"] mine_items [OF assms(2), of u "cr_id r"] that f assms(3)
    by (simp add: id_of_def items_in_def)
  then have "show_cart u t = show_cart u t'" using f by (auto simp: show_cart_def split: option.splits intro: map_option_cong)
  with assms(3) show ?thesis by (simp add: coh_def mine_def)
qed

section \<open>The repository without failures\<close>

lemma not_found_none:
  assumes "GetCartByUserID L a e w = (Inl er, w')" and "errors_Is er ErrCartNotFound"
  shows "find (\<lambda>r. cr_user r = a) (cart_rows (tabs w)) = None \<and> cl_uuid L a"
  using assms
  by (auto simp: GetCartByUserID_def pool_ready_def bind_def seq_def require_def ret_def raise_def on_error_def pool_sql_def
      with_uuids_def select_def ErrCartNotFound_def StmtFailed_def Let_def split: if_splits prod.splits sum.splits option.splits)

definition shown :: "cart_lib \<Rightarrow> string \<Rightarrow> Cart \<Rightarrow> cart_tables \<Rightarrow> bool" where
  "shown L a c t \<longleftrightarrow> good L t \<and> coh L a t \<and> show_cart a t = Some c"

lemma get_shown: "calmly L (\<lambda>t. good L t \<and> coh L a t) (GetCartByUserID L a) (shown L a) (\<lambda>t. good L t \<and> coh L a t)"
  by (rule calmly_read_only) (auto simp: shown_def show_cart_def elim!: GetCartByUserID_found)

lemma CreateCart_shown:
  assumes "a \<noteq> []"
  shows "calmly L (\<lambda>t. good L t \<and> coh L a t \<and> show_cart a t = None) (CreateCart L a) (shown L a) (\<lambda>t. good L t \<and> coh L a t)"
  unfolding CreateCart_def
proof (intro calmly_ready calmly_now calmly_uuid calmly_bind [OF calmly_on_error [OF calmly_pool_sql] calmly_ret])
  fix now i t r t'
  assume i: "cl_uuid L i" and P: "good L t \<and> coh L a t \<and> show_cart a t = None"
    and run: "with_uuids L [a] (insert_cart i now a) t = Inr (r, t')"
  then have ins: "insert_cart i now a t = Inr (r, t')" and a: "cl_uuid L a" by (auto simp: run_ok)
  from P have none: "find (\<lambda>r. cr_user r = a) (cart_rows t) = None" and inv: "cart_inv t" by (auto simp: show_cart_def good_def)
  from ins none have t': "t' = t\<lparr>cart_rows := cart_rows t @ [r]\<rparr>" and r: "cr_user r = a" "cr_id r = i" "i \<notin> cr_id ` set (cart_rows t)"
    by (auto simp: insert_cart_def Let_def split: if_splits)
  have inv': "cart_inv t'" using spares_insert_cart [OF spares_refl [OF inv] assms ins] sparesD(1) by blast
  have "filter (\<lambda>it. it_cart it = i) (item_rows t) = []"
    using inv r(3) unfolding cart_inv_def items_ok_def filter_empty_conv by metis
  then have "show_cart a t' = Some (cart_of r [])" using owns_shows [OF inv', of r a] r by (simp add: t' items_in_def)
  moreover have "cart_redis t (cache_key a) = None" using P by (cases "cart_redis t (cache_key a)") (auto simp: coh_def)
  ultimately show "shown L a (cart_of r []) t'" using P inv' i a r
    by (auto simp: shown_def good_def ids_ok_def coh_def t')
qed (auto simp: good_def)

lemma reload_shown:
  assumes "calm L e" and "good L (tabs w)" and "owns a i (tabs w)" and "reload L i e w = (r, w')"
  obtains c where "r = Inr c" "tabs w' = tabs w" "show_cart a (tabs w) = Some c"
proof -
  let ?t = "tabs w"
  obtain row where row: "row \<in> set (cart_rows ?t)" "cr_id row = i" "cr_user row = a" using assms(3) by (auto simp: owns_def)
  have inv: "cart_inv ?t" and ids: "cl_uuid L i" "cl_uuid L a" using assms(2) row by (auto simp: good_def ids_ok_def)
  have sh: "show_cart a ?t = Some (cart_of row (items_in i ?t))" using owns_shows [OF inv row(1,3)] row(2) by simp
  then obtain r1 where r1: "find (\<lambda>r. cr_user r = a) (cart_rows ?t) = Some r1" by (auto simp: show_cart_def)
  have e1: "r1 = row" using find_cr_user [OF r1] row inv unfolding cart_inv_def by (metis distinct_map inj_onD)
  obtain r2 where r2: "find (\<lambda>r. cr_id r = i) (cart_rows ?t) = Some r2"
    using row by (metis (mono_tags, lifting) find_None_iff option.exhaust)
  have e2: "r2 = row" using find_Some_in [OF r2] row inv unfolding cart_inv_def by (metis distinct_map inj_onD)
  from assms(1,4) ids r1 r2 e1 e2 row(2,3) have "r = Inr (cart_of row (items_in i ?t)) \<and> tabs w' = ?t"
    by (auto simp: reload_def GetCartByUserID_def calm_def pool_ready_def require_def bind_def seq_def ret_def attempt_def on_error_def
        pool_sql_def with_uuids_def select_def Let_def)
  with sh that show thesis by blast
qed

lemma ball_upd_where: "(\<forall>r \<in> set (upd_where c f rs). P r) \<longleftrightarrow> (\<forall>r \<in> set rs. P (if c r then f r else r))"
  by (induction rs) auto

lemma ids_touch [simp]: "ids_ok L (t\<lparr>cart_rows := upd_where c (\<lambda>r. r\<lparr>cr_updated := now\<rparr>) (cart_rows t)\<rparr>) = ids_ok L t"
  by (simp add: ids_ok_def ball_upd_where)

lemma ids_items [simp]: "ids_ok L (t\<lparr>item_rows := its\<rparr>) = ids_ok L t" "ids_ok L (t\<lparr>cart_redis := s\<rparr>) = ids_ok L t"
  by (simp_all add: ids_ok_def)

lemma add_line_ids:
  assumes "cart_inv (tabs w)" and "add_line L i item e w = (Inr x, w')"
  shows "ids_ok K (tabs w') = ids_ok K (tabs w)"
proof -
  have touch: "ids_ok K (tabs (snd (sql (touch_cart i now) e w2))) = ids_ok K (tabs w2)" for now w2
    by (simp add: sql_def touch_cart_def Let_def)
  have ok: "items_ok (cr_id ` set (cart_rows (tabs w))) (item_rows (tabs w))" using assms(1) by (simp add: cart_inv_def)
  from ok assms(2) show ?thesis by (cases rule: add_line_cases) (simp_all add: touch)
qed

abbreviation ready :: "cart_lib \<Rightarrow> string \<Rightarrow> string \<Rightarrow> cart_tables \<Rightarrow> bool" where
  "ready L a i t \<equiv> good L t \<and> owns a i t"

lemma reload_calmly: "calmly L (ready L a i) (reload L i) (\<lambda>c t. good L t \<and> show_cart a t = Some c) E"
  unfolding calmly_def
proof (intro allI impI)
  fix e w r w' assume "calm L e" "ready L a i (tabs w)" "reload L i e w = (r, w')"
  then show "case r of Inr c \<Rightarrow> good L (tabs w') \<and> show_cart a (tabs w') = Some c | Inl _ \<Rightarrow> E (tabs w')"
    by (elim conjE) (rule reload_shown [of L e w a i r w'], auto)
qed

lemma add_line_calmly:
  "calmly L (\<lambda>t. ready L a i t \<and> coh L a t) (with_tx fb fc (add_line L i item)) (\<lambda>_. ready L a i) (\<lambda>t. good L t \<and> coh L a t)"
proof -
  have "outcomes (\<lambda>t. ready L a i t \<and> coh L a t) (with_tx fb fc (add_line L i item)) (\<lambda>_. ready L a i) (\<lambda>t. ready L a i t \<and> coh L a t)"
  proof (rule outcomes_with_tx)
    fix e w x w' assume P: "ready L a i (tabs w) \<and> coh L a (tabs w)" and run: "add_line L i item e w = (Inr x, w')"
    then show "\<exists>y. x = Commit y \<and> ready L a i (tabs w')"
      using add_line_run [OF spares_refl _ run] add_line_ids [OF _ run] sparesD(1) by (fastforce simp: good_def)
  qed
  then show ?thesis by (rule calmly_weaken [OF outcomes_calmly]) auto
qed

lemma AddOrUpdateItem_calmly:
  "calmly L (\<lambda>t. ready L a i t \<and> coh L a t) (AddOrUpdateItem L i item) (\<lambda>c t. good L t \<and> show_cart a t = Some c)
     (\<lambda>t. good L t \<and> coh L a t)"
  unfolding AddOrUpdateItem_def by (intro calmly_ready calmly_seq [OF add_line_calmly reload_calmly])

lemma touch_calmly: "calmly L (ready L a i) (ignore_error (pool_sql (with_uuids L [i] (touch_cart i now)))) (\<lambda>_. ready L a i) E"
proof -
  have "calmly L (ready L a i) (attempt (pool_sql (with_uuids L [i] (touch_cart i now)))) (\<lambda>_. ready L a i) E"
  proof (rule calmly_weaken [OF calmly_attempt [OF calmly_pool_sql [where Q = "\<lambda>_. ready L a i" and E = "ready L a i"]]])
    fix t x t' assume P: "ready L a i t" and run: "with_uuids L [i] (touch_cart i now) t = Inr (x, t')"
    have "spares a t (t\<lparr>cart_rows := upd_where (\<lambda>r. cr_id r = i) (\<lambda>r. r\<lparr>cr_updated := now\<rparr>) (cart_rows t)\<rparr>)"
      by (rule spares_touch [OF spares_refl]) (use P owner_row in \<open>auto simp: good_def\<close>)
    with P run sparesD(1) show "ready L a i t'" by (auto simp: run_ok touch_cart_def good_def)
  qed (auto split: sum.split_asm)
  then show ?thesis unfolding ignore_error_def by (rule calmly_bind) (auto intro: calmly_ret)
qed

text \<open>A change of items that hits no row has changed nothing.\<close>

lemma change_calmly:
  assumes "\<And>t n t'. items_ok (cr_id ` set (cart_rows t)) (item_rows t) \<Longrightarrow> f t = Inr (n, t') \<Longrightarrow>
      (\<exists>its. t' = t\<lparr>item_rows := its\<rparr> \<and> items_ok (cr_id ` set (cart_rows t)) its \<and> (n = 0 \<longrightarrow> its = item_rows t))"
  shows "calmly L (\<lambda>t. ready L a i t \<and> coh L a t) (on_error (pool_sql (with_uuids L is f)) g)
      (\<lambda>n t. ready L a i t \<and> (n = (0 :: nat) \<longrightarrow> coh L a t)) (\<lambda>t. good L t \<and> coh L a t)"
proof (intro calmly_on_error calmly_pool_sql)
  fix t n t' assume P: "ready L a i t \<and> coh L a t" and run: "with_uuids L is f t = Inr (n, t')"
  have "items_ok (cr_id ` set (cart_rows t)) (item_rows t)" using P by (auto simp: good_def cart_inv_def)
  from assms [OF this] run obtain its where its: "t' = t\<lparr>item_rows := its\<rparr>" "items_ok (cr_id ` set (cart_rows t)) its"
    "n = 0 \<longrightarrow> its = item_rows t" by (auto simp: run_ok)
  with P show "ready L a i t' \<and> (n = 0 \<longrightarrow> coh L a t')" by (auto simp: good_def cart_inv_def)
qed auto

lemma after_change_calmly:
  "calmly L (\<lambda>t. ready L a i t \<and> (n = (0 :: nat) \<longrightarrow> coh L a t)) (after_change L i n)
     (\<lambda>c t. good L t \<and> show_cart a t = Some c) (\<lambda>t. good L t \<and> coh L a t)"
proof (cases "n = 0")
  case True
  then show ?thesis by (auto simp: after_change_def calmly_def require_def seq_def bind_def raise_def)
next
  case False
  have "calmly L (ready L a i) (bind time_now (\<lambda>now. seq (ignore_error (pool_sql (with_uuids L [i] (touch_cart i now)))) (reload L i)))
      (\<lambda>c t. good L t \<and> show_cart a t = Some c) (\<lambda>t. good L t \<and> coh L a t)"
    by (intro calmly_now calmly_seq [OF touch_calmly reload_calmly])
  with False show ?thesis by (auto simp: after_change_def calmly_def require_def seq_def bind_def ret_def)
qed

lemma UpdateItemQuantity_calmly:
  "calmly L (\<lambda>t. ready L a i t \<and> coh L a t) (UpdateItemQuantity L i p v q) (\<lambda>c t. good L t \<and> show_cart a t = Some c)
     (\<lambda>t. good L t \<and> coh L a t)"
  unfolding UpdateItemQuantity_def
proof (intro calmly_ready calmly_now calmly_bind [OF change_calmly after_change_calmly])
  fix now t n t'
  assume ok: "items_ok (cr_id ` set (cart_rows t)) (item_rows t)" and run: "set_quantity i p (given_uuid v) q now t = Inr (n, t')"
  have "n = 0 \<Longrightarrow> upd_where (same_line i p (given_uuid v)) f (item_rows t) = item_rows t" for f
    using set_quantity_ok [OF run ok] by (intro upd_where_none) (auto simp: filter_empty_conv)
  with set_quantity_ok [OF run ok] show "\<exists>its. t' = t\<lparr>item_rows := its\<rparr> \<and> items_ok (cr_id ` set (cart_rows t)) its \<and> (n = 0 \<longrightarrow> its = item_rows t)"
    by auto
qed

lemma delete_shape:
  assumes "items_ok ids (item_rows t)" and "delete_items c t = Inr (n, t')"
  shows "\<exists>its. t' = t\<lparr>item_rows := its\<rparr> \<and> items_ok ids its \<and> (n = 0 \<longrightarrow> its = item_rows t)"
proof -
  have "n = 0 \<Longrightarrow> filter (\<lambda>it. \<not> c it) (item_rows t) = item_rows t"
    using assms(2) by (auto simp: delete_items_def filter_empty_conv filter_id_conv)
  with assms items_ok_filter show ?thesis by (auto simp: delete_items_def)
qed

lemma RemoveItem_calmly:
  "calmly L (\<lambda>t. ready L a i t \<and> coh L a t) (RemoveItem L i p v) (\<lambda>c t. good L t \<and> show_cart a t = Some c)
     (\<lambda>t. good L t \<and> coh L a t)"
  unfolding RemoveItem_def by (intro calmly_ready calmly_bind [OF change_calmly after_change_calmly] delete_shape)

lemma ClearCart_calmly:
  "calmly L (\<lambda>t. ready L a i t \<and> coh L a t) (ClearCart L i) (\<lambda>_. good L) (\<lambda>t. good L t \<and> coh L a t)"
  unfolding ClearCart_def
  by (intro calmly_ready calmly_seq [OF calmly_weaken [OF change_calmly, where Q' = "\<lambda>_. ready L a i"]] calmly_now
      calmly_weaken [OF touch_calmly] delete_shape) auto

section \<open>The cache without failures\<close>

lemma on_redis_run:
  assumes "on_redis m e w = (r, w')" and "m e (with_tabs (cart_redis (tabs w)) w) = (r1, w1)"
  shows "r = r1 \<and> tabs w' = (tabs w)\<lparr>cart_redis := tabs w1\<rparr>"
  using assms by (auto simp: on_redis_def zoom_def)

lemma SetJSON_run:
  assumes "fault_free e"
  shows "SetJSON True J k v ttl e w = (case marshal J v of
      Inl er \<Rightarrow> (Inl (WrapError ''failed to marshal value to json: '' er), w)
    | Inr s \<Rightarrow> (Inr (), w\<lparr>nstmt := Suc (nstmt w), tabs := set_key k s ttl (clock e) (tabs w)\<rparr>))"
  using assms by (auto simp: SetJSON_def Set_def command_def db_simps Let_def split: sum.split)

lemma SetCart_calmly:
  assumes J: "json_carts (cl_json L)"
  shows "calmly L (\<lambda>t. good L t \<and> show_cart a t = Some c) (SetCartInCache L c ttl)
    (\<lambda>d t. good L t \<and> coh L a t \<and> (\<exists>c0. show_cart a t = Some c0 \<and> same_cart d c0)) E"
  unfolding calmly_def
proof (intro allI impI)
  fix e w r w'
  assume C: "calm L e" and P: "good L (tabs w) \<and> show_cart a (tabs w) = Some c" and run: "SetCartInCache L c ttl e w = (r, w')"
  let ?c = "c\<lparr>cart_updated := clock e\<rparr>" and ?k = "cache_key a"
  let ?cmd = "on_redis (SetJSON True (cl_json L) ?k ?c ttl)"
  have user: "cart_user c = a" using P show_owns by blast
  have same: "same_cart ?c c" and fin: "finite_cart ?c = finite_cart c" by (simp_all add: same_cart_def finite_cart_def)
  from run C user obtain r1 where r: "r = Inr ?c" and cmd: "?cmd e w = (r1, w')"
    by (auto simp: SetCartInCache_def calm_def bind_def seq_def ret_def time_now_def ignore_error_def attempt_def split: prod.splits)
  obtain s1 where t': "tabs w' = (tabs w)\<lparr>cart_redis := s1\<rparr>"
    and s1: "finite_cart c \<Longrightarrow> \<exists>v x. s1 ?k = Some (v, x) \<and> unmarshal (cl_json L) v = Inr ?c"
      "\<not> finite_cart c \<Longrightarrow> s1 = cart_redis (tabs w)"
  proof -
    let ?w = "with_tabs (cart_redis (tabs w)) w"
    obtain r2 w2 where w2: "SetJSON True (cl_json L) ?k ?c ttl e ?w = (r2, w2)" by fastforce
    have ff: "fault_free e" using C by (simp add: calm_def)
    have "\<exists>v x. tabs w2 ?k = Some (v, x) \<and> unmarshal (cl_json L) v = Inr ?c" if f: "finite_cart c"
    proof -
      from J f fin obtain s where s: "marshal (cl_json L) ?c = Inr s" "unmarshal (cl_json L) s = Inr ?c"
        unfolding json_carts_def by metis
      with w2 SetJSON_run [OF ff, of "cl_json L" ?k ?c ttl ?w] show ?thesis by (auto simp: set_key_def)
    qed
    moreover have "tabs w2 = cart_redis (tabs w)" if f: "\<not> finite_cart c"
    proof -
      from J f fin obtain er where "marshal (cl_json L) ?c = Inl er" unfolding json_carts_def by metis
      with w2 SetJSON_run [OF ff, of "cl_json L" ?k ?c ttl ?w] show ?thesis by auto
    qed
    ultimately show thesis using that on_redis_run [OF cmd w2] by blast
  qed
  have show': "show_cart a (tabs w') = Some c" using P by (simp add: t' show_cart_def items_in_def)
  have "coh L a (tabs w')"
    unfolding coh_def show' using s1 same by (cases "finite_cart c") (auto simp: t')
  moreover have "good L (tabs w')" using P by (simp add: t' good_def cart_inv_def)
  ultimately show "case r of Inr d \<Rightarrow> good L (tabs w') \<and> coh L a (tabs w') \<and> (\<exists>c0. show_cart a (tabs w') = Some c0 \<and> same_cart d c0) | Inl _ \<Rightarrow> E (tabs w')"
    using r same show' by simp
qed

lemma DeleteCart_calmly: "calmly L (good L) (DeleteCartFromCache L a) (\<lambda>_ t. good L t \<and> coh L a t) E"
  unfolding calmly_def
proof (intro allI impI)
  fix e w r w' assume C: "calm L e" and P: "good L (tabs w)" and run: "DeleteCartFromCache L a e w = (r, w')"
  let ?cmd = "on_redis (Delete True [cache_key a])"
  from run C obtain r1 where r: "r = Inr ()" and cmd: "?cmd e w = (r1, w')"
    by (auto simp: DeleteCartFromCache_def calm_def bind_def ret_def ignore_error_def attempt_def split: prod.splits)
  obtain r2 w2 where w2: "Delete True [cache_key a] e (with_tabs (cart_redis (tabs w)) w) = (r2, w2)" by fastforce
  then have "tabs w2 (cache_key a) = None" using C by (auto simp: Delete_def command_def calm_def db_simps Let_def)
  with on_redis_run [OF cmd w2] P r
  show "case r of Inr x \<Rightarrow> good L (tabs w') \<and> coh L a (tabs w') | Inl _ \<Rightarrow> E (tabs w')"
    by (simp add: coh_def good_def cart_inv_def)
qed

section \<open>The service without failures\<close>

abbreviation calm_for :: "cart_lib \<Rightarrow> string \<Rightarrow> cart_tables \<Rightarrow> bool" where
  "calm_for L a t \<equiv> good L t \<and> coh L a t"

lemma load_calmly:
  assumes "a \<noteq> []"
  shows "calmly (cs_lib S) (calm_for (cs_lib S) a) (load_cart S a m1 m2) (shown (cs_lib S) a) (calm_for (cs_lib S) a)"
  unfolding load_cart_def calmly_def
proof (intro allI impI)
  let ?L = "cs_lib S"
  fix e w r w'
  assume C: "calm ?L e" and P: "calm_for ?L a (tabs w)"
    and run: "bind (attempt (GetCartByUserID ?L a)) (\<lambda>r. case r of Inr cart \<Rightarrow> ret cart
      | Inl er \<Rightarrow> if errors_Is er ErrCartNotFound then on_error (CreateCart ?L a) (wrap m1) else raise (Internal (Some er) m2)) e w = (r, w')"
  obtain r1 w1 where get: "GetCartByUserID ?L a e w = (r1, w1)" by fastforce
  note same = read_onlyD [OF GetCartByUserID_read_only get] and sh = calmlyD [OF get_shown C P get]
  show "case r of Inr c \<Rightarrow> shown ?L a c (tabs w') | Inl _ \<Rightarrow> calm_for ?L a (tabs w')"
  proof (cases r1)
    case (Inr c)
    with run get sh show ?thesis by (auto simp: bind_def attempt_def ret_def)
  next
    case (Inl er)
    show ?thesis
    proof (cases "errors_Is er ErrCartNotFound")
      case True
      with run get Inl have cr: "on_error (CreateCart ?L a) (wrap m1) e w1 = (r, w')" by (simp add: bind_def attempt_def)
      have "show_cart a (tabs w) = None" using not_found_none [OF get [unfolded Inl] True] by (simp add: show_cart_def)
      with calmlyD [OF calmly_on_error [OF CreateCart_shown [OF assms]] C _ cr] P same show ?thesis by simp
    next
      case False
      with run get Inl P same show ?thesis by (auto simp: bind_def attempt_def raise_def)
    qed
  qed
qed

lemma shown_ready: "shown L a c t \<Longrightarrow> ready L a (cart_id c) t \<and> coh L a t"
  using show_owns by (auto simp: shown_def)

definition served :: "cart_lib \<Rightarrow> string \<Rightarrow> Cart \<Rightarrow> cart_tables \<Rightarrow> bool" where
  "served L a d t \<longleftrightarrow> calm_for L a t \<and> (\<exists>c. show_cart a t = Some c \<and> (finite_cart c \<longrightarrow> same_cart d c))"

lemma set_served:
  assumes "json_carts (cl_json L)"
  shows "calmly L (\<lambda>t. good L t \<and> show_cart a t = Some c) (SetCartInCache L c ttl) (served L a) E"
  by (rule calmly_weaken [OF SetCart_calmly [OF assms]]) (auto simp: served_def)

lemma cached_served:
  "calmly L (calm_for L a) (GetCartFromCache L a) (\<lambda>r t. calm_for L a t \<and> (\<forall>d. r = Some d \<longrightarrow> served L a d t)) E"
  unfolding calmly_def
proof (intro allI impI)
  fix e w r w' assume C: "calm L e" and P: "calm_for L a (tabs w)" and run: "GetCartFromCache L a e w = (r, w')"
  have same: "tabs w' = tabs w" using read_onlyD [OF GetCartFromCache_read_only run] .
  obtain r1 w1 where cmd: "on_redis (GetJSON True (cl_json L) (cache_key a)) e w = (r1, w1)" by fastforce
  from run C cmd have r: "r = Inr (case r1 of Inl er \<Rightarrow> None | Inr c \<Rightarrow> Some c)"
    by (auto simp: GetCartFromCache_def calm_def bind_def attempt_def ret_def)
  have "served L a d (tabs w)" if d: "r1 = Inr d" for d
  proof -
    obtain r2 w2 where w2: "GetJSON True (cl_json L) (cache_key a) e (with_tabs (cart_redis (tabs w)) w) = (r2, w2)" by fastforce
    have "GetJSON True (cl_json L) (cache_key a) e (with_tabs (cart_redis (tabs w)) w) = (Inr d, w2)"
      using on_redis_run [OF cmd w2] w2 d by simp
    then obtain v x where "cart_redis (tabs w) (cache_key a) = Some (v, x)" "unmarshal (cl_json L) v = Inr d"
      by (auto simp: GetJSON_def GetBytes_def Get_def command_def run_ok live_def split: option.splits if_splits)
    with P show ?thesis unfolding served_def coh_def by fastforce
  qed
  with P r same show "case r of Inr x \<Rightarrow> calm_for L a (tabs w') \<and> (\<forall>d. x = Some d \<longrightarrow> served L a d (tabs w')) | Inl _ \<Rightarrow> E (tabs w')"
    by (cases r1) auto
qed

lemma served_calm: "served L a d t \<Longrightarrow> calm_for L a t"
  by (simp add: served_def)

lemma shown_show: "shown L a c t \<Longrightarrow> good L t \<and> show_cart a t = Some c"
  by (simp add: shown_def)

lemma GetCart_served:
  assumes J: "json_carts (cl_json (cs_lib S))"
  shows "calmly (cs_lib S) (calm_for (cs_lib S) a) (GetCart S a) (served (cs_lib S) a) (calm_for (cs_lib S) a)"
  unfolding GetCart_def
proof (intro calmly_guard calmly_bind [OF cached_served])
  let ?L = "cs_lib S"
  fix cached assume a: "a \<noteq> []"
  have miss: "calmly ?L (calm_for ?L a) (bind (load_cart S a ''failed to create cart for user'' ''failed to get cart'')
      (\<lambda>cart. SetCartInCache ?L cart (cs_ttl S))) (served ?L a) (calm_for ?L a)"
    by (rule calmly_bind [OF load_calmly [OF a] calmly_weaken [OF set_served [OF J]]]) (auto simp: shown_def)
  show "calmly ?L (\<lambda>t. calm_for ?L a t \<and> (\<forall>d. cached = Some d \<longrightarrow> served ?L a d t)) (case cached of Some cart \<Rightarrow> ret cart
      | None \<Rightarrow> bind (load_cart S a ''failed to create cart for user'' ''failed to get cart'')
           (\<lambda>cart. SetCartInCache ?L cart (cs_ttl S))) (served ?L a) (calm_for ?L a)"
    using miss by (cases cached) (auto intro: calmly_ret)
qed auto

lemma set_calm:
  assumes "json_carts (cl_json L)"
  shows "calmly L (\<lambda>t. good L t \<and> show_cart a t = Some c) (SetCartInCache L c ttl) (\<lambda>_. calm_for L a) (calm_for L a)"
  by (rule calmly_weaken [OF set_served [OF assms]]) (auto dest: served_calm)

lemma shown_then:
  assumes "calmly L (\<lambda>t. ready L a (cart_id c) t \<and> coh L a t) m Q E" shows "calmly L (shown L a c) m Q E"
  by (rule calmly_weaken [OF assms]) (auto dest: shown_ready)

lemma AddCartItem_calm:
  assumes J: "json_carts (cl_json (cs_lib S))"
  shows "calmly (cs_lib S) (calm_for (cs_lib S) (ac_user req)) (AddCartItem S req) (\<lambda>_. calm_for (cs_lib S) (ac_user req)) (calm_for (cs_lib S) (ac_user req))"
  unfolding AddCartItem_def
  by (intro calmly_guard calmly_bind [OF load_calmly] calmly_call shown_then
      calmly_bind [OF calmly_on_error [OF AddOrUpdateItem_calmly] set_calm [OF J]]) (auto simp: shown_def)

lemma existing_calmly:
  "calmly (cs_lib S) (calm_for (cs_lib S) a) (existing_cart S a) (shown (cs_lib S) a) (calm_for (cs_lib S) a)"
  unfolding existing_cart_def by (intro calmly_on_error get_shown)

lemma UpdateCartItem_calm:
  assumes J: "json_carts (cl_json (cs_lib S))"
  shows "calmly (cs_lib S) (calm_for (cs_lib S) (uc_user req)) (UpdateCartItem S req) (\<lambda>_. calm_for (cs_lib S) (uc_user req)) (calm_for (cs_lib S) (uc_user req))"
  unfolding UpdateCartItem_def
  by (intro calmly_guard calmly_bind [OF existing_calmly] shown_then
      calmly_bind [OF calmly_on_error [OF UpdateItemQuantity_calmly] set_calm [OF J]]) auto

lemma forget_calm: "calmly L (good L) (seq (DeleteCartFromCache L a) (ret x)) (\<lambda>_. calm_for L a) (calm_for L a)"
  by (rule calmly_seq [OF DeleteCart_calmly calmly_ret])

lemma RemoveCartItem_calm:
  assumes J: "json_carts (cl_json (cs_lib S))"
  shows "calmly (cs_lib S) (calm_for (cs_lib S) (rc_user req)) (RemoveCartItem S req) (\<lambda>_. calm_for (cs_lib S) (rc_user req)) (calm_for (cs_lib S) (rc_user req))"
  unfolding RemoveCartItem_def
  by (intro calmly_guard calmly_bind [OF existing_calmly] shown_then
      calmly_bind [OF calmly_on_error [OF RemoveItem_calmly]] calmly_if set_calm [OF J] calmly_weaken [OF forget_calm]) auto

lemma ClearCart_calm:
  "calmly (cs_lib S) (calm_for (cs_lib S) a) (ClearCart_svc S a) (\<lambda>_. calm_for (cs_lib S) a) (calm_for (cs_lib S) a)"
  unfolding ClearCart_svc_def
proof (intro calmly_guard calmly_bind [OF calmly_attempt [OF get_shown]])
  let ?L = "cs_lib S"
  fix r
  let ?clear = "\<lambda>cart. seq (on_error (ClearCart ?L (cart_id cart)) (wrap ''failed to clear cart items''))
    (bind time_now (\<lambda>now. seq (DeleteCartFromCache ?L a) (ret ((CalculateTotal (cart\<lparr>cart_items := []\<rparr>))\<lparr>cart_updated := now\<rparr>))))"
  have clear: "calmly ?L (shown ?L a cart) (?clear cart) (\<lambda>_. calm_for ?L a) (calm_for ?L a)" for cart
    by (intro shown_then calmly_seq [OF calmly_on_error [OF ClearCart_calmly]] calmly_now forget_calm)
  have forget: "calmly ?L (calm_for ?L a) (seq (DeleteCartFromCache ?L a) (ret x)) (\<lambda>_. calm_for ?L a) (calm_for ?L a)" for x
    by (rule calmly_weaken [OF forget_calm]) auto
  show "calmly ?L (\<lambda>t. case r of Inr x \<Rightarrow> shown ?L a x t | Inl _ \<Rightarrow> calm_for ?L a t)
    (case r of
        Inl er \<Rightarrow>
          if errors_Is er ErrCartNotFound then
            seq (DeleteCartFromCache ?L a)
              (ret \<lparr>cart_id = [], cart_user = a, cart_items = [], cart_total = fzero,
                    cart_created = 0, cart_updated = 0\<rparr>)
          else raise (Internal (Some er) ''failed to retrieve cart'')
      | Inr cart \<Rightarrow> ?clear cart) (\<lambda>_. calm_for ?L a) (calm_for ?L a)"
    using clear forget by (cases r) (auto intro: calmly_raise)
qed auto

lemma ValidateCart_calm:
  assumes "json_carts (cl_json (cs_lib S))"
  shows "calmly (cs_lib S) (calm_for (cs_lib S) a) (ValidateCart S a) (\<lambda>_. calm_for (cs_lib S) a) (calm_for (cs_lib S) a)"
  unfolding ValidateCart_def
  by (intro calmly_guard calmly_bind [OF GetCart_served [OF assms]] calmly_if calmly_call)
    (auto intro!: calmly_ret dest: served_calm split: prod.split)

lemma PrepareCheckout_calm:
  assumes "json_carts (cl_json (cs_lib S))"
  shows "calmly (cs_lib S) (calm_for (cs_lib S) (pq_user req)) (PrepareCheckout S req) (\<lambda>_. calm_for (cs_lib S) (pq_user req)) (calm_for (cs_lib S) (pq_user req))"
  unfolding PrepareCheckout_def
  by (intro calmly_guard calmly_bind [OF ValidateCart_calm [OF assms]] calmly_if calmly_uuid) (auto intro: calmly_ret)

section \<open>Requests without failures\<close>

lemma handle_calm:
  assumes "\<And>r a. req = Some r \<Longrightarrow> validateUserAuth ctx (user r) = Inr a \<Longrightarrow> calmly L P (f r a) (\<lambda>_. P) P"
  shows "calmly L P (void (handle G ctx req user f)) (\<lambda>_. P) P"
proof (cases req)
  case (Some r)
  have "calmly L P (bind (call (validateUserAuth ctx (user r))) (\<lambda>userID. on_error (f r userID) (ToGRPC G))) (\<lambda>_. P) P"
    using assms [OF Some] by (intro calmly_call calmly_on_error) auto
  with Some show ?thesis
    by (simp add: handle_def void_def) (rule calmly_bind, auto intro: calmly_ret)
next
  case None
  then show ?thesis by (auto simp: handle_def void_def intro!: calmly_bind [of L P _ "\<lambda>_. P"] calmly_raise calmly_ret)
qed

lemma then_ret_calm: "calmly L P m (\<lambda>_. Q) E \<Longrightarrow> calmly L P (bind m (\<lambda>x. ret (g x))) (\<lambda>_. Q) E"
  by (erule calmly_bind) (rule calmly_ret)

lemma service_calm:
  assumes "json_carts (cl_json (cs_lib S))"
  shows "ac_user ra = a \<Longrightarrow> calmly (cs_lib S) (calm_for (cs_lib S) a) (AddCartItem S ra) (\<lambda>_. calm_for (cs_lib S) a) (calm_for (cs_lib S) a)"
    "uc_user ru = a \<Longrightarrow> calmly (cs_lib S) (calm_for (cs_lib S) a) (UpdateCartItem S ru) (\<lambda>_. calm_for (cs_lib S) a) (calm_for (cs_lib S) a)"
    "rc_user rr = a \<Longrightarrow> calmly (cs_lib S) (calm_for (cs_lib S) a) (RemoveCartItem S rr) (\<lambda>_. calm_for (cs_lib S) a) (calm_for (cs_lib S) a)"
    "pq_user rp = a \<Longrightarrow> calmly (cs_lib S) (calm_for (cs_lib S) a) (PrepareCheckout S rp) (\<lambda>_. calm_for (cs_lib S) a) (calm_for (cs_lib S) a)"
    "calmly (cs_lib S) (calm_for (cs_lib S) a) (GetCart S a) (\<lambda>_. calm_for (cs_lib S) a) (calm_for (cs_lib S) a)"
    "calmly (cs_lib S) (calm_for (cs_lib S) a) (ClearCart_svc S a) (\<lambda>_. calm_for (cs_lib S) a) (calm_for (cs_lib S) a)"
    "calmly (cs_lib S) (calm_for (cs_lib S) a) (ValidateCart S a) (\<lambda>_. calm_for (cs_lib S) a) (calm_for (cs_lib S) a)"
  using AddCartItem_calm [OF assms, of ra] UpdateCartItem_calm [OF assms, of ru] RemoveCartItem_calm [OF assms, of rr]
    PrepareCheckout_calm [OF assms, of rp] calmly_weaken [OF GetCart_served [OF assms, of a] _ served_calm]
  by (auto simp: ClearCart_calm ValidateCart_calm [OF assms])

lemma serve_cart_calm:
  assumes "json_carts (cl_json (cs_lib S))"
  shows "calmly (cs_lib S) (calm_for (cs_lib S) (acts_for ctx r)) (serve_cart S ctx r)
    (\<lambda>_. calm_for (cs_lib S) (acts_for ctx r)) (calm_for (cs_lib S) (acts_for ctx r))"
  by (cases r) (auto simp: rpc_defs acts_for_def intro!: handle_calm then_ret_calm service_calm [OF assms])

lemma cart_reach_calm:
  assumes J: "json_carts (cl_json L)" and "cart_reach L (calm L) t"
  shows "good L t \<and> coh L u t"
  using assms(2)
proof (induction arbitrary: u rule: cart_reach.induct)
  case none
  show ?case using empty_carts_inv by (simp add: good_def ids_ok_def coh_def empty_carts_def)
next
  case (serve w e S ctx r x w')
  let ?a = "acts_for ctx r" and ?L = "cs_lib S"
  note L = serve.hyps(4)
  note run = serve.hyps(2) [folded L] serve.hyps(3) and old = serve.IH [folded L]
  have inv: "cart_inv (tabs w)" using old by (auto simp: good_def)
  have own: "calm_for ?L ?a (tabs w')"
    using calmlyD [OF serve_cart_calm [OF J [folded L]] run(1) _ run(2)] old by (cases x) auto
  have sp: "spares ?a (tabs w) (tabs w')" by (rule alwaysD [OF serve_cart_spares spares_refl [OF inv] run(2)])
  show ?case
  proof (cases "u = ?a")
    case False
    with sp have "coh ?L u (tabs w') = coh ?L u (tabs w)" by (intro coh_mine) (auto simp: spares_def inv)
    with own old L show ?thesis by simp
  qed (use own L in simp)
qed

end
