(* ===== verification/Cart_Codec.thy ===== *)
theory Cart_Codec
  imports Cart_Cache "HOL-Library.Countable"
begin

text \<open>
  A notation for carts with the properties the service relies on: carts are countable, and
  the notation is the number of the cart in decimal digits. It shows that the hypothesis
  \<^const>\<open>json_carts\<close> can be met.
\<close>

lemma digit_val_char: "d < 10 \<Longrightarrow> digit_val (digit_char d) = Some (int d)"
  by (simp add: digit_val_def digit_char_def Let_def)

lemma digits_val_snoc:
  "digits_val n (s @ [c]) = (case digits_val n s of None \<Rightarrow> None | Some m \<Rightarrow> digits_val m [c])"
  by (induction s arbitrary: n) (auto split: option.split)

lemma digits_val_nat_str: "digits_val 0 (nat_str n) = Some (int n)"
proof (induction n rule: nat_str.induct)
  case (1 n)
  show ?case
  proof (cases "n < 10")
    case False
    have "10 * int (n div 10) + int (n mod 10) = int n" by presburger
    with 1 False show ?thesis by (simp add: nat_str.simps [of n] digits_val_snoc digit_val_char)
  qed (simp add: nat_str.simps [of n] digit_val_char)
qed

instance f64 :: countable
  by countable_datatype

instance CartItem_ext :: (countable) countable
proof (rule countable_classI)
  let ?n = "\<lambda>x :: 'a CartItem_ext. to_nat (it_id x, it_cart x, it_product x, it_variant x, it_store x, it_quantity x, it_price x,
    it_created x, it_updated x, CartItem.more x)"
  show "?n x = ?n y \<Longrightarrow> x = y" for x y by simp
qed

instance Cart_ext :: (countable) countable
proof (rule countable_classI)
  let ?n = "\<lambda>x :: 'a Cart_ext. to_nat (cart_id x, cart_user x, cart_items x, cart_total x, cart_created x, cart_updated x, Cart.more x)"
  show "?n x = ?n y \<Longrightarrow> x = y" for x y by simp
qed

definition cart_codec :: "Cart codec" where
  "cart_codec =
     \<lparr>marshal = (\<lambda>c. if finite_cart c then Inr (nat_str (to_nat c)) else Inl (ErrorString ''json: unsupported value'')),
      unmarshal = (\<lambda>s. case digits_val 0 s of None \<Rightarrow> Inl (ErrorString ''invalid character'') | Some n \<Rightarrow> Inr (from_nat (nat n)))\<rparr>"

lemma cart_codec_ok: "json_carts cart_codec"
  by (simp add: json_carts_def cart_codec_def digits_val_nat_str)

end
