(* ===== verification/Cart_Props.thy ===== *)
theory Cart_Props
  imports Cart_Cache Cart_Codec Checkout_Props
begin

text \<open>
  The properties of the cart service: the tables stay well formed, the operations refine an
  abstract cart, users are isolated, the cache follows the tables while nothing fails, the
  prepared orders cover the cart.
\<close>

section \<open>A sample service\<close>

definition desk_lib :: "Cart codec \<Rightarrow> cart_lib" where
  "desk_lib J = \<lparr>cl_db = True, cl_redis = True, cl_uuid = (\<lambda>s. s \<noteq> []), cl_decimal = Some, cl_json = J\<rparr>"

definition desk_product :: VariantProductPb where
  "desk_product = \<lparr>pb_status = ''PUBLISHED'', pb_price = Fin 5, pb_sku = [], pb_name = [], pb_store = ''s1'', pb_tax = Fin 0,
     pb_variants = [\<lparr>pv_id = ''v1'', pv_price = Fin 8\<rparr>]\<rparr>"

definition desk :: "Cart codec \<Rightarrow> cart_svc" where
  "desk J = \<lparr>cs_lib = desk_lib J, cs_grpc = \<lparr>from_error = (\<lambda>_. None), status_text = (\<lambda>_ m. m)\<rparr>, cs_ttl = cart_ttl 0,
     cs_product = Some (\<lambda>_. Inr (Some desk_product)), cs_stock = Some (\<lambda>_. Inr (Some 9)), cs_map_order = rev,
     cs_rfc3339 = (\<lambda>_. [])\<rparr>"

definition desk_env :: "nat list \<Rightarrow> env" where
  "desk_env bad = \<lparr>fault = (\<lambda>n. n \<in> set bad), uuid_at = (\<lambda>n. ''id'' @ nat_str n), clock = 7, broker = (\<lambda>_. Acked),
     ctx_done = (\<lambda>_. False)\<rparr>"

definition desk_world :: "cart_tables \<Rightarrow> cart_tables world" where
  "desk_world t = \<lparr>tabs = t, aborted = False, nstmt = 0, nuuid = 0, nsend = 0, sent = []\<rparr>"

definition desk_ctx :: call_ctx where
  "desk_ctx = \<lparr>ctx_auth_user = Some ''u1'', ctx_log_user = None, ctx_meta_user = None\<rparr>"

definition desk_add :: "string \<Rightarrow> int \<Rightarrow> cart_request" where
  "desk_add v q = ReqAdd (Some \<lparr>ap_user = ''u1'', ap_product = ''p1'', ap_variant = v, ap_store = [], ap_price = fzero, ap_quantity = q\<rparr>)"

text \<open>A notation that drops the cart, for the runs in which the cache is not read.\<close>

definition blind :: "Cart codec" where
  "blind = \<lparr>marshal = (\<lambda>c. Inr (itoa (int (length (cart_items c))))), unmarshal = (\<lambda>_. Inl (ErrorString ''no cart''))\<rparr>"

definition desk_run :: "(go_error + unit) \<times> cart_tables world" where
  "desk_run = serve_cart (desk blind) desk_ctx (desk_add ''v1'' 2) (desk_env []) (desk_world empty_carts)"

lemma desk_run_eval:
  "map (\<lambda>it. (it_cart it, it_product it, it_variant it, it_quantity it)) (item_rows (tabs (snd desk_run))) = [(''id0'', ''p1'', Some ''v1'', 2)]"
  "map (\<lambda>r. (cr_id r, cr_user r)) (cart_rows (tabs (snd desk_run))) = [(''id0'', ''u1'')]"
  by code_simp+

lemma desk_reach: "cart_reach (cs_lib (desk blind)) (\<lambda>_. True) (tabs (snd desk_run))"
  by (rule cart_reach.serve [OF _ _ prod.collapse [symmetric, of desk_run, unfolded desk_run_def], folded desk_run_def])
    (simp_all add: desk_world_def cart_reach.none)

section \<open>Properties\<close>

text \<open>
  C20. Whatever is requested and whatever fails, the cart tables are well formed: a user has at
  most one cart, a cart at most one line per product and variant, every line belongs to a
  cart, its quantity is a positive 32-bit integer, and its price is not negative.
\<close>

theorem carts_are_well_formed:
  assumes "cart_reach L E t"
  shows "distinct (map cr_id (cart_rows t)) \<and> distinct (map cr_user (cart_rows t)) \<and>
    distinct (map (\<lambda>it. (it_cart it, it_product it, it_variant it)) (item_rows t)) \<and>
    (\<forall>it \<in> set (item_rows t). it_cart it \<in> cr_id ` set (cart_rows t) \<and> 0 < it_quantity it \<and> it_quantity it < 2 ^ 31 \<and>
       price_ok (it_price it) \<and> it_variant it \<noteq> Some [] \<and> it_variant it \<noteq> Some nil_uuid)"
proof -
  have inv: "cart_inv t" using assms by (rule cart_reach_inv)
  have "it_variant it \<noteq> Some [] \<and> it_variant it \<noteq> Some nil_uuid" if "item_ok it" for it
    using that by (auto simp: item_ok_def given_uuid_def split: option.splits if_splits)
  with inv show ?thesis
    by (auto simp: cart_inv_def items_ok_def item_ok_def int4_def line_key_def [abs_def])
qed

theorem carts_are_well_formed_witness:
  "item_rows (tabs (snd desk_run)) \<noteq> [] \<and> distinct (map cr_user (cart_rows (tabs (snd desk_run)))) \<and>
   list_all (\<lambda>it. 0 < it_quantity it) (item_rows (tabs (snd desk_run)))"
proof -
  have "item_rows (tabs (snd desk_run)) \<noteq> []" using desk_run_eval(1) by auto
  with carts_are_well_formed [OF desk_reach] show ?thesis by (simp add: list_all_iff)
qed

text \<open>
  C21. The service refines the abstract cart, which counts pieces per product and variant: a
  successful request changes the map of its user as adding, setting, removing or clearing says,
  and the map of no other user.
\<close>

theorem cart_requests_refine:
  assumes "cart_inv (tabs w)" and "int4 (ac_quantity ra)"
  shows "(AddCartItem S ra e w = (Inr c, w') \<longrightarrow>
      abs_cart (tabs w') = abs_add (ac_user ra) (ac_product ra, given_uuid (ac_variant ra)) (ac_quantity ra) (abs_cart (tabs w))) \<and>
    (UpdateCartItem S ru e w = (Inr c, w') \<longrightarrow>
      abs_cart (tabs w') = abs_set (uc_user ru) (uc_product ru, given_uuid (uc_variant ru)) (uc_quantity ru) (abs_cart (tabs w))) \<and>
    (RemoveCartItem S rr e w = (Inr c, w') \<longrightarrow>
      abs_cart (tabs w') = abs_remove (rc_user rr) (rc_product rr, given_uuid (rc_variant rr)) (abs_cart (tabs w))) \<and>
    (ClearCart_svc S u e w = (Inr c, w') \<longrightarrow> abs_cart (tabs w') = abs_clear u (abs_cart (tabs w)))"
proof -
  note start = spares_refl [OF assms(1)] and abs = abs_spares [OF assms(1)]
  have add: "abs_cart (tabs w') = abs_add (ac_user ra) (ac_product ra, given_uuid (ac_variant ra)) (ac_quantity ra) (abs_cart (tabs w))"
    if "AddCartItem S ra e w = (Inr c, w')"
    unfolding abs_add_def by (rule abs [OF alwaysD [OF AddCartItem_spares start that] AddCartItem_abs [OF assms that]])
  have set: "abs_cart (tabs w') = abs_set (uc_user ru) (uc_product ru, given_uuid (uc_variant ru)) (uc_quantity ru) (abs_cart (tabs w))"
    if "UpdateCartItem S ru e w = (Inr c, w')"
    unfolding abs_set_def
    by (rule abs [OF alwaysD [OF UpdateCartItem_spares start that] conjunct1 [OF UpdateCartItem_abs [OF assms(1) that]]])
  have rem: "abs_cart (tabs w') = abs_remove (rc_user rr) (rc_product rr, given_uuid (rc_variant rr)) (abs_cart (tabs w))"
    if "RemoveCartItem S rr e w = (Inr c, w')"
    unfolding abs_remove_def
    by (rule abs [OF alwaysD [OF RemoveCartItem_spares start that] conjunct1 [OF RemoveCartItem_abs [OF assms(1) that]]])
  have clear: "abs_cart (tabs w') = abs_clear u (abs_cart (tabs w))" if "ClearCart_svc S u e w = (Inr c, w')"
    unfolding abs_clear_def by (rule abs [OF alwaysD [OF ClearCart_svc_spares start that] ClearCart_abs [OF assms(1) that]])
  from add set rem clear show ?thesis by blast
qed

definition desk_again :: "(go_error + Cart) \<times> cart_tables world" where
  "desk_again = AddCartItem (desk blind) \<lparr>ac_user = ''u1'', ac_product = ''p1'', ac_variant = Some ''v1'', ac_store = None,
     ac_price = fzero, ac_quantity = 3\<rparr> (desk_env []) (desk_world (tabs (snd desk_run)))"

theorem cart_requests_refine_witness:
  "\<not> isl (fst desk_again) \<and> abs_cart (tabs (snd desk_again)) ''u1'' (''p1'', Some ''v1'') = Some 5"
proof -
  have ok: "\<not> isl (fst desk_again)" by code_simp
  then obtain c where "fst desk_again = Inr c" by (cases "fst desk_again") auto
  then have c: "desk_again = (Inr c, snd desk_again)" by (simp add: prod_eq_iff)
  let ?w = "desk_world (tabs (snd desk_run))"
  have inv: "cart_inv (tabs ?w)" using cart_reach_inv [OF desk_reach] by (simp add: desk_world_def)
  have "abs_cart (tabs ?w) ''u1'' (''p1'', Some ''v1'') = Some 2" by code_simp
  moreover have "given_uuid (Some ''v1'') = Some ''v1''" by code_simp
  ultimately show ?thesis
    using cart_requests_refine [OF inv, of "\<lparr>ac_user = ''u1'', ac_product = ''p1'', ac_variant = Some ''v1'', ac_store = None,
     ac_price = fzero, ac_quantity = 3\<rparr>" "desk blind" "desk_env []" c "snd desk_again"] c ok
    by (simp add: desk_again_def abs_add_def int4_def)
qed

text \<open>
  C22. An authenticated caller reaches only its own cart: whatever it requests and whatever
  fails, the cart, the lines and the cache entry of every other user stay as they were.
\<close>

theorem users_are_isolated:
  assumes "cart_reach L E (tabs w)" and "GetUserID ctx \<noteq> []" and "u \<noteq> GetUserID ctx"
    and run: "serve_cart S ctx r e w = (x, w')"
  shows "mine u (tabs w') = mine u (tabs w)"
proof -
  have inv: "cart_inv (tabs w)" using assms(1) by (rule cart_reach_inv)
  have auth: "acts_for ctx r \<in> {[], GetUserID ctx}"
    using assms(2) by (auto simp: acts_for_def validateUserAuth_def Let_def split: option.splits)
  show ?thesis
  proof (cases "acts_for ctx r = []")
    case True
    have "validateUserAuth ctx v \<noteq> Inr []" for v by (auto simp: validateUserAuth_def Let_def)
    with True have "always (\<lambda>t. t = tabs w) (serve_cart S ctx r)"
      by (cases r) (auto simp: rpc_defs acts_for_def intro!: handle_spares split: option.splits sum.splits)
    from alwaysD [OF this _ run] show ?thesis by simp
  next
    case False
    with auth assms(3) sparesD(2) [OF alwaysD [OF serve_cart_spares spares_refl [OF inv] run]] show ?thesis by auto
  qed
qed

theorem users_are_isolated_witness:
  "mine ''u2'' (tabs (snd (serve_cart (desk blind) desk_ctx (ReqClear (Some ''u1'')) (desk_env []) (desk_world (tabs (snd desk_run)))))) =
     mine ''u2'' (tabs (snd desk_run)) \<and>
   fst (serve_cart (desk blind) desk_ctx (ReqClear (Some ''u2'')) (desk_env []) (desk_world (tabs (snd desk_run)))) =
     Inl (StatusError GPermissionDenied (''user cannot access another user'' @ [CHR 0x27] @ ''s cart''))"
proof -
  have "GetUserID desk_ctx = ''u1''" by code_simp
  moreover have "cart_reach (cs_lib (desk blind)) (\<lambda>_. True) (tabs (desk_world (tabs (snd desk_run))))"
    using desk_reach by (simp add: desk_world_def)
  ultimately have "mine ''u2'' (tabs (snd (serve_cart (desk blind) desk_ctx (ReqClear (Some ''u1'')) (desk_env []) (desk_world (tabs (snd desk_run)))))) =
      mine ''u2'' (tabs (desk_world (tabs (snd desk_run))))"
    by (intro users_are_isolated [OF _ _ _ prod.collapse [symmetric]]) simp_all
  moreover have "fst (serve_cart (desk blind) desk_ctx (ReqClear (Some ''u2'')) (desk_env []) (desk_world (tabs (snd desk_run)))) =
     Inl (StatusError GPermissionDenied (''user cannot access another user'' @ [CHR 0x27] @ ''s cart''))"
    by (simp add: ClearCart_rpc_def handle_def void_def validateUserAuth_def \<open>GetUserID desk_ctx = _\<close> call_def bind_def raise_def)
  ultimately show ?thesis by (simp add: desk_world_def)
qed







text \<open>
  Adding to a line never overflows: where the sum of the quantities does not fit into 32
  bits, the sum that wraps around is negative, the table refuses it, and the request fails
  without a change.
\<close>

theorem cart_quantity_overflow_is_refused:
  assumes inv: "cart_inv (tabs w)" and own: "owns a i (tabs w)"
    and old: "find (same_line i (it_product item) (given_uuid (it_variant item))) (item_rows (tabs w)) = Some old"
    and "0 < it_quantity item" and "int4 (it_quantity item)" and big: "2 ^ 31 \<le> it_quantity old + it_quantity item"
  shows "\<exists>er w'. AddOrUpdateItem L i item e w = (Inl er, w') \<and> tabs w' = tabs w"
proof -
  have ok: "items_ok (cr_id ` set (cart_rows (tabs w))) (item_rows (tabs w))" using inv by (simp add: cart_inv_def)
  have wraps: "\<not> 0 < to_int32 (it_quantity old + it_quantity item)"
    using to_int32_add [of "it_quantity old" "it_quantity item"] qty_Some [OF ok old] assms(4-6) by (auto simp: int4_def)
  have refused: "add_line L i item e w1 \<noteq> (Inr x, w2)" if "tabs w1 = tabs w" for w1 x w2
  proof
    assume run: "add_line L i item e w1 = (Inr x, w2)"
    have "items_ok (cr_id ` set (cart_rows (tabs w1))) (item_rows (tabs w1))" using ok that by simp
    from this run show False by (cases rule: add_line_cases) (use old wraps that in auto)
  qed
  obtain r w1 where tx: "with_tx (WrapError ''failed to begin transaction: '') (WrapError ''failed to commit transaction: '')
      (add_line L i item) e w = (r, w1)" by fastforce
  have "\<exists>er. r = Inl er"
  proof (cases r)
    case (Inr x)
    from tx [unfolded Inr] show ?thesis by (cases rule: with_tx_ok) (use refused in fastforce)+
  qed simp
  then obtain er where r: "r = Inl er" ..
  with tx have same: "tabs w1 = tabs w" using atomicD [OF with_tx_atomic] by blast
  show ?thesis
  proof (cases "cl_db L")
    case True
    with tx r same show ?thesis
      by (auto simp: AddOrUpdateItem_def pool_ready_def require_def seq_def bind_def ret_def)
  qed (auto simp: AddOrUpdateItem_def pool_ready_def require_def seq_def bind_def raise_def)
qed

definition desk_more :: CartItem where
  "desk_more = \<lparr>it_id = [], it_cart = ''id0'', it_product = ''p1'', it_variant = Some ''v1'', it_store = None, it_quantity = 2147483646,
     it_price = Fin 8, it_created = 0, it_updated = 0\<rparr>"

theorem cart_quantity_overflow_is_refused_witness:
  "\<exists>er w'. AddOrUpdateItem (desk_lib blind) ''id0'' desk_more (desk_env []) (desk_world (tabs (snd desk_run))) = (Inl er, w') \<and>
     tabs w' = tabs (snd desk_run)"
proof -
  let ?w = "desk_world (tabs (snd desk_run))"
  have w: "tabs ?w = tabs (snd desk_run)" by (simp add: desk_world_def)
  have inv: "cart_inv (tabs ?w)" using cart_reach_inv [OF desk_reach] w by simp
  have "set (map (\<lambda>r. (cr_id r, cr_user r)) (cart_rows (tabs ?w))) = {(''id0'', ''u1'')}"
    unfolding w desk_run_eval(2) by simp
  then have "(''id0'', ''u1'') \<in> (\<lambda>r. (cr_id r, cr_user r)) ` set (cart_rows (tabs ?w))" by simp
  then have own: "owns ''u1'' ''id0'' (tabs ?w)" unfolding owns_def by (elim imageE) (metis prod.inject)
  have "map_option it_quantity (find (same_line ''id0'' (it_product desk_more) (given_uuid (it_variant desk_more))) (item_rows (tabs ?w))) = Some 2"
    by code_simp
  then obtain old where old: "find (same_line ''id0'' (it_product desk_more) (given_uuid (it_variant desk_more))) (item_rows (tabs ?w)) = Some old"
    "it_quantity old = 2" by auto
  have q: "it_quantity desk_more = 2147483646" by (simp add: desk_more_def)
  from cart_quantity_overflow_is_refused [OF inv own old(1), of "desk_lib blind" "desk_env []"] old(2) q
  show ?thesis by (simp add: int4_def w)
qed

lemma check_product_ok:
  assumes "check_line_product S it = Inr (True, it1, errs)"
  shows "errs = [] \<and> (it_product it1, it_variant it1, it_quantity it1) = (it_product it, it_variant it, it_quantity it) \<and>
    (\<exists>get pr. cs_product S = Some get \<and> get (it_product it) = Inr (Some pr) \<and> ToUpper (TrimSpace (pb_status pr)) \<in> {''PUBLISHED'', ''IN_STOCK''})"
  using assms
  by (auto simp: check_line_product_def reject_def priced_line_def Let_def split: option.splits sum.splits if_splits)

lemma check_line_stock_ok:
  assumes "check_line_stock S it = Inr (True, errs)"
  shows "errs = [] \<and> (\<forall>get. cs_stock S = Some get \<longrightarrow> (\<exists>n. get (it_product it) = Inr (Some n) \<and> it_quantity it \<le> n))"
  using assms by (auto simp: check_line_stock_def split: option.splits sum.splits if_splits)

definition sold_line :: "cart_svc \<Rightarrow> CartItem \<Rightarrow> bool" where
  "sold_line S it \<longleftrightarrow>
     (\<exists>get pr. cs_product S = Some get \<and> get (it_product it) = Inr (Some pr) \<and> ToUpper (TrimSpace (pb_status pr)) \<in> {''PUBLISHED'', ''IN_STOCK''}) \<and>
     (\<forall>get. cs_stock S = Some get \<longrightarrow> (\<exists>n. get (it_product it) = Inr (Some n) \<and> it_quantity it \<le> n))"

lemma validate_items_ok:
  "validate_items S its = Inr (True, its1, errs) \<Longrightarrow> errs = [] \<and> list_all (sold_line S) its1 \<and>
     map (\<lambda>it. (it_product it, it_variant it, it_quantity it)) its1 = map (\<lambda>it. (it_product it, it_variant it, it_quantity it)) its"
proof (induction its arbitrary: its1 errs)
  case (Cons it its)
  from Cons.prems obtain it1 e1 e2 its2 e3 where
    a: "check_line_product S it = Inr (True, it1, e1)" "check_line_stock S it1 = Inr (True, e2)" "validate_items S its = Inr (True, its2, e3)"
      "its1 = it1 # its2" "errs = e1 @ e2 @ e3"
    by (auto split: sum.splits)
  from check_product_ok [OF a(1)] check_line_stock_ok [OF a(2)] Cons.IH [OF a(3)] a(4,5) show ?case
    by (simp add: sold_line_def)
qed simp

text \<open>
  C26. A checkout that is prepared as valid covers the cart: the payloads, one per store, hold
  exactly the lines of the cart, each with the store it is sold by; every product was found in
  a status that is sold, and its stock covers the line.
\<close>

theorem prepared_checkout_covers_cart:
  assumes perm: "\<And>xs. mset (cs_map_order S xs) = mset xs" and run: "PrepareCheckout S req e w = (Inr p, w')" and valid: "pr_valid p"
  shows "\<exists>cart w1. GetCart S (pq_user req) e w = (Inr cart, w1) \<and> pr_errors p = [] \<and> distinct (map so_store (pr_orders p)) \<and>
    mset (map (\<lambda>it. (it_product it, it_variant it, it_quantity it)) (concat (map so_items (pr_orders p)))) =
      mset (map (\<lambda>it. (it_product it, it_variant it, it_quantity it)) (cart_items cart)) \<and>
    list_all (\<lambda>o1. so_user o1 = pq_user req \<and> so_parent o1 = pr_parent p \<and> so_total o1 = lines_total (so_items o1) \<and>
      list_all (\<lambda>it. group_store it = so_store o1 \<and> sold_line S it) (so_items o1)) (pr_orders p)"
proof -
  from run valid obtain v w1 parent where v: "ValidateCart S (pq_user req) e w = (Inr v, w1)" "vr_valid v"
    and p: "p = \<lparr>pr_valid = True, pr_parent = parent, pr_orders = map (order_payload parent req) (vr_groups v), pr_errors = []\<rparr>"
    unfolding PrepareCheckout_def by (auto simp: run_ok split: if_splits)
  from v obtain cart its w2 where cart: "GetCart S (pq_user req) e w = (Inr cart, w2)"
    and its: "validate_items S (cart_items cart) = Inr (True, its, vr_errors v)"
    and g: "vr_groups v = map (store_group its) (cs_map_order S (remdups (map group_store its)))"
    unfolding ValidateCart_def by (auto simp: run_ok split: if_splits)
  note ok = validate_items_ok [OF its]
  let ?ss = "cs_map_order S (remdups (map group_store its))"
  have "concat (map so_items (pr_orders p)) = concat (map (\<lambda>s. filter (\<lambda>it. group_store it = s) its) ?ss)"
    by (simp add: p g order_payload_def store_group_def Let_def comp_def)
  then have all: "mset (concat (map so_items (pr_orders p))) = mset its"
    using groups_cover(3) [OF perm] by simp
  have "mset (map (\<lambda>it. (it_product it, it_variant it, it_quantity it)) (concat (map so_items (pr_orders p)))) =
      mset (map (\<lambda>it. (it_product it, it_variant it, it_quantity it)) its)"
    unfolding mset_map all ..
  then have "mset (map (\<lambda>it. (it_product it, it_variant it, it_quantity it)) (concat (map so_items (pr_orders p)))) =
      mset (map (\<lambda>it. (it_product it, it_variant it, it_quantity it)) (cart_items cart))"
    using ok by simp
  moreover have "distinct ?ss" by (rule groups_cover(1) [OF perm])
  then have "distinct (map so_store (pr_orders p))" by (simp add: p g order_payload_def store_group_def Let_def comp_def)
  moreover have "list_all (\<lambda>o1. so_user o1 = pq_user req \<and> so_parent o1 = pr_parent p \<and> so_total o1 = lines_total (so_items o1) \<and>
      list_all (\<lambda>it. group_store it = so_store o1 \<and> sold_line S it) (so_items o1)) (pr_orders p)"
    using ok by (simp add: p g order_payload_def store_group_def Let_def list_all_iff)
  moreover have "pr_errors p = []" by (simp add: p)
  ultimately show ?thesis using cart by blast
qed

definition desk_prepared :: "(go_error + PrepareCheckoutResponse) \<times> cart_tables world" where
  "desk_prepared = PrepareCheckout (desk blind) \<lparr>pq_user = ''u1'', pq_address = ''street''\<rparr> (desk_env []) (desk_world (tabs (snd desk_run)))"

theorem prepared_checkout_covers_cart_witness:
  "\<exists>p. fst desk_prepared = Inr p \<and> pr_errors p = [] \<and> length (pr_orders p) = 1 \<and>
     list_all (\<lambda>o1. list_all (sold_line (desk blind)) (so_items o1)) (pr_orders p)"
proof -
  have "isl (fst desk_prepared) = False" by code_simp
  then obtain p where p: "fst desk_prepared = Inr p" by (cases "fst desk_prepared") auto
  have "map_sum id (\<lambda>p. (pr_valid p, length (pr_orders p))) (fst desk_prepared) = Inr (True, 1)" by code_simp
  with p have ok: "pr_valid p" "length (pr_orders p) = 1" by auto
  have run: "PrepareCheckout (desk blind) \<lparr>pq_user = ''u1'', pq_address = ''street''\<rparr> (desk_env []) (desk_world (tabs (snd desk_run))) =
      (Inr p, snd desk_prepared)" using p by (simp add: desk_prepared_def prod_eq_iff)
  have perm: "mset (cs_map_order (desk blind) xs) = mset xs" for xs by (simp add: desk_def)
  from prepared_checkout_covers_cart [OF perm run ok(1)] p ok(2) show ?thesis by (auto simp: list_all_iff)
qed

text \<open>
  The order service does not know variants: the cart prices a line at the price of its
  variant, but the line of the order made from the same cart and the same product has the
  price of the product.
\<close>

theorem checkout_ignores_variants:
  assumes "product_get T = Some get" and "get (it_product it) = Inr (Some (ProductPb.truncate pr))"
    and "it_variant it = Some v" and "find_variant pr v = Some vr" and "flt fzero (pv_price vr)"
    and "enrich T \<lparr>ck_product = pi_product (item_pb it), ck_store = pi_store (item_pb it), ck_quantity = pi_quantity (item_pb it)\<rparr> = Inr line"
  shows "price_for pr (it_variant it) = Inr (pv_price vr) \<and> ei_unit_price line = pb_price pr"
proof
  show "price_for pr (it_variant it) = Inr (pv_price vr)" using assms(3-5) by (simp add: price_for_def variant_price_def)
  show "ei_unit_price line = pb_price pr"
    using assms(1,2,6)
    by (auto simp: enrich_def describe_def item_pb_def priced_def price_item_def ProductPb.truncate_def Let_def split: if_splits option.splits)
qed

definition desk_line :: CartItem where
  "desk_line = \<lparr>it_id = ''i1'', it_cart = ''id0'', it_product = ''product1'', it_variant = Some ''v1'', it_store = Some ''s1'', it_quantity = 1,
     it_price = Fin 8, it_created = 7, it_updated = 7\<rparr>"

theorem checkout_ignores_variants_witness:
  "price_for desk_product (Some ''v1'') = Inr (Fin 8) \<and>
   ei_unit_price (projr (enrich (shop\<lparr>product_get := Some (\<lambda>_. Inr (Some (ProductPb.truncate desk_product)))\<rparr>)
     \<lparr>ck_product = ''product1'', ck_store = ''s1'', ck_quantity = 1\<rparr>)) = Fin 5"
proof -
  let ?T = "shop\<lparr>product_get := Some (\<lambda>_. Inr (Some (ProductPb.truncate desk_product)))\<rparr>"
  let ?it = "\<lparr>ck_product = ''product1'', ck_store = ''s1'', ck_quantity = 1\<rparr>"
  have "isl (enrich ?T ?it) = False" by code_simp
  then obtain line where line: "enrich ?T ?it = Inr line" by (cases "enrich ?T ?it") auto
  have it: "\<lparr>ck_product = pi_product (item_pb desk_line), ck_store = pi_store (item_pb desk_line), ck_quantity = pi_quantity (item_pb desk_line)\<rparr> = ?it"
    by (simp add: item_pb_def desk_line_def deref_def)
  have "product_get ?T = Some (\<lambda>_. Inr (Some (ProductPb.truncate desk_product)))" "it_variant desk_line = Some ''v1''"
    "find_variant desk_product ''v1'' = Some \<lparr>pv_id = ''v1'', pv_price = Fin 8\<rparr>" "pb_price desk_product = Fin 5"
    by (simp_all add: desk_line_def find_variant_def desk_product_def)
  with checkout_ignores_variants [of ?T _ desk_line desk_product "''v1''" "\<lparr>pv_id = ''v1'', pv_price = Fin 8\<rparr>" line] line it
  show ?thesis by simp
qed

end
