(* ===== verification/Delivery_Model.thy ===== *)
theory Delivery_Model
  imports Life_Cycles Outbox_Insert
begin

text \<open>
  The data model of the delivery service (\<open>services/delivery-service/internal/model\<close>:
  \<open>delivery.go\<close>, \<open>warehouse.go\<close>, \<open>address.go\<close>) and the rules for the time in transit
  (\<open>internal/service/transit.go\<close>). Times are in nanoseconds, with 0 for the zero value. What
  \<open>json.Unmarshal\<close> makes of the text of an address is a parameter.
\<close>

section \<open>Data\<close>

record ShippingAddress =
  ad_street :: string
  ad_city :: string
  ad_state :: string
  ad_postal :: string
  ad_country :: string
  ad_contact :: string

definition no_address :: ShippingAddress where
  "no_address = \<lparr>ad_street = [], ad_city = [], ad_state = [], ad_postal = [], ad_country = [], ad_contact = []\<rparr>"

record Delivery =
  dl_id :: string
  dl_order :: string
  dl_partner :: string
  dl_tracking :: string
  dl_address :: ShippingAddress
  dl_address_id :: string
  dl_status :: status
  dl_estimated :: "int option"
  dl_actual :: "int option"
  dl_created :: int
  dl_updated :: int

record Warehouse =
  wh_id :: string
  wh_partner :: string
  wh_name :: string
  wh_code :: string
  wh_street :: string
  wh_city :: string
  wh_state :: string
  wh_postal :: string
  wh_active :: bool
  wh_created :: int
  wh_updated :: int

definition approval_statuses :: "string list" where
  "approval_statuses = [''PENDING'', ''APPROVED'', ''REJECTED'', ''APPEALED'']"

record DeliveryPartnerProfile =
  pp_id :: string
  pp_partner :: string
  pp_company :: string
  pp_email :: string
  pp_contact :: string
  pp_gstin :: "string option"
  pp_verified :: bool
  pp_active :: bool
  pp_approval :: string
  pp_rejection :: "string option"
  pp_appeal :: "string option"
  pp_deactivation :: "string option"
  pp_deletion :: "string option"
  pp_appealed_at :: "int option"
  pp_deactivated_at :: "int option"
  pp_deleted_at :: "int option"
  pp_created :: int
  pp_updated :: int

section \<open>Addresses\<close>

text \<open>\<open>strings.Split\<close> at a character.\<close>

fun split_at :: "char \<Rightarrow> string \<Rightarrow> string list" where
  "split_at c [] = [[]]"
| "split_at c (x # xs) =
     (if x = c then [] # split_at c xs
      else case split_at c xs of [] \<Rightarrow> [[x]] | t # ts \<Rightarrow> (x # t) # ts)"

definition is_digit :: "char \<Rightarrow> bool" where
  "is_digit c \<longleftrightarrow> 48 \<le> (of_char c :: nat) \<and> (of_char c :: nat) \<le> 57"

definition is_upper :: "char \<Rightarrow> bool" where
  "is_upper c \<longleftrightarrow> 65 \<le> (of_char c :: nat) \<and> (of_char c :: nat) \<le> 90"

text \<open>Five or six digits, and four more after a hyphen.\<close>

definition postalCodeRegex :: "string \<Rightarrow> bool" where
  "postalCodeRegex s \<longleftrightarrow>
     (let n = length (takeWhile is_digit s); rest = dropWhile is_digit s in
      (n = 5 \<or> n = 6) \<and>
      (rest = [] \<or> (length rest = 5 \<and> hd rest = CHR ''-'' \<and> list_all is_digit (tl rest))))"

definition knownStates :: "(string \<times> string) list" where
  "knownStates =
     [(''tamil nadu'', ''Tamil Nadu''), (''tamilnadu'', ''Tamil Nadu''), (''tn'', ''Tamil Nadu''),
      (''kerala'', ''Kerala''), (''kl'', ''Kerala''), (''karnataka'', ''Karnataka''), (''ka'', ''Karnataka''),
      (''andhra pradesh'', ''Andhra Pradesh''), (''ap'', ''Andhra Pradesh''),
      (''telangana'', ''Telangana''), (''ts'', ''Telangana''),
      (''maharashtra'', ''Maharashtra''), (''mh'', ''Maharashtra''), (''delhi'', ''Delhi''), (''dl'', ''Delhi''),
      (''gujarat'', ''Gujarat''), (''gj'', ''Gujarat''), (''rajasthan'', ''Rajasthan''), (''rj'', ''Rajasthan''),
      (''uttar pradesh'', ''Uttar Pradesh''), (''up'', ''Uttar Pradesh''),
      (''west bengal'', ''West Bengal''), (''wb'', ''West Bengal''),
      (''punjab'', ''Punjab''), (''pb'', ''Punjab''), (''haryana'', ''Haryana''), (''hr'', ''Haryana''),
      (''wa'', ''WA''), (''washington'', ''WA''), (''ca'', ''CA''), (''california'', ''CA''),
      (''ny'', ''NY''), (''new york'', ''NY''), (''tx'', ''TX''), (''texas'', ''TX''),
      (''or'', ''OR''), (''oregon'', ''OR''), (''fl'', ''FL''), (''florida'', ''FL''),
      (''il'', ''IL''), (''illinois'', ''IL'')]"

text \<open>Postal code, state and city from the last parts of the street, each where it is missing.\<close>

definition take_postal :: "ShippingAddress \<times> string list \<Rightarrow> ShippingAddress \<times> string list" where
  "take_postal = (\<lambda>(a, ts).
     if ts \<noteq> [] \<and> ad_postal a = [] \<and> postalCodeRegex (last ts) then (a\<lparr>ad_postal := last ts\<rparr>, butlast ts) else (a, ts))"

definition take_state :: "ShippingAddress \<times> string list \<Rightarrow> ShippingAddress \<times> string list" where
  "take_state = (\<lambda>(a, ts).
     if ts \<noteq> [] \<and> ad_state a = [] then
       (case map_of knownStates (ToLower (last ts)) of
          Some st \<Rightarrow> (a\<lparr>ad_state := st\<rparr>, butlast ts)
        | None \<Rightarrow> (a, ts))
     else (a, ts))"

definition take_city :: "ShippingAddress \<times> string list \<Rightarrow> ShippingAddress" where
  "take_city = (\<lambda>(a, ts).
     if ts \<noteq> [] \<and> ad_city a = [] \<and> \<not> postalCodeRegex (last ts) then a\<lparr>ad_city := last ts\<rparr> else a)"

definition NormalizeAddressFromTokens :: "ShippingAddress \<Rightarrow> ShippingAddress" where
  "NormalizeAddressFromTokens a =
     (if ad_street a = [] then a
      else take_city (take_state (take_postal
             (a, filter (\<lambda>t. t \<noteq> []) (map TrimSpace (split_at (CHR '','') (ad_street a)))))))"

text \<open>
  What \<open>json.Unmarshal\<close> reports and leaves in a zero address, and the fields with string values
  of a JSON object, \<^const>\<open>None\<close> for an error.
\<close>

record addr_json =
  aj_struct :: "string \<Rightarrow> bool \<times> ShippingAddress"
  aj_fields :: "string \<Rightarrow> (string \<Rightarrow> string option) option"

fun first_field :: "(string \<Rightarrow> string option) \<Rightarrow> string list \<Rightarrow> string option" where
  "first_field m [] = None"
| "first_field m (k # ks) =
     (case m k of
        None \<Rightarrow> first_field m ks
      | Some v \<Rightarrow> if TrimSpace v \<noteq> [] then Some (TrimSpace v) else first_field m ks)"

definition fill_field :: "(string \<Rightarrow> string option) \<Rightarrow> string list \<Rightarrow> string \<Rightarrow> string" where
  "fill_field m ks v = (if v = [] then (case first_field m ks of None \<Rightarrow> v | Some x \<Rightarrow> x) else v)"

definition fill_fields :: "(string \<Rightarrow> string option) \<Rightarrow> ShippingAddress \<Rightarrow> ShippingAddress" where
  "fill_fields m a =
     \<lparr>ad_street = fill_field m [''street'', ''address'', ''address_line'', ''addressLine'', ''line1''] (ad_street a),
      ad_city = fill_field m [''city'', ''district'', ''town''] (ad_city a),
      ad_state = fill_field m [''state'', ''province'', ''region''] (ad_state a),
      ad_postal = fill_field m [''postal_code'', ''postalCode'', ''zip'', ''zipcode'', ''zip_code'', ''pincode'', ''pin''] (ad_postal a),
      ad_country = fill_field m [''country'', ''nation''] (ad_country a),
      ad_contact = fill_field m [''contact_number'', ''contactNumber'', ''phone'', ''phone_number'', ''phoneNumber'', ''mobile''] (ad_contact a)\<rparr>"

definition ParseShippingAddress :: "addr_json \<Rightarrow> string \<Rightarrow> ShippingAddress" where
  "ParseShippingAddress J raw =
     (let trimmed = TrimSpace raw; (ok, a) = aj_struct J trimmed in
      if trimmed = [] then no_address
      else if ok \<and> ad_city a \<noteq> [] then NormalizeAddressFromTokens a
      else case aj_fields J trimmed of
        Some m \<Rightarrow> NormalizeAddressFromTokens (fill_fields m a)
      | None \<Rightarrow> NormalizeAddressFromTokens (if ad_street a = [] then a\<lparr>ad_street := trimmed\<rparr> else a))"

fun infer_from :: "string \<Rightarrow> ShippingAddress \<Rightarrow> Warehouse list \<Rightarrow> ShippingAddress" where
  "infer_from haystack a [] = a"
| "infer_from haystack a (w # ws) =
     (let c = TrimSpace (wh_city w); s = TrimSpace (wh_state w) in
      if c \<noteq> [] \<and> Contains haystack (ToLower c) then
        (let a1 = (if ad_city a = [] \<or> EqualFold (ad_city a) c then a\<lparr>ad_city := c\<rparr> else a) in
         if ad_state a1 = [] \<and> s \<noteq> [] then a1\<lparr>ad_state := s\<rparr> else a1)
      else infer_from haystack
        (if s \<noteq> [] \<and> Contains haystack (ToLower s) \<and> ad_state a = [] then a\<lparr>ad_state := s\<rparr> else a) ws)"

definition InferCityStateFromWarehouses :: "ShippingAddress \<Rightarrow> Warehouse list \<Rightarrow> ShippingAddress" where
  "InferCityStateFromWarehouses a ws = infer_from (ToLower (ad_street a @ '' '' @ ad_city a)) a ws"

section \<open>Time in transit\<close>

record TransitRuleResult =
  tr_rule :: string
  tr_type :: string
  tr_estimate :: string
  tr_min :: int
  tr_max :: int
  tr_target :: int

text \<open>The dash of the texts is the character U+2013 in UTF-8.\<close>

definition days_text :: "string \<Rightarrow> string \<Rightarrow> string" where
  "days_text a b = a @ [CHR 0xE2, CHR 0x80, CHR 0x93] @ b @ '' days''"

definition day_ns :: int where
  "day_ns = 24 * 3600 * 1000000000"

definition place :: "string \<Rightarrow> string" where
  "place s = TrimSpace (ToLower s)"

definition CalculateTransitDeliveryDate ::
  "string \<Rightarrow> string \<Rightarrow> string \<Rightarrow> string \<Rightarrow> int \<Rightarrow> int \<Rightarrow> TransitRuleResult" where
  "CalculateTransitDeliveryDate originCity originState destCity destState baseTime now =
     (let base = (if baseTime = 0 then now else baseTime) in
      if place originCity \<noteq> [] \<and> place destCity \<noteq> [] \<and> place originCity = place destCity then
        \<lparr>tr_rule = ''Same-City'', tr_type = ''Same-city delivery'', tr_estimate = days_text ''1'' ''2'',
         tr_min = 1, tr_max = 2, tr_target = base + 2 * day_ns\<rparr>
      else if place originState \<noteq> [] \<and> place destState \<noteq> [] \<and> place originState = place destState then
        \<lparr>tr_rule = ''Same-State'', tr_type = ''Within the same state'', tr_estimate = days_text ''2'' ''4'',
         tr_min = 2, tr_max = 4, tr_target = base + 4 * day_ns\<rparr>
      else
        \<lparr>tr_rule = ''Inter-State'', tr_type = ''Inter-state delivery'', tr_estimate = days_text ''4'' ''7'',
         tr_min = 4, tr_max = 7, tr_target = base + 7 * day_ns\<rparr>)"

text \<open>\<open>resolveProvisionalWarehouse\<close> of the service: active ones first, then the same city, the same state.\<close>

definition resolveProvisionalWarehouse :: "Warehouse list \<Rightarrow> string \<Rightarrow> string \<Rightarrow> Warehouse option" where
  "resolveProvisionalWarehouse ws destCity destState =
     (let act = filter wh_active ws; cs = (if act = [] then ws else act);
          same_city = (if place destCity = [] then None else find (\<lambda>w. place (wh_city w) = place destCity) cs);
          same_state = (if place destState = [] then None else find (\<lambda>w. place (wh_state w) = place destState) cs) in
      if ws = [] then None
      else if same_city \<noteq> None then same_city
      else if same_state \<noteq> None then same_state
      else Some (hd cs))"

section \<open>GSTIN and company names\<close>

definition gstinRegex :: "string \<Rightarrow> bool" where
  "gstinRegex s \<longleftrightarrow>
     list_all2 (\<lambda>p c. p c)
       (replicate 2 is_digit @ replicate 5 is_upper @ replicate 4 is_digit @
        [is_upper, \<lambda>c. (is_digit c \<and> c \<noteq> CHR ''0'') \<or> is_upper c, \<lambda>c. c = CHR ''Z'', \<lambda>c. is_digit c \<or> is_upper c]) s"

definition company_forms :: "string list" where
  "company_forms = [''private'', ''pvt'', ''limited'', ''ltd'', ''llp'', ''inc'', ''corp'', ''corporation'', ''co'', ''company'']"

text \<open>Letters and digits in lower case, the words that are not a legal form, one blank between them.\<close>

definition normalizeCompanyName :: "string \<Rightarrow> string" where
  "normalizeCompanyName s =
     (let cs = map (\<lambda>c. if (97 \<le> (of_char c :: nat) \<and> (of_char c :: nat) \<le> 122) \<or> is_digit c then c else CHR '' '')
                 (ToLower (TrimSpace s));
          ws = filter (\<lambda>w. w \<noteq> []) (split_at (CHR '' '') cs) in
      Join (filter (\<lambda>w. w \<notin> set company_forms) ws) '' '')"

definition matchCompanyName :: "string \<Rightarrow> string \<Rightarrow> string \<Rightarrow> bool" where
  "matchCompanyName partnerCompany legalName tradeName \<longleftrightarrow>
     (let n = normalizeCompanyName partnerCompany in
      n \<noteq> [] \<and> (n = normalizeCompanyName legalName \<or> n = normalizeCompanyName tradeName))"

end
