(* ===== verification/Delivery_Repo.thy ===== *)
theory Delivery_Repo
  imports Delivery_Model "HOL-Library.Option_ord"
begin

text \<open>
  The delivery repository (\<open>services/delivery-service/internal/repository/delivery_repository.go\<close>)
  over the tables \<open>deliveries\<close>, \<open>delivery_tracking_updates\<close>, \<open>delivery_partner_profiles\<close> and
  \<open>outbox_events\<close> of its migrations. The table \<open>warehouses\<close> is dropped by the migration
  \<open>000007_drop_warehouses.sql\<close>: it is \<^const>\<open>None\<close> afterwards, and every statement on it fails. Which
  strings are UUIDs and the JSON text of an address are parameters.
\<close>

section \<open>Tables\<close>

record delivery_row =
  dr_id :: string
  dr_order :: string
  dr_partner :: string
  dr_tracking :: string
  dr_status :: status
  dr_columns :: ShippingAddress
  dr_json :: string
  dr_address_id :: "string option"
  dr_estimated :: "int option"
  dr_actual :: "int option"
  dr_created :: int
  dr_updated :: int

record tracking_row =
  tu_id :: string
  tu_delivery :: string
  tu_status :: status
  tu_location :: string
  tu_notes :: string
  tu_created :: int

record DeliveryCreatedEvent =
  dc_delivery :: string
  dc_order :: string
  dc_partner :: string
  dc_tracking :: string
  dc_status :: status
  dc_created :: int

record DeliveryStatusUpdatedEvent =
  du_delivery :: string
  du_order :: string
  du_previous :: status
  du_new :: status
  du_tracking :: string
  du_updated :: int

record DeliveryStatusChangedEvent = DeliveryStatusUpdatedEvent +
  du_estimated :: "int option"
  du_actual :: "int option"

datatype delivery_event =
    EvDeliveryCreated DeliveryCreatedEvent
  | EvDeliveryStatusChanged DeliveryStatusChangedEvent
  | EvDeliveryStatusUpdated DeliveryStatusUpdatedEvent

type_synonym delivery_envelope = "delivery_event EventEnvelope"

record delivery_tables =
  deliveries :: "delivery_row list"
  tracking :: "tracking_row list"
  profiles :: "DeliveryPartnerProfile list"
  warehouses :: "Warehouse list option"
  delivery_outbox :: "delivery_envelope outbox_tables"

type_synonym 'a del_db = "(delivery_tables, 'a) db"

record delivery_lib =
  dv_uuid :: "string \<Rightarrow> bool"
  dv_json :: "ShippingAddress \<Rightarrow> string"
  dv_scan :: "string \<Rightarrow> ShippingAddress"
  dv_grpc :: grpc_lib

section \<open>Deliveries\<close>

text \<open>A field of the JSON column that is empty is taken from its own column.\<close>

definition or_column :: "string \<Rightarrow> string \<Rightarrow> string" where
  "or_column v col = (if v = [] \<and> col \<noteq> [] then col else v)"

definition merge_address :: "ShippingAddress \<Rightarrow> ShippingAddress \<Rightarrow> ShippingAddress" where
  "merge_address a cols =
     \<lparr>ad_street = or_column (ad_street a) (ad_street cols), ad_city = or_column (ad_city a) (ad_city cols),
      ad_state = or_column (ad_state a) (ad_state cols), ad_postal = or_column (ad_postal a) (ad_postal cols),
      ad_country = or_column (ad_country a) (ad_country cols), ad_contact = or_column (ad_contact a) (ad_contact cols)\<rparr>"

definition scanOne :: "delivery_lib \<Rightarrow> delivery_row \<Rightarrow> Delivery" where
  "scanOne L r =
     \<lparr>dl_id = dr_id r, dl_order = dr_order r, dl_partner = dr_partner r, dl_tracking = dr_tracking r,
      dl_address = merge_address (if dr_json r = [] then no_address else dv_scan L (dr_json r)) (dr_columns r),
      dl_address_id = (case dr_address_id r of None \<Rightarrow> [] | Some s \<Rightarrow> s), dl_status = dr_status r,
      dl_estimated = dr_estimated r, dl_actual = dr_actual r, dl_created = dr_created r, dl_updated = dr_updated r\<rparr>"

definition with_uuid :: "delivery_lib \<Rightarrow> string list \<Rightarrow> ('t \<Rightarrow> go_error + 'a \<times> 't) \<Rightarrow> 't \<Rightarrow> go_error + 'a \<times> 't" where
  "with_uuid L is f t = (if list_all (dv_uuid L) is then f t else Inl (PgError ''22P02'' []))"

definition read_delivery :: "delivery_lib \<Rightarrow> (delivery_tables \<Rightarrow> go_error + delivery_row option \<times> delivery_tables)
    \<Rightarrow> string \<Rightarrow> string \<Rightarrow> Delivery del_db" where
  "read_delivery L q missing failed =
     bind (on_error (pool_sql q) (wrap failed)) (\<lambda>r.
     case r of None \<Rightarrow> raise (NotFound missing) | Some row \<Rightarrow> ret (scanOne L row))"

definition find_delivery :: "string \<Rightarrow> delivery_tables \<Rightarrow> delivery_row option" where
  "find_delivery i t = find (\<lambda>r. dr_id r = i \<or> dr_order r = i) (deliveries t)"

text \<open>For a string that is no UUID the columns are compared as texts.\<close>

definition GetByID :: "delivery_lib \<Rightarrow> string \<Rightarrow> Delivery del_db" where
  "GetByID L i = read_delivery L (select (find_delivery (TrimSpace i))) ''delivery not found'' ''failed to query delivery by id''"

definition GetByOrderID :: "delivery_lib \<Rightarrow> string \<Rightarrow> Delivery del_db" where
  "GetByOrderID L orderID =
     read_delivery L (with_uuid L [orderID] (select (\<lambda>t. find (\<lambda>r. dr_order r = orderID) (deliveries t))))
       ''delivery not found for order'' ''failed to query delivery by order_id''"

definition GetByTrackingNumber :: "delivery_lib \<Rightarrow> string \<Rightarrow> Delivery del_db" where
  "GetByTrackingNumber L n =
     read_delivery L (select (\<lambda>t. find (\<lambda>r. dr_tracking r = n) (deliveries t)))
       ''delivery not found for tracking number'' ''failed to query delivery by tracking_number''"

definition List_deliveries :: "delivery_lib \<Rightarrow> int \<Rightarrow> int \<Rightarrow> string \<Rightarrow> (Delivery list \<times> nat) del_db" where
  "List_deliveries L lim off st =
     bind (ret (\<lambda>t. filter (\<lambda>r. st = [] \<or> dr_status r = st) (deliveries t))) (\<lambda>q.
     bind (on_error (pool_sql (select (\<lambda>t. length (q t)))) (wrap ''failed to count deliveries'')) (\<lambda>total1.
     bind (on_error (pool_sql (select (\<lambda>t.
             take (nat (if lim \<le> 0 then 20 else lim)) (drop (nat (if off < 0 then 0 else off))
               (sort_key (\<lambda>r. - dr_created r) (q t))))))
            (wrap ''failed to list deliveries'')) (\<lambda>rows.
     ret (map (scanOne L) rows, total1))))"

text \<open>The statement answers \<^const>\<open>None\<close> where the order has a delivery already.\<close>

definition insert_delivery ::
  "delivery_row \<Rightarrow> delivery_tables \<Rightarrow> go_error + delivery_row option \<times> delivery_tables" where
  "insert_delivery r t =
     (if dr_status r \<notin> set delivery_statuses then Inl (PgError ''22P02'' [])
      else if dr_order r \<in> dr_order ` set (deliveries t) then Inr (None, t)
      else if dr_id r \<in> dr_id ` set (deliveries t) then Inl (pg_unique ''deliveries_pkey'')
      else if dr_tracking r \<in> dr_tracking ` set (deliveries t) then Inl (pg_unique ''deliveries_tracking_number_key'')
      else Inr (Some r, t\<lparr>deliveries := deliveries t @ [r]\<rparr>))"

definition row_of :: "delivery_lib \<Rightarrow> Delivery \<Rightarrow> delivery_row" where
  "row_of L d =
     \<lparr>dr_id = dl_id d, dr_order = dl_order d, dr_partner = dl_partner d, dr_tracking = dl_tracking d,
      dr_status = dl_status d, dr_columns = dl_address d, dr_json = dv_json L (dl_address d),
      dr_address_id = (let a = TrimSpace (dl_address_id d) in if a \<noteq> [] \<and> dv_uuid L a then Some a else None),
      dr_estimated = dl_estimated d, dr_actual = dl_actual d, dr_created = dl_created d, dr_updated = dl_updated d\<rparr>"

definition delivery_outbox_event :: "string \<Rightarrow> string \<Rightarrow> delivery_envelope \<Rightarrow> delivery_envelope outbox_row" where
  "delivery_outbox_event agg topic envelope =
     \<lparr>ob_id = [], ob_aggregate_type = ''delivery'', ob_aggregate_id = agg, ob_event_type = EventType envelope,
      ob_payload = envelope, ob_headers = [], ob_topic = topic, ob_status = OutboxPending, ob_retry_count = 0,
      ob_next_retry_at = None, ob_created_at = 0, ob_updated_at = None, ob_published_at = None\<rparr>"

definition announce :: "string \<Rightarrow> string \<Rightarrow> string \<Rightarrow> delivery_event \<Rightarrow> unit del_db" where
  "announce agg ty topic ev =
     bind (NewEventEnvelopeWithAggregate ty ''delivery-service'' agg ev) (\<lambda>envelope.
     zoom delivery_outbox (\<lambda>s t. t\<lparr>delivery_outbox := s\<rparr>) (Insert (delivery_outbox_event agg topic envelope)))"

definition is_unique_violation :: "go_error \<Rightarrow> bool" where
  "is_unique_violation er = (case er of PgError c _ \<Rightarrow> c = ''23505'' | _ \<Rightarrow> False)"

text \<open>The existing delivery is read on the pool, while the transaction is open.\<close>

definition create_tx :: "delivery_lib \<Rightarrow> Delivery \<Rightarrow> Delivery tx_end del_db" where
  "create_tx L d =
     bind (attempt (sql (with_uuid L [dl_id d, dl_order d] (insert_delivery (row_of L d))))) (\<lambda>r.
     case r of
       Inr None \<Rightarrow> bind (GetByOrderID L (dl_order d)) (\<lambda>existing. ret (Discard existing))
     | Inl er \<Rightarrow>
         if is_unique_violation er then bind (GetByOrderID L (dl_order d)) (\<lambda>existing. ret (Discard existing))
         else raise (Internal (Some er) ''failed to insert delivery record'')
     | Inr (Some row) \<Rightarrow>
         seq (on_error
               (announce (dl_id d) ''DeliveryCreated'' ''gocart.delivery.delivery-created''
                 (EvDeliveryCreated \<lparr>dc_delivery = dl_id d, dc_order = dl_order d, dc_partner = dl_partner d,
                    dc_tracking = dl_tracking d, dc_status = dl_status d, dc_created = dl_created d\<rparr>))
               (wrap ''failed to record outbox event''))
         (ret (Commit d)))"

definition Create_delivery :: "delivery_lib \<Rightarrow> Delivery \<Rightarrow> Delivery del_db" where
  "Create_delivery L d =
     bind (if dl_id d = [] then new_uuid else ret (dl_id d)) (\<lambda>i.
     bind time_now (\<lambda>now.
     with_tx (wrap ''failed to begin transaction'') (wrap ''failed to commit transaction'')
       (create_tx L (d\<lparr>dl_id := i, dl_created := (if dl_created d = 0 then now else dl_created d),
          dl_updated := (if dl_updated d = 0 then now else dl_updated d),
          dl_status := (if dl_status d = [] then ''CREATED'' else dl_status d)\<rparr>))))"

section \<open>Status changes\<close>

definition update_delivery ::
  "string \<Rightarrow> (delivery_row \<Rightarrow> delivery_row) \<Rightarrow> delivery_tables \<Rightarrow> go_error + delivery_row \<times> delivery_tables" where
  "update_delivery i f t =
     (case find (\<lambda>r. dr_id r = i) (deliveries t) of
        None \<Rightarrow> Inl (ErrorString ''no rows in result set'')
      | Some r \<Rightarrow> Inr (f r, t\<lparr>deliveries := upd_where (\<lambda>r. dr_id r = i) f (deliveries t)\<rparr>))"

definition insert_tracking :: "tracking_row \<Rightarrow> delivery_tables \<Rightarrow> go_error + unit \<times> delivery_tables" where
  "insert_tracking r t =
     (if tu_id r \<in> tu_id ` set (tracking t) then Inl (pg_unique ''delivery_tracking_updates_pkey'')
      else if tu_delivery r \<notin> dr_id ` set (deliveries t)
      then Inl (PgError ''23503'' ''delivery_tracking_updates_delivery_id_fkey'')
      else Inr ((), t\<lparr>tracking := tracking t @ [r]\<rparr>))"

definition newer :: "int option \<Rightarrow> int option \<Rightarrow> int option" where
  "newer given1 old = (case given1 of None \<Rightarrow> old | Some x \<Rightarrow> Some x)"

text \<open>A repeated status: the times are updated where they differ.\<close>

definition repeat_status ::
  "delivery_lib \<Rightarrow> delivery_row \<Rightarrow> int option \<Rightarrow> int option \<Rightarrow> ((go_error \<Rightarrow> go_error) \<times> Delivery) tx_end del_db" where
  "repeat_status L existing est act =
     (if (est \<noteq> None \<and> est \<noteq> dr_estimated existing) \<or> (act \<noteq> None \<and> act \<noteq> dr_actual existing) then
        bind time_now (\<lambda>now.
        bind (on_error
                (sql (update_delivery (dr_id existing) (\<lambda>r. r\<lparr>dr_estimated := newer est (dr_estimated existing),
                   dr_actual := newer act (dr_actual existing), dr_updated := now\<rparr>)))
                (wrap ''failed to update delivery timestamps'')) (\<lambda>row.
        ret (Commit (wrap ''failed to commit update transaction'', scanOne L row))))
      else ret (Discard (\<lambda>er. er, scanOne L existing)))"

definition actual_time :: "status \<Rightarrow> int option \<Rightarrow> int option \<Rightarrow> int \<Rightarrow> int option" where
  "actual_time st act old now = (if st = ''DELIVERED'' then newer (newer act old) (Some now) else newer act old)"

definition move_status ::
  "delivery_lib \<Rightarrow> delivery_row \<Rightarrow> status \<Rightarrow> int option \<Rightarrow> int option \<Rightarrow> string \<Rightarrow> string
     \<Rightarrow> ((go_error \<Rightarrow> go_error) \<times> Delivery) tx_end del_db" where
  "move_status L existing st est act location notes1 =
     bind time_now (\<lambda>now.
     bind (on_error
             (sql (update_delivery (dr_id existing) (\<lambda>r. r\<lparr>dr_status := st,
                dr_estimated := newer est (dr_estimated existing),
                dr_actual := actual_time st act (dr_actual existing) now, dr_updated := now\<rparr>)))
             (wrap ''failed to update delivery status'')) (\<lambda>row.
     bind new_uuid (\<lambda>i.
     seq (ignore_error (sql (insert_tracking
           \<lparr>tu_id = i, tu_delivery = dr_id existing, tu_status = st, tu_location = location, tu_notes = notes1,
            tu_created = now\<rparr>)))
     (bind (ret \<lparr>du_delivery = dr_id row, du_order = dr_order row, du_previous = dr_status existing,
                 du_new = dr_status row, du_tracking = dr_tracking row, du_updated = dr_updated row\<rparr>) (\<lambda>ev.
      seq (on_error
            (announce (dr_id row) ''DeliveryStatusChanged'' ''gocart.delivery.delivery-status-changed''
              (EvDeliveryStatusChanged (DeliveryStatusUpdatedEvent.extend ev
                 (DeliveryStatusChangedEvent.fields (dr_estimated row) (dr_actual row)))))
            (wrap ''failed to record outbox event''))
      (seq (ignore_error
             (announce (dr_id row) ''DeliveryStatusUpdated'' ''gocart.delivery.delivery-status-updated''
               (EvDeliveryStatusUpdated ev)))
       (ret (Commit (wrap ''failed to commit transaction'', scanOne L row)))))))))"

definition update_status_body ::
  "delivery_lib \<Rightarrow> string \<Rightarrow> status \<Rightarrow> int option \<Rightarrow> int option \<Rightarrow> string \<Rightarrow> string
     \<Rightarrow> ((go_error \<Rightarrow> go_error) \<times> Delivery) tx_end del_db" where
  "update_status_body L i st est act location notes1 =
     bind (on_error (sql (select (find_delivery (TrimSpace i)))) (wrap ''failed to fetch delivery for update'')) (\<lambda>found.
     case found of
       None \<Rightarrow> raise (NotFound ''delivery not found'')
     | Some existing \<Rightarrow>
         seq (require (IsValidStatus_delivery (normalize_status st))
               (BadRequest (''invalid or unknown delivery status: '' @ st)))
         (if dr_status existing = normalize_status st then repeat_status L existing est act
          else case TransitionStatus (dr_status existing) (normalize_status st) of
            Some er \<Rightarrow> raise (delivery_ToAppError er)
          | None \<Rightarrow> move_status L existing (normalize_status st) est act location notes1))"

definition UpdateStatusWithDetails ::
  "delivery_lib \<Rightarrow> string \<Rightarrow> status \<Rightarrow> int option \<Rightarrow> int option \<Rightarrow> string \<Rightarrow> string \<Rightarrow> Delivery del_db" where
  "UpdateStatusWithDetails L i st est act location notes1 =
     with_tx_by (wrap ''failed to begin transaction'') (update_status_body L i st est act location notes1)"

definition UpdateStatus_repo :: "delivery_lib \<Rightarrow> string \<Rightarrow> status \<Rightarrow> Delivery del_db" where
  "UpdateStatus_repo L i st = UpdateStatusWithDetails L i st None None [] []"

end
