(* ===== verification/Partner_Repo.thy ===== *)
theory Partner_Repo
  imports Delivery_Repo
begin

text \<open>
  The methods of the delivery repository for the profiles of delivery partners and for
  warehouses (\<open>services/delivery-service/internal/repository/delivery_repository.go\<close>). A value of
  type \<open>uuid.UUID\<close> is its canonical string, \<open>uuid.Nil\<close> is \<^const>\<open>nil_uuid\<close>.
\<close>

section \<open>Warehouses\<close>

text \<open>A statement on the table, as long as there is one.\<close>

definition on_warehouses ::
  "(Warehouse list \<Rightarrow> go_error + 'a \<times> Warehouse list) \<Rightarrow> delivery_tables \<Rightarrow> go_error + 'a \<times> delivery_tables" where
  "on_warehouses f t =
     (case warehouses t of
        None \<Rightarrow> Inl (PgError ''42P01'' ''warehouses'')
      | Some ws \<Rightarrow>
          (case f ws of Inl er \<Rightarrow> Inl er | Inr (x, ws1) \<Rightarrow> Inr (x, t\<lparr>warehouses := Some ws1\<rparr>)))"

text \<open>\<open>ORDER BY name\<close> compares bytes here.\<close>

definition name_key :: "Warehouse \<Rightarrow> nat list" where
  "name_key w = map of_char (wh_name w)"

fun name_le :: "nat list \<Rightarrow> nat list \<Rightarrow> bool" where
  "name_le [] ys = True"
| "name_le (x # xs) [] = False"
| "name_le (x # xs) (y # ys) = (x < y \<or> (x = y \<and> name_le xs ys))"

fun insert_by_name :: "Warehouse \<Rightarrow> Warehouse list \<Rightarrow> Warehouse list" where
  "insert_by_name w [] = [w]"
| "insert_by_name w (v # vs) = (if name_le (name_key w) (name_key v) then w # v # vs else v # insert_by_name w vs)"

definition by_name :: "Warehouse list \<Rightarrow> Warehouse list" where
  "by_name ws = foldr insert_by_name ws []"

definition GetAvailableWarehouses :: "Warehouse list del_db" where
  "GetAvailableWarehouses =
     on_error (pool_sql (on_warehouses (select (\<lambda>ws. by_name (filter wh_active ws)))))
       (wrap ''failed to query available warehouses'')"

definition GetWarehouseByID :: "string \<Rightarrow> string \<Rightarrow> Warehouse del_db" where
  "GetWarehouseByID partnerID i =
     seq (require (partnerID \<noteq> nil_uuid) (BadRequest ''delivery_partner_id is mandatory to proceed''))
     (seq (require (i \<noteq> nil_uuid) (BadRequest ''warehouse id is required''))
     (bind (on_error
              (pool_sql (on_warehouses (select (find (\<lambda>w. wh_id w = i \<and> wh_partner w = partnerID)))))
              (wrap ''failed to get warehouse'')) (\<lambda>r.
      case r of None \<Rightarrow> raise (NotFound ''warehouse not found'') | Some w \<Rightarrow> ret w)))"

definition GetWarehousesByPartnerID :: "string \<Rightarrow> Warehouse list del_db" where
  "GetWarehousesByPartnerID partnerID =
     seq (require (partnerID \<noteq> nil_uuid) (BadRequest ''delivery_partner_id is mandatory to proceed''))
     (on_error (pool_sql (on_warehouses (select (\<lambda>ws. by_name (filter (\<lambda>w. wh_partner w = partnerID) ws)))))
       (wrap ''failed to query partner warehouses''))"

definition GetPartnerWarehouses :: "string \<Rightarrow> Warehouse list del_db" where
  "GetPartnerWarehouses partnerID = GetWarehousesByPartnerID partnerID"

definition warehouse_taken :: "Warehouse \<Rightarrow> Warehouse list \<Rightarrow> bool" where
  "warehouse_taken w ws \<longleftrightarrow> list_ex (\<lambda>v. wh_partner v = wh_partner w \<and> wh_code v = wh_code w) ws"

definition insert_warehouse :: "Warehouse \<Rightarrow> Warehouse list \<Rightarrow> go_error + unit \<times> Warehouse list" where
  "insert_warehouse w ws =
     (if wh_id w \<in> wh_id ` set ws then Inl (pg_unique ''warehouses_pkey'')
      else if warehouse_taken w ws then Inl (pg_unique ''idx_warehouses_partner_code'')
      else Inr ((), ws @ [w]))"

definition code_conflict :: "string \<Rightarrow> go_error \<Rightarrow> go_error" where
  "code_conflict msg er =
     (if is_unique_violation er then Conflict ''warehouse code already exists for this delivery partner''
      else Internal (Some er) msg)"

definition CreateWarehouse :: "Warehouse \<Rightarrow> Warehouse del_db" where
  "CreateWarehouse w =
     seq (require (wh_partner w \<noteq> nil_uuid) (BadRequest ''delivery_partner_id is mandatory to proceed''))
     (bind (if wh_id w = nil_uuid then new_uuid else ret (wh_id w)) (\<lambda>i.
      bind time_now (\<lambda>now.
      bind (ret (w\<lparr>wh_id := i, wh_created := (if wh_created w = 0 then now else wh_created w),
                   wh_updated := (if wh_updated w = 0 then now else wh_updated w)\<rparr>)) (\<lambda>w1.
      seq (on_error (pool_sql (on_warehouses (insert_warehouse w1))) (code_conflict ''failed to create warehouse''))
        (ret w1)))))"

definition update_warehouse :: "Warehouse \<Rightarrow> Warehouse list \<Rightarrow> go_error + Warehouse option \<times> Warehouse list" where
  "update_warehouse w ws =
     (let c = (\<lambda>v. wh_id v = wh_id w \<and> wh_partner v = wh_partner w);
          f = (\<lambda>v. w\<lparr>wh_id := wh_id v, wh_partner := wh_partner v, wh_created := wh_created v\<rparr>) in
      case find c ws of
        None \<Rightarrow> Inr (None, ws)
      | Some v \<Rightarrow>
          if warehouse_taken w (filter (\<lambda>v. \<not> c v) ws) then Inl (pg_unique ''idx_warehouses_partner_code'')
          else Inr (Some (f v), upd_where c f ws))"

definition UpdateWarehouse :: "Warehouse \<Rightarrow> Warehouse del_db" where
  "UpdateWarehouse w =
     seq (require (wh_partner w \<noteq> nil_uuid) (BadRequest ''delivery_partner_id is mandatory to proceed''))
     (seq (require (wh_id w \<noteq> nil_uuid) (BadRequest ''warehouse id is required''))
     (bind time_now (\<lambda>now.
      bind (on_error (pool_sql (on_warehouses (update_warehouse (w\<lparr>wh_updated := now\<rparr>))))
             (code_conflict ''failed to update warehouse'')) (\<lambda>r.
      case r of None \<Rightarrow> raise (NotFound ''warehouse not found'') | Some v \<Rightarrow> ret v))))"

definition DeleteWarehouse :: "string \<Rightarrow> string \<Rightarrow> unit del_db" where
  "DeleteWarehouse partnerID i =
     seq (require (partnerID \<noteq> nil_uuid) (BadRequest ''delivery_partner_id is mandatory to proceed''))
     (seq (require (i \<noteq> nil_uuid) (BadRequest ''warehouse id is required''))
     (bind (on_error
              (pool_sql (on_warehouses (\<lambda>ws.
                 Inr (length (filter (\<lambda>w. wh_id w = i \<and> wh_partner w = partnerID) ws),
                      filter (\<lambda>w. \<not> (wh_id w = i \<and> wh_partner w = partnerID)) ws))))
              (wrap ''failed to delete warehouse'')) (\<lambda>n.
      require (n \<noteq> 0) (NotFound ''warehouse not found''))))"

section \<open>Partner profiles\<close>

text \<open>The columns a conflict on \<open>partner_id\<close> leaves as they are: empty texts and no GSTIN do not overwrite.\<close>

definition upsert_profile ::
  "DeliveryPartnerProfile \<Rightarrow> delivery_tables \<Rightarrow> go_error + unit \<times> delivery_tables" where
  "upsert_profile p t =
     (if pp_approval p \<notin> set approval_statuses then Inl (PgError ''22P02'' [])
      else if pp_partner p \<in> pp_partner ` set (profiles t) then
        Inr ((), t\<lparr>profiles := upd_where (\<lambda>q. pp_partner q = pp_partner p)
          (\<lambda>q. p\<lparr>pp_id := pp_id q, pp_created := pp_created q,
             pp_company := (if pp_company p \<noteq> [] then pp_company p else pp_company q),
             pp_email := (if pp_email p \<noteq> [] then pp_email p else pp_email q),
             pp_contact := (if pp_contact p \<noteq> [] then pp_contact p else pp_contact q),
             pp_gstin := (if pp_gstin p \<noteq> None then pp_gstin p else pp_gstin q)\<rparr>) (profiles t)\<rparr>)
      else if pp_id p \<in> pp_id ` set (profiles t) then Inl (pg_unique ''delivery_partner_profiles_pkey'')
      else Inr ((), t\<lparr>profiles := profiles t @ [p]\<rparr>))"

definition CreateOrUpdatePartnerProfile_repo :: "DeliveryPartnerProfile \<Rightarrow> DeliveryPartnerProfile del_db" where
  "CreateOrUpdatePartnerProfile_repo p =
     bind (if pp_id p = nil_uuid then new_uuid else ret (pp_id p)) (\<lambda>i.
     bind time_now (\<lambda>now.
     bind (ret (p\<lparr>pp_id := i, pp_created := (if pp_created p = 0 then now else pp_created p),
                  pp_updated := (if pp_updated p = 0 then now else pp_updated p),
                  pp_approval := (if pp_approval p = [] then ''PENDING'' else pp_approval p)\<rparr>)) (\<lambda>p1.
     seq (on_error (pool_sql (upsert_profile p1)) (wrap ''failed to upsert partner profile'')) (ret p1))))"

definition read_profile ::
  "(delivery_tables \<Rightarrow> DeliveryPartnerProfile option) \<Rightarrow> string \<Rightarrow> string \<Rightarrow> DeliveryPartnerProfile del_db" where
  "read_profile q missing failed =
     bind (on_error (pool_sql (select q)) (wrap failed)) (\<lambda>r.
     case r of None \<Rightarrow> raise (NotFound missing) | Some p \<Rightarrow> ret p)"

definition find_profile :: "string \<Rightarrow> delivery_tables \<Rightarrow> DeliveryPartnerProfile option" where
  "find_profile i t = find (\<lambda>p. pp_partner p = i \<or> pp_id p = i) (profiles t)"

definition GetPartnerProfile_repo :: "string \<Rightarrow> DeliveryPartnerProfile del_db" where
  "GetPartnerProfile_repo i = read_profile (find_profile i) ''partner profile not found'' ''failed to get partner profile''"

definition find_company :: "string \<Rightarrow> delivery_tables \<Rightarrow> DeliveryPartnerProfile option" where
  "find_company name t = find (\<lambda>p. ToLower (pp_company p) = ToLower (TrimSpace name)) (profiles t)"

definition GetPartnerProfileByCompanyName :: "string \<Rightarrow> DeliveryPartnerProfile del_db" where
  "GetPartnerProfileByCompanyName name =
     seq (require (\<not> blank name) (BadRequest ''company name is required''))
     (read_profile (find_company name)
       ''partner profile not found'' ''failed to get partner profile'')"

definition GetPartnerProfileByGSTIN :: "string \<Rightarrow> DeliveryPartnerProfile del_db" where
  "GetPartnerProfileByGSTIN gstin =
     bind (ret (ToUpper (TrimSpace gstin))) (\<lambda>clean.
     seq (require (clean \<noteq> []) (BadRequest ''GSTIN is required''))
     (read_profile (\<lambda>t. find (\<lambda>_. True) (sort_key (\<lambda>p. - pp_created p)
          (filter (\<lambda>p. map_option ToUpper (pp_gstin p) = Some clean \<and> pp_deleted_at p = None) (profiles t))))
       ''delivery partner profile not found'' ''failed to get delivery partner profile by GSTIN''))"

definition list_profiles ::
  "string \<Rightarrow> string \<Rightarrow> (DeliveryPartnerProfile \<Rightarrow> bool) \<Rightarrow> (DeliveryPartnerProfile list \<Rightarrow> DeliveryPartnerProfile list)
     \<Rightarrow> int \<Rightarrow> int \<Rightarrow> (DeliveryPartnerProfile list \<times> nat) del_db" where
  "list_profiles count_msg list_msg c ordered lim off =
     bind (on_error (pool_sql (select (\<lambda>t. length (filter c (profiles t))))) (wrap count_msg)) (\<lambda>total1.
     bind (on_error (pool_sql (select (\<lambda>t. take (nat lim) (drop (nat off) (ordered (filter c (profiles t)))))))
            (wrap list_msg)) (\<lambda>ps.
     ret (ps, total1)))"

text \<open>\<open>DESC\<close> puts \<open>NULL\<close> first.\<close>

definition ListAppealedPartners_repo :: "int \<Rightarrow> int \<Rightarrow> (DeliveryPartnerProfile list \<times> nat) del_db" where
  "ListAppealedPartners_repo lim off =
     list_profiles ''failed to count appealed delivery partners'' ''failed to list appealed delivery partners''
       (\<lambda>p. pp_approval p = ''APPEALED'' \<and> pp_deleted_at p = None)
       (\<lambda>ps. sort_key (\<lambda>p. map_option uminus (pp_appealed_at p)) (sort_key (\<lambda>p. - pp_created p) ps)) lim off"

definition ListApprovedPartners_repo :: "int \<Rightarrow> int \<Rightarrow> (DeliveryPartnerProfile list \<times> nat) del_db" where
  "ListApprovedPartners_repo lim off =
     list_profiles ''failed to count approved delivery partners'' ''failed to list approved delivery partners''
       (\<lambda>p. pp_approval p = ''APPROVED'' \<and> pp_active p \<and> pp_deleted_at p = None)
       (sort_key (\<lambda>p. - pp_created p)) lim off"

text \<open>An update of the profiles that satisfy a condition answers with their number.\<close>

definition update_profiles ::
  "(DeliveryPartnerProfile \<Rightarrow> bool) \<Rightarrow> (DeliveryPartnerProfile \<Rightarrow> DeliveryPartnerProfile)
     \<Rightarrow> delivery_tables \<Rightarrow> go_error + nat \<times> delivery_tables" where
  "update_profiles c f t = Inr (length (filter c (profiles t)), t\<lparr>profiles := upd_where c f (profiles t)\<rparr>)"

definition SoftDeletePartnerProfile :: "string \<Rightarrow> int \<Rightarrow> string \<Rightarrow> unit del_db" where
  "SoftDeletePartnerProfile partnerID deletedAt reason =
     bind (on_error
             (pool_sql (update_profiles
                (\<lambda>p. (pp_partner p = partnerID \<or> pp_id p = partnerID) \<and> pp_deleted_at p = None)
                (\<lambda>p. p\<lparr>pp_deleted_at := Some deletedAt, pp_active := False, pp_updated := deletedAt,
                   pp_deletion := (if blank reason then None else Some (TrimSpace reason))\<rparr>)))
             (wrap ''failed to delete partner profile'')) (\<lambda>n.
     require (n \<noteq> 0) (NotFound ''delivery partner profile not found''))"

definition SoftDeleteExpiredDeactivatedPartners :: "int \<Rightarrow> nat del_db" where
  "SoftDeleteExpiredDeactivatedPartners cutoff =
     bind time_now (\<lambda>now.
     on_error
       (pool_sql (update_profiles
          (\<lambda>p. \<not> pp_active p \<and> (case pp_deactivated_at p of None \<Rightarrow> False | Some d \<Rightarrow> d \<le> cutoff) \<and> pp_deleted_at p = None)
          (\<lambda>p. p\<lparr>pp_deleted_at := Some now, pp_active := False, pp_updated := now\<rparr>)))
       (wrap ''failed to process expired deactivations''))"

end
