(* ===== verification/Partner_Service.thy ===== *)
theory Partner_Service
  imports Partner_Repo
begin

text \<open>
  The life of a delivery partner: the methods for profiles of the delivery service
  (\<open>services/delivery-service/internal/service/delivery_service.go\<close>), the client of the GSTIN
  registry (\<open>internal/client/gstin/client.go\<close>) and the tick of the retention worker
  (\<open>internal/worker/retention_worker.go\<close>). The HTTP client and the decoding of its answers are
  parameters.
\<close>

section \<open>The registry\<close>

record GSTINData =
  gd_legal :: string
  gd_trade :: string
  gd_status :: string
  gd_block :: string

record GSTINResponse =
  gr_success :: bool
  gr_data :: "GSTINData option"
  gr_message :: string
  gr_error :: string

record gstin_client =
  gc_key :: string
  gc_url :: string
  gc_enabled :: bool
  gc_request :: "string \<Rightarrow> go_error option"
  gc_http :: "string \<Rightarrow> string \<Rightarrow> go_error + nat \<times> string"
  gc_decode :: "string \<Rightarrow> go_error + GSTINResponse"

definition ErrGSTINVerificationDisabled :: go_error where
  "ErrGSTINVerificationDisabled = ErrorString ''GSTIN verification is disabled''"

definition VerifyGSTIN_client :: "gstin_client \<Rightarrow> string \<Rightarrow> go_error + GSTINResponse" where
  "VerifyGSTIN_client c gstin0 =
     (let gstin = ToUpper (TrimSpace gstin0); url = gc_url c @ ''/gstin/'' @ gstin in
      if \<not> gc_enabled c then Inl ErrGSTINVerificationDisabled
      else if \<not> gstinRegex gstin then Inl (ErrorString ''invalid GSTIN format'')
      else if blank (gc_key c)
      then Inl (ErrorString ''invalid credential: GSTIN API authentication failed (GSTIN_API_KEY is not configured)'')
      else case gc_request c url of
        Some er \<Rightarrow> Inl (WrapError ''failed to create GSTIN request: '' er)
      | None \<Rightarrow>
          (case gc_http c url (gc_key c) of
             Inl er \<Rightarrow> Inl (WrapError ''GSTIN API call failed: '' er)
           | Inr (code, body) \<Rightarrow>
               if code = 401 \<or> code = 403 then Inl (ErrorString ''invalid credential: GSTIN API authentication failed'')
               else if code \<noteq> 200 then
                 (case gc_decode c body of
                    Inr r \<Rightarrow>
                      (let msg = (if gr_message r = [] then gr_error r else gr_message r) in
                       if msg \<noteq> [] then Inl (ErrorString (''GSTIN verification failed: '' @ msg))
                       else Inl (ErrorString (''GSTIN API returned HTTP status '' @ itoa (int code))))
                  | Inl er \<Rightarrow> Inl (ErrorString (''GSTIN API returned HTTP status '' @ itoa (int code))))
               else (case gc_decode c body of
                       Inl er \<Rightarrow> Inl (WrapError ''failed to decode GSTIN API response: '' er)
                     | Inr r \<Rightarrow> Inr r)))"

section \<open>The service\<close>

record partner_svc =
  pt_lib :: delivery_lib
  pt_gstin :: gstin_client

definition CreateOrUpdatePartnerProfile :: "DeliveryPartnerProfile option \<Rightarrow> DeliveryPartnerProfile del_db" where
  "CreateOrUpdatePartnerProfile profile =
     (case profile of
        None \<Rightarrow> raise (BadRequest ''profile is required'')
      | Some p \<Rightarrow>
          seq (require (pp_partner p \<noteq> nil_uuid) (BadRequest ''partner_id is required''))
          (CreateOrUpdatePartnerProfile_repo
             (p\<lparr>pp_approval := (if pp_approval p = [] then ''PENDING'' else pp_approval p)\<rparr>)))"

text \<open>The identifier, and the profile that is not deleted.\<close>

definition partner_target :: "delivery_lib \<Rightarrow> string \<Rightarrow> unit del_db" where
  "partner_target L partnerID =
     seq (require (\<not> blank partnerID) (BadRequest ''partner_id is required''))
       (require (dv_uuid L (TrimSpace partnerID)) (BadRequest ''invalid partner_id uuid format''))"

definition present :: "DeliveryPartnerProfile \<Rightarrow> unit del_db" where
  "present p = require (pp_deleted_at p = None) (NotFound ''delivery partner profile not found'')"

definition live_profile :: "string \<Rightarrow> DeliveryPartnerProfile del_db" where
  "live_profile partnerID =
     bind (GetPartnerProfile_repo (TrimSpace partnerID)) (\<lambda>p. seq (present p) (ret p))"

definition GetPartnerProfile :: "delivery_lib \<Rightarrow> string \<Rightarrow> DeliveryPartnerProfile del_db" where
  "GetPartnerProfile L partnerID = seq (partner_target L partnerID) (live_profile partnerID)"

text \<open>A caller that is named must be the partner.\<close>

definition is_owner :: "string option \<Rightarrow> string list \<Rightarrow> bool" where
  "is_owner caller names =
     (case caller of None \<Rightarrow> True | Some c \<Rightarrow> blank c \<or> list_ex (EqualFold (TrimSpace c)) names)"

definition owned :: "string option \<Rightarrow> string \<Rightarrow> DeliveryPartnerProfile \<Rightarrow> string \<Rightarrow> unit del_db" where
  "owned caller partnerID p msg =
     require (is_owner caller [TrimSpace partnerID, pp_partner p, pp_id p]) (Forbidden msg)"

definition save_profile :: "DeliveryPartnerProfile \<Rightarrow> DeliveryPartnerProfile del_db" where
  "save_profile p =
     bind time_now (\<lambda>now. CreateOrUpdatePartnerProfile_repo (p\<lparr>pp_updated := now\<rparr>))"

definition demote :: "DeliveryPartnerProfile \<Rightarrow> DeliveryPartnerProfile" where
  "demote p = p\<lparr>pp_verified := False, pp_approval := ''PENDING'', pp_active := False\<rparr>"

definition new_company :: "string option \<Rightarrow> DeliveryPartnerProfile \<Rightarrow> DeliveryPartnerProfile" where
  "new_company companyName p =
     (case companyName of
        None \<Rightarrow> p
      | Some c \<Rightarrow> if pp_company p \<noteq> TrimSpace c then demote (p\<lparr>pp_company := TrimSpace c\<rparr>) else p)"

definition new_gstin :: "string option \<Rightarrow> DeliveryPartnerProfile \<Rightarrow> go_error + DeliveryPartnerProfile" where
  "new_gstin gstin p =
     (case gstin of
        None \<Rightarrow> Inr p
      | Some g \<Rightarrow>
          (let clean = ToUpper (TrimSpace g) in
           if clean \<noteq> [] \<and> \<not> gstinRegex clean then Inl (BadRequest ''invalid GSTIN format'')
           else if clean = [] then Inr (if pp_gstin p \<noteq> None then demote (p\<lparr>pp_gstin := None\<rparr>) else p)
           else Inr (if pp_gstin p \<noteq> Some clean then demote (p\<lparr>pp_gstin := Some clean\<rparr>) else p)))"

text \<open>The fields of the request, in their order; an empty e-mail address is refused.\<close>

definition edited ::
  "string option \<Rightarrow> string option \<Rightarrow> string option \<Rightarrow> string option \<Rightarrow> DeliveryPartnerProfile \<Rightarrow> go_error + DeliveryPartnerProfile" where
  "edited companyName email contactNumber gstin p =
     (let p1 = new_company companyName p in
      if email \<noteq> None \<and> blank (the email) then Inl (BadRequest ''email cannot be empty'')
      else
        (let p2 = (case email of None \<Rightarrow> p1 | Some m \<Rightarrow> p1\<lparr>pp_email := TrimSpace m\<rparr>);
             p3 = (case contactNumber of None \<Rightarrow> p2 | Some n \<Rightarrow> p2\<lparr>pp_contact := TrimSpace n\<rparr>) in
         new_gstin gstin p3))"

definition fresh_profile :: "string \<Rightarrow> string \<Rightarrow> int \<Rightarrow> DeliveryPartnerProfile" where
  "fresh_profile i partnerID now =
     \<lparr>pp_id = i, pp_partner = partnerID, pp_company = [], pp_email = [], pp_contact = [], pp_gstin = None,
      pp_verified = False, pp_active = True, pp_approval = ''PENDING'', pp_rejection = None, pp_appeal = None,
      pp_deactivation = None, pp_deletion = None, pp_appealed_at = None, pp_deactivated_at = None,
      pp_deleted_at = None, pp_created = now, pp_updated = now\<rparr>"

definition UpdatePartnerProfile ::
  "delivery_lib \<Rightarrow> string \<Rightarrow> string option \<Rightarrow> string option \<Rightarrow> string option \<Rightarrow> string option \<Rightarrow> string option
     \<Rightarrow> DeliveryPartnerProfile del_db" where
  "UpdatePartnerProfile L partnerID companyName email contactNumber gstin caller =
     seq (partner_target L partnerID)
     (bind (attempt (GetPartnerProfile_repo (TrimSpace partnerID))) (\<lambda>r.
      bind (case r of
              Inl er \<Rightarrow>
                if IsNotFound (dv_grpc L) (Some er) then
                  bind time_now (\<lambda>now. bind new_uuid (\<lambda>i. ret (fresh_profile i (TrimSpace partnerID) now)))
                else raise er
            | Inr p \<Rightarrow> seq (present p) (ret p)) (\<lambda>p.
      seq (owned caller partnerID p ''forbidden: you can only update your own delivery partner profile'')
      (bind (call (edited companyName email contactNumber gstin p)) save_profile))))"

text \<open>A failed verification is recorded, and its own error not reported.\<close>

definition unverified :: "DeliveryPartnerProfile \<Rightarrow> go_error \<Rightarrow> 'a del_db" where
  "unverified p er =
     seq (ignore_error (CreateOrUpdatePartnerProfile_repo (p\<lparr>pp_verified := False\<rparr>))) (raise er)"

definition quoted1 :: "string \<Rightarrow> string" where
  "quoted1 s = [CHR 0x27] @ s @ [CHR 0x27]"

definition registry_error :: "grpc_lib \<Rightarrow> string \<Rightarrow> go_error \<Rightarrow> go_error" where
  "registry_error G gstin er =
     (let s = ToLower (error_text G er) in
      if errors_Is er ErrGSTINVerificationDisabled then BadRequest ''GSTIN verification is disabled''
      else if Contains s ''not found'' \<or> Contains s ''no record''
      then BadRequest (''invalid credential: GSTIN '' @ quoted1 gstin @ '' is not found in GST database'')
      else if Contains s ''invalid credential'' \<or> Contains s ''401'' \<or> Contains s ''403'' \<or> Contains s ''unauthorized'' \<or>
        Contains s ''authentication failed''
      then BadRequest ''invalid credential: GSTIN API authentication failed (check server GSTIN_API_KEY)''
      else BadRequest (''invalid credential: GSTIN '' @ quoted1 gstin @ '' verification failed: '' @ error_text G er))"

definition refusal_error :: "string \<Rightarrow> GSTINResponse \<Rightarrow> go_error" where
  "refusal_error gstin r =
     (let m0 = (if gr_message r = [] then gr_error r else gr_message r);
          msg = (if m0 = [] then ''GSTIN verification failed'' else m0); s = ToLower msg in
      if Contains s ''not found'' \<or> Contains s ''no record''
      then BadRequest (''invalid credential: GSTIN '' @ quoted1 gstin @ '' is not found in GST database'')
      else if Contains s ''invalid credential'' \<or> Contains s ''401'' \<or> Contains s ''unauthorized'' \<or>
        Contains s ''authentication failed''
      then BadRequest ''invalid credential: GSTIN API authentication failed''
      else BadRequest (''invalid credential: GSTIN '' @ quoted1 gstin @ '' verification failed: '' @ msg))"

text \<open>What the answer of the registry says about a profile: the error of a mismatch, or nothing.\<close>

definition registry_mismatch :: "string \<Rightarrow> GSTINResponse \<Rightarrow> DeliveryPartnerProfile \<Rightarrow> go_error option" where
  "registry_mismatch gstin r p =
     (if \<not> gr_success r then Some (refusal_error gstin r)
      else case gr_data r of
        None \<Rightarrow> Some (BadRequest (''invalid credential: GSTIN '' @ quoted1 gstin @ '' is not active (status: unknown)''))
      | Some d \<Rightarrow>
          (let legal = TrimSpace (gd_legal d); trade = TrimSpace (gd_trade d);
               registered = (if legal = [] then trade else legal) in
           if \<not> EqualFold (gd_status d) ''Active''
           then Some (BadRequest (''invalid credential: GSTIN '' @ quoted1 gstin @ '' is not active (status: '' @
                  (if gd_status d \<noteq> [] then gd_status d else ''unknown'') @ '')''))
           else if EqualFold (gd_block d) ''Blocked''
           then Some (BadRequest (''invalid credential: GSTIN '' @ quoted1 gstin @ '' is blocked''))
           else if blank (pp_company p)
           then Some (BadRequest ''invalid credential: company_name is missing in delivery partner table'')
           else if registered = []
           then Some (BadRequest ''invalid credential: GSTIN registered name is unavailable'')
           else if \<not> matchCompanyName (pp_company p) legal trade
           then Some (BadRequest (''invalid credential: company_name '' @ quoted1 (pp_company p) @
                  '' in delivery partner table does not match GSTIN registered name '' @ quoted1 registered))
           else None))"

definition verify_with :: "partner_svc \<Rightarrow> string \<Rightarrow> DeliveryPartnerProfile \<Rightarrow> DeliveryPartnerProfile del_db" where
  "verify_with S gstin p =
     (if \<not> gc_enabled (pt_gstin S) then unverified p (BadRequest ''GSTIN verification is disabled'')
      else case VerifyGSTIN_client (pt_gstin S) gstin of
        Inl er \<Rightarrow> unverified p (registry_error (dv_grpc (pt_lib S)) gstin er)
      | Inr r \<Rightarrow>
          (case registry_mismatch gstin r p of
             Some er \<Rightarrow> unverified p er
           | None \<Rightarrow>
               save_profile (p\<lparr>pp_gstin := Some gstin, pp_verified := True,
                 pp_approval := (if pp_approval p \<noteq> ''APPROVED'' then ''PENDING'' else pp_approval p)\<rparr>)))"

definition VerifyGSTIN :: "partner_svc \<Rightarrow> string \<Rightarrow> string \<Rightarrow> string option \<Rightarrow> DeliveryPartnerProfile del_db" where
  "VerifyGSTIN S partnerID gstinStr caller =
     bind (ret (ToUpper (TrimSpace gstinStr))) (\<lambda>given1.
     seq (require (\<not> (blank partnerID \<and> given1 = [])) (BadRequest ''partner_id or gstin is required''))
     (bind (if \<not> blank partnerID then
              seq (require (dv_uuid (pt_lib S) (TrimSpace partnerID)) (BadRequest ''invalid partner_id uuid format''))
                (GetPartnerProfile_repo (TrimSpace partnerID))
            else GetPartnerProfileByGSTIN given1) (\<lambda>p.
      seq (present p)
      (seq (require (is_owner caller [pp_partner p, pp_id p])
              (Forbidden ''forbidden: you can only verify your own delivery partner profile''))
      (seq (require (given1 \<noteq> [] \<or> given (pp_gstin p)) (BadRequest ''GSTIN is required''))
      (bind (ret (if given1 \<noteq> [] then given1 else ToUpper (TrimSpace (the (pp_gstin p))))) (\<lambda>gstin.
       seq (require (gstinRegex gstin)
              (BadRequest (''invalid credential: invalid GSTIN format '' @ quoted1 gstin)))
         (verify_with S gstin p))))))))"

definition ActivatePartner :: "delivery_lib \<Rightarrow> string \<Rightarrow> string option \<Rightarrow> DeliveryPartnerProfile del_db" where
  "ActivatePartner L partnerID caller =
     seq (partner_target L partnerID)
     (bind (live_profile partnerID) (\<lambda>p.
      seq (owned caller partnerID p ''forbidden: only the owner delivery partner can activate this profile'')
      (seq (require (pp_approval p = ''APPROVED'' \<and> pp_verified p)
              (BadRequest ''cannot activate delivery partner: partner must be approved with verified GSTIN''))
       (save_profile (p\<lparr>pp_active := True, pp_deactivated_at := None, pp_deactivation := None\<rparr>)))))"

definition DeactivatePartner :: "delivery_lib \<Rightarrow> string \<Rightarrow> string \<Rightarrow> string option \<Rightarrow> DeliveryPartnerProfile del_db" where
  "DeactivatePartner L partnerID reason caller =
     seq (partner_target L partnerID)
     (seq (require (\<not> blank reason) (BadRequest ''deactivation reason is required''))
     (bind (live_profile partnerID) (\<lambda>p.
      seq (owned caller partnerID p ''forbidden: only the owner delivery partner can deactivate this profile'')
      (bind time_now (\<lambda>now.
       save_profile (p\<lparr>pp_active := False, pp_deactivated_at := Some now,
         pp_deactivation := Some (TrimSpace reason)\<rparr>))))))"

definition DeletePartnerProfile :: "delivery_lib \<Rightarrow> string \<Rightarrow> string \<Rightarrow> string option \<Rightarrow> unit del_db" where
  "DeletePartnerProfile L partnerID reason caller =
     seq (partner_target L partnerID)
     (bind (live_profile partnerID) (\<lambda>p.
      seq (owned caller partnerID p ''forbidden: you can only delete your own delivery partner profile'')
      (bind time_now (\<lambda>now. SoftDeletePartnerProfile (TrimSpace partnerID) now (TrimSpace reason)))))"

definition ApprovePartner :: "delivery_lib \<Rightarrow> string \<Rightarrow> DeliveryPartnerProfile del_db" where
  "ApprovePartner L partnerID =
     seq (partner_target L partnerID)
     (bind (live_profile partnerID) (\<lambda>p.
      seq (require (given (pp_gstin p) \<and> pp_verified p)
             (BadRequest ''cannot approve delivery partner: GSTIN must be provided and verified''))
      (seq (require (pp_approval p = ''PENDING'' \<or> pp_approval p = ''APPEALED'')
             (BadRequest ''only profiles in PENDING or APPEALED status can be approved''))
       (save_profile (p\<lparr>pp_approval := ''APPROVED'', pp_verified := True, pp_active := True, pp_rejection := None\<rparr>)))))"

definition RejectPartner :: "delivery_lib \<Rightarrow> string \<Rightarrow> string \<Rightarrow> DeliveryPartnerProfile del_db" where
  "RejectPartner L partnerID reason =
     seq (require (\<not> blank reason) (BadRequest ''rejection reason is required''))
     (seq (partner_target L partnerID)
     (bind (live_profile partnerID) (\<lambda>p.
      seq (require (pp_approval p = ''PENDING'' \<or> pp_approval p = ''APPEALED'')
             (BadRequest ''only profiles in PENDING or APPEALED status can be rejected''))
       (save_profile (p\<lparr>pp_approval := ''REJECTED'', pp_rejection := Some (TrimSpace reason)\<rparr>)))))"

definition AppealRejection :: "delivery_lib \<Rightarrow> string \<Rightarrow> string \<Rightarrow> string option \<Rightarrow> DeliveryPartnerProfile del_db" where
  "AppealRejection L partnerID reason caller =
     seq (partner_target L partnerID)
     (bind (live_profile partnerID) (\<lambda>p.
      seq (owned caller partnerID p ''forbidden: you can only appeal your own profile rejection'')
      (seq (require (\<not> blank reason) (BadRequest ''appeal reason is required''))
      (seq (require (pp_approval p = ''REJECTED'') (BadRequest ''only rejected profiles can be appealed''))
      (bind time_now (\<lambda>now.
       save_profile (p\<lparr>pp_approval := ''APPEALED'', pp_appeal := Some (TrimSpace reason), pp_appealed_at := Some now\<rparr>)))))))"

definition page_limit :: "int \<Rightarrow> int" where
  "page_limit lim = (if lim \<le> 0 then 20 else if 100 < lim then 100 else lim)"

definition ListAppealedPartners :: "int \<Rightarrow> int \<Rightarrow> (DeliveryPartnerProfile list \<times> nat) del_db" where
  "ListAppealedPartners lim off = ListAppealedPartners_repo (page_limit lim) (if off < 0 then 0 else off)"

definition ListApprovedPartners :: "int \<Rightarrow> int \<Rightarrow> (DeliveryPartnerProfile list \<times> nat) del_db" where
  "ListApprovedPartners lim off = ListApprovedPartners_repo (page_limit lim) (if off < 0 then 0 else off)"

text \<open>Also what the retention worker does at its start and at every tick.\<close>

definition ProcessExpiredDeactivations :: "int \<Rightarrow> nat del_db" where
  "ProcessExpiredDeactivations retentionPeriod =
     bind time_now (\<lambda>now.
     SoftDeleteExpiredDeactivatedPartners (now - (if retentionPeriod \<le> 0 then 30 * day_ns else retentionPeriod)))"

end
