(* ===== verification/Delivery_Service.thy ===== *)
theory Delivery_Service
  imports Partner_Service
begin

text \<open>
  Deliveries: the delivery service (\<open>services/delivery-service/internal/service/delivery_service.go\<close>),
  its clients (\<open>internal/client/order_client.go\<close>, \<open>inventory_client.go\<close>) and its event consumer
  (\<open>internal/consumer/event_consumer.go\<close>). The gRPC calls, the decoding of JSON and the bytes of
  \<open>rand.Read\<close> are parameters; the bytes are those of one call.
\<close>

section \<open>Clients\<close>

record DeliveryOrderPb =
  do_id :: string
  do_user :: string
  do_status :: string
  do_payment_status :: string
  do_number :: string
  do_address :: string
  do_address_id :: string

record OrderDetails =
  od_id :: string
  od_user :: string
  od_status :: string
  od_payment_status :: string
  od_number :: string
  od_address :: ShippingAddress
  od_address_id :: string

text \<open>Connecting to the order service and asking it; both may fail.\<close>

record delivery_order_client =
  dq_connect :: "go_error option"
  dq_get :: "string \<Rightarrow> go_error + DeliveryOrderPb option"
  dq_json :: addr_json

definition contact_of :: "addr_json \<Rightarrow> string \<Rightarrow> ShippingAddress \<Rightarrow> ShippingAddress" where
  "contact_of J raw a =
     (if ad_contact a = [] then
        (case aj_fields J raw of
           None \<Rightarrow> a
         | Some m \<Rightarrow>
             (case first_field m [''contact_number'', ''contactNumber'', ''phone_number'', ''phoneNumber'', ''phone''] of
                None \<Rightarrow> a | Some v \<Rightarrow> a\<lparr>ad_contact := v\<rparr>))
      else a)"

definition GetOrder_delivery :: "delivery_order_client \<Rightarrow> string \<Rightarrow> go_error + OrderDetails" where
  "GetOrder_delivery c orderID =
     (let i = TrimSpace orderID in
      if i = [] then Inl (BadRequest ''order_id cannot be empty'')
      else case dq_connect c of
        Some er \<Rightarrow> Inl (Internal (Some er) ''failed to connect to order service'')
      | None \<Rightarrow>
          (case dq_get c i of
             Inl er \<Rightarrow> Inl (NotFound (''order '' @ i @ '' not found in order service''))
           | Inr None \<Rightarrow> Inl (NotFound (''order '' @ i @ '' is empty in order service''))
           | Inr (Some o1) \<Rightarrow>
               (let raw = TrimSpace (do_address o1) in
                Inr \<lparr>od_id = do_id o1, od_user = do_user o1, od_status = do_status o1,
                  od_payment_status = do_payment_status o1, od_number = do_number o1,
                  od_address = (if raw = [] then no_address
                                else contact_of (dq_json c) raw (ParseShippingAddress (dq_json c) raw)),
                  od_address_id = do_address_id o1\<rparr>)))"

record WarehouseInfo =
  wi_id :: string
  wi_partner :: string
  wi_name :: string
  wi_code :: string
  wi_city :: string
  wi_state :: string
  wi_active :: bool

text \<open>\<open>ListWarehouses\<close> of the inventory service, with the partner it is asked for; nil entries are skipped.\<close>

type_synonym delivery_stock_client = "(string \<Rightarrow> go_error + WarehouseInfo option list) option"

definition mapProtoWarehouses :: "WarehouseInfo option list \<Rightarrow> WarehouseInfo list" where
  "mapProtoWarehouses ws = map the (filter (\<lambda>w. w \<noteq> None) ws)"

definition ListWarehouses_client :: "delivery_stock_client \<Rightarrow> string \<Rightarrow> go_error + WarehouseInfo list" where
  "ListWarehouses_client c partnerID =
     (case c of
        None \<Rightarrow> Inr []
      | Some get \<Rightarrow> (case get partnerID of Inl er \<Rightarrow> Inl er | Inr ws \<Rightarrow> Inr (mapProtoWarehouses ws)))"

section \<open>The service\<close>

record delivery_svc =
  ds_partner :: partner_svc
  ds_order :: "delivery_order_client option"
  ds_stock :: "delivery_stock_client option"

abbreviation ds_lib :: "delivery_svc \<Rightarrow> delivery_lib" where
  "ds_lib S \<equiv> pt_lib (ds_partner S)"

definition warehouse_of :: "delivery_lib \<Rightarrow> WarehouseInfo \<Rightarrow> Warehouse" where
  "warehouse_of L w =
     \<lparr>wh_id = (if dv_uuid L (wi_id w) then wi_id w else nil_uuid),
      wh_partner = (if dv_uuid L (wi_partner w) then wi_partner w else nil_uuid),
      wh_name = wi_name w, wh_code = wi_code w, wh_street = [], wh_city = wi_city w, wh_state = wi_state w,
      wh_postal = [], wh_active = wi_active w, wh_created = 0, wh_updated = 0\<rparr>"

definition stock_warehouses :: "delivery_svc \<Rightarrow> string \<Rightarrow> Warehouse list" where
  "stock_warehouses S partnerID =
     (case ds_stock S of
        None \<Rightarrow> []
      | Some c \<Rightarrow>
          (case ListWarehouses_client c partnerID of
             Inl er \<Rightarrow> [] | Inr ws \<Rightarrow> map (warehouse_of (ds_lib S)) ws))"

definition or_empty :: "'a list del_db \<Rightarrow> 'a list del_db" where
  "or_empty m = bind (attempt m) (\<lambda>r. ret (case r of Inl er \<Rightarrow> [] | Inr xs \<Rightarrow> xs))"

definition fetchPartnerWarehouses :: "delivery_svc \<Rightarrow> string \<Rightarrow> Warehouse list del_db" where
  "fetchPartnerWarehouses S partnerID =
     (if stock_warehouses S partnerID \<noteq> [] then ret (stock_warehouses S partnerID)
      else if dv_uuid (ds_lib S) partnerID then or_empty (GetPartnerWarehouses partnerID)
      else ret [])"

definition fetchAvailableWarehouses :: "delivery_svc \<Rightarrow> Warehouse list del_db" where
  "fetchAvailableWarehouses S =
     (if stock_warehouses S [] \<noteq> [] then ret (stock_warehouses S []) else or_empty GetAvailableWarehouses)"

definition hex_digit :: "nat \<Rightarrow> char" where
  "hex_digit n = ''0123456789abcdef'' ! (n mod 16)"

definition EncodeToString :: "nat list \<Rightarrow> string" where
  "EncodeToString bs = concat (map (\<lambda>b. [hex_digit (b div 16), hex_digit b]) bs)"

definition generateTrackingNumber :: "string \<Rightarrow> nat list \<Rightarrow> string" where
  "generateTrackingNumber partner bs =
     ''GC-'' @ (if 3 \<le> length partner then ToUpper (take 3 partner) else ''TRK'') @ ''-'' @ ToUpper (EncodeToString bs)"

record OrderConfirmedPayload =
  cp_order :: string
  cp_partner :: string
  cp_address :: "ShippingAddress option"
  cp_address_id :: string

definition fill_blank :: "string \<Rightarrow> string \<Rightarrow> string" where
  "fill_blank a b = (if blank a \<and> \<not> blank b then b else a)"

definition fill_address :: "ShippingAddress \<Rightarrow> ShippingAddress \<Rightarrow> ShippingAddress" where
  "fill_address a b =
     \<lparr>ad_street = fill_blank (ad_street a) (ad_street b), ad_city = fill_blank (ad_city a) (ad_city b),
      ad_state = fill_blank (ad_state a) (ad_state b), ad_postal = fill_blank (ad_postal a) (ad_postal b),
      ad_country = fill_blank (ad_country a) (ad_country b), ad_contact = fill_blank (ad_contact a) (ad_contact b)\<rparr>"

text \<open>
  Address and its identifier, completed from the order where the order service answers; an
  order that is not paid is refused.
\<close>

definition enriched_address ::
  "delivery_svc \<Rightarrow> string \<Rightarrow> ShippingAddress \<Rightarrow> string \<Rightarrow> go_error + ShippingAddress \<times> string" where
  "enriched_address S orderID a aid =
     (case ds_order S of
        None \<Rightarrow> Inr (a, aid)
      | Some c \<Rightarrow>
          (case GetOrder_delivery c orderID of
             Inl er \<Rightarrow> Inr (a, aid)
           | Inr o1 \<Rightarrow>
               if \<not> EqualFold (TrimSpace (od_payment_status o1)) ''PAID''
               then Inl (BadRequest ''cannot create delivery: order payment_status must be PAID'')
               else Inr (fill_address a (od_address o1),
                      if aid = [] \<and> \<not> blank (od_address_id o1) then TrimSpace (od_address_id o1) else aid)))"

definition partner_ready :: "DeliveryPartnerProfile \<Rightarrow> bool" where
  "partner_ready p \<longleftrightarrow> pp_approval p = ''APPROVED'' \<and> pp_active p \<and> pp_verified p"

definition admit :: "DeliveryPartnerProfile \<Rightarrow> unit del_db" where
  "admit p = require (partner_ready p)
     (BadRequest ''cannot assign delivery: partner is not approved or active for delivery operations'')"

text \<open>The identifier of the partner (\<^const>\<open>nil_uuid\<close> for none) and its name on the delivery.\<close>

definition choose_partner :: "delivery_svc \<Rightarrow> string \<Rightarrow> (string \<times> string) del_db" where
  "choose_partner S raw =
     (if raw = [] then ret (nil_uuid, ''STANDARD'')
      else if dv_uuid (ds_lib S) raw then
        bind (attempt (GetPartnerProfile_repo raw)) (\<lambda>r.
        case r of
          Inl er \<Rightarrow> ret (raw, raw)
        | Inr p \<Rightarrow> seq (admit p) (ret (raw, if blank (pp_company p) then raw else TrimSpace (pp_company p))))
      else
        bind (attempt (GetPartnerProfileByCompanyName raw)) (\<lambda>r.
        case r of
          Inl er \<Rightarrow> ret (nil_uuid, raw)
        | Inr p \<Rightarrow> seq (admit p) (ret (pp_partner p, raw))))"

definition from_warehouses ::
  "ShippingAddress \<Rightarrow> Warehouse list \<Rightarrow> ShippingAddress \<times> Warehouse option" where
  "from_warehouses a ws =
     (let a1 = (if ws \<noteq> [] \<and> ad_city a = [] then InferCityStateFromWarehouses a ws else a) in
      (a1, resolveProvisionalWarehouse ws (ad_city a1) (ad_state a1)))"

definition choose_origin ::
  "delivery_svc \<Rightarrow> string \<Rightarrow> ShippingAddress \<Rightarrow> (ShippingAddress \<times> Warehouse option) del_db" where
  "choose_origin S partner a =
     bind (fetchPartnerWarehouses S (if partner = nil_uuid then [] else partner)) (\<lambda>ws.
     case from_warehouses a ws of
       (a1, Some w) \<Rightarrow> ret (a1, Some w)
     | (a1, None) \<Rightarrow> bind (fetchAvailableWarehouses S) (\<lambda>ws2. ret (from_warehouses a1 ws2)))"

definition HandleOrderConfirmed ::
  "delivery_svc \<Rightarrow> go_error + nat list \<Rightarrow> OrderConfirmedPayload option \<Rightarrow> Delivery del_db" where
  "HandleOrderConfirmed S rnd payload =
     (case payload of
        None \<Rightarrow> raise (BadRequest ''order_id is required'')
      | Some p \<Rightarrow>
          bind (ret (TrimSpace (cp_order p))) (\<lambda>orderID.
          seq (require (orderID \<noteq> []) (BadRequest ''order_id is required''))
          (bind (attempt (GetByOrderID (ds_lib S) orderID)) (\<lambda>found.
           case found of
             Inr existing \<Rightarrow> ret existing
           | Inl _ \<Rightarrow>
               bind (call (enriched_address S orderID (case cp_address p of None \<Rightarrow> no_address | Some a \<Rightarrow> a)
                      (TrimSpace (cp_address_id p)))) (\<lambda>(addr, addressID).
               seq (require (\<not> blank (ad_contact addr)) (BadRequest ''contact_number is required in shipping address''))
               (bind (choose_partner S (TrimSpace (cp_partner p))) (\<lambda>(partner, partnerName).
                bind time_now (\<lambda>now.
                bind (choose_origin S partner (NormalizeAddressFromTokens addr)) (\<lambda>(addr1, origin).
                bind (ret (case origin of None \<Rightarrow> ([], []) | Some w \<Rightarrow> (wh_city w, wh_state w))) (\<lambda>(originCity, originState).
                bind (ret (if origin \<noteq> None \<and> ad_city addr1 = [] \<and> originCity \<noteq> [] then addr1\<lparr>ad_city := originCity\<rparr>
                           else addr1)) (\<lambda>addr2.
                bind (ret (tr_target (CalculateTransitDeliveryDate originCity originState (ad_city addr2)
                        (ad_state addr2) now now))) (\<lambda>targetDate.
                bind (call rnd) (\<lambda>bytes.
                bind new_uuid (\<lambda>i.
                bind (Create_delivery (ds_lib S)
                       \<lparr>dl_id = i, dl_order = orderID, dl_partner = partnerName,
                        dl_tracking = generateTrackingNumber partnerName bytes, dl_address = addr2,
                        dl_address_id = addressID, dl_status = ''CREATED'', dl_estimated = Some targetDate,
                        dl_actual = None, dl_created = now, dl_updated = now\<rparr>) (\<lambda>delivery.
                bind (attempt (GetByOrderID (ds_lib S) orderID)) (\<lambda>persisted.
                ret (case persisted of Inr d \<Rightarrow> d | Inl _ \<Rightarrow> delivery)))))))))))))))))"

record EstimatedDeliveryResponse =
  er_order :: string
  er_partner :: string
  er_type :: string
  er_transit :: string
  er_min :: int
  er_max :: int
  er_estimated :: int
  er_origin :: "Warehouse option"
  er_city :: string
  er_state :: string
  er_address :: ShippingAddress

definition EstimateDelivery :: "delivery_svc \<Rightarrow> string \<Rightarrow> string option \<Rightarrow> EstimatedDeliveryResponse del_db" where
  "EstimateDelivery S orderID partnerID =
     bind (ret (TrimSpace orderID)) (\<lambda>i.
     seq (require (i \<noteq> []) (BadRequest ''order_id is required''))
     (bind (case ds_order S of
              Some c \<Rightarrow> bind (call (GetOrder_delivery c i)) (\<lambda>o1. ret (od_address o1))
            | None \<Rightarrow>
                bind (attempt (GetByOrderID (ds_lib S) i)) (\<lambda>r.
                case r of
                  Inr d \<Rightarrow> ret (dl_address d)
                | Inl _ \<Rightarrow> raise (NotFound ''order not found in order service''))) (\<lambda>dest.
      bind (ret (if given partnerID then TrimSpace (the partnerID) else ''STANDARD'')) (\<lambda>partner.
      bind time_now (\<lambda>now.
      bind (fetchPartnerWarehouses S partner) (\<lambda>ws.
      bind (case resolveProvisionalWarehouse ws (ad_city dest) (ad_state dest) of
              Some w \<Rightarrow> ret (Some w)
            | None \<Rightarrow> bind (fetchAvailableWarehouses S) (\<lambda>ws2.
                ret (resolveProvisionalWarehouse ws2 (ad_city dest) (ad_state dest)))) (\<lambda>origin.
      bind (ret (CalculateTransitDeliveryDate (case origin of None \<Rightarrow> [] | Some w \<Rightarrow> wh_city w)
                  (case origin of None \<Rightarrow> [] | Some w \<Rightarrow> wh_state w) (ad_city dest) (ad_state dest) now now)) (\<lambda>tr.
      ret \<lparr>er_order = i, er_partner = partner, er_type = tr_type tr, er_transit = tr_estimate tr, er_min = tr_min tr,
           er_max = tr_max tr, er_estimated = tr_target tr, er_origin = origin, er_city = ad_city dest,
           er_state = ad_state dest, er_address = dest\<rparr>))))))))"

definition GetDeliveryByOrderID :: "delivery_svc \<Rightarrow> string \<Rightarrow> Delivery del_db" where
  "GetDeliveryByOrderID S orderID =
     seq (require (\<not> blank orderID) (BadRequest ''order_id is required'')) (GetByOrderID (ds_lib S) (TrimSpace orderID))"

definition GetDeliveryByTrackingNumber :: "delivery_svc \<Rightarrow> string \<Rightarrow> Delivery del_db" where
  "GetDeliveryByTrackingNumber S n =
     seq (require (\<not> blank n) (BadRequest ''tracking_number is required'')) (GetByTrackingNumber (ds_lib S) (TrimSpace n))"

definition not_found :: "delivery_svc \<Rightarrow> go_error \<Rightarrow> bool" where
  "not_found S er \<longleftrightarrow> IsNotFound (dv_grpc (ds_lib S)) (Some er)"

definition GetDeliveryByID :: "delivery_svc \<Rightarrow> string \<Rightarrow> Delivery del_db" where
  "GetDeliveryByID S i =
     seq (require (\<not> blank i) (BadRequest ''id is required''))
     (bind (attempt (GetByID (ds_lib S) (TrimSpace i))) (\<lambda>r.
      case r of
        Inr d \<Rightarrow> ret d
      | Inl er \<Rightarrow>
          if not_found S er then
            bind (attempt (GetByOrderID (ds_lib S) (TrimSpace i))) (\<lambda>r2.
            case r2 of Inr d \<Rightarrow> ret d | Inl _ \<Rightarrow> raise er)
          else raise er))"

definition ListDeliveries :: "delivery_svc \<Rightarrow> int \<Rightarrow> int \<Rightarrow> string \<Rightarrow> (Delivery list \<times> nat) del_db" where
  "ListDeliveries S lim off st = List_deliveries (ds_lib S) lim off st"

record DeliveryStatusUpdateRequest =
  su_tracking :: string
  su_delivery :: string
  su_order :: string
  su_status :: status
  su_estimated :: "int option"
  su_actual :: "int option"
  su_location :: string
  su_notes :: string

definition or_if_missing :: "delivery_svc \<Rightarrow> 'a del_db \<Rightarrow> 'a del_db \<Rightarrow> 'a del_db" where
  "or_if_missing S m n =
     bind (attempt m) (\<lambda>r. case r of Inr x \<Rightarrow> ret x | Inl er \<Rightarrow> if not_found S er then n else raise er)"

definition identifier_of :: "DeliveryStatusUpdateRequest \<Rightarrow> string" where
  "identifier_of req =
     (if \<not> blank (su_tracking req) then TrimSpace (su_tracking req)
      else if \<not> blank (su_delivery req) then TrimSpace (su_delivery req)
      else TrimSpace (su_order req))"

definition ProcessStatusUpdate :: "delivery_svc \<Rightarrow> DeliveryStatusUpdateRequest option \<Rightarrow> Delivery del_db" where
  "ProcessStatusUpdate S request =
     (case request of
        None \<Rightarrow> raise (BadRequest ''status update request is required'')
      | Some req \<Rightarrow>
          bind (ret (normalize_status (su_status req))) (\<lambda>st.
          seq (require (IsValidStatus_delivery st) (BadRequest (''invalid or unknown delivery status: '' @ su_status req)))
          (bind (ret (identifier_of req)) (\<lambda>i.
           seq (require (i \<noteq> []) (BadRequest ''tracking_number, delivery_id, or order_id is required''))
           (bind (or_if_missing S
                   (or_if_missing S (GetByTrackingNumber (ds_lib S) i) (GetByID (ds_lib S) i))
                   (GetByOrderID (ds_lib S) i)) (\<lambda>d.
            if dl_status d = st then
              (if su_estimated req \<noteq> None \<or> su_actual req \<noteq> None then
                 UpdateStatusWithDetails (ds_lib S) (dl_id d) st (su_estimated req) (su_actual req) (su_location req) (su_notes req)
               else ret d)
            else
              (case TransitionStatus (dl_status d) st of
                 Some er \<Rightarrow> raise (delivery_ToAppError er)
               | None \<Rightarrow>
                   bind time_now (\<lambda>now.
                   UpdateStatusWithDetails (ds_lib S) (dl_id d) st (su_estimated req)
                     (if st = ''DELIVERED'' then newer (su_actual req) (Some now) else su_actual req)
                     (su_location req) (su_notes req)))))))))"

definition UpdateStatus :: "delivery_svc \<Rightarrow> string \<Rightarrow> status \<Rightarrow> Delivery del_db" where
  "UpdateStatus S i st =
     ProcessStatusUpdate S (Some \<lparr>su_tracking = [], su_delivery = i, su_order = [], su_status = st, su_estimated = None,
       su_actual = None, su_location = [], su_notes = []\<rparr>)"

section \<open>Events\<close>

record orderConfirmedRawPayload =
  rw_order :: string
  rw_partner :: string
  rw_address :: string
  rw_address_id :: string
  rw_contact :: string
  rw_phone :: string
  rw_payment :: string

record PartnerRegisteredEvent =
  pe_partner :: string
  pe_company :: string
  pe_email :: string
  pe_contact :: string

text \<open>The decoders of \<open>json.Unmarshal\<close>; \<open>dd_string\<close> is \<^const>\<open>None\<close> for a text that is no JSON string.\<close>

record 'd delivery_decoders =
  dd_confirmed :: "'d \<Rightarrow> go_error + orderConfirmedRawPayload"
  dd_partner :: "'d \<Rightarrow> go_error + PartnerRegisteredEvent"
  dd_address :: "string \<Rightarrow> bool \<times> ShippingAddress"
  dd_string :: "string \<Rightarrow> string option"

definition raw_address :: "'d delivery_decoders \<Rightarrow> string \<Rightarrow> ShippingAddress" where
  "raw_address D raw =
     (if raw = [] then no_address
      else case dd_address D raw of (ok, a) \<Rightarrow>
        if \<not> ok \<or> (ad_street a = [] \<and> ad_city a = []) then
          (case dd_string D raw of
             None \<Rightarrow> a
           | Some s \<Rightarrow> if s \<noteq> [] then no_address\<lparr>ad_street := s\<rparr> else a)
        else a)"

definition raw_contact :: "orderConfirmedRawPayload \<Rightarrow> ShippingAddress \<Rightarrow> ShippingAddress" where
  "raw_contact raw a =
     (if ad_contact a = [] then a\<lparr>ad_contact := (if rw_contact raw \<noteq> [] then rw_contact raw else rw_phone raw)\<rparr> else a)"

definition handleOrderConfirmed_delivery ::
  "delivery_svc \<Rightarrow> 'd delivery_decoders \<Rightarrow> go_error + nat list \<Rightarrow> 'd EventEnvelope \<Rightarrow> unit del_db" where
  "handleOrderConfirmed_delivery S D rnd envelope =
     bind (on_error (call (dd_confirmed D (EventData envelope)))
            (WrapError ''failed to unmarshal OrderConfirmed payload: '')) (\<lambda>raw.
     bind (ret (if blank (rw_order raw) then TrimSpace (AggregateID envelope) else TrimSpace (rw_order raw))) (\<lambda>orderID.
     seq (require (orderID \<noteq> []) (BadRequest ''order_id is required in OrderConfirmed payload''))
     (seq (require (EqualFold (TrimSpace (rw_payment raw)) ''PAID'')
            (BadRequest ''cannot create delivery: order payment_status must be PAID''))
     (bind (ret (raw_contact raw (raw_address D (rw_address raw)))) (\<lambda>addr.
      seq (require (\<not> blank (ad_contact addr)) (BadRequest ''contact_number is required in shipping address payload''))
        (void (HandleOrderConfirmed S rnd (Some \<lparr>cp_order = orderID, cp_partner = rw_partner raw,
           cp_address = Some addr, cp_address_id = TrimSpace (rw_address_id raw)\<rparr>))))))))"

definition handlePartnerRegistered ::
  "delivery_svc \<Rightarrow> 'd delivery_decoders \<Rightarrow> 'd EventEnvelope \<Rightarrow> unit del_db" where
  "handlePartnerRegistered S D envelope =
     bind (on_error (call (dd_partner D (EventData envelope)))
            (WrapError ''failed to unmarshal PartnerRegistered payload: '')) (\<lambda>ev.
     bind (ret (if blank (pe_partner ev) then TrimSpace (AggregateID envelope) else TrimSpace (pe_partner ev))) (\<lambda>i.
     seq (require (dv_uuid (ds_lib S) i) (BadRequest (''invalid partner_id in PartnerRegistered event: '' @ i)))
       (void (CreateOrUpdatePartnerProfile (Some
          ((fresh_profile nil_uuid i 0)\<lparr>pp_company := TrimSpace (pe_company ev), pp_email := TrimSpace (pe_email ev),
            pp_contact := TrimSpace (pe_contact ev), pp_approval := []\<rparr>))))))"

definition HandleEvent_delivery ::
  "delivery_svc \<Rightarrow> 'd delivery_decoders \<Rightarrow> go_error + nat list \<Rightarrow> 'd EventEnvelope option \<Rightarrow> unit del_db" where
  "HandleEvent_delivery S D rnd envelope =
     (case envelope of
        None \<Rightarrow> raise (BadRequest ''event envelope is nil'')
      | Some env \<Rightarrow>
          if EventType env = ''OrderConfirmed'' then handleOrderConfirmed_delivery S D rnd env
          else if EventType env = ''PartnerRegistered'' then handlePartnerRegistered S D env
          else ret ())"

end
