(* ===== verification/Delivery_Server.thy ===== *)
theory Delivery_Server
  imports Delivery_Service
begin

text \<open>
  The gRPC server of deliveries (\<open>services/delivery-service/internal/grpc/server.go\<close>): the checks of
  the requests, the translation of errors and the messages; and the states the requests, the
  events and the retention worker lead to. A request is an option, \<^const>\<open>None\<close> for a nil pointer.
  The format of times is a parameter.
\<close>

section \<open>Messages\<close>

record DeliveryPb =
  py_id :: string
  py_order :: string
  py_tracking :: string
  py_partner :: string
  py_status :: string
  py_address :: string
  py_contact :: string
  py_address_id :: string
  py_created :: string
  py_updated :: string
  py_estimated :: string
  py_delivered :: string

record delivery_server =
  sr_svc :: delivery_svc
  sr_json :: addr_json
  sr_rfc3339 :: "int \<Rightarrow> string"

abbreviation sr_grpc :: "delivery_server \<Rightarrow> grpc_lib" where
  "sr_grpc R \<equiv> dv_grpc (ds_lib (sr_svc R))"

abbreviation sr_lib :: "delivery_server \<Rightarrow> delivery_lib" where
  "sr_lib R \<equiv> ds_lib (sr_svc R)"

definition shown_time :: "delivery_server \<Rightarrow> int option \<Rightarrow> string" where
  "shown_time R x = (case x of None \<Rightarrow> [] | Some n \<Rightarrow> sr_rfc3339 R n)"

definition toProtoDelivery :: "delivery_server \<Rightarrow> Delivery \<Rightarrow> DeliveryPb" where
  "toProtoDelivery R d =
     (let a = dl_address d in
      \<lparr>py_id = dl_id d, py_order = dl_order d, py_tracking = dl_tracking d, py_partner = dl_partner d,
       py_status = dl_status d,
       py_address = (if ad_street a = [] \<or> ad_city a \<noteq> [] \<or> ad_state a \<noteq> [] then dv_json (sr_lib R) a else ad_street a),
       py_contact = ad_contact a, py_address_id = dl_address_id d, py_created = sr_rfc3339 R (dl_created d),
       py_updated = sr_rfc3339 R (dl_updated d), py_estimated = shown_time R (dl_estimated d),
       py_delivered = shown_time R (dl_actual d)\<rparr>)"

record PartnerPb =
  pz_id :: string
  pz_partner :: string
  pz_company :: string
  pz_email :: string
  pz_contact :: string
  pz_active :: bool
  pz_approval :: string
  pz_verified :: bool
  pz_created :: string
  pz_updated :: string
  pz_gstin :: string
  pz_rejection :: string
  pz_appeal :: string
  pz_deactivation :: string
  pz_deletion :: "string option"
  pz_appealed_at :: string
  pz_deactivated_at :: string
  pz_deleted_at :: string

definition text_or_empty :: "string option \<Rightarrow> string" where
  "text_or_empty s = (case s of None \<Rightarrow> [] | Some v \<Rightarrow> v)"

definition toProtoPartnerProfile :: "delivery_server \<Rightarrow> DeliveryPartnerProfile \<Rightarrow> PartnerPb" where
  "toProtoPartnerProfile R p =
     \<lparr>pz_id = pp_id p, pz_partner = pp_partner p, pz_company = pp_company p, pz_email = pp_email p,
      pz_contact = pp_contact p, pz_active = pp_active p,
      pz_approval = (if pp_approval p = [] then ''PENDING'' else pp_approval p), pz_verified = pp_verified p,
      pz_created = sr_rfc3339 R (pp_created p), pz_updated = sr_rfc3339 R (pp_updated p),
      pz_gstin = text_or_empty (pp_gstin p), pz_rejection = text_or_empty (pp_rejection p),
      pz_appeal = text_or_empty (pp_appeal p), pz_deactivation = text_or_empty (pp_deactivation p),
      pz_deletion = pp_deletion p, pz_appealed_at = shown_time R (pp_appealed_at p),
      pz_deactivated_at = shown_time R (pp_deactivated_at p), pz_deleted_at = shown_time R (pp_deleted_at p)\<rparr>"

section \<open>Methods\<close>

text \<open>A refusal of the server itself, and the call of the service.\<close>

definition check_request :: "delivery_server \<Rightarrow> bool \<Rightarrow> string \<Rightarrow> unit del_db" where
  "check_request R b msg = require b (ToGRPC (sr_grpc R) (BadRequest msg))"

definition to_service :: "delivery_server \<Rightarrow> 'a del_db \<Rightarrow> ('a \<Rightarrow> 'b) \<Rightarrow> 'b del_db" where
  "to_service R m f = bind (on_error m (ToGRPC (sr_grpc R))) (\<lambda>x. ret (f x))"

text \<open>A method whose request must name something.\<close>

definition named :: "delivery_server \<Rightarrow> 'r option \<Rightarrow> ('r \<Rightarrow> string) \<Rightarrow> string \<Rightarrow> ('r \<Rightarrow> string \<Rightarrow> 'a del_db) \<Rightarrow> 'a del_db" where
  "named R req key msg f =
     (case req of
        None \<Rightarrow> raise (ToGRPC (sr_grpc R) (BadRequest msg))
      | Some r \<Rightarrow> seq (check_request R (\<not> blank (key r)) msg) (f r (TrimSpace (key r))))"

record CreateDeliveryPb =
  cd_order :: string
  cd_partner :: string
  cd_address :: string
  cd_contact :: string
  cd_address_id :: string

definition CreateDelivery :: "delivery_server \<Rightarrow> go_error + nat list \<Rightarrow> CreateDeliveryPb option \<Rightarrow> DeliveryPb del_db" where
  "CreateDelivery R rnd req =
     (case req of
        None \<Rightarrow> raise (ToGRPC (sr_grpc R) (BadRequest ''request is required''))
      | Some r \<Rightarrow>
          seq (check_request R (\<not> blank (cd_address_id r)) ''shipping_address_id is mandatory'')
          (bind (ret (if cd_address r \<noteq> [] then ParseShippingAddress (sr_json R) (cd_address r) else no_address)) (\<lambda>a.
           to_service R
             (HandleOrderConfirmed (sr_svc R) rnd (Some \<lparr>cp_order = cd_order r, cp_partner = cd_partner r,
                cp_address = Some (if ad_contact a = [] \<and> cd_contact r \<noteq> [] then a\<lparr>ad_contact := cd_contact r\<rparr> else a),
                cp_address_id = TrimSpace (cd_address_id r)\<rparr>))
             (toProtoDelivery R))))"

definition GetDelivery :: "delivery_server \<Rightarrow> string option \<Rightarrow> DeliveryPb del_db" where
  "GetDelivery R req =
     named R req (\<lambda>i. i) ''id is required'' (\<lambda>_ i. to_service R (GetDeliveryByID (sr_svc R) i) (toProtoDelivery R))"

definition GetDeliveryByTracking :: "delivery_server \<Rightarrow> string option \<Rightarrow> DeliveryPb del_db" where
  "GetDeliveryByTracking R req =
     named R req (\<lambda>i. i) ''tracking_number is required'' (\<lambda>_ i.
       to_service R (GetDeliveryByTrackingNumber (sr_svc R) i) (toProtoDelivery R))"

definition GetDeliveryByOrder :: "delivery_server \<Rightarrow> string option \<Rightarrow> DeliveryPb del_db" where
  "GetDeliveryByOrder R req =
     named R req (\<lambda>i. i) ''order_id is required'' (\<lambda>_ i.
       to_service R (GetDeliveryByOrderID (sr_svc R) i) (toProtoDelivery R))"

record UpdateDeliveryPb =
  ud_id :: string
  ud_status :: string
  ud_location :: string

definition UpdateDeliveryStatus :: "delivery_server \<Rightarrow> UpdateDeliveryPb option \<Rightarrow> DeliveryPb del_db" where
  "UpdateDeliveryStatus R req =
     named R req ud_id ''id is required'' (\<lambda>r i.
       to_service R
         (ProcessStatusUpdate (sr_svc R) (Some \<lparr>su_tracking = [], su_delivery = i, su_order = [], su_status = ud_status r,
            su_estimated = None, su_actual = None, su_location = TrimSpace (ud_location r), su_notes = []\<rparr>))
         (toProtoDelivery R))"

record CreatePartnerPb =
  cq_partner :: string
  cq_company :: string
  cq_email :: string
  cq_contact :: string
  cq_gstin :: "string option"

definition request_gstin :: "string option \<Rightarrow> string option" where
  "request_gstin g = (if given g then Some (ToUpper (TrimSpace (the g))) else None)"

definition CreatePartnerProfile :: "delivery_server \<Rightarrow> CreatePartnerPb option \<Rightarrow> PartnerPb del_db" where
  "CreatePartnerProfile R req =
     named R req cq_partner ''partner_id is required'' (\<lambda>r i.
       seq (check_request R (dv_uuid (sr_lib R) i) ''invalid partner_id format'')
       (seq (check_request R (case request_gstin (cq_gstin r) of None \<Rightarrow> True | Some g \<Rightarrow> gstinRegex g) ''invalid GSTIN format'')
       (bind new_uuid (\<lambda>n.
        bind time_now (\<lambda>now.
        bind (on_error
               (CreateOrUpdatePartnerProfile (Some ((fresh_profile n i now)\<lparr>pp_company := TrimSpace (cq_company r),
                  pp_email := TrimSpace (cq_email r), pp_contact := TrimSpace (cq_contact r),
                  pp_gstin := request_gstin (cq_gstin r), pp_approval := []\<rparr>)))
               (ToGRPC (sr_grpc R))) (\<lambda>profile.
        bind (attempt (GetPartnerProfile (sr_lib R) (cq_partner r))) (\<lambda>saved.
        ret (toProtoPartnerProfile R (case saved of Inr p \<Rightarrow> p | Inl _ \<Rightarrow> profile)))))))))"

definition GetPartnerProfile_rpc :: "delivery_server \<Rightarrow> string option \<Rightarrow> PartnerPb del_db" where
  "GetPartnerProfile_rpc R req =
     named R req (\<lambda>i. i) ''partner_id is required'' (\<lambda>_ i.
       to_service R (GetPartnerProfile (sr_lib R) i) (toProtoPartnerProfile R))"

record UpdatePartnerPb =
  uq_partner :: string
  uq_company :: "string option"
  uq_email :: "string option"
  uq_contact :: "string option"
  uq_gstin :: "string option"
  uq_caller :: string

definition UpdatePartnerProfile_rpc :: "delivery_server \<Rightarrow> UpdatePartnerPb option \<Rightarrow> PartnerPb del_db" where
  "UpdatePartnerProfile_rpc R req =
     named R req uq_partner ''partner_id is required'' (\<lambda>r i.
       to_service R
         (UpdatePartnerProfile (sr_lib R) i (uq_company r) (uq_email r) (uq_contact r) (uq_gstin r) (Some (uq_caller r)))
         (toProtoPartnerProfile R))"

text \<open>The requests about one partner: its identifier, a text (reason or GSTIN) and the caller.\<close>

record PartnerActionPb =
  aq_partner :: string
  aq_text :: string
  aq_caller :: string

definition VerifyGSTIN_rpc :: "delivery_server \<Rightarrow> PartnerActionPb option \<Rightarrow> PartnerPb del_db" where
  "VerifyGSTIN_rpc R req =
     (case req of
        None \<Rightarrow> raise (ToGRPC (sr_grpc R) (BadRequest ''request is required''))
      | Some _ \<Rightarrow>
          named R req aq_partner ''partner_id is required'' (\<lambda>r i.
            to_service R (VerifyGSTIN (ds_partner (sr_svc R)) i (TrimSpace (aq_text r)) (Some (aq_caller r)))
              (toProtoPartnerProfile R)))"

definition ActivatePartner_rpc :: "delivery_server \<Rightarrow> PartnerActionPb option \<Rightarrow> PartnerPb del_db" where
  "ActivatePartner_rpc R req =
     named R req aq_partner ''partner_id is required'' (\<lambda>r i.
       to_service R (ActivatePartner (sr_lib R) i (Some (aq_caller r))) (toProtoPartnerProfile R))"

definition DeactivatePartner_rpc :: "delivery_server \<Rightarrow> PartnerActionPb option \<Rightarrow> PartnerPb del_db" where
  "DeactivatePartner_rpc R req =
     named R req aq_partner ''partner_id is required'' (\<lambda>r i.
       seq (check_request R (\<not> blank (aq_text r)) ''deactivation reason is required'')
         (to_service R (DeactivatePartner (sr_lib R) i (TrimSpace (aq_text r)) (Some (aq_caller r)))
           (toProtoPartnerProfile R)))"

definition DeletePartnerProfile_rpc :: "delivery_server \<Rightarrow> PartnerActionPb option \<Rightarrow> unit del_db" where
  "DeletePartnerProfile_rpc R req =
     named R req aq_partner ''partner_id is required'' (\<lambda>r i.
       to_service R (DeletePartnerProfile (sr_lib R) i (TrimSpace (aq_text r)) (Some (TrimSpace (aq_caller r)))) (\<lambda>_. ()))"

definition ApprovePartner_rpc :: "delivery_server \<Rightarrow> PartnerActionPb option \<Rightarrow> PartnerPb del_db" where
  "ApprovePartner_rpc R req =
     named R req aq_partner ''partner_id is required'' (\<lambda>r i.
       to_service R (ApprovePartner (sr_lib R) i) (toProtoPartnerProfile R))"

definition RejectPartner_rpc :: "delivery_server \<Rightarrow> PartnerActionPb option \<Rightarrow> PartnerPb del_db" where
  "RejectPartner_rpc R req =
     named R req aq_partner ''partner_id is required'' (\<lambda>r i.
       to_service R (RejectPartner (sr_lib R) i (aq_text r)) (toProtoPartnerProfile R))"

definition AppealRejection_rpc :: "delivery_server \<Rightarrow> PartnerActionPb option \<Rightarrow> PartnerPb del_db" where
  "AppealRejection_rpc R req =
     named R req aq_partner ''partner_id is required'' (\<lambda>r i.
       to_service R (AppealRejection (sr_lib R) i (aq_text r) (Some (TrimSpace (aq_caller r)))) (toProtoPartnerProfile R))"

text \<open>A page: limit and offset where they are positive.\<close>

definition page_of :: "(int \<times> int) option \<Rightarrow> int \<times> int" where
  "page_of req = (case req of None \<Rightarrow> (20, 0) | Some (l, k) \<Rightarrow> (if 0 < l then l else 20, if 0 < k then k else 0))"

definition ListAppealedPartners_rpc :: "delivery_server \<Rightarrow> (int \<times> int) option \<Rightarrow> (PartnerPb list \<times> int) del_db" where
  "ListAppealedPartners_rpc R req =
     to_service R (ListAppealedPartners (fst (page_of req)) (snd (page_of req)))
       (\<lambda>(ps, n). (map (toProtoPartnerProfile R) ps, to_int32 (int n)))"

definition ListApprovedPartners_rpc :: "delivery_server \<Rightarrow> (int \<times> int) option \<Rightarrow> (PartnerPb list \<times> int) del_db" where
  "ListApprovedPartners_rpc R req =
     to_service R (ListApprovedPartners (fst (page_of req)) (snd (page_of req)))
       (\<lambda>(ps, n). (map (toProtoPartnerProfile R) ps, to_int32 (int n)))"

definition ProcessExpiredDeactivations_rpc :: "delivery_server \<Rightarrow> int option \<Rightarrow> int del_db" where
  "ProcessExpiredDeactivations_rpc R minutes =
     to_service R
       (ProcessExpiredDeactivations (case minutes of None \<Rightarrow> 0 | Some m \<Rightarrow> if 0 < m then m * (60 * 1000000000) else 0))
       (\<lambda>n. to_int32 (int n))"

section \<open>Requests and reachable states\<close>

datatype 'd delivery_request =
    RqCreate "go_error + nat list" "CreateDeliveryPb option"
  | RqStatus "UpdateDeliveryPb option"
  | RqUpdate "DeliveryStatusUpdateRequest option"
  | RqProfile "CreatePartnerPb option"
  | RqEdit "UpdatePartnerPb option"
  | RqMine UpdatePartnerPb
  | RqVerify "PartnerActionPb option"
  | RqActivate "PartnerActionPb option"
  | RqDeactivate "PartnerActionPb option"
  | RqDelete "PartnerActionPb option"
  | RqApprove "PartnerActionPb option"
  | RqReject "PartnerActionPb option"
  | RqAppeal "PartnerActionPb option"
  | RqExpire "int option"
  | RqEvent "go_error + nat list" "'d EventEnvelope option"

text \<open>
  \<open>RqUpdate\<close> is the status update of the HTTP handler and the webhook of the carriers, with all
  fields; \<open>RqMine\<close> the change of the own profile there, which names no caller.
\<close>

fun serve_delivery :: "delivery_server \<Rightarrow> 'd delivery_decoders \<Rightarrow> 'd delivery_request \<Rightarrow> unit del_db" where
  "serve_delivery R D (RqCreate rnd r) = void (CreateDelivery R rnd r)"
| "serve_delivery R D (RqStatus r) = void (UpdateDeliveryStatus R r)"
| "serve_delivery R D (RqUpdate r) = void (ProcessStatusUpdate (sr_svc R) r)"
| "serve_delivery R D (RqProfile r) = void (CreatePartnerProfile R r)"
| "serve_delivery R D (RqEdit r) = void (UpdatePartnerProfile_rpc R r)"
| "serve_delivery R D (RqMine r) =
     void (UpdatePartnerProfile (sr_lib R) (uq_partner r) (uq_company r) (uq_email r) (uq_contact r) (uq_gstin r) None)"
| "serve_delivery R D (RqVerify r) = void (VerifyGSTIN_rpc R r)"
| "serve_delivery R D (RqActivate r) = void (ActivatePartner_rpc R r)"
| "serve_delivery R D (RqDeactivate r) = void (DeactivatePartner_rpc R r)"
| "serve_delivery R D (RqDelete r) = DeletePartnerProfile_rpc R r"
| "serve_delivery R D (RqApprove r) = void (ApprovePartner_rpc R r)"
| "serve_delivery R D (RqReject r) = void (RejectPartner_rpc R r)"
| "serve_delivery R D (RqAppeal r) = void (AppealRejection_rpc R r)"
| "serve_delivery R D (RqExpire m) = void (ProcessExpiredDeactivations_rpc R m)"
| "serve_delivery R D (RqEvent rnd ev) = HandleEvent_delivery (sr_svc R) D rnd ev"

text \<open>The tables after the migrations, before the first request.\<close>

definition no_deliveries :: delivery_tables where
  "no_deliveries = \<lparr>deliveries = [], tracking = [], profiles = [], warehouses = None,
     delivery_outbox = \<lparr>ob_rows = [], ob_wide = True\<rparr>\<rparr>"

inductive delivery_reach :: "delivery_server \<Rightarrow> 'd delivery_decoders \<Rightarrow> delivery_tables \<Rightarrow> bool" for R D where
  start: "delivery_reach R D no_deliveries"
| request: "delivery_reach R D (tabs w) \<Longrightarrow> serve_delivery R D rq e w = (r, w') \<Longrightarrow> delivery_reach R D (tabs w')"

end
