(* ===== verification/Delivery_Trace.thy ===== *)
theory Delivery_Trace
  imports Delivery_Server
begin

text \<open>
  Correctness of the delivery service: its invariant and that every request, event and tick of
  the retention worker keeps it, whatever fails. Two halves that do not touch each other: the
  deliveries with their history and events, and the profiles of the partners.
\<close>

section \<open>Statuses\<close>

lemma upper_char_idem: "upper_char (upper_char c) = upper_char c"
proof -
  have "(of_char (char_of (n - 32) :: char) :: nat) = n - 32" if "n \<le> 122" for n :: nat
    using that by simp
  then show ?thesis by (auto simp: upper_char_def)
qed

lemma is_space_upper: "is_space (upper_char c) = is_space c"
proof (cases "97 \<le> (of_char c :: nat) \<and> (of_char c :: nat) \<le> 122")
  case True
  then have "((of_char c :: nat) - 32) mod 256 = of_char c - 32" by (intro mod_less) linarith
  with True have n: "(of_char (upper_char c) :: nat) = of_char c - 32" by (simp add: upper_char_def)
  have "upper_char c \<noteq> CHR '' ''" "c \<noteq> CHR '' ''" using True n by auto
  with True n show ?thesis by (auto simp: is_space_def)
qed (auto simp: upper_char_def)

lemma Trim_upper: "TrimSpace (ToUpper s) = ToUpper (TrimSpace s)"
proof -
  have "dropWhile is_space (map upper_char xs) = map upper_char (dropWhile is_space xs)" for xs
    by (induction xs) (auto simp: is_space_upper)
  then show ?thesis by (simp add: TrimSpace_def ToUpper_def rev_map)
qed

lemma normalize_idem [simp]: "normalize_status (normalize_status s) = normalize_status s"
  by (simp add: normalize_status_def Trim_upper) (simp add: ToUpper_def upper_char_idem)

lemma delivery_normal: "s \<in> set delivery_statuses \<Longrightarrow> normalize_status s = s"
proof -
  have "list_all (\<lambda>s. normalize_status s = s) delivery_statuses" by code_simp
  then show "s \<in> set delivery_statuses \<Longrightarrow> normalize_status s = s" by (simp add: list_all_iff)
qed

text \<open>A way through the table, from the first status by the statuses listed to the last.\<close>

fun way :: "status \<Rightarrow> status list \<Rightarrow> status \<Rightarrow> bool" where
  "way a [] b = (a = b)"
| "way a (s # ss) b = (allowed_in AllowedTransitions a s \<and> way s ss b)"

lemma way_snoc: "way a (ss @ [s]) b \<longleftrightarrow> (\<exists>m. way a ss m \<and> allowed_in AllowedTransitions m s \<and> s = b)"
  by (induction ss arbitrary: a) auto

lemma way_steps: "way a ss b \<Longrightarrow> (allowed_in AllowedTransitions ^^ length ss) a b"
  by (induction ss arbitrary: a) (auto simp: relpowp_Suc_I2 simp del: relpowp.simps, simp)

section \<open>Deliveries\<close>

definition passed :: "string \<Rightarrow> delivery_tables \<Rightarrow> status list" where
  "passed i t = map tu_status (filter (\<lambda>u. tu_delivery u = i) (tracking t))"

text \<open>What the outbox says: the deliveries announced, and the changes of status.\<close>

definition created_events :: "delivery_tables \<Rightarrow> string list" where
  "created_events t =
     concat (map (\<lambda>r. case EventData (ob_payload r) of EvDeliveryCreated ev \<Rightarrow> [dc_delivery ev] | _ \<Rightarrow> [])
       (ob_rows (delivery_outbox t)))"

definition changed_events :: "delivery_tables \<Rightarrow> (string \<times> status) list" where
  "changed_events t =
     concat (map (\<lambda>r. case EventData (ob_payload r) of EvDeliveryStatusChanged ev \<Rightarrow> [(du_delivery ev, du_new ev)] | _ \<Rightarrow> [])
       (ob_rows (delivery_outbox t)))"

definition ship_inv :: "delivery_tables \<Rightarrow> bool" where
  "ship_inv t \<longleftrightarrow> keyed dr_id (deliveries t) \<and> keyed dr_order (deliveries t) \<and> keyed dr_tracking (deliveries t) \<and>
     (\<forall>r \<in> set (deliveries t). dr_status r \<in> set delivery_statuses \<and> way ''CREATED'' (passed (dr_id r) t) (dr_status r) \<and>
        (dr_status r = ''DELIVERED'' \<longrightarrow> dr_actual r \<noteq> None)) \<and>
     (\<forall>u \<in> set (tracking t). tu_delivery u \<in> dr_id ` set (deliveries t)) \<and>
     created_events t = map dr_id (deliveries t) \<and>
     changed_events t = map (\<lambda>u. (tu_delivery u, tu_status u)) (tracking t)"

lemma ship_inv_cong:
  "deliveries t' = deliveries t \<Longrightarrow> tracking t' = tracking t \<Longrightarrow> delivery_outbox t' = delivery_outbox t \<Longrightarrow>
   ship_inv t' = ship_inv t"
  by (simp add: ship_inv_def passed_def created_events_def changed_events_def)

lemma announce_run:
  assumes "announce agg ty topic ev e w = (Inr u, w')"
  shows "\<exists>row. tabs w' = (tabs w)\<lparr>delivery_outbox := (delivery_outbox (tabs w))\<lparr>ob_rows := ob_rows (delivery_outbox (tabs w)) @ [row]\<rparr>\<rparr> \<and>
    EventData (ob_payload row) = ev \<and> ob_aggregate_id row = agg \<and> ob_event_type row = ty \<and> ob_topic row = topic \<and>
    ob_status row = OutboxPending"
proof -
  let ?env = "\<lparr>EventID = uuid_at e (nuuid w), EventType = ty, AggregateID = agg, EventVersion = ''1.0'',
    Source = ''delivery-service'', Timestamp = clock e, OccurredAt = clock e, CorrelationID = [], TraceID = [],
    EventData = ev, Metadata = []\<rparr>"
  from assms obtain w2 where
    ins: "Insert (delivery_outbox_event agg topic ?env) e (with_tabs (delivery_outbox (tabs w)) (w\<lparr>nuuid := Suc (nuuid w)\<rparr>)) = (Inr u, w2)"
    and w': "w' = with_tabs ((tabs w)\<lparr>delivery_outbox := tabs w2\<rparr>) w2"
    unfolding announce_def NewEventEnvelopeWithAggregate_def by (auto simp: run_ok)
  from Insert_run [OF ins] w' show ?thesis
    by (auto simp: announces_def delivery_outbox_event_def)
qed

lemma announce_events:
  assumes "announce agg ty topic ev e w = (Inr u, w')"
  shows "deliveries (tabs w') = deliveries (tabs w)" "tracking (tabs w') = tracking (tabs w)"
    "created_events (tabs w') = created_events (tabs w) @ (case ev of EvDeliveryCreated c \<Rightarrow> [dc_delivery c] | _ \<Rightarrow> [])"
    "changed_events (tabs w') = changed_events (tabs w) @
       (case ev of EvDeliveryStatusChanged c \<Rightarrow> [(du_delivery c, du_new c)] | _ \<Rightarrow> [])"
    "profiles (tabs w') = profiles (tabs w)"
  using announce_run [OF assms] by (auto simp: created_events_def changed_events_def)

text \<open>A failed insert into the outbox leaves a transaction that cannot commit, or one unchanged.\<close>

lemma insert_delivery_Some:
  "insert_delivery r t = Inr (Some q, t') \<longleftrightarrow> q = r \<and> dr_status r \<in> set delivery_statuses \<and>
     dr_order r \<notin> dr_order ` set (deliveries t) \<and> dr_id r \<notin> dr_id ` set (deliveries t) \<and>
     dr_tracking r \<notin> dr_tracking ` set (deliveries t) \<and> t' = t\<lparr>deliveries := deliveries t @ [r]\<rparr>"
  by (auto simp: insert_delivery_def)

lemma ship_inv_created:
  assumes inv: "ship_inv t" and r: "dr_status r = ''CREATED''" "dr_order r \<notin> dr_order ` set (deliveries t)"
      "dr_id r \<notin> dr_id ` set (deliveries t)" "dr_tracking r \<notin> dr_tracking ` set (deliveries t)"
    and t': "deliveries t' = deliveries t @ [r]" "tracking t' = tracking t"
      "created_events t' = created_events t @ [dr_id r]" "changed_events t' = changed_events t"
  shows "ship_inv t'"
proof -
  have "\<forall>u \<in> set (tracking t). tu_delivery u \<noteq> dr_id r" using inv r(3) unfolding ship_inv_def by metis
  then have "filter (\<lambda>u. tu_delivery u = dr_id r) (tracking t) = []" by (simp add: filter_empty_conv)
  then have "passed (dr_id r) t' = []" by (simp add: passed_def t')
  moreover have "passed i t' = passed i t" for i by (simp add: passed_def t')
  moreover have "''CREATED'' \<in> set delivery_statuses" by (simp add: delivery_statuses_def)
  ultimately show ?thesis using inv r t' by (auto simp: ship_inv_def keyed_snoc)
qed

lemma read_delivery_read_only:
  "(\<And>t x t'. q t = Inr (x, t') \<Longrightarrow> t' = t) \<Longrightarrow> read_only (read_delivery L q m f)"
  unfolding read_delivery_def
  by (intro read_only_bind read_only_on_error read_only_pool_query) (auto intro: read_only_ret read_only_raise split: option.split)

lemma GetByOrderID_read_only: "read_only (GetByOrderID L i)"
  unfolding GetByOrderID_def by (rule read_delivery_read_only) (auto simp: with_uuid_def select_def split: if_splits)

lemma GetByID_read_only: "read_only (GetByID L i)"
  unfolding GetByID_def by (rule read_delivery_read_only) (auto simp: select_def)

lemma GetByTrackingNumber_read_only: "read_only (GetByTrackingNumber L i)"
  unfolding GetByTrackingNumber_def by (rule read_delivery_read_only) (auto simp: select_def)

text \<open>The insert of a delivery: it exists already, or the row and its event are new.\<close>

lemma create_tx_run:
  assumes "create_tx L d e w = (Inr x, w')"
  shows "(\<exists>old. x = Discard old \<and> dl_order old = dl_order d) \<or>
    (x = Commit d \<and> dl_status d \<in> set delivery_statuses \<and> dl_order d \<notin> dr_order ` set (deliveries (tabs w)) \<and>
     dl_id d \<notin> dr_id ` set (deliveries (tabs w)) \<and> dl_tracking d \<notin> dr_tracking ` set (deliveries (tabs w)) \<and>
     deliveries (tabs w') = deliveries (tabs w) @ [row_of L d] \<and> tracking (tabs w') = tracking (tabs w) \<and>
     profiles (tabs w') = profiles (tabs w) \<and>
     created_events (tabs w') = created_events (tabs w) @ [dl_id d] \<and> changed_events (tabs w') = changed_events (tabs w))"
proof -
  from assms obtain r w1 where
    ins: "sql (with_uuid L [dl_id d, dl_order d] (insert_delivery (row_of L d))) e w = (r, w1)"
    and rest: "(case r of
       Inr None \<Rightarrow> bind (GetByOrderID L (dl_order d)) (\<lambda>existing. ret (Discard existing))
     | Inl er \<Rightarrow>
         if is_unique_violation er then bind (GetByOrderID L (dl_order d)) (\<lambda>existing. ret (Discard existing))
         else raise (Internal (Some er) ''failed to insert delivery record'')
     | Inr (Some row) \<Rightarrow>
         seq (on_error
               (announce (dl_id d) ''DeliveryCreated'' ''gocart.delivery.delivery-created''
                 (EvDeliveryCreated \<lparr>dc_delivery = dl_id d, dc_order = dl_order d, dc_partner = dl_partner d,
                    dc_tracking = dl_tracking d, dc_status = dl_status d, dc_created = dl_created d\<rparr>))
               (wrap ''failed to record outbox event''))
         (ret (Commit d))) e w1 = (Inr x, w')"
    unfolding create_tx_def bind_ok attempt_ok by blast
  have old: "\<exists>old. x = Discard old \<and> dl_order old = dl_order d"
    if "bind (GetByOrderID L (dl_order d)) (\<lambda>existing. ret (Discard existing)) e w1 = (Inr x, w')"
    using that by (auto simp: GetByOrderID_def read_delivery_def with_uuid_def run_ok scanOne_def
        split: if_splits option.splits dest: find_Some_in)
  show ?thesis
  proof (cases r)
    case (Inl er)
    with rest show ?thesis using old by (auto simp: run_ok split: if_splits)
  next
    case (Inr o1)
    show ?thesis
    proof (cases o1)
      case None
      with Inr rest show ?thesis using old by simp
    next
      case (Some row)
      with Inr ins have row: "insert_delivery (row_of L d) (tabs w) = Inr (Some row, tabs w1)"
        by (auto simp: run_ok with_uuid_def split: if_splits)
      note row = row [unfolded insert_delivery_Some]
      from Inr Some rest have "x = Commit d" and an: "announce (dl_id d) ''DeliveryCreated'' ''gocart.delivery.delivery-created''
          (EvDeliveryCreated \<lparr>dc_delivery = dl_id d, dc_order = dl_order d, dc_partner = dl_partner d,
             dc_tracking = dl_tracking d, dc_status = dl_status d, dc_created = dl_created d\<rparr>) e w1 = (Inr (), w')"
        by (auto simp: run_ok)
      with announce_events [OF an] row show ?thesis
        by (auto simp: row_of_def created_events_def changed_events_def)
    qed
  qed
qed

definition has_id :: "string \<Rightarrow> delivery_row \<Rightarrow> bool" where
  "has_id i r \<longleftrightarrow> dr_id r = i"

lemma update_delivery_ok:
  "update_delivery i f t = Inr (q, t') \<longleftrightarrow>
     (\<exists>r. find (has_id i) (deliveries t) = Some r \<and> q = f r \<and> t' = t\<lparr>deliveries := upd_where (has_id i) f (deliveries t)\<rparr>)"
  by (auto simp: update_delivery_def has_id_def [abs_def] split: option.splits)

text \<open>
  A change of one row: its keys stay, and it either keeps its status or takes a step of the table
  that is recorded and announced.
\<close>

lemma ship_inv_updated:
  assumes inv: "ship_inv t" and r: "r \<in> set (deliveries t)"
    and f: "dr_id (f r) = dr_id r" "dr_order (f r) = dr_order r" "dr_tracking (f r) = dr_tracking r"
      "dr_status (f r) = ''DELIVERED'' \<longrightarrow> dr_actual (f r) \<noteq> None"
    and t': "deliveries t' = upd_where (has_id (dr_id r)) f (deliveries t)" "created_events t' = created_events t"
    and step: "dr_status (f r) = dr_status r \<and> tracking t' = tracking t \<and> changed_events t' = changed_events t \<or>
      (\<exists>u. allowed_in AllowedTransitions (dr_status r) (dr_status (f r)) \<and> dr_status (f r) \<in> set delivery_statuses \<and>
         tracking t' = tracking t @ [u] \<and> tu_delivery u = dr_id r \<and> tu_status u = dr_status (f r) \<and>
         changed_events t' = changed_events t @ [(dr_id r, dr_status (f r))])"
  shows "ship_inv t'"
proof -
  have key: "q = r" if "q \<in> set (deliveries t)" "dr_id q = dr_id r" for q
    using keyed_unique [of dr_id "deliveries t"] inv r that by (simp add: ship_inv_def)
  have upd: "deliveries t' = map (\<lambda>q. if q = r then f r else q) (deliveries t)"
    unfolding t' upd_where_def using key by (auto simp: has_id_def)
  then have row: "q' \<in> set (deliveries t') \<longleftrightarrow> (\<exists>q \<in> set (deliveries t). q' = (if q = r then f r else q))" for q'
    by auto
  have same: "map k (deliveries t') = map k (deliveries t)" if "k (f r) = k r" for k :: "delivery_row \<Rightarrow> string"
    using that by (auto simp: upd)
  have keys: "keyed k (deliveries t')" if "k (f r) = k r" "keyed k (deliveries t)" for k :: "delivery_row \<Rightarrow> string"
    using same [OF that(1)] that(2) by (simp add: keyed_def)
  have ids: "dr_id ` set (deliveries t') = dr_id ` set (deliveries t)"
    using same [OF f(1)] by (metis list.set_map)
  have "dr_status q' \<in> set delivery_statuses \<and> way ''CREATED'' (passed (dr_id q') t') (dr_status q') \<and>
      (dr_status q' = ''DELIVERED'' \<longrightarrow> dr_actual q' \<noteq> None)" if q': "q' \<in> set (deliveries t')" for q'
  proof -
    from q' row obtain q where q: "q \<in> set (deliveries t)" "q' = (if q = r then f r else q)" by blast
    have old: "dr_status q \<in> set delivery_statuses \<and> way ''CREATED'' (passed (dr_id q) t) (dr_status q) \<and>
        (dr_status q = ''DELIVERED'' \<longrightarrow> dr_actual q \<noteq> None)" using inv q(1) by (simp add: ship_inv_def)
    show ?thesis
    proof (cases "q = r")
      case True
      with old q f step show ?thesis by (auto simp: passed_def way_snoc)
    next
      case False
      then have "dr_id q \<noteq> dr_id r" using key q(1) by blast
      with False old q step show ?thesis by (auto simp: passed_def)
    qed
  qed
  moreover have "\<forall>u \<in> set (tracking t'). tu_delivery u \<in> dr_id ` set (deliveries t')"
    unfolding ids using inv step r by (auto simp: ship_inv_def)
  ultimately show ?thesis
    using inv keys [OF f(1)] keys [OF f(2)] keys [OF f(3)] same [OF f(1)] step t'
    by (auto simp: ship_inv_def)
qed

lemma announce_not_aborted: "announce agg ty topic ev e w = (Inr u, w') \<Longrightarrow> \<not> aborted w"
  by (auto simp: announce_def NewEventEnvelopeWithAggregate_def run_ok dest: Insert_not_aborted)

lemma announce_failed: "announce agg ty topic ev e w = (Inl er, w') \<Longrightarrow> aborted w'"
  by (auto simp: announce_def NewEventEnvelopeWithAggregate_def bind_runs time_now_def new_uuid_def ret_def zoom_def
      split: prod.splits dest: Insert_failed)

lemma find_delivery_mem:
  "find_delivery i t = Some r \<Longrightarrow> r \<in> set (deliveries t) \<and> (dr_id r = i \<or> dr_order r = i)"
  unfolding find_delivery_def by (auto dest: find_Some_in)

lemma find_by_id: "keyed dr_id rs \<Longrightarrow> r \<in> set rs \<Longrightarrow> find (has_id (dr_id r)) rs = Some r"
  by (induction rs) (auto simp: has_id_def)

text \<open>The rows \<open>move_status\<close> and \<open>repeat_status\<close> write.\<close>

definition moved :: "delivery_row \<Rightarrow> status \<Rightarrow> int option \<Rightarrow> int option \<Rightarrow> int \<Rightarrow> delivery_row \<Rightarrow> delivery_row" where
  "moved old st est act now r = r\<lparr>dr_status := st, dr_estimated := newer est (dr_estimated old),
     dr_actual := actual_time st act (dr_actual old) now, dr_updated := now\<rparr>"

definition retimed :: "delivery_row \<Rightarrow> int option \<Rightarrow> int option \<Rightarrow> int \<Rightarrow> delivery_row \<Rightarrow> delivery_row" where
  "retimed old est act now r = r\<lparr>dr_estimated := newer est (dr_estimated old), dr_actual := newer act (dr_actual old),
     dr_updated := now\<rparr>"

lemma move_status_run:
  assumes run: "move_status L r st est act location n e w = (Inr x, w')" and open': "\<not> aborted w'"
    and key: "keyed dr_id (deliveries (tabs w))" and r: "r \<in> set (deliveries (tabs w))"
  shows "x = Commit (wrap ''failed to commit transaction'', scanOne L (moved r st est act (clock e) r)) \<and>
    deliveries (tabs w') = upd_where (has_id (dr_id r)) (moved r st est act (clock e)) (deliveries (tabs w)) \<and>
    (\<exists>u. tracking (tabs w') = tracking (tabs w) @ [u] \<and> tu_delivery u = dr_id r \<and> tu_status u = st \<and> tu_location u = location) \<and>
    created_events (tabs w') = created_events (tabs w) \<and>
    changed_events (tabs w') = changed_events (tabs w) @ [(dr_id r, st)] \<and> profiles (tabs w') = profiles (tabs w)"
proof -
  let ?f = "moved r st est act (clock e)"
  let ?u = "\<lambda>w0. \<lparr>tu_id = uuid_at e (nuuid (w0 :: delivery_tables world)), tu_delivery = dr_id r, tu_status = st, tu_location = location, tu_notes = n,
    tu_created = clock e\<rparr>"
  let ?ev = "\<lambda>row. \<lparr>du_delivery = dr_id row, du_order = dr_order row, du_previous = dr_status r, du_new = dr_status row,
    du_tracking = dr_tracking row, du_updated = dr_updated row\<rparr>"
  from run obtain row w0 w3 where
    upd: "sql (update_delivery (dr_id r) (\<lambda>q. q\<lparr>dr_status := st, dr_estimated := newer est (dr_estimated r),
        dr_actual := actual_time st act (dr_actual r) (clock e), dr_updated := clock e\<rparr>)) e w = (Inr row, w0)"
    and an: "announce (dr_id row) ''DeliveryStatusChanged'' ''gocart.delivery.delivery-status-changed''
       (EvDeliveryStatusChanged (DeliveryStatusUpdatedEvent.extend (?ev row)
          (DeliveryStatusChangedEvent.fields (dr_estimated row) (dr_actual row)))) e
       (snd (sql (insert_tracking (?u w0)) e (w0\<lparr>nuuid := Suc (nuuid w0)\<rparr>))) = (Inr (), w3)"
    and w': "w' = snd (announce (dr_id row) ''DeliveryStatusUpdated'' ''gocart.delivery.delivery-status-updated''
       (EvDeliveryStatusUpdated (?ev row)) e w3)"
    and x: "x = Commit (wrap ''failed to commit transaction'', scanOne L row)"
    unfolding move_status_def bind_ret bind_ok seq_ok on_error_ok ret_ok time_now_ok new_uuid_ok ignore_error_ok
    by auto
  define w1 where "w1 = w0\<lparr>nuuid := Suc (nuuid w0)\<rparr>"
  define w2 where "w2 = snd (sql (insert_tracking (?u w0)) e w1)"
  have row: "row = ?f r" and t0: "tabs w0 = (tabs w)\<lparr>deliveries := upd_where (has_id (dr_id r)) ?f (deliveries (tabs w))\<rparr>"
    using upd find_by_id [OF key r] by (auto simp: run_ok update_delivery_ok moved_def [abs_def])
  have open2: "\<not> aborted w2" using announce_not_aborted [OF an] by (simp add: w2_def w1_def)
  obtain r2 where "sql (insert_tracking (?u w0)) e w1 = (r2, w2)" unfolding w2_def by (metis prod.collapse)
  with open2 obtain v2 where run2: "sql (insert_tracking (?u w0)) e w1 = (Inr v2, w2)"
    by (cases r2) (auto dest: sql_failed_aborted)
  have t2: "tabs w2 = (tabs w0)\<lparr>tracking := tracking (tabs w) @ [?u w0]\<rparr>"
    using run2 by (auto simp: w1_def run_ok t0 insert_tracking_def split: if_splits)
  obtain r3 where an2: "announce (dr_id row) ''DeliveryStatusUpdated'' ''gocart.delivery.delivery-status-updated''
       (EvDeliveryStatusUpdated (?ev row)) e w3 = (r3, w')" using w' by (metis prod.collapse)
  with open' obtain v where r3: "r3 = Inr v" by (cases r3) (auto dest: announce_failed)
  note an = an [folded w1_def, folded w2_def]
  from announce_events [OF an] announce_events [OF an2 [unfolded r3]] t2 t0 x row show ?thesis
    by (auto simp: created_events_def changed_events_def DeliveryStatusUpdatedEvent.extend_def moved_def)
qed

text \<open>What a change of status commits keeps the invariant and leaves the profiles alone.\<close>

abbreviation shipping :: "DeliveryPartnerProfile list \<Rightarrow> delivery_tables \<Rightarrow> bool" where
  "shipping ps t \<equiv> ship_inv t \<and> profiles t = ps"

lemma repeat_status_run:
  assumes run: "repeat_status L r est act e w = (Inr (Commit x), w')"
    and inv: "shipping ps (tabs w)" and r: "r \<in> set (deliveries (tabs w))"
  shows "shipping ps (tabs w')"
proof -
  let ?f = "retimed r est act (clock e)"
  have key: "keyed dr_id (deliveries (tabs w))" and old: "dr_status r = ''DELIVERED'' \<longrightarrow> dr_actual r \<noteq> None"
    using inv r by (auto simp: ship_inv_def)
  from run find_by_id [OF key r]
  have t': "tabs w' = (tabs w)\<lparr>deliveries := upd_where (has_id (dr_id r)) ?f (deliveries (tabs w))\<rparr>"
    by (auto simp: repeat_status_def run_ok update_delivery_ok retimed_def [abs_def] split: if_splits)
  have "ship_inv (tabs w')"
    by (rule ship_inv_updated [where t = "tabs w" and r = r and f = ?f])
      (use inv r old in \<open>auto simp: t' retimed_def newer_def created_events_def changed_events_def split: option.split\<close>)
  with inv t' show ?thesis by simp
qed

lemma move_status_keeps:
  assumes run: "move_status L r st est act location n e w = (Inr x, w')" and open': "\<not> aborted w'"
    and inv: "shipping ps (tabs w)" and r: "r \<in> set (deliveries (tabs w))"
    and step: "allowed_in AllowedTransitions (dr_status r) st" "st \<in> set delivery_statuses"
  shows "shipping ps (tabs w')"
proof -
  let ?f = "moved r st est act (clock e)"
  have key: "keyed dr_id (deliveries (tabs w))" using inv by (simp add: ship_inv_def)
  note eff = move_status_run [OF run open' key r]
  have "ship_inv (tabs w')"
    by (rule ship_inv_updated [where t = "tabs w" and r = r and f = ?f])
      (use inv r step eff in \<open>auto simp: moved_def actual_time_def newer_def split: option.split\<close>)
  with inv eff show ?thesis by simp
qed

lemma update_status_body_commit:
  assumes run: "update_status_body L i st est act location n e w = (Inr (Commit x), w')" and open': "\<not> aborted w'"
    and inv: "shipping ps (tabs w)"
  shows "shipping ps (tabs w')"
proof -
  from run obtain r w1 where t1: "tabs w1 = tabs w" and found: "find_delivery (TrimSpace i) (tabs w) = Some r"
    and valid: "IsValidStatus_delivery (normalize_status st)"
    and rest: "(if dr_status r = normalize_status st then repeat_status L r est act
          else case TransitionStatus (dr_status r) (normalize_status st) of
            Some er \<Rightarrow> raise (delivery_ToAppError er)
          | None \<Rightarrow> move_status L r (normalize_status st) est act location n) e w1 = (Inr (Commit x), w')"
  proof -
    from run show ?thesis
      unfolding update_status_body_def bind_ok on_error_ok sql_ok select_ok
      by (cases "find_delivery (TrimSpace i) (tabs w)") (auto simp: run_ok intro: that [rotated 3])
  qed
  have r: "r \<in> set (deliveries (tabs w1))" using find_delivery_mem [OF found] t1 by simp
  have st: "normalize_status st \<in> set delivery_statuses" using valid by (simp add: IsValidStatus_delivery_def)
  show ?thesis
  proof (cases "dr_status r = normalize_status st")
    case True
    with rest repeat_status_run [where w = w1, OF _ _ r] inv t1 show ?thesis by simp
  next
    case False
    from rest False have none: "TransitionStatus (dr_status r) (normalize_status st) = None"
      and mv: "move_status L r (normalize_status st) est act location n e w1 = (Inr (Commit x), w')"
      by (auto simp: run_ok split: option.splits)
    have "normalize_status (dr_status r) = dr_status r" using inv r t1 by (intro delivery_normal) (simp add: ship_inv_def)
    with none False have "allowed_in AllowedTransitions (dr_status r) (normalize_status st)"
      by (simp add: TransitionStatus_iff)
    from move_status_keeps [OF mv open' _ r this st] inv t1 show ?thesis by simp
  qed
qed

lemma update_status_body_loud: "update_status_body L i st est act location n e w \<noteq> (Inr (CommitQuietly x), w')"
proof -
  have "repeat_status L r est act e w \<noteq> (Inr (CommitQuietly x), w')" for r w
    by (auto simp: repeat_status_def run_ok)
  moreover have "move_status L r s est act location n e w \<noteq> (Inr (CommitQuietly x), w')" for r s w
    by (auto simp: move_status_def run_ok)
  ultimately show ?thesis by (auto simp: update_status_body_def run_ok split: option.splits if_splits)
qed

lemma UpdateStatusWithDetails_always: "always (shipping ps) (UpdateStatusWithDetails L i st est act location n)"
proof (rule always_atomic)
  show "atomic (UpdateStatusWithDetails L i st est act location n)"
    unfolding UpdateStatusWithDetails_def by (rule with_tx_by_atomic)
  show "keeps (shipping ps) (UpdateStatusWithDetails L i st est act location n)"
    unfolding keeps_def
  proof
    fix e w x w' assume inv: "shipping ps (tabs w)" and "UpdateStatusWithDetails L i st est act location n e w = (Inr x, w')"
    then obtain fc f where "with_tx (wrap ''failed to begin transaction'') fc
        (update_status_body L i st est act location n) e w = (Inr (f, x), w')"
      unfolding UpdateStatusWithDetails_def by (elim with_tx_by_run) (auto split: sum.splits)
    then show "shipping ps (tabs w')"
      by (elim with_tx_ok) (use inv in \<open>auto simp: update_status_body_loud dest: update_status_body_commit\<close>)
  qed
qed

lemma Create_delivery_always:
  assumes "dl_status d = ''CREATED''" shows "always (shipping ps) (Create_delivery L d)"
proof -
  have body: "ensures (shipping ps) (create_tx L d')
      (\<lambda>x t. case x of Commit y \<Rightarrow> shipping ps t | CommitQuietly y \<Rightarrow> shipping ps t | Discard y \<Rightarrow> True)"
    if "dl_status d' = ''CREATED''" for d'
  proof (rule ensuresI)
    fix e w x w' assume inv: "shipping ps (tabs w)" and run: "create_tx L d' e w = (Inr x, w')"
    from create_tx_run [OF run] show "case x of Commit y \<Rightarrow> shipping ps (tabs w') | CommitQuietly y \<Rightarrow> shipping ps (tabs w') | Discard y \<Rightarrow> True"
      using inv that by (auto simp: row_of_def intro!: ship_inv_created [of "tabs w" "row_of L d'"])
  qed
  have "always (shipping ps) (with_tx fb fc (create_tx L d'))" if "dl_status d' = ''CREATED''" for d' and fb fc
    by (intro always_atomic with_tx_atomic, unfold keeps_def)
      (rule with_tx_ensures [OF body [OF that]], auto)
  then show ?thesis unfolding Create_delivery_def using assms
    by (intro always_bind) (auto intro: always_read_only read_only_new_uuid read_only_ret read_only_time_now)
qed

section \<open>The service\<close>

lemma on_warehouses_select: "on_warehouses (select q) t = Inr (x, t') \<Longrightarrow> t' = t"
  by (auto simp: on_warehouses_def select_def split: option.splits)

lemma or_empty_read_only: "read_only m \<Longrightarrow> read_only (or_empty m)"
  unfolding or_empty_def by (intro read_only_bind read_only_attempt read_only_ret)

lemma fetchPartnerWarehouses_read_only: "read_only (fetchPartnerWarehouses S i)"
  unfolding fetchPartnerWarehouses_def GetPartnerWarehouses_def GetWarehousesByPartnerID_def
  by (auto intro!: read_only_intros or_empty_read_only read_only_pool_query dest: on_warehouses_select)

lemma fetchAvailableWarehouses_read_only: "read_only (fetchAvailableWarehouses S)"
  unfolding fetchAvailableWarehouses_def GetAvailableWarehouses_def
  by (auto intro!: read_only_intros or_empty_read_only read_only_pool_query dest: on_warehouses_select)

lemma choose_origin_read_only: "read_only (choose_origin S p a)"
  unfolding choose_origin_def
  by (auto intro!: read_only_bind read_only_ret fetchPartnerWarehouses_read_only fetchAvailableWarehouses_read_only
      split: prod.split option.split)

lemma read_profile_read_only: "read_only (read_profile q m f)"
  unfolding read_profile_def by (intro read_only_intros)

lemma choose_partner_read_only: "read_only (choose_partner S raw)"
  unfolding choose_partner_def GetPartnerProfile_repo_def GetPartnerProfileByCompanyName_def admit_def
  by (auto intro!: read_only_intros read_only_attempt read_profile_read_only split: sum.split)

lemmas delivery_reads = always_read_only [OF GetByOrderID_read_only] always_read_only [OF GetByID_read_only]
  always_read_only [OF GetByTrackingNumber_read_only] always_read_only [OF choose_partner_read_only]
  always_read_only [OF choose_origin_read_only]

lemma HandleOrderConfirmed_always: "always (shipping ps) (HandleOrderConfirmed S rnd p)"
  unfolding HandleOrderConfirmed_def
  by (intro always_shapes delivery_reads Create_delivery_always) simp

lemma or_if_missing_always: "always P m \<Longrightarrow> always P n \<Longrightarrow> always P (or_if_missing S m n)"
  unfolding or_if_missing_def by (intro always_shapes)

lemma ProcessStatusUpdate_always: "always (shipping ps) (ProcessStatusUpdate S r)"
  unfolding ProcessStatusUpdate_def
  by (intro always_shapes delivery_reads or_if_missing_always UpdateStatusWithDetails_always)

lemma handleOrderConfirmed_always: "always (shipping ps) (handleOrderConfirmed_delivery S D rnd ev)"
  unfolding handleOrderConfirmed_delivery_def void_def by (intro always_shapes HandleOrderConfirmed_always)

section \<open>Partners\<close>

text \<open>
  A profile as it is written: an approved partner has a GSTIN, and a deleted one is not active.
\<close>

definition fit :: "DeliveryPartnerProfile \<Rightarrow> bool" where
  "fit p \<longleftrightarrow> pp_approval p \<in> set approval_statuses \<and> (pp_approval p = ''APPROVED'' \<longrightarrow> given (pp_gstin p)) \<and>
     (pp_deleted_at p \<noteq> None \<longrightarrow> \<not> pp_active p)"

definition partner_inv :: "DeliveryPartnerProfile list \<Rightarrow> bool" where
  "partner_inv ps \<longleftrightarrow> keyed pp_id ps \<and> keyed pp_partner ps \<and> (\<forall>p \<in> set ps. fit p)"

text \<open>Everything but the profiles, which no operation on a partner touches.\<close>

definition shipped :: "delivery_tables \<Rightarrow> delivery_row list \<times> tracking_row list \<times> delivery_envelope outbox_tables" where
  "shipped t = (deliveries t, tracking t, delivery_outbox t)"

abbreviation staffed where
  "staffed s t \<equiv> partner_inv (profiles t) \<and> shipped t = s"

lemma partner_inv_updated:
  assumes "partner_inv ps" and "\<And>p. p \<in> set ps \<Longrightarrow> c p \<Longrightarrow> pp_id (f p) = pp_id p \<and> pp_partner (f p) = pp_partner p \<and> fit (f p)"
  shows "partner_inv (upd_where c f ps)"
proof -
  have "map k (upd_where c f ps) = map k ps" if "\<And>p. p \<in> set ps \<Longrightarrow> c p \<Longrightarrow> k (f p) = k p"
    for k :: "DeliveryPartnerProfile \<Rightarrow> string"
    using that by (auto simp: upd_where_def)
  then have "keyed pp_id (upd_where c f ps)" "keyed pp_partner (upd_where c f ps)"
    using assms by (simp_all add: partner_inv_def keyed_def)
  moreover have "\<forall>p \<in> set (upd_where c f ps). fit p"
    using assms by (auto simp: partner_inv_def upd_where_def)
  ultimately show ?thesis by (simp add: partner_inv_def)
qed

lemma upsert_profile_keeps:
  assumes "staffed s t" and "fit p" and "upsert_profile p t = Inr (x, t')"
  shows "staffed s t'"
  using assms(1) assms(3)
  by (auto simp: upsert_profile_def shipped_def split: if_splits intro!: partner_inv_updated)
    (use assms(2) in \<open>auto simp: fit_def partner_inv_def keyed_snoc given_def split: option.splits\<close>)

lemma save_keeps:
  assumes "fit (p\<lparr>pp_approval := (if pp_approval p = [] then ''PENDING'' else pp_approval p)\<rparr>)"
  shows "always (staffed s) (CreateOrUpdatePartnerProfile_repo p)"
proof -
  have "always (staffed s) (pool_sql (upsert_profile q))" if "fit q" for q
    using upsert_profile_keeps [OF _ that] by (intro always_atomic [OF atomic_pool_sql] keeps_pool_sql) blast
  then show ?thesis unfolding CreateOrUpdatePartnerProfile_repo_def bind_ret
    by (intro always_shapes) (use assms in \<open>simp add: fit_def\<close>)
qed

lemma fit_save_profile:
  assumes "fit p" shows "always (staffed s) (save_profile p)"
proof -
  have "pp_approval p \<noteq> []" using assms by (auto simp: fit_def approval_statuses_def)
  with assms show ?thesis unfolding save_profile_def by (intro always_shapes save_keeps) (simp add: fit_def)
qed

lemma update_profiles_keeps:
  "(\<And>p. c p \<Longrightarrow> fit p \<Longrightarrow> pp_id (f p) = pp_id p \<and> pp_partner (f p) = pp_partner p \<and> fit (f p)) \<Longrightarrow>
   always (staffed s) (pool_sql (update_profiles c f))"
  by (intro always_atomic [OF atomic_pool_sql] keeps_pool_sql)
    (auto simp: update_profiles_def shipped_def partner_inv_def intro!: partner_inv_updated [unfolded partner_inv_def])

text \<open>A profile that was read is fit, and what follows may rely on it.\<close>

lemma GetPartnerProfile_repo_fit: "yields (staffed s) (GetPartnerProfile_repo i) fit"
  unfolding GetPartnerProfile_repo_def read_profile_def
  by (rule yieldsI) (auto simp: run_ok find_profile_def partner_inv_def split: option.splits dest: find_Some_in)

lemma GetPartnerProfileByGSTIN_fit: "yields (staffed s) (GetPartnerProfileByGSTIN g) fit"
  unfolding GetPartnerProfileByGSTIN_def read_profile_def
  by (rule yieldsI) (auto simp: run_ok partner_inv_def split: option.splits dest!: find_Some_in)

lemma live_profile_fit: "yields (staffed s) (live_profile i) (\<lambda>p. fit p \<and> pp_deleted_at p = None)"
  using GetPartnerProfile_repo_fit [of s "TrimSpace i"] unfolding live_profile_def present_def yields_def
  by (simp add: run_ok) blast

lemma profile_reads: "always P (GetPartnerProfile_repo i)" "always P (GetPartnerProfileByGSTIN g)"
  "always P (live_profile i)" "always P (present p)" "always P (partner_target L i)" "always P (owned c i p msg)"
  unfolding live_profile_def GetPartnerProfile_repo_def GetPartnerProfileByGSTIN_def present_def partner_target_def owned_def
  by (intro always_read_only read_only_intros read_profile_read_only)+

lemmas with_profile = always_yields [OF profile_reads(3) live_profile_fit]

lemma new_company_fit: "fit p \<Longrightarrow> fit (new_company c p)"
  by (auto simp: new_company_def demote_def fit_def approval_statuses_def split: option.split)

lemma new_gstin_fit: "new_gstin g p = Inr q \<Longrightarrow> fit p \<Longrightarrow> fit q"
  by (auto simp: new_gstin_def demote_def fit_def approval_statuses_def Let_def split: option.splits if_splits)

lemma edited_fit:
  assumes "edited c m n g p = Inr q" and "fit p" shows "fit q"
proof -
  have "fit (p'\<lparr>pp_email := a\<rparr>)" "fit (p'\<lparr>pp_contact := a\<rparr>)" if "fit p'" for p' a using that by (auto simp: fit_def)
  with assms new_company_fit [OF assms(2), of c] show ?thesis
    by (auto simp: edited_def Let_def split: if_splits option.splits elim!: new_gstin_fit)
qed

lemma fresh_profile_fit: "fit (fresh_profile i p n)"
  by (simp add: fresh_profile_def fit_def approval_statuses_def)

lemma CreateOrUpdatePartnerProfile_always:
  "\<lbrakk>pp_approval p = []; pp_deleted_at p = None\<rbrakk> \<Longrightarrow> always (staffed s) (CreateOrUpdatePartnerProfile (Some p))"
  unfolding CreateOrUpdatePartnerProfile_def
  by (auto intro!: always_shapes save_keeps simp: fit_def approval_statuses_def)

lemma UpdatePartnerProfile_always: "always (staffed s) (UpdatePartnerProfile L i c m n g caller)"
proof -
  let ?get = "\<lambda>r. case r of
      Inl er \<Rightarrow>
        if IsNotFound (dv_grpc L) (Some er) then
          bind time_now (\<lambda>now. bind new_uuid (\<lambda>j. ret (fresh_profile j (TrimSpace i) now)))
        else raise er
    | Inr p \<Rightarrow> seq (present p) (ret p)"
  have get: "always (staffed s) (?get r)" for r
    by (intro always_shapes profile_reads)
  have rest: "always (staffed s) (seq (owned caller i p msg) (bind (call (edited c m n g p)) save_profile))" if "fit p" for p msg
    by (intro always_seq profile_reads always_yields [where Q = fit] always_plain fit_save_profile yieldsI)
      (use that in \<open>auto simp: run_ok elim: edited_fit\<close>)
  have read: "yields (staffed s) (attempt (GetPartnerProfile_repo (TrimSpace i))) (\<lambda>r. case r of Inl _ \<Rightarrow> True | Inr p \<Rightarrow> fit p)"
    using GetPartnerProfile_repo_fit [of s "TrimSpace i"] unfolding yields_def by (auto simp: run_ok split: sum.split)
  have "yields (staffed s) (?get r) fit" if "case r of Inl _ \<Rightarrow> True | Inr p \<Rightarrow> fit p" for r
    using that by (intro yieldsI) (auto simp: run_ok present_def fresh_profile_fit split: sum.splits if_splits)
  then show ?thesis unfolding UpdatePartnerProfile_def
    by (intro always_seq profile_reads always_yields [OF always_attempt [OF profile_reads(1)] read]
        always_yields [OF get] rest)
qed

lemma gstin_given: "gstinRegex g \<Longrightarrow> given (Some g)"
proof -
  assume "gstinRegex g"
  then obtain c g' where "g = c # g'" "is_digit c"
    by (auto simp: gstinRegex_def list_all2_Cons1 numeral_2_eq_2)
  then have "\<not> is_space c" by (auto simp: is_digit_def is_space_def)
  with \<open>g = c # g'\<close> show "given (Some g)" by (simp add: given_def blank_def TrimSpace_def)
qed

lemma unverified_always: "fit p \<Longrightarrow> always (staffed s) (unverified p er)"
  unfolding unverified_def
  by (intro always_shapes save_keeps) (auto simp: fit_def approval_statuses_def)

lemma verify_with_always:
  assumes "fit p" and "gstinRegex g" shows "always (staffed s) (verify_with S g p)"
proof -
  have "fit (p\<lparr>pp_gstin := Some g, pp_verified := True,
      pp_approval := (if pp_approval p \<noteq> ''APPROVED'' then ''PENDING'' else pp_approval p)\<rparr>)"
    using assms gstin_given by (auto simp: fit_def approval_statuses_def)
  with assms show ?thesis unfolding verify_with_def
    by (intro always_shapes unverified_always fit_save_profile)
qed

lemma VerifyGSTIN_always: "always (staffed s) (VerifyGSTIN S i g caller)"
proof -
  have "always (staffed s) (bind (if b then seq (require c er) (GetPartnerProfile_repo j) else GetPartnerProfileByGSTIN h) f)"
    if "\<And>p. fit p \<Longrightarrow> always (staffed s) (f p)" for b c er j h and f :: "DeliveryPartnerProfile \<Rightarrow> DeliveryPartnerProfile del_db"
    using that GetPartnerProfile_repo_fit [of s j] GetPartnerProfileByGSTIN_fit [of s h]
    by (intro always_yields [where Q = fit] always_shapes profile_reads) (simp_all add: yields_def run_ok, blast)
  note read = this
  show ?thesis unfolding VerifyGSTIN_def bind_ret
    by (intro always_guard, rule read) (intro always_guard always_seq profile_reads verify_with_always)
qed

lemmas partner_change = always_guard always_seq profile_reads with_profile fit_save_profile

lemma partner_actions_always:
  "always (staffed s) (ActivatePartner L i caller)" "always (staffed s) (DeactivatePartner L i r caller)"
  "always (staffed s) (ApprovePartner L i)" "always (staffed s) (RejectPartner L i r)"
  "always (staffed s) (AppealRejection L i r caller)"
  unfolding ActivatePartner_def DeactivatePartner_def ApprovePartner_def RejectPartner_def AppealRejection_def
  by (intro partner_change always_bind [OF always_read_only [OF read_only_time_now]];
      auto simp: fit_def approval_statuses_def)+

lemma DeletePartnerProfile_always: "always (staffed s) (DeletePartnerProfile L i r caller)"
  unfolding DeletePartnerProfile_def SoftDeletePartnerProfile_def
  by (intro always_shapes profile_reads update_profiles_keeps) (auto simp: fit_def)

lemma ProcessExpiredDeactivations_always: "always (staffed s) (ProcessExpiredDeactivations n)"
  unfolding ProcessExpiredDeactivations_def SoftDeleteExpiredDeactivatedPartners_def
  by (intro always_shapes update_profiles_keeps) (auto simp: fit_def)

lemma handlePartnerRegistered_always: "always (staffed s) (handlePartnerRegistered S D ev)"
  unfolding handlePartnerRegistered_def void_def
  by (intro always_shapes CreateOrUpdatePartnerProfile_always) (simp_all add: fresh_profile_def)

section \<open>The reachable states\<close>

definition delivery_inv :: "delivery_tables \<Rightarrow> bool" where
  "delivery_inv t \<longleftrightarrow> ship_inv t \<and> partner_inv (profiles t)"

lemma shipping_inv:
  assumes "\<And>ps. always (shipping ps) m" shows "always delivery_inv m"
  unfolding always_def
proof (intro allI impI)
  fix e and w :: "delivery_tables world" assume "delivery_inv (tabs w)"
  with assms [of "profiles (tabs w)"] show "delivery_inv (tabs (snd (m e w)))"
    unfolding always_def delivery_inv_def by metis
qed

lemma staffed_inv:
  assumes "\<And>s. always (staffed s) m" shows "always delivery_inv m"
  unfolding always_def
proof (intro allI impI)
  fix e and w :: "delivery_tables world" assume inv: "delivery_inv (tabs w)"
  with assms [of "shipped (tabs w)"] have "staffed (shipped (tabs w)) (tabs (snd (m e w)))"
    unfolding always_def delivery_inv_def by blast
  moreover from this have "ship_inv (tabs (snd (m e w))) = ship_inv (tabs w)"
    by (intro ship_inv_cong) (simp_all add: shipped_def)
  ultimately show "delivery_inv (tabs (snd (m e w)))" using inv by (simp add: delivery_inv_def)
qed

lemma named_always: "(\<And>r i. always P (f r i)) \<Longrightarrow> always P (named R req key msg f)"
  unfolding named_def check_request_def by (intro always_shapes)

lemma to_service_always: "always P m \<Longrightarrow> always P (to_service R m f)"
  unfolding to_service_def by (intro always_shapes)

lemma HandleEvent_delivery_always: "always delivery_inv (HandleEvent_delivery S D rnd ev)"
  unfolding HandleEvent_delivery_def
  by (intro always_shapes shipping_inv [OF handleOrderConfirmed_always] staffed_inv [OF handlePartnerRegistered_always])

lemma GetPartnerProfile_always: "always P (GetPartnerProfile L i)"
  unfolding GetPartnerProfile_def by (intro always_seq profile_reads)

lemma CreatePartnerProfile_always: "always (staffed s) (CreatePartnerProfile R req)"
  unfolding CreatePartnerProfile_def check_request_def
  by (intro named_always always_shapes CreateOrUpdatePartnerProfile_always GetPartnerProfile_always)
    (simp_all add: fresh_profile_def)

lemmas delivery_handlers =
  shipping_inv [OF HandleOrderConfirmed_always] shipping_inv [OF ProcessStatusUpdate_always]
  staffed_inv [OF CreatePartnerProfile_always] staffed_inv [OF UpdatePartnerProfile_always]
  staffed_inv [OF VerifyGSTIN_always] partner_actions_always [THEN staffed_inv]
  staffed_inv [OF DeletePartnerProfile_always] staffed_inv [OF ProcessExpiredDeactivations_always]
  HandleEvent_delivery_always

lemmas delivery_methods = CreateDelivery_def UpdateDeliveryStatus_def UpdatePartnerProfile_rpc_def VerifyGSTIN_rpc_def
  ActivatePartner_rpc_def DeactivatePartner_rpc_def DeletePartnerProfile_rpc_def ApprovePartner_rpc_def
  RejectPartner_rpc_def AppealRejection_rpc_def ProcessExpiredDeactivations_rpc_def check_request_def

lemma serve_delivery_always: "always delivery_inv (serve_delivery R D rq)"
  by (cases rq) (simp_all add: delivery_methods always_shapes always_void named_always to_service_always delivery_handlers)

interpretation delivery_request: stable_operation "serve_delivery R D rq" delivery_inv
  by unfold_locales (rule serve_delivery_always)

lemma delivery_reach_inv: "delivery_reach R D t \<Longrightarrow> delivery_inv t"
proof (induction rule: delivery_reach.induct)
  case start
  show ?case
    by (simp add: delivery_inv_def ship_inv_def partner_inv_def no_deliveries_def created_events_def changed_events_def)
next
  case (request w rq e r w')
  then show ?case using alwaysD [OF delivery_request.op_always] by blast
qed

end
