(* ===== verification/Delivery_Props.thy ===== *)
theory Delivery_Props
  imports Delivery_Trace Order_Props
begin

text \<open>
  What the delivery service guarantees: deliveries follow the table of statuses, every change
  is recorded and announced, an order is shipped at most once and by a partner that is ready;
  and what goes wrong between the order service and it.
\<close>

section \<open>A sample service\<close>

text \<open>Identifiers start with \<open>u\<close>; no other service is connected and the registry knows one company.\<close>

definition smp_dgrpc :: grpc_lib where
  "smp_dgrpc = \<lparr>from_error = (\<lambda>er. case er of StatusError c m \<Rightarrow> Some (c, m) | _ \<Rightarrow> None), status_text = (\<lambda>c m. m)\<rparr>"

definition smp_dlib :: delivery_lib where
  "smp_dlib = \<lparr>dv_uuid = (\<lambda>s. take 1 s = ''u''), dv_json = (\<lambda>a. ad_contact a), dv_scan = (\<lambda>s. no_address\<lparr>ad_contact := s\<rparr>),
     dv_grpc = smp_dgrpc\<rparr>"

definition smp_dsvc :: delivery_svc where
  "smp_dsvc = \<lparr>ds_partner = \<lparr>pt_lib = smp_dlib,
       pt_gstin = \<lparr>gc_key = ''k'', gc_url = [], gc_enabled = True, gc_request = (\<lambda>_. None),
         gc_http = (\<lambda>_ _. Inr (200, [])),
         gc_decode = (\<lambda>_. Inr \<lparr>gr_success = True, gr_data = Some \<lparr>gd_legal = ''Blue Ltd'', gd_trade = [],
            gd_status = ''Active'', gd_block = []\<rparr>, gr_message = [], gr_error = []\<rparr>)\<rparr>\<rparr>,
     ds_order = None, ds_stock = None\<rparr>"

definition smp_server :: delivery_server where
  "smp_server = \<lparr>sr_svc = smp_dsvc, sr_json = \<lparr>aj_struct = (\<lambda>_. (False, no_address)), aj_fields = (\<lambda>_. None)\<rparr>,
     sr_rfc3339 = itoa\<rparr>"

definition smp_ddec :: "PartnerRegisteredEvent delivery_decoders" where
  "smp_ddec = \<lparr>dd_confirmed = (\<lambda>_. Inl (ErrorString ''bad'')), dd_partner = Inr, dd_address = (\<lambda>_. (False, no_address)),
     dd_string = (\<lambda>_. None)\<rparr>"

definition smp_empty :: "delivery_tables world" where
  "smp_empty = \<lparr>tabs = no_deliveries, aborted = False, nstmt = 0, nuuid = 0, nsend = 0, sent = []\<rparr>"

definition smp_deliver :: "PartnerRegisteredEvent delivery_request \<Rightarrow> delivery_tables world \<Rightarrow> delivery_tables world" where
  "smp_deliver rq w = snd (serve_delivery smp_server smp_ddec rq smp_env w)"

lemma smp_deliver_reach:
  "delivery_reach smp_server smp_ddec (tabs w) \<Longrightarrow> delivery_reach smp_server smp_ddec (tabs (smp_deliver rq w))"
  unfolding smp_deliver_def by (rule delivery_reach.request [of _ _ w rq smp_env]) (auto simp: prod_eq_iff)

definition smp_made :: "delivery_tables world" where
  "smp_made = smp_deliver (RqCreate (Inr [10, 255]) (Some \<lparr>cd_order = ''u1'', cd_partner = ''Blue'', cd_address = ''12 Road'',
     cd_contact = ''555'', cd_address_id = ''a1''\<rparr>)) smp_empty"

definition smp_picked :: "delivery_tables world" where
  "smp_picked = smp_deliver (RqStatus (Some \<lparr>ud_id = ''u1'', ud_status = '' picked_up'', ud_location = ''hub''\<rparr>)) smp_made"

lemma smp_delivery_reach: "delivery_reach smp_server smp_ddec (tabs smp_made)" "delivery_reach smp_server smp_ddec (tabs smp_picked)"
proof -
  have "delivery_reach smp_server smp_ddec (tabs smp_empty)" by (simp add: smp_empty_def delivery_reach.start)
  then show "delivery_reach smp_server smp_ddec (tabs smp_made)" unfolding smp_made_def by (rule smp_deliver_reach)
  then show "delivery_reach smp_server smp_ddec (tabs smp_picked)" unfolding smp_picked_def by (rule smp_deliver_reach)
qed

lemma smp_picked_rows: "map dr_status (deliveries (tabs smp_picked)) = [''PICKED_UP''] \<and>
  map tu_status (tracking (tabs smp_picked)) = [''PICKED_UP'']"
  by code_simp

section \<open>Deliveries\<close>

text \<open>
  C27. In every state the service can reach, whatever was requested and whatever failed, the
  tracking history of a delivery is a way through the transition table from \<open>CREATED\<close> to its
  present status, with at most four changes; a delivered one has its time of delivery; and no
  two deliveries share an order or a tracking number.
\<close>

theorem deliveries_follow_the_table:
  assumes "delivery_reach R D t" and "r \<in> set (deliveries t)"
  shows "way ''CREATED'' (passed (dr_id r) t) (dr_status r) \<and> length (passed (dr_id r) t) \<le> 4 \<and>
    (dr_status r = ''DELIVERED'' \<longrightarrow> dr_actual r \<noteq> None) \<and>
    (\<forall>q \<in> set (deliveries t). dr_order q = dr_order r \<or> dr_tracking q = dr_tracking r \<longrightarrow> q = r)"
proof -
  have inv: "ship_inv t" using delivery_reach_inv [OF assms(1)] by (simp add: delivery_inv_def)
  then have way: "way ''CREATED'' (passed (dr_id r) t) (dr_status r)" using assms(2) by (simp add: ship_inv_def)
  have "length (passed (dr_id r) t) \<le> 4" using way_steps [OF way] by (rule delivery_life.steps_bounded)
  moreover have "q = r" if "q \<in> set (deliveries t)" "dr_order q = dr_order r \<or> dr_tracking q = dr_tracking r" for q
    using inv that assms(2) keyed_unique [of dr_order "deliveries t" q r] keyed_unique [of dr_tracking "deliveries t" q r]
    by (auto simp: ship_inv_def)
  ultimately show ?thesis using way inv assms(2) by (simp add: ship_inv_def)
qed

theorem deliveries_follow_the_table_witness:
  "\<exists>r. r \<in> set (deliveries (tabs smp_picked)) \<and> dr_status r = ''PICKED_UP'' \<and>
     way ''CREATED'' (passed (dr_id r) (tabs smp_picked)) ''PICKED_UP''"
proof -
  obtain r where r: "deliveries (tabs smp_picked) = [r]" "dr_status r = ''PICKED_UP''" using smp_picked_rows by auto
  with deliveries_follow_the_table [OF smp_delivery_reach(2), of r] show ?thesis by auto
qed

text \<open>
  C29. In every reachable state the outbox has exactly one \<open>DeliveryCreated\<close> event per delivery and
  one \<open>DeliveryStatusChanged\<close> event per entry of the tracking history, both in the order they
  were written, although inserting the history entry is allowed to fail.
\<close>

theorem deliveries_are_announced:
  assumes "delivery_reach R D t"
  shows "created_events t = map dr_id (deliveries t) \<and>
    changed_events t = map (\<lambda>u. (tu_delivery u, tu_status u)) (tracking t)"
  using delivery_reach_inv [OF assms] by (simp add: delivery_inv_def ship_inv_def)

theorem deliveries_are_announced_witness:
  "map snd (changed_events (tabs smp_picked)) = [''PICKED_UP'']"
proof -
  have "map snd (changed_events (tabs smp_picked)) = map tu_status (tracking (tabs smp_picked))"
    using deliveries_are_announced [OF smp_delivery_reach(2)] by simp
  then show ?thesis using smp_picked_rows by simp
qed

lemma Create_delivery_existing:
  assumes "dl_order d \<in> dr_order ` set (deliveries t0)" shows "always (\<lambda>t. t = t0) (Create_delivery L d)"
proof -
  have "always (\<lambda>t. t = t0) (with_tx fb fc (create_tx L d1))" if "dl_order d1 = dl_order d" for d1 fb fc
  proof (intro always_atomic with_tx_atomic, unfold keeps_def, rule ensuresI)
    fix e x w' and w :: "delivery_tables world"
    assume "tabs w = t0" and "with_tx fb fc (create_tx L d1) e w = (Inr x, w')"
    with assms that show "tabs w' = t0" by (elim with_tx_ok) (auto dest!: create_tx_run)
  qed
  then show ?thesis unfolding Create_delivery_def by (intro always_shapes) simp
qed

text \<open>
  C28. An order is shipped at most once: a confirmed order that has a delivery, announced again by
  an event or a request and handled under any failures, also while its delivery cannot be read,
  changes no table.
\<close>

theorem order_is_shipped_once:
  assumes "TrimSpace (cp_order p) \<in> dr_order ` set (deliveries (tabs w))"
  shows "tabs (snd (HandleOrderConfirmed S rnd (Some p) e w)) = tabs w"
proof -
  let ?P = "\<lambda>t. t = tabs w"
  have create: "always ?P (Create_delivery L d)" if "dl_order d = TrimSpace (cp_order p)" for L d
    using assms that by (intro Create_delivery_existing) simp
  have "always ?P (HandleOrderConfirmed S rnd (Some p))"
    unfolding HandleOrderConfirmed_def option.case bind_ret
    by (intro always_shapes delivery_reads create) simp
  then show ?thesis by (simp add: always_def)
qed

theorem order_is_shipped_once_witness:
  "tabs (snd (HandleOrderConfirmed smp_dsvc (Inr [7]) (Some \<lparr>cp_order = '' u1'', cp_partner = [], cp_address = None,
     cp_address_id = []\<rparr>) (smp_env\<lparr>fault := \<lambda>n. n = nstmt smp_made\<rparr>) smp_made)) = tabs smp_made"
proof (rule order_is_shipped_once)
  have "map dr_order (deliveries (tabs smp_made)) = [''u1''] \<and> TrimSpace '' u1'' = ''u1''" by code_simp
  then show "TrimSpace (cp_order \<lparr>cp_order = '' u1'', cp_partner = [], cp_address = None, cp_address_id = []\<rparr>)
    \<in> dr_order ` set (deliveries (tabs smp_made))" by (auto simp flip: set_map)
qed

text \<open>
  The steps before the assignment of a partner change nothing, and a partner that is not ready
  ends the handler.
\<close>

lemma reads_then_chosen:
  assumes run: "seq (require b er) (bind (attempt m) (\<lambda>found. case found of
      Inr x \<Rightarrow> ret x
    | Inl _ \<Rightarrow> bind (call c) (\<lambda>(a, d). seq (require (ok a d) er2) (bind chosen (f a d))))) e w = (r, w')"
    and reads: "read_only m" "read_only chosen" and changed: "tabs w' \<noteq> tabs w"
  shows "\<exists>x w1 w2. tabs w1 = tabs w \<and> chosen e w1 = (Inr x, w2)"
proof -
  from run changed have "bind (attempt m) (\<lambda>found. case found of
      Inr x \<Rightarrow> ret x
    | Inl _ \<Rightarrow> bind (call c) (\<lambda>(a, d). seq (require (ok a d) er2) (bind chosen (f a d)))) e w = (r, w')"
    by (simp add: require_runs split: if_splits)
  then obtain found :: "go_error + _" and w1 where w1: "tabs w1 = tabs w" and "(case found of
      Inr x \<Rightarrow> ret x
    | Inl _ \<Rightarrow> bind (call c) (\<lambda>(a, d). seq (require (ok a d) er2) (bind chosen (f a d)))) e w1 = (r, w')"
    using read_only_attempt [OF reads(1)] by (rule read_first) (use changed in blast)+
  with changed have "bind (call c) (\<lambda>(a, d). seq (require (ok a d) er2) (bind chosen (f a d))) e w1 = (r, w')"
    by (auto simp: ret_def split: sum.splits)
  then obtain a d where "seq (require (ok a d) er2) (bind chosen (f a d)) e w1 = (r, w')"
    using changed w1 by (auto simp: bind_runs call_def ret_def raise_def split: sum.splits prod.splits)
  then have "bind chosen (f a d) e w1 = (r, w')"
    using changed w1 by (simp add: require_runs split: if_splits)
  then show ?thesis using changed w1 reads(2) by (elim read_first) auto
qed

lemma GetPartnerProfile_found:
  "fault_free e \<Longrightarrow> find_profile i (tabs w) = Some q \<Longrightarrow> GetPartnerProfile_repo i e w = (Inr q, w\<lparr>nstmt := Suc (nstmt w)\<rparr>)"
  by (simp add: GetPartnerProfile_repo_def read_profile_def bind_def on_error_def pool_sql_def select_def Let_def ret_def)

lemma GetPartnerProfileByCompanyName_found:
  "fault_free e \<Longrightarrow> \<not> blank name \<Longrightarrow> find_company name (tabs w) = Some q \<Longrightarrow>
    GetPartnerProfileByCompanyName name e w = (Inr q, w\<lparr>nstmt := Suc (nstmt w)\<rparr>)"
  by (simp add: GetPartnerProfileByCompanyName_def read_profile_def seq_def bind_def on_error_def require_def
      pool_sql_def select_def Let_def ret_def)

lemma choose_partner_ready:
  assumes "choose_partner S raw e w = (Inr x, w')" and "fault_free e" and "\<not> blank raw"
    and "(if dv_uuid (ds_lib S) raw then find_profile raw (tabs w) else find_company raw (tabs w)) = Some q"
  shows "partner_ready q"
proof -
  have "raw \<noteq> []" using assms(3) by (auto simp: blank_def TrimSpace_def)
  then show ?thesis
    using assms by (simp add: choose_partner_def attempt_runs GetPartnerProfile_found
        GetPartnerProfileByCompanyName_found admit_def run_ok split: if_splits)
qed

text \<open>
  C30. While no statement fails, a delivery for a partner that has a profile, whether the event
  names it by its identifier or by its company name, is only made when the partner is ready:
  approved, active and verified. In a reachable state it then has a GSTIN and is not deleted.
\<close>

theorem deliveries_go_to_ready_partners:
  assumes "HandleOrderConfirmed S rnd (Some p) e w = (r, w')" and "tabs w' \<noteq> tabs w"
    and "fault_free e" and "delivery_reach R D (tabs w)"
    and "\<not> blank (cp_partner p)"
    and "(if dv_uuid (ds_lib S) (TrimSpace (cp_partner p)) then find_profile (TrimSpace (cp_partner p)) (tabs w)
      else find_company (TrimSpace (cp_partner p)) (tabs w)) = Some q"
  shows "partner_ready q \<and> given (pp_gstin q) \<and> pp_deleted_at q = None"
proof -
  from reads_then_chosen [OF assms(1) [unfolded HandleOrderConfirmed_def option.case bind_ret]
      GetByOrderID_read_only choose_partner_read_only assms(2)]
  obtain x w1 w2 where chosen: "tabs w1 = tabs w" "choose_partner S (TrimSpace (cp_partner p)) e w1 = (Inr x, w2)"
    by blast
  have "partner_ready q"
    by (rule choose_partner_ready [OF chosen(2) assms(3)]) (use chosen(1) assms(5,6) in \<open>auto split: if_splits\<close>)
  moreover have "fit q" using delivery_reach_inv [OF assms(4)] assms(6)
    by (auto simp: delivery_inv_def partner_inv_def find_profile_def find_company_def split: if_splits dest: find_Some_in)
  ultimately show ?thesis by (simp add: fit_def partner_ready_def)
qed

definition smp_action :: "PartnerActionPb option" where
  "smp_action = Some \<lparr>aq_partner = ''u9'', aq_text = [], aq_caller = []\<rparr>"

definition smp_registered :: "delivery_tables world" where
  "smp_registered = smp_deliver (RqProfile (Some \<lparr>cq_partner = ''u9'', cq_company = ''Blue'', cq_email = ''b@x'',
     cq_contact = ''1'', cq_gstin = Some ''22abcde1234f1z5''\<rparr>)) smp_empty"

definition smp_approved :: "delivery_tables world" where
  "smp_approved = smp_deliver (RqApprove smp_action) (smp_deliver (RqVerify smp_action) smp_registered)"

definition smp_order_for_partner :: OrderConfirmedPayload where
  "smp_order_for_partner = \<lparr>cp_order = ''u1'', cp_partner = '' u9'', cp_address = Some (no_address\<lparr>ad_contact := ''5''\<rparr>),
     cp_address_id = []\<rparr>"

definition smp_order_by_name :: OrderConfirmedPayload where
  "smp_order_by_name = \<lparr>cp_order = ''u1'', cp_partner = ''BLUE '', cp_address = Some (no_address\<lparr>ad_contact := ''5''\<rparr>),
     cp_address_id = []\<rparr>"

lemma smp_approved_reach: "delivery_reach smp_server smp_ddec (tabs smp_approved)"
  unfolding smp_approved_def smp_registered_def
  by (intro smp_deliver_reach) (simp add: smp_empty_def delivery_reach.start)

lemma smp_approved_rows:
  "map (\<lambda>p. (pp_partner p, pp_approval p, pp_gstin p, pp_active p)) (profiles (tabs smp_approved)) =
     [(''u9'', ''APPROVED'', Some ''22ABCDE1234F1Z5'', True)] \<and>
   find_profile ''u9'' (tabs smp_approved) \<noteq> None"
  by code_simp

lemma smp_assigned: "map dr_partner (deliveries (tabs (snd (HandleOrderConfirmed smp_dsvc (Inr [7]) (Some smp_order_for_partner)
    smp_env smp_approved)))) = [''Blue''] \<and>
  map dr_partner (deliveries (tabs (snd (HandleOrderConfirmed smp_dsvc (Inr [7]) (Some smp_order_by_name)
    smp_env smp_approved)))) = [''BLUE''] \<and> deliveries (tabs smp_approved) = []"
  by code_simp

theorem deliveries_go_to_ready_partners_witness:
  "(\<exists>q. find_profile ''u9'' (tabs smp_approved) = Some q \<and> partner_ready q) \<and>
   (\<exists>q. find_company ''BLUE'' (tabs smp_approved) = Some q \<and> partner_ready q)"
proof
  let ?run = "\<lambda>order. HandleOrderConfirmed smp_dsvc (Inr [7]) (Some order) smp_env smp_approved"
  have ne: "tabs (snd (?run smp_order_for_partner)) \<noteq> tabs smp_approved"
    "tabs (snd (?run smp_order_by_name)) \<noteq> tabs smp_approved" using smp_assigned by auto
  have ff: "fault_free smp_env" by (simp add: fault_free_def smp_env_def)
  obtain q where q: "find_profile ''u9'' (tabs smp_approved) = Some q" using smp_approved_rows by blast
  have "TrimSpace (cp_partner smp_order_for_partner) = ''u9'' \<and> dv_uuid (ds_lib smp_dsvc) ''u9'' \<and>
    \<not> blank (cp_partner smp_order_for_partner)" by code_simp
  with deliveries_go_to_ready_partners [OF prod.collapse [symmetric] ne(1) ff smp_approved_reach, of q] q
  show "\<exists>q. find_profile ''u9'' (tabs smp_approved) = Some q \<and> partner_ready q" by simp
  have "find_company ''BLUE'' (tabs smp_approved) \<noteq> None" by code_simp
  then obtain q2 where q2: "find_company ''BLUE'' (tabs smp_approved) = Some q2" by blast
  have "TrimSpace (cp_partner smp_order_by_name) = ''BLUE'' \<and> \<not> dv_uuid (ds_lib smp_dsvc) ''BLUE'' \<and>
    \<not> blank (cp_partner smp_order_by_name)" by code_simp
  with deliveries_go_to_ready_partners [OF prod.collapse [symmetric] ne(2) ff smp_approved_reach, of q2] q2
  show "\<exists>q. find_company ''BLUE'' (tabs smp_approved) = Some q \<and> partner_ready q" by simp
qed

section \<open>Partners\<close>

text \<open>What saving a profile without failures leaves in the row of the partner.\<close>

definition merged :: "DeliveryPartnerProfile \<Rightarrow> DeliveryPartnerProfile \<Rightarrow> DeliveryPartnerProfile" where
  "merged p q = p\<lparr>pp_id := pp_id q, pp_created := pp_created q,
     pp_company := (if pp_company p \<noteq> [] then pp_company p else pp_company q),
     pp_email := (if pp_email p \<noteq> [] then pp_email p else pp_email q),
     pp_contact := (if pp_contact p \<noteq> [] then pp_contact p else pp_contact q),
     pp_gstin := (if pp_gstin p \<noteq> None then pp_gstin p else pp_gstin q)\<rparr>"

lemma upsert_known:
  assumes "fault_free e" and "pp_approval p \<in> set approval_statuses" and "pp_partner p \<in> pp_partner ` set (profiles (tabs w))"
  shows "pool_sql (upsert_profile p) e w = (Inr (), w\<lparr>nstmt := Suc (nstmt w),
    tabs := (tabs w)\<lparr>profiles := upd_where (\<lambda>q. pp_partner q = pp_partner p) (merged p) (profiles (tabs w))\<rparr>\<rparr>)"
  using assms by (simp add: pool_sql_def upsert_profile_def merged_def [abs_def])

lemma save_known:
  assumes "fault_free e" and "pp_approval p \<in> set approval_statuses" and "pp_partner p \<in> pp_partner ` set (profiles (tabs w))"
  shows "\<exists>i c u w'. CreateOrUpdatePartnerProfile_repo p e w = (Inr (p\<lparr>pp_id := i, pp_created := c, pp_updated := u\<rparr>), w') \<and>
    tabs w' = (tabs w)\<lparr>profiles := upd_where (\<lambda>q. pp_partner q = pp_partner p)
      (merged (p\<lparr>pp_id := i, pp_created := c, pp_updated := u\<rparr>)) (profiles (tabs w))\<rparr>"
proof -
  define i where "i = (if pp_id p = nil_uuid then uuid_at e (nuuid w) else pp_id p)"
  define w1 where "w1 = (if pp_id p = nil_uuid then w\<lparr>nuuid := Suc (nuuid w)\<rparr> else w)"
  define p1 where "p1 = p\<lparr>pp_id := i, pp_created := (if pp_created p = 0 then clock e else pp_created p),
    pp_updated := (if pp_updated p = 0 then clock e else pp_updated p)\<rparr>"
  have nonempty: "pp_approval p \<noteq> []" using assms(2) by (auto simp: approval_statuses_def)
  have t1: "tabs w1 = tabs w" by (simp add: w1_def)
  have "CreateOrUpdatePartnerProfile_repo p e w =
      seq (on_error (pool_sql (upsert_profile p1)) (wrap ''failed to upsert partner profile'')) (ret p1) e w1"
    using nonempty by (simp add: CreateOrUpdatePartnerProfile_repo_def bind_def ret_def new_uuid_def time_now_def
        i_def w1_def p1_def)
  also have "\<dots> = (Inr p1, w1\<lparr>nstmt := Suc (nstmt w1), tabs := (tabs w)\<lparr>profiles :=
      upd_where (\<lambda>q. pp_partner q = pp_partner p) (merged p1) (profiles (tabs w))\<rparr>\<rparr>)"
    using upsert_known [of e p1 w1] assms t1 by (simp add: p1_def seq_def bind_def on_error_def ret_def)
  finally show ?thesis unfolding p1_def by (intro exI conjI, assumption) simp
qed

lemma in_saved: "p \<in> set ps \<Longrightarrow> pp_partner p = k \<Longrightarrow> merged q p \<in> set (upd_where (\<lambda>r. pp_partner r = k) (merged q) ps)"
  by (force simp: upd_where_def)

text \<open>
  A registration event for a partner that is known already, such as a redelivered one,
  answered with success, takes the partner back to the start: pending, not verified, active and
  not deleted, whatever an administrator had decided.
\<close>

theorem registration_resets_a_partner:
  assumes "fault_free e" and "EventType ev = ''PartnerRegistered''" and "dd_partner D (EventData ev) = Inr pe"
    and "\<not> blank (pe_partner pe)" and "dv_uuid (ds_lib S) (TrimSpace (pe_partner pe))"
    and "TrimSpace (pe_partner pe) \<noteq> nil_uuid"
    and "p \<in> set (profiles (tabs w))" and "pp_partner p = TrimSpace (pe_partner pe)"
  shows "\<exists>w' q. HandleEvent_delivery S D rnd (Some ev) e w = (Inr (), w') \<and> q \<in> set (profiles (tabs w')) \<and>
    pp_id q = pp_id p \<and> pp_partner q = pp_partner p \<and> pp_approval q = ''PENDING'' \<and> \<not> pp_verified q \<and>
    pp_active q \<and> pp_deleted_at q = None \<and> pp_rejection q = None"
proof -
  define n where "n = (fresh_profile nil_uuid (TrimSpace (pe_partner pe)) 0)\<lparr>pp_company := TrimSpace (pe_company pe),
    pp_email := TrimSpace (pe_email pe), pp_contact := TrimSpace (pe_contact pe)\<rparr>"
  have partner: "pp_partner n = TrimSpace (pe_partner pe)" "pp_approval n = ''PENDING''"
    by (simp_all add: n_def fresh_profile_def)
  have "HandleEvent_delivery S D rnd (Some ev) e w = void (CreateOrUpdatePartnerProfile_repo n) e w"
    using assms(2-6) by (simp add: HandleEvent_delivery_def handlePartnerRegistered_def CreateOrUpdatePartnerProfile_def
        call_def on_error_def bind_def seq_def ret_def require_def void_def n_def fresh_profile_def)
  moreover obtain i c u w' where "CreateOrUpdatePartnerProfile_repo n e w = (Inr (n\<lparr>pp_id := i, pp_created := c, pp_updated := u\<rparr>), w')"
    and t': "tabs w' = (tabs w)\<lparr>profiles := upd_where (\<lambda>q. pp_partner q = pp_partner n)
      (merged (n\<lparr>pp_id := i, pp_created := c, pp_updated := u\<rparr>)) (profiles (tabs w))\<rparr>"
    using save_known [of e n w] assms(1,7,8) partner by (force simp: approval_statuses_def)
  ultimately have run: "HandleEvent_delivery S D rnd (Some ev) e w = (Inr (), w')" by (simp add: void_def bind_def ret_def)
  have "merged (n\<lparr>pp_id := i, pp_created := c, pp_updated := u\<rparr>) p \<in> set (profiles (tabs w'))"
    using in_saved [OF assms(7)] assms(8) partner by (simp add: t')
  with run assms(8) show ?thesis
    by (intro exI [of _ w'] exI [of _ "merged (n\<lparr>pp_id := i, pp_created := c, pp_updated := u\<rparr>) p"])
      (simp add: merged_def n_def fresh_profile_def)
qed

definition smp_event_partner :: "PartnerRegisteredEvent EventEnvelope" where
  "smp_event_partner = \<lparr>EventID = ''e'', EventType = ''PartnerRegistered'', AggregateID = ''u9'', EventVersion = ''1.0'',
     Source = ''auth-service'', Timestamp = 0, OccurredAt = 0, CorrelationID = [], TraceID = [],
     EventData = \<lparr>pe_partner = ''u9'', pe_company = ''Blue'', pe_email = ''b@x'', pe_contact = ''1''\<rparr>, Metadata = []\<rparr>"

theorem registration_resets_a_partner_witness:
  "\<exists>p q w'. p \<in> set (profiles (tabs smp_approved)) \<and> pp_approval p = ''APPROVED'' \<and>
     HandleEvent_delivery smp_dsvc smp_ddec (Inr []) (Some smp_event_partner) smp_env smp_approved = (Inr (), w') \<and>
     q \<in> set (profiles (tabs w')) \<and> pp_id q = pp_id p \<and> pp_approval q = ''PENDING'' \<and> \<not> pp_verified q"
proof -
  obtain p where p: "profiles (tabs smp_approved) = [p]" "pp_partner p = ''u9''" "pp_approval p = ''APPROVED''"
    using smp_approved_rows by auto
  have ev: "EventType smp_event_partner = ''PartnerRegistered'' \<and>
      dd_partner smp_ddec (EventData smp_event_partner) = Inr (EventData smp_event_partner) \<and>
      \<not> blank (pe_partner (EventData smp_event_partner)) \<and> TrimSpace (pe_partner (EventData smp_event_partner)) = ''u9'' \<and>
      dv_uuid (ds_lib smp_dsvc) ''u9'' \<and> ''u9'' \<noteq> nil_uuid" by code_simp
  have "fault_free smp_env" by (simp add: fault_free_def smp_env_def)
  with registration_resets_a_partner [of smp_env smp_event_partner smp_ddec "EventData smp_event_partner" smp_dsvc p
      smp_approved "Inr []"] ev p
  show ?thesis by auto
qed

text \<open>
  A partner that clears its GSTIN is answered with a profile without one, but the table
  keeps it: an update never overwrites a GSTIN with nothing.
\<close>

theorem cleared_gstin_stays:
  assumes "fault_free e" and "\<not> blank i" and "dv_uuid L (TrimSpace i)"
    and "find_profile (TrimSpace i) (tabs w) = Some p" and "pp_deleted_at p = None" and "pp_gstin p = Some g"
  shows "\<exists>w' q row. UpdatePartnerProfile L i None None None (Some []) None e w = (Inr q, w') \<and> pp_gstin q = None \<and>
    row \<in> set (profiles (tabs w')) \<and> pp_partner row = pp_partner p \<and> pp_gstin row = Some g"
proof -
  define n where "n = (demote (p\<lparr>pp_gstin := None\<rparr>))\<lparr>pp_updated := clock e\<rparr>"
  define w1 where "w1 = w\<lparr>nstmt := Suc (nstmt w)\<rparr>"
  have p: "p \<in> set (profiles (tabs w))" using assms(4) by (auto simp: find_profile_def dest: find_Some_in)
  have partner: "pp_partner n = pp_partner p" "pp_approval n \<in> set approval_statuses" "pp_gstin n = None"
    by (simp_all add: n_def demote_def approval_statuses_def)
  have edit: "edited None None None (Some []) p = Inr (demote (p\<lparr>pp_gstin := None\<rparr>))"
    using assms(6) by (simp add: edited_def new_company_def new_gstin_def ToUpper_def TrimSpace_def)
  have run: "UpdatePartnerProfile L i None None None (Some []) None e w = CreateOrUpdatePartnerProfile_repo n e w1"
    using assms GetPartnerProfile_found [OF assms(1,4)] edit
    by (simp add: UpdatePartnerProfile_def partner_target_def attempt_runs present_def owned_def is_owner_def
        save_profile_def seq_def bind_def require_def ret_def call_def time_now_def n_def w1_def attempt_def)
  obtain j c u w' where save: "CreateOrUpdatePartnerProfile_repo n e w1 = (Inr (n\<lparr>pp_id := j, pp_created := c, pp_updated := u\<rparr>), w')"
    and t': "tabs w' = (tabs w)\<lparr>profiles := upd_where (\<lambda>q. pp_partner q = pp_partner n)
      (merged (n\<lparr>pp_id := j, pp_created := c, pp_updated := u\<rparr>)) (profiles (tabs w))\<rparr>"
    using save_known [of e n w1] assms(1) p partner by (force simp: w1_def)
  have "merged (n\<lparr>pp_id := j, pp_created := c, pp_updated := u\<rparr>) p \<in> set (profiles (tabs w'))"
    using in_saved [OF p] partner by (simp add: t')
  with run save partner assms(6) show ?thesis
    by (intro exI [of _ w'] exI [of _ "n\<lparr>pp_id := j, pp_created := c, pp_updated := u\<rparr>"]
        exI [of _ "merged (n\<lparr>pp_id := j, pp_created := c, pp_updated := u\<rparr>) p"]) (simp add: merged_def)
qed

theorem cleared_gstin_stays_witness:
  "\<exists>w' q row. UpdatePartnerProfile smp_dlib ''u9'' None None None (Some []) None smp_env smp_approved = (Inr q, w') \<and>
     pp_gstin q = None \<and> row \<in> set (profiles (tabs w')) \<and> pp_gstin row = Some ''22ABCDE1234F1Z5''"
proof -
  obtain p where p: "profiles (tabs smp_approved) = [p]" "pp_partner p = ''u9''" "pp_gstin p = Some ''22ABCDE1234F1Z5''"
    "pp_active p" using smp_approved_rows by auto
  then have "find_profile ''u9'' (tabs smp_approved) = Some p" by (simp add: find_profile_def)
  moreover have "pp_deleted_at p = None"
    using delivery_reach_inv [OF smp_approved_reach] p by (auto simp: delivery_inv_def partner_inv_def fit_def)
  moreover have "\<not> blank ''u9'' \<and> TrimSpace ''u9'' = ''u9'' \<and> dv_uuid smp_dlib ''u9''" by code_simp
  moreover have "fault_free smp_env" by (simp add: fault_free_def smp_env_def)
  ultimately show ?thesis
    using cleared_gstin_stays [of smp_env "''u9''" smp_dlib smp_approved p "''22ABCDE1234F1Z5''"] p(3) by auto
qed

section \<open>From the order service to the delivery service\<close>

text \<open>
  C34. The event with which the order service confirms a paid order has no address and no contact
  number, and the delivery service refuses it for that: for no order confirmed by a payment a
  delivery is made from its event. The decoder is assumed to read the JSON of the event, whose
  absent fields are empty.
\<close>

theorem confirmed_order_is_never_shipped:
  assumes "HandlePaymentSuccessful L ev c tr e w = (r, w')" and "tabs w' \<noteq> tabs w"
    and "\<And>i st now. dd_confirmed D (EvOrderConfirmed i st now) = Inr \<lparr>rw_order = i, rw_partner = [], rw_address = [],
      rw_address_id = [], rw_contact = [], rw_phone = [], rw_payment = st\<rparr>"
  shows "\<exists>row. ob_rows (order_outbox (tabs w')) = ob_rows (order_outbox (tabs w)) @ [row] \<and>
    ob_topic row = ''gocart.order.order-confirmed'' \<and>
    HandleEvent_delivery S D rnd (Some (ob_payload row)) e2 w2 =
      (Inl (BadRequest ''contact_number is required in shipping address payload''), w2)"
proof -
  let ?i = "TrimSpace (ps_order ev)"
  from payment_success_runs [OF assms(1)] assms(2) have "confirmed ?i (tabs w) (tabs w')" by blast
  then obtain env now row where env: "EventType env = ''OrderConfirmed''" "AggregateID env = ?i"
      "EventData env = EvOrderConfirmed ?i OrderStatusPaid now"
    and row: "ob_rows (order_outbox (tabs w')) = ob_rows (order_outbox (tabs w)) @ [row]"
      "announces (outbox_event ?i ''gocart.order.order-confirmed'' env) row"
    by (auto simp: confirmed_def changed_def outbox_after_def)
  have pay: "ob_payload row = env" "ob_topic row = ''gocart.order.order-confirmed''"
    using row(2) by (simp_all add: announces_def outbox_event_def)
  have order: "?i \<noteq> []"
    using assms(1,2) by (auto simp: HandlePaymentSuccessful_def require_runs blank_def bind_ret split: if_splits)
  have texts: "blank [] \<and> EqualFold (TrimSpace OrderStatusPaid) ''PAID''" by code_simp
  have "HandleEvent_delivery S D rnd (Some env) e2 w2 =
      (Inl (BadRequest ''contact_number is required in shipping address payload''), w2)"
    using env order texts
    by (simp add: HandleEvent_delivery_def handleOrderConfirmed_delivery_def assms(3) blank_def raw_address_def
        raw_contact_def no_address_def call_def on_error_def bind_def seq_def ret_def require_def raise_def)
  with row(1) pay show ?thesis by blast
qed

definition smp_json :: "int order_event delivery_decoders" where
  "smp_json = \<lparr>dd_confirmed = (\<lambda>d. case d of
       EvOrderConfirmed i st now \<Rightarrow> Inr \<lparr>rw_order = i, rw_partner = [], rw_address = [], rw_address_id = [],
         rw_contact = [], rw_phone = [], rw_payment = st\<rparr>
     | _ \<Rightarrow> Inl (ErrorString ''bad'')), dd_partner = (\<lambda>_. Inl (ErrorString ''bad'')),
     dd_address = (\<lambda>_. (False, no_address)), dd_string = (\<lambda>_. None)\<rparr>"

theorem confirmed_order_is_never_shipped_witness:
  "\<exists>row. ob_rows (order_outbox (tabs smp_paid)) = ob_rows (order_outbox (tabs smp_created)) @ [row] \<and>
     HandleEvent_delivery smp_dsvc smp_json (Inr []) (Some (ob_payload row)) smp_env smp_empty =
       (Inl (BadRequest ''contact_number is required in shipping address payload''), smp_empty)"
proof -
  have "length (history (tabs smp_paid)) = 2 \<and> length (history (tabs smp_created)) = 1" by code_simp
  then have ne: "tabs smp_paid \<noteq> tabs smp_created" by auto
  have run: "HandlePaymentSuccessful smp_lib smp_event [] [] smp_env smp_created =
      (fst (HandlePaymentSuccessful smp_lib smp_event [] [] smp_env smp_created), smp_paid)"
    by (simp add: smp_paid_def)
  have json: "dd_confirmed smp_json (EvOrderConfirmed i st now) = Inr \<lparr>rw_order = i, rw_partner = [], rw_address = [],
      rw_address_id = [], rw_contact = [], rw_phone = [], rw_payment = st\<rparr>" for i st now
    by (simp add: smp_json_def)
  from confirmed_order_is_never_shipped [OF run ne json] show ?thesis by blast
qed

end
