(* ===== verification/Return_Model.thy ===== *)
theory Return_Model
  imports Life_Cycles Outbox_Insert Go_Float Call_Context
begin

text \<open>
  The data model of the return service (\<open>services/return-service/internal/model\<close>: \<open>return.go\<close>,
  \<open>exchange.go\<close>, \<open>exchange_quote.go\<close>), the payloads of its events, its tables and what it takes
  from elsewhere. Amounts are \<open>float64\<close> values, times nanoseconds. A struct that is stored is the
  record of its row, extended by what is read from other tables. A string column that may be
  \<open>NULL\<close> is the empty string for it, as the queries read it.
\<close>

section \<open>Returns\<close>

definition return_types :: "string list" where
  "return_types = [''RETURN'', ''REPLACEMENT'', ''EXCHANGE'']"

definition verification_conditions :: "string list" where
  "verification_conditions = [''GOOD'', ''DEFECTIVE'', ''DAMAGED'', ''WRONG_ITEM'', ''OPEN_BOX'']"

definition VerificationCondition_IsValid :: "string \<Rightarrow> bool" where
  "VerificationCondition_IsValid c \<longleftrightarrow> c \<in> set verification_conditions"

record verification_row =
  pv_id :: string
  pv_return :: string
  pv_by :: string
  pv_condition :: string
  pv_approved :: bool
  pv_notes :: string
  pv_verified :: int
  pv_created :: int
  pv_updated :: int

record ProductVerification = verification_row +
  pv_images :: "string list"

record VerificationImage =
  im_id :: string
  im_verification :: string
  im_url :: string
  im_created :: int

record return_row =
  rt_id :: string
  rt_order :: string
  rt_item :: string
  rt_user :: string
  rt_reason :: string
  rt_status :: status
  rt_type :: string
  rt_refund :: f64
  rt_requested :: int
  rt_approved :: "int option"
  rt_completed :: "int option"
  rt_rejection :: string
  rt_created :: int
  rt_updated :: int

record Return = return_row +
  rt_verification :: "ProductVerification option"

section \<open>Exchanges\<close>

definition exchange_ratings :: "string list" where
  "exchange_ratings = [''EXCELLENT'', ''GOOD'', ''AVERAGE'', ''POOR'', ''DAMAGED'']"

record ExchangeQuestionAnswer =
  xa_id :: string
  xa_exchange :: string
  xa_question :: string
  xa_value :: string
  xa_deduction :: f64
  xa_created :: int

record exchange_verification_row =
  xv_id :: string
  xv_exchange :: string
  xv_by :: string
  xv_rating :: string
  xv_approved :: bool
  xv_screen :: bool
  xv_body :: bool
  xv_functional :: bool
  xv_serial :: bool
  xv_discount :: f64
  xv_notes :: string
  xv_verified :: int
  xv_created :: int
  xv_updated :: int

record ExchangeVerification = exchange_verification_row +
  xv_images :: "string list"

record exchange_row =
  xc_id :: string
  xc_user :: string
  xc_brand :: string
  xc_model :: string
  xc_variant :: string
  xc_serial :: string
  xc_base :: f64
  xc_estimated :: f64
  xc_final :: f64
  xc_difference :: f64
  xc_status :: status
  xc_quote :: string
  xc_product :: string
  xc_catalog :: string
  xc_created :: int
  xc_updated :: int

record Exchange = exchange_row +
  xc_answers :: "ExchangeQuestionAnswer list"
  xc_verification :: "ExchangeVerification option"

section \<open>Quotes\<close>

definition quote_statuses :: "status list" where
  "quote_statuses = [''QUOTED'', ''LOCKED'', ''APPLIED'', ''EXPIRED'', ''CANCELLED'']"

record ExchangeDeviceCatalog =
  ed_id :: string
  ed_category :: string
  ed_brand :: string
  ed_model :: string
  ed_variant :: string
  ed_base :: f64
  ed_active :: bool
  ed_created :: int

record ExchangeQuestionOption =
  eo_id :: string
  eo_question :: string
  eo_key :: string
  eo_label :: string
  eo_deduction :: f64
  eo_fatal :: bool
  eo_reason :: string
  eo_order :: int
  eo_created :: int

record question_row =
  eq_id :: string
  eq_category :: string
  eq_key :: string
  eq_text :: string
  eq_order :: int
  eq_created :: int

record ExchangeDiagnosticQuestion = question_row +
  eq_options :: "ExchangeQuestionOption list"

record ExchangeQuoteAnswer =
  qa_id :: string
  qa_quote :: string
  qa_question :: string
  qa_option :: string
  qa_deduction :: f64
  qa_fatal :: bool
  qa_created :: int

record quote_row =
  qu_id :: string
  qu_user :: string
  qu_product :: string
  qu_category :: string
  qu_brand :: string
  qu_model :: string
  qu_variant :: string
  qu_serial :: string
  qu_base :: f64
  qu_deductions :: f64
  qu_discount :: f64
  qu_disqualified :: bool
  qu_reason :: string
  qu_status :: status
  qu_expires :: int
  qu_created :: int
  qu_updated :: int

record ExchangeQuote = quote_row +
  qu_answers :: "ExchangeQuoteAnswer list"

definition IsExpired :: "'a quote_row_scheme \<Rightarrow> int \<Rightarrow> bool" where
  "IsExpired q now \<longleftrightarrow> qu_expires q < now"

section \<open>Events\<close>

record ReturnRequestedEvent =
  rqe_return :: string
  rqe_order :: string
  rqe_item :: string
  rqe_product :: string
  rqe_user :: string
  rqe_reason :: string
  rqe_status :: string
  rqe_type :: string
  rqe_amount :: f64
  rqe_at :: int

record ReturnApprovedEvent =
  rae_return :: string
  rae_order :: string
  rae_item :: string
  rae_user :: string
  rae_by :: string
  rae_at :: int
  rae_type :: string
  rae_amount :: f64

record ReturnRejectedEvent =
  rje_return :: string
  rje_order :: string
  rje_item :: string
  rje_user :: string
  rje_by :: string
  rje_reason :: string
  rje_at :: int

record ReturnVerifiedEvent =
  rve_return :: string
  rve_order :: string
  rve_item :: string
  rve_by :: string
  rve_condition :: string
  rve_approved :: bool
  rve_images :: "string list"
  rve_notes :: string
  rve_at :: int

record ReturnRefundEligiblePayload =
  ree_return :: string
  ree_order :: string
  ree_item :: string
  ree_user :: string
  ree_type :: string
  ree_amount :: f64
  ree_reason :: string
  ree_at :: int

record ReturnStatusUpdatedEvent =
  rse_return :: string
  rse_order :: string
  rse_item :: string
  rse_previous :: string
  rse_new :: string
  rse_at :: int

record ReturnCompletedEvent =
  rce_return :: string
  rce_order :: string
  rce_item :: string
  rce_user :: string
  rce_amount :: f64
  rce_at :: int

record RefundInitiatedEvent =
  rie_refund :: string
  rie_payment :: string
  rie_order :: string
  rie_amount :: f64
  rie_currency :: string
  rie_reason :: string
  rie_at :: int

record ExchangeOfferAppliedEvent =
  xoe_exchange :: string
  xoe_quote :: string
  xoe_user :: string
  xoe_product :: string
  xoe_brand :: string
  xoe_model :: string
  xoe_variant :: string
  xoe_serial :: string
  xoe_base :: f64
  xoe_discount :: f64
  xoe_at :: int

record ExchangeCompletedEvent =
  xce_exchange :: string
  xce_user :: string
  xce_discount :: f64
  xce_at :: int

text \<open>\<open>ExchangeCreated\<close> and \<open>ExchangeVerified\<close> have maps as payloads, of fields of the struct.\<close>

datatype return_event =
    EvReturnRequested ReturnRequestedEvent
  | EvReturnApproved ReturnApprovedEvent
  | EvReturnRejected ReturnRejectedEvent
  | EvReturnVerified ReturnVerifiedEvent
  | EvReturnRefundEligible ReturnRefundEligiblePayload
  | EvReturnStatusUpdated ReturnStatusUpdatedEvent
  | EvReturnCompleted ReturnCompletedEvent
  | EvRefundInitiated RefundInitiatedEvent
  | EvExchangeCreated exchange_row
  | EvExchangeOfferApplied ExchangeOfferAppliedEvent
  | EvExchangeVerified exchange_verification_row
  | EvExchangeCompleted ExchangeCompletedEvent

type_synonym return_envelope = "return_event EventEnvelope"

text \<open>The amounts of a payload: \<open>json.Marshal\<close> fails for those that are not finite.\<close>

fun event_amounts :: "return_event \<Rightarrow> f64 list" where
  "event_amounts (EvReturnRequested ev) = [rqe_amount ev]"
| "event_amounts (EvReturnApproved ev) = [rae_amount ev]"
| "event_amounts (EvReturnRejected ev) = []"
| "event_amounts (EvReturnVerified ev) = []"
| "event_amounts (EvReturnRefundEligible ev) = [ree_amount ev]"
| "event_amounts (EvReturnStatusUpdated ev) = []"
| "event_amounts (EvReturnCompleted ev) = [rce_amount ev]"
| "event_amounts (EvRefundInitiated ev) = [rie_amount ev]"
| "event_amounts (EvExchangeCreated ev) = [xc_base ev, xc_estimated ev]"
| "event_amounts (EvExchangeOfferApplied ev) = [xoe_base ev, xoe_discount ev]"
| "event_amounts (EvExchangeVerified ev) = [xv_discount ev]"
| "event_amounts (EvExchangeCompleted ev) = [xce_discount ev]"

section \<open>Messages of other services\<close>

record OrderItemPb =
  oi_id :: string
  oi_product :: string
  oi_quantity :: int
  oi_unit :: f64
  oi_total :: f64

record OrderPb =
  op_user :: string
  op_status :: string
  op_order_status :: string
  op_items :: "OrderItemPb list"
  op_created :: string
  op_updated :: string

record ProductPb =
  pp_returnable :: bool
  pp_exchangeable :: bool
  pp_max_discount :: f64
  pp_name :: string
  pp_description :: string
  pp_category :: string

record PaymentPb =
  pm_id :: string
  pm_amount :: f64
  pm_currency :: string

record CreateRefundRequest =
  cf_payment :: string
  cf_amount :: f64
  cf_reason :: string
  cf_key :: string

record CreateRefundResponse =
  cs_refund :: string
  cs_status :: string

section \<open>Tables and libraries\<close>

text \<open>
  The tables of the migrations, and beside them the calls of \<open>CreateRefund\<close> with their answers. These
  are made outside transactions, so no rollback touches the log.
\<close>

type_synonym refund_call = "CreateRefundRequest \<times> (go_error + CreateRefundResponse option)"

record return_tables =
  returns :: "return_row list"
  verifications :: "verification_row list"
  verification_images :: "VerificationImage list"
  exchanges :: "exchange_row list"
  exchange_answers :: "ExchangeQuestionAnswer list"
  exchange_verifications :: "exchange_verification_row list"
  exchange_images :: "VerificationImage list"
  quotes :: "quote_row list"
  quote_answers :: "ExchangeQuoteAnswer list"
  device_catalog :: "ExchangeDeviceCatalog list"
  questions :: "question_row list"
  question_options :: "ExchangeQuestionOption list"
  return_outbox :: "return_envelope outbox_tables"
  refund_log :: "refund_call list"

type_synonym 'a ret_db = "(return_tables, 'a) db"

text \<open>
  \<open>uuid.Parse\<close> and the cast to \<open>UUID\<close> (which strings they accept), what a \<open>DECIMAL(12,2)\<close> column returns
  for a stored \<open>float64\<close> (nothing when it refuses it), the place of a text in the order of the
  database's collation, \<open>time.Parse\<close> over the layouts of \<open>parseDeliveryTime\<close>, and the gRPC library.
\<close>

record return_lib =
  rl_parse :: "string \<Rightarrow> bool"
  rl_uuid :: "string \<Rightarrow> bool"
  rl_decimal :: "f64 \<Rightarrow> f64 option"
  rl_rank :: "string \<Rightarrow> int"
  rl_time :: "string \<Rightarrow> int option"
  rl_grpc :: grpc_lib

end
