(* ===== verification/Return_Repo.thy ===== *)
theory Return_Repo
  imports Return_Model
begin

text \<open>
  The repository of the return service (\<open>internal/repository/return_repository.go\<close>): returns with
  their verifications, exchanges, the catalog of devices and the quotes, and the outbox events
  written in the same transactions. The constraints are those of the migrations; the lengths of
  texts are left to the failing statements of the environment.
\<close>

definition ErrReturnNotFound_repo :: go_error where
  "ErrReturnNotFound_repo = ErrorString ''return request not found''"

definition ErrExchangeNotFound_repo :: go_error where
  "ErrExchangeNotFound_repo = ErrorString ''exchange record not found''"

definition ErrExchangeQuoteNotFound_repo :: go_error where
  "ErrExchangeQuoteNotFound_repo = ErrorString ''exchange quote not found''"

definition ErrQuoteNotApplicable :: go_error where
  "ErrQuoteNotApplicable = ErrorString ''exchange quote cannot be applied in its current status or has expired''"

definition with_ids :: "return_lib \<Rightarrow> string list \<Rightarrow> ('t \<Rightarrow> go_error + 'a \<times> 't) \<Rightarrow> 't \<Rightarrow> go_error + 'a \<times> 't" where
  "with_ids L is f t = (if list_all (rl_uuid L) is then f t else Inl (PgError ''22P02'' []))"

text \<open>An optional identifier: the empty string is stored as \<open>NULL\<close>.\<close>

definition optional_ids :: "string list \<Rightarrow> string list" where
  "optional_ids is = filter (\<lambda>i. i \<noteq> []) is"

text \<open>Amounts of \<open>DECIMAL(12,2)\<close> columns with \<open>CHECK (... >= 0)\<close>, as the columns return them.\<close>

definition stored_amount :: "return_lib \<Rightarrow> string \<Rightarrow> f64 \<Rightarrow> go_error + f64" where
  "stored_amount L check a =
     (case rl_decimal L a of
        None \<Rightarrow> Inl (PgError ''22003'' [])
      | Some b \<Rightarrow> if flt b fzero then Inl (pg_check check) else Inr b)"

definition stored_three ::
  "return_lib \<Rightarrow> string \<times> f64 \<Rightarrow> string \<times> f64 \<Rightarrow> string \<times> f64 \<Rightarrow> go_error + f64 \<times> f64 \<times> f64" where
  "stored_three L x y z =
     (case stored_amount L (fst x) (snd x) of
        Inl er \<Rightarrow> Inl er
      | Inr a \<Rightarrow>
          (case stored_amount L (fst y) (snd y) of
             Inl er \<Rightarrow> Inl er
           | Inr b \<Rightarrow>
               (case stored_amount L (fst z) (snd z) of Inl er \<Rightarrow> Inl er | Inr c \<Rightarrow> Inr (a, b, c))))"

definition put_event :: "string \<Rightarrow> return_envelope outbox_row \<Rightarrow> unit ret_db" where
  "put_event msg ev = on_error (zoom return_outbox (\<lambda>s t. t\<lparr>return_outbox := s\<rparr>) (Insert ev)) (WrapError msg)"

definition put_events :: "return_envelope outbox_row list \<Rightarrow> unit ret_db" where
  "put_events evs = for_each evs (put_event ''failed to insert outbox event: '')"

text \<open>A row that was read, or the error for a missing one.\<close>

definition scan_row :: "'r option ret_db \<Rightarrow> string \<Rightarrow> go_error \<Rightarrow> 'r ret_db" where
  "scan_row m failed missing =
     bind (on_error m (WrapError failed)) (\<lambda>r. case r of None \<Rightarrow> raise missing | Some row \<Rightarrow> ret row)"

definition or_none :: "'a option ret_db \<Rightarrow> 'a option ret_db" where
  "or_none m = bind (attempt m) (\<lambda>r. ret (case r of Inl _ \<Rightarrow> None | Inr x \<Rightarrow> x))"

definition or_nil :: "'a list ret_db \<Rightarrow> 'a list ret_db" where
  "or_nil m = bind (attempt m) (\<lambda>r. ret (case r of Inl _ \<Rightarrow> [] | Inr xs \<Rightarrow> xs))"

section \<open>Returns\<close>

definition insert_return :: "return_lib \<Rightarrow> return_row \<Rightarrow> return_tables \<Rightarrow> go_error + unit \<times> return_tables" where
  "insert_return L r t =
     (case stored_amount L ''returns_refund_amount_check'' (rt_refund r) of
        Inl er \<Rightarrow> Inl er
      | Inr a \<Rightarrow>
          if rt_status r \<notin> set return_statuses \<or> rt_type r \<notin> set return_types then Inl (PgError ''22P02'' [])
          else if rt_id r \<in> rt_id ` set (returns t) then Inl (pg_unique ''returns_pkey'')
          else if rt_item r \<in> rt_item ` set (returns t) then Inl (pg_unique ''idx_returns_order_item_id_unique'')
          else Inr ((), t\<lparr>returns := returns t @ [r\<lparr>rt_refund := a\<rparr>]\<rparr>))"

definition CreateReturnWithOutbox ::
  "return_lib \<Rightarrow> return_row \<Rightarrow> return_envelope outbox_row option \<Rightarrow> unit ret_db" where
  "CreateReturnWithOutbox L r ev =
     WithTransaction
       (seq (on_error
              (sql (with_ids L [rt_id r, rt_order r, rt_item r, rt_user r]
                (insert_return L (r\<lparr>rt_type := (if rt_type r = [] then ''RETURN'' else rt_type r)\<rparr>))))
              (WrapError ''failed to insert return: ''))
         (case ev of None \<Rightarrow> ret () | Some e \<Rightarrow> put_event ''failed to insert outbox event: '' e))"

definition GetVerificationByReturnID :: "return_lib \<Rightarrow> string \<Rightarrow> ProductVerification option ret_db" where
  "GetVerificationByReturnID L i =
     (if \<not> rl_parse L (TrimSpace i) then ret None
      else bind (pool_sql (with_ids L [i] (select (\<lambda>t. find (\<lambda>v. pv_return v = i) (verifications t))))) (\<lambda>r.
        case r of
          None \<Rightarrow> ret None
        | Some v \<Rightarrow>
            bind (or_nil (pool_sql (select (\<lambda>t. map im_url (sort_key im_created
                   (filter (\<lambda>m. im_verification m = pv_id v) (verification_images t))))))) (\<lambda>imgs.
            ret (Some (verification_row.extend v (ProductVerification.fields imgs))))))"

definition with_verification :: "return_lib \<Rightarrow> return_row \<Rightarrow> Return ret_db" where
  "with_verification L r =
     bind (or_none (GetVerificationByReturnID L (rt_id r))) (\<lambda>v. ret (return_row.extend r (Return.fields v)))"

definition scanReturn :: "return_row option ret_db \<Rightarrow> return_row ret_db" where
  "scanReturn m = scan_row m ''failed to scan return row: '' ErrReturnNotFound_repo"

definition GetReturnByID :: "return_lib \<Rightarrow> string \<Rightarrow> Return ret_db" where
  "GetReturnByID L i =
     seq (require (rl_parse L (TrimSpace i)) ErrReturnNotFound_repo)
     (bind (scanReturn (pool_sql (with_ids L [i] (select (\<lambda>t. find (\<lambda>r. rt_id r = i) (returns t))))))
       (with_verification L))"

definition GetReturnByOrderItemID :: "return_lib \<Rightarrow> string \<Rightarrow> Return ret_db" where
  "GetReturnByOrderItemID L i =
     seq (require (rl_parse L (TrimSpace i)) ErrReturnNotFound_repo)
     (bind (scanReturn (pool_sql (with_ids L [i] (select (\<lambda>t. find (\<lambda>r. rt_item r = i) (returns t))))))
       (with_verification L))"

fun with_verifications :: "return_lib \<Rightarrow> return_row list \<Rightarrow> Return list ret_db" where
  "with_verifications L [] = ret []"
| "with_verifications L (r # rs) =
     bind (with_verification L r) (\<lambda>x. bind (with_verifications L rs) (\<lambda>xs. ret (x # xs)))"

definition ListReturnsByOrderID_repo :: "return_lib \<Rightarrow> string \<Rightarrow> Return list ret_db" where
  "ListReturnsByOrderID_repo L i =
     (if \<not> rl_parse L (TrimSpace i) then ret []
      else bind (on_error (pool_sql (with_ids L [i] (select (\<lambda>t.
               sort_key (\<lambda>r. - rt_created r) (filter (\<lambda>r. rt_order r = i) (returns t))))))
             (WrapError ''failed to query returns: '')) (with_verifications L))"

definition list_filter :: "string \<Rightarrow> string \<Rightarrow> string \<Rightarrow> return_row \<Rightarrow> bool" where
  "list_filter st user ty r \<longleftrightarrow>
     (st \<noteq> [] \<longrightarrow> rt_status r = st) \<and> (user \<noteq> [] \<longrightarrow> rt_user r = user) \<and> (ty \<noteq> [] \<longrightarrow> rt_type r = ty)"

text \<open>A status or type that is no value of its enumeration, or a user that is no UUID, fails.\<close>

definition list_args :: "return_lib \<Rightarrow> string \<Rightarrow> string \<Rightarrow> string \<Rightarrow> bool" where
  "list_args L st user ty \<longleftrightarrow> (st = [] \<or> st \<in> set return_statuses) \<and> (user = [] \<or> rl_uuid L user) \<and>
     (ty = [] \<or> ty \<in> set return_types)"

definition listed_returns ::
  "return_lib \<Rightarrow> string \<Rightarrow> string \<Rightarrow> string \<Rightarrow> (return_row list \<Rightarrow> 'a) \<Rightarrow> return_tables \<Rightarrow> go_error + 'a \<times> return_tables" where
  "listed_returns L st user ty q t =
     (if list_args L st user ty then Inr (q (filter (list_filter st user ty) (returns t)), t)
      else Inl (PgError ''22P02'' []))"

definition ListReturns_repo ::
  "return_lib \<Rightarrow> int \<Rightarrow> int \<Rightarrow> string \<Rightarrow> string \<Rightarrow> string \<Rightarrow> (Return list \<times> nat) ret_db" where
  "ListReturns_repo L cap off st user ty =
     bind (on_error (pool_sql (listed_returns L st user ty length)) (WrapError ''failed to count returns: '')) (\<lambda>total1.
     bind (on_error (pool_sql (listed_returns L st user ty (\<lambda>rs.
              take (nat (if cap \<le> 0 then 20 else cap))
                (drop (nat (if off < 0 then 0 else off)) (sort_key (\<lambda>r. - rt_created r) rs)))))
             (WrapError ''failed to list returns: '')) (\<lambda>rows.
     bind (with_verifications L rows) (\<lambda>xs. ret (xs, total1))))"

definition update_return ::
  "string \<Rightarrow> (return_row \<Rightarrow> return_row) \<Rightarrow> return_tables \<Rightarrow> go_error + return_row option \<times> return_tables" where
  "update_return i f t =
     (case find (\<lambda>r. rt_id r = i) (returns t) of
        None \<Rightarrow> Inr (None, t)
      | Some r \<Rightarrow> Inr (Some (f r), t\<lparr>returns := upd_where (\<lambda>r. rt_id r = i) f (returns t)\<rparr>))"

text \<open>\<open>COALESCE\<close>: the time that is already there stays.\<close>

definition first_time :: "int option \<Rightarrow> int option \<Rightarrow> int option" where
  "first_time old new = (case old of None \<Rightarrow> new | Some x \<Rightarrow> Some x)"

definition moved_return :: "status \<Rightarrow> string \<Rightarrow> int \<Rightarrow> return_row \<Rightarrow> return_row" where
  "moved_return st reason now r =
     r\<lparr>rt_status := st,
       rt_approved := first_time (rt_approved r) (if st = ''APPROVED'' \<or> st = ''COMPLETED'' then Some now else None),
       rt_completed := first_time (rt_completed r) (if st = ''COMPLETED'' then Some now else None),
       rt_rejection := (if reason = [] then rt_rejection r else reason), rt_updated := now\<rparr>"

definition update_return_tx ::
  "return_lib \<Rightarrow> string \<Rightarrow> status \<Rightarrow> string \<Rightarrow> return_envelope outbox_row list \<Rightarrow> return_row ret_db" where
  "update_return_tx L i st reason evs =
     bind time_now (\<lambda>now.
     bind (scanReturn (sql (with_ids L [i] (update_return i (moved_return st reason now))))) (\<lambda>row.
     seq (put_events evs) (ret row)))"

definition UpdateReturnStatusWithOutbox ::
  "return_lib \<Rightarrow> string \<Rightarrow> status \<Rightarrow> string \<Rightarrow> return_envelope outbox_row list \<Rightarrow> Return ret_db" where
  "UpdateReturnStatusWithOutbox L i st reason evs =
     bind (WithTransaction (update_return_tx L i st reason evs)) (with_verification L)"

definition UpdateReturnStatus_repo :: "return_lib \<Rightarrow> string \<Rightarrow> status \<Rightarrow> Return ret_db" where
  "UpdateReturnStatus_repo L i st = UpdateReturnStatusWithOutbox L i st [] []"

text \<open>One verification per return: a second one replaces the first and keeps its identifier.\<close>

definition upsert_verification ::
  "verification_row \<Rightarrow> return_tables \<Rightarrow> go_error + string \<times> return_tables" where
  "upsert_verification v t =
     (if pv_condition v \<notin> set verification_conditions then Inl (PgError ''22P02'' [])
      else if pv_return v \<notin> rt_id ` set (returns t) then Inl (PgError ''23503'' ''return_verifications_return_id_fkey'')
      else case find (\<lambda>u. pv_return u = pv_return v) (verifications t) of
        Some u \<Rightarrow>
          Inr (pv_id u, t\<lparr>verifications := upd_where (\<lambda>u. pv_return u = pv_return v)
            (\<lambda>u. v\<lparr>pv_id := pv_id u, pv_created := pv_created u\<rparr>) (verifications t)\<rparr>)
      | None \<Rightarrow>
          if pv_id v \<in> pv_id ` set (verifications t) then Inl (pg_unique ''return_verifications_pkey'')
          else Inr (pv_id v, t\<lparr>verifications := verifications t @ [v]\<rparr>))"

definition insert_image :: "VerificationImage \<Rightarrow> return_tables \<Rightarrow> go_error + unit \<times> return_tables" where
  "insert_image m t =
     (if im_id m \<in> im_id ` set (verification_images t) then Inl (pg_unique ''return_verification_images_pkey'')
      else Inr ((), t\<lparr>verification_images := verification_images t @ [m]\<rparr>))"

definition clear_images :: "string \<Rightarrow> return_tables \<Rightarrow> go_error + unit \<times> return_tables" where
  "clear_images i t =
     Inr ((), t\<lparr>verification_images := filter (\<lambda>m. im_verification m \<noteq> i) (verification_images t)\<rparr>)"

definition verified_return :: "bool \<Rightarrow> status \<Rightarrow> int \<Rightarrow> return_row \<Rightarrow> return_row" where
  "verified_return ok st now r =
     r\<lparr>rt_status := st, rt_approved := first_time (rt_approved r) (if ok then Some now else None), rt_updated := now\<rparr>"

definition create_verification_tx ::
  "return_lib \<Rightarrow> ProductVerification \<Rightarrow> status \<Rightarrow> return_envelope outbox_row list \<Rightarrow> string ret_db" where
  "create_verification_tx L v st evs =
     bind (on_error (sql (with_ids L [pv_id v, pv_return v, pv_by v] (upsert_verification (verification_row.truncate v))))
            (WrapError ''failed to insert verification: '')) (\<lambda>vid.
     seq (ignore_error (sql (clear_images vid)))
     (seq (for_each (pv_images v) (\<lambda>url. bind new_uuid (\<lambda>i.
            on_error (sql (insert_image \<lparr>im_id = i, im_verification = vid, im_url = url, im_created = pv_created v\<rparr>))
              (WrapError ''failed to insert verification image: ''))))
     (bind time_now (\<lambda>now.
      seq (on_error (sql (update_return (pv_return v) (verified_return (pv_approved v) st now)))
            (WrapError ''failed to update return status during verification: ''))
      (seq (put_events evs) (ret vid))))))"

text \<open>The identifier of the stored verification, which the method writes into the struct.\<close>

definition CreateVerificationWithOutbox ::
  "return_lib \<Rightarrow> ProductVerification \<Rightarrow> status \<Rightarrow> return_envelope outbox_row list \<Rightarrow> string ret_db" where
  "CreateVerificationWithOutbox L v st evs = WithTransaction (create_verification_tx L v st evs)"

end
