(* ===== verification/Exchange_Repo.thy ===== *)
theory Exchange_Repo
  imports Return_Repo
begin

text \<open>
  The second half of the repository of the return service: exchanges with their answers and
  verifications, the catalog of devices with the diagnostic questions, and the quotes.
\<close>

section \<open>Exchanges\<close>

definition exchange_amounts :: "return_lib \<Rightarrow> exchange_row \<Rightarrow> go_error + exchange_row" where
  "exchange_amounts L x =
     (case stored_three L (''exchanges_base_exchange_value_check'', xc_base x)
         (''exchanges_estimated_discount_check'', xc_estimated x) (''exchanges_final_discount_check'', xc_final x) of
        Inr (a, b, c) \<Rightarrow>
          (case rl_decimal L (xc_difference x) of
             None \<Rightarrow> Inl (PgError ''22003'' [])
           | Some d \<Rightarrow> Inr (x\<lparr>xc_base := a, xc_estimated := b, xc_final := c, xc_difference := d\<rparr>))
      | Inl er \<Rightarrow> Inl er)"

definition insert_exchange :: "return_lib \<Rightarrow> exchange_row \<Rightarrow> return_tables \<Rightarrow> go_error + unit \<times> return_tables" where
  "insert_exchange L x t =
     (case exchange_amounts L x of
        Inl er \<Rightarrow> Inl er
      | Inr row \<Rightarrow>
          if xc_status x \<notin> set exchange_statuses then Inl (PgError ''22P02'' [])
          else if xc_id x \<in> xc_id ` set (exchanges t) then Inl (pg_unique ''exchanges_pkey'')
          else if xc_quote x \<noteq> [] \<and> xc_quote x \<in> xc_quote ` set (exchanges t) then Inl (pg_unique ''uq_exchanges_quote_id'')
          else if xc_quote x \<noteq> [] \<and> xc_quote x \<notin> qu_id ` set (quotes t)
          then Inl (PgError ''23503'' ''exchanges_quote_id_fkey'')
          else if xc_catalog x \<noteq> [] \<and> xc_catalog x \<notin> ed_id ` set (device_catalog t)
          then Inl (PgError ''23503'' ''exchanges_exchange_device_catalog_id_fkey'')
          else Inr ((), t\<lparr>exchanges := exchanges t @ [row]\<rparr>))"

definition insert_answer ::
  "return_lib \<Rightarrow> ExchangeQuestionAnswer \<Rightarrow> return_tables \<Rightarrow> go_error + unit \<times> return_tables" where
  "insert_answer L a t =
     (case stored_amount L ''exchange_questionnaire_answers_deduction_amount_check'' (xa_deduction a) of
        Inl er \<Rightarrow> Inl er
      | Inr d \<Rightarrow>
          if xa_id a \<in> xa_id ` set (exchange_answers t) then Inl (pg_unique ''exchange_questionnaire_answers_pkey'')
          else if xa_exchange a \<notin> xc_id ` set (exchanges t)
          then Inl (PgError ''23503'' ''exchange_questionnaire_answers_exchange_id_fkey'')
          else Inr ((), t\<lparr>exchange_answers := exchange_answers t @ [a\<lparr>xa_deduction := d\<rparr>]\<rparr>))"

text \<open>The answers of the questionnaire, stored under the exchange and its time.\<close>

definition put_answers ::
  "return_lib \<Rightarrow> exchange_row \<Rightarrow> ExchangeQuestionAnswer list \<Rightarrow> unit ret_db" where
  "put_answers L x answers =
     for_each answers (\<lambda>a.
       bind (if xa_id a = [] then new_uuid else ret (xa_id a)) (\<lambda>i.
       on_error (sql (with_ids L [i] (insert_answer L (a\<lparr>xa_id := i, xa_exchange := xc_id x, xa_created := xc_created x\<rparr>))))
         (WrapError ''failed to insert questionnaire answer: '')))"

definition exchange_ids :: "exchange_row \<Rightarrow> string list" where
  "exchange_ids x = [xc_id x, xc_user x] @ optional_ids [xc_quote x, xc_product x, xc_catalog x]"

definition CreateExchangeWithOutbox ::
  "return_lib \<Rightarrow> exchange_row \<Rightarrow> ExchangeQuestionAnswer list \<Rightarrow> return_envelope outbox_row option \<Rightarrow> unit ret_db" where
  "CreateExchangeWithOutbox L x answers ev =
     WithTransaction
       (seq (on_error (sql (with_ids L (exchange_ids x) (insert_exchange L x))) (WrapError ''failed to insert exchange: ''))
       (seq (put_answers L x answers)
         (case ev of None \<Rightarrow> ret () | Some e \<Rightarrow> put_event ''failed to insert exchange outbox event: '' e)))"

definition GetExchangeQuestionAnswers :: "return_lib \<Rightarrow> string \<Rightarrow> ExchangeQuestionAnswer list ret_db" where
  "GetExchangeQuestionAnswers L i =
     pool_sql (with_ids L [i] (select (\<lambda>t. sort_key xa_created (filter (\<lambda>a. xa_exchange a = i) (exchange_answers t)))))"

definition GetExchangeVerification :: "return_lib \<Rightarrow> string \<Rightarrow> ExchangeVerification option ret_db" where
  "GetExchangeVerification L i =
     bind (pool_sql (with_ids L [i] (select (\<lambda>t. find (\<lambda>v. xv_exchange v = i) (exchange_verifications t))))) (\<lambda>r.
     case r of
       None \<Rightarrow> ret None
     | Some v \<Rightarrow>
         bind (or_nil (pool_sql (select (\<lambda>t. map im_url (filter (\<lambda>m. im_verification m = xv_id v) (exchange_images t)))))) (\<lambda>imgs.
         ret (Some (exchange_verification_row.extend v (ExchangeVerification.fields (filter (\<lambda>u. u \<noteq> []) imgs))))))"

definition GetExchangeByID :: "return_lib \<Rightarrow> string \<Rightarrow> Exchange ret_db" where
  "GetExchangeByID L i =
     bind (scan_row (pool_sql (with_ids L [i] (select (\<lambda>t. find (\<lambda>x. xc_id x = i) (exchanges t)))))
             ''failed to scan exchange row: '' ErrExchangeNotFound_repo) (\<lambda>x.
     bind (or_nil (GetExchangeQuestionAnswers L (xc_id x))) (\<lambda>answers.
     bind (or_none (GetExchangeVerification L (xc_id x))) (\<lambda>v.
     ret (exchange_row.extend x (Exchange.fields answers v)))))"

definition upsert_exchange_verification ::
  "return_lib \<Rightarrow> exchange_verification_row \<Rightarrow> return_tables \<Rightarrow> go_error + string \<times> return_tables" where
  "upsert_exchange_verification L v t =
     (case stored_amount L ''exchange_verifications_adjusted_discount_check'' (xv_discount v) of
        Inl er \<Rightarrow> Inl er
      | Inr d \<Rightarrow>
          if xv_rating v \<notin> set exchange_ratings then Inl (PgError ''22P02'' [])
          else if xv_exchange v \<notin> xc_id ` set (exchanges t) then Inl (PgError ''23503'' ''exchange_verifications_exchange_id_fkey'')
          else case find (\<lambda>u. xv_exchange u = xv_exchange v) (exchange_verifications t) of
            Some u \<Rightarrow>
              Inr (xv_id u, t\<lparr>exchange_verifications := upd_where (\<lambda>u. xv_exchange u = xv_exchange v)
                (\<lambda>u. v\<lparr>xv_id := xv_id u, xv_discount := d, xv_created := xv_created u\<rparr>) (exchange_verifications t)\<rparr>)
          | None \<Rightarrow>
              if xv_id v \<in> xv_id ` set (exchange_verifications t) then Inl (pg_unique ''exchange_verifications_pkey'')
              else Inr (xv_id v, t\<lparr>exchange_verifications := exchange_verifications t @ [v\<lparr>xv_discount := d\<rparr>]\<rparr>))"

definition insert_exchange_image :: "VerificationImage \<Rightarrow> return_tables \<Rightarrow> go_error + unit \<times> return_tables" where
  "insert_exchange_image m t =
     (if im_id m \<in> im_id ` set (exchange_images t) then Inl (pg_unique ''exchange_verification_images_pkey'')
      else Inr ((), t\<lparr>exchange_images := exchange_images t @ [m]\<rparr>))"

definition clear_exchange_images :: "string \<Rightarrow> return_tables \<Rightarrow> go_error + unit \<times> return_tables" where
  "clear_exchange_images i t =
     Inr ((), t\<lparr>exchange_images := filter (\<lambda>m. im_verification m \<noteq> i) (exchange_images t)\<rparr>)"

text \<open>An update of the discounts of an exchange; of no row where the identifier is unknown.\<close>

definition update_exchange ::
  "return_lib \<Rightarrow> string \<Rightarrow> f64 \<Rightarrow> (f64 \<Rightarrow> exchange_row \<Rightarrow> exchange_row) \<Rightarrow> return_tables \<Rightarrow> go_error + unit \<times> return_tables" where
  "update_exchange L i a f t =
     (if i \<notin> xc_id ` set (exchanges t) then Inr ((), t)
      else case stored_amount L ''exchanges_final_discount_check'' a of
        Inl er \<Rightarrow> Inl er
      | Inr d \<Rightarrow> Inr ((), t\<lparr>exchanges := upd_where (\<lambda>x. xc_id x = i) (f d) (exchanges t)\<rparr>))"

definition verified_exchange :: "status \<Rightarrow> int \<Rightarrow> f64 \<Rightarrow> exchange_row \<Rightarrow> exchange_row" where
  "verified_exchange st now d x = x\<lparr>xc_status := st, xc_final := d, xc_updated := now\<rparr>"

definition exchange_verification_tx ::
  "return_lib \<Rightarrow> ExchangeVerification \<Rightarrow> status \<Rightarrow> f64 \<Rightarrow> return_envelope outbox_row list \<Rightarrow> string ret_db" where
  "exchange_verification_tx L v st final evs =
     bind (on_error (sql (with_ids L [xv_id v, xv_exchange v, xv_by v]
              (upsert_exchange_verification L (exchange_verification_row.truncate v))))
            (WrapError ''failed to insert exchange verification: '')) (\<lambda>vid.
     seq (do_when (xv_images v \<noteq> []) (ignore_error (sql (clear_exchange_images vid))))
     (seq (for_each (xv_images v) (\<lambda>url. bind new_uuid (\<lambda>i.
            on_error (sql (insert_exchange_image
                \<lparr>im_id = i, im_verification = vid, im_url = url, im_created = xv_created v\<rparr>))
              (WrapError ''failed to insert verification image: ''))))
     (seq (on_error (sql (update_exchange L (xv_exchange v) final (verified_exchange st (xv_updated v))))
            (WrapError ''failed to update exchange: ''))
      (seq (put_events evs) (ret vid)))))"

definition CreateExchangeVerificationWithOutbox ::
  "return_lib \<Rightarrow> ExchangeVerification \<Rightarrow> status \<Rightarrow> f64 \<Rightarrow> return_envelope outbox_row list \<Rightarrow> string ret_db" where
  "CreateExchangeVerificationWithOutbox L v st final evs = WithTransaction (exchange_verification_tx L v st final evs)"

definition resolved_exchange :: "return_lib \<Rightarrow> status \<Rightarrow> f64 \<Rightarrow> int \<Rightarrow> f64 \<Rightarrow> exchange_row \<Rightarrow> exchange_row" where
  "resolved_exchange L st difference now d x =
     x\<lparr>xc_status := st, xc_final := d,
       xc_difference := (case rl_decimal L difference of None \<Rightarrow> xc_difference x | Some v \<Rightarrow> v), xc_updated := now\<rparr>"

definition UpdateExchangeStatusAndDiscountWithOutbox ::
  "return_lib \<Rightarrow> string \<Rightarrow> status \<Rightarrow> f64 \<Rightarrow> f64 \<Rightarrow> return_envelope outbox_row option \<Rightarrow> unit ret_db" where
  "UpdateExchangeStatusAndDiscountWithOutbox L i st final difference ev =
     WithTransaction
       (bind time_now (\<lambda>now.
        seq (on_error
              (sql (with_ids L [i] (\<lambda>t.
                 if i \<in> xc_id ` set (exchanges t) \<and> rl_decimal L difference = None then Inl (PgError ''22003'' [])
                 else update_exchange L i final (resolved_exchange L st difference now) t)))
              (WrapError ''failed to update exchange status and discount: ''))
         (case ev of None \<Rightarrow> ret () | Some e \<Rightarrow> put_event ''failed to insert outbox event: '' e)))"

section \<open>Catalog and questions\<close>

definition category_of :: "string \<Rightarrow> string" where
  "category_of c = ToUpper (TrimSpace c)"

definition ListExchangeDiagnosticQuestions :: "string \<Rightarrow> ExchangeDiagnosticQuestion list ret_db" where
  "ListExchangeDiagnosticQuestions c =
     bind (pool_sql (select (\<lambda>t. sort_key eq_order (filter (\<lambda>q. eq_category q = category_of c) (questions t))))) (\<lambda>qs.
     if qs = [] then ret []
     else bind (or_nil (pool_sql (select (\<lambda>t.
              sort_key eo_order (filter (\<lambda>o1. eo_question o1 \<in> eq_id ` set qs) (question_options t)))))) (\<lambda>opts.
       ret (map (\<lambda>q. question_row.extend q
              (ExchangeDiagnosticQuestion.fields (filter (\<lambda>o1. eo_question o1 = eq_id q) opts))) qs)))"

definition ListExchangeDeviceCatalog :: "return_lib \<Rightarrow> string \<Rightarrow> ExchangeDeviceCatalog list ret_db" where
  "ListExchangeDeviceCatalog L c =
     pool_sql (select (\<lambda>t. sort_key (rl_rank L \<circ> ed_brand) (sort_key (rl_rank L \<circ> ed_model) (sort_key (rl_rank L \<circ> ed_variant)
       (filter (\<lambda>d. ed_category d = category_of c \<and> ed_active d) (device_catalog t))))))"

definition device_matches :: "string \<Rightarrow> string \<Rightarrow> string \<Rightarrow> string \<Rightarrow> ExchangeDeviceCatalog \<Rightarrow> bool" where
  "device_matches c brand model variant d \<longleftrightarrow>
     ToUpper (ed_category d) = ToUpper c \<and> ToUpper (ed_brand d) = ToUpper brand \<and> ToUpper (ed_model d) = ToUpper model \<and>
     (ed_variant d = [] \<or> ToUpper (ed_variant d) = ToUpper variant \<or> variant = []) \<and> ed_active d"

definition first_row :: "'r list \<Rightarrow> 'r option" where
  "first_row rs = (case rs of [] \<Rightarrow> None | r # _ \<Rightarrow> Some r)"

definition GetExchangeDeviceByModel ::
  "return_lib \<Rightarrow> string \<Rightarrow> string \<Rightarrow> string \<Rightarrow> string \<Rightarrow> ExchangeDeviceCatalog option ret_db" where
  "GetExchangeDeviceByModel L c brand model variant =
     pool_sql (select (\<lambda>t. first_row (sort_key (\<lambda>d. - rl_rank L (ed_variant d))
       (filter (device_matches c brand model variant) (device_catalog t)))))"

definition GetExchangeDeviceCatalogByID :: "return_lib \<Rightarrow> string \<Rightarrow> ExchangeDeviceCatalog option ret_db" where
  "GetExchangeDeviceCatalogByID L i =
     pool_sql (with_ids L [i] (select (\<lambda>t. find (\<lambda>d. ed_id d = i) (device_catalog t))))"

section \<open>Quotes\<close>

definition insert_quote :: "return_lib \<Rightarrow> quote_row \<Rightarrow> return_tables \<Rightarrow> go_error + unit \<times> return_tables" where
  "insert_quote L q t =
     (case stored_three L (''exchange_quotes_base_exchange_value_check'', qu_base q)
         (''exchange_quotes_total_deductions_check'', qu_deductions q) (''exchange_quotes_final_discount_check'', qu_discount q) of
        Inr (a, b, c) \<Rightarrow>
          if qu_status q \<notin> set quote_statuses then Inl (PgError ''22P02'' [])
          else if qu_id q \<in> qu_id ` set (quotes t) then Inl (pg_unique ''exchange_quotes_pkey'')
          else Inr ((), t\<lparr>quotes := quotes t @ [q\<lparr>qu_base := a, qu_deductions := b, qu_discount := c\<rparr>]\<rparr>)
      | Inl er \<Rightarrow> Inl er)"

definition insert_quote_answer ::
  "return_lib \<Rightarrow> ExchangeQuoteAnswer \<Rightarrow> return_tables \<Rightarrow> go_error + unit \<times> return_tables" where
  "insert_quote_answer L a t =
     (case stored_amount L ''exchange_quote_answers_deduction_amount_check'' (qa_deduction a) of
        Inl er \<Rightarrow> Inl er
      | Inr d \<Rightarrow>
          if qa_id a \<in> qa_id ` set (quote_answers t) then Inl (pg_unique ''exchange_quote_answers_pkey'')
          else if qa_quote a \<notin> qu_id ` set (quotes t) then Inl (PgError ''23503'' ''exchange_quote_answers_quote_id_fkey'')
          else Inr ((), t\<lparr>quote_answers := quote_answers t @ [a\<lparr>qa_deduction := d\<rparr>]\<rparr>))"

definition CreateExchangeQuote :: "return_lib \<Rightarrow> quote_row \<Rightarrow> ExchangeQuoteAnswer list \<Rightarrow> unit ret_db" where
  "CreateExchangeQuote L q answers =
     WithTransaction
       (seq (on_error (sql (with_ids L [qu_id q, qu_user q, qu_product q] (insert_quote L q)))
              (WrapError ''failed to insert exchange quote: ''))
         (for_each answers (\<lambda>a.
            bind (if qa_id a = [] then new_uuid else ret (qa_id a)) (\<lambda>i.
            on_error (sql (with_ids L [i] (insert_quote_answer L
                (a\<lparr>qa_id := i, qa_quote := qu_id q, qa_created := qu_created q\<rparr>))))
              (WrapError ''failed to insert exchange quote answer: '')))))"

definition GetExchangeQuoteByID :: "return_lib \<Rightarrow> string \<Rightarrow> ExchangeQuote ret_db" where
  "GetExchangeQuoteByID L i =
     bind (pool_sql (with_ids L [i] (select (\<lambda>t. find (\<lambda>q. qu_id q = i) (quotes t))))) (\<lambda>r.
     case r of
       None \<Rightarrow> raise ErrExchangeQuoteNotFound_repo
     | Some q \<Rightarrow>
         bind (or_nil (pool_sql (select (\<lambda>t. filter (\<lambda>a. qa_quote a = qu_id q) (quote_answers t))))) (\<lambda>answers.
         ret (quote_row.extend q (ExchangeQuote.fields answers))))"

definition update_quotes :: "(quote_row \<Rightarrow> bool) \<Rightarrow> status \<Rightarrow> int \<Rightarrow> return_tables \<Rightarrow> go_error + quote_row option \<times> return_tables" where
  "update_quotes c st now t =
     Inr (find c (quotes t), t\<lparr>quotes := upd_where c (\<lambda>q. q\<lparr>qu_status := st, qu_updated := now\<rparr>) (quotes t)\<rparr>)"

definition UpdateExchangeQuoteStatus :: "return_lib \<Rightarrow> string \<Rightarrow> status \<Rightarrow> unit ret_db" where
  "UpdateExchangeQuoteStatus L i st =
     bind time_now (\<lambda>now.
     bind (pool_sql (with_ids L [i] (update_quotes (\<lambda>q. qu_id q = i) st now))) (\<lambda>r.
     require (r \<noteq> None) ErrExchangeQuoteNotFound_repo))"

definition applicable :: "string \<Rightarrow> string \<Rightarrow> int \<Rightarrow> quote_row \<Rightarrow> bool" where
  "applicable i user now q \<longleftrightarrow>
     qu_id q = i \<and> qu_user q = user \<and> (qu_status q = ''LOCKED'' \<or> qu_status q = ''QUOTED'') \<and> now < qu_expires q"

definition quote_insert_error :: "return_lib \<Rightarrow> go_error \<Rightarrow> go_error" where
  "quote_insert_error L er =
     (if Contains (error_text (rl_grpc L) er) ''uq_exchanges_quote_id'' then ErrQuoteNotApplicable
      else WrapError ''failed to insert exchange record: '' er)"

definition apply_quote_tx ::
  "return_lib \<Rightarrow> exchange_row \<Rightarrow> string \<Rightarrow> ExchangeQuestionAnswer list \<Rightarrow> return_envelope outbox_row option \<Rightarrow> unit ret_db" where
  "apply_quote_tx L x i answers ev =
     bind time_now (\<lambda>now.
     seq (do_when (i \<noteq> [])
           (bind (on_error (sql (with_ids L [i, xc_user x] (update_quotes (applicable i (xc_user x) now) ''APPLIED'' now)))
                    (WrapError ''failed to update quote status to APPLIED: '')) (\<lambda>r.
            require (r \<noteq> None) ErrQuoteNotApplicable)))
     (bind (ret (x\<lparr>xc_quote := i, xc_catalog := []\<rparr>)) (\<lambda>row.
      seq (on_error (sql (with_ids L (exchange_ids row) (insert_exchange L row))) (quote_insert_error L))
      (seq (put_answers L row answers)
        (case ev of None \<Rightarrow> ret () | Some e \<Rightarrow> put_event ''failed to insert outbox event: '' e)))))"

definition ApplyExchangeQuoteToOrderWithOutbox ::
  "return_lib \<Rightarrow> exchange_row \<Rightarrow> string \<Rightarrow> ExchangeQuestionAnswer list \<Rightarrow> return_envelope outbox_row option \<Rightarrow> unit ret_db" where
  "ApplyExchangeQuoteToOrderWithOutbox L x i answers ev = WithTransaction (apply_quote_tx L x i answers ev)"

end
