(* ===== verification/Return_Service.thy ===== *)
theory Return_Service
  imports Exchange_Repo
begin

text \<open>
  The returns of the return service (\<open>internal/service/return_service.go\<close>,
  \<open>internal/events/events.go\<close>, \<open>internal/client/clients.go\<close>): requesting, reviewing and verifying a return,
  and its refund by the payment service. The answers of the other services are parameters; a
  client that is not configured is \<^const>\<open>None\<close>, and so is a nil message.
\<close>

section \<open>Errors\<close>

definition ErrReturnReasonRequired :: go_error where "ErrReturnReasonRequired = ErrorString ''return reason is mandatory''"
definition ErrReturnIDRequired :: go_error where "ErrReturnIDRequired = ErrorString ''return id is required''"
definition ErrReviewerIDRequired :: go_error where "ErrReviewerIDRequired = ErrorString ''reviewer id is required''"
definition ErrOrderItemRequired :: go_error where "ErrOrderItemRequired = ErrorString ''order item id is required''"
definition ErrOrderIDRequired :: go_error where "ErrOrderIDRequired = ErrorString ''order id is required''"
definition ErrUserIDRequired :: go_error where "ErrUserIDRequired = ErrorString ''user id is required''"
definition ErrDuplicateReturnRequest :: go_error where
  "ErrDuplicateReturnRequest = ErrorString ''duplicate return request for order item''"
definition ErrOrderNotDelivered :: go_error where
  "ErrOrderNotDelivered = ErrorString ''order must be delivered to request a return''"
definition ErrOrderItemNotFound :: go_error where "ErrOrderItemNotFound = ErrorString ''order item not found in order''"
definition ErrUnauthorizedReturnRequest :: go_error where
  "ErrUnauthorizedReturnRequest = ErrorString ''order does not belong to authenticated user''"
definition ErrReturnWindowExpired :: go_error where "ErrReturnWindowExpired = ErrorString ''return window has expired''"
definition ErrProductNotReturnable :: go_error where "ErrProductNotReturnable = ErrorString ''product is not returnable''"
definition ErrInvalidReturnStatus :: go_error where "ErrInvalidReturnStatus = ErrorString ''invalid return status''"
definition ErrOrderNotFound_return :: go_error where "ErrOrderNotFound_return = ErrorString ''order not found''"
definition ErrInvalidReturnType :: go_error where "ErrInvalidReturnType = ErrorString ''invalid return type''"
definition ErrVerifiedByRequired :: go_error where
  "ErrVerifiedByRequired = ErrorString ''verified by delivery partner ID is required''"
definition ErrInvalidVerificationCondition :: go_error where
  "ErrInvalidVerificationCondition = ErrorString ''invalid product verification condition''"
definition ErrReturnNotFound :: go_error where "ErrReturnNotFound = ErrorString ''return not found''"
definition ErrReturnNotVerifiable :: go_error where
  "ErrReturnNotVerifiable = ErrorString ''return cannot be verified in current status''"
definition ErrInvalidStateTransition :: go_error where
  "ErrInvalidStateTransition = ErrorString ''invalid return status transition''"
definition ErrCustomerCannotReviewOwnReturn :: go_error where
  "ErrCustomerCannotReviewOwnReturn = ErrorString ''customer cannot approve or reject their own return''"
definition ErrRejectionReasonRequired :: go_error where
  "ErrRejectionReasonRequired = ErrorString ''rejection reason is required''"
definition ErrReturnNotEligibleForRefund :: go_error where
  "ErrReturnNotEligibleForRefund = ErrorString ''refund can only be triggered after return is received or verified''"
definition ErrRefundExceedsPaidAmount :: go_error where
  "ErrRefundExceedsPaidAmount = ErrorString ''refund amount cannot exceed total paid amount''"
definition ErrPaymentNotFound_return :: go_error where "ErrPaymentNotFound_return = ErrorString ''payment not found for order''"
definition ErrRefundFailed :: go_error where "ErrRefundFailed = ErrorString ''payment refund failed''"

definition is_error :: "go_error \<Rightarrow> go_error \<Rightarrow> bool" where
  "is_error target er \<longleftrightarrow> errors_Is er target"

section \<open>The service\<close>

record payment_client =
  pc_payment :: "string \<Rightarrow> go_error + PaymentPb option"
  pc_refund :: "CreateRefundRequest \<Rightarrow> go_error + CreateRefundResponse option"

record return_svc =
  sv_lib :: return_lib
  sv_order :: "(string \<Rightarrow> string \<Rightarrow> go_error + OrderPb option) option"
  sv_product :: "(string \<Rightarrow> go_error + ProductPb option) option"
  sv_payment :: "payment_client option"
  sv_days :: int

definition NewReturnService :: "return_svc \<Rightarrow> return_svc" where
  "NewReturnService S = (if sv_days S \<le> 0 then S\<lparr>sv_days := 7\<rparr> else S)"

definition SetPaymentClient :: "return_svc \<Rightarrow> payment_client option \<Rightarrow> return_svc" where
  "SetPaymentClient S c = S\<lparr>sv_payment := c\<rparr>"

text \<open>The call that moves money, with its answer in the log.\<close>

definition CreateRefund_call :: "payment_client \<Rightarrow> CreateRefundRequest \<Rightarrow> CreateRefundResponse option ret_db" where
  "CreateRefund_call c q = (\<lambda>e w.
     (pc_refund c q, w\<lparr>tabs := (tabs w)\<lparr>refund_log := refund_log (tabs w) @ [(q, pc_refund c q)]\<rparr>\<rparr>))"

section \<open>Events\<close>

definition outbox_event_for ::
  "string \<Rightarrow> string \<Rightarrow> string \<Rightarrow> string \<Rightarrow> return_event \<Rightarrow> return_envelope outbox_row ret_db" where
  "outbox_event_for aggType agg ty topic ev =
     (case find (\<lambda>a. \<not> finite_amount a) (event_amounts ev) of
        Some a \<Rightarrow> raise (WrapError ''failed to marshal event payload: '' (ErrorString (''json: unsupported value: '' @ f64_text a)))
      | None \<Rightarrow>
          bind (NewEventEnvelopeWithAggregate ty ''return-service'' agg ev) (\<lambda>env.
          ret \<lparr>ob_id = [], ob_aggregate_type = aggType, ob_aggregate_id = agg, ob_event_type = ty, ob_payload = env,
               ob_headers = [], ob_topic = topic, ob_status = OutboxPending, ob_retry_count = 0, ob_next_retry_at = None,
               ob_created_at = 0, ob_updated_at = None, ob_published_at = None\<rparr>))"

definition BuildReturnRequestedOutboxEvent :: "'a return_row_scheme \<Rightarrow> string \<Rightarrow> return_envelope outbox_row ret_db" where
  "BuildReturnRequestedOutboxEvent r product =
     outbox_event_for ''return'' (rt_id r) ''ReturnRequested'' ''gocart.return.return-requested''
       (EvReturnRequested \<lparr>rqe_return = rt_id r, rqe_order = rt_order r, rqe_item = rt_item r, rqe_product = product,
          rqe_user = rt_user r, rqe_reason = rt_reason r, rqe_status = rt_status r, rqe_type = rt_type r,
          rqe_amount = rt_refund r, rqe_at = rt_requested r\<rparr>)"

definition BuildReturnApprovedOutboxEvent :: "'a return_row_scheme \<Rightarrow> string \<Rightarrow> return_envelope outbox_row ret_db" where
  "BuildReturnApprovedOutboxEvent r reviewer =
     outbox_event_for ''return'' (rt_id r) ''ReturnApproved'' ''gocart.return.return-approved''
       (EvReturnApproved \<lparr>rae_return = rt_id r, rae_order = rt_order r, rae_item = rt_item r, rae_user = rt_user r,
          rae_by = reviewer, rae_at = (case rt_approved r of None \<Rightarrow> rt_updated r | Some x \<Rightarrow> x), rae_type = rt_type r,
          rae_amount = rt_refund r\<rparr>)"

definition BuildReturnRejectedOutboxEvent ::
  "'a return_row_scheme \<Rightarrow> string \<Rightarrow> string \<Rightarrow> return_envelope outbox_row ret_db" where
  "BuildReturnRejectedOutboxEvent r reviewer reason =
     outbox_event_for ''return'' (rt_id r) ''ReturnRejected'' ''gocart.return.return-rejected''
       (EvReturnRejected \<lparr>rje_return = rt_id r, rje_order = rt_order r, rje_item = rt_item r, rje_user = rt_user r,
          rje_by = reviewer, rje_reason = reason, rje_at = rt_updated r\<rparr>)"

definition BuildReturnVerifiedOutboxEvent ::
  "'a return_row_scheme \<Rightarrow> ProductVerification \<Rightarrow> return_envelope outbox_row ret_db" where
  "BuildReturnVerifiedOutboxEvent r v =
     outbox_event_for ''return'' (rt_id r) ''ReturnVerified'' ''gocart.return.return-verified''
       (EvReturnVerified \<lparr>rve_return = rt_id r, rve_order = rt_order r, rve_item = rt_item r, rve_by = pv_by v,
          rve_condition = pv_condition v, rve_approved = pv_approved v, rve_images = pv_images v, rve_notes = pv_notes v,
          rve_at = pv_verified v\<rparr>)"

definition BuildReturnRefundEligibleOutboxEvent ::
  "'a return_row_scheme \<Rightarrow> string \<Rightarrow> return_envelope outbox_row ret_db" where
  "BuildReturnRefundEligibleOutboxEvent r reason =
     bind time_now (\<lambda>now.
     outbox_event_for ''return'' (rt_id r) ''ReturnRefundEligible'' ''gocart.return.return-refund-eligible''
       (EvReturnRefundEligible \<lparr>ree_return = rt_id r, ree_order = rt_order r, ree_item = rt_item r, ree_user = rt_user r,
          ree_type = rt_type r, ree_amount = rt_refund r,
          ree_reason = (if reason = [] then ''Return '' @ rt_id r @ '' verified and eligible for refund'' else reason),
          ree_at = now\<rparr>))"

definition BuildReturnStatusUpdatedOutboxEvent ::
  "'a return_row_scheme \<Rightarrow> status \<Rightarrow> status \<Rightarrow> return_envelope outbox_row ret_db" where
  "BuildReturnStatusUpdatedOutboxEvent r previous new =
     outbox_event_for ''return'' (rt_id r) ''ReturnStatusUpdated'' ''gocart.return.return-status-updated''
       (EvReturnStatusUpdated \<lparr>rse_return = rt_id r, rse_order = rt_order r, rse_item = rt_item r, rse_previous = previous,
          rse_new = new, rse_at = rt_updated r\<rparr>)"

definition BuildReturnCompletedOutboxEvent :: "'a return_row_scheme \<Rightarrow> return_envelope outbox_row ret_db" where
  "BuildReturnCompletedOutboxEvent r =
     outbox_event_for ''return'' (rt_id r) ''ReturnCompleted'' ''gocart.return.return-completed''
       (EvReturnCompleted \<lparr>rce_return = rt_id r, rce_order = rt_order r, rce_item = rt_item r, rce_user = rt_user r,
          rce_amount = rt_refund r, rce_at = (case rt_completed r of None \<Rightarrow> rt_updated r | Some x \<Rightarrow> x)\<rparr>)"

definition BuildRefundInitiatedOutboxEvent ::
  "'a return_row_scheme \<Rightarrow> string \<Rightarrow> f64 \<Rightarrow> string \<Rightarrow> return_envelope outbox_row ret_db" where
  "BuildRefundInitiatedOutboxEvent r payment amount currency =
     bind time_now (\<lambda>now.
     outbox_event_for ''return'' (rt_id r) ''RefundInitiated'' ''gocart.payment.refund-initiated''
       (EvRefundInitiated \<lparr>rie_refund = ''ref-'' @ rt_id r, rie_payment = payment, rie_order = rt_order r, rie_amount = amount,
          rie_currency = (if currency = [] then ''INR'' else currency), rie_reason = rt_reason r, rie_at = now\<rparr>))"

section \<open>Requesting a return\<close>

record RequestReturnDTO =
  rd_order :: string
  rd_order_item :: string
  rd_item :: string
  rd_user :: string
  rd_reason :: string
  rd_type :: string

definition parseDeliveryTime :: "return_lib \<Rightarrow> OrderPb \<Rightarrow> int \<Rightarrow> int" where
  "parseDeliveryTime L ord1 now =
     (case find (\<lambda>s. TrimSpace s \<noteq> [] \<and> rl_time L (TrimSpace s) \<noteq> None) [op_updated ord1, op_created ord1] of
        None \<Rightarrow> now
      | Some s \<Rightarrow> the (rl_time L (TrimSpace s)))"

definition day_nanos :: int where
  "day_nanos = 24 * 3600 * 1000000000"

definition initial_status :: "string \<Rightarrow> status" where
  "initial_status ty =
     (if ty = ''REPLACEMENT'' then ''REPLACEMENT_REQUESTED''
      else if ty = ''EXCHANGE'' then ''EXCHANGE_REQUESTED''
      else ''RETURN_REQUESTED'')"

definition order_state :: "OrderPb \<Rightarrow> string" where
  "order_state ord1 =
     (let st = ToUpper (TrimSpace (op_status ord1)) in
      if st = [] then ToUpper (TrimSpace (op_order_status ord1)) else st)"

definition refund_of_item :: "OrderItemPb \<Rightarrow> f64" where
  "refund_of_item it =
     (if fle (oi_total it) fzero then fmul (oi_unit it) (fint (oi_quantity it)) else oi_total it)"

text \<open>The check with the product service is skipped where it fails.\<close>

definition returnable :: "return_svc \<Rightarrow> string \<Rightarrow> bool" where
  "returnable S product =
     (case sv_product S of
        None \<Rightarrow> True
      | Some get \<Rightarrow> (case get product of Inr (Some p) \<Rightarrow> pp_returnable p | _ \<Rightarrow> True))"

definition requested_item :: "return_svc \<Rightarrow> RequestReturnDTO \<Rightarrow> string \<Rightarrow> go_error + OrderPb \<times> OrderItemPb" where
  "requested_item S req i =
     (case sv_order S of
        None \<Rightarrow> Inl (FreshError ''order client not configured'')
      | Some get \<Rightarrow>
          (case get (TrimSpace (rd_order req)) (TrimSpace (rd_user req)) of
             Inl er \<Rightarrow> Inl er
           | Inr None \<Rightarrow> Inl ErrOrderNotFound_return
           | Inr (Some ord1) \<Rightarrow>
               if op_user ord1 \<noteq> [] \<and> op_user ord1 \<noteq> TrimSpace (rd_user req) then Inl ErrUnauthorizedReturnRequest
               else if order_state ord1 \<noteq> ''DELIVERED'' then Inl ErrOrderNotDelivered
               else case find (\<lambda>it. oi_id it = i \<or> oi_product it = i) (op_items ord1) of
                 None \<Rightarrow> Inl ErrOrderItemNotFound
               | Some it \<Rightarrow> Inr (ord1, it)))"

definition no_return_yet :: "return_lib \<Rightarrow> string \<Rightarrow> unit ret_db" where
  "no_return_yet L i =
     bind (attempt (GetReturnByOrderItemID L i)) (\<lambda>r.
     case r of
       Inr _ \<Rightarrow> raise ErrDuplicateReturnRequest
     | Inl er \<Rightarrow> require (is_error ErrReturnNotFound_repo er) er)"

definition return_item_of :: "RequestReturnDTO \<Rightarrow> string" where
  "return_item_of req =
     (if TrimSpace (rd_order_item req) = [] then TrimSpace (rd_item req) else TrimSpace (rd_order_item req))"

definition return_type_of :: "RequestReturnDTO \<Rightarrow> string" where
  "return_type_of req = (let ty = ToUpper (TrimSpace (rd_type req)) in if ty = [] then ''RETURN'' else ty)"

definition new_return :: "RequestReturnDTO \<Rightarrow> string \<Rightarrow> OrderItemPb \<Rightarrow> string \<Rightarrow> int \<Rightarrow> return_row" where
  "new_return req i it item now =
     \<lparr>rt_id = i, rt_order = TrimSpace (rd_order req), rt_item = item, rt_user = TrimSpace (rd_user req),
      rt_reason = TrimSpace (rd_reason req), rt_status = initial_status (return_type_of req), rt_type = return_type_of req,
      rt_refund = refund_of_item it, rt_requested = now, rt_approved = None, rt_completed = None, rt_rejection = [],
      rt_created = now, rt_updated = now\<rparr>"

definition store_request :: "return_svc \<Rightarrow> RequestReturnDTO \<Rightarrow> OrderPb \<Rightarrow> OrderItemPb \<Rightarrow> string \<Rightarrow> Return ret_db" where
  "store_request S req ord1 it item =
     seq (no_return_yet (sv_lib S) item)
     (bind time_now (\<lambda>now.
      seq (require (\<not> sv_days S * day_nanos < now - parseDeliveryTime (sv_lib S) ord1 now) ErrReturnWindowExpired)
      (seq (require (returnable S (oi_product it)) ErrProductNotReturnable)
      (bind new_uuid (\<lambda>i.
       bind (ret (new_return req i it item now)) (\<lambda>r.
       bind (BuildReturnRequestedOutboxEvent r (oi_product it)) (\<lambda>ev.
       seq (CreateReturnWithOutbox (sv_lib S) r (Some ev))
         (ret (return_row.extend r (Return.fields None))))))))))"

definition RequestReturn :: "return_svc \<Rightarrow> RequestReturnDTO option \<Rightarrow> Return ret_db" where
  "RequestReturn S request =
     (case request of
        None \<Rightarrow> raise (FreshError ''request cannot be nil'')
      | Some req \<Rightarrow>
          seq (require (\<not> blank (rd_user req)) ErrUserIDRequired)
          (seq (require (\<not> blank (rd_order req)) ErrOrderIDRequired)
          (seq (require (blank (rd_order_item req) \<or> blank (rd_item req) \<or>
                  TrimSpace (rd_order_item req) = TrimSpace (rd_item req)) (FreshError ''order_item_id and item_id must match''))
          (seq (require (return_item_of req \<noteq> []) ErrOrderItemRequired)
          (seq (require (\<not> blank (rd_reason req)) ErrReturnReasonRequired)
          (seq (require (ReturnType_IsValid (return_type_of req)) ErrInvalidReturnType)
          (bind (call (requested_item S req (return_item_of req))) (\<lambda>(ord1, it).
           store_request S req ord1 it (if oi_id it = [] then return_item_of req else oi_id it)))))))))"

definition GetReturn :: "return_svc \<Rightarrow> string \<Rightarrow> Return ret_db" where
  "GetReturn S i =
     seq (require (\<not> blank i) (FreshError ''return id is required'')) (GetReturnByID (sv_lib S) (TrimSpace i))"

definition ListReturns :: "return_svc \<Rightarrow> int \<Rightarrow> int \<Rightarrow> string \<Rightarrow> string \<Rightarrow> string \<Rightarrow> (Return list \<times> nat) ret_db" where
  "ListReturns S cap off st user ty = ListReturns_repo (sv_lib S) cap off st user ty"

definition ListReturnsByOrderID :: "return_svc \<Rightarrow> string \<Rightarrow> Return list ret_db" where
  "ListReturnsByOrderID S i =
     seq (require (\<not> blank i) (FreshError ''order id is required'')) (ListReturnsByOrderID_repo (sv_lib S) (TrimSpace i))"

section \<open>Refunds\<close>

text \<open>The return, read for a change, with the error of the service for a missing one.\<close>

definition known_return :: "return_svc \<Rightarrow> string \<Rightarrow> Return ret_db" where
  "known_return S i =
     on_error (GetReturnByID (sv_lib S) i) (\<lambda>er. if is_error ErrReturnNotFound_repo er then ErrReturnNotFound else er)"

definition refundable_statuses :: "status list" where
  "refundable_statuses = [''VERIFIED'', ''RECEIVED'', ''ITEM_RECEIVED'', ''REFUND_INITIATED'']"

definition refund_key :: "'a return_row_scheme \<Rightarrow> string" where
  "refund_key r = ''refund_'' @ rt_id r @ ''_'' @ rt_order r"

definition refund_amount :: "'a return_row_scheme \<Rightarrow> PaymentPb \<Rightarrow> f64" where
  "refund_amount r p = (if fle (rt_refund r) fzero then pm_amount p else rt_refund r)"

definition refund_request_for :: "'a return_row_scheme \<Rightarrow> PaymentPb \<Rightarrow> CreateRefundRequest" where
  "refund_request_for r p =
     \<lparr>cf_payment = pm_id p, cf_amount = refund_amount r p, cf_reason = rt_reason r, cf_key = refund_key r\<rparr>"

definition initiate_refund :: "return_svc \<Rightarrow> Return \<Rightarrow> PaymentPb \<Rightarrow> Return ret_db" where
  "initiate_refund S r p =
     (if rt_status r = ''REFUND_INITIATED'' then ret r
      else
        bind (BuildRefundInitiatedOutboxEvent r (pm_id p) (refund_amount r p) (pm_currency p)) (\<lambda>e1.
        bind (BuildReturnStatusUpdatedOutboxEvent r (rt_status r) ''REFUND_INITIATED'') (\<lambda>e2.
        UpdateReturnStatusWithOutbox (sv_lib S) (rt_id r) ''REFUND_INITIATED'' [] [e1, e2])))"

definition refund_succeeded :: "CreateRefundResponse \<Rightarrow> bool" where
  "refund_succeeded a \<longleftrightarrow> ToUpper (TrimSpace (cs_status a)) \<in> {''SUCCESS'', ''PROCESSED''}"

definition complete_return :: "return_svc \<Rightarrow> Return \<Rightarrow> Return ret_db" where
  "complete_return S r =
     bind time_now (\<lambda>now.
     bind (ret (r\<lparr>rt_completed := Some now, rt_status := ''COMPLETED''\<rparr>)) (\<lambda>done1.
     bind (BuildReturnCompletedOutboxEvent done1) (\<lambda>e1.
     bind (BuildReturnStatusUpdatedOutboxEvent done1 ''REFUND_INITIATED'' ''COMPLETED'') (\<lambda>e2.
     bind (UpdateReturnStatusWithOutbox (sv_lib S) (rt_id r) ''COMPLETED'' [] [e1, e2]) (\<lambda>stored.
     ret (stored\<lparr>rt_completed := Some now\<rparr>))))))"

definition settle_return :: "return_svc \<Rightarrow> Return \<Rightarrow> CreateRefundResponse option \<Rightarrow> Return ret_db" where
  "settle_return S r answer =
     (case answer of
        None \<Rightarrow> raise (FreshError ''payment service returned empty refund response'')
      | Some a \<Rightarrow>
          if refund_succeeded a then complete_return S r
          else if ToUpper (TrimSpace (cs_status a)) = ''FAILED'' then raise ErrRefundFailed
          else ret r)"

definition order_refund :: "return_svc \<Rightarrow> payment_client \<Rightarrow> Return \<Rightarrow> PaymentPb \<Rightarrow> Return ret_db" where
  "order_refund S c r p =
     seq (require (\<not> flt (pm_amount p) (refund_amount r p)) ErrRefundExceedsPaidAmount)
     (bind (initiate_refund S r p) (\<lambda>r1.
      bind (on_error (CreateRefund_call c (refund_request_for r1 p\<lparr>cf_amount := refund_amount r p, cf_key := refund_key r\<rparr>))
              (WrapError ''payment service CreateRefund failed: ''))
        (settle_return S r1)))"

definition TriggerRefund :: "return_svc \<Rightarrow> string \<Rightarrow> Return ret_db" where
  "TriggerRefund S i =
     seq (require (\<not> blank i) (FreshError ''return id is required''))
     (bind (known_return S (TrimSpace i)) (\<lambda>r.
      if rt_type r = ''REPLACEMENT'' \<or> rt_type r = ''EXCHANGE'' then ret r
      else if rt_status r = ''COMPLETED'' then ret r
      else
        seq (require (rt_status r \<in> set refundable_statuses) ErrReturnNotEligibleForRefund)
        (case sv_payment S of
           None \<Rightarrow> raise (FreshError ''payment service client unavailable'')
         | Some c \<Rightarrow>
             bind (on_error (call (pc_payment c (rt_order r)))
                     (WrapError (''failed to retrieve payment for order '' @ rt_order r @ '': ''))) (\<lambda>pmt.
             case pmt of
               None \<Rightarrow> raise ErrPaymentNotFound_return
             | Some p \<Rightarrow> order_refund S c r p))))"

definition ProcessRefund :: "return_svc \<Rightarrow> string \<Rightarrow> Return ret_db" where
  "ProcessRefund S i = TriggerRefund S i"

end
