(* ===== verification/Return_Review.thy ===== *)
theory Return_Review
  imports Return_Service
begin

text \<open>
  Reviewing returns (\<open>internal/service/return_service.go\<close>: \<open>UpdateReturnStatus\<close>, \<open>ApproveReturn\<close>,
  \<open>RejectReturn\<close>, \<open>VerifyProduct\<close>). The context of a call is the record \<^typ>\<open>call_ctx\<close>; the variadic
  arguments of \<open>UpdateReturnStatus\<close> are a list.
\<close>

section \<open>Changing the status\<close>

definition reviewer_of :: "call_ctx \<Rightarrow> string list \<Rightarrow> string" where
  "reviewer_of ctx args =
     (if GetUserID ctx = [] \<and> 1 < length args then TrimSpace (args ! 1) else GetUserID ctx)"

definition reason_of :: "string list \<Rightarrow> string" where
  "reason_of args = (case args of [] \<Rightarrow> [] | s # _ \<Rightarrow> TrimSpace s)"

definition only_if :: "bool \<Rightarrow> return_envelope outbox_row ret_db \<Rightarrow> return_envelope outbox_row list ret_db" where
  "only_if b m = (if b then bind m (\<lambda>e. ret [e]) else ret [])"

definition if_built :: "bool \<Rightarrow> return_envelope outbox_row ret_db \<Rightarrow> return_envelope outbox_row list ret_db" where
  "if_built b m = (if b then or_nil (bind m (\<lambda>e. ret [e])) else ret [])"

definition approval_shown :: "status \<Rightarrow> int \<Rightarrow> Return \<Rightarrow> Return" where
  "approval_shown st now r =
     (if st = ''APPROVED'' then r\<lparr>rt_approved := first_time (rt_approved r) (Some now), rt_updated := now\<rparr> else r)"

definition review_events ::
  "Return \<Rightarrow> status \<Rightarrow> string \<Rightarrow> string \<Rightarrow> return_envelope outbox_row list ret_db" where
  "review_events r st reviewer reason =
     bind (only_if (st = ''APPROVED'') (BuildReturnApprovedOutboxEvent r reviewer)) (\<lambda>a.
     bind (only_if (st = ''REJECTED'') (BuildReturnRejectedOutboxEvent r reviewer reason)) (\<lambda>b.
     bind (only_if (st = ''COMPLETED'') (BuildReturnCompletedOutboxEvent r)) (\<lambda>c.
     bind (if_built (st = ''REFUND_INITIATED'') (BuildRefundInitiatedOutboxEvent r [] (rt_refund r) [])) (\<lambda>d.
     bind (BuildReturnStatusUpdatedOutboxEvent r (rt_status r) st) (\<lambda>u.
     ret (a @ b @ c @ d @ [u]))))))"

definition own_review :: "status \<Rightarrow> string \<Rightarrow> 'a return_row_scheme \<Rightarrow> bool" where
  "own_review st reviewer r \<longleftrightarrow>
     (st = ''APPROVED'' \<or> st = ''REJECTED'') \<and> reviewer \<noteq> [] \<and> reviewer = rt_user r"

definition change_return :: "return_svc \<Rightarrow> string \<Rightarrow> status \<Rightarrow> string \<Rightarrow> string \<Rightarrow> Return \<Rightarrow> Return ret_db" where
  "change_return S i st reviewer reason r =
     (if (st = ''COMPLETED'' \<or> st = ''REFUND_INITIATED'') \<and> rt_type r = ''RETURN'' \<and> sv_payment S \<noteq> None then TriggerRefund S i
      else
        bind time_now (\<lambda>now.
        bind (review_events (approval_shown st now r) st reviewer reason) (\<lambda>evs.
        UpdateReturnStatusWithOutbox (sv_lib S) i st reason evs)))"

definition UpdateReturnStatus :: "return_svc \<Rightarrow> call_ctx \<Rightarrow> string \<Rightarrow> status \<Rightarrow> string list \<Rightarrow> Return ret_db" where
  "UpdateReturnStatus S ctx i st args =
     seq (require (\<not> blank i) ErrReturnIDRequired)
     (seq (require (ReturnStatus_IsValid st) ErrInvalidReturnStatus)
     (bind (GetReturnByID (sv_lib S) (TrimSpace i)) (\<lambda>r.
      seq (require (CanTransitionTo_return (rt_status r) st)
            (SuffixError ErrInvalidStateTransition ('': cannot transition return from '' @ rt_status r @ '' to '' @ st)))
      (seq (require (\<not> own_review st (reviewer_of ctx args) r) ErrCustomerCannotReviewOwnReturn)
      (seq (require (\<not> (st = ''REJECTED'' \<and> reason_of args = [])) ErrRejectionReasonRequired)
        (change_return S (TrimSpace i) st (reviewer_of ctx args) (reason_of args) r))))))"

definition named_reviewer :: "call_ctx \<Rightarrow> string \<Rightarrow> string" where
  "named_reviewer ctx reviewer = (if blank reviewer then GetUserID ctx else TrimSpace reviewer)"

definition ApproveReturn :: "return_svc \<Rightarrow> call_ctx \<Rightarrow> string \<Rightarrow> string \<Rightarrow> Return ret_db" where
  "ApproveReturn S ctx i reviewer =
     seq (require (\<not> blank i) ErrReturnIDRequired)
     (bind (ret (named_reviewer ctx reviewer)) (\<lambda>u.
      seq (require (u \<noteq> []) ErrReviewerIDRequired)
        (UpdateReturnStatus S (WithUser u ctx) (TrimSpace i) ''APPROVED'' [[], u])))"

definition RejectReturn :: "return_svc \<Rightarrow> call_ctx \<Rightarrow> string \<Rightarrow> string \<Rightarrow> string \<Rightarrow> Return ret_db" where
  "RejectReturn S ctx i reason reviewer =
     seq (require (\<not> blank i) ErrReturnIDRequired)
     (seq (require (\<not> blank reason) ErrRejectionReasonRequired)
     (bind (ret (named_reviewer ctx reviewer)) (\<lambda>u.
      seq (require (u \<noteq> []) ErrReviewerIDRequired)
        (UpdateReturnStatus S (WithUser u ctx) (TrimSpace i) ''REJECTED'' [TrimSpace reason, u]))))"

section \<open>Verifying the product\<close>

record VerifyProductDTO =
  vd_return :: string
  vd_by :: string
  vd_condition :: string
  vd_approved :: bool
  vd_images :: "string list"
  vd_notes :: string

text \<open>The trimmed texts that are not empty, each once.\<close>

fun cleaned :: "string list \<Rightarrow> string list \<Rightarrow> string list" where
  "cleaned seen [] = []"
| "cleaned seen (x # xs) =
     (let s = TrimSpace x in if s \<noteq> [] \<and> s \<notin> set seen then s # cleaned (s # seen) xs else cleaned seen xs)"

definition verifiable_statuses :: "status list" where
  "verifiable_statuses = [''RETURN_REQUESTED'', ''REQUESTED'', ''REPLACEMENT_REQUESTED'', ''EXCHANGE_REQUESTED'',
     ''APPROVED'', ''PICKED_UP'', ''RECEIVED'', ''ITEM_RECEIVED'']"

definition verified_status :: "bool \<Rightarrow> status" where
  "verified_status ok = (if ok then ''VERIFIED'' else ''REJECTED'')"

definition verify_condition :: "VerifyProductDTO \<Rightarrow> string" where
  "verify_condition req = ToUpper (TrimSpace (vd_condition req))"

definition new_verification :: "VerifyProductDTO \<Rightarrow> string \<Rightarrow> string \<Rightarrow> int \<Rightarrow> ProductVerification" where
  "new_verification req i ret_id now =
     verification_row.extend
       \<lparr>pv_id = i, pv_return = ret_id, pv_by = TrimSpace (vd_by req), pv_condition = verify_condition req,
        pv_approved = vd_approved req, pv_notes = TrimSpace (vd_notes req), pv_verified = now, pv_created = now, pv_updated = now\<rparr>
       (ProductVerification.fields (cleaned [] (vd_images req)))"

text \<open>A verified return is refunded at once; where that fails the verification stands.\<close>

definition refund_verified :: "return_svc \<Rightarrow> Return \<Rightarrow> ProductVerification \<Rightarrow> Return ret_db" where
  "refund_verified S r v =
     (if pv_approved v \<and> rt_type r = ''RETURN'' \<and> sv_payment S \<noteq> None then
        bind (attempt (TriggerRefund S (rt_id r))) (\<lambda>a.
        ret (case a of Inr refunded \<Rightarrow> refunded\<lparr>rt_verification := Some v\<rparr> | Inl _ \<Rightarrow> r))
      else ret r)"

definition store_verification ::
  "return_svc \<Rightarrow> VerifyProductDTO \<Rightarrow> Return \<Rightarrow> (Return \<times> ProductVerification) ret_db" where
  "store_verification S req r =
     bind time_now (\<lambda>now.
     bind new_uuid (\<lambda>i.
     bind (ret (new_verification req i (rt_id r) now)) (\<lambda>v.
     bind (BuildReturnVerifiedOutboxEvent r v) (\<lambda>e1.
     bind (if_built (vd_approved req \<and> rt_type r = ''RETURN'')
             (BuildReturnRefundEligibleOutboxEvent r ''Product verified and approved for refund'')) (\<lambda>e2.
     bind (CreateVerificationWithOutbox (sv_lib S) v (verified_status (vd_approved req)) (e1 # e2)) (\<lambda>vid.
     bind (ret (v\<lparr>pv_id := vid\<rparr>)) (\<lambda>stored.
     bind (refund_verified S
             (r\<lparr>rt_status := verified_status (vd_approved req),
                rt_approved := (if vd_approved req then first_time (rt_approved r) (Some now) else rt_approved r),
                rt_verification := Some stored, rt_updated := now\<rparr>) stored) (\<lambda>shown.
     ret (shown, stored)))))))))"

definition VerifyProduct ::
  "return_svc \<Rightarrow> VerifyProductDTO option \<Rightarrow> (Return \<times> ProductVerification) ret_db" where
  "VerifyProduct S request =
     (case request of
        None \<Rightarrow> raise (FreshError ''request cannot be nil'')
      | Some req \<Rightarrow>
          seq (require (\<not> blank (vd_return req)) (FreshError ''return id is required''))
          (seq (require (\<not> blank (vd_by req)) ErrVerifiedByRequired)
          (seq (require (VerificationCondition_IsValid (verify_condition req)) ErrInvalidVerificationCondition)
          (bind (known_return S (TrimSpace (vd_return req))) (\<lambda>r.
           seq (require (rt_status r \<in> set verifiable_statuses) ErrReturnNotVerifiable)
             (store_verification S req r))))))"

end
