(* ===== verification/Exchange_Service.thy ===== *)
theory Exchange_Service
  imports Return_Review
begin

text \<open>
  The exchanges of the return service (\<open>internal/service/return_service.go\<close>): offers, the valuation
  of a device from the answers to the diagnostic questions, locked quotes and their use for an
  order, the verification of the device, and what follows when its value was revised.
\<close>

section \<open>Errors\<close>

definition ErrInvalidExchangeConditionRating :: go_error where
  "ErrInvalidExchangeConditionRating = ErrorString ''invalid exchange condition rating''"
definition ErrExchangeNotFound :: go_error where "ErrExchangeNotFound = ErrorString ''exchange record not found''"
definition ErrExchangeNotVerifiable :: go_error where
  "ErrExchangeNotVerifiable = ErrorString ''exchange cannot be verified in current status''"
definition ErrExchangeBrandModelRequired :: go_error where
  "ErrExchangeBrandModelRequired = ErrorString ''old brand and old model are required for exchange''"
definition ErrExchangeProductRequired :: go_error where
  "ErrExchangeProductRequired = ErrorString ''product id is required for exchange''"
definition ErrExchangeFunctionalRequired :: go_error where
  "ErrExchangeFunctionalRequired = ErrorString ''device must be functional and serial must match to approve exchange''"
definition ErrProductNotFound_return :: go_error where "ErrProductNotFound_return = ErrorString ''product not found''"
definition ErrProductServiceUnavailable :: go_error where
  "ErrProductServiceUnavailable = ErrorString ''product service is unavailable''"
definition ErrProductNotExchangeEligible :: go_error where
  "ErrProductNotExchangeEligible = ErrorString ''product is not eligible for exchange''"
definition ErrProductCategoryNotExchangeable :: go_error where
  "ErrProductCategoryNotExchangeable =
     ErrorString ''product category does not support exchange; only eligible smartphones can be exchanged''"
definition ErrSmallProductExchangeRestricted :: go_error where
  "ErrSmallProductExchangeRestricted = ErrorString ''exchanges are not allowed for small products or accessories''"
definition ErrExchangeProductIDRequired :: go_error where
  "ErrExchangeProductIDRequired = ErrorString ''productId is required for exchange''"
definition ErrExchangeDeviceCatalogIDRequired :: go_error where
  "ErrExchangeDeviceCatalogIDRequired = ErrorString ''exchangeDeviceCatalogId is required for exchange''"
definition ErrExchangeDeviceInactive :: go_error where
  "ErrExchangeDeviceInactive = ErrorString ''exchange device catalog entry is inactive''"
definition ErrIncompatibleExchangeCategory :: go_error where
  "ErrIncompatibleExchangeCategory = ErrorString ''cannot exchange products across incompatible categories''"
definition ErrExchangeQuoteExpired :: go_error where "ErrExchangeQuoteExpired = ErrorString ''exchange quote has expired''"
definition ErrExchangeQuoteNotFound :: go_error where "ErrExchangeQuoteNotFound = ErrorString ''exchange quote not found''"
definition ErrExchangeQuoteNotApplicable :: go_error where
  "ErrExchangeQuoteNotApplicable = ErrorString ''exchange quote cannot be applied in its current status''"
definition ErrExchangeDeviceNotFound :: go_error where
  "ErrExchangeDeviceNotFound = ErrorString ''selected device not found in exchange catalog''"
definition ErrExchangeDisqualified :: go_error where
  "ErrExchangeDisqualified = ErrorString ''device is disqualified for exchange''"
definition ErrUnknownExchangeQuestion :: go_error where
  "ErrUnknownExchangeQuestion = ErrorString ''unknown exchange diagnostic question''"
definition ErrUnknownExchangeOption :: go_error where
  "ErrUnknownExchangeOption = ErrorString ''unknown exchange diagnostic option''"
definition ErrDuplicateExchangeAnswer :: go_error where
  "ErrDuplicateExchangeAnswer = ErrorString ''duplicate answer for exchange diagnostic question''"
definition ErrMissingRequiredQuestion :: go_error where
  "ErrMissingRequiredQuestion = ErrorString ''all diagnostic questions must be answered''"

section \<open>Events\<close>

definition BuildExchangeCreatedOutboxEvent :: "exchange_row \<Rightarrow> return_envelope outbox_row ret_db" where
  "BuildExchangeCreatedOutboxEvent x =
     outbox_event_for ''exchange'' (xc_id x) ''ExchangeCreated'' ''gocart.return.exchange-created'' (EvExchangeCreated x)"

definition BuildExchangeOfferAppliedOutboxEvent :: "exchange_row \<Rightarrow> return_envelope outbox_row ret_db" where
  "BuildExchangeOfferAppliedOutboxEvent x =
     outbox_event_for ''exchange'' (xc_id x) ''ExchangeOfferApplied'' ''gocart.return.exchange-offer-applied''
       (EvExchangeOfferApplied \<lparr>xoe_exchange = xc_id x, xoe_quote = xc_quote x, xoe_user = xc_user x, xoe_product = xc_product x,
          xoe_brand = xc_brand x, xoe_model = xc_model x, xoe_variant = xc_variant x, xoe_serial = xc_serial x,
          xoe_base = xc_base x, xoe_discount = xc_estimated x, xoe_at = xc_created x\<rparr>)"

definition BuildExchangeCompletedOutboxEvent :: "'a exchange_row_scheme \<Rightarrow> f64 \<Rightarrow> return_envelope outbox_row ret_db" where
  "BuildExchangeCompletedOutboxEvent x final =
     outbox_event_for ''exchange'' (xc_id x) ''ExchangeCompleted'' ''gocart.return.exchange-completed''
       (EvExchangeCompleted \<lparr>xce_exchange = xc_id x, xce_user = xc_user x, xce_discount = final, xce_at = xc_updated x\<rparr>)"

definition BuildExchangeVerifiedOutboxEvent :: "exchange_verification_row \<Rightarrow> return_envelope outbox_row ret_db" where
  "BuildExchangeVerifiedOutboxEvent v =
     outbox_event_for ''exchange'' (xv_exchange v) ''ExchangeVerified'' ''gocart.return.exchange-verified'' (EvExchangeVerified v)"

section \<open>Offers\<close>

record ExchangeAnswerDTO =
  ad_question :: string
  ad_value :: string
  ad_deduction :: f64

record CreateExchangeDTO =
  ce_product :: string
  ce_catalog :: string
  ce_user :: string
  ce_brand :: string
  ce_model :: string
  ce_variant :: string
  ce_serial :: string
  ce_answers :: "ExchangeAnswerDTO option list"

definition small_keywords :: "string list" where
  "small_keywords = [''charger'', ''adapter'', ''cable'', ''airpod'', ''airpods'', ''earbud'', ''earbuds'', ''earphone'',
     ''earphones'', ''headphone'', ''headphones'', ''watch'', ''smartwatch'', ''accessory'', ''accessories'', ''case'', ''cover'',
     ''screen protector'']"

definition laptop_keywords :: "string list" where
  "laptop_keywords = [''laptop'', ''macbook'', ''notebook'', ''chromebook'', ''ultrabook'']"

definition phone_keywords :: "string list" where
  "phone_keywords = [''smartphone'', ''phone'', ''mobile'', ''iphone'', ''galaxy'', ''pixel'']"

definition validateProductExchangeEligibility :: "ProductPb \<Rightarrow> ExchangeDeviceCatalog \<Rightarrow> go_error option" where
  "validateProductExchangeEligibility p d =
     (let text = ToLower (pp_name p) @ '' '' @ ToLower (pp_description p); cat = ToUpper (TrimSpace (pp_category p)) in
      if \<not> pp_exchangeable p then Some ErrProductNotExchangeEligible
      else if list_ex (\<lambda>k. Contains text k \<or> EqualFold cat k) small_keywords then Some ErrSmallProductExchangeRestricted
      else if list_ex (\<lambda>k. Contains text k \<or> EqualFold cat k) laptop_keywords then Some ErrProductCategoryNotExchangeable
      else if \<not> (EqualFold cat ''SMARTPHONE'' \<or> list_ex (Contains text) phone_keywords) then Some ErrProductCategoryNotExchangeable
      else if \<not> EqualFold (ed_category d) ''SMARTPHONE'' then Some ErrIncompatibleExchangeCategory
      else None)"

text \<open>The answers that count: with a question, and a deduction that is not negative.\<close>

definition counted :: "ExchangeAnswerDTO option list \<Rightarrow> ExchangeAnswerDTO list" where
  "counted answers =
     concat (map (\<lambda>a. case a of
         None \<Rightarrow> []
       | Some d \<Rightarrow> if blank (ad_question d) then []
                  else [d\<lparr>ad_deduction := (if flt (ad_deduction d) fzero then fzero else ad_deduction d)\<rparr>]) answers)"

definition total_of_amounts :: "f64 list \<Rightarrow> f64" where
  "total_of_amounts xs = foldl fadd fzero xs"

definition capped_discount :: "f64 \<Rightarrow> f64 \<Rightarrow> f64 option \<Rightarrow> f64" where
  "capped_discount base deductions cap =
     (let d = fsub base deductions; d0 = (if flt d fzero then fzero else d) in
      case cap of None \<Rightarrow> d0 | Some m \<Rightarrow> if flt fzero m \<and> flt m d0 then m else d0)"

fun numbered :: "(string \<Rightarrow> 'a \<Rightarrow> 'b) \<Rightarrow> 'a list \<Rightarrow> 'b list ret_db" where
  "numbered f [] = ret []"
| "numbered f (x # xs) = bind new_uuid (\<lambda>i. bind (numbered f xs) (\<lambda>ys. ret (f i x # ys)))"

definition or_given :: "string \<Rightarrow> string \<Rightarrow> string" where
  "or_given s d = (if blank s then d else TrimSpace s)"

definition exchange_product :: "return_svc \<Rightarrow> string \<Rightarrow> ExchangeDeviceCatalog \<Rightarrow> go_error + ProductPb option" where
  "exchange_product S i d =
     (case sv_product S of
        None \<Rightarrow> Inr None
      | Some get \<Rightarrow>
          (case get i of
             Inl er \<Rightarrow> Inl er
           | Inr None \<Rightarrow> Inl ErrProductNotFound_return
           | Inr (Some p) \<Rightarrow> (case validateProductExchangeEligibility p d of Some er \<Rightarrow> Inl er | None \<Rightarrow> Inr (Some p))))"

definition offered_exchange ::
  "CreateExchangeDTO \<Rightarrow> ExchangeDeviceCatalog \<Rightarrow> ProductPb option \<Rightarrow> string \<Rightarrow> int \<Rightarrow> exchange_row" where
  "offered_exchange req d prod1 i now =
     (let discount = capped_discount (ed_base d) (total_of_amounts (map ad_deduction (counted (ce_answers req))))
                       (map_option pp_max_discount prod1) in
      \<lparr>xc_id = i, xc_user = TrimSpace (ce_user req), xc_brand = or_given (ce_brand req) (ed_brand d),
       xc_model = or_given (ce_model req) (ed_model d), xc_variant = or_given (ce_variant req) (ed_variant d),
       xc_serial = TrimSpace (ce_serial req), xc_base = ed_base d, xc_estimated = discount, xc_final = discount,
       xc_difference = fzero, xc_status = ''OFFER_CREATED'', xc_quote = [], xc_product = TrimSpace (ce_product req),
       xc_catalog = TrimSpace (ce_catalog req), xc_created = now, xc_updated = now\<rparr>)"

definition CreateExchange :: "return_svc \<Rightarrow> CreateExchangeDTO option \<Rightarrow> Exchange ret_db" where
  "CreateExchange S request =
     (case request of
        None \<Rightarrow> raise (FreshError ''request cannot be nil'')
      | Some req \<Rightarrow>
          seq (require (\<not> blank (ce_user req)) ErrUserIDRequired)
          (seq (require (\<not> blank (ce_product req)) ErrExchangeProductIDRequired)
          (seq (require (\<not> blank (ce_catalog req)) ErrExchangeDeviceCatalogIDRequired)
          (bind (GetExchangeDeviceCatalogByID (sv_lib S) (TrimSpace (ce_catalog req))) (\<lambda>found.
           case found of
             None \<Rightarrow> raise ErrExchangeDeviceNotFound
           | Some d \<Rightarrow>
               seq (require (ed_active d) ErrExchangeDeviceInactive)
               (bind (call (exchange_product S (TrimSpace (ce_product req)) d)) (\<lambda>prod1.
                bind time_now (\<lambda>now.
                bind (numbered (\<lambda>j a. \<lparr>xa_id = j, xa_exchange = [], xa_question = TrimSpace (ad_question a),
                        xa_value = TrimSpace (ad_value a), xa_deduction = ad_deduction a, xa_created = now\<rparr>)
                       (counted (ce_answers req))) (\<lambda>answers.
                bind new_uuid (\<lambda>i.
                bind (ret (offered_exchange req d prod1 i now)) (\<lambda>x.
                bind (BuildExchangeCreatedOutboxEvent x) (\<lambda>ev.
                seq (CreateExchangeWithOutbox (sv_lib S) x answers (Some ev))
                  (ret (exchange_row.extend x (Exchange.fields
                     (map (\<lambda>a. a\<lparr>xa_exchange := i\<rparr>) answers) None)))))))))))))))"

definition GetExchange :: "return_svc \<Rightarrow> string \<Rightarrow> Exchange ret_db" where
  "GetExchange S i =
     seq (require (\<not> blank i) (FreshError ''exchange id is required'')) (GetExchangeByID (sv_lib S) (TrimSpace i))"

section \<open>Verifying the device\<close>

record VerifyExchangeProductDTO =
  ve_exchange :: string
  ve_by :: string
  ve_rating :: string
  ve_approved :: bool
  ve_screen :: bool
  ve_body :: bool
  ve_functional :: bool
  ve_serial :: bool
  ve_discount :: "f64 option"
  ve_images :: "string list"
  ve_notes :: string

text \<open>The inequality of two \<open>float64\<close>: a NaN differs from everything.\<close>

definition fneq :: "f64 \<Rightarrow> f64 \<Rightarrow> bool" where
  "fneq x y \<longleftrightarrow> x = NaN \<or> y = NaN \<or> x \<noteq> y"

definition verified_discount :: "VerifyExchangeProductDTO \<Rightarrow> 'a exchange_row_scheme \<Rightarrow> f64" where
  "verified_discount req x =
     (if ve_approved req then (case ve_discount req of Some d \<Rightarrow> d | None \<Rightarrow> xc_estimated x) else fzero)"

definition exchange_verdict :: "VerifyExchangeProductDTO \<Rightarrow> 'a exchange_row_scheme \<Rightarrow> status" where
  "exchange_verdict req x =
     (if \<not> ve_approved req then ''CANCELLED''
      else if fneq (verified_discount req x) (xc_estimated x) then ''REVALUATED''
      else ''VERIFIED'')"

definition exchange_rating :: "VerifyExchangeProductDTO \<Rightarrow> string" where
  "exchange_rating req = ToUpper (TrimSpace (ve_rating req))"

definition new_exchange_verification ::
  "VerifyExchangeProductDTO \<Rightarrow> 'a exchange_row_scheme \<Rightarrow> string \<Rightarrow> int \<Rightarrow> ExchangeVerification" where
  "new_exchange_verification req x i now =
     exchange_verification_row.extend
       \<lparr>xv_id = i, xv_exchange = xc_id x, xv_by = TrimSpace (ve_by req), xv_rating = exchange_rating req,
        xv_approved = ve_approved req, xv_screen = ve_screen req, xv_body = ve_body req, xv_functional = ve_functional req,
        xv_serial = ve_serial req, xv_discount = verified_discount req x, xv_notes = TrimSpace (ve_notes req),
        xv_verified = now, xv_created = now, xv_updated = now\<rparr>
       (ExchangeVerification.fields (cleaned [] (ve_images req)))"

definition known_exchange :: "return_svc \<Rightarrow> string \<Rightarrow> Exchange ret_db" where
  "known_exchange S i =
     on_error (GetExchangeByID (sv_lib S) i) (\<lambda>er. if is_error ErrExchangeNotFound_repo er then ErrExchangeNotFound else er)"

definition VerifyExchangeProduct ::
  "return_svc \<Rightarrow> VerifyExchangeProductDTO option \<Rightarrow> (Exchange \<times> ExchangeVerification) ret_db" where
  "VerifyExchangeProduct S request =
     (case request of
        None \<Rightarrow> raise (FreshError ''request cannot be nil'')
      | Some req \<Rightarrow>
          seq (require (\<not> blank (ve_exchange req)) (FreshError ''exchange id is required''))
          (seq (require (\<not> blank (ve_by req)) ErrVerifiedByRequired)
          (seq (require (ExchangeConditionRating_IsValid (exchange_rating req)) ErrInvalidExchangeConditionRating)
          (bind (known_exchange S (TrimSpace (ve_exchange req))) (\<lambda>x.
           seq (require (xc_status x \<noteq> ''COMPLETED'' \<and> xc_status x \<noteq> ''CANCELLED'') ErrExchangeNotVerifiable)
           (seq (require (\<not> (ve_approved req \<and> (\<not> ve_functional req \<or> \<not> ve_serial req))) ErrExchangeFunctionalRequired)
           (bind time_now (\<lambda>now.
            bind new_uuid (\<lambda>i.
            bind (ret (new_exchange_verification req x i now)) (\<lambda>v.
            bind (BuildExchangeVerifiedOutboxEvent (exchange_verification_row.truncate v)) (\<lambda>ev.
            bind (CreateExchangeVerificationWithOutbox (sv_lib S) v (exchange_verdict req x) (verified_discount req x) [ev]) (\<lambda>vid.
            bind (ret (v\<lparr>xv_id := vid\<rparr>)) (\<lambda>stored.
            ret (x\<lparr>xc_status := exchange_verdict req x, xc_final := verified_discount req x,
                   xc_verification := Some stored, xc_updated := now\<rparr>, stored))))))))))))))"

section \<open>Valuation\<close>

record ExchangeUserAnswerDTO =
  ua_question :: string
  ua_option :: string

record CalculateExchangeValuationDTO =
  cv_product :: string
  cv_category :: string
  cv_brand :: string
  cv_model :: string
  cv_variant :: string
  cv_answers :: "ExchangeUserAnswerDTO option list"

record ExchangeDeductionDetailDTO =
  dd_question :: string
  dd_option :: string
  dd_amount :: f64
  dd_fatal :: bool
  dd_reason :: string

record ExchangeValuationResultDTO =
  vr_eligible :: bool
  vr_reason :: string
  vr_base :: f64
  vr_deductions :: f64
  vr_discount :: f64
  vr_details :: "ExchangeDeductionDetailDTO list"

definition default_category :: "string \<Rightarrow> string" where
  "default_category c = (if blank c then ''SMARTPHONE'' else ToUpper (TrimSpace c))"

definition eligible_product :: "return_svc \<Rightarrow> string \<Rightarrow> go_error + ProductPb" where
  "eligible_product S i =
     (case sv_product S of
        None \<Rightarrow> Inl ErrProductServiceUnavailable
      | Some get \<Rightarrow>
          (case get i of
             Inl er \<Rightarrow> Inl er
           | Inr None \<Rightarrow> Inl ErrProductNotFound_return
           | Inr (Some p) \<Rightarrow> if pp_exchangeable p then Inr p else Inl ErrProductNotExchangeEligible))"

definition GetExchangeQuestions ::
  "return_svc \<Rightarrow> string \<Rightarrow> string \<Rightarrow> (ExchangeDiagnosticQuestion list \<times> ExchangeDeviceCatalog list) ret_db" where
  "GetExchangeQuestions S category product =
     seq (if blank product then ret () else bind (call (eligible_product S (TrimSpace product))) (\<lambda>_. ret ()))
     (bind (ListExchangeDiagnosticQuestions (default_category category)) (\<lambda>qs.
      bind (ListExchangeDeviceCatalog (sv_lib S) (default_category category)) (\<lambda>ds. ret (qs, ds))))"

text \<open>The maps of the code: the option under the key of its question and its own, the last one counts.\<close>

definition option_keys :: "ExchangeDiagnosticQuestion list \<Rightarrow> (string \<times> ExchangeQuestionOption) list" where
  "option_keys qs = concat (map (\<lambda>q. map (\<lambda>o1. (eq_key q @ '':'' @ eo_key o1, o1)) (eq_options q)) qs)"

definition option_at :: "ExchangeDiagnosticQuestion list \<Rightarrow> string \<Rightarrow> ExchangeQuestionOption option" where
  "option_at qs k = map_of (rev (option_keys qs)) k"

definition detail_of :: "string \<Rightarrow> string \<Rightarrow> ExchangeQuestionOption \<Rightarrow> ExchangeDeductionDetailDTO" where
  "detail_of q k o1 = \<lparr>dd_question = q, dd_option = k, dd_amount = eo_deduction o1, dd_fatal = eo_fatal o1, dd_reason = eo_reason o1\<rparr>"

text \<open>The answers, each to a known question with a known option, and no question twice.\<close>

fun check_answers ::
  "ExchangeDiagnosticQuestion list \<Rightarrow> string list \<Rightarrow> ExchangeUserAnswerDTO option list
     \<Rightarrow> go_error + ExchangeDeductionDetailDTO list" where
  "check_answers qs seen [] = Inr []"
| "check_answers qs seen (None # as) = Inl ErrUnknownExchangeQuestion"
| "check_answers qs seen (Some a # as) =
     (let q = TrimSpace (ua_question a); k = TrimSpace (ua_option a) in
      if q = [] then Inl ErrUnknownExchangeQuestion
      else if q \<notin> set (map eq_key qs) then Inl (SuffixError ErrUnknownExchangeQuestion ('': '' @ q))
      else if q \<in> set seen then Inl (SuffixError ErrDuplicateExchangeAnswer ('': '' @ q))
      else case option_at qs (q @ '':'' @ k) of
        None \<Rightarrow> Inl (SuffixError ErrUnknownExchangeOption ('': '' @ q @ '':'' @ k))
      | Some o1 \<Rightarrow>
          (case check_answers qs (q # seen) as of
             Inl er \<Rightarrow> Inl er
           | Inr ds \<Rightarrow> Inr (detail_of q k o1 # ds)))"

definition fatal_reason :: "ExchangeDeductionDetailDTO \<Rightarrow> string" where
  "fatal_reason d =
     (if dd_reason d = [] then ''Item does not meet minimum condition requirements for exchange.'' else dd_reason d)"

definition valuation_of ::
  "ExchangeDiagnosticQuestion list \<Rightarrow> ExchangeUserAnswerDTO option list \<Rightarrow> f64 \<Rightarrow> f64
     \<Rightarrow> go_error + ExchangeValuationResultDTO" where
  "valuation_of qs answers base cap =
     (case check_answers qs [] answers of
        Inl er \<Rightarrow> Inl er
      | Inr ds \<Rightarrow>
          (case find (\<lambda>q. eq_key q \<notin> dd_question ` set ds) qs of
             Some q \<Rightarrow> Inl (SuffixError ErrMissingRequiredQuestion ('': missing answer for question '' @ eq_key q))
           | None \<Rightarrow>
               (case find dd_fatal ds of
                  Some d \<Rightarrow>
                    Inr \<lparr>vr_eligible = False, vr_reason = fatal_reason d, vr_base = base, vr_deductions = fzero,
                         vr_discount = fzero, vr_details = [d\<lparr>dd_reason := fatal_reason d\<rparr>]\<rparr>
                | None \<Rightarrow>
                    Inr \<lparr>vr_eligible = True, vr_reason = [], vr_base = base,
                         vr_deductions = total_of_amounts (map dd_amount ds),
                         vr_discount = capped_discount base (total_of_amounts (map dd_amount ds)) (Some cap),
                         vr_details = ds\<rparr>)))"

definition base_value :: "ExchangeDeviceCatalog option \<Rightarrow> f64" where
  "base_value d = (case d of Some x \<Rightarrow> if flt fzero (ed_base x) then ed_base x else fint 20000 | None \<Rightarrow> fint 20000)"

definition CalculateExchangeValuation ::
  "return_svc \<Rightarrow> CalculateExchangeValuationDTO option \<Rightarrow> ExchangeValuationResultDTO ret_db" where
  "CalculateExchangeValuation S request =
     (case request of
        None \<Rightarrow> raise (FreshError ''request cannot be nil'')
      | Some req \<Rightarrow>
          seq (require (\<not> blank (cv_product req)) ErrExchangeProductRequired)
          (seq (require (\<not> blank (cv_brand req) \<and> \<not> blank (cv_model req)) ErrExchangeBrandModelRequired)
          (bind (call (eligible_product S (TrimSpace (cv_product req)))) (\<lambda>p.
           bind (GetExchangeDeviceByModel (sv_lib S) (default_category (cv_category req)) (TrimSpace (cv_brand req))
                   (TrimSpace (cv_model req)) (TrimSpace (cv_variant req))) (\<lambda>dev.
           bind (ListExchangeDiagnosticQuestions (default_category (cv_category req))) (\<lambda>qs.
           call (valuation_of qs (cv_answers req) (base_value dev) (pp_max_discount p))))))))"

section \<open>Quotes\<close>

record LockExchangeQuoteDTO = CalculateExchangeValuationDTO +
  lq_user :: string
  lq_serial :: string

definition half_hour :: int where
  "half_hour = 30 * 60 * 1000000000"

definition new_quote :: "LockExchangeQuoteDTO \<Rightarrow> ExchangeValuationResultDTO \<Rightarrow> string \<Rightarrow> int \<Rightarrow> quote_row" where
  "new_quote req v i now =
     \<lparr>qu_id = i, qu_user = TrimSpace (lq_user req), qu_product = TrimSpace (cv_product req),
      qu_category = default_category (cv_category req), qu_brand = cv_brand req, qu_model = cv_model req,
      qu_variant = TrimSpace (cv_variant req), qu_serial = TrimSpace (lq_serial req), qu_base = vr_base v,
      qu_deductions = vr_deductions v, qu_discount = vr_discount v, qu_disqualified = \<not> vr_eligible v,
      qu_reason = vr_reason v, qu_status = ''LOCKED'', qu_expires = now + half_hour, qu_created = now, qu_updated = now\<rparr>"

definition LockExchangeQuote :: "return_svc \<Rightarrow> LockExchangeQuoteDTO option \<Rightarrow> ExchangeQuote ret_db" where
  "LockExchangeQuote S request =
     (case request of
        None \<Rightarrow> raise (FreshError ''request cannot be nil'')
      | Some req \<Rightarrow>
          seq (require (\<not> blank (lq_user req)) ErrUserIDRequired)
          (seq (require (\<not> blank (cv_product req)) ErrExchangeProductRequired)
          (bind (CalculateExchangeValuation S (Some (CalculateExchangeValuationDTO.truncate req))) (\<lambda>v.
           seq (require (vr_eligible v) (SuffixError ErrExchangeDisqualified ('': '' @
                  (if vr_reason v = [] then ''device is disqualified for exchange'' else vr_reason v))))
           (bind time_now (\<lambda>now.
            bind new_uuid (\<lambda>i.
            bind (numbered (\<lambda>j d. \<lparr>qa_id = j, qa_quote = i, qa_question = dd_question d, qa_option = dd_option d,
                    qa_deduction = dd_amount d, qa_fatal = dd_fatal d, qa_created = now\<rparr>) (vr_details v)) (\<lambda>answers.
            seq (CreateExchangeQuote (sv_lib S) (new_quote req v i now) answers)
              (ret (quote_row.extend (new_quote req v i now) (ExchangeQuote.fields answers)))))))))))"

definition quote_lookup_error :: "return_lib \<Rightarrow> go_error \<Rightarrow> go_error" where
  "quote_lookup_error L er =
     (if is_error ErrExchangeQuoteNotFound_repo er \<or> Contains (ToLower (error_text (rl_grpc L) er)) ''not found''
      then ErrExchangeQuoteNotFound else er)"

definition GetExchangeQuote :: "return_svc \<Rightarrow> string \<Rightarrow> ExchangeQuote ret_db" where
  "GetExchangeQuote S i =
     seq (require (\<not> blank i) (FreshError ''quote id is required''))
     (bind (on_error (GetExchangeQuoteByID (sv_lib S) (TrimSpace i)) (quote_lookup_error (sv_lib S))) (\<lambda>q.
      bind time_now (\<lambda>now.
      if IsExpired q now \<and> qu_status q = ''LOCKED'' then
        seq (ignore_error (UpdateExchangeQuoteStatus (sv_lib S) (qu_id q) ''EXPIRED'')) (ret (q\<lparr>qu_status := ''EXPIRED''\<rparr>))
      else ret q)))"

record ApplyExchangeToOrderDTO =
  ax_quote :: string
  ax_order :: string
  ax_item :: string
  ax_user :: string

definition applied_exchange :: "'a quote_row_scheme \<Rightarrow> string \<Rightarrow> string \<Rightarrow> int \<Rightarrow> exchange_row" where
  "applied_exchange q user i now =
     \<lparr>xc_id = i, xc_user = user, xc_brand = qu_brand q, xc_model = qu_model q, xc_variant = qu_variant q,
      xc_serial = qu_serial q, xc_base = qu_base q, xc_estimated = qu_discount q, xc_final = qu_discount q,
      xc_difference = fzero, xc_status = ''EXCHANGE_REQUESTED'', xc_quote = qu_id q, xc_product = qu_product q,
      xc_catalog = [], xc_created = now, xc_updated = now\<rparr>"

definition apply_error :: "go_error \<Rightarrow> go_error" where
  "apply_error er =
     (if is_error ErrQuoteNotApplicable er then ErrExchangeQuoteNotApplicable
      else if is_error ErrExchangeQuoteNotFound_repo er then ErrExchangeQuoteNotFound
      else er)"

definition use_quote :: "return_svc \<Rightarrow> string \<Rightarrow> ExchangeQuote \<Rightarrow> Exchange ret_db" where
  "use_quote S user q =
     bind time_now (\<lambda>now.
     bind new_uuid (\<lambda>i.
     bind (numbered (\<lambda>j a. \<lparr>xa_id = j, xa_exchange = i, xa_question = qa_question a, xa_value = qa_option a,
             xa_deduction = qa_deduction a, xa_created = now\<rparr>) (qu_answers q)) (\<lambda>answers.
     bind (ret (applied_exchange q user i now)) (\<lambda>x.
     bind (BuildExchangeOfferAppliedOutboxEvent x) (\<lambda>ev.
     seq (on_error (ApplyExchangeQuoteToOrderWithOutbox (sv_lib S) x (qu_id q) answers (Some ev)) apply_error)
       (ret (exchange_row.extend x (Exchange.fields answers None))))))))"

definition ApplyExchangeToOrder :: "return_svc \<Rightarrow> ApplyExchangeToOrderDTO option \<Rightarrow> Exchange ret_db" where
  "ApplyExchangeToOrder S request =
     (case request of
        None \<Rightarrow> raise (FreshError ''request cannot be nil'')
      | Some req \<Rightarrow>
          seq (require (\<not> blank (ax_quote req)) (FreshError ''quote_id is required''))
          (seq (require (\<not> blank (ax_order req)) ErrOrderIDRequired)
          (seq (require (\<not> blank (ax_user req)) ErrUserIDRequired)
          (bind (GetExchangeQuote S (TrimSpace (ax_quote req))) (\<lambda>q.
           bind time_now (\<lambda>now.
           seq (require (qu_user q = TrimSpace (ax_user req)) ErrUnauthorizedReturnRequest)
           (seq (require (\<not> IsExpired q now) ErrExchangeQuoteExpired)
           (seq (require (\<not> qu_disqualified q) ErrExchangeDisqualified)
           (seq (require (qu_status q = ''LOCKED'' \<or> qu_status q = ''QUOTED'') ErrExchangeQuoteNotApplicable)
             (use_quote S (TrimSpace (ax_user req)) q))))))))))"

record ResolveExchangeMismatchDTO =
  rm_exchange :: string
  rm_action :: string

definition resolution :: "string \<Rightarrow> 'a exchange_row_scheme \<Rightarrow> (status \<times> f64 \<times> f64) option" where
  "resolution action x =
     (if action = ''ACCEPT_REVISED'' then Some (''COMPLETED'', xc_final x, fsub (xc_estimated x) (xc_final x))
      else if action = ''DECLINE_AND_CANCEL'' then Some (''CANCELLED'', fzero, xc_estimated x)
      else None)"

definition ResolveExchangeMismatch :: "return_svc \<Rightarrow> ResolveExchangeMismatchDTO option \<Rightarrow> Exchange ret_db" where
  "ResolveExchangeMismatch S request =
     (case request of
        None \<Rightarrow> raise (FreshError ''request cannot be nil'')
      | Some req \<Rightarrow>
          seq (require (\<not> blank (rm_exchange req)) (FreshError ''exchange_id is required''))
          (bind (GetExchangeByID (sv_lib S) (TrimSpace (rm_exchange req))) (\<lambda>x.
           case resolution (ToUpper (TrimSpace (rm_action req))) x of
             None \<Rightarrow> raise (FreshError ''invalid action: must be ACCEPT_REVISED or DECLINE_AND_CANCEL'')
           | Some (st, final, difference) \<Rightarrow>
               bind (on_error (BuildExchangeCompletedOutboxEvent x final) (WrapError ''build exchange completed event: '')) (\<lambda>ev.
               bind (UpdateExchangeStatusAndDiscountWithOutbox (sv_lib S) (xc_id x) st final difference (Some ev)) (\<lambda>_.
               bind time_now (\<lambda>now.
               ret (x\<lparr>xc_status := st, xc_final := final, xc_difference := difference, xc_updated := now\<rparr>)))))))"

end
