(* ===== verification/Return_Server.thy ===== *)
theory Return_Server
  imports Exchange_Service
begin

text \<open>
  The gRPC handler of the return service (\<open>internal/handler/return_grpc_handler.go\<close>): requests to the
  service, the translation of its errors and the messages. A request is an option, \<^const>\<open>None\<close> for a nil
  pointer; the format of times is a parameter.
\<close>

section \<open>Errors\<close>

definition invalid_arguments :: "go_error list" where
  "invalid_arguments =
     [ErrReturnReasonRequired, ErrReturnIDRequired, ErrReviewerIDRequired, ErrOrderItemRequired, ErrOrderIDRequired,
      ErrUserIDRequired, ErrInvalidReturnStatus, ErrInvalidReturnType,
      ErrorString ''only one item per return request is supported'', ErrorString ''order item id and item ids mismatch'',
      ErrVerifiedByRequired, ErrRejectionReasonRequired, ErrInvalidVerificationCondition, ErrInvalidExchangeConditionRating,
      ErrExchangeBrandModelRequired, ErrExchangeProductIDRequired, ErrExchangeDeviceCatalogIDRequired,
      ErrExchangeProductRequired, ErrUnknownExchangeQuestion, ErrUnknownExchangeOption, ErrDuplicateExchangeAnswer,
      ErrMissingRequiredQuestion]"

definition failed_preconditions :: "go_error list" where
  "failed_preconditions =
     [ErrOrderNotDelivered, ErrReturnWindowExpired, ErrProductNotReturnable, ErrProductNotExchangeEligible,
      ErrProductCategoryNotExchangeable, ErrSmallProductExchangeRestricted, ErrExchangeDeviceInactive,
      ErrIncompatibleExchangeCategory, ErrReturnNotVerifiable, ErrInvalidStateTransition, ErrExchangeNotVerifiable,
      ErrExchangeFunctionalRequired, ErrExchangeQuoteExpired, ErrExchangeQuoteNotApplicable, ErrQuoteNotApplicable,
      ErrExchangeDisqualified]"

definition missing_things :: "go_error list" where
  "missing_things =
     [ErrOrderItemNotFound, ErrOrderNotFound_return, ErrReturnNotFound, ErrReturnNotFound_repo, ErrExchangeNotFound,
      ErrExchangeNotFound_repo, ErrExchangeQuoteNotFound, ErrExchangeQuoteNotFound_repo, ErrExchangeDeviceNotFound,
      ErrProductNotFound_return]"

definition is_one_of :: "go_error list \<Rightarrow> go_error \<Rightarrow> bool" where
  "is_one_of targets er \<longleftrightarrow> list_ex (errors_Is er) targets"

definition return_code :: "go_error \<Rightarrow> grpc_code" where
  "return_code er =
     (if is_one_of invalid_arguments er then GInvalidArgument
      else if is_one_of [ErrDuplicateReturnRequest] er then GAlreadyExists
      else if is_one_of failed_preconditions er then GFailedPrecondition
      else if is_one_of missing_things er then GNotFound
      else if is_one_of [ErrUnauthorizedReturnRequest, ErrCustomerCannotReviewOwnReturn] er then GPermissionDenied
      else if is_one_of [ErrProductServiceUnavailable] er then GUnavailable
      else GInternal)"

definition mapErrorToGRPC :: "grpc_lib \<Rightarrow> go_error \<Rightarrow> go_error" where
  "mapErrorToGRPC G er =
     (if from_error G er \<noteq> None then er else StatusError (return_code er) (error_text G er))"

section \<open>Messages\<close>

record return_server =
  rs_svc :: return_svc
  rs_rfc3339 :: "int \<Rightarrow> string"

definition shown_opt :: "return_server \<Rightarrow> int option \<Rightarrow> string" where
  "shown_opt R x = (case x of None \<Rightarrow> [] | Some n \<Rightarrow> rs_rfc3339 R n)"

record VerificationPb =
  vp_id :: string
  vp_return :: string
  vp_by :: string
  vp_condition :: string
  vp_approved :: bool
  vp_images :: "string list"
  vp_notes :: string
  vp_verified :: string
  vp_created :: string
  vp_updated :: string

definition mapVerificationToProto :: "return_server \<Rightarrow> ProductVerification \<Rightarrow> VerificationPb" where
  "mapVerificationToProto R v =
     \<lparr>vp_id = pv_id v, vp_return = pv_return v, vp_by = pv_by v, vp_condition = pv_condition v, vp_approved = pv_approved v,
      vp_images = pv_images v, vp_notes = pv_notes v, vp_verified = rs_rfc3339 R (pv_verified v),
      vp_created = rs_rfc3339 R (pv_created v), vp_updated = rs_rfc3339 R (pv_updated v)\<rparr>"

record ReturnOrderPb =
  ro_id :: string
  ro_order :: string
  ro_item :: string
  ro_user :: string
  ro_reason :: string
  ro_status :: string
  ro_type :: string
  ro_amount :: f64
  ro_requested :: string
  ro_created :: string
  ro_updated :: string
  ro_approved :: string
  ro_completed :: string
  ro_rejection :: string
  ro_verification :: "VerificationPb option"

definition mapModelToProtoReturn :: "return_server \<Rightarrow> Return \<Rightarrow> ReturnOrderPb" where
  "mapModelToProtoReturn R r =
     \<lparr>ro_id = rt_id r, ro_order = rt_order r, ro_item = rt_item r, ro_user = rt_user r, ro_reason = rt_reason r,
      ro_status = rt_status r, ro_type = rt_type r, ro_amount = rt_refund r, ro_requested = rs_rfc3339 R (rt_requested r),
      ro_created = rs_rfc3339 R (rt_created r), ro_updated = rs_rfc3339 R (rt_updated r),
      ro_approved = shown_opt R (rt_approved r), ro_completed = shown_opt R (rt_completed r),
      ro_rejection = rt_rejection r, ro_verification = map_option (mapVerificationToProto R) (rt_verification r)\<rparr>"

record ExchangeVerificationPb =
  vx_id :: string
  vx_exchange :: string
  vx_by :: string
  vx_rating :: string
  vx_flags :: "bool list"
  vx_discount :: f64
  vx_images :: "string list"
  vx_notes :: string
  vx_times :: "string list"

text \<open>The flags are approval, screen, body, function and serial number, the times verification, creation and update.\<close>

definition mapExchangeVerificationToProto :: "return_server \<Rightarrow> ExchangeVerification \<Rightarrow> ExchangeVerificationPb" where
  "mapExchangeVerificationToProto R v =
     \<lparr>vx_id = xv_id v, vx_exchange = xv_exchange v, vx_by = xv_by v, vx_rating = xv_rating v,
      vx_flags = [xv_approved v, xv_screen v, xv_body v, xv_functional v, xv_serial v], vx_discount = xv_discount v,
      vx_images = xv_images v, vx_notes = xv_notes v,
      vx_times = map (rs_rfc3339 R) [xv_verified v, xv_created v, xv_updated v]\<rparr>"

record ExchangePb =
  xp_row :: exchange_row
  xp_answers :: "(ExchangeQuestionAnswer \<times> string) list"
  xp_verification :: "ExchangeVerificationPb option"
  xp_created :: string
  xp_updated :: string

text \<open>The message has the fields of the row, with its times as texts.\<close>

definition mapExchangeToProto :: "return_server \<Rightarrow> Exchange \<Rightarrow> ExchangePb" where
  "mapExchangeToProto R x =
     \<lparr>xp_row = exchange_row.truncate x, xp_answers = map (\<lambda>a. (a, rs_rfc3339 R (xa_created a))) (xc_answers x),
      xp_verification = map_option (mapExchangeVerificationToProto R) (xc_verification x),
      xp_created = rs_rfc3339 R (xc_created x), xp_updated = rs_rfc3339 R (xc_updated x)\<rparr>"

record ExchangeQuotePb =
  qp_row :: quote_row
  qp_answers :: "ExchangeQuoteAnswer list"
  qp_expires :: string
  qp_created :: string
  qp_updated :: string

definition mapExchangeQuoteToProto :: "return_server \<Rightarrow> ExchangeQuote \<Rightarrow> ExchangeQuotePb" where
  "mapExchangeQuoteToProto R q =
     \<lparr>qp_row = quote_row.truncate q, qp_answers = qu_answers q, qp_expires = rs_rfc3339 R (qu_expires q),
      qp_created = rs_rfc3339 R (qu_created q), qp_updated = rs_rfc3339 R (qu_updated q)\<rparr>"

section \<open>Methods\<close>

definition nil_request :: go_error where
  "nil_request = StatusError GInvalidArgument ''request cannot be nil''"

definition answer_with :: "return_server \<Rightarrow> 'a ret_db \<Rightarrow> ('a \<Rightarrow> 'b) \<Rightarrow> 'b ret_db" where
  "answer_with R m f = bind (on_error m (mapErrorToGRPC (rl_grpc (sv_lib (rs_svc R))))) (\<lambda>x. ret (f x))"

definition with_request :: "'q option \<Rightarrow> ('q \<Rightarrow> 'b ret_db) \<Rightarrow> 'b ret_db" where
  "with_request req f = (case req of None \<Rightarrow> raise nil_request | Some q \<Rightarrow> f q)"

definition bad_argument :: "string \<Rightarrow> go_error" where
  "bad_argument msg = StatusError GInvalidArgument msg"

definition RequestReturn_rpc :: "return_server \<Rightarrow> RequestReturnDTO option \<Rightarrow> ReturnOrderPb ret_db" where
  "RequestReturn_rpc R req =
     with_request req (\<lambda>q.
       seq (require (blank (rd_order_item q) \<or> blank (rd_item q) \<or> TrimSpace (rd_order_item q) = TrimSpace (rd_item q))
             (bad_argument ''order_item_id and item_id mismatch''))
       (seq (require (return_item_of q \<noteq> []) (bad_argument ''order_item_id is required''))
         (answer_with R (RequestReturn (rs_svc R) (Some (q\<lparr>rd_order_item := return_item_of q, rd_item := return_item_of q\<rparr>)))
           (mapModelToProtoReturn R))))"

definition GetReturn_rpc :: "return_server \<Rightarrow> string option \<Rightarrow> ReturnOrderPb ret_db" where
  "GetReturn_rpc R req = with_request req (\<lambda>i. answer_with R (GetReturn (rs_svc R) i) (mapModelToProtoReturn R))"

record UpdateReturnPb =
  up_id :: string
  up_status :: string
  up_reason :: string
  up_reviewer :: string

definition UpdateReturnStatus_rpc :: "return_server \<Rightarrow> call_ctx \<Rightarrow> UpdateReturnPb option \<Rightarrow> ReturnOrderPb ret_db" where
  "UpdateReturnStatus_rpc R ctx req =
     with_request req (\<lambda>q.
       answer_with R
         (UpdateReturnStatus (rs_svc R) (if up_reviewer q \<noteq> [] then WithUser (up_reviewer q) ctx else ctx) (up_id q)
           (up_status q) [up_reason q])
         (mapModelToProtoReturn R))"

definition ApproveReturn_rpc :: "return_server \<Rightarrow> call_ctx \<Rightarrow> UpdateReturnPb option \<Rightarrow> ReturnOrderPb ret_db" where
  "ApproveReturn_rpc R ctx req =
     with_request req (\<lambda>q.
       seq (require (\<not> blank (up_id q)) (bad_argument ''return id is required''))
       (bind (ret (named_reviewer ctx (up_reviewer q))) (\<lambda>u.
        seq (require (u \<noteq> []) (bad_argument ''reviewer id is required''))
          (answer_with R (ApproveReturn (rs_svc R) (WithUser u ctx) (TrimSpace (up_id q)) u) (mapModelToProtoReturn R)))))"

definition RejectReturn_rpc :: "return_server \<Rightarrow> call_ctx \<Rightarrow> UpdateReturnPb option \<Rightarrow> ReturnOrderPb ret_db" where
  "RejectReturn_rpc R ctx req =
     with_request req (\<lambda>q.
       seq (require (\<not> blank (up_id q)) (bad_argument ''return id is required''))
       (seq (require (\<not> blank (up_reason q)) (bad_argument ''rejection reason is required''))
       (bind (ret (named_reviewer ctx (up_reviewer q))) (\<lambda>u.
        seq (require (u \<noteq> []) (bad_argument ''reviewer id is required''))
          (answer_with R (RejectReturn (rs_svc R) (WithUser u ctx) (TrimSpace (up_id q)) (TrimSpace (up_reason q)) u)
            (mapModelToProtoReturn R))))))"

text \<open>The getters of a nil request answer with zero values.\<close>

definition empty_verify :: VerifyProductDTO where
  "empty_verify = \<lparr>vd_return = [], vd_by = [], vd_condition = [], vd_approved = False, vd_images = [], vd_notes = []\<rparr>"

definition VerifyProduct_rpc ::
  "return_server \<Rightarrow> VerifyProductDTO option \<Rightarrow> (ReturnOrderPb \<times> VerificationPb) ret_db" where
  "VerifyProduct_rpc R req =
     answer_with R (VerifyProduct (rs_svc R) (Some (case req of None \<Rightarrow> empty_verify | Some q \<Rightarrow> q)))
       (\<lambda>(r, v). (mapModelToProtoReturn R r, mapVerificationToProto R v))"

record ListReturnsPb =
  lr_limit :: int
  lr_offset :: int
  lr_status :: string
  lr_user :: string
  lr_type :: string

definition ListReturns_rpc :: "return_server \<Rightarrow> ListReturnsPb option \<Rightarrow> (ReturnOrderPb list \<times> int) ret_db" where
  "ListReturns_rpc R req =
     bind (ret (case req of None \<Rightarrow> \<lparr>lr_limit = 20, lr_offset = 0, lr_status = [], lr_user = [], lr_type = []\<rparr> | Some q \<Rightarrow> q)) (\<lambda>q.
     answer_with R (ListReturns (rs_svc R) (lr_limit q) (lr_offset q) (lr_status q) (lr_user q) (lr_type q))
       (\<lambda>(rs, n). (map (mapModelToProtoReturn R) rs, to_int32 (int n))))"

definition GetReturnsByOrder :: "return_server \<Rightarrow> string option \<Rightarrow> ReturnOrderPb list ret_db" where
  "GetReturnsByOrder R req =
     with_request req (\<lambda>i. answer_with R (ListReturnsByOrderID (rs_svc R) i) (map (mapModelToProtoReturn R)))"

definition CreateExchange_rpc :: "return_server \<Rightarrow> CreateExchangeDTO option \<Rightarrow> ExchangePb ret_db" where
  "CreateExchange_rpc R req =
     with_request req (\<lambda>q. answer_with R (CreateExchange (rs_svc R) (Some q)) (mapExchangeToProto R))"

definition GetExchange_rpc :: "return_server \<Rightarrow> string option \<Rightarrow> ExchangePb ret_db" where
  "GetExchange_rpc R req =
     with_request req (\<lambda>i.
       if i = [] then raise (bad_argument ''exchange id is required'')
       else answer_with R (GetExchange (rs_svc R) i) (mapExchangeToProto R))"

definition VerifyExchangeProduct_rpc ::
  "return_server \<Rightarrow> VerifyExchangeProductDTO option \<Rightarrow> (ExchangePb \<times> ExchangeVerificationPb) ret_db" where
  "VerifyExchangeProduct_rpc R req =
     with_request req (\<lambda>q. answer_with R (VerifyExchangeProduct (rs_svc R) (Some q))
       (\<lambda>(x, v). (mapExchangeToProto R x, mapExchangeVerificationToProto R v)))"

definition GetExchangeQuestions_rpc ::
  "return_server \<Rightarrow> string \<Rightarrow> string option \<Rightarrow> (ExchangeDiagnosticQuestion list \<times> ExchangeDeviceCatalog list) ret_db" where
  "GetExchangeQuestions_rpc R category product =
     answer_with R (GetExchangeQuestions (rs_svc R) category (case product of None \<Rightarrow> [] | Some p \<Rightarrow> p)) (\<lambda>x. x)"

text \<open>Answers that are nil are left out.\<close>

definition present_answers :: "'a option list \<Rightarrow> 'a option list" where
  "present_answers as = filter (\<lambda>a. a \<noteq> None) as"

definition CalculateExchangeValuation_rpc ::
  "return_server \<Rightarrow> CalculateExchangeValuationDTO option \<Rightarrow> ExchangeValuationResultDTO ret_db" where
  "CalculateExchangeValuation_rpc R req =
     with_request req (\<lambda>q.
       answer_with R (CalculateExchangeValuation (rs_svc R) (Some (q\<lparr>cv_answers := present_answers (cv_answers q)\<rparr>))) (\<lambda>x. x))"

definition LockExchangeQuote_rpc :: "return_server \<Rightarrow> LockExchangeQuoteDTO option \<Rightarrow> ExchangeQuotePb ret_db" where
  "LockExchangeQuote_rpc R req =
     with_request req (\<lambda>q.
       answer_with R (LockExchangeQuote (rs_svc R) (Some (q\<lparr>cv_answers := present_answers (cv_answers q)\<rparr>)))
         (mapExchangeQuoteToProto R))"

definition GetExchangeQuote_rpc :: "return_server \<Rightarrow> string option \<Rightarrow> ExchangeQuotePb ret_db" where
  "GetExchangeQuote_rpc R req =
     with_request req (\<lambda>i. answer_with R (GetExchangeQuote (rs_svc R) i) (mapExchangeQuoteToProto R))"

definition ApplyExchangeToOrder_rpc :: "return_server \<Rightarrow> ApplyExchangeToOrderDTO option \<Rightarrow> ExchangePb ret_db" where
  "ApplyExchangeToOrder_rpc R req =
     with_request req (\<lambda>q. answer_with R (ApplyExchangeToOrder (rs_svc R) (Some q)) (mapExchangeToProto R))"

definition ResolveExchangeMismatch_rpc :: "return_server \<Rightarrow> ResolveExchangeMismatchDTO option \<Rightarrow> ExchangePb ret_db" where
  "ResolveExchangeMismatch_rpc R req =
     with_request req (\<lambda>q. answer_with R (ResolveExchangeMismatch (rs_svc R) (Some q)) (mapExchangeToProto R))"

section \<open>Requests and reachable states\<close>

datatype return_request =
    RqRequest "RequestReturnDTO option"
  | RqStatus call_ctx "UpdateReturnPb option"
  | RqApprove call_ctx "UpdateReturnPb option"
  | RqReject call_ctx "UpdateReturnPb option"
  | RqVerify "VerifyProductDTO option"
  | RqOffer "CreateExchangeDTO option"
  | RqDevice "VerifyExchangeProductDTO option"
  | RqLock "LockExchangeQuoteDTO option"
  | RqQuote "string option"
  | RqApply "ApplyExchangeToOrderDTO option"
  | RqResolve "ResolveExchangeMismatchDTO option"
  | RqRefund string

text \<open>\<open>RqRefund\<close> is \<open>ProcessRefund\<close>, which the service offers beside the methods.\<close>

fun serve_return :: "return_server \<Rightarrow> return_request \<Rightarrow> unit ret_db" where
  "serve_return R (RqRequest q) = void (RequestReturn_rpc R q)"
| "serve_return R (RqStatus ctx q) = void (UpdateReturnStatus_rpc R ctx q)"
| "serve_return R (RqApprove ctx q) = void (ApproveReturn_rpc R ctx q)"
| "serve_return R (RqReject ctx q) = void (RejectReturn_rpc R ctx q)"
| "serve_return R (RqVerify q) = void (VerifyProduct_rpc R q)"
| "serve_return R (RqOffer q) = void (CreateExchange_rpc R q)"
| "serve_return R (RqDevice q) = void (VerifyExchangeProduct_rpc R q)"
| "serve_return R (RqLock q) = void (LockExchangeQuote_rpc R q)"
| "serve_return R (RqQuote q) = void (GetExchangeQuote_rpc R q)"
| "serve_return R (RqApply q) = void (ApplyExchangeToOrder_rpc R q)"
| "serve_return R (RqResolve q) = void (ResolveExchangeMismatch_rpc R q)"
| "serve_return R (RqRefund i) = void (ProcessRefund (rs_svc R) i)"

text \<open>
  The tables after the migrations, with any catalog and questions, and what requests make of
  them. The other services may answer every request differently; whether the payment service is
  configured (\<open>pay\<close>) does not change.
\<close>

definition no_returns :: "ExchangeDeviceCatalog list \<Rightarrow> question_row list \<Rightarrow> ExchangeQuestionOption list \<Rightarrow> return_tables" where
  "no_returns ds qs os =
     \<lparr>returns = [], verifications = [], verification_images = [], exchanges = [], exchange_answers = [],
      exchange_verifications = [], exchange_images = [], quotes = [], quote_answers = [], device_catalog = ds,
      questions = qs, question_options = os, return_outbox = \<lparr>ob_rows = [], ob_wide = False\<rparr>, refund_log = []\<rparr>"

inductive return_reach :: "return_lib \<Rightarrow> bool \<Rightarrow> return_tables \<Rightarrow> bool" for L pay where
  start: "return_reach L pay (no_returns ds qs os)"
| request: "return_reach L pay (tabs w) \<Longrightarrow> sv_lib (rs_svc R) = L \<Longrightarrow> (sv_payment (rs_svc R) \<noteq> None) = pay \<Longrightarrow>
    serve_return R rq e w = (r, w') \<Longrightarrow> return_reach L pay (tabs w')"

end
