(* ===== verification/Return_Trace.thy ===== *)
theory Return_Trace
  imports Return_Server
begin

text \<open>
  Correctness of the returns: their invariant and that every operation keeps it, whatever fails.
  A step of the service reads a return, asks other services and then writes in one or more
  transactions; what the first ones committed stays when a later one fails. The reasoning is
  therefore about both outcomes of every step.
\<close>

section \<open>Frames\<close>

text \<open>The tables the invariants are about, and the steps that leave them alone.\<close>

definition core :: "return_tables \<Rightarrow> return_row list \<times> verification_row list \<times> refund_call list \<times> exchange_row list \<times> quote_row list" where
  "core t = (returns t, verifications t, refund_log t, exchanges t, quotes t)"

lemma put_event_core: "keeps (\<lambda>t. core t = c) (put_event msg ev)"
  unfolding keeps_def
proof
  fix e w x w' assume c: "core (tabs w) = c" and "put_event msg ev e w = (Inr x, w')"
  then show "core (tabs w') = c" by (auto simp: put_event_def core_def run_ok)
qed

lemma put_events_core: "keeps (\<lambda>t. core t = c) (put_events evs)"
  unfolding put_events_def by (intro keeps_for_each put_event_core)

lemma keeps_ignore: "always P m \<Longrightarrow> keeps P (ignore_error m)"
  unfolding keeps_def by (auto intro!: ensuresI dest: alwaysD [OF always_ignore])

lemma insert_image_core: "insert_image m t = Inr (x, t') \<Longrightarrow> core t' = core t"
  by (auto simp: insert_image_def core_def split: if_splits)

lemma clear_images_core: "always (\<lambda>t. core t = c) (sql (clear_images i))"
  by (intro always_atomic atomic_sql keeps_sql) (auto simp: clear_images_def core_def)

lemma outbox_event_read_only: "read_only (outbox_event_for a agg ty topic ev)"
  unfolding outbox_event_for_def NewEventEnvelopeWithAggregate_def
  by (auto intro!: read_only_intros split: option.split)

lemmas build_defs = BuildReturnRequestedOutboxEvent_def BuildReturnApprovedOutboxEvent_def
  BuildReturnRejectedOutboxEvent_def BuildReturnVerifiedOutboxEvent_def BuildReturnRefundEligibleOutboxEvent_def
  BuildReturnStatusUpdatedOutboxEvent_def BuildReturnCompletedOutboxEvent_def BuildRefundInitiatedOutboxEvent_def

lemma build_read_only:
  "read_only (BuildReturnRequestedOutboxEvent r p)" "read_only (BuildReturnApprovedOutboxEvent r u)"
  "read_only (BuildReturnRejectedOutboxEvent r u s)" "read_only (BuildReturnVerifiedOutboxEvent r v)"
  "read_only (BuildReturnRefundEligibleOutboxEvent r s)" "read_only (BuildReturnStatusUpdatedOutboxEvent r a b)"
  "read_only (BuildReturnCompletedOutboxEvent r)" "read_only (BuildRefundInitiatedOutboxEvent r p x c)"
  unfolding build_defs by (intro outbox_event_read_only read_only_intros)+

lemma or_none_read_only: "read_only m \<Longrightarrow> read_only (or_none m)" "read_only n \<Longrightarrow> read_only (or_nil n)"
  unfolding or_none_def or_nil_def by (intro read_only_bind read_only_attempt read_only_ret; assumption)+

lemma review_events_read_only: "read_only (review_events r st u s)"
  unfolding review_events_def only_if_def if_built_def
  by (intro read_only_bind read_only_if read_only_ret or_none_read_only build_read_only)

lemma with_ids_select: "with_ids L is (select q) t = Inr (x, t') \<Longrightarrow> t' = t"
  by (auto simp: with_ids_def select_def split: if_splits)

lemma GetVerificationByReturnID_read_only: "read_only (GetVerificationByReturnID L i)"
  unfolding GetVerificationByReturnID_def
  by (auto intro!: read_only_if read_only_bind read_only_pool_query or_none_read_only read_only_ret read_only_pool_select
      dest: with_ids_select split: option.split)

lemma with_verification_read_only: "read_only (with_verification L r)"
  unfolding with_verification_def
  by (intro read_only_bind or_none_read_only GetVerificationByReturnID_read_only read_only_ret)

lemma scan_row_read_only: "read_only m \<Longrightarrow> read_only (scan_row m a b)"
  unfolding scan_row_def by (auto intro!: read_only_bind read_only_on_error read_only_ret read_only_raise split: option.split)

lemma GetReturn_read_only: "read_only (GetReturnByID L i)" "read_only (GetReturnByOrderItemID L i)"
  unfolding GetReturnByID_def GetReturnByOrderItemID_def scanReturn_def
  by (auto intro!: read_only_seq read_only_require read_only_bind scan_row_read_only read_only_pool_query
      with_verification_read_only dest: with_ids_select)

text \<open>The row behind a return that was read.\<close>

lemma with_verification_row:
  "with_verification L r e w = (Inr x, w') \<Longrightarrow> return_row.truncate x = return_row.truncate r \<and> rt_id x = rt_id r \<and>
     rt_status x = rt_status r \<and> rt_type x = rt_type r \<and> rt_order x = rt_order r \<and> rt_refund x = rt_refund r \<and> rt_user x = rt_user r"
  by (auto simp: with_verification_def run_ok return_row.defs)

text \<open>A return agrees with a row in everything its steps depend on.\<close>

definition shows_row :: "Return \<Rightarrow> return_row \<Rightarrow> bool" where
  "shows_row x r \<longleftrightarrow> rt_id x = rt_id r \<and> rt_status x = rt_status r \<and> rt_type x = rt_type r \<and> rt_order x = rt_order r \<and>
     rt_refund x = rt_refund r \<and> rt_user x = rt_user r"

lemma GetReturnByID_row:
  "GetReturnByID L i e w = (Inr x, w') \<Longrightarrow> \<exists>r \<in> set (returns (tabs w)). rt_id r = i \<and> shows_row x r \<and> tabs w' = tabs w"
proof -
  assume run: "GetReturnByID L i e w = (Inr x, w')"
  then have "tabs w' = tabs w" using GetReturn_read_only(1) by (blast dest: read_onlyD)
  with run show ?thesis
    by (auto simp: GetReturnByID_def scanReturn_def scan_row_def run_ok with_ids_def shows_row_def split: option.splits if_splits
        dest!: find_Some_in [OF sym] with_verification_row)
qed

section \<open>The invariant\<close>

text \<open>The moves of a return: those of the table, and the one of a refused verification outside of it.\<close>

definition return_step :: "status \<Rightarrow> status \<Rightarrow> bool" where
  "return_step a b \<longleftrightarrow> a = b \<or> allowed_in AllowedStatusTransitions a b \<or> (a = ''PICKED_UP'' \<and> b = ''REJECTED'')"

definition refunded :: "refund_call list \<Rightarrow> 'a return_row_scheme \<Rightarrow> bool" where
  "refunded lg r \<longleftrightarrow> (\<exists>q s. (q, Inr (Some s)) \<in> set lg \<and> cf_key q = refund_key r \<and> refund_succeeded s \<and>
     (fle (rt_refund r) fzero \<or> cf_amount q = rt_refund r))"

definition row_ok :: "bool \<Rightarrow> refund_call list \<Rightarrow> return_row \<Rightarrow> bool" where
  "row_ok pay lg r \<longleftrightarrow> rt_status r \<in> set return_statuses \<and> rt_type r \<in> set return_types \<and>
     (rt_status r = ''COMPLETED'' \<longrightarrow> rt_completed r \<noteq> None \<and> (pay \<and> rt_type r = ''RETURN'' \<longrightarrow> refunded lg r))"

text \<open>A refund that was ordered belongs to a return of that type and has its key and amount.\<close>

definition ordered_for :: "refund_call \<Rightarrow> return_row \<Rightarrow> bool" where
  "ordered_for c r \<longleftrightarrow> rt_type r = ''RETURN'' \<and> cf_key (fst c) = refund_key r \<and>
     rt_status r \<in> {''REFUND_INITIATED'', ''COMPLETED'', ''REJECTED''} \<and>
     (fle (rt_refund r) fzero \<or> cf_amount (fst c) = rt_refund r)"

definition returns_inv :: "bool \<Rightarrow> return_tables \<Rightarrow> bool" where
  "returns_inv pay t \<longleftrightarrow> keyed rt_id (returns t) \<and> keyed rt_item (returns t) \<and>
     (\<forall>r \<in> set (returns t). row_ok pay (refund_log t) r) \<and>
     (\<forall>c \<in> set (refund_log t). \<exists>r \<in> set (returns t). ordered_for c r) \<and>
     keyed pv_return (verifications t) \<and> (\<forall>v \<in> set (verifications t). pv_return v \<in> rt_id ` set (returns t))"

text \<open>What never changes of a return, and what becomes of the returns of earlier tables.\<close>

definition same_return :: "return_row \<Rightarrow> return_row \<Rightarrow> bool" where
  "same_return r r' \<longleftrightarrow> rt_id r' = rt_id r \<and> rt_order r' = rt_order r \<and> rt_item r' = rt_item r \<and> rt_user r' = rt_user r \<and>
     rt_reason r' = rt_reason r \<and> rt_type r' = rt_type r \<and> rt_refund r' = rt_refund r \<and> rt_requested r' = rt_requested r"

definition descends :: "return_tables \<Rightarrow> return_tables \<Rightarrow> bool" where
  "descends t0 t \<longleftrightarrow> (\<forall>r \<in> set (returns t0). \<exists>r' \<in> set (returns t). same_return r r' \<and>
     return_step\<^sup>*\<^sup>* (rt_status r) (rt_status r'))"

definition xpart :: "return_tables \<Rightarrow> exchange_row list \<times> quote_row list" where
  "xpart t = (exchanges t, quotes t)"

abbreviation returning where
  "returning pay s h t \<equiv> returns_inv pay t \<and> descends s t \<and> xpart t = h"

lemma descends_refl: "descends t t"
  unfolding descends_def by (auto simp: same_return_def)

lemma descends_trans: "descends t0 t1 \<Longrightarrow> descends t1 t2 \<Longrightarrow> descends t0 t2"
  unfolding descends_def same_return_def by (metis (no_types, lifting) rtranclp_trans)

lemma returning_cong: "core t' = core t \<Longrightarrow> returning pay s h t' = returning pay s h t"
  by (simp add: core_def returns_inv_def descends_def xpart_def)

lemma refunded_mono: "refunded lg r \<Longrightarrow> set lg \<subseteq> set lg' \<Longrightarrow> refunded lg' r"
  unfolding refunded_def by blast

lemma refunded_same: "same_return r r' \<Longrightarrow> refunded lg r' = refunded lg r"
  by (simp add: refunded_def refund_key_def same_return_def)

lemma return_step_status: "return_step a b \<Longrightarrow> a \<in> set return_statuses \<Longrightarrow> b \<in> set return_statuses"
proof -
  have "''REJECTED'' \<in> set return_statuses" by (simp add: return_statuses_def)
  then show "return_step a b \<Longrightarrow> a \<in> set return_statuses \<Longrightarrow> b \<in> set return_statuses"
    unfolding return_step_def using return_life.step_known by blast
qed

text \<open>A refund was ordered: only completion or rejection follows.\<close>

lemma refund_closed:
  "return_step a b \<Longrightarrow> a \<in> {''REFUND_INITIATED'', ''COMPLETED'', ''REJECTED''} \<Longrightarrow> b \<in> {''REFUND_INITIATED'', ''COMPLETED'', ''REJECTED''}"
  by (auto simp: return_step_def allowed_in_def AllowedStatusTransitions_def)

section \<open>Changes of one row\<close>

lemma row_change:
  assumes inv: "returns_inv pay t" and r: "r \<in> set (returns t)"
    and f: "same_return r (f r)" "return_step (rt_status r) (rt_status (f r))" "row_ok pay (refund_log t) (f r)"
    and t': "returns t' = upd_where (\<lambda>q. rt_id q = rt_id r) f (returns t)" "refund_log t' = refund_log t"
      "keyed pv_return (verifications t')" "\<forall>v \<in> set (verifications t'). pv_return v \<in> rt_id ` set (returns t)"
  shows "returns_inv pay t'" "descends t t'"
proof -
  have one: "rt_id q = rt_id r \<Longrightarrow> q = r" if "q \<in> set (returns t)" for q
    using inv r that keyed_unique [of rt_id "returns t" q r] by (simp add: returns_inv_def)
  then have eq: "returns t' = map (\<lambda>q. if q = r then f r else q) (returns t)"
    unfolding t' upd_where_def by auto
  then have row: "q' \<in> set (returns t') \<longleftrightarrow> (\<exists>q \<in> set (returns t). q' = (if q = r then f r else q))" for q' by auto
  have same: "map k (returns t') = map k (returns t)" if "k (f r) = k r" for k :: "return_row \<Rightarrow> string"
    using that by (auto simp: eq)
  have ids: "map rt_id (returns t') = map rt_id (returns t)" "map rt_item (returns t') = map rt_item (returns t)"
    using f(1) by (auto intro!: same simp: same_return_def)
  have calls: "\<exists>q \<in> set (returns t'). ordered_for c q" if c: "c \<in> set (refund_log t')" for c
  proof -
    from c inv t'(2) obtain q where q: "q \<in> set (returns t)" "ordered_for c q" by (auto simp: returns_inv_def)
    show ?thesis
    proof (cases "q = r")
      case True
      with q f refund_closed [OF f(2)] have "ordered_for c (f r)"
        by (auto simp: ordered_for_def same_return_def refund_key_def)
      moreover have "f r \<in> set (returns t')" using r by (auto simp: eq)
      ultimately show ?thesis by blast
    next
      case False
      with q(1) have "q \<in> set (returns t')" by (auto simp: eq)
      with q(2) show ?thesis by blast
    qed
  qed
  have rows: "row_ok pay (refund_log t') q'" if "q' \<in> set (returns t')" for q'
    using that inv f(3) unfolding row t'(2) returns_inv_def by (auto split: if_splits)
  have "rt_id ` set (returns t') = rt_id ` set (returns t)" using ids(1) by (metis list.set_map)
  then show "returns_inv pay t'" using inv ids calls rows t'(3,4) by (simp add: returns_inv_def keyed_def)
  show "descends t t'" unfolding descends_def
  proof
    fix q assume q: "q \<in> set (returns t)"
    show "\<exists>q' \<in> set (returns t'). same_return q q' \<and> return_step\<^sup>*\<^sup>* (rt_status q) (rt_status q')"
    proof (cases "q = r")
      case True
      with q f row show ?thesis by (intro bexI [of _ "f r"]) auto
    next
      case False
      with q row show ?thesis by (intro bexI [of _ q]) (auto simp: same_return_def)
    qed
  qed
qed

lemma row_added:
  assumes "returns_inv pay t" and "row_ok pay (refund_log t) r" "rt_id r \<notin> rt_id ` set (returns t)" "rt_item r \<notin> rt_item ` set (returns t)"
    and t': "returns t' = returns t @ [r]" "refund_log t' = refund_log t" "verifications t' = verifications t"
  shows "returns_inv pay t'" "descends t t'"
  using assms by (auto simp: returns_inv_def keyed_snoc descends_def same_return_def)

lemma call_logged:
  assumes "returns_inv pay t" and "r \<in> set (returns t)" "ordered_for c r"
    and t': "returns t' = returns t" "refund_log t' = refund_log t @ [c]" "verifications t' = verifications t"
  shows "returns_inv pay t'" "descends t t'"
proof -
  have "row_ok pay (refund_log t') q" if "row_ok pay (refund_log t) q" for q
    using that refunded_mono [of "refund_log t" q "refund_log t'"] t' by (auto simp: row_ok_def)
  then show "returns_inv pay t'" using assms by (auto simp: returns_inv_def)
  show "descends t t'" using t' by (auto simp: descends_def same_return_def)
qed

section \<open>Transactions\<close>

lemma outcomes_WithTransaction:
  assumes "\<And>e w x w'. P (tabs w) \<Longrightarrow> fn e w = (Inr x, w') \<Longrightarrow> Q x (tabs w')"
  shows "outcomes P (WithTransaction fn) Q P"
proof (rule outcomes_atomic [OF WithTransaction_atomic])
  fix e x and w w' :: "'a world"
  assume P: "P (tabs w)" and "WithTransaction fn e w = (Inr x, w')"
  then obtain w1 where "fn e (w\<lparr>nstmt := Suc (nstmt w), aborted := False\<rparr>) = (Inr x, w1)" "tabs w' = tabs w1"
    by (blast dest: WithTransaction_ok)
  with assms [OF _ this(1)] P show "Q x (tabs w')" by simp
qed

lemma update_return_tx_run:
  assumes "update_return_tx L i st reason evs e w = (Inr row, w')"
  shows "\<exists>r \<in> set (returns (tabs w)). rt_id r = i \<and> row = moved_return st reason (clock e) r \<and>
    core (tabs w') = core ((tabs w)\<lparr>returns := upd_where (\<lambda>q. rt_id q = i) (moved_return st reason (clock e)) (returns (tabs w))\<rparr>)"
proof -
  from assms obtain w1 where upd: "scanReturn (sql (with_ids L [i] (update_return i (moved_return st reason (clock e))))) e w = (Inr row, w1)"
    and ev: "put_events evs e w1 = (Inr (), w')"
    by (auto simp: update_return_tx_def run_ok)
  obtain o1 where sel: "sql (with_ids L [i] (update_return i (moved_return st reason (clock e)))) e w = (Inr o1, w1)" "o1 = Some row"
    using upd by (auto simp: scanReturn_def scan_row_def bind_ok on_error_ok raise_ok ret_ok split: option.splits)
  then have "update_return i (moved_return st reason (clock e)) (tabs w) = Inr (Some row, tabs w1)"
    by (auto simp: sql_ok with_ids_def split: if_splits)
  then obtain r where r: "find (\<lambda>r. rt_id r = i) (returns (tabs w)) = Some r" "row = moved_return st reason (clock e) r"
    and t: "tabs w1 = (tabs w)\<lparr>returns := upd_where (\<lambda>q. rt_id q = i) (moved_return st reason (clock e)) (returns (tabs w))\<rparr>"
    by (auto simp: update_return_def split: option.splits)
  have "core (tabs w') = core (tabs w1)" using keepsD [OF put_events_core _ ev] by blast
  with find_Some_in [OF r(1)] r(2) t show ?thesis by auto
qed

text \<open>What an update may rely on, and what it leaves behind.\<close>

definition may_move :: "bool \<Rightarrow> string \<Rightarrow> status \<Rightarrow> return_tables \<Rightarrow> bool" where
  "may_move pay i st t \<longleftrightarrow> (\<forall>r \<in> set (returns t). rt_id r = i \<longrightarrow> return_step (rt_status r) st \<and>
     (st = ''COMPLETED'' \<and> pay \<and> rt_type r = ''RETURN'' \<longrightarrow> refunded (refund_log t) r))"

definition now_is :: "string \<Rightarrow> status \<Rightarrow> return_row \<Rightarrow> return_tables \<Rightarrow> bool" where
  "now_is i st r t \<longleftrightarrow> (\<exists>q \<in> set (returns t). rt_id q = i \<and> rt_status q = st \<and> same_return r q)"

lemma moved_same: "same_return r (moved_return st reason now r)"
  by (simp add: same_return_def moved_return_def)

lemma moved_ok:
  assumes "row_ok pay lg r" and "return_step (rt_status r) st" and "st = ''COMPLETED'' \<and> pay \<and> rt_type r = ''RETURN'' \<longrightarrow> refunded lg r"
  shows "row_ok pay lg (moved_return st reason now r)"
proof -
  have "refunded lg (moved_return st reason now r) = refunded lg r" by (rule refunded_same [OF moved_same])
  with assms return_step_status [OF assms(2)] show ?thesis
    by (auto simp: row_ok_def moved_return_def first_time_def split: option.splits)
qed

lemma UpdateReturnStatusWithOutbox_outcomes:
  "outcomes (\<lambda>t. t = old \<and> returning pay s h t \<and> may_move pay i st t) (UpdateReturnStatusWithOutbox L i st reason evs)
     (\<lambda>x t. returning pay s h t \<and> refund_log t = refund_log old \<and>
        (\<exists>r \<in> set (returns old). rt_id r = i \<and> now_is i st r t \<and> rt_id x = i \<and> rt_type x = rt_type r \<and> rt_order x = rt_order r))
     (returning pay s h)"
  (is "outcomes ?P _ ?Q ?E")
proof -
  let ?R = "\<lambda>row t. returning pay s h t \<and> refund_log t = refund_log old \<and>
     (\<exists>r \<in> set (returns old). rt_id r = i \<and> now_is i st r t \<and> rt_id row = i \<and> rt_type row = rt_type r \<and> rt_order row = rt_order r)"
  have tx: "outcomes ?P (WithTransaction (update_return_tx L i st reason evs)) ?R ?P"
  proof (rule outcomes_WithTransaction)
    fix e w row w'
    assume P: "?P (tabs w)" and run: "update_return_tx L i st reason evs e w = (Inr row, w')"
    let ?f = "moved_return st reason (clock e)"
    from update_return_tx_run [OF run] obtain r where r: "r \<in> set (returns (tabs w))" "rt_id r = i" "row = ?f r"
      and c: "core (tabs w') = core ((tabs w)\<lparr>returns := upd_where (\<lambda>q. rt_id q = i) ?f (returns (tabs w))\<rparr>)" by blast
    have eff: "returns (tabs w') = upd_where (\<lambda>q. rt_id q = rt_id r) ?f (returns (tabs w))"
      "refund_log (tabs w') = refund_log (tabs w)" "verifications (tabs w') = verifications (tabs w)" "xpart (tabs w') = xpart (tabs w)"
      using c r(2) by (auto simp: core_def xpart_def)
    have mv: "return_step (rt_status r) st" "st = ''COMPLETED'' \<and> pay \<and> rt_type r = ''RETURN'' \<longrightarrow> refunded (refund_log (tabs w)) r"
      using P r by (auto simp: may_move_def)
    have inv: "returns_inv pay (tabs w)" and ok: "row_ok pay (refund_log (tabs w)) r" using P r(1) by (auto simp: returns_inv_def)
    have st: "rt_status (?f r) = st" by (simp add: moved_return_def)
    have "returns_inv pay (tabs w')" "descends (tabs w) (tabs w')"
      using row_change [where t = "tabs w" and t' = "tabs w'" and r = r and f = ?f and pay = pay] moved_same moved_ok [OF ok mv]
        r(1) eff mv(1) inv st
      by (simp_all add: returns_inv_def)
    moreover have "?f r \<in> set (returns (tabs w'))"
      unfolding eff(1) upd_where_def using r(1) by auto
    moreover have "rt_id (?f r) = rt_id r" "rt_type (?f r) = rt_type r" "rt_order (?f r) = rt_order r" by (simp_all add: moved_return_def)
    ultimately show "?R row (tabs w')"
      using P r eff st moved_same [of r st reason "clock e"] descends_trans by (auto simp: now_is_def)
  qed
  have tx': "outcomes ?P (WithTransaction (update_return_tx L i st reason evs)) ?R ?E"
    by (rule outcomes_weaken [OF tx]) auto
  show ?thesis unfolding UpdateReturnStatusWithOutbox_def
  proof (rule outcomes_bind [OF tx'])
    fix row show "outcomes (?R row) (with_verification L row) ?Q ?E"
      unfolding outcomes_def
    proof (intro allI impI)
      fix e w x w' assume R: "?R row (tabs w)" and run: "with_verification L row e w = (x, w')"
      have t: "tabs w' = tabs w" using run with_verification_read_only by (blast dest: read_onlyD)
      show "case x of Inl _ \<Rightarrow> ?E (tabs w') | Inr y \<Rightarrow> ?Q y (tabs w')"
      proof (cases x)
        case (Inr y)
        with with_verification_row [OF run [unfolded Inr]] R t show ?thesis by simp
      qed (use R t in simp)
    qed
  qed
qed


lemma UpdateReturnStatus_moves:
  "outcomes (\<lambda>t. returning pay s h t \<and> may_move pay i st t) (UpdateReturnStatusWithOutbox L i st reason evs)
     (\<lambda>_. returning pay s h) (returning pay s h)"
proof (rule outcomes_pre)
  fix t assume "returning pay s h t \<and> may_move pay i st t"
  then show "outcomes (\<lambda>t'. t' = t) (UpdateReturnStatusWithOutbox L i st reason evs) (\<lambda>_. returning pay s h) (returning pay s h)"
    by (intro outcomes_weaken [OF UpdateReturnStatusWithOutbox_outcomes [where old = t and s = s and h = h and pay = pay]]) auto
qed

lemma insert_return_run:
  assumes "insert_return L r t = Inr (x, t')"
  shows "\<exists>a. t' = t\<lparr>returns := returns t @ [r\<lparr>rt_refund := a\<rparr>]\<rparr> \<and> rt_status r \<in> set return_statuses \<and> rt_type r \<in> set return_types \<and>
    rt_id r \<notin> rt_id ` set (returns t) \<and> rt_item r \<notin> rt_item ` set (returns t)"
  using assms by (auto simp: insert_return_def split: sum.splits if_splits)

lemma returning_added:
  assumes P: "returning pay s h t" and r: "rt_status r \<noteq> ''COMPLETED''"
    and run: "with_ids L is (insert_return L r) t = Inr (x, t')"
  shows "returning pay s h t'"
proof -
  from run have "insert_return L r t = Inr (x, t')" by (simp add: with_ids_def split: if_splits)
  from insert_return_run [OF this] obtain a where t': "t' = t\<lparr>returns := returns t @ [r\<lparr>rt_refund := a\<rparr>]\<rparr>"
    and ok: "rt_status r \<in> set return_statuses" "rt_type r \<in> set return_types"
      "rt_id r \<notin> rt_id ` set (returns t)" "rt_item r \<notin> rt_item ` set (returns t)" by blast
  have "row_ok pay (refund_log t) (r\<lparr>rt_refund := a\<rparr>)" using ok r by (simp add: row_ok_def)
  then have new: "returns_inv pay t'" "descends t t'"
    using row_added [where t = t and r = "r\<lparr>rt_refund := a\<rparr>" and pay = pay and t' = t'] ok P by (simp_all add: t')
  show ?thesis using new P descends_trans by (auto simp: t' xpart_def)
qed

lemma put_event_returning: "keeps (returning pay s h) (put_event msg ev)"
  unfolding keeps_def
proof
  fix e w x w' assume P: "returning pay s h (tabs w)" and run: "put_event msg ev e w = (Inr x, w')"
  have "core (tabs w') = core (tabs w)" using keepsD [OF put_event_core _ run] by blast
  from returning_cong [OF this] P show "returning pay s h (tabs w')" by (rule iffD2)
qed

lemma CreateReturnWithOutbox_always:
  assumes "rt_status r \<noteq> ''COMPLETED''" shows "always (returning pay s h) (CreateReturnWithOutbox L r ev)"
proof (rule always_atomic)
  show "atomic (CreateReturnWithOutbox L r ev)" unfolding CreateReturnWithOutbox_def by (rule WithTransaction_atomic)
  have "keeps (returning pay s h) (case ev of None \<Rightarrow> ret () | Some e \<Rightarrow> put_event ''failed to insert outbox event: '' e)"
    by (cases ev) (simp_all add: keeps_ret put_event_returning)
  then show "keeps (returning pay s h) (CreateReturnWithOutbox L r ev)"
    unfolding CreateReturnWithOutbox_def using assms
    by (intro WithTransaction_keeps keeps_seq keeps_on_error keeps_sql) (auto dest!: returning_added [rotated 2])
qed

section \<open>Verifications\<close>

lemma upsert_verification_run:
  assumes "upsert_verification v t = Inr (x, t')"
  shows "\<exists>vs. t' = t\<lparr>verifications := vs\<rparr> \<and> pv_return v \<in> rt_id ` set (returns t) \<and>
    (keyed pv_return (verifications t) \<longrightarrow> keyed pv_return vs) \<and>
    pv_return ` set vs \<subseteq> insert (pv_return v) (pv_return ` set (verifications t))"
proof (cases "find (\<lambda>u. pv_return u = pv_return v) (verifications t)")
  case (Some u)
  let ?f = "\<lambda>q. v\<lparr>pv_id := pv_id q, pv_created := pv_created q\<rparr>"
  from Some assms have "t' = t\<lparr>verifications := upd_where (\<lambda>q. pv_return q = pv_return v) ?f (verifications t)\<rparr>"
    "pv_return v \<in> rt_id ` set (returns t)"
    by (auto simp: upsert_verification_def split: if_splits)
  moreover have "keyed pv_return (upd_where (\<lambda>q. pv_return q = pv_return v) ?f (verifications t)) = keyed pv_return (verifications t)"
    by (rule keyed_upd_where) simp
  moreover have "pv_return ` set (upd_where (\<lambda>q. pv_return q = pv_return v) ?f (verifications t))
      \<subseteq> insert (pv_return v) (pv_return ` set (verifications t))"
    by (auto simp: upd_where_def)
  ultimately show ?thesis by blast
next
  case None
  then have "pv_return v \<notin> pv_return ` set (verifications t)" by (auto simp: find_None_iff)
  with None assms show ?thesis
    by (intro exI [of _ "verifications t @ [v]"]) (auto simp: upsert_verification_def keyed_snoc split: if_splits)
qed

lemma verified_same: "same_return r (verified_return ok st now r)"
  by (simp add: same_return_def verified_return_def)

lemma core_iff: "core a = core b \<longleftrightarrow> returns a = returns b \<and> verifications a = verifications b \<and> refund_log a = refund_log b \<and> xpart a = xpart b"
  by (auto simp: core_def xpart_def)

lemma clear_images_quiet: "core (tabs (snd (sql (clear_images i) e w))) = core (tabs w)"
  using clear_images_core [of "core (tabs w)" i] by (simp add: always_def)

lemma put_images_core:
  "keeps (\<lambda>t. core t = c) (for_each us (\<lambda>url. bind new_uuid (\<lambda>i. on_error (sql (insert_image (m i url))) f)))"
  by (intro keeps_for_each keeps_bind keeps_on_error keeps_sql keeps_new_uuid) (simp add: insert_image_core)

lemma with_ids_effect: "with_ids L is f t = Inr y \<Longrightarrow> f t = Inr y"
  by (simp add: with_ids_def split: if_splits)

lemma create_verification_tx_run:
  assumes run: "create_verification_tx L v st evs e w = (Inr vid, w')"
  shows "\<exists>vs r. r \<in> set (returns (tabs w)) \<and> rt_id r = pv_return v \<and>
    (keyed pv_return (verifications (tabs w)) \<longrightarrow> keyed pv_return vs) \<and>
    pv_return ` set vs \<subseteq> insert (pv_return v) (pv_return ` set (verifications (tabs w))) \<and>
    core (tabs w') = core ((tabs w)\<lparr>verifications := vs,
      returns := upd_where (\<lambda>q. rt_id q = rt_id r) (verified_return (pv_approved v) st (clock e)) (returns (tabs w))\<rparr>)"
proof -
  let ?f = "verified_return (pv_approved v) st (clock e)"
  from run obtain w1 w2 w3 o1 w4 u1 u2 where
    s1: "sql (with_ids L [pv_id v, pv_return v, pv_by v] (upsert_verification (verification_row.truncate v))) e w = (Inr vid, w1)"
    and clr: "w2 = snd (sql (clear_images vid) e w1)"
    and imgs: "for_each (pv_images v) (\<lambda>url. bind new_uuid (\<lambda>i.
            on_error (sql (insert_image \<lparr>im_id = i, im_verification = vid, im_url = url, im_created = pv_created v\<rparr>))
              (WrapError ''failed to insert verification image: ''))) e w2 = (Inr u1, w3)"
    and s2: "sql (update_return (pv_return v) ?f) e w3 = (Inr o1, w4)"
    and evs: "put_events evs e w4 = (Inr u2, w')"
    unfolding create_verification_tx_def bind_ok seq_ok on_error_ok time_now_ok ret_ok ignore_error_ok
    by clarify (rule that; (assumption | rule refl))
  note ups = with_ids_effect [OF sql_effect [OF s1]] and upd = sql_effect [OF s2]
  have pv: "pv_return (verification_row.truncate v) = pv_return v" by (simp add: verification_row.defs)
  from upsert_verification_run [OF ups] obtain vs where vs: "tabs w1 = (tabs w)\<lparr>verifications := vs\<rparr>"
    "pv_return v \<in> rt_id ` set (returns (tabs w))" "keyed pv_return (verifications (tabs w)) \<longrightarrow> keyed pv_return vs"
    "pv_return ` set vs \<subseteq> insert (pv_return v) (pv_return ` set (verifications (tabs w)))"
    unfolding pv by blast
  have "core (tabs w2) = core (tabs w1)" unfolding clr by (rule clear_images_quiet)
  moreover have "core (tabs w3) = core (tabs w2)" using keepsD [OF put_images_core _ imgs] by blast
  ultimately have c3: "core (tabs w3) = core (tabs w1)" by simp
  have c5: "core (tabs w') = core (tabs w4)" using keepsD [OF put_events_core _ evs] by blast
  have rs: "returns (tabs w3) = returns (tabs w)" using c3 vs(1) by (simp add: core_iff)
  have "find (\<lambda>q. rt_id q = pv_return v) (returns (tabs w)) \<noteq> None" using vs(2) by (auto simp: find_None_iff)
  then obtain r where r: "find (\<lambda>q. rt_id q = pv_return v) (returns (tabs w)) = Some r" by blast
  with upd rs have "tabs w4 = (tabs w3)\<lparr>returns := upd_where (\<lambda>q. rt_id q = pv_return v) ?f (returns (tabs w))\<rparr>"
    by (simp add: update_return_def)
  with c3 c5 vs(1) have fin: "core (tabs w') = core ((tabs w)\<lparr>verifications := vs,
      returns := upd_where (\<lambda>q. rt_id q = pv_return v) ?f (returns (tabs w))\<rparr>)"
    by (auto simp: core_iff xpart_def)
  from find_Some_in [OF r] have "r \<in> set (returns (tabs w))" "rt_id r = pv_return v" by auto
  with fin vs(3,4) show ?thesis by (intro exI [of _ vs] exI [of _ r]) simp
qed

lemma CreateVerification_outcomes:
  "outcomes (\<lambda>t. returning pay s h t \<and> st \<noteq> ''COMPLETED'' \<and> (\<forall>r \<in> set (returns t). rt_id r = pv_return v \<longrightarrow> return_step (rt_status r) st))
     (CreateVerificationWithOutbox L v st evs) (\<lambda>_. returning pay s h) (returning pay s h)"
  (is "outcomes ?P _ _ _")
proof -
  have "outcomes ?P (WithTransaction (create_verification_tx L v st evs)) (\<lambda>_. returning pay s h) ?P"
  proof (rule outcomes_WithTransaction)
    fix e w vid w' assume P: "?P (tabs w)" and run: "create_verification_tx L v st evs e w = (Inr vid, w')"
    let ?f = "verified_return (pv_approved v) st (clock e)"
    from create_verification_tx_run [OF run] obtain vs r where r: "r \<in> set (returns (tabs w))" "rt_id r = pv_return v"
      and vs: "keyed pv_return (verifications (tabs w)) \<longrightarrow> keyed pv_return vs"
        "pv_return ` set vs \<subseteq> insert (pv_return v) (pv_return ` set (verifications (tabs w)))"
      and c: "core (tabs w') = core ((tabs w)\<lparr>verifications := vs, returns := upd_where (\<lambda>q. rt_id q = rt_id r) ?f (returns (tabs w))\<rparr>)"
      by blast
    have eff: "returns (tabs w') = upd_where (\<lambda>q. rt_id q = rt_id r) ?f (returns (tabs w))"
      "refund_log (tabs w') = refund_log (tabs w)" "verifications (tabs w') = vs" "xpart (tabs w') = xpart (tabs w)"
      using c by (auto simp: core_iff xpart_def)
    have inv: "returns_inv pay (tabs w)" and step: "return_step (rt_status r) st" and st: "st \<noteq> ''COMPLETED''" using P r by auto
    have ok: "row_ok pay (refund_log (tabs w)) (?f r)"
      using inv r(1) return_step_status [OF step] st by (auto simp: returns_inv_def row_ok_def verified_return_def)
    have ids: "\<forall>u \<in> set vs. pv_return u \<in> rt_id ` set (returns (tabs w))"
    proof
      fix u assume "u \<in> set vs"
      with vs(2) have "pv_return u = pv_return v \<or> pv_return u \<in> pv_return ` set (verifications (tabs w))" by blast
      then show "pv_return u \<in> rt_id ` set (returns (tabs w))"
      proof
        assume "pv_return u = pv_return v"
        with r show ?thesis by (metis image_eqI)
      qed (use inv in \<open>auto simp: returns_inv_def\<close>)
    qed
    have "rt_status (?f r) = st" by (simp add: verified_return_def)
    then have "returns_inv pay (tabs w')" "descends (tabs w) (tabs w')"
      using row_change [where t = "tabs w" and t' = "tabs w'" and r = r and f = ?f and pay = pay]
        inv r(1) verified_same ok step eff vs(1) ids by (simp_all add: returns_inv_def)
    then show "returning pay s h (tabs w')" using P eff(4) descends_trans by blast
  qed
  then show ?thesis unfolding CreateVerificationWithOutbox_def by (rule outcomes_weaken) auto
qed


section \<open>Refunds\<close>

text \<open>A refund of the return may be ordered, and its answer says that the money was sent.\<close>

definition ready :: "Return \<Rightarrow> return_tables \<Rightarrow> bool" where
  "ready r t \<longleftrightarrow> (\<exists>q \<in> set (returns t). rt_id q = rt_id r \<and> rt_status q = ''REFUND_INITIATED'' \<and> rt_type q = ''RETURN'' \<and>
     rt_order q = rt_order r \<and> rt_refund q = rt_refund r)"

lemma unique_row: "returns_inv pay t \<Longrightarrow> q \<in> set (returns t) \<Longrightarrow> r \<in> set (returns t) \<Longrightarrow> rt_id q = rt_id r \<Longrightarrow> q = r"
  unfolding returns_inv_def by (blast intro: keyed_unique)

lemma complete_return_outcomes:
  assumes "rt_id x = rt_id r"
  shows "outcomes (\<lambda>t. returning pay s h t \<and> ready r t \<and> refunded (refund_log t) r) (complete_return S x)
    (\<lambda>_. returning pay s h) (returning pay s h)"
  (is "outcomes ?P _ _ _")
proof -
  have move: "may_move pay (rt_id x) ''COMPLETED'' t" if P: "?P t" for t
  proof -
    from P obtain q where q: "q \<in> set (returns t)" "rt_id q = rt_id r" "rt_status q = ''REFUND_INITIATED''" "rt_order q = rt_order r"
      "rt_refund q = rt_refund r"
      by (auto simp: ready_def)
    have "refund_key q = refund_key r" using q by (simp add: refund_key_def)
    with P q have "refunded (refund_log t) q" by (simp add: refunded_def)
    moreover have "return_step ''REFUND_INITIATED'' ''COMPLETED''"
      by (simp add: return_step_def allowed_in_def AllowedStatusTransitions_def)
    ultimately show ?thesis using q P assms unique_row [of pay t _ q] unfolding may_move_def by metis
  qed
  show ?thesis unfolding complete_return_def
    by (intro outcomes_reading read_only_time_now read_only_ret build_read_only
        outcomes_bind [OF outcomes_weaken [OF UpdateReturnStatus_moves [where pay = pay and s = s and h = h and st = "''COMPLETED''"]]] outcomes_ret)
      (auto simp: move)
qed


lemma settle_return_outcomes:
  assumes "rt_id x = rt_id r"
  shows "outcomes (\<lambda>t. returning pay s h t \<and> ready r t \<and> (\<forall>a. answer = Some a \<and> refund_succeeded a \<longrightarrow> refunded (refund_log t) r))
    (settle_return S x answer) (\<lambda>_. returning pay s h) (returning pay s h)"
proof (cases answer)
  case (Some a)
  then show ?thesis unfolding settle_return_def
    using outcomes_weaken [OF complete_return_outcomes [OF assms, of pay s h S], where P' = "\<lambda>t. returning pay s h t \<and> ready r t \<and>
      (\<forall>a. answer = Some a \<and> refund_succeeded a \<longrightarrow> refunded (refund_log t) r)"]
    by (auto intro!: outcomes_ret outcomes_raise)
qed (auto simp: settle_return_def intro: outcomes_raise)

lemma CreateRefund_call_outcomes:
  assumes key: "cf_key q = refund_key r" and amount: "fle (rt_refund r) fzero \<or> cf_amount q = rt_refund r"
  shows "outcomes (\<lambda>t. returning pay s h t \<and> ready r t) (CreateRefund_call c q)
    (\<lambda>answer t. returning pay s h t \<and> ready r t \<and> (\<forall>a. answer = Some a \<and> refund_succeeded a \<longrightarrow> refunded (refund_log t) r))
    (returning pay s h)"
  unfolding outcomes_def
proof (intro allI impI)
  fix e w x w' assume P: "returning pay s h (tabs w) \<and> ready r (tabs w)" and run: "CreateRefund_call c q e w = (x, w')"
  from run have x: "x = pc_refund c q"
    and t': "tabs w' = (tabs w)\<lparr>refund_log := refund_log (tabs w) @ [(q, x)]\<rparr>" by (auto simp: CreateRefund_call_def)
  from P obtain row where row: "row \<in> set (returns (tabs w))" "rt_id row = rt_id r" "rt_status row = ''REFUND_INITIATED''"
    "rt_type row = ''RETURN''" "rt_order row = rt_order r" "rt_refund row = rt_refund r" by (auto simp: ready_def)
  have "ordered_for (q, x) row" using row key amount by (auto simp: ordered_for_def refund_key_def)
  then have "returns_inv pay (tabs w')" "descends (tabs w) (tabs w')"
    using call_logged [of pay "tabs w" row "(q, x)" "tabs w'"] P row(1) t' by simp_all
  with P t' have "returning pay s h (tabs w')" "ready r (tabs w')"
    using descends_trans by (auto simp: xpart_def ready_def)
  moreover have "refunded (refund_log (tabs w')) r" if "x = Inr (Some a)" "refund_succeeded a" for a
    using that key amount t' by (auto simp: refunded_def)
  ultimately show "case x of Inl _ \<Rightarrow> returning pay s h (tabs w')
    | Inr answer \<Rightarrow> returning pay s h (tabs w') \<and> ready r (tabs w') \<and>
        (\<forall>a. answer = Some a \<and> refund_succeeded a \<longrightarrow> refunded (refund_log (tabs w')) r)"
    by (cases x) auto
qed

text \<open>A return as it was read, of the type that is refunded.\<close>

definition owed :: "Return \<Rightarrow> return_tables \<Rightarrow> bool" where
  "owed r t \<longleftrightarrow> (\<exists>q \<in> set (returns t). shows_row r q \<and> rt_type q = ''RETURN'' \<and> rt_status q \<in> set refundable_statuses)"

lemma initiate_refund_outcomes:
  "outcomes (\<lambda>t. returning pay s h t \<and> owed r t) (initiate_refund S r p)
     (\<lambda>x t. returning pay s h t \<and> ready r t \<and> rt_id x = rt_id r) (returning pay s h)"
  (is "outcomes ?P _ ?Q ?E")
proof (cases "rt_status r = ''REFUND_INITIATED''")
  case True
  then show ?thesis unfolding initiate_refund_def
    by (auto intro!: outcomes_ret simp: owed_def ready_def shows_row_def)
next
  case False
  have up: "outcomes ?P (UpdateReturnStatusWithOutbox (sv_lib S) (rt_id r) ''REFUND_INITIATED'' [] evs) ?Q ?E" for evs
  proof (rule outcomes_pre)
    fix t assume P: "?P t"
    then obtain q where q: "q \<in> set (returns t)" "shows_row r q" "rt_type q = ''RETURN''" "rt_status q \<in> set refundable_statuses"
      by (auto simp: owed_def)
    have one: "x = q" if "x \<in> set (returns t)" "rt_id x = rt_id r" for x
      using P q that unique_row [of pay t x q] by (simp add: shows_row_def)
    have "return_step (rt_status q) ''REFUND_INITIATED''"
      using q(4) by (auto simp: refundable_statuses_def return_step_def allowed_in_def AllowedStatusTransitions_def)
    with one have "may_move pay (rt_id r) ''REFUND_INITIATED'' t" by (auto simp: may_move_def)
    then have pre: "returning pay s h t \<and> may_move pay (rt_id r) ''REFUND_INITIATED'' t" using P by simp
    show "outcomes (\<lambda>t'. t' = t) (UpdateReturnStatusWithOutbox (sv_lib S) (rt_id r) ''REFUND_INITIATED'' [] evs) ?Q ?E"
    proof (rule outcomes_weaken [OF UpdateReturnStatusWithOutbox_outcomes [where old = t and pay = pay and s = s and h = h]])
      fix x :: Return and t'
      assume up: "returning pay s h t' \<and> refund_log t' = refund_log t \<and>
        (\<exists>q0 \<in> set (returns t). rt_id q0 = rt_id r \<and> now_is (rt_id r) ''REFUND_INITIATED'' q0 t' \<and> rt_id x = rt_id r \<and>
           rt_type x = rt_type q0 \<and> rt_order x = rt_order q0)"
      then have "now_is (rt_id r) ''REFUND_INITIATED'' q t'" "rt_id x = rt_id r" using one by blast+
      then have "ready r t'" "rt_id x = rt_id r" using q(2,3) by (auto simp: ready_def now_is_def same_return_def shows_row_def)
      with up show "?Q x t'" by blast
    qed (use pre in blast)+
  qed
  from False have body: "initiate_refund S r p =
      bind (BuildRefundInitiatedOutboxEvent r (pm_id p) (refund_amount r p) (pm_currency p)) (\<lambda>e1.
      bind (BuildReturnStatusUpdatedOutboxEvent r (rt_status r) ''REFUND_INITIATED'') (\<lambda>e2.
      UpdateReturnStatusWithOutbox (sv_lib S) (rt_id r) ''REFUND_INITIATED'' [] [e1, e2]))"
    by (simp add: initiate_refund_def)
  show ?thesis unfolding body by (intro outcomes_reading build_read_only up) simp_all
qed

lemma refund_request_fields:
  "cf_key (refund_request_for x p\<lparr>cf_amount := a, cf_key := k\<rparr>) = k" "cf_amount (refund_request_for x p\<lparr>cf_amount := a, cf_key := k\<rparr>) = a"
  by simp_all

lemma order_refund_outcomes:
  "outcomes (\<lambda>t. returning pay s h t \<and> owed r t) (order_refund S c r p) (\<lambda>_. returning pay s h) (returning pay s h)"
  unfolding order_refund_def
proof (rule outcomes_guard)
  show "outcomes (\<lambda>t. returning pay s h t \<and> owed r t)
    (bind (initiate_refund S r p) (\<lambda>r1.
      bind (on_error (CreateRefund_call c (refund_request_for r1 p\<lparr>cf_amount := refund_amount r p, cf_key := refund_key r\<rparr>))
              (WrapError ''payment service CreateRefund failed: ''))
        (settle_return S r1))) (\<lambda>_. returning pay s h) (returning pay s h)"
  proof (rule outcomes_bind [OF initiate_refund_outcomes])
    fix r1
    show "outcomes (\<lambda>t. returning pay s h t \<and> ready r t \<and> rt_id r1 = rt_id r)
      (bind (on_error (CreateRefund_call c (refund_request_for r1 p\<lparr>cf_amount := refund_amount r p, cf_key := refund_key r\<rparr>))
              (WrapError ''payment service CreateRefund failed: '')) (settle_return S r1)) (\<lambda>_. returning pay s h) (returning pay s h)"
    proof (rule outcomes_pure [where F = "rt_id r1 = rt_id r"])
      assume same: "rt_id r1 = rt_id r"
      show ?thesis
        by (rule outcomes_weaken [OF outcomes_bind [OF outcomes_on_error [OF CreateRefund_call_outcomes] settle_return_outcomes [OF same]]])
          (auto simp: refund_amount_def)
    qed simp
  qed
qed simp

lemma GetReturnByID_outcomes:
  "outcomes P (GetReturnByID L i) (\<lambda>x t. P t \<and> (\<exists>q \<in> set (returns t). rt_id q = i \<and> shows_row x q)) P"
  unfolding outcomes_def
proof (intro allI impI)
  fix e w r w' assume P: "P (tabs w)" and run: "GetReturnByID L i e w = (r, w')"
  have "tabs w' = tabs w" using run GetReturn_read_only(1) by (blast dest: read_onlyD)
  then show "case r of Inl _ \<Rightarrow> P (tabs w') | Inr x \<Rightarrow> P (tabs w') \<and> (\<exists>q \<in> set (returns (tabs w')). rt_id q = i \<and> shows_row x q)"
    using P run GetReturnByID_row [of L i e w] by (cases r) auto
qed

lemma known_return_outcomes:
  "outcomes P (known_return S i) (\<lambda>x t. P t \<and> (\<exists>q \<in> set (returns t). rt_id q = i \<and> shows_row x q)) P"
  unfolding known_return_def by (rule outcomes_on_error [OF GetReturnByID_outcomes])

lemma TriggerRefund_always: "always (returning pay s h) (TriggerRefund S i)"
  unfolding always_outcomes TriggerRefund_def
proof (rule outcomes_guard, rule outcomes_bind [OF known_return_outcomes])
  fix r :: Return
  let ?P = "\<lambda>t. returning pay s h t \<and> (\<exists>q \<in> set (returns t). rt_id q = TrimSpace i \<and> shows_row r q)"
  have owed: "owed r t" if P: "?P t" and r: "rt_type r \<noteq> ''REPLACEMENT''" "rt_type r \<noteq> ''EXCHANGE''" "rt_status r \<in> set refundable_statuses" for t
  proof -
    from P obtain q where q: "q \<in> set (returns t)" "shows_row r q" by blast
    with P have "rt_type q \<in> set return_types" by (simp add: returns_inv_def row_ok_def)
    with q r show ?thesis by (auto simp: owed_def return_types_def shows_row_def)
  qed
  let ?rest = "\<lambda>c. bind (on_error (call (pc_payment c (rt_order r)))
                     (WrapError (''failed to retrieve payment for order '' @ rt_order r @ '': ''))) (\<lambda>pmt.
             case pmt of None \<Rightarrow> raise ErrPaymentNotFound_return | Some p \<Rightarrow> order_refund S c r p)"
  have rest: "outcomes ?P (?rest c) (\<lambda>_. returning pay s h) (returning pay s h)"
    if "rt_type r \<noteq> ''REPLACEMENT''" "rt_type r \<noteq> ''EXCHANGE''" "rt_status r \<in> set refundable_statuses" for c
  proof (rule outcomes_reading [OF read_only_on_error [OF read_only_call]])
    fix pmt show "outcomes ?P (case pmt of None \<Rightarrow> raise ErrPaymentNotFound_return | Some p \<Rightarrow> order_refund S c r p)
        (\<lambda>_. returning pay s h) (returning pay s h)"
      using owed that by (cases pmt) (auto intro!: outcomes_raise outcomes_weaken [OF order_refund_outcomes])
  qed simp
  show "outcomes ?P
    (if rt_type r = ''REPLACEMENT'' \<or> rt_type r = ''EXCHANGE'' then ret r
      else if rt_status r = ''COMPLETED'' then ret r
      else seq (require (rt_status r \<in> set refundable_statuses) ErrReturnNotEligibleForRefund)
        (case sv_payment S of None \<Rightarrow> raise (FreshError ''payment service client unavailable'') | Some c \<Rightarrow> ?rest c))
    (\<lambda>_. returning pay s h) (returning pay s h)"
    using rest by (cases "sv_payment S") (auto intro!: outcomes_if outcomes_ret outcomes_guard outcomes_raise)
qed simp

section \<open>Requests\<close>

lemma outcomes_when_always: "always P m \<Longrightarrow> (\<And>t. P' t \<Longrightarrow> P t) \<Longrightarrow> outcomes P' m (\<lambda>_. P) P"
  by (rule outcomes_weaken [OF iffD1 [OF always_outcomes]])

lemma change_return_outcomes:
  assumes pay: "(sv_payment S \<noteq> None) = pay"
  shows "outcomes (\<lambda>t. returning pay s h t \<and> (\<exists>q \<in> set (returns t). rt_id q = i \<and> shows_row r q) \<and> return_step (rt_status r) st)
    (change_return S i st reviewer reason r) (\<lambda>_. returning pay s h) (returning pay s h)"
  (is "outcomes ?P _ _ _")
proof (cases "(st = ''COMPLETED'' \<or> st = ''REFUND_INITIATED'') \<and> rt_type r = ''RETURN'' \<and> sv_payment S \<noteq> None")
  case True
  then have "change_return S i st reviewer reason r = TriggerRefund S i" unfolding change_return_def by (rule if_P)
  then show ?thesis by (simp only:) (rule outcomes_when_always [OF TriggerRefund_always], blast)
next
  case False
  have move: "may_move pay i st t" if P: "?P t" for t
  proof -
    from P obtain q where q: "q \<in> set (returns t)" "rt_id q = i" "shows_row r q" "return_step (rt_status r) st" by blast
    have "x = q" if "x \<in> set (returns t)" "rt_id x = i" for x using P q that unique_row [of pay t x q] by simp
    moreover have "\<not> (st = ''COMPLETED'' \<and> pay \<and> rt_type q = ''RETURN'')" "return_step (rt_status q) st"
      using False q pay by (auto simp: shows_row_def)
    ultimately show ?thesis by (auto simp: may_move_def)
  qed
  have body: "change_return S i st reviewer reason r =
      bind time_now (\<lambda>now.
      bind (review_events (approval_shown st now r) st reviewer reason) (\<lambda>evs.
      UpdateReturnStatusWithOutbox (sv_lib S) i st reason evs))"
    using False unfolding change_return_def by (rule if_not_P)
  have up: "outcomes ?P (UpdateReturnStatusWithOutbox (sv_lib S) i st reason evs) (\<lambda>_. returning pay s h) (returning pay s h)" for evs
    by (rule outcomes_weaken [OF UpdateReturnStatus_moves [where pay = pay and st = st]]) (use move in auto)
  show ?thesis unfolding body
    by (intro outcomes_reading read_only_time_now review_events_read_only up) simp_all
qed

lemma UpdateReturnStatus_always:
  assumes pay: "(sv_payment S \<noteq> None) = pay"
  shows "always (returning pay s h) (UpdateReturnStatus S ctx i st args)"
  unfolding always_outcomes UpdateReturnStatus_def
proof (intro outcomes_guard outcomes_bind [OF GetReturnByID_outcomes])
  fix r :: Return
  assume "CanTransitionTo_return (rt_status r) st"
  then have "return_step (rt_status r) st" by (auto simp: CanTransitionTo_return_def return_step_def)
  then show "outcomes (\<lambda>t. returning pay s h t \<and> (\<exists>q \<in> set (returns t). rt_id q = TrimSpace i \<and> shows_row r q))
    (change_return S (TrimSpace i) st (reviewer_of ctx args) (reason_of args) r) (\<lambda>_. returning pay s h) (returning pay s h)"
    by (intro outcomes_weaken [OF change_return_outcomes [OF pay]]) auto
qed simp_all

lemma review_always:
  assumes pay: "(sv_payment S \<noteq> None) = pay"
  shows "always (returning pay s h) (ApproveReturn S ctx i u)" "always (returning pay s h) (RejectReturn S ctx i reason u)"
  unfolding ApproveReturn_def RejectReturn_def
  by (intro always_shapes UpdateReturnStatus_always [OF pay])+

lemma read_always:
  "always P (GetReturnByID L i)" "always P (GetReturnByOrderItemID L i)"
  by (rule always_read_only [OF GetReturn_read_only(1)], rule always_read_only [OF GetReturn_read_only(2)])

lemma initial_open: "initial_status ty \<noteq> ''COMPLETED''"
  by (simp add: initial_status_def)

lemma store_request_always: "always (returning pay s h) (store_request S req ord1 it item)"
proof -
  have "rt_status (new_return req i it j now) \<noteq> ''COMPLETED''" for i j now by (simp add: new_return_def initial_open)
  then show ?thesis unfolding store_request_def no_return_yet_def bind_ret
    by (intro always_shapes read_always CreateReturnWithOutbox_always always_read_only [OF build_read_only(1)])
qed

lemma RequestReturn_always: "always (returning pay s h) (RequestReturn S request)"
  unfolding RequestReturn_def by (intro always_shapes store_request_always)

lemma verify_step:
  "a \<in> set verifiable_statuses \<Longrightarrow> return_step a (verified_status ok)"
proof -
  have "list_all (\<lambda>a. return_step a (verified_status True) \<and> return_step a (verified_status False)) verifiable_statuses" by code_simp
  then show "a \<in> set verifiable_statuses \<Longrightarrow> return_step a (verified_status ok)" by (cases ok) (auto simp: list_all_iff)
qed

lemma store_verification_outcomes:
  assumes st: "rt_status r \<in> set verifiable_statuses"
  shows "outcomes (\<lambda>t. returning pay s h t \<and> (\<exists>q \<in> set (returns t). rt_id q = i \<and> shows_row r q))
    (store_verification S req r) (\<lambda>_. returning pay s h) (returning pay s h)"
  (is "outcomes ?P _ _ _")
proof -
  have move: "\<forall>x \<in> set (returns t). rt_id x = rt_id r \<longrightarrow> return_step (rt_status x) (verified_status ok)" if P: "?P t" for t ok
  proof -
    from P obtain q where q: "q \<in> set (returns t)" "shows_row r q" by blast
    have "x = q" if "x \<in> set (returns t)" "rt_id x = rt_id r" for x
      using P q that unique_row [of pay t x q] by (simp add: shows_row_def)
    moreover have "rt_status q = rt_status r" using q(2) by (simp add: shows_row_def)
    ultimately show ?thesis using verify_step [OF st] by metis
  qed
  have made: "outcomes ?P (CreateVerificationWithOutbox (sv_lib S) v (verified_status ok) evs) (\<lambda>_. returning pay s h) (returning pay s h)"
    if "pv_return v = rt_id r" for v ok evs
    by (rule outcomes_weaken [OF CreateVerification_outcomes [where pay = pay]]) (use move that in \<open>auto simp: verified_status_def\<close>)
  have id: "pv_return (new_verification req j (rt_id r) now) = rt_id r" for j now
    by (simp add: new_verification_def verification_row.defs)
  have refund: "always (returning pay s h) (refund_verified S x v)" for x v
    unfolding refund_verified_def by (intro always_shapes TriggerRefund_always)
  have built: "read_only (if_built b (BuildReturnRefundEligibleOutboxEvent r m))" for b m
    unfolding if_built_def by (intro read_only_if read_only_ret or_none_read_only read_only_bind build_read_only)
  show ?thesis unfolding store_verification_def bind_ret
    by (intro outcomes_reading read_only_time_now read_only_new_uuid build_read_only built outcomes_bind [OF made]
        outcomes_bind [OF outcomes_when_always [OF refund]] outcomes_ret id) auto
qed

lemma VerifyProduct_always: "always (returning pay s h) (VerifyProduct S request)"
proof (cases request)
  case (Some req)
  show ?thesis unfolding always_outcomes VerifyProduct_def Some option.case
    by (intro outcomes_guard outcomes_bind [OF known_return_outcomes] store_verification_outcomes) auto
qed (simp add: VerifyProduct_def always_plain)

end
