(* ===== verification/Exchange_Trace.thy ===== *)
theory Exchange_Trace
  imports Return_Trace
begin

text \<open>
  Correctness of the exchanges and quotes of the return service: their invariant, that every
  operation keeps it whatever fails, and with the returns the invariant of the whole service.
\<close>

section \<open>The invariant\<close>

definition rpart :: "return_tables \<Rightarrow> return_row list \<times> verification_row list \<times> refund_call list" where
  "rpart t = (returns t, verifications t, refund_log t)"

text \<open>An exchange used a quote: by its owner, before it expired and with its discount.\<close>

definition used_by :: "return_lib \<Rightarrow> quote_row \<Rightarrow> exchange_row \<Rightarrow> bool" where
  "used_by L q x \<longleftrightarrow> qu_id q = xc_quote x \<and> qu_status q = ''APPLIED'' \<and> xc_user x = qu_user q \<and> xc_product x = qu_product q \<and>
     xc_created x < qu_expires q \<and> rl_decimal L (qu_discount q) = Some (xc_estimated x)"

definition quote_ok :: "exchange_row list \<Rightarrow> quote_row \<Rightarrow> bool" where
  "quote_ok xs q \<longleftrightarrow> qu_status q \<in> {''LOCKED'', ''APPLIED'', ''EXPIRED''} \<and> \<not> qu_disqualified q \<and>
     qu_expires q = qu_created q + half_hour \<and> (qu_status q = ''APPLIED'' \<longrightarrow> qu_id q \<in> xc_quote ` set xs)"

definition exchange_ok :: "return_lib \<Rightarrow> quote_row list \<Rightarrow> exchange_row \<Rightarrow> bool" where
  "exchange_ok L qs x \<longleftrightarrow> xc_status x \<in> set exchange_statuses \<and> (xc_quote x \<noteq> [] \<longrightarrow> (\<exists>q \<in> set qs. used_by L q x))"

definition used_quotes :: "exchange_row list \<Rightarrow> string list" where
  "used_quotes xs = filter (\<lambda>i. i \<noteq> []) (map xc_quote xs)"

definition exchanges_inv :: "return_lib \<Rightarrow> return_tables \<Rightarrow> bool" where
  "exchanges_inv L t \<longleftrightarrow> keyed xc_id (exchanges t) \<and> keyed qu_id (quotes t) \<and> distinct (used_quotes (exchanges t)) \<and>
     (\<forall>x \<in> set (exchanges t). exchange_ok L (quotes t) x) \<and> (\<forall>q \<in> set (quotes t). quote_ok (exchanges t) q)"

definition trading :: "return_lib \<Rightarrow> return_row list \<times> verification_row list \<times> refund_call list \<Rightarrow> return_tables \<Rightarrow> bool" where
  "trading L c t \<longleftrightarrow> exchanges_inv L t \<and> rpart t = c"

lemma core_split: "core a = core b \<longleftrightarrow> rpart a = rpart b \<and> xpart a = xpart b"
  by (auto simp: core_def rpart_def xpart_def)

lemma exchanges_inv_cong: "xpart t' = xpart t \<Longrightarrow> exchanges_inv L t' = exchanges_inv L t"
  by (simp add: exchanges_inv_def xpart_def)

lemma trading_cong: "core t' = core t \<Longrightarrow> trading L c t' = trading L c t"
  unfolding core_split trading_def using exchanges_inv_cong [of t' t L] by simp

lemma used_quotes_set: "set (used_quotes xs) = xc_quote ` set xs - {[]}"
  by (auto simp: used_quotes_def)

text \<open>A new exchange, with a quote or without.\<close>

lemma exchange_added:
  assumes "exchanges_inv L t" and x: "xc_id x \<notin> xc_id ` set (exchanges t)" "xc_status x \<in> set exchange_statuses" "xc_quote x = []"
    and t': "exchanges t' = exchanges t @ [x]" "quotes t' = quotes t"
  shows "exchanges_inv L t'"
  using assms by (auto simp: exchanges_inv_def keyed_snoc exchange_ok_def quote_ok_def used_quotes_def)

text \<open>What never changes of an exchange.\<close>

definition same_exchange :: "exchange_row \<Rightarrow> exchange_row \<Rightarrow> bool" where
  "same_exchange x y \<longleftrightarrow> xc_id y = xc_id x \<and> xc_quote y = xc_quote x \<and> xc_user y = xc_user x \<and> xc_product y = xc_product x \<and>
     xc_created y = xc_created x \<and> xc_estimated y = xc_estimated x"

lemma exchange_moved:
  assumes inv: "exchanges_inv L t" and f: "\<And>x. same_exchange x (f x)" "\<And>x. xc_status (f x) \<in> set exchange_statuses"
    and t': "exchanges t' = upd_where p f (exchanges t)" "quotes t' = quotes t"
  shows "exchanges_inv L t'"
proof -
  have same: "map k (exchanges t') = map k (exchanges t)" if "\<And>x. k (f x) = k x" for k :: "exchange_row \<Rightarrow> string"
    using that by (simp add: t' upd_where_def)
  have ids: "map xc_id (exchanges t') = map xc_id (exchanges t)" "map xc_quote (exchanges t') = map xc_quote (exchanges t)"
    using f(1) by (auto intro!: same simp: same_exchange_def)
  have imgs: "xc_quote ` set (exchanges t') = xc_quote ` set (exchanges t)" using ids(2) by (metis list.set_map)
  have "exchange_ok L (quotes t) (f x)" if "exchange_ok L (quotes t) x" for x
    using that f by (auto simp: exchange_ok_def used_by_def same_exchange_def)
  then have "\<forall>x \<in> set (exchanges t'). exchange_ok L (quotes t) x"
    using inv by (auto simp: t'(1) upd_where_def exchanges_inv_def)
  then show ?thesis using inv ids imgs by (simp add: exchanges_inv_def keyed_def used_quotes_def quote_ok_def t'(2))
qed

lemma quote_added:
  assumes "exchanges_inv L t" and "qu_id q \<notin> qu_id ` set (quotes t)" "qu_status q = ''LOCKED''" "\<not> qu_disqualified q"
      "qu_expires q = qu_created q + half_hour"
    and t': "quotes t' = quotes t @ [q]" "exchanges t' = exchanges t"
  shows "exchanges_inv L t'"
  using assms by (auto simp: exchanges_inv_def keyed_snoc exchange_ok_def quote_ok_def)

definition marked :: "status \<Rightarrow> int \<Rightarrow> quote_row \<Rightarrow> quote_row" where
  "marked st now q = q\<lparr>qu_status := st, qu_updated := now\<rparr>"

lemma update_quotes_marked: "update_quotes c st now t = Inr (find c (quotes t), t\<lparr>quotes := upd_where c (marked st now) (quotes t)\<rparr>)"
  by (simp add: update_quotes_def marked_def [abs_def])

text \<open>One quote is marked: the other exchanges keep the quotes they used.\<close>

lemma quote_marked:
  assumes inv: "exchanges_inv L t" and q: "q \<in> set (quotes t)" "qu_status q \<noteq> ''APPLIED''"
    and st: "st \<in> {''LOCKED'', ''APPLIED'', ''EXPIRED''}" "st = ''APPLIED'' \<longrightarrow> qu_id q \<in> xc_quote ` set xs"
    and xs: "keyed xc_id xs" "distinct (used_quotes xs)" "set (exchanges t) \<subseteq> set xs"
      "\<forall>x \<in> set xs - set (exchanges t). exchange_ok L [marked st now q] x"
    and t': "exchanges t' = xs" "quotes t' = upd_where p (marked st now) (quotes t)"
    and p: "\<And>r. r \<in> set (quotes t) \<Longrightarrow> p r \<longleftrightarrow> r = q"
  shows "exchanges_inv L t'"
proof -
  have qs: "quotes t' = map (\<lambda>r. if r = q then marked st now q else r) (quotes t)"
    unfolding t' upd_where_def using p by auto
  have ids: "map qu_id (quotes t') = map qu_id (quotes t)" by (auto simp: qs marked_def)
  have "\<exists>r \<in> set (quotes t'). used_by L r x" if "x \<in> set (exchanges t)" "xc_quote x \<noteq> []" for x
  proof -
    from that inv obtain r where r: "r \<in> set (quotes t)" "used_by L r x" by (auto simp: exchanges_inv_def exchange_ok_def)
    with q(2) have "r \<noteq> q" by (auto simp: used_by_def)
    with r show ?thesis by (auto simp: qs intro!: bexI [of _ r])
  qed
  then have old: "exchange_ok L (quotes t') x" if "x \<in> set (exchanges t)" for x
    using that inv by (auto simp: exchanges_inv_def exchange_ok_def)
  have "marked st now q \<in> set (quotes t')" using q(1) by (auto simp: qs)
  then have "exchange_ok L (quotes t') x" if "x \<in> set xs" for x
    using old xs(4) that by (cases "x \<in> set (exchanges t)") (auto simp: exchange_ok_def)
  moreover have "quote_ok xs r" if "r \<in> set (quotes t')" for r
  proof -
    from that obtain r0 where r0: "r0 \<in> set (quotes t)" "r = (if r0 = q then marked st now q else r0)" by (auto simp: qs)
    with inv have "quote_ok (exchanges t) r0" by (simp add: exchanges_inv_def)
    with r0 st xs(3) show ?thesis by (auto simp: quote_ok_def marked_def split: if_splits)
  qed
  ultimately show ?thesis using inv ids xs(1,2) by (simp add: exchanges_inv_def keyed_def t'(1))
qed

section \<open>Statements\<close>

lemma trading_keeps: "(\<And>c'. keeps (\<lambda>t. core t = c') m) \<Longrightarrow> keeps (trading L c) m"
  unfolding keeps_def [of "trading L c"]
proof
  fix e w x w' assume core: "\<And>c'. keeps (\<lambda>t. core t = c') m" and P: "trading L c (tabs w)" and run: "m e w = (Inr x, w')"
  have "core (tabs w') = core (tabs w)" using keepsD [OF core _ run] by blast
  from trading_cong [OF this] P show "trading L c (tabs w')" by blast
qed

lemma put_answers_core: "keeps (\<lambda>t. core t = c) (put_answers L x answers)"
proof -
  have "insert_answer L a t = Inr (u, t') \<Longrightarrow> core t' = core t" for a t u t'
    by (auto simp: insert_answer_def core_def split: sum.splits if_splits)
  then have "keeps (\<lambda>t. core t = c) (sql (with_ids L is (insert_answer L a)))" for "is" a
    by (intro keeps_sql) (metis with_ids_effect)
  moreover have "keeps (\<lambda>t. core t = c) (if b then new_uuid else ret j)" for b j by (simp add: keeps_new_uuid keeps_ret)
  ultimately show ?thesis unfolding put_answers_def by (intro keeps_for_each keeps_bind keeps_on_error)
qed

lemma event_option_core: "keeps (\<lambda>t. core t = c) (case ev of None \<Rightarrow> ret () | Some e \<Rightarrow> put_event m e)"
  by (cases ev) (simp_all add: keeps_ret put_event_core)

lemma insert_exchange_run:
  assumes "insert_exchange L x t = Inr (u, t')"
  shows "\<exists>row. t' = t\<lparr>exchanges := exchanges t @ [row]\<rparr> \<and> xc_id row = xc_id x \<and> xc_user row = xc_user x \<and> xc_quote row = xc_quote x \<and>
    xc_product row = xc_product x \<and> xc_created row = xc_created x \<and> xc_status row = xc_status x \<and>
    rl_decimal L (xc_estimated x) = Some (xc_estimated row) \<and> xc_status x \<in> set exchange_statuses \<and>
    xc_id x \<notin> xc_id ` set (exchanges t) \<and> (xc_quote x \<noteq> [] \<longrightarrow> xc_quote x \<notin> xc_quote ` set (exchanges t))"
proof -
  from assms obtain row where am: "exchange_amounts L x = Inr row"
    and t': "t' = t\<lparr>exchanges := exchanges t @ [row]\<rparr>" "xc_status x \<in> set exchange_statuses" "xc_id x \<notin> xc_id ` set (exchanges t)"
      "xc_quote x \<noteq> [] \<longrightarrow> xc_quote x \<notin> xc_quote ` set (exchanges t)"
    by (auto simp: insert_exchange_def split: sum.splits if_splits)
  from am obtain a b d v where row: "row = x\<lparr>xc_base := a, xc_estimated := b, xc_final := d, xc_difference := v\<rparr>"
    and "stored_amount L ''exchanges_estimated_discount_check'' (xc_estimated x) = Inr b"
    by (auto simp: exchange_amounts_def stored_three_def split: sum.splits option.splits)
  then have "rl_decimal L (xc_estimated x) = Some b" by (auto simp: stored_amount_def split: option.splits if_splits)
  with row t' show ?thesis by auto
qed

lemma CreateExchangeWithOutbox_always:
  assumes "xc_quote x = []" shows "always (trading L c) (CreateExchangeWithOutbox M x answers ev)"
proof (rule always_atomic)
  have "trading L c t'" if P: "trading L c t" and run: "with_ids M is (insert_exchange M x) t = Inr (u, t')" for "is" t u t'
  proof -
    from insert_exchange_run [OF with_ids_effect [OF run]] obtain row where
      t': "t' = t\<lparr>exchanges := exchanges t @ [row]\<rparr>" and row: "xc_id row = xc_id x" "xc_quote row = xc_quote x" "xc_status row = xc_status x"
        "xc_status x \<in> set exchange_statuses" "xc_id x \<notin> xc_id ` set (exchanges t)" by blast
    have "exchanges_inv L t'"
      using exchange_added [where t = t and x = row and t' = t' and L = L] P assms row t' by (simp add: trading_def)
    with P t' show ?thesis by (simp add: trading_def rpart_def)
  qed
  then show "keeps (trading L c) (CreateExchangeWithOutbox M x answers ev)" unfolding CreateExchangeWithOutbox_def
    by (intro WithTransaction_keeps keeps_seq keeps_on_error keeps_sql trading_keeps [OF put_answers_core] trading_keeps [OF event_option_core]) blast
qed (simp add: CreateExchangeWithOutbox_def WithTransaction_atomic)

lemma upsert_exchange_verification_core: "upsert_exchange_verification L v t = Inr (x, t') \<Longrightarrow> core t' = core t"
  by (auto simp: upsert_exchange_verification_def core_def split: sum.splits if_splits option.splits)

lemma exchange_images_core:
  "insert_exchange_image m t = Inr (x, t') \<Longrightarrow> core t' = core t" "always (\<lambda>t. core t = c) (sql (clear_exchange_images i))"
  by (auto simp: insert_exchange_image_def core_def split: if_splits)
    (auto intro!: always_atomic atomic_sql keeps_sql simp: clear_exchange_images_def)

text \<open>An update of one exchange keeps the invariant, if it keeps what the exchange is.\<close>

lemma update_exchange_trading:
  assumes f: "\<And>d x. same_exchange x (f d x)" "\<And>d x. xc_status (f d x) \<in> set exchange_statuses"
    and P: "trading L c t" and run: "update_exchange M i a f t = Inr (u, t')"
  shows "trading L c t'"
proof (cases "i \<in> xc_id ` set (exchanges t)")
  case True
  with run obtain d where t': "t' = t\<lparr>exchanges := upd_where (\<lambda>x. xc_id x = i) (f d) (exchanges t)\<rparr>"
    by (auto simp: update_exchange_def split: sum.splits)
  have "exchanges_inv L t'"
    by (rule exchange_moved [where t = t and f = "f d" and p = "\<lambda>x. xc_id x = i"]) (use P f t' in \<open>auto simp: trading_def\<close>)
  with P t' show ?thesis by (simp add: trading_def rpart_def)
qed (use run P in \<open>simp add: update_exchange_def\<close>)

lemma CreateExchangeVerification_always:
  assumes "st \<in> set exchange_statuses" shows "always (trading L c) (CreateExchangeVerificationWithOutbox M v st final evs)"
proof (rule always_atomic)
  have up: "trading L c t \<Longrightarrow> update_exchange M i final (verified_exchange st now) t = Inr (u, t') \<Longrightarrow> trading L c t'" for i now t u t'
    by (rule update_exchange_trading [where f = "verified_exchange st now" and M = M and i = i and a = final and t = t and u = u])
      (simp_all add: verified_exchange_def same_exchange_def assms)
  have ups: "core t = c' \<Longrightarrow> with_ids M is (upsert_exchange_verification M u) t = Inr (x, t') \<Longrightarrow> core t' = c'" for "is" u t x t' c'
    by (metis with_ids_effect upsert_exchange_verification_core)
  show "keeps (trading L c) (CreateExchangeVerificationWithOutbox M v st final evs)"
    unfolding CreateExchangeVerificationWithOutbox_def exchange_verification_tx_def
    by (intro WithTransaction_keeps keeps_bind keeps_seq keeps_on_error keeps_ret trading_keeps [OF put_events_core]
        trading_keeps [OF keeps_sql [OF ups]] trading_keeps [OF keeps_do_when [OF keeps_ignore [OF exchange_images_core(2)]]]
        keeps_for_each keeps_new_uuid trading_keeps [OF keeps_sql] keeps_sql [OF up])
      (auto dest: exchange_images_core(1))
qed (simp add: CreateExchangeVerificationWithOutbox_def WithTransaction_atomic)

lemma UpdateExchange_always:
  assumes "st \<in> set exchange_statuses"
  shows "always (trading L c) (UpdateExchangeStatusAndDiscountWithOutbox M i st final difference ev)"
proof (rule always_atomic)
  have up: "keeps (trading L c) (sql (with_ids M is (\<lambda>t.
        if i \<in> xc_id ` set (exchanges t) \<and> rl_decimal M difference = None then Inl (PgError ''22003'' [])
        else update_exchange M i final (resolved_exchange M st difference now) t)))" for "is" now
  proof (rule keeps_sql)
    fix t u t'
    assume P: "trading L c t" and run: "with_ids M is (\<lambda>t.
        if i \<in> xc_id ` set (exchanges t) \<and> rl_decimal M difference = None then Inl (PgError ''22003'' [])
        else update_exchange M i final (resolved_exchange M st difference now) t) t = Inr (u, t')"
    from with_ids_effect [OF run] have upd: "update_exchange M i final (resolved_exchange M st difference now) t = Inr (u, t')"
      by (simp split: if_splits)
    show "trading L c t'"
      by (rule update_exchange_trading [OF _ _ P upd]) (simp_all add: resolved_exchange_def same_exchange_def assms)
  qed
  show "keeps (trading L c) (UpdateExchangeStatusAndDiscountWithOutbox M i st final difference ev)"
    unfolding UpdateExchangeStatusAndDiscountWithOutbox_def
    by (intro WithTransaction_keeps keeps_bind [OF keeps_time_now] keeps_seq [OF keeps_on_error [OF up]]
        trading_keeps [OF event_option_core])
qed (simp add: UpdateExchangeStatusAndDiscountWithOutbox_def WithTransaction_atomic)

section \<open>Quotes\<close>

lemma insert_quote_run:
  assumes "insert_quote L q t = Inr (u, t')"
  shows "\<exists>a b d. t' = t\<lparr>quotes := quotes t @ [q\<lparr>qu_base := a, qu_deductions := b, qu_discount := d\<rparr>]\<rparr> \<and> qu_id q \<notin> qu_id ` set (quotes t)"
  using assms by (auto simp: insert_quote_def split: sum.splits if_splits; blast)

lemma CreateExchangeQuote_always:
  assumes q: "qu_status q = ''LOCKED''" "\<not> qu_disqualified q" "qu_expires q = qu_created q + half_hour"
  shows "always (trading L c) (CreateExchangeQuote M q answers)"
proof (rule always_atomic)
  have ins: "trading L c t'" if P: "trading L c t" and run: "with_ids M is (insert_quote M q) t = Inr (u, t')" for "is" t u t'
  proof -
    from insert_quote_run [OF with_ids_effect [OF run]] obtain a b d where
      t': "t' = t\<lparr>quotes := quotes t @ [q\<lparr>qu_base := a, qu_deductions := b, qu_discount := d\<rparr>]\<rparr>" "qu_id q \<notin> qu_id ` set (quotes t)" by blast
    have "exchanges_inv L t'"
      by (rule quote_added [where t = t and q = "q\<lparr>qu_base := a, qu_deductions := b, qu_discount := d\<rparr>"])
        (use P q t' in \<open>auto simp: trading_def\<close>)
    with P t' show ?thesis by (simp add: trading_def rpart_def)
  qed
  have ans: "core t = c' \<Longrightarrow> with_ids M is (insert_quote_answer M a) t = Inr (u, t') \<Longrightarrow> core t' = c'" for "is" a t u t' c'
    by (auto simp: with_ids_def insert_quote_answer_def core_def split: sum.splits if_splits)
  have id: "keeps P (if b then new_uuid else ret j)" for P b j by (simp add: keeps_new_uuid keeps_ret)
  show "keeps (trading L c) (CreateExchangeQuote M q answers)" unfolding CreateExchangeQuote_def
    by (intro WithTransaction_keeps keeps_seq keeps_on_error keeps_sql [OF ins] keeps_for_each keeps_bind id
        trading_keeps [OF keeps_sql [OF ans]])
qed (simp add: CreateExchangeQuote_def WithTransaction_atomic)

text \<open>Applying a quote: it is marked, and one exchange is made for it.\<close>

lemma insert_exchange_trading:
  assumes "trading L c t" and "xc_quote x = []" and run: "insert_exchange M x t = Inr (u, t')"
  shows "trading L c t'"
proof -
  from insert_exchange_run [OF run] obtain row where
    t': "t' = t\<lparr>exchanges := exchanges t @ [row]\<rparr>" and row: "xc_id row = xc_id x" "xc_quote row = xc_quote x" "xc_status row = xc_status x"
      "xc_status x \<in> set exchange_statuses" "xc_id x \<notin> xc_id ` set (exchanges t)" by blast
  have "exchanges_inv L t'"
    using exchange_added [where t = t and x = row and t' = t' and L = L] assms row t' by (simp add: trading_def)
  with assms(1) t' show ?thesis by (simp add: trading_def rpart_def)
qed

lemma apply_quote_tx_run:
  assumes run: "apply_quote_tx L x i answers ev e w = (Inr u, w')" and i: "i \<noteq> []"
  shows "\<exists>q t2 u1. find (applicable i (xc_user x) (clock e)) (quotes (tabs w)) = Some q \<and>
    insert_exchange L (x\<lparr>xc_quote := i, xc_catalog := []\<rparr>)
      ((tabs w)\<lparr>quotes := upd_where (applicable i (xc_user x) (clock e)) (marked ''APPLIED'' (clock e)) (quotes (tabs w))\<rparr>) = Inr (u1, t2) \<and>
    core (tabs w') = core t2"
proof -
  let ?x = "x\<lparr>xc_quote := i, xc_catalog := []\<rparr>"
  from run i obtain y w1 w2 w3 u1 u2 u3 where
    s1: "sql (with_ids L [i, xc_user x] (update_quotes (applicable i (xc_user x) (clock e)) ''APPLIED'' (clock e))) e w = (Inr (Some y), w1)"
    and s2: "sql (with_ids L (exchange_ids ?x) (insert_exchange L ?x)) e w1 = (Inr u1, w2)"
    and ans: "put_answers L ?x answers e w2 = (Inr u2, w3)"
    and evs: "(case ev of None \<Rightarrow> ret () | Some e \<Rightarrow> put_event ''failed to insert outbox event: '' e) e w3 = (Inr u3, w')"
    unfolding apply_quote_tx_def bind_ok seq_ok on_error_ok time_now_ok ret_ok do_when_def if_P [OF i] require_ok
    by clarify (rule that; (assumption | rule refl))
  have "core (tabs w3) = core (tabs w2)" using keepsD [OF put_answers_core _ ans] by blast
  moreover have "core (tabs w') = core (tabs w3)" using keepsD [OF event_option_core _ evs] by blast
  moreover note with_ids_effect [OF sql_effect [OF s1]] with_ids_effect [OF sql_effect [OF s2]]
  ultimately show ?thesis unfolding update_quotes_marked by auto
qed

text \<open>What the service read of a quote: enough to say that the exchange made of it fits.\<close>

definition quote_seen :: "exchange_row \<Rightarrow> return_tables \<Rightarrow> bool" where
  "quote_seen x t \<longleftrightarrow> (\<forall>q \<in> set (quotes t). qu_id q = xc_quote x \<longrightarrow> qu_discount q = xc_estimated x \<and> qu_product q = xc_product x)"

lemma apply_quote_trading:
  assumes P: "trading L c (tabs w)" "quote_seen x (tabs w)" and now: "xc_created x = clock e"
    and run: "apply_quote_tx L x (xc_quote x) answers ev e w = (Inr u, w')"
  shows "trading L c (tabs w')"
proof (cases "xc_quote x = []")
  case True
  from run True obtain w1 w2 w3 u1 u2 u3 where
    s2: "sql (with_ids L (exchange_ids (x\<lparr>xc_quote := [], xc_catalog := []\<rparr>)) (insert_exchange L (x\<lparr>xc_quote := [], xc_catalog := []\<rparr>))) e w = (Inr u1, w2)"
    and ans: "put_answers L (x\<lparr>xc_quote := [], xc_catalog := []\<rparr>) answers e w2 = (Inr u2, w3)"
    and evs: "(case ev of None \<Rightarrow> ret () | Some e \<Rightarrow> put_event ''failed to insert outbox event: '' e) e w3 = (Inr u3, w')"
    by (auto simp: apply_quote_tx_def do_when_def bind_ok seq_ok on_error_ok time_now_ok ret_ok)
  have "trading L c (tabs w2)"
    by (rule insert_exchange_trading [OF P(1) _ with_ids_effect [OF sql_effect [OF s2]]]) simp
  moreover have "core (tabs w3) = core (tabs w2)" using keepsD [OF put_answers_core _ ans] by blast
  moreover have "core (tabs w') = core (tabs w3)" using keepsD [OF event_option_core _ evs] by blast
  ultimately show ?thesis using trading_cong [of "tabs w'" "tabs w2" L c] by simp
next
  case False
  let ?t = "tabs w" and ?p = "applicable (xc_quote x) (xc_user x) (clock e)" and ?m = "marked ''APPLIED'' (clock e)"
  from apply_quote_tx_run [OF run False] obtain q t2 u1 where
    q: "find ?p (quotes ?t) = Some q" and c2: "core (tabs w') = core t2"
    and ins: "insert_exchange L (x\<lparr>xc_quote := xc_quote x, xc_catalog := []\<rparr>) (?t\<lparr>quotes := upd_where ?p ?m (quotes ?t)\<rparr>) = Inr (u1, t2)"
    by (elim exE conjE)
  from insert_exchange_run [OF ins] obtain row where t2: "t2 = ?t\<lparr>quotes := upd_where ?p ?m (quotes ?t), exchanges := exchanges ?t @ [row]\<rparr>"
    and row: "xc_id row = xc_id x" "xc_user row = xc_user x" "xc_quote row = xc_quote x" "xc_product row = xc_product x"
      "xc_created row = xc_created x" "xc_status row = xc_status x" "rl_decimal L (xc_estimated x) = Some (xc_estimated row)"
      "xc_status x \<in> set exchange_statuses" "xc_id x \<notin> xc_id ` set (exchanges ?t)" "xc_quote x \<notin> xc_quote ` set (exchanges ?t)"
    using False by auto
  from find_Some_in [OF q] have q1: "q \<in> set (quotes ?t)" and ap: "?p q" by auto
  then have qi: "qu_id q = xc_quote x" "qu_user q = xc_user x" "qu_status q \<noteq> ''APPLIED''" "clock e < qu_expires q"
    by (auto simp: applicable_def)
  have one: "?p r \<longleftrightarrow> r = q" if "r \<in> set (quotes ?t)" for r
    using P(1) that q1 ap qi keyed_unique [of qu_id "quotes ?t" r q] by (auto simp: trading_def exchanges_inv_def applicable_def)
  have "used_by L (?m q) row" using row qi P(2) q1 now by (simp add: used_by_def marked_def quote_seen_def)
  then have fits: "exchange_ok L [?m q] row" using row by (simp add: exchange_ok_def)
  have "exchanges_inv L t2"
  proof (rule quote_marked [where t = ?t and q = q and p = ?p and xs = "exchanges ?t @ [row]"])
    show "exchanges_inv L ?t" using P(1) by (simp add: trading_def)
    show "keyed xc_id (exchanges ?t @ [row])" "distinct (used_quotes (exchanges ?t @ [row]))"
      using P(1) row by (auto simp: trading_def exchanges_inv_def keyed_snoc used_quotes_def)
    show "\<forall>y \<in> set (exchanges ?t @ [row]) - set (exchanges ?t). exchange_ok L [?m q] y" using fits by auto
  qed (use q1 qi row one t2 in \<open>auto\<close>)
  then have "trading L c t2" using P(1) t2 by (simp add: trading_def rpart_def)
  then show ?thesis using trading_cong [OF c2] by blast
qed

section \<open>Steps of the service\<close>

text \<open>A computation in one environment: the clock it reads is known.\<close>

definition at_env :: "env \<Rightarrow> ('t, 'a) db \<Rightarrow> ('t, 'a) db" where
  "at_env e m = (\<lambda>_. m e)"

lemma outcomes_at: "(\<And>e. outcomes P (at_env e m) Q E) \<Longrightarrow> outcomes P m Q E"
  unfolding outcomes_def at_env_def by blast

lemma at_env_shapes:
  "at_env e (bind m f) = bind (at_env e m) (\<lambda>x. at_env e (f x))" "at_env e (seq m n) = seq (at_env e m) (at_env e n)"
  "at_env e (on_error m g) = on_error (at_env e m) g" "at_env e (ret x) = ret x" "at_env e time_now = ret (clock e)"
  by (auto simp: at_env_def bind_def seq_def on_error_def ret_def time_now_def fun_eq_iff)

lemma at_env_read_only: "read_only m \<Longrightarrow> read_only (at_env e m)"
  by (simp add: read_only_def at_env_def)

lemma numbered_read_only: "read_only (numbered f xs)"
  by (induction xs) (auto intro!: read_only_intros)

lemma exchange_events_read_only:
  "read_only (BuildExchangeCreatedOutboxEvent x)" "read_only (BuildExchangeOfferAppliedOutboxEvent x)"
  "read_only (BuildExchangeCompletedOutboxEvent y d)" "read_only (BuildExchangeVerifiedOutboxEvent v)"
  unfolding BuildExchangeCreatedOutboxEvent_def BuildExchangeOfferAppliedOutboxEvent_def
    BuildExchangeCompletedOutboxEvent_def BuildExchangeVerifiedOutboxEvent_def
  by (rule outbox_event_read_only)+

lemma GetExchangeByID_read_only: "read_only (GetExchangeByID L i)"
proof -
  have "read_only (GetExchangeQuestionAnswers L j)" for j
    unfolding GetExchangeQuestionAnswers_def by (rule read_only_pool_query) (rule with_ids_select)
  moreover have "read_only (GetExchangeVerification L j)" for j
    unfolding GetExchangeVerification_def
    by (auto intro!: read_only_bind read_only_pool_query read_only_option read_only_ret or_none_read_only read_only_pool_select
        dest: with_ids_select)
  ultimately show ?thesis unfolding GetExchangeByID_def
    by (auto intro!: read_only_bind scan_row_read_only read_only_pool_query or_none_read_only read_only_ret dest: with_ids_select)
qed

lemma catalog_read_only:
  "read_only (GetExchangeDeviceCatalogByID L i)" "read_only (GetExchangeDeviceByModel L a b m v)"
  "read_only (ListExchangeDiagnosticQuestions q)"
  unfolding GetExchangeDeviceCatalogByID_def GetExchangeDeviceByModel_def ListExchangeDiagnosticQuestions_def
  by (auto intro!: read_only_pool_query read_only_pool_select read_only_bind read_only_if read_only_ret or_none_read_only dest: with_ids_select)

lemma CalculateExchangeValuation_read_only: "read_only (CalculateExchangeValuation S q)"
  unfolding CalculateExchangeValuation_def
  by (intro read_only_option read_only_raise read_only_seq read_only_require read_only_bind read_only_call catalog_read_only)

lemma CreateExchange_always: "always (trading L c) (CreateExchange S request)"
proof -
  have "xc_quote (offered_exchange req d p i now) = []" for req d p i now by (simp add: offered_exchange_def Let_def)
  then show ?thesis unfolding CreateExchange_def bind_ret
    by (intro always_shapes CreateExchangeWithOutbox_always always_read_only [OF catalog_read_only(1)]
        always_read_only [OF numbered_read_only] always_read_only [OF exchange_events_read_only(1)])
qed

lemma VerifyExchangeProduct_always: "always (trading L c) (VerifyExchangeProduct S request)"
proof -
  have "exchange_verdict req x \<in> set exchange_statuses" for req and x :: Exchange
    by (simp add: exchange_verdict_def exchange_statuses_def)
  moreover have "read_only (known_exchange S i)" for i
    unfolding known_exchange_def by (intro read_only_on_error GetExchangeByID_read_only)
  ultimately show ?thesis unfolding VerifyExchangeProduct_def bind_ret
    by (intro always_shapes CreateExchangeVerification_always always_read_only [OF exchange_events_read_only(4)]
      always_read_only [where m = "known_exchange _ _"])
qed

lemma ResolveExchangeMismatch_always: "always (trading L c) (ResolveExchangeMismatch S request)"
proof -
  have "st \<in> set exchange_statuses" if "resolution a x = Some (st, f, d)" for a st f d and x :: Exchange
    using that by (auto simp: resolution_def exchange_statuses_def split: if_splits)
  then show ?thesis unfolding ResolveExchangeMismatch_def
    by (intro always_shapes UpdateExchange_always always_read_only [OF GetExchangeByID_read_only]
        always_read_only [OF exchange_events_read_only(3)]) blast
qed

lemma LockExchangeQuote_always: "always (trading L c) (LockExchangeQuote S request)"
proof -
  have "qu_status (new_quote req v i now) = ''LOCKED''" "qu_expires (new_quote req v i now) = qu_created (new_quote req v i now) + half_hour"
    "vr_eligible v \<Longrightarrow> \<not> qu_disqualified (new_quote req v i now)" for req v i now
    by (simp_all add: new_quote_def)
  then show ?thesis unfolding LockExchangeQuote_def
    by (intro always_shapes CreateExchangeQuote_always always_read_only [OF CalculateExchangeValuation_read_only]
        always_read_only [OF numbered_read_only])
qed

text \<open>A quote as it was read.\<close>

definition shows_quote :: "ExchangeQuote \<Rightarrow> return_tables \<Rightarrow> bool" where
  "shows_quote x t \<longleftrightarrow> (\<forall>q \<in> set (quotes t). qu_id q = qu_id x \<longrightarrow> qu_discount q = qu_discount x \<and> qu_product q = qu_product x)"

lemma GetExchangeQuoteByID_outcomes:
  "outcomes (trading L c) (GetExchangeQuoteByID M i)
     (\<lambda>x t. trading L c t \<and> shows_quote x t \<and> (\<exists>q \<in> set (quotes t). qu_id q = qu_id x \<and> qu_status q = qu_status x)) (trading L c)"
  unfolding outcomes_def
proof (intro allI impI)
  fix e w r w' assume P: "trading L c (tabs w)" and run: "GetExchangeQuoteByID M i e w = (r, w')"
  have "read_only (GetExchangeQuoteByID M i)" unfolding GetExchangeQuoteByID_def
    by (auto intro!: read_only_bind read_only_pool_query read_only_option read_only_raise read_only_ret or_none_read_only read_only_pool_select
        dest: with_ids_select)
  with run have t: "tabs w' = tabs w" by (blast dest: read_onlyD)
  show "case r of Inl _ \<Rightarrow> trading L c (tabs w')
    | Inr x \<Rightarrow> trading L c (tabs w') \<and> shows_quote x (tabs w') \<and> (\<exists>q \<in> set (quotes (tabs w')). qu_id q = qu_id x \<and> qu_status q = qu_status x)"
  proof (cases r)
    case (Inr x)
    with run obtain q w1 as where sel: "pool_sql (with_ids M [i] (select (\<lambda>t. find (\<lambda>q. qu_id q = i) (quotes t)))) e w = (Inr (Some q), w1)"
      and x: "x = quote_row.extend q (ExchangeQuote.fields as)"
      by (auto simp: GetExchangeQuoteByID_def bind_ok raise_ok ret_ok split: option.splits)
    from sel have "find (\<lambda>q. qu_id q = i) (quotes (tabs w)) = Some q"
      by (auto simp: pool_sql_ok with_ids_def select_ok split: if_splits)
    then have q: "q \<in> set (quotes (tabs w))" by (auto dest: find_Some_in)
    have "p = q" if "p \<in> set (quotes (tabs w))" "qu_id p = qu_id q" for p
      using P that q keyed_unique [of qu_id "quotes (tabs w)" p q] by (simp add: trading_def exchanges_inv_def)
    then have "shows_quote x (tabs w)" unfolding shows_quote_def x by (auto simp: quote_row.defs)
    with P q x t Inr show ?thesis by (auto simp: quote_row.defs)
  qed (use P t in simp)
qed

lemma expire_quote_outcomes:
  "outcomes (\<lambda>t. trading L c t \<and> shows_quote x t \<and> (\<exists>q \<in> set (quotes t). qu_id q = qu_id x \<and> qu_status q = ''LOCKED''))
     (UpdateExchangeQuoteStatus M (qu_id x) ''EXPIRED'') (\<lambda>_ t. trading L c t \<and> shows_quote x t) (\<lambda>t. trading L c t \<and> shows_quote x t)"
  (is "outcomes ?P _ _ ?E")
proof -
  have step: "?E t'" if P: "?P t" and run: "with_ids M is (update_quotes (\<lambda>q. qu_id q = qu_id x) ''EXPIRED'' now) t = Inr (r, t')" for t t' "is" now r
  proof -
    from with_ids_effect [OF run] have t': "t' = t\<lparr>quotes := upd_where (\<lambda>q. qu_id q = qu_id x) (marked ''EXPIRED'' now) (quotes t)\<rparr>"
      by (simp add: update_quotes_marked)
    from P obtain q where q: "q \<in> set (quotes t)" "qu_id q = qu_id x" "qu_status q = ''LOCKED''" by blast
    have "exchanges_inv L t'"
    proof (rule quote_marked [where t = t and q = q and p = "\<lambda>q. qu_id q = qu_id x" and xs = "exchanges t"])
      show "qu_id p = qu_id x \<longleftrightarrow> p = q" if "p \<in> set (quotes t)" for p
        using P that q keyed_unique [of qu_id "quotes t" p q] by (auto simp: trading_def exchanges_inv_def)
    qed (use P q t' in \<open>auto simp: trading_def exchanges_inv_def\<close>)
    with P t' show "?E t'" by (auto simp: trading_def rpart_def shows_quote_def upd_where_def marked_def)
  qed
  show ?thesis unfolding UpdateExchangeQuoteStatus_def
  proof (rule outcomes_reading [OF read_only_time_now])
    fix now
    show "outcomes ?P (bind (pool_sql (with_ids M [qu_id x] (update_quotes (\<lambda>q. qu_id q = qu_id x) ''EXPIRED'' now)))
      (\<lambda>r. require (r \<noteq> None) ErrExchangeQuoteNotFound_repo)) (\<lambda>_. ?E) ?E"
      by (rule outcomes_bind [OF outcomes_pool_sql [where Q = "\<lambda>_. ?E"]], erule (1) step, blast, rule outcomes_require)
  qed blast
qed

lemma GetExchangeQuote_outcomes:
  "outcomes (trading L c) (GetExchangeQuote S i) (\<lambda>x t. trading L c t \<and> shows_quote x t) (trading L c)"
  unfolding GetExchangeQuote_def
proof (intro outcomes_guard outcomes_bind [OF outcomes_on_error [OF GetExchangeQuoteByID_outcomes]] outcomes_reading read_only_time_now outcomes_if)
  fix x :: ExchangeQuote and now assume st: "IsExpired x now \<and> qu_status x = ''LOCKED''"
  let ?P = "\<lambda>t. trading L c t \<and> shows_quote x t \<and> (\<exists>q \<in> set (quotes t). qu_id q = qu_id x \<and> qu_status q = qu_status x)"
  have "outcomes ?P (UpdateExchangeQuoteStatus (sv_lib S) (qu_id x) ''EXPIRED'') (\<lambda>_ t. trading L c t \<and> shows_quote x t)
    (\<lambda>t. trading L c t \<and> shows_quote x t)"
    by (rule outcomes_weaken [OF expire_quote_outcomes]) (use st in auto)
  from outcomes_ignore [OF this] show "outcomes ?P
      (seq (ignore_error (UpdateExchangeQuoteStatus (sv_lib S) (qu_id x) ''EXPIRED'')) (ret (x\<lparr>qu_status := ''EXPIRED''\<rparr>)))
      (\<lambda>x t. trading L c t \<and> shows_quote x t) (trading L c)"
    by (rule outcomes_seq) (auto intro!: outcomes_ret simp: shows_quote_def)
qed (auto intro!: outcomes_ret)

lemma use_quote_outcomes:
  "outcomes (\<lambda>t. trading (sv_lib S) c t \<and> shows_quote q t) (use_quote S user q) (\<lambda>_. trading (sv_lib S) c) (trading (sv_lib S) c)"
  (is "outcomes ?P _ ?Q ?E")
proof (rule outcomes_at)
  fix e
  have applied: "outcomes ?P (at_env e (ApplyExchangeQuoteToOrderWithOutbox (sv_lib S) (applied_exchange q user i (clock e)) (qu_id q) as ev))
    (\<lambda>_. ?E) ?E" for i as ev
    unfolding outcomes_def at_env_def
  proof (intro allI impI)
    fix e0 w r w' assume P: "?P (tabs w)"
      and run: "ApplyExchangeQuoteToOrderWithOutbox (sv_lib S) (applied_exchange q user i (clock e)) (qu_id q) as ev e w = (r, w')"
    let ?x = "applied_exchange q user i (clock e)"
    show "case r of Inl _ \<Rightarrow> ?E (tabs w') | Inr _ \<Rightarrow> ?E (tabs w')"
    proof (cases r)
      case (Inl er)
      with run have "tabs w' = tabs w"
        unfolding ApplyExchangeQuoteToOrderWithOutbox_def by (blast dest: atomicD [OF WithTransaction_atomic])
      with P Inl show ?thesis by simp
    next
      case (Inr u)
      with run obtain w0 w1 where tx: "apply_quote_tx (sv_lib S) ?x (qu_id q) as ev e w0 = (Inr u, w1)" "tabs w0 = tabs w" "tabs w' = tabs w1"
        unfolding ApplyExchangeQuoteToOrderWithOutbox_def by (auto dest!: WithTransaction_ok)
      have x: "xc_quote ?x = qu_id q" "xc_created ?x = clock e" by (simp_all add: applied_exchange_def)
      have "quote_seen ?x (tabs w0)" using P tx(2) by (auto simp: quote_seen_def shows_quote_def applied_exchange_def)
      then have "trading (sv_lib S) c (tabs w1)"
        using apply_quote_trading [where e = e and x = ?x and w = w0 and c = c and L = "sv_lib S"] tx P x by simp
      with tx Inr show ?thesis by simp
    qed
  qed
  show "outcomes ?P (at_env e (use_quote S user q)) ?Q ?E"
    unfolding use_quote_def at_env_shapes bind_ret
    by (intro outcomes_reading at_env_read_only read_only_new_uuid numbered_read_only exchange_events_read_only
        outcomes_seq [OF outcomes_on_error [OF applied]] outcomes_ret) auto
qed

lemma ApplyExchangeToOrder_always: "always (trading (sv_lib S) c) (ApplyExchangeToOrder S request)"
proof (cases request)
  case (Some req)
  show ?thesis unfolding always_outcomes ApplyExchangeToOrder_def Some option.case
    by (intro outcomes_guard outcomes_bind [OF GetExchangeQuote_outcomes] outcomes_reading read_only_time_now use_quote_outcomes) auto
qed (simp add: ApplyExchangeToOrder_def always_plain)

lemma GetExchangeQuote_always: "always (trading L c) (GetExchangeQuote S i)"
  unfolding always_outcomes by (rule outcomes_weaken [OF GetExchangeQuote_outcomes]) auto

section \<open>The service\<close>

definition return_inv :: "return_lib \<Rightarrow> bool \<Rightarrow> return_tables \<Rightarrow> return_tables \<Rightarrow> bool" where
  "return_inv L pay s t \<longleftrightarrow> returns_inv pay t \<and> descends s t \<and> exchanges_inv L t"

lemma always_from_returning:
  assumes "\<And>h. always (returning pay s h) m" shows "always (return_inv L pay s) m"
  unfolding always_def
proof (intro allI impI)
  fix e and w :: "return_tables world" assume P: "return_inv L pay s (tabs w)"
  then have "returning pay s (xpart (tabs w)) (tabs w)" by (simp add: return_inv_def)
  with assms [of "xpart (tabs w)"] have after: "returning pay s (xpart (tabs w)) (tabs (snd (m e w)))" unfolding always_def by simp
  then have "exchanges_inv L (tabs (snd (m e w))) = exchanges_inv L (tabs w)" using exchanges_inv_cong by blast
  with after P show "return_inv L pay s (tabs (snd (m e w)))" by (simp add: return_inv_def)
qed

lemma always_from_trading:
  assumes "\<And>c. always (trading L c) m" shows "always (return_inv L pay s) m"
  unfolding always_def
proof (intro allI impI)
  fix e and w :: "return_tables world" assume P: "return_inv L pay s (tabs w)"
  then have "trading L (rpart (tabs w)) (tabs w)" by (simp add: return_inv_def trading_def)
  with assms [of "rpart (tabs w)"] have t: "trading L (rpart (tabs w)) (tabs (snd (m e w)))" unfolding always_def by simp
  then have "returns_inv pay (tabs (snd (m e w))) = returns_inv pay (tabs w)" "descends s (tabs (snd (m e w))) = descends s (tabs w)"
    by (simp_all add: trading_def rpart_def returns_inv_def descends_def)
  with P t show "return_inv L pay s (tabs (snd (m e w)))" by (simp add: return_inv_def trading_def)
qed

lemma always_rpc:
  "always P m \<Longrightarrow> always P (answer_with R m f)"
  "(\<And>q. always P (g q)) \<Longrightarrow> always P (with_request req g)"
  unfolding answer_with_def with_request_def by (intro always_shapes, assumption)+

lemmas service_always =
  always_from_returning [OF RequestReturn_always] always_from_returning [OF UpdateReturnStatus_always]
  always_from_returning [OF review_always(1)] always_from_returning [OF review_always(2)]
  always_from_returning [OF VerifyProduct_always] always_from_returning [OF TriggerRefund_always]
  always_from_trading [OF CreateExchange_always] always_from_trading [OF VerifyExchangeProduct_always]
  always_from_trading [OF LockExchangeQuote_always] always_from_trading [OF GetExchangeQuote_always]
  always_from_trading [OF ApplyExchangeToOrder_always] always_from_trading [OF ResolveExchangeMismatch_always]

lemma serve_request_always:
  assumes pay: "(sv_payment (rs_svc R) \<noteq> None) = pay"
  shows "always (return_inv (sv_lib (rs_svc R)) pay s) (serve_return R rq)"
proof (cases rq)
  case (RqStatus ctx q)
  show ?thesis unfolding RqStatus serve_return.simps UpdateReturnStatus_rpc_def
    by (intro always_void always_rpc service_always(2) pay)
next
  case (RqApprove ctx q)
  show ?thesis unfolding RqApprove serve_return.simps ApproveReturn_rpc_def
    by (intro always_void always_rpc always_guard always_bind always_plain service_always(3) pay)
next
  case (RqReject ctx q)
  show ?thesis unfolding RqReject serve_return.simps RejectReturn_rpc_def
    by (intro always_void always_rpc always_guard always_bind always_plain service_always(4) pay)
next
  case (RqRequest q)
  show ?thesis unfolding RqRequest serve_return.simps RequestReturn_rpc_def
    by (intro always_void always_rpc always_guard service_always(1))
next
  case (RqVerify q)
  show ?thesis unfolding RqVerify serve_return.simps VerifyProduct_rpc_def
    by (intro always_void always_rpc service_always(5))
next
  case (RqRefund i)
  show ?thesis unfolding RqRefund serve_return.simps ProcessRefund_def
    by (intro always_void always_rpc service_always(6))
qed (auto simp: CreateExchange_rpc_def VerifyExchangeProduct_rpc_def LockExchangeQuote_rpc_def GetExchangeQuote_rpc_def
    ApplyExchangeToOrder_rpc_def ResolveExchangeMismatch_rpc_def intro!: always_void always_rpc service_always(7-12))

lemmas serve_return_always = serve_request_always [OF refl]

interpretation return_calls: stable_operation "serve_return R rq"
    "return_inv (sv_lib (rs_svc R)) (sv_payment (rs_svc R) \<noteq> None) s"
  by unfold_locales (rule serve_return_always)

lemma no_returns_inv: "return_inv L pay (no_returns ds qs os) (no_returns ds qs os)"
  by (simp add: return_inv_def returns_inv_def exchanges_inv_def descends_def no_returns_def used_quotes_def)

lemma serve_return_inv:
  assumes "return_inv L pay s (tabs w)" and "sv_lib (rs_svc R) = L" "(sv_payment (rs_svc R) \<noteq> None) = pay"
    and run: "serve_return R rq e w = (r, w')"
  shows "return_inv L pay s (tabs w')"
  using alwaysD [OF serve_return_always [of R s rq] _ run] assms by blast

lemma return_reach_inv: "return_reach L pay t \<Longrightarrow> returns_inv pay t \<and> exchanges_inv L t"
proof (induction rule: return_reach.induct)
  case (start ds qs os)
  show ?case using no_returns_inv by (simp add: return_inv_def)
next
  case (request w R rq e r w')
  then have "return_inv L pay (tabs w) (tabs w)" by (simp add: return_inv_def descends_refl)
  from serve_return_inv [OF this request(2,3,4)] show ?case by (simp add: return_inv_def)
qed

end
