(* ===== verification/Return_Props.thy ===== *)
theory Return_Props
  imports Exchange_Trace Go_Amounts
begin

text \<open>
  What the return service guarantees: returns follow the table of statuses, money moves only for
  returns that are due a refund and a return is only completed once it did, a quote is used once,
  by its owner and in time, and a valuation is exact; and what it announces wrongly.
\<close>

section \<open>A sample service\<close>

text \<open>Every text is an identifier and every amount is stored as it is.\<close>

definition rsmp_lib :: return_lib where
  "rsmp_lib = \<lparr>rl_parse = (\<lambda>_. True), rl_uuid = (\<lambda>_. True), rl_decimal = Some, rl_rank = (\<lambda>s. int (length s)),
     rl_time = (\<lambda>_. None),
     rl_grpc = \<lparr>from_error = (\<lambda>er. case er of StatusError c m \<Rightarrow> Some (c, m) | _ \<Rightarrow> None), status_text = (\<lambda>c m. m)\<rparr>\<rparr>"

definition rsmp_order :: OrderPb where
  "rsmp_order = \<lparr>op_user = ''amy'', op_status = ''delivered '', op_order_status = [],
     op_items = [\<lparr>oi_id = ''i1'', oi_product = ''p1'', oi_quantity = 2, oi_unit = fint 50, oi_total = fint 100\<rparr>],
     op_created = [], op_updated = []\<rparr>"

definition rsmp_server :: return_server where
  "rsmp_server = \<lparr>rs_svc = \<lparr>sv_lib = rsmp_lib, sv_order = Some (\<lambda>_ _. Inr (Some rsmp_order)),
       sv_product = Some (\<lambda>_. Inr (Some \<lparr>pp_returnable = True, pp_exchangeable = True, pp_max_discount = fint 150,
         pp_name = ''Phone'', pp_description = [], pp_category = ''smartphone''\<rparr>)),
       sv_payment = Some \<lparr>pc_payment = (\<lambda>_. Inr (Some \<lparr>pm_id = ''pay1'', pm_amount = fint 100, pm_currency = ''INR''\<rparr>)),
         pc_refund = (\<lambda>_. Inr (Some \<lparr>cs_refund = ''ref1'', cs_status = ''success''\<rparr>))\<rparr>,
       sv_days = 7\<rparr>,
     rs_rfc3339 = itoa\<rparr>"

definition rsmp_env :: env where
  "rsmp_env = \<lparr>fault = (\<lambda>_. False), uuid_at = (\<lambda>n. CHR ''u'' # replicate n CHR ''x''), clock = 100,
     broker = (\<lambda>_. Acked), ctx_done = (\<lambda>_. False)\<rparr>"

definition rsmp_start :: "return_tables world" where
  "rsmp_start = \<lparr>tabs = no_returns [] [] [], aborted = False, nstmt = 0, nuuid = 0, nsend = 0, sent = []\<rparr>"

definition rsmp_serve :: "return_request \<Rightarrow> return_tables world \<Rightarrow> return_tables world" where
  "rsmp_serve rq w = snd (serve_return rsmp_server rq rsmp_env w)"

definition rsmp_reach :: "return_tables \<Rightarrow> bool" where
  "rsmp_reach t \<longleftrightarrow> return_reach rsmp_lib True t"

lemma rsmp_reach_start: "rsmp_reach (tabs rsmp_start)"
  by (simp add: rsmp_reach_def rsmp_start_def return_reach.start)

lemma rsmp_reach_serve: "rsmp_reach (tabs w) \<Longrightarrow> rsmp_reach (tabs (rsmp_serve rq w))"
  unfolding rsmp_serve_def rsmp_reach_def
  by (rule return_reach.request [of _ _ w rsmp_server rq rsmp_env]) (auto simp: prod_eq_iff rsmp_server_def)

text \<open>A return, requested, verified and refunded.\<close>

definition rsmp_requested :: "return_tables world" where
  "rsmp_requested = rsmp_serve (RqRequest (Some \<lparr>rd_order = ''o1'', rd_order_item = ''i1'', rd_item = [], rd_user = ''amy'',
     rd_reason = ''broken'', rd_type = []\<rparr>)) rsmp_start"

definition rsmp_verify :: "bool \<Rightarrow> return_request" where
  "rsmp_verify ok = RqVerify (Some \<lparr>vd_return = ''u'', vd_by = ''bob'', vd_condition = ''good'', vd_approved = ok, vd_images = [],
     vd_notes = []\<rparr>)"

definition rsmp_refunded :: "return_tables world" where
  "rsmp_refunded = rsmp_serve (rsmp_verify True) rsmp_requested"

text \<open>A quote, locked and used.\<close>

definition rsmp_locked :: "return_tables world" where
  "rsmp_locked = rsmp_serve (RqLock (Some \<lparr>cv_product = ''p1'', cv_category = [], cv_brand = ''b'', cv_model = ''m'', cv_variant = [],
     cv_answers = [], lq_user = ''amy'', lq_serial = []\<rparr>)) rsmp_start"

definition rsmp_applied :: "return_tables world" where
  "rsmp_applied = rsmp_serve (RqApply (Some \<lparr>ax_quote = ''u'', ax_order = ''o1'', ax_item = [],
     ax_user = ''amy''\<rparr>)) rsmp_locked"

lemma rsmp_reaches: "rsmp_reach (tabs rsmp_requested)" "rsmp_reach (tabs rsmp_refunded)" "rsmp_reach (tabs rsmp_locked)"
  "rsmp_reach (tabs rsmp_applied)"
  unfolding rsmp_refunded_def rsmp_requested_def rsmp_applied_def rsmp_locked_def
  by (intro rsmp_reach_serve rsmp_reach_start)+

lemma rsmp_refunded_row: "map (\<lambda>r. (rt_id r, rt_status r, rt_type r)) (returns (tabs rsmp_refunded)) = [(''u'', ''COMPLETED'', ''RETURN'')]"
  by code_simp

lemma rsmp_exchange: "map (\<lambda>x. (xc_user x, xc_quote x)) (exchanges (tabs rsmp_applied)) = [(''amy'', ''u'')]"
  by code_simp

section \<open>Returns\<close>




text \<open>
  C35. While the payment service is configured, a return of type \<open>RETURN\<close> is only completed once a
  refund was ordered under the key of this return and its order, and answered with success;
  whatever was requested and whatever failed. The amount ordered is that of the return, unless
  this is zero or less (then the service orders the whole payment).
\<close>

theorem completed_return_was_refunded:
  assumes "return_reach L True t" and "r \<in> set (returns t)" and "rt_status r = ''COMPLETED''" and "rt_type r = ''RETURN''"
  shows "\<exists>q a. (q, Inr (Some a)) \<in> set (refund_log t) \<and> cf_key q = ''refund_'' @ rt_id r @ ''_'' @ rt_order r \<and>
    refund_succeeded a \<and> (fle (rt_refund r) fzero \<or> cf_amount q = rt_refund r)"
  using return_reach_inv [OF assms(1)] assms(2-4) by (auto simp: returns_inv_def row_ok_def refunded_def refund_key_def)

theorem completed_return_was_refunded_witness:
  "\<exists>r q a. r \<in> set (returns (tabs rsmp_refunded)) \<and> (q, Inr (Some a)) \<in> set (refund_log (tabs rsmp_refunded)) \<and>
    cf_key q = ''refund_'' @ rt_id r @ ''_'' @ rt_order r \<and> refund_succeeded a"
proof -
  obtain r where r: "returns (tabs rsmp_refunded) = [r]" "rt_status r = ''COMPLETED''" "rt_type r = ''RETURN''"
    using rsmp_refunded_row by auto
  with completed_return_was_refunded [OF rsmp_reaches(2) [unfolded rsmp_reach_def], of r]
  show ?thesis by auto
qed



section \<open>Exchanges\<close>

lemma used_once:
  "distinct (used_quotes xs) \<Longrightarrow> x \<in> set xs \<Longrightarrow> y \<in> set xs \<Longrightarrow> xc_quote x = xc_quote y \<Longrightarrow> xc_quote x \<noteq> [] \<Longrightarrow> x = y"
  by (induction xs) (auto simp: used_quotes_def image_iff split: if_splits)

text \<open>
  C25. A quote is used once: in every reachable state an exchange that used a quote belongs to the
  user and product of the quote, was made before the quote expired, half an hour after it was
  given, and has its discount as the database stores it; the quote is marked as applied, its
  device was not disqualified, and no other exchange used it.
\<close>

theorem quote_is_used_once:
  assumes "return_reach L pay t" and x: "x \<in> set (exchanges t)" "xc_quote x \<noteq> []"
  shows "(\<exists>q \<in> set (quotes t). qu_id q = xc_quote x \<and> qu_status q = ''APPLIED'' \<and> qu_user q = xc_user x \<and>
      qu_product q = xc_product x \<and> \<not> qu_disqualified q \<and> xc_created x < qu_created q + 30 * 60 * 10 ^ 9 \<and>
      rl_decimal L (qu_discount q) = Some (xc_estimated x)) \<and>
    (\<forall>y \<in> set (exchanges t). xc_quote y = xc_quote x \<longrightarrow> y = x)"
proof
  from return_reach_inv [OF assms(1)] have inv: "exchanges_inv L t" by simp
  with x obtain q where "q \<in> set (quotes t)" "used_by L q x" by (auto simp: exchanges_inv_def exchange_ok_def)
  moreover from this inv have "quote_ok (exchanges t) q" by (simp add: exchanges_inv_def)
  ultimately show "\<exists>q \<in> set (quotes t). qu_id q = xc_quote x \<and> qu_status q = ''APPLIED'' \<and> qu_user q = xc_user x \<and>
      qu_product q = xc_product x \<and> \<not> qu_disqualified q \<and> xc_created x < qu_created q + 30 * 60 * 10 ^ 9 \<and>
      rl_decimal L (qu_discount q) = Some (xc_estimated x)"
    by (intro bexI [of _ q]) (auto simp: used_by_def quote_ok_def half_hour_def)
  show "\<forall>y \<in> set (exchanges t). xc_quote y = xc_quote x \<longrightarrow> y = x"
    using inv x used_once [of "exchanges t"] by (auto simp: exchanges_inv_def)
qed

theorem quote_is_used_once_witness:
  "\<exists>x q. x \<in> set (exchanges (tabs rsmp_applied)) \<and> q \<in> set (quotes (tabs rsmp_applied)) \<and> qu_id q = xc_quote x \<and>
     qu_status q = ''APPLIED'' \<and> qu_user q = ''amy''"
proof -
  obtain x where x: "exchanges (tabs rsmp_applied) = [x]" "xc_user x = ''amy''" "xc_quote x = ''u''" using rsmp_exchange by auto
  with quote_is_used_once [OF rsmp_reaches(4) [unfolded rsmp_reach_def], of x] show ?thesis by auto
qed

lemma put_event_run:
  assumes "put_event msg ev e w = (Inr u, w')"
  shows "\<exists>row. return_outbox (tabs w') = (return_outbox (tabs w))\<lparr>ob_rows := ob_rows (return_outbox (tabs w)) @ [row]\<rparr> \<and>
    announces ev row \<and> exchanges (tabs w') = exchanges (tabs w)"
proof -
  from assms obtain w2 where ins: "Insert ev e (with_tabs (return_outbox (tabs w)) w) = (Inr u, w2)"
    and w': "w' = with_tabs ((tabs w)\<lparr>return_outbox := tabs w2\<rparr>) w2"
    by (auto simp: put_event_def run_ok)
  from Insert_run [OF ins] w' show ?thesis by auto
qed

lemma outbox_event_for_run:
  "outbox_event_for a agg ty topic ev e w = (Inr row, w') \<Longrightarrow>
     ob_event_type row = ty \<and> ob_aggregate_id row = agg \<and> EventData (ob_payload row) = ev"
  by (auto simp: outbox_event_for_def NewEventEnvelopeWithAggregate_def run_ok split: option.splits)

lemma resolve_tx_run:
  assumes "UpdateExchangeStatusAndDiscountWithOutbox L i st final difference (Some ev) e w = (Inr u, w')"
  shows "(\<forall>y \<in> set (exchanges (tabs w')). xc_id y = i \<longrightarrow> xc_status y = st) \<and>
    (\<exists>row. ob_rows (return_outbox (tabs w')) = ob_rows (return_outbox (tabs w)) @ [row] \<and> announces ev row)"
proof -
  let ?f = "\<lambda>t. if i \<in> xc_id ` set (exchanges t) \<and> rl_decimal L difference = None then Inl (PgError ''22003'' [])
                 else update_exchange L i final (resolved_exchange L st difference (clock e)) t"
  let ?w = "w\<lparr>nstmt := Suc (nstmt w), aborted := False\<rparr>"
  from WithTransaction_ok [OF assms [unfolded UpdateExchangeStatusAndDiscountWithOutbox_def]] obtain w2 where
    tx: "bind time_now (\<lambda>now.
        seq (on_error
              (sql (with_ids L [i] (\<lambda>t.
                 if i \<in> xc_id ` set (exchanges t) \<and> rl_decimal L difference = None then Inl (PgError ''22003'' [])
                 else update_exchange L i final (resolved_exchange L st difference now) t)))
              (WrapError ''failed to update exchange status and discount: ''))
         (put_event ''failed to insert outbox event: '' ev)) e ?w = (Inr u, w2)"
    and t2: "tabs w' = tabs w2"
    unfolding option.case by blast
  then obtain w1 u1 where s1: "sql (with_ids L [i] ?f) e ?w = (Inr u1, w1)"
    and ev: "put_event ''failed to insert outbox event: '' ev e w1 = (Inr u, w2)"
    unfolding bind_ok seq_ok on_error_ok time_now_ok by auto
  from with_ids_effect [OF sql_effect [OF s1]]
  have upd: "update_exchange L i final (resolved_exchange L st difference (clock e)) (tabs w) = Inr (u1, tabs w1)"
    by (simp split: if_splits)
  have "(\<forall>y \<in> set (exchanges t). xc_id y = i \<longrightarrow> xc_status y = st) \<and> return_outbox t = return_outbox (tabs w)"
    if "update_exchange L i final (resolved_exchange L st difference (clock e)) (tabs w) = Inr (u1, t)" for t
    using that by (auto simp: update_exchange_def upd_where_def resolved_exchange_def split: if_splits sum.splits)
  from this [OF upd] put_event_run [OF ev] t2 show ?thesis by auto
qed

text \<open>
  A declined exchange is announced as completed: whenever a user declines the revised value of
  a device, the exchange is cancelled, and the event the same transaction writes for the other
  services says \<open>ExchangeCompleted\<close>, with a discount of zero.
\<close>

theorem declined_exchange_is_announced_completed:
  assumes run: "ResolveExchangeMismatch S (Some q) e w = (Inr x, w')"
    and action: "ToUpper (TrimSpace (rm_action q)) = ''DECLINE_AND_CANCEL''"
  shows "xc_status x = ''CANCELLED'' \<and> (\<forall>y \<in> set (exchanges (tabs w')). xc_id y = xc_id x \<longrightarrow> xc_status y = ''CANCELLED'') \<and>
    (\<exists>row ev. ob_rows (return_outbox (tabs w')) = ob_rows (return_outbox (tabs w)) @ [row] \<and> ob_aggregate_id row = xc_id x \<and>
       ob_event_type row = ''ExchangeCompleted'' \<and> EventData (ob_payload row) = EvExchangeCompleted ev \<and> xce_discount ev = fzero)"
proof -
  have res: "resolution (ToUpper (TrimSpace (rm_action q))) y = Some (''CANCELLED'', fzero, xc_estimated y)" for y :: Exchange
    unfolding action by (simp add: resolution_def)
  from run obtain y w1 ev w2 u w3 where
    got: "GetExchangeByID (sv_lib S) (TrimSpace (rm_exchange q)) e w = (Inr y, w1)"
    and built: "BuildExchangeCompletedOutboxEvent y fzero e w1 = (Inr ev, w2)"
    and upd: "UpdateExchangeStatusAndDiscountWithOutbox (sv_lib S) (xc_id y) ''CANCELLED'' fzero (xc_estimated y) (Some ev) e w2 = (Inr u, w3)"
    and x: "x = y\<lparr>xc_status := ''CANCELLED'', xc_final := fzero, xc_difference := xc_estimated y, xc_updated := clock e\<rparr>" "w' = w3"
    unfolding ResolveExchangeMismatch_def option.case res prod.case by (auto simp: run_ok)
  have "tabs w1 = tabs w" using got GetExchangeByID_read_only by (blast dest: read_onlyD)
  moreover have "tabs w2 = tabs w1" using built exchange_events_read_only(3) by (blast dest: read_onlyD)
  moreover note resolve_tx_run [OF upd] outbox_event_for_run [OF built [unfolded BuildExchangeCompletedOutboxEvent_def]]
  ultimately show ?thesis using x by (auto simp: announces_def)
qed

definition rsmp_revised :: "return_tables world" where
  "rsmp_revised = rsmp_start\<lparr>tabs := (tabs rsmp_start)\<lparr>exchanges := [\<lparr>xc_id = ''x1'', xc_user = ''amy'', xc_brand = ''B'', xc_model = ''M'',
     xc_variant = [], xc_serial = [], xc_base = Fin 90, xc_estimated = Fin 80, xc_final = Fin 60, xc_difference = Fin 0,
     xc_status = ''REVALUATED'', xc_quote = [], xc_product = ''p1'', xc_catalog = [], xc_created = 1, xc_updated = 2\<rparr>]\<rparr>\<rparr>"

definition rsmp_decline :: ResolveExchangeMismatchDTO where
  "rsmp_decline = \<lparr>rm_exchange = ''x1'', rm_action = ''decline_and_cancel''\<rparr>"

definition answered :: "go_error + 'a \<Rightarrow> bool" where
  "answered r = (case r of Inl _ \<Rightarrow> False | Inr _ \<Rightarrow> True)"

theorem declined_exchange_is_announced_completed_witness:
  "\<exists>x w' row. ResolveExchangeMismatch (rs_svc rsmp_server) (Some rsmp_decline) rsmp_env rsmp_revised = (Inr x, w') \<and>
     xc_status x = ''CANCELLED'' \<and> ob_rows (return_outbox (tabs w')) = [row] \<and> ob_event_type row = ''ExchangeCompleted''"
proof -
  obtain r w' where run: "ResolveExchangeMismatch (rs_svc rsmp_server) (Some rsmp_decline) rsmp_env rsmp_revised = (r, w')" by fastforce
  have "answered (fst (ResolveExchangeMismatch (rs_svc rsmp_server) (Some rsmp_decline) rsmp_env rsmp_revised))" by code_simp
  then obtain x where r: "r = Inr x" unfolding run by (auto simp: answered_def split: sum.splits)
  have "ToUpper (TrimSpace (rm_action rsmp_decline)) = ''DECLINE_AND_CANCEL''" by code_simp
  from declined_exchange_is_announced_completed [OF run [unfolded r] this] run r show ?thesis
    by (auto simp: rsmp_revised_def rsmp_start_def no_returns_def)
qed

section \<open>Valuation\<close>

lemma fint_ops:
  assumes "\<bar>a\<bar> < 2 ^ 53" "\<bar>b\<bar> < 2 ^ 53"
  shows "fadd (fint a) (fint b) = fint (a + b)" "fsub (fint a) (fint b) = fint (a - b)" "flt (fint a) (fint b) \<longleftrightarrow> a < b"
  unfolding fint_exact [OF assms(1)] fint_exact [OF assms(2)] by (simp_all add: fsub_def fint_def)

lemma total_whole:
  assumes "\<forall>n \<in> set ns. 0 \<le> n" and "0 \<le> s" and "s + sum_list ns < 2 ^ 53"
  shows "foldl fadd (fint s) (map fint ns) = fint (s + sum_list ns)"
  using assms
proof (induction ns arbitrary: s)
  case (Cons n ns)
  then have "0 \<le> sum_list ns" by (auto intro: sum_list_nonneg)
  with Cons show ?case using fint_ops(1) [of s n] by (simp add: add.assoc)
qed simp

text \<open>A detail is what an option of a question says, the one its two keys name.\<close>

definition offered :: "ExchangeDiagnosticQuestion list \<Rightarrow> ExchangeDeductionDetailDTO \<Rightarrow> bool" where
  "offered qs d \<longleftrightarrow> (\<exists>q \<in> set qs. \<exists>p \<in> set (eq_options q). dd_question d @ '':'' @ dd_option d = eq_key q @ '':'' @ eo_key p \<and>
     dd_amount d = eo_deduction p \<and> dd_fatal d = eo_fatal p)"

definition given_keys :: "ExchangeUserAnswerDTO \<Rightarrow> string \<times> string" where
  "given_keys a = (TrimSpace (ua_question a), TrimSpace (ua_option a))"

lemma option_at_known:
  "option_at qs k = Some p \<Longrightarrow> \<exists>q \<in> set qs. p \<in> set (eq_options q) \<and> k = eq_key q @ '':'' @ eo_key p"
  by (auto simp: option_at_def option_keys_def dest!: map_of_SomeD)

lemma check_answers_details:
  "check_answers qs seen as = Inr ds \<Longrightarrow> distinct (map dd_question ds) \<and> dd_question ` set ds \<inter> set seen = {} \<and>
     dd_question ` set ds \<subseteq> eq_key ` set qs \<and> (\<forall>d \<in> set ds. offered qs d) \<and>
     map (\<lambda>d. Some (dd_question d, dd_option d)) ds = map (map_option given_keys) as"
proof (induction qs seen as arbitrary: ds rule: check_answers.induct)
  case (3 qs seen a as)
  let ?q = "TrimSpace (ua_question a)" and ?k = "TrimSpace (ua_option a)"
  from 3(2) obtain p ds' where p: "option_at qs (?q @ '':'' @ ?k) = Some p" and q: "?q \<noteq> []" "?q \<in> set (map eq_key qs)" "?q \<notin> set seen"
    and rest: "check_answers qs (?q # seen) as = Inr ds'" and ds: "ds = detail_of ?q ?k p # ds'"
    by (auto simp: Let_def split: if_splits option.splits sum.splits)
  from 3(1) [OF refl refl q(1) _ _ p rest] q have IH: "distinct (map dd_question ds')" "dd_question ` set ds' \<inter> set (?q # seen) = {}"
    "dd_question ` set ds' \<subseteq> eq_key ` set qs" "\<forall>d \<in> set ds'. offered qs d"
    "map (\<lambda>d. Some (dd_question d, dd_option d)) ds' = map (map_option given_keys) as" by auto
  have "offered qs (detail_of ?q ?k p)" using option_at_known [OF p] by (auto simp: offered_def detail_of_def)
  moreover have "map (\<lambda>d. Some (dd_question d, dd_option d)) ds = map (map_option given_keys) (Some a # as)"
    unfolding ds list.map(2) IH(5) by (simp only: detail_of_def given_keys_def option.map ExchangeDeductionDetailDTO.simps)
  ultimately show ?case using IH(1-4) q unfolding ds by (simp add: detail_of_def)
qed auto

lemma whole_amounts:
  "\<forall>d \<in> set ds. \<exists>n. 0 \<le> n \<and> n \<le> billion \<and> f d = fint n \<Longrightarrow>
     \<exists>ns. map f ds = map fint ns \<and> (\<forall>n \<in> set ns. 0 \<le> n) \<and> sum_list ns \<le> int (length ds) * billion"
proof (induction ds)
  case (Cons d ds)
  then obtain n ns where "f d = fint n" "0 \<le> n" "n \<le> billion" "map f ds = map fint ns" "\<forall>n \<in> set ns. 0 \<le> n"
    "sum_list ns \<le> int (length ds) * billion" by auto
  then show ?case by (intro exI [of _ "n # ns"]) (simp add: algebra_simps)
qed simp

lemma capped_whole:
  assumes "0 \<le> b" "b \<le> billion" "0 \<le> m" "m \<le> billion" "0 \<le> s" "s < 2 ^ 52"
  shows "capped_discount (fint b) (fint s) (Some (fint m)) = fint (if 0 < m then min m (max 0 (b - s)) else max 0 (b - s))"
proof -
  have z: "fzero = fint 0" by (simp add: fint_exact)
  have "\<bar>b\<bar> < 2 ^ 53" "\<bar>s\<bar> < 2 ^ 53" "\<bar>m\<bar> < 2 ^ 53" "\<bar>b - s\<bar> < 2 ^ 53" using assms by (auto simp: billion_def)
  note ops = fint_ops [OF this(1,2)] fint_ops(3) [OF this(4), of 0] fint_ops(3) [of 0 m, OF _ this(3)] fint_ops(3) [OF this(3), of "b - s", OF this(4)]
    fint_ops(3) [OF this(3), of 0]
  show ?thesis unfolding capped_discount_def z Let_def ops(2) using ops(4-) by (auto simp: min_def max_def)
qed

text \<open>
  C38. The valuation of a device is exact: for prices in whole currency units up to \<open>10^11\<close> the
  \<open>float64\<close> computation gives the exact base value less the exact sum of the deductions, never
  below zero and never above the limit of the product where it has one. The deductions are those
  of the options the answers name, one per question: an offer is only made when every question
  was answered once and no option was fatal; otherwise the discount is zero.
\<close>

theorem valuation_is_exact:
  assumes run: "valuation_of qs answers (fint b) (fint m) = Inr v"
    and price: "\<forall>q \<in> set qs. \<forall>p \<in> set (eq_options q). \<exists>n. 0 \<le> n \<and> n \<le> billion \<and> eo_deduction p = fint n"
    and size: "length qs \<le> 1000" "0 \<le> b" "b \<le> billion" "0 \<le> m" "m \<le> billion"
  shows "vr_base v = fint b \<and> (if vr_eligible v
    then map (\<lambda>d. Some (dd_question d, dd_option d)) (vr_details v) = map (map_option given_keys) answers \<and>
      (\<forall>d \<in> set (vr_details v). offered qs d) \<and> distinct (map dd_question (vr_details v)) \<and> dd_question ` set (vr_details v) = eq_key ` set qs \<and>
      (\<forall>d \<in> set (vr_details v). \<not> dd_fatal d) \<and>
      (\<exists>ns. map dd_amount (vr_details v) = map fint ns \<and> vr_deductions v = fint (sum_list ns) \<and>
         vr_discount v = fint (if 0 < m then min m (max 0 (b - sum_list ns)) else max 0 (b - sum_list ns)))
    else vr_discount v = fint 0 \<and> (\<exists>d. vr_details v = [d] \<and> offered qs d \<and> dd_fatal d))"
proof -
  from run obtain ds where ds: "check_answers qs [] answers = Inr ds" and all: "find (\<lambda>q. eq_key q \<notin> dd_question ` set ds) qs = None"
    and v: "v = (case find dd_fatal ds of
       Some d \<Rightarrow> \<lparr>vr_eligible = False, vr_reason = fatal_reason d, vr_base = fint b, vr_deductions = fzero,
                  vr_discount = fzero, vr_details = [d\<lparr>dd_reason := fatal_reason d\<rparr>]\<rparr>
     | None \<Rightarrow> \<lparr>vr_eligible = True, vr_reason = [], vr_base = fint b, vr_deductions = total_of_amounts (map dd_amount ds),
                vr_discount = capped_discount (fint b) (total_of_amounts (map dd_amount ds)) (Some (fint m)), vr_details = ds\<rparr>)"
    by (auto simp: valuation_of_def split: sum.splits option.splits)
  have z: "fzero = fint 0" by (simp add: fint_exact)
  note det = check_answers_details [OF ds]
  have "length ds = card (dd_question ` set ds)" using det distinct_card [of "map dd_question ds"] by simp
  also have "\<dots> \<le> card (eq_key ` set qs)" using det by (intro card_mono) auto
  also have "\<dots> \<le> length qs" by (metis card_image_le card_length finite_set le_trans)
  finally have len: "length ds \<le> 1000" using size by simp
  from det have known: "\<forall>d \<in> set ds. offered qs d" by blast
  with price have "\<forall>d \<in> set ds. \<exists>n. 0 \<le> n \<and> n \<le> billion \<and> dd_amount d = fint n" unfolding offered_def by metis
  from whole_amounts [OF this] obtain ns where ns: "map dd_amount ds = map fint ns" "\<forall>n \<in> set ns. 0 \<le> n"
    "sum_list ns \<le> int (length ds) * billion" by blast
  have small: "0 \<le> sum_list ns" "sum_list ns < 2 ^ 52" using ns len by (auto simp: billion_def intro: sum_list_nonneg)
  have total: "total_of_amounts (map dd_amount ds) = fint (sum_list ns)"
    unfolding total_of_amounts_def ns(1) z using total_whole [of ns 0] ns(2) small by simp
  show ?thesis
  proof (cases "find dd_fatal ds")
    case None
    with all det have "dd_question ` set ds = eq_key ` set qs" "\<forall>d \<in> set ds. \<not> dd_fatal d" by (auto simp: find_None_iff)
    with det ns(1) total capped_whole [OF size(2-5) small] show ?thesis unfolding v None by auto
  next
    case (Some d)
    then have "d \<in> set ds" "dd_fatal d" by (auto dest: find_Some_in simp: find_Some_iff)
    moreover from this known have "offered qs d" by blast
    ultimately show ?thesis using z unfolding v Some by (simp add: offered_def)
  qed
qed

definition rsmp_question :: ExchangeDiagnosticQuestion where
  "rsmp_question = \<lparr>eq_id = ''q1'', eq_category = ''SMARTPHONE'', eq_key = ''SCREEN'', eq_text = [], eq_order = 0, eq_created = 0,
     eq_options = [\<lparr>eo_id = ''e1'', eo_question = ''q1'', eo_key = ''CRACK'', eo_label = [], eo_deduction = fint 80, eo_fatal = False,
       eo_reason = [], eo_order = 0, eo_created = 0\<rparr>]\<rparr>"

theorem valuation_is_exact_witness:
  "\<exists>v. valuation_of [rsmp_question] [Some \<lparr>ua_question = ''SCREEN'', ua_option = ''CRACK ''\<rparr>] (fint 200) (fint 150) = Inr v \<and>
     vr_eligible v \<and> (\<exists>n. fint n = fint 80 \<and> vr_discount v = fint (min 150 (max 0 (200 - n))))"
proof -
  let ?run = "valuation_of [rsmp_question] [Some \<lparr>ua_question = ''SCREEN'', ua_option = ''CRACK ''\<rparr>] (fint 200) (fint 150)"
  have "answered ?run \<and> (case ?run of Inr v \<Rightarrow> vr_eligible v \<and> map dd_amount (vr_details v) = [fint 80] | Inl _ \<Rightarrow> False)" by code_simp
  then obtain v where run: "?run = Inr v" and v: "vr_eligible v" "map dd_amount (vr_details v) = [fint 80]"
    by (auto split: sum.splits)
  have "\<forall>q \<in> set [rsmp_question]. \<forall>p \<in> set (eq_options q). \<exists>n. 0 \<le> n \<and> n \<le> billion \<and> eo_deduction p = fint n"
    by (auto simp: rsmp_question_def billion_def intro!: exI [of _ 80])
  from valuation_is_exact [OF run this] v(1) obtain ns where "map dd_amount (vr_details v) = map fint ns"
    "vr_discount v = fint (min 150 (max 0 (200 - sum_list ns)))" by (auto simp: billion_def)
  with v(2) have "\<exists>n. fint n = fint 80 \<and> vr_discount v = fint (min 150 (max 0 (200 - n)))" by (cases ns) auto
  with run v show ?thesis by blast
qed

section \<open>Reviews\<close>

text \<open>
  Nobody reviews the own return: a call in the name of the user who requested a return that
  asks for its approval or rejection ends with an error and changes nothing, whatever the state of
  the return and whatever fails.
\<close>

theorem own_return_is_not_reviewed:
  assumes "return_reach L pay (tabs w)" and r: "r \<in> set (returns (tabs w))" "rt_id r = TrimSpace i"
    and user: "GetUserID ctx = rt_user r" "rt_user r \<noteq> []" and st: "st = ''APPROVED'' \<or> st = ''REJECTED''"
  shows "tabs (snd (UpdateReturnStatus S ctx i st args e w)) = tabs w \<and>
    (\<exists>er. fst (UpdateReturnStatus S ctx i st args e w) = Inl er)"
proof -
  let ?P = "\<lambda>t. t = tabs w"
  have key: "keyed rt_id (returns (tabs w))" using return_reach_inv [OF assms(1)] by (simp add: returns_inv_def)
  have own: "own_review st (reviewer_of ctx args) x"
    if "\<exists>q \<in> set (returns (tabs w)). rt_id q = TrimSpace i \<and> shows_row x q" for x :: Return
  proof -
    from that obtain q where q: "q \<in> set (returns (tabs w))" "rt_id q = TrimSpace i" "shows_row x q" by blast
    with keyed_unique [OF key q(1) r(1)] r(2) have "rt_user x = rt_user r" by (simp add: shows_row_def)
    with user st show ?thesis by (auto simp: own_review_def reviewer_of_def)
  qed
  have "outcomes ?P (UpdateReturnStatus S ctx i st args) (\<lambda>_ _. False) ?P"
    unfolding UpdateReturnStatus_def
  proof (intro outcomes_guard outcomes_bind [OF GetReturnByID_outcomes])
    fix x :: Return assume "\<not> own_review st (reviewer_of ctx args) x"
    with own [of x] have none: "\<not> (\<exists>q \<in> set (returns (tabs w)). rt_id q = TrimSpace i \<and> shows_row x q)" by blast
    show "outcomes (\<lambda>t. t = tabs w \<and> (\<exists>q \<in> set (returns t). rt_id q = TrimSpace i \<and> shows_row x q))
        (change_return S (TrimSpace i) st (reviewer_of ctx args) (reason_of args) x) (\<lambda>_ _. False) ?P"
      by (rule outcomes_pure [where F = False]) (use none in auto)
  qed simp_all
  note refused = this
  obtain x w' where run: "UpdateReturnStatus S ctx i st args e w = (x, w')" by fastforce
  from outcomesD [OF refused refl run] run show ?thesis by (cases x) auto
qed

theorem own_return_is_not_reviewed_witness:
  "tabs (snd (UpdateReturnStatus (rs_svc rsmp_server) \<lparr>ctx_auth_user = Some ''amy'', ctx_log_user = None, ctx_meta_user = None\<rparr>
     ''u'' ''APPROVED'' [] rsmp_env rsmp_requested)) = tabs rsmp_requested"
proof -
  have "map (\<lambda>r. (rt_id r, rt_user r)) (returns (tabs rsmp_requested)) = [(''u'', ''amy'')]" by code_simp
  then obtain r where r: "r \<in> set (returns (tabs rsmp_requested))" "rt_id r = ''u''" "rt_user r = ''amy''" by auto
  moreover have "TrimSpace ''u'' = ''u''" by code_simp
  moreover have "GetUserID \<lparr>ctx_auth_user = Some ''amy'', ctx_log_user = None, ctx_meta_user = None\<rparr> = ''amy''"
    by (simp add: GetUserID_def nonempty_def)
  ultimately show ?thesis
    using own_return_is_not_reviewed [OF rsmp_reaches(1) [unfolded rsmp_reach_def] r(1), of "''u''"
      "\<lparr>ctx_auth_user = Some ''amy'', ctx_log_user = None, ctx_meta_user = None\<rparr>" "''APPROVED''" "rs_svc rsmp_server" "[]" rsmp_env]
    by simp
qed

end
