(* ===== verification/Redis_Props.thy ===== *)
theory Redis_Props
  imports Redis_Client
begin

text \<open>
  The lock of \<open>pkg/redis\<close>: \<open>SetNX\<close> with a token takes it, \<open>ReleaseLock\<close> gives it back to the
  owner of the token.
\<close>

datatype lock_call = TryLock (token: string) int | Unlock (token: string)

fun lock_step :: "string \<Rightarrow> lock_call \<Rightarrow> bool redis_cmd" where
  "lock_step k (TryLock v ttl) = SetNX True k v ttl"
| "lock_step k (Unlock v) = ReleaseLock True k v"

text \<open>Calls of other clients, each in its own environment; the results in order.\<close>

fun lock_calls :: "string \<Rightarrow> (env \<times> lock_call) list \<Rightarrow> redis world \<Rightarrow> (go_error + bool) list \<times> redis world" where
  "lock_calls k [] w = ([], w)"
| "lock_calls k ((e, c) # cs) w =
     (case lock_step k c e w of (r, w1) \<Rightarrow> case lock_calls k cs w1 of (rs, w2) \<Rightarrow> (r # rs, w2))"

lemma command_cases:
  assumes "command True f e w = (r, w')"
  shows "tabs w' = tabs w \<and> (\<exists>er. r = Inl er) \<or> (\<exists>x s. f (clock e) (tabs w) = Inr (x, s) \<and> r = Inr x \<and> tabs w' = s)"
  using assms by (auto simp: command_def db_simps Let_def split: if_splits sum.splits)

lemma held_step:
  assumes "tabs w k = Some (v, Some t)" and "clock e < t" and "token c \<noteq> v" and "lock_step k c e w = (r, w')"
  shows "tabs w' k = Some (v, Some t) \<and> r \<noteq> Inr True"
proof -
  have l: "live (clock e) (tabs w) k = Some v" using assms(1,2) by (simp add: live_def)
  show ?thesis
  proof (cases c)
    case (TryLock u ttl)
    with assms(4) have "command True (\<lambda>now s. if ttl < - 1 then Inl (ErrorString ''ERR invalid expire time'')
        else if live now s k \<noteq> None then Inr (False, s) else Inr (True, set_key k u ttl now s)) e w = (r, w')"
      by (simp add: SetNX_def)
    from command_cases [OF this] l assms(1) show ?thesis by (auto split: if_splits)
  next
    case (Unlock u)
    with assms(4) have "command True (\<lambda>now s. if live now s k = Some u then Inr (True, s(k := None)) else Inr (False, s)) e w = (r, w')"
      by (simp add: ReleaseLock_def)
    from command_cases [OF this] l assms(1,3) Unlock show ?thesis by (auto split: if_splits)
  qed
qed

lemma held_calls:
  assumes "tabs w k = Some (v, Some t)" and "\<forall>(e, c) \<in> set cs. clock e < t \<and> token c \<noteq> v" and "lock_calls k cs w = (rs, w')"
  shows "tabs w' k = Some (v, Some t) \<and> Inr True \<notin> set rs"
  using assms
proof (induction cs arbitrary: w rs)
  case (Cons ec cs)
  obtain e c where ec: "ec = (e, c)" by fastforce
  obtain r w1 where r: "lock_step k c e w = (r, w1)" by fastforce
  obtain rs1 w2 where rs1: "lock_calls k cs w1 = (rs1, w2)" by fastforce
  have "clock e < t" "token c \<noteq> v" using Cons.prems(2) ec by auto
  note step = held_step [OF Cons.prems(1) this r]
  with Cons.IH [of w1 rs1] Cons.prems(2,3) r rs1 ec show ?case by auto
qed simp

text \<open>
  A lock is exclusive while it is held: until its time has passed, no other token takes it or
  releases it, and its owner can release it.
\<close>

theorem lock_is_exclusive:
  assumes take: "SetNX True k v ttl e w = (Inr True, w1)" and "0 < ttl"
    and "\<forall>(e', c) \<in> set cs. clock e' < clock e + millis ttl \<and> token c \<noteq> v" and run: "lock_calls k cs w1 = (rs, w2)"
    and "fault_free e2" and "clock e2 < clock e + millis ttl"
  shows "Inr True \<notin> set rs \<and> fst (ReleaseLock True k v e2 w2) = Inr True"
proof -
  from command_cases [OF take [unfolded SetNX_def]] assms(2) have "tabs w1 = (tabs w)(k \<mapsto> (v, Some (clock e + millis ttl)))"
    by (auto simp: set_key_def split: if_splits)
  then have "tabs w1 k = Some (v, Some (clock e + millis ttl))" by simp
  note held = held_calls [OF this assms(3) run]
  then have "live (clock e2) (tabs w2) k = Some v" using assms(6) by (simp add: live_def)
  with held assms(5) show ?thesis by (simp add: ReleaseLock_def command_def db_simps Let_def)
qed

definition lock_env :: "int \<Rightarrow> env" where
  "lock_env now = \<lparr>fault = (\<lambda>_. False), uuid_at = (\<lambda>_. []), clock = now, broker = (\<lambda>_. Acked), ctx_done = (\<lambda>_. False)\<rparr>"

definition lock_world :: "redis world" where
  "lock_world = \<lparr>tabs = Map.empty, aborted = False, nstmt = 0, nuuid = 0, nsend = 0, sent = []\<rparr>"

definition lock_others :: "(env \<times> lock_call) list" where
  "lock_others = [(lock_env 5, TryLock ''b'' 1000), (lock_env 6, Unlock ''b'')]"

theorem lock_is_exclusive_witness:
  "fst (lock_calls ''k'' lock_others (snd (SetNX True ''k'' ''a'' 5000000 (lock_env 0) lock_world))) = [Inr False, Inr False] \<and>
   fst (ReleaseLock True ''k'' ''a'' (lock_env 9)
     (snd (lock_calls ''k'' lock_others (snd (SetNX True ''k'' ''a'' 5000000 (lock_env 0) lock_world))))) = Inr True"
proof -
  let ?w1 = "snd (SetNX True ''k'' ''a'' 5000000 (lock_env 0) lock_world)"
  have "fst (SetNX True ''k'' ''a'' 5000000 (lock_env 0) lock_world) = Inr True" by code_simp
  then have take: "SetNX True ''k'' ''a'' 5000000 (lock_env 0) lock_world = (Inr True, ?w1)" by (simp add: prod_eq_iff)
  have "\<forall>(e', c) \<in> set lock_others. clock e' < clock (lock_env 0) + millis 5000000 \<and> token c \<noteq> ''a''" by code_simp
  moreover have "fault_free (lock_env 9)" "clock (lock_env 9) < clock (lock_env 0) + millis 5000000"
    by (simp_all add: fault_free_def lock_env_def millis_def)
  moreover have "fst (lock_calls ''k'' lock_others ?w1) = [Inr False, Inr False]" by code_simp
  ultimately show ?thesis using lock_is_exclusive [OF take _ _ prod.collapse [symmetric], of lock_others "lock_env 9"] by simp
qed

end
