(* ===== verification/Kafka_Retry.thy ===== *)
theory Kafka_Retry
  imports Events
begin

text \<open>
  The Kafka consumer (\<open>pkg/kafka/consumer.go\<close>), its retries and dead-letter queue
  (\<open>retry.go\<close>) and the producer's publish loop (\<open>producer.go\<close>). A handler is a
  computation over the tables of the service that consumes; the time an attempt runs at is
  the clock plus the waits before it. Writing a message to a topic is one answer of the
  broker; the log of what was sent has topic, key and value. Decoding the envelope is a
  parameter. Times and durations are in nanoseconds.
\<close>

section \<open>Time stamps and numbers\<close>

definition pad :: "nat \<Rightarrow> int \<Rightarrow> string" where
  "pad k i = (let s = itoa i in replicate (k - length s) CHR ''0'' @ s)"

text \<open>Year, month and day of a number of days since 1970-01-01.\<close>

definition civil :: "int \<Rightarrow> int \<times> int \<times> int" where
  "civil days =
     (let z = days + 719468; era = z div 146097; doe = z - era * 146097;
          yoe = (doe - doe div 1460 + doe div 36524 - doe div 146096) div 365;
          doy = doe - (365 * yoe + yoe div 4 - yoe div 100);
          mp = (5 * doy + 2) div 153; d = doy - (153 * mp + 2) div 5 + 1;
          m = (if mp < 10 then mp + 3 else mp - 9)
      in (yoe + era * 400 + (if m \<le> 2 then 1 else 0), m, d))"

definition rfc3339 :: "int \<Rightarrow> string" where
  "rfc3339 ns =
     (let s = ns div 1000000000; r = s mod 86400 in
      case civil (s div 86400) of (y, m, d) \<Rightarrow>
        pad 4 y @ ''-'' @ pad 2 m @ ''-'' @ pad 2 d @ ''T'' @
        pad 2 (r div 3600) @ '':'' @ pad 2 (r mod 3600 div 60) @ '':'' @ pad 2 (r mod 60) @ ''Z'')"

definition digit_value :: "char \<Rightarrow> int option" where
  "digit_value c = (let n = (of_char c :: int) in if 48 \<le> n \<and> n \<le> 57 then Some (n - 48) else None)"

fun digits_value :: "int \<Rightarrow> string \<Rightarrow> int option" where
  "digits_value acc [] = Some acc"
| "digits_value acc (c # cs) =
     (case digit_value c of None \<Rightarrow> None | Some d \<Rightarrow> digits_value (acc * 10 + d) cs)"

text \<open>\<open>strconv.Atoi\<close>: an optional sign and at least one digit, within 64 bits.\<close>

definition Atoi :: "string \<Rightarrow> int option" where
  "Atoi s =
     (let neg = (s \<noteq> [] \<and> hd s = CHR ''-'');
          ds = (if s \<noteq> [] \<and> (hd s = CHR ''-'' \<or> hd s = CHR ''+'') then tl s else s)
      in if ds = [] then None
         else case digits_value 0 ds of
           None \<Rightarrow> None
         | Some n \<Rightarrow> let v = (if neg then - n else n) in if int64 v then Some v else None)"

section \<open>Messages\<close>

type_synonym headers = "(string \<times> string) list"

record kafka_config =
  kc_max_retries :: int
  kc_retry_interval :: int
  kc_dlq_suffix :: string

definition kafka_default :: kafka_config where
  "kafka_default = \<lparr>kc_max_retries = 3, kc_retry_interval = 1000000000, kc_dlq_suffix = ''.dlq''\<rparr>"

record kafka_msg =
  km_topic :: string
  km_key :: string
  km_value :: string
  km_headers :: headers

fun HeaderValue :: "headers \<Rightarrow> string \<Rightarrow> string" where
  "HeaderValue [] key = []"
| "HeaderValue ((k, v) # hs) key = (if k = key then v else HeaderValue hs key)"

definition IntHeaderValue :: "headers \<Rightarrow> string \<Rightarrow> int \<Rightarrow> int" where
  "IntHeaderValue hs key defaultValue =
     (let val = HeaderValue hs key in
      if val = [] then defaultValue
      else case Atoi val of Some n \<Rightarrow> n | None \<Rightarrow> defaultValue)"

text \<open>The writer of the Kafka library: one call, one answer of the broker.\<close>

definition WriteMessages :: "kafka_msg \<Rightarrow> ('t, unit) db" where
  "WriteMessages m = publish (km_topic m) (km_key m) (km_value m)"

section \<open>The producer\<close>

definition publish_headers :: "'d EventEnvelope \<Rightarrow> string \<Rightarrow> headers" where
  "publish_headers env key =
     [(''event_id'', EventID env), (''idempotency_key'', EventID env), (''event_type'', EventType env),
      (''aggregate_id'', key), (''source'', Source env), (''timestamp'', rfc3339 (Timestamp env))]"

text \<open>\<open>n\<close> attempts; each failure is followed by a wait, which a cancelled context ends.\<close>

fun publish_loop :: "kafka_msg \<Rightarrow> go_error \<Rightarrow> nat \<Rightarrow> ('t, go_error option) db" where
  "publish_loop m lastErr 0 = ret (Some lastErr)"
| "publish_loop m lastErr (Suc n) =
     bind (attempt (WriteMessages m)) (\<lambda>r.
     case r of
       Inr _ \<Rightarrow> ret None
     | Inl er \<Rightarrow> bind ctx_err (\<lambda>done. if done then raise ContextCanceled else publish_loop m er n))"

definition effective_retries :: "kafka_config \<Rightarrow> nat" where
  "effective_retries cfg = nat (if kc_max_retries cfg < 1 then 1 else kc_max_retries cfg)"

definition Publish ::
  "('d EventEnvelope \<Rightarrow> go_error + string) \<Rightarrow> kafka_config \<Rightarrow> string \<Rightarrow> string \<Rightarrow> 'd EventEnvelope option \<Rightarrow>
     ('t, unit) db" where
  "Publish marshal cfg topic key envelope =
     (case envelope of
        None \<Rightarrow> raise (ErrorString ''cannot publish nil envelope'')
      | Some env \<Rightarrow>
        bind (on_error (call (marshal env)) (WrapError ''failed to marshal envelope: '')) (\<lambda>payload.
        bind (publish_loop \<lparr>km_topic = topic, km_key = key, km_value = payload,
               km_headers = publish_headers env key\<rparr> (ErrorString []) (effective_retries cfg)) (\<lambda>failed.
        case failed of
          None \<Rightarrow> ret ()
        | Some er \<Rightarrow> raise (WrapError (''failed to publish message to topic '' @ topic @ '' after '' @
            itoa (int (effective_retries cfg)) @ '' attempts: '') er))))"

section \<open>Retries and the dead-letter queue\<close>

definition failure_header :: "string \<Rightarrow> bool" where
  "failure_header k \<longleftrightarrow> k \<in> set [''x-error-message'', ''x-failure-timestamp'', ''x-attempt-count'']"

definition dlq_message ::
  "kafka_config \<Rightarrow> int \<Rightarrow> string \<Rightarrow> string \<Rightarrow> string \<Rightarrow> string \<Rightarrow> headers \<Rightarrow> kafka_msg" where
  "dlq_message cfg now originalTopic key val errText originalHeaders =
     \<lparr>km_topic = originalTopic @ kc_dlq_suffix cfg, km_key = key, km_value = val,
      km_headers =
        [(''x-original-topic'', originalTopic), (''x-error-message'', errText),
         (''x-failure-timestamp'', rfc3339 now),
         (''x-attempt-count'', itoa (IntHeaderValue originalHeaders ''x-attempt-count'' (kc_max_retries cfg) + 1))] @
        filter (\<lambda>(k, v). \<not> failure_header k) originalHeaders\<rparr>"

definition PublishToDLQ ::
  "grpc_lib \<Rightarrow> kafka_config \<Rightarrow> bool \<Rightarrow> string \<Rightarrow> string \<Rightarrow> string \<Rightarrow> go_error \<Rightarrow> headers \<Rightarrow> ('t, unit) db" where
  "PublishToDLQ L cfg producer originalTopic key val processErr originalHeaders =
     (if \<not> producer then raise (ErrorString ''producer unavailable for DLQ publishing'')
      else bind time_now (\<lambda>now.
        WriteMessages (dlq_message cfg now originalTopic key val (error_text L processErr) originalHeaders)))"

text \<open>A computation that runs after a wait.\<close>

definition later :: "int \<Rightarrow> ('t, 'a) db \<Rightarrow> ('t, 'a) db" where
  "later d m = (\<lambda>e w. m (e\<lparr>clock := clock e + d\<rparr>) w)"

datatype retry_outcome = Handled | Stopped | Exhausted go_error

text \<open>
  The retry loop with \<open>n\<close> attempts after the next one: \<open>waited\<close> is the time spent waiting
  so far, a negative wait ends at once.
\<close>

fun retry_loop :: "('t, unit) db \<Rightarrow> int \<Rightarrow> int \<Rightarrow> nat \<Rightarrow> ('t, retry_outcome) db" where
  "retry_loop handler backoff waited 0 =
     bind (attempt (later waited handler)) (\<lambda>r. ret (case r of Inr _ \<Rightarrow> Handled | Inl er \<Rightarrow> Exhausted er))"
| "retry_loop handler backoff waited (Suc n) =
     bind (attempt (later waited handler)) (\<lambda>r.
     case r of
       Inr _ \<Rightarrow> ret Handled
     | Inl er \<Rightarrow>
         bind ctx_err (\<lambda>done.
         if done then ret Stopped
         else retry_loop handler (wrap64 (backoff * 2)) (waited + max 0 backoff) n))"

definition ExecuteWithRetry ::
  "grpc_lib \<Rightarrow> kafka_config \<Rightarrow> bool \<Rightarrow> kafka_msg \<Rightarrow> ('t, unit) db \<Rightarrow> ('t, unit) db" where
  "ExecuteWithRetry L cfg producer msg handler =
     bind (retry_loop handler (kc_retry_interval cfg) 0 (effective_retries cfg - 1)) (\<lambda>outcome.
     case outcome of
       Handled \<Rightarrow> ret ()
     | Stopped \<Rightarrow> raise ContextCanceled
     | Exhausted er \<Rightarrow>
         seq (do_when producer
               (on_error (PublishToDLQ L cfg producer (km_topic msg) (km_key msg) (km_value msg) er (km_headers msg))
                 (WrapError (''handler failed ('' @ error_text L er @ '') and DLQ publish failed: ''))))
             (raise (WrapError (''message processing failed after '' @ itoa (int (effective_retries cfg)) @
                '' attempts: '') er)))"

section \<open>The consumer\<close>

definition processMessage ::
  "grpc_lib \<Rightarrow> kafka_config \<Rightarrow> bool \<Rightarrow> (string \<Rightarrow> go_error + 'd EventEnvelope) \<Rightarrow>
     ('d EventEnvelope \<Rightarrow> ('t, unit) db) \<Rightarrow> kafka_msg \<Rightarrow> ('t, unit) db" where
  "processMessage L cfg producer decode handler msg =
     (case decode (km_value msg) of
        Inl er \<Rightarrow> PublishToDLQ L cfg producer (km_topic msg) (km_key msg) (km_value msg)
          (WrapError ''invalid envelope format: '' er) (km_headers msg)
      | Inr envelope \<Rightarrow> ExecuteWithRetry L cfg producer msg (handler envelope))"

text \<open>
  The loop of \<open>Start\<close> over the messages fetched. Whatever \<open>processMessage\<close> returns, the offset
  is committed (\<open>commit\<close>, a parameter: the reader's \<open>CommitMessages\<close>) and the next message
  follows, unless the commit says that the context was cancelled.
\<close>

fun Start ::
  "grpc_lib \<Rightarrow> kafka_config \<Rightarrow> bool \<Rightarrow> (string \<Rightarrow> go_error + 'd EventEnvelope) \<Rightarrow>
     ('d EventEnvelope \<Rightarrow> ('t, unit) db) \<Rightarrow> (kafka_msg \<Rightarrow> ('t, unit) db) \<Rightarrow> kafka_msg list \<Rightarrow> ('t, unit) db" where
  "Start L cfg producer decode handler commit [] = ret ()"
| "Start L cfg producer decode handler commit (msg # msgs) =
     bind ctx_err (\<lambda>done.
     if done then raise ContextCanceled
     else
       seq (ignore_error (processMessage L cfg producer decode handler msg))
       (bind (attempt (commit msg)) (\<lambda>r.
        case r of
          Inl er \<Rightarrow>
            if errors_Is er ContextCanceled then raise ContextCanceled
            else Start L cfg producer decode handler commit msgs
        | Inr _ \<Rightarrow> Start L cfg producer decode handler commit msgs)))"

section \<open>What a transactional handler gains\<close>

text \<open>
  \<open>acted m w w'\<close>: the tables of \<open>w'\<close> are what one successful run of \<open>m\<close>, at some time, made
  of the tables of \<open>w\<close>.
\<close>

definition acted :: "('t, unit) db \<Rightarrow> 't world \<Rightarrow> 't world \<Rightarrow> bool" where
  "acted m w w' \<longleftrightarrow> (\<exists>e w1 w2. tabs w1 = tabs w \<and> m e w1 = (Inr (), w2) \<and> tabs w' = tabs w2)"

lemma ctx_err_runs: "bind ctx_err f e w = f (ctx_done e (nstmt w + nsend w)) e w"
  by (simp add: bind_def ctx_err_def)

text \<open>Publishing does not touch the tables.\<close>

lemma WriteMessages_read_only: "read_only (WriteMessages m)"
  by (auto simp: read_only_def WriteMessages_def publish_def Let_def split: broker_answer.splits)

lemma PublishToDLQ_read_only: "read_only (PublishToDLQ L cfg producer t k v er h)"
  unfolding PublishToDLQ_def by (intro read_only_intros WriteMessages_read_only)

locale tx_handler = tx_operation op inv
  for op :: "('t, unit) db" and inv
begin

lemma attempt_cases:
  assumes "later d op e w = (r, w1)"
  shows "(r = Inr () \<and> acted op w w1) \<or> (\<exists>er. r = Inl er \<and> tabs w1 = tabs w)"
proof (cases r)
  case (Inr u)
  with assms show ?thesis unfolding acted_def later_def by (metis old.unit.exhaust)
next
  case (Inl er)
  with assms show ?thesis unfolding later_def by (auto dest: atomicD [OF op_atomic])
qed

lemma retry_loop_cases:
  assumes "retry_loop op b d n e w = (r, w')"
  shows "(r = Inr Handled \<and> acted op w w') \<or>
    (\<exists>out. r = Inr out \<and> out \<noteq> Handled \<and> tabs w' = tabs w)"
  using assms
proof (induction n arbitrary: b d w)
  case 0
  obtain r1 w1 where run: "later d op e w = (r1, w1)" by fastforce
  from attempt_cases [OF run] 0 run show ?case by (auto simp: attempt_runs ret_def)
next
  case (Suc n)
  obtain r1 w1 where run: "later d op e w = (r1, w1)" by fastforce
  from attempt_cases [OF run] show ?case
  proof (elim disjE exE conjE)
    fix er assume failed: "r1 = Inl er" "tabs w1 = tabs w"
    show ?case
    proof (cases "ctx_done e (nstmt w1 + nsend w1)")
      case True
      with failed run Suc.prems show ?thesis by (auto simp: attempt_runs ctx_err_runs ret_def)
    next
      case False
      with failed run Suc.prems have "retry_loop op (wrap64 (b * 2)) (d + max 0 b) n e w1 = (r, w')"
        by (simp add: attempt_runs ctx_err_runs)
      from Suc.IH [OF this] failed(2) show ?thesis by (simp add: acted_def)
    qed
  qed (use run Suc.prems in \<open>simp add: attempt_runs ret_def\<close>)
qed

text \<open>Retrying a transactional handler: it acts exactly once, or not at all with an error.\<close>

lemma retried_once:
  assumes "ExecuteWithRetry L cfg producer msg op e w = (r, w')"
  shows "(r = Inr () \<and> acted op w w') \<or> (\<exists>er. r = Inl er \<and> tabs w' = tabs w)"
proof -
  obtain r1 w1 where loop: "retry_loop op (kc_retry_interval cfg) 0 (effective_retries cfg - 1) e w = (r1, w1)"
    by fastforce
  from retry_loop_cases [OF loop] show ?thesis
  proof (elim disjE exE conjE)
    fix out assume out: "r1 = Inr out" "out \<noteq> Handled" "tabs w1 = tabs w"
    have dlq: "tabs w2 = tabs w" if "PublishToDLQ L cfg producer t k v er h e w1 = (r2, w2)" for t k v er h r2 w2
      using read_onlyD [OF PublishToDLQ_read_only that] out(3) by simp
    from out loop assms dlq show ?thesis
      unfolding ExecuteWithRetry_def
      by (cases out) (auto simp: bind_def raise_def seq_def do_when_def on_error_def ret_def
          split: if_splits prod.splits sum.splits)
  qed (use loop assms in \<open>simp add: ExecuteWithRetry_def bind_def ret_def\<close>)
qed

end

end
