(* ===== verification/Kafka_Props.thy ===== *)
theory Kafka_Props
  imports Kafka_Retry Inventory_Props
begin

text \<open>
  Delivery of events to a service: what retries do to a transactional handler, what becomes
  of a message whose handler keeps failing.
\<close>

section \<open>A concrete message\<close>

definition sample_msg :: kafka_msg where
  "sample_msg = \<lparr>km_topic = ''orders'', km_key = ''order'', km_value = ''payload'', km_headers = []\<rparr>"

definition sample_created_event :: "OrderCreatedEvent EventEnvelope" where
  "sample_created_event = \<lparr>EventID = ''ev'', EventType = ''OrderCreated'', AggregateID = ''order'',
     EventVersion = ''1.0'', Source = ''order-service'', Timestamp = 0, OccurredAt = 0, CorrelationID = [],
     TraceID = [], EventData = \<lparr>oc_order = ''order'', oc_items = [\<lparr>op_product = ''p'', op_quantity = 4\<rparr>]\<rparr>,
     Metadata = []\<rparr>"

definition sample_failing :: "(nat, unit) db" where
  "sample_failing = raise (ErrorString ''down'')"

definition sample_idle :: "nat world" where
  "sample_idle = \<lparr>tabs = 7, aborted = False, nstmt = 0, nuuid = 0, nsend = 0, sent = []\<rparr>"

section \<open>The inventory consumer behind the retry loop\<close>

interpretation inv_events: tx_handler "HandleEvent S D ev" stock_inv for S D ev
  by unfold_locales (rule HandleEvent_atomic HandleEvent_keeps)+

text \<open>
  C37. Retries never apply an inventory event twice: under any failures of the handler's
  statements and any number of attempts, the consumer's retry loop either succeeds with the
  tables exactly one successful run of \<open>HandleEvent\<close> leaves, and the stock invariant
  kept, or returns an error with the tables as they were before the first attempt.
\<close>

theorem retried_event_acts_once:
  assumes "ExecuteWithRetry L cfg producer msg (HandleEvent S D ev) e w = (r, w')"
    and "stock_inv (tabs w)"
  shows "((r = Inr () \<and> acted (HandleEvent S D ev) w w') \<or> (\<exists>er. r = Inl er \<and> tabs w' = tabs w)) \<and>
    stock_inv (tabs w')"
proof -
  have once: "(r = Inr () \<and> acted (HandleEvent S D ev) w w') \<or> (\<exists>er. r = Inl er \<and> tabs w' = tabs w)"
    using assms(1) by (rule inv_events.retried_once)
  moreover have "stock_inv (tabs w')" if "acted (HandleEvent S D ev) w w'"
    using that assms(2) keepsD [OF HandleEvent_keeps] unfolding acted_def by metis
  ultimately show ?thesis using assms(2) by auto
qed

theorem retried_event_acts_once_witness:
  "acted (HandleEvent sample_svc sample_decoders (Some sample_created_event)) sample_stocked
     (snd (ExecuteWithRetry sample_grpc kafka_default True sample_msg
        (HandleEvent sample_svc sample_decoders (Some sample_created_event)) sample_env sample_stocked))"
proof -
  have "\<not> isl (fst (ExecuteWithRetry sample_grpc kafka_default True sample_msg
        (HandleEvent sample_svc sample_decoders (Some sample_created_event)) sample_env sample_stocked))"
    by code_simp
  then show ?thesis
    using retried_event_acts_once [OF prod.collapse [symmetric] sample_stocked_inv, of sample_grpc kafka_default True
        sample_msg sample_svc sample_decoders "Some sample_created_event" sample_env] by auto
qed

section \<open>Failing messages\<close>

lemma WriteMessages_sent: "WriteMessages m e w = (Inr (), w') \<Longrightarrow>
    (km_topic m, km_key m, km_value m) \<in> set (sent w')"
  by (auto simp: WriteMessages_def publish_def Let_def split: broker_answer.splits)

text \<open>
  A message whose handler keeps failing is parked: when the retry loop of a consumer
  with a producer returns an error, either the context was cancelled between attempts, or
  the error says that the dead-letter queue refused the message too, or the message, with
  its key and value, was acknowledged on the topic's dead-letter queue.
\<close>

theorem exhausted_message_is_parked:
  assumes "ExecuteWithRetry L cfg True msg handler e w = (Inl er, w')"
  shows "er = ContextCanceled \<or>
    (\<exists>t d. er = WrapError (''handler failed ('' @ t @ '') and DLQ publish failed: '') d) \<or>
    (km_topic msg @ kc_dlq_suffix cfg, km_key msg, km_value msg) \<in> set (sent w')"
proof -
  let ?n = "effective_retries cfg - 1"
  have never_fails: "\<exists>out w1. retry_loop handler b d n e w = (Inr out, w1)" for b d n w
    by (induction n arbitrary: b d w)
      (auto simp: attempt_runs ctx_err_runs ret_def split: prod.splits sum.splits)
  then obtain out w1 where loop: "retry_loop handler (kc_retry_interval cfg) 0 ?n e w = (Inr out, w1)" by blast
  show ?thesis
  proof (cases out)
    case (Exhausted last)
    obtain r2 w2 where dlq: "PublishToDLQ L cfg True (km_topic msg) (km_key msg) (km_value msg) last
        (km_headers msg) e w1 = (r2, w2)" by fastforce
    show ?thesis
    proof (cases r2)
      case (Inl d)
      with Exhausted loop dlq assms show ?thesis
        by (auto simp: ExecuteWithRetry_def bind_def seq_def do_when_def on_error_def)
    next
      case (Inr u)
      with dlq have "(km_topic msg @ kc_dlq_suffix cfg, km_key msg, km_value msg) \<in> set (sent w2)"
        unfolding PublishToDLQ_def by (auto simp: time_now_runs dlq_message_def dest: WriteMessages_sent)
      moreover have "w' = w2" using Inr Exhausted loop dlq assms
        by (auto simp: ExecuteWithRetry_def bind_def seq_def do_when_def on_error_def raise_def)
      ultimately show ?thesis by simp
    qed
  qed (use loop assms in \<open>auto simp: ExecuteWithRetry_def bind_def ret_def raise_def\<close>)
qed

theorem exhausted_message_is_parked_witness:
  "(''orders.dlq'', ''order'', ''payload'') \<in>
     set (sent (snd (ExecuteWithRetry sample_grpc kafka_default True sample_msg sample_failing sample_env sample_idle)))"
proof -
  have run: "ExecuteWithRetry sample_grpc kafka_default True sample_msg sample_failing sample_env sample_idle =
      (Inl (WrapError ''message processing failed after 3 attempts: '' (ErrorString ''down'')),
       snd (ExecuteWithRetry sample_grpc kafka_default True sample_msg sample_failing sample_env sample_idle))"
    by code_simp
  from exhausted_message_is_parked [OF run] show ?thesis
    by (simp add: sample_msg_def kafka_default_def ContextCanceled_def)
qed

end
