(* ===== verification/Life_Props.thy ===== *)
theory Life_Props
  imports Life_Cycles
begin

text \<open>
  What the transition tables guarantee along every sequence of accepted changes.
\<close>

lemma rtranclp_weaken: "P\<^sup>*\<^sup>* a b \<Longrightarrow> (\<And>x y. P x y \<Longrightarrow> Q x y) \<Longrightarrow> Q\<^sup>*\<^sup>* a b"
  by (rule mono_rtranclp [rule_format])

lemma relpowp_image:
  assumes "\<And>x y. P x y \<Longrightarrow> Q (f x) (f y)" shows "(P ^^ n) a b \<Longrightarrow> (Q ^^ n) (f a) (f b)"
proof (induction n arbitrary: b)
  case (Suc n)
  then show ?case using assms by auto
qed simp

text \<open>
  No refund without a successful payment: a payment that starts as \<open>INITIATED\<close> or
  \<open>PENDING\<close> and never becomes \<open>SUCCESS\<close> can, through any sequence of changes
  \<open>CanTransitionPayment\<close> accepts, only be open, failed or cancelled; no status of the
  refund process is reached.
\<close>

theorem no_refund_without_success:
  assumes "(\<lambda>x y. CanTransitionPayment x y \<and> y \<noteq> ''SUCCESS'')\<^sup>*\<^sup>* a b"
    and "a \<in> {''INITIATED'', ''PENDING''}"
  shows "b \<in> {''INITIATED'', ''PENDING'', ''FAILED'', ''CANCELLED''}"
proof (rule payment_life.stays_until)
  let ?S = "{''INITIATED'', ''PENDING'', ''FAILED'', ''CANCELLED''}"
  show "every_edge allowedPaymentTransitions (\<lambda>a b. a \<in> ?S \<longrightarrow> b \<in> ?S \<or> b \<in> {''SUCCESS''})"
    by code_simp
  show "(\<lambda>x y. (x = y \<or> allowed_in allowedPaymentTransitions x y) \<and> y \<notin> {''SUCCESS''})\<^sup>*\<^sup>* a b"
    using assms(1) by (rule rtranclp_weaken) (auto simp: CanTransitionPayment_def split: if_splits)
qed (use assms(2) in auto)

theorem no_refund_without_success_witness:
  "(''CANCELLED'' :: string) \<in> {''INITIATED'', ''PENDING'', ''FAILED'', ''CANCELLED''}"
proof (rule no_refund_without_success)
  have "CanTransitionPayment ''PENDING'' ''CANCELLED''" by code_simp
  then show "(\<lambda>x y. CanTransitionPayment x y \<and> y \<noteq> ''SUCCESS'')\<^sup>*\<^sup>* ''PENDING'' ''CANCELLED''"
    by (intro r_into_rtranclp) simp
qed simp

text \<open>
  The administrative actions on a merchant agree with the transition table: whenever
  \<open>ValidateLifecycleTransition\<close> accepts an action and returns a target, the validator
  accepts the change from the (normalised) current status to it; and a merchant that was
  rejected or terminated is not moved by any sequence of validated changes.
\<close>

theorem merchant_actions_follow_the_table:
  "(\<forall>target. ValidateLifecycleTransition act cur = Inr target \<longrightarrow>
      Validate_merchant (normalize_status cur) target = None) \<and>
   (\<forall>a b. a \<in> {''REJECTED'', ''TERMINATED''} \<longrightarrow>
      (\<lambda>x y. Validate_merchant x y = None)\<^sup>*\<^sup>* a b \<longrightarrow> b = a)"
proof (intro conjI allI impI)
  fix target
  assume ok: "ValidateLifecycleTransition act cur = Inr target"
  have "normalize_status cur \<in> set [''PENDING'', ''PENDING_REVIEW'', ''INACTIVE'', ''APPROVED''] \<and> target = ''ACTIVE'' \<or>
      normalize_status cur \<in> set [''ACTIVE'', ''APPROVED''] \<and> target = ''SUSPENDED'' \<or>
      normalize_status cur = ''SUSPENDED'' \<and> target = ''ACTIVE''"
    using ok unfolding ValidateLifecycleTransition_def lifecycle_conflict_def Let_def
    by (auto split: if_splits)
  moreover have "list_all (\<lambda>s. Validate_merchant s ''ACTIVE'' = None)
      [''PENDING'', ''PENDING_REVIEW'', ''INACTIVE'', ''APPROVED'', ''SUSPENDED''] \<and>
    list_all (\<lambda>s. Validate_merchant s ''SUSPENDED'' = None) [''ACTIVE'', ''APPROVED'']" by code_simp
  ultimately show "Validate_merchant (normalize_status cur) target = None"
    unfolding list_all_iff by auto
next
  fix a b
  assume a: "a \<in> {''REJECTED'', ''TERMINATED''}" and path: "(\<lambda>x y. Validate_merchant x y = None)\<^sup>*\<^sup>* a b"
  have "targets_of merchant_transitions ''REJECTED'' = [] \<and> targets_of merchant_transitions ''TERMINATED'' = []"
    by code_simp
  with a have "targets_of merchant_transitions a = []" by auto
  with path show "b = a" using merchant_life.terminal_stuck by (simp add: Validate_merchant_iff)
qed

theorem merchant_actions_follow_the_table_witness:
  "Validate_merchant (normalize_status '' approved'') ''SUSPENDED'' = None"
proof -
  have "ValidateLifecycleTransition ''SUSPEND'' '' approved'' = Inr ''SUSPENDED''" by code_simp
  then show ?thesis using merchant_actions_follow_the_table by blast
qed

text \<open>
  A draft is reviewed before it can be bought: along any sequence of changes the product
  validator accepts, a product that starts as \<open>DRAFT\<close> and never is \<open>PENDING_REVIEW\<close>
  stays a draft or is deleted, so it is never published; and a deleted product stays
  deleted.
\<close>

theorem drafts_are_reviewed:
  "((\<lambda>x y. Validate_product x y = None \<and> y \<noteq> ''PENDING_REVIEW'')\<^sup>*\<^sup>* ''DRAFT'' b \<longrightarrow>
      b \<in> {''DRAFT'', ''DELETED''}) \<and>
   ((\<lambda>x y. Validate_product x y = None)\<^sup>*\<^sup>* ''DELETED'' b \<longrightarrow> b = ''DELETED'')"
proof (intro conjI impI)
  let ?S = "{''DRAFT'', ''DELETED''}"
  assume path: "(\<lambda>x y. Validate_product x y = None \<and> y \<noteq> ''PENDING_REVIEW'')\<^sup>*\<^sup>* ''DRAFT'' b"
  have edges: "every_edge product_transitions (\<lambda>a b. a \<in> ?S \<longrightarrow> b \<in> ?S \<or> b \<in> {''PENDING_REVIEW''})"
    by code_simp
  have "(\<lambda>x y. (x = y \<or> allowed_in product_transitions x y) \<and> y \<notin> {''PENDING_REVIEW''})\<^sup>*\<^sup>* ''DRAFT'' b"
    using path by (rule rtranclp_weaken) (simp add: Validate_product_iff)
  from product_life.stays_until [OF edges this insertI1] show "b \<in> ?S" .
next
  assume path: "(\<lambda>x y. Validate_product x y = None)\<^sup>*\<^sup>* ''DELETED'' b"
  have "targets_of product_transitions ''DELETED'' = []" by code_simp
  then have "\<not> allowed_in product_transitions ''DELETED'' c" for c by (simp add: allowed_in_targets)
  with path show "b = ''DELETED''"
    by (induction rule: rtranclp_induct) (auto simp: Validate_product_iff)
qed

theorem drafts_are_reviewed_witness:
  "(''DELETED'' :: string) \<in> {''DRAFT'', ''DELETED''}"
proof -
  have "Validate_product ''DRAFT'' ''DELETED'' = None" by code_simp
  then have "(\<lambda>x y. Validate_product x y = None \<and> y \<noteq> ''PENDING_REVIEW'')\<^sup>*\<^sup>* ''DRAFT'' ''DELETED''"
    by (intro r_into_rtranclp) simp
  then show ?thesis using drafts_are_reviewed by blast
qed

text \<open>
  C39. A delivery only moves forward: no sequence of accepted changes of its (normalised)
  status is longer than four, none returns to a status, and once it is delivered, failed or
  cancelled every change to another status is refused.
\<close>

theorem delivery_moves_forward:
  assumes "((\<lambda>x y. TransitionStatus x y = None \<and> normalize_status x \<noteq> normalize_status y) ^^ n) a b"
  shows "n \<le> 4 \<and> (normalize_status a = normalize_status b \<longrightarrow> n = 0) \<and>
    (normalize_status a \<in> {''DELIVERED'', ''FAILED'', ''CANCELLED''} \<longrightarrow> n = 0)"
proof -
  have steps: "(allowed_in AllowedTransitions ^^ n) (normalize_status a) (normalize_status b)"
    using assms by (rule relpowp_image [rotated]) (auto simp: TransitionStatus_iff)
  have "n = 0" if a: "normalize_status a \<in> {''DELIVERED'', ''FAILED'', ''CANCELLED''}"
  proof -
    have "list_all (\<lambda>s. delivery_rank s = 4) [''DELIVERED'', ''FAILED'', ''CANCELLED'']" by code_simp
    with a have "delivery_rank (normalize_status a) = 4" by auto
    moreover have "delivery_rank (normalize_status a) + n \<le> delivery_rank (normalize_status b)"
      using steps by (rule delivery_life.steps_rank)
    moreover have "delivery_rank (normalize_status b) \<le> 4"
      by (auto simp: delivery_rank_def)
    ultimately show ?thesis by simp
  qed
  with steps show ?thesis using delivery_life.steps_bounded delivery_life.no_return by metis
qed

theorem delivery_moves_forward_witness:
  "(1::nat) \<le> 4 \<and> TransitionStatus ''created'' '' picked_up '' = None"
proof -
  have ok: "TransitionStatus ''created'' '' picked_up '' = None \<and>
    normalize_status ''created'' \<noteq> normalize_status '' picked_up ''" by code_simp
  then have "((\<lambda>x y. TransitionStatus x y = None \<and> normalize_status x \<noteq> normalize_status y) ^^ 1)
      ''created'' '' picked_up ''" unfolding relpowp_1 .
  from delivery_moves_forward [OF this] ok show ?thesis by simp
qed

text \<open>
  Nothing is refunded or replaced unseen: a return that starts as a request and, along
  any accepted changes, is never marked as received or verified, does not reach a refund, a
  replacement, an exchange or its completion; and an exchange that is never verified is
  never completed.
\<close>

theorem returns_are_inspected:
  assumes "a \<in> {''RETURN_REQUESTED'', ''REQUESTED'', ''REPLACEMENT_REQUESTED'', ''EXCHANGE_REQUESTED''}"
    and "(\<lambda>x y. CanTransitionTo_return x y \<and> y \<notin> {''RECEIVED'', ''ITEM_RECEIVED'', ''VERIFIED''})\<^sup>*\<^sup>* a b"
    and "(\<lambda>x y. CanTransitionTo_exchange x y \<and> y \<noteq> ''VERIFIED'')\<^sup>*\<^sup>* ''OFFER_CREATED'' c"
  shows "b \<notin> {''REFUND_INITIATED'', ''REPLACEMENT_INITIATED'', ''EXCHANGE_INITIATED'', ''COMPLETED''} \<and>
    c \<noteq> ''COMPLETED''"
proof
  let ?S = "{''RETURN_REQUESTED'', ''REQUESTED'', ''REPLACEMENT_REQUESTED'', ''EXCHANGE_REQUESTED'',
    ''UNDER_REVIEW'', ''APPROVED'', ''REJECTED'', ''PICKUP_SCHEDULED'', ''PICKED_UP'', ''CANCELLED''}"
  have edges: "every_edge AllowedStatusTransitions
      (\<lambda>a b. a \<in> ?S \<longrightarrow> b \<in> ?S \<or> b \<in> {''RECEIVED'', ''ITEM_RECEIVED'', ''VERIFIED''})" by code_simp
  have "a \<in> ?S" using assms(1) by (elim insertE emptyE) (simp_all only: insert_iff simp_thms)
  from return_life.stays_until [OF edges assms(2) [unfolded CanTransitionTo_return_def] this]
  have "b \<in> ?S" .
  moreover have "?S \<inter> {''REFUND_INITIATED'', ''REPLACEMENT_INITIATED'', ''EXCHANGE_INITIATED'', ''COMPLETED''} = {}"
    by code_simp
  ultimately show "b \<notin> {''REFUND_INITIATED'', ''REPLACEMENT_INITIATED'', ''EXCHANGE_INITIATED'', ''COMPLETED''}"
    by blast
next
  let ?E = "{''OFFER_CREATED'', ''APPLIED_AT_CHECKOUT'', ''EXCHANGE_REQUESTED'', ''PICKUP_SCHEDULED'',
    ''PICKED_UP'', ''REVALUATED'', ''CANCELLED''}"
  have edges: "every_edge AllowedExchangeTransitions (\<lambda>a b. a \<in> ?E \<longrightarrow> b \<in> ?E \<or> b \<in> {''VERIFIED''})" by code_simp
  have "(\<lambda>x y. (x = y \<or> allowed_in AllowedExchangeTransitions x y) \<and> y \<notin> {''VERIFIED''})\<^sup>*\<^sup>* ''OFFER_CREATED'' c"
    using assms(3) by (rule rtranclp_weaken) (simp add: CanTransitionTo_exchange_def)
  from exchange_life.stays_until [OF edges this insertI1] have "c \<in> ?E" .
  moreover have "''COMPLETED'' \<notin> ?E" by code_simp
  ultimately show "c \<noteq> ''COMPLETED''" by metis
qed

theorem returns_are_inspected_witness:
  "(''APPROVED'' :: string) \<notin> {''REFUND_INITIATED'', ''REPLACEMENT_INITIATED'', ''EXCHANGE_INITIATED'', ''COMPLETED''} \<and>
   (''OFFER_CREATED'' :: string) \<noteq> ''COMPLETED''"
proof (rule returns_are_inspected)
  have "CanTransitionTo_return ''RETURN_REQUESTED'' ''APPROVED''" by code_simp
  then show "(\<lambda>x y. CanTransitionTo_return x y \<and> y \<notin> {''RECEIVED'', ''ITEM_RECEIVED'', ''VERIFIED''})\<^sup>*\<^sup>*
      ''RETURN_REQUESTED'' ''APPROVED''" by (intro r_into_rtranclp) simp
qed simp_all

end
