(* ===== verification/App_Error_Props.thy ===== *)
theory App_Error_Props
  imports App_Errors
begin

text \<open>
  Errors across a gRPC call: a handler returns an error, the server turns it into a status
  (\<open>MapAppErrorToGRPC\<close>), the client turns the status back (\<open>AsAppError\<close>) and the gateway
  renders it (\<open>ToResponse\<close>). The property of the gRPC library used is that
  \<open>status.FromError\<close> returns what \<open>status.Error\<close> was given.
\<close>

definition sample_lib :: grpc_lib where
  "sample_lib = \<lparr>from_error = (\<lambda>e. case e of StatusError c m \<Rightarrow> Some (c, m) | _ \<Rightarrow> None),
     status_text = (\<lambda>c m. m)\<rparr>"

lemma or_default_idem [simp]: "d \<noteq> [] \<Longrightarrow> or_default (or_default m d) d' = or_default m d"
  by (simp add: or_default_def)

lemma app_to_grpc:
  "is_AppError a \<Longrightarrow> MapAppErrorToGRPC L (Some a) = Some (StatusError (grpc_of_code (err_code a)) (err_message a))"
  by (simp add: MapAppErrorToGRPC_def AsAppError_def)

lemma status_to_app:
  assumes "from_error L (StatusError g m) = Some (g, m)"
  shows "AsAppError L (Some (StatusError g m)) = Some (of_status L (StatusError g m) g m)"
  using assms by (simp add: AsAppError_def)

text \<open>
  C40. How an error a service returns on purpose arrives behind the gRPC call. Bad request,
  forbidden, not found, conflict, too many requests and service unavailable come back as they
  were: same code, message and HTTP status. An unprocessable entity comes back as a bad request
  with its message. Unauthorized and invalid credentials keep the message and the status 401,
  but share a gRPC code: which of the two comes back is decided by the message, so that an
  unauthorized error whose message speaks of a password comes back as invalid credentials, and
  invalid credentials with another message as unauthorized.
\<close>

theorem client_errors_survive_grpc:
  assumes "\<And>g m. from_error L (StatusError g m) = Some (g, m)"
  shows "(\<forall>f \<in> {BadRequest, Forbidden, NotFound, Conflict, TooManyRequests, ServiceUnavailable}.
      AsAppError L (MapAppErrorToGRPC L (Some (f m))) = Some (f m)) \<and>
    AsAppError L (MapAppErrorToGRPC L (Some (UnprocessableEntity m))) =
      Some (BadRequest (or_default m ''Unprocessable entity'')) \<and>
    (\<forall>f \<in> {Unauthorized, InvalidCredentials}.
      AsAppError L (MapAppErrorToGRPC L (Some (f m))) =
        Some ((if Contains (ToLower (err_message (f m))) ''credential'' \<or>
                  Contains (err_message (f m)) ''INVALID_CREDENTIALS'' \<or>
                  Contains (ToLower (err_message (f m))) ''password''
               then InvalidCredentials else Unauthorized) (err_message (f m))))"
proof -
  have codes: "grpc_of_code CodeBadRequest = GInvalidArgument \<and> grpc_of_code CodeForbidden = GPermissionDenied \<and>
    grpc_of_code CodeNotFound = GNotFound \<and> grpc_of_code CodeConflict = GAlreadyExists \<and>
    grpc_of_code CodeTooManyRequests = GResourceExhausted \<and>
    grpc_of_code CodeServiceUnavailable = GUnavailable \<and>
    grpc_of_code CodeUnprocessableEntity = GInvalidArgument \<and>
    grpc_of_code CodeUnauthorized = GUnauthenticated \<and> grpc_of_code CodeInvalidCredentials = GUnauthenticated"
    by code_simp
  have arrives: "AsAppError L (MapAppErrorToGRPC L (Some a)) =
      Some (of_status L (StatusError (grpc_of_code (err_code a)) (err_message a)) (grpc_of_code (err_code a)) (err_message a))"
    if "is_AppError a" for a
    using that by (simp add: app_to_grpc status_to_app [OF assms])
  have "of_status L (StatusError GUnauthenticated t) GUnauthenticated t =
      (if Contains (ToLower t) ''credential'' \<or> Contains t ''INVALID_CREDENTIALS'' \<or> Contains (ToLower t) ''password''
       then InvalidCredentials else Unauthorized) t" for t
    unfolding of_status_def grpc_code.case by (rule if_distribR [symmetric])
  with codes arrives have auth: "\<forall>f \<in> {Unauthorized, InvalidCredentials}.
      AsAppError L (MapAppErrorToGRPC L (Some (f m))) =
        Some ((if Contains (ToLower (err_message (f m))) ''credential'' \<or>
                  Contains (err_message (f m)) ''INVALID_CREDENTIALS'' \<or>
                  Contains (ToLower (err_message (f m))) ''password''
               then InvalidCredentials else Unauthorized) (err_message (f m)))"
    by simp
  show ?thesis
    using codes auth by (auto simp: arrives of_status_def ctor_defs)
qed

theorem client_errors_survive_grpc_witness:
  "AsAppError sample_lib (MapAppErrorToGRPC sample_lib (Some (Conflict ''sold out''))) = Some (Conflict ''sold out'') \<and>
   AsAppError sample_lib (MapAppErrorToGRPC sample_lib (Some (Unauthorized ''wrong password''))) =
     Some (InvalidCredentials ''wrong password'') \<and>
   AsAppError sample_lib (MapAppErrorToGRPC sample_lib (Some (InvalidCredentials ''no''))) = Some (Unauthorized ''no'')"
proof -
  have L: "from_error sample_lib (StatusError g m) = Some (g, m)" for g m by (simp add: sample_lib_def)
  have texts: "Contains (ToLower ''wrong password'') ''password''" "\<not> Contains (ToLower ''no'') ''credential''"
    "\<not> Contains ''no'' ''INVALID_CREDENTIALS''" "\<not> Contains (ToLower ''no'') ''password''"
    by code_simp+
  show ?thesis
    using client_errors_survive_grpc [OF L, of "''sold out''"] client_errors_survive_grpc [OF L, of "''wrong password''"]
      client_errors_survive_grpc [OF L, of "''no''"] texts
    by (simp add: ctor_defs or_default_def)
qed

text \<open>
  Internal failures are not shown to clients: an error that no service classified (a
  database error, a wrapped string), whatever its text, is answered after the gRPC call with
  the internal error code, HTTP status 500 and the fixed message.
\<close>

theorem internal_failures_are_hidden:
  assumes "\<And>g m. from_error L (StatusError g m) = Some (g, m)"
    and "as_app err = None" and "as_provider err = None" and "from_error L err = None"
  shows "\<exists>a. AsAppError L (MapAppErrorToGRPC L (Some err)) = Some a \<and> http_status a = 500 \<and>
    ToResponse a = \<lparr>detail_code = CodeInternalError, detail_message = ''An internal server error occurred''\<rparr>"
proof -
  let ?a = "Internal (Some err) (error_text L err)"
  have "AsAppError L (Some err) = Some ?a" using assms(2-4) by (simp add: AsAppError_def)
  moreover have "grpc_of_code CodeInternalError = GInternal" by code_simp
  ultimately have "MapAppErrorToGRPC L (Some err) = Some (StatusError GInternal (err_message ?a))"
    using assms(4) by (simp add: MapAppErrorToGRPC_def)
  then show ?thesis
    by (simp add: status_to_app [OF assms(1)] of_status_def ToResponse_def ClientMessage_def Internal_def Wrap_def)
qed

theorem internal_failures_are_hidden_witness:
  "\<exists>a. AsAppError sample_lib (MapAppErrorToGRPC sample_lib (Some (WrapError ''query: '' (PgError ''23505'' ''users_email_key'')))) =
      Some a \<and> http_status a = 500"
  using internal_failures_are_hidden [of sample_lib "WrapError ''query: '' (PgError ''23505'' ''users_email_key'')"]
  by (auto simp: sample_lib_def)

end
