(* ===== verification/Spec2Isabelle.thy ===== *)
theory Spec2Isabelle
  imports Inventory_Props Outbox_Props Order_Props Checkout_Props Payment_Props Cart_Props Delivery_Props Return_Props Redis_Props Kafka_Props Life_Props App_Error_Props
begin

text \<open>
  GoCart is an e-commerce back end of fourteen Go services. Each service owns a PostgreSQL
  database; a change of state and the event that announces it are written in one
  transaction (the transactional outbox), a publisher forwards the events to Kafka, and
  the consumers of the other services act on them. This development models the path of an
  order through the system: the cart, checkout, reservation of stock, payment, confirmation,
  cancellation, delivery, return and exchange, and the machinery that carries the events
  between the services.

  \<^bold>\<open>The layers.\<close>

  \<^item> \<open>Go_Prelude\<close>: the string functions of Go's standard library the services use, and
    generic lemmas on lists, sums and options.

  \<^item> \<open>App_Errors\<close> (\<open>pkg/errors/errors.go\<close>): the application error, its constructors and
    its translation to and from gRPC status values. The package
    \<open>google.golang.org/grpc/status\<close> is the parameter \<open>grpc_lib\<close>.

  \<^item> \<open>Db_Tx\<close> (\<open>pkg/database/postgres.go\<close> and the behaviour of PostgreSQL the
    repositories rely on): computations over the tables of one database in an environment
    that may fail any statement, begin or commit. Every theorem about an operation is about
    every environment. Its locales \<open>stable_operation\<close> and \<open>tx_operation\<close> are the contract
    of a request: it leaves the invariant of the tables in place, and as one transaction it
    changes nothing when it fails. Their lemmas lift both facts to every sequence of
    requests; the repositories and services below interpret them. Requests that are more
    than one transaction are described by \<open>outcomes\<close>: what holds after a success and what
    after an error.

  \<^item> \<open>Go_Float\<close>: \<open>float64\<close> as rationals with rounding to nearest even, and bounds for the
    error of a sum, difference, product or quotient; \<open>Go_Amounts\<close>: amounts of whole cents,
    and sums and products of them that are rounded to the cent.

  \<^item> \<open>Events\<close> (\<open>contracts/events\<close>): the envelope and the rows of \<open>outbox_events\<close>.

  \<^item> \<open>Outbox\<close>, \<open>Outbox_Insert\<close>, \<open>Outbox_Delivery\<close>, \<open>Outbox_Props\<close> (\<open>pkg/outbox\<close>): the statements of the
    store with the fallback for tables without the newer columns, and the publisher cycle.
    An event is marked published only after the broker has acknowledged it, no event is
    lost, retries are counted, delayed and bounded, batches take the oldest due rows.

  \<^item> \<open>Kafka_Retry\<close>, \<open>Kafka_Props\<close> (\<open>pkg/kafka\<close>): the producer, the consumer loop, the
    retries with backoff and the dead-letter queue; the commit of offsets is a parameter of the
    consumer loop. The locale \<open>tx_handler\<close> shows once for
    every transactional handler that a retried event acts at most once.

  \<^item> \<open>Redis_Client\<close>, \<open>Redis_Props\<close> (\<open>pkg/redis/redis.go\<close>): the commands of the client over
    a server that is a map from keys to values with an expiry, the counter with a window and
    the lock; a lock is released by its holder only. \<open>Grouping\<close>: grouping a list by a key.

  \<^bold>\<open>The services.\<close>

  \<^item> \<open>Inventory_Repo\<close> (\<open>inventory-service/internal/repository/inventory_repository.go\<close>),
    \<open>Inventory_Stock\<close> (its invariant), \<open>Inventory_Service\<close> (\<open>internal/service\<close>,
    \<open>internal/client\<close>, \<open>internal/consumer\<close>), \<open>Inventory_Ledger\<close> (the abstract ledger of
    levels and holds, and the refinement of its operations) and \<open>Inventory_Props\<close>: stock is
    never oversold in any reachable state, and reserving, releasing and committing are moves
    of the ledger.

  \<^item> \<open>Status_Machine\<close>: transition tables as locales (\<open>status_machine\<close>, and
    \<open>forward_machine\<close> where a rank grows along every edge), interpreted on the tables of
    the services in \<open>Order_Model\<close> and \<open>Life_Cycles\<close> (payments, merchants, products,
    deliveries, returns, exchanges); their properties are in \<open>Life_Props\<close>.

  \<^item> \<open>Order_Model\<close>, \<open>Order_Repo\<close>, \<open>Order_Service\<close> (\<open>order-service/internal\<close>: \<open>model\<close>,
    \<open>repository\<close>, \<open>service\<close>, \<open>consumer\<close>), \<open>Order_Trace\<close> (the invariant) and \<open>Order_Props\<close>:
    in every reachable state the history of an order is a path through its life cycle that
    ends in its status, and each announced change has its outbox event.

  \<^item> \<open>Order_Checkout\<close>, \<open>Checkout_Props\<close> (\<open>CreateOrder\<close> of the order service): the items of the
    request or the cart, stock and price of each from the clients, one order per store with
    amounts in float64. A checkout takes every line exactly once at the price of the product service,
    its amounts are exact to the cent, and a repeated key changes nothing and is answered with
    the orders recorded under it. The clients of carts, products and stock, the
    order in which Go iterates over the map of stores, and random numbers are parameters.

  \<^item> \<open>Call_Context\<close> (\<open>pkg/grpcclient/interceptors.go\<close>, \<open>pkg/auth/jwt.go\<close>): the user of a gRPC
    call, as the handlers of carts and returns read it.

  \<^item> \<open>Cart_Repo\<close>, \<open>Cart_Service\<close>, \<open>Cart_Handler\<close> (\<open>cart-service/internal\<close>: \<open>model\<close> and
    \<open>repository\<close>, \<open>service\<close> and \<open>dto\<close>, \<open>handler\<close>): the tables of carts and the cache in
    Redis as one state, the requests of the service and who may make them. \<open>Cart_Trace\<close> has
    the invariant of the tables and what a request leaves alone, \<open>Cart_Spec\<close> the abstract
    cart, a map from product and variant to a quantity, which the requests refine,
    \<open>Cart_Cache\<close> the relation of cache and tables, \<open>Cart_Codec\<close> an encoding of carts that
    shows that the hypothesis on JSON can hold, \<open>Cart_Props\<close> the properties: tables are well
    formed, users do not reach the carts of others, the cache is current while nothing fails,
    and a prepared checkout covers the cart.

  \<^item> \<open>Payment_Model\<close>, \<open>Payment_Repo\<close>, \<open>Payment_Gateway\<close>, \<open>Payment_Service\<close>,
    \<open>Payment_Events\<close>, \<open>Payment_Handler\<close> (\<open>payment-service/internal\<close>: \<open>model\<close>, \<open>repository\<close>,
    \<open>gateway\<close>, \<open>service\<close> and \<open>client\<close>, \<open>consumer\<close> and the webhook handler, the HTTP endpoints). The provider is the locale
    \<open>payment_gateway\<close>, interpreted on the mock, on Razorpay and on what the configuration
    selects; the calls made to it are a log beside the tables, those of the endpoint \<open>CreateOrder\<close> (which
    charges what the client asks for) marked as such. \<open>Payment_Trace\<close> has the
    invariant of tables and log and that every request keeps it, \<open>Payment_Refunds\<close> what
    refunds and repeated deliveries do, \<open>Payment_Props\<close> the properties: \<open>ProcessPayment\<close> and
    \<open>CreateRefund\<close> use no key twice, charges are of the authoritative amount, refunds stay within what the tables
    leave of the payment,
    statuses follow the table and are announced, and the float comparisons are exact on cents.

  \<^item> \<open>Delivery_Model\<close>, \<open>Delivery_Repo\<close>, \<open>Partner_Repo\<close>, \<open>Partner_Service\<close>,
    \<open>Delivery_Service\<close>, \<open>Delivery_Server\<close> (\<open>delivery-service/internal\<close>: \<open>model\<close> and the time in
    transit; the repository, its half for deliveries and its half for partners and warehouses;
    \<open>service\<close> with \<open>client/gstin\<close> for the partners, with \<open>client\<close>, \<open>dto\<close> and \<open>consumer\<close> for the
    deliveries; \<open>grpc\<close>). \<open>Delivery_Trace\<close> has the invariant in two halves, deliveries with their
    history and events, and partner profiles, and that every request, event and tick keeps
    it; \<open>Delivery_Props\<close> the properties: deliveries move along the table and are announced, an
    order is shipped at most once and by a partner that is ready, and what goes wrong: the
    events of the order service are refused.

  \<^item> \<open>Return_Model\<close>, \<open>Return_Repo\<close>, \<open>Exchange_Repo\<close>, \<open>Return_Service\<close>, \<open>Return_Review\<close>,
    \<open>Exchange_Service\<close>, \<open>Return_Server\<close> (\<open>return-service/internal\<close>: \<open>model\<close> and the tables; the
    repository, its half for returns and its half for exchanges, devices and quotes; \<open>service\<close>
    with \<open>events\<close>, \<open>client\<close> and \<open>dto\<close> for requests and refunds, for reviews and verifications, and
    for exchanges; the gRPC \<open>handler\<close>). The calls made to the payment service are a log beside
    the tables. \<open>Return_Trace\<close> has the invariant of returns and refunds, \<open>Exchange_Trace\<close> that of
    exchanges and quotes and that every request keeps both, \<open>Return_Props\<close> the properties:
    returns follow the table, money moves only for returns that are due a refund and a return is
    completed only after it, a quote is used once, by its owner and in time, a valuation is exact;
    and that a declined exchange is announced as completed.

  \<^bold>\<open>How code becomes definitions.\<close> A Go method over a repository is a function to a
  computation of \<open>Db_Tx\<close>, statement for statement: the order of the statements, the early
  returns and the wrapped errors are those of the code, the constraints those of the
  migrations. Structs are records, Go errors the datatype \<open>go_error\<close>, status values strings
  as in the code. A reachable state is one a list of requests, each in its own environment,
  leads to from the empty tables; invariants are proved by induction on that list.

  \<^bold>\<open>Bounds.\<close> No definition needs fuel: the loops of the code run over lists, over the
  attempts of a retry or over the rows of a batch. Quantities are mathematical integers with
  the range of \<open>INT\<close> checked where PostgreSQL checks it; durations are nanoseconds with the
  64-bit wrap-around written out in the backoffs and in the expiry of reservations.

  \<^bold>\<open>Assumptions of the model.\<close>
  A transaction is one step: row locks make two transactions on the same rows equal to one
  after the other. A commit that reports an error has not committed. The clock stands still
  within a request. Strings are bytes with the ASCII case mappings, and UUID strings are
  taken in their canonical form, so equality of identifiers is equality of strings. A value
  too long for its column is one of the failures any statement may have. Decoding of JSON,
  the gRPC library, remote services and random bytes are parameters; that every string
  PostgreSQL accepts and stores as a UUID is one \<open>uuid.Parse\<close> accepts is a hypothesis of
  the properties that need it. Requests to the payment service, whose steps between two
  transactions are not locked, are served one at a time. The compiler does not fuse a product
  and a sum into one operation with a single rounding (it does not on amd64). A query without an order returns
  the row inserted first, and rows created at the same time are returned in the order of their
  insertion. A Redis command that reports an error has changed nothing; that decoding a cart
  undoes its encoding is a hypothesis of the property about the cache. Between reading and
  saving the profile of a delivery partner no other request changes it; the names of warehouses
  are ordered by their bytes.

  \<^bold>\<open>Not modelled.\<close>
  The repositories and services of stores, merchants, products, categories, ratings,
  users, authentication and notifications beyond the life cycles above, the GraphQL gateway,
  gRPC handlers that only copy fields, generated code, configuration, logging, metrics and
  tracing.
\<close>

end
